(* ===== verification/Prelude.thy ===== *)
theory Prelude
  imports Main "HOL-Library.List_Lexorder" "HOL-Library.Char_ord"
begin

text \<open>
  Shared vocabulary of the development: the names of the model's basic types, the theorem
  collections the components extend, and the generic lemmas on lists, options and
  half-open periods that more than one component uses.

  A TypeScript string is a \<open>string\<close> (a list of characters) with the lexicographic order that
  JavaScript's \<open><\<close> has on strings; an optional property (\<open>x?: T\<close>) is a
  \<open>T option\<close>, \<open>undefined\<close> being \<open>None\<close>; a \<open>for\<close> loop that returns at the first
  element satisfying a test is \<open>List.find\<close>.
\<close>

type_synonym UUID = string
type_synonym Timestamp = string

named_theorems authz_defs \<open>definitions of the authorization rungs\<close>
named_theorems action_sets \<open>the closed action sets, as lists\<close>

section \<open>Lists and searches\<close>

lemma find_filter_implied:
  assumes "\<And>x. P x \<Longrightarrow> Q x"
  shows "List.find P (filter Q xs) = List.find P xs"
  using assms by (induction xs) auto

lemma find_SomeD:
  "List.find P xs = Some x \<Longrightarrow> x \<in> set xs \<and> P x"
  by (induction xs) (auto split: if_splits)

lemma find_SomeI_ex:
  "\<exists>x \<in> set xs. P x \<Longrightarrow> \<exists>y. List.find P xs = Some y"
  by (induction xs) auto

lemma find_ex: "(\<exists>x \<in> set xs. P x) \<longleftrightarrow> List.find P xs \<noteq> None"
  by (auto simp: find_None_iff)

lemma find_append_None:
  "List.find P (xs @ ys) = None \<longleftrightarrow> List.find P xs = None \<and> List.find P ys = None"
  by (induction xs) auto

lemma find_isSome_append:
  "List.find P xs = Some x \<Longrightarrow> List.find P (xs @ ys) = Some x"
  by (induction xs) (auto split: if_splits)

lemma find_cong_pred:
  "(\<And>x. x \<in> set xs \<Longrightarrow> P x = Q x) \<Longrightarrow> List.find P xs = List.find Q xs"
  by (induction xs) auto

lemma find_append_miss: "List.find P xs = None \<Longrightarrow> List.find P (xs @ ys) = List.find P ys"
  by (induction xs) (auto split: if_splits)

lemma find_None_filter: "List.find P xs = None \<longleftrightarrow> filter P xs = []"
  by (induction xs) auto

lemma find_map: "List.find P (map f xs) = map_option f (List.find (P \<circ> f) xs)"
  by (induction xs) auto

text \<open>A rewrite of the elements that a test does not see commutes with filtering by it.\<close>

lemma map_filter_keep:
  assumes "\<And>x. P (f x) = P x"
  shows "filter P (map f xs) = map f (filter P xs)"
  using assms by (induction xs) auto

text \<open>A chain of fallible steps that succeeded: each of them did.\<close>

lemma bind_SomeE:
  assumes "Option.bind x f = Some y"
  obtains v where "x = Some v" and "f v = Some y"
  using assms by (cases x) auto

section \<open>Half-open periods on timestamps\<close>

text \<open>
  \<open>isWithinPeriod\<close> of \<open>decide.ts\<close>: the one convention every effective-dated fact of
  the program shares, \<open>[from, to)\<close>, an absent end being unbounded. The timestamps are
  ISO-8601 strings and the code compares them as strings.
\<close>

definition isWithinPeriod :: "Timestamp \<Rightarrow> Timestamp \<Rightarrow> Timestamp option \<Rightarrow> bool" where
  "isWithinPeriod now pstart pend \<longleftrightarrow>
     pstart \<le> now \<and> (case pend of None \<Rightarrow> True | Some t \<Rightarrow> now < t)"

lemma isWithinPeriod_expired [simp]:
  "t \<le> now \<Longrightarrow> \<not> isWithinPeriod now f (Some t)"
  by (auto simp: isWithinPeriod_def)

lemma isWithinPeriod_not_started [simp]:
  "now < f \<Longrightarrow> \<not> isWithinPeriod now f t"
  by (auto simp: isWithinPeriod_def)

lemma isWithinPeriod_open_ended [simp]:
  "isWithinPeriod now f None \<longleftrightarrow> f \<le> now"
  by (simp add: isWithinPeriod_def)

section \<open>JavaScript strings and sets\<close>

text \<open>
  JavaScript's \<open>trim\<close> on the character range of the model: blank, tab, line feed, vertical tab,
  form feed, carriage return and the no-break space (code 160).
\<close>

definition isSpace :: "char \<Rightarrow> bool" where
  "isSpace c \<longleftrightarrow> (of_char c :: nat) \<in> {9, 10, 11, 12, 13, 32, 160}"

definition trim :: "string \<Rightarrow> string" where
  "trim s = rev (dropWhile isSpace (rev (dropWhile isSpace s)))"

lemma trim_x: "trim ''x'' = ''x''"
  by (simp add: trim_def isSpace_def)

text \<open>The elements of a JavaScript \<open>Set\<close> built by adding the elements of a list, in insertion order.\<close>

definition jsSet :: "'a list \<Rightarrow> 'a list" where
  "jsSet xs = rev (remdups (rev xs))"

lemma set_jsSet [simp]: "set (jsSet xs) = set xs"
  by (simp add: jsSet_def)

lemma distinct_jsSet [simp]: "distinct (jsSet xs)"
  by (simp add: jsSet_def)

section \<open>Decimal numerals\<close>

text \<open>\<open>String(n)\<close> of a nonnegative integer, and \<open>padStart(k, '0')\<close>.\<close>

fun showNat :: "nat \<Rightarrow> string" where
  "showNat n = (if n < 10 then [char_of (48 + n)] else showNat (n div 10) @ [char_of (48 + n mod 10)])"

declare showNat.simps [simp del]

definition padStart :: "nat \<Rightarrow> string \<Rightarrow> string" where
  "padStart k s = replicate (k - length s) CHR ''0'' @ s"

end
