(* ===== verification/Primitives.thy ===== *)
theory Primitives
  imports Prelude
begin

text \<open>
  The types that carry security meaning, from
  \<open>packages/shared-contracts/src/domain/primitives.ts\<close>, and the text encoding of a canonical
  reference with its round trip. A closed union of string literals is a datatype with the
  source's literals as constructors; where two unions of the program share a literal, the
  constructor carries a prefix (\<open>K_\<close> for a principal kind, \<open>P_\<close> for a principal status).
\<close>

text \<open>
  \<open>UUID_SHAPE\<close>: \<open>/^[0-9a-f]{8}-[0-9a-f]{4}-[0-9a-f]{4}-[0-9a-f]{4}-[0-9a-f]{12}$/i\<close>, read off
  position by position: 36 characters, hyphens at 8, 13, 18 and 23, hexadecimal digits elsewhere.
\<close>

definition HEX_DIGITS :: string where
  "HEX_DIGITS = ''0123456789abcdefABCDEF''"

definition isUuid :: "string \<Rightarrow> bool" where
  "isUuid s \<longleftrightarrow>
     length s = 36 \<and>
     list_all (\<lambda>(i, c). if i \<in> {8, 13, 18, 23} then c = CHR ''-'' else c \<in> set HEX_DIGITS)
       (enumerate 0 s)"

datatype MessageVisibility = INTERNAL | CUSTOMER_VISIBLE

datatype PrincipalKind = K_EMPLOYEE | K_CUSTOMER | K_SYSTEM | K_AI

datatype PrincipalStatus = P_ACTIVE | P_SUSPENDED | P_EXITED

datatype Assurance = ANONYMOUS | PSEUDONYMOUS | VERIFIED_CUSTOMER | AUTHENTICATED_CUSTOMER

fun ASSURANCE_RANK :: "Assurance \<Rightarrow> nat" where
  "ASSURANCE_RANK ANONYMOUS = 0"
| "ASSURANCE_RANK PSEUDONYMOUS = 1"
| "ASSURANCE_RANK VERIFIED_CUSTOMER = 2"
| "ASSURANCE_RANK AUTHENTICATED_CUSTOMER = 3"

text \<open>Assurance is ordered by its rank, which no two levels share.\<close>

lemma ASSURANCE_RANK_inject: "ASSURANCE_RANK a = ASSURANCE_RANK b \<longleftrightarrow> a = b"
  by (cases a; cases b) simp_all

instantiation Assurance :: linorder
begin

definition less_eq_Assurance :: "Assurance \<Rightarrow> Assurance \<Rightarrow> bool" where
  "less_eq_Assurance a b \<longleftrightarrow> ASSURANCE_RANK a \<le> ASSURANCE_RANK b"

definition less_Assurance :: "Assurance \<Rightarrow> Assurance \<Rightarrow> bool" where
  "less_Assurance a b \<longleftrightarrow> ASSURANCE_RANK a < ASSURANCE_RANK b"

instance
  by standard (auto simp: less_eq_Assurance_def less_Assurance_def ASSURANCE_RANK_inject)

end

declare less_eq_Assurance_def [simp] less_Assurance_def [simp]

datatype ConversationType =
    INTERNAL_DIRECT
  | INTERNAL_GROUP
  | INTERNAL_ANNOUNCEMENT
  | INTERNAL_CHANNEL
  | CUSTOMER_SERVICE
  | CUSTOMER_SALES
  | CUSTOMER_RENEWAL
  | CUSTOMER_CLAIM
  | CUSTOMER_GRIEVANCE
  | CUSTOMER_GENERAL
  | SYSTEM_INTERACTION
  | AI_HANDOFF

definition CUSTOMER_CONVERSATION_TYPES :: "ConversationType list" where
  "CUSTOMER_CONVERSATION_TYPES =
     [CUSTOMER_SERVICE, CUSTOMER_SALES, CUSTOMER_RENEWAL, CUSTOMER_CLAIM,
      CUSTOMER_GRIEVANCE, CUSTOMER_GENERAL, AI_HANDOFF]"

text \<open>\<open>isInternal\<close> of \<open>packages/conversation-domain/src/conversations.ts\<close>, an allow-list.\<close>

definition INTERNAL_TYPES :: "ConversationType list" where
  "INTERNAL_TYPES = [INTERNAL_DIRECT, INTERNAL_GROUP, INTERNAL_ANNOUNCEMENT, INTERNAL_CHANNEL]"

definition isInternal :: "ConversationType \<Rightarrow> bool" where
  "isInternal ct \<longleftrightarrow> ct \<in> set INTERNAL_TYPES"

lemma isInternal_simps [simp]:
  "isInternal INTERNAL_DIRECT" "isInternal INTERNAL_GROUP"
  "isInternal INTERNAL_ANNOUNCEMENT" "isInternal INTERNAL_CHANNEL"
  "\<not> isInternal CUSTOMER_SERVICE" "\<not> isInternal CUSTOMER_SALES" "\<not> isInternal CUSTOMER_RENEWAL"
  "\<not> isInternal CUSTOMER_CLAIM" "\<not> isInternal CUSTOMER_GRIEVANCE" "\<not> isInternal CUSTOMER_GENERAL"
  "\<not> isInternal SYSTEM_INTERACTION" "\<not> isInternal AI_HANDOFF"
  by (simp_all add: isInternal_def INTERNAL_TYPES_def)

datatype ConversationState =
    NEW
  | QUEUED
  | ASSIGNED
  | ACTIVE
  | WAITING_CUSTOMER
  | WAITING_INTERNAL
  | RESOLVED
  | CLOSED

datatype ChannelVisibility = EVERYONE | DEPARTMENTS | SELECTED

datatype ChannelReadAccess = ANYONE_WHO_CAN_SEE | READ_MEMBERS

datatype ChannelPostAccess = ANYONE_WHO_CAN_READ | POST_MEMBERS | POST_ADMINS

record ChannelAccessPolicy =
  cp_visibility :: ChannelVisibility
  cp_readAccess :: ChannelReadAccess
  cp_postAccess :: ChannelPostAccess
  cp_archived :: bool

definition CHANNEL_ADMIN_ROLES :: "string list" where
  "CHANNEL_ADMIN_ROLES = [''CREATOR'', ''ADMIN'']"

definition isChannelAdminRole :: "string option \<Rightarrow> bool" where
  "isChannelAdminRole role =
     (case role of None \<Rightarrow> False | Some r \<Rightarrow> r \<in> set CHANNEL_ADMIN_ROLES)"

datatype SensitivityClass = ORDINARY | FINANCIAL | MEDICAL | LEGAL | GRIEVANCE

section \<open>Canonical references\<close>

datatype RefSystem = CCS | HRMS | IAM | LOCAL

fun systemName :: "RefSystem \<Rightarrow> string" where
  "systemName CCS = ''CCS''"
| "systemName HRMS = ''HRMS''"
| "systemName IAM = ''IAM''"
| "systemName LOCAL = ''LOCAL''"

record CanonicalRef =
  ref_system :: RefSystem
  ref_type :: string
  ref_id :: string

definition formatCanonicalRef :: "CanonicalRef \<Rightarrow> string" where
  "formatCanonicalRef r =
     systemName (ref_system r) @ '':'' @ ref_type r @ '':'' @ ref_id r"

text \<open>JavaScript's \<open>value.split(':')\<close> and \<open>parts.join(':')\<close>.\<close>

fun split_on :: "char \<Rightarrow> string \<Rightarrow> string list" where
  "split_on c [] = [[]]"
| "split_on c (x # xs) =
     (if x = c then [] # split_on c xs
      else (case split_on c xs of [] \<Rightarrow> [[x]] | p # ps \<Rightarrow> (x # p) # ps))"

fun join_with :: "char \<Rightarrow> string list \<Rightarrow> string" where
  "join_with c [] = []"
| "join_with c [p] = p"
| "join_with c (p # q # ps) = p @ c # join_with c (q # ps)"

fun systemOf :: "string \<Rightarrow> RefSystem option" where
  "systemOf s =
     (if s = ''CCS'' then Some CCS
      else if s = ''HRMS'' then Some HRMS
      else if s = ''IAM'' then Some IAM
      else if s = ''LOCAL'' then Some LOCAL
      else None)"

definition parseCanonicalRef :: "string \<Rightarrow> CanonicalRef option" where
  "parseCanonicalRef value =
     (case split_on (CHR '':'') value of
        system # type # r # rs \<Rightarrow>
          (case systemOf system of
             None \<Rightarrow> None
           | Some sys \<Rightarrow>
               if type = [] then None
               else
                 let id' = join_with (CHR '':'') (r # rs)
                 in if id' = [] then None
                    else Some \<lparr>ref_system = sys, ref_type = type, ref_id = id'\<rparr>)
      | _ \<Rightarrow> None)"

lemma split_on_not_Nil [simp]: "split_on c xs \<noteq> []"
  by (induction xs) (auto split: list.splits)

lemma split_on_append:
  "c \<notin> set p \<Longrightarrow> split_on c (p @ c # ys) = p # split_on c ys"
  by (induction p) auto

lemma join_split_on [simp]: "join_with c (split_on c xs) = xs"
proof (induction xs)
  case (Cons x xs)
  show ?case
  proof (cases "split_on c xs")
    case Nil
    then show ?thesis by simp
  next
    case (Cons p ps)
    with Cons.IH show ?thesis by (cases ps) auto
  qed
qed simp

lemma split_on_hd: "split_on c xs = p # ps \<Longrightarrow> c \<notin> set p"
  by (induction xs arbitrary: p ps) (auto split: if_splits list.splits)

lemma systemOf_systemName [simp]: "systemOf (systemName s) = Some s"
  by (cases s) auto

lemma systemName_no_colon [simp]: "CHR '':'' \<notin> set (systemName s)"
  by (cases s) auto

lemma systemOf_Some: "systemOf s = Some sys \<Longrightarrow> s = systemName sys"
  by (auto split: if_splits)

section \<open>The result of a call to an adapter\<close>

text \<open>
  \<open>packages/shared-contracts/src/adapters/result.ts\<close>: a value, or an error that says how the caller must treat
  it. \<open>Result<T>\<close> is the sum \<open>AdapterError + 'a\<close>; the optional \<open>detail\<close>, which is diagnostic, is left out.
\<close>

datatype FailureClass = FAIL_CLOSED | FAIL_DEGRADED | FAIL_QUEUED

record AdapterError =
  er_code :: string
  er_message :: string
  er_retryable :: bool
  er_failureClass :: FailureClass
  er_correlationId :: string

end
