(* ===== verification/Authz.thy ===== *)
theory Authz
  imports Primitives
begin

text \<open>
  The authorization decision: \<open>packages/conversation-domain/src/authz/actions.ts\<close> (the closed
  action vocabulary) and \<open>decide.ts\<close> (the ladder). Each rung of \<open>decide\<close> is a definition of
  its own that returns \<open>None\<close> where the code falls through to the next rung, and
  \<open>decide\<close> composes them in the order of the source.
\<close>

section \<open>The action vocabulary (actions.ts)\<close>

type_synonym Action = string

definition ACTIONS :: "Action list" where
  "ACTIONS =
    [''conversation.read'',
     ''conversation.message.send'',
     ''conversation.reply.customer'',
     ''conversation.note.internal'',
     ''conversation.participant.add'',
     ''conversation.participant.remove'',
     ''conversation.rename'',
     ''conversation.message.react'',
     ''conversation.announcement.post'',
     ''conversation.attachment.upload'',
     ''conversation.attachment.download'',
     ''channel.create'',
     ''channel.manage'',
     ''conversation.claim'',
     ''conversation.assign'',
     ''conversation.transfer'',
     ''conversation.escalate'',
     ''conversation.cover'',
     ''conversation.resolve'',
     ''conversation.reopen'',
     ''case.read'',
     ''case.reprioritise'',
     ''case.recategorise'',
     ''queue.read'',
     ''load.read'',
     ''directory.read'',
     ''search.execute'',
     ''admin.account.manage'',
     ''admin.role.assign'',
     ''admin.principal.deactivate'',
     ''admin.config.manage'',
     ''admin.principal.read'',
     ''admin.role.read'',
     ''admin.notification.replay'',
     ''privileged.conversation.read'',
     ''privileged.customer.history.read'',
     ''privileged.pii.unmask'',
     ''audit.query'']"

definition isKnownAction :: "string \<Rightarrow> bool" where
  "isKnownAction candidate \<longleftrightarrow> candidate \<in> set ACTIONS"

definition PRIVILEGED_ACTIONS :: "Action list" where
  "PRIVILEGED_ACTIONS =
    [''privileged.conversation.read'',
     ''privileged.customer.history.read'',
     ''privileged.pii.unmask'',
     ''audit.query'',
     ''admin.role.assign'',
     ''admin.principal.deactivate'']"

definition CUSTOMER_PERMITTED_ACTIONS :: "Action list" where
  "CUSTOMER_PERMITTED_ACTIONS =
    [''conversation.read'',
     ''conversation.reply.customer'',
     ''conversation.attachment.upload'',
     ''conversation.attachment.download'',
     ''conversation.reopen'']"

section \<open>Actors, resources, requests, decisions (decide.ts)\<close>

datatype ScopeKind = GLOBAL | DEPARTMENT | TEAM | CONVERSATION

record ScopeGrant =
  g_role :: string
  g_actions :: "Action list"
  g_scopeKind :: ScopeKind
  g_scopeId :: "string option"
  g_effectiveFrom :: Timestamp
  g_effectiveTo :: "Timestamp option"

record DelegationGrant =
  d_delegationId :: UUID
  d_capabilities :: "Action list"
  d_scopeKind :: ScopeKind
  d_scopeId :: "string option"
  d_effectiveFrom :: Timestamp
  d_effectiveTo :: Timestamp

record TemporaryGrant =
  t_grantId :: UUID
  t_capability :: Action
  t_conversationId :: "UUID option"
  t_caseId :: "UUID option"
  t_effectiveFrom :: Timestamp
  t_effectiveTo :: Timestamp

record ParticipantFacts =
  p_role :: string
  p_replyAuthority :: bool
  p_effectiveFrom :: Timestamp
  p_effectiveTo :: "Timestamp option"

record ActorContext =
  a_principalId :: UUID
  a_kind :: PrincipalKind
  a_status :: PrincipalStatus
  a_teams :: "string list"
  a_departments :: "string list"
  a_grants :: "ScopeGrant list"
  a_delegations :: "DelegationGrant list"
  a_temporaryGrants :: "TemporaryGrant list"
  a_assurance :: "Assurance option"

record ChannelFacts =
  c_policy :: ChannelAccessPolicy
  c_visibleToActor :: bool

record ResourceContext =
  r_conversationId :: UUID
  r_conversationType :: ConversationType
  r_caseId :: "UUID option"
  r_owningTeamId :: "string option"
  r_owningDepartment :: "string option"
  r_currentOwnerId :: "UUID option"
  r_customerRef :: "string option"
  r_sensitivity :: SensitivityClass
  r_participant :: "ParticipantFacts option"
  r_belongsToActorCustomer :: "bool option"
  r_customerVerifiedAt :: "Timestamp option"
  r_channel :: "ChannelFacts option"

record DecisionRequest =
  q_actor :: ActorContext
  q_action :: string
  q_resource :: ResourceContext
  q_now :: Timestamp
  q_requiredAssurance :: "Assurance option"
  q_targetVisibility :: "MessageVisibility option"

datatype DenyReason =
    UNKNOWN_ACTION
  | PRINCIPAL_INACTIVE
  | CUSTOMER_ACTION_FORBIDDEN
  | CUSTOMER_NOT_OWNER_OF_RESOURCE
  | CUSTOMER_INSUFFICIENT_ASSURANCE
  | CUSTOMER_INTERNAL_CONTENT
  | CUSTOMER_PRE_VERIFICATION_HISTORY
  | NOT_PARTICIPANT_NO_SCOPE
  | PRIVATE_CONVERSATION_NOT_A_PARTICIPANT
  | PARTICIPATION_DOES_NOT_GRANT_ACTION
  | CHANNEL_POLICY_DENIES
  | SENSITIVITY_SEGMENTATION
  | NO_MATCHING_GRANT

datatype Basis =
    PARTICIPANT
  | OWNER
  | SCOPE_GRANT
  | DELEGATION
  | TEMPORARY_GRANT
  | CUSTOMER_OWN
  | CHANNEL_POLICY
  | COMMUNICATION_AUDIT

text \<open>\<open>Allow basis privileged grantRef\<close> and \<open>Deny reason privilegedAttempt\<close>.\<close>

datatype Decision =
    Allow Basis bool "string option"
  | Deny DenyReason bool

fun allow :: "Decision \<Rightarrow> bool" where
  "allow (Allow _ _ _) = True"
| "allow (Deny _ _) = False"

section \<open>Scopes and sensitivity\<close>

definition scopeCovers ::
  "ScopeKind \<Rightarrow> string option \<Rightarrow> ActorContext \<Rightarrow> ResourceContext \<Rightarrow> bool" where
  "scopeCovers scopeKind scopeId a r =
     (case scopeKind of
        GLOBAL \<Rightarrow> True
      | DEPARTMENT \<Rightarrow>
          (case (scopeId, r_owningDepartment r) of
             (Some s, Some d) \<Rightarrow> s = d \<and> s \<in> set (a_departments a)
           | _ \<Rightarrow> False)
      | TEAM \<Rightarrow>
          (case (scopeId, r_owningTeamId r) of
             (Some s, Some t) \<Rightarrow> s = t \<and> s \<in> set (a_teams a)
           | _ \<Rightarrow> False)
      | CONVERSATION \<Rightarrow> scopeId = Some (r_conversationId r))"

fun SENSITIVITY_ROLES :: "SensitivityClass \<Rightarrow> string list" where
  "SENSITIVITY_ROLES ORDINARY = []"
| "SENSITIVITY_ROLES FINANCIAL = [''FINANCE'', ''CLAIMS'', ''COMPLIANCE'', ''LEGAL'']"
| "SENSITIVITY_ROLES MEDICAL = [''CLAIMS'', ''COMPLIANCE'', ''LEGAL'']"
| "SENSITIVITY_ROLES LEGAL = [''LEGAL'', ''COMPLIANCE'']"
| "SENSITIVITY_ROLES GRIEVANCE = [''GRIEVANCE'', ''COMPLIANCE'', ''LEGAL'']"

definition grantLive :: "Timestamp \<Rightarrow> ScopeGrant \<Rightarrow> bool" where
  "grantLive t g = isWithinPeriod t (g_effectiveFrom g) (g_effectiveTo g)"

definition delegationLive :: "Timestamp \<Rightarrow> DelegationGrant \<Rightarrow> bool" where
  "delegationLive t d = isWithinPeriod t (d_effectiveFrom d) (Some (d_effectiveTo d))"

definition temporaryLive :: "Timestamp \<Rightarrow> TemporaryGrant \<Rightarrow> bool" where
  "temporaryLive t g = isWithinPeriod t (t_effectiveFrom g) (Some (t_effectiveTo g))"

definition passesSensitivity ::
  "ActorContext \<Rightarrow> ResourceContext \<Rightarrow> Timestamp \<Rightarrow> bool" where
  "passesSensitivity a r t =
     (let required = SENSITIVITY_ROLES (r_sensitivity r)
      in if required = [] then True
         else list_ex (\<lambda>g. g_role g \<in> set required \<and> grantLive t g \<and>
                           scopeCovers (g_scopeKind g) (g_scopeId g) a r)
                (a_grants a))"

section \<open>Decisions about a team's queue\<close>

record TeamContext =
  tm_teamId :: string
  tm_department :: "string option"

record TeamDecisionRequest =
  tr_actor :: ActorContext
  tr_action :: string
  tr_team :: TeamContext
  tr_now :: Timestamp

definition teamScopeCovers ::
  "ScopeKind \<Rightarrow> string option \<Rightarrow> ActorContext \<Rightarrow> TeamContext \<Rightarrow> bool" where
  "teamScopeCovers scopeKind scopeId a t =
     (case scopeKind of
        GLOBAL \<Rightarrow> True
      | DEPARTMENT \<Rightarrow>
          (case (scopeId, tm_department t) of
             (Some s, Some d) \<Rightarrow> s = d \<and> s \<in> set (a_departments a)
           | _ \<Rightarrow> False)
      | TEAM \<Rightarrow>
          (case scopeId of
             Some s \<Rightarrow> s = tm_teamId t \<and> s \<in> set (a_teams a)
           | None \<Rightarrow> False)
      | CONVERSATION \<Rightarrow> False)"

definition decideForTeam :: "TeamDecisionRequest \<Rightarrow> Decision" where
  "decideForTeam request =
     (let a = tr_actor request; act = tr_action request; t = tr_now request;
          privileged = act \<in> set PRIVILEGED_ACTIONS
      in if \<not> isKnownAction act then Deny UNKNOWN_ACTION False
         else if a_status a \<noteq> P_ACTIVE then Deny PRINCIPAL_INACTIVE privileged
         else if a_kind a = K_CUSTOMER then Deny CUSTOMER_ACTION_FORBIDDEN privileged
         else case List.find (\<lambda>d. act \<in> set (d_capabilities d) \<and> delegationLive t d \<and>
                     teamScopeCovers (d_scopeKind d) (d_scopeId d) a (tr_team request))
                   (a_delegations a) of
           Some d \<Rightarrow> Allow DELEGATION privileged (Some (d_delegationId d))
         | None \<Rightarrow>
             (case List.find (\<lambda>g. act \<in> set (g_actions g) \<and> grantLive t g \<and>
                        teamScopeCovers (g_scopeKind g) (g_scopeId g) a (tr_team request))
                      (a_grants a) of
                Some g \<Rightarrow> Allow SCOPE_GRANT privileged (Some (g_role g))
              | None \<Rightarrow> Deny NOT_PARTICIPANT_NO_SCOPE privileged))"

section \<open>The closed sets the ladder consults\<close>

definition PARTICIPANT_ACTIONS :: "Action list" where
  "PARTICIPANT_ACTIONS =
    [''conversation.read'',
     ''conversation.message.send'',
     ''conversation.note.internal'',
     ''conversation.attachment.upload'',
     ''conversation.attachment.download'',
     ''case.read'']"

definition INTERNAL_MEMBERSHIP_ACTIONS :: "Action list" where
  "INTERNAL_MEMBERSHIP_ACTIONS =
    [''conversation.participant.add'', ''conversation.participant.remove'']"

definition PARTICIPANT_MANAGED_TYPES :: "ConversationType list" where
  "PARTICIPANT_MANAGED_TYPES = [INTERNAL_DIRECT, INTERNAL_GROUP]"

definition ANNOUNCEMENT_PARTICIPANT_ACTIONS :: "Action list" where
  "ANNOUNCEMENT_PARTICIPANT_ACTIONS =
    [''conversation.read'', ''conversation.attachment.download'', ''conversation.message.react'']"

definition AUDIT_READ_ACTIONS :: "Action list" where
  "AUDIT_READ_ACTIONS =
    [''conversation.read'', ''privileged.conversation.read'',
     ''conversation.attachment.download'', ''case.read'']"

definition CHANNEL_READ_ACTIONS :: "Action list" where
  "CHANNEL_READ_ACTIONS =
    [''conversation.read'', ''conversation.attachment.download'', ''case.read'']"

definition CHANNEL_POST_ACTIONS :: "Action list" where
  "CHANNEL_POST_ACTIONS =
    [''conversation.message.send'', ''conversation.note.internal'',
     ''conversation.attachment.upload'']"

definition CHANNEL_ADMIN_ACTIONS :: "Action list" where
  "CHANNEL_ADMIN_ACTIONS =
    [''conversation.participant.add'', ''conversation.participant.remove'',
     ''conversation.rename'', ''channel.manage'']"

definition OWNER_ACTIONS :: "Action list" where
  "OWNER_ACTIONS =
    [''conversation.read'',
     ''conversation.message.send'',
     ''conversation.reply.customer'',
     ''conversation.note.internal'',
     ''conversation.participant.add'',
     ''conversation.participant.remove'',
     ''conversation.attachment.upload'',
     ''conversation.attachment.download'',
     ''conversation.transfer'',
     ''conversation.escalate'',
     ''conversation.resolve'',
     ''conversation.reopen'',
     ''case.read'']"

section \<open>Channels\<close>

datatype ChannelVerdict = CH_ALLOW | CH_DENY | CH_FALL_THROUGH

definition channelVisible :: "ChannelFacts \<Rightarrow> bool \<Rightarrow> bool" where
  "channelVisible facts isLiveParticipant \<longleftrightarrow> c_visibleToActor facts \<or> isLiveParticipant"

definition channelMayRead :: "ChannelFacts \<Rightarrow> bool \<Rightarrow> bool" where
  "channelMayRead facts isLiveParticipant \<longleftrightarrow>
     channelVisible facts isLiveParticipant \<and>
     (cp_readAccess (c_policy facts) = ANYONE_WHO_CAN_SEE \<or> isLiveParticipant)"

definition channelMayPost :: "ChannelFacts \<Rightarrow> bool \<Rightarrow> bool \<Rightarrow> bool" where
  "channelMayPost facts isLiveParticipant isAdmin \<longleftrightarrow>
     channelMayRead facts isLiveParticipant \<and>
     \<not> cp_archived (c_policy facts) \<and>
     (if cp_postAccess (c_policy facts) = ANYONE_WHO_CAN_READ then True
      else if cp_postAccess (c_policy facts) = POST_MEMBERS then isLiveParticipant
      else isAdmin)"

definition decideChannel :: "ResourceContext \<Rightarrow> Action \<Rightarrow> bool \<Rightarrow> ChannelVerdict" where
  "decideChannel r act isLiveParticipant =
     (case r_channel r of
        None \<Rightarrow> CH_DENY
      | Some facts \<Rightarrow>
          let isAdmin = isLiveParticipant \<and>
                isChannelAdminRole (map_option p_role (r_participant r));
              mayRead = channelMayRead facts isLiveParticipant;
              mayPost = channelMayPost facts isLiveParticipant isAdmin
          in if act \<in> set CHANNEL_READ_ACTIONS then (if mayRead then CH_ALLOW else CH_DENY)
             else if act \<in> set CHANNEL_POST_ACTIONS then (if mayPost then CH_ALLOW else CH_DENY)
             else if act = ''conversation.message.react''
               then (if mayRead \<and> \<not> cp_archived (c_policy facts) then CH_ALLOW else CH_DENY)
             else if act \<in> set CHANNEL_ADMIN_ACTIONS
               then (if isAdmin then CH_ALLOW else CH_FALL_THROUGH)
             else CH_FALL_THROUGH)"

definition grantedByParticipationOn :: "ConversationType \<Rightarrow> Action \<Rightarrow> bool" where
  "grantedByParticipationOn ct act =
     (if ct = INTERNAL_ANNOUNCEMENT then act \<in> set ANNOUNCEMENT_PARTICIPANT_ACTIONS else True)"

section \<open>The rungs of decide\<close>

definition isOwner :: "DecisionRequest \<Rightarrow> bool" where
  "isOwner q \<longleftrightarrow> r_currentOwnerId (q_resource q) = Some (a_principalId (q_actor q))"

definition isLiveParticipant :: "DecisionRequest \<Rightarrow> bool" where
  "isLiveParticipant q =
     (case r_participant (q_resource q) of
        None \<Rightarrow> False
      | Some p \<Rightarrow> isWithinPeriod (q_now q) (p_effectiveFrom p) (p_effectiveTo p))"

definition privilegedAction :: "DecisionRequest \<Rightarrow> bool" where
  "privilegedAction q \<longleftrightarrow> q_action q \<in> set PRIVILEGED_ACTIONS"

text \<open>Rung 3: a customer principal never reaches the employee ladder.\<close>

definition decideCustomer :: "DecisionRequest \<Rightarrow> Decision" where
  "decideCustomer q =
     (if q_action q \<notin> set CUSTOMER_PERMITTED_ACTIONS
        then Deny CUSTOMER_ACTION_FORBIDDEN (privilegedAction q)
      else if q_targetVisibility q = Some INTERNAL
        then Deny CUSTOMER_INTERNAL_CONTENT False
      else if r_belongsToActorCustomer (q_resource q) \<noteq> Some True
        then Deny CUSTOMER_NOT_OWNER_OF_RESOURCE False
      else
        let required = (case q_requiredAssurance q of Some x \<Rightarrow> x | None \<Rightarrow> VERIFIED_CUSTOMER);
            held = (case a_assurance (q_actor q) of Some x \<Rightarrow> x | None \<Rightarrow> ANONYMOUS)
        in if ASSURANCE_RANK held < ASSURANCE_RANK required
             then Deny CUSTOMER_INSUFFICIENT_ASSURANCE False
           else Allow CUSTOMER_OWN False None)"

text \<open>Rung 3a: the communication auditor, who yields to the reader's own conversations.\<close>

definition auditGrant :: "DecisionRequest \<Rightarrow> ScopeGrant \<Rightarrow> bool" where
  "auditGrant q g \<longleftrightarrow>
     ''privileged.conversation.read'' \<in> set (g_actions g) \<and> g_scopeKind g = GLOBAL \<and>
     grantLive (q_now q) g"

definition auditRung :: "DecisionRequest \<Rightarrow> Decision option" where
  "auditRung q =
     (let readerBelongsHere = isOwner q \<or> isLiveParticipant q
      in if q_action q \<in> set AUDIT_READ_ACTIONS \<and> \<not> readerBelongsHere
         then map_option (\<lambda>g. Allow COMMUNICATION_AUDIT True (Some (g_role g)))
                (List.find (auditGrant q) (a_grants (q_actor q)))
         else None)"

text \<open>Rung 4: ownership.\<close>

definition ownerRung :: "DecisionRequest \<Rightarrow> Decision option" where
  "ownerRung q =
     (if isOwner q \<and> q_action q \<in> set OWNER_ACTIONS then Some (Allow OWNER False None) else None)"

text \<open>Rung 6, also inlined in the channel rung: temporary grants.\<close>

definition temporaryMatches :: "DecisionRequest \<Rightarrow> TemporaryGrant \<Rightarrow> bool" where
  "temporaryMatches q g \<longleftrightarrow>
     t_capability g = q_action q \<and>
     temporaryLive (q_now q) g \<and>
     (t_conversationId g = None \<or> t_conversationId g = Some (r_conversationId (q_resource q))) \<and>
     (t_caseId g = None \<or> t_caseId g = r_caseId (q_resource q))"

definition temporaryRung :: "DecisionRequest \<Rightarrow> Decision option" where
  "temporaryRung q =
     map_option (\<lambda>g. Allow TEMPORARY_GRANT (privilegedAction q) (Some (t_grantId g)))
       (List.find (temporaryMatches q) (a_temporaryGrants (q_actor q)))"

text \<open>Rung 4a: a channel decides its own access, except by temporary grant.\<close>

definition channelRung :: "DecisionRequest \<Rightarrow> Decision option" where
  "channelRung q =
     (if r_conversationType (q_resource q) = INTERNAL_CHANNEL then
        (case decideChannel (q_resource q) (q_action q) (isLiveParticipant q) of
           CH_ALLOW \<Rightarrow>
             Some (Allow (if isLiveParticipant q then PARTICIPANT else CHANNEL_POLICY) False None)
         | CH_DENY \<Rightarrow>
             (case temporaryRung q of
                Some d \<Rightarrow> Some d
              | None \<Rightarrow> Some (Deny CHANNEL_POLICY_DENIES (privilegedAction q)))
         | CH_FALL_THROUGH \<Rightarrow> None)
      else None)"

text \<open>Rung 5: participation, which grants that conversation and nothing else.\<close>

definition participantRung :: "DecisionRequest \<Rightarrow> Decision option" where
  "participantRung q =
     (if isLiveParticipant q then
        if q_action q \<in> set PARTICIPANT_ACTIONS \<and>
           grantedByParticipationOn (r_conversationType (q_resource q)) (q_action q)
          then Some (Allow PARTICIPANT False None)
        else if q_action q = ''conversation.reply.customer'' \<and>
                map_option p_replyAuthority (r_participant (q_resource q)) = Some True
          then Some (Allow PARTICIPANT False None)
        else if q_action q \<in> set INTERNAL_MEMBERSHIP_ACTIONS \<and>
                r_conversationType (q_resource q) \<in> set PARTICIPANT_MANAGED_TYPES
          then Some (Allow PARTICIPANT False None)
        else None
      else None)"

text \<open>Rung 6a: a private internal conversation is closed to standing authority.\<close>

definition privateRung :: "DecisionRequest \<Rightarrow> Decision option" where
  "privateRung q =
     (if \<not> isLiveParticipant q \<and> r_conversationType (q_resource q) \<in> set PARTICIPANT_MANAGED_TYPES
      then Some (Deny PRIVATE_CONVERSATION_NOT_A_PARTICIPANT (privilegedAction q))
      else None)"

text \<open>Rungs 7 and 8: delegations received, and role-by-scope assignments.\<close>

definition delegationMatches :: "DecisionRequest \<Rightarrow> DelegationGrant \<Rightarrow> bool" where
  "delegationMatches q d \<longleftrightarrow>
     q_action q \<in> set (d_capabilities d) \<and> delegationLive (q_now q) d \<and>
     scopeCovers (d_scopeKind d) (d_scopeId d) (q_actor q) (q_resource q)"

definition delegationRung :: "DecisionRequest \<Rightarrow> Decision option" where
  "delegationRung q =
     (case List.find (delegationMatches q) (a_delegations (q_actor q)) of
        None \<Rightarrow> None
      | Some d \<Rightarrow>
          if \<not> passesSensitivity (q_actor q) (q_resource q) (q_now q)
            then Some (Deny SENSITIVITY_SEGMENTATION (privilegedAction q))
          else Some (Allow DELEGATION (privilegedAction q) (Some (d_delegationId d))))"

definition grantMatches :: "DecisionRequest \<Rightarrow> ScopeGrant \<Rightarrow> bool" where
  "grantMatches q g \<longleftrightarrow>
     q_action q \<in> set (g_actions g) \<and> grantLive (q_now q) g \<and>
     scopeCovers (g_scopeKind g) (g_scopeId g) (q_actor q) (q_resource q)"

definition grantRung :: "DecisionRequest \<Rightarrow> Decision option" where
  "grantRung q =
     (case List.find (grantMatches q) (a_grants (q_actor q)) of
        None \<Rightarrow> None
      | Some g \<Rightarrow>
          if \<not> passesSensitivity (q_actor q) (q_resource q) (q_now q)
            then Some (Deny SENSITIVITY_SEGMENTATION (privilegedAction q))
          else Some (Allow SCOPE_GRANT (privilegedAction q) (Some (g_role g))))"

text \<open>The ladder: the first rung that answers decides.\<close>

fun firstAnswer :: "'a option list \<Rightarrow> 'a \<Rightarrow> 'a" where
  "firstAnswer [] d = d"
| "firstAnswer (None # xs) d = firstAnswer xs d"
| "firstAnswer (Some x # xs) d = x"

definition decideEmployee :: "DecisionRequest \<Rightarrow> Decision" where
  "decideEmployee q =
     firstAnswer
       [auditRung q, ownerRung q, channelRung q, participantRung q, temporaryRung q,
        privateRung q, delegationRung q, grantRung q]
       (if isLiveParticipant q
          then Deny PARTICIPATION_DOES_NOT_GRANT_ACTION (privilegedAction q)
        else Deny NOT_PARTICIPANT_NO_SCOPE (privilegedAction q))"

definition decide :: "DecisionRequest \<Rightarrow> Decision" where
  "decide q =
     (if \<not> isKnownAction (q_action q) then Deny UNKNOWN_ACTION False
      else if a_status (q_actor q) \<noteq> P_ACTIVE then Deny PRINCIPAL_INACTIVE (privilegedAction q)
      else if a_kind (q_actor q) = K_CUSTOMER then decideCustomer q
      else decideEmployee q)"

definition holdsAction :: "ActorContext \<Rightarrow> string \<Rightarrow> Timestamp \<Rightarrow> bool" where
  "holdsAction a act t =
     (if \<not> isKnownAction act then False
      else if a_status a \<noteq> P_ACTIVE then False
      else if a_kind a = K_CUSTOMER then False
      else list_ex (\<lambda>g. act \<in> set (g_actions g) \<and> grantLive t g) (a_grants a) \<or>
           list_ex (\<lambda>d. act \<in> set (d_capabilities d) \<and> delegationLive t d) (a_delegations a))"

end
