(* ===== verification/Actor.thy ===== *)
theory Actor
  imports Authz
begin

text \<open>
  From IAM claims to the actor of a decision: \<open>packages/conversation-domain/src/authz/actor.ts\<close>
  over the claim types of \<open>packages/shared-contracts/src/adapters/identity.ts\<close>. The role table is
  an association list in the source's order, and a role that is not in it grants nothing.
\<close>

record Scope =
  s_kind :: ScopeKind
  s_id :: "string option"

record RoleAssignment =
  ra_role :: string
  ra_scope :: Scope
  ra_effectiveFrom :: Timestamp
  ra_effectiveTo :: "Timestamp option"
  ra_grantedBy :: UUID

record Delegation =
  dl_delegationId :: UUID
  dl_fromPrincipal :: UUID
  dl_toPrincipal :: UUID
  dl_capabilities :: "string list"
  dl_scope :: Scope
  dl_effectiveFrom :: Timestamp
  dl_effectiveTo :: Timestamp
  dl_reason :: string

record TeamRef =
  tf_teamId :: string
  tf_displayName :: string

record PrincipalClaims =
  pc_principalId :: UUID
  pc_status :: PrincipalStatus
  pc_displayName :: string
  pc_roles :: "RoleAssignment list"
  pc_teams :: "TeamRef list"
  pc_department :: string
  pc_delegations :: "Delegation list"
  pc_sessionVersion :: nat

definition ROLE_ACTIONS :: "(string \<times> Action list) list" where
  "ROLE_ACTIONS =
    [(''AGENT'',
        [''conversation.read'', ''conversation.rename'', ''conversation.message.react'',
         ''queue.read'', ''conversation.claim'', ''search.execute'', ''directory.read'']),
     (''TEAM_LEAD'',
        [''conversation.rename'', ''conversation.message.react'',
         ''conversation.announcement.post'', ''channel.create'', ''channel.manage'',
         ''queue.read'', ''load.read'', ''directory.read'',
         ''conversation.assign'', ''conversation.transfer'',
         ''conversation.resolve'', ''conversation.reopen'', ''case.reprioritise'']),
     (''CLAIMS'', [''conversation.read'', ''conversation.claim'', ''case.read'']),
     (''GRIEVANCE'',
        [''conversation.read'', ''conversation.escalate'', ''privileged.customer.history.read'']),
     (''COMPLIANCE'', [''audit.query'', ''privileged.customer.history.read'']),
     (''LEGAL'', [''audit.query'', ''privileged.customer.history.read'']),
     (''ADMIN'',
        [''conversation.announcement.post'', ''channel.create'', ''channel.manage'',
         ''admin.account.manage'', ''admin.role.assign'', ''admin.principal.deactivate'',
         ''admin.config.manage'', ''admin.notification.replay'',
         ''admin.principal.read'', ''admin.role.read'',
         ''privileged.conversation.read'', ''privileged.customer.history.read'',
         ''conversation.attachment.download'', ''audit.query'', ''search.execute'',
         ''directory.read'', ''queue.read'', ''load.read'', ''case.read''])]"

definition roleActions :: "string \<Rightarrow> Action list" where
  "roleActions role = (case map_of ROLE_ACTIONS role of Some as \<Rightarrow> as | None \<Rightarrow> [])"

definition toScopeGrant :: "RoleAssignment \<Rightarrow> ScopeGrant" where
  "toScopeGrant ra =
     \<lparr>g_role = ra_role ra,
      g_actions = roleActions (ra_role ra),
      g_scopeKind = s_kind (ra_scope ra),
      g_scopeId = s_id (ra_scope ra),
      g_effectiveFrom = ra_effectiveFrom ra,
      g_effectiveTo = ra_effectiveTo ra\<rparr>"

definition toDelegationGrant :: "Delegation \<Rightarrow> DelegationGrant" where
  "toDelegationGrant d =
     \<lparr>d_delegationId = dl_delegationId d,
      d_capabilities = dl_capabilities d,
      d_scopeKind = s_kind (dl_scope d),
      d_scopeId = s_id (dl_scope d),
      d_effectiveFrom = dl_effectiveFrom d,
      d_effectiveTo = dl_effectiveTo d\<rparr>"

definition toActorContext :: "PrincipalClaims \<Rightarrow> ActorContext" where
  "toActorContext claims =
     \<lparr>a_principalId = pc_principalId claims,
      a_kind = K_EMPLOYEE,
      a_status = pc_status claims,
      a_teams = map tf_teamId (pc_teams claims),
      a_departments = (if pc_department claims = [] then [] else [pc_department claims]),
      a_grants = map toScopeGrant (pc_roles claims),
      a_delegations = map toDelegationGrant (pc_delegations claims),
      a_temporaryGrants = [],
      a_assurance = None\<rparr>"

end
