(* ===== verification/Authz_Props.thy ===== *)
theory Authz_Props
  imports Actor
begin

text \<open>
  What the authorization ladder guarantees. The first part are the lemmas of each rung (when
  it answers, and what it answers); the second states the guarantees of \<open>decide.ts\<close>'s header:
  evidence for every allow, isolation of customers, no effect of expired authority, no standing
  authority over private conversations, segmentation by sensitivity, and that every exercise of
  privileged authority is flagged for the audit.
\<close>

lemmas action_set_defs [action_sets] =
  PRIVILEGED_ACTIONS_def CUSTOMER_PERMITTED_ACTIONS_def PARTICIPANT_ACTIONS_def
  INTERNAL_MEMBERSHIP_ACTIONS_def ANNOUNCEMENT_PARTICIPANT_ACTIONS_def AUDIT_READ_ACTIONS_def
  CHANNEL_READ_ACTIONS_def CHANNEL_POST_ACTIONS_def CHANNEL_ADMIN_ACTIONS_def OWNER_ACTIONS_def

section \<open>Composition of the rungs\<close>

lemma firstAnswer_cases:
  "firstAnswer xs d = y \<Longrightarrow> (y = d \<and> (\<forall>x \<in> set xs. x = None)) \<or> Some y \<in> set xs"
  by (induction xs d rule: firstAnswer.induct) auto

lemma firstAnswer_None_iff:
  "\<forall>x \<in> set xs. x = None \<Longrightarrow> firstAnswer xs d = d"
  by (induction xs d rule: firstAnswer.induct) auto

lemma firstAnswer_append_None:
  "\<forall>x \<in> set xs. x = None \<Longrightarrow> firstAnswer (xs @ ys) d = firstAnswer ys d"
  by (induction xs d rule: firstAnswer.induct) auto

section \<open>When each rung allows\<close>

lemma auditRung_Some:
  "auditRung q = Some d \<longleftrightarrow>
     q_action q \<in> set AUDIT_READ_ACTIONS \<and> \<not> isOwner q \<and> \<not> isLiveParticipant q \<and>
     (\<exists>g. List.find (auditGrant q) (a_grants (q_actor q)) = Some g \<and>
          d = Allow COMMUNICATION_AUDIT True (Some (g_role g)))"
  by (auto simp: auditRung_def)

lemma ownerRung_Some:
  "ownerRung q = Some d \<longleftrightarrow>
     isOwner q \<and> q_action q \<in> set OWNER_ACTIONS \<and> d = Allow OWNER False None"
  by (auto simp: ownerRung_def)

lemma temporaryRung_Some:
  "temporaryRung q = Some d \<longleftrightarrow>
     (\<exists>g. List.find (temporaryMatches q) (a_temporaryGrants (q_actor q)) = Some g \<and>
          d = Allow TEMPORARY_GRANT (privilegedAction q) (Some (t_grantId g)))"
  by (auto simp: temporaryRung_def)

lemma channelRung_Allow:
  "channelRung q = Some (Allow b p g) \<Longrightarrow>
     r_conversationType (q_resource q) = INTERNAL_CHANNEL \<and>
     ((decideChannel (q_resource q) (q_action q) (isLiveParticipant q) = CH_ALLOW \<and>
       b = (if isLiveParticipant q then PARTICIPANT else CHANNEL_POLICY) \<and> p = False \<and> g = None)
      \<or> temporaryRung q = Some (Allow b p g))"
  by (auto simp: channelRung_def split: if_splits ChannelVerdict.splits option.splits)

lemma participantRung_Some:
  "participantRung q = Some d \<longleftrightarrow>
     isLiveParticipant q \<and> d = Allow PARTICIPANT False None \<and>
     ((q_action q \<in> set PARTICIPANT_ACTIONS \<and>
       grantedByParticipationOn (r_conversationType (q_resource q)) (q_action q)) \<or>
      (q_action q = ''conversation.reply.customer'' \<and>
       map_option p_replyAuthority (r_participant (q_resource q)) = Some True) \<or>
      (q_action q \<in> set INTERNAL_MEMBERSHIP_ACTIONS \<and>
       r_conversationType (q_resource q) \<in> set PARTICIPANT_MANAGED_TYPES))"
  unfolding participantRung_def by auto

lemma privateRung_Some:
  "privateRung q = Some d \<longleftrightarrow>
     \<not> isLiveParticipant q \<and> r_conversationType (q_resource q) \<in> set PARTICIPANT_MANAGED_TYPES \<and>
     d = Deny PRIVATE_CONVERSATION_NOT_A_PARTICIPANT (privilegedAction q)"
  by (auto simp: privateRung_def)

lemma delegationRung_Allow:
  "delegationRung q = Some (Allow b p g) \<longleftrightarrow>
     passesSensitivity (q_actor q) (q_resource q) (q_now q) \<and> b = DELEGATION \<and>
     p = privilegedAction q \<and>
     (\<exists>d. List.find (delegationMatches q) (a_delegations (q_actor q)) = Some d \<and>
          g = Some (d_delegationId d))"
  by (auto simp: delegationRung_def split: option.splits if_splits)

lemma grantRung_Allow:
  "grantRung q = Some (Allow b p g) \<longleftrightarrow>
     passesSensitivity (q_actor q) (q_resource q) (q_now q) \<and> b = SCOPE_GRANT \<and>
     p = privilegedAction q \<and>
     (\<exists>x. List.find (grantMatches q) (a_grants (q_actor q)) = Some x \<and> g = Some (g_role x))"
  by (auto simp: grantRung_def split: option.splits if_splits)

lemma decideChannel_react_member:
  "decideChannel r ''conversation.message.react'' live = CH_ALLOW \<Longrightarrow>
     \<exists>f. r_channel r = Some f \<and> channelMayRead f live \<and> \<not> cp_archived (c_policy f)"
  by (auto simp: decideChannel_def CHANNEL_READ_ACTIONS_def CHANNEL_POST_ACTIONS_def Let_def
      split: option.splits if_splits)

section \<open>The declarative reading of the ladder\<close>

text \<open>
  The ladder without its order: what evidence authorises an employee, stated as a disjunction
  over the facts of the request rather than as a sequence of early returns.
\<close>

definition temporaryAuthority :: "DecisionRequest \<Rightarrow> bool" where
  "temporaryAuthority q \<longleftrightarrow> (\<exists>t \<in> set (a_temporaryGrants (q_actor q)). temporaryMatches q t)"

definition standingAuthority :: "DecisionRequest \<Rightarrow> bool" where
  "standingAuthority q \<longleftrightarrow>
     passesSensitivity (q_actor q) (q_resource q) (q_now q) \<and>
     ((\<exists>d \<in> set (a_delegations (q_actor q)). delegationMatches q d) \<or>
      (\<exists>g \<in> set (a_grants (q_actor q)). grantMatches q g))"

definition auditAuthority :: "DecisionRequest \<Rightarrow> bool" where
  "auditAuthority q \<longleftrightarrow>
     q_action q \<in> set AUDIT_READ_ACTIONS \<and> (\<exists>g \<in> set (a_grants (q_actor q)). auditGrant q g)"

definition participationAuthority :: "DecisionRequest \<Rightarrow> bool" where
  "participationAuthority q \<longleftrightarrow> participantRung q \<noteq> None"

definition channelVerdictOf :: "DecisionRequest \<Rightarrow> ChannelVerdict" where
  "channelVerdictOf q =
     (if r_conversationType (q_resource q) = INTERNAL_CHANNEL
        then decideChannel (q_resource q) (q_action q) (isLiveParticipant q)
      else CH_FALL_THROUGH)"

definition isPrivateConversation :: "DecisionRequest \<Rightarrow> bool" where
  "isPrivateConversation q \<longleftrightarrow> r_conversationType (q_resource q) \<in> set PARTICIPANT_MANAGED_TYPES"

definition permitsEmployee :: "DecisionRequest \<Rightarrow> bool" where
  "permitsEmployee q \<longleftrightarrow>
     (auditAuthority q \<and> \<not> isOwner q \<and> \<not> isLiveParticipant q) \<or>
     (isOwner q \<and> q_action q \<in> set OWNER_ACTIONS) \<or>
     (case channelVerdictOf q of
        CH_ALLOW \<Rightarrow> True
      | CH_DENY \<Rightarrow> temporaryAuthority q
      | CH_FALL_THROUGH \<Rightarrow>
          participationAuthority q \<or> temporaryAuthority q \<or>
          ((isLiveParticipant q \<or> \<not> isPrivateConversation q) \<and> standingAuthority q))"

definition permitsCustomer :: "DecisionRequest \<Rightarrow> bool" where
  "permitsCustomer q \<longleftrightarrow>
     q_action q \<in> set CUSTOMER_PERMITTED_ACTIONS \<and>
     q_targetVisibility q \<noteq> Some INTERNAL \<and>
     r_belongsToActorCustomer (q_resource q) = Some True \<and>
     (case q_requiredAssurance q of Some x \<Rightarrow> x | None \<Rightarrow> VERIFIED_CUSTOMER)
       \<le> (case a_assurance (q_actor q) of Some x \<Rightarrow> x | None \<Rightarrow> ANONYMOUS)"

definition permits :: "DecisionRequest \<Rightarrow> bool" where
  "permits q \<longleftrightarrow>
     isKnownAction (q_action q) \<and> a_status (q_actor q) = P_ACTIVE \<and>
     (if a_kind (q_actor q) = K_CUSTOMER then permitsCustomer q else permitsEmployee q)"

lemma temporaryRung_None_iff: "temporaryRung q = None \<longleftrightarrow> \<not> temporaryAuthority q"
  by (auto simp: temporaryRung_def temporaryAuthority_def find_None_iff)

lemma auditRung_None_iff:
  "auditRung q = None \<longleftrightarrow> \<not> (auditAuthority q \<and> \<not> isOwner q \<and> \<not> isLiveParticipant q)"
  by (auto simp: auditRung_def auditAuthority_def find_None_iff)

lemma ownerRung_None_iff:
  "ownerRung q = None \<longleftrightarrow> \<not> (isOwner q \<and> q_action q \<in> set OWNER_ACTIONS)"
  by (auto simp: ownerRung_def)

lemma privateRung_None_iff:
  "privateRung q = None \<longleftrightarrow> isLiveParticipant q \<or> \<not> isPrivateConversation q"
  by (auto simp: privateRung_def isPrivateConversation_def)

text \<open>What the two standing rungs answer together, whatever the order of the grants.\<close>

lemma standing_rungs:
  "allow (firstAnswer [delegationRung q, grantRung q] (Deny r p)) \<longleftrightarrow> standingAuthority q"
proof (cases "List.find (delegationMatches q) (a_delegations (q_actor q))")
  case None
  then show ?thesis
    by (cases "List.find (grantMatches q) (a_grants (q_actor q))")
      (simp_all add: delegationRung_def grantRung_def standingAuthority_def find_ex)
next
  case (Some d)
  then show ?thesis by (simp add: delegationRung_def standingAuthority_def find_ex)
qed

lemma rung_allows:
  "temporaryRung q = Some d \<Longrightarrow> allow d"
  "auditRung q = Some d \<Longrightarrow> allow d"
  "ownerRung q = Some d \<Longrightarrow> allow d"
  "participantRung q = Some d \<Longrightarrow> allow d"
  by (auto simp: temporaryRung_Some auditRung_Some ownerRung_Some participantRung_Some)

lemma privateRung_denies: "privateRung q = Some d \<Longrightarrow> \<not> allow d"
  by (auto simp: privateRung_Some)

text \<open>The rungs after the channel rung.\<close>

lemma lower_rungs:
  "allow (firstAnswer [participantRung q, temporaryRung q, privateRung q, delegationRung q,
            grantRung q] (Deny r p)) \<longleftrightarrow>
     participationAuthority q \<or> temporaryAuthority q \<or>
     ((isLiveParticipant q \<or> \<not> isPrivateConversation q) \<and> standingAuthority q)"
proof (cases "participantRung q")
  case (Some d)
  then show ?thesis by (simp add: participationAuthority_def rung_allows)
next
  case p: None
  show ?thesis
  proof (cases "temporaryRung q")
    case (Some d)
    then have "temporaryAuthority q" using temporaryRung_None_iff [of q] by simp
    with Some p show ?thesis by (simp add: rung_allows)
  next
    case t: None
    then have nt: "\<not> temporaryAuthority q" by (simp add: temporaryRung_None_iff)
    show ?thesis
    proof (cases "privateRung q")
      case (Some d)
      then have "\<not> (isLiveParticipant q \<or> \<not> isPrivateConversation q)" "\<not> allow d"
        using privateRung_None_iff [of q] privateRung_denies by auto
      with Some p t nt show ?thesis by (simp add: participationAuthority_def)
    next
      case None
      then have "isLiveParticipant q \<or> \<not> isPrivateConversation q"
        by (simp add: privateRung_None_iff)
      with None p t nt standing_rungs show ?thesis by (simp add: participationAuthority_def)
    qed
  qed
qed

lemma channel_and_lower_rungs:
  "allow (firstAnswer (channelRung q # [participantRung q, temporaryRung q, privateRung q,
            delegationRung q, grantRung q]) (Deny r p)) \<longleftrightarrow>
     (case channelVerdictOf q of
        CH_ALLOW \<Rightarrow> True
      | CH_DENY \<Rightarrow> temporaryAuthority q
      | CH_FALL_THROUGH \<Rightarrow>
          participationAuthority q \<or> temporaryAuthority q \<or>
          ((isLiveParticipant q \<or> \<not> isPrivateConversation q) \<and> standingAuthority q))"
proof (cases "channelVerdictOf q")
  case CH_ALLOW
  then show ?thesis by (auto simp: channelVerdictOf_def channelRung_def split: if_splits)
next
  case CH_DENY
  show ?thesis
  proof (cases "temporaryRung q")
    case None
    with CH_DENY temporaryRung_None_iff [of q] show ?thesis
      by (auto simp: channelVerdictOf_def channelRung_def split: if_splits)
  next
    case (Some d)
    then have "temporaryAuthority q" "allow d"
      using temporaryRung_None_iff [of q] rung_allows by auto
    with Some CH_DENY show ?thesis
      by (auto simp: channelVerdictOf_def channelRung_def split: if_splits)
  qed
next
  case CH_FALL_THROUGH
  then have "channelRung q = None"
    by (auto simp: channelVerdictOf_def channelRung_def split: if_splits)
  with CH_FALL_THROUGH lower_rungs show ?thesis by simp
qed

lemma decideEmployee_permits: "allow (decideEmployee q) \<longleftrightarrow> permitsEmployee q"
proof -
  define r where
    "r = (if isLiveParticipant q then PARTICIPATION_DOES_NOT_GRANT_ACTION
          else NOT_PARTICIPANT_NO_SCOPE)"
  have d: "decideEmployee q = firstAnswer
       (auditRung q # ownerRung q # channelRung q # [participantRung q, temporaryRung q,
        privateRung q, delegationRung q, grantRung q]) (Deny r (privilegedAction q))"
    by (simp add: decideEmployee_def r_def)
  show ?thesis
  proof (cases "auditRung q")
    case (Some x)
    then have "auditAuthority q \<and> \<not> isOwner q \<and> \<not> isLiveParticipant q"
      using auditRung_None_iff [of q] by auto
    with Some d show ?thesis by (simp add: permitsEmployee_def rung_allows)
  next
    case a: None
    show ?thesis
    proof (cases "ownerRung q")
      case (Some x)
      with a d show ?thesis
        using ownerRung_None_iff [of q] by (simp add: permitsEmployee_def rung_allows)
    next
      case None
      then have no: "(isOwner q \<and> q_action q \<in> set OWNER_ACTIONS) = False"
        by (simp add: ownerRung_None_iff)
      from a have na: "(auditAuthority q \<and> \<not> isOwner q \<and> \<not> isLiveParticipant q) = False"
        by (simp only: auditRung_None_iff simp_thms)
      have "allow (decideEmployee q) \<longleftrightarrow>
          allow (firstAnswer (channelRung q # [participantRung q, temporaryRung q, privateRung q,
            delegationRung q, grantRung q]) (Deny r (privilegedAction q)))"
        unfolding d a None by simp
      then show ?thesis
        by (simp only: channel_and_lower_rungs permitsEmployee_def na no simp_thms)
    qed
  qed
qed

lemma decideCustomer_permits: "allow (decideCustomer q) \<longleftrightarrow> permitsCustomer q"
  by (simp add: decideCustomer_def permitsCustomer_def Let_def not_less)

lemma decide_permits: "allow (decide q) \<longleftrightarrow> permits q"
  by (simp add: decide_def permits_def decideEmployee_permits decideCustomer_permits)

text \<open>
  C1: the ladder of early returns in decide allows a request exactly when the request carries
  one of the pieces of evidence the header enumerates: a known action, an active principal, and
  then (for a customer) a permitted action on the customer's own conversation at sufficient
  assurance and never on internal content, or (for an employee) an audit grant, ownership, the
  channel's policy, participation, a temporary grant, or standing authority that passes the
  sensitivity segmentation and is not being used to enter a private conversation.
\<close>

theorem decide_allows_iff_permits: "allow (decide q) \<longleftrightarrow> permits q"
  by (rule decide_permits)

section \<open>The stated basis is the true one\<close>

text \<open>What each basis of an allow asserts, and what privileged flag and reference it carries.\<close>

fun basisHolds :: "DecisionRequest \<Rightarrow> Basis \<Rightarrow> bool \<Rightarrow> string option \<Rightarrow> bool" where
  "basisHolds q CUSTOMER_OWN p g \<longleftrightarrow>
     a_kind (q_actor q) = K_CUSTOMER \<and> permitsCustomer q \<and> \<not> p \<and> g = None"
| "basisHolds q COMMUNICATION_AUDIT p g \<longleftrightarrow>
     q_action q \<in> set AUDIT_READ_ACTIONS \<and> \<not> isOwner q \<and> \<not> isLiveParticipant q \<and> p \<and>
     (\<exists>x \<in> set (a_grants (q_actor q)). auditGrant q x \<and> g = Some (g_role x))"
| "basisHolds q OWNER p g \<longleftrightarrow>
     isOwner q \<and> q_action q \<in> set OWNER_ACTIONS \<and> \<not> p \<and> g = None"
| "basisHolds q CHANNEL_POLICY p g \<longleftrightarrow>
     r_conversationType (q_resource q) = INTERNAL_CHANNEL \<and> \<not> isLiveParticipant q \<and>
     decideChannel (q_resource q) (q_action q) False = CH_ALLOW \<and> \<not> p \<and> g = None"
| "basisHolds q PARTICIPANT p g \<longleftrightarrow>
     isLiveParticipant q \<and> \<not> p \<and> g = None \<and>
     (channelVerdictOf q = CH_ALLOW \<and> r_conversationType (q_resource q) = INTERNAL_CHANNEL \<or>
      participationAuthority q)"
| "basisHolds q TEMPORARY_GRANT p g \<longleftrightarrow>
     p = privilegedAction q \<and>
     (\<exists>t \<in> set (a_temporaryGrants (q_actor q)). temporaryMatches q t \<and> g = Some (t_grantId t))"
| "basisHolds q DELEGATION p g \<longleftrightarrow>
     p = privilegedAction q \<and> (isLiveParticipant q \<or> \<not> isPrivateConversation q) \<and>
     passesSensitivity (q_actor q) (q_resource q) (q_now q) \<and>
     (\<exists>d \<in> set (a_delegations (q_actor q)). delegationMatches q d \<and> g = Some (d_delegationId d))"
| "basisHolds q SCOPE_GRANT p g \<longleftrightarrow>
     p = privilegedAction q \<and> (isLiveParticipant q \<or> \<not> isPrivateConversation q) \<and>
     passesSensitivity (q_actor q) (q_resource q) (q_now q) \<and>
     (\<exists>x \<in> set (a_grants (q_actor q)). grantMatches q x \<and> g = Some (g_role x))"

lemma temporaryRung_basis:
  "temporaryRung q = Some (Allow b p g) \<Longrightarrow> basisHolds q b p g"
  by (force simp: temporaryRung_Some dest: find_SomeD)

lemma channelRung_basis:
  "channelRung q = Some (Allow b p g) \<Longrightarrow> basisHolds q b p g"
  by (drule channelRung_Allow) (auto simp: channelVerdictOf_def dest: temporaryRung_basis)

text \<open>An answer of the ladder comes from a rung, and no earlier rung answered.\<close>

lemma firstAnswer_Cons:
  "firstAnswer (x # xs) d = y \<longleftrightarrow>
     (case x of Some z \<Rightarrow> z = y | None \<Rightarrow> firstAnswer xs d = y)"
  by (cases x) auto

lemma decideEmployee_Allow_cases:
  assumes "decideEmployee q = Allow b p g"
  shows "auditRung q = Some (Allow b p g) \<or> ownerRung q = Some (Allow b p g) \<or>
     channelRung q = Some (Allow b p g) \<or> participantRung q = Some (Allow b p g) \<or>
     temporaryRung q = Some (Allow b p g) \<or>
     (privateRung q = None \<and> channelRung q = None \<and>
      (delegationRung q = Some (Allow b p g) \<or> grantRung q = Some (Allow b p g)))"
  using assms privateRung_denies [of q "Allow b p g"]
  by (simp add: decideEmployee_def firstAnswer_Cons split: option.splits if_splits)

lemma decideCustomer_Allow:
  "decideCustomer q = Allow b p g \<Longrightarrow> b = CUSTOMER_OWN \<and> p = False \<and> g = None \<and> permitsCustomer q"
  by (auto simp: decideCustomer_def permitsCustomer_def Let_def not_less split: if_splits)

lemma decideEmployee_basis:
  assumes "decideEmployee q = Allow b p g"
  shows "basisHolds q b p g"
  using decideEmployee_Allow_cases [OF assms]
proof (elim disjE conjE)
  assume "auditRung q = Some (Allow b p g)"
  then show ?thesis by (force simp: auditRung_Some dest: find_SomeD)
next
  assume "participantRung q = Some (Allow b p g)"
  then show ?thesis by (auto simp: participantRung_Some participationAuthority_def)
next
  assume "privateRung q = None" "delegationRung q = Some (Allow b p g)"
  then show ?thesis
    by (force simp: delegationRung_Allow privateRung_None_iff dest: find_SomeD)
next
  assume "privateRung q = None" "grantRung q = Some (Allow b p g)"
  then show ?thesis by (force simp: grantRung_Allow privateRung_None_iff dest: find_SomeD)
qed (auto simp: ownerRung_Some intro: channelRung_basis temporaryRung_basis)

lemma decide_Allow_basis:
  assumes "decide q = Allow b p g"
  shows "a_status (q_actor q) = P_ACTIVE \<and> isKnownAction (q_action q) \<and> basisHolds q b p g"
  using assms decideEmployee_basis [of q b p g] decideCustomer_Allow [of q b p g]
  by (auto simp: decide_def split: if_splits)

text \<open>
  an allow never misreports why it was given. Whatever basis, privileged flag and grant
  reference decide returns, the facts that basis stands for hold of the request: the named grant
  is one the actor holds, it is live, it covers the resource and it carries the action; a
  delegation or role grant also passed the sensitivity segmentation.
\<close>

theorem decide_basis_is_evidence:
  assumes "decide q = Allow b p g"
  shows "a_status (q_actor q) = P_ACTIVE \<and> isKnownAction (q_action q) \<and> basisHolds q b p g"
  using assms by (rule decide_Allow_basis)

section \<open>Customers\<close>

text \<open>
  C13: a customer principal is isolated by kind. Whatever grants, delegations, temporary grants,
  participation or ownership the request carries for them, a customer is allowed exactly one of
  five actions, on a conversation that belongs to them, with sufficient assurance, never on
  INTERNAL content, and always unprivileged under the basis CUSTOMER_OWN.
\<close>

theorem customer_isolation:
  assumes "a_kind (q_actor q) = K_CUSTOMER" and "decide q = Allow b p g"
  shows "b = CUSTOMER_OWN \<and> \<not> p \<and>
     q_action q \<in> {''conversation.read'', ''conversation.reply.customer'',
        ''conversation.attachment.upload'', ''conversation.attachment.download'',
        ''conversation.reopen''} \<and>
     q_targetVisibility q \<noteq> Some INTERNAL \<and>
     r_belongsToActorCustomer (q_resource q) = Some True"
  using assms decideCustomer_Allow [of q b p g]
  by (auto simp: decide_def permitsCustomer_def CUSTOMER_PERMITTED_ACTIONS_def split: if_splits)

section \<open>Privileged actions are always flagged\<close>

lemma privileged_disjoint:
  "set PRIVILEGED_ACTIONS \<inter> set CUSTOMER_PERMITTED_ACTIONS = {}"
  "set PRIVILEGED_ACTIONS \<inter> set OWNER_ACTIONS = {}"
  "set PRIVILEGED_ACTIONS \<inter> set PARTICIPANT_ACTIONS = {}"
  "set PRIVILEGED_ACTIONS \<inter> set INTERNAL_MEMBERSHIP_ACTIONS = {}"
  "set PRIVILEGED_ACTIONS \<inter> set CHANNEL_READ_ACTIONS = {}"
  "set PRIVILEGED_ACTIONS \<inter> set CHANNEL_POST_ACTIONS = {}"
  "set PRIVILEGED_ACTIONS \<inter> set CHANNEL_ADMIN_ACTIONS = {}"
  by (simp_all add: action_sets)

lemma privileged_not_special:
  "''conversation.reply.customer'' \<notin> set PRIVILEGED_ACTIONS"
  "''conversation.message.react'' \<notin> set PRIVILEGED_ACTIONS"
  by (simp_all add: action_sets)

lemma decideChannel_privileged:
  assumes "act \<in> set PRIVILEGED_ACTIONS"
  shows "decideChannel r act live \<noteq> CH_ALLOW"
  using assms privileged_disjoint privileged_not_special
  by (auto simp: decideChannel_def Let_def disjoint_iff split: option.splits)

lemma participation_not_privileged:
  "participationAuthority q \<Longrightarrow> \<not> privilegedAction q"
  using privileged_disjoint privileged_not_special
  by (cases "participantRung q")
    (auto simp: participationAuthority_def participantRung_Some privilegedAction_def disjoint_iff)

lemma basis_privileged:
  assumes "basisHolds q b p g" and "privilegedAction q"
  shows "p"
proof (cases b)
  case PARTICIPANT
  with assms show ?thesis
    using participation_not_privileged [of q]
      decideChannel_privileged [of "q_action q" "q_resource q" "isLiveParticipant q"]
    by (auto simp: channelVerdictOf_def privilegedAction_def)
next
  case CHANNEL_POLICY
  with assms show ?thesis
    using decideChannel_privileged [of "q_action q" "q_resource q" False]
    by (simp add: privilegedAction_def)
qed (use assms privileged_disjoint in
      \<open>auto simp: privilegedAction_def permitsCustomer_def disjoint_iff\<close>)

fun flagged :: "Decision \<Rightarrow> bool" where
  "flagged (Allow _ p _) = p"
| "flagged (Deny _ p) = p"

lemma rungs_deny_flag:
  "channelRung q = Some (Deny r p) \<Longrightarrow> p = privilegedAction q"
  "privateRung q = Some (Deny r p) \<Longrightarrow> p = privilegedAction q"
  "delegationRung q = Some (Deny r p) \<Longrightarrow> p = privilegedAction q"
  "grantRung q = Some (Deny r p) \<Longrightarrow> p = privilegedAction q"
  by (auto simp: channelRung_def privateRung_def delegationRung_def grantRung_def
      temporaryRung_Some split: if_splits option.splits ChannelVerdict.splits)

lemma rungs_never_deny:
  "auditRung q \<noteq> Some (Deny r p)" "ownerRung q \<noteq> Some (Deny r p)"
  "participantRung q \<noteq> Some (Deny r p)" "temporaryRung q \<noteq> Some (Deny r p)"
  using rung_allows [of q "Deny r p"] by auto

lemma decideEmployee_Deny_flag:
  assumes "decideEmployee q = Deny r p"
  shows "p = privilegedAction q"
proof -
  let ?rungs = "[auditRung q, ownerRung q, channelRung q, participantRung q, temporaryRung q,
        privateRung q, delegationRung q, grantRung q]"
  let ?d = "if isLiveParticipant q
          then Deny PARTICIPATION_DOES_NOT_GRANT_ACTION (privilegedAction q)
        else Deny NOT_PARTICIPANT_NO_SCOPE (privilegedAction q)"
  from assms have "firstAnswer ?rungs ?d = Deny r p" by (simp only: decideEmployee_def)
  from firstAnswer_cases [OF this] show ?thesis
  proof (elim disjE conjE)
    assume "Deny r p = ?d"
    then show ?thesis by (simp split: if_splits)
  next
    assume "Some (Deny r p) \<in> set ?rungs"
    then have "channelRung q = Some (Deny r p) \<or> privateRung q = Some (Deny r p) \<or>
        delegationRung q = Some (Deny r p) \<or> grantRung q = Some (Deny r p)"
      using rungs_never_deny [of q r p] by (simp only: set_simps insert_iff empty_iff) metis
    then show ?thesis using rungs_deny_flag [of q r p] by blast
  qed
qed

lemma decideCustomer_flag:
  assumes "privilegedAction q"
  shows "decideCustomer q = Deny CUSTOMER_ACTION_FORBIDDEN True"
  using assms privileged_disjoint(1)
  by (auto simp: decideCustomer_def privilegedAction_def disjoint_iff)

text \<open>
  no exercise of authority escapes the audit. For every one of the six privileged actions,
  whatever the decision is (allowed on any basis, or refused for any reason), it carries the
  privileged flag that drives the audit record.
\<close>

theorem privileged_action_always_flagged:
  assumes "q_action q \<in> set PRIVILEGED_ACTIONS"
  shows "flagged (decide q)"
proof -
  from assms have p: "privilegedAction q" by (simp add: privilegedAction_def)
  from assms have "isKnownAction (q_action q)"
    by (auto simp: isKnownAction_def ACTIONS_def PRIVILEGED_ACTIONS_def)
  moreover have "flagged (decideEmployee q)"
  proof (cases "decideEmployee q")
    case (Allow b f g)
    then show ?thesis using basis_privileged [OF decideEmployee_basis p] by simp
  next
    case (Deny r f)
    then show ?thesis using decideEmployee_Deny_flag p by simp
  qed
  ultimately show ?thesis using p by (simp add: decide_def decideCustomer_flag)
qed

section \<open>Expiry is read from the clock\<close>

text \<open>
  The request with every expired or not-yet-started fact removed: grants, delegations, temporary
  grants and the participation record.
\<close>

definition liveActor :: "Timestamp \<Rightarrow> ActorContext \<Rightarrow> ActorContext" where
  "liveActor t a =
     a\<lparr>a_grants := filter (grantLive t) (a_grants a),
       a_delegations := filter (delegationLive t) (a_delegations a),
       a_temporaryGrants := filter (temporaryLive t) (a_temporaryGrants a)\<rparr>"

definition liveResource :: "Timestamp \<Rightarrow> ResourceContext \<Rightarrow> ResourceContext" where
  "liveResource t r =
     r\<lparr>r_participant :=
        (case r_participant r of
           Some p \<Rightarrow> if isWithinPeriod t (p_effectiveFrom p) (p_effectiveTo p) then Some p else None
         | None \<Rightarrow> None)\<rparr>"

definition liveRequest :: "DecisionRequest \<Rightarrow> DecisionRequest" where
  "liveRequest q =
     q\<lparr>q_actor := liveActor (q_now q) (q_actor q),
       q_resource := liveResource (q_now q) (q_resource q)\<rparr>"

lemma liveActor_simps [simp]:
  "a_principalId (liveActor t a) = a_principalId a"
  "a_kind (liveActor t a) = a_kind a"
  "a_status (liveActor t a) = a_status a"
  "a_teams (liveActor t a) = a_teams a"
  "a_departments (liveActor t a) = a_departments a"
  "a_assurance (liveActor t a) = a_assurance a"
  "a_grants (liveActor t a) = filter (grantLive t) (a_grants a)"
  "a_delegations (liveActor t a) = filter (delegationLive t) (a_delegations a)"
  "a_temporaryGrants (liveActor t a) = filter (temporaryLive t) (a_temporaryGrants a)"
  by (simp_all add: liveActor_def)

lemma liveResource_simps [simp]:
  "r_conversationId (liveResource t r) = r_conversationId r"
  "r_conversationType (liveResource t r) = r_conversationType r"
  "r_caseId (liveResource t r) = r_caseId r"
  "r_owningTeamId (liveResource t r) = r_owningTeamId r"
  "r_owningDepartment (liveResource t r) = r_owningDepartment r"
  "r_currentOwnerId (liveResource t r) = r_currentOwnerId r"
  "r_sensitivity (liveResource t r) = r_sensitivity r"
  "r_belongsToActorCustomer (liveResource t r) = r_belongsToActorCustomer r"
  "r_channel (liveResource t r) = r_channel r"
  by (simp_all add: liveResource_def)

lemma liveRequest_simps [simp]:
  "q_actor (liveRequest q) = liveActor (q_now q) (q_actor q)"
  "q_resource (liveRequest q) = liveResource (q_now q) (q_resource q)"
  "q_action (liveRequest q) = q_action q"
  "q_now (liveRequest q) = q_now q"
  "q_requiredAssurance (liveRequest q) = q_requiredAssurance q"
  "q_targetVisibility (liveRequest q) = q_targetVisibility q"
  "privilegedAction (liveRequest q) = privilegedAction q"
  "isOwner (liveRequest q) = isOwner q"
  by (simp_all add: liveRequest_def privilegedAction_def isOwner_def)

lemma isLiveParticipant_live [simp]: "isLiveParticipant (liveRequest q) = isLiveParticipant q"
  by (auto simp: isLiveParticipant_def liveResource_def split: option.splits)

lemma participant_live:
  "isLiveParticipant q \<Longrightarrow> r_participant (liveResource (q_now q) (q_resource q)) = r_participant (q_resource q)"
  by (auto simp: isLiveParticipant_def liveResource_def split: option.splits)

lemma scopeCovers_live [simp]:
  "scopeCovers k i (liveActor t a) (liveResource t' r) = scopeCovers k i a r"
  by (simp add: scopeCovers_def split: ScopeKind.split option.split)

lemma passesSensitivity_live:
  "passesSensitivity (liveActor t a) (liveResource t' r) t = passesSensitivity a r t"
  by (auto simp: passesSensitivity_def list_ex_iff Let_def)

lemma rungs_live:
  "auditRung (liveRequest q) = auditRung q"
  "ownerRung (liveRequest q) = ownerRung q"
  "temporaryRung (liveRequest q) = temporaryRung q"
  "privateRung (liveRequest q) = privateRung q"
  "participantRung (liveRequest q) = participantRung q"
  "delegationRung (liveRequest q) = delegationRung q"
  "grantRung (liveRequest q) = grantRung q"
proof -
  have a: "auditGrant (liveRequest q) = auditGrant q"
    and t: "temporaryMatches (liveRequest q) = temporaryMatches q"
    and d: "delegationMatches (liveRequest q) = delegationMatches q"
    and g: "grantMatches (liveRequest q) = grantMatches q"
    by (simp_all add: fun_eq_iff auditGrant_def temporaryMatches_def delegationMatches_def
        grantMatches_def)
  have fa: "List.find (auditGrant q) (filter (grantLive (q_now q)) xs) = List.find (auditGrant q) xs"
    and ft: "List.find (temporaryMatches q) (filter (temporaryLive (q_now q)) ts)
          = List.find (temporaryMatches q) ts"
    and fd: "List.find (delegationMatches q) (filter (delegationLive (q_now q)) ds)
          = List.find (delegationMatches q) ds"
    and fg: "List.find (grantMatches q) (filter (grantLive (q_now q)) xs) = List.find (grantMatches q) xs"
    for xs ts ds
    by (rule find_filter_implied,
        simp add: auditGrant_def temporaryMatches_def delegationMatches_def grantMatches_def)+
  show "auditRung (liveRequest q) = auditRung q"
    by (simp add: auditRung_def a fa)
  show "ownerRung (liveRequest q) = ownerRung q" by (simp add: ownerRung_def)
  show "temporaryRung (liveRequest q) = temporaryRung q"
    by (simp add: temporaryRung_def t ft)
  show "privateRung (liveRequest q) = privateRung q" by (simp add: privateRung_def)
  show "participantRung (liveRequest q) = participantRung q"
    by (cases "isLiveParticipant q")
      (simp_all only: participantRung_def liveRequest_simps isLiveParticipant_live
        participant_live liveResource_simps if_True if_False)
  show "delegationRung (liveRequest q) = delegationRung q"
    and "grantRung (liveRequest q) = grantRung q"
    by (simp_all only: delegationRung_def grantRung_def d g fd fg liveRequest_simps
        liveActor_simps passesSensitivity_live)
qed

lemma decideChannel_live:
  "decideChannel (liveResource (q_now q) (q_resource q)) act (isLiveParticipant q) =
   decideChannel (q_resource q) act (isLiveParticipant q)"
  by (cases "isLiveParticipant q") (simp_all add: decideChannel_def participant_live Let_def split: option.split)

lemma channelRung_live: "channelRung (liveRequest q) = channelRung q"
  by (simp only: channelRung_def liveRequest_simps liveResource_simps isLiveParticipant_live
      decideChannel_live rungs_live)

text \<open>
  authority ends by the clock alone. Deleting every grant, delegation, temporary grant and
  participation that is expired or has not started (what a sweep job would do) never changes a
  decision: not the answer, the basis, the reason, the flag or the reference.
\<close>

theorem expired_authority_is_inert: "decide (liveRequest q) = decide q"
  by (simp add: decide_def decideEmployee_def decideCustomer_def rungs_live channelRung_live)

section \<open>Private conversations, sensitivity, administration\<close>

text \<open>
  participation grants that conversation and nothing else, and standing authority cannot
  enter a private one. An employee who is neither a live participant nor the owner of an
  INTERNAL_DIRECT or INTERNAL_GROUP conversation is allowed an action on it only by the audited
  company-wide read or by a temporary grant that names the action, never by a role grant or a
  delegation of any scope, GLOBAL included.
\<close>

theorem private_conversation_closed:
  assumes "a_kind (q_actor q) \<noteq> K_CUSTOMER"
    and "r_conversationType (q_resource q) \<in> {INTERNAL_DIRECT, INTERNAL_GROUP}"
    and "\<not> isLiveParticipant q" and "\<not> isOwner q"
    and "decide q = Allow b p g"
  shows "(b = COMMUNICATION_AUDIT \<and> p \<and> q_action q \<in> set AUDIT_READ_ACTIONS) \<or>
     (b = TEMPORARY_GRANT \<and> (\<exists>t \<in> set (a_temporaryGrants (q_actor q)).
        t_capability t = q_action q \<and> temporaryLive (q_now q) t))"
proof -
  have priv: "isPrivateConversation q"
    using assms(2) by (auto simp: isPrivateConversation_def PARTICIPANT_MANAGED_TYPES_def)
  have h: "basisHolds q b p g" using decide_Allow_basis [OF assms(5)] by simp
  show ?thesis
  proof (cases b)
    case TEMPORARY_GRANT
    with h show ?thesis by (auto simp: temporaryMatches_def)
  qed (use h assms priv in auto)
qed

text \<open>
  sensitivity segmentation. When a role grant or a delegation opens a conversation whose
  class is not ORDINARY, the actor holds, live and covering this very conversation, a grant whose
  role is one of those the class requires; an expired one, a not-yet-started one or one scoped to
  another team does not serve.
\<close>

theorem sensitivity_needs_live_covering_role:
  assumes "decide q = Allow b p g" and "b = SCOPE_GRANT \<or> b = DELEGATION"
    and "r_sensitivity (q_resource q) \<noteq> ORDINARY"
  shows "\<exists>x \<in> set (a_grants (q_actor q)).
     g_role x \<in> set (SENSITIVITY_ROLES (r_sensitivity (q_resource q))) \<and>
     grantLive (q_now q) x \<and>
     scopeCovers (g_scopeKind x) (g_scopeId x) (q_actor q) (q_resource q)"
proof -
  from assms(1,2) have "passesSensitivity (q_actor q) (q_resource q) (q_now q)"
    using decide_Allow_basis [of q b p g] by auto
  moreover have "SENSITIVITY_ROLES (r_sensitivity (q_resource q)) \<noteq> []"
    using assms(3) by (cases "r_sensitivity (q_resource q)") auto
  ultimately show ?thesis by (auto simp: passesSensitivity_def list_ex_iff Let_def)
qed

lemma roleActions_known: "\<forall>a \<in> set (roleActions r). isKnownAction a"
proof (cases "map_of ROLE_ACTIONS r")
  case (Some as)
  then have "(r, as) \<in> set ROLE_ACTIONS" by (rule map_of_SomeD)
  then show ?thesis
    using Some by (auto simp: roleActions_def ROLE_ACTIONS_def isKnownAction_def ACTIONS_def)
qed (simp add: roleActions_def)

text \<open>
  every role in the table grants only actions of the closed vocabulary, and an actor built
  from IAM claims is an employee whose every grant comes from the table: a role the table does
  not name yields a grant of no action at all.
\<close>

theorem claims_grant_only_known_actions:
  "a_kind (toActorContext c) = K_EMPLOYEE \<and>
   (\<forall>g \<in> set (a_grants (toActorContext c)). \<forall>a \<in> set (g_actions g). isKnownAction a) \<and>
   (\<forall>g \<in> set (a_grants (toActorContext c)). g_role g \<notin> fst ` set ROLE_ACTIONS \<longrightarrow> g_actions g = [])"
proof -
  have "roleActions r = []" if "r \<notin> fst ` set ROLE_ACTIONS" for r
    using that by (simp add: roleActions_def map_of_eq_None_iff [THEN iffD2])
  then show ?thesis
    using roleActions_known by (auto simp: toActorContext_def toScopeGrant_def)
qed

section \<open>Administration confers no read\<close>

text \<open>The roles whose action list contains no content read of its own.\<close>

definition nonReadingRoles :: "string list" where
  "nonReadingRoles = [''TEAM_LEAD'', ''COMPLIANCE'', ''LEGAL'', ''ADMIN'']"

lemma nonReadingRoles_actions:
  "r \<in> set nonReadingRoles \<Longrightarrow> ''conversation.read'' \<notin> set (roleActions r)"
  by (auto simp: nonReadingRoles_def roleActions_def ROLE_ACTIONS_def)

lemma find_grantMatches_None:
  "\<forall>g \<in> set (a_grants (q_actor q)). q_action q \<notin> set (g_actions g) \<Longrightarrow>
   List.find (grantMatches q) (a_grants (q_actor q)) = None"
  by (auto simp: find_None_iff grantMatches_def)

text \<open>
  FR-AUTHZ-7. An employee whose actor context was built from claims that hold only
  administrative, lead, compliance or legal roles and no delegation reads a conversation they
  neither own nor take part in (and that no channel policy opens to them) only as a
  communication audit, which is privileged and therefore recorded.
\<close>

theorem administration_confers_no_silent_read:
  assumes "q_actor q = toActorContext c"
    and "\<forall>ra \<in> set (pc_roles c). ra_role ra \<in> set nonReadingRoles"
    and "pc_delegations c = []"
    and "q_action q = ''conversation.read''"
    and "\<not> isOwner q" and "\<not> isLiveParticipant q"
    and "r_conversationType (q_resource q) \<noteq> INTERNAL_CHANNEL"
    and "decide q = Allow b p g"
  shows "b = COMMUNICATION_AUDIT \<and> p"
proof -
  have h: "basisHolds q b p g" and k: "a_kind (q_actor q) = K_EMPLOYEE"
    using decide_Allow_basis [OF assms(8)] assms(1) by (simp_all add: toActorContext_def)
  have ng: "\<not> grantMatches q x" if "x \<in> set (a_grants (q_actor q))" for x
    using that assms(1,2,4) nonReadingRoles_actions
    by (auto simp: toActorContext_def toScopeGrant_def grantMatches_def)
  have e: "a_delegations (q_actor q) = []" "a_temporaryGrants (q_actor q) = []"
    using assms(1,3) by (simp_all add: toActorContext_def)
  show ?thesis
    using h k ng e assms(5,6,7) by (cases b) auto
qed

section \<open>Channels\<close>

lemma channel_actions_content:
  "act \<in> set CHANNEL_READ_ACTIONS \<or> act \<in> set CHANNEL_POST_ACTIONS \<or>
     act = ''conversation.message.react'' \<Longrightarrow>
   decideChannel r act live \<noteq> CH_FALL_THROUGH"
  by (auto simp: decideChannel_def Let_def split: option.splits)

lemma post_not_read:
  "act \<in> set CHANNEL_POST_ACTIONS \<Longrightarrow> act \<notin> set CHANNEL_READ_ACTIONS"
  "''conversation.message.react'' \<notin> set CHANNEL_READ_ACTIONS"
  "''conversation.message.react'' \<notin> set CHANNEL_POST_ACTIONS"
  by (auto simp: CHANNEL_READ_ACTIONS_def CHANNEL_POST_ACTIONS_def)

lemma decideChannel_read:
  "act \<in> set CHANNEL_READ_ACTIONS \<Longrightarrow>
   decideChannel r act live = CH_ALLOW \<longleftrightarrow> (\<exists>f. r_channel r = Some f \<and> channelMayRead f live)"
  by (auto simp: decideChannel_def Let_def split: option.splits)

lemma decideChannel_post:
  "act \<in> set CHANNEL_POST_ACTIONS \<Longrightarrow>
   decideChannel r act live = CH_ALLOW \<longleftrightarrow>
     (\<exists>f. r_channel r = Some f \<and>
        channelMayPost f live (live \<and> isChannelAdminRole (map_option p_role (r_participant r))))"
  using post_not_read by (auto simp: decideChannel_def Let_def split: option.splits)

lemma decideChannel_react:
  "decideChannel r ''conversation.message.react'' live = CH_ALLOW \<longleftrightarrow>
     (\<exists>f. r_channel r = Some f \<and> channelMayRead f live \<and> \<not> cp_archived (c_policy f))"
  using post_not_read by (auto simp: decideChannel_def Let_def split: option.splits)

text \<open>
  on a channel posting requires reading requires seeing, an archived channel accepts
  nothing new, and a channel whose policy did not arrive with the request refuses all content.
\<close>

theorem channel_permissions_nest:
  assumes "post \<in> set CHANNEL_POST_ACTIONS" and "rd \<in> set CHANNEL_READ_ACTIONS"
    and "decideChannel r post live = CH_ALLOW \<or>
         decideChannel r ''conversation.message.react'' live = CH_ALLOW"
  shows "decideChannel r rd live = CH_ALLOW \<and>
     (\<exists>f. r_channel r = Some f \<and> \<not> cp_archived (c_policy f) \<and>
          (c_visibleToActor f \<or> live))"
  using assms
  by (auto simp: decideChannel_read decideChannel_post decideChannel_react channelMayPost_def
      channelMayRead_def channelVisible_def)

text \<open>
  a channel's content is closed to standing authority. Reading, posting or reacting on an
  INTERNAL_CHANNEL is never allowed on the strength of a role grant or a delegation, whatever
  its scope; it takes the channel's policy, ownership, a temporary grant or the audited read.
\<close>

theorem channel_content_closed_to_standing_authority:
  assumes "r_conversationType (q_resource q) = INTERNAL_CHANNEL"
    and "q_action q \<in> set CHANNEL_READ_ACTIONS \<or> q_action q \<in> set CHANNEL_POST_ACTIONS \<or>
         q_action q = ''conversation.message.react''"
    and "decide q = Allow b p g"
  shows "b \<noteq> SCOPE_GRANT \<and> b \<noteq> DELEGATION"
proof (cases "a_kind (q_actor q) = K_CUSTOMER")
  case True
  with assms(3) show ?thesis
    using decideCustomer_Allow [of q b p g] by (auto simp: decide_def split: if_splits)
next
  case False
  with assms(3) have d: "decideEmployee q = Allow b p g"
    by (auto simp: decide_def split: if_splits)
  from assms(1,2) have "channelRung q \<noteq> None"
    using channel_actions_content [of "q_action q" "q_resource q" "isLiveParticipant q"]
    by (cases "decideChannel (q_resource q) (q_action q) (isLiveParticipant q)";
        cases "temporaryRung q") (simp_all add: channelRung_def)
  with decideEmployee_Allow_cases [OF d]
  have "auditRung q = Some (Allow b p g) \<or> ownerRung q = Some (Allow b p g) \<or>
     channelRung q = Some (Allow b p g) \<or> participantRung q = Some (Allow b p g) \<or>
     temporaryRung q = Some (Allow b p g)" by blast
  then show ?thesis
    by (elim disjE) (auto simp: auditRung_Some ownerRung_Some participantRung_Some
        temporaryRung_Some dest!: channelRung_Allow split: if_splits)
qed

section \<open>Announcements\<close>

text \<open>
  being a participant of an announcement lets nobody write in it. For an employee whose only
  connection to an announcement is participation (no ownership, no grant, delegation or
  temporary grant), sending, internal notes and uploads are refused while reading is allowed.
\<close>

theorem announcement_participation_is_read_only:
  assumes "r_conversationType (q_resource q) = INTERNAL_ANNOUNCEMENT"
    and "a_kind (q_actor q) \<noteq> K_CUSTOMER" and "a_status (q_actor q) = P_ACTIVE"
    and "isLiveParticipant q" and "\<not> isOwner q"
    and "a_grants (q_actor q) = []" and "a_delegations (q_actor q) = []"
    and "a_temporaryGrants (q_actor q) = []"
  shows "(q_action q \<in> {''conversation.message.send'', ''conversation.note.internal'',
            ''conversation.attachment.upload''} \<longrightarrow>
         decide q = Deny PARTICIPATION_DOES_NOT_GRANT_ACTION False) \<and>
     (q_action q = ''conversation.read'' \<longrightarrow> decide q = Allow PARTICIPANT False None)"
proof (rule conjI)
  have off: "auditRung q = None" "ownerRung q = None" "channelRung q = None"
    "temporaryRung q = None" "privateRung q = None" "delegationRung q = None" "grantRung q = None"
    using assms by (auto simp: auditRung_def ownerRung_def channelRung_def temporaryRung_def
        privateRung_def delegationRung_def grantRung_def)
  show "q_action q \<in> {''conversation.message.send'', ''conversation.note.internal'',
            ''conversation.attachment.upload''} \<longrightarrow>
         decide q = Deny PARTICIPATION_DOES_NOT_GRANT_ACTION False"
    using assms(1-4) off
    by (auto simp: decide_def decideEmployee_def participantRung_def grantedByParticipationOn_def
        isKnownAction_def ACTIONS_def privilegedAction_def action_sets)
  show "q_action q = ''conversation.read'' \<longrightarrow> decide q = Allow PARTICIPANT False None"
    using assms(1-4) off
    by (auto simp: decide_def decideEmployee_def participantRung_def grantedByParticipationOn_def
        isKnownAction_def ACTIONS_def action_sets)
qed

section \<open>Teams and permissions held in principle\<close>

text \<open>The scopes of the live delegations and grants that carry an action.\<close>

definition liveAuthorities ::
  "ActorContext \<Rightarrow> Action \<Rightarrow> Timestamp \<Rightarrow> (ScopeKind \<times> string option) list" where
  "liveAuthorities a act t =
     map (\<lambda>d. (d_scopeKind d, d_scopeId d))
       (filter (\<lambda>d. act \<in> set (d_capabilities d) \<and> delegationLive t d) (a_delegations a)) @
     map (\<lambda>g. (g_scopeKind g, g_scopeId g))
       (filter (\<lambda>g. act \<in> set (g_actions g) \<and> grantLive t g) (a_grants a))"

lemma liveAuthorities_bex:
  "(\<exists>(k, i) \<in> set (liveAuthorities a act t). P k i) \<longleftrightarrow>
     (\<exists>d \<in> set (a_delegations a). act \<in> set (d_capabilities d) \<and> delegationLive t d \<and>
        P (d_scopeKind d) (d_scopeId d)) \<or>
     (\<exists>g \<in> set (a_grants a). act \<in> set (g_actions g) \<and> grantLive t g \<and>
        P (g_scopeKind g) (g_scopeId g))"
  by (auto simp: liveAuthorities_def)

lemma teamScopeCovers_iff:
  "teamScopeCovers k i a t \<longleftrightarrow>
     k = GLOBAL \<or>
     (k = DEPARTMENT \<and> i = tm_department t \<and> i \<in> Some ` set (a_departments a)) \<or>
     (k = TEAM \<and> i = Some (tm_teamId t) \<and> i \<in> Some ` set (a_teams a))"
  by (auto simp: teamScopeCovers_def split: ScopeKind.splits option.splits)

lemma decideForTeam_allow:
  "allow (decideForTeam q) \<longleftrightarrow>
     isKnownAction (tr_action q) \<and> a_status (tr_actor q) = P_ACTIVE \<and>
     a_kind (tr_actor q) \<noteq> K_CUSTOMER \<and>
     ((\<exists>d \<in> set (a_delegations (tr_actor q)). tr_action q \<in> set (d_capabilities d) \<and>
         delegationLive (tr_now q) d \<and>
         teamScopeCovers (d_scopeKind d) (d_scopeId d) (tr_actor q) (tr_team q)) \<or>
      (\<exists>g \<in> set (a_grants (tr_actor q)). tr_action q \<in> set (g_actions g) \<and>
         grantLive (tr_now q) g \<and>
         teamScopeCovers (g_scopeKind g) (g_scopeId g) (tr_actor q) (tr_team q)))"
  unfolding decideForTeam_def Let_def find_ex by (simp split: option.split)

text \<open>
  a team's queue opens exactly to an active non-customer who holds, live, the action over
  GLOBAL scope, over the team's own department as one of its members, or over the team itself as
  one of its members. In particular a grant over one conversation never opens a queue, and an
  absent department never matches an absent department.
\<close>

theorem team_queue_needs_covering_authority:
  "allow (decideForTeam q) \<longleftrightarrow>
     isKnownAction (tr_action q) \<and> a_status (tr_actor q) = P_ACTIVE \<and>
     a_kind (tr_actor q) \<noteq> K_CUSTOMER \<and>
     (\<exists>(k, i) \<in> set (liveAuthorities (tr_actor q) (tr_action q) (tr_now q)).
        k = GLOBAL \<or>
        (k = DEPARTMENT \<and> i = tm_department (tr_team q) \<and>
           i \<in> Some ` set (a_departments (tr_actor q))) \<or>
        (k = TEAM \<and> i = Some (tm_teamId (tr_team q)) \<and>
           i \<in> Some ` set (a_teams (tr_actor q))))"
  by (simp only: decideForTeam_allow liveAuthorities_bex teamScopeCovers_iff)

lemma holdsAction_iff:
  "holdsAction a act t \<longleftrightarrow>
     isKnownAction act \<and> a_status a = P_ACTIVE \<and> a_kind a \<noteq> K_CUSTOMER \<and>
     liveAuthorities a act t \<noteq> []"
  by (auto simp: holdsAction_def liveAuthorities_def list_ex_iff filter_empty_conv)

text \<open>
  The two rungs of standing authority, and the queue decision, never allow what the actor does
  not hold in principle.
\<close>

lemma standing_allow_holds:
  assumes "decide q = Allow b p g" and "b = SCOPE_GRANT \<or> b = DELEGATION"
  shows "holdsAction (q_actor q) (q_action q) (q_now q)"
proof -
  from decide_Allow_basis [OF assms(1)] assms(2)
  have "liveAuthorities (q_actor q) (q_action q) (q_now q) \<noteq> []"
    by (auto simp: liveAuthorities_def filter_empty_conv grantMatches_def delegationMatches_def)
  moreover have "a_kind (q_actor q) \<noteq> K_CUSTOMER"
    using assms decideCustomer_Allow [of q b p g] by (auto simp: decide_def split: if_splits)
  ultimately show ?thesis using decide_Allow_basis [OF assms(1)] by (simp add: holdsAction_iff)
qed

section \<open>More authority never loses access\<close>

definition addAuthority ::
  "ScopeGrant list \<Rightarrow> DelegationGrant list \<Rightarrow> TemporaryGrant list \<Rightarrow> DecisionRequest \<Rightarrow>
   DecisionRequest" where
  "addAuthority gs ds ts q =
     q\<lparr>q_actor := (q_actor q)\<lparr>a_grants := a_grants (q_actor q) @ gs,
                             a_delegations := a_delegations (q_actor q) @ ds,
                             a_temporaryGrants := a_temporaryGrants (q_actor q) @ ts\<rparr>\<rparr>"

lemma addAuthority_simps [simp]:
  "q_action (addAuthority gs ds ts q) = q_action q"
  "q_resource (addAuthority gs ds ts q) = q_resource q"
  "q_now (addAuthority gs ds ts q) = q_now q"
  "q_requiredAssurance (addAuthority gs ds ts q) = q_requiredAssurance q"
  "q_targetVisibility (addAuthority gs ds ts q) = q_targetVisibility q"
  "a_principalId (q_actor (addAuthority gs ds ts q)) = a_principalId (q_actor q)"
  "a_kind (q_actor (addAuthority gs ds ts q)) = a_kind (q_actor q)"
  "a_status (q_actor (addAuthority gs ds ts q)) = a_status (q_actor q)"
  "a_teams (q_actor (addAuthority gs ds ts q)) = a_teams (q_actor q)"
  "a_departments (q_actor (addAuthority gs ds ts q)) = a_departments (q_actor q)"
  "a_assurance (q_actor (addAuthority gs ds ts q)) = a_assurance (q_actor q)"
  "a_grants (q_actor (addAuthority gs ds ts q)) = a_grants (q_actor q) @ gs"
  "a_delegations (q_actor (addAuthority gs ds ts q)) = a_delegations (q_actor q) @ ds"
  "a_temporaryGrants (q_actor (addAuthority gs ds ts q)) = a_temporaryGrants (q_actor q) @ ts"
  by (simp_all add: addAuthority_def)

lemma addAuthority_facts [simp]:
  "isOwner (addAuthority gs ds ts q) = isOwner q"
  "isLiveParticipant (addAuthority gs ds ts q) = isLiveParticipant q"
  "isPrivateConversation (addAuthority gs ds ts q) = isPrivateConversation q"
  "channelVerdictOf (addAuthority gs ds ts q) = channelVerdictOf q"
  "participationAuthority (addAuthority gs ds ts q) = participationAuthority q"
  "permitsCustomer (addAuthority gs ds ts q) = permitsCustomer q"
  "auditGrant (addAuthority gs ds ts q) = auditGrant q"
  "temporaryMatches (addAuthority gs ds ts q) = temporaryMatches q"
  by (simp_all only: isOwner_def isLiveParticipant_def isPrivateConversation_def
      channelVerdictOf_def participationAuthority_def participantRung_def permitsCustomer_def
      auditGrant_def [abs_def] temporaryMatches_def [abs_def] addAuthority_simps)

lemma addAuthority_scope [simp]:
  "scopeCovers k i (q_actor (addAuthority gs ds ts q)) r = scopeCovers k i (q_actor q) r"
  by (simp only: scopeCovers_def addAuthority_simps)

lemma addAuthority_matches [simp]:
  "delegationMatches (addAuthority gs ds ts q) = delegationMatches q"
  "grantMatches (addAuthority gs ds ts q) = grantMatches q"
  by (simp_all only: delegationMatches_def [abs_def] grantMatches_def [abs_def] addAuthority_simps
      addAuthority_scope)

lemma addAuthority_mono:
  "temporaryAuthority q \<Longrightarrow> temporaryAuthority (addAuthority gs ds ts q)"
  "auditAuthority q \<Longrightarrow> auditAuthority (addAuthority gs ds ts q)"
  "passesSensitivity (q_actor q) r t \<Longrightarrow>
   passesSensitivity (q_actor (addAuthority gs ds ts q)) r t"
  "standingAuthority q \<Longrightarrow> standingAuthority (addAuthority gs ds ts q)"
  by (auto simp: temporaryAuthority_def auditAuthority_def standingAuthority_def
      passesSensitivity_def Let_def)

text \<open>
  granting somebody more never takes access away. Appending role grants, delegations or
  temporary grants to the actor of an allowed request leaves it allowed, although the ladder
  returns early (with a denial at three rungs) and looks at the first matching grant only.
\<close>

theorem more_authority_never_revokes:
  assumes "allow (decide q)"
  shows "allow (decide (addAuthority gs ds ts q))"
proof -
  have e: "permitsEmployee q \<Longrightarrow> permitsEmployee (addAuthority gs ds ts q)"
    unfolding permitsEmployee_def using addAuthority_mono [where gs = gs and ds = ds and ts = ts]
    by (auto split: ChannelVerdict.splits)
  from assms e show ?thesis by (auto simp: decide_permits permits_def)
qed

end
