(* ===== verification/Authz_Witnesses.thy ===== *)
theory Authz_Witnesses
  imports Authz_Props
begin

text \<open>
  Concrete requests (the fixtures of \<open>decide.test.ts\<close>) on which the conditional properties of
  the authorization ladder apply.
\<close>

definition employee :: ActorContext where
  "employee =
     \<lparr>a_principalId = ''emp-1'', a_kind = K_EMPLOYEE, a_status = P_ACTIVE,
      a_teams = [''support''], a_departments = [''service''],
      a_grants = [], a_delegations = [], a_temporaryGrants = [], a_assurance = None\<rparr>"

definition customerConversation :: ResourceContext where
  "customerConversation =
     \<lparr>r_conversationId = ''conv-1'', r_conversationType = CUSTOMER_SERVICE,
      r_caseId = Some ''case-1'', r_owningTeamId = Some ''support'',
      r_owningDepartment = Some ''service'', r_currentOwnerId = Some ''emp-owner'',
      r_customerRef = Some ''CCS:customer:c-1'', r_sensitivity = ORDINARY,
      r_participant = None, r_belongsToActorCustomer = None, r_customerVerifiedAt = None,
      r_channel = None\<rparr>"

definition ask :: "ActorContext \<Rightarrow> string \<Rightarrow> ResourceContext \<Rightarrow> DecisionRequest" where
  "ask a act r =
     \<lparr>q_actor = a, q_action = act, q_resource = r, q_now = ''2026-08-24T10:00:00.000Z'',
      q_requiredAssurance = None, q_targetVisibility = None\<rparr>"

definition roleGrant :: "string \<Rightarrow> Action list \<Rightarrow> ScopeKind \<Rightarrow> string option \<Rightarrow> ScopeGrant" where
  "roleGrant r as k i =
     \<lparr>g_role = r, g_actions = as, g_scopeKind = k, g_scopeId = i,
      g_effectiveFrom = ''2026-08-01T00:00:00.000Z'', g_effectiveTo = None\<rparr>"

definition claimsReader :: ActorContext where
  "claimsReader = employee\<lparr>a_grants :=
     [roleGrant ''CLAIMS'' [''conversation.read''] TEAM (Some ''support'')]\<rparr>"

definition medicalConversation :: ResourceContext where
  "medicalConversation = customerConversation\<lparr>r_sensitivity := MEDICAL\<rparr>"

lemmas fixtures = employee_def customerConversation_def ask_def roleGrant_def claimsReader_def
  medicalConversation_def

lemma medical_read_decision:
  "decide (ask claimsReader ''conversation.read'' medicalConversation) =
     Allow SCOPE_GRANT False (Some ''CLAIMS'')"
  by code_simp

theorem decide_basis_is_evidence_witness:
  "basisHolds (ask claimsReader ''conversation.read'' medicalConversation)
     SCOPE_GRANT False (Some ''CLAIMS'')"
  using decide_basis_is_evidence [OF medical_read_decision] by simp

theorem sensitivity_needs_live_covering_role_witness:
  "\<exists>x \<in> set (a_grants claimsReader). g_role x \<in> set (SENSITIVITY_ROLES MEDICAL)"
proof -
  have "r_sensitivity (q_resource (ask claimsReader ''conversation.read'' medicalConversation))
      \<noteq> ORDINARY" by (simp add: fixtures)
  from sensitivity_needs_live_covering_role [OF medical_read_decision _ this]
  show ?thesis by (auto simp: ask_def medicalConversation_def)
qed

definition customerActor :: ActorContext where
  "customerActor = employee\<lparr>a_kind := K_CUSTOMER, a_assurance := Some VERIFIED_CUSTOMER\<rparr>"

definition ownConversation :: ResourceContext where
  "ownConversation = customerConversation\<lparr>r_belongsToActorCustomer := Some True\<rparr>"

theorem customer_isolation_witness:
  "decide (ask customerActor ''conversation.read'' ownConversation) = Allow CUSTOMER_OWN False None \<and>
   q_targetVisibility (ask customerActor ''conversation.read'' ownConversation) \<noteq> Some INTERNAL"
proof -
  have k: "a_kind (q_actor (ask customerActor ''conversation.read'' ownConversation)) = K_CUSTOMER"
    by (simp add: ask_def customerActor_def)
  have d: "decide (ask customerActor ''conversation.read'' ownConversation) =
      Allow CUSTOMER_OWN False None" by code_simp
  from customer_isolation [OF k d] d show ?thesis by simp
qed

theorem privileged_action_always_flagged_witness:
  "flagged (decide (ask employee ''audit.query'' customerConversation))"
proof (rule privileged_action_always_flagged)
  show "q_action (ask employee ''audit.query'' customerConversation) \<in> set PRIVILEGED_ACTIONS"
    by (simp add: ask_def PRIVILEGED_ACTIONS_def)
qed

definition privateConversation :: ResourceContext where
  "privateConversation = customerConversation
     \<lparr>r_conversationType := INTERNAL_DIRECT, r_caseId := None, r_owningTeamId := None,
      r_owningDepartment := None, r_currentOwnerId := None\<rparr>"

definition auditor :: ActorContext where
  "auditor = employee\<lparr>a_grants :=
     [roleGrant ''ADMIN'' [''privileged.conversation.read''] GLOBAL None]\<rparr>"

theorem private_conversation_closed_witness:
  "decide (ask auditor ''conversation.read'' privateConversation) =
     Allow COMMUNICATION_AUDIT True (Some ''ADMIN'') \<and>
   ''conversation.read'' \<in> set AUDIT_READ_ACTIONS"
proof -
  let ?q = "ask auditor ''conversation.read'' privateConversation"
  have d: "decide ?q = Allow COMMUNICATION_AUDIT True (Some ''ADMIN'')" by code_simp
  have h: "a_kind (q_actor ?q) \<noteq> K_CUSTOMER"
    "r_conversationType (q_resource ?q) \<in> {INTERNAL_DIRECT, INTERNAL_GROUP}"
    "\<not> isLiveParticipant ?q" "\<not> isOwner ?q"
    by (simp_all add: fixtures auditor_def privateConversation_def isLiveParticipant_def isOwner_def)
  from private_conversation_closed [OF h d] d show ?thesis by (simp add: ask_def)
qed

definition adminClaims :: PrincipalClaims where
  "adminClaims =
     \<lparr>pc_principalId = ''emp-1'', pc_status = P_ACTIVE, pc_displayName = ''Admin'',
      pc_roles = [\<lparr>ra_role = ''ADMIN'', ra_scope = \<lparr>s_kind = GLOBAL, s_id = None\<rparr>,
         ra_effectiveFrom = ''2026-08-01T00:00:00.000Z'', ra_effectiveTo = None,
         ra_grantedBy = ''emp-0''\<rparr>],
      pc_teams = [], pc_department = [], pc_delegations = [], pc_sessionVersion = 1\<rparr>"

theorem administration_confers_no_silent_read_witness:
  "decide (ask (toActorContext adminClaims) ''conversation.read'' customerConversation) =
     Allow COMMUNICATION_AUDIT True (Some ''ADMIN'')"
proof -
  let ?q = "ask (toActorContext adminClaims) ''conversation.read'' customerConversation"
  have d: "decide ?q = Allow COMMUNICATION_AUDIT True (Some ''ADMIN'')" by code_simp
  have h: "q_actor ?q = toActorContext adminClaims"
    "\<forall>ra \<in> set (pc_roles adminClaims). ra_role ra \<in> set nonReadingRoles"
    "pc_delegations adminClaims = []" "q_action ?q = ''conversation.read''"
    "\<not> isOwner ?q" "\<not> isLiveParticipant ?q"
    "r_conversationType (q_resource ?q) \<noteq> INTERNAL_CHANNEL"
    by (simp_all add: fixtures adminClaims_def nonReadingRoles_def isOwner_def
        isLiveParticipant_def toActorContext_def)
  from administration_confers_no_silent_read [OF h d] d show ?thesis by simp
qed

theorem claims_grant_only_known_actions_witness:
  "list_all (\<lambda>g. list_all isKnownAction (g_actions g)) (a_grants (toActorContext adminClaims))"
  using claims_grant_only_known_actions [of adminClaims] by (simp add: list_all_iff)

definition openChannel :: ResourceContext where
  "openChannel = privateConversation
     \<lparr>r_conversationType := INTERNAL_CHANNEL,
      r_channel := Some \<lparr>c_policy = \<lparr>cp_visibility = EVERYONE, cp_readAccess = ANYONE_WHO_CAN_SEE,
                                  cp_postAccess = ANYONE_WHO_CAN_READ, cp_archived = False\<rparr>,
                         c_visibleToActor = True\<rparr>\<rparr>"

theorem channel_permissions_nest_witness:
  "decideChannel openChannel ''conversation.read'' False = CH_ALLOW"
proof -
  have h: "''conversation.message.send'' \<in> set CHANNEL_POST_ACTIONS"
    "''conversation.read'' \<in> set CHANNEL_READ_ACTIONS"
    by (simp_all add: CHANNEL_POST_ACTIONS_def CHANNEL_READ_ACTIONS_def)
  have d: "decideChannel openChannel ''conversation.message.send'' False = CH_ALLOW" by code_simp
  from channel_permissions_nest [OF h disjI1 [OF d]] show ?thesis by simp
qed

theorem channel_content_closed_to_standing_authority_witness:
  "decide (ask employee ''conversation.read'' openChannel) = Allow CHANNEL_POLICY False None \<and>
   CHANNEL_POLICY \<noteq> SCOPE_GRANT"
proof -
  let ?q = "ask employee ''conversation.read'' openChannel"
  have d: "decide ?q = Allow CHANNEL_POLICY False None" by code_simp
  have h: "r_conversationType (q_resource ?q) = INTERNAL_CHANNEL"
    "q_action ?q \<in> set CHANNEL_READ_ACTIONS \<or> q_action ?q \<in> set CHANNEL_POST_ACTIONS \<or>
     q_action ?q = ''conversation.message.react''"
    by (simp_all add: ask_def openChannel_def CHANNEL_READ_ACTIONS_def)
  from channel_content_closed_to_standing_authority [OF h d] d show ?thesis by simp
qed

definition announcement :: ResourceContext where
  "announcement = privateConversation
     \<lparr>r_conversationType := INTERNAL_ANNOUNCEMENT,
      r_participant := Some \<lparr>p_role = ''MEMBER'', p_replyAuthority = False,
         p_effectiveFrom = ''2026-08-01T00:00:00.000Z'', p_effectiveTo = None\<rparr>\<rparr>"

theorem announcement_participation_is_read_only_witness:
  "decide (ask employee ''conversation.message.send'' announcement) =
     Deny PARTICIPATION_DOES_NOT_GRANT_ACTION False"
proof -
  let ?q = "ask employee ''conversation.message.send'' announcement"
  have lp: "isLiveParticipant ?q" by code_simp
  have h: "r_conversationType (q_resource ?q) = INTERNAL_ANNOUNCEMENT"
    "a_kind (q_actor ?q) \<noteq> K_CUSTOMER" "a_status (q_actor ?q) = P_ACTIVE"
    by (simp_all add: fixtures announcement_def)
  have e: "\<not> isOwner ?q" "a_grants (q_actor ?q) = []" "a_delegations (q_actor ?q) = []"
    "a_temporaryGrants (q_actor ?q) = []" "q_action ?q = ''conversation.message.send''"
    by (simp_all add: fixtures announcement_def privateConversation_def isOwner_def)
  from announcement_participation_is_read_only [OF h lp e(1-4)] e(5) show ?thesis by simp
qed

theorem more_authority_never_revokes_witness:
  "allow (decide (addAuthority [roleGrant ''AGENT'' [''queue.read''] GLOBAL None] [] []
     (ask claimsReader ''conversation.read'' medicalConversation)))"
  by (rule more_authority_never_revokes) (simp add: medical_read_decision)

end
