(* ===== verification/Service_Case.thy ===== *)
theory Service_Case
  imports Primitives
begin

text \<open>
  The customer-service lifecycle: \<open>packages/service-case/src/lifecycle.ts\<close> (the transition table
  and its decision), \<open>reopen.ts\<close> (the reopen window) and \<open>customer-vocabulary.ts\<close> (the words a
  customer may see). Instants of \<open>reopen.ts\<close> are milliseconds since the epoch, which is what
  \<open>Date.parse\<close> returns and what the code does its arithmetic on.
\<close>

section \<open>The transition table (lifecycle.ts)\<close>

datatype LifecycleActor = L_CUSTOMER | L_OWNER | L_LEAD | L_SYSTEM

record TransitionRule =
  tr_from :: ConversationState
  tr_to :: ConversationState
  tr_actors :: "LifecycleActor list"
  tr_reasonRequired :: bool
  tr_notifiesCustomer :: bool
  tr_audited :: bool

definition row ::
  "ConversationState \<Rightarrow> ConversationState \<Rightarrow> LifecycleActor list \<Rightarrow> bool \<Rightarrow> bool \<Rightarrow> bool \<Rightarrow>
   TransitionRule" where
  "row f t as rr nc au =
     \<lparr>tr_from = f, tr_to = t, tr_actors = as, tr_reasonRequired = rr,
      tr_notifiesCustomer = nc, tr_audited = au\<rparr>"

definition TRANSITIONS :: "TransitionRule list" where
  "TRANSITIONS =
    [row NEW QUEUED [L_SYSTEM] False True True,
     row NEW ASSIGNED [L_SYSTEM, L_OWNER, L_LEAD] False False True,
     row QUEUED ASSIGNED [L_OWNER, L_LEAD, L_SYSTEM] False False True,
     row ASSIGNED ACTIVE [L_OWNER] False True False,
     row ACTIVE WAITING_CUSTOMER [L_SYSTEM, L_OWNER] False False False,
     row WAITING_CUSTOMER ACTIVE [L_CUSTOMER] False False False,
     row ACTIVE WAITING_INTERNAL [L_SYSTEM, L_OWNER] False False False,
     row WAITING_INTERNAL ACTIVE [L_SYSTEM, L_OWNER] False False False,
     row ACTIVE RESOLVED [L_OWNER, L_LEAD] True True True,
     row WAITING_CUSTOMER RESOLVED [L_OWNER, L_LEAD] True True True,
     row WAITING_INTERNAL RESOLVED [L_OWNER, L_LEAD] True True True,
     row RESOLVED ACTIVE [L_CUSTOMER, L_OWNER, L_LEAD] False True True,
     row RESOLVED CLOSED [L_SYSTEM] False False True]"

datatype TransitionRefusal =
    NOT_A_TRANSITION
  | ACTOR_NOT_PERMITTED
  | REASON_REQUIRED
  | CONVERSATION_IS_CLOSED
  | ALREADY_IN_STATE

record TransitionRequest =
  rq_from :: ConversationState
  rq_to :: ConversationState
  rq_actor :: LifecycleActor
  rq_reason :: "string option"
  rq_staffInitiated :: "bool option"

definition isLifecycleBearing :: "ConversationType \<Rightarrow> bool" where
  "isLifecycleBearing ct \<longleftrightarrow> ct = CUSTOMER_SERVICE"

definition needsReason :: "TransitionRequest \<Rightarrow> TransitionRule \<Rightarrow> bool" where
  "needsReason rq rule =
     (if tr_from rule = RESOLVED \<and> tr_to rule = ACTIVE
        then rq_staffInitiated rq = Some True
      else tr_reasonRequired rule)"

definition transition :: "TransitionRequest \<Rightarrow> TransitionRefusal + TransitionRule" where
  "transition rq =
     (if rq_from rq = rq_to rq then Inl ALREADY_IN_STATE
      else if rq_from rq = CLOSED then Inl CONVERSATION_IS_CLOSED
      else case List.find (\<lambda>r. tr_from r = rq_from rq \<and> tr_to r = rq_to rq) TRANSITIONS of
        None \<Rightarrow> Inl NOT_A_TRANSITION
      | Some rule \<Rightarrow>
          if rq_actor rq \<notin> set (tr_actors rule) then Inl ACTOR_NOT_PERMITTED
          else if needsReason rq rule \<and>
                  trim (case rq_reason rq of Some s \<Rightarrow> s | None \<Rightarrow> []) = []
            then Inl REASON_REQUIRED
          else Inr rule)"

text \<open>\<open>[...new Set(TRANSITIONS.map(r => r.from))].filter(s => s !== 'RESOLVED')\<close>.\<close>

definition OPEN_STATES :: "ConversationState list" where
  "OPEN_STATES =
     filter (\<lambda>s. s \<noteq> RESOLVED) (jsSet (map tr_from TRANSITIONS))"

definition isTerminal :: "ConversationState \<Rightarrow> bool" where
  "isTerminal s \<longleftrightarrow> s = CLOSED"

section \<open>Reopening (reopen.ts)\<close>

record ReopenPolicy =
  windowSeconds :: int

record ResolvedConversation =
  rc_conversationId :: UUID
  rc_caseId :: "UUID option"
  rc_resolvedAt :: "int option"
  rc_ownerId :: "UUID option"

datatype ReopenDecision =
    REOPEN_SAME_THREAD UUID "UUID option"
  | NEW_CONVERSATION_SAME_CASE UUID "UUID option"
  | STILL_OPEN UUID

definition reopenWindowExpiresAt :: "int \<Rightarrow> ReopenPolicy \<Rightarrow> int" where
  "reopenWindowExpiresAt resolvedAt pol = resolvedAt + windowSeconds pol * 1000"

definition decideReopen :: "ResolvedConversation \<Rightarrow> ReopenPolicy \<Rightarrow> int \<Rightarrow> ReopenDecision" where
  "decideReopen c pol at =
     (case rc_resolvedAt c of
        None \<Rightarrow> STILL_OPEN (rc_conversationId c)
      | Some resolvedAt \<Rightarrow>
          let expiresAt = resolvedAt + windowSeconds pol * 1000
          in if at < resolvedAt \<or> at < expiresAt
               then REOPEN_SAME_THREAD (rc_conversationId c) (rc_ownerId c)
             else NEW_CONVERSATION_SAME_CASE (rc_conversationId c) (rc_caseId c))"

section \<open>The customer's words (customer-vocabulary.ts)\<close>

datatype CustomerVisibleStatus = RECEIVED | BEING_LOOKED_AT | WAITING_FOR_YOU | CUST_RESOLVED

fun CUSTOMER_STATUS :: "ConversationState \<Rightarrow> CustomerVisibleStatus" where
  "CUSTOMER_STATUS NEW = RECEIVED"
| "CUSTOMER_STATUS QUEUED = RECEIVED"
| "CUSTOMER_STATUS ASSIGNED = BEING_LOOKED_AT"
| "CUSTOMER_STATUS ACTIVE = BEING_LOOKED_AT"
| "CUSTOMER_STATUS WAITING_INTERNAL = BEING_LOOKED_AT"
| "CUSTOMER_STATUS WAITING_CUSTOMER = WAITING_FOR_YOU"
| "CUSTOMER_STATUS RESOLVED = CUST_RESOLVED"
| "CUSTOMER_STATUS CLOSED = CUST_RESOLVED"

fun stateName :: "ConversationState \<Rightarrow> string" where
  "stateName NEW = ''NEW''"
| "stateName QUEUED = ''QUEUED''"
| "stateName ASSIGNED = ''ASSIGNED''"
| "stateName ACTIVE = ''ACTIVE''"
| "stateName WAITING_CUSTOMER = ''WAITING_CUSTOMER''"
| "stateName WAITING_INTERNAL = ''WAITING_INTERNAL''"
| "stateName RESOLVED = ''RESOLVED''"
| "stateName CLOSED = ''CLOSED''"

text \<open>\<open>Object.keys(CUSTOMER_STATUS)\<close>, in the order of the record.\<close>

definition CUSTOMER_STATUS_KEYS :: "ConversationState list" where
  "CUSTOMER_STATUS_KEYS =
     [NEW, QUEUED, ASSIGNED, ACTIVE, WAITING_INTERNAL, WAITING_CUSTOMER, RESOLVED, CLOSED]"

text \<open>The column value is a string or null; a string outside \<open>KNOWN_STATES\<close> is unrecognised.\<close>

definition toCustomerStatus :: "string option \<Rightarrow> CustomerVisibleStatus" where
  "toCustomerStatus state =
     (case state of
        None \<Rightarrow> RECEIVED
      | Some s \<Rightarrow>
          (case List.find (\<lambda>k. stateName k = s) CUSTOMER_STATUS_KEYS of
             Some k \<Rightarrow> CUSTOMER_STATUS k
           | None \<Rightarrow> RECEIVED))"

definition internalStatesFor :: "CustomerVisibleStatus \<Rightarrow> ConversationState list" where
  "internalStatesFor st = filter (\<lambda>k. CUSTOMER_STATUS k = st) CUSTOMER_STATUS_KEYS"

section \<open>The lifecycle as a state machine\<close>

text \<open>
  A step of a conversation is a request the decision permits. The actor, reason and flag are the
  environment's choice, so the machine is a relation.
\<close>

inductive lifecycle_step :: "ConversationState \<Rightarrow> ConversationState \<Rightarrow> bool" where
  permitted: "transition rq = Inr rule \<Longrightarrow> lifecycle_step (rq_from rq) (rq_to rq)"

inductive lifecycle_reach :: "ConversationState \<Rightarrow> ConversationState \<Rightarrow> bool" where
  here: "lifecycle_reach s s"
| move: "lifecycle_step s t \<Longrightarrow> lifecycle_reach t u \<Longrightarrow> lifecycle_reach s u"

inductive_cases lifecycle_stepE: "lifecycle_step s t"

lemma TRANSITIONS_row:
  "r \<in> set TRANSITIONS \<Longrightarrow> tr_from r \<noteq> CLOSED \<and> tr_from r \<noteq> tr_to r \<and> tr_actors r \<noteq> []"
  by (auto simp: TRANSITIONS_def row_def)

lemma transition_Inr:
  "transition rq = Inr rule \<longleftrightarrow>
     rq_from rq \<noteq> rq_to rq \<and> rq_from rq \<noteq> CLOSED \<and>
     List.find (\<lambda>r. tr_from r = rq_from rq \<and> tr_to r = rq_to rq) TRANSITIONS = Some rule \<and>
     rq_actor rq \<in> set (tr_actors rule) \<and>
     (needsReason rq rule \<longrightarrow> trim (case rq_reason rq of Some s \<Rightarrow> s | None \<Rightarrow> []) \<noteq> [])"
  by (auto simp: transition_def split: option.splits)

lemma TRANSITIONS_functional:
  "r \<in> set TRANSITIONS \<Longrightarrow>
   List.find (\<lambda>x. tr_from x = tr_from r \<and> tr_to x = tr_to r) TRANSITIONS = Some r"
  unfolding TRANSITIONS_def by (simp add: row_def, elim disjE) simp_all

text \<open>The relation is exactly the table: any row can be taken, with a reason given.\<close>

definition fullRequest :: "TransitionRule \<Rightarrow> TransitionRequest" where
  "fullRequest r =
     \<lparr>rq_from = tr_from r, rq_to = tr_to r, rq_actor = hd (tr_actors r),
      rq_reason = Some ''x'', rq_staffInitiated = None\<rparr>"

lemma transition_fullRequest:
  "r \<in> set TRANSITIONS \<Longrightarrow> transition (fullRequest r) = Inr r"
  using TRANSITIONS_row [of r] TRANSITIONS_functional [of r]
  by (simp add: transition_Inr fullRequest_def trim_x)

lemma lifecycle_step_iff:
  "lifecycle_step s t \<longleftrightarrow> (\<exists>r \<in> set TRANSITIONS. tr_from r = s \<and> tr_to r = t)"
proof
  assume "lifecycle_step s t"
  then show "\<exists>r \<in> set TRANSITIONS. tr_from r = s \<and> tr_to r = t"
    by (auto elim!: lifecycle_stepE simp: transition_Inr find_ex)
next
  assume "\<exists>r \<in> set TRANSITIONS. tr_from r = s \<and> tr_to r = t"
  then obtain r where r: "r \<in> set TRANSITIONS" "tr_from r = s" "tr_to r = t" by blast
  from permitted [OF transition_fullRequest [OF r(1)]] r(2,3)
  show "lifecycle_step s t" by (simp add: fullRequest_def)
qed

section \<open>Guarantees of the lifecycle\<close>

text \<open>
  the decision permits exactly the rows of the table, to exactly the actors the row names,
  and with a non-blank reason exactly where one is required: always on a row whose column says
  so, and on the reopen row when the reopen is staff-initiated.
\<close>

theorem transition_permitted_iff:
  "transition rq = Inr rule \<longleftrightarrow>
     rule \<in> set TRANSITIONS \<and> tr_from rule = rq_from rq \<and> tr_to rule = rq_to rq \<and>
     rq_actor rq \<in> set (tr_actors rule) \<and>
     (tr_reasonRequired rule \<or>
        (rq_from rq = RESOLVED \<and> rq_to rq = ACTIVE \<and> rq_staffInitiated rq = Some True) \<longrightarrow>
      (\<exists>s. rq_reason rq = Some s \<and> trim s \<noteq> []))"
proof -
  have found: "List.find (\<lambda>r. tr_from r = rq_from rq \<and> tr_to r = rq_to rq) TRANSITIONS = Some rule
      \<longleftrightarrow> rule \<in> set TRANSITIONS \<and> tr_from rule = rq_from rq \<and> tr_to rule = rq_to rq"
    using TRANSITIONS_functional [of rule] by (auto dest: find_SomeD)
  have reopen_row: "\<not> tr_reasonRequired rule"
    if "rule \<in> set TRANSITIONS" "tr_from rule = RESOLVED" "tr_to rule = ACTIVE"
    using that by (auto simp: TRANSITIONS_def row_def)
  have blank: "trim (case r of Some s \<Rightarrow> s | None \<Rightarrow> []) \<noteq> [] \<longleftrightarrow> (\<exists>s. r = Some s \<and> trim s \<noteq> [])"
    for r by (cases r) (simp_all add: trim_def)
  show ?thesis
    unfolding transition_Inr found blank needsReason_def
    using TRANSITIONS_row [of rule] reopen_row by auto
qed

lemma lifecycle_step_code:
  "lifecycle_step s t \<longleftrightarrow> list_ex (\<lambda>r. tr_from r = s \<and> tr_to r = t) TRANSITIONS"
  by (simp add: lifecycle_step_iff list_ex_iff)

lemma lifecycle_reach_step: "lifecycle_step s t \<Longrightarrow> lifecycle_reach s t"
  by (blast intro: lifecycle_reach.intros)

lemma lifecycle_reach_trans: "lifecycle_reach s t \<Longrightarrow> lifecycle_reach t u \<Longrightarrow> lifecycle_reach s u"
  by (induction rule: lifecycle_reach.induct) (auto intro: lifecycle_reach.intros)

lemma reach_closed_steps:
  "lifecycle_step RESOLVED CLOSED" "lifecycle_step ACTIVE RESOLVED"
  "lifecycle_step ASSIGNED ACTIVE" "lifecycle_step QUEUED ASSIGNED" "lifecycle_step NEW ASSIGNED"
  "lifecycle_step WAITING_CUSTOMER RESOLVED" "lifecycle_step WAITING_INTERNAL RESOLVED"
  by (simp_all add: lifecycle_step_code TRANSITIONS_def row_def)

lemma closed_no_step: "\<not> lifecycle_step CLOSED t"
  by (auto simp: lifecycle_step_iff dest: TRANSITIONS_row)

lemma closed_reach: "lifecycle_reach CLOSED t \<Longrightarrow> t = CLOSED"
  by (erule lifecycle_reach.cases) (auto simp: closed_no_step)

text \<open>
  no conversation is stuck and none is revived. From every state a permitted sequence of
  transitions leads to CLOSED, and from CLOSED nothing but CLOSED is ever reached.
\<close>

theorem lifecycle_always_can_close:
  "lifecycle_reach s CLOSED \<and> (lifecycle_reach CLOSED t \<longleftrightarrow> t = CLOSED)"
proof
  have r: "lifecycle_reach RESOLVED CLOSED" by (rule lifecycle_reach_step) (rule reach_closed_steps)
  note st = reach_closed_steps [THEN lifecycle_reach_step]
  have a: "lifecycle_reach ACTIVE CLOSED" using st(2) r by (rule lifecycle_reach_trans)
  have b: "lifecycle_reach ASSIGNED CLOSED" using st(3) a by (rule lifecycle_reach_trans)
  show "lifecycle_reach s CLOSED"
    by (cases s) (use r a b st in \<open>blast intro: lifecycle_reach_trans lifecycle_reach.here\<close>)+
  show "lifecycle_reach CLOSED t \<longleftrightarrow> t = CLOSED"
    by (auto dest: closed_reach intro: lifecycle_reach.here)
qed

text \<open>A run is the list of states a conversation passes through.\<close>

fun lifecycle_run :: "ConversationState \<Rightarrow> ConversationState list \<Rightarrow> bool" where
  "lifecycle_run s [] = True"
| "lifecycle_run s (t # ts) = (lifecycle_step s t \<and> lifecycle_run t ts)"

lemma before_active_step:
  "lifecycle_step s t \<Longrightarrow> s \<in> {NEW, QUEUED, ASSIGNED} \<Longrightarrow> t \<noteq> ACTIVE \<Longrightarrow>
   t \<in> {NEW, QUEUED, ASSIGNED}"
  by (auto simp: lifecycle_step_code TRANSITIONS_def row_def)

lemma before_active_run:
  "lifecycle_run s ts \<Longrightarrow> s \<in> {NEW, QUEUED, ASSIGNED} \<Longrightarrow> ACTIVE \<notin> set ts \<Longrightarrow>
   set ts \<subseteq> {NEW, QUEUED, ASSIGNED}"
proof (induction ts arbitrary: s)
  case (Cons t ts)
  then have "t \<in> {NEW, QUEUED, ASSIGNED}" by (auto dest: before_active_step)
  with Cons show ?case by auto
qed simp

theorem transition_permitted_iff_witness:
  "\<exists>rule. transition \<lparr>rq_from = RESOLVED, rq_to = ACTIVE, rq_actor = L_LEAD,
     rq_reason = Some ''reopened after complaint'', rq_staffInitiated = Some True\<rparr> = Inr rule \<and>
     rule \<in> set TRANSITIONS"
proof -
  let ?rq = "\<lparr>rq_from = RESOLVED, rq_to = ACTIVE, rq_actor = L_LEAD,
     rq_reason = Some ''reopened after complaint'', rq_staffInitiated = Some True\<rparr>"
  have "case transition ?rq of Inr _ \<Rightarrow> True | Inl _ \<Rightarrow> False" by code_simp
  then obtain rule where "transition ?rq = Inr rule" by (auto split: sum.splits)
  with transition_permitted_iff [of ?rq rule] show ?thesis by blast
qed

text \<open>
  nothing is resolved that was never answered. Every run of the lifecycle that starts at
  intake and reaches RESOLVED (or CLOSED) has passed through ACTIVE, the state only the owner's
  own reply enters; there is no shortcut around the advisor.
\<close>

theorem resolution_passes_through_active:
  assumes "lifecycle_run NEW ts" and "RESOLVED \<in> set ts \<or> CLOSED \<in> set ts"
  shows "ACTIVE \<in> set ts"
  using before_active_run [OF assms(1)] assms(2) by auto

theorem resolution_passes_through_active_witness:
  "ACTIVE \<in> set [QUEUED, ASSIGNED, ACTIVE, RESOLVED]"
  by (rule resolution_passes_through_active)
    (simp_all add: lifecycle_step_code TRANSITIONS_def row_def)

lemma OPEN_STATES_eq:
  "OPEN_STATES = [NEW, QUEUED, ASSIGNED, ACTIVE, WAITING_CUSTOMER, WAITING_INTERNAL]"
  by code_simp

text \<open>
  a state is open work exactly when it is neither RESOLVED nor terminal, and the customer is
  told RESOLVED exactly for the states that are not open work.
\<close>

theorem open_states_and_customer_word:
  "(s \<in> set OPEN_STATES \<longleftrightarrow> s \<noteq> RESOLVED \<and> \<not> isTerminal s) \<and>
   (s \<in> set OPEN_STATES \<longleftrightarrow> toCustomerStatus (Some (stateName s)) \<noteq> CUST_RESOLVED)"
  by (cases s)
    (simp_all add: OPEN_STATES_eq isTerminal_def toCustomerStatus_def CUSTOMER_STATUS_KEYS_def)

lemma stateName_inj: "stateName a = stateName b \<Longrightarrow> a = b"
  by (cases a; cases b) simp_all

lemma CUSTOMER_STATUS_KEYS_total: "k \<in> set CUSTOMER_STATUS_KEYS"
  by (cases k) (simp_all add: CUSTOMER_STATUS_KEYS_def)

lemma toCustomerStatus_known: "toCustomerStatus (Some (stateName k)) = CUSTOMER_STATUS k"
proof -
  obtain k' where k': "List.find (\<lambda>x. stateName x = stateName k) CUSTOMER_STATUS_KEYS = Some k'"
    using find_SomeI_ex [of CUSTOMER_STATUS_KEYS "\<lambda>x. stateName x = stateName k"]
      CUSTOMER_STATUS_KEYS_total [of k] by blast
  then have "k' = k" by (auto dest!: find_SomeD intro: stateName_inj)
  with k' show ?thesis by (simp add: toCustomerStatus_def)
qed

lemma toCustomerStatus_unknown: "s \<notin> range stateName \<Longrightarrow> toCustomerStatus (Some s) = RECEIVED"
proof -
  assume "s \<notin> range stateName"
  then have "List.find (\<lambda>k. stateName k = s) CUSTOMER_STATUS_KEYS = None"
    by (auto simp: find_None_iff)
  then show ?thesis by (simp add: toCustomerStatus_def)
qed

text \<open>
  the customer is blamed for a delay only when the column says WAITING_CUSTOMER, exactly;
  waiting on a colleague, a misspelt state, an unknown state or a null never shows as
  WAITING_FOR_YOU, and what is not recognised claims no more than RECEIVED.
\<close>

theorem waiting_for_you_only_when_waiting_customer:
  "(toCustomerStatus col = WAITING_FOR_YOU \<longleftrightarrow> col = Some ''WAITING_CUSTOMER'') \<and>
   (\<forall>s. col = Some s \<and> s \<notin> range stateName \<longrightarrow> toCustomerStatus col = RECEIVED) \<and>
   toCustomerStatus None = RECEIVED"
proof -
  have "toCustomerStatus col = WAITING_FOR_YOU \<longleftrightarrow> col = Some ''WAITING_CUSTOMER''"
  proof (cases col)
    case (Some s)
    show ?thesis
    proof (cases "s \<in> range stateName")
      case True
      then obtain k where k: "s = stateName k" by blast
      show ?thesis using Some k toCustomerStatus_known [of k] by (cases k) simp_all
    next
      case False
      then have "s \<noteq> stateName WAITING_CUSTOMER" by blast
      with Some False show ?thesis by (simp add: toCustomerStatus_unknown)
    qed
  qed (simp add: toCustomerStatus_def)
  moreover have "toCustomerStatus None = RECEIVED" by (simp add: toCustomerStatus_def)
  ultimately show ?thesis by (auto simp: toCustomerStatus_unknown)
qed

theorem waiting_for_you_only_when_waiting_customer_witness:
  "toCustomerStatus (Some ''AWAITING_CUSTOMER'') = RECEIVED"
proof -
  have "''AWAITING_CUSTOMER'' \<noteq> stateName s" for s by (cases s) simp_all
  then have "''AWAITING_CUSTOMER'' \<notin> range stateName" by auto
  with waiting_for_you_only_when_waiting_customer [of "Some ''AWAITING_CUSTOMER''"]
  show ?thesis by blast
qed

text \<open>
  the reopen window is the half-open interval that ends where reopenWindowExpiresAt says. A
  reply to a resolved conversation before that instant reopens the same thread to the same owner;
  at the instant itself or later (with a non-negative window) it opens a new conversation on the
  same case.
\<close>

theorem reopen_window_half_open:
  assumes "0 \<le> windowSeconds pol" and "rc_resolvedAt c = Some r"
  shows "decideReopen c pol at =
     (if at < reopenWindowExpiresAt r pol
        then REOPEN_SAME_THREAD (rc_conversationId c) (rc_ownerId c)
      else NEW_CONVERSATION_SAME_CASE (rc_conversationId c) (rc_caseId c))"
  using assms by (simp add: decideReopen_def reopenWindowExpiresAt_def Let_def)

theorem reopen_window_half_open_witness:
  "decideReopen \<lparr>rc_conversationId = ''c'', rc_caseId = Some ''k'', rc_resolvedAt = Some 1000,
      rc_ownerId = Some ''o''\<rparr> \<lparr>windowSeconds = 7\<rparr> 8000 = NEW_CONVERSATION_SAME_CASE ''c'' (Some ''k'')"
proof -
  let ?c = "\<lparr>rc_conversationId = ''c'', rc_caseId = Some ''k'', rc_resolvedAt = Some 1000,
      rc_ownerId = Some ''o''\<rparr>"
  have "0 \<le> windowSeconds \<lparr>windowSeconds = 7\<rparr>" "rc_resolvedAt ?c = Some 1000" by simp_all
  from reopen_window_half_open [OF this, of 8000] show ?thesis
    by (simp add: reopenWindowExpiresAt_def)
qed

end
