(* ===== verification/Mentions.thy ===== *)
theory Mentions
  imports Complex_Main Prelude
begin

text \<open>
  Structured mentions: \<open>packages/conversation-domain/src/mentions.ts\<close>. Offsets and lengths come
  from a browser as JavaScript numbers, so they are rationals here and the code's
  \<open>Number.isInteger\<close> test is a real test. A message body is a list of characters, its length
  the number of UTF-16 units the code counts.
\<close>

datatype Mention =
    MentionPrincipal UUID rat rat
  | MentionAll rat rat

fun m_offset :: "Mention \<Rightarrow> rat" where
  "m_offset (MentionPrincipal _ off _) = off"
| "m_offset (MentionAll off _) = off"

fun m_length :: "Mention \<Rightarrow> rat" where
  "m_length (MentionPrincipal _ _ len) = len"
| "m_length (MentionAll _ len) = len"

definition m_end :: "Mention \<Rightarrow> rat" where
  "m_end m = m_offset m + m_length m"

datatype MentionFailure =
    MENTION_OUT_OF_RANGE
  | MENTION_OVERLAPS
  | MENTION_NOT_A_PARTICIPANT
  | MENTION_ALL_NOT_PERMITTED
  | TOO_MANY_MENTIONS

definition MAX_MENTIONS :: nat where
  "MAX_MENTIONS = 50"

definition isInteger :: "rat \<Rightarrow> bool" where
  "isInteger x \<longleftrightarrow> of_int \<lfloor>x\<rfloor> = x"

definition mentionInRange :: "string \<Rightarrow> Mention \<Rightarrow> bool" where
  "mentionInRange body m \<longleftrightarrow>
     \<not> (\<not> isInteger (m_offset m) \<or> \<not> isInteger (m_length m) \<or>
        m_offset m < 0 \<or> m_length m \<le> 0 \<or>
        m_offset m + m_length m > of_nat (length body))"

text \<open>The loop over the sorted mentions, with \<open>previousEnd\<close> as its state.\<close>

fun checkMentions ::
  "string \<Rightarrow> string list \<Rightarrow> bool \<Rightarrow> rat \<Rightarrow> Mention list \<Rightarrow> MentionFailure option" where
  "checkMentions body participantIds allowAll previousEnd [] = None"
| "checkMentions body participantIds allowAll previousEnd (m # ms) =
     (if \<not> mentionInRange body m then Some MENTION_OUT_OF_RANGE
      else if m_offset m < previousEnd then Some MENTION_OVERLAPS
      else (case m of
          MentionAll _ _ \<Rightarrow>
            if \<not> allowAll then Some MENTION_ALL_NOT_PERMITTED
            else checkMentions body participantIds allowAll (m_end m) ms
        | MentionPrincipal p _ _ \<Rightarrow>
            if p \<notin> set participantIds then Some MENTION_NOT_A_PARTICIPANT
            else checkMentions body participantIds allowAll (m_end m) ms))"

definition validateMentions ::
  "Mention list \<Rightarrow> string \<Rightarrow> string list \<Rightarrow> bool \<Rightarrow> MentionFailure + Mention list" where
  "validateMentions mentions body participantIds allowAll =
     (if mentions = [] then Inr []
      else if length mentions > MAX_MENTIONS then Inl TOO_MANY_MENTIONS
      else
        let sorted_ms = sort_key m_offset mentions
        in case checkMentions body participantIds allowAll (-1) sorted_ms of
             Some f \<Rightarrow> Inl f
           | None \<Rightarrow> Inr sorted_ms)"

definition mentionTargets :: "string list \<Rightarrow> Mention \<Rightarrow> string list" where
  "mentionTargets participantIds m =
     (case m of MentionAll _ _ \<Rightarrow> participantIds | MentionPrincipal p _ _ \<Rightarrow> [p])"

definition mentionRecipients :: "Mention list \<Rightarrow> string list \<Rightarrow> string \<Rightarrow> string list" where
  "mentionRecipients mentions participantIds senderId =
     filter (\<lambda>p. p \<noteq> senderId)
       (jsSet (concat (map (mentionTargets participantIds) mentions)))"

section \<open>What a validated list of mentions is\<close>

fun nonOverlapping :: "Mention list \<Rightarrow> bool" where
  "nonOverlapping (m # m' # ms) \<longleftrightarrow> m_end m \<le> m_offset m' \<and> nonOverlapping (m' # ms)"
| "nonOverlapping _ = True"

definition mentionAllowed :: "string list \<Rightarrow> bool \<Rightarrow> Mention \<Rightarrow> bool" where
  "mentionAllowed ids allowAll m =
     (case m of MentionAll _ _ \<Rightarrow> allowAll | MentionPrincipal p _ _ \<Rightarrow> p \<in> set ids)"

lemma nonOverlapping_Cons:
  "nonOverlapping (m # ms) \<longleftrightarrow> (ms = [] \<or> m_end m \<le> m_offset (hd ms)) \<and> nonOverlapping ms"
  by (cases ms) auto

lemma checkMentions_None:
  "checkMentions body ids allowAll e ms = None \<longleftrightarrow>
     (\<forall>m \<in> set ms. mentionInRange body m \<and> mentionAllowed ids allowAll m) \<and>
     nonOverlapping ms \<and> (ms = [] \<or> e \<le> m_offset (hd ms))"
proof (induction ms arbitrary: e)
  case (Cons m ms)
  show ?case
    using Cons.IH
    by (cases m; cases allowAll) (simp_all add: nonOverlapping_Cons mentionAllowed_def not_less, blast+)
qed simp

lemma nonOverlapping_sorted:
  "nonOverlapping ms \<Longrightarrow> \<forall>m \<in> set ms. 0 \<le> m_length m \<Longrightarrow> sorted (map m_offset ms)"
proof (induction ms rule: nonOverlapping.induct)
  case (1 m m' ms)
  then have s: "sorted (map m_offset (m' # ms))" by simp
  from 1(2,3) have "m_offset m \<le> m_offset m'" by (auto simp: m_end_def)
  with s show ?case by auto
qed auto

lemma nonOverlapping_pairs:
  "nonOverlapping ms \<Longrightarrow> \<forall>m \<in> set ms. 0 \<le> m_length m \<Longrightarrow> i < j \<Longrightarrow> j < length ms \<Longrightarrow>
   m_end (ms ! i) \<le> m_offset (ms ! j)"
proof (induction ms arbitrary: i j rule: nonOverlapping.induct)
  case (1 m m' ms)
  have s: "sorted (map m_offset (m' # ms))"
    using 1(2,3) by (intro nonOverlapping_sorted) auto
  obtain k where j: "j = Suc k" using 1(4) by (cases j) auto
  show ?case
  proof (cases i)
    case 0
    have "m_offset m' \<le> m_offset ((m' # ms) ! k)"
      using sorted_nth_mono [OF s, of 0 k] 1(5) j nth_map [of k "m' # ms" m_offset] by simp
    with 0 j 1(2) show ?thesis by auto
  next
    case (Suc i')
    with 1 j show ?thesis by auto
  qed
qed auto

lemma mentionInRange_length: "mentionInRange body m \<Longrightarrow> 0 \<le> m_length m"
  by (simp add: mentionInRange_def)

lemma validateMentions_Inr:
  "validateMentions ms body ids allowAll = Inr ms' \<longleftrightarrow>
     ms' = sort_key m_offset ms \<and> length ms \<le> MAX_MENTIONS \<and>
     (\<forall>m \<in> set ms. mentionInRange body m \<and> mentionAllowed ids allowAll m) \<and>
     nonOverlapping (sort_key m_offset ms)"
proof (cases "ms = []")
  case False
  have h: "-1 \<le> m_offset (hd (sort_key m_offset ms))"
    if "\<forall>m \<in> set ms. mentionInRange body m"
  proof -
    have "hd (sort_key m_offset ms) \<in> set ms"
      using False by (metis hd_in_set set_empty set_sort)
    with that have "0 \<le> m_offset (hd (sort_key m_offset ms))"
      by (auto simp: mentionInRange_def)
    then show ?thesis by simp
  qed
  have c: "checkMentions body ids allowAll (-1) (sort_key m_offset ms) = None \<longleftrightarrow>
      (\<forall>m \<in> set ms. mentionInRange body m \<and> mentionAllowed ids allowAll m) \<and>
      nonOverlapping (sort_key m_offset ms)"
    unfolding checkMentions_None set_sort using h by blast
  show ?thesis
  proof (cases "checkMentions body ids allowAll (-1) (sort_key m_offset ms)")
    case None
    with False c show ?thesis by (auto simp: validateMentions_def Let_def)
  next
    case (Some f)
    with c have "\<not> ((\<forall>m \<in> set ms. mentionInRange body m \<and> mentionAllowed ids allowAll m) \<and>
      nonOverlapping (sort_key m_offset ms))" by simp
    with False Some show ?thesis by (auto simp: validateMentions_def Let_def)
  qed
qed (auto simp: validateMentions_def MAX_MENTIONS_def)

lemma mentionTargets_set:
  "p \<in> set (mentionTargets ids m) \<longleftrightarrow>
     (case m of MentionAll _ _ \<Rightarrow> p \<in> set ids | MentionPrincipal p' _ _ \<Rightarrow> p = p')"
  by (simp add: mentionTargets_def split: Mention.split)

lemma mentionRecipients_set:
  "p \<in> set (mentionRecipients ms ids sender) \<longleftrightarrow>
     p \<noteq> sender \<and> (\<exists>m \<in> set ms. p \<in> set (mentionTargets ids m))"
  by (auto simp: mentionRecipients_def)

lemma mentionRecipients_distinct: "distinct (mentionRecipients ms ids sender)"
  by (simp add: mentionRecipients_def)

lemma allowed_target:
  "mentionAllowed ids allowAll m \<Longrightarrow> p \<in> set (mentionTargets ids m) \<Longrightarrow> p \<in> set ids"
  by (cases m) (simp_all add: mentionAllowed_def mentionTargets_def)

text \<open>Validated mentions notify live participants only, and never the sender.\<close>

lemma mentionRecipients_live:
  assumes "validateMentions ms body ids allowAll = Inr ms'"
  shows "set (mentionRecipients ms' ids sender) \<subseteq> set ids - {sender}"
proof
  fix x
  assume "x \<in> set (mentionRecipients ms' ids sender)"
  then obtain m where "m \<in> set ms'" "x \<in> set (mentionTargets ids m)" "x \<noteq> sender"
    by (auto simp: mentionRecipients_set)
  moreover from this(1) assms have "mentionAllowed ids allowAll m"
    by (auto simp: validateMentions_Inr)
  ultimately show "x \<in> set ids - {sender}" using allowed_target by blast
qed

end
