(* ===== verification/Message_Port.thy ===== *)
theory Message_Port
  imports Authz Mentions
begin

text \<open>
  The persistence port of the message write path, \<open>packages/messaging/src/ports.ts\<close>: the records
  that cross it, and the interface \<open>MessageWriteTransaction\<close> as a record of operations over a
  store state \<open>'st\<close>. A read returns its result; a write returns the new state, or \<open>None\<close> where
  the underlying statement throws (a constraint violation, a missing row), in which case
  \<open>MessageStore.transaction\<close> rolls everything back.
\<close>

record ConversationRecord =
  cv_conversationId :: UUID
  cv_conversationType :: ConversationType
  cv_state :: "ConversationState option"
  cv_caseId :: "UUID option"
  cv_sensitivity :: SensitivityClass
  cv_lastSeq :: nat
  cv_owningTeamId :: "string option"
  cv_owningDepartment :: "string option"
  cv_currentOwnerId :: "UUID option"
  cv_customerRef :: "string option"

record ParticipantRecord =
  pr_principalId :: UUID
  pr_principalKind :: PrincipalKind
  pr_role :: string
  pr_replyAuthority :: bool
  pr_effectiveFrom :: Timestamp
  pr_effectiveTo :: "Timestamp option"

record MessageRecord =
  mr_messageId :: UUID
  mr_conversationId :: UUID
  mr_seq :: nat
  mr_visibility :: MessageVisibility
  mr_senderPrincipalId :: "UUID option"
  mr_senderKind :: PrincipalKind
  mr_senderDisplayName :: string
  mr_body :: string
  mr_replyToMessageId :: "UUID option"
  mr_createdAt :: Timestamp
  mr_clientMessageId :: "string option"
  mr_mentions :: "Mention list option"
  mr_messageClass :: "string option"
  mr_editedAt :: "Timestamp option"
  mr_redactedAt :: "Timestamp option"

datatype RevisionKind = CORRECTION | REDACTION | TOMBSTONE

record MessageRevision =
  rv_revisionId :: UUID
  rv_messageId :: UUID
  rv_kind :: RevisionKind
  rv_previousBody :: string
  rv_actorId :: UUID

text \<open>The payloads of the outbox rows: of messages, of the queue, of the life of a conversation and of notifications.\<close>

datatype OutboxPayload =
    MessageCreated UUID UUID nat PrincipalKind MessageVisibility string bool
  | MessageMentioned UUID UUID nat "UUID list" bool
  | MessageRevised UUID UUID RevisionKind
  | QueueArrived UUID string string bool
  | ConversationCreated UUID ConversationType string
  | ConversationResolved UUID UUID string UUID
  | ConversationReopened UUID UUID string
  | NotificationCreated UUID UUID string "string option"

record OutboxRow =
  ob_eventName :: string
  ob_eventVersion :: nat
  ob_aggregateType :: string
  ob_aggregateId :: UUID
  ob_payload :: OutboxPayload
  ob_correlationId :: string

record InsertMessage =
  im_messageId :: UUID
  im_conversationId :: UUID
  im_seq :: nat
  im_visibility :: MessageVisibility
  im_senderPrincipalId :: "UUID option"
  im_senderKind :: PrincipalKind
  im_senderDisplayName :: string
  im_body :: string
  im_replyToMessageId :: "UUID option"
  im_clientMessageId :: "string option"
  im_mentions :: "Mention list option"

record 'st MessageWriteTransaction =
  tx_loadConversationForUpdate :: "UUID \<Rightarrow> 'st \<Rightarrow> ConversationRecord option"
  tx_loadParticipant :: "UUID \<Rightarrow> UUID \<Rightarrow> 'st \<Rightarrow> ParticipantRecord option"
  tx_loadChannelFacts :: "UUID \<Rightarrow> UUID \<Rightarrow> 'st \<Rightarrow> ChannelFacts option"
  tx_findByClientMessageId :: "UUID \<Rightarrow> UUID \<Rightarrow> string \<Rightarrow> 'st \<Rightarrow> MessageRecord option"
  tx_findMessageInConversation :: "UUID \<Rightarrow> UUID \<Rightarrow> 'st \<Rightarrow> MessageRecord option"
  tx_nextSequence :: "UUID \<Rightarrow> 'st \<Rightarrow> (nat \<times> 'st) option"
  tx_insertMessage :: "InsertMessage \<Rightarrow> 'st \<Rightarrow> (MessageRecord \<times> 'st) option"
  tx_unarchiveForOthers :: "UUID \<Rightarrow> UUID \<Rightarrow> 'st \<Rightarrow> 'st option"
  tx_appendOutbox :: "OutboxRow \<Rightarrow> 'st \<Rightarrow> 'st option"
  tx_touchConversation :: "UUID \<Rightarrow> Timestamp \<Rightarrow> string \<Rightarrow> 'st \<Rightarrow> 'st option"
  tx_listParticipantIds :: "UUID \<Rightarrow> 'st \<Rightarrow> UUID list"
  tx_loadMessageForRevision :: "UUID \<Rightarrow> UUID \<Rightarrow> 'st \<Rightarrow> MessageRecord option"
  tx_insertRevision :: "MessageRevision \<Rightarrow> 'st \<Rightarrow> 'st option"
  tx_applyCorrection :: "UUID \<Rightarrow> string \<Rightarrow> Timestamp \<Rightarrow> 'st \<Rightarrow> (MessageRecord \<times> 'st) option"
  tx_applyRedaction :: "UUID \<Rightarrow> Timestamp \<Rightarrow> 'st \<Rightarrow> (MessageRecord \<times> 'st) option"
  tx_refreshPreview :: "UUID \<Rightarrow> 'st \<Rightarrow> 'st option"
  tx_activateOnOwnerReply :: "UUID \<Rightarrow> UUID \<Rightarrow> Timestamp \<Rightarrow> 'st \<Rightarrow> (bool \<times> 'st) option"

text \<open>
  \<open>MessageStore.transaction\<close>: commit on success, roll back on a throw. A command that returns a
  refusal has not thrown, so its (empty) work commits.
\<close>

datatype 'r Outcome = Threw | Returned 'r

definition runTransaction :: "('st \<Rightarrow> ('r \<times> 'st) option) \<Rightarrow> 'st \<Rightarrow> 'r Outcome \<times> 'st" where
  "runTransaction work st =
     (case work st of None \<Rightarrow> (Threw, st) | Some (r, st') \<Rightarrow> (Returned r, st'))"

section \<open>The authorization resource (conversation-resource.ts)\<close>

definition participantFacts :: "ParticipantRecord \<Rightarrow> ParticipantFacts" where
  "participantFacts p =
     \<lparr>p_role = pr_role p, p_replyAuthority = pr_replyAuthority p,
      p_effectiveFrom = pr_effectiveFrom p, p_effectiveTo = pr_effectiveTo p\<rparr>"

text \<open>
  \<open>given\<close> is \<open>options.participant\<close> (a participation the caller already loaded) and \<open>now\<close> the
  one instant of the projection, which the caller passes or the clock gives.
\<close>

definition conversationResource ::
  "'st MessageWriteTransaction \<Rightarrow> 'st \<Rightarrow> ConversationRecord \<Rightarrow> UUID \<Rightarrow>
   ParticipantRecord option \<Rightarrow> bool \<Rightarrow> Timestamp \<Rightarrow> ResourceContext" where
  "conversationResource tx st c who given actorIsCustomer now =
     (let prec = (case given of Some p \<Rightarrow> Some p
                    | None \<Rightarrow> tx_loadParticipant tx (cv_conversationId c) who st);
          part = map_option participantFacts prec;
          chan = (if cv_conversationType c = INTERNAL_CHANNEL
                  then tx_loadChannelFacts tx (cv_conversationId c) who st else None)
      in \<lparr>r_conversationId = cv_conversationId c,
          r_conversationType = cv_conversationType c,
          r_caseId = cv_caseId c,
          r_owningTeamId = cv_owningTeamId c,
          r_owningDepartment = cv_owningDepartment c,
          r_currentOwnerId = cv_currentOwnerId c,
          r_customerRef = cv_customerRef c,
          r_sensitivity = cv_sensitivity c,
          r_participant = part,
          r_belongsToActorCustomer =
            (if actorIsCustomer
             then Some (case part of
                 None \<Rightarrow> False
               | Some p \<Rightarrow> p_effectiveFrom p \<le> now \<and>
                   (case p_effectiveTo p of None \<Rightarrow> True | Some t \<Rightarrow> now < t))
             else None),
          r_customerVerifiedAt = None,
          r_channel = chan\<rparr>)"


section \<open>The contract of the port\<close>

text \<open>
  What a provider promises the write path, over an observation of its state: the message log in
  insertion order, the outbox, the revisions and the highest sequence number of each conversation.
\<close>

record MessageLog =
  lg_messages :: "MessageRecord list"
  lg_outbox :: "OutboxRow list"
  lg_revisions :: "MessageRevision list"
  lg_lastSeq :: "UUID \<Rightarrow> nat"

definition sameClientKey :: "UUID \<Rightarrow> UUID \<Rightarrow> string \<Rightarrow> MessageRecord \<Rightarrow> bool" where
  "sameClientKey cid who key m \<longleftrightarrow>
     mr_conversationId m = cid \<and> mr_senderPrincipalId m = Some who \<and>
     mr_clientMessageId m = Some key"

definition isMessage :: "UUID \<Rightarrow> UUID \<Rightarrow> MessageRecord \<Rightarrow> bool" where
  "isMessage cid mid m \<longleftrightarrow> mr_conversationId m = cid \<and> mr_messageId m = mid"

text \<open>The record an insert returns carries what was inserted; its time is the provider's.\<close>

definition storedFrom :: "InsertMessage \<Rightarrow> MessageRecord \<Rightarrow> bool" where
  "storedFrom im m \<longleftrightarrow>
     mr_messageId m = im_messageId im \<and> mr_conversationId m = im_conversationId im \<and>
     mr_seq m = im_seq im \<and> mr_visibility m = im_visibility im \<and>
     mr_senderPrincipalId m = im_senderPrincipalId im \<and> mr_senderKind m = im_senderKind im \<and>
     mr_senderDisplayName m = im_senderDisplayName im \<and> mr_body m = im_body im \<and>
     mr_replyToMessageId m = im_replyToMessageId im \<and>
     mr_clientMessageId m = im_clientMessageId im \<and>
     mr_editedAt m = None \<and> mr_redactedAt m = None"

text \<open>The facts of a conversation and a principal that an authorization decision reads.\<close>

definition authView ::
  "'st MessageWriteTransaction \<Rightarrow> UUID \<Rightarrow> UUID \<Rightarrow> 'st \<Rightarrow>
   ConversationRecord option \<times> ParticipantRecord option \<times> ChannelFacts option" where
  "authView tx cid who st =
     (map_option (\<lambda>c. c\<lparr>cv_state := None, cv_lastSeq := 0\<rparr>) (tx_loadConversationForUpdate tx cid st),
      tx_loadParticipant tx cid who st, tx_loadChannelFacts tx cid who st)"

text \<open>A write that touches neither the observed log nor the facts authorization reads.\<close>

definition quiet ::
  "'st MessageWriteTransaction \<Rightarrow> ('st \<Rightarrow> MessageLog) \<Rightarrow> 'st \<Rightarrow> 'st \<Rightarrow> bool" where
  "quiet tx obs st st' \<longleftrightarrow>
     obs st' = obs st \<and> (\<forall>cid who. authView tx cid who st' = authView tx cid who st)"

definition amends ::
  "'st MessageWriteTransaction \<Rightarrow> ('st \<Rightarrow> MessageLog) \<Rightarrow> UUID \<Rightarrow>
   (MessageRecord \<Rightarrow> MessageRecord) \<Rightarrow> MessageRecord \<Rightarrow> 'st \<Rightarrow> 'st \<Rightarrow> bool" where
  "amends tx obs mid f m st st' \<longleftrightarrow>
     m \<in> set (lg_messages (obs st')) \<and> mr_messageId m = mid \<and>
     obs st' = (obs st)\<lparr>lg_messages :=
       map (\<lambda>r. if mr_messageId r = mid then f r else r) (lg_messages (obs st))\<rparr> \<and>
     (\<forall>cid who. authView tx cid who st' = authView tx cid who st)"

definition corrected :: "string \<Rightarrow> Timestamp \<Rightarrow> MessageRecord \<Rightarrow> MessageRecord" where
  "corrected body now r = r\<lparr>mr_body := body, mr_editedAt := Some now\<rparr>"

definition redacted :: "Timestamp \<Rightarrow> MessageRecord \<Rightarrow> MessageRecord" where
  "redacted now r = r\<lparr>mr_body := [], mr_redactedAt := Some now\<rparr>"

locale message_port =
  fixes tx :: "'st MessageWriteTransaction"
    and obs :: "'st \<Rightarrow> MessageLog"
    and preview :: "UUID \<Rightarrow> 'st \<Rightarrow> string option"
  assumes find_key:
      "tx_findByClientMessageId tx cid who key st =
         find (sameClientKey cid who key) (lg_messages (obs st))"
    and find_message:
      "tx_findMessageInConversation tx cid mid st = find (isMessage cid mid) (lg_messages (obs st))"
    and load_message:
      "tx_loadMessageForRevision tx cid mid st = find (isMessage cid mid) (lg_messages (obs st))"
    and load_conversation:
      "tx_loadConversationForUpdate tx cid st = Some cv \<Longrightarrow> cv_conversationId cv = cid"
    and next_sequence:
      "tx_nextSequence tx cid st = Some (n, st') \<Longrightarrow>
         n = Suc (lg_lastSeq (obs st) cid) \<and>
         obs st' = (obs st)\<lparr>lg_lastSeq := (lg_lastSeq (obs st))(cid := n)\<rparr>"
    and next_sequence_auth:
      "tx_nextSequence tx cid st = Some (n, st') \<Longrightarrow> authView tx c w st' = authView tx c w st"
    and insert_message:
      "tx_insertMessage tx im st = Some (m, st') \<Longrightarrow>
         storedFrom im m \<and>
         obs st' = (obs st)\<lparr>lg_messages := lg_messages (obs st) @ [m]\<rparr> \<and>
         im_messageId im \<notin> mr_messageId ` set (lg_messages (obs st))"
    and insert_message_key:
      "tx_insertMessage tx im st = Some (m, st') \<Longrightarrow>
         im_senderPrincipalId im = Some who \<Longrightarrow> im_clientMessageId im = Some key \<Longrightarrow>
         find (sameClientKey (im_conversationId im) who key) (lg_messages (obs st)) = None"
    and insert_message_auth:
      "tx_insertMessage tx im st = Some (m, st') \<Longrightarrow> authView tx c w st' = authView tx c w st"
    and append_outbox:
      "tx_appendOutbox tx row st = Some st' \<Longrightarrow>
         obs st' = (obs st)\<lparr>lg_outbox := lg_outbox (obs st) @ [row]\<rparr>"
    and append_outbox_auth:
      "tx_appendOutbox tx row st = Some st' \<Longrightarrow> authView tx c w st' = authView tx c w st"
    and insert_revision:
      "tx_insertRevision tx rv st = Some st' \<Longrightarrow>
         obs st' = (obs st)\<lparr>lg_revisions := lg_revisions (obs st) @ [rv]\<rparr>"
    and apply_correction:
      "tx_applyCorrection tx mid body now st = Some (m, st') \<Longrightarrow>
         amends tx obs mid (corrected body now) m st st'"
    and apply_redaction:
      "tx_applyRedaction tx mid now st = Some (m, st') \<Longrightarrow>
         amends tx obs mid (redacted now) m st st'"
    and unarchive: "tx_unarchiveForOthers tx cid who st = Some st' \<Longrightarrow> quiet tx obs st st'"
    and refresh: "tx_refreshPreview tx cid st = Some st' \<Longrightarrow> quiet tx obs st st'"
    and touch: "tx_touchConversation tx cid now pv st = Some st' \<Longrightarrow> quiet tx obs st st'"
    and touch_preview:
      "tx_touchConversation tx cid now pv st = Some st' \<Longrightarrow>
         preview cid st' = None \<or> preview cid st' = Some pv"
    and activate:
      "tx_activateOnOwnerReply tx cid who now st = Some (moved, st') \<Longrightarrow> quiet tx obs st st'"

end
