(* ===== verification/Send_Message.thy ===== *)
theory Send_Message
  imports Message_Port
begin

text \<open>
  The message write path, \<open>packages/messaging/src/send-message.ts\<close>, over any provider of the port
  (a \<open>MessageWriteTransaction\<close> record): the checks before the transaction, the checks inside
  it (authorization, idempotency, the reply target, mentions) and the writes, in the order of the
  source. The clock and the id generator are arguments: one instant per send, one fresh id.
\<close>

record SendMessageCommand =
  sm_conversationId :: UUID
  sm_actor :: ActorContext
  sm_senderDisplayName :: string
  sm_body :: string
  sm_visibility :: MessageVisibility
  sm_replyToMessageId :: "UUID option"
  sm_clientMessageId :: "string option"
  sm_mentions :: "Mention list option"
  sm_hasAttachment :: "bool option"
  sm_requiredAssurance :: "Assurance option"
  sm_correlationId :: string

datatype SendFailure =
    CONVERSATION_NOT_FOUND
  | NOT_AUTHORIZED
  | EMPTY_BODY
  | BODY_TOO_LONG
  | REPLY_TARGET_NOT_IN_CONVERSATION
  | CUSTOMER_CANNOT_SEND_INTERNAL
  | MentionRefused MentionFailure

record SendOk =
  so_message :: MessageRecord
  so_duplicate :: bool
  so_mentioned :: "UUID list option"
  so_participants :: "UUID list option"
  so_conversationType :: "ConversationType option"
  so_repliedToAuthor :: "UUID option"

definition PREVIEW_LENGTH :: nat where
  "PREVIEW_LENGTH = 140"

definition previewOf :: "string \<Rightarrow> string" where
  "previewOf body = take PREVIEW_LENGTH body"

definition maxBodyLength :: "nat option \<Rightarrow> nat" where
  "maxBodyLength configured = (case configured of Some n \<Rightarrow> n | None \<Rightarrow> 10000)"

text \<open>Before the transaction: the body, and the author of internal content.\<close>

definition sendPrecheck :: "nat option \<Rightarrow> SendMessageCommand \<Rightarrow> SendFailure option" where
  "sendPrecheck maxBody cmd =
     (let body = trim (sm_body cmd)
      in if body = [] \<and> sm_hasAttachment cmd \<noteq> Some True then Some EMPTY_BODY
         else if length body > maxBodyLength maxBody then Some BODY_TOO_LONG
         else if a_kind (sm_actor cmd) = K_CUSTOMER \<and> sm_visibility cmd = INTERNAL
           then Some CUSTOMER_CANNOT_SEND_INTERNAL
         else None)"

definition sendAction :: "ConversationType \<Rightarrow> MessageVisibility \<Rightarrow> Action" where
  "sendAction ct vis =
     (if ct = INTERNAL_ANNOUNCEMENT then ''conversation.announcement.post''
      else if isInternal ct then ''conversation.message.send''
      else if vis = INTERNAL then ''conversation.note.internal''
      else ''conversation.reply.customer'')"

text \<open>The decision request the send assembles from what it loaded.\<close>

definition sendRequest ::
  "'st MessageWriteTransaction \<Rightarrow> SendMessageCommand \<Rightarrow> Timestamp \<Rightarrow> 'st \<Rightarrow>
   ConversationRecord \<Rightarrow> DecisionRequest" where
  "sendRequest tx cmd nowIso st c =
     (let part = tx_loadParticipant tx (sm_conversationId cmd) (a_principalId (sm_actor cmd)) st;
          chan = (if cv_conversationType c = INTERNAL_CHANNEL
                  then tx_loadChannelFacts tx (sm_conversationId cmd)
                         (a_principalId (sm_actor cmd)) st
                  else None)
      in \<lparr>q_actor = sm_actor cmd,
          q_action = sendAction (cv_conversationType c) (sm_visibility cmd),
          q_resource =
            \<lparr>r_conversationId = cv_conversationId c,
             r_conversationType = cv_conversationType c,
             r_caseId = cv_caseId c,
             r_owningTeamId = cv_owningTeamId c,
             r_owningDepartment = cv_owningDepartment c,
             r_currentOwnerId = cv_currentOwnerId c,
             r_customerRef = cv_customerRef c,
             r_sensitivity = cv_sensitivity c,
             r_participant = map_option participantFacts part,
             r_belongsToActorCustomer =
               (if a_kind (sm_actor cmd) = K_CUSTOMER
                then Some (case part of
                    None \<Rightarrow> False
                  | Some p \<Rightarrow> pr_effectiveFrom p \<le> nowIso \<and>
                      (case pr_effectiveTo p of None \<Rightarrow> True | Some t \<Rightarrow> nowIso < t))
                else None),
             r_customerVerifiedAt = None,
             r_channel = chan\<rparr>,
          q_now = nowIso,
          q_requiredAssurance = sm_requiredAssurance cmd,
          q_targetVisibility = Some (sm_visibility cmd)\<rparr>)"

text \<open>
  What the checks inside the transaction establish: either the original message of a retried
  send, or everything the writes need.
\<close>

datatype PreparedSend =
    Duplicate MessageRecord
  | Fresh ConversationRecord "UUID option" "UUID list" "Mention list"

definition replyCheck ::
  "'st MessageWriteTransaction \<Rightarrow> SendMessageCommand \<Rightarrow> 'st \<Rightarrow> SendFailure + UUID option" where
  "replyCheck tx cmd st =
     (case sm_replyToMessageId cmd of
        None \<Rightarrow> Inr None
      | Some target \<Rightarrow>
          (case tx_findMessageInConversation tx (sm_conversationId cmd) target st of
             None \<Rightarrow> Inl REPLY_TARGET_NOT_IN_CONVERSATION
           | Some m \<Rightarrow>
               if mr_visibility m = INTERNAL \<and> sm_visibility cmd = CUSTOMER_VISIBLE
                 then Inl REPLY_TARGET_NOT_IN_CONVERSATION
               else Inr (mr_senderPrincipalId m)))"

definition findRetry ::
  "'st MessageWriteTransaction \<Rightarrow> SendMessageCommand \<Rightarrow> 'st \<Rightarrow> MessageRecord option" where
  "findRetry tx cmd st =
     (case sm_clientMessageId cmd of
        None \<Rightarrow> None
      | Some key \<Rightarrow> tx_findByClientMessageId tx (sm_conversationId cmd)
                     (a_principalId (sm_actor cmd)) key st)"

definition sendChecks ::
  "'st MessageWriteTransaction \<Rightarrow> SendMessageCommand \<Rightarrow> Timestamp \<Rightarrow> 'st \<Rightarrow>
   SendFailure + PreparedSend" where
  "sendChecks tx cmd nowIso st =
     (case tx_loadConversationForUpdate tx (sm_conversationId cmd) st of
        None \<Rightarrow> Inl CONVERSATION_NOT_FOUND
      | Some c \<Rightarrow>
          if \<not> allow (decide (sendRequest tx cmd nowIso st c)) then Inl NOT_AUTHORIZED
          else case findRetry tx cmd st of
              Some existing \<Rightarrow> Inr (Duplicate existing)
            | None \<Rightarrow>
                (case replyCheck tx cmd st of
                   Inl f \<Rightarrow> Inl f
                 | Inr repliedToAuthor \<Rightarrow>
                     let live = tx_listParticipantIds tx (sm_conversationId cmd) st
                     in case validateMentions
                               (case sm_mentions cmd of Some ms \<Rightarrow> ms | None \<Rightarrow> [])
                               (trim (sm_body cmd)) live
                               (cv_conversationType c = INTERNAL_GROUP) of
                          Inl f \<Rightarrow> Inl (MentionRefused f)
                        | Inr ms \<Rightarrow> Inr (Fresh c repliedToAuthor live ms)))"

definition insertOf ::
  "SendMessageCommand \<Rightarrow> UUID \<Rightarrow> nat \<Rightarrow> Mention list \<Rightarrow> InsertMessage" where
  "insertOf cmd newId seq ms =
     \<lparr>im_messageId = newId,
      im_conversationId = sm_conversationId cmd,
      im_seq = seq,
      im_visibility = sm_visibility cmd,
      im_senderPrincipalId = Some (a_principalId (sm_actor cmd)),
      im_senderKind = a_kind (sm_actor cmd),
      im_senderDisplayName = sm_senderDisplayName cmd,
      im_body = trim (sm_body cmd),
      im_replyToMessageId = sm_replyToMessageId cmd,
      im_clientMessageId = sm_clientMessageId cmd,
      im_mentions = (if ms = [] then None else Some ms)\<rparr>"

definition createdEvent :: "SendMessageCommand \<Rightarrow> MessageRecord \<Rightarrow> OutboxRow" where
  "createdEvent cmd m =
     \<lparr>ob_eventName = ''message.created.v1'', ob_eventVersion = 1,
      ob_aggregateType = ''conversation'', ob_aggregateId = sm_conversationId cmd,
      ob_payload = MessageCreated (mr_messageId m) (sm_conversationId cmd) (mr_seq m)
                     (mr_senderKind m) (mr_visibility m) ''INTERNAL'' False,
      ob_correlationId = sm_correlationId cmd\<rparr>"

definition isMentionAll :: "Mention \<Rightarrow> bool" where
  "isMentionAll m = (case m of MentionAll _ _ \<Rightarrow> True | MentionPrincipal _ _ _ \<Rightarrow> False)"

definition mentionedEvent ::
  "SendMessageCommand \<Rightarrow> MessageRecord \<Rightarrow> UUID list \<Rightarrow> Mention list \<Rightarrow> OutboxRow" where
  "mentionedEvent cmd m notify ms =
     \<lparr>ob_eventName = ''message.mentioned.v1'', ob_eventVersion = 1,
      ob_aggregateType = ''conversation'', ob_aggregateId = sm_conversationId cmd,
      ob_payload = MessageMentioned (mr_messageId m) (sm_conversationId cmd) (mr_seq m)
                     notify (list_ex isMentionAll ms),
      ob_correlationId = sm_correlationId cmd\<rparr>"

definition ownerReplies :: "SendMessageCommand \<Rightarrow> ConversationRecord \<Rightarrow> bool" where
  "ownerReplies cmd c \<longleftrightarrow>
     sm_visibility cmd = CUSTOMER_VISIBLE \<and>
     cv_currentOwnerId c = Some (a_principalId (sm_actor cmd))"

definition previewToStore :: "ConversationType \<Rightarrow> MessageRecord \<Rightarrow> string \<Rightarrow> string" where
  "previewToStore ct m body =
     (if mr_visibility m \<noteq> INTERNAL \<or> isInternal ct then previewOf body else [])"

text \<open>The writes, in order; any of them may throw.\<close>

definition sendWrites ::
  "'st MessageWriteTransaction \<Rightarrow> SendMessageCommand \<Rightarrow> UUID \<Rightarrow> ConversationRecord \<Rightarrow>
   UUID option \<Rightarrow> UUID list \<Rightarrow> Mention list \<Rightarrow> 'st \<Rightarrow> (SendOk \<times> 'st) option" where
  "sendWrites tx cmd newId c repliedToAuthor live ms st0 =
     (let me = a_principalId (sm_actor cmd); cid = sm_conversationId cmd;
          notify = mentionRecipients ms live me
      in Option.bind (tx_nextSequence tx cid st0) (\<lambda>(seq, st1).
         Option.bind (tx_insertMessage tx (insertOf cmd newId seq ms) st1) (\<lambda>(m, st2).
         Option.bind (tx_unarchiveForOthers tx cid me st2) (\<lambda>st3.
         Option.bind (tx_appendOutbox tx (createdEvent cmd m) st3) (\<lambda>st4.
         Option.bind (if notify \<noteq> [] then tx_appendOutbox tx (mentionedEvent cmd m notify ms) st4
                      else Some st4) (\<lambda>st5.
         Option.bind (if ownerReplies cmd c
                      then map_option snd (tx_activateOnOwnerReply tx cid me (mr_createdAt m) st5)
                      else Some st5) (\<lambda>st6.
         Option.bind (tx_touchConversation tx cid (mr_createdAt m)
                        (previewToStore (cv_conversationType c) m (trim (sm_body cmd))) st6) (\<lambda>st7.
         Some (\<lparr>so_message = m, so_duplicate = False,
                so_mentioned = (if notify \<noteq> [] then Some notify else None),
                so_participants = Some live,
                so_conversationType = Some (cv_conversationType c),
                so_repliedToAuthor =
                  (if repliedToAuthor \<noteq> Some me then repliedToAuthor else None)\<rparr>, st7)))))))))"

definition duplicateResult :: "MessageRecord \<Rightarrow> SendOk" where
  "duplicateResult m =
     \<lparr>so_message = m, so_duplicate = True, so_mentioned = None, so_participants = None,
      so_conversationType = None, so_repliedToAuthor = None\<rparr>"

definition sendWork ::
  "'st MessageWriteTransaction \<Rightarrow> SendMessageCommand \<Rightarrow> Timestamp \<Rightarrow> UUID \<Rightarrow> 'st \<Rightarrow>
   ((SendFailure + SendOk) \<times> 'st) option" where
  "sendWork tx cmd nowIso newId st =
     (case sendChecks tx cmd nowIso st of
        Inl f \<Rightarrow> Some (Inl f, st)
      | Inr (Duplicate m) \<Rightarrow> Some (Inr (duplicateResult m), st)
      | Inr (Fresh c repliedToAuthor live ms) \<Rightarrow>
          map_option (\<lambda>(ok, st'). (Inr ok, st'))
            (sendWrites tx cmd newId c repliedToAuthor live ms st))"

definition sendMessage ::
  "'st MessageWriteTransaction \<Rightarrow> nat option \<Rightarrow> SendMessageCommand \<Rightarrow> Timestamp \<Rightarrow> UUID \<Rightarrow> 'st \<Rightarrow>
   (SendFailure + SendOk) Outcome \<times> 'st" where
  "sendMessage tx maxBody cmd nowIso newId st =
     (case sendPrecheck maxBody cmd of
        Some f \<Rightarrow> (Returned (Inl f), st)
      | None \<Rightarrow> runTransaction (sendWork tx cmd nowIso newId) st)"

end
