(* ===== verification/Revise_Message.thy ===== *)
theory Revise_Message
  imports Message_Port
begin

text \<open>
  Correcting and deleting a message, \<open>packages/messaging/src/revise-message.ts\<close>, over any
  provider of the port. The clock reading and the fresh revision id are arguments.
\<close>

record ReviseMessageCommand =
  re_conversationId :: UUID
  re_messageId :: UUID
  re_actorId :: UUID
  re_correlationId :: string

record EditMessageCommand = ReviseMessageCommand +
  re_body :: string

datatype ReviseFailure =
    MESSAGE_NOT_FOUND | NOT_THE_SENDER | ALREADY_REDACTED | EDIT_EMPTY_BODY | EDIT_BODY_TOO_LONG
  | UNCHANGED

definition MAX_BODY :: nat where
  "MAX_BODY = 10000"

definition revisedEvent :: "('a ReviseMessageCommand_scheme) \<Rightarrow> RevisionKind \<Rightarrow> OutboxRow" where
  "revisedEvent cmd k =
     \<lparr>ob_eventName = ''message.revised.v1'', ob_eventVersion = 1,
      ob_aggregateType = ''conversation'', ob_aggregateId = re_conversationId cmd,
      ob_payload = MessageRevised (re_messageId cmd) (re_conversationId cmd) k,
      ob_correlationId = re_correlationId cmd\<rparr>"

definition revisionOf ::
  "('a ReviseMessageCommand_scheme) \<Rightarrow> UUID \<Rightarrow> RevisionKind \<Rightarrow> MessageRecord \<Rightarrow> MessageRevision" where
  "revisionOf cmd newId k existing =
     \<lparr>rv_revisionId = newId, rv_messageId = re_messageId cmd, rv_kind = k,
      rv_previousBody = mr_body existing, rv_actorId = re_actorId cmd\<rparr>"

definition editWork ::
  "'st MessageWriteTransaction \<Rightarrow> EditMessageCommand \<Rightarrow> string \<Rightarrow> Timestamp \<Rightarrow> UUID \<Rightarrow> 'st \<Rightarrow>
   ((ReviseFailure + MessageRecord) \<times> 'st) option" where
  "editWork tx cmd body now newId st =
     (case tx_loadMessageForRevision tx (re_conversationId cmd) (re_messageId cmd) st of
        None \<Rightarrow> Some (Inl MESSAGE_NOT_FOUND, st)
      | Some existing \<Rightarrow>
          if mr_senderPrincipalId existing \<noteq> Some (re_actorId cmd) then Some (Inl NOT_THE_SENDER, st)
          else if mr_redactedAt existing \<noteq> None then Some (Inl ALREADY_REDACTED, st)
          else if mr_body existing = body then Some (Inl UNCHANGED, st)
          else
            Option.bind (tx_insertRevision tx (revisionOf cmd newId CORRECTION existing) st) (\<lambda>st1.
            Option.bind (tx_applyCorrection tx (re_messageId cmd) body now st1) (\<lambda>(updated, st2).
            Option.bind (tx_refreshPreview tx (re_conversationId cmd) st2) (\<lambda>st3.
            Option.bind (tx_appendOutbox tx (revisedEvent cmd CORRECTION) st3) (\<lambda>st4.
            Some (Inr updated, st4))))))"

definition editMessage ::
  "'st MessageWriteTransaction \<Rightarrow> EditMessageCommand \<Rightarrow> Timestamp \<Rightarrow> UUID \<Rightarrow> 'st \<Rightarrow>
   (ReviseFailure + MessageRecord) Outcome \<times> 'st" where
  "editMessage tx cmd now newId st =
     (let body = trim (re_body cmd)
      in if body = [] then (Returned (Inl EDIT_EMPTY_BODY), st)
         else if length body > MAX_BODY then (Returned (Inl EDIT_BODY_TOO_LONG), st)
         else runTransaction (editWork tx cmd body now newId) st)"

definition redactWork ::
  "'st MessageWriteTransaction \<Rightarrow> ReviseMessageCommand \<Rightarrow> Timestamp \<Rightarrow> UUID \<Rightarrow> 'st \<Rightarrow>
   ((ReviseFailure + MessageRecord) \<times> 'st) option" where
  "redactWork tx cmd now newId st =
     (case tx_loadMessageForRevision tx (re_conversationId cmd) (re_messageId cmd) st of
        None \<Rightarrow> Some (Inl MESSAGE_NOT_FOUND, st)
      | Some existing \<Rightarrow>
          if mr_senderPrincipalId existing \<noteq> Some (re_actorId cmd) then Some (Inl NOT_THE_SENDER, st)
          else if mr_redactedAt existing \<noteq> None then Some (Inr existing, st)
          else
            Option.bind (tx_insertRevision tx (revisionOf cmd newId REDACTION existing) st) (\<lambda>st1.
            Option.bind (tx_applyRedaction tx (re_messageId cmd) now st1) (\<lambda>(updated, st2).
            Option.bind (tx_refreshPreview tx (re_conversationId cmd) st2) (\<lambda>st3.
            Option.bind (tx_appendOutbox tx (revisedEvent cmd REDACTION) st3) (\<lambda>st4.
            Some (Inr updated, st4))))))"

definition redactMessage ::
  "'st MessageWriteTransaction \<Rightarrow> ReviseMessageCommand \<Rightarrow> Timestamp \<Rightarrow> UUID \<Rightarrow> 'st \<Rightarrow>
   (ReviseFailure + MessageRecord) Outcome \<times> 'st" where
  "redactMessage tx cmd now newId st = runTransaction (redactWork tx cmd now newId) st"

end
