(* ===== verification/Messaging_Contract.thy ===== *)
theory Messaging_Contract
  imports Send_Message Revise_Message
begin

text \<open>
  What the write path guarantees over any provider that keeps the port's contract, proved once
  inside the locale \<open>message_port\<close>: the effect of a send, of a correction and of a deletion on the
  observed log, and the well-formedness of the log that all of them preserve.
\<close>

text \<open>The outbox rows of one send: the creation always, the mention when somebody is notified.\<close>

definition sendEvents ::
  "SendMessageCommand \<Rightarrow> MessageRecord \<Rightarrow> UUID list \<Rightarrow> Mention list \<Rightarrow> OutboxRow list" where
  "sendEvents cmd m live ms =
     (let notify = mentionRecipients ms live (a_principalId (sm_actor cmd))
      in createdEvent cmd m # (if notify = [] then [] else [mentionedEvent cmd m notify ms]))"

definition logAfterSend ::
  "SendMessageCommand \<Rightarrow> MessageRecord \<Rightarrow> OutboxRow list \<Rightarrow> MessageLog \<Rightarrow> MessageLog" where
  "logAfterSend cmd m events l =
     l\<lparr>lg_messages := lg_messages l @ [m], lg_outbox := lg_outbox l @ events,
       lg_lastSeq := (lg_lastSeq l)(sm_conversationId cmd := mr_seq m)\<rparr>"

text \<open>
  The sequence of every conversation is dense: its messages, in insertion order, carry
  1, 2, ..., \<open>last_seq\<close>. Identifiers are unique, and so is every idempotency key.
\<close>

definition seqsOf :: "UUID \<Rightarrow> MessageLog \<Rightarrow> nat list" where
  "seqsOf cid l = map mr_seq (filter (\<lambda>m. mr_conversationId m = cid) (lg_messages l))"

definition denseLog :: "MessageLog \<Rightarrow> bool" where
  "denseLog l \<longleftrightarrow> (\<forall>cid. seqsOf cid l = [1..<Suc (lg_lastSeq l cid)])"

definition uniqueIds :: "MessageLog \<Rightarrow> bool" where
  "uniqueIds l \<longleftrightarrow> distinct (map mr_messageId (lg_messages l))"

definition uniqueKeys :: "MessageLog \<Rightarrow> bool" where
  "uniqueKeys l \<longleftrightarrow>
     (\<forall>cid who key. length (filter (sameClientKey cid who key) (lg_messages l)) \<le> 1)"

definition wfLog :: "MessageLog \<Rightarrow> bool" where
  "wfLog l \<longleftrightarrow> denseLog l \<and> uniqueIds l \<and> uniqueKeys l"

lemma runTransaction_cases:
  assumes "runTransaction work st = (r, st')"
  obtains "work st = None" and "r = Threw" and "st' = st"
    | v where "work st = Some (v, st')" and "r = Returned v"
  using assms by (auto simp: runTransaction_def split: option.splits prod.splits)

lemma sendRequest_authView:
  assumes "authView tx (sm_conversationId cmd) (a_principalId (sm_actor cmd)) st' =
             authView tx (sm_conversationId cmd) (a_principalId (sm_actor cmd)) st"
    and "tx_loadConversationForUpdate tx (sm_conversationId cmd) st = Some c"
  obtains c' where "tx_loadConversationForUpdate tx (sm_conversationId cmd) st' = Some c'"
    and "sendRequest tx cmd now st' c' = sendRequest tx cmd now st c"
proof -
  from assms obtain c' where c': "tx_loadConversationForUpdate tx (sm_conversationId cmd) st' = Some c'"
      and eq: "c'\<lparr>cv_state := None, cv_lastSeq := 0\<rparr> = c\<lparr>cv_state := None, cv_lastSeq := 0\<rparr>"
    by (auto simp: authView_def)
  have "sendRequest tx cmd now st' c' = sendRequest tx cmd now st c"
    using assms eq by (cases c; cases c') (auto simp: sendRequest_def authView_def)
  with c' show thesis by (rule that)
qed

lemma sendChecks_Fresh:
  assumes "sendChecks tx cmd now st = Inr (Fresh c ra live ms)"
  shows "tx_loadConversationForUpdate tx (sm_conversationId cmd) st = Some c"
    and "allow (decide (sendRequest tx cmd now st c))"
    and "findRetry tx cmd st = None"
    and "replyCheck tx cmd st = Inr ra"
    and "live = tx_listParticipantIds tx (sm_conversationId cmd) st"
  using assms
  by (auto simp: sendChecks_def Let_def split: option.splits if_splits sum.splits)

lemma sendChecks_Duplicate:
  assumes "sendChecks tx cmd now st = Inr (Duplicate m)"
  shows "\<exists>c. tx_loadConversationForUpdate tx (sm_conversationId cmd) st = Some c \<and>
             allow (decide (sendRequest tx cmd now st c))"
    and "findRetry tx cmd st = Some m"
  using assms
  by (auto simp: sendChecks_def Let_def split: option.splits if_splits sum.splits)

lemma sendMessage_cases:
  assumes "sendMessage tx mb cmd now newId st = (r, st')"
  obtains (refused) f where "r = Returned (Inl f)" and "st' = st"
    | (threw) "r = Threw" and "st' = st"
    | (retry) m where "sendPrecheck mb cmd = None"
        and "sendChecks tx cmd now st = Inr (Duplicate m)"
        and "r = Returned (Inr (duplicateResult m))" and "st' = st"
    | (sent) c ra live ms ok where "sendPrecheck mb cmd = None"
        and "sendChecks tx cmd now st = Inr (Fresh c ra live ms)"
        and "sendWrites tx cmd newId c ra live ms st = Some (ok, st')"
        and "r = Returned (Inr ok)"
proof (cases "sendPrecheck mb cmd")
  case (Some f)
  with assms show thesis by (intro refused) (auto simp: sendMessage_def)
next
  case None
  with assms have run: "runTransaction (sendWork tx cmd now newId) st = (r, st')"
    by (simp add: sendMessage_def)
  show thesis
  proof (cases "sendChecks tx cmd now st")
    case (Inl f)
    with run show thesis by (intro refused) (auto simp: runTransaction_def sendWork_def)
  next
    case (Inr p)
    show thesis
    proof (cases p)
      case (Duplicate m)
      with run Inr None show thesis
        by (intro retry) (auto simp: runTransaction_def sendWork_def)
    next
      case (Fresh c ra live ms)
      show thesis
      proof (cases "sendWrites tx cmd newId c ra live ms st")
        case None
        with run Inr Fresh show thesis
          by (intro threw) (auto simp: runTransaction_def sendWork_def)
      next
        case (Some z)
        with run Inr Fresh \<open>sendPrecheck mb cmd = None\<close> show thesis
          by (cases z) (auto intro!: sent simp: runTransaction_def sendWork_def)
      qed
    qed
  qed
qed

lemma sendWrites_so:
  assumes "sendWrites tx cmd newId c ra live ms st = Some (ok, st')"
  shows "\<not> so_duplicate ok" and "so_participants ok = Some live"
    and "so_mentioned ok =
      (let notify = mentionRecipients ms live (a_principalId (sm_actor cmd))
       in if notify = [] then None else Some notify)"
  using assms
  by (auto simp: sendWrites_def Let_def elim!: bind_SomeE split: prod.splits if_splits)


section \<open>Well-formedness of the log\<close>

lemma wfLog_send:
  assumes wf: "wfLog l"
    and m: "storedFrom im m" and im: "im_conversationId im = sm_conversationId cmd"
      "im_seq im = Suc (lg_lastSeq l (sm_conversationId cmd))"
    and fresh: "im_messageId im \<notin> mr_messageId ` set (lg_messages l)"
    and key: "\<And>who key. im_senderPrincipalId im = Some who \<Longrightarrow> im_clientMessageId im = Some key \<Longrightarrow>
       find (sameClientKey (im_conversationId im) who key) (lg_messages l) = None"
  shows "wfLog (logAfterSend cmd m events l)"
proof -
  have "denseLog (logAfterSend cmd m events l)"
    using wf m im by (auto simp: wfLog_def denseLog_def logAfterSend_def seqsOf_def storedFrom_def)
  moreover have "uniqueIds (logAfterSend cmd m events l)"
    using wf m fresh by (auto simp: wfLog_def uniqueIds_def logAfterSend_def storedFrom_def)
  moreover have "uniqueKeys (logAfterSend cmd m events l)"
    unfolding uniqueKeys_def
  proof (intro allI)
    fix cid who k
    have old: "length (filter (sameClientKey cid who k) (lg_messages l)) \<le> 1"
      using wf by (simp add: wfLog_def uniqueKeys_def)
    have "filter (sameClientKey cid who k) (lg_messages l) = []" if "sameClientKey cid who k m"
      using that m key[of who k]
      by (auto simp: sameClientKey_def storedFrom_def find_None_filter)
    with old show "length (filter (sameClientKey cid who k)
        (lg_messages (logAfterSend cmd m events l))) \<le> 1"
      by (auto simp: logAfterSend_def)
  qed
  ultimately show ?thesis by (simp add: wfLog_def)
qed

text \<open>A rewrite of the rows that keeps their identity, place and key keeps the log well-formed.\<close>

lemma wfLog_amend:
  assumes wf: "wfLog l"
    and keep: "\<And>r. mr_messageId (f r) = mr_messageId r" "\<And>r. mr_conversationId (f r) = mr_conversationId r"
      "\<And>r. mr_seq (f r) = mr_seq r" "\<And>r. mr_senderPrincipalId (f r) = mr_senderPrincipalId r"
      "\<And>r. mr_clientMessageId (f r) = mr_clientMessageId r"
  shows "wfLog (l\<lparr>lg_messages := map (\<lambda>r. if mr_messageId r = mid then f r else r) (lg_messages l),
                  lg_outbox := ob, lg_revisions := rs\<rparr>)"
proof -
  let ?g = "\<lambda>r. if mr_messageId r = mid then f r else r"
  have conv: "filter (\<lambda>m. mr_conversationId m = cid) (map ?g xs) =
      map ?g (filter (\<lambda>m. mr_conversationId m = cid) xs)" for cid xs
    by (rule map_filter_keep) (simp add: keep)
  have key: "filter (sameClientKey cid who k) (map ?g xs) =
      map ?g (filter (sameClientKey cid who k) xs)" for cid who k xs
    by (rule map_filter_keep) (simp add: keep sameClientKey_def)
  have seqs: "mr_seq \<circ> ?g = mr_seq" and ids: "mr_messageId \<circ> ?g = mr_messageId"
    by (auto simp: keep fun_eq_iff)
  show ?thesis
    using wf by (simp add: wfLog_def denseLog_def seqsOf_def conv seqs uniqueIds_def ids uniqueKeys_def key)
qed

lemma wfLog_corrected:
  "wfLog l \<Longrightarrow> wfLog (l\<lparr>lg_messages := map (\<lambda>r. if mr_messageId r = mid then corrected b t r else r)
     (lg_messages l), lg_outbox := ob, lg_revisions := rs\<rparr>)"
  by (rule wfLog_amend) (simp_all add: corrected_def)

lemma wfLog_redacted:
  "wfLog l \<Longrightarrow> wfLog (l\<lparr>lg_messages := map (\<lambda>r. if mr_messageId r = mid then redacted t r else r)
     (lg_messages l), lg_outbox := ob, lg_revisions := rs\<rparr>)"
  by (rule wfLog_amend) (simp_all add: redacted_def)

section \<open>The effect of each command, over any provider\<close>

context message_port
begin

text \<open>The writes of a send: one message, its events, the next number, nothing else observed.\<close>

lemma sendWrites_effect:
  assumes "sendWrites tx cmd newId c ra live ms st = Some (ok, st')"
  shows "storedFrom (insertOf cmd newId (Suc (lg_lastSeq (obs st) (sm_conversationId cmd))) ms)
           (so_message ok)" (is ?stored)
    and "obs st' = logAfterSend cmd (so_message ok) (sendEvents cmd (so_message ok) live ms) (obs st)"
      (is ?log)
    and "newId \<notin> mr_messageId ` set (lg_messages (obs st))" (is ?fresh)
    and "sm_clientMessageId cmd = Some key \<Longrightarrow>
      find (sameClientKey (sm_conversationId cmd) (a_principalId (sm_actor cmd)) key)
        (lg_messages (obs st)) = None" (is "?key \<Longrightarrow> _")
    and "authView tx d w st' = authView tx d w st" (is ?auth)
    and "\<exists>st7. tx_touchConversation tx (sm_conversationId cmd) (mr_createdAt (so_message ok))
           (previewToStore (cv_conversationType c) (so_message ok) (trim (sm_body cmd))) st7 = Some st'"
      (is ?touch)
proof -
  let ?cid = "sm_conversationId cmd" and ?me = "a_principalId (sm_actor cmd)"
  let ?notify = "mentionRecipients ms live ?me"
  from assms obtain seq st1 m st2 st3 st4 st5 st6
    where n: "tx_nextSequence tx ?cid st = Some (seq, st1)"
      and i: "tx_insertMessage tx (insertOf cmd newId seq ms) st1 = Some (m, st2)"
      and u: "tx_unarchiveForOthers tx ?cid ?me st2 = Some st3"
      and o1: "tx_appendOutbox tx (createdEvent cmd m) st3 = Some st4"
      and o2: "(if ?notify \<noteq> [] then tx_appendOutbox tx (mentionedEvent cmd m ?notify ms) st4
                else Some st4) = Some st5"
      and a: "(if ownerReplies cmd c
                then map_option snd (tx_activateOnOwnerReply tx ?cid ?me (mr_createdAt m) st5)
                else Some st5) = Some st6"
      and t: "tx_touchConversation tx ?cid (mr_createdAt m)
                (previewToStore (cv_conversationType c) m (trim (sm_body cmd))) st6 = Some st'"
      and ok: "so_message ok = m"
    by (auto simp: sendWrites_def Let_def elim!: bind_SomeE split: prod.splits)
  note s1 = next_sequence[OF n] and s2 = insert_message[OF i] and s3 = unarchive[OF u]
    and s4 = append_outbox[OF o1] and s7 = touch[OF t]
  have s5: "obs st5 = (obs st4)\<lparr>lg_outbox := lg_outbox (obs st4) @
      (if ?notify = [] then [] else [mentionedEvent cmd m ?notify ms])\<rparr>"
    using o2 append_outbox by (auto split: if_splits)
  have s5a: "authView tx d w st5 = authView tx d w st4" for d w
    using o2 append_outbox_auth by (auto split: if_splits)
  have s6: "quiet tx obs st5 st6"
    using a activate by (auto simp: quiet_def split: if_splits)
  show ?stored using s1 s2 ok by simp
  show ?log
    using s1 s2 s3 s4 s5 s6 s7 ok
    by (simp add: quiet_def logAfterSend_def sendEvents_def Let_def storedFrom_def insertOf_def)
  show ?fresh using s1 s2 by (simp add: insertOf_def)
  show "find (sameClientKey ?cid ?me key) (lg_messages (obs st)) = None" if "?key"
    using insert_message_key[OF i, of ?me key] s1 that by (simp add: insertOf_def)
  show ?auth
    using next_sequence_auth[OF n, of d w] insert_message_auth[OF i, of d w] s3
      append_outbox_auth[OF o1, of d w] s5a s6 s7
    by (simp add: quiet_def)
  show ?touch using t ok by auto
qed

lemma sendWrites_wf:
  assumes "sendWrites tx cmd newId c ra live ms st = Some (ok, st')" and "wfLog (obs st)"
  shows "wfLog (obs st')"
  unfolding sendWrites_effect(2)[OF assms(1)]
  by (rule wfLog_send[OF assms(2) sendWrites_effect(1)[OF assms(1)]])
     (use sendWrites_effect(3,4)[OF assms(1)] in \<open>auto simp: insertOf_def\<close>)

lemma sendWrites_preview:
  assumes "sendWrites tx cmd newId c ra live ms st = Some (ok, st')"
  shows "preview (sm_conversationId cmd) st' = None \<or>
    preview (sm_conversationId cmd) st' =
      Some (previewToStore (cv_conversationType c) (so_message ok) (trim (sm_body cmd)))"
  using sendWrites_effect(6)[OF assms] touch_preview by blast

lemma findRetry_log:
  "findRetry tx cmd st =
     (case sm_clientMessageId cmd of None \<Rightarrow> None
      | Some key \<Rightarrow> find (sameClientKey (sm_conversationId cmd) (a_principalId (sm_actor cmd)) key)
                     (lg_messages (obs st)))"
  by (simp add: findRetry_def find_key split: option.split)

lemma sendWrites_retry_found:
  assumes "sendWrites tx cmd newId c ra live ms st = Some (ok, st')"
    and "sm_clientMessageId cmd = Some key"
  shows "findRetry tx cmd st' = Some (so_message ok)"
  using sendWrites_effect(1,2,4)[OF assms(1)] assms(2)
  by (simp add: findRetry_log logAfterSend_def find_append_miss sameClientKey_def storedFrom_def
      insertOf_def)

text \<open>A retry with the same key, still authorized, returns the original and changes nothing.\<close>

lemma send_retry:
  assumes sent: "sendMessage tx mb cmd now newId st = (Returned (Inr ok), st')"
    and fresh: "\<not> so_duplicate ok"
    and key: "sm_clientMessageId cmd \<noteq> None"
    and auth: "\<And>c. tx_loadConversationForUpdate tx (sm_conversationId cmd) st = Some c \<Longrightarrow>
                 allow (decide (sendRequest tx cmd now2 st c))"
  shows "sendMessage tx mb cmd now2 newId2 st' = (Returned (Inr (duplicateResult (so_message ok))), st')"
  using sent
proof (cases rule: sendMessage_cases)
  case (sent c ra live ms ok')
  then have w: "sendWrites tx cmd newId c ra live ms st = Some (ok, st')" by simp
  note load = sendChecks_Fresh(1)[OF sent(2)]
  obtain c' where c': "tx_loadConversationForUpdate tx (sm_conversationId cmd) st' = Some c'"
      and req: "sendRequest tx cmd now2 st' c' = sendRequest tx cmd now2 st c"
    using sendRequest_authView[OF sendWrites_effect(5)[OF w] load] .
  obtain k where "sm_clientMessageId cmd = Some k" using key by auto
  note found = sendWrites_retry_found[OF w this]
  have "sendChecks tx cmd now2 st' = Inr (Duplicate (so_message ok))"
    by (simp add: sendChecks_def c' req auth[OF load] found)
  with sent(1) show ?thesis
    by (simp add: sendMessage_def runTransaction_def sendWork_def)
qed (use fresh in \<open>auto simp: duplicateResult_def\<close>)

text \<open>A correction or deletion: the revision, the rewritten row, one event without content.\<close>

lemma edit_effect:
  assumes "editMessage tx cmd now newId st = (Returned (Inr m), st')"
  obtains old where "find (isMessage (re_conversationId cmd) (re_messageId cmd)) (lg_messages (obs st)) = Some old"
    and "mr_senderPrincipalId old = Some (re_actorId cmd)" and "mr_redactedAt old = None"
    and "mr_body old \<noteq> trim (re_body cmd)"
    and "obs st' = (obs st)
      \<lparr>lg_messages := map (\<lambda>r. if mr_messageId r = re_messageId cmd
                               then corrected (trim (re_body cmd)) now r else r) (lg_messages (obs st)),
       lg_outbox := lg_outbox (obs st) @ [revisedEvent cmd CORRECTION],
       lg_revisions := lg_revisions (obs st) @ [revisionOf cmd newId CORRECTION old]\<rparr>"
    and "m \<in> set (lg_messages (obs st'))" and "mr_messageId m = re_messageId cmd"
proof -
  from assms have "runTransaction (editWork tx cmd (trim (re_body cmd)) now newId) st = (Returned (Inr m), st')"
    by (auto simp: editMessage_def Let_def split: if_splits)
  then have w: "editWork tx cmd (trim (re_body cmd)) now newId st = Some (Inr m, st')"
    by (auto elim: runTransaction_cases)
  then obtain old st1 st2 st3
    where l: "find (isMessage (re_conversationId cmd) (re_messageId cmd)) (lg_messages (obs st)) = Some old"
      and who: "mr_senderPrincipalId old = Some (re_actorId cmd)" and live: "mr_redactedAt old = None"
      and diff: "mr_body old \<noteq> trim (re_body cmd)"
      and s: "tx_insertRevision tx (revisionOf cmd newId CORRECTION old) st = Some st1"
        "tx_applyCorrection tx (re_messageId cmd) (trim (re_body cmd)) now st1 = Some (m, st2)"
        "tx_refreshPreview tx (re_conversationId cmd) st2 = Some st3"
        "tx_appendOutbox tx (revisedEvent cmd CORRECTION) st3 = Some st'"
    by (auto simp: editWork_def load_message elim!: bind_SomeE split: option.splits if_splits)
  note e = insert_revision[OF s(1)] apply_correction[OF s(2), unfolded amends_def]
    refresh[OF s(3), unfolded quiet_def] append_outbox[OF s(4)]
  show thesis by (rule that[OF l who live diff]) (use e in auto)
qed

lemma redact_effect:
  assumes "redactMessage tx cmd now newId st = (Returned (Inr m), st')"
  obtains old where "find (isMessage (re_conversationId cmd) (re_messageId cmd)) (lg_messages (obs st)) = Some old"
    and "mr_senderPrincipalId old = Some (re_actorId cmd)" and "mr_redactedAt old \<noteq> None"
    and "m = old" and "st' = st"
  | old where "find (isMessage (re_conversationId cmd) (re_messageId cmd)) (lg_messages (obs st)) = Some old"
    and "mr_senderPrincipalId old = Some (re_actorId cmd)" and "mr_redactedAt old = None"
    and "obs st' = (obs st)
      \<lparr>lg_messages := map (\<lambda>r. if mr_messageId r = re_messageId cmd then redacted now r else r)
                        (lg_messages (obs st)),
       lg_outbox := lg_outbox (obs st) @ [revisedEvent cmd REDACTION],
       lg_revisions := lg_revisions (obs st) @ [revisionOf cmd newId REDACTION old]\<rparr>"
    and "m \<in> set (lg_messages (obs st'))" and "mr_messageId m = re_messageId cmd"
proof -
  from assms have w: "redactWork tx cmd now newId st = Some (Inr m, st')"
    by (auto simp: redactMessage_def elim: runTransaction_cases)
  then obtain old
    where l: "find (isMessage (re_conversationId cmd) (re_messageId cmd)) (lg_messages (obs st)) = Some old"
      and who: "mr_senderPrincipalId old = Some (re_actorId cmd)"
    by (auto simp: redactWork_def load_message split: option.splits if_splits)
  show thesis
  proof (cases "mr_redactedAt old")
    case (Some t)
    with w l who show thesis by (intro that(1)[of old]) (auto simp: redactWork_def load_message)
  next
    case None
    with w l who obtain st1 st2 st3
      where s: "tx_insertRevision tx (revisionOf cmd newId REDACTION old) st = Some st1"
        "tx_applyRedaction tx (re_messageId cmd) now st1 = Some (m, st2)"
        "tx_refreshPreview tx (re_conversationId cmd) st2 = Some st3"
        "tx_appendOutbox tx (revisedEvent cmd REDACTION) st3 = Some st'"
      by (auto simp: redactWork_def load_message elim!: bind_SomeE)
    note e = insert_revision[OF s(1)] apply_redaction[OF s(2), unfolded amends_def]
      refresh[OF s(3), unfolded quiet_def] append_outbox[OF s(4)]
    show thesis by (rule that(2)[OF l who None]) (use e in auto)
  qed
qed

lemma send_wf:
  assumes "sendMessage tx mb cmd now newId st = (r, st')" and "wfLog (obs st)"
  shows "wfLog (obs st')"
  using assms(1) by (cases rule: sendMessage_cases) (auto intro: sendWrites_wf simp: assms(2))

lemma editWork_refused_same:
  "editWork tx cmd body now newId st = Some (Inl f, st') \<Longrightarrow> st' = st"
  by (auto simp: editWork_def elim!: bind_SomeE split: option.splits if_splits)

lemma editMessage_failure_same:
  assumes "editMessage tx cmd now newId st = (r, st')" and "\<And>m. r \<noteq> Returned (Inr m)"
  shows "st' = st"
  using assms editWork_refused_same
  by (auto simp: editMessage_def Let_def split: if_splits elim!: runTransaction_cases)
     (metis sum.exhaust)

lemma redactWork_refused_same:
  "redactWork tx cmd now newId st = Some (Inl f, st') \<Longrightarrow> st' = st"
  by (auto simp: redactWork_def elim!: bind_SomeE split: option.splits if_splits)

lemma redactMessage_failure_same:
  assumes "redactMessage tx cmd now newId st = (r, st')" and "\<And>m. r \<noteq> Returned (Inr m)"
  shows "st' = st"
  using assms redactWork_refused_same
  by (auto simp: redactMessage_def elim!: runTransaction_cases) (metis sum.exhaust)

lemma edit_wf:
  assumes "editMessage tx cmd now newId st = (r, st')" and "wfLog (obs st)"
  shows "wfLog (obs st')"
proof (cases "\<exists>m. r = Returned (Inr m)")
  case True
  then obtain m where "editMessage tx cmd now newId st = (Returned (Inr m), st')" using assms by auto
  then show ?thesis by (rule edit_effect) (simp add: wfLog_corrected[OF assms(2)])
qed (use editMessage_failure_same[OF assms(1)] assms(2) in auto)

lemma redact_wf:
  assumes "redactMessage tx cmd now newId st = (r, st')" and "wfLog (obs st)"
  shows "wfLog (obs st')"
proof (cases "\<exists>m. r = Returned (Inr m)")
  case True
  then obtain m where "redactMessage tx cmd now newId st = (Returned (Inr m), st')" using assms by auto
  then show ?thesis by (rule redact_effect) (simp_all add: wfLog_redacted[OF assms(2)] assms(2))
qed (use redactMessage_failure_same[OF assms(1)] assms(2) in auto)

end

end
