(* ===== verification/Message_Store.thy ===== *)
theory Message_Store
  imports Messaging_Contract "HOL-Library.Product_Lexorder"
begin

text \<open>
  The PostgreSQL adapter of the message port,
  \<open>infrastructure/database/src/repositories/message-store.ts\<close>, with \<open>advanceStateIn\<close> of
  \<open>case-state.ts\<close> and the channel policy of \<open>channel-store.ts\<close>. The tables are lists of rows in
  insertion order; a query is what the SQL text says of them, and a statement that a constraint
  of the migrations refuses is \<open>None\<close>. A transaction here is one sequential unit of work: the row
  lock of \<open>loadConversationForUpdate\<close> is what makes that view of one conversation sound, and is
  not modelled. The time of the transaction, \<open>now()\<close>, and the random episode id are parameters.
  The housekeeping columns that no query of these files reads (\<open>updated_at\<close>, \<open>created_at\<close> of a
  revision, \<open>outbox_id\<close>) are left out.
\<close>

section \<open>The tables\<close>

record ConversationRow =
  cr_conversation_id :: UUID
  cr_conversation_type :: ConversationType
  cr_state :: "ConversationState option"
  cr_case_id :: "UUID option"
  cr_sensitivity :: SensitivityClass
  cr_last_seq :: nat
  cr_customer_ref :: "string option"
  cr_last_activity_at :: Timestamp
  cr_last_message_preview :: string
  cr_participant_count :: nat

record ServiceCaseRow =
  sc_case_id :: UUID
  sc_owning_team_id :: "string option"
  sc_current_owner_id :: "UUID option"
  sc_designated_employee_id :: "UUID option"
  sc_escalation_level :: nat
  sc_state :: ConversationState
  sc_resolved_at :: "Timestamp option"
  sc_outcome_code :: "string option"
  sc_reopen_count :: nat

record TeamRow =
  te_team_id :: string
  te_department :: "string option"

record ParticipantRow =
  pa_conversation_id :: UUID
  pa_principal_id :: UUID
  pa_principal_kind :: PrincipalKind
  pa_role :: string
  pa_reply_authority :: bool
  pa_effective_from :: Timestamp
  pa_effective_to :: "Timestamp option"
  pa_archived_at :: "Timestamp option"
  pa_added_by :: "UUID option"

datatype AudienceScope = AUD_DEPARTMENT | AUD_TEAM | AUD_PRINCIPAL

record ChannelRow =
  ch_conversation_id :: UUID
  ch_visibility :: ChannelVisibility
  ch_read_access :: ChannelReadAccess
  ch_post_access :: ChannelPostAccess
  ch_archived_at :: "Timestamp option"

record AudienceRow =
  au_conversation_id :: UUID
  au_scope_kind :: AudienceScope
  au_scope_id :: string

record MessageRow =
  me_message_id :: UUID
  me_conversation_id :: UUID
  me_seq :: nat
  me_visibility :: MessageVisibility
  me_sender_principal_id :: "UUID option"
  me_sender_kind :: PrincipalKind
  me_sender_display_name :: string
  me_message_class :: string
  me_body :: "string option"
  me_reply_to_message_id :: "UUID option"
  me_client_message_id :: "string option"
  me_mentions :: "Mention list option"
  me_created_at :: Timestamp
  me_edited_at :: "Timestamp option"
  me_redacted_at :: "Timestamp option"

record AttachmentRow =
  at_message_id :: "UUID option"
  at_sniffed_mime :: "string option"
  at_declared_mime :: string
  at_duration_ms :: "nat option"
  at_original_filename :: string
  at_created_at :: Timestamp

record EpisodeRow =
  ep_episode_id :: UUID
  ep_conversation_id :: UUID
  ep_state :: ConversationState
  ep_effective_from :: Timestamp
  ep_effective_to :: "Timestamp option"
  ep_entered_by :: "UUID option"
  ep_reason :: "string option"

record Db =
  db_conversations :: "ConversationRow list"
  db_service_cases :: "ServiceCaseRow list"
  db_teams :: "TeamRow list"
  db_departments :: "(UUID \<times> string option) list"
  db_team_memberships :: "(UUID \<times> string) list"
  db_participants :: "ParticipantRow list"
  db_channels :: "ChannelRow list"
  db_channel_audience :: "AudienceRow list"
  db_messages :: "MessageRow list"
  db_revisions :: "MessageRevision list"
  db_attachments :: "AttachmentRow list"
  db_episodes :: "EpisodeRow list"
  db_outbox :: "OutboxRow list"

text \<open>\<open>UPDATE ... WHERE p\<close> as a pass over the rows.\<close>

definition updateWhere :: "('a \<Rightarrow> bool) \<Rightarrow> ('a \<Rightarrow> 'a) \<Rightarrow> 'a list \<Rightarrow> 'a list" where
  "updateWhere p f rows = map (\<lambda>r. if p r then f r else r) rows"

section \<open>Rows to records\<close>

definition toMessage :: "MessageRow \<Rightarrow> MessageRecord" where
  "toMessage r =
     \<lparr>mr_messageId = me_message_id r, mr_conversationId = me_conversation_id r,
      mr_seq = me_seq r, mr_visibility = me_visibility r,
      mr_senderPrincipalId = me_sender_principal_id r, mr_senderKind = me_sender_kind r,
      mr_senderDisplayName = me_sender_display_name r,
      mr_body = (case me_body r of None \<Rightarrow> [] | Some b \<Rightarrow> b),
      mr_replyToMessageId = me_reply_to_message_id r,
      mr_createdAt = me_created_at r,
      mr_clientMessageId = me_client_message_id r,
      mr_mentions = me_mentions r,
      mr_messageClass =
        (if me_message_class r \<noteq> ''TEXT'' then Some (me_message_class r) else None),
      mr_editedAt = me_edited_at r, mr_redactedAt = me_redacted_at r\<rparr>"

definition toConversation ::
  "ConversationRow \<Rightarrow> ServiceCaseRow option \<Rightarrow> TeamRow option \<Rightarrow> ConversationRecord" where
  "toConversation c sc t =
     \<lparr>cv_conversationId = cr_conversation_id c, cv_conversationType = cr_conversation_type c,
      cv_state = cr_state c, cv_caseId = cr_case_id c, cv_sensitivity = cr_sensitivity c,
      cv_lastSeq = cr_last_seq c,
      cv_owningTeamId = Option.bind sc sc_owning_team_id,
      cv_owningDepartment = Option.bind t te_department,
      cv_currentOwnerId = Option.bind sc sc_current_owner_id,
      cv_customerRef = cr_customer_ref c\<rparr>"

section \<open>Reads\<close>

definition findConversation :: "UUID \<Rightarrow> 'x Db_scheme \<Rightarrow> ConversationRow option" where
  "findConversation cid db = find (\<lambda>c. cr_conversation_id c = cid) (db_conversations db)"

definition caseOf :: "ConversationRow \<Rightarrow> 'x Db_scheme \<Rightarrow> ServiceCaseRow option" where
  "caseOf c db = (case cr_case_id c of None \<Rightarrow> None
     | Some k \<Rightarrow> find (\<lambda>s. sc_case_id s = k) (db_service_cases db))"

definition loadConversationForUpdate :: "UUID \<Rightarrow> 'x Db_scheme \<Rightarrow> ConversationRecord option" where
  "loadConversationForUpdate cid db =
     map_option (\<lambda>c.
       let sc = caseOf c db;
           t = Option.bind (Option.bind sc sc_owning_team_id)
                 (\<lambda>k. find (\<lambda>t. te_team_id t = k) (db_teams db))
       in toConversation c sc t) (findConversation cid db)"

text \<open>\<open>channelVisibilitySql\<close> and \<open>channelFactsFrom\<close> of channel-store.ts.\<close>

definition audienceMatches :: "UUID \<Rightarrow> 'x Db_scheme \<Rightarrow> AudienceRow \<Rightarrow> bool" where
  "audienceMatches viewer db a =
     (case au_scope_kind a of
        AUD_PRINCIPAL \<Rightarrow> au_scope_id a = viewer
      | AUD_DEPARTMENT \<Rightarrow>
          (case Option.bind (find (\<lambda>(p, _). p = viewer) (db_departments db)) snd of
             None \<Rightarrow> False | Some d \<Rightarrow> au_scope_id a = d)
      | AUD_TEAM \<Rightarrow> list_ex (\<lambda>(p, t). p = viewer \<and> au_scope_id a = t) (db_team_memberships db))"

definition channelVisible :: "UUID \<Rightarrow> ChannelRow \<Rightarrow> 'x Db_scheme \<Rightarrow> bool" where
  "channelVisible viewer ch db \<longleftrightarrow>
     ch_visibility ch = EVERYONE \<or>
     list_ex (\<lambda>a. au_conversation_id a = ch_conversation_id ch \<and> audienceMatches viewer db a)
       (db_channel_audience db)"

definition channelFactsFrom :: "ChannelRow option \<Rightarrow> bool \<Rightarrow> ChannelFacts option" where
  "channelFactsFrom ch visible =
     map_option (\<lambda>r.
       \<lparr>c_policy = \<lparr>cp_visibility = ch_visibility r, cp_readAccess = ch_read_access r,
                    cp_postAccess = ch_post_access r,
                    cp_archived = (ch_archived_at r \<noteq> None)\<rparr>,
        c_visibleToActor = visible\<rparr>) ch"

definition loadChannelFacts :: "UUID \<Rightarrow> UUID \<Rightarrow> 'x Db_scheme \<Rightarrow> ChannelFacts option" where
  "loadChannelFacts cid viewer db =
     (case findConversation cid db of
        None \<Rightarrow> None
      | Some c \<Rightarrow>
          (let ch = find (\<lambda>r. ch_conversation_id r = cid) (db_channels db)
           in channelFactsFrom ch
                (case ch of None \<Rightarrow> False | Some r \<Rightarrow> channelVisible viewer r db)))"

definition loadParticipant :: "UUID \<Rightarrow> UUID \<Rightarrow> 'x Db_scheme \<Rightarrow> ParticipantRecord option" where
  "loadParticipant cid who db =
     map_option (\<lambda>p.
       \<lparr>pr_principalId = pa_principal_id p, pr_principalKind = pa_principal_kind p,
        pr_role = pa_role p, pr_replyAuthority = pa_reply_authority p,
        pr_effectiveFrom = pa_effective_from p, pr_effectiveTo = pa_effective_to p\<rparr>)
       (find (\<lambda>p. pa_conversation_id p = cid \<and> pa_principal_id p = who) (db_participants db))"

definition clientKeyIs :: "UUID \<Rightarrow> UUID \<Rightarrow> string \<Rightarrow> MessageRow \<Rightarrow> bool" where
  "clientKeyIs cid who key r \<longleftrightarrow>
     me_conversation_id r = cid \<and> me_sender_principal_id r = Some who \<and>
     me_client_message_id r = Some key"

definition findByClientMessageId ::
  "UUID \<Rightarrow> UUID \<Rightarrow> string \<Rightarrow> 'x Db_scheme \<Rightarrow> MessageRecord option" where
  "findByClientMessageId cid who key db =
     map_option toMessage (find (clientKeyIs cid who key) (db_messages db))"

definition findMessageInConversation :: "UUID \<Rightarrow> UUID \<Rightarrow> 'x Db_scheme \<Rightarrow> MessageRecord option" where
  "findMessageInConversation cid mid db =
     map_option toMessage
       (find (\<lambda>r. me_conversation_id r = cid \<and> me_message_id r = mid) (db_messages db))"

definition listParticipantIds :: "UUID \<Rightarrow> 'x Db_scheme \<Rightarrow> UUID list" where
  "listParticipantIds cid db =
     map pa_principal_id
       (filter (\<lambda>p. pa_conversation_id p = cid \<and> pa_effective_to p = None) (db_participants db))"

definition loadMessageForRevision :: "UUID \<Rightarrow> UUID \<Rightarrow> 'x Db_scheme \<Rightarrow> MessageRecord option" where
  "loadMessageForRevision cid mid db =
     map_option toMessage
       (find (\<lambda>r. me_conversation_id r = cid \<and> me_message_id r = mid) (db_messages db))"

section \<open>Writes\<close>

definition nextSequence :: "UUID \<Rightarrow> 'x Db_scheme \<Rightarrow> (nat \<times> 'x Db_scheme) option" where
  "nextSequence cid db =
     (let db' = db\<lparr>db_conversations :=
            updateWhere (\<lambda>c. cr_conversation_id c = cid)
              (\<lambda>c. c\<lparr>cr_last_seq := cr_last_seq c + 1\<rparr>) (db_conversations db)\<rparr>
      in map_option (\<lambda>c. (cr_last_seq c, db')) (findConversation cid db'))"

text \<open>
  The constraints on a message row: the primary key, the foreign keys, \<open>UNIQUE (conversation_id,
  seq)\<close> and the idempotency index \<open>(conversation_id, sender_principal_id, client_message_id)\<close>,
  which like every unique index treats a NULL sender as distinct from every other.
\<close>

definition clashes :: "MessageRow \<Rightarrow> MessageRow \<Rightarrow> bool" where
  "clashes r s \<longleftrightarrow>
     me_message_id r = me_message_id s \<or>
     me_conversation_id r = me_conversation_id s \<and> me_seq r = me_seq s \<or>
     me_client_message_id r \<noteq> None \<and> me_sender_principal_id r \<noteq> None \<and>
     me_conversation_id r = me_conversation_id s \<and>
     me_sender_principal_id r = me_sender_principal_id s \<and>
     me_client_message_id r = me_client_message_id s"

definition referencesExist :: "MessageRow \<Rightarrow> 'x Db_scheme \<Rightarrow> bool" where
  "referencesExist r db \<longleftrightarrow>
     findConversation (me_conversation_id r) db \<noteq> None \<and>
     (case me_reply_to_message_id r of None \<Rightarrow> True
      | Some t \<Rightarrow> list_ex (\<lambda>s. me_message_id s = t) (r # db_messages db))"

definition messageRowOf :: "Timestamp \<Rightarrow> InsertMessage \<Rightarrow> MessageRow" where
  "messageRowOf txNow m =
     \<lparr>me_message_id = im_messageId m, me_conversation_id = im_conversationId m,
      me_seq = im_seq m, me_visibility = im_visibility m,
      me_sender_principal_id = im_senderPrincipalId m, me_sender_kind = im_senderKind m,
      me_sender_display_name = im_senderDisplayName m, me_message_class = ''TEXT'',
      me_body = Some (im_body m), me_reply_to_message_id = im_replyToMessageId m,
      me_client_message_id = im_clientMessageId m,
      me_mentions = (case im_mentions m of None \<Rightarrow> None
                     | Some ms \<Rightarrow> if length ms > 0 then Some ms else None),
      me_created_at = txNow, me_edited_at = None, me_redacted_at = None\<rparr>"

definition insertMessage :: "Timestamp \<Rightarrow> InsertMessage \<Rightarrow> 'x Db_scheme \<Rightarrow> (MessageRecord \<times> 'x Db_scheme) option" where
  "insertMessage txNow m db =
     (let r = messageRowOf txNow m
      in if list_ex (clashes r) (db_messages db) \<or> \<not> referencesExist r db then None
         else Some (toMessage r, db\<lparr>db_messages := db_messages db @ [r]\<rparr>))"

text \<open>The plain insert of the message and the conversation stores, in the caller's transaction.\<close>

definition appendOutbox :: "OutboxRow \<Rightarrow> 'x Db_scheme \<Rightarrow> 'x Db_scheme option" where
  "appendOutbox row db = Some (db\<lparr>db_outbox := db_outbox db @ [row]\<rparr>)"

text \<open>
  The routing, case and notification stores write through \<open>appendOutboxIn\<close> instead.
  What \<open>appendOutboxIn\<close> (\<open>outbox-writer.ts\<close>) checks against the event catalogue before it writes: the
  bounds of the payload. Names and the shapes of identifiers hold by the types of the callers. A payload
  the catalogue refuses is thrown, so that the transaction rolls back.
\<close>

definition publishable :: "OutboxPayload \<Rightarrow> bool" where
  "publishable p \<longleftrightarrow>
     (case p of
        MessageCreated _ _ seq _ _ _ _ \<Rightarrow> 0 < seq
      | MessageMentioned _ _ seq who _ \<Rightarrow> 0 < seq \<and> 1 \<le> length who \<and> length who \<le> 200
      | _ \<Rightarrow> True)"

definition appendOutboxIn :: "OutboxRow \<Rightarrow> 'x Db_scheme \<Rightarrow> 'x Db_scheme option" where
  "appendOutboxIn row db =
     (if publishable (ob_payload row) then appendOutbox row db else None)"

lemma appendOutbox_iff:
  "appendOutbox row db = Some db' \<longleftrightarrow> db' = db\<lparr>db_outbox := db_outbox db @ [row]\<rparr>"
  by (auto simp: appendOutbox_def)

lemma appendOutboxIn_iff:
  "appendOutboxIn row db = Some db' \<longleftrightarrow>
     publishable (ob_payload row) \<and> db' = db\<lparr>db_outbox := db_outbox db @ [row]\<rparr>"
  by (auto simp: appendOutboxIn_def appendOutbox_def)

definition unarchiveForOthers :: "UUID \<Rightarrow> UUID \<Rightarrow> 'x Db_scheme \<Rightarrow> 'x Db_scheme option" where
  "unarchiveForOthers cid sender db =
     Some (db\<lparr>db_participants :=
       updateWhere (\<lambda>p. pa_conversation_id p = cid \<and> pa_principal_id p \<noteq> sender \<and>
                        pa_effective_to p = None \<and> pa_archived_at p \<noteq> None)
         (\<lambda>p. p\<lparr>pa_archived_at := None\<rparr>) (db_participants db)\<rparr>)"

definition insertRevision :: "MessageRevision \<Rightarrow> 'x Db_scheme \<Rightarrow> 'x Db_scheme option" where
  "insertRevision rv db =
     (if list_ex (\<lambda>s. rv_revisionId s = rv_revisionId rv) (db_revisions db) \<or>
         \<not> list_ex (\<lambda>m. me_message_id m = rv_messageId rv) (db_messages db) then None
      else Some (db\<lparr>db_revisions := db_revisions db @ [rv]\<rparr>))"

definition updateMessage ::
  "UUID \<Rightarrow> (MessageRow \<Rightarrow> MessageRow) \<Rightarrow> 'x Db_scheme \<Rightarrow> (MessageRecord \<times> 'x Db_scheme) option" where
  "updateMessage mid f db =
     (let db' = db\<lparr>db_messages := updateWhere (\<lambda>r. me_message_id r = mid) f (db_messages db)\<rparr>
      in map_option (\<lambda>r. (toMessage r, db'))
           (find (\<lambda>r. me_message_id r = mid) (db_messages db')))"

definition applyCorrection ::
  "UUID \<Rightarrow> string \<Rightarrow> Timestamp \<Rightarrow> 'x Db_scheme \<Rightarrow> (MessageRecord \<times> 'x Db_scheme) option" where
  "applyCorrection mid body now db =
     updateMessage mid (\<lambda>r. r\<lparr>me_body := Some body, me_edited_at := Some now\<rparr>) db"

definition applyRedaction :: "UUID \<Rightarrow> Timestamp \<Rightarrow> 'x Db_scheme \<Rightarrow> (MessageRecord \<times> 'x Db_scheme) option" where
  "applyRedaction mid now db =
     updateMessage mid (\<lambda>r. r\<lparr>me_body := None, me_redacted_at := Some now\<rparr>) db"

definition touchConversation :: "UUID \<Rightarrow> Timestamp \<Rightarrow> string \<Rightarrow> 'x Db_scheme \<Rightarrow> 'x Db_scheme option" where
  "touchConversation cid lastActivityAt preview db =
     Some (db\<lparr>db_conversations :=
       updateWhere (\<lambda>c. cr_conversation_id c = cid)
         (\<lambda>c. c\<lparr>cr_last_activity_at := lastActivityAt, cr_last_message_preview := preview\<rparr>)
         (db_conversations db)\<rparr>)"

subsection \<open>The recomputed preview\<close>

definition lpad2 :: "string \<Rightarrow> string" where
  "lpad2 s = (if length s \<ge> 2 then take 2 s else replicate (2 - length s) CHR ''0'' @ s)"

definition sqlTrim :: "string \<Rightarrow> string" where
  "sqlTrim s = rev (dropWhile (\<lambda>ch. ch = CHR '' '') (rev (dropWhile (\<lambda>ch. ch = CHR '' '') s)))"

definition attachmentPreview :: "AttachmentRow \<Rightarrow> string" where
  "attachmentPreview a =
     (if take 6 (case at_sniffed_mime a of Some m \<Rightarrow> m | None \<Rightarrow> at_declared_mime a) = ''audio/''
      then ''Voice note'' @
        (case at_duration_ms a of None \<Rightarrow> []
         | Some d \<Rightarrow> '' ('' @ showNat (d div 60000) @ '':'' @ lpad2 (showNat (d div 1000 mod 60)) @ '')'')
      else at_original_filename a)"

text \<open>\<open>ORDER BY key LIMIT 1\<close>: the first row, in table order, with the least (greatest) key.\<close>

fun firstBy :: "('a \<Rightarrow> 'a \<Rightarrow> bool) \<Rightarrow> 'a list \<Rightarrow> 'a option" where
  "firstBy lt [] = None"
| "firstBy lt (x # xs) =
     (case firstBy lt xs of None \<Rightarrow> Some x | Some y \<Rightarrow> Some (if lt y x then y else x))"

definition newestUnredacted :: "UUID \<Rightarrow> 'x Db_scheme \<Rightarrow> MessageRow option" where
  "newestUnredacted cid db =
     firstBy (\<lambda>x y. me_seq y < me_seq x)
       (filter (\<lambda>m. me_conversation_id m = cid \<and> me_redacted_at m = None) (db_messages db))"

definition messagePreview :: "MessageRow \<Rightarrow> 'x Db_scheme \<Rightarrow> string" where
  "messagePreview m db =
     (let text = take 200 (sqlTrim (case me_body m of None \<Rightarrow> [] | Some b \<Rightarrow> b))
      in if text \<noteq> [] then text
         else case firstBy (\<lambda>x y. at_created_at x < at_created_at y)
                     (filter (\<lambda>a. at_message_id a = Some (me_message_id m)) (db_attachments db)) of
                None \<Rightarrow> [] | Some a \<Rightarrow> attachmentPreview a)"

definition recomputedPreview :: "UUID \<Rightarrow> 'x Db_scheme \<Rightarrow> string" where
  "recomputedPreview cid db =
     (case newestUnredacted cid db of None \<Rightarrow> [] | Some m \<Rightarrow> messagePreview m db)"

definition refreshPreview :: "UUID \<Rightarrow> 'x Db_scheme \<Rightarrow> 'x Db_scheme option" where
  "refreshPreview cid db =
     Some (db\<lparr>db_conversations :=
       updateWhere (\<lambda>c. cr_conversation_id c = cid)
         (\<lambda>c. c\<lparr>cr_last_message_preview := recomputedPreview cid db\<rparr>) (db_conversations db)\<rparr>)"

section \<open>Advancing the case state (case-state.ts)\<close>

record AdvanceStateInput =
  as_conversationId :: UUID
  as_from :: "ConversationState list"
  as_to :: ConversationState
  as_at :: Timestamp
  as_enteredBy :: "UUID option"
  as_reason :: "string option"

definition ASSIGNABLE_FROM :: "ConversationState list" where
  "ASSIGNABLE_FROM = [NEW, QUEUED]"

text \<open>
  Closing the open episode must leave \<open>effective_to > effective_from\<close> (\<open>case_state_period_valid\<close>),
  and the new open-ended one must not overlap an episode already closed
  (\<open>case_state_no_overlap\<close>); otherwise the statement throws.
\<close>

definition episodesAllow :: "UUID \<Rightarrow> Timestamp \<Rightarrow> EpisodeRow list \<Rightarrow> bool" where
  "episodesAllow cid t eps \<longleftrightarrow>
     list_all (\<lambda>e. ep_conversation_id e = cid \<longrightarrow>
       (case ep_effective_to e of None \<Rightarrow> ep_effective_from e < t | Some u \<Rightarrow> u \<le> t)) eps"

definition advanceStateIn :: "UUID \<Rightarrow> AdvanceStateInput \<Rightarrow> 'x Db_scheme \<Rightarrow> (bool \<times> 'x Db_scheme) option" where
  "advanceStateIn episodeId inp db =
     (let cid = as_conversationId inp;
          hit = (\<lambda>c. cr_conversation_id c = cid \<and>
                     (case cr_state c of None \<Rightarrow> False | Some s \<Rightarrow> s \<in> set (as_from inp)))
      in if \<not> list_ex hit (db_conversations db) then Some (False, db)
         else if \<not> episodesAllow cid (as_at inp) (db_episodes db) then None
         else Some (True, db
           \<lparr>db_conversations :=
              updateWhere hit (\<lambda>c. c\<lparr>cr_state := Some (as_to inp)\<rparr>) (db_conversations db),
            db_service_cases :=
              updateWhere (\<lambda>sc. list_ex (\<lambda>c. cr_conversation_id c = cid \<and>
                                   cr_case_id c = Some (sc_case_id sc)) (db_conversations db))
                (\<lambda>sc. sc\<lparr>sc_state := as_to inp\<rparr>) (db_service_cases db),
            db_episodes :=
              updateWhere (\<lambda>e. ep_conversation_id e = cid \<and> ep_effective_to e = None)
                (\<lambda>e. e\<lparr>ep_effective_to := Some (as_at inp)\<rparr>) (db_episodes db) @
              [\<lparr>ep_episode_id = episodeId, ep_conversation_id = cid, ep_state = as_to inp,
                ep_effective_from = as_at inp, ep_effective_to = None,
                ep_entered_by = as_enteredBy inp, ep_reason = as_reason inp\<rparr>]\<rparr>))"

definition activateOnOwnerReply ::
  "UUID \<Rightarrow> UUID \<Rightarrow> UUID \<Rightarrow> Timestamp \<Rightarrow> 'x Db_scheme \<Rightarrow> (bool \<times> 'x Db_scheme) option" where
  "activateOnOwnerReply episodeId cid owner t db =
     advanceStateIn episodeId
       \<lparr>as_conversationId = cid, as_from = [ASSIGNED], as_to = ACTIVE, as_at = t,
        as_enteredBy = Some owner, as_reason = Some ''first customer-visible reply''\<rparr> db"

section \<open>The unit of work\<close>

definition pgTx :: "Timestamp \<Rightarrow> UUID \<Rightarrow> 'x Db_scheme MessageWriteTransaction" where
  "pgTx txNow episodeId =
     \<lparr>tx_loadConversationForUpdate = loadConversationForUpdate,
      tx_loadParticipant = loadParticipant,
      tx_loadChannelFacts = loadChannelFacts,
      tx_findByClientMessageId = findByClientMessageId,
      tx_findMessageInConversation = findMessageInConversation,
      tx_nextSequence = nextSequence,
      tx_insertMessage = insertMessage txNow,
      tx_unarchiveForOthers = unarchiveForOthers,
      tx_appendOutbox = appendOutbox,
      tx_touchConversation = touchConversation,
      tx_listParticipantIds = listParticipantIds,
      tx_loadMessageForRevision = loadMessageForRevision,
      tx_insertRevision = insertRevision,
      tx_applyCorrection = applyCorrection,
      tx_applyRedaction = applyRedaction,
      tx_refreshPreview = refreshPreview,
      tx_activateOnOwnerReply = activateOnOwnerReply episodeId\<rparr>"

section \<open>The adapter keeps the port's contract\<close>

definition dbLastSeq :: "'x Db_scheme \<Rightarrow> UUID \<Rightarrow> nat" where
  "dbLastSeq db cid = (case findConversation cid db of None \<Rightarrow> 0 | Some c \<Rightarrow> cr_last_seq c)"

definition dbLog :: "'x Db_scheme \<Rightarrow> MessageLog" where
  "dbLog db =
     \<lparr>lg_messages = map toMessage (db_messages db), lg_outbox = db_outbox db,
      lg_revisions = db_revisions db, lg_lastSeq = dbLastSeq db\<rparr>"

definition dbPreview :: "UUID \<Rightarrow> 'x Db_scheme \<Rightarrow> string option" where
  "dbPreview cid db = map_option cr_last_message_preview (findConversation cid db)"

lemma find_updateWhere:
  assumes "\<And>r. P (f r) = P r"
  shows "find P (updateWhere q f xs) = map_option (\<lambda>r. if q r then f r else r) (find P xs)"
  using assms by (induction xs) (auto simp: updateWhere_def)

lemma toMessage_simps [simp]:
  "mr_messageId (toMessage r) = me_message_id r"
  "mr_conversationId (toMessage r) = me_conversation_id r"
  "mr_seq (toMessage r) = me_seq r"
  "mr_visibility (toMessage r) = me_visibility r"
  "mr_senderPrincipalId (toMessage r) = me_sender_principal_id r"
  "mr_clientMessageId (toMessage r) = me_client_message_id r"
  "mr_createdAt (toMessage r) = me_created_at r"
  "mr_redactedAt (toMessage r) = me_redacted_at r"
  by (simp_all add: toMessage_def)

lemma findConversation_update:
  assumes "\<And>c. cr_conversation_id (f c) = cr_conversation_id c"
  shows "findConversation cid (db\<lparr>db_conversations := updateWhere q f (db_conversations db)\<rparr>) =
    map_option (\<lambda>c. if q c then f c else c) (findConversation cid db)"
  unfolding findConversation_def using assms by (simp add: find_updateWhere)

lemma findConversation_other [simp]:
  "findConversation cid (db\<lparr>db_messages := ms\<rparr>) = findConversation cid db"
  "findConversation cid (db\<lparr>db_outbox := ob\<rparr>) = findConversation cid db"
  "findConversation cid (db\<lparr>db_revisions := rv\<rparr>) = findConversation cid db"
  "findConversation cid (db\<lparr>db_participants := ps\<rparr>) = findConversation cid db"
  "findConversation cid (db\<lparr>db_service_cases := sc\<rparr>) = findConversation cid db"
  "findConversation cid (db\<lparr>db_episodes := ep\<rparr>) = findConversation cid db"
  by (simp_all add: findConversation_def)

lemma findConversation_id: "findConversation cid db = Some c \<Longrightarrow> cr_conversation_id c = cid"
  by (auto simp: findConversation_def dest: find_SomeD)

text \<open>The facts authorization reads, as a function of the tables they come from.\<close>

definition stripCase :: "ServiceCaseRow \<Rightarrow> ServiceCaseRow" where
  "stripCase sc = sc\<lparr>sc_state := NEW\<rparr>"

definition stripConversation :: "ConversationRow \<Rightarrow> ConversationRow" where
  "stripConversation c =
     c\<lparr>cr_state := None, cr_last_seq := 0, cr_last_activity_at := [], cr_last_message_preview := [],
       cr_participant_count := 0\<rparr>"

lemma authView_cong:
  assumes conv: "\<And>cid. map_option stripConversation (findConversation cid db') =
                        map_option stripConversation (findConversation cid db)"
    and cases: "\<And>k. map_option stripCase (find (\<lambda>s. sc_case_id s = k) (db_service_cases db')) =
                      map_option stripCase (find (\<lambda>s. sc_case_id s = k) (db_service_cases db))"
    and part: "\<And>cid who. loadParticipant cid who db' = loadParticipant cid who db"
    and rest: "db_teams db' = db_teams db" "db_departments db' = db_departments db"
      "db_team_memberships db' = db_team_memberships db" "db_channels db' = db_channels db"
      "db_channel_audience db' = db_channel_audience db"
  shows "authView (pgTx t e) cid who db' = authView (pgTx t e) cid who db"
proof -
  have aud: "audienceMatches v db' = audienceMatches v db" for v
    by (auto simp: audienceMatches_def rest fun_eq_iff split: AudienceScope.splits)
  have chan: "loadChannelFacts cid who db' = loadChannelFacts cid who db"
    using conv[of cid]
    by (auto simp: loadChannelFacts_def rest channelVisible_def aud Let_def split: option.splits)
  have "map_option (\<lambda>c. c\<lparr>cv_state := None, cv_lastSeq := 0\<rparr>) (loadConversationForUpdate cid db') =
        map_option (\<lambda>c. c\<lparr>cv_state := None, cv_lastSeq := 0\<rparr>) (loadConversationForUpdate cid db)"
  proof (cases "findConversation cid db")
    case None
    then show ?thesis using conv[of cid] by (simp add: loadConversationForUpdate_def)
  next
    case (Some c)
    then obtain c' where c': "findConversation cid db' = Some c'"
        and s: "stripConversation c' = stripConversation c"
      using conv[of cid] by auto
    have eq: "cr_conversation_id c' = cr_conversation_id c"
        "cr_conversation_type c' = cr_conversation_type c"
        "cr_case_id c' = cr_case_id c" "cr_sensitivity c' = cr_sensitivity c"
        "cr_customer_ref c' = cr_customer_ref c"
      using s by (cases c; cases c'; simp add: stripConversation_def)+
    have "map_option stripCase (caseOf c' db') = map_option stripCase (caseOf c db)"
      by (simp add: caseOf_def eq cases split: option.split)
    then have sc: "Option.bind (caseOf c' db') sc_owning_team_id = Option.bind (caseOf c db) sc_owning_team_id"
        "Option.bind (caseOf c' db') sc_current_owner_id = Option.bind (caseOf c db) sc_current_owner_id"
      by (cases "caseOf c' db'"; cases "caseOf c db"; cases "the (caseOf c' db')";
          cases "the (caseOf c db)"; simp add: stripCase_def)+
    show ?thesis
      by (simp add: loadConversationForUpdate_def Some c' toConversation_def Let_def eq sc rest del: Option.bind_assoc)
  qed
  then show ?thesis by (simp add: authView_def pgTx_def chan part)
qed

lemma strip_update:
  assumes "\<And>c. stripConversation (f c) = stripConversation c"
  shows "map_option stripConversation
      (findConversation cid (db\<lparr>db_conversations := updateWhere q f (db_conversations db)\<rparr>)) =
    map_option stripConversation (findConversation cid db)"
proof -
  have "cr_conversation_id (f c) = cr_conversation_id c" for c
    using assms[of c] by (cases c; cases "f c") (simp add: stripConversation_def)
  then show ?thesis
    by (simp add: findConversation_update option.map_comp comp_def assms if_distrib[of stripConversation]
        cong: if_cong)
qed

lemma loadParticipant_other [simp]:
  "loadParticipant cid who (db\<lparr>db_messages := ms\<rparr>) = loadParticipant cid who db"
  "loadParticipant cid who (db\<lparr>db_outbox := ob\<rparr>) = loadParticipant cid who db"
  "loadParticipant cid who (db\<lparr>db_revisions := rv\<rparr>) = loadParticipant cid who db"
  "loadParticipant cid who (db\<lparr>db_conversations := cs\<rparr>) = loadParticipant cid who db"
  "loadParticipant cid who (db\<lparr>db_service_cases := sc\<rparr>) = loadParticipant cid who db"
  "loadParticipant cid who (db\<lparr>db_episodes := ep\<rparr>) = loadParticipant cid who db"
  by (simp_all add: loadParticipant_def)

lemma dbLastSeq_strip:
  assumes "\<And>c. cr_conversation_id (f c) = cr_conversation_id c" "\<And>c. cr_last_seq (f c) = cr_last_seq c"
  shows "dbLastSeq (db\<lparr>db_conversations := updateWhere q f (db_conversations db)\<rparr>) = dbLastSeq db"
  by (rule ext) (auto simp: dbLastSeq_def findConversation_update assms split: option.split)


text \<open>The laws, operation by operation.\<close>

lemma find_toMessage:
  "map_option toMessage (find (\<lambda>r. P (toMessage r)) rows) = find P (map toMessage rows)"
  by (simp add: find_map comp_def)

lemma find_message_law:
  "map_option toMessage (find (\<lambda>r. me_conversation_id r = cid \<and> me_message_id r = mid) (db_messages db)) =
     find (isMessage cid mid) (lg_messages (dbLog db))"
  using find_toMessage[of "isMessage cid mid" "db_messages db"] by (simp add: dbLog_def isMessage_def)

lemma find_key_law:
  "findByClientMessageId cid who key db = find (sameClientKey cid who key) (lg_messages (dbLog db))"
  using find_toMessage[of "sameClientKey cid who key" "db_messages db"]
  by (simp add: dbLog_def findByClientMessageId_def sameClientKey_def clientKeyIs_def[abs_def])

lemma nextSequence_law:
  assumes "nextSequence cid db = Some (n, db')"
  shows "n = Suc (dbLastSeq db cid)"
    and "dbLog db' = (dbLog db)\<lparr>lg_lastSeq := (lg_lastSeq (dbLog db))(cid := n)\<rparr>"
    and "authView (pgTx t e) c w db' = authView (pgTx t e) c w db"
proof -
  let ?db' = "db\<lparr>db_conversations := updateWhere (\<lambda>c. cr_conversation_id c = cid)
      (\<lambda>c. c\<lparr>cr_last_seq := cr_last_seq c + 1\<rparr>) (db_conversations db)\<rparr>"
  from assms have db': "db' = ?db'" and "map_option cr_last_seq (findConversation cid ?db') = Some n"
    by (auto simp: nextSequence_def Let_def)
  then obtain r where r: "findConversation cid db = Some r"
    by (auto simp: findConversation_update)
  with \<open>map_option cr_last_seq (findConversation cid ?db') = Some n\<close> have n: "n = Suc (cr_last_seq r)"
    by (simp add: findConversation_update findConversation_id)
  show "n = Suc (dbLastSeq db cid)" by (simp add: dbLastSeq_def n r)
  have "dbLastSeq ?db' = (dbLastSeq db)(cid := n)"
    by (rule ext)
       (use r n in \<open>auto simp: dbLastSeq_def findConversation_update split: option.split
          dest: findConversation_id\<close>)
  then show "dbLog db' = (dbLog db)\<lparr>lg_lastSeq := (lg_lastSeq (dbLog db))(cid := n)\<rparr>"
    by (simp add: db' dbLog_def)
  show "authView (pgTx t e) c w db' = authView (pgTx t e) c w db"
    unfolding db' by (rule authView_cong) (simp_all add: strip_update stripConversation_def)
qed

lemma insertMessage_law:
  assumes "insertMessage t im db = Some (m, db')"
  shows "storedFrom im m"
    and "dbLog db' = (dbLog db)\<lparr>lg_messages := lg_messages (dbLog db) @ [m]\<rparr>"
    and "im_messageId im \<notin> mr_messageId ` set (lg_messages (dbLog db))"
    and "im_senderPrincipalId im = Some who \<Longrightarrow> im_clientMessageId im = Some key \<Longrightarrow>
      find (sameClientKey (im_conversationId im) who key) (lg_messages (dbLog db)) = None"
    and "authView (pgTx t' e) c w db' = authView (pgTx t' e) c w db"
proof -
  let ?r = "messageRowOf t im"
  from assms have ok: "\<not> list_ex (clashes ?r) (db_messages db)"
    and m: "m = toMessage ?r" and db': "db' = db\<lparr>db_messages := db_messages db @ [?r]\<rparr>"
    by (auto simp: insertMessage_def Let_def split: if_splits)
  show "storedFrom im m" by (simp add: m storedFrom_def toMessage_def messageRowOf_def)
  show "dbLog db' = (dbLog db)\<lparr>lg_messages := lg_messages (dbLog db) @ [m]\<rparr>"
    by (simp add: db' m dbLog_def fun_eq_iff dbLastSeq_def)
  show "im_messageId im \<notin> mr_messageId ` set (lg_messages (dbLog db))"
    using ok by (auto simp: list_ex_iff clashes_def messageRowOf_def dbLog_def image_image)
  show "find (sameClientKey (im_conversationId im) who key) (lg_messages (dbLog db)) = None"
    if "im_senderPrincipalId im = Some who" "im_clientMessageId im = Some key"
    using ok that
    by (auto simp: list_ex_iff clashes_def messageRowOf_def dbLog_def find_None_iff sameClientKey_def)
  show "authView (pgTx t' e) c w db' = authView (pgTx t' e) c w db"
    unfolding db' by (rule authView_cong) simp_all
qed

lemma find_updateWhere_mem:
  assumes "find P (updateWhere P f xs) = Some y" and "\<And>r. P (f r) = P r"
  shows "y \<in> set (updateWhere P f xs)" and "P y"
  using find_SomeD[OF assms(1)] by auto

lemma updateMessage_law:
  assumes "updateMessage mid f db = Some (m, db')"
    and id: "\<And>r. me_message_id (f r) = me_message_id r"
    and f: "\<And>r. toMessage (f r) = g (toMessage r)"
  shows "amends (pgTx t e) dbLog mid g m db db'"
proof -
  let ?rows = "updateWhere (\<lambda>r. me_message_id r = mid) f (db_messages db)"
  from assms(1) obtain r where r: "find (\<lambda>r. me_message_id r = mid) ?rows = Some r"
    and m: "m = toMessage r" and db': "db' = db\<lparr>db_messages := ?rows\<rparr>"
    by (auto simp: updateMessage_def Let_def)
  note mem = find_updateWhere_mem[OF r] 
  have "r \<in> set ?rows" "me_message_id r = mid" using mem by (simp_all add: id)
  moreover have "map toMessage ?rows =
      map (\<lambda>x. if mr_messageId x = mid then g x else x) (map toMessage (db_messages db))"
    by (simp add: updateWhere_def f)
  moreover have "authView (pgTx t e) c w db' = authView (pgTx t e) c w db" for c w
    unfolding db' by (rule authView_cong) simp_all
  moreover have "dbLastSeq db' = dbLastSeq db" by (simp add: db' dbLastSeq_def fun_eq_iff)
  ultimately show ?thesis
    unfolding amends_def by (simp add: m dbLog_def) (simp add: db')
qed

lemma loadParticipant_unarchive:
  assumes "\<And>p. pa_conversation_id (f p) = pa_conversation_id p"
    "\<And>p. pa_principal_id (f p) = pa_principal_id p"
    "\<And>p. pa_principal_kind (f p) = pa_principal_kind p" "\<And>p. pa_role (f p) = pa_role p"
    "\<And>p. pa_reply_authority (f p) = pa_reply_authority p"
    "\<And>p. pa_effective_from (f p) = pa_effective_from p"
    "\<And>p. pa_effective_to (f p) = pa_effective_to p"
  shows "loadParticipant cid who (db\<lparr>db_participants := updateWhere q f (db_participants db)\<rparr>) =
    loadParticipant cid who db"
  by (simp add: loadParticipant_def assms find_updateWhere option.map_comp comp_def
      if_distrib[of pa_principal_id])
     (intro option.map_cong0; simp add: assms split: if_split)

lemma unarchive_law:
  assumes "unarchiveForOthers cid who db = Some db'"
  shows "quiet (pgTx t e) dbLog db db'"
proof -
  from assms have db': "db' = db\<lparr>db_participants :=
       updateWhere (\<lambda>p. pa_conversation_id p = cid \<and> pa_principal_id p \<noteq> who \<and>
                        pa_effective_to p = None \<and> pa_archived_at p \<noteq> None)
         (\<lambda>p. p\<lparr>pa_archived_at := None\<rparr>) (db_participants db)\<rparr>"
    by (simp add: unarchiveForOthers_def)
  have "dbLog db' = dbLog db" by (simp add: db' dbLog_def fun_eq_iff dbLastSeq_def)
  moreover have "authView (pgTx t e) c w db' = authView (pgTx t e) c w db" for c w
    unfolding db' by (rule authView_cong) (simp_all add: loadParticipant_unarchive)
  ultimately show ?thesis by (simp add: quiet_def)
qed

lemma conversations_quiet:
  assumes "\<And>c. stripConversation (f c) = stripConversation c"
    and "\<And>c. cr_last_seq (f c) = cr_last_seq c"
  shows "quiet (pgTx t e) dbLog db (db\<lparr>db_conversations := updateWhere q f (db_conversations db)\<rparr>)"
proof -
  have id: "cr_conversation_id (f c) = cr_conversation_id c" for c
    using assms(1)[of c] by (cases c; cases "f c") (simp add: stripConversation_def)
  have "authView (pgTx t e) c w (db\<lparr>db_conversations := updateWhere q f (db_conversations db)\<rparr>) =
      authView (pgTx t e) c w db" for c w
    by (rule authView_cong) (simp_all add: strip_update assms)
  then show ?thesis by (simp add: quiet_def dbLog_def dbLastSeq_strip id assms)
qed

lemma advance_law:
  assumes "advanceStateIn e inp db = Some (moved, db')"
  shows "quiet (pgTx t e') dbLog db db'"
proof (cases "db' = db")
  case True
  then show ?thesis by (simp add: quiet_def)
next
  case False
  let ?hit = "\<lambda>c. cr_conversation_id c = as_conversationId inp \<and>
                  (case cr_state c of None \<Rightarrow> False | Some s \<Rightarrow> s \<in> set (as_from inp))"
  let ?of = "\<lambda>sc. list_ex (\<lambda>c. cr_conversation_id c = as_conversationId inp \<and>
                         cr_case_id c = Some (sc_case_id sc)) (db_conversations db)"
  from False assms obtain eps where db': "db' = db
      \<lparr>db_conversations := updateWhere ?hit (\<lambda>c. c\<lparr>cr_state := Some (as_to inp)\<rparr>) (db_conversations db),
       db_service_cases := updateWhere ?of (\<lambda>sc. sc\<lparr>sc_state := as_to inp\<rparr>) (db_service_cases db),
       db_episodes := eps\<rparr>"
    by (auto simp: advanceStateIn_def Let_def split: if_splits)
  let ?mid = "db\<lparr>db_conversations := updateWhere ?hit (\<lambda>c. c\<lparr>cr_state := Some (as_to inp)\<rparr>) (db_conversations db)\<rparr>"
  have q: "quiet (pgTx t e') dbLog db ?mid"
    by (rule conversations_quiet) (simp_all add: stripConversation_def)
  have "dbLog db' = dbLog ?mid" by (simp add: db' dbLog_def fun_eq_iff dbLastSeq_def)
  moreover have "authView (pgTx t e') c w db' = authView (pgTx t e') c w ?mid" for c w
    unfolding db'
    by (rule authView_cong)
       (auto simp: find_updateWhere option.map_comp comp_def stripCase_def intro!: option.map_cong0)
  ultimately show ?thesis using q by (simp add: quiet_def)
qed

lemma pgTx_sel:
  "tx_loadConversationForUpdate (pgTx t e) = loadConversationForUpdate"
  "tx_loadParticipant (pgTx t e) = loadParticipant"
  "tx_loadChannelFacts (pgTx t e) = loadChannelFacts"
  "tx_findByClientMessageId (pgTx t e) = findByClientMessageId"
  "tx_findMessageInConversation (pgTx t e) = findMessageInConversation"
  "tx_nextSequence (pgTx t e) = nextSequence"
  "tx_insertMessage (pgTx t e) = insertMessage t"
  "tx_unarchiveForOthers (pgTx t e) = unarchiveForOthers"
  "tx_appendOutbox (pgTx t e) = appendOutbox"
  "tx_touchConversation (pgTx t e) = touchConversation"
  "tx_listParticipantIds (pgTx t e) = listParticipantIds"
  "tx_loadMessageForRevision (pgTx t e) = loadMessageForRevision"
  "tx_insertRevision (pgTx t e) = insertRevision"
  "tx_applyCorrection (pgTx t e) = applyCorrection"
  "tx_applyRedaction (pgTx t e) = applyRedaction"
  "tx_refreshPreview (pgTx t e) = refreshPreview"
  "tx_activateOnOwnerReply (pgTx t e) = activateOnOwnerReply e"
  by (simp_all add: pgTx_def)

interpretation pg: message_port "pgTx t e" dbLog dbPreview for t e
proof (unfold_locales, goal_cases)
  case 1 then show ?case by (simp add: pgTx_sel find_key_law)
next
  case 2 then show ?case by (simp add: pgTx_sel findMessageInConversation_def find_message_law)
next
  case 3 then show ?case by (simp add: pgTx_sel loadMessageForRevision_def find_message_law)
next
  case 4 then show ?case
    by (auto simp: pgTx_sel loadConversationForUpdate_def toConversation_def Let_def
        dest: findConversation_id)
next
  case (5 cid st n st') then show ?case
    using nextSequence_law(1,2)[of cid st n st'] by (simp add: pgTx_sel dbLog_def)
next
  case (6 cid st n st') then show ?case
    using nextSequence_law(3)[of cid st n st'] by (simp add: pgTx_sel)
next
  case (7 im st m st') then show ?case
    using insertMessage_law(1,2,3)[of t im st m st'] by (simp add: pgTx_sel)
next
  case (8 im st m st' who key) then show ?case
    using insertMessage_law(4)[of t im st m st' who key] by (simp add: pgTx_sel)
next
  case (9 im st m st' c w) then show ?case
    using insertMessage_law(5)[of t im st m st'] by (simp add: pgTx_sel)
next
  case 10 then show ?case by (auto simp: pgTx_sel appendOutbox_iff dbLog_def fun_eq_iff dbLastSeq_def)
next
  case (11 row st st' c w)
  then have st': "st' = st\<lparr>db_outbox := db_outbox st @ [row]\<rparr>"
    by (simp add: pgTx_sel appendOutbox_iff)
  show ?case unfolding st' by (rule authView_cong) simp_all
next
  case 12 then show ?case
    by (auto simp: pgTx_sel insertRevision_def dbLog_def fun_eq_iff dbLastSeq_def split: if_splits)
next
  case 13 then show ?case
    by (auto simp: pgTx_sel applyCorrection_def elim!: updateMessage_law)
       (auto simp: corrected_def toMessage_def)
next
  case 14 then show ?case
    by (auto simp: pgTx_sel applyRedaction_def elim!: updateMessage_law)
       (auto simp: redacted_def toMessage_def)
next
  case 15 then show ?case by (simp add: pgTx_sel unarchive_law)
next
  case 16 then show ?case
    by (auto simp: pgTx_sel refreshPreview_def stripConversation_def intro!: conversations_quiet)
next
  case 17 then show ?case
    by (auto simp: pgTx_sel touchConversation_def stripConversation_def intro!: conversations_quiet)
next
  case (18 cid now pv st st')
  then show ?case
    by (cases "findConversation cid st")
       (auto simp: pgTx_sel touchConversation_def dbPreview_def findConversation_update
         findConversation_id)
next
  case 19 then show ?case by (auto simp: pgTx_sel activateOnOwnerReply_def intro: advance_law)
qed

section \<open>The message page (PgMessageReader)\<close>

definition pageKey :: "MessageRow \<Rightarrow> Timestamp \<times> UUID" where
  "pageKey m = (me_created_at m, me_message_id m)"

definition beforeKey :: "(Timestamp \<times> UUID) option \<Rightarrow> MessageRow \<Rightarrow> bool" where
  "beforeKey cursor m = (case cursor of None \<Rightarrow> True | Some k \<Rightarrow> pageKey m < k)"

text \<open>\<open>ORDER BY created_at DESC, message_id DESC\<close>; pairs are ordered lexicographically.\<close>

definition pageOrder :: "MessageRow list \<Rightarrow> MessageRow list" where
  "pageOrder ms = rev (sort_key pageKey ms)"

definition readPage ::
  "UUID \<Rightarrow> MessageVisibility list \<Rightarrow> nat \<Rightarrow> (Timestamp \<times> UUID) option \<Rightarrow> 'x Db_scheme \<Rightarrow>
   MessageRecord list" where
  "readPage cid vis limit cursor db =
     map toMessage (take limit (pageOrder
       (filter (\<lambda>m. me_conversation_id m = cid \<and> me_visibility m \<in> set vis \<and> beforeKey cursor m)
         (db_messages db))))"

lemma pageOrder_filter: "pageOrder (filter P ms) = filter P (pageOrder ms)"
  by (simp add: pageOrder_def filter_sort rev_filter[symmetric])

lemma set_pageOrder [simp]: "set (pageOrder ms) = set ms"
  by (simp add: pageOrder_def)

lemma pageOrder_strict:
  assumes "distinct (map me_message_id ms)"
  shows "sorted_wrt (\<lambda>x y. pageKey y < pageKey x) (pageOrder ms)"
proof -
  have "distinct (map pageKey ms)"
    using assms by (auto simp: pageKey_def distinct_map inj_on_def)
  then have "distinct (map pageKey (sort_key pageKey ms))"
    by (metis distinct_map distinct_sort set_sort)
  then have "sorted_wrt (<) (map pageKey (sort_key pageKey ms))"
    by (simp add: strict_sorted_iff)
  then show ?thesis by (simp add: pageOrder_def sorted_wrt_rev sorted_wrt_map)
qed

lemma filter_below_last:
  fixes k :: "'a \<Rightarrow> 'b :: linorder"
  assumes "sorted_wrt (\<lambda>x y. k y < k x) xs" and "take n xs \<noteq> []"
  shows "filter (\<lambda>x. k x < k (last (take n xs))) xs = drop n xs"
proof -
  have split: "sorted_wrt (\<lambda>x y. k y < k x) (take n xs @ drop n xs)" using assms(1) by simp
  let ?l = "last (take n xs)"
  have "\<not> k x < k ?l" if "x \<in> set (take n xs)" for x
  proof -
    from assms(2) obtain ys where ys: "take n xs = ys @ [?l]" by (metis append_butlast_last_id)
    have "sorted_wrt (\<lambda>x y. k y < k x) (ys @ [?l])" using split ys by (simp add: sorted_wrt_append)
    moreover have "x \<in> set ys \<or> x = ?l" using that ys by (metis Un_iff empty_iff insertE list.set set_append)
    ultimately show ?thesis by (auto simp: sorted_wrt_append dest: order_less_not_sym)
  qed
  then have "filter (\<lambda>x. k x < k ?l) (take n xs) = []" by simp
  moreover have "filter (\<lambda>x. k x < k ?l) (drop n xs) = drop n xs"
    using split[unfolded sorted_wrt_append] last_in_set[OF assms(2)] by (auto simp: filter_id_conv)
  ultimately show ?thesis by (metis append_take_drop_id filter_append self_append_conv2)
qed

text \<open>Reading on from the last row of a page continues exactly where the page ended.\<close>

lemma readPage_continues_rows:
  fixes cid vis db
  defines "rows \<equiv> pageOrder (filter (\<lambda>m. me_conversation_id m = cid \<and> me_visibility m \<in> set vis)
    (db_messages db))"
  assumes "distinct (map me_message_id (db_messages db))" and "take n rows \<noteq> []"
  shows "readPage cid vis m (Some (pageKey (last (take n rows)))) db = map toMessage (take m (drop n rows))"
proof -
  have "distinct (map me_message_id (filter (\<lambda>m. me_conversation_id m = cid \<and> me_visibility m \<in> set vis)
      (db_messages db)))"
    using assms(2) by (simp add: distinct_map_filter)
  from filter_below_last[OF pageOrder_strict[OF this], folded rows_def, OF assms(3)]
  have "filter (\<lambda>x. pageKey x < pageKey (last (take n rows))) rows = drop n rows" .
  then show ?thesis
    unfolding readPage_def rows_def pageOrder_filter[symmetric]
    by (simp add: beforeKey_def conj_ac pageOrder_filter[symmetric])
qed

lemma readPage_first:
  "readPage cid vis n None db = map toMessage (take n (pageOrder
     (filter (\<lambda>m. me_conversation_id m = cid \<and> me_visibility m \<in> set vis) (db_messages db))))"
  by (simp add: readPage_def beforeKey_def)

end
