(* ===== verification/Messaging_Props.thy ===== *)
theory Messaging_Props
  imports Message_Store Authz_Props
begin

text \<open>
  The properties of the message write path and of the message page on the PostgreSQL adapter, by
  the facts the interpretation of the port's contract gives, with a concrete conversation on which
  the conditional ones apply.
\<close>

section \<open>A conversation\<close>

definition agent :: ActorContext where
  "agent =
     \<lparr>a_principalId = ''emp-1'', a_kind = K_EMPLOYEE, a_status = P_ACTIVE,
      a_teams = [''support''], a_departments = [''service''],
      a_grants = [], a_delegations = [], a_temporaryGrants = [], a_assurance = None\<rparr>"

definition participantRow :: "UUID \<Rightarrow> PrincipalKind \<Rightarrow> ParticipantRow" where
  "participantRow who k =
     \<lparr>pa_conversation_id = ''c1'', pa_principal_id = who, pa_principal_kind = k,
      pa_role = ''PARTICIPANT'', pa_reply_authority = True,
      pa_effective_from = ''2026-08-01T00:00:00.000Z'', pa_effective_to = None,
      pa_archived_at = None, pa_added_by = None\<rparr>"

definition sampleDb :: Db where
  "sampleDb =
     \<lparr>db_conversations =
        [\<lparr>cr_conversation_id = ''c1'', cr_conversation_type = CUSTOMER_SERVICE,
          cr_state = Some ASSIGNED, cr_case_id = Some ''k1'', cr_sensitivity = ORDINARY,
          cr_last_seq = 0, cr_customer_ref = None,
          cr_last_activity_at = ''2026-08-24T08:00:00.000Z'', cr_last_message_preview = [],
          cr_participant_count = 2\<rparr>],
      db_service_cases =
        [\<lparr>sc_case_id = ''k1'', sc_owning_team_id = Some ''support'',
          sc_current_owner_id = Some ''emp-1'', sc_designated_employee_id = None,
          sc_escalation_level = 0, sc_state = ASSIGNED,
          sc_resolved_at = None, sc_outcome_code = None, sc_reopen_count = 0\<rparr>],
      db_teams = [\<lparr>te_team_id = ''support'', te_department = Some ''service''\<rparr>],
      db_departments = [], db_team_memberships = [],
      db_participants = [participantRow ''emp-1'' K_EMPLOYEE, participantRow ''cust-1'' K_CUSTOMER],
      db_channels = [], db_channel_audience = [], db_messages = [], db_revisions = [],
      db_attachments = [], db_episodes = [], db_outbox = []\<rparr>"

definition sampleSend :: "string \<Rightarrow> MessageVisibility \<Rightarrow> string \<Rightarrow> SendMessageCommand" where
  "sampleSend body vis key =
     \<lparr>sm_conversationId = ''c1'', sm_actor = agent, sm_senderDisplayName = ''Asha'',
      sm_body = body, sm_visibility = vis, sm_replyToMessageId = None,
      sm_clientMessageId = Some key, sm_mentions = None, sm_hasAttachment = None,
      sm_requiredAssurance = None, sm_correlationId = ''corr''\<rparr>"

definition sampleTx :: "Db MessageWriteTransaction" where
  "sampleTx = pgTx ''2026-08-24T10:00:00.000Z'' ''ep-1''"

definition sampleRun :: "(SendFailure + SendOk) Outcome \<times> Db" where
  "sampleRun = sendMessage sampleTx None (sampleSend ''hello'' CUSTOMER_VISIBLE ''k-1'')
     ''2026-08-24T10:00:00.000Z'' ''m1'' sampleDb"

definition sampleOk :: "(SendFailure + SendOk) Outcome \<times> Db \<Rightarrow> SendOk" where
  "sampleOk run = (case fst run of Returned (Inr ok) \<Rightarrow> ok
     | _ \<Rightarrow> duplicateResult (toMessage (messageRowOf [] (insertOf (sampleSend [] INTERNAL []) [] 0 []))))"

definition helloRow :: MessageRow where
  "helloRow = \<lparr>me_message_id = ''m1'', me_conversation_id = ''c1'', me_seq = 1,
      me_visibility = CUSTOMER_VISIBLE, me_sender_principal_id = Some ''emp-1'',
      me_sender_kind = K_EMPLOYEE, me_sender_display_name = ''Asha'', me_message_class = ''TEXT'',
      me_body = Some ''hello'', me_reply_to_message_id = None,
      me_client_message_id = Some ''k-1'', me_mentions = None,
      me_created_at = ''2026-08-24T10:00:00.000Z'', me_edited_at = None, me_redacted_at = None\<rparr>"

definition announced :: "UUID \<Rightarrow> nat \<Rightarrow> MessageVisibility \<Rightarrow> OutboxRow" where
  "announced m n vis =
     \<lparr>ob_eventName = ''message.created.v1'', ob_eventVersion = 1,
      ob_aggregateType = ''conversation'', ob_aggregateId = ''c1'',
      ob_payload = MessageCreated m ''c1'' n K_EMPLOYEE vis ''INTERNAL'' False,
      ob_correlationId = ''corr''\<rparr>"

text \<open>The database after the agent's first, customer-visible reply.\<close>

definition helloDb :: Db where
  "helloDb = sampleDb
     \<lparr>db_conversations :=
        [\<lparr>cr_conversation_id = ''c1'', cr_conversation_type = CUSTOMER_SERVICE,
          cr_state = Some ACTIVE, cr_case_id = Some ''k1'', cr_sensitivity = ORDINARY,
          cr_last_seq = 1, cr_customer_ref = None,
          cr_last_activity_at = ''2026-08-24T10:00:00.000Z'', cr_last_message_preview = ''hello'',
          cr_participant_count = 2\<rparr>],
      db_service_cases :=
        [\<lparr>sc_case_id = ''k1'', sc_owning_team_id = Some ''support'',
          sc_current_owner_id = Some ''emp-1'', sc_designated_employee_id = None,
          sc_escalation_level = 0, sc_state = ACTIVE,
          sc_resolved_at = None, sc_outcome_code = None, sc_reopen_count = 0\<rparr>],
      db_messages := [helloRow],
      db_episodes :=
        [\<lparr>ep_episode_id = ''ep-1'', ep_conversation_id = ''c1'', ep_state = ACTIVE,
          ep_effective_from = ''2026-08-24T10:00:00.000Z'', ep_effective_to = None,
          ep_entered_by = Some ''emp-1'', ep_reason = Some ''first customer-visible reply''\<rparr>],
      db_outbox := [announced ''m1'' 1 CUSTOMER_VISIBLE]\<rparr>"

lemma freshValue:
  assumes "case run of (Returned (Inr ok), db) \<Rightarrow> \<not> so_duplicate ok \<and> db = d | _ \<Rightarrow> False"
  shows "(case fst run of Returned (Inr ok) \<Rightarrow> \<not> so_duplicate ok | _ \<Rightarrow> False) \<and> snd run = d"
  using assms by (cases run) (auto split: Outcome.splits sum.splits)

lemma sampleRun_value:
  "case sampleRun of (Returned (Inr ok), db) \<Rightarrow> \<not> so_duplicate ok \<and> db = helloDb | _ \<Rightarrow> False"
  by code_simp

lemma sampleRun_fresh:
  "(case fst sampleRun of Returned (Inr ok) \<Rightarrow> \<not> so_duplicate ok | _ \<Rightarrow> False)"
  and sampleRun_db: "snd sampleRun = helloDb"
  using freshValue[OF sampleRun_value] by blast+

lemma sampleRun_ok:
  "sendMessage (pgTx ''2026-08-24T10:00:00.000Z'' ''ep-1'') None
     (sampleSend ''hello'' CUSTOMER_VISIBLE ''k-1'')
     ''2026-08-24T10:00:00.000Z'' ''m1'' sampleDb = (Returned (Inr (sampleOk sampleRun)), snd sampleRun)"
  "\<not> so_duplicate (sampleOk sampleRun)"
proof -
  obtain ok where "fst sampleRun = Returned (Inr ok)" "\<not> so_duplicate ok"
    using sampleRun_fresh by (auto split: Outcome.splits sum.splits)
  then show "sendMessage (pgTx ''2026-08-24T10:00:00.000Z'' ''ep-1'') None
     (sampleSend ''hello'' CUSTOMER_VISIBLE ''k-1'')
     ''2026-08-24T10:00:00.000Z'' ''m1'' sampleDb = (Returned (Inr (sampleOk sampleRun)), snd sampleRun)"
    "\<not> so_duplicate (sampleOk sampleRun)"
    by (simp_all add: sampleOk_def sampleTx_def flip: sampleRun_def) 
       (metis prod.collapse sampleRun_def sampleTx_def)
qed


section \<open>Sending\<close>

lemma sendChecks_Fresh_mentions:
  assumes "sendChecks tx cmd now st = Inr (Fresh c ra live ms)"
  shows "validateMentions (case sm_mentions cmd of Some m \<Rightarrow> m | None \<Rightarrow> []) (trim (sm_body cmd)) live
           (cv_conversationType c = INTERNAL_GROUP) = Inr ms"
  using assms by (auto simp: sendChecks_def Let_def split: option.splits if_splits sum.splits)

lemma send_fresh_cases:
  assumes "sendMessage (pgTx t e) mb cmd now newId db = (Returned (Inr ok), db')"
    and "\<not> so_duplicate ok"
  obtains c ra live ms where "sendPrecheck mb cmd = None"
    and "sendChecks (pgTx t e) cmd now db = Inr (Fresh c ra live ms)"
    and "sendWrites (pgTx t e) cmd newId c ra live ms db = Some (ok, db')"
  using assms(1) by (cases rule: sendMessage_cases) (use assms(2) in \<open>auto simp: duplicateResult_def\<close>)

text \<open>
  C2: persist before acknowledge. A send that is acknowledged as new has appended exactly one
  message, with the command's content, the next sequence number and the fresh id, and in the same
  state its creation event (and its mention event exactly when somebody is notified), and has
  changed nothing else of the log: no other message, event, revision or sequence counter.
\<close>

theorem send_persists_message_with_its_events:
  assumes "sendMessage (pgTx t e) mb cmd now newId db = (Returned (Inr ok), db')"
    and "\<not> so_duplicate ok"
  shows "\<exists>c ra ms. sendChecks (pgTx t e) cmd now db =
             Inr (Fresh c ra (listParticipantIds (sm_conversationId cmd) db) ms) \<and>
           storedFrom (insertOf cmd newId (Suc (dbLastSeq db (sm_conversationId cmd))) ms) (so_message ok) \<and>
           dbLog db' = logAfterSend cmd (so_message ok)
             (sendEvents cmd (so_message ok) (listParticipantIds (sm_conversationId cmd) db) ms) (dbLog db)"
proof -
  from assms obtain c ra live ms
    where ch: "sendChecks (pgTx t e) cmd now db = Inr (Fresh c ra live ms)"
      and w: "sendWrites (pgTx t e) cmd newId c ra live ms db = Some (ok, db')"
    by (rule send_fresh_cases)
  have live: "live = listParticipantIds (sm_conversationId cmd) db"
    using sendChecks_Fresh(5)[OF ch] by (simp add: pgTx_sel)
  have last: "lg_lastSeq (dbLog db) = dbLastSeq db" by (simp add: dbLog_def)
  show ?thesis
    using ch pg.sendWrites_effect(1,2)[OF w] unfolding live last by blast
qed

theorem send_persists_message_with_its_events_witness:
  "map mr_seq (lg_messages (dbLog (snd sampleRun))) = [1] \<and>
   length (lg_outbox (dbLog (snd sampleRun))) = 1"
proof -
  have "listParticipantIds ''c1'' sampleDb = [''emp-1'', ''cust-1'']" by code_simp
  moreover have "dbLastSeq sampleDb ''c1'' = 0" "lg_messages (dbLog sampleDb) = []"
    "lg_outbox (dbLog sampleDb) = []" by code_simp+
  moreover have "mentionRecipients ms [''emp-1'', ''cust-1''] ''emp-1'' = []"
    if "sendChecks (pgTx ''2026-08-24T10:00:00.000Z'' ''ep-1'') (sampleSend ''hello'' CUSTOMER_VISIBLE ''k-1'')
          ''2026-08-24T10:00:00.000Z'' sampleDb = Inr (Fresh c ra live ms)" for c ra live ms
    using sendChecks_Fresh_mentions[OF that]
    by (simp add: sampleSend_def validateMentions_def mentionRecipients_def jsSet_def)
  ultimately show ?thesis
    using send_persists_message_with_its_events[OF sampleRun_ok]
    by (auto simp: logAfterSend_def sendEvents_def Let_def storedFrom_def insertOf_def
        sampleSend_def agent_def)
qed

text \<open>
  all or nothing. A send that is refused, that throws, or that turns out to be a retry
  leaves the database exactly as it was: no message, no event, no consumed sequence number.
\<close>

theorem send_otherwise_changes_nothing:
  assumes "sendMessage (pgTx t e) mb cmd now newId db = (r, db')"
    and "\<And>ok. r = Returned (Inr ok) \<Longrightarrow> so_duplicate ok"
  shows "db' = db"
  using assms(1)
proof (cases rule: sendMessage_cases)
  case (sent c ra live ms ok)
  with assms(2) have "so_duplicate ok" by simp
  then show ?thesis using sendWrites_so(1)[OF sent(3)] by simp
qed simp_all

theorem send_otherwise_changes_nothing_witness:
  "snd (sendMessage (pgTx ''2026-08-24T10:00:00.000Z'' ''ep-1'') None (sampleSend ''   '' CUSTOMER_VISIBLE ''k-1'')
     ''2026-08-24T10:00:00.000Z'' ''m1'' sampleDb) = sampleDb"
  by (rule send_otherwise_changes_nothing[OF prod.collapse[symmetric]])
     (simp add: sendMessage_def sendPrecheck_def sampleSend_def trim_def isSpace_def)

text \<open>
  C22: idempotence. After a successful send with an idempotency key, the same command again, at
  any later instant at which it is still authorized and whatever fresh id the retry would have
  used, returns the original message, marked as a duplicate, and changes nothing.
\<close>

theorem send_retry_returns_original:
  assumes "sendMessage (pgTx t e) mb cmd now newId db = (Returned (Inr ok), db')"
    and "\<not> so_duplicate ok"
    and "sm_clientMessageId cmd \<noteq> None"
    and "\<And>c. loadConversationForUpdate (sm_conversationId cmd) db = Some c \<Longrightarrow>
           allow (decide (sendRequest (pgTx t e) cmd now2 db c))"
  shows "sendMessage (pgTx t e) mb cmd now2 newId2 db' =
           (Returned (Inr (duplicateResult (so_message ok))), db')"
  using pg.send_retry[OF assms(1,2,3)] assms(4) by (simp add: pgTx_sel)

theorem send_retry_returns_original_witness:
  "snd (sendMessage (pgTx ''2026-08-24T10:00:00.000Z'' ''ep-1'') None
     (sampleSend ''hello'' CUSTOMER_VISIBLE ''k-1'')
     ''2026-08-24T10:05:00.000Z'' ''m2'' (snd sampleRun)) = snd sampleRun"
proof -
  let ?cmd = "sampleSend ''hello'' CUSTOMER_VISIBLE ''k-1''"
  have "case loadConversationForUpdate (sm_conversationId ?cmd) sampleDb of None \<Rightarrow> True
     | Some c \<Rightarrow> allow (decide (sendRequest (pgTx ''2026-08-24T10:00:00.000Z'' ''ep-1'') ?cmd
         ''2026-08-24T10:05:00.000Z'' sampleDb c))" by code_simp
  then have "allow (decide (sendRequest (pgTx ''2026-08-24T10:00:00.000Z'' ''ep-1'') ?cmd
         ''2026-08-24T10:05:00.000Z'' sampleDb c))"
    if "loadConversationForUpdate (sm_conversationId ?cmd) sampleDb = Some c" for c
    using that by simp
  from send_retry_returns_original[OF sampleRun_ok, of "''2026-08-24T10:05:00.000Z''" "''m2''"] this
  show ?thesis by (simp add: sampleSend_def)
qed

text \<open>
  no send without permission. Whenever a send is acknowledged, as new or as a retry, the
  conversation exists and the authorization decision on exactly what the transaction loaded
  permits it; and when the sender is a customer, the message is customer-visible and the
  customer is a participant of that conversation at the instant of the decision.
\<close>

lemma permits_customer_send:
  assumes "permits (sendRequest tx cmd now st c)" and "a_kind (sm_actor cmd) = K_CUSTOMER"
  shows "\<exists>p. tx_loadParticipant tx (sm_conversationId cmd) (a_principalId (sm_actor cmd)) st = Some p \<and>
           isWithinPeriod now (pr_effectiveFrom p) (pr_effectiveTo p)"
  using assms
  by (auto simp: permits_def permitsCustomer_def sendRequest_def Let_def isWithinPeriod_def
      split: option.splits)

theorem accepted_send_is_authorized:
  assumes "sendMessage (pgTx t e) mb cmd now newId db = (Returned (Inr ok), db')"
  shows "\<exists>c. loadConversationForUpdate (sm_conversationId cmd) db = Some c \<and>
           permits (sendRequest (pgTx t e) cmd now db c) \<and>
           (a_kind (sm_actor cmd) = K_CUSTOMER \<longrightarrow>
              sm_visibility cmd = CUSTOMER_VISIBLE \<and>
              (\<exists>p. loadParticipant (sm_conversationId cmd) (a_principalId (sm_actor cmd)) db = Some p \<and>
                   isWithinPeriod now (pr_effectiveFrom p) (pr_effectiveTo p)))"
proof -
  have "sendPrecheck mb cmd = None \<and>
      (\<exists>c. tx_loadConversationForUpdate (pgTx t e) (sm_conversationId cmd) db = Some c \<and>
           allow (decide (sendRequest (pgTx t e) cmd now db c)))"
    using assms
  proof (cases rule: sendMessage_cases)
    case (retry m)
    then show ?thesis using sendChecks_Duplicate(1)[OF retry(2)] by simp
  next
    case (sent c ra live ms ok')
    then show ?thesis using sendChecks_Fresh(1,2)[OF sent(2)] by simp
  qed simp_all
  then obtain c where pre: "sendPrecheck mb cmd = None"
    and c: "loadConversationForUpdate (sm_conversationId cmd) db = Some c"
    and p: "permits (sendRequest (pgTx t e) cmd now db c)"
    by (auto simp: pgTx_sel decide_permits)
  have "sm_visibility cmd = CUSTOMER_VISIBLE" if "a_kind (sm_actor cmd) = K_CUSTOMER"
    using pre that by (cases "sm_visibility cmd") (auto simp: sendPrecheck_def Let_def split: if_splits)
  then show ?thesis
    using c p permits_customer_send[OF p] by (auto simp: pgTx_sel)
qed

theorem accepted_send_is_authorized_witness:
  "\<exists>c. loadConversationForUpdate ''c1'' sampleDb = Some c \<and>
       permits (sendRequest sampleTx (sampleSend ''hello'' CUSTOMER_VISIBLE ''k-1'')
         ''2026-08-24T10:00:00.000Z'' sampleDb c)"
  using accepted_send_is_authorized[OF sampleRun_ok(1)]
  by (auto simp: sampleTx_def sampleSend_def)

text \<open>
  mention safety. The principals a new message reports as mentioned are live participants of
  the conversation, never the sender, each once, and each is either named by a validated mention
  or covered by an @all, which only an internal group may carry.
\<close>

theorem mentions_reach_live_participants_only:
  assumes "sendMessage (pgTx t e) mb cmd now newId db = (Returned (Inr ok), db')"
    and "so_mentioned ok = Some who"
  shows "distinct who \<and> who \<noteq> [] \<and>
         set who \<subseteq> set (listParticipantIds (sm_conversationId cmd) db) - {a_principalId (sm_actor cmd)} \<and>
         (\<forall>p \<in> set who. \<exists>m \<in> set (case sm_mentions cmd of Some ms \<Rightarrow> ms | None \<Rightarrow> []).
            (\<exists>off len. m = MentionPrincipal p off len) \<or>
            isMentionAll m \<and> map_option cv_conversationType
              (loadConversationForUpdate (sm_conversationId cmd) db) = Some INTERNAL_GROUP)"
proof -
  have nd: "\<not> so_duplicate ok"
    using assms(1)
    by (cases rule: sendMessage_cases) (use assms(2) in \<open>auto simp: duplicateResult_def dest: sendWrites_so(1)\<close>)
  from assms(1) nd obtain c ra live ms
    where ch: "sendChecks (pgTx t e) cmd now db = Inr (Fresh c ra live ms)"
      and w: "sendWrites (pgTx t e) cmd newId c ra live ms db = Some (ok, db')"
    by (rule send_fresh_cases)
  let ?in = "case sm_mentions cmd of Some ms \<Rightarrow> ms | None \<Rightarrow> []"
  let ?me = "a_principalId (sm_actor cmd)"
  note v = sendChecks_Fresh_mentions[OF ch]
  have live: "live = listParticipantIds (sm_conversationId cmd) db"
    and conv: "loadConversationForUpdate (sm_conversationId cmd) db = Some c"
    using sendChecks_Fresh(1,5)[OF ch] by (simp_all add: pgTx_sel)
  have who: "who = mentionRecipients ms live ?me" "who \<noteq> []"
    using sendWrites_so(3)[OF w] assms(2) by (auto simp: Let_def split: if_splits)
  have allowed: "m \<in> set ?in \<and> mentionAllowed live (cv_conversationType c = INTERNAL_GROUP) m"
    if "m \<in> set ms" for m
    using iffD1[OF validateMentions_Inr v] that by auto
  have "(\<exists>off len. m = MentionPrincipal p off len) \<or> isMentionAll m \<and> cv_conversationType c = INTERNAL_GROUP"
    if "m \<in> set ms" "p \<in> set (mentionTargets live m)" for m p
    using allowed[OF that(1)] that(2)
    by (cases m) (auto simp: mentionAllowed_def mentionTargets_def isMentionAll_def)
  then show ?thesis
    using who mentionRecipients_live[OF v, of ?me] allowed mentionRecipients_distinct[of ms live ?me]
    unfolding live[symmetric] by (auto simp: mentionRecipients_set conv) metis
qed

text \<open>
  an internal note never becomes a preview. After a new internal message on a customer
  conversation the stored preview is empty, so no list that shows it can show the note's words.
\<close>

theorem note_is_never_previewed:
  assumes "sendMessage (pgTx t e) mb cmd now newId db = (Returned (Inr ok), db')"
    and "\<not> so_duplicate ok" and "sm_visibility cmd = INTERNAL"
    and "loadConversationForUpdate (sm_conversationId cmd) db = Some c"
    and "\<not> isInternal (cv_conversationType c)"
  shows "dbPreview (sm_conversationId cmd) db' \<in> {None, Some []}"
proof -
  from assms(1,2) obtain c' ra live ms
    where ch: "sendChecks (pgTx t e) cmd now db = Inr (Fresh c' ra live ms)"
      and w: "sendWrites (pgTx t e) cmd newId c' ra live ms db = Some (ok, db')"
    by (rule send_fresh_cases)
  have "c' = c" using sendChecks_Fresh(1)[OF ch] assms(4) by (simp add: pgTx_sel)
  moreover have "mr_visibility (so_message ok) = INTERNAL"
    using pg.sendWrites_effect(1)[OF w] assms(3) by (simp add: storedFrom_def insertOf_def)
  ultimately show ?thesis
    using pg.sendWrites_preview[OF w] assms(5) by (auto simp: previewToStore_def)
qed


definition noteRun :: "(SendFailure + SendOk) Outcome \<times> Db" where
  "noteRun = sendMessage sampleTx None (sampleSend ''customer sounds upset'' INTERNAL ''k-2'')
     ''2026-08-24T10:01:00.000Z'' ''m2'' (snd sampleRun)"

lemma freshRun:
  assumes "case fst run of Returned (Inr ok) \<Rightarrow> \<not> so_duplicate ok | _ \<Rightarrow> False"
  shows "run = (Returned (Inr (sampleOk run)), snd run) \<and> \<not> so_duplicate (sampleOk run)"
  using assms by (cases run) (auto simp: sampleOk_def split: Outcome.splits sum.splits)

definition upsetRow :: MessageRow where
  "upsetRow = \<lparr>me_message_id = ''m2'', me_conversation_id = ''c1'', me_seq = 2,
      me_visibility = INTERNAL, me_sender_principal_id = Some ''emp-1'',
      me_sender_kind = K_EMPLOYEE, me_sender_display_name = ''Asha'', me_message_class = ''TEXT'',
      me_body = Some ''customer sounds upset'', me_reply_to_message_id = None,
      me_client_message_id = Some ''k-2'', me_mentions = None,
      me_created_at = ''2026-08-24T10:00:00.000Z'', me_edited_at = None, me_redacted_at = None\<rparr>"

text \<open>The database after the internal note that follows the first reply.\<close>

definition upsetDb :: Db where
  "upsetDb = helloDb
     \<lparr>db_conversations :=
        [\<lparr>cr_conversation_id = ''c1'', cr_conversation_type = CUSTOMER_SERVICE,
          cr_state = Some ACTIVE, cr_case_id = Some ''k1'', cr_sensitivity = ORDINARY,
          cr_last_seq = 2, cr_customer_ref = None,
          cr_last_activity_at = ''2026-08-24T10:00:00.000Z'', cr_last_message_preview = [],
          cr_participant_count = 2\<rparr>],
      db_messages := [helloRow, upsetRow],
      db_outbox := [announced ''m1'' 1 CUSTOMER_VISIBLE, announced ''m2'' 2 INTERNAL]\<rparr>"

lemma noteRun_value:
  "case noteRun of (Returned (Inr ok), db) \<Rightarrow> \<not> so_duplicate ok \<and> db = upsetDb | _ \<Rightarrow> False"
  unfolding noteRun_def sampleRun_db by code_simp

lemma noteRun_fresh: "case fst noteRun of Returned (Inr ok) \<Rightarrow> \<not> so_duplicate ok | _ \<Rightarrow> False"
  and noteRun_db: "snd noteRun = upsetDb"
  using freshValue[OF noteRun_value] by blast+

theorem note_is_never_previewed_witness:
  "dbPreview ''c1'' (snd noteRun) \<in> {None, Some []}"
proof -
  have conv: "case loadConversationForUpdate ''c1'' (snd sampleRun) of None \<Rightarrow> False
     | Some c \<Rightarrow> \<not> isInternal (cv_conversationType c)" unfolding sampleRun_db by code_simp
  then obtain c where "loadConversationForUpdate ''c1'' (snd sampleRun) = Some c"
    "\<not> isInternal (cv_conversationType c)" by (auto split: option.splits)
  moreover have "sm_conversationId (sampleSend ''customer sounds upset'' INTERNAL ''k-2'') = ''c1''"
    "sm_visibility (sampleSend ''customer sounds upset'' INTERNAL ''k-2'') = INTERNAL"
    by (simp_all add: sampleSend_def)
  ultimately show ?thesis
    using note_is_never_previewed[OF freshRun[OF noteRun_fresh, unfolded noteRun_def sampleTx_def, THEN conjunct1]
        freshRun[OF noteRun_fresh, unfolded noteRun_def sampleTx_def, THEN conjunct2]]
    by (simp add: noteRun_def sampleTx_def)
qed

definition mentionRun :: "(SendFailure + SendOk) Outcome \<times> Db" where
  "mentionRun = sendMessage sampleTx None
     (sampleSend ''hello'' CUSTOMER_VISIBLE ''k-3'' \<lparr>sm_mentions := Some [MentionPrincipal ''cust-1'' 0 5]\<rparr>)
     ''2026-08-24T10:02:00.000Z'' ''m3'' sampleDb"

lemma mentionRun_mentions:
  "case fst mentionRun of Returned (Inr ok) \<Rightarrow> \<not> so_duplicate ok \<and> so_mentioned ok = Some [''cust-1'']
   | _ \<Rightarrow> False"
  by code_simp

theorem mentions_reach_live_participants_only_witness:
  "''cust-1'' \<in> set (listParticipantIds ''c1'' sampleDb) - {''emp-1''}"
proof -
  have f: "case fst mentionRun of Returned (Inr ok) \<Rightarrow> \<not> so_duplicate ok | _ \<Rightarrow> False"
    and m: "so_mentioned (sampleOk mentionRun) = Some [''cust-1'']"
    using mentionRun_mentions by (auto simp: sampleOk_def split: Outcome.splits sum.splits)
  from mentions_reach_live_participants_only[OF freshRun[OF f, unfolded mentionRun_def sampleTx_def,
        THEN conjunct1] m[unfolded mentionRun_def sampleTx_def]]
  show ?thesis by (simp add: sampleSend_def agent_def)
qed

end
