(* ===== verification/Revision_Props.thy ===== *)
theory Revision_Props
  imports Messaging_Props
begin

text \<open>
  The properties of corrections, deletions and the message page, and the invariant of the log
  that every sequence of messaging commands keeps.
\<close>

section \<open>The invariant of the log\<close>

text \<open>One committed or failed messaging command, from any caller, at any instant.\<close>

inductive messagingStep :: "Db \<Rightarrow> Db \<Rightarrow> bool" where
  send: "sendMessage (pgTx t e) mb cmd now newId db = (r, db') \<Longrightarrow> messagingStep db db'"
| edit: "editMessage (pgTx t e) ecmd now newId db = (r', db') \<Longrightarrow> messagingStep db db'"
| redact: "redactMessage (pgTx t e) rcmd now newId db = (r', db') \<Longrightarrow> messagingStep db db'"

inductive_cases messagingStepE: "messagingStep db db'"

lemma messagingStep_wf: "messagingStep db db' \<Longrightarrow> wfLog (dbLog db) \<Longrightarrow> wfLog (dbLog db')"
  by (erule messagingStepE) (blast intro: pg.send_wf pg.edit_wf pg.redact_wf)+

text \<open>
  C4: whatever messaging commands run, in whatever order, with whatever outcomes, the sequence of
  every conversation stays dense (its messages, in order of insertion, are numbered 1, 2, ...,
  last_seq), message ids stay unique, and each sender keeps at most one message per idempotency key.
\<close>

theorem messaging_keeps_sequences_dense:
  assumes "messagingStep\<^sup>*\<^sup>* db db'" and "wfLog (dbLog db)"
  shows "wfLog (dbLog db')"
  using assms by (induction rule: rtranclp_induct) (auto intro: messagingStep_wf)

theorem messaging_keeps_sequences_dense_witness: "wfLog (dbLog (snd noteRun))"
proof (rule messaging_keeps_sequences_dense)
  have "messagingStep sampleDb (snd sampleRun)"
    by (rule messagingStep.send[where r = "fst sampleRun"]) (simp add: sampleRun_def sampleTx_def)
  moreover have "messagingStep (snd sampleRun) (snd noteRun)"
    by (rule messagingStep.send[where r = "fst noteRun"]) (simp add: noteRun_def sampleTx_def)
  ultimately show "messagingStep\<^sup>*\<^sup>* sampleDb (snd noteRun)" by simp
  show "wfLog (dbLog sampleDb)"
    by (auto simp: wfLog_def denseLog_def seqsOf_def uniqueIds_def uniqueKeys_def dbLog_def sampleDb_def
        dbLastSeq_def findConversation_def)
qed

section \<open>Corrections and deletions\<close>

text \<open>
  a correction is recorded, never silent, and only the author's. When an edit succeeds the
  message was the actor's own and not deleted; its previous text is appended to the revisions with
  the actor's name; exactly that row's body and edit mark change, every other field of every
  message being what it was; and one event without content is published.
\<close>

theorem edit_is_a_recorded_revision:
  assumes "editMessage (pgTx t e) cmd now newId db = (Returned (Inr m), db')"
  shows "\<exists>old \<in> set (lg_messages (dbLog db)).
           mr_messageId old = re_messageId cmd \<and> mr_conversationId old = re_conversationId cmd \<and>
           mr_senderPrincipalId old = Some (re_actorId cmd) \<and> mr_redactedAt old = None \<and>
           mr_body old \<noteq> trim (re_body cmd) \<and>
           dbLog db' = (dbLog db)
             \<lparr>lg_messages := map (\<lambda>r. if mr_messageId r = re_messageId cmd
                 then r\<lparr>mr_body := trim (re_body cmd), mr_editedAt := Some now\<rparr> else r)
                 (lg_messages (dbLog db)),
              lg_outbox := lg_outbox (dbLog db) @ [revisedEvent cmd CORRECTION],
              lg_revisions := lg_revisions (dbLog db) @ [revisionOf cmd newId CORRECTION old]\<rparr>"
  using assms
proof (rule pg.edit_effect)
  fix old
  assume found: "find (isMessage (re_conversationId cmd) (re_messageId cmd)) (lg_messages (dbLog db)) = Some old"
  assume "mr_senderPrincipalId old = Some (re_actorId cmd)" "mr_redactedAt old = None"
    "mr_body old \<noteq> trim (re_body cmd)"
    "dbLog db' = (dbLog db)
      \<lparr>lg_messages := map (\<lambda>r. if mr_messageId r = re_messageId cmd
                               then corrected (trim (re_body cmd)) now r else r) (lg_messages (dbLog db)),
       lg_outbox := lg_outbox (dbLog db) @ [revisedEvent cmd CORRECTION],
       lg_revisions := lg_revisions (dbLog db) @ [revisionOf cmd newId CORRECTION old]\<rparr>"
  with find_SomeD[OF found] show ?thesis by (auto simp: isMessage_def corrected_def)
qed

definition sampleRevise :: ReviseMessageCommand where
  "sampleRevise = \<lparr>re_conversationId = ''c1'', re_messageId = ''m1'', re_actorId = ''emp-1'',
     re_correlationId = ''corr''\<rparr>"

definition sampleEdit :: EditMessageCommand where
  "sampleEdit = \<lparr>re_conversationId = ''c1'', re_messageId = ''m1'', re_actorId = ''emp-1'',
     re_correlationId = ''corr'', re_body = ''hello again''\<rparr>"

definition editRun :: "(ReviseFailure + MessageRecord) Outcome \<times> Db" where
  "editRun = editMessage sampleTx sampleEdit ''2026-08-24T10:03:00.000Z'' ''rv-1'' (snd noteRun)"

definition redactRun :: "(ReviseFailure + MessageRecord) Outcome \<times> Db" where
  "redactRun = redactMessage sampleTx sampleRevise ''2026-08-24T10:04:00.000Z'' ''rv-2'' (snd noteRun)"

lemma revision_runs:
  "case fst editRun of Returned (Inr m) \<Rightarrow> True | _ \<Rightarrow> False"
  "case fst redactRun of Returned (Inr m) \<Rightarrow> True | _ \<Rightarrow> False"
  unfolding editRun_def redactRun_def noteRun_db by code_simp+

theorem edit_is_a_recorded_revision_witness:
  "\<exists>rv. lg_revisions (dbLog (snd editRun)) = lg_revisions (dbLog (snd noteRun)) @ [rv] \<and>
        rv_kind rv = CORRECTION \<and> rv_actorId rv = ''emp-1''"
proof -
  obtain m where "fst editRun = Returned (Inr m)"
    using revision_runs(1) by (auto split: Outcome.splits sum.splits)
  then have "editRun = (Returned (Inr m), snd editRun)" by (simp add: prod_eq_iff)
  from edit_is_a_recorded_revision[OF this[unfolded editRun_def sampleTx_def]]
  show ?thesis by (auto simp: editRun_def sampleTx_def revisionOf_def sampleEdit_def)
qed

text \<open>
  a deletion removes the words and keeps the record, once. When a deletion succeeds, every
  message is still there with its sequence number, the deleted one without text; and deleting it
  again, at any later instant, succeeds without changing anything: no second revision, no event.
\<close>

theorem redaction_keeps_the_record_and_is_idempotent:
  assumes "redactMessage (pgTx t e) cmd now newId db = (Returned (Inr m), db')"
    and "wfLog (dbLog db)"
    and "\<And>r. r \<in> set (lg_messages (dbLog db)) \<Longrightarrow> mr_redactedAt r \<noteq> None \<Longrightarrow> mr_body r = []"
  shows "map mr_seq (lg_messages (dbLog db')) = map mr_seq (lg_messages (dbLog db)) \<and>
         mr_body m = [] \<and>
         redactMessage (pgTx t' e') cmd now' newId' db' = (Returned (Inr m), db')"
  using assms(1)
proof (rule pg.redact_effect)
  fix old
  assume old: "find (isMessage (re_conversationId cmd) (re_messageId cmd)) (lg_messages (dbLog db)) = Some old"
    and o: "mr_senderPrincipalId old = Some (re_actorId cmd)" "mr_redactedAt old \<noteq> None" "m = old" "db' = db"
  have "mr_body old = []" using assms(3) find_SomeD[OF old] o by blast
  moreover have "redactMessage (pgTx t' e') cmd now' newId' db = (Returned (Inr old), db)"
    using old o by (simp add: redactMessage_def runTransaction_def redactWork_def pg.load_message)
  ultimately show ?thesis using o by simp
next
  fix old
  assume found: "find (isMessage (re_conversationId cmd) (re_messageId cmd)) (lg_messages (dbLog db)) = Some old"
    and who: "mr_senderPrincipalId old = Some (re_actorId cmd)"
    and log: "dbLog db' = (dbLog db)
      \<lparr>lg_messages := map (\<lambda>r. if mr_messageId r = re_messageId cmd then redacted now r else r)
                        (lg_messages (dbLog db)),
       lg_outbox := lg_outbox (dbLog db) @ [revisedEvent cmd REDACTION],
       lg_revisions := lg_revisions (dbLog db) @ [revisionOf cmd newId REDACTION old]\<rparr>"
    and m: "m \<in> set (lg_messages (dbLog db'))" "mr_messageId m = re_messageId cmd"
  have old: "old \<in> set (lg_messages (dbLog db))" "mr_messageId old = re_messageId cmd"
    "mr_conversationId old = re_conversationId cmd"
    using find_SomeD[OF found] by (auto simp: isMessage_def)
  have uniq: "r = old" if "r \<in> set (lg_messages (dbLog db))" "mr_messageId r = re_messageId cmd" for r
  proof -
    have "inj_on mr_messageId (set (lg_messages (dbLog db)))"
      using assms(2) by (simp add: wfLog_def uniqueIds_def distinct_map)
    from inj_onD[OF this, of r old] show ?thesis using that old by simp
  qed
  have m_eq: "m = redacted now old"
    using m log uniq by (auto simp: redacted_def split: if_splits)
  have "find (isMessage (re_conversationId cmd) (re_messageId cmd)) (lg_messages (dbLog db')) =
      map_option (\<lambda>r. if mr_messageId r = re_messageId cmd then redacted now r else r)
        (find (isMessage (re_conversationId cmd) (re_messageId cmd)) (lg_messages (dbLog db)))"
  proof -
    let ?g = "\<lambda>r. if mr_messageId r = re_messageId cmd then redacted now r else r"
    have "isMessage (re_conversationId cmd) (re_messageId cmd) \<circ> ?g =
        isMessage (re_conversationId cmd) (re_messageId cmd)"
      by (auto simp: fun_eq_iff isMessage_def redacted_def)
    then show ?thesis by (simp add: log find_map)
  qed
  then have "find (isMessage (re_conversationId cmd) (re_messageId cmd)) (lg_messages (dbLog db')) = Some m"
    using found old(2) m_eq by simp
  then have "redactMessage (pgTx t' e') cmd now' newId' db' = (Returned (Inr m), db')"
    using who m_eq
    by (simp add: redactMessage_def runTransaction_def redactWork_def pg.load_message redacted_def)
  moreover have "map mr_seq (lg_messages (dbLog db')) = map mr_seq (lg_messages (dbLog db))"
    by (simp add: log redacted_def)
  ultimately show ?thesis using m_eq by (simp add: redacted_def)
qed

theorem redaction_keeps_the_record_and_is_idempotent_witness:
  "snd (redactMessage (pgTx ''2026-08-25T10:00:00.000Z'' ''ep-2'') sampleRevise ''2026-08-25T10:00:00.000Z'' ''rv-3'' (snd redactRun)) =
     snd redactRun"
proof -
  obtain m where "fst redactRun = Returned (Inr m)"
    using revision_runs(2) by (auto split: Outcome.splits sum.splits)
  then have run: "redactRun = (Returned (Inr m), snd redactRun)" by (simp add: prod_eq_iff)
  have "wfLog (dbLog sampleDb)"
    by (auto simp: wfLog_def denseLog_def seqsOf_def uniqueIds_def uniqueKeys_def dbLog_def sampleDb_def
        dbLastSeq_def findConversation_def)
  then have wf: "wfLog (dbLog (snd noteRun))"
    unfolding noteRun_def sampleRun_def sampleTx_def
    by (intro pg.send_wf[OF prod.collapse[symmetric]])
  have "list_all (\<lambda>r. mr_redactedAt r = None) (lg_messages (dbLog (snd noteRun)))"
    unfolding noteRun_db by code_simp
  then have "mr_body r = []" if "r \<in> set (lg_messages (dbLog (snd noteRun)))" "mr_redactedAt r \<noteq> None" for r
    using that by (auto simp: list_all_iff)
  from redaction_keeps_the_record_and_is_idempotent[OF run[unfolded redactRun_def sampleTx_def] wf this]
  show ?thesis by (simp add: redactRun_def sampleTx_def)
qed

text \<open>
  a note resurrected by a preview refresh. Although the send path keeps an internal note out of
  a customer conversation's preview, correcting (or deleting) any message of the conversation
  recomputes the preview from the newest message whatever its visibility: in this run the
  preview is empty after the note and holds the note's words after the agent corrects an earlier
  customer-visible message.
\<close>

theorem preview_refresh_resurrects_note:
  "(dbPreview ''c1'' (snd sampleRun), dbPreview ''c1'' (snd noteRun), dbPreview ''c1'' (snd editRun)) =
     (Some ''hello'', Some [], Some ''customer sounds upset'')"
  unfolding editRun_def noteRun_db sampleRun_db by code_simp

section \<open>The message page\<close>

text \<open>
  keyset paging neither skips nor repeats. Reading on from the key of the last row of a page
  gives exactly the rows that follow it, so two consecutive pages together are the single page of
  their combined length; this holds for any visibility filter, when message ids are unique.
\<close>

theorem pages_neither_skip_nor_repeat:
  assumes "uniqueIds (dbLog db)" and "readPage cid vis n None db \<noteq> []"
    and "lastRow = last (readPage cid vis n None db)"
  shows "readPage cid vis n None db @
           readPage cid vis m (Some (mr_createdAt lastRow, mr_messageId lastRow)) db =
         readPage cid vis (n + m) None db"
proof -
  let ?rows = "pageOrder (filter (\<lambda>m. me_conversation_id m = cid \<and> me_visibility m \<in> set vis)
    (db_messages db))"
  have ids: "distinct (map me_message_id (db_messages db))"
    using assms(1) by (simp add: uniqueIds_def dbLog_def comp_def)
  have ne: "take n ?rows \<noteq> []" using assms(2) by (auto simp: readPage_first)
  have "lastRow = toMessage (last (take n ?rows))"
    using assms(3) ne by (simp add: readPage_first last_map)
  then have key: "(mr_createdAt lastRow, mr_messageId lastRow) = pageKey (last (take n ?rows))"
    by (simp add: pageKey_def)
  show ?thesis
    unfolding key readPage_continues_rows[OF ids ne] readPage_first
    by (simp add: take_add flip: map_append)
qed

theorem pages_neither_skip_nor_repeat_witness:
  "\<exists>m1. readPage ''c1'' [INTERNAL, CUSTOMER_VISIBLE] 1 None (snd noteRun) = [m1] \<and>
     [m1] @ readPage ''c1'' [INTERNAL, CUSTOMER_VISIBLE] 1
        (Some (mr_createdAt m1, mr_messageId m1)) (snd noteRun) =
     readPage ''c1'' [INTERNAL, CUSTOMER_VISIBLE] 2 None (snd noteRun)"
proof -
  have "map mr_messageId (lg_messages (dbLog (snd noteRun))) = [''m1'', ''m2'']"
    unfolding noteRun_db by code_simp
  then have u: "uniqueIds (dbLog (snd noteRun))" by (simp add: uniqueIds_def)
  have "length (readPage ''c1'' [INTERNAL, CUSTOMER_VISIBLE] 1 None (snd noteRun)) = 1"
    unfolding noteRun_db by code_simp
  then obtain m1 where m1: "readPage ''c1'' [INTERNAL, CUSTOMER_VISIBLE] 1 None (snd noteRun) = [m1]"
    by (metis One_nat_def length_0_conv length_Suc_conv)
  have ne: "readPage ''c1'' [INTERNAL, CUSTOMER_VISIBLE] 1 None (snd noteRun) \<noteq> []"
    and l: "m1 = last (readPage ''c1'' [INTERNAL, CUSTOMER_VISIBLE] 1 None (snd noteRun))"
    by (simp_all only: m1 last.simps simp_thms list.distinct if_True)
  from pages_neither_skip_nor_repeat[OF u ne l, of 1, unfolded m1 one_add_one] m1
  show ?thesis by blast
qed

end
