(* ===== verification/Customer_Projection.thy ===== *)
theory Customer_Projection
  imports Complex_Main Service_Case
begin

text \<open>
  The customer serialisers, \<open>packages/conversation-domain/src/visibility/customer-projection.ts\<close>:
  what a customer sees of a conversation, of a message and of a page of messages.
\<close>

record InternalConversationRecord =
  ic_conversationId :: UUID
  ic_conversationType :: string
  ic_title :: "string option"
  ic_state :: "string option"
  ic_lastActivityAt :: Timestamp
  ic_lastMessagePreview :: "string option"
  ic_outcome :: "string option"
  ic_caseId :: "UUID option"
  ic_resolvedAt :: "Timestamp option"
  ic_customerRef :: "string option"
  ic_currentOwnerId :: "UUID option"
  ic_currentOwnerName :: "string option"
  ic_owningTeamId :: "string option"
  ic_owningDepartment :: "string option"
  ic_sensitivity :: "string option"
  ic_priority :: "string option"
  ic_slaTargetId :: "UUID option"
  ic_slaDueAt :: "Timestamp option"
  ic_slaBreached :: "bool option"
  ic_escalationLevel :: "nat option"
  ic_escalatedAt :: "Timestamp option"
  ic_transferCount :: "nat option"
  ic_queueEntryId :: "UUID option"
  ic_participantCount :: "nat option"
  ic_internalNotesCount :: "nat option"
  ic_tenantId :: "string option"
  ic_createdBy :: "UUID option"
  ic_lastSeq :: "nat option"

record CustomerConversationView =
  cc_conversationId :: UUID
  cc_subject :: "string option"
  cc_status :: CustomerVisibleStatus
  cc_outcome :: "string option"
  cc_lastActivityAt :: Timestamp

record InternalMessageRecord =
  in_messageId :: UUID
  in_conversationId :: UUID
  in_seq :: nat
  in_body :: string
  in_visibility :: MessageVisibility
  in_authorId :: UUID
  in_authorKind :: string
  in_authorDisplayName :: string
  in_createdAt :: Timestamp
  in_authorEmployeeId :: "string option"
  in_authorTeamId :: "string option"
  in_authorDepartment :: "string option"
  in_redactedAt :: "Timestamp option"
  in_redactedBy :: "UUID option"
  in_internalTags :: "string list option"
  in_aiConfidence :: "rat option"
  in_moderationFlags :: "string list option"

datatype AuthorKind = YOU | BY_AGENT | BY_SYSTEM

record CustomerMessageView =
  cm_messageId :: UUID
  cm_seq :: nat
  cm_body :: string
  cm_author_kind :: AuthorKind
  cm_author_displayName :: string
  cm_createdAt :: Timestamp

definition toCustomerConversationView :: "InternalConversationRecord \<Rightarrow> CustomerConversationView" where
  "toCustomerConversationView rec' =
     \<lparr>cc_conversationId = ic_conversationId rec', cc_subject = ic_title rec',
      cc_status = toCustomerStatus (ic_state rec'), cc_outcome = ic_outcome rec',
      cc_lastActivityAt = ic_lastActivityAt rec'\<rparr>"

definition toCustomerMessageView ::
  "InternalMessageRecord \<Rightarrow> UUID \<Rightarrow> CustomerMessageView option" where
  "toCustomerMessageView rec' viewer =
     (if in_visibility rec' \<noteq> CUSTOMER_VISIBLE then None
      else Some
        \<lparr>cm_messageId = in_messageId rec', cm_seq = in_seq rec', cm_body = in_body rec',
         cm_author_kind =
           (if in_authorId rec' = viewer then YOU
            else if in_authorKind rec' = ''EMPLOYEE'' \<or> in_authorKind rec' = ''AI'' then BY_AGENT
            else BY_SYSTEM),
         cm_author_displayName = in_authorDisplayName rec',
         cm_createdAt = in_createdAt rec'\<rparr>)"

fun toCustomerMessagePage ::
  "InternalMessageRecord list \<Rightarrow> UUID \<Rightarrow> CustomerMessageView list" where
  "toCustomerMessagePage [] viewer = []"
| "toCustomerMessagePage (r # rs) viewer =
     (case toCustomerMessageView r viewer of
        Some v \<Rightarrow> v # toCustomerMessagePage rs viewer
      | None \<Rightarrow> toCustomerMessagePage rs viewer)"

text \<open>
  Two records a customer may not tell apart: equal on the fields the allow-list names, and, for
  the author, on whether it is the viewer and on the two words the view collapses it to.
\<close>

definition sameToCustomer :: "UUID \<Rightarrow> InternalMessageRecord \<Rightarrow> InternalMessageRecord \<Rightarrow> bool" where
  "sameToCustomer viewer r s \<longleftrightarrow>
     in_messageId r = in_messageId s \<and> in_seq r = in_seq s \<and> in_body r = in_body s \<and>
     in_authorDisplayName r = in_authorDisplayName s \<and> in_createdAt r = in_createdAt s \<and>
     (in_authorId r = viewer \<longleftrightarrow> in_authorId s = viewer) \<and>
     (in_authorKind r \<in> {''EMPLOYEE'', ''AI''} \<longleftrightarrow> in_authorKind s \<in> {''EMPLOYEE'', ''AI''})"

definition visibleOnly :: "InternalMessageRecord list \<Rightarrow> InternalMessageRecord list" where
  "visibleOnly = filter (\<lambda>r. in_visibility r = CUSTOMER_VISIBLE)"

lemma toCustomerMessagePage_visibleOnly:
  "toCustomerMessagePage rs viewer = toCustomerMessagePage (visibleOnly rs) viewer"
  by (induction rs) (auto simp: visibleOnly_def toCustomerMessageView_def)

lemma toCustomerMessagePage_same:
  assumes "list_all2 (sameToCustomer viewer) rs ss"
    and "\<forall>r \<in> set rs. in_visibility r = CUSTOMER_VISIBLE"
    and "\<forall>s \<in> set ss. in_visibility s = CUSTOMER_VISIBLE"
  shows "toCustomerMessagePage rs viewer = toCustomerMessagePage ss viewer"
  using assms
  by (induction rule: list_all2_induct) (auto simp: toCustomerMessageView_def sameToCustomer_def)

lemma toCustomerMessagePage_map:
  "toCustomerMessagePage rs viewer =
     map (\<lambda>r. the (toCustomerMessageView r viewer)) (visibleOnly rs)"
  by (induction rs) (auto simp: visibleOnly_def toCustomerMessageView_def)

text \<open>
  C6: noninterference of the customer's page: two timelines whose customer-visible messages the
  customer may not tell apart project to the same page, whatever internal notes lie between
  them, how many there are, and whatever the staff-only fields of any record hold.
\<close>

theorem customer_page_noninterference:
  assumes "list_all2 (sameToCustomer viewer) (visibleOnly rs) (visibleOnly ss)"
  shows "toCustomerMessagePage rs viewer = toCustomerMessagePage ss viewer"
proof -
  have "toCustomerMessagePage (visibleOnly rs) viewer = toCustomerMessagePage (visibleOnly ss) viewer"
    by (rule toCustomerMessagePage_same [OF assms]) (simp_all add: visibleOnly_def)
  then show ?thesis by (simp only: toCustomerMessagePage_visibleOnly [symmetric])
qed

definition fixtureMessage :: "nat \<Rightarrow> string \<Rightarrow> MessageVisibility \<Rightarrow> string \<Rightarrow> InternalMessageRecord" where
  "fixtureMessage n body vis author =
     \<lparr>in_messageId = ''m'' @ [char_of (48 + n)], in_conversationId = ''c'', in_seq = n,
      in_body = body, in_visibility = vis, in_authorId = author, in_authorKind = ''EMPLOYEE'',
      in_authorDisplayName = ''Asha'', in_createdAt = ''2026-08-24T10:00:00.000Z'',
      in_authorEmployeeId = None, in_authorTeamId = None, in_authorDepartment = None,
      in_redactedAt = None, in_redactedBy = None, in_internalTags = None,
      in_aiConfidence = None, in_moderationFlags = None\<rparr>"

theorem customer_page_noninterference_witness:
  "toCustomerMessagePage
     [fixtureMessage 1 ''hello'' CUSTOMER_VISIBLE ''e1'',
      fixtureMessage 2 ''fraud?'' INTERNAL ''e1'',
      fixtureMessage 3 ''all done'' CUSTOMER_VISIBLE ''e1''] ''cust'' =
   toCustomerMessagePage
     [fixtureMessage 1 ''hello'' CUSTOMER_VISIBLE ''e2'',
      fixtureMessage 3 ''all done'' CUSTOMER_VISIBLE ''e1''] ''cust''"
  by (rule customer_page_noninterference)
     (simp add: visibleOnly_def fixtureMessage_def sameToCustomer_def)

end
