(* ===== verification/Routing_Commands.thy ===== *)
theory Routing_Commands
  imports Message_Port
begin

text \<open>
  The ownership commands, \<open>packages/routing/src/commands.ts\<close>: cover, transfer, escalate and
  reassign-on-exit, over the ports \<open>OwnershipPort\<close> and \<open>AuditPort\<close>. Each port call is its own
  transaction: a call that throws (\<open>None\<close>) leaves behind whatever the calls before it committed.
\<close>

datatype CommandFailure =
    NOT_ASSIGNED | REASON_REQUIRED | SAME_OWNER | TARGET_UNAVAILABLE | COVER_WINDOW_INVALID

datatype AssignmentSource =
    ROUTED | CLAIMED | LEAD_ASSIGNED | REASSIGNED_ON_EXIT | COVER | ESCALATION | TRANSFER

record ReassignInput =
  ri_conversationId :: UUID
  ri_toOwner :: UUID
  ri_assignmentSource :: AssignmentSource
  ri_reason :: string
  ri_assignedBy :: UUID
  ri_at :: Timestamp
  ri_preserveDesignated :: bool

record GrantCoverInput =
  gc_conversationId :: UUID
  gc_principalId :: UUID
  gc_capability :: string
  gc_reason :: string
  gc_grantedBy :: UUID
  gc_from :: Timestamp
  gc_until :: Timestamp

datatype AuditDetail =
    CoverDetail UUID UUID Timestamp
  | HandOver UUID UUID
  | EscalationDetail UUID UUID nat

record AuditEntry =
  ae_action :: string
  ae_actorId :: UUID
  ae_targetId :: UUID
  ae_reason :: string
  ae_detail :: AuditDetail

record 'st CommandDeps =
  dp_currentOwner :: "UUID \<Rightarrow> 'st \<Rightarrow> UUID option"
  dp_reassign :: "ReassignInput \<Rightarrow> 'st \<Rightarrow> (UUID \<times> 'st) option"
  dp_grantCover :: "GrantCoverInput \<Rightarrow> 'st \<Rightarrow> (UUID \<times> 'st) option"
  dp_raiseEscalationLevel :: "UUID \<Rightarrow> string \<Rightarrow> Timestamp \<Rightarrow> 'st \<Rightarrow> (nat \<times> 'st) option"
  dp_record :: "AuditEntry \<Rightarrow> 'st \<Rightarrow> 'st option"

definition hasReason :: "string \<Rightarrow> bool" where
  "hasReason reason \<longleftrightarrow> length (trim reason) > 0"

text \<open>Awaiting a port call: a throw ends the command in the state reached so far.\<close>

definition await ::
  "('a \<times> 'st) option \<Rightarrow> 'st \<Rightarrow> ('a \<Rightarrow> 'st \<Rightarrow> 'r Outcome \<times> 'st) \<Rightarrow> 'r Outcome \<times> 'st" where
  "await res st k = (case res of None \<Rightarrow> (Threw, st) | Some (x, st') \<Rightarrow> k x st')"

definition auditThen ::
  "'st CommandDeps \<Rightarrow> AuditEntry \<Rightarrow> 'r \<Rightarrow> 'st \<Rightarrow> (CommandFailure + 'r) Outcome \<times> 'st" where
  "auditThen deps entry r st =
     (case dp_record deps entry st of None \<Rightarrow> (Threw, st) | Some st' \<Rightarrow> (Returned (Inr r), st'))"

abbreviation refuseWith :: "CommandFailure \<Rightarrow> 'st \<Rightarrow> (CommandFailure + 'r) Outcome \<times> 'st" where
  "refuseWith f st \<equiv> (Returned (Inl f), st)"

record CoverCommand =
  cvr_conversationId :: UUID
  cvr_covererId :: UUID
  cvr_grantedBy :: UUID
  cvr_reason :: string
  cvr_from :: Timestamp
  cvr_until :: Timestamp

definition COVER_CAPABILITY :: string where
  "COVER_CAPABILITY = ''conversation.read+reply''"

definition coverGrant :: "CoverCommand \<Rightarrow> GrantCoverInput" where
  "coverGrant cmd =
     \<lparr>gc_conversationId = cvr_conversationId cmd, gc_principalId = cvr_covererId cmd,
      gc_capability = COVER_CAPABILITY, gc_reason = cvr_reason cmd,
      gc_grantedBy = cvr_grantedBy cmd, gc_from = cvr_from cmd, gc_until = cvr_until cmd\<rparr>"

definition cover ::
  "'st CommandDeps \<Rightarrow> CoverCommand \<Rightarrow> 'st \<Rightarrow> (CommandFailure + UUID \<times> UUID) Outcome \<times> 'st" where
  "cover deps cmd st =
     (if \<not> hasReason (cvr_reason cmd) then refuseWith REASON_REQUIRED st
      else if cvr_until cmd \<le> cvr_from cmd then refuseWith COVER_WINDOW_INVALID st
      else case dp_currentOwner deps (cvr_conversationId cmd) st of
          None \<Rightarrow> refuseWith NOT_ASSIGNED st
        | Some owner \<Rightarrow>
            if owner = cvr_covererId cmd then refuseWith SAME_OWNER st
            else await (dp_grantCover deps (coverGrant cmd) st) st (\<lambda>grantId.
              auditThen deps
                \<lparr>ae_action = ''conversation.cover.granted'', ae_actorId = cvr_grantedBy cmd,
                 ae_targetId = cvr_conversationId cmd, ae_reason = cvr_reason cmd,
                 ae_detail = CoverDetail (cvr_covererId cmd) owner (cvr_until cmd)\<rparr>
                (grantId, owner)))"

record HandOverCommand =
  ho_conversationId :: UUID
  ho_toOwner :: UUID
  ho_by :: UUID
  ho_reason :: string
  ho_at :: Timestamp
  ho_targetAvailable :: bool

definition reassignmentOf :: "HandOverCommand \<Rightarrow> AssignmentSource \<Rightarrow> bool \<Rightarrow> ReassignInput" where
  "reassignmentOf cmd src preserve =
     \<lparr>ri_conversationId = ho_conversationId cmd, ri_toOwner = ho_toOwner cmd,
      ri_assignmentSource = src, ri_reason = ho_reason cmd, ri_assignedBy = ho_by cmd,
      ri_at = ho_at cmd, ri_preserveDesignated = preserve\<rparr>"

definition handOverEntry :: "HandOverCommand \<Rightarrow> string \<Rightarrow> AuditDetail \<Rightarrow> AuditEntry" where
  "handOverEntry cmd action detail =
     \<lparr>ae_action = action, ae_actorId = ho_by cmd, ae_targetId = ho_conversationId cmd,
      ae_reason = ho_reason cmd, ae_detail = detail\<rparr>"

definition transfer ::
  "'st CommandDeps \<Rightarrow> HandOverCommand \<Rightarrow> 'st \<Rightarrow> (CommandFailure + UUID \<times> UUID) Outcome \<times> 'st" where
  "transfer deps cmd st =
     (if \<not> hasReason (ho_reason cmd) then refuseWith REASON_REQUIRED st
      else if \<not> ho_targetAvailable cmd then refuseWith TARGET_UNAVAILABLE st
      else case dp_currentOwner deps (ho_conversationId cmd) st of
          None \<Rightarrow> refuseWith NOT_ASSIGNED st
        | Some owner \<Rightarrow>
            if owner = ho_toOwner cmd then refuseWith SAME_OWNER st
            else await (dp_reassign deps (reassignmentOf cmd TRANSFER True) st) st (\<lambda>episodeId.
              auditThen deps
                (handOverEntry cmd ''conversation.transfer'' (HandOver owner (ho_toOwner cmd)))
                (episodeId, owner)))"

definition escalate ::
  "'st CommandDeps \<Rightarrow> HandOverCommand \<Rightarrow> 'st \<Rightarrow> (CommandFailure + UUID \<times> nat) Outcome \<times> 'st" where
  "escalate deps cmd st =
     (if \<not> hasReason (ho_reason cmd) then refuseWith REASON_REQUIRED st
      else if \<not> ho_targetAvailable cmd then refuseWith TARGET_UNAVAILABLE st
      else case dp_currentOwner deps (ho_conversationId cmd) st of
          None \<Rightarrow> refuseWith NOT_ASSIGNED st
        | Some owner \<Rightarrow>
            await (dp_raiseEscalationLevel deps (ho_conversationId cmd) (ho_reason cmd) (ho_at cmd) st) st
              (\<lambda>level st1.
                await (dp_reassign deps (reassignmentOf cmd ESCALATION True) st1) st1 (\<lambda>episodeId.
                  auditThen deps
                    (handOverEntry cmd ''conversation.escalate''
                       (EscalationDetail owner (ho_toOwner cmd) level))
                    (episodeId, level))))"

definition reassignOnExit ::
  "'st CommandDeps \<Rightarrow> HandOverCommand \<Rightarrow> 'st \<Rightarrow> (CommandFailure + UUID) Outcome \<times> 'st" where
  "reassignOnExit deps cmd st =
     (if \<not> hasReason (ho_reason cmd) then refuseWith REASON_REQUIRED st
      else if \<not> ho_targetAvailable cmd then refuseWith TARGET_UNAVAILABLE st
      else case dp_currentOwner deps (ho_conversationId cmd) st of
          None \<Rightarrow> refuseWith NOT_ASSIGNED st
        | Some owner \<Rightarrow>
            if owner = ho_toOwner cmd then refuseWith SAME_OWNER st
            else await (dp_reassign deps (reassignmentOf cmd REASSIGNED_ON_EXIT False) st) st (\<lambda>episodeId.
              auditThen deps
                (handOverEntry cmd ''conversation.reassign_on_exit'' (HandOver owner (ho_toOwner cmd)))
                episodeId))"

section \<open>The contract of the ports, and what the commands promise under it\<close>

text \<open>
  What a command may move, observed of the state: the current owner and the designated employee
  of a conversation, its escalation level, and the trail of command audits.
\<close>

record 'st OwnershipView =
  ov_owner :: "UUID \<Rightarrow> 'st \<Rightarrow> UUID option"
  ov_designated :: "UUID \<Rightarrow> 'st \<Rightarrow> UUID option"
  ov_hasCase :: "UUID \<Rightarrow> 'st \<Rightarrow> bool"
  ov_level :: "UUID \<Rightarrow> 'st \<Rightarrow> nat"
  ov_trail :: "'st \<Rightarrow> AuditEntry list"

definition sameOwnership :: "'st OwnershipView \<Rightarrow> UUID \<Rightarrow> 'st \<Rightarrow> 'st \<Rightarrow> bool" where
  "sameOwnership v cid st st' \<longleftrightarrow>
     ov_owner v cid st' = ov_owner v cid st \<and>
     ov_designated v cid st' = ov_designated v cid st \<and>
     (ov_hasCase v cid st' \<longleftrightarrow> ov_hasCase v cid st)"

locale ownership_port =
  fixes deps :: "'st CommandDeps"
    and view :: "'st OwnershipView"
    and audited :: bool
  assumes current_owner: "dp_currentOwner deps cid st = ov_owner view cid st"
    and reassign_moves:
      "dp_reassign deps inp st = Some (e, st') \<Longrightarrow>
         ov_owner view (ri_conversationId inp) st' = Some (ri_toOwner inp) \<and>
         ov_designated view (ri_conversationId inp) st' =
           (if ri_preserveDesignated inp then ov_designated view (ri_conversationId inp) st
            else if ov_hasCase view (ri_conversationId inp) st then Some (ri_toOwner inp) else None) \<and>
         ov_level view (ri_conversationId inp) st' = ov_level view (ri_conversationId inp) st \<and>
         ov_trail view st' = ov_trail view st"
    and grant_cover_moves:
      "dp_grantCover deps gc st = Some (g, st') \<Longrightarrow>
         sameOwnership view cid st st' \<and> ov_level view cid st' = ov_level view cid st \<and>
         ov_trail view st' = ov_trail view st"
    and raise_moves:
      "dp_raiseEscalationLevel deps cid why now st = Some (n, st') \<Longrightarrow>
         sameOwnership view cid st st' \<and> ov_trail view st' = ov_trail view st \<and>
         ov_level view cid st' = n \<and> (ov_hasCase view cid st \<longrightarrow> n = Suc (ov_level view cid st))"
    and record_appends:
      "dp_record deps entry st = Some st' \<Longrightarrow>
         sameOwnership view cid st st' \<and> ov_level view cid st' = ov_level view cid st \<and>
         ov_trail view st' = ov_trail view st @ (if audited then [entry] else [])"

lemma await_Returned:
  assumes "await res st k = (Returned r, st')"
  obtains x st1 where "res = Some (x, st1)" and "k x st1 = (Returned r, st')"
  using assms by (cases res) (auto simp: await_def)

lemma auditThen_Returned:
  assumes "auditThen deps entry r st = (Returned x, st')"
  obtains "dp_record deps entry st = Some st'" and "x = Inr r"
  using assms by (auto simp: auditThen_def split: option.splits)

text \<open>A successful command of the hand-over kind has stated a reason, a target and an owner.\<close>

lemma transfer_Inr:
  assumes "transfer deps cmd st = (Returned (Inr r), st')"
  obtains owner e st1 where "hasReason (ho_reason cmd)" and "ho_targetAvailable cmd"
    and "dp_currentOwner deps (ho_conversationId cmd) st = Some owner" and "owner \<noteq> ho_toOwner cmd"
    and "dp_reassign deps (reassignmentOf cmd TRANSFER True) st = Some (e, st1)"
    and "dp_record deps (handOverEntry cmd ''conversation.transfer'' (HandOver owner (ho_toOwner cmd))) st1 = Some st'"
    and "r = (e, owner)"
  using assms
  by (auto simp: transfer_def split: if_splits option.splits elim!: await_Returned auditThen_Returned)

lemma escalate_Inr:
  assumes "escalate deps cmd st = (Returned (Inr r), st')"
  obtains owner n st1 e st2 where "hasReason (ho_reason cmd)" and "ho_targetAvailable cmd"
    and "dp_currentOwner deps (ho_conversationId cmd) st = Some owner"
    and "dp_raiseEscalationLevel deps (ho_conversationId cmd) (ho_reason cmd) (ho_at cmd) st = Some (n, st1)"
    and "dp_reassign deps (reassignmentOf cmd ESCALATION True) st1 = Some (e, st2)"
    and "dp_record deps (handOverEntry cmd ''conversation.escalate''
           (EscalationDetail owner (ho_toOwner cmd) n)) st2 = Some st'"
    and "r = (e, n)"
  using assms
  by (auto simp: escalate_def split: if_splits option.splits elim!: await_Returned auditThen_Returned)

lemma reassignOnExit_Inr:
  assumes "reassignOnExit deps cmd st = (Returned (Inr r), st')"
  obtains owner st1 where "hasReason (ho_reason cmd)" and "ho_targetAvailable cmd"
    and "dp_currentOwner deps (ho_conversationId cmd) st = Some owner" and "owner \<noteq> ho_toOwner cmd"
    and "dp_reassign deps (reassignmentOf cmd REASSIGNED_ON_EXIT False) st = Some (r, st1)"
    and "dp_record deps (handOverEntry cmd ''conversation.reassign_on_exit'' (HandOver owner (ho_toOwner cmd))) st1 = Some st'"
  using assms
  by (auto simp: reassignOnExit_def split: if_splits option.splits elim!: await_Returned auditThen_Returned)

lemma cover_Inr:
  assumes "cover deps cmd st = (Returned (Inr r), st')"
  obtains owner g st1 where "hasReason (cvr_reason cmd)" and "cvr_from cmd < cvr_until cmd"
    and "dp_currentOwner deps (cvr_conversationId cmd) st = Some owner" and "owner \<noteq> cvr_covererId cmd"
    and "dp_grantCover deps (coverGrant cmd) st = Some (g, st1)"
    and "dp_record deps \<lparr>ae_action = ''conversation.cover.granted'', ae_actorId = cvr_grantedBy cmd,
           ae_targetId = cvr_conversationId cmd, ae_reason = cvr_reason cmd,
           ae_detail = CoverDetail (cvr_covererId cmd) owner (cvr_until cmd)\<rparr> st1 = Some st'"
    and "r = (g, owner)"
  using assms
  by (auto simp: cover_def not_le split: if_splits option.splits elim!: await_Returned auditThen_Returned)

text \<open>A refusal has called nothing that writes.\<close>

lemmas command_defs = transfer_def escalate_def reassignOnExit_def cover_def

lemma auditThen_not_refused: "auditThen deps entry r st \<noteq> (Returned (Inl f), st')"
  by (auto simp: auditThen_def split: option.splits)

lemma await_refused:
  assumes "await res st k = (Returned (Inl f), st')" and "\<And>x s. k x s \<noteq> (Returned (Inl f), st')"
  shows False
  using assms by (auto elim!: await_Returned)

lemma transfer_refused: "transfer deps cmd st = (Returned (Inl f), st') \<Longrightarrow> st' = st"
  by (auto simp: transfer_def auditThen_not_refused split: if_splits option.splits dest!: await_refused)

lemma reassignOnExit_refused: "reassignOnExit deps cmd st = (Returned (Inl f), st') \<Longrightarrow> st' = st"
  by (auto simp: reassignOnExit_def auditThen_not_refused split: if_splits option.splits dest!: await_refused)

lemma cover_refused: "cover deps cmd st = (Returned (Inl f), st') \<Longrightarrow> st' = st"
  by (auto simp: cover_def auditThen_not_refused split: if_splits option.splits dest!: await_refused)

lemma escalate_refused: "escalate deps cmd st = (Returned (Inl f), st') \<Longrightarrow> st' = st"
  by (auto simp: escalate_def auditThen_not_refused split: if_splits option.splits elim!: await_Returned)

context ownership_port
begin

text \<open>Who moves what: the table of the source's header.\<close>

lemma transfer_moves:
  assumes "transfer deps cmd st = (Returned (Inr r), st')"
  shows "ov_owner view (ho_conversationId cmd) st' = Some (ho_toOwner cmd) \<and>
    ov_designated view (ho_conversationId cmd) st' = ov_designated view (ho_conversationId cmd) st \<and>
    ov_level view (ho_conversationId cmd) st' = ov_level view (ho_conversationId cmd) st \<and>
    (\<exists>entry. ov_trail view st' = ov_trail view st @ (if audited then [entry] else []) \<and> hasReason (ae_reason entry) \<and>
       ae_targetId entry = ho_conversationId cmd \<and> ae_actorId entry = ho_by cmd)"
  using assms
proof (rule transfer_Inr)
  fix owner e st1
  assume r: "dp_reassign deps (reassignmentOf cmd TRANSFER True) st = Some (e, st1)"
    and a: "dp_record deps (handOverEntry cmd ''conversation.transfer'' (HandOver owner (ho_toOwner cmd))) st1 = Some st'"
    and h: "hasReason (ho_reason cmd)"
  from reassign_moves[OF r] record_appends[OF a, of "ho_conversationId cmd"] h
  show ?thesis
    by (auto simp: reassignmentOf_def sameOwnership_def handOverEntry_def
        intro!: exI[where x = "handOverEntry cmd ''conversation.transfer'' (HandOver owner (ho_toOwner cmd))"])
qed

lemma escalate_moves:
  assumes "escalate deps cmd st = (Returned (Inr r), st')"
  shows "ov_owner view (ho_conversationId cmd) st' = Some (ho_toOwner cmd) \<and>
    ov_designated view (ho_conversationId cmd) st' = ov_designated view (ho_conversationId cmd) st \<and>
    (ov_hasCase view (ho_conversationId cmd) st \<longrightarrow>
       ov_level view (ho_conversationId cmd) st' = Suc (ov_level view (ho_conversationId cmd) st)) \<and>
    (\<exists>entry. ov_trail view st' = ov_trail view st @ (if audited then [entry] else []) \<and> hasReason (ae_reason entry) \<and>
       ae_targetId entry = ho_conversationId cmd \<and> ae_actorId entry = ho_by cmd)"
  using assms
proof (rule escalate_Inr)
  fix owner n st1 e st2
  assume l: "dp_raiseEscalationLevel deps (ho_conversationId cmd) (ho_reason cmd) (ho_at cmd) st = Some (n, st1)"
    and r: "dp_reassign deps (reassignmentOf cmd ESCALATION True) st1 = Some (e, st2)"
    and a: "dp_record deps (handOverEntry cmd ''conversation.escalate''
           (EscalationDetail owner (ho_toOwner cmd) n)) st2 = Some st'"
    and h: "hasReason (ho_reason cmd)"
  from raise_moves[OF l] reassign_moves[OF r] record_appends[OF a, of "ho_conversationId cmd"] h
  show ?thesis
    by (auto simp: reassignmentOf_def sameOwnership_def handOverEntry_def
        intro!: exI[where x = "handOverEntry cmd ''conversation.escalate'' (EscalationDetail owner (ho_toOwner cmd) n)"])
qed

lemma reassignOnExit_moves:
  assumes "reassignOnExit deps cmd st = (Returned (Inr r), st')"
  shows "ov_owner view (ho_conversationId cmd) st' = Some (ho_toOwner cmd) \<and>
    ov_designated view (ho_conversationId cmd) st' =
      (if ov_hasCase view (ho_conversationId cmd) st then Some (ho_toOwner cmd) else None) \<and>
    ov_level view (ho_conversationId cmd) st' = ov_level view (ho_conversationId cmd) st \<and>
    (\<exists>entry. ov_trail view st' = ov_trail view st @ (if audited then [entry] else []) \<and> hasReason (ae_reason entry) \<and>
       ae_targetId entry = ho_conversationId cmd \<and> ae_actorId entry = ho_by cmd)"
  using assms
proof (rule reassignOnExit_Inr)
  fix owner st1
  assume r: "dp_reassign deps (reassignmentOf cmd REASSIGNED_ON_EXIT False) st = Some (r, st1)"
    and a: "dp_record deps (handOverEntry cmd ''conversation.reassign_on_exit'' (HandOver owner (ho_toOwner cmd))) st1 = Some st'"
    and h: "hasReason (ho_reason cmd)"
  from reassign_moves[OF r] record_appends[OF a, of "ho_conversationId cmd"] h
  show ?thesis
    by (auto simp: reassignmentOf_def sameOwnership_def handOverEntry_def
        intro!: exI[where x = "handOverEntry cmd ''conversation.reassign_on_exit'' (HandOver owner (ho_toOwner cmd))"])
qed

lemma cover_moves:
  assumes "cover deps cmd st = (Returned (Inr r), st')"
  shows "sameOwnership view (cvr_conversationId cmd) st st' \<and>
    ov_level view (cvr_conversationId cmd) st' = ov_level view (cvr_conversationId cmd) st \<and>
    (\<exists>entry. ov_trail view st' = ov_trail view st @ (if audited then [entry] else []) \<and> hasReason (ae_reason entry) \<and>
       ae_targetId entry = cvr_conversationId cmd \<and> ae_actorId entry = cvr_grantedBy cmd)"
  using assms
proof (rule cover_Inr)
  fix owner g st1
  assume g: "dp_grantCover deps (coverGrant cmd) st = Some (g, st1)"
    and a: "dp_record deps \<lparr>ae_action = ''conversation.cover.granted'', ae_actorId = cvr_grantedBy cmd,
           ae_targetId = cvr_conversationId cmd, ae_reason = cvr_reason cmd,
           ae_detail = CoverDetail (cvr_covererId cmd) owner (cvr_until cmd)\<rparr> st1 = Some st'"
    and h: "hasReason (cvr_reason cmd)"
  from grant_cover_moves[OF g, of "cvr_conversationId cmd"]
    record_appends[OF a, of "cvr_conversationId cmd"] h
  show ?thesis
    by (auto simp: sameOwnership_def
        intro!: exI[where x = "\<lparr>ae_action = ''conversation.cover.granted'', ae_actorId = cvr_grantedBy cmd,
           ae_targetId = cvr_conversationId cmd, ae_reason = cvr_reason cmd,
           ae_detail = CoverDetail (cvr_covererId cmd) owner (cvr_until cmd)\<rparr>"])
qed

end

end
