(* ===== verification/Routing_Store.thy ===== *)
theory Routing_Store
  imports Message_Store Routing_Commands
begin

text \<open>
  Queue, claim and ownership persistence, \<open>infrastructure/database/src/repositories/routing-store.ts\<close>,
  on the tables of \<open>Message_Store\<close> extended with the queue, the ownership episodes, the cover
  grants, the reservations, the idempotency records and the audit ledger. Each method is one
  transaction: \<open>None\<close> is the ROLLBACK-and-throw branch. The arithmetic of the database on
  timestamps (\<open>at + interval\<close>) is the argument \<open>plusSeconds\<close>, random ids are arguments, and a row
  lock held by a concurrent pull (\<open>SKIP LOCKED\<close>) is the argument \<open>locked\<close>. Foreign keys to the
  identity schema are not modelled.
\<close>

section \<open>The tables\<close>

datatype QueueState = Q_WAITING | Q_RESERVED | Q_CLAIMED | Q_CANCELLED

record QueueEntryRow =
  qe_queue_entry_id :: UUID
  qe_conversation_id :: UUID
  qe_case_id :: "UUID option"
  qe_team_id :: string
  qe_priority :: string
  qe_state :: QueueState
  qe_claimed_by :: "UUID option"
  qe_claimed_at :: "Timestamp option"
  qe_after_hours :: bool
  qe_enqueued_at :: Timestamp

record OwnershipRow =
  ow_episode_id :: UUID
  ow_conversation_id :: UUID
  ow_case_id :: "UUID option"
  ow_owner_id :: UUID
  ow_effective_from :: Timestamp
  ow_effective_to :: "Timestamp option"
  ow_reason :: "string option"
  ow_assigned_by :: "UUID option"
  ow_assignment_source :: AssignmentSource
  ow_previous_owner :: "UUID option"
  ow_next_owner :: "UUID option"

record AccessGrantRow =
  ag_grant_id :: UUID
  ag_principal_id :: UUID
  ag_conversation_id :: "UUID option"
  ag_case_id :: "UUID option"
  ag_capability :: string
  ag_reason :: string
  ag_granted_by :: UUID
  ag_effective_from :: Timestamp
  ag_effective_to :: Timestamp
  ag_revoked_at :: "Timestamp option"

record ReservationRow =
  rs_reservation_id :: UUID
  rs_principal_id :: UUID
  rs_ref :: CanonicalRef
  rs_weight :: int
  rs_effective_from :: Timestamp
  rs_expires_at :: Timestamp
  rs_released_at :: "Timestamp option"

datatype CapacityScope = CAP_PRINCIPAL | CAP_TEAM

record CapacityPolicyRow =
  cp_scope_kind :: CapacityScope
  cp_scope_id :: string
  cp_capacity_units :: int

record IdempotencyRow =
  ir_scope :: string
  ir_key :: string
  ir_conversationId :: UUID
  ir_reservationId :: UUID

datatype LedgerDetail = AddedOwner UUID | CommandDetail AuditDetail

record LedgerRow =
  lr_actor_id :: "UUID option"
  lr_actor_kind :: string
  lr_action :: string
  lr_target_id :: UUID
  lr_reason :: string
  lr_correlation_id :: string
  lr_detail :: LedgerDetail

record RoutingDb = Db +
  db_queue_entries :: "QueueEntryRow list"
  db_ownership_episodes :: "OwnershipRow list"
  db_access_grants :: "AccessGrantRow list"
  db_reservations :: "ReservationRow list"
  db_capacity_policies :: "CapacityPolicyRow list"
  db_idempotency_records :: "IdempotencyRow list"
  db_ledger :: "LedgerRow list"

section \<open>Ownership episodes\<close>

record OpenEpisodeInput =
  oe_episodeId :: UUID
  oe_conversationId :: UUID
  oe_caseId :: "UUID option"
  oe_ownerId :: UUID
  oe_assignmentSource :: AssignmentSource
  oe_at :: Timestamp
  oe_reason :: "string option"
  oe_assignedBy :: "UUID option"
  oe_previousOwner :: "UUID option"

text \<open>
  \<open>ownership_no_overlap\<close> for a new episode that is open from \<open>t\<close>: every episode of the
  conversation has ended by then.
\<close>

definition ownershipFree :: "UUID \<Rightarrow> Timestamp \<Rightarrow> OwnershipRow list \<Rightarrow> bool" where
  "ownershipFree cid t eps \<longleftrightarrow>
     list_all (\<lambda>e. ow_conversation_id e = cid \<longrightarrow>
       (case ow_effective_to e of None \<Rightarrow> False | Some u \<Rightarrow> u \<le> t)) eps"

definition episodeRowOf :: "OpenEpisodeInput \<Rightarrow> OwnershipRow" where
  "episodeRowOf inp =
     \<lparr>ow_episode_id = oe_episodeId inp, ow_conversation_id = oe_conversationId inp,
      ow_case_id = oe_caseId inp, ow_owner_id = oe_ownerId inp,
      ow_effective_from = oe_at inp, ow_effective_to = None, ow_reason = oe_reason inp,
      ow_assigned_by = oe_assignedBy inp, ow_assignment_source = oe_assignmentSource inp,
      ow_previous_owner = oe_previousOwner inp, ow_next_owner = None\<rparr>"

definition openEpisodeIn :: "OpenEpisodeInput \<Rightarrow> RoutingDb \<Rightarrow> (OwnershipRow \<times> RoutingDb) option" where
  "openEpisodeIn inp db =
     (if list_ex (\<lambda>e. ow_episode_id e = oe_episodeId inp) (db_ownership_episodes db) \<or>
         findConversation (oe_conversationId inp) db = None \<or>
         \<not> ownershipFree (oe_conversationId inp) (oe_at inp) (db_ownership_episodes db) then None
      else Some (episodeRowOf inp,
        db\<lparr>db_ownership_episodes := db_ownership_episodes db @ [episodeRowOf inp]\<rparr>))"

definition currentOwner :: "UUID \<Rightarrow> RoutingDb \<Rightarrow> OwnershipRow option" where
  "currentOwner cid db =
     find (\<lambda>e. ow_conversation_id e = cid \<and> ow_effective_to e = None) (db_ownership_episodes db)"

definition ownershipHistory :: "UUID \<Rightarrow> RoutingDb \<Rightarrow> OwnershipRow list" where
  "ownershipHistory cid db =
     rev (sort_key ow_effective_from
       (filter (\<lambda>e. ow_conversation_id e = cid) (db_ownership_episodes db)))"

section \<open>The owner as a participant, and the ledger\<close>

record GrantedBy =
  gb_actorId :: "UUID option"
  gb_actorKind :: string
  gb_reason :: string
  gb_correlationId :: string

definition reviveOwner :: "UUID \<Rightarrow> Timestamp \<Rightarrow> ParticipantRow \<Rightarrow> ParticipantRow" where
  "reviveOwner addedBy t p =
     p\<lparr>pa_effective_to := None,
       pa_effective_from := (if pa_effective_to p = None then pa_effective_from p else t),
       pa_role := ''OWNER'', pa_reply_authority := True, pa_added_by := Some addedBy\<rparr>"

definition upsertOwner ::
  "UUID \<Rightarrow> UUID \<Rightarrow> UUID \<Rightarrow> Timestamp \<Rightarrow> ParticipantRow list \<Rightarrow> ParticipantRow list" where
  "upsertOwner cid who addedBy t ps =
     (if list_ex (\<lambda>p. pa_conversation_id p = cid \<and> pa_principal_id p = who) ps
      then updateWhere (\<lambda>p. pa_conversation_id p = cid \<and> pa_principal_id p = who)
             (reviveOwner addedBy t) ps
      else ps @ [\<lparr>pa_conversation_id = cid, pa_principal_id = who, pa_principal_kind = K_EMPLOYEE,
                  pa_role = ''OWNER'', pa_reply_authority = True, pa_effective_from = t,
                  pa_effective_to = None, pa_archived_at = None, pa_added_by = Some addedBy\<rparr>])"

definition liveCount :: "UUID \<Rightarrow> ParticipantRow list \<Rightarrow> nat" where
  "liveCount cid ps =
     length (filter (\<lambda>p. pa_conversation_id p = cid \<and> pa_effective_to p = None) ps)"

definition ensureOwnerParticipantIn ::
  "UUID \<Rightarrow> UUID \<Rightarrow> UUID \<Rightarrow> Timestamp \<Rightarrow> GrantedBy \<Rightarrow> RoutingDb \<Rightarrow> RoutingDb" where
  "ensureOwnerParticipantIn cid who addedBy t granted db =
     (let ps = upsertOwner cid who addedBy t (db_participants db)
      in db\<lparr>db_participants := ps,
            db_conversations := updateWhere (\<lambda>c. cr_conversation_id c = cid)
              (\<lambda>c. c\<lparr>cr_participant_count := liveCount cid ps\<rparr>) (db_conversations db),
            db_ledger := db_ledger db @
              [\<lparr>lr_actor_id = gb_actorId granted, lr_actor_kind = gb_actorKind granted,
                lr_action = ''conversation.participant.add'', lr_target_id = cid,
                lr_reason = gb_reason granted, lr_correlation_id = gb_correlationId granted,
                lr_detail = AddedOwner who\<rparr>]\<rparr>)"

text \<open>
  \<open>UPDATE service_cases sc ... FROM conversations c WHERE c.conversation_id = $1 AND sc.case_id =
  c.case_id\<close>; \<open>conversation_id\<close> is the primary key, so at most one row \<open>c\<close> takes part.
\<close>

definition caseIsOf :: "UUID \<Rightarrow> RoutingDb \<Rightarrow> ServiceCaseRow \<Rightarrow> bool" where
  "caseIsOf cid db sc \<longleftrightarrow>
     (case findConversation cid db of None \<Rightarrow> False | Some c \<Rightarrow> cr_case_id c = Some (sc_case_id sc))"

definition updateCaseOf ::
  "UUID \<Rightarrow> (ServiceCaseRow \<Rightarrow> ServiceCaseRow) \<Rightarrow> RoutingDb \<Rightarrow> RoutingDb" where
  "updateCaseOf cid f db =
     db\<lparr>db_service_cases := updateWhere (caseIsOf cid db) f (db_service_cases db)\<rparr>"

definition setCaseOwner :: "UUID \<Rightarrow> UUID \<Rightarrow> RoutingDb \<Rightarrow> RoutingDb" where
  "setCaseOwner cid who = updateCaseOf cid (\<lambda>sc. sc\<lparr>sc_current_owner_id := Some who\<rparr>)"

definition setDesignated :: "UUID \<Rightarrow> UUID \<Rightarrow> RoutingDb \<Rightarrow> RoutingDb" where
  "setDesignated cid who = updateCaseOf cid (\<lambda>sc. sc\<lparr>sc_designated_employee_id := Some who\<rparr>)"

section \<open>The queue\<close>

record EnqueueInput =
  en_queueEntryId :: UUID
  en_conversationId :: UUID
  en_caseId :: "UUID option"
  en_teamId :: string
  en_priority :: string
  en_afterHours :: bool
  en_at :: Timestamp
  en_correlationId :: "string option"

text \<open>
  \<open>ON CONFLICT DO NOTHING\<close>: the primary key, and the unique index on the conversation over
  entries that are waiting or reserved.
\<close>

definition queueConflict :: "EnqueueInput \<Rightarrow> QueueEntryRow list \<Rightarrow> bool" where
  "queueConflict inp es \<longleftrightarrow>
     list_ex (\<lambda>e. qe_queue_entry_id e = en_queueEntryId inp \<or>
       qe_conversation_id e = en_conversationId inp \<and> qe_state e \<in> {Q_WAITING, Q_RESERVED}) es"

definition queueRowOf :: "EnqueueInput \<Rightarrow> QueueEntryRow" where
  "queueRowOf inp =
     \<lparr>qe_queue_entry_id = en_queueEntryId inp, qe_conversation_id = en_conversationId inp,
      qe_case_id = en_caseId inp, qe_team_id = en_teamId inp, qe_priority = en_priority inp,
      qe_state = Q_WAITING, qe_claimed_by = None, qe_claimed_at = None,
      qe_after_hours = en_afterHours inp, qe_enqueued_at = en_at inp\<rparr>"

definition arrivalEvent :: "EnqueueInput \<Rightarrow> OutboxRow" where
  "arrivalEvent inp =
     \<lparr>ob_eventName = ''conversation.queue.arrived.v1'', ob_eventVersion = 1,
      ob_aggregateType = ''conversation'', ob_aggregateId = en_conversationId inp,
      ob_payload = QueueArrived (en_conversationId inp) (en_teamId inp) (en_priority inp)
                     (en_afterHours inp),
      ob_correlationId = (case en_correlationId inp of Some c \<Rightarrow> c | None \<Rightarrow> ''routing-sweep'')\<rparr>"

definition enqueue :: "UUID \<Rightarrow> EnqueueInput \<Rightarrow> RoutingDb \<Rightarrow> RoutingDb option" where
  "enqueue episodeId inp db =
     (if findConversation (en_conversationId inp) db = None then None
      else
        let db1 = db\<lparr>db_queue_entries := db_queue_entries db @
              (if queueConflict inp (db_queue_entries db) then [] else [queueRowOf inp])\<rparr>
        in Option.bind (advanceStateIn episodeId
             \<lparr>as_conversationId = en_conversationId inp, as_from = [NEW], as_to = QUEUED,
              as_at = en_at inp, as_enteredBy = None,
              as_reason = Some (if en_afterHours inp then ''queued after hours''
                                else ''queued for the team'')\<rparr> db1)
           (\<lambda>(_, db2). appendOutboxIn (arrivalEvent inp) db2))"

text \<open>\<open>UPDATE queue_entries SET state = 'CLAIMED' ... WHERE p AND state = 'WAITING' RETURNING\<close>.\<close>

definition claimWhere ::
  "(QueueEntryRow \<Rightarrow> bool) \<Rightarrow> UUID \<Rightarrow> Timestamp \<Rightarrow> RoutingDb \<Rightarrow> (QueueEntryRow \<times> RoutingDb) option" where
  "claimWhere p who t db =
     (let hit = (\<lambda>e. p e \<and> qe_state e = Q_WAITING)
      in map_option (\<lambda>e. (e,
           db\<lparr>db_queue_entries := updateWhere hit
                (\<lambda>e. e\<lparr>qe_state := Q_CLAIMED, qe_claimed_by := Some who, qe_claimed_at := Some t\<rparr>)
                (db_queue_entries db)\<rparr>)) (find hit (db_queue_entries db)))"

datatype ClaimFailure = ALREADY_ASSIGNED | NOT_QUEUED

definition claimReason :: "UUID \<Rightarrow> RoutingDb \<Rightarrow> ClaimFailure" where
  "claimReason cid db =
     (if list_ex (\<lambda>e. qe_conversation_id e = cid) (db_queue_entries db) then ALREADY_ASSIGNED
      else NOT_QUEUED)"

record ClaimInput =
  cl_claimedBy :: UUID
  cl_episodeId :: UUID
  cl_stateEpisodeId :: UUID
  cl_at :: Timestamp
  cl_correlationId :: "string option"

definition claimEpisode :: "ClaimInput \<Rightarrow> UUID \<Rightarrow> UUID option \<Rightarrow> OpenEpisodeInput" where
  "claimEpisode inp cid k =
     \<lparr>oe_episodeId = cl_episodeId inp, oe_conversationId = cid, oe_caseId = k,
      oe_ownerId = cl_claimedBy inp, oe_assignmentSource = CLAIMED, oe_at = cl_at inp,
      oe_reason = None, oe_assignedBy = None, oe_previousOwner = None\<rparr>"

definition claimGrant :: "ClaimInput \<Rightarrow> UUID \<Rightarrow> string \<Rightarrow> GrantedBy" where
  "claimGrant inp cid why =
     \<lparr>gb_actorId = Some (cl_claimedBy inp), gb_actorKind = ''EMPLOYEE'', gb_reason = why,
      gb_correlationId = (case cl_correlationId inp of Some c \<Rightarrow> c | None \<Rightarrow> cid)\<rparr>"

definition assignedState :: "UUID \<Rightarrow> Timestamp \<Rightarrow> UUID option \<Rightarrow> string \<Rightarrow> AdvanceStateInput" where
  "assignedState cid t who why =
     \<lparr>as_conversationId = cid, as_from = ASSIGNABLE_FROM, as_to = ASSIGNED, as_at = t,
      as_enteredBy = who, as_reason = Some why\<rparr>"

definition claimConversation ::
  "ClaimInput \<Rightarrow> UUID \<Rightarrow> RoutingDb \<Rightarrow> ((ClaimFailure + OwnershipRow) \<times> RoutingDb) option" where
  "claimConversation inp cid db =
     (case claimWhere (\<lambda>e. qe_conversation_id e = cid) (cl_claimedBy inp) (cl_at inp) db of
        None \<Rightarrow> Some (Inl (claimReason cid db), db)
      | Some (entry, db1) \<Rightarrow>
          Option.bind (openEpisodeIn (claimEpisode inp cid (qe_case_id entry)) db1) (\<lambda>(ep, db2).
          let db3 = ensureOwnerParticipantIn cid (cl_claimedBy inp) (cl_claimedBy inp) (cl_at inp)
                      (claimGrant inp cid ''claimed from the queue'') db2;
              db4 = setCaseOwner cid (cl_claimedBy inp) db3
          in Option.bind (advanceStateIn (cl_stateEpisodeId inp)
               (assignedState cid (cl_at inp) (Some (cl_claimedBy inp)) ''claimed from the queue'') db4)
             (\<lambda>(_, db5). Some (Inr ep, db5))))"

text \<open>\<open>ORDER BY priority, enqueued_at\<close>.\<close>

definition queueKey :: "QueueEntryRow \<Rightarrow> string \<times> Timestamp" where
  "queueKey e = (qe_priority e, qe_enqueued_at e)"

definition waitingOf :: "string \<Rightarrow> RoutingDb \<Rightarrow> QueueEntryRow list" where
  "waitingOf teamId db =
     sort_key queueKey
       (filter (\<lambda>e. qe_team_id e = teamId \<and> qe_state e = Q_WAITING) (db_queue_entries db))"

definition queueView :: "string \<Rightarrow> nat \<Rightarrow> RoutingDb \<Rightarrow> QueueEntryRow list" where
  "queueView teamId limit db = take limit (waitingOf teamId db)"

definition nextWaiting :: "(UUID \<Rightarrow> bool) \<Rightarrow> string \<Rightarrow> RoutingDb \<Rightarrow> QueueEntryRow option" where
  "nextWaiting locked teamId db = find (\<lambda>e. \<not> locked (qe_queue_entry_id e)) (waitingOf teamId db)"

definition claimNextFromQueue ::
  "(UUID \<Rightarrow> bool) \<Rightarrow> ClaimInput \<Rightarrow> string \<Rightarrow> RoutingDb \<Rightarrow>
   ((ClaimFailure + OwnershipRow) \<times> RoutingDb) option" where
  "claimNextFromQueue locked inp teamId db =
     (case Option.bind (nextWaiting locked teamId db) (\<lambda>e.
             claimWhere (\<lambda>x. qe_queue_entry_id x = qe_queue_entry_id e)
               (cl_claimedBy inp) (cl_at inp) db) of
        None \<Rightarrow> Some (Inl NOT_QUEUED, db)
      | Some (entry, db1) \<Rightarrow>
          let cid = qe_conversation_id entry
          in Option.bind (openEpisodeIn (claimEpisode inp cid (qe_case_id entry)) db1) (\<lambda>(ep, db2).
             Some (Inr ep, ensureOwnerParticipantIn cid (cl_claimedBy inp) (cl_claimedBy inp)
               (cl_at inp) (claimGrant inp cid ''claimed the next conversation from the queue'') db2)))"


text \<open>Open customer conversations nobody owns.\<close>

definition unassignedConversationCount :: "RoutingDb \<Rightarrow> nat" where
  "unassignedConversationCount db =
     length (filter (\<lambda>c. cr_conversation_type c = CUSTOMER_SERVICE \<and>
         (case cr_state c of None \<Rightarrow> False | Some s \<Rightarrow> s \<notin> {RESOLVED, CLOSED}) \<and>
         currentOwner (cr_conversation_id c) db = None) (db_conversations db))"

section \<open>Reassignment, cover, escalation\<close>

definition isLiveOf :: "UUID \<Rightarrow> OwnershipRow \<Rightarrow> bool" where
  "isLiveOf cid e \<longleftrightarrow> ow_conversation_id e = cid \<and> ow_effective_to e = None"

text \<open>Closing the open episode must satisfy \<open>ownership_period_valid\<close>, or the statement throws.\<close>

definition closeEpisode :: "UUID \<Rightarrow> Timestamp \<Rightarrow> UUID \<Rightarrow> RoutingDb \<Rightarrow> RoutingDb option" where
  "closeEpisode cid t next db =
     (if list_ex (\<lambda>e. isLiveOf cid e \<and> \<not> ow_effective_from e < t) (db_ownership_episodes db) then None
      else Some (db\<lparr>db_ownership_episodes :=
        updateWhere (isLiveOf cid) (\<lambda>e. e\<lparr>ow_effective_to := Some t, ow_next_owner := Some next\<rparr>)
          (db_ownership_episodes db)\<rparr>))"

definition demote :: "UUID \<Rightarrow> UUID \<Rightarrow> RoutingDb \<Rightarrow> RoutingDb" where
  "demote cid who db =
     db\<lparr>db_participants :=
       updateWhere (\<lambda>p. pa_conversation_id p = cid \<and> pa_principal_id p = who \<and> pa_effective_to p = None)
         (\<lambda>p. p\<lparr>pa_role := ''PARTICIPANT'', pa_reply_authority := False\<rparr>) (db_participants db)\<rparr>"

definition demotePrevious :: "UUID \<Rightarrow> UUID \<Rightarrow> UUID option \<Rightarrow> RoutingDb \<Rightarrow> RoutingDb" where
  "demotePrevious cid next previousOwner db =
     (case previousOwner of
        Some p \<Rightarrow> if p \<noteq> next then demote cid p db else db
      | None \<Rightarrow> db)"

definition reassign ::
  "ReassignInput \<Rightarrow> UUID \<Rightarrow> string option \<Rightarrow> RoutingDb \<Rightarrow> (OwnershipRow \<times> RoutingDb) option" where
  "reassign inp episodeId correlationId db =
     (let cid = ri_conversationId inp; next = ri_toOwner inp; t = ri_at inp;
          previousOwner = map_option ow_owner_id (find (isLiveOf cid) (db_ownership_episodes db))
      in Option.bind (closeEpisode cid t next db) (\<lambda>db1.
         Option.bind (openEpisodeIn
           \<lparr>oe_episodeId = episodeId, oe_conversationId = cid, oe_caseId = None, oe_ownerId = next,
            oe_assignmentSource = ri_assignmentSource inp, oe_at = t, oe_reason = Some (ri_reason inp),
            oe_assignedBy = Some (ri_assignedBy inp), oe_previousOwner = previousOwner\<rparr> db1)
         (\<lambda>(ep, db2).
         let db3 = demotePrevious cid next previousOwner db2;
             db4 = ensureOwnerParticipantIn cid next (ri_assignedBy inp) t
                     \<lparr>gb_actorId = Some (ri_assignedBy inp), gb_actorKind = ''EMPLOYEE'',
                      gb_reason = ri_reason inp,
                      gb_correlationId = (case correlationId of Some c \<Rightarrow> c | None \<Rightarrow> cid)\<rparr> db3;
             db5 = setCaseOwner cid next db4;
             db6 = (if ri_preserveDesignated inp then db5 else setDesignated cid next db5)
         in Some (ep, db6))))"

definition accessGrantOf :: "UUID \<Rightarrow> GrantCoverInput \<Rightarrow> AccessGrantRow" where
  "accessGrantOf grantId inp =
     \<lparr>ag_grant_id = grantId, ag_principal_id = gc_principalId inp,
      ag_conversation_id = Some (gc_conversationId inp), ag_case_id = None,
      ag_capability = gc_capability inp, ag_reason = gc_reason inp,
      ag_granted_by = gc_grantedBy inp, ag_effective_from = gc_from inp,
      ag_effective_to = gc_until inp, ag_revoked_at = None\<rparr>"

definition grantCover :: "UUID \<Rightarrow> GrantCoverInput \<Rightarrow> RoutingDb \<Rightarrow> (UUID \<times> RoutingDb) option" where
  "grantCover grantId inp db =
     (if list_ex (\<lambda>g. ag_grant_id g = grantId) (db_access_grants db) \<or>
         findConversation (gc_conversationId inp) db = None then None
      else Some (grantId, db\<lparr>db_access_grants := db_access_grants db @ [accessGrantOf grantId inp]\<rparr>))"

definition raiseEscalationLevel :: "UUID \<Rightarrow> RoutingDb \<Rightarrow> nat \<times> RoutingDb" where
  "raiseEscalationLevel cid db =
     (let db' = updateCaseOf cid (\<lambda>sc. sc\<lparr>sc_escalation_level := sc_escalation_level sc + 1\<rparr>) db
      in (case find (caseIsOf cid db) (db_service_cases db') of
            Some sc \<Rightarrow> sc_escalation_level sc | None \<Rightarrow> 0, db'))"

section \<open>Claiming by entry, and routed assignment\<close>

text \<open>\<open>effectiveCapacityUnits\<close> of capacity-scope.ts: the person's own policy before a team's.\<close>

definition effectiveCapacityUnits :: "UUID \<Rightarrow> RoutingDb \<Rightarrow> int option" where
  "effectiveCapacityUnits who db =
     map_option cp_capacity_units
       (find (\<lambda>_. True) (sort_key (\<lambda>p. if cp_scope_kind p = CAP_PRINCIPAL then 0 else (1::nat))
         (filter (\<lambda>p. cp_scope_kind p = CAP_PRINCIPAL \<and> cp_scope_id p = who \<or>
                      cp_scope_kind p = CAP_TEAM \<and>
                        list_ex (\<lambda>(m, t). m = who \<and> t = cp_scope_id p) (db_team_memberships db))
           (db_capacity_policies db))))"

definition heldWeight :: "UUID \<Rightarrow> Timestamp \<Rightarrow> RoutingDb \<Rightarrow> int" where
  "heldWeight who t db =
     sum_list (map rs_weight (filter (\<lambda>r. rs_principal_id r = who \<and> rs_released_at r = None \<and>
        t < rs_expires_at r) (db_reservations db)))"

text \<open>
  A reservation row is unique by its id and, while unreleased, by person and work; the checks are
  \<open>weight > 0\<close> and \<open>expires_at > effective_from\<close>.
\<close>

definition reservationFits :: "ReservationRow \<Rightarrow> RoutingDb \<Rightarrow> bool" where
  "reservationFits r db \<longleftrightarrow>
     \<not> list_ex (\<lambda>s. rs_reservation_id s = rs_reservation_id r \<or>
         rs_principal_id s = rs_principal_id r \<and> rs_ref s = rs_ref r \<and> rs_released_at s = None)
       (db_reservations db)"

definition reservationValid :: "ReservationRow \<Rightarrow> RoutingDb \<Rightarrow> bool" where
  "reservationValid r db \<longleftrightarrow>
     reservationFits r db \<and> 0 < rs_weight r \<and> rs_effective_from r < rs_expires_at r"

definition reservationOf :: "UUID \<Rightarrow> UUID \<Rightarrow> UUID \<Rightarrow> int \<Rightarrow> Timestamp \<Rightarrow> Timestamp \<Rightarrow> ReservationRow" where
  "reservationOf rid who cid w t expires =
     \<lparr>rs_reservation_id = rid, rs_principal_id = who, rs_ref = \<lparr>ref_system = LOCAL, ref_type = ''conversation'', ref_id = cid\<rparr>, rs_weight = w,
      rs_effective_from = t, rs_expires_at = expires, rs_released_at = None\<rparr>"

datatype ClaimEntryResult =
    ClaimedEntry UUID UUID bool
  | EntryTaken "UUID option"

definition claimScope :: "UUID \<Rightarrow> string" where
  "claimScope queueEntryId = ''claim:'' @ queueEntryId"

definition claimQueueEntry ::
  "(Timestamp \<Rightarrow> int \<Rightarrow> Timestamp) \<Rightarrow> ClaimInput \<Rightarrow> UUID \<Rightarrow> string \<Rightarrow> UUID \<Rightarrow> RoutingDb \<Rightarrow>
   (ClaimEntryResult \<times> RoutingDb) option" where
  "claimQueueEntry plusSeconds inp queueEntryId idempotencyKey reservationId db =
     (case find (\<lambda>r. ir_scope r = claimScope queueEntryId \<and> ir_key r = idempotencyKey)
             (db_idempotency_records db) of
        Some r \<Rightarrow> Some (ClaimedEntry (ir_conversationId r) (ir_reservationId r) True, db)
      | None \<Rightarrow>
          (case claimWhere (\<lambda>e. qe_queue_entry_id e = queueEntryId) (cl_claimedBy inp) (cl_at inp) db of
             None \<Rightarrow> Some (EntryTaken (Option.bind
                       (find (\<lambda>e. qe_queue_entry_id e = queueEntryId) (db_queue_entries db)) qe_claimed_by), db)
           | Some (entry, db1) \<Rightarrow>
               let cid = qe_conversation_id entry;
                   r = reservationOf reservationId (cl_claimedBy inp) cid 1 (cl_at inp)
                         (plusSeconds (cl_at inp) 120)
               in Option.bind (openEpisodeIn (claimEpisode inp cid (qe_case_id entry)) db1) (\<lambda>(_, db2).
                  let db3 = ensureOwnerParticipantIn cid (cl_claimedBy inp) (cl_claimedBy inp) (cl_at inp)
                              (claimGrant inp cid ''claimed a queue entry'') db2
                  in if \<not> rs_effective_from r < rs_expires_at r then None
                     else Some (ClaimedEntry cid reservationId False,
                       db3\<lparr>db_reservations := db_reservations db3 @
                             (if reservationFits r db3 then [r] else []),
                           db_idempotency_records := db_idempotency_records db3 @
                             [\<lparr>ir_scope = claimScope queueEntryId, ir_key = idempotencyKey,
                               ir_conversationId = cid, ir_reservationId = reservationId\<rparr>]\<rparr>))))"

record AssignInput =
  ai_queueEntryId :: UUID
  ai_principalId :: UUID
  ai_episodeId :: UUID
  ai_stateEpisodeId :: UUID
  ai_reservationId :: UUID
  ai_weight :: int
  ai_ttlSeconds :: int
  ai_reason :: string
  ai_at :: Timestamp
  ai_correlationId :: "string option"

datatype AssignRefusal = AT_CAPACITY | NO_LONGER_WAITING

definition overCapacity :: "AssignInput \<Rightarrow> RoutingDb \<Rightarrow> bool" where
  "overCapacity inp db \<longleftrightarrow>
     (case effectiveCapacityUnits (ai_principalId inp) db of
        None \<Rightarrow> False
      | Some units \<Rightarrow> heldWeight (ai_principalId inp) (ai_at inp) db + ai_weight inp > units)"

definition assignFromRouting ::
  "(Timestamp \<Rightarrow> int \<Rightarrow> Timestamp) \<Rightarrow> AssignInput \<Rightarrow> RoutingDb \<Rightarrow>
   ((AssignRefusal + UUID) \<times> RoutingDb) option" where
  "assignFromRouting plusSeconds inp db =
     (let who = ai_principalId inp; t = ai_at inp
      in if overCapacity inp db then Some (Inl AT_CAPACITY, db)
         else (case claimWhere (\<lambda>e. qe_queue_entry_id e = ai_queueEntryId inp) who t db of
            None \<Rightarrow> Some (Inl NO_LONGER_WAITING, db)
          | Some (entry, db1) \<Rightarrow>
              let cid = qe_conversation_id entry;
                  r = reservationOf (ai_reservationId inp) who cid (ai_weight inp) t
                        (plusSeconds t (ai_ttlSeconds inp))
              in Option.bind (openEpisodeIn
                   \<lparr>oe_episodeId = ai_episodeId inp, oe_conversationId = cid,
                    oe_caseId = qe_case_id entry, oe_ownerId = who, oe_assignmentSource = ROUTED,
                    oe_at = t, oe_reason = Some (ai_reason inp), oe_assignedBy = None,
                    oe_previousOwner = None\<rparr> db1) (\<lambda>(_, db2).
                 if \<not> reservationValid r db2 then None
                 else
                   let db3 = db2\<lparr>db_reservations := db_reservations db2 @ [r]\<rparr>;
                       db4 = ensureOwnerParticipantIn cid who who t
                               \<lparr>gb_actorId = None, gb_actorKind = ''SYSTEM'', gb_reason = ai_reason inp,
                                gb_correlationId =
                                  (case ai_correlationId inp of Some c \<Rightarrow> c | None \<Rightarrow> cid)\<rparr> db3;
                       db5 = setCaseOwner cid who db4
                   in Option.bind (advanceStateIn (ai_stateEpisodeId inp)
                        (assignedState cid t None ''assigned by routing'') db5)
                      (\<lambda>(_, db6). Some (Inr cid, db6)))))"

section \<open>Cover as the authorization reader loads it (authz-reader.ts)\<close>

definition loadTemporaryGrants :: "UUID \<Rightarrow> UUID \<Rightarrow> Timestamp \<Rightarrow> RoutingDb \<Rightarrow> TemporaryGrant list" where
  "loadTemporaryGrants cid who now db =
     map (\<lambda>g. \<lparr>t_grantId = ag_grant_id g, t_capability = ag_capability g,
               t_conversationId = ag_conversation_id g, t_caseId = ag_case_id g,
               t_effectiveFrom = ag_effective_from g, t_effectiveTo = ag_effective_to g\<rparr>)
       (filter (\<lambda>g. ag_principal_id g = who \<and> ag_revoked_at g = None \<and>
          ag_effective_from g \<le> now \<and> now < ag_effective_to g \<and>
          (ag_conversation_id g = Some cid \<or>
           ag_conversation_id g = None \<and> ag_case_id g \<noteq> None \<and>
             ag_case_id g = Option.bind (findConversation cid db) cr_case_id))
         (db_access_grants db))"


section \<open>The ports of the commands, as the routing controller binds them\<close>

text \<open>
  \<open>commandDeps\<close> of routing.controller.ts: the store's methods with a fresh episode or grant id and
  the correlation id of the request, and the audit writer, which appends to the ledger.
\<close>

record RequestIds =
  rq_episodeId :: UUID
  rq_grantId :: UUID
  rq_correlationId :: string
  rq_auditUp :: bool

definition recordAudit :: "bool \<Rightarrow> string \<Rightarrow> AuditEntry \<Rightarrow> RoutingDb \<Rightarrow> RoutingDb" where
  "recordAudit auditUp correlationId entry db =
     (if auditUp then
        db\<lparr>db_ledger := db_ledger db @
          [\<lparr>lr_actor_id = Some (ae_actorId entry), lr_actor_kind = ''EMPLOYEE'',
            lr_action = ae_action entry, lr_target_id = ae_targetId entry, lr_reason = ae_reason entry,
            lr_correlation_id = correlationId, lr_detail = CommandDetail (ae_detail entry)\<rparr>]\<rparr>
      else db)"

definition commandDeps :: "RequestIds \<Rightarrow> RoutingDb CommandDeps" where
  "commandDeps ids =
     \<lparr>dp_currentOwner = (\<lambda>cid db. map_option ow_owner_id (currentOwner cid db)),
      dp_reassign = (\<lambda>inp db. map_option (\<lambda>(ep, db'). (ow_episode_id ep, db'))
         (reassign inp (rq_episodeId ids) (Some (rq_correlationId ids)) db)),
      dp_grantCover = grantCover (rq_grantId ids),
      dp_raiseEscalationLevel = (\<lambda>cid why now db. Some (raiseEscalationLevel cid db)),
      dp_record = (\<lambda>entry db. Some (recordAudit (rq_auditUp ids) (rq_correlationId ids) entry db))\<rparr>"

section \<open>The store keeps the contract of the ports\<close>

definition caseRow :: "UUID \<Rightarrow> RoutingDb \<Rightarrow> ServiceCaseRow option" where
  "caseRow cid db = find (caseIsOf cid db) (db_service_cases db)"

fun trailOf :: "LedgerRow list \<Rightarrow> AuditEntry list" where
  "trailOf [] = []"
| "trailOf (r # rs) =
     (case lr_detail r of
        AddedOwner _ \<Rightarrow> trailOf rs
      | CommandDetail d \<Rightarrow>
          \<lparr>ae_action = lr_action r,
           ae_actorId = (case lr_actor_id r of Some a \<Rightarrow> a | None \<Rightarrow> []),
           ae_targetId = lr_target_id r, ae_reason = lr_reason r, ae_detail = d\<rparr> # trailOf rs)"

lemma trailOf_append [simp]: "trailOf (xs @ ys) = trailOf xs @ trailOf ys"
  by (induction xs) (auto split: LedgerDetail.split)

definition ownershipView :: "RoutingDb OwnershipView" where
  "ownershipView =
     \<lparr>ov_owner = (\<lambda>cid db. map_option ow_owner_id (currentOwner cid db)),
      ov_designated = (\<lambda>cid db. Option.bind (caseRow cid db) sc_designated_employee_id),
      ov_hasCase = (\<lambda>cid db. caseRow cid db \<noteq> None),
      ov_level = (\<lambda>cid db. case caseRow cid db of None \<Rightarrow> 0 | Some sc \<Rightarrow> sc_escalation_level sc),
      ov_trail = (\<lambda>db. trailOf (db_ledger db))\<rparr>"

lemma findConversation_routing [simp]:
  "findConversation cid (db\<lparr>db_queue_entries := q\<rparr>) = findConversation cid db"
  "findConversation cid (db\<lparr>db_ownership_episodes := o'\<rparr>) = findConversation cid db"
  "findConversation cid (db\<lparr>db_access_grants := g\<rparr>) = findConversation cid db"
  "findConversation cid (db\<lparr>db_reservations := rs\<rparr>) = findConversation cid db"
  "findConversation cid (db\<lparr>db_idempotency_records := ir\<rparr>) = findConversation cid db"
  "findConversation cid (db\<lparr>db_ledger := l\<rparr>) = findConversation cid db"
  by (simp_all add: findConversation_def)

lemma caseIsOf_cong:
  "map_option cr_case_id (findConversation cid db') = map_option cr_case_id (findConversation cid db)
   \<Longrightarrow> caseIsOf cid db' = caseIsOf cid db"
  by (auto simp: caseIsOf_def fun_eq_iff split: option.splits)

lemma caseIsOf_updateCase [simp]: "caseIsOf cid (updateCaseOf d f db) = caseIsOf cid db"
  by (rule caseIsOf_cong) (simp add: updateCaseOf_def)

lemma find_updateWhere_same:
  assumes "\<And>r. P (f r) = P r"
  shows "find P (updateWhere P f xs) = map_option f (find P xs)"
  using find_updateWhere[of P f P xs] assms
  by (cases "find P xs") (auto dest: find_SomeD)

text \<open>An update of the case keeps its key, so it is found again.\<close>

lemma caseRow_updateCase:
  assumes "\<And>sc. sc_case_id (f sc) = sc_case_id sc"
  shows "caseRow cid (updateCaseOf cid f db) = map_option f (caseRow cid db)"
proof -
  have "caseIsOf cid db (f sc) = caseIsOf cid db sc" for sc
    by (simp add: caseIsOf_def assms split: option.split)
  then show ?thesis
    unfolding caseRow_def caseIsOf_updateCase by (simp add: updateCaseOf_def find_updateWhere_same)
qed

lemma caseRow_setters:
  "caseRow cid (setCaseOwner cid who db) =
     map_option (\<lambda>sc. sc\<lparr>sc_current_owner_id := Some who\<rparr>) (caseRow cid db)"
  "caseRow cid (setDesignated cid who db) =
     map_option (\<lambda>sc. sc\<lparr>sc_designated_employee_id := Some who\<rparr>) (caseRow cid db)"
  by (simp_all add: setCaseOwner_def setDesignated_def caseRow_updateCase)

lemma caseRow_cong:
  assumes "\<And>c. map_option cr_case_id (findConversation c db') = map_option cr_case_id (findConversation c db)"
    and "db_service_cases db' = db_service_cases db"
  shows "caseRow cid db' = caseRow cid db"
  unfolding caseRow_def caseIsOf_cong[OF assms(1)] assms(2) ..

lemma ensureOwner_case_ids:
  "map_option cr_case_id (findConversation d (ensureOwnerParticipantIn cid who by' t g db)) =
     map_option cr_case_id (findConversation d db)"
proof -
  have "findConversation d (ensureOwnerParticipantIn cid who by' t g db) =
      find (\<lambda>c. cr_conversation_id c = d) (db_conversations (ensureOwnerParticipantIn cid who by' t g db))"
    by (simp add: findConversation_def)
  also have "\<dots> = map_option (\<lambda>c. if cr_conversation_id c = cid
      then c\<lparr>cr_participant_count := liveCount cid (upsertOwner cid who by' t (db_participants db))\<rparr> else c)
      (findConversation d db)"
    by (simp add: ensureOwnerParticipantIn_def Let_def find_updateWhere findConversation_def)
  finally show ?thesis by (simp add: option.map_comp comp_def if_distrib cong: if_cong)
qed

lemma ensureOwner_frame [simp]:
  "db_ownership_episodes (ensureOwnerParticipantIn cid who by' t g db) = db_ownership_episodes db"
  "db_service_cases (ensureOwnerParticipantIn cid who by' t g db) = db_service_cases db"
  "db_queue_entries (ensureOwnerParticipantIn cid who by' t g db) = db_queue_entries db"
  "db_reservations (ensureOwnerParticipantIn cid who by' t g db) = db_reservations db"
  "db_idempotency_records (ensureOwnerParticipantIn cid who by' t g db) = db_idempotency_records db"
  "db_access_grants (ensureOwnerParticipantIn cid who by' t g db) = db_access_grants db"
  "db_participants (ensureOwnerParticipantIn cid who by' t g db) = upsertOwner cid who by' t (db_participants db)"
  "trailOf (db_ledger (ensureOwnerParticipantIn cid who by' t g db)) = trailOf (db_ledger db)"
  by (simp_all add: ensureOwnerParticipantIn_def Let_def)

lemma updateCaseOf_frame [simp]:
  "db_ownership_episodes (updateCaseOf cid f db) = db_ownership_episodes db"
  "db_queue_entries (updateCaseOf cid f db) = db_queue_entries db"
  "db_participants (updateCaseOf cid f db) = db_participants db"
  "db_reservations (updateCaseOf cid f db) = db_reservations db"
  "db_idempotency_records (updateCaseOf cid f db) = db_idempotency_records db"
  "db_access_grants (updateCaseOf cid f db) = db_access_grants db"
  "db_conversations (updateCaseOf cid f db) = db_conversations db"
  "db_ledger (updateCaseOf cid f db) = db_ledger db"
  by (simp_all add: updateCaseOf_def)

lemmas case_setters = setCaseOwner_def setDesignated_def

lemma currentOwner_cong:
  "db_ownership_episodes db' = db_ownership_episodes db \<Longrightarrow> currentOwner cid db' = currentOwner cid db"
  by (simp add: currentOwner_def)


text \<open>What a successful reassignment has written.\<close>

definition closedAt :: "Timestamp \<Rightarrow> UUID \<Rightarrow> OwnershipRow \<Rightarrow> OwnershipRow" where
  "closedAt t next e = e\<lparr>ow_effective_to := Some t, ow_next_owner := Some next\<rparr>"

lemma openEpisodeIn_Some:
  assumes "openEpisodeIn inp db = Some (ep, db')"
  obtains "ep = episodeRowOf inp"
    and "db' = db\<lparr>db_ownership_episodes := db_ownership_episodes db @ [ep]\<rparr>"
    and "ownershipFree (oe_conversationId inp) (oe_at inp) (db_ownership_episodes db)"
    and "findConversation (oe_conversationId inp) db \<noteq> None"
  using assms by (auto simp: openEpisodeIn_def split: if_splits)

definition demotedPrevious :: "UUID \<Rightarrow> UUID \<Rightarrow> UUID option \<Rightarrow> ParticipantRow list \<Rightarrow> ParticipantRow list" where
  "demotedPrevious cid next previous ps =
     (case previous of
        Some p \<Rightarrow> if p \<noteq> next then
            updateWhere (\<lambda>r. pa_conversation_id r = cid \<and> pa_principal_id r = p \<and> pa_effective_to r = None)
              (\<lambda>r. r\<lparr>pa_role := ''PARTICIPANT'', pa_reply_authority := False\<rparr>) ps
          else ps
      | None \<Rightarrow> ps)"

lemma demotePrevious_frame:
  "db_ownership_episodes (demotePrevious cid next prev d) = db_ownership_episodes d"
  "db_ledger (demotePrevious cid next prev d) = db_ledger d"
  "db_service_cases (demotePrevious cid next prev d) = db_service_cases d"
  "findConversation x (demotePrevious cid next prev d) = findConversation x d"
  "db_participants (demotePrevious cid next prev d) = demotedPrevious cid next prev (db_participants d)"
  by (simp_all add: demotePrevious_def demote_def demotedPrevious_def split: option.split)

lemma reassign_Some:
  assumes "reassign inp e corr db = Some (ep, db')"
  obtains "db_ownership_episodes db' =
      updateWhere (isLiveOf (ri_conversationId inp)) (closedAt (ri_at inp) (ri_toOwner inp))
        (db_ownership_episodes db) @ [ep]"
    and "\<And>x. x \<in> set (db_ownership_episodes db) \<Longrightarrow> isLiveOf (ri_conversationId inp) x \<Longrightarrow>
           ow_effective_from x < ri_at inp"
    and "ownershipFree (ri_conversationId inp) (ri_at inp)
      (updateWhere (isLiveOf (ri_conversationId inp)) (closedAt (ri_at inp) (ri_toOwner inp))
        (db_ownership_episodes db))"
    and "ow_conversation_id ep = ri_conversationId inp" and "ow_owner_id ep = ri_toOwner inp"
    and "ow_effective_from ep = ri_at inp" and "ow_effective_to ep = None" and "ow_episode_id ep = e"
    and "db_participants db' = upsertOwner (ri_conversationId inp) (ri_toOwner inp) (ri_assignedBy inp)
      (ri_at inp) (demotedPrevious (ri_conversationId inp) (ri_toOwner inp)
        (map_option ow_owner_id (find (isLiveOf (ri_conversationId inp)) (db_ownership_episodes db)))
        (db_participants db))"
    and "caseRow (ri_conversationId inp) db' = map_option (\<lambda>sc.
      let sc1 = sc\<lparr>sc_current_owner_id := Some (ri_toOwner inp)\<rparr>
      in if ri_preserveDesignated inp then sc1
         else sc1\<lparr>sc_designated_employee_id := Some (ri_toOwner inp)\<rparr>) (caseRow (ri_conversationId inp) db)"
    and "trailOf (db_ledger db') = trailOf (db_ledger db)"
proof -
  let ?cid = "ri_conversationId inp" and ?next = "ri_toOwner inp" and ?t = "ri_at inp"
  let ?prev = "map_option ow_owner_id (find (isLiveOf ?cid) (db_ownership_episodes db))"
  let ?g = "\<lparr>gb_actorId = Some (ri_assignedBy inp), gb_actorKind = ''EMPLOYEE'',
    gb_reason = ri_reason inp, gb_correlationId = (case corr of Some c \<Rightarrow> c | None \<Rightarrow> ?cid)\<rparr>"
  let ?demoted = "demotePrevious ?cid ?next ?prev"
  let ?owned = "\<lambda>d. setCaseOwner ?cid ?next (ensureOwnerParticipantIn ?cid ?next (ri_assignedBy inp) ?t ?g (?demoted d))"
  from assms obtain db1 db2
    where c: "closeEpisode ?cid ?t ?next db = Some db1"
      and o: "openEpisodeIn \<lparr>oe_episodeId = e, oe_conversationId = ?cid, oe_caseId = None,
            oe_ownerId = ?next, oe_assignmentSource = ri_assignmentSource inp, oe_at = ?t,
            oe_reason = Some (ri_reason inp), oe_assignedBy = Some (ri_assignedBy inp),
            oe_previousOwner = ?prev\<rparr> db1 = Some (ep, db2)"
      and db': "db' = (if ri_preserveDesignated inp then ?owned db2 else setDesignated ?cid ?next (?owned db2))"
    by (auto simp: reassign_def Let_def elim!: bind_SomeE)
  from c have db1: "db1 = db\<lparr>db_ownership_episodes :=
        updateWhere (isLiveOf ?cid) (closedAt ?t ?next) (db_ownership_episodes db)\<rparr>"
    and older: "\<And>x. x \<in> set (db_ownership_episodes db) \<Longrightarrow> isLiveOf ?cid x \<Longrightarrow> ow_effective_from x < ?t"
    by (auto simp: closeEpisode_def closedAt_def[abs_def] list_ex_iff split: if_splits)
  from o obtain ep: "ep = episodeRowOf \<lparr>oe_episodeId = e, oe_conversationId = ?cid, oe_caseId = None,
            oe_ownerId = ?next, oe_assignmentSource = ri_assignmentSource inp, oe_at = ?t,
            oe_reason = Some (ri_reason inp), oe_assignedBy = Some (ri_assignedBy inp),
            oe_previousOwner = ?prev\<rparr>"
      and db2: "db2 = db1\<lparr>db_ownership_episodes := db_ownership_episodes db1 @ [ep]\<rparr>"
      and free: "ownershipFree ?cid ?t (db_ownership_episodes db1)"
    by (rule openEpisodeIn_Some) simp
  note dem = demotePrevious_frame
  have base: "caseRow ?cid (ensureOwnerParticipantIn ?cid ?next (ri_assignedBy inp) ?t ?g (?demoted db2)) =
      caseRow ?cid db"
    by (rule caseRow_cong) (simp_all add: ensureOwner_case_ids dem db2 db1)
  show thesis
  proof (rule that)
    show "db_ownership_episodes db' = updateWhere (isLiveOf ?cid) (closedAt ?t ?next)
        (db_ownership_episodes db) @ [ep]"
      by (simp add: db' case_setters dem db2 db1)
    show "ownershipFree ?cid ?t (updateWhere (isLiveOf ?cid) (closedAt ?t ?next) (db_ownership_episodes db))"
      using free by (simp add: db1)
    show "db_participants db' = upsertOwner ?cid ?next (ri_assignedBy inp) ?t
        (demotedPrevious ?cid ?next ?prev (db_participants db))"
      by (simp add: db' case_setters dem db2 db1)
    show "caseRow ?cid db' = map_option (\<lambda>sc. let sc1 = sc\<lparr>sc_current_owner_id := Some ?next\<rparr>
        in if ri_preserveDesignated inp then sc1 else sc1\<lparr>sc_designated_employee_id := Some ?next\<rparr>)
        (caseRow ?cid db)"
      by (cases "caseRow ?cid db") (simp_all add: db' caseRow_setters base)
    show "trailOf (db_ledger db') = trailOf (db_ledger db)"
      by (simp add: db' case_setters dem db2 db1)
  qed (use older in \<open>simp_all add: ep episodeRowOf_def\<close>)
qed

text \<open>After closing every live episode, the appended one is the first live one.\<close>

lemma find_live_closed:
  "find (isLiveOf cid) (updateWhere (isLiveOf cid) (closedAt t next) es) = None"
  by (induction es) (auto simp: updateWhere_def closedAt_def isLiveOf_def)

lemma currentOwner_isLive: "currentOwner cid db = find (isLiveOf cid) (db_ownership_episodes db)"
  by (simp add: currentOwner_def isLiveOf_def[abs_def])

lemma currentOwner_reassign:
  assumes "reassign inp e corr db = Some (ep, db')"
  shows "currentOwner (ri_conversationId inp) db' = Some ep"
  using assms
  by (rule reassign_Some)
     (simp add: currentOwner_isLive find_append_miss[OF find_live_closed] isLiveOf_def)

interpretation own: ownership_port "commandDeps ids" ownershipView "rq_auditUp ids" for ids
proof (unfold_locales, goal_cases)
  case 1
  show ?case by (simp add: commandDeps_def ownershipView_def)
next
  case (2 inp st e st')
  then obtain ep where r: "reassign inp (rq_episodeId ids) (Some (rq_correlationId ids)) st = Some (ep, st')"
    by (auto simp: commandDeps_def)
  show ?case
    using r currentOwner_reassign[OF r]
    by (elim reassign_Some) (auto simp: ownershipView_def Let_def split: option.split)
next
  case (3 gc st g st' cid)
  then have st': "st' = st\<lparr>db_access_grants := db_access_grants st @ [accessGrantOf g gc]\<rparr>"
    by (auto simp: commandDeps_def grantCover_def split: if_splits)
  have "caseRow d st' = caseRow d st" "currentOwner d st' = currentOwner d st" for d
    by (rule caseRow_cong) (simp_all add: st' currentOwner_def)
  then show ?case by (simp add: sameOwnership_def ownershipView_def st')
next
  case (4 cid why now st n st')
  then have n: "n = (case find (caseIsOf cid st) (db_service_cases st') of
        Some sc \<Rightarrow> sc_escalation_level sc | None \<Rightarrow> 0)"
    and st': "st' = updateCaseOf cid (\<lambda>sc. sc\<lparr>sc_escalation_level := sc_escalation_level sc + 1\<rparr>) st"
    by (auto simp: commandDeps_def raiseEscalationLevel_def Let_def)
  have row: "caseRow cid st' =
      map_option (\<lambda>sc. sc\<lparr>sc_escalation_level := sc_escalation_level sc + 1\<rparr>) (caseRow cid st)"
    by (simp add: st' caseRow_updateCase)
  have "find (caseIsOf cid st) (db_service_cases st') = caseRow cid st'"
    by (simp add: caseRow_def st')
  then show ?case
    using row by (cases "caseRow cid st")
      (simp_all add: n sameOwnership_def ownershipView_def st' currentOwner_def)
next
  case (5 entry st st' cid)
  then have st': "st' = recordAudit (rq_auditUp ids) (rq_correlationId ids) entry st" by (simp add: commandDeps_def)
  have "caseRow d st' = caseRow d st" for d
    by (rule caseRow_cong) (simp_all add: st' recordAudit_def)
  then show ?case
    by (simp add: sameOwnership_def ownershipView_def st' recordAudit_def currentOwner_def)
qed

end
