(* ===== verification/Routing_Props.thy ===== *)
theory Routing_Props
  imports Routing_Store Messaging_Props
begin

text \<open>
  The properties of the queue, of claims and of ownership: exactly one owner at every instant and
  no gap at a hand-over, exclusive claims, what each command moves, capacity, and what a granted
  cover is worth to the authorization decision.
\<close>

section \<open>The owner at an instant\<close>

definition coversInstant :: "UUID \<Rightarrow> Timestamp \<Rightarrow> OwnershipRow \<Rightarrow> bool" where
  "coversInstant cid t e \<longleftrightarrow>
     ow_conversation_id e = cid \<and> isWithinPeriod t (ow_effective_from e) (ow_effective_to e)"

definition ownersAt :: "UUID \<Rightarrow> Timestamp \<Rightarrow> RoutingDb \<Rightarrow> UUID list" where
  "ownersAt cid t db = map ow_owner_id (filter (coversInstant cid t) (db_ownership_episodes db))"

definition singleOwner :: "RoutingDb \<Rightarrow> bool" where
  "singleOwner db \<longleftrightarrow> (\<forall>cid t. length (ownersAt cid t db) \<le> 1)"

lemma ownershipFree_none_later:
  assumes "ownershipFree cid t0 es" and "t0 \<le> t"
  shows "filter (coversInstant cid t) es = []"
proof -
  have "\<not> coversInstant cid t e" if "e \<in> set es" for e
    using assms that
    by (auto simp: ownershipFree_def list_all_iff coversInstant_def isWithinPeriod_def
        split: option.splits)
  then show ?thesis by simp
qed

lemma ownersAt_open:
  assumes "openEpisodeIn inp db = Some (ep, db')"
  shows "ownersAt cid t db' =
    (if cid = oe_conversationId inp \<and> oe_at inp \<le> t then [oe_ownerId inp] else ownersAt cid t db)"
  using assms
proof (rule openEpisodeIn_Some)
  assume ep: "ep = episodeRowOf inp"
    and db': "db' = db\<lparr>db_ownership_episodes := db_ownership_episodes db @ [ep]\<rparr>"
    and free: "ownershipFree (oe_conversationId inp) (oe_at inp) (db_ownership_episodes db)"
  show ?thesis
    using ownershipFree_none_later[OF free]
    by (auto simp: ownersAt_def db' ep episodeRowOf_def coversInstant_def)
qed

lemma closed_coversInstant:
  assumes "isLiveOf cid e" and "ow_effective_from e < t0"
  shows "coversInstant c t (closedAt t0 next e) \<longleftrightarrow> coversInstant c t e \<and> t < t0"
  using assms by (auto simp: coversInstant_def isLiveOf_def closedAt_def isWithinPeriod_def)

lemma ownersAt_reassign:
  assumes "reassign inp e corr db = Some (ep, db')"
  shows "ownersAt cid t db' =
    (if cid = ri_conversationId inp \<and> ri_at inp \<le> t then [ri_toOwner inp] else ownersAt cid t db)"
  using assms
proof (rule reassign_Some)
  let ?cid = "ri_conversationId inp" and ?t0 = "ri_at inp" and ?es = "db_ownership_episodes db"
  let ?close = "updateWhere (isLiveOf ?cid) (closedAt ?t0 (ri_toOwner inp))"
  assume eps: "db_ownership_episodes db' = ?close ?es @ [ep]"
    and older: "\<And>x. x \<in> set ?es \<Longrightarrow> isLiveOf ?cid x \<Longrightarrow> ow_effective_from x < ?t0"
    and free: "ownershipFree ?cid ?t0 (?close ?es)"
    and ep: "ow_conversation_id ep = ?cid" "ow_owner_id ep = ri_toOwner inp"
      "ow_effective_from ep = ?t0" "ow_effective_to ep = None"
  have keep: "map ow_owner_id (filter (coversInstant cid t) (?close xs)) =
      map ow_owner_id (filter (coversInstant cid t) xs)"
    if "set xs \<subseteq> set ?es" and "cid \<noteq> ?cid \<or> t < ?t0" for xs
    using that
  proof (induction xs)
    case (Cons x xs)
    show ?case
    proof (cases "isLiveOf ?cid x")
      case True
      have "coversInstant cid t (closedAt ?t0 (ri_toOwner inp) x) \<longleftrightarrow> coversInstant cid t x"
        using closed_coversInstant[OF True older, of cid t] True Cons.prems
        by (auto simp: coversInstant_def isLiveOf_def)
      with Cons True show ?thesis by (simp add: updateWhere_def) (simp add: closedAt_def)
    qed (use Cons in \<open>simp add: updateWhere_def\<close>)
  qed (simp add: updateWhere_def)
  show ?thesis
    using keep[of ?es] ownershipFree_none_later[OF free]
    by (auto simp: ownersAt_def eps coversInstant_def isWithinPeriod_def ep not_le)
qed

text \<open>
  a hand-over leaves no gap and no overlap. After a reassignment at an instant, before that
  instant exactly whoever owned the conversation owned it, and from that instant on exactly the new
  owner does; no other conversation's ownership changes at any instant.
\<close>

theorem hand_over_leaves_no_gap:
  assumes "reassign inp e corr db = Some (ep, db')"
  shows "ownersAt cid t db' =
    (if cid = ri_conversationId inp \<and> ri_at inp \<le> t then [ri_toOwner inp] else ownersAt cid t db)"
  using assms by (rule ownersAt_reassign)

section \<open>Steps of the routing store\<close>

lemma advanceStateIn_frame:
  assumes "advanceStateIn e inp (db :: RoutingDb) = Some (m, db')"
  shows "db_ownership_episodes db' = db_ownership_episodes db"
    and "db_queue_entries db' = db_queue_entries db"
    and "db_participants db' = db_participants db"
    and "db_reservations db' = db_reservations db"
    and "db_idempotency_records db' = db_idempotency_records db"
  using assms by (auto simp: advanceStateIn_def Let_def split: if_splits)

definition claimedBy :: "UUID \<Rightarrow> Timestamp \<Rightarrow> QueueEntryRow \<Rightarrow> QueueEntryRow" where
  "claimedBy who t e = e\<lparr>qe_state := Q_CLAIMED, qe_claimed_by := Some who, qe_claimed_at := Some t\<rparr>"

lemma claimWhere_Some:
  assumes "claimWhere p who t db = Some (e, db')"
  obtains "e \<in> set (db_queue_entries db)" and "p e" and "qe_state e = Q_WAITING"
    and "db' = db\<lparr>db_queue_entries :=
      updateWhere (\<lambda>x. p x \<and> qe_state x = Q_WAITING) (claimedBy who t) (db_queue_entries db)\<rparr>"
  using assms
  by (auto simp: claimWhere_def Let_def claimedBy_def[abs_def] dest!: find_SomeD)

lemma claimConversation_Inr:
  assumes "claimConversation inp cid db = Some (Inr ep, db')"
  obtains entry db1 db2 m
  where "claimWhere (\<lambda>e. qe_conversation_id e = cid) (cl_claimedBy inp) (cl_at inp) db = Some (entry, db1)"
    and "openEpisodeIn (claimEpisode inp cid (qe_case_id entry)) db1 = Some (ep, db2)"
    and "advanceStateIn (cl_stateEpisodeId inp)
      (assignedState cid (cl_at inp) (Some (cl_claimedBy inp)) ''claimed from the queue'')
      (setCaseOwner cid (cl_claimedBy inp)
        (ensureOwnerParticipantIn cid (cl_claimedBy inp) (cl_claimedBy inp) (cl_at inp)
          (claimGrant inp cid ''claimed from the queue'') db2)) = Some (m, db')"
  using assms
  by (auto simp: claimConversation_def Let_def elim!: bind_SomeE split: option.splits prod.splits)

lemma claimNext_Inr:
  assumes "claimNextFromQueue locked inp teamId db = Some (Inr ep, db')"
  obtains e entry db1 db2
  where "nextWaiting locked teamId db = Some e"
    and "claimWhere (\<lambda>x. qe_queue_entry_id x = qe_queue_entry_id e) (cl_claimedBy inp) (cl_at inp) db
           = Some (entry, db1)"
    and "openEpisodeIn (claimEpisode inp (qe_conversation_id entry) (qe_case_id entry)) db1 = Some (ep, db2)"
    and "db' = ensureOwnerParticipantIn (qe_conversation_id entry) (cl_claimedBy inp) (cl_claimedBy inp)
           (cl_at inp) (claimGrant inp (qe_conversation_id entry)
             ''claimed the next conversation from the queue'') db2"
  using assms
  by (auto simp: claimNextFromQueue_def Let_def elim!: bind_SomeE split: option.splits prod.splits)

lemma claimQueueEntry_new:
  assumes "claimQueueEntry later inp qid key rid db = Some (ClaimedEntry cid r False, db')"
  obtains entry db1 ep db2
  where "find (\<lambda>r. ir_scope r = claimScope qid \<and> ir_key r = key) (db_idempotency_records db) = None"
    and "claimWhere (\<lambda>e. qe_queue_entry_id e = qid) (cl_claimedBy inp) (cl_at inp) db = Some (entry, db1)"
    and "cid = qe_conversation_id entry" and "r = rid"
    and "openEpisodeIn (claimEpisode inp cid (qe_case_id entry)) db1 = Some (ep, db2)"
    and "db_idempotency_records db' = db_idempotency_records db @
      [\<lparr>ir_scope = claimScope qid, ir_key = key, ir_conversationId = cid, ir_reservationId = rid\<rparr>]"
    and "db_ownership_episodes db' = db_ownership_episodes db2"
    and "db_queue_entries db' = db_queue_entries db1"
proof -
  from assms obtain entry db1 ep db2
    where h: "find (\<lambda>r. ir_scope r = claimScope qid \<and> ir_key r = key) (db_idempotency_records db) = None"
      "claimWhere (\<lambda>e. qe_queue_entry_id e = qid) (cl_claimedBy inp) (cl_at inp) db = Some (entry, db1)"
      "cid = qe_conversation_id entry" "r = rid"
      "openEpisodeIn (claimEpisode inp cid (qe_case_id entry)) db1 = Some (ep, db2)"
      and db': "db_idempotency_records db' = db_idempotency_records db2 @
        [\<lparr>ir_scope = claimScope qid, ir_key = key, ir_conversationId = cid, ir_reservationId = rid\<rparr>]"
        "db_ownership_episodes db' = db_ownership_episodes db2" "db_queue_entries db' = db_queue_entries db2"
    by (auto simp: claimQueueEntry_def Let_def elim!: bind_SomeE split: option.splits prod.splits if_splits)
  have "db_idempotency_records db1 = db_idempotency_records db"
    using h(2) by (rule claimWhere_Some) simp
  moreover have "db_idempotency_records db2 = db_idempotency_records db1 \<and> db_queue_entries db2 = db_queue_entries db1"
    using h(5) by (rule openEpisodeIn_Some) simp
  ultimately show thesis using that h db' by simp
qed

lemma assignFromRouting_Inr:
  assumes "assignFromRouting later inp db = Some (Inr cid, db')"
  obtains entry db1 ep db2 r m
  where "\<not> overCapacity inp db"
    and "claimWhere (\<lambda>e. qe_queue_entry_id e = ai_queueEntryId inp) (ai_principalId inp) (ai_at inp) db
           = Some (entry, db1)"
    and "cid = qe_conversation_id entry"
    and "openEpisodeIn \<lparr>oe_episodeId = ai_episodeId inp, oe_conversationId = cid,
           oe_caseId = qe_case_id entry, oe_ownerId = ai_principalId inp, oe_assignmentSource = ROUTED,
           oe_at = ai_at inp, oe_reason = Some (ai_reason inp), oe_assignedBy = None,
           oe_previousOwner = None\<rparr> db1 = Some (ep, db2)"
    and "r = reservationOf (ai_reservationId inp) (ai_principalId inp) cid (ai_weight inp) (ai_at inp)
           (later (ai_at inp) (ai_ttlSeconds inp))"
    and "reservationValid r db2"
    and "advanceStateIn (ai_stateEpisodeId inp) (assignedState cid (ai_at inp) None ''assigned by routing'')
      (setCaseOwner cid (ai_principalId inp)
        (ensureOwnerParticipantIn cid (ai_principalId inp) (ai_principalId inp) (ai_at inp)
          \<lparr>gb_actorId = None, gb_actorKind = ''SYSTEM'', gb_reason = ai_reason inp,
           gb_correlationId = (case ai_correlationId inp of Some c \<Rightarrow> c | None \<Rightarrow> cid)\<rparr>
          (db2\<lparr>db_reservations := db_reservations db2 @ [r]\<rparr>))) = Some (m, db')"
  using assms
  by (auto simp: assignFromRouting_def Let_def elim!: bind_SomeE
      split: option.splits prod.splits if_splits)


text \<open>
  One transaction of the routing store or one ownership command, with any outcome. The label is the
  conversation of an enqueue, the only step that makes a conversation claimable again.
\<close>

inductive routingStep :: "UUID option \<Rightarrow> RoutingDb \<Rightarrow> RoutingDb \<Rightarrow> bool" where
  enqueue: "enqueue e inp db = Some db' \<Longrightarrow> routingStep (Some (en_conversationId inp)) db db'"
| claim: "claimConversation cl cid db = Some (r, db') \<Longrightarrow> routingStep None db db'"
| pull: "claimNextFromQueue locked cl team db = Some (r, db') \<Longrightarrow> routingStep None db db'"
| claimEntry: "claimQueueEntry later cl qid key rid db = Some (r', db') \<Longrightarrow> routingStep None db db'"
| assign: "assignFromRouting later ai db = Some (r'', db') \<Longrightarrow> routingStep None db db'"
| reassign: "reassign ri e corr db = Some (ep, db') \<Longrightarrow> routingStep None db db'"
| cover: "cover (commandDeps ids) cvr db = (out, db') \<Longrightarrow> routingStep None db db'"
| transfer: "transfer (commandDeps ids) ho db = (out, db') \<Longrightarrow> routingStep None db db'"
| escalate: "escalate (commandDeps ids) ho db = (out', db') \<Longrightarrow> routingStep None db db'"
| leave: "reassignOnExit (commandDeps ids) ho db = (out'', db') \<Longrightarrow> routingStep None db db'"

inductive_cases routingStepE: "routingStep l db db'"

text \<open>
  A property of the episodes and the queue that each write of the store keeps is kept by every
  step; the steps are sequences of these writes.
\<close>

definition episodesAndQueue :: "RoutingDb \<Rightarrow> OwnershipRow list \<times> QueueEntryRow list" where
  "episodesAndQueue db = (db_ownership_episodes db, db_queue_entries db)"

lemma episodesAndQueue_simps [simp]:
  "episodesAndQueue (ensureOwnerParticipantIn cid who by' t g db) = episodesAndQueue db"
  "episodesAndQueue (updateCaseOf cid f db) = episodesAndQueue db"
  "episodesAndQueue (setCaseOwner cid who db) = episodesAndQueue db"
  "episodesAndQueue (db\<lparr>db_access_grants := g'\<rparr>) = episodesAndQueue db"
  "episodesAndQueue (db\<lparr>db_ledger := l\<rparr>) = episodesAndQueue db"
  "episodesAndQueue (db\<lparr>db_outbox := ob\<rparr>) = episodesAndQueue db"
  "episodesAndQueue (db\<lparr>db_reservations := rs\<rparr>) = episodesAndQueue db"
  "episodesAndQueue (db\<lparr>db_idempotency_records := ir\<rparr>) = episodesAndQueue db"
  by (simp_all add: episodesAndQueue_def case_setters)

lemma advance_episodesAndQueue:
  "advanceStateIn e inp db = Some (m, db') \<Longrightarrow> episodesAndQueue db' = episodesAndQueue db"
  by (simp add: episodesAndQueue_def advanceStateIn_frame(1,2))

text \<open>The writes that touch the episodes or the queue.\<close>

inductive queueWrite :: "UUID option \<Rightarrow> RoutingDb \<Rightarrow> RoutingDb \<Rightarrow> bool" where
  quiet: "episodesAndQueue db' = episodesAndQueue db \<Longrightarrow> queueWrite None db db'"
| add: "db' = db\<lparr>db_queue_entries := db_queue_entries db @ [queueRowOf inp]\<rparr> \<Longrightarrow>
    queueWrite (Some (en_conversationId inp)) db db'"
| claimed: "claimWhere p who t db = Some (entry, db') \<Longrightarrow> queueWrite None db db'"
| opened: "openEpisodeIn oe db = Some (ep, db') \<Longrightarrow> queueWrite None db db'"
| reassigned: "reassign ri e corr db = Some (ep, db') \<Longrightarrow> queueWrite None db db'"

inductive queueWrites :: "UUID option \<Rightarrow> RoutingDb \<Rightarrow> RoutingDb \<Rightarrow> bool" where
  none: "queueWrites l db db"
| more: "queueWrites l db db1 \<Longrightarrow> queueWrite None db1 db2 \<Longrightarrow> queueWrites l db db2"
| labelled: "queueWrites l db db1 \<Longrightarrow> queueWrite l db1 db2 \<Longrightarrow> queueWrites l db db2"

lemma queueWrites_1: "queueWrite l db db' \<Longrightarrow> queueWrites l db db'"
  by (rule queueWrites.labelled[OF queueWrites.none])

lemma queueWrites_quiet: "episodesAndQueue db' = episodesAndQueue db \<Longrightarrow> queueWrites l db db'"
  by (rule queueWrites.more[OF queueWrites.none queueWrite.quiet])

lemma queueWrites_reassign:
  assumes "dp_reassign (commandDeps ids) inp st = Some (x, st')"
  shows "queueWrite None st st'"
  using assms by (auto simp: commandDeps_def intro: queueWrite.reassigned)

lemma await_state:
  assumes "await res st k = (out, st')"
  obtains "res = None" and "st' = st" | x st1 where "res = Some (x, st1)" and "k x st1 = (out, st')"
  using assms by (cases res) (auto simp: await_def)

lemma auditThen_quiet:
  "auditThen (commandDeps ids) entry r st = (out, st') \<Longrightarrow> episodesAndQueue st' = episodesAndQueue st"
  by (auto simp: auditThen_def commandDeps_def recordAudit_def)

lemma quiet_ports:
  "dp_grantCover (commandDeps ids) gc st = Some (x, st') \<Longrightarrow> episodesAndQueue st' = episodesAndQueue st"
  "dp_raiseEscalationLevel (commandDeps ids) cid why now st = Some (n, st') \<Longrightarrow>
     episodesAndQueue st' = episodesAndQueue st"
  by (auto simp: commandDeps_def grantCover_def raiseEscalationLevel_def Let_def split: if_splits)

lemmas port_writes = queueWrites_reassign auditThen_quiet[THEN queueWrite.quiet]
  quiet_ports[THEN queueWrite.quiet]

lemma queueWrites_seq:
  "queueWrite None a b \<Longrightarrow> queueWrites l a b"
  "queueWrite None a b \<Longrightarrow> queueWrite None b c \<Longrightarrow> queueWrites l a c"
  "queueWrite None a b \<Longrightarrow> queueWrite None b c \<Longrightarrow> queueWrite None c d \<Longrightarrow> queueWrites l a d"
  by (blast intro: queueWrites.none queueWrites.more)+

lemma claimWhere_opened:
  assumes "claimWhere p who t db = Some (entry, db1)" and "openEpisodeIn inp db1 = Some (ep, db2)"
    and "episodesAndQueue db' = episodesAndQueue db2"
  shows "queueWrites l db db'"
  by (rule queueWrites_seq(3)[OF queueWrite.claimed[OF assms(1)] queueWrite.opened[OF assms(2)]
        queueWrite.quiet[OF assms(3)]])

lemma routingStep_writes:
  assumes "routingStep l db db'"
  shows "queueWrites l db db'"
  using assms
proof (cases rule: routingStep.cases)
  case (enqueue e inp)
  let ?db1 = "db\<lparr>db_queue_entries := db_queue_entries db @
      (if queueConflict inp (db_queue_entries db) then [] else [queueRowOf inp])\<rparr>"
  from enqueue(2) obtain x m db2 where "advanceStateIn e x ?db1 = Some (m, db2)"
      and "db' = db2\<lparr>db_outbox := db_outbox db2 @ [arrivalEvent inp]\<rparr>"
    by (auto simp: enqueue_def Let_def appendOutboxIn_iff elim!: bind_SomeE split: if_splits)
  then have q: "queueWrite None ?db1 db'"
    by (intro queueWrite.quiet) (simp add: advance_episodesAndQueue)
  have "queueWrites l db ?db1"
    by (cases "queueConflict inp (db_queue_entries db)")
       (auto simp: enqueue(1) intro: queueWrites_1 queueWrite.add queueWrites.none)
  then show ?thesis using q by (rule queueWrites.more)
next
  case (claim cl cid r)
  show ?thesis
  proof (cases r)
    case (Inl f)
    then have "db' = db" using claim(2)
      by (auto simp: claimConversation_def Let_def elim!: bind_SomeE split: option.splits prod.splits)
    then show ?thesis by (simp add: queueWrites.none)
  next
    case (Inr ep)
    from claim(2)[unfolded Inr] show ?thesis
      by (rule claimConversation_Inr) (erule (1) claimWhere_opened, auto dest!: advance_episodesAndQueue)
  qed
next
  case (pull locked cl team r)
  show ?thesis
  proof (cases r)
    case (Inl f)
    then have "db' = db" using pull(2)
      by (auto simp: claimNextFromQueue_def Let_def elim!: bind_SomeE split: option.splits prod.splits)
    then show ?thesis by (simp add: queueWrites.none)
  next
    case (Inr ep)
    from pull(2)[unfolded Inr] show ?thesis
      by (rule claimNext_Inr) (erule (1) claimWhere_opened, auto)
  qed
next
  case (claimEntry later cl qid key rid r')
  show ?thesis
  proof (cases "\<exists>cid r. r' = ClaimedEntry cid r False")
    case True
    then obtain cid r where "r' = ClaimedEntry cid r False" by auto
    from claimEntry(2)[unfolded this] show ?thesis
      by (rule claimQueueEntry_new)
         (erule (1) claimWhere_opened, auto simp: episodesAndQueue_def elim!: openEpisodeIn_Some)
  next
    case False
    then have "db' = db" using claimEntry(2)
      by (auto simp: claimQueueEntry_def Let_def elim!: bind_SomeE
          split: option.splits prod.splits if_splits)
    then show ?thesis by (simp add: queueWrites.none)
  qed
next
  case (assign later ai r'')
  show ?thesis
  proof (cases r'')
    case (Inl f)
    then have "db' = db" using assign(2)
      by (auto simp: assignFromRouting_def Let_def elim!: bind_SomeE
          split: option.splits prod.splits if_splits)
    then show ?thesis by (simp add: queueWrites.none)
  next
    case (Inr cid)
    from assign(2)[unfolded Inr] show ?thesis
      by (rule assignFromRouting_Inr) (erule (1) claimWhere_opened, auto dest!: advance_episodesAndQueue)
  qed
next
  case (reassign ri e corr ep)
  then show ?thesis by (auto intro: queueWrites_1 queueWrite.reassigned)
next
  case (cover ids cvr out)
  then show ?thesis
    by (auto simp: cover_def split: if_splits option.splits elim!: await_state intro!: queueWrites_quiet
        dest!: auditThen_quiet quiet_ports)
next
  case (transfer ids ho out)
  then show ?thesis
    by (auto simp: transfer_def split: if_splits option.splits elim!: await_state
        dest!: port_writes intro: queueWrites.none queueWrites_seq)
next
  case (escalate ids ho out')
  then show ?thesis
    by (auto simp: escalate_def split: if_splits option.splits elim!: await_state
        dest!: port_writes intro: queueWrites.none queueWrites_seq)
next
  case (leave ids ho out'')
  then show ?thesis
    by (auto simp: reassignOnExit_def split: if_splits option.splits elim!: await_state
        dest!: port_writes intro: queueWrites.none queueWrites_seq)
qed

end
