(* ===== verification/Routing_Claims.thy ===== *)
theory Routing_Claims
  imports Routing_Props Revision_Props
begin

text \<open>
  What the steps of the routing store keep and give: one owner at every instant, exclusive and
  idempotent claims, who may act after a claim or a hand-over, capacity, queue order, and the worth
  of a granted cover.
\<close>

section \<open>A conversation in the queue\<close>

definition routingDb :: RoutingDb where
  "routingDb =
     \<lparr>db_conversations =
        [\<lparr>cr_conversation_id = ''c1'', cr_conversation_type = CUSTOMER_SERVICE,
          cr_state = Some QUEUED, cr_case_id = Some ''k1'', cr_sensitivity = ORDINARY,
          cr_last_seq = 0, cr_customer_ref = None,
          cr_last_activity_at = ''2026-08-24T08:00:00.000Z'', cr_last_message_preview = [],
          cr_participant_count = 1\<rparr>],
      db_service_cases =
        [\<lparr>sc_case_id = ''k1'', sc_owning_team_id = Some ''support'', sc_current_owner_id = None,
          sc_designated_employee_id = Some ''emp-7'', sc_escalation_level = 0, sc_state = QUEUED,
          sc_resolved_at = None, sc_outcome_code = None, sc_reopen_count = 0\<rparr>],
      db_teams = [\<lparr>te_team_id = ''support'', te_department = Some ''service''\<rparr>],
      db_departments = [], db_team_memberships = [(''emp-1'', ''support'')],
      db_participants = [participantRow ''cust-1'' K_CUSTOMER],
      db_channels = [], db_channel_audience = [], db_messages = [], db_revisions = [],
      db_attachments = [], db_episodes = [], db_outbox = [],
      db_queue_entries =
        [\<lparr>qe_queue_entry_id = ''q1'', qe_conversation_id = ''c1'', qe_case_id = Some ''k1'',
          qe_team_id = ''support'', qe_priority = ''P1'', qe_state = Q_WAITING, qe_claimed_by = None,
          qe_claimed_at = None, qe_after_hours = False, qe_enqueued_at = ''2026-08-24T08:00:00.000Z''\<rparr>],
      db_ownership_episodes = [], db_access_grants = [], db_reservations = [],
      db_capacity_policies =
        [\<lparr>cp_scope_kind = CAP_TEAM, cp_scope_id = ''support'', cp_capacity_units = 4\<rparr>],
      db_idempotency_records = [], db_ledger = []\<rparr>"

definition claimBy :: "UUID \<Rightarrow> UUID \<Rightarrow> Timestamp \<Rightarrow> ClaimInput" where
  "claimBy who ep t =
     \<lparr>cl_claimedBy = who, cl_episodeId = ep, cl_stateEpisodeId = ''s-'' @ ep, cl_at = t,
      cl_correlationId = None\<rparr>"

definition nine :: Timestamp where "nine = ''2026-08-24T09:00:00.000Z''"
definition ten :: Timestamp where "ten = ''2026-08-24T10:00:00.000Z''"

definition claimedRun :: "((ClaimFailure + OwnershipRow) \<times> RoutingDb) option" where
  "claimedRun = claimConversation (claimBy ''emp-1'' ''o1'' nine) ''c1'' routingDb"

definition claimedDb :: RoutingDb where
  "claimedDb = snd (the claimedRun)"

lemma claimedRun_Inr:
  "\<exists>ep. claimConversation (claimBy ''emp-1'' ''o1'' nine) ''c1'' routingDb = Some (Inr ep, claimedDb) \<and>
        ow_owner_id ep = ''emp-1''"
proof -
  have "case claimedRun of Some (Inr ep, _) \<Rightarrow> ow_owner_id ep = ''emp-1'' | _ \<Rightarrow> False" by code_simp
  then show ?thesis
    unfolding claimedDb_def by (auto simp: claimedRun_def split: option.splits prod.splits sum.splits)
qed

definition handOver :: HandOverCommand where
  "handOver = \<lparr>ho_conversationId = ''c1'', ho_toOwner = ''emp-2'', ho_by = ''lead-1'',
     ho_reason = ''shift change'', ho_at = ten, ho_targetAvailable = True\<rparr>"

definition requestIds :: RequestIds where
  "requestIds = \<lparr>rq_episodeId = ''o2'', rq_grantId = ''g1'', rq_correlationId = ''corr'', rq_auditUp = True\<rparr>"

section \<open>One owner at every instant\<close>

lemma queueWrite_singleOwner:
  assumes "queueWrite l db db'" and "singleOwner db"
  shows "singleOwner db'"
  using assms
proof (induction rule: queueWrite.induct)
  case (quiet db' db)
  then have "db_ownership_episodes db' = db_ownership_episodes db" by (simp add: episodesAndQueue_def)
  with quiet show ?case by (simp add: singleOwner_def ownersAt_def)
next
  case (claimed p who t db entry db')
  from claimed(1) have "db_ownership_episodes db' = db_ownership_episodes db"
    by (rule claimWhere_Some) simp
  with claimed show ?case by (simp add: singleOwner_def ownersAt_def)
next
  case (add db' db inp)
  then show ?case by (simp add: singleOwner_def ownersAt_def)
next
  case (opened oe db ep db')
  then show ?case by (simp add: singleOwner_def ownersAt_open)
next
  case (reassigned ri e corr db ep db')
  then show ?case by (simp add: singleOwner_def ownersAt_reassign)
qed

lemma queueWrites_singleOwner: "queueWrites l db db' \<Longrightarrow> singleOwner db \<Longrightarrow> singleOwner db'"
  by (induction rule: queueWrites.induct) (auto intro: queueWrite_singleOwner)

text \<open>
  C5: exactly one owner at any instant. Whatever enqueues, claims, pulls, routed assignments,
  hand-overs, escalations and covers run, in whatever order and with whatever outcomes, no
  conversation has two owners at any instant, past or future.
\<close>

theorem one_owner_at_every_instant:
  assumes "(\<lambda>a b. \<exists>l. routingStep l a b)\<^sup>*\<^sup>* db db'" and "singleOwner db"
  shows "length (ownersAt cid t db') \<le> 1"
proof -
  have "singleOwner db'"
    using assms
    by (induction rule: rtranclp_induct) (auto dest: routingStep_writes intro: queueWrites_singleOwner)
  then show ?thesis by (simp add: singleOwner_def)
qed

definition handedOverDb :: RoutingDb where
  "handedOverDb = snd (transfer (commandDeps requestIds) handOver claimedDb)"

theorem one_owner_at_every_instant_witness: "length (ownersAt ''c1'' ten handedOverDb) \<le> 1"
proof (rule one_owner_at_every_instant)
  obtain ep where "claimConversation (claimBy ''emp-1'' ''o1'' nine) ''c1'' routingDb = Some (Inr ep, claimedDb)"
    using claimedRun_Inr by blast
  then have "routingStep None routingDb claimedDb" by (rule routingStep.claim)
  moreover have "routingStep None claimedDb handedOverDb"
    by (rule routingStep.transfer[where out = "fst (transfer (commandDeps requestIds) handOver claimedDb)"])
       (simp add: handedOverDb_def)
  ultimately have "\<exists>l. routingStep l routingDb claimedDb" "\<exists>l. routingStep l claimedDb handedOverDb" by auto
  then show "(\<lambda>a b. \<exists>l. routingStep l a b)\<^sup>*\<^sup>* routingDb handedOverDb"
    by (rule converse_rtranclp_into_rtranclp[OF _ r_into_rtranclp])
  show "singleOwner routingDb" by (simp add: singleOwner_def ownersAt_def routingDb_def)
qed

definition reassignInp :: ReassignInput where
  "reassignInp = reassignmentOf handOver TRANSFER True"

lemma reassigned_run:
  "\<exists>ep db'. reassign reassignInp ''o2'' None claimedDb = Some (ep, db')"
proof -
  have "reassign reassignInp ''o2'' None claimedDb \<noteq> None" by code_simp
  then show ?thesis by auto
qed

theorem hand_over_leaves_no_gap_witness:
  "\<exists>db'. ownersAt ''c1'' ten db' = [''emp-2''] \<and> ownersAt ''c1'' nine db' = [''emp-1'']"
proof -
  obtain ep db' where r: "reassign reassignInp ''o2'' None claimedDb = Some (ep, db')"
    using reassigned_run by blast
  have "ownersAt ''c1'' nine claimedDb = [''emp-1'']" by code_simp
  moreover have "ri_conversationId reassignInp = ''c1''" "ri_at reassignInp = ten"
    "ri_toOwner reassignInp = ''emp-2''"
    by (simp_all add: reassignInp_def reassignmentOf_def handOver_def)
  moreover have "\<not> ten \<le> nine" by code_simp
  ultimately show ?thesis
    using hand_over_leaves_no_gap[OF r, of "''c1''" ten] hand_over_leaves_no_gap[OF r, of "''c1''" nine]
    by auto
qed

section \<open>Claims\<close>

text \<open>The conversation has been queued and is not waiting.\<close>

definition spokenFor :: "UUID \<Rightarrow> RoutingDb \<Rightarrow> bool" where
  "spokenFor cid db \<longleftrightarrow>
     list_ex (\<lambda>e. qe_conversation_id e = cid) (db_queue_entries db) \<and>
     list_all (\<lambda>e. qe_conversation_id e = cid \<longrightarrow> qe_state e \<noteq> Q_WAITING) (db_queue_entries db)"

lemma claimedBy_simps [simp]:
  "qe_conversation_id (claimedBy who t e) = qe_conversation_id e"
  "qe_queue_entry_id (claimedBy who t e) = qe_queue_entry_id e"
  "qe_state (claimedBy who t e) = Q_CLAIMED"
  "qe_claimed_by (claimedBy who t e) = Some who"
  by (simp_all add: claimedBy_def)

lemma list_ex_updateWhere:
  "(\<And>r. P (f r) = P r) \<Longrightarrow> list_ex P (updateWhere q f xs) = list_ex P xs"
  by (induction xs) (auto simp: updateWhere_def)

lemma list_all_updateWhere:
  "list_all P (updateWhere q f xs) = list_all (\<lambda>r. P (if q r then f r else r)) xs"
  by (induction xs) (auto simp: updateWhere_def)

lemma queueWrite_spokenFor:
  assumes "queueWrite l db db'" and "l \<noteq> Some cid" and "spokenFor cid db"
  shows "spokenFor cid db'"
  using assms
proof (induction rule: queueWrite.induct)
  case (claimed p who t db entry db')
  from claimed(1) have "db_queue_entries db' =
      updateWhere (\<lambda>x. p x \<and> qe_state x = Q_WAITING) (claimedBy who t) (db_queue_entries db)"
    by (rule claimWhere_Some) simp
  with claimed(3) show ?case
    by (simp add: spokenFor_def list_ex_updateWhere list_all_updateWhere) (auto simp: list_all_iff)
next
  case (reassigned ri e corr db ep db')
  from reassigned(1) have "db_queue_entries db' = db_queue_entries db"
    by (auto simp: reassign_def Let_def closeEpisode_def demotePrevious_def demote_def case_setters
        elim!: bind_SomeE openEpisodeIn_Some split: if_splits option.splits)
  with reassigned(3) show ?case by (simp add: spokenFor_def)
qed (auto simp: spokenFor_def episodesAndQueue_def queueRowOf_def elim!: openEpisodeIn_Some)

lemma queueWrites_spokenFor:
  "queueWrites l db db' \<Longrightarrow> l \<noteq> Some cid \<Longrightarrow> spokenFor cid db \<Longrightarrow> spokenFor cid db'"
  by (induction rule: queueWrites.induct) (auto intro: queueWrite_spokenFor)

lemma claimed_spokenFor:
  assumes "claimConversation inp cid db = Some (Inr ep, db')"
  shows "spokenFor cid db'"
  using assms
proof (rule claimConversation_Inr)
  fix entry db1 db2 m
  assume c: "claimWhere (\<lambda>e. qe_conversation_id e = cid) (cl_claimedBy inp) (cl_at inp) db = Some (entry, db1)"
    and o: "openEpisodeIn (claimEpisode inp cid (qe_case_id entry)) db1 = Some (ep, db2)"
    and a: "advanceStateIn (cl_stateEpisodeId inp)
      (assignedState cid (cl_at inp) (Some (cl_claimedBy inp)) ''claimed from the queue'')
      (setCaseOwner cid (cl_claimedBy inp)
        (ensureOwnerParticipantIn cid (cl_claimedBy inp) (cl_claimedBy inp) (cl_at inp)
          (claimGrant inp cid ''claimed from the queue'') db2)) = Some (m, db')"
  have "db_queue_entries db' = db_queue_entries db2"
    using advanceStateIn_frame(2)[OF a] by (simp add: case_setters)
  also have "\<dots> = db_queue_entries db1" using o by (rule openEpisodeIn_Some) simp
  finally show ?thesis
    using c
    by (elim claimWhere_Some)
       (simp add: spokenFor_def list_ex_updateWhere list_all_updateWhere, auto simp: list_ex_iff list_all_iff)
qed

lemma spokenFor_refused:
  assumes "spokenFor cid db"
  shows "claimConversation inp cid db = Some (Inl ALREADY_ASSIGNED, db)"
proof -
  have "claimWhere (\<lambda>e. qe_conversation_id e = cid) (cl_claimedBy inp) (cl_at inp) db = None"
    using assms by (auto simp: claimWhere_def Let_def find_None_iff spokenFor_def list_all_iff)
  with assms show ?thesis by (simp add: claimConversation_def claimReason_def spokenFor_def)
qed

text \<open>
  C8: exactly one claimer. After a successful claim of a conversation, whatever else happens
  to any conversation short of queueing this one again, every further claim of it by
  name, by anybody, is refused as already assigned and changes nothing.
\<close>

theorem claim_is_exclusive:
  assumes "claimConversation inp cid db = Some (Inr ep, db1)"
    and "(\<lambda>a b. \<exists>l. l \<noteq> Some cid \<and> routingStep l a b)\<^sup>*\<^sup>* db1 db2"
  shows "claimConversation inp2 cid db2 = Some (Inl ALREADY_ASSIGNED, db2)"
proof (rule spokenFor_refused)
  show "spokenFor cid db2"
    using assms(2)
  proof (induction rule: rtranclp_induct)
    case base
    show ?case by (rule claimed_spokenFor[OF assms(1)])
  next
    case (step a b)
    then show ?case by (auto dest!: routingStep_writes intro: queueWrites_spokenFor)
  qed
qed

theorem claim_is_exclusive_witness:
  "claimConversation (claimBy ''emp-2'' ''o9'' ten) ''c1'' handedOverDb =
     Some (Inl ALREADY_ASSIGNED, handedOverDb)"
proof -
  obtain ep where c: "claimConversation (claimBy ''emp-1'' ''o1'' nine) ''c1'' routingDb = Some (Inr ep, claimedDb)"
    using claimedRun_Inr by blast
  have "routingStep None claimedDb handedOverDb"
    by (rule routingStep.transfer[where out = "fst (transfer (commandDeps requestIds) handOver claimedDb)"])
       (simp add: handedOverDb_def)
  then have "(\<lambda>a b. \<exists>l. l \<noteq> Some ''c1'' \<and> routingStep l a b)\<^sup>*\<^sup>* claimedDb handedOverDb"
    by (intro r_into_rtranclp) auto
  from claim_is_exclusive[OF c this] show ?thesis .
qed

end
