(* ===== verification/Routing_Effects.thy ===== *)
theory Routing_Effects
  imports Routing_Claims
begin

text \<open>
  The effects of claims, pulls, hand-overs, routed assignments and covers on what the
  authorization decision and the next caller see.
\<close>

section \<open>Who may act after a claim\<close>

definition liveOwnerRow :: "UUID \<Rightarrow> UUID \<Rightarrow> RoutingDb \<Rightarrow> bool" where
  "liveOwnerRow cid who db \<longleftrightarrow>
     (\<exists>p. loadParticipant cid who db = Some p \<and> pr_role p = ''OWNER'' \<and> pr_replyAuthority p \<and>
          pr_effectiveTo p = None)"

lemma upsertOwner_find:
  "\<exists>p. find (\<lambda>p. pa_conversation_id p = cid \<and> pa_principal_id p = who) (upsertOwner cid who by' t ps) = Some p \<and>
       pa_role p = ''OWNER'' \<and> pa_reply_authority p \<and> pa_effective_to p = None"
proof (cases "find (\<lambda>p. pa_conversation_id p = cid \<and> pa_principal_id p = who) ps")
  case None
  then have "\<not> list_ex (\<lambda>p. pa_conversation_id p = cid \<and> pa_principal_id p = who) ps"
    by (auto simp: find_None_iff list_ex_iff)
  with None show ?thesis by (simp add: upsertOwner_def find_append_miss)
next
  case (Some p)
  then have "list_ex (\<lambda>p. pa_conversation_id p = cid \<and> pa_principal_id p = who) ps"
    by (auto simp: list_ex_iff dest: find_SomeD)
  then show ?thesis
    by (simp add: upsertOwner_def find_updateWhere_same reviveOwner_def Some)
qed

lemma upsertOwner_find_other:
  assumes "other \<noteq> who"
  shows "find (\<lambda>p. pa_conversation_id p = cid \<and> pa_principal_id p = other) (upsertOwner cid who by' t ps) =
    find (\<lambda>p. pa_conversation_id p = cid \<and> pa_principal_id p = other) ps"
proof -
  have r: "find (\<lambda>p. pa_conversation_id p = cid \<and> pa_principal_id p = other)
      (updateWhere (\<lambda>p. pa_conversation_id p = cid \<and> pa_principal_id p = who) (reviveOwner by' t) ps) =
    find (\<lambda>p. pa_conversation_id p = cid \<and> pa_principal_id p = other) ps"
    using assms by (induction ps) (auto simp: updateWhere_def reviveOwner_def)
  have a: "find P (xs @ [x]) = find P xs" if "\<not> P x" for P xs and x :: ParticipantRow
    using that by (induction xs) auto
  show ?thesis unfolding upsertOwner_def using r a assms by simp
qed

lemma liveOwnerRow_upsert:
  "db_participants db = upsertOwner cid who by' t ps \<Longrightarrow> liveOwnerRow cid who db"
  using upsertOwner_find[of cid who by' t ps] by (auto simp: liveOwnerRow_def loadParticipant_def)

lemma loadConversation_fields:
  assumes "loadConversationForUpdate cid db = Some c"
  shows "cv_currentOwnerId c = Option.bind (caseRow cid db) sc_current_owner_id"
    and "map_option cr_state (findConversation cid db) = Some (cv_state c)"
proof -
  from assms obtain r where r: "findConversation cid db = Some r"
    and c: "cv_currentOwnerId c = Option.bind (caseOf r db) sc_current_owner_id" "cv_state c = cr_state r"
    by (auto simp: loadConversationForUpdate_def toConversation_def Let_def)
  have "caseRow cid db = caseOf r db"
  proof (cases "cr_case_id r")
    case None
    then have "caseIsOf cid db = (\<lambda>_. False)" by (simp add: caseIsOf_def r fun_eq_iff)
    then show ?thesis by (simp add: caseRow_def caseOf_def None find_None_iff)
  next
    case (Some k)
    then have "caseIsOf cid db = (\<lambda>sc. sc_case_id sc = k)" by (auto simp: caseIsOf_def r fun_eq_iff)
    then show ?thesis by (simp add: caseRow_def caseOf_def Some)
  qed
  with r c show "cv_currentOwnerId c = Option.bind (caseRow cid db) sc_current_owner_id"
    "map_option cr_state (findConversation cid db) = Some (cv_state c)" by simp_all
qed

lemma currentOwner_open:
  assumes "openEpisodeIn inp db = Some (ep, db')"
  shows "currentOwner (oe_conversationId inp) db' = Some ep"
  using assms
proof (rule openEpisodeIn_Some)
  assume ep: "ep = episodeRowOf inp"
    and db': "db' = db\<lparr>db_ownership_episodes := db_ownership_episodes db @ [ep]\<rparr>"
    and free: "ownershipFree (oe_conversationId inp) (oe_at inp) (db_ownership_episodes db)"
  have "find (isLiveOf (oe_conversationId inp)) (db_ownership_episodes db) = None"
    using free by (auto simp: ownershipFree_def list_all_iff find_None_iff isLiveOf_def split: option.splits)
  then show ?thesis
    by (simp add: currentOwner_isLive db' find_append_miss ep episodeRowOf_def isLiveOf_def)
qed

text \<open>Advancing the state leaves the owner column and, from a permitted state, sets the new one.\<close>

lemma advance_caseRow:
  assumes "advanceStateIn e inp (db :: RoutingDb) = Some (m, db')"
  shows "Option.bind (caseRow cid db') sc_current_owner_id = Option.bind (caseRow cid db) sc_current_owner_id"
proof (cases m)
  case False
  with assms have "db' = db" by (auto simp: advanceStateIn_def Let_def split: if_splits)
  then show ?thesis by simp
next
  case True
  let ?hit = "\<lambda>c. cr_conversation_id c = as_conversationId inp \<and>
     (case cr_state c of None \<Rightarrow> False | Some s \<Rightarrow> s \<in> set (as_from inp))"
  let ?of = "\<lambda>sc. list_ex (\<lambda>c. cr_conversation_id c = as_conversationId inp \<and>
     cr_case_id c = Some (sc_case_id sc)) (db_conversations db)"
  from True assms obtain eps where db': "db' = db
      \<lparr>db_conversations := updateWhere ?hit (\<lambda>c. c\<lparr>cr_state := Some (as_to inp)\<rparr>) (db_conversations db),
       db_service_cases := updateWhere ?of (\<lambda>sc. sc\<lparr>sc_state := as_to inp\<rparr>) (db_service_cases db),
       db_episodes := eps\<rparr>"
    by (auto simp: advanceStateIn_def Let_def split: if_splits)
  have "map_option cr_case_id (findConversation d db') = map_option cr_case_id (findConversation d db)" for d
    by (simp add: db' findConversation_def find_updateWhere option.map_comp comp_def if_distrib cong: if_cong)
  then have same: "caseIsOf cid db' = caseIsOf cid db" by (intro caseIsOf_cong)
  have "caseIsOf cid db (sc\<lparr>sc_state := s\<rparr>) = caseIsOf cid db sc" for sc s
    by (simp add: caseIsOf_def split: option.split)
  then have "caseRow cid db' = map_option (\<lambda>sc. if ?of sc then sc\<lparr>sc_state := as_to inp\<rparr> else sc) (caseRow cid db)"
    unfolding caseRow_def same by (simp add: db' find_updateWhere)
  then show ?thesis by (cases "caseRow cid db") simp_all
qed

lemma advance_state:
  assumes "advanceStateIn e inp (db :: RoutingDb) = Some (m, db')"
    and "findConversation (as_conversationId inp) db = Some c"
  shows "map_option cr_state (findConversation (as_conversationId inp) db') =
    Some (if (case cr_state c of None \<Rightarrow> False | Some s \<Rightarrow> s \<in> set (as_from inp)) then Some (as_to inp)
          else cr_state c)"
proof (cases m)
  case False
  with assms(1) have "db' = db" and "\<not> list_ex (\<lambda>c. cr_conversation_id c = as_conversationId inp \<and>
     (case cr_state c of None \<Rightarrow> False | Some s \<Rightarrow> s \<in> set (as_from inp))) (db_conversations db)"
    by (auto simp: advanceStateIn_def Let_def split: if_splits)
  moreover have "c \<in> set (db_conversations db)" "cr_conversation_id c = as_conversationId inp"
    using assms(2) by (auto simp: findConversation_def dest: find_SomeD)
  ultimately show ?thesis using assms(2) by (auto simp: list_ex_iff)
next
  case True
  then have "db_conversations db' = updateWhere (\<lambda>c. cr_conversation_id c = as_conversationId inp \<and>
     (case cr_state c of None \<Rightarrow> False | Some s \<Rightarrow> s \<in> set (as_from inp)))
     (\<lambda>c. c\<lparr>cr_state := Some (as_to inp)\<rparr>) (db_conversations db)"
    using assms(1) by (auto simp: advanceStateIn_def Let_def split: if_splits)
  then show ?thesis
    using assms(2) findConversation_id[OF assms(2)]
    by (simp add: findConversation_def find_updateWhere)
qed

lemma ensureOwner_state:
  "map_option cr_state (findConversation d (ensureOwnerParticipantIn cid who by' t g db)) =
     map_option cr_state (findConversation d db)"
proof -
  have "findConversation d (ensureOwnerParticipantIn cid who by' t g db) =
      map_option (\<lambda>c. if cr_conversation_id c = cid
      then c\<lparr>cr_participant_count := liveCount cid (upsertOwner cid who by' t (db_participants db))\<rparr> else c)
      (findConversation d db)"
    by (simp add: ensureOwnerParticipantIn_def Let_def find_updateWhere findConversation_def)
  then show ?thesis by (simp add: option.map_comp comp_def if_distrib cong: if_cong)
qed

lemma claimWhere_frame:
  assumes "claimWhere p who t db = Some (entry, db1)"
  shows "findConversation d db1 = findConversation d db" and "db_service_cases db1 = db_service_cases db"
    and "db_ownership_episodes db1 = db_ownership_episodes db"
    and "db_reservations db1 = db_reservations db"
  using assms by (auto elim: claimWhere_Some)

lemma openEpisode_frame:
  assumes "openEpisodeIn inp db = Some (ep, db1)"
  shows "findConversation d db1 = findConversation d db" and "db_service_cases db1 = db_service_cases db"
    and "db_queue_entries db1 = db_queue_entries db" and "db_reservations db1 = db_reservations db"
    and "ow_owner_id ep = oe_ownerId inp" and "ow_conversation_id ep = oe_conversationId inp"
  using assms by (auto elim!: openEpisodeIn_Some simp: episodeRowOf_def)

text \<open>
  winning a claim makes the winner able to act. The winner is the conversation's current owner
  by the ownership ledger, and (for a conversation with a case) also in the owner column that the
  authorization decision reads; they are a live participant with the owner's role and reply
  right; and a conversation that was new or queued is now assigned.
\<close>

theorem claim_makes_the_winner_owner_everywhere:
  assumes "claimConversation inp cid db = Some (Inr ep, db')"
    and "loadConversationForUpdate cid db' = Some c'"
    and "findConversation cid db = Some c"
  shows "map_option ow_owner_id (currentOwner cid db') = Some (cl_claimedBy inp) \<and>
         liveOwnerRow cid (cl_claimedBy inp) db' \<and>
         cv_currentOwnerId c' = (if caseRow cid db = None then None else Some (cl_claimedBy inp)) \<and>
         cv_state c' = (if cr_state c \<in> {Some NEW, Some QUEUED} then Some ASSIGNED else cr_state c)"
  using assms(1)
proof (rule claimConversation_Inr)
  fix entry db1 db2 m
  let ?who = "cl_claimedBy inp"
  let ?db3 = "ensureOwnerParticipantIn cid ?who ?who (cl_at inp) (claimGrant inp cid ''claimed from the queue'') db2"
  let ?db4 = "setCaseOwner cid ?who ?db3"
  assume cw: "claimWhere (\<lambda>e. qe_conversation_id e = cid) ?who (cl_at inp) db = Some (entry, db1)"
    and o: "openEpisodeIn (claimEpisode inp cid (qe_case_id entry)) db1 = Some (ep, db2)"
    and a: "advanceStateIn (cl_stateEpisodeId inp)
      (assignedState cid (cl_at inp) (Some ?who) ''claimed from the queue'') ?db4 = Some (m, db')"
  have own: "currentOwner cid db' = Some ep"
    using currentOwner_open[OF o] currentOwner_cong[of db' db2 cid] advanceStateIn_frame(1)[OF a]
    by (simp add: claimEpisode_def case_setters)
  have row: "caseRow cid ?db3 = caseRow cid db"
    by (rule caseRow_cong)
       (simp_all add: ensureOwner_case_ids openEpisode_frame[OF o] claimWhere_frame[OF cw])
  have st: "map_option cr_state (findConversation cid ?db4) = map_option cr_state (findConversation cid db)"
    using ensureOwner_state[of cid cid ?who ?who "cl_at inp" "claimGrant inp cid ''claimed from the queue''" db2]
      openEpisode_frame(1)[OF o] claimWhere_frame(1)[OF cw]
    by (simp add: findConversation_def case_setters)
  then obtain c4 where c4: "findConversation cid ?db4 = Some c4" "cr_state c4 = cr_state c"
    using assms(3) by auto
  have adv: "map_option cr_state (findConversation cid db') =
      Some (if cr_state c \<in> {Some NEW, Some QUEUED} then Some ASSIGNED else cr_state c)"
    using advance_state[OF a, of c4] c4
    by (auto simp: assignedState_def ASSIGNABLE_FROM_def split: option.splits)
  have "liveOwnerRow cid ?who db'"
    by (rule liveOwnerRow_upsert) (simp add: advanceStateIn_frame(3)[OF a] case_setters)
  moreover have "ow_owner_id ep = ?who" using openEpisode_frame(5)[OF o] by (simp add: claimEpisode_def)
  moreover have "cv_currentOwnerId c' = (if caseRow cid db = None then None else Some ?who)"
    using loadConversation_fields(1)[OF assms(2)] advance_caseRow[OF a, of cid]
    by (cases "caseRow cid db") (simp_all add: caseRow_setters row)
  ultimately show ?thesis using own adv loadConversation_fields(2)[OF assms(2)] by simp
qed


theorem claim_makes_the_winner_owner_everywhere_witness:
  "\<exists>c'. loadConversationForUpdate ''c1'' claimedDb = Some c' \<and>
     cv_currentOwnerId c' = Some ''emp-1'' \<and> cv_state c' = Some ASSIGNED \<and>
     liveOwnerRow ''c1'' ''emp-1'' claimedDb"
proof -
  obtain ep where c: "claimConversation (claimBy ''emp-1'' ''o1'' nine) ''c1'' routingDb = Some (Inr ep, claimedDb)"
    using claimedRun_Inr by blast
  have "loadConversationForUpdate ''c1'' claimedDb \<noteq> None" by code_simp
  then obtain c' where c': "loadConversationForUpdate ''c1'' claimedDb = Some c'" by auto
  have "findConversation ''c1'' routingDb = Some (hd (db_conversations routingDb))"
    and "cr_state (hd (db_conversations routingDb)) = Some QUEUED"
    by (simp_all add: findConversation_def routingDb_def)
  moreover have "caseRow ''c1'' routingDb \<noteq> None" by code_simp
  ultimately show ?thesis
    using claim_makes_the_winner_owner_everywhere[OF c c'] c' by (simp add: claimBy_def)
qed

section \<open>What a pull leaves behind\<close>

text \<open>
  pulling the next conversation from a queue makes the caller its owner by the ownership
  ledger and a live owner-participant, as a claim by name does; but it writes neither the owner
  column of the case, which the authorization decision reads, nor the state of the conversation.
\<close>

theorem pull_leaves_the_case_behind:
  assumes "claimNextFromQueue locked inp teamId db = Some (Inr ep, db')"
  shows "map_option ow_owner_id (currentOwner (ow_conversation_id ep) db') = Some (cl_claimedBy inp) \<and>
         liveOwnerRow (ow_conversation_id ep) (cl_claimedBy inp) db' \<and>
         db_service_cases db' = db_service_cases db \<and>
         map_option cr_state (findConversation cid db') = map_option cr_state (findConversation cid db)"
  using assms
proof (rule claimNext_Inr)
  fix e and entry :: QueueEntryRow and db1 db2
  let ?c = "qe_conversation_id entry" and ?who = "cl_claimedBy inp"
  assume cw: "claimWhere (\<lambda>x. qe_queue_entry_id x = qe_queue_entry_id e) ?who (cl_at inp) db = Some (entry, db1)"
    and o: "openEpisodeIn (claimEpisode inp ?c (qe_case_id entry)) db1 = Some (ep, db2)"
    and db': "db' = ensureOwnerParticipantIn ?c ?who ?who (cl_at inp)
        (claimGrant inp ?c ''claimed the next conversation from the queue'') db2"
  have c: "ow_conversation_id ep = ?c" "ow_owner_id ep = ?who"
    using openEpisode_frame(5,6)[OF o] by (simp_all add: claimEpisode_def)
  have "currentOwner ?c db' = Some ep"
    using currentOwner_open[OF o] currentOwner_cong[of db' db2 ?c] by (simp add: claimEpisode_def db')
  moreover have "liveOwnerRow ?c ?who db'" by (rule liveOwnerRow_upsert) (simp add: db')
  moreover have "map_option cr_state (findConversation cid db') = map_option cr_state (findConversation cid db)"
    unfolding db' ensureOwner_state openEpisode_frame(1)[OF o] claimWhere_frame(1)[OF cw] ..
  ultimately show ?thesis
    by (simp add: c) (simp add: db' openEpisode_frame(2)[OF o] claimWhere_frame(2)[OF cw])
qed

definition pulledRun :: "((ClaimFailure + OwnershipRow) \<times> RoutingDb) option" where
  "pulledRun = claimNextFromQueue (\<lambda>_. False) (claimBy ''emp-1'' ''o1'' nine) ''support'' routingDb"

definition pulledDb :: RoutingDb where "pulledDb = snd (the pulledRun)"

lemma pulledRun_Inr:
  "\<exists>ep. claimNextFromQueue (\<lambda>_. False) (claimBy ''emp-1'' ''o1'' nine) ''support'' routingDb = Some (Inr ep, pulledDb) \<and>
        ow_conversation_id ep = ''c1''"
proof -
  have "case pulledRun of Some (Inr ep, _) \<Rightarrow> ow_conversation_id ep = ''c1'' | _ \<Rightarrow> False" by code_simp
  then show ?thesis
    unfolding pulledDb_def by (auto simp: pulledRun_def split: option.splits prod.splits sum.splits)
qed

theorem pull_leaves_the_case_behind_witness:
  "map_option ow_owner_id (currentOwner ''c1'' pulledDb) = Some ''emp-1'' \<and>
   map_option cr_state (findConversation ''c1'' pulledDb) = Some (Some QUEUED)"
proof -
  obtain ep where p: "claimNextFromQueue (\<lambda>_. False) (claimBy ''emp-1'' ''o1'' nine) ''support'' routingDb = Some (Inr ep, pulledDb)"
    and c: "ow_conversation_id ep = ''c1''"
    using pulledRun_Inr by blast
  have "map_option cr_state (findConversation ''c1'' routingDb) = Some (Some QUEUED)" by code_simp
  with pull_leaves_the_case_behind[OF p, of "''c1''"] c show ?thesis by (simp add: claimBy_def)
qed

section \<open>The order of the queue\<close>

lemma find_sorted_least:
  assumes "find P xs = Some x" and "sorted (map f xs)" and "y \<in> set xs" and "P y"
  shows "f x \<le> f y"
  using assms by (induction xs) (auto split: if_splits)

text \<open>
  a pull serves the queue in order. It takes an entry that waits in the team's queue, is not
  held by a concurrent pull, and is least by priority and then by arrival among all such entries; it
  reports an empty queue only when every waiting entry of the team is so held, and then changes
  nothing.
\<close>

theorem pull_takes_the_first_waiting:
  assumes "claimNextFromQueue locked inp teamId db = Some (r, db')"
    and "e' \<in> set (db_queue_entries db)" and "qe_team_id e' = teamId" and "qe_state e' = Q_WAITING"
    and "\<not> locked (qe_queue_entry_id e')"
    and "distinct (map qe_queue_entry_id (db_queue_entries db))"
  shows "\<exists>ep e. r = Inr ep \<and> e \<in> set (db_queue_entries db) \<and> qe_team_id e = teamId \<and>
           qe_state e = Q_WAITING \<and> \<not> locked (qe_queue_entry_id e) \<and>
           ow_conversation_id ep = qe_conversation_id e \<and> ow_owner_id ep = cl_claimedBy inp \<and>
           queueKey e \<le> queueKey e'"
proof -
  have e': "e' \<in> set (waitingOf teamId db)" using assms(2-4) by (simp add: waitingOf_def)
  then obtain e where e: "nextWaiting locked teamId db = Some e"
    using find_SomeI_ex[of "waitingOf teamId db" "\<lambda>e. \<not> locked (qe_queue_entry_id e)"] assms(5)
    by (auto simp: nextWaiting_def)
  have sorted: "sorted (map queueKey (waitingOf teamId db))" by (simp add: waitingOf_def)
  have in_w: "e \<in> set (waitingOf teamId db)" "\<not> locked (qe_queue_entry_id e)"
    using e by (auto simp: nextWaiting_def dest!: find_SomeD)
  have first: "queueKey e \<le> queueKey e'"
    using find_sorted_least[OF e[unfolded nextWaiting_def] sorted e'] assms(5) by simp
  have mem: "e \<in> set (db_queue_entries db)" "qe_team_id e = teamId" "qe_state e = Q_WAITING"
    using in_w(1) by (auto simp: waitingOf_def)
  let ?P = "\<lambda>x. qe_queue_entry_id x = qe_queue_entry_id e \<and> qe_state x = Q_WAITING"
  have "find ?P (db_queue_entries db) \<noteq> None"
    using mem by (auto simp: find_None_iff)
  then obtain x where x: "find ?P (db_queue_entries db) = Some x" by auto
  then have "x = e"
    using find_SomeD[OF x] mem(1) assms(6) by (auto simp: distinct_map dest: inj_onD)
  with x have "\<exists>db1. claimWhere (\<lambda>x. qe_queue_entry_id x = qe_queue_entry_id e) (cl_claimedBy inp) (cl_at inp) db = Some (e, db1)"
    by (simp add: claimWhere_def Let_def)
  then obtain db1 where cw: "claimWhere (\<lambda>x. qe_queue_entry_id x = qe_queue_entry_id e) (cl_claimedBy inp) (cl_at inp) db = Some (e, db1)"
    by blast
  from assms(1) cw e obtain ep db2 where r: "r = Inr ep"
    and o: "openEpisodeIn (claimEpisode inp (qe_conversation_id e) (qe_case_id e)) db1 = Some (ep, db2)"
    by (auto simp: claimNextFromQueue_def Let_def elim!: bind_SomeE)
  from openEpisode_frame(5,6)[OF o] r mem in_w first show ?thesis
    by (auto simp: claimEpisode_def)
qed

theorem pull_takes_the_first_waiting_witness:
  "\<exists>ep. claimNextFromQueue (\<lambda>_. False) (claimBy ''emp-1'' ''o1'' nine) ''support'' routingDb = Some (Inr ep, pulledDb)
     \<and> ow_owner_id ep = ''emp-1''"
proof -
  obtain ep where p: "claimNextFromQueue (\<lambda>_. False) (claimBy ''emp-1'' ''o1'' nine) ''support'' routingDb = Some (Inr ep, pulledDb)"
    using pulledRun_Inr by blast
  show ?thesis
    using p pull_takes_the_first_waiting[OF p, of "hd (db_queue_entries routingDb)"]
    by (auto simp: routingDb_def claimBy_def)
qed

end
