(* ===== verification/Routing_Guards.thy ===== *)
theory Routing_Guards
  imports Routing_Effects
begin

text \<open>
  The guards around ownership: the capacity bound of a routed assignment, the retry of a claim by
  entry, the movement of the reply right at a hand-over, what each command moves and records, and
  what a granted cover is worth to the authorization decision.
\<close>

section \<open>Capacity\<close>

lemma effectiveCapacity_cong:
  assumes "db_team_memberships db' = db_team_memberships db"
    and "db_capacity_policies db' = db_capacity_policies db"
  shows "effectiveCapacityUnits who db' = effectiveCapacityUnits who db"
  by (simp add: effectiveCapacityUnits_def assms)

text \<open>Nonnegative weights: what is held only shrinks as time passes.\<close>

lemma heldWeight_antimono:
  assumes "list_all (\<lambda>r. 0 < rs_weight r) (db_reservations db)" and "t \<le> t'"
  shows "heldWeight who t' db \<le> heldWeight who t db"
proof -
  have "sum_list (map rs_weight (filter (\<lambda>r. rs_principal_id r = who \<and> rs_released_at r = None \<and> t' < rs_expires_at r) rs))
      \<le> sum_list (map rs_weight (filter (\<lambda>r. rs_principal_id r = who \<and> rs_released_at r = None \<and> t < rs_expires_at r) rs))"
    if "list_all (\<lambda>r. 0 < rs_weight r) rs" for rs
    using that assms(2) by (induction rs) auto
  with assms(1) show ?thesis by (simp add: heldWeight_def)
qed

text \<open>
  C21: routing never overloads a person. A routed assignment raises the weight the person holds by
  exactly the weight of the assignment, and from then on, until something else is
  assigned, the person holds at most their effective capacity; an assignment that would exceed it
  is refused and changes nothing.
\<close>

theorem routed_assignment_within_capacity:
  assumes "assignFromRouting later inp db = Some (r, db')"
    and "effectiveCapacityUnits (ai_principalId inp) db = Some units"
    and "list_all (\<lambda>r. 0 < rs_weight r) (db_reservations db)" and "ai_at inp \<le> t"
  shows "case r of
      Inr cid \<Rightarrow> heldWeight (ai_principalId inp) (ai_at inp) db' =
                   heldWeight (ai_principalId inp) (ai_at inp) db + ai_weight inp \<and>
                 heldWeight (ai_principalId inp) t db' \<le> units
    | Inl refusal \<Rightarrow> db' = db \<and>
        (refusal = AT_CAPACITY \<longleftrightarrow> heldWeight (ai_principalId inp) (ai_at inp) db + ai_weight inp > units)"
proof (cases r)
  case (Inl refusal)
  with assms(1,2) show ?thesis
    by (auto simp: assignFromRouting_def Let_def overCapacity_def elim!: bind_SomeE
        split: if_splits option.splits prod.splits)
next
  case (Inr cid)
  let ?who = "ai_principalId inp" and ?t = "ai_at inp"
  from assms(1)[unfolded Inr] show ?thesis
  proof (rule assignFromRouting_Inr)
    fix entry db1 ep db2 m and s :: ReservationRow
    assume ok: "\<not> overCapacity inp db"
      and cw: "claimWhere (\<lambda>e. qe_queue_entry_id e = ai_queueEntryId inp) ?who ?t db = Some (entry, db1)"
      and o: "openEpisodeIn \<lparr>oe_episodeId = ai_episodeId inp, oe_conversationId = cid,
           oe_caseId = qe_case_id entry, oe_ownerId = ?who, oe_assignmentSource = ROUTED,
           oe_at = ?t, oe_reason = Some (ai_reason inp), oe_assignedBy = None,
           oe_previousOwner = None\<rparr> db1 = Some (ep, db2)"
      and s: "s = reservationOf (ai_reservationId inp) ?who cid (ai_weight inp) ?t (later ?t (ai_ttlSeconds inp))"
      and v: "reservationValid s db2"
      and a: "advanceStateIn (ai_stateEpisodeId inp) (assignedState cid ?t None ''assigned by routing'')
        (setCaseOwner cid ?who (ensureOwnerParticipantIn cid ?who ?who ?t
          \<lparr>gb_actorId = None, gb_actorKind = ''SYSTEM'', gb_reason = ai_reason inp,
           gb_correlationId = (case ai_correlationId inp of Some c \<Rightarrow> c | None \<Rightarrow> cid)\<rparr>
          (db2\<lparr>db_reservations := db_reservations db2 @ [s]\<rparr>))) = Some (m, db')"
    have rs: "db_reservations db' = db_reservations db @ [s]"
      using advanceStateIn_frame(4)[OF a] openEpisode_frame(4)[OF o] claimWhere_frame(4)[OF cw]
      by (simp add: case_setters)
    from v s have live: "0 < ai_weight inp" "?t < rs_expires_at s"
      by (simp_all add: reservationValid_def reservationOf_def)
    have sum: "heldWeight ?who ?t db' = heldWeight ?who ?t db + ai_weight inp"
      using live by (simp add: heldWeight_def rs) (simp add: s reservationOf_def)
    have "list_all (\<lambda>r. 0 < rs_weight r) (db_reservations db')"
      using assms(3) live by (simp add: rs s reservationOf_def)
    from heldWeight_antimono[OF this assms(4), of ?who] sum ok assms(2) show ?thesis
      by (simp add: Inr overCapacity_def)
  qed
qed

definition routedInput :: "int \<Rightarrow> AssignInput" where
  "routedInput w =
     \<lparr>ai_queueEntryId = ''q1'', ai_principalId = ''emp-1'', ai_episodeId = ''o1'',
      ai_stateEpisodeId = ''s1'', ai_reservationId = ''r1'', ai_weight = w, ai_ttlSeconds = 900,
      ai_reason = ''best match'', ai_at = nine, ai_correlationId = None\<rparr>"

definition inAnHour :: "Timestamp \<Rightarrow> int \<Rightarrow> Timestamp" where
  "inAnHour t seconds = ten"

definition routedRun :: "int \<Rightarrow> ((AssignRefusal + UUID) \<times> RoutingDb) option" where
  "routedRun w = assignFromRouting inAnHour (routedInput w) routingDb"

theorem routed_assignment_within_capacity_witness:
  "(\<exists>cid db'. routedRun 4 = Some (Inr cid, db') \<and> heldWeight ''emp-1'' nine db' \<le> 4) \<and>
   (\<exists>db'. routedRun 5 = Some (Inl AT_CAPACITY, db') \<and> db' = routingDb)"
proof -
  have "case routedRun 4 of Some (Inr _, _) \<Rightarrow> True | _ \<Rightarrow> False" by code_simp
  then obtain cid db' where four: "routedRun 4 = Some (Inr cid, db')"
    by (auto split: option.splits prod.splits sum.splits)
  have "case routedRun 5 of Some (Inl f, _) \<Rightarrow> f = AT_CAPACITY | _ \<Rightarrow> False" by code_simp
  then obtain db2 where five: "routedRun 5 = Some (Inl AT_CAPACITY, db2)"
    by (auto split: option.splits prod.splits sum.splits)
  have cap: "effectiveCapacityUnits ''emp-1'' routingDb = Some 4" by code_simp
  have rs: "list_all (\<lambda>r. 0 < rs_weight r) (db_reservations routingDb)" by (simp add: routingDb_def)
  have i: "ai_principalId (routedInput w) = ''emp-1''" "ai_at (routedInput w) = nine" for w
    by (simp_all add: routedInput_def)
  note t = routed_assignment_within_capacity[of inAnHour "routedInput w" routingDb _ _ 4 nine for w, unfolded i]
  from t[OF four[unfolded routedRun_def] cap rs] t[OF five[unfolded routedRun_def] cap rs] four five
  show ?thesis by auto
qed

section \<open>Claiming an entry twice\<close>

text \<open>Idempotency records are only ever added.\<close>

definition keepsRecords :: "RoutingDb \<Rightarrow> RoutingDb \<Rightarrow> bool" where
  "keepsRecords db db' \<longleftrightarrow>
     (\<exists>xs. db_idempotency_records db' = db_idempotency_records db @ xs)"

lemma keepsRecords_same: "db_idempotency_records db' = db_idempotency_records db \<Longrightarrow> keepsRecords db db'"
  by (simp add: keepsRecords_def)

lemma keepsRecords_trans: "keepsRecords a b \<Longrightarrow> keepsRecords b c \<Longrightarrow> keepsRecords a c"
  by (auto simp: keepsRecords_def)

lemma records_frame:
  "claimWhere p who t db = Some (entry, db1) \<Longrightarrow> db_idempotency_records db1 = db_idempotency_records db"
  "openEpisodeIn oe db = Some (ep, db1) \<Longrightarrow> db_idempotency_records db1 = db_idempotency_records db"
  "reassign ri e corr db = Some (ep, db1) \<Longrightarrow> db_idempotency_records db1 = db_idempotency_records db"
  by (auto elim!: claimWhere_Some openEpisodeIn_Some bind_SomeE
      simp: reassign_def Let_def closeEpisode_def demotePrevious_def demote_def case_setters
      split: if_splits option.splits)

lemma records_ports:
  "dp_grantCover (commandDeps ids) gc st = Some (g, st') \<Longrightarrow> db_idempotency_records st' = db_idempotency_records st"
  "dp_raiseEscalationLevel (commandDeps ids) cid why now st = Some (n, st') \<Longrightarrow>
     db_idempotency_records st' = db_idempotency_records st"
  "dp_reassign (commandDeps ids) inp st = Some (e, st') \<Longrightarrow> db_idempotency_records st' = db_idempotency_records st"
  "auditThen (commandDeps ids) entry r st = (out, st') \<Longrightarrow> db_idempotency_records st' = db_idempotency_records st"
  by (auto simp: commandDeps_def grantCover_def raiseEscalationLevel_def Let_def auditThen_def
      recordAudit_def dest: records_frame split: if_splits)

lemma command_records:
  "cover (commandDeps ids) cvr db = (out, db') \<Longrightarrow> db_idempotency_records db' = db_idempotency_records db"
  "transfer (commandDeps ids) ho db = (out, db') \<Longrightarrow> db_idempotency_records db' = db_idempotency_records db"
  "escalate (commandDeps ids) ho db = (out', db') \<Longrightarrow> db_idempotency_records db' = db_idempotency_records db"
  "reassignOnExit (commandDeps ids) ho db = (out'', db') \<Longrightarrow> db_idempotency_records db' = db_idempotency_records db"
  by (auto simp: command_defs elim!: await_state dest!: records_ports split: if_splits option.splits)

lemma claim_refused:
  "claimConversation cl cid db = Some (Inl f, db') \<Longrightarrow> db' = db"
  "claimNextFromQueue locked cl team db = Some (Inl f, db') \<Longrightarrow> db' = db"
  "assignFromRouting later ai db = Some (Inl f', db') \<Longrightarrow> db' = db"
  by (auto simp: claimConversation_def claimNextFromQueue_def assignFromRouting_def Let_def
      elim!: bind_SomeE split: option.splits prod.splits if_splits)

lemmas records_rules = records_frame(1,2) advanceStateIn_frame(5)

lemma claimConversation_records:
  assumes "claimConversation cl cid db = Some (r, db')"
  shows "db_idempotency_records db' = db_idempotency_records db"
proof (cases r)
  case (Inr ep)
  from assms[unfolded Inr] show ?thesis
    by (rule claimConversation_Inr) ((drule records_rules)+, simp add: case_setters)
qed (use assms in \<open>auto dest: claim_refused\<close>)

lemma claimNext_records:
  assumes "claimNextFromQueue locked cl team db = Some (r, db')"
  shows "db_idempotency_records db' = db_idempotency_records db"
proof (cases r)
  case (Inr ep)
  from assms[unfolded Inr] show ?thesis
    by (rule claimNext_Inr) ((drule records_rules)+, simp)
qed (use assms in \<open>auto dest: claim_refused\<close>)

lemma assign_records:
  assumes "assignFromRouting later ai db = Some (r, db')"
  shows "db_idempotency_records db' = db_idempotency_records db"
proof (cases r)
  case (Inr ep)
  from assms[unfolded Inr] show ?thesis
    by (rule assignFromRouting_Inr) ((drule records_rules)+, simp add: case_setters)
qed (use assms in \<open>auto dest: claim_refused\<close>)

lemma enqueue_records:
  assumes "enqueue e inp db = Some db'"
  shows "db_idempotency_records db' = db_idempotency_records db"
  using assms
  by (auto simp: enqueue_def Let_def appendOutboxIn_iff elim!: bind_SomeE dest!: advanceStateIn_frame(5)
      split: if_splits)

lemmas claims_records = claimConversation_records claimNext_records assign_records enqueue_records

lemma claimEntry_records:
  assumes "claimQueueEntry later cl qid key rid db = Some (r, db')"
  shows "keepsRecords db db'"
  using assms
  by (auto simp: claimQueueEntry_def Let_def keepsRecords_def elim!: bind_SomeE dest!: records_frame
      split: option.splits prod.splits if_splits)

lemma routingStep_records: "routingStep l db db' \<Longrightarrow> keepsRecords db db'"
  by (induction rule: routingStep.induct)
     (auto dest: command_records claims_records claimEntry_records records_frame(3) intro: keepsRecords_same)

text \<open>
  a claim of a queue entry can be retried. However many steps later, repeating the claim with its
  idempotency key reports the same conversation and the same reservation, marked as a replay, and
  changes nothing, even though the entry is no longer waiting.
\<close>

theorem entry_claim_retry_replays:
  assumes "claimQueueEntry later inp qid key rid db = Some (ClaimedEntry cid r dup, db1)"
    and "(\<lambda>a b. \<exists>l. routingStep l a b)\<^sup>*\<^sup>* db1 db2"
  shows "claimQueueEntry later2 inp2 qid key rid2 db2 = Some (ClaimedEntry cid r True, db2)"
proof -
  let ?hit = "\<lambda>i. ir_scope i = claimScope qid \<and> ir_key i = key"
  have first: "\<exists>i. find ?hit (db_idempotency_records db1) = Some i \<and> ir_conversationId i = cid \<and> ir_reservationId i = r"
  proof (cases "find ?hit (db_idempotency_records db)")
    case (Some i)
    with assms(1) show ?thesis by (auto simp: claimQueueEntry_def)
  next
    case None
    then have "dup = False" using assms(1)
      by (auto simp: claimQueueEntry_def Let_def elim!: bind_SomeE split: option.splits prod.splits if_splits)
    from assms(1)[unfolded this] show ?thesis
      by (rule claimQueueEntry_new) (simp add: find_append_miss None)
  qed
  have "keepsRecords db1 db2"
    using assms(2)
    by (induction rule: rtranclp_induct)
       (auto intro: keepsRecords_same keepsRecords_trans dest: routingStep_records)
  then obtain xs where "db_idempotency_records db2 = db_idempotency_records db1 @ xs"
    by (auto simp: keepsRecords_def)
  with first show ?thesis by (auto simp: claimQueueEntry_def find_isSome_append)
qed

definition entryRun :: "(ClaimEntryResult \<times> RoutingDb) option" where
  "entryRun = claimQueueEntry inAnHour (claimBy ''emp-1'' ''o1'' nine) ''q1'' ''key-1'' ''r1'' routingDb"

theorem entry_claim_retry_replays_witness:
  "\<exists>db1. entryRun = Some (ClaimedEntry ''c1'' ''r1'' False, db1) \<and>
     claimQueueEntry inAnHour (claimBy ''emp-1'' ''o2'' ten) ''q1'' ''key-1'' ''r2''
       (snd (transfer (commandDeps requestIds) handOver db1)) =
       Some (ClaimedEntry ''c1'' ''r1'' True, snd (transfer (commandDeps requestIds) handOver db1))"
proof -
  have "case entryRun of Some (x, _) \<Rightarrow> x = ClaimedEntry ''c1'' ''r1'' False | _ \<Rightarrow> False" by code_simp
  then obtain db1 where e: "entryRun = Some (ClaimedEntry ''c1'' ''r1'' False, db1)"
    by (auto split: option.splits prod.splits)
  have "routingStep None db1 (snd (transfer (commandDeps requestIds) handOver db1))"
    by (rule routingStep.transfer[where out = "fst (transfer (commandDeps requestIds) handOver db1)"]) simp
  then have "(\<lambda>a b. \<exists>l. routingStep l a b)\<^sup>*\<^sup>* db1 (snd (transfer (commandDeps requestIds) handOver db1))"
    by (intro r_into_rtranclp) auto
  from entry_claim_retry_replays[OF e[unfolded entryRun_def] this] e show ?thesis by blast
qed

section \<open>The reply right at a hand-over\<close>

lemma demote_find:
  assumes "find (\<lambda>p. pa_conversation_id p = cid \<and> pa_principal_id p = who)
      (updateWhere (\<lambda>r. pa_conversation_id r = cid \<and> pa_principal_id r = who \<and> pa_effective_to r = None)
        (\<lambda>r. r\<lparr>pa_role := ''PARTICIPANT'', pa_reply_authority := False\<rparr>) ps) = Some p"
    and "pa_effective_to p = None"
  shows "\<not> pa_reply_authority p"
proof -
  let ?P = "\<lambda>p. pa_conversation_id p = cid \<and> pa_principal_id p = who"
  let ?g = "\<lambda>r. if pa_conversation_id r = cid \<and> pa_principal_id r = who \<and> pa_effective_to r = None
     then r\<lparr>pa_role := ''PARTICIPANT'', pa_reply_authority := False\<rparr> else r"
  have "map_option ?g (find ?P ps) = Some p" using assms(1) by (simp add: find_updateWhere)
  then obtain q where q: "find ?P ps = Some q" and p: "p = ?g q" by blast
  from find_SomeD[OF q] assms(2) show ?thesis unfolding p by (auto split: if_splits)
qed

lemma demoted_find:
  assumes "find (\<lambda>p. pa_conversation_id p = cid \<and> pa_principal_id p = who)
      (demotedPrevious cid next (Some who) ps) = Some p"
    and "who \<noteq> next" and "pa_effective_to p = None"
  shows "\<not> pa_reply_authority p"
  using assms demote_find[of cid who ps p] by (simp add: demotedPrevious_def)

lemma demoted_find_other:
  assumes "prev \<noteq> Some who"
  shows "find (\<lambda>p. pa_conversation_id p = cid \<and> pa_principal_id p = who) (demotedPrevious cid next prev ps) =
    find (\<lambda>p. pa_conversation_id p = cid \<and> pa_principal_id p = who) ps"
proof (cases prev)
  case (Some q)
  have "find (\<lambda>p. pa_conversation_id p = cid \<and> pa_principal_id p = who)
      (updateWhere (\<lambda>r. pa_conversation_id r = cid \<and> pa_principal_id r = q \<and> pa_effective_to r = None)
        (\<lambda>r. r\<lparr>pa_role := ''PARTICIPANT'', pa_reply_authority := False\<rparr>) ps) =
    find (\<lambda>p. pa_conversation_id p = cid \<and> pa_principal_id p = who) ps"
    using assms Some by (induction ps) (auto simp: updateWhere_def)
  with Some show ?thesis by (simp add: demotedPrevious_def)
qed (simp add: demotedPrevious_def)

text \<open>
  the reply right moves with the conversation. After a reassignment the new owner is a live owner-participant with
  the reply right; a previous owner who stays a live participant no longer holds it; and the
  participation of everyone else in the conversation is as it was.
\<close>

theorem hand_over_moves_the_reply_right:
  assumes "reassign inp e corr db = Some (ep, db')"
    and "map_option ow_owner_id (currentOwner (ri_conversationId inp) db) = prev"
  shows "liveOwnerRow (ri_conversationId inp) (ri_toOwner inp) db' \<and>
    (prev = Some who \<and> who \<noteq> ri_toOwner inp \<longrightarrow>
       (case loadParticipant (ri_conversationId inp) who db' of
          None \<Rightarrow> True | Some p \<Rightarrow> pr_effectiveTo p = None \<longrightarrow> \<not> pr_replyAuthority p)) \<and>
    (prev \<noteq> Some who \<and> who \<noteq> ri_toOwner inp \<longrightarrow>
       loadParticipant (ri_conversationId inp) who db' = loadParticipant (ri_conversationId inp) who db)"
  using assms(1)
proof (rule reassign_Some)
  let ?cid = "ri_conversationId inp" and ?next = "ri_toOwner inp"
  assume "db_participants db' = upsertOwner ?cid ?next (ri_assignedBy inp) (ri_at inp)
      (demotedPrevious ?cid ?next (map_option ow_owner_id (find (isLiveOf ?cid) (db_ownership_episodes db)))
        (db_participants db))"
  then have ps: "db_participants db' = upsertOwner ?cid ?next (ri_assignedBy inp) (ri_at inp)
      (demotedPrevious ?cid ?next prev (db_participants db))"
    using assms(2) by (simp add: currentOwner_isLive)
  then have "liveOwnerRow ?cid ?next db'" by (rule liveOwnerRow_upsert)
  moreover have "loadParticipant ?cid who db' = loadParticipant ?cid who (db\<lparr>db_participants :=
      demotedPrevious ?cid ?next prev (db_participants db)\<rparr>)" if "who \<noteq> ?next"
    using that by (simp add: loadParticipant_def ps upsertOwner_find_other)
  moreover have "case loadParticipant ?cid who (db\<lparr>db_participants :=
      demotedPrevious ?cid ?next prev (db_participants db)\<rparr>) of
      None \<Rightarrow> True | Some p \<Rightarrow> pr_effectiveTo p = None \<longrightarrow> \<not> pr_replyAuthority p"
    if "prev = Some who" "who \<noteq> ?next"
    using demoted_find[OF _ that(2)] that(1) by (auto simp: loadParticipant_def split: option.split)
  moreover have "loadParticipant ?cid who (db\<lparr>db_participants :=
      demotedPrevious ?cid ?next prev (db_participants db)\<rparr>) = loadParticipant ?cid who db"
    if "prev \<noteq> Some who"
    using demoted_find_other[OF that] by (simp add: loadParticipant_def)
  ultimately show ?thesis by auto
qed

theorem hand_over_moves_the_reply_right_witness:
  "\<exists>db'. liveOwnerRow ''c1'' ''emp-2'' db' \<and>
     (case loadParticipant ''c1'' ''emp-1'' db' of None \<Rightarrow> False | Some p \<Rightarrow> \<not> pr_replyAuthority p)"
proof -
  obtain ep db' where r: "reassign reassignInp ''o2'' None claimedDb = Some (ep, db')"
    using reassigned_run by blast
  have prev: "map_option ow_owner_id (currentOwner (ri_conversationId reassignInp) claimedDb) = Some ''emp-1''"
    by code_simp
  have "case reassign reassignInp ''o2'' None claimedDb of None \<Rightarrow> False | Some (_, d) \<Rightarrow>
      (case loadParticipant ''c1'' ''emp-1'' d of None \<Rightarrow> False | Some p \<Rightarrow> pr_effectiveTo p = None)"
    by code_simp
  then have live: "case loadParticipant ''c1'' ''emp-1'' db' of None \<Rightarrow> False | Some p \<Rightarrow> pr_effectiveTo p = None"
    by (simp add: r)
  have i: "ri_conversationId reassignInp = ''c1''" "ri_toOwner reassignInp = ''emp-2''"
    by (simp_all add: reassignInp_def reassignmentOf_def handOver_def)
  from hand_over_moves_the_reply_right[OF r prev, of "''emp-1''"] live show ?thesis
    by (auto simp: i split: option.splits)
qed

section \<open>What each command moves\<close>




















section \<open>The worth of a cover\<close>

text \<open>The actor as the authorization reader builds it for a conversation at an instant.\<close>

definition withLoadedGrants :: "UUID \<Rightarrow> UUID \<Rightarrow> RoutingDb \<Rightarrow> DecisionRequest \<Rightarrow> DecisionRequest" where
  "withLoadedGrants cid who db q =
     q\<lparr>q_actor := (q_actor q)\<lparr>a_temporaryGrants := loadTemporaryGrants cid who (q_now q) db\<rparr>\<rparr>"

lemma decide_temporary_known:
  assumes "\<And>q'. find (temporaryMatches q') gs = find (temporaryMatches q') gs' \<or> \<not> isKnownAction (q_action q')"
  shows "decide (q\<lparr>q_actor := (q_actor q)\<lparr>a_temporaryGrants := gs\<rparr>\<rparr>) =
         decide (q\<lparr>q_actor := (q_actor q)\<lparr>a_temporaryGrants := gs'\<rparr>\<rparr>)"
proof (cases "isKnownAction (q_action q)")
  case True
  let ?a = "q\<lparr>q_actor := (q_actor q)\<lparr>a_temporaryGrants := gs\<rparr>\<rparr>"
  let ?b = "q\<lparr>q_actor := (q_actor q)\<lparr>a_temporaryGrants := gs'\<rparr>\<rparr>"
  have tm: "temporaryMatches ?a = temporaryMatches q" "temporaryMatches ?b = temporaryMatches q"
    by (simp_all add: temporaryMatches_def fun_eq_iff)
  have "find (temporaryMatches q) gs = find (temporaryMatches q) gs'" using assms True by blast
  then have t: "temporaryRung ?a = temporaryRung ?b"
    by (simp add: temporaryRung_def tm privilegedAction_def)
  have sc: "scopeCovers k i ((q_actor q)\<lparr>a_temporaryGrants := g\<rparr>) r = scopeCovers k i (q_actor q) r" for k i g r
    by (simp add: scopeCovers_def split: ScopeKind.split option.split)
  have own: "isOwner ?a = isOwner ?b" "isLiveParticipant ?a = isLiveParticipant ?b"
    "privilegedAction ?a = privilegedAction ?b"
    by (simp_all add: isOwner_def isLiveParticipant_def privilegedAction_def split: option.split)
  have sel: "q_action ?a = q_action ?b" "q_resource ?a = q_resource ?b" by simp_all
  have tests: "auditGrant ?a = auditGrant ?b" "delegationMatches ?a = delegationMatches ?b"
    "grantMatches ?a = grantMatches ?b"
    by (simp_all add: auditGrant_def delegationMatches_def grantMatches_def sc fun_eq_iff)
  have pass: "passesSensitivity (q_actor ?a) (q_resource ?a) (q_now ?a) =
      passesSensitivity (q_actor ?b) (q_resource ?b) (q_now ?b)"
    by (simp add: passesSensitivity_def sc)
  have "auditRung ?a = auditRung ?b" unfolding auditRung_def own tests by simp
  moreover have "ownerRung ?a = ownerRung ?b" unfolding ownerRung_def own by simp
  moreover have "channelRung ?a = channelRung ?b" unfolding channelRung_def own t by simp
  moreover have "participantRung ?a = participantRung ?b" unfolding participantRung_def own sel ..
  moreover have "privateRung ?a = privateRung ?b" unfolding privateRung_def own by simp
  moreover have "delegationRung ?a = delegationRung ?b" unfolding delegationRung_def own tests pass by simp
  moreover have "grantRung ?a = grantRung ?b" unfolding grantRung_def own tests pass by simp
  ultimately show ?thesis
    unfolding decide_def decideEmployee_def t own decideCustomer_def by simp
qed (simp add: decide_def)

lemma cover_capability_unknown: "\<not> isKnownAction COVER_CAPABILITY"
  by code_simp

lemma loaded_after_cover:
  assumes "cover (commandDeps ids) cmd db = (out, db')"
  shows "\<exists>gs. loadTemporaryGrants cid who now db' = loadTemporaryGrants cid who now db @ gs \<and>
    list_all (\<lambda>g. t_capability g = COVER_CAPABILITY) gs"
proof -
  have conv: "findConversation cid db' = findConversation cid db"
    using assms by (auto simp: command_defs commandDeps_def grantCover_def recordAudit_def auditThen_def
        elim!: await_state split: if_splits option.splits)
  have "db_access_grants db' = db_access_grants db \<or>
      db_access_grants db' = db_access_grants db @ [accessGrantOf (rq_grantId ids) (coverGrant cmd)]"
    using assms by (auto simp: command_defs commandDeps_def grantCover_def recordAudit_def auditThen_def
        elim!: await_state split: if_splits option.splits)
  then show ?thesis
    by (auto simp: loadTemporaryGrants_def conv accessGrantOf_def coverGrant_def)
qed

text \<open>
  a granted cover grants nothing. Whatever cover command runs, with whatever outcome, no decision on
  any request changes: neither of the coverer nor of anybody else, on any action, at
  any instant of the cover. The capability the command writes is not an action.
\<close>

theorem cover_changes_no_decision:
  "decide (withLoadedGrants cid who (snd (cover (commandDeps ids) cmd db)) q) =
   decide (withLoadedGrants cid who db q)"
proof -
  obtain out db' where c: "cover (commandDeps ids) cmd db = (out, db')" by (cases "cover (commandDeps ids) cmd db")
  from loaded_after_cover[OF c, of cid who "q_now q"] obtain gs
    where l: "loadTemporaryGrants cid who (q_now q) db' = loadTemporaryGrants cid who (q_now q) db @ gs"
      and g: "list_all (\<lambda>g. t_capability g = COVER_CAPABILITY) gs" by auto
  have "find (temporaryMatches q') (xs @ gs) = find (temporaryMatches q') xs \<or> \<not> isKnownAction (q_action q')"
    for q' xs
  proof (cases "isKnownAction (q_action q')")
    case True
    then have "q_action q' \<noteq> COVER_CAPABILITY" using cover_capability_unknown by auto
    then have "find (temporaryMatches q') gs = None"
      using g by (auto simp: find_None_iff temporaryMatches_def list_all_iff)
    then show ?thesis
      by (cases "find (temporaryMatches q') xs") (simp_all add: find_append_miss find_isSome_append)
  qed simp
  from decide_temporary_known[OF this] show ?thesis by (simp add: withLoadedGrants_def c l)
qed

end
