(* ===== verification/Js_Date.thy ===== *)
theory Js_Date
  imports Primitives
begin

text \<open>
  The date arithmetic of the ECMAScript standard that the program relies on: \<open>Date.UTC\<close>,
  \<open>getUTCDay\<close>, \<open>toISOString\<close> and \<open>Date.parse\<close> on its output, on the proleptic Gregorian calendar. An
  instant is an integer of milliseconds since 1970-01-01T00:00Z and a day an integer of days.

  Two facts the whole program leans on are proved here: the text of an instant parses back to the
  instant, and for the years 0 to 9999 the texts are ordered as the instants are, which is what makes it sound to compare timestamps as strings.
\<close>

definition msPerDay :: int where "msPerDay = 86400000"

section \<open>Years, months and days\<close>

text \<open>\<open>DayFromYear\<close>, \<open>InLeapYear\<close>, \<open>YearFromTime\<close> and the month table of the standard.\<close>

definition dayFromYear :: "int \<Rightarrow> int" where
  "dayFromYear y = 365 * (y - 1970) + (y - 1969) div 4 - (y - 1901) div 100 + (y - 1601) div 400"

definition leapYear :: "int \<Rightarrow> bool" where
  "leapYear y \<longleftrightarrow> y mod 4 = 0 \<and> (y mod 100 \<noteq> 0 \<or> y mod 400 = 0)"

lemma div_step:
  fixes x n :: int
  assumes "0 < n"
  shows "(x + 1) div n = x div n + (if (x + 1) mod n = 0 then 1 else 0)"
proof -
  have x: "x = n * (x div n) + x mod n" by simp
  show ?thesis
  proof (cases "x mod n + 1 = n")
    case True
    with x have "x + 1 = n * (x div n + 1)" unfolding distrib_left mult_1_right by linarith
    with assms show ?thesis by simp
  next
    case False
    with assms pos_mod_bound[of n x] have r: "0 \<le> x mod n + 1" "x mod n + 1 < n" "x mod n + 1 \<noteq> 0"
      using pos_mod_sign[of n x] by linarith+
    have "x + 1 = n * (x div n) + (x mod n + 1)" using x by linarith
    then have "(x + 1) div n = x div n" "(x + 1) mod n = x mod n + 1"
      using r int_div_pos_eq[of "x + 1" n] int_mod_pos_eq[of "x + 1" n] by blast+
    with r show ?thesis by simp
  qed
qed

lemma mod_dvd_zero:
  fixes y m n :: int
  assumes "y mod n = 0" and "m dvd n"
  shows "y mod m = 0"
  using dvd_trans[OF assms(2), of y] assms(1) by (simp only: dvd_eq_mod_eq_0)

lemma year_sum:
  fixes a b c i j k l x :: int
  assumes "i - j + k = l"
  shows "365 * (x + 1 - 1970) + (a + i) - (b + j) + (c + k) = 365 * (x - 1970) + a - b + c + (365 + l)"
  using assms by simp

lemma leap_count:
  assumes "R \<Longrightarrow> Q" and "Q \<Longrightarrow> P"
  shows "(if P then 1 else 0) - (if Q then 1 else 0) + (if R then 1 else 0) =
    (if P \<and> (\<not> Q \<or> R) then 1 else (0::int))"
  using assms by (cases P; cases Q; cases R) auto

lemma dayFromYear_Suc: "dayFromYear (y + 1) = dayFromYear y + (if leapYear y then 366 else 365)"
proof -
  have e: "y - 1968 = y + 4 * (- 492)" "y - 1900 = y + 100 * (- 19)" "y - 1600 = y + 400 * (- 4)"
    by simp_all
  have m: "(y - 1968) mod 4 = y mod 4" "(y - 1900) mod 100 = y mod 100" "(y - 1600) mod 400 = y mod 400"
    unfolding e by (simp_all only: mod_mult_self2)
  have p: "y - 1969 + 1 = y - 1968" "y - 1901 + 1 = y - 1900" "y - 1601 + 1 = y - 1600" by simp_all
  have s: "(y - 1968) div 4 = (y - 1969) div 4 + (if y mod 4 = 0 then 1 else 0)"
    "(y - 1900) div 100 = (y - 1901) div 100 + (if y mod 100 = 0 then 1 else 0)"
    "(y - 1600) div 400 = (y - 1601) div 400 + (if y mod 400 = 0 then 1 else 0)"
    using div_step[of 4 "y - 1969"] div_step[of 100 "y - 1901"] div_step[of 400 "y - 1601"]
    unfolding p m by (simp_all only: zero_less_numeral simp_thms)
  have q: "y + 1 - 1969 = y - 1968" "y + 1 - 1901 = y - 1900" "y + 1 - 1601 = y - 1600" by simp_all
  have "(if y mod 4 = 0 then 1 else 0) - (if y mod 100 = 0 then 1 else 0) +
      (if y mod 400 = 0 then 1 else (0::int)) = (if leapYear y then 1 else 0)"
    unfolding leapYear_def
    by (rule leap_count; erule mod_dvd_zero; simp only: dvd_numeral_simp; simp)
  note year_sum[OF this, of y "(y - 1969) div 4" "(y - 1901) div 100" "(y - 1601) div 400"]
  moreover have "365 + (if leapYear y then 1 else 0) = (if leapYear y then 366 else (365::int))" by simp
  ultimately show ?thesis unfolding dayFromYear_def q s by (simp only:)
qed

lemma dayFromYear_less: "dayFromYear y < dayFromYear (y + 1)"
  by (simp add: dayFromYear_Suc)

lemma dayFromYear_mono: "y \<le> z \<Longrightarrow> dayFromYear y \<le> dayFromYear z"
  by (induction z rule: int_ge_induct) (use dayFromYear_less less_imp_le order_trans in blast)+

function yearFrom :: "int \<Rightarrow> int \<Rightarrow> int" where
  "yearFrom d y = (if dayFromYear (y + 1) \<le> d then yearFrom d (y + 1) else y)"
  by auto

termination
proof (relation "measure (\<lambda>(d, y). nat (d - dayFromYear y))", goal_cases)
  case (2 d y)
  with dayFromYear_less[of y] show ?case by simp
qed simp

declare yearFrom.simps [simp del]

definition yearFromDay :: "int \<Rightarrow> int" where
  "yearFromDay d = yearFrom d (1969 + (d * 400) div 146097)"

lemma yearFrom_bounds:
  "dayFromYear y \<le> d \<Longrightarrow> dayFromYear (yearFrom d y) \<le> d \<and> d < dayFromYear (yearFrom d y + 1)"
proof (induction d y rule: yearFrom.induct)
  case (1 d y)
  then show ?case by (subst (1 2) yearFrom.simps) auto
qed

lemma yearFromDay_start: "dayFromYear (1969 + (d * 400) div 146097) \<le> d"
proof -
  define q where "q = (d * 400) div 146097"
  have q: "146097 * q \<le> d * 400" using mult_div_mod_eq[of 146097 "d * 400"] pos_mod_sign[of 146097 "d * 400"]
    unfolding q_def by linarith
  obtain a b c where abc: "a = q div 4" "b = (q + 68) div 100" "c = (q + 368) div 400" by simp
  have "4 * a \<le> q" unfolding abc using mult_div_mod_eq[of 4 q] pos_mod_sign[of 4 q] by simp
  moreover have "q + 68 < 100 * b + 100"
    unfolding abc using mult_div_mod_eq[of 100 "q + 68"] pos_mod_bound[of 100 "q + 68"] by simp
  moreover have "400 * c \<le> q + 368"
    unfolding abc using mult_div_mod_eq[of 400 "q + 368"] pos_mod_sign[of 400 "q + 368"] by simp
  moreover have "dayFromYear (1969 + q) = 365 * (q - 1) + a - b + c"
    by (simp add: dayFromYear_def abc algebra_simps)
  ultimately have "400 * dayFromYear (1969 + q) \<le> 400 * d" using q by simp
  then show ?thesis unfolding q_def[symmetric] by simp
qed

lemma yearFromDay_bounds: "dayFromYear (yearFromDay d) \<le> d \<and> d < dayFromYear (yearFromDay d + 1)"
  unfolding yearFromDay_def by (rule yearFrom_bounds[OF yearFromDay_start])

lemma yearFromDay_unique:
  assumes "dayFromYear y \<le> d" and "d < dayFromYear (y + 1)"
  shows "yearFromDay d = y"
proof (rule ccontr)
  assume "yearFromDay d \<noteq> y"
  then consider "yearFromDay d + 1 \<le> y" | "y + 1 \<le> yearFromDay d" by linarith
  then show False
    by cases (use yearFromDay_bounds[of d] assms dayFromYear_mono in fastforce)+
qed

lemma yearFromDay_mono: "d \<le> d' \<Longrightarrow> yearFromDay d \<le> yearFromDay d'"
proof (rule ccontr)
  assume "d \<le> d'" and "\<not> yearFromDay d \<le> yearFromDay d'"
  then have "dayFromYear (yearFromDay d' + 1) \<le> dayFromYear (yearFromDay d)"
    by (intro dayFromYear_mono) simp
  with yearFromDay_bounds[of d] yearFromDay_bounds[of d'] \<open>d \<le> d'\<close> show False by linarith
qed

definition monthLengths :: "bool \<Rightarrow> int list" where
  "monthLengths leap = [31, if leap then 29 else 28, 31, 30, 31, 30, 31, 31, 30, 31, 30, 31]"

fun splitMonth :: "int list \<Rightarrow> int \<Rightarrow> int \<times> int" where
  "splitMonth [] k = (0, k)"
| "splitMonth (l # ls) k =
     (if k < l then (0, k) else let (m, d) = splitMonth ls (k - l) in (m + 1, d))"

lemma splitMonth_bounds:
  assumes "0 \<le> k" and "k < sum_list ls" and "splitMonth ls k = (m, d)"
  shows "0 \<le> m \<and> nat m < length ls \<and> 0 \<le> d \<and> d < ls ! nat m \<and> sum_list (take (nat m) ls) + d = k"
  using assms
proof (induction ls arbitrary: k m)
  case (Cons l ls)
  show ?case
  proof (cases "k < l")
    case False
    with Cons.prems obtain m' where r: "splitMonth ls (k - l) = (m', d)" and m: "m = m' + 1"
      by (auto split: prod.splits)
    from Cons.IH[OF _ _ r] Cons.prems False
    have "0 \<le> m' \<and> nat m' < length ls \<and> 0 \<le> d \<and> d < ls ! nat m' \<and> sum_list (take (nat m') ls) + d = k - l"
      by simp
    moreover from this have "nat m = Suc (nat m')" using m by (auto simp: Suc_nat_eq_nat_zadd1)
    ultimately show ?thesis using m by simp
  qed (use Cons.prems in auto)
qed simp

lemma splitMonth_mono:
  assumes "k < k'" and "splitMonth ls k = (m, d)" and "splitMonth ls k' = (m', d')" and "0 \<le> k"
    and "k' < sum_list ls"
  shows "m < m' \<or> m = m' \<and> d < d'"
  using assms
proof (induction ls arbitrary: k k' m m')
  case (Cons l ls)
  show ?case
  proof (cases "k < l")
    case True
    show ?thesis
    proof (cases "k' < l")
      case False
      then obtain m0 where "splitMonth ls (k' - l) = (m0, d')" "m' = m0 + 1"
        using Cons.prems by (auto split: prod.splits)
      with splitMonth_bounds[of "k' - l" ls m0 d'] Cons.prems False True show ?thesis by simp
    qed (use True Cons.prems in auto)
  next
    case False
    then obtain m0 m1 where "splitMonth ls (k - l) = (m0, d)" "m = m0 + 1"
      "splitMonth ls (k' - l) = (m1, d')" "m' = m1 + 1"
      using Cons.prems by (auto split: prod.splits if_splits)
    with Cons.IH[of "k - l" "k' - l" m0 m1] Cons.prems False show ?thesis by auto
  qed
qed simp

definition civilFromDay :: "int \<Rightarrow> int \<times> int \<times> int" where
  "civilFromDay d =
     (let y = yearFromDay d;
          (m, k) = splitMonth (monthLengths (leapYear y)) (d - dayFromYear y)
      in (y, m + 1, k + 1))"

text \<open>
  \<open>MakeDay\<close>, a month or a day out of range carrying over, and \<open>Date.UTC(y, m - 1, d)\<close> in days, where
  the years 0 to 99 stand for 1900 to 1999.
\<close>

definition makeDay :: "int \<Rightarrow> int \<Rightarrow> int \<Rightarrow> int" where
  "makeDay y m d =
     (let ym = y + (m - 1) div 12
      in dayFromYear ym + sum_list (take (nat ((m - 1) mod 12)) (monthLengths (leapYear ym))) + (d - 1))"

definition dayOfDate :: "int \<Rightarrow> int \<Rightarrow> int \<Rightarrow> int" where
  "dayOfDate y m d = makeDay (if 0 \<le> y \<and> y \<le> 99 then 1900 + y else y) m d"

lemma monthLengths_sum: "sum_list (monthLengths leap) = (if leap then 366 else 365)"
  by (simp add: monthLengths_def)

lemma monthLengths_length [simp]: "length (monthLengths leap) = 12"
  by (simp add: monthLengths_def)

lemma monthLengths_le: "m < 12 \<Longrightarrow> monthLengths leap ! m \<le> 31"
proof -
  have "list_all (\<lambda>l. l \<le> 31) (monthLengths leap)" by (simp add: monthLengths_def)
  then show "m < 12 \<Longrightarrow> monthLengths leap ! m \<le> 31" by (simp add: list_all_length)
qed

lemma civilFromDay_bounds:
  assumes "civilFromDay d = (y, m, k)"
  shows "y = yearFromDay d \<and> 1 \<le> m \<and> m \<le> 12 \<and> 1 \<le> k \<and> k \<le> 31 \<and>
    dayFromYear y + sum_list (take (nat (m - 1)) (monthLengths (leapYear y))) + (k - 1) = d"
proof -
  let ?ls = "monthLengths (leapYear (yearFromDay d))" and ?k = "d - dayFromYear (yearFromDay d)"
  obtain m0 k0 where s: "splitMonth ?ls ?k = (m0, k0)" by (cases "splitMonth ?ls ?k")
  have "0 \<le> ?k" "?k < sum_list ?ls"
    using yearFromDay_bounds[of d] by (auto simp: monthLengths_sum dayFromYear_Suc split: if_splits)
  from splitMonth_bounds[OF this s] have b: "0 \<le> m0" "nat m0 < 12" "0 \<le> k0" "k0 < ?ls ! nat m0"
    "sum_list (take (nat m0) ?ls) + k0 = ?k" by auto
  moreover have "?ls ! nat m0 \<le> 31" using b(2) by (rule monthLengths_le)
  moreover have "y = yearFromDay d" "m = m0 + 1" "k = k0 + 1"
    using assms s by (auto simp: civilFromDay_def Let_def)
  ultimately show ?thesis by auto
qed

lemma makeDay_civil:
  assumes "civilFromDay d = (y, m, k)"
  shows "makeDay y m (k + n) = d + n"
proof -
  note b = civilFromDay_bounds[OF assms(1)]
  then have "(m - 1) div 12 = 0" "(m - 1) mod 12 = m - 1"
    by (simp_all add: div_pos_pos_trivial mod_pos_pos_trivial)
  with b show ?thesis by (auto simp: makeDay_def Let_def)
qed

lemma dayOfDate_civil:
  "civilFromDay d = (y, m, k) \<Longrightarrow> 100 \<le> y \<Longrightarrow> dayOfDate y m (k + n) = d + n"
  by (simp add: dayOfDate_def makeDay_civil)

lemma civilFromDay_mono:
  assumes "d < d'" and "civilFromDay d = (y, m, k)" and "civilFromDay d' = (y', m', k')"
  shows "y < y' \<or> y = y' \<and> (m < m' \<or> m = m' \<and> k < k')"
proof -
  have y: "y = yearFromDay d" "y' = yearFromDay d'" using assms(2,3) by (auto simp: civilFromDay_def Let_def split: prod.splits)
  show ?thesis
  proof (cases "y = y'")
    case True
    let ?ls = "monthLengths (leapYear y)"
    obtain m0 k0 where s: "splitMonth ?ls (d - dayFromYear y) = (m0, k0)" by fastforce
    obtain m1 k1 where s': "splitMonth ?ls (d' - dayFromYear y) = (m1, k1)" by fastforce
    have "0 \<le> d - dayFromYear y" "d' - dayFromYear y < sum_list ?ls"
      using yearFromDay_bounds[of d] yearFromDay_bounds[of d'] True y
      by (auto simp: monthLengths_sum dayFromYear_Suc split: if_splits)
    with splitMonth_mono[OF _ s s'] assms s s' y True show ?thesis
      by (auto simp: civilFromDay_def Let_def)
  next
    case False
    with yearFromDay_mono[of d d'] assms(1) y show ?thesis by auto
  qed
qed

section \<open>Decimal fields\<close>

fun digits :: "nat \<Rightarrow> nat \<Rightarrow> string" where
  "digits 0 n = []"
| "digits (Suc k) n = digits k (n div 10) @ [char_of (48 + n mod 10)]"

lemma length_digits [simp]: "length (digits k n) = k"
  by (induction k n rule: digits.induct) simp_all

lemma of_char_digit: "of_char (char_of (48 + n mod 10 :: nat)) = (48 + n mod 10 :: nat)"
proof -
  have "48 + n mod 10 < (256 :: nat)" using mod_less_divisor[of 10 n] by linarith
  then show ?thesis by (simp only: of_char_of mod_less)
qed

lemma digits_zero: "digits k 0 = replicate k CHR ''0''"
proof (induction k)
  case (Suc k)
  have "char_of (48 :: nat) = CHR ''0''" by code_simp
  with Suc show ?case by (simp add: replicate_append_same)
qed simp

lemma padStart_showNat:
  assumes "n < 10 ^ k" and "0 < k"
  shows "padStart k (showNat n) = digits k n"
  using assms
proof (induction k arbitrary: n)
  case (Suc k)
  show ?case
  proof (cases "n < 10")
    case True
    then show ?thesis by (subst showNat.simps) (simp add: padStart_def digits_zero)
  next
    case False
    with Suc.prems have "0 < k" "n div 10 < 10 ^ k" by (cases k; auto)+
    from Suc.IH[OF this(2,1)] False show ?thesis
      by (subst showNat.simps) (simp add: padStart_def)
  qed
qed simp

definition readNat :: "string \<Rightarrow> nat" where
  "readNat s = foldl (\<lambda>n c. 10 * n + (of_char c - 48)) 0 s"

lemma readNat_digits: "n < 10 ^ k \<Longrightarrow> readNat (digits k n) = n"
  by (induction k n rule: digits.induct) (simp_all add: readNat_def)

lemma digits_plain: "c \<in> set (digits k n) \<Longrightarrow> c \<noteq> CHR ''-''"
proof (induction k n rule: digits.induct)
  case (2 k n)
  have "char_of (48 + n mod 10) \<noteq> CHR ''-''"
  proof
    assume "char_of (48 + n mod 10) = CHR ''-''"
    then have "of_char (char_of (48 + n mod 10 :: nat)) = (of_char CHR ''-'' :: nat)" by simp
    then show False unfolding of_char_digit by simp
  qed
  with 2 show ?case by auto
qed simp

text \<open>Texts of equal length compare field by field, and decimal fields as their numbers.\<close>

lemma less_append_same_length:
  assumes "length (xs :: string) = length ys"
  shows "xs @ us < ys @ vs \<longleftrightarrow> xs < ys \<or> xs = ys \<and> us < vs"
  using assms by (induction xs ys rule: list_induct2) auto

lemma digits_less:
  assumes "n < 10 ^ k" and "m < 10 ^ k" and "n < m"
  shows "digits k n < digits k m"
  using assms
proof (induction k arbitrary: n m)
  case (Suc k)
  have "n div 10 < m div 10 \<or> n div 10 = m div 10 \<and> n mod 10 < m mod 10"
    using div_le_mono[of n m 10] mult_div_mod_eq[of 10 n] mult_div_mod_eq[of 10 m] Suc.prems(3) by linarith
  then show ?case
  proof
    assume "n div 10 < m div 10"
    with Suc show ?thesis by (simp add: less_append_same_length)
  next
    assume h: "n div 10 = m div 10 \<and> n mod 10 < m mod 10"
    then have "char_of (48 + n mod 10) < (char_of (48 + m mod 10) :: char)"
      unfolding less_char_def of_char_digit by simp
    with h show ?thesis by (simp add: less_append_same_length)
  qed
qed simp

section \<open>The texts of days and instants\<close>

definition dateText :: "int \<Rightarrow> int \<Rightarrow> int \<Rightarrow> string" where
  "dateText y m d =
     padStart 4 (showNat (nat y)) @ ''-'' @ padStart 2 (showNat (nat m)) @ ''-'' @ padStart 2 (showNat (nat d))"

text \<open>The part of \<open>toISOString()\<close> before the \<open>T\<close>: years outside 0 to 9999 are expanded.\<close>

definition isoDate :: "int \<Rightarrow> string" where
  "isoDate day =
     (let (y, m, d) = civilFromDay day
      in if 0 \<le> y \<and> y \<le> 9999 then dateText y m d
         else (if y < 0 then ''-'' else ''+'') @ padStart 6 (showNat (nat \<bar>y\<bar>)) @
           ''-'' @ padStart 2 (showNat (nat m)) @ ''-'' @ padStart 2 (showNat (nat d)))"

definition isoTime :: "int \<Rightarrow> string" where
  "isoTime ms =
     (let pad2 = (\<lambda>n. padStart 2 (showNat (nat n)))
      in pad2 (ms div 3600000) @ '':'' @ pad2 (ms mod 3600000 div 60000) @ '':'' @
         pad2 (ms mod 60000 div 1000) @ ''.'' @ padStart 3 (showNat (nat (ms mod 1000))))"

definition toISOString :: "int \<Rightarrow> Timestamp" where
  "toISOString t = isoDate (t div msPerDay) @ ''T'' @ isoTime (t mod msPerDay) @ ''Z''"

text \<open>
  \<open>date.split('-').map(Number)\<close> of a \<open>YYYY-MM-DD\<close> text, and \<open>Date.parse\<close> of a text in the form
  \<open>toISOString\<close> writes for the years 0 to 9999, the only forms the program passes to them.
\<close>

definition dateFields :: "string \<Rightarrow> int \<times> int \<times> int" where
  "dateFields date =
     (case map (\<lambda>s. int (readNat s)) (split_on (CHR ''-'') date) of
        [y, m, d] \<Rightarrow> (y, m, d) | _ \<Rightarrow> (0, 0, 0))"

definition dateParse :: "Timestamp \<Rightarrow> int" where
  "dateParse s =
     (let field = (\<lambda>i n. int (readNat (take n (drop i s))));
          (y, m, d) = dateFields (take 10 s)
      in makeDay y m d * msPerDay + field 11 2 * 3600000 + field 14 2 * 60000 +
         field 17 2 * 1000 + field 20 3)"

definition inEra :: "int \<Rightarrow> bool" where
  "inEra day \<longleftrightarrow> 0 \<le> yearFromDay day \<and> yearFromDay day \<le> 9999"

text \<open>The texts as digit fields.\<close>

lemma pad_digits:
  assumes "0 \<le> n" and "n < 10 ^ k" and "0 < k"
  shows "padStart k (showNat (nat n)) = digits k (nat n)"
proof (rule padStart_showNat)
  have "int (nat n) < int (10 ^ k)" using assms by simp
  then show "nat n < 10 ^ k" by (simp only: of_nat_less_iff)
qed (rule assms(3))

lemma dateText_digits:
  assumes "0 \<le> y" "y \<le> 9999" "1 \<le> m" "m \<le> 12" "1 \<le> d" "d \<le> 31"
  shows "dateText y m d = digits 4 (nat y) @ CHR ''-'' # digits 2 (nat m) @ CHR ''-'' # digits 2 (nat d)"
  using assms by (simp add: dateText_def pad_digits)

lemma isoDate_digits:
  assumes "civilFromDay day = (y, m, d)" and "inEra day"
  shows "isoDate day = digits 4 (nat y) @ CHR ''-'' # digits 2 (nat m) @ CHR ''-'' # digits 2 (nat d)"
    and "isoDate day = dateText y m d"
proof -
  note b = civilFromDay_bounds[OF assms(1)]
  with assms show "isoDate day = dateText y m d" by (auto simp: isoDate_def inEra_def)
  then show "isoDate day = digits 4 (nat y) @ CHR ''-'' # digits 2 (nat m) @ CHR ''-'' # digits 2 (nat d)"
    using b assms(2) dateText_digits[of y m d] by (simp add: inEra_def)
qed

lemma length_isoDate: "inEra day \<Longrightarrow> length (isoDate day) = 10"
  by (cases "civilFromDay day") (simp add: isoDate_digits(1))

lemma isoTime_digits:
  assumes "0 \<le> ms" and "ms < msPerDay"
  shows "isoTime ms = digits 2 (nat (ms div 3600000)) @ CHR '':'' # digits 2 (nat (ms mod 3600000 div 60000)) @
    CHR '':'' # digits 2 (nat (ms mod 60000 div 1000)) @ CHR ''.'' # digits 3 (nat (ms mod 1000))"
proof -
  have "ms div 3600000 < 24" using assms(2) div_less_iff_less_mult by (simp add: msPerDay_def)
  then have "padStart 2 (showNat (nat (ms div 3600000))) = digits 2 (nat (ms div 3600000))"
    using assms(1) by (intro pad_digits) (simp_all add: pos_imp_zdiv_nonneg_iff)
  moreover have "padStart 2 (showNat (nat (ms mod 3600000 div 60000))) = digits 2 (nat (ms mod 3600000 div 60000))"
    by (intro pad_digits) (simp_all add: pos_imp_zdiv_nonneg_iff div_less_iff_less_mult)
  moreover have "padStart 2 (showNat (nat (ms mod 60000 div 1000))) = digits 2 (nat (ms mod 60000 div 1000))"
    by (intro pad_digits) (simp_all add: pos_imp_zdiv_nonneg_iff div_less_iff_less_mult)
  moreover have "padStart 3 (showNat (nat (ms mod 1000))) = digits 3 (nat (ms mod 1000))"
    by (intro pad_digits) simp_all
  ultimately show ?thesis unfolding isoTime_def Let_def by simp
qed

lemma split_on_single: "c \<notin> set p \<Longrightarrow> split_on c p = [p]"
  by (induction p) auto

lemma dateFields_digits:
  assumes "a < 10 ^ 4" "b < 10 ^ 2" "c < 10 ^ 2"
  shows "dateFields (digits 4 a @ CHR ''-'' # digits 2 b @ CHR ''-'' # digits 2 c) = (int a, int b, int c)"
proof -
  have n: "CHR ''-'' \<notin> set (digits k n)" for k n using digits_plain by blast
  then show ?thesis
    unfolding dateFields_def
    by (simp add: split_on_append split_on_single n readNat_digits[OF assms(1)]
        readNat_digits[OF assms(2)] readNat_digits[OF assms(3)] del: digits.simps)
qed

lemma dateFields_dateText:
  assumes "0 \<le> y" "y \<le> 9999" "1 \<le> m" "m \<le> 12" "1 \<le> d" "d \<le> 31"
  shows "dateFields (dateText y m d) = (y, m, d)"
  using assms dateFields_digits[of "nat y" "nat m" "nat d"] by (simp add: dateText_digits)

lemma dateFields_isoDate:
  assumes "inEra day"
  shows "dateFields (isoDate day) = civilFromDay day"
proof -
  obtain y m d where c: "civilFromDay day = (y, m, d)" by (cases "civilFromDay day")
  note b = civilFromDay_bounds[OF c]
  then show ?thesis
    using assms dateFields_dateText[of y m d] by (simp add: isoDate_digits(2)[OF c assms] c inEra_def)
qed

section \<open>Instants and their texts\<close>

lemma toISOString_parts:
  assumes "inEra (t div msPerDay)"
  shows "toISOString t = isoDate (t div msPerDay) @ CHR ''T'' #
      digits 2 (nat (t mod msPerDay div 3600000)) @ CHR '':'' # digits 2 (nat (t mod msPerDay mod 3600000 div 60000)) @
      CHR '':'' # digits 2 (nat (t mod msPerDay mod 60000 div 1000)) @ CHR ''.'' # digits 3 (nat (t mod msPerDay mod 1000)) @ ''Z''"
  unfolding toISOString_def
  by (subst isoTime_digits) (simp_all add: msPerDay_def)

lemma take_drop_mid:
  assumes "length xs = i"
  shows "drop i (xs @ ys) = ys" and "take i (xs @ ys) = xs"
  using assms by simp_all

lemma time_sum:
  fixes ms :: int
  shows "ms div 3600000 * 3600000 + ms mod 3600000 div 60000 * 60000 + ms mod 60000 div 1000 * 1000 + ms mod 1000 = ms"
proof -
  have m: "ms mod 3600000 mod 60000 = ms mod 60000" "ms mod 60000 mod 1000 = ms mod 1000"
    by (rule mod_mod_cancel; simp)+
  have "ms mod 60000 div 1000 * 1000 + ms mod 1000 = ms mod 60000"
    using div_mult_mod_eq[of "ms mod 60000" 1000] unfolding m .
  moreover have "ms mod 3600000 div 60000 * 60000 + ms mod 60000 = ms mod 3600000"
    using div_mult_mod_eq[of "ms mod 3600000" 60000] unfolding m .
  ultimately show ?thesis
    unfolding add.assoc using div_mult_mod_eq[of ms 3600000] by (simp only:)
qed

theorem dateParse_toISOString:
  assumes "inEra (t div msPerDay)"
  shows "dateParse (toISOString t) = t"
proof -
  let ?day = "t div msPerDay" and ?ms = "t mod msPerDay"
  obtain y m d where c: "civilFromDay ?day = (y, m, d)" by (cases "civilFromDay ?day")
  have ms: "0 \<le> ?ms" "?ms < msPerDay" by (simp_all add: msPerDay_def)
  have f: "readNat (digits 2 (nat (?ms div 3600000))) = nat (?ms div 3600000)"
    "readNat (digits 2 (nat (?ms mod 3600000 div 60000))) = nat (?ms mod 3600000 div 60000)"
    "readNat (digits 2 (nat (?ms mod 60000 div 1000))) = nat (?ms mod 60000 div 1000)"
    "readNat (digits 3 (nat (?ms mod 1000))) = nat (?ms mod 1000)"
    by (rule readNat_digits; simp add: nat_less_iff pos_imp_zdiv_nonneg_iff div_less_iff_less_mult ms(1)
        less_trans[OF ms(2)] msPerDay_def)+
  have "makeDay y m d = ?day" using makeDay_civil[OF c, of 0] by simp
  moreover have "length (isoDate ?day) = 10" by (rule length_isoDate[OF assms])
  moreover have "dateFields (isoDate ?day) = (y, m, d)" using dateFields_isoDate[OF assms] c by simp
  ultimately have "dateParse (toISOString t) = ?day * msPerDay + (?ms div 3600000 * 3600000 +
      ?ms mod 3600000 div 60000 * 60000 + ?ms mod 60000 div 1000 * 1000 + ?ms mod 1000)"
    unfolding dateParse_def toISOString_parts[OF assms]
    by (simp add: f take_Cons' drop_Cons' pos_imp_zdiv_nonneg_iff ms(1) del: digits.simps)
  also have "\<dots> = t" unfolding time_sum by simp
  finally show ?thesis .
qed

text \<open>Mixed radix: the first differing field decides.\<close>

lemma div_mod_less:
  fixes a b n :: int
  assumes "a < b" and "0 < n"
  shows "a div n < b div n \<or> a div n = b div n \<and> a mod n < b mod n"
proof (cases "a div n = b div n")
  case True
  have "n * (a div n) + a mod n < n * (b div n) + b mod n"
    unfolding mult_div_mod_eq by (rule assms(1))
  then have "a mod n < b mod n" unfolding True by (simp only: add_less_cancel_left)
  with True show ?thesis by (simp only: simp_thms)
next
  case False
  with zdiv_mono1[of a b n] assms show ?thesis by simp
qed

lemma field_less:
  assumes "0 \<le> a" "b < 10 ^ k" "a < b \<or> a = b \<and> us < vs"
  shows "digits k (nat a) @ us < digits k (nat b) @ vs"
proof (cases "a < b")
  case True
  have "int (nat b) < int (10 ^ k)" using assms True by simp
  then have "nat b < 10 ^ k" by (simp only: of_nat_less_iff)
  with True assms(1) have "digits k (nat a) < digits k (nat b)" by (intro digits_less) auto
  then show ?thesis by (simp add: less_append_same_length)
qed (use assms in \<open>simp add: less_append_same_length\<close>)

lemma isoDate_less:
  assumes "d < d'" and "inEra d" and "inEra d'"
  shows "isoDate d < isoDate d'"
proof -
  obtain y m k where c: "civilFromDay d = (y, m, k)" by (cases "civilFromDay d")
  obtain y' m' k' where c': "civilFromDay d' = (y', m', k')" by (cases "civilFromDay d'")
  note b = civilFromDay_bounds[OF c] and b' = civilFromDay_bounds[OF c']
  have lex: "y < y' \<or> y = y' \<and> (m < m' \<or> m = m' \<and> k < k')" by (rule civilFromDay_mono[OF assms(1) c c'])
  have k: "digits 2 (nat k) @ [] < digits 2 (nat k') @ []" if "k < k'"
    using that b b' by (intro field_less) auto
  have m: "digits 2 (nat m) @ CHR ''-'' # digits 2 (nat k) < digits 2 (nat m') @ CHR ''-'' # digits 2 (nat k')"
    if "m < m' \<or> m = m' \<and> k < k'"
    using that b b' k by (intro field_less) auto
  have "digits 4 (nat y) @ CHR ''-'' # digits 2 (nat m) @ CHR ''-'' # digits 2 (nat k) <
      digits 4 (nat y') @ CHR ''-'' # digits 2 (nat m') @ CHR ''-'' # digits 2 (nat k')"
    using lex m b b' assms(2,3) by (intro field_less) (auto simp: inEra_def)
  then show ?thesis by (simp only: isoDate_digits(1)[OF c assms(2)] isoDate_digits(1)[OF c' assms(3)])
qed

lemma toISOString_less:
  assumes "t < t'" and "inEra (t div msPerDay)" and "inEra (t' div msPerDay)"
  shows "toISOString t < toISOString t'"
proof (cases "t div msPerDay < t' div msPerDay")
  case True
  from isoDate_less[OF this assms(2,3)] show ?thesis
    by (simp add: toISOString_parts assms less_append_same_length length_isoDate)
next
  case False
  let ?a = "t mod msPerDay" and ?b = "t' mod msPerDay"
  have p: "0 < msPerDay" by (simp add: msPerDay_def)
  from div_mod_less[OF assms(1) p] False have d: "t div msPerDay = t' div msPerDay" and less: "?a < ?b" by auto
  have bounds: "0 \<le> ?a" "?b < msPerDay" by (simp_all add: p)
  have mm: "x mod 3600000 mod 60000 = x mod 60000" "x mod 60000 mod 1000 = x mod 1000" for x :: int
    by (rule mod_mod_cancel; simp)+
  have l3: "digits 3 (nat (?a mod 1000)) @ ''Z'' < digits 3 (nat (?b mod 1000)) @ ''Z''" if "?a mod 1000 < ?b mod 1000"
    using that by (intro field_less) auto
  have l2: "digits 2 (nat (?a mod 60000 div 1000)) @ CHR ''.'' # digits 3 (nat (?a mod 1000)) @ ''Z'' <
      digits 2 (nat (?b mod 60000 div 1000)) @ CHR ''.'' # digits 3 (nat (?b mod 1000)) @ ''Z''"
    if "?a mod 60000 < ?b mod 60000"
    using div_mod_less[OF that, of 1000] l3 unfolding mm
    by (intro field_less) (auto simp: pos_imp_zdiv_nonneg_iff div_less_iff_less_mult)
  have l1: "digits 2 (nat (?a mod 3600000 div 60000)) @ CHR '':'' # digits 2 (nat (?a mod 60000 div 1000)) @ CHR ''.'' # digits 3 (nat (?a mod 1000)) @ ''Z'' <
      digits 2 (nat (?b mod 3600000 div 60000)) @ CHR '':'' # digits 2 (nat (?b mod 60000 div 1000)) @ CHR ''.'' # digits 3 (nat (?b mod 1000)) @ ''Z''"
    if "?a mod 3600000 < ?b mod 3600000"
    using div_mod_less[OF that, of 60000] l2 unfolding mm
    by (intro field_less) (auto simp: pos_imp_zdiv_nonneg_iff div_less_iff_less_mult)
  have "digits 2 (nat (?a div 3600000)) @ CHR '':'' # digits 2 (nat (?a mod 3600000 div 60000)) @ CHR '':'' # digits 2 (nat (?a mod 60000 div 1000)) @ CHR ''.'' # digits 3 (nat (?a mod 1000)) @ ''Z'' <
      digits 2 (nat (?b div 3600000)) @ CHR '':'' # digits 2 (nat (?b mod 3600000 div 60000)) @ CHR '':'' # digits 2 (nat (?b mod 60000 div 1000)) @ CHR ''.'' # digits 3 (nat (?b mod 1000)) @ ''Z''"
  proof (rule field_less)
    show "0 \<le> ?a div 3600000" using bounds(1) by (simp add: pos_imp_zdiv_nonneg_iff)
    have "?b < 10 ^ 2 * 3600000" using bounds(2) by (simp add: msPerDay_def)
    then show "?b div 3600000 < 10 ^ 2" by (simp only: div_less_iff_less_mult zero_less_numeral)
    show "?a div 3600000 < ?b div 3600000 \<or> ?a div 3600000 = ?b div 3600000 \<and>
        CHR '':'' # digits 2 (nat (?a mod 3600000 div 60000)) @ CHR '':'' # digits 2 (nat (?a mod 60000 div 1000)) @ CHR ''.'' # digits 3 (nat (?a mod 1000)) @ ''Z'' <
        CHR '':'' # digits 2 (nat (?b mod 3600000 div 60000)) @ CHR '':'' # digits 2 (nat (?b mod 60000 div 1000)) @ CHR ''.'' # digits 3 (nat (?b mod 1000)) @ ''Z''"
      unfolding Cons_less_Cons using div_mod_less[OF less, of 3600000] l1 by (simp only: zero_less_numeral simp_thms) blast
  qed
  then show ?thesis
    by (simp add: toISOString_parts assms less_append_same_length d del: digits.simps)
qed

theorem toISOString_order:
  assumes "inEra (t div msPerDay)" and "inEra (t' div msPerDay)"
  shows "toISOString t < toISOString t' \<longleftrightarrow> t < t'" and "toISOString t \<le> toISOString t' \<longleftrightarrow> t \<le> t'"
  using toISOString_less[of t t'] toISOString_less[of t' t] assms
  by (metis less_asym linorder_less_linear order_less_irrefl not_le)+

end
