(* ===== verification/Sla_Calendar.thy ===== *)
theory Sla_Calendar
  imports Js_Date
begin

text \<open>
  The business calendar, \<open>packages/sla/src/calendar.ts\<close>: local wall-clock parts of an instant, the
  windows of a local date, and whether a team is open. An instant is its milliseconds. The zone
  database of the platform (\<open>Intl.DateTimeFormat\<close>) is the argument \<open>zone\<close>: the offset, in
  milliseconds, that a named zone has at an instant; an unknown name, on which \<open>Intl\<close> throws, is
  refused where calendars are read and does not reach these functions.
\<close>

type_synonym Zone = "string \<Rightarrow> int \<Rightarrow> int"

record WorkingWindow =
  ww_weekday :: int
  ww_openMinute :: int
  ww_closeMinute :: int

record CalendarException =
  ce_date :: string
  ce_windows :: "(int \<times> int) list option"
  ce_reason :: "string option"

record BusinessCalendar =
  bc_calendarId :: string
  bc_teamId :: string
  bc_timezone :: string
  bc_version :: int
  bc_effectiveFrom :: Timestamp
  bc_effectiveTo :: "Timestamp option"
  bc_workingWindows :: "WorkingWindow list"
  bc_holidays :: "string list"
  bc_exceptions :: "CalendarException list"
  bc_provisional :: bool

definition MINUTES_PER_DAY :: int where "MINUTES_PER_DAY = 1440"

record LocalParts =
  lp_year :: int
  lp_month :: int
  lp_day :: int
  lp_minuteOfDay :: int
  lp_weekday :: int
  lp_date :: string

text \<open>\<open>getUTCDay\<close>: day 0 was a Thursday.\<close>

definition weekDay :: "int \<Rightarrow> int" where
  "weekDay day = (day + 4) mod 7"

definition localPartsOf :: "Zone \<Rightarrow> int \<Rightarrow> string \<Rightarrow> LocalParts" where
  "localPartsOf zone instant timezone =
     (let wall = instant + zone timezone instant;
          (y, m, d) = civilFromDay (wall div msPerDay)
      in \<lparr>lp_year = y, lp_month = m, lp_day = d,
          lp_minuteOfDay = wall mod msPerDay div 60000,
          lp_weekday = weekDay (wall div msPerDay), lp_date = dateText y m d\<rparr>)"

definition shiftDate :: "string \<Rightarrow> int \<Rightarrow> string" where
  "shiftDate date days =
     (let (y, m, d) = dateFields date
      in take 10 (toISOString (dayOfDate y m (d + days) * msPerDay)))"

definition weekdayOf :: "string \<Rightarrow> int" where
  "weekdayOf date = (let (y, m, d) = dateFields date in weekDay (dayOfDate y m d))"

definition windowsForDate :: "BusinessCalendar \<Rightarrow> string \<Rightarrow> (int \<times> int) list" where
  "windowsForDate calendar date =
     (case find (\<lambda>e. ce_date e = date) (bc_exceptions calendar) of
        Some e \<Rightarrow> (case ce_windows e of Some ws \<Rightarrow> ws | None \<Rightarrow> [])
      | None \<Rightarrow>
          if date \<in> set (bc_holidays calendar) then []
          else map (\<lambda>w. (ww_openMinute w, ww_closeMinute w))
                 (filter (\<lambda>w. ww_weekday w = weekdayOf date) (bc_workingWindows calendar)))"

definition isOpenAt :: "Zone \<Rightarrow> BusinessCalendar \<Rightarrow> int \<Rightarrow> bool" where
  "isOpenAt zone calendar instant =
     (let wall = localPartsOf zone instant (bc_timezone calendar); m = lp_minuteOfDay wall
      in if list_ex (\<lambda>(op, cl). m \<ge> op \<and> m < cl) (windowsForDate calendar (lp_date wall)) then True
         else list_ex (\<lambda>(op, cl). \<not> cl \<le> MINUTES_PER_DAY \<and>
                m + MINUTES_PER_DAY \<ge> op \<and> m + MINUTES_PER_DAY < cl)
              (windowsForDate calendar (shiftDate (lp_date wall) (- 1))))"

datatype OpenState = OPEN | SHUT | UNKNOWN

definition openStateOf :: "Zone \<Rightarrow> BusinessCalendar option \<Rightarrow> int \<Rightarrow> OpenState" where
  "openStateOf zone calendar instant =
     (case calendar of None \<Rightarrow> UNKNOWN
      | Some c \<Rightarrow> if isOpenAt zone c instant then OPEN else SHUT)"

section \<open>Days and their names\<close>

text \<open>
  The days of the years 100 to 9999, on which the names of dates and the dates correspond without
  exception.
\<close>

definition plainDay :: "int \<Rightarrow> bool" where
  "plainDay d \<longleftrightarrow> dayFromYear 100 \<le> d \<and> d < dayFromYear 10000"

lemma plainDay_iff: "plainDay d \<longleftrightarrow> - 683003 \<le> d \<and> d < 2932897"
proof -
  have "dayFromYear 100 = - 683003" "dayFromYear 10000 = 2932897" by code_simp+
  then show ?thesis by (simp add: plainDay_def)
qed

lemma plainDay_year:
  assumes "plainDay d"
  shows "100 \<le> yearFromDay d" and "yearFromDay d \<le> 9999" and "inEra d"
proof -
  show a: "100 \<le> yearFromDay d"
  proof (rule ccontr)
    assume "\<not> 100 \<le> yearFromDay d"
    then have "dayFromYear (yearFromDay d + 1) \<le> dayFromYear 100" by (intro dayFromYear_mono) simp
    with yearFromDay_bounds[of d] assms show False by (simp add: plainDay_def)
  qed
  show b: "yearFromDay d \<le> 9999"
  proof (rule ccontr)
    assume "\<not> yearFromDay d \<le> 9999"
    then have "dayFromYear 10000 \<le> dayFromYear (yearFromDay d)" by (intro dayFromYear_mono) simp
    with yearFromDay_bounds[of d] assms show False by (simp add: plainDay_def)
  qed
  from a b show "inEra d" by (simp add: inEra_def)
qed

lemma dayOfDate_plain:
  assumes "plainDay d" and "civilFromDay d = (y, m, k)"
  shows "dayOfDate y m (k + n) = d + n" and "dayOfDate y m k = d"
  using dayOfDate_civil[OF assms(2)] dayOfDate_civil[OF assms(2), of 0] civilFromDay_bounds[OF assms(2)]
    plainDay_year[OF assms(1)] by simp_all

lemma toISOString_midnight: "inEra d \<Longrightarrow> take 10 (toISOString (d * msPerDay)) = isoDate d"
  by (simp add: toISOString_def length_isoDate msPerDay_def)

lemma shiftDate_isoDate:
  assumes "plainDay d" and "plainDay (d + n)"
  shows "shiftDate (isoDate d) n = isoDate (d + n)"
proof -
  obtain y m k where c: "civilFromDay d = (y, m, k)" by (cases "civilFromDay d")
  show ?thesis
    by (simp add: shiftDate_def dateFields_isoDate plainDay_year(3) assms c
        dayOfDate_plain[OF assms(1) c] toISOString_midnight)
qed

lemma weekdayOf_isoDate: "plainDay d \<Longrightarrow> weekdayOf (isoDate d) = weekDay d"
  by (cases "civilFromDay d") (simp add: weekdayOf_def dateFields_isoDate plainDay_year dayOfDate_plain)

lemma localPartsOf_date:
  assumes "plainDay ((t + zone tz t) div msPerDay)"
  shows "lp_date (localPartsOf zone t tz) = isoDate ((t + zone tz t) div msPerDay)"
  by (cases "civilFromDay ((t + zone tz t) div msPerDay)")
     (simp add: localPartsOf_def Let_def isoDate_digits(2)[OF _ plainDay_year(3)[OF assms]])

lemma isoDate_le_iff:
  "inEra d \<Longrightarrow> inEra d' \<Longrightarrow> isoDate d \<le> isoDate d' \<longleftrightarrow> d \<le> d'"
  using isoDate_less[of d d'] isoDate_less[of d' d]
  by (cases d d' rule: linorder_cases) auto

end
