(* ===== verification/Js_Number.thy ===== *)
theory Js_Number
  imports Prelude "HOL-Library.Log_Nat"
begin

text \<open>
  Numbers of JavaScript that are not integers: a value is the rational it denotes, and an operation
  is the exact one followed by \<open>dbl\<close>, the rounding to 53 binary digits, to nearest and ties to
  even. The range of the exponent is not modelled: the amounts of the program are zero or between a
  millisecond and some centuries, far from either end of it. \<open>Math.round\<close> is \<open>jsRound\<close>,
  halves go up. The lemmas bound the error of one rounding and of a running sum.
\<close>

section \<open>Rounding\<close>

definition pow2 :: "int \<Rightarrow> rat" where
  "pow2 k = (if 0 \<le> k then 2 ^ nat k else 1 / 2 ^ nat (- k))"

text \<open>The exponent of the leading binary digit of a positive number.\<close>

definition binExponent :: "rat \<Rightarrow> int" where
  "binExponent x =
     (let (p, q) = quotient_of x; e = bitlen p - bitlen q in if pow2 e \<le> x then e else e - 1)"

definition roundEven :: "rat \<Rightarrow> int" where
  "roundEven x =
     (let n = \<lfloor>x\<rfloor>; d = x - of_int n
      in if d < 1 / 2 \<or> d = 1 / 2 \<and> even n then n else n + 1)"

definition dblPositive :: "rat \<Rightarrow> rat" where
  "dblPositive x = (let s = pow2 (52 - binExponent x) in of_int (roundEven (x * s)) / s)"

definition dbl :: "rat \<Rightarrow> rat" where
  "dbl x = (if x = 0 then 0 else if 0 < x then dblPositive x else - dblPositive (- x))"

definition jsRound :: "rat \<Rightarrow> int" where
  "jsRound x = \<lfloor>x + 1 / 2\<rfloor>"

section \<open>Powers of two\<close>

lemma pow2_pos [simp]: "0 < pow2 k"
  by (simp add: pow2_def)

lemma pow2_nonneg [simp]: "0 \<le> pow2 k"
  by (rule less_imp_le[OF pow2_pos])

lemma pow2_powi: "pow2 k = 2 powi k"
  by (simp add: pow2_def power_int_def inverse_eq_divide power_divide)

lemma pow2_add: "pow2 (a + b) = pow2 a * pow2 b"
  by (simp add: pow2_powi power_int_add)

lemma pow2_inverse: "pow2 a * pow2 (- a) = 1"
  by (simp add: pow2_add[symmetric]) (simp add: pow2_def)

lemma binExponent_bounds:
  assumes "0 < x"
  shows "pow2 (binExponent x) \<le> x" and "x < pow2 (binExponent x + 1)"
proof -
  obtain p q where pq: "quotient_of x = (p, q)" by (cases "quotient_of x")
  then have q: "0 < q" and x: "x = of_int p / of_int q"
    by (simp_all add: quotient_of_denom_pos quotient_of_div)
  with assms have p: "0 < p" by (simp add: zero_less_divide_iff)
  have len: "of_int n < pow2 (bitlen n)" "pow2 (bitlen n - 1) \<le> of_int n" if "0 < n" for n
  proof -
    have "n < 2 ^ nat (bitlen n)" "2 ^ nat (bitlen n - 1) \<le> n" using bitlen_bounds[OF that] by auto
    then have "(of_int n :: rat) < of_int (2 ^ nat (bitlen n))"
      "(of_int (2 ^ nat (bitlen n - 1)) :: rat) \<le> of_int n"
      by (simp_all only: of_int_less_iff of_int_le_iff)
    moreover have "1 \<le> bitlen n" using that bitlen_nonneg[of n] bitlen_eq_zero_iff[of n] by linarith
    ultimately show "of_int n < pow2 (bitlen n)" "pow2 (bitlen n - 1) \<le> of_int n"
      by (simp_all add: pow2_def)
  qed
  let ?e = "bitlen p - bitlen q"
  have "x < pow2 (bitlen p) / pow2 (bitlen q - 1)"
    unfolding x using len[OF p] len[OF q] p q by (intro frac_less) auto
  also have "\<dots> = pow2 (?e + 1)" by (simp add: pow2_powi power_int_diff power_int_add)
  finally have upper: "x < pow2 (?e + 1)" .
  have "pow2 (bitlen p - 1) / pow2 (bitlen q) \<le> x"
    unfolding x using len[OF p] len[OF q] p q by (intro frac_le) auto
  also have "pow2 (bitlen p - 1) / pow2 (bitlen q) = pow2 (?e - 1)"
    by (simp add: pow2_powi power_int_diff power_int_add)
  finally have lower: "pow2 (?e - 1) \<le> x" .
  show "pow2 (binExponent x) \<le> x" "x < pow2 (binExponent x + 1)"
    using upper lower by (auto simp: binExponent_def pq Let_def not_le)
qed

section \<open>The error of one rounding\<close>

lemma roundEven_near: "\<bar>of_int (roundEven x) - x\<bar> \<le> 1 / 2"
proof -
  have "of_int \<lfloor>x\<rfloor> \<le> x" "x < of_int \<lfloor>x\<rfloor> + 1" by linarith+
  then show ?thesis by (auto simp: roundEven_def Let_def abs_le_iff)
qed

lemma roundEven_int [simp]: "roundEven (of_int n) = n"
  by (simp add: roundEven_def)

lemma dblPositive_near:
  assumes "0 < x"
  shows "\<bar>dblPositive x - x\<bar> \<le> x / 2 ^ 53"
proof -
  define s where "s = pow2 (52 - binExponent x)"
  have s: "0 < s" "s * pow2 (binExponent x) = 2 ^ 52"
    unfolding s_def by (simp_all only: pow2_pos pow2_add[symmetric]) (simp add: pow2_def)
  have "s * pow2 (binExponent x) \<le> s * x"
    using binExponent_bounds(1)[OF assms] s(1) by (simp only: mult_le_cancel_left_pos)
  then have small: "1 / 2 \<le> x * s / 2 ^ 53" unfolding s(2) by (simp add: field_simps)
  have eq: "dblPositive x - x = (of_int (roundEven (x * s)) - x * s) / s"
    using s(1) by (simp add: dblPositive_def s_def[symmetric] Let_def diff_divide_distrib)
  have "\<bar>of_int (roundEven (x * s)) - x * s\<bar> \<le> x / 2 ^ 53 * s"
    using roundEven_near[of "x * s"] small by simp
  then have "\<bar>of_int (roundEven (x * s)) - x * s\<bar> / s \<le> x / 2 ^ 53"
    by (simp only: pos_divide_le_eq[OF s(1)])
  then show ?thesis unfolding eq abs_divide abs_of_pos[OF s(1)] .
qed

text \<open>A rounding moves a number by at most one part in two to the 53.\<close>

lemma dbl_near: "\<bar>dbl x - x\<bar> \<le> \<bar>x\<bar> / 2 ^ 53"
proof -
  consider "x = 0" | "0 < x" | "0 < - x" by linarith
  then show ?thesis
  proof cases
    case 3
    with dblPositive_near[OF 3] show ?thesis by (auto simp: dbl_def abs_le_iff)
  qed (use dblPositive_near[of x] in \<open>simp_all add: dbl_def\<close>)
qed

lemma jsRound_near: "\<bar>of_int (jsRound x) - x\<bar> \<le> 1 / 2"
  unfolding jsRound_def by linarith

lemma jsRound_int [simp]: "jsRound (of_int n) = n"
  by (simp add: jsRound_def floor_unique)

section \<open>The error of a running sum\<close>

text \<open>One addition to a running sum, of an amount that is itself rounded first.\<close>

definition addRounded :: "rat \<Rightarrow> rat \<Rightarrow> rat" where
  "addRounded sofar x = dbl (sofar + dbl x)"

lemma addRounded_near:
  assumes "0 \<le> s" and "0 \<le> x" and "s + x \<le> b" and "\<bar>t - s\<bar> \<le> e" and "e \<le> 1"
  shows "\<bar>addRounded t x - (s + x)\<bar> \<le> e + 3 * (b + 1) / 2 ^ 53"
proof -
  define u :: rat where "u = 1 / 2 ^ 53"
  have u: "0 \<le> u" "u \<le> 1" and c: "3 * (b + 1) / 2 ^ 53 = 3 * (b * u) + 3 * u"
    by (simp_all add: u_def field_simps)
  have r: "\<bar>dbl y - y\<bar> \<le> \<bar>y\<bar> * u" for y using dbl_near[of y] by (simp add: u_def)
  have x: "x \<le> b" and b: "0 \<le> b" using assms(1-3) by linarith+
  have d: "\<bar>dbl x - x\<bar> \<le> b * u"
    using r[of x] mult_right_mono[OF x u(1)] assms(2) by simp
  have "b * u \<le> b" using mult_left_mono[OF u(2) b] by simp
  with d assms(1-5) have "\<bar>t + dbl x\<bar> \<le> 2 * b + 1" by linarith
  from mult_right_mono[OF this u(1)] r[of "t + dbl x"]
  have "\<bar>addRounded t x - (t + dbl x)\<bar> \<le> 2 * (b * u) + u" by (simp add: addRounded_def distrib_right)
  with d assms(4) u(1) show ?thesis unfolding c by linarith
qed

lemma running_sum_near:
  assumes "list_all (\<lambda>x. 0 \<le> x) xs" and "0 \<le> s" and "s + sum_list xs \<le> b" and "\<bar>t - s\<bar> \<le> e"
    and "0 \<le> e" and "e + of_nat (length xs) * (3 * (b + 1) / 2 ^ 53) \<le> 1"
  shows "\<bar>foldl addRounded t xs - (s + sum_list xs)\<bar> \<le> e + of_nat (length xs) * (3 * (b + 1) / 2 ^ 53)"
  using assms
proof (induction xs arbitrary: s t e)
  case (Cons x xs)
  let ?c = "3 * (b + 1) / 2 ^ 53"
  have x: "0 \<le> x" and rest: "0 \<le> sum_list xs"
    using Cons.prems(1) by (auto simp: list_all_iff intro: sum_list_nonneg)
  then have b: "0 \<le> b" using Cons.prems(2,3) by simp
  then have c: "0 \<le> ?c" "0 \<le> of_nat (length xs) * ?c" by simp_all
  have split: "of_nat (length (x # xs)) * ?c = ?c + of_nat (length xs) * ?c" by (simp add: distrib_right add_divide_distrib)
  have "e \<le> 1" using Cons.prems(6) c unfolding split by linarith
  with Cons.prems x rest have near: "\<bar>addRounded t x - (s + x)\<bar> \<le> e + ?c"
    by (intro addRounded_near) simp_all
  have "\<bar>foldl addRounded (addRounded t x) xs - ((s + x) + sum_list xs)\<bar> \<le> (e + ?c) + of_nat (length xs) * ?c"
  proof (rule Cons.IH[OF _ _ _ near])
    show "list_all ((\<le>) 0) xs" using Cons.prems(1) by simp
    show "0 \<le> s + x" "s + x + sum_list xs \<le> b" using Cons.prems(2,3) x by simp_all
    show "0 \<le> e + ?c" using Cons.prems(5) c by linarith
    show "e + ?c + of_nat (length xs) * ?c \<le> 1" using Cons.prems(6) unfolding split by linarith
  qed
  then show ?case unfolding split by (simp add: add.assoc)
qed simp

end
