(* ===== verification/Sla_Clock.thy ===== *)
theory Sla_Clock
  imports Sla_Calendar Js_Number
begin

text \<open>
  Elapsed working time, \<open>packages/sla/src/clock.ts\<close>: the walk over local dates, clipped to calendar
  versions, its inverse, the next opening and the version in force. Elapsed time is added up as the
  source does, interval by interval in seconds as floating-point numbers; instants and their
  differences are integers. The runaway guard \<open>MAX_DAYS\<close> of the source is the fuel of the walk.
\<close>

definition MS_PER_MINUTE :: int where "MS_PER_MINUTE = 60000"

definition MAX_DAYS :: nat where "MAX_DAYS = 3660"

text \<open>One pass of the correction of \<open>instantAtLocal\<close>, and the passes with the early exit.\<close>

definition correctedInstant :: "Zone \<Rightarrow> string \<Rightarrow> int \<Rightarrow> int \<Rightarrow> int" where
  "correctedInstant zone timezone asIfUtc instant =
     (let wall = localPartsOf zone instant timezone;
          localAsIfUtc = dayOfDate (lp_year wall) (lp_month wall) (lp_day wall) * msPerDay +
            lp_minuteOfDay wall * MS_PER_MINUTE;
          drift = localAsIfUtc - instant
      in asIfUtc - drift)"

fun correctionPasses :: "nat \<Rightarrow> Zone \<Rightarrow> string \<Rightarrow> int \<Rightarrow> int \<Rightarrow> int" where
  "correctionPasses 0 zone timezone asIfUtc instant = instant"
| "correctionPasses (Suc n) zone timezone asIfUtc instant =
     (let corrected = correctedInstant zone timezone asIfUtc instant
      in if corrected = instant then instant else correctionPasses n zone timezone asIfUtc corrected)"

definition instantAtLocal :: "Zone \<Rightarrow> string \<Rightarrow> string \<Rightarrow> int \<Rightarrow> int" where
  "instantAtLocal zone timezone date minuteOfDay =
     (let (y, m, d) = dateFields date;
          asIfUtc = dayOfDate y m d * msPerDay + minuteOfDay * MS_PER_MINUTE
      in correctionPasses 2 zone timezone asIfUtc asIfUtc)"

type_synonym OpenInterval = "int \<times> int"

definition windowsForLocalDate :: "BusinessCalendar \<Rightarrow> string \<Rightarrow> (int \<times> int) list" where
  "windowsForLocalDate calendar date =
     (case find (\<lambda>e. ce_date e = date) (bc_exceptions calendar) of
        Some e \<Rightarrow> (case ce_windows e of Some ws \<Rightarrow> ws | None \<Rightarrow> [])
      | None \<Rightarrow>
          if date \<in> set (bc_holidays calendar) then []
          else
            let (y, m, d) = dateFields date; weekday = weekDay (dayOfDate y m d)
            in map (\<lambda>w. (ww_openMinute w, ww_closeMinute w))
                 (filter (\<lambda>w. ww_weekday w = weekday) (bc_workingWindows calendar)))"

definition overlapOf :: "Zone \<Rightarrow> BusinessCalendar \<Rightarrow> int \<Rightarrow> int \<Rightarrow> string \<Rightarrow> int \<times> int \<Rightarrow> OpenInterval list" where
  "overlapOf zone calendar qfrom qto date w =
     (let opensAt = instantAtLocal zone (bc_timezone calendar) date (fst w);
          closesAt = instantAtLocal zone (bc_timezone calendar) date (snd w);
          overlapFrom = max opensAt qfrom;
          overlapTo = min closesAt qto
      in if overlapTo > overlapFrom then [(overlapFrom, overlapTo)] else [])"

fun walkDays :: "nat \<Rightarrow> (string \<Rightarrow> 'a list) \<Rightarrow> string \<Rightarrow> string \<Rightarrow> 'a list" where
  "walkDays 0 f date endDate = []"
| "walkDays (Suc n) f date endDate =
     f date @ (if date \<ge> endDate then [] else walkDays n f (shiftDate date 1) endDate)"

definition openIntervals :: "Zone \<Rightarrow> BusinessCalendar \<Rightarrow> int \<Rightarrow> int \<Rightarrow> OpenInterval list" where
  "openIntervals zone calendar qfrom qto =
     (if qto \<le> qfrom then []
      else
        let startDate = shiftDate (lp_date (localPartsOf zone qfrom (bc_timezone calendar))) (- 1);
            endDate = lp_date (localPartsOf zone qto (bc_timezone calendar))
        in sort_key fst (walkDays (MAX_DAYS + 1)
             (\<lambda>date. concat (map (overlapOf zone calendar qfrom qto date) (windowsForLocalDate calendar date)))
             startDate endDate))"

definition clipToVersion :: "BusinessCalendar \<Rightarrow> int \<Rightarrow> int \<Rightarrow> (int \<times> int) option" where
  "clipToVersion calendar qfrom qto =
     (let start = max qfrom (dateParse (bc_effectiveFrom calendar));
          end = (case bc_effectiveTo calendar of None \<Rightarrow> qto | Some e \<Rightarrow> min qto (dateParse e))
      in if end > start then Some (start, end) else None)"

text \<open>The open intervals of one version within a query window.\<close>

definition versionIntervals :: "Zone \<Rightarrow> int \<Rightarrow> int \<Rightarrow> BusinessCalendar \<Rightarrow> OpenInterval list" where
  "versionIntervals zone qfrom qto version =
     (case clipToVersion version qfrom qto of
        None \<Rightarrow> [] | Some (a, b) \<Rightarrow> openIntervals zone version a b)"

definition spanOf :: "OpenInterval \<Rightarrow> int" where
  "spanOf i = snd i - fst i"

text \<open>\<open>total += span / 1000\<close>: the quotient is rounded, then the sum.\<close>

definition addSpan :: "rat \<Rightarrow> OpenInterval \<Rightarrow> rat" where
  "addSpan sofar i = addRounded sofar (of_int (spanOf i) / 1000)"

definition addVersion :: "Zone \<Rightarrow> int \<Rightarrow> int \<Rightarrow> rat \<Rightarrow> BusinessCalendar \<Rightarrow> rat" where
  "addVersion zone qfrom qto sofar version = foldl addSpan sofar (versionIntervals zone qfrom qto version)"

definition elapsedWorkingSeconds :: "Zone \<Rightarrow> BusinessCalendar list \<Rightarrow> Timestamp \<Rightarrow> Timestamp \<Rightarrow> int" where
  "elapsedWorkingSeconds zone versions qfrom qto =
     (if dateParse qto \<le> dateParse qfrom then 0
      else jsRound (foldl (addVersion zone (dateParse qfrom) (dateParse qto)) 0 versions))"

fun spendIntervals :: "int \<Rightarrow> OpenInterval list \<Rightarrow> int option" where
  "spendIntervals remaining [] = None"
| "spendIntervals remaining (i # is) =
     (if spanOf i \<ge> remaining then Some (fst i + remaining)
      else spendIntervals (remaining - spanOf i) is)"

definition instantAfterWorkingSeconds ::
  "Zone \<Rightarrow> BusinessCalendar list \<Rightarrow> Timestamp \<Rightarrow> int \<Rightarrow> int \<Rightarrow> Timestamp option" where
  "instantAfterWorkingSeconds zone versions qfrom seconds horizonDays =
     (if seconds \<le> 0 then Some qfrom
      else
        let start = dateParse qfrom;
            horizon = start + horizonDays * MINUTES_PER_DAY * MS_PER_MINUTE
        in map_option toISOString (spendIntervals (seconds * 1000)
             (sort_key fst (concat (map (versionIntervals zone start horizon) versions)))))"

text \<open>The smallest first opening of any version, in the order the versions are read.\<close>

fun earliestOpening :: "int option \<Rightarrow> OpenInterval list list \<Rightarrow> int option" where
  "earliestOpening earliest [] = earliest"
| "earliestOpening earliest ([] # rest) = earliestOpening earliest rest"
| "earliestOpening earliest ((i # is) # rest) =
     earliestOpening (case earliest of
         None \<Rightarrow> Some (fst i)
       | Some e \<Rightarrow> if fst i < e then Some (fst i) else Some e) rest"

definition nextOpening :: "Zone \<Rightarrow> BusinessCalendar list \<Rightarrow> Timestamp \<Rightarrow> int \<Rightarrow> Timestamp option" where
  "nextOpening zone versions at_time horizonDays =
     (let start = dateParse at_time;
          horizon = start + horizonDays * MINUTES_PER_DAY * MS_PER_MINUTE
      in map_option toISOString
           (earliestOpening None (map (versionIntervals zone start horizon) versions)))"

definition inForce :: "int \<Rightarrow> BusinessCalendar \<Rightarrow> bool" where
  "inForce instant v \<longleftrightarrow>
     dateParse (bc_effectiveFrom v) \<le> instant \<and>
     (case bc_effectiveTo v of None \<Rightarrow> True | Some e \<Rightarrow> instant < dateParse e)"

definition versionAt :: "BusinessCalendar list \<Rightarrow> Timestamp \<Rightarrow> BusinessCalendar option" where
  "versionAt versions at_time = find (inForce (dateParse at_time)) versions"

end
