(* ===== verification/Sla_Intervals.thy ===== *)
theory Sla_Intervals
  imports Sla_Clock "HOL-Library.Multiset"
begin

text \<open>
  The walk over local dates measures openness: in a zone of constant offset, the open intervals of a
  calendar cover exactly the open instants, and when no instant is covered twice their lengths add
  up to the number of open milliseconds.
\<close>

section \<open>Interval lists\<close>

definition covers :: "int \<Rightarrow> OpenInterval \<Rightarrow> bool" where
  "covers t i \<longleftrightarrow> fst i \<le> t \<and> t < snd i"

definition coverCount :: "int \<Rightarrow> OpenInterval list \<Rightarrow> nat" where
  "coverCount t is = length (filter (covers t) is)"

definition proper :: "OpenInterval list \<Rightarrow> bool" where
  "proper is \<longleftrightarrow> list_all (\<lambda>i. fst i < snd i) is"

lemma coverCount_simps [simp]:
  "coverCount t [] = 0"
  "coverCount t (i # is) = (if covers t i then Suc (coverCount t is) else coverCount t is)"
  "coverCount t (is @ js) = coverCount t is + coverCount t js"
  by (simp_all add: coverCount_def)

lemma coverCount_sort [simp]: "coverCount t (sort_key f is) = coverCount t is"
  unfolding coverCount_def by (metis mset_filter mset_sort size_mset)

lemma proper_simps [simp]:
  "proper []" "proper (i # is) \<longleftrightarrow> fst i < snd i \<and> proper is"
  "proper (is @ js) \<longleftrightarrow> proper is \<and> proper js"
  by (simp_all add: proper_def)

lemma proper_sort [simp]: "proper (sort_key f is) = proper is"
  by (simp add: proper_def list_all_iff)

lemma sum_spans_sort: "sum_list (map spanOf (sort_key f is)) = sum_list (map spanOf is)"
  by (metis mset_map mset_sort sum_mset_sum_list)

text \<open>Counting the milliseconds of the intervals one by one.\<close>

lemma card_covers:
  assumes "lo \<le> fst i" and "fst i \<le> snd i" and "snd i \<le> hi"
  shows "int (card {t. lo \<le> t \<and> t < hi \<and> covers t i}) = spanOf i"
proof -
  have "{t. lo \<le> t \<and> t < hi \<and> covers t i} = {fst i..<snd i}" using assms by (auto simp: covers_def)
  then show ?thesis using assms by (simp add: spanOf_def)
qed

lemma sum_spans_count:
  assumes "list_all (\<lambda>i. lo \<le> fst i \<and> fst i \<le> snd i \<and> snd i \<le> hi) is"
  shows "sum_list (map spanOf is) = (\<Sum>t\<in>{lo..<hi}. int (coverCount t is))"
  using assms
proof (induction "is")
  case (Cons i "is")
  have "(\<Sum>t\<in>{lo..<hi}. int (coverCount t (i # is))) =
      (\<Sum>t\<in>{lo..<hi}. (if covers t i then 1 else 0) + int (coverCount t is))"
    by (rule sum.cong) auto
  also have "\<dots> = (\<Sum>t\<in>{lo..<hi}. if covers t i then 1 else 0) + (\<Sum>t\<in>{lo..<hi}. int (coverCount t is))"
    by (rule sum.distrib)
  also have "(\<Sum>t\<in>{lo..<hi}. if covers t i then 1 else (0::int)) = int (card {t. lo \<le> t \<and> t < hi \<and> covers t i})"
    by (simp add: sum.If_cases Int_def)
  also have "\<dots> = spanOf i" using Cons.prems by (intro card_covers) auto
  finally show ?case using Cons by simp
qed simp

lemma sum_spans_card:
  assumes "list_all (\<lambda>i. lo \<le> fst i \<and> fst i \<le> snd i \<and> snd i \<le> hi) is"
    and "\<And>t. lo \<le> t \<Longrightarrow> t < hi \<Longrightarrow> coverCount t is \<le> 1"
  shows "sum_list (map spanOf is) = int (card {t. lo \<le> t \<and> t < hi \<and> 0 < coverCount t is})"
proof -
  have "sum_list (map spanOf is) = (\<Sum>t\<in>{lo..<hi}. if 0 < coverCount t is then 1 else 0)"
    unfolding sum_spans_count[OF assms(1)]
  proof (rule sum.cong[OF refl])
    fix t
    assume "t \<in> {lo..<hi}"
    with assms(2)[of t] show "int (coverCount t is) = (if 0 < coverCount t is then 1 else 0)" by auto
  qed
  also have "\<dots> = int (card {t. lo \<le> t \<and> t < hi \<and> 0 < coverCount t is})"
    by (simp add: sum.If_cases Int_def)
  finally show ?thesis .
qed

lemma coverCount_pos: "0 < coverCount t is \<longleftrightarrow> (\<exists>i\<in>set is. covers t i)"
  by (auto simp: coverCount_def filter_empty_conv)

section \<open>Zones of constant offset\<close>

lemma zdiv_less_iff:
  fixes x q n :: int
  assumes "0 < n"
  shows "x div n < q \<longleftrightarrow> x < q * n"
proof
  assume "x div n < q"
  then have "x div n + 1 \<le> q" by simp
  then have "(x div n + 1) * n \<le> q * n" using assms by (intro mult_right_mono) auto
  moreover have "x < (x div n + 1) * n"
    using div_mult_mod_eq[of x n, symmetric] pos_mod_bound[OF assms, of x]
    unfolding distrib_right mult_1_left by linarith
  ultimately show "x < q * n" by (rule less_le_trans[rotated])
next
  assume x: "x < q * n"
  show "x div n < q"
  proof (rule ccontr)
    assume "\<not> x div n < q"
    then have "q * n \<le> x div n * n" using assms by (intro mult_right_mono) auto
    also have "\<dots> \<le> x" using div_mult_mod_eq[of x n, symmetric] pos_mod_sign[OF assms, of x] by linarith
    finally show False using x by simp
  qed
qed

definition fixedOffset :: "Zone \<Rightarrow> string \<Rightarrow> int \<Rightarrow> bool" where
  "fixedOffset zone tz c \<longleftrightarrow> (\<forall>t. zone tz t = c) \<and> c mod 60000 = 0 \<and> \<bar>c\<bar> < msPerDay"

text \<open>The wall clock of the zone at an instant, and the local day it shows.\<close>

abbreviation localDay :: "int \<Rightarrow> int \<Rightarrow> int" where
  "localDay c t \<equiv> (t + c) div msPerDay"

lemma div_ms_minutes:
  fixes x :: int
  shows "x div msPerDay * 1440 + x mod msPerDay div 60000 = x div 60000"
proof -
  have m: "msPerDay = 60000 * 1440" by (simp add: msPerDay_def)
  have "x div msPerDay = x div 60000 div 1440" unfolding m by (rule zdiv_zmult2_eq) simp
  moreover have "x mod msPerDay = 60000 * (x div 60000 mod 1440) + x mod 60000"
    unfolding m by (rule zmod_zmult2_eq) simp
  then have "x mod msPerDay div 60000 = x div 60000 mod 1440" by simp
  ultimately show ?thesis by simp
qed

lemma correctedInstant_fixed:
  assumes "fixedOffset zone tz c" and "plainDay (localDay c t)" and "t mod 60000 = 0"
  shows "correctedInstant zone tz u t = u - c"
proof -
  obtain y m d where cd: "civilFromDay (localDay c t) = (y, m, d)" by (cases "civilFromDay (localDay c t)")
  have z: "zone tz t = c" and c: "c mod 60000 = 0" using assms(1) by (simp_all add: fixedOffset_def)
  have "(t + c) mod 60000 = 0" using assms(3) c by (metis add_0 mod_0 mod_add_eq)
  then have w: "(t + c) div 60000 * 60000 = t + c"
    using div_mult_mod_eq[of "t + c" 60000] by simp
  have "dayOfDate y m d * msPerDay + (t + c) mod msPerDay div 60000 * 60000 = (t + c) div 60000 * 60000"
    using div_ms_minutes[of "t + c"] dayOfDate_plain(2)[OF assms(2) cd]
    by (simp add: msPerDay_def algebra_simps)
  then show ?thesis
    by (simp add: correctedInstant_def localPartsOf_def Let_def z cd MS_PER_MINUTE_def w)
qed

lemma instantAtLocal_fixed:
  assumes "fixedOffset zone tz c" and "0 \<le> m" and "m \<le> 2880"
    and "dayFromYear 100 + 2 \<le> d" and "d + 5 < dayFromYear 10000"
  shows "instantAtLocal zone tz (isoDate d) m = d * msPerDay + m * 60000 - c"
proof -
  let ?u = "d * msPerDay + m * 60000"
  have cb: "\<bar>c\<bar> < msPerDay" and c: "c mod 60000 = 0" using assms(1) by (simp_all add: fixedOffset_def)
  have pd: "plainDay d" using assms(4,5) by (simp add: plainDay_def)
  have near: "plainDay ((?u + e) div msPerDay)" if e: "\<bar>e\<bar> < msPerDay" for e
  proof -
    have "(d - 1) * msPerDay \<le> ?u + e" "?u + e < (d + 4) * msPerDay"
      using e assms(2,3) by (simp_all add: msPerDay_def)
    moreover have "0 < msPerDay" by (simp add: msPerDay_def)
    ultimately have "d - 1 \<le> (?u + e) div msPerDay" "(?u + e) div msPerDay < d + 4"
      using zdiv_mono1[of "(d - 1) * msPerDay" "?u + e" msPerDay] by (simp_all add: zdiv_less_iff)
    then show ?thesis using assms(4,5) by (simp add: plainDay_def)
  qed
  have m0: "?u mod 60000 = 0" "(?u - c) mod 60000 = 0"
  proof -
    have u: "?u = (d * 1440 + m) * 60000" by (simp add: msPerDay_def)
    show "?u mod 60000 = 0" unfolding u by (rule mod_mult_self2_is_0)
    then show "(?u - c) mod 60000 = 0" using c by (metis diff_0 mod_diff_eq mod_minus_eq minus_zero mod_0)
  qed
  have "correctedInstant zone tz ?u ?u = ?u - c"
    using correctedInstant_fixed[OF assms(1) near[OF cb] m0(1)] .
  moreover have "correctedInstant zone tz ?u (?u - c) = ?u - c"
    using correctedInstant_fixed[OF assms(1) _ m0(2), of ?u] near[of 0] by (simp add: msPerDay_def)
  moreover obtain y m' k where cd: "civilFromDay d = (y, m', k)" by (cases "civilFromDay d")
  ultimately show ?thesis
    by (simp add: instantAtLocal_def dateFields_isoDate plainDay_year(3)[OF pd] cd
        dayOfDate_plain(2)[OF pd cd] MS_PER_MINUTE_def numeral_2_eq_2 Let_def)
qed

section \<open>The walk\<close>

text \<open>The days the walk visits, and the sign that it reached its end before the guard.\<close>

lemma walkDays_isoDate:
  assumes "plainDay d" and "plainDay (d + int n)" and "d \<le> e" and "e \<le> d + int n" and "n < fuel"
  shows "walkDays fuel f (isoDate d) (isoDate e) = concat (map (\<lambda>k. f (isoDate k)) [d..e])"
  using assms
proof (induction fuel arbitrary: d n)
  case (Suc fuel)
  have pe: "plainDay e" using Suc.prems(1-4) by (auto simp: plainDay_def)
  have le: "isoDate e \<le> isoDate d \<longleftrightarrow> e \<le> d"
    by (rule isoDate_le_iff) (use pe Suc.prems(1) plainDay_year(3) in auto)
  show ?case
  proof (cases "e \<le> d")
    case True
    with Suc.prems(3) have "e = d" by simp
    then show ?thesis by (simp add: le)
  next
    case False
    then obtain n' where n: "n = Suc n'" using Suc.prems(4) by (cases n) auto
    have p1: "plainDay (d + 1)" using Suc.prems(1) pe False by (auto simp: plainDay_def)
    have "walkDays fuel f (isoDate (d + 1)) (isoDate e) = concat (map (\<lambda>k. f (isoDate k)) [d + 1..e])"
      using Suc.prems n False p1 by (intro Suc.IH[of "d + 1" n']) (auto simp: algebra_simps)
    moreover have "[d..e] = d # [d + 1..e]" using False by (subst upto.simps) simp
    ultimately show ?thesis
      using False by (simp add: le shiftDate_isoDate[OF Suc.prems(1) p1])
  qed
qed simp

lemma windows_agree: "windowsForLocalDate calendar date = windowsForDate calendar date"
  by (simp add: windowsForLocalDate_def windowsForDate_def weekdayOf_def split_def Let_def split: option.split)

text \<open>What the reader of calendars accepts: windows within two days, closing after they open.\<close>

definition wellFormed :: "BusinessCalendar \<Rightarrow> bool" where
  "wellFormed calendar \<longleftrightarrow>
     list_all (\<lambda>w. 0 \<le> ww_openMinute w \<and> ww_openMinute w < ww_closeMinute w \<and> ww_closeMinute w \<le> 2880)
       (bc_workingWindows calendar) \<and>
     list_all (\<lambda>e. case ce_windows e of None \<Rightarrow> True
        | Some ws \<Rightarrow> list_all (\<lambda>(op, cl). 0 \<le> op \<and> op < cl \<and> cl \<le> 2880) ws) (bc_exceptions calendar)"

lemma wellFormed_windows:
  assumes "wellFormed calendar" and "(op, cl) \<in> set (windowsForDate calendar date)"
  shows "0 \<le> op \<and> op < cl \<and> cl \<le> 2880"
proof (cases "find (\<lambda>e. ce_date e = date) (bc_exceptions calendar)")
  case None
  with assms show ?thesis
    by (auto simp: wellFormed_def windowsForDate_def list_all_iff split: if_splits)
next
  case (Some e)
  with assms(2) obtain ws where "ce_windows e = Some ws" and "(op, cl) \<in> set ws"
    by (cases "ce_windows e") (auto simp: windowsForDate_def)
  with assms(1) find_SomeD[OF Some] show ?thesis
    by (fastforce simp: wellFormed_def list_all_iff split: option.splits)
qed

text \<open>The window of a day as an interval of instants.\<close>

definition windowSpan :: "int \<Rightarrow> int \<Rightarrow> int \<times> int \<Rightarrow> OpenInterval" where
  "windowSpan c d w = (d * msPerDay + fst w * 60000 - c, d * msPerDay + snd w * 60000 - c)"

lemma covers_windowSpan:
  assumes "0 \<le> op" and "cl \<le> 2880"
  shows "covers t (windowSpan c d (op, cl)) \<longleftrightarrow>
    op \<le> (localDay c t - d) * 1440 + (t + c) mod msPerDay div 60000 \<and>
    (localDay c t - d) * 1440 + (t + c) mod msPerDay div 60000 < cl"
proof -
  let ?m = "(t + c) div 60000"
  have e: "(localDay c t - d) * 1440 + (t + c) mod msPerDay div 60000 = ?m - d * 1440"
    using div_ms_minutes[of "t + c"] by (simp add: algebra_simps)
  have a: "d * msPerDay + op * 60000 - c \<le> t \<longleftrightarrow> d * 1440 + op \<le> ?m"
  proof -
    have "d * msPerDay + op * 60000 - c \<le> t \<longleftrightarrow> (d * 1440 + op) * 60000 \<le> t + c"
      by (auto simp: msPerDay_def algebra_simps)
    also have "\<dots> \<longleftrightarrow> d * 1440 + op \<le> ?m" unfolding not_less[symmetric] by (simp only: zdiv_less_iff zero_less_numeral)
    finally show ?thesis .
  qed
  have b: "t < d * msPerDay + cl * 60000 - c \<longleftrightarrow> ?m < d * 1440 + cl"
  proof -
    have "t < d * msPerDay + cl * 60000 - c \<longleftrightarrow> t + c < (d * 1440 + cl) * 60000"
      by (auto simp: msPerDay_def algebra_simps)
    also have "\<dots> \<longleftrightarrow> ?m < d * 1440 + cl" by (simp only: zdiv_less_iff zero_less_numeral)
    finally show ?thesis .
  qed
  show ?thesis unfolding e by (auto simp: covers_def windowSpan_def a b)
qed

section \<open>The intervals are the open instants\<close>

definition clipTo :: "int \<Rightarrow> int \<Rightarrow> OpenInterval \<Rightarrow> OpenInterval list" where
  "clipTo qfrom qto i =
     (if min (snd i) qto > max (fst i) qfrom then [(max (fst i) qfrom, min (snd i) qto)] else [])"

lemma coverCount_clipTo:
  "coverCount t (clipTo qfrom qto i) = (if qfrom \<le> t \<and> t < qto \<and> covers t i then 1 else 0)"
  by (auto simp: clipTo_def covers_def coverCount_def)

text \<open>The span of time the model speaks of: from the year 100 to the year 9999, with a margin.\<close>

definition plainRange :: "int \<Rightarrow> int \<Rightarrow> int \<Rightarrow> bool" where
  "plainRange c qfrom qto \<longleftrightarrow>
     dayFromYear 100 + 3 \<le> localDay c qfrom \<and> localDay c qto + 5 < dayFromYear 10000"

definition dayIntervals :: "BusinessCalendar \<Rightarrow> int \<Rightarrow> int \<Rightarrow> int \<Rightarrow> int \<Rightarrow> OpenInterval list" where
  "dayIntervals cal c qfrom qto d =
     concat (map (\<lambda>w. clipTo qfrom qto (windowSpan c d w)) (windowsForDate cal (isoDate d)))"

lemma localDay_mono: "t \<le> t' \<Longrightarrow> localDay c t \<le> localDay c t'"
  by (rule zdiv_mono1) (simp_all add: msPerDay_def)

lemma openIntervals_walk:
  assumes "fixedOffset zone (bc_timezone cal) c" and "wellFormed cal" and "qfrom < qto"
    and "plainRange c qfrom qto" and "localDay c qto - localDay c qfrom < int MAX_DAYS"
  shows "openIntervals zone cal qfrom qto =
    sort_key fst (concat (map (dayIntervals cal c qfrom qto) [localDay c qfrom - 1..localDay c qto]))"
proof -
  let ?a = "localDay c qfrom" and ?b = "localDay c qto"
  have z: "zone (bc_timezone cal) t = c" for t using assms(1) by (simp add: fixedOffset_def)
  have ab: "?a \<le> ?b" using assms(3) by (intro localDay_mono) simp
  have p: "plainDay ?a" "plainDay (?a - 1)" "plainDay ?b"
    using assms(4) ab by (auto simp: plainRange_def plainDay_def)
  have start: "shiftDate (lp_date (localPartsOf zone qfrom (bc_timezone cal))) (- 1) = isoDate (?a - 1)"
    using shiftDate_isoDate[OF p(1), of "- 1"] p localPartsOf_date[of qfrom zone "bc_timezone cal"] by (simp add: z)
  have fin: "lp_date (localPartsOf zone qto (bc_timezone cal)) = isoDate ?b"
    using p localPartsOf_date[of qto zone "bc_timezone cal"] by (simp add: z)
  have day: "concat (map (overlapOf zone cal qfrom qto (isoDate d)) (windowsForLocalDate cal (isoDate d))) =
      dayIntervals cal c qfrom qto d" if d: "?a - 1 \<le> d" "d \<le> ?b" for d
  proof -
    have "overlapOf zone cal qfrom qto (isoDate d) w = clipTo qfrom qto (windowSpan c d w)"
      if w: "w \<in> set (windowsForDate cal (isoDate d))" for w
    proof -
      obtain op cl where wp: "w = (op, cl)" by (cases w)
      with wellFormed_windows[OF assms(2), of op cl] w have "0 \<le> op" "op < cl" "cl \<le> 2880" by auto
      then show ?thesis
        using assms(4) d instantAtLocal_fixed[OF assms(1), of op d] instantAtLocal_fixed[OF assms(1), of cl d]
        by (simp add: overlapOf_def wp clipTo_def windowSpan_def plainRange_def Let_def)
    qed
    then show ?thesis unfolding dayIntervals_def windows_agree by (intro arg_cong[where f = concat] map_cong refl)
  qed
  define n where "n = nat (?b - ?a + 1)"
  have n: "?b = ?a - 1 + int n" "n < MAX_DAYS + 1" using ab assms(5) by (auto simp: n_def)
  have "walkDays (MAX_DAYS + 1)
      (\<lambda>date. concat (map (overlapOf zone cal qfrom qto date) (windowsForLocalDate cal date)))
      (isoDate (?a - 1)) (isoDate ?b) =
    concat (map (\<lambda>d. concat (map (overlapOf zone cal qfrom qto (isoDate d)) (windowsForLocalDate cal (isoDate d)))) [?a - 1..?b])"
    by (rule walkDays_isoDate[where n = n]) (use p n ab in auto)
  also have "\<dots> = concat (map (dayIntervals cal c qfrom qto) [?a - 1..?b])"
    using day by (intro arg_cong[where f = concat] map_cong refl) auto
  finally show ?thesis
    using assms(3) by (simp add: openIntervals_def start fin Let_def)
qed

text \<open>How many windows of the calendar are open at an instant.\<close>

definition openCount :: "int \<Rightarrow> BusinessCalendar \<Rightarrow> int \<Rightarrow> nat" where
  "openCount c cal t =
     (let d = localDay c t; m = (t + c) mod msPerDay div 60000
      in length (filter (\<lambda>(op, cl). op \<le> m \<and> m < cl) (windowsForDate cal (isoDate d))) +
         length (filter (\<lambda>(op, cl). op \<le> m + 1440 \<and> m + 1440 < cl) (windowsForDate cal (isoDate (d - 1)))))"

lemma minute_bounds: "0 \<le> (t + c) mod msPerDay div 60000 \<and> (t + c) mod msPerDay div 60000 < 1440"
  by (simp add: msPerDay_def pos_imp_zdiv_nonneg_iff zdiv_less_iff)

lemma isOpenAt_openCount:
  assumes "fixedOffset zone (bc_timezone cal) c" and "plainDay (localDay c t)" and "plainDay (localDay c t - 1)"
  shows "isOpenAt zone cal t \<longleftrightarrow> 0 < openCount c cal t"
proof -
  have z: "zone (bc_timezone cal) t = c" using assms(1) by (simp add: fixedOffset_def)
  have date: "lp_date (localPartsOf zone t (bc_timezone cal)) = isoDate (localDay c t)"
    using assms(2) localPartsOf_date[of t zone "bc_timezone cal"] by (simp add: z)
  have minute: "lp_minuteOfDay (localPartsOf zone t (bc_timezone cal)) = (t + c) mod msPerDay div 60000"
    by (simp add: localPartsOf_def Let_def z split: prod.split)
  have "shiftDate (isoDate (localDay c t)) (- 1) = isoDate (localDay c t - 1)"
    using shiftDate_isoDate[OF assms(2), of "- 1"] assms(3) by simp
  moreover have "(\<lambda>(op, cl). \<not> cl \<le> 1440 \<and> m + 1440 \<ge> op \<and> m + 1440 < cl) =
      (\<lambda>(op, cl). op \<le> m + 1440 \<and> m + 1440 < cl)" if "0 \<le> m" for m :: int
    using that by (auto simp: fun_eq_iff)
  note this[OF conjunct1[OF minute_bounds]]
  moreover have "list_ex P xs \<longleftrightarrow> 0 < length (filter P xs)" for P and xs :: "(int \<times> int) list"
    by (auto simp: list_ex_iff filter_empty_conv)
  ultimately show ?thesis
    by (simp add: isOpenAt_def Let_def date minute openCount_def MINUTES_PER_DAY_def)
qed

lemma coverCount_concat: "coverCount t (concat xs) = sum_list (map (coverCount t) xs)"
  by (induction xs) simp_all

lemma coverCount_dayIntervals:
  assumes "wellFormed cal" and "qfrom \<le> t" and "t < qto"
  shows "coverCount t (dayIntervals cal c qfrom qto d) =
    length (filter (\<lambda>(op, cl). op \<le> (localDay c t - d) * 1440 + (t + c) mod msPerDay div 60000 \<and>
      (localDay c t - d) * 1440 + (t + c) mod msPerDay div 60000 < cl) (windowsForDate cal (isoDate d)))"
proof -
  let ?P = "\<lambda>(op, cl). op \<le> (localDay c t - d) * 1440 + (t + c) mod msPerDay div 60000 \<and>
      (localDay c t - d) * 1440 + (t + c) mod msPerDay div 60000 < cl"
  have "coverCount t (concat (map (\<lambda>w. clipTo qfrom qto (windowSpan c d w)) ws)) = length (filter ?P ws)"
    if "set ws \<subseteq> set (windowsForDate cal (isoDate d))" for ws
    using that
  proof (induction ws)
    case (Cons w ws)
    obtain op cl where w: "w = (op, cl)" by (cases w)
    with Cons.prems wellFormed_windows[OF assms(1), of op cl] have "0 \<le> op" "cl \<le> 2880" by auto
    with Cons show ?case by (simp add: coverCount_clipTo assms w covers_windowSpan)
  qed simp
  then show ?thesis by (simp add: dayIntervals_def)
qed

lemma far_minutes:
  fixes op cl m k :: int
  assumes "0 \<le> op" and "cl \<le> 2880" and "0 \<le> m" and "m < 1440" and "2 \<le> k \<or> k \<le> - 1"
  shows "\<not> (op \<le> k * 1440 + m \<and> k * 1440 + m < cl)"
  using assms by auto

lemma no_window_far:
  assumes "wellFormed cal" and "d \<noteq> localDay c t" and "d \<noteq> localDay c t - 1"
  shows "filter (\<lambda>(op, cl). op \<le> (localDay c t - d) * 1440 + (t + c) mod msPerDay div 60000 \<and>
      (localDay c t - d) * 1440 + (t + c) mod msPerDay div 60000 < cl) (windowsForDate cal (isoDate d)) = []"
proof -
  have "\<not> (op \<le> (localDay c t - d) * 1440 + (t + c) mod msPerDay div 60000 \<and>
      (localDay c t - d) * 1440 + (t + c) mod msPerDay div 60000 < cl)"
    if w: "(op, cl) \<in> set (windowsForDate cal (isoDate d))" for op cl
  proof (rule far_minutes)
    show "2 \<le> localDay c t - d \<or> localDay c t - d \<le> - 1" using assms(2,3) by linarith
  qed (use wellFormed_windows[OF assms(1) w] minute_bounds[of t c] in auto)
  then show ?thesis by (auto simp: filter_empty_conv)
qed

lemma sum_two_days:
  fixes f :: "int \<Rightarrow> nat"
  assumes "\<And>d. d \<noteq> k \<Longrightarrow> d \<noteq> k - 1 \<Longrightarrow> f d = 0" and "a \<le> k - 1" and "k \<le> b"
  shows "sum_list (map f [a..b]) = f (k - 1) + f k"
proof -
  have "sum_list (map f [a..b]) = sum f {a..b}"
    by (simp add: sum_set_upto_conv_sum_list_int[symmetric])
  also have "\<dots> = sum f {k - 1, k}"
    using assms by (intro sum.mono_neutral_right) auto
  finally show ?thesis by simp
qed

text \<open>
  The intervals of the walk count, at every instant of the query, the windows that are open there,
  and nothing outside the query.
\<close>

lemma coverCount_openIntervals:
  assumes "fixedOffset zone (bc_timezone cal) c" and "wellFormed cal" and "qfrom < qto"
    and "plainRange c qfrom qto" and "localDay c qto - localDay c qfrom < int MAX_DAYS"
  shows "coverCount t (openIntervals zone cal qfrom qto) =
    (if qfrom \<le> t \<and> t < qto then openCount c cal t else 0)"
proof (cases "qfrom \<le> t \<and> t < qto")
  case True
  let ?k = "localDay c t"
  let ?f = "\<lambda>d. coverCount t (dayIntervals cal c qfrom qto d)"
  have f: "?f d = length (filter (\<lambda>(op, cl). op \<le> (?k - d) * 1440 + (t + c) mod msPerDay div 60000 \<and>
      (?k - d) * 1440 + (t + c) mod msPerDay div 60000 < cl) (windowsForDate cal (isoDate d)))" for d
    using True by (intro coverCount_dayIntervals assms) auto
  have "sum_list (map ?f [localDay c qfrom - 1..localDay c qto]) = ?f (?k - 1) + ?f ?k"
  proof (rule sum_two_days)
    show "?f d = 0" if "d \<noteq> ?k" "d \<noteq> ?k - 1" for d
      unfolding f no_window_far[OF assms(2) that] by simp
    show "localDay c qfrom - 1 \<le> ?k - 1" "?k \<le> localDay c qto"
      using localDay_mono[of qfrom t c] localDay_mono[of t qto c] True by auto
  qed
  also have "\<dots> = openCount c cal t" by (simp add: f openCount_def Let_def add.commute)
  finally show ?thesis
    using True by (simp add: openIntervals_walk[OF assms] coverCount_concat comp_def)
next
  case False
  have "coverCount t (dayIntervals cal c qfrom qto d) = 0" for d
    using False by (auto simp: dayIntervals_def coverCount_concat comp_def coverCount_clipTo)
  then show ?thesis
    using False by (auto simp: openIntervals_walk[OF assms] coverCount_concat comp_def)
qed

lemma openIntervals_within:
  assumes "fixedOffset zone (bc_timezone cal) c" and "wellFormed cal" and "qfrom < qto"
    and "plainRange c qfrom qto" and "localDay c qto - localDay c qfrom < int MAX_DAYS"
  shows "list_all (\<lambda>i. qfrom \<le> fst i \<and> fst i < snd i \<and> snd i \<le> qto) (openIntervals zone cal qfrom qto)"
  by (auto simp: openIntervals_walk[OF assms] list_all_iff dayIntervals_def clipTo_def split: if_splits)

section \<open>Versions\<close>

text \<open>
  The hypotheses on one calendar version within a query: a zone of constant offset, well-formed
  windows, a span of dates the walk covers before its guard, and no minute covered by two windows.
\<close>

definition versionOk :: "Zone \<Rightarrow> int \<Rightarrow> int \<Rightarrow> BusinessCalendar \<Rightarrow> bool" where
  "versionOk zone qfrom qto v \<longleftrightarrow>
     (\<exists>c. fixedOffset zone (bc_timezone v) c \<and> wellFormed v \<and> plainRange c qfrom qto \<and>
        localDay c qto - localDay c qfrom < int MAX_DAYS \<and> (\<forall>t. openCount c v t \<le> 1))"

lemma versionIntervals_empty: "clipToVersion v qfrom qto = None \<Longrightarrow> versionIntervals zone qfrom qto v = []"
  by (simp add: versionIntervals_def)

lemma clipToVersion_Some:
  assumes "clipToVersion v qfrom qto = Some (a, b)"
  shows "qfrom \<le> a \<and> a < b \<and> b \<le> qto"
    and "a \<le> t \<and> t < b \<longleftrightarrow> qfrom \<le> t \<and> t < qto \<and> inForce t v"
  using assms by (auto simp: clipToVersion_def inForce_def Let_def split: if_splits option.splits)

lemma clipToVersion_None:
  assumes "clipToVersion v qfrom qto = None"
  shows "\<not> (qfrom \<le> t \<and> t < qto \<and> inForce t v)"
  using assms by (auto simp: clipToVersion_def inForce_def Let_def split: if_splits option.splits)

lemma versionOk_sub:
  assumes "versionOk zone qfrom qto v" and "qfrom \<le> a" and "b \<le> qto"
  shows "versionOk zone a b v"
proof -
  from assms(1) obtain c where c: "fixedOffset zone (bc_timezone v) c" "wellFormed v" "plainRange c qfrom qto"
    "localDay c qto - localDay c qfrom < int MAX_DAYS" "\<forall>t. openCount c v t \<le> 1"
    by (auto simp: versionOk_def)
  moreover have "localDay c qfrom \<le> localDay c a" "localDay c b \<le> localDay c qto"
    using assms(2,3) by (simp_all add: localDay_mono)
  ultimately show ?thesis by (auto simp: versionOk_def plainRange_def)
qed

text \<open>The team works at an instant under a version: the version is in force and open.\<close>

definition worksAt :: "Zone \<Rightarrow> BusinessCalendar \<Rightarrow> int \<Rightarrow> bool" where
  "worksAt zone v t \<longleftrightarrow> inForce t v \<and> isOpenAt zone v t"

lemma coverCount_version:
  assumes "versionOk zone qfrom qto v"
  shows "coverCount t (versionIntervals zone qfrom qto v) =
    (if qfrom \<le> t \<and> t < qto \<and> worksAt zone v t then 1 else 0)"
proof (cases "clipToVersion v qfrom qto")
  case None
  then show ?thesis
    using clipToVersion_None[OF None, of t] by (auto simp: versionIntervals_def worksAt_def)
next
  case (Some ab)
  obtain a b where ab: "clipToVersion v qfrom qto = Some (a, b)" using Some by (cases ab) simp
  note cl = clipToVersion_Some[OF ab]
  from versionOk_sub[OF assms] cl(1) have "versionOk zone a b v" by simp
  then obtain c where c: "fixedOffset zone (bc_timezone v) c" "wellFormed v" "plainRange c a b"
    "localDay c b - localDay c a < int MAX_DAYS" and one: "\<forall>t. openCount c v t \<le> 1"
    by (auto simp: versionOk_def)
  have e: "coverCount t (versionIntervals zone qfrom qto v) = (if a \<le> t \<and> t < b then openCount c v t else 0)"
    using coverCount_openIntervals[OF c(1,2) _ c(3,4), of t] cl(1) by (simp add: versionIntervals_def ab)
  show ?thesis
  proof (cases "a \<le> t \<and> t < b")
    case True
    have "plainDay (localDay c t)" "plainDay (localDay c t - 1)"
      using c(3) localDay_mono[of a t c] localDay_mono[of t b c] True
      by (auto simp: plainRange_def plainDay_def)
    from isOpenAt_openCount[OF c(1) this] one[rule_format, of t] True cl(2)[of t] show ?thesis
      by (auto simp: e worksAt_def)
  next
    case False
    then show ?thesis using cl(2)[of t] by (auto simp: e worksAt_def)
  qed
qed

lemma versionIntervals_within:
  assumes "versionOk zone qfrom qto v"
  shows "list_all (\<lambda>i. qfrom \<le> fst i \<and> fst i < snd i \<and> snd i \<le> qto) (versionIntervals zone qfrom qto v)"
proof (cases "clipToVersion v qfrom qto")
  case (Some ab)
  obtain a b where ab: "clipToVersion v qfrom qto = Some (a, b)" using Some by (cases ab) simp
  note cl = clipToVersion_Some(1)[OF ab]
  from versionOk_sub[OF assms] cl have "versionOk zone a b v" by simp
  then obtain c where c: "fixedOffset zone (bc_timezone v) c" "wellFormed v" "plainRange c a b"
    "localDay c b - localDay c a < int MAX_DAYS"
    by (auto simp: versionOk_def)
  from openIntervals_within[OF c(1,2) _ c(3,4)] cl show ?thesis
    by (auto simp: versionIntervals_def ab list_all_iff)
qed (simp add: versionIntervals_def)

lemma version_sum:
  assumes "versionOk zone qfrom qto v"
  shows "sum_list (map spanOf (versionIntervals zone qfrom qto v)) =
    int (card {t. qfrom \<le> t \<and> t < qto \<and> worksAt zone v t})"
proof -
  have "sum_list (map spanOf (versionIntervals zone qfrom qto v)) =
      int (card {t. qfrom \<le> t \<and> t < qto \<and> 0 < coverCount t (versionIntervals zone qfrom qto v)})"
    by (rule sum_spans_card)
       (use versionIntervals_within[OF assms] coverCount_version[OF assms] in \<open>auto simp: list_all_iff\<close>)
  also have "{t. qfrom \<le> t \<and> t < qto \<and> 0 < coverCount t (versionIntervals zone qfrom qto v)} =
      {t. qfrom \<le> t \<and> t < qto \<and> worksAt zone v t}"
    using coverCount_version[OF assms] by auto
  finally show ?thesis .
qed

end
