(* ===== verification/Sla_State.thy ===== *)
theory Sla_State
  imports Sla_Clock
begin

text \<open>
  The state of a service clock, \<open>packages/sla/src/sla-state.ts\<close>: elapsed time on the basis of the
  target, less the pauses of the resolution clock, its status, and the instant of breach; and the
  choice of the target that applies. Fractions of a second are floating-point numbers, rounded where
  the source rounds; whole seconds are integers.
\<close>

datatype SlaClock = FIRST_RESPONSE | RESOLUTION | ESCALATION_CLOCK

datatype SlaBasis = BUSINESS_HOURS | CALENDAR_24X7

record SlaTarget =
  st_clock :: SlaClock
  st_targetSeconds :: int
  st_basis :: SlaBasis
  st_warningPct :: int
  st_provisional :: bool

record PauseSpan =
  ps_from :: Timestamp
  ps_to :: "Timestamp option"

record ClockFacts =
  cf_startedAt :: "Timestamp option"
  cf_stoppedAt :: "Timestamp option"
  cf_pauses :: "PauseSpan list option"

datatype SlaStatus = NOT_STARTED | RUNNING | WARNING | BREACHED | MET | MISSED

record SlaState =
  ss_clock :: SlaClock
  ss_status :: SlaStatus
  ss_elapsedSeconds :: int
  ss_targetSeconds :: int
  ss_remainingSeconds :: int
  ss_breachAt :: "Timestamp option"
  ss_breachedAt :: "Timestamp option"
  ss_provisional :: bool

text \<open>One pause of the sum, clipped to the measured window and on the basis of the clock.\<close>

definition addPause ::
  "Zone \<Rightarrow> Timestamp \<Rightarrow> Timestamp \<Rightarrow> SlaBasis \<Rightarrow> BusinessCalendar list \<Rightarrow> rat \<Rightarrow> PauseSpan \<Rightarrow> rat" where
  "addPause zone windowFrom windowTo basis calendars sofar pause =
     (let pfrom = (if dateParse (ps_from pause) < dateParse windowFrom then windowFrom else ps_from pause);
          pto = (case ps_to pause of
                   None \<Rightarrow> windowTo
                 | Some e \<Rightarrow> if dateParse e > dateParse windowTo then windowTo else e)
      in if dateParse pto \<le> dateParse pfrom then sofar
         else addRounded sofar (case basis of
             CALENDAR_24X7 \<Rightarrow> of_int (dateParse pto - dateParse pfrom) / 1000
           | BUSINESS_HOURS \<Rightarrow> of_int (elapsedWorkingSeconds zone calendars pfrom pto)))"

definition pausedSeconds ::
  "Zone \<Rightarrow> PauseSpan list \<Rightarrow> Timestamp \<Rightarrow> Timestamp \<Rightarrow> SlaBasis \<Rightarrow> BusinessCalendar list \<Rightarrow> int" where
  "pausedSeconds zone pauses windowFrom windowTo basis calendars =
     jsRound (foldl (addPause zone windowFrom windowTo basis calendars) 0 pauses)"

definition grossSeconds ::
  "Zone \<Rightarrow> SlaBasis \<Rightarrow> BusinessCalendar list \<Rightarrow> Timestamp \<Rightarrow> Timestamp \<Rightarrow> rat" where
  "grossSeconds zone basis calendars startedAt measureTo =
     (case basis of
        CALENDAR_24X7 \<Rightarrow> max 0 (dbl (of_int (dateParse measureTo - dateParse startedAt) / 1000))
      | BUSINESS_HOURS \<Rightarrow> of_int (elapsedWorkingSeconds zone calendars startedAt measureTo))"

definition breachInstant ::
  "Zone \<Rightarrow> SlaBasis \<Rightarrow> BusinessCalendar list \<Rightarrow> Timestamp \<Rightarrow> int \<Rightarrow> Timestamp option" where
  "breachInstant zone basis calendars startedAt effectiveTarget =
     (case basis of
        CALENDAR_24X7 \<Rightarrow> Some (toISOString (dateParse startedAt + effectiveTarget * 1000))
      | BUSINESS_HOURS \<Rightarrow> instantAfterWorkingSeconds zone calendars startedAt effectiveTarget 365)"

definition slaState :: "Zone \<Rightarrow> SlaTarget \<Rightarrow> ClockFacts \<Rightarrow> BusinessCalendar list \<Rightarrow> Timestamp \<Rightarrow> SlaState" where
  "slaState zone target facts calendars at_time =
     (case cf_startedAt facts of
        None \<Rightarrow>
          \<lparr>ss_clock = st_clock target, ss_status = NOT_STARTED, ss_elapsedSeconds = 0,
           ss_targetSeconds = st_targetSeconds target, ss_remainingSeconds = st_targetSeconds target,
           ss_breachAt = None, ss_breachedAt = None, ss_provisional = st_provisional target\<rparr>
      | Some startedAt \<Rightarrow>
          let stopped = cf_stoppedAt facts \<noteq> None;
              measureTo = (case cf_stoppedAt facts of Some s \<Rightarrow> s | None \<Rightarrow> at_time);
              gross = grossSeconds zone (st_basis target) calendars startedAt measureTo;
              paused = (case cf_pauses facts of
                  None \<Rightarrow> 0
                | Some ps \<Rightarrow>
                    if st_clock target = RESOLUTION \<and> length ps > 0
                    then pausedSeconds zone ps startedAt measureTo (st_basis target) calendars else 0);
              elapsedSeconds = max 0 (jsRound gross - paused);
              remainingSeconds = st_targetSeconds target - elapsedSeconds;
              effectiveTarget = st_targetSeconds target + paused;
              breachAt = breachInstant zone (st_basis target) calendars startedAt effectiveTarget;
              overTarget = elapsedSeconds \<ge> st_targetSeconds target;
              base = (\<lambda>status breachedAt.
                \<lparr>ss_clock = st_clock target, ss_status = status, ss_elapsedSeconds = elapsedSeconds,
                 ss_targetSeconds = st_targetSeconds target, ss_remainingSeconds = remainingSeconds,
                 ss_breachAt = breachAt, ss_breachedAt = breachedAt,
                 ss_provisional = st_provisional target\<rparr>)
          in if stopped then base (if overTarget then MISSED else MET) (if overTarget then breachAt else None)
             else if overTarget then base BREACHED breachAt
             else base (if of_int elapsedSeconds \<ge>
                          dbl (of_int (st_targetSeconds target * st_warningPct target) / 100)
                        then WARNING else RUNNING) None)"

record ScopedSlaTarget = SlaTarget +
  sl_scopeKind :: string
  sl_scopeId :: string

definition selectTarget ::
  "ScopedSlaTarget list \<Rightarrow> string option \<Rightarrow> string option \<Rightarrow> SlaClock \<Rightarrow> ScopedSlaTarget option" where
  "selectTarget targets categoryId teamId clock =
     (let forClock = filter (\<lambda>t. st_clock t = clock) targets
      in case find (\<lambda>t. sl_scopeKind t = ''CATEGORY'' \<and> Some (sl_scopeId t) = categoryId) forClock of
           Some t \<Rightarrow> Some t
         | None \<Rightarrow> find (\<lambda>t. sl_scopeKind t = ''TEAM'' \<and> Some (sl_scopeId t) = teamId) forClock)"

end
