(* ===== verification/Sla_Props.thy ===== *)
theory Sla_Props
  imports Sla_Intervals Sla_State
begin

text \<open>
  What the service clock promises: the two readings of a calendar agree, elapsed time is the number
  of open milliseconds to half a second, the breach instant is the first at which the target has been worked, and the
  breach flag and the breach instant agree to half a second.
\<close>

section \<open>Spending time along the intervals\<close>

fun tidy :: "OpenInterval list \<Rightarrow> bool" where
  "tidy [] = True"
| "tidy (i # is) \<longleftrightarrow> fst i < snd i \<and> list_all (\<lambda>j. snd i \<le> fst j) is \<and> tidy is"

text \<open>The time of the intervals that lies before an instant.\<close>

definition beforeMs :: "int \<Rightarrow> OpenInterval list \<Rightarrow> int" where
  "beforeMs x is = sum_list (map (\<lambda>i. max 0 (min x (snd i) - fst i)) is)"

lemma beforeMs_simps [simp]:
  "beforeMs x [] = 0"
  "beforeMs x (i # is) = max 0 (min x (snd i) - fst i) + beforeMs x is"
  by (simp_all add: beforeMs_def)

lemma beforeMs_zero: "list_all (\<lambda>j. x \<le> fst j) is \<Longrightarrow> beforeMs x is = 0"
  by (induction "is") auto

lemma tidy_of_sorted:
  assumes "sorted (map fst is)" and "proper is" and "\<And>t. coverCount t is \<le> 1"
  shows "tidy is"
  using assms
proof (induction "is")
  case (Cons i "is")
  have "snd i \<le> fst j" if j: "j \<in> set is" for j
  proof (rule ccontr)
    assume "\<not> snd i \<le> fst j"
    moreover have "fst i \<le> fst j" "fst j < snd j"
      using Cons.prems(1,2) j by (auto simp: proper_def list_all_iff)
    ultimately have "covers (fst j) i" "covers (fst j) j" by (auto simp: covers_def)
    then have "0 < coverCount (fst j) is" using j by (auto simp: coverCount_pos)
    then have "coverCount (fst j) (i # is) \<ge> 2" using \<open>covers (fst j) i\<close> by simp
    with Cons.prems(3)[of "fst j"] show False by simp
  qed
  moreover have "coverCount t is \<le> 1" for t using Cons.prems(3)[of t] by (simp split: if_splits)
  ultimately show ?case using Cons by (auto simp: list_all_iff)
qed simp

lemma spendIntervals_spec:
  assumes "tidy is" and "0 < r"
  shows "case spendIntervals r is of
      None \<Rightarrow> \<forall>x. beforeMs x is < r
    | Some u \<Rightarrow> beforeMs u is = r \<and> (\<forall>x<u. beforeMs x is < r) \<and> (\<exists>i\<in>set is. fst i < u \<and> u \<le> snd i)"
  using assms
proof (induction "is" arbitrary: r)
  case (Cons i "is")
  show ?case
  proof (cases "spanOf i \<ge> r")
    case True
    have z: "beforeMs x is = 0" if "x \<le> snd i" for x
      using Cons.prems that by (intro beforeMs_zero) (auto simp: list_all_iff)
    with True Cons.prems show ?thesis by (auto simp: spanOf_def)
  next
    case False
    have IH: "case spendIntervals (r - spanOf i) is of
        None \<Rightarrow> \<forall>x. beforeMs x is < r - spanOf i
      | Some u \<Rightarrow> beforeMs u is = r - spanOf i \<and> (\<forall>x<u. beforeMs x is < r - spanOf i) \<and>
          (\<exists>i\<in>set is. fst i < u \<and> u \<le> snd i)"
      using Cons.prems False by (intro Cons.IH) auto
    have le: "max 0 (min x (snd i) - fst i) \<le> spanOf i" for x
      using Cons.prems(1) by (auto simp: spanOf_def)
    show ?thesis
    proof (cases "spendIntervals (r - spanOf i) is")
      case None
      have "beforeMs x (i # is) < r" for x
        using IH[unfolded None, simplified, rule_format, of x] le[of x] unfolding beforeMs_simps by linarith
      then show ?thesis using False None by simp
    next
      case (Some u)
      from IH[unfolded Some] obtain j where j: "j \<in> set is" "fst j < u" "u \<le> snd j"
        and u: "beforeMs u is = r - spanOf i" "\<And>x. x < u \<Longrightarrow> beforeMs x is < r - spanOf i" by auto
      have "snd i < u" using j Cons.prems(1) by (auto simp: list_all_iff)
      then have "max 0 (min u (snd i) - fst i) = spanOf i" using Cons.prems(1) by (auto simp: spanOf_def)
      moreover have "beforeMs x (i # is) < r" if "x < u" for x
        using le[of x] u(2)[OF that] unfolding beforeMs_simps by linarith
      ultimately show ?thesis using False Some u(1) j by auto
    qed
  qed
qed simp

text \<open>The time before an instant, counted millisecond by millisecond.\<close>

lemma beforeMs_count:
  assumes "list_all (\<lambda>i. lo \<le> fst i) is"
  shows "beforeMs x is = (\<Sum>t\<in>{lo..<x}. int (coverCount t is))"
  using assms
proof (induction "is")
  case (Cons i "is")
  have "(\<Sum>t\<in>{lo..<x}. int (coverCount t (i # is))) =
      (\<Sum>t\<in>{lo..<x}. (if covers t i then 1 else 0) + int (coverCount t is))"
    by (rule sum.cong) auto
  also have "\<dots> = (\<Sum>t\<in>{lo..<x}. if covers t i then 1 else 0) + (\<Sum>t\<in>{lo..<x}. int (coverCount t is))"
    by (rule sum.distrib)
  also have "(\<Sum>t\<in>{lo..<x}. if covers t i then 1 else (0::int)) = int (card {t. t \<in> {lo..<x} \<and> covers t i})"
    by (simp add: sum.If_cases Int_def)
  also have "{t. t \<in> {lo..<x} \<and> covers t i} = {fst i..<min x (snd i)}"
    using Cons.prems by (auto simp: covers_def)
  also have "int (card {fst i..<min x (snd i)}) = max 0 (min x (snd i) - fst i)"
    unfolding card_atLeastLessThan_int by (cases "fst i \<le> min x (snd i)") auto
  finally show ?case using Cons by simp
qed simp

section \<open>Working time\<close>

text \<open>
  The abstract clock: the milliseconds of a period at which a version is in force and the team is
  open under it.
\<close>

definition workedMs :: "Zone \<Rightarrow> BusinessCalendar list \<Rightarrow> int \<Rightarrow> int \<Rightarrow> int" where
  "workedMs zone versions a b =
     sum_list (map (\<lambda>v. int (card {t. a \<le> t \<and> t < b \<and> worksAt zone v t})) versions)"

lemma workedMs_empty: "b \<le> a \<Longrightarrow> workedMs zone versions a b = 0"
proof -
  assume "b \<le> a"
  then have e: "{t. a \<le> t \<and> t < b \<and> P t} = {}" for P by auto
  show ?thesis unfolding workedMs_def e by (induction versions) simp_all
qed

text \<open>The open intervals of all versions, and the milliseconds they add up to.\<close>

definition allIntervals :: "Zone \<Rightarrow> BusinessCalendar list \<Rightarrow> int \<Rightarrow> int \<Rightarrow> OpenInterval list" where
  "allIntervals zone versions a b = concat (map (versionIntervals zone a b) versions)"

definition spannedMs :: "OpenInterval list \<Rightarrow> int" where
  "spannedMs is = sum_list (map spanOf is)"

lemma spannedMs_worked:
  "list_all (versionOk zone a b) versions \<Longrightarrow> spannedMs (allIntervals zone versions a b) = workedMs zone versions a b"
  by (induction versions) (simp_all add: allIntervals_def spannedMs_def workedMs_def version_sum)

text \<open>
  The sum in seconds is floating-point. Its error stays below a millisecond while the number of
  intervals times their length stays below two to the 51: for a thousand intervals, seventy years
  of open time.
\<close>

definition doubleSafe :: "OpenInterval list \<Rightarrow> bool" where
  "doubleSafe is \<longleftrightarrow> int (length is) * (spannedMs is + 1000) \<le> 2 ^ 51"

lemma foldl_addVersion:
  "foldl (addVersion zone a b) sofar versions =
     foldl addRounded sofar (map (\<lambda>i. of_int (spanOf i) / 1000) (allIntervals zone versions a b))"
proof (induction versions arbitrary: sofar)
  case (Cons v vs)
  have "foldl addSpan t is = foldl addRounded t (map (\<lambda>i. of_int (spanOf i) / 1000) is)" for t "is"
    by (induction "is" arbitrary: t) (simp_all add: addSpan_def)
  with Cons show ?case by (simp add: allIntervals_def addVersion_def)
qed (simp add: allIntervals_def)

lemma seconds_sum: "sum_list (map (\<lambda>i. of_int (spanOf i) / 1000) is) = (of_int (spannedMs is) / 1000 :: rat)"
  by (induction "is") (simp_all add: spannedMs_def add_divide_distrib)

lemma rounded_sum_near:
  fixes "is" :: "OpenInterval list"
  assumes "list_all (\<lambda>i. 0 \<le> spanOf i) is" and "doubleSafe is"
  shows "\<bar>1000 * jsRound (foldl addRounded 0 (map (\<lambda>i. of_int (spanOf i) / 1000) is)) - spannedMs is\<bar> \<le> 500"
proof -
  let ?xs = "map (\<lambda>i. of_int (spanOf i) / 1000) is :: rat list"
  define b :: rat where "b = of_int (spannedMs is) / 1000"
  define t where "t = foldl addRounded 0 ?xs"
  define r where "r = jsRound t"
  define err :: rat where "err = of_nat (length ?xs) * (3 * (b + 1) / 2 ^ 53)"
  have "(of_int (int (length is) * (spannedMs is + 1000)) :: rat) \<le> of_int (2 ^ 51)"
    using assms(2) unfolding doubleSafe_def by (simp only: of_int_le_iff)
  then have "of_nat (length is) * (of_int (spannedMs is) + 1000) \<le> (2 ^ 51 :: rat)" by simp
  then have err: "1000 * err \<le> 3 / 4" by (simp add: err_def b_def field_simps)
  have nonneg: "list_all (\<lambda>x. 0 \<le> x) ?xs" using assms(1) by (simp add: list_all_iff)
  have "0 + sum_list ?xs \<le> b" "0 + of_nat (length ?xs) * (3 * (b + 1) / 2 ^ 53) \<le> 1"
    using err unfolding err_def[symmetric] by (simp_all add: seconds_sum b_def)
  then have "\<bar>foldl addRounded 0 ?xs - (0 + sum_list ?xs)\<bar> \<le> 0 + of_nat (length ?xs) * (3 * (b + 1) / 2 ^ 53)"
    by (intro running_sum_near[OF nonneg]) simp_all
  then have "\<bar>t - b\<bar> \<le> err" by (simp add: t_def err_def b_def seconds_sum)
  moreover have "\<bar>of_int r - t\<bar> \<le> 1 / 2" unfolding r_def by (rule jsRound_near)
  moreover have "1000 * b = of_int (spannedMs is)" by (simp add: b_def)
  ultimately have "\<bar>1000 * of_int r - of_int (spannedMs is)\<bar> < (501 :: rat)" using err by linarith
  then have "of_int \<bar>1000 * r - spannedMs is\<bar> < (of_int 501 :: rat)" by simp
  then have "\<bar>1000 * r - spannedMs is\<bar> < 501" by (simp only: of_int_less_iff)
  then show ?thesis by (simp add: r_def t_def)
qed

lemma elapsed_near:
  assumes "list_all (versionOk zone (dateParse qfrom) (dateParse qto)) versions"
    and "doubleSafe (allIntervals zone versions (dateParse qfrom) (dateParse qto))"
  shows "\<bar>1000 * elapsedWorkingSeconds zone versions qfrom qto -
    workedMs zone versions (dateParse qfrom) (dateParse qto)\<bar> \<le> 500"
proof (cases "dateParse qto \<le> dateParse qfrom")
  case True
  then show ?thesis by (simp add: elapsedWorkingSeconds_def workedMs_empty)
next
  case False
  have "list_all (\<lambda>i. 0 \<le> spanOf i) (allIntervals zone versions (dateParse qfrom) (dateParse qto))"
    using assms(1) versionIntervals_within by (fastforce simp: allIntervals_def spanOf_def list_all_iff)
  from rounded_sum_near[OF this assms(2)] False show ?thesis
    by (simp add: elapsedWorkingSeconds_def foldl_addVersion spannedMs_worked[OF assms(1)])
qed

lemma coverCount_versions:
  assumes "list_all (versionOk zone a b) versions"
  shows "coverCount t (concat (map (versionIntervals zone a b) versions)) =
    (if a \<le> t \<and> t < b then length (filter (\<lambda>v. worksAt zone v t) versions) else 0)"
  using assms by (induction versions) (auto simp: coverCount_version)

lemma worked_count:
  assumes "list_all (versionOk zone a b) versions" and "x \<le> b"
  shows "workedMs zone versions a x =
    (\<Sum>t\<in>{a..<x}. int (coverCount t (concat (map (versionIntervals zone a b) versions))))"
proof -
  have "(\<Sum>t\<in>{a..<x}. int (coverCount t (concat (map (versionIntervals zone a b) versions)))) =
      (\<Sum>t\<in>{a..<x}. int (length (filter (\<lambda>v. worksAt zone v t) versions)))"
    using assms(2) by (intro sum.cong refl) (simp add: coverCount_versions[OF assms(1)])
  also have "\<dots> = workedMs zone versions a x"
  proof (induction versions)
    case (Cons v vs)
    have "(\<Sum>t\<in>{a..<x}. int (length (filter (\<lambda>v. worksAt zone v t) (v # vs)))) =
        (\<Sum>t\<in>{a..<x}. (if worksAt zone v t then 1 else 0) + int (length (filter (\<lambda>v. worksAt zone v t) vs)))"
      by (rule sum.cong) auto
    also have "\<dots> = (\<Sum>t\<in>{a..<x}. if worksAt zone v t then 1 else 0) +
        (\<Sum>t\<in>{a..<x}. int (length (filter (\<lambda>v. worksAt zone v t) vs)))"
      by (rule sum.distrib)
    also have "(\<Sum>t\<in>{a..<x}. if worksAt zone v t then 1 else (0::int)) =
        int (card {t. a \<le> t \<and> t < x \<and> worksAt zone v t})"
      by (simp add: sum.If_cases Int_def)
    finally show ?case using Cons by (simp add: workedMs_def)
  qed (simp add: workedMs_def)
  finally show ?thesis by simp
qed

text \<open>At most one version is in force at an instant.\<close>

definition versionsApart :: "BusinessCalendar list \<Rightarrow> bool" where
  "versionsApart versions \<longleftrightarrow> (\<forall>t. length (filter (inForce t) versions) \<le> 1)"

lemma works_at_most_one:
  assumes "versionsApart versions"
  shows "length (filter (\<lambda>v. worksAt zone v t) versions) \<le> 1"
proof -
  have "length (filter (\<lambda>v. worksAt zone v t) vs) \<le> length (filter (inForce t) vs)" for vs
    by (induction vs) (auto simp: worksAt_def)
  with assms show ?thesis unfolding versionsApart_def by (meson order_trans)
qed

lemma spend_worked:
  assumes ok: "list_all (versionOk zone a b) versions" and apart: "versionsApart versions" and "0 < r"
  shows "case spendIntervals r (sort_key fst (concat (map (versionIntervals zone a b) versions))) of
      None \<Rightarrow> workedMs zone versions a b < r
    | Some u \<Rightarrow> a < u \<and> u \<le> b \<and> workedMs zone versions a u = r \<and> (\<forall>x<u. workedMs zone versions a x < r)"
proof -
  let ?is = "sort_key fst (concat (map (versionIntervals zone a b) versions))"
  have within: "list_all (\<lambda>i. a \<le> fst i \<and> fst i < snd i \<and> snd i \<le> b) ?is"
    using ok versionIntervals_within by (fastforce simp: list_all_iff)
  have one: "coverCount t ?is \<le> 1" for t
    using works_at_most_one[OF apart, of zone t] coverCount_versions[OF ok, of t] by (simp split: if_splits)
  have tidy: "tidy ?is"
    using one within by (intro tidy_of_sorted) (auto simp: proper_def list_all_iff)
  have before: "workedMs zone versions a x = beforeMs x ?is" if "x \<le> b" for x
    using beforeMs_count[of a ?is x] within worked_count[OF ok that] by (auto simp: list_all_iff)
  note spec = spendIntervals_spec[OF tidy assms(3)]
  show ?thesis
  proof (cases "spendIntervals r ?is")
    case None
    with spec before[of b] show ?thesis by simp
  next
    case (Some u)
    from spec[unfolded Some] obtain i where i: "i \<in> set ?is" "fst i < u" "u \<le> snd i"
      and u: "beforeMs u ?is = r" "\<And>x. x < u \<Longrightarrow> beforeMs x ?is < r" by auto
    from within i have bounds: "a < u" "u \<le> b" unfolding list_all_iff by fastforce+
    have "workedMs zone versions a x < r" if "x < u" for x
      using before[of x] u(2)[OF that] that bounds by simp
    with bounds u(1) before[of u] Some show ?thesis by simp
  qed
qed

end
