(* ===== verification/Sla_Run.thy ===== *)
theory Sla_Run
  imports Sla_State
begin

text \<open>
  Running the clock: equations by which the kernel's simplifier evaluates the walk on concrete
  calendars. The counter of the walk is an integer in binary instead of a successor term, and the
  local bindings become arguments, so that nothing is unfolded on an unknown value.
\<close>

section \<open>Decimal digits\<close>

text \<open>\<open>showNat\<close> and \<open>readNat\<close> on integers in binary.\<close>

function showInt :: "int \<Rightarrow> string" where
  "showInt k = (if k < 10 then [char_of (48 + max 0 k)] else showInt (k div 10) @ [char_of (48 + k mod 10)])"
  by auto

termination by (relation "measure nat") auto

declare showInt.simps [simp del]

lemma char_of_int: "char_of (int n) = char_of n"
  by (simp add: char_of_def bit_of_nat_iff_bit)

lemma showNat_showInt: "showNat (nat k) = showInt k"
proof (induction k rule: showInt.induct)
  case (1 k)
  show ?case
  proof (cases "k < 10")
    case True
    then have "nat k < 10" by linarith
    then have "showNat (nat k) = [char_of (48 + nat k)]" by (subst showNat.simps) simp
    moreover have "int (48 + nat k) = 48 + max 0 k" by simp
    ultimately show ?thesis
      using True char_of_int[of "48 + nat k"] by (subst showInt.simps) simp
  next
    case False
    then have n: "\<not> nat k < 10" by linarith
    from False have "nat k div 10 = nat (k div 10)" "nat k mod 10 = nat (k mod 10)"
      by (simp_all add: nat_div_distrib nat_mod_distrib)
    then have "showNat (nat k) = showInt (k div 10) @ [char_of (48 + nat (k mod 10))]"
      using n 1[OF False] by (simp only: showNat.simps[of "nat k"] if_False)
    moreover have "char_of (48 + nat (k mod 10)) = (char_of (48 + k mod 10) :: char)"
      using char_of_int[of "48 + nat (k mod 10)"] by simp
    ultimately show ?thesis using False by (simp only: showInt.simps[of k] if_False)
  qed
qed

definition readInt :: "string \<Rightarrow> int" where
  "readInt s = foldl (\<lambda>n c. 10 * n + max 0 (of_char c - 48)) 0 s"

lemma readNat_readInt: "int (readNat s) = readInt s"
proof -
  have "int (foldl (\<lambda>n c. 10 * n + (of_char c - 48)) k s) =
      foldl (\<lambda>n c. 10 * n + max 0 (of_char c - 48)) (int k) s" for k
  proof (induction s arbitrary: k)
    case (Cons c s)
    have "int (of_char c) = of_char c" by (rule of_nat_of_char)
    then have "int (10 * k + (of_char c - 48)) = 10 * int k + max 0 (of_char c - 48)" by linarith
    with Cons[of "10 * k + (of_char c - 48)"] show ?case by simp
  qed simp
  from this[of 0] show ?thesis by (simp add: readNat_def readInt_def)
qed

lemma dateText_code [code]:
  "dateText y m d = padStart 4 (showInt y) @ ''-'' @ padStart 2 (showInt m) @ ''-'' @ padStart 2 (showInt d)"
  by (simp add: dateText_def showNat_showInt)

definition pad2 :: "int \<Rightarrow> string" where
  "pad2 n = padStart 2 (showInt n)"

lemma isoTime_code [code]:
  "isoTime ms = pad2 (ms div 3600000) @ '':'' @ pad2 (ms mod 3600000 div 60000) @ '':'' @
     pad2 (ms mod 60000 div 1000) @ ''.'' @ padStart 3 (showInt (ms mod 1000))"
  by (simp add: isoTime_def pad2_def showNat_showInt)

fun fieldsOf :: "string list \<Rightarrow> int \<times> int \<times> int" where
  "fieldsOf [y, m, d] = (readInt y, readInt m, readInt d)"
| "fieldsOf other = (0, 0, 0)"

lemma dateFields_code [code]: "dateFields date = fieldsOf (split_on (CHR ''-'') date)"
  unfolding dateFields_def
  by (cases "split_on (CHR ''-'') date" rule: fieldsOf.cases) (simp_all add: readNat_readInt)

fun midnightOf :: "int \<times> int \<times> int \<Rightarrow> int" where
  "midnightOf (y, m, d) = makeDay y m d * msPerDay"

definition fieldAt :: "nat \<Rightarrow> nat \<Rightarrow> string \<Rightarrow> int" where
  "fieldAt i n s = readInt (take n (drop i s))"

lemma dateParse_code [code]:
  "dateParse s = midnightOf (dateFields (take 10 s)) + fieldAt 11 2 s * 3600000 + fieldAt 14 2 s * 60000 +
     fieldAt 17 2 s * 1000 + fieldAt 20 3 s"
  by (simp add: dateParse_def fieldAt_def readNat_readInt split: prod.split)

fun shiftRun :: "int \<times> int \<times> int \<Rightarrow> int \<Rightarrow> string" where
  "shiftRun (y, m, d) days = take 10 (isoDate (dayOfDate y m (d + days)) @ ''T'' @ isoTime 0 @ ''Z'')"

lemma shiftDate_code [code]: "shiftDate date days = shiftRun (dateFields date) days"
  by (simp add: shiftDate_def toISOString_def msPerDay_def split: prod.split)

section \<open>The walk\<close>

function walkFrom :: "int \<Rightarrow> (string \<Rightarrow> 'a list) \<Rightarrow> string \<Rightarrow> string \<Rightarrow> 'a list" where
  "walkFrom n f date endDate =
     (if n \<le> 0 then []
      else f date @ (if date \<ge> endDate then [] else walkFrom (n - 1) f (shiftDate date 1) endDate))"
  by auto

termination by (relation "measure (\<lambda>(n, f, date, endDate). nat n)") auto

declare walkFrom.simps [simp del]

lemma walkDays_walkFrom: "walkDays n f date endDate = walkFrom (int n) f date endDate"
  by (induction n arbitrary: date) (subst walkFrom.simps; simp)+

definition passNext :: "nat \<Rightarrow> Zone \<Rightarrow> string \<Rightarrow> int \<Rightarrow> int \<Rightarrow> int \<Rightarrow> int" where
  "passNext n zone timezone asIfUtc instant corrected =
     (if corrected = instant then instant else correctionPasses n zone timezone asIfUtc corrected)"

lemma correctionPasses_code [code]:
  "correctionPasses 0 zone timezone asIfUtc instant = instant"
  "correctionPasses (Suc n) zone timezone asIfUtc instant =
     passNext n zone timezone asIfUtc instant (correctedInstant zone timezone asIfUtc instant)"
  by (simp_all add: passNext_def Let_def)

fun instantOf :: "Zone \<Rightarrow> string \<Rightarrow> int \<times> int \<times> int \<Rightarrow> int \<Rightarrow> int" where
  "instantOf zone timezone (y, m, d) minuteOfDay =
     correctionPasses 2 zone timezone
       (dayOfDate y m d * msPerDay + minuteOfDay * MS_PER_MINUTE)
       (dayOfDate y m d * msPerDay + minuteOfDay * MS_PER_MINUTE)"

lemma instantAtLocal_code [code]:
  "instantAtLocal zone timezone date minuteOfDay = instantOf zone timezone (dateFields date) minuteOfDay"
  by (simp add: instantAtLocal_def Let_def split: prod.split)

definition overlapRun :: "int \<Rightarrow> int \<Rightarrow> int \<Rightarrow> int \<Rightarrow> OpenInterval list" where
  "overlapRun qfrom qto opensAt closesAt =
     (if min closesAt qto > max opensAt qfrom then [(max opensAt qfrom, min closesAt qto)] else [])"

lemma overlapOf_code [code]:
  "overlapOf zone calendar qfrom qto date w =
     overlapRun qfrom qto (instantAtLocal zone (bc_timezone calendar) date (fst w))
       (instantAtLocal zone (bc_timezone calendar) date (snd w))"
  by (simp add: overlapOf_def overlapRun_def Let_def)

definition dayRun :: "Zone \<Rightarrow> BusinessCalendar \<Rightarrow> int \<Rightarrow> int \<Rightarrow> string \<Rightarrow> OpenInterval list" where
  "dayRun zone calendar qfrom qto date =
     concat (map (overlapOf zone calendar qfrom qto date) (windowsForLocalDate calendar date))"

lemma openIntervals_code [code]:
  "openIntervals zone calendar qfrom qto =
     (if qto \<le> qfrom then []
      else sort_key fst (walkFrom 3661 (dayRun zone calendar qfrom qto)
        (shiftDate (lp_date (localPartsOf zone qfrom (bc_timezone calendar))) (- 1))
        (lp_date (localPartsOf zone qto (bc_timezone calendar)))))"
  by (simp add: openIntervals_def walkDays_walkFrom dayRun_def[abs_def] MAX_DAYS_def Let_def)

fun clippedRun :: "Zone \<Rightarrow> BusinessCalendar \<Rightarrow> (int \<times> int) option \<Rightarrow> OpenInterval list" where
  "clippedRun zone version None = []"
| "clippedRun zone version (Some (a, b)) = openIntervals zone version a b"

lemma versionIntervals_code [code]:
  "versionIntervals zone qfrom qto version = clippedRun zone version (clipToVersion version qfrom qto)"
  by (simp add: versionIntervals_def split: option.split)

end
