(* ===== verification/Sla_Claims.thy ===== *)
theory Sla_Claims
  imports Sla_Props Sla_Run
begin

text \<open>
  The properties of the service clock, with a support desk in India (open ten to seven from Monday to
  Saturday, closed on one holiday) as the concrete calendar of the witnesses.
\<close>

section \<open>A support desk\<close>

definition indiaZone :: Zone where
  "indiaZone tz t = 19800000"

definition deskCalendar :: BusinessCalendar where
  "deskCalendar =
     \<lparr>bc_calendarId = ''cal-1'', bc_teamId = ''support'', bc_timezone = ''Asia/Kolkata'', bc_version = 1,
      bc_effectiveFrom = ''2026-01-01T00:00:00.000Z'', bc_effectiveTo = None,
      bc_workingWindows = map (\<lambda>d. \<lparr>ww_weekday = d, ww_openMinute = 600, ww_closeMinute = 1140\<rparr>) [1, 2, 3, 4, 5, 6],
      bc_holidays = [''2026-08-15''], bc_exceptions = [], bc_provisional = False\<rparr>"

lemma indiaZone_fixed: "fixedOffset indiaZone tz 19800000"
  by (simp add: fixedOffset_def indiaZone_def msPerDay_def)

lemma deskCalendar_sel [simp]:
  "bc_timezone deskCalendar = ''Asia/Kolkata''"
  "bc_effectiveFrom deskCalendar = ''2026-01-01T00:00:00.000Z''" "bc_effectiveTo deskCalendar = None"
  by (simp_all add: deskCalendar_def)

lemma deskCalendar_wellFormed: "wellFormed deskCalendar"
  by (simp add: wellFormed_def deskCalendar_def)

lemma deskCalendar_windows: "windowsForDate deskCalendar date \<in> {[], [(600, 1140)]}"
proof -
  have "map (\<lambda>w. (ww_openMinute w, ww_closeMinute w)) (filter (\<lambda>w. ww_weekday w = k)
      (map (\<lambda>d. \<lparr>ww_weekday = d, ww_openMinute = 600, ww_closeMinute = 1140\<rparr>) ds)) \<in> {[], [(600, 1140)]}"
    if "distinct ds" for k and ds :: "int list"
    using that
  proof (induction ds)
    case (Cons d ds)
    have "filter (\<lambda>w. ww_weekday w = k) (map (\<lambda>d. \<lparr>ww_weekday = d, ww_openMinute = 600, ww_closeMinute = 1140\<rparr>) ds) = []"
      if "d = k" using Cons.prems that by (auto simp: filter_empty_conv)
    with Cons show ?case by auto
  qed simp
  from this[of "[1, 2, 3, 4, 5, 6]" "weekdayOf date"] show ?thesis
    by (simp add: windowsForDate_def deskCalendar_def del: list.map)
qed

lemma deskCalendar_once: "openCount c deskCalendar t \<le> 1"
  using deskCalendar_windows[of "isoDate (localDay c t)"] deskCalendar_windows[of "isoDate (localDay c t - 1)"]
    minute_bounds[of t c] by (auto simp: openCount_def Let_def)

lemma localDay_shift: "localDay c (t + k * msPerDay) = localDay c t + k"
proof -
  have e: "t + k * msPerDay + c = (t + c) + k * msPerDay" by simp
  have "msPerDay \<noteq> 0" by (simp add: msPerDay_def)
  then show ?thesis unfolding e by (subst div_mult_self1) simp_all
qed

lemma deskCalendar_ok:
  assumes "0 \<le> a" and "a \<le> b" and "b \<le> a + 400 * msPerDay" and "b \<le> 100000000000000"
  shows "versionOk indiaZone a b deskCalendar"
proof -
  let ?c = "19800000 :: int"
  have p: "0 < msPerDay" by (simp add: msPerDay_def)
  have "0 \<le> localDay ?c a" using assms(1) p by (simp add: pos_imp_zdiv_nonneg_iff)
  moreover have "localDay ?c b < 1200000"
    using assms(4) p by (simp add: zdiv_less_iff msPerDay_def)
  moreover have "localDay ?c b \<le> localDay ?c (a + 400 * msPerDay)" by (rule localDay_mono[OF assms(3)])
  moreover have "localDay ?c (a + 400 * msPerDay) = localDay ?c a + 400" by (rule localDay_shift)
  moreover have "dayFromYear 100 = - 683003" "dayFromYear 10000 = 2932897" by code_simp+
  ultimately have "plainRange ?c a b" "localDay ?c b - localDay ?c a < int MAX_DAYS"
    by (simp_all add: plainRange_def MAX_DAYS_def)
  then show ?thesis
    using indiaZone_fixed deskCalendar_wellFormed deskCalendar_once by (auto simp: versionOk_def)
qed

section \<open>One calendar, two readings\<close>

text \<open>
  the walk and the question agree. In a zone of constant offset, the open intervals that the clock
  walks through cover an instant exactly when it lies in the query and the calendar answers that
  the team is open at it: windows past midnight, exceptions and holidays included.
\<close>

theorem open_intervals_are_the_open_instants:
  assumes "fixedOffset zone (bc_timezone cal) c" and "wellFormed cal" and "qfrom < qto"
    and "plainRange c qfrom qto" and "localDay c qto - localDay c qfrom < int MAX_DAYS"
  shows "(\<exists>i\<in>set (openIntervals zone cal qfrom qto). fst i \<le> t \<and> t < snd i) \<longleftrightarrow>
    qfrom \<le> t \<and> t < qto \<and> isOpenAt zone cal t"
proof -
  have "(\<exists>i\<in>set (openIntervals zone cal qfrom qto). fst i \<le> t \<and> t < snd i) \<longleftrightarrow>
      0 < coverCount t (openIntervals zone cal qfrom qto)"
    by (simp add: coverCount_pos covers_def)
  moreover have "isOpenAt zone cal t \<longleftrightarrow> 0 < openCount c cal t" if "qfrom \<le> t" "t < qto"
  proof (rule isOpenAt_openCount[OF assms(1)])
    show "plainDay (localDay c t)" "plainDay (localDay c t - 1)"
      using assms(4) localDay_mono[of qfrom t c] localDay_mono[of t qto c] that
      by (auto simp: plainRange_def plainDay_def)
  qed
  ultimately show ?thesis by (auto simp: coverCount_openIntervals[OF assms])
qed

theorem open_intervals_are_the_open_instants_witness:
  "\<exists>i\<in>set (openIntervals indiaZone deskCalendar 1787500000000 1787600000000). fst i \<le> 1787560000000 \<and> 1787560000000 < snd i"
proof -
  have o: "isOpenAt indiaZone deskCalendar 1787560000000" by code_simp
  have "plainRange 19800000 1787500000000 1787600000000"
    "localDay 19800000 1787600000000 - localDay 19800000 1787500000000 < int MAX_DAYS"
    by code_simp+
  with o indiaZone_fixed deskCalendar_wellFormed show ?thesis
    by (subst open_intervals_are_the_open_instants[where c = 19800000]) auto
qed

section \<open>Elapsed time\<close>

lemma single_version_apart: "versionsApart [v]"
  by (simp add: versionsApart_def)

text \<open>
  C7: elapsed working time is the open time. Against the abstract clock, that counts the milliseconds
  of the period at which some version of the calendar is in force and open, the number of seconds
  returned is within half a second of that count, for all the floating-point sums on the way. For
  each version this assumes a zone of constant offset, a calendar as the reader accepts it with no
  two windows open at once, years of four digits and fewer than 3660 days between the ends; and that
  the number of open intervals times their length is at most two to the 51 milliseconds.
\<close>

theorem elapsed_is_the_open_time:
  assumes "list_all (versionOk zone (dateParse qfrom) (dateParse qto)) versions"
    and "doubleSafe (allIntervals zone versions (dateParse qfrom) (dateParse qto))"
  shows "\<bar>1000 * elapsedWorkingSeconds zone versions qfrom qto -
    workedMs zone versions (dateParse qfrom) (dateParse qto)\<bar> \<le> 500"
  by (rule elapsed_near[OF assms])

theorem elapsed_is_the_open_time_witness:
  "\<bar>1000 * 5400 - workedMs indiaZone [deskCalendar] (dateParse ''2026-08-14T13:00:00.000Z'')
     (dateParse ''2026-08-17T05:30:00.000Z'')\<bar> \<le> 500"
proof -
  have d: "dateParse ''2026-08-14T13:00:00.000Z'' = 1786712400000"
    "dateParse ''2026-08-17T05:30:00.000Z'' = 1786944600000" by code_simp+
  then have ok: "list_all (versionOk indiaZone (dateParse ''2026-08-14T13:00:00.000Z'')
      (dateParse ''2026-08-17T05:30:00.000Z'')) [deskCalendar]"
    by (simp add: deskCalendar_ok msPerDay_def)
  have safe: "doubleSafe (allIntervals indiaZone [deskCalendar] (dateParse ''2026-08-14T13:00:00.000Z'')
      (dateParse ''2026-08-17T05:30:00.000Z''))" unfolding d by code_simp
  have "elapsedWorkingSeconds indiaZone [deskCalendar] ''2026-08-14T13:00:00.000Z'' ''2026-08-17T05:30:00.000Z'' = 5400"
    by code_simp
  with elapsed_is_the_open_time[OF ok safe] show ?thesis by simp
qed

text \<open>
  the floating-point sum rounds down a sum that is exactly on the half. Intervals of 10, twice
  32400000 and 1490 milliseconds are 64801.5 seconds; added as the source adds them they are 64801.
\<close>

lemma half_lost_in_the_sum:
  "spannedMs [(0, 10), (10, 32400010), (32400010, 64800010), (64800010, 64801500)] = 64801500 \<and>
   jsRound (foldl addSpan 0 [(0, 10), (10, 32400010), (32400010, 64800010), (64800010, 64801500)]) = 64801"
  by code_simp

text \<open>
  overlapping windows are counted twice. Two windows of one day that overlap are both
  walked, so an hour of the wall clock can count for two hours of working time; nothing in the reader of
  calendars refuses them.
\<close>

definition overlappingCalendar :: BusinessCalendar where
  "overlappingCalendar = deskCalendar
     \<lparr>bc_workingWindows := [\<lparr>ww_weekday = 1, ww_openMinute = 600, ww_closeMinute = 840\<rparr>,
        \<lparr>ww_weekday = 1, ww_openMinute = 780, ww_closeMinute = 1140\<rparr>]\<rparr>"

theorem overlapping_windows_count_twice:
  "wellFormed overlappingCalendar \<and>
   dateParse ''2026-08-17T08:30:00.000Z'' - dateParse ''2026-08-17T07:30:00.000Z'' = 3600 * 1000 \<and>
   elapsedWorkingSeconds indiaZone [overlappingCalendar] ''2026-08-17T07:30:00.000Z'' ''2026-08-17T08:30:00.000Z'' = 7200"
proof (intro conjI)
  show "wellFormed overlappingCalendar" by (simp add: wellFormed_def overlappingCalendar_def deskCalendar_def)
qed code_simp+

section \<open>The instant of breach\<close>

lemma versionOk_era:
  assumes "versionOk zone a b v" and "a \<le> x" and "x \<le> b"
  shows "inEra (x div msPerDay)"
proof -
  from assms(1) obtain c where c: "fixedOffset zone (bc_timezone v) c" "plainRange c a b"
    by (auto simp: versionOk_def)
  have "x \<le> x + 1 * msPerDay + c" "x + (- 1) * msPerDay + c \<le> x"
    using c(1) by (auto simp: fixedOffset_def)
  from this[THEN zdiv_mono1, of msPerDay]
  have "x div msPerDay \<le> localDay c x + 1" "localDay c x - 1 \<le> x div msPerDay"
    unfolding localDay_shift by (simp_all add: msPerDay_def)
  moreover have "localDay c a \<le> localDay c x" "localDay c x \<le> localDay c b"
    using assms(2,3) by (simp_all add: localDay_mono)
  ultimately have "plainDay (x div msPerDay)" using c(2) by (auto simp: plainRange_def plainDay_def)
  then show ?thesis by (rule plainDay_year)
qed

lemma versionsOk_sub:
  "list_all (versionOk zone a b) versions \<Longrightarrow> a \<le> x \<Longrightarrow> y \<le> b \<Longrightarrow> list_all (versionOk zone x y) versions"
  by (auto simp: list_all_iff intro: versionOk_sub)

lemma instantAfter_spec:
  assumes "list_all (versionOk zone (dateParse qfrom) (dateParse qfrom + horizonDays * 86400000)) versions"
    and "versionsApart versions" and "0 < seconds"
  shows "case instantAfterWorkingSeconds zone versions qfrom seconds horizonDays of
      None \<Rightarrow> workedMs zone versions (dateParse qfrom) (dateParse qfrom + horizonDays * 86400000) < seconds * 1000
    | Some u \<Rightarrow> dateParse qfrom < dateParse u \<and> dateParse u \<le> dateParse qfrom + horizonDays * 86400000 \<and>
        workedMs zone versions (dateParse qfrom) (dateParse u) = seconds * 1000 \<and>
        (\<forall>x<dateParse u. workedMs zone versions (dateParse qfrom) x < seconds * 1000)"
proof -
  let ?s = "dateParse qfrom" and ?h = "dateParse qfrom + horizonDays * 86400000"
  have h: "?s + horizonDays * MINUTES_PER_DAY * MS_PER_MINUTE = ?h"
    by (simp add: MINUTES_PER_DAY_def MS_PER_MINUTE_def)
  let ?spent = "spendIntervals (seconds * 1000) (sort_key fst (concat (map (versionIntervals zone ?s ?h) versions)))"
  have r: "instantAfterWorkingSeconds zone versions qfrom seconds horizonDays = map_option toISOString ?spent"
    using assms(3) by (simp add: instantAfterWorkingSeconds_def Let_def h)
  have "0 < seconds * 1000" using assms(3) by simp
  note spec = spend_worked[OF assms(1,2) this]
  show ?thesis
  proof (cases ?spent)
    case None
    with spec r show ?thesis by simp
  next
    case (Some u)
    with spec have u: "?s < u" "u \<le> ?h" "workedMs zone versions ?s u = seconds * 1000"
      "\<And>x. x < u \<Longrightarrow> workedMs zone versions ?s x < seconds * 1000" by auto
    have "versions \<noteq> []" using Some by (cases versions) auto
    then obtain v where "v \<in> set versions" by (cases versions) auto
    with assms(1) have "versionOk zone ?s ?h v" by (simp add: list_all_iff)
    from versionOk_era[OF this, of u] u(1,2) have "dateParse (toISOString u) = u"
      by (simp add: dateParse_toISOString)
    with u Some r show ?thesis by simp
  qed
qed

lemma whole_second:
  assumes "\<bar>1000 * n - k * 1000\<bar> \<le> (500 :: int)"
  shows "n = k"
proof (rule antisym)
  show "n \<le> k" "k \<le> n" using assms by linarith+
qed

text \<open>
  C24: the breach instant inverts elapsed time. When the target is reached within the horizon, the
  open time up to the instant returned is the target to the millisecond and at no earlier instant as
  much; elapsed working time up to it, floating-point sums included, is the target. When nothing is
  returned, the open time of the horizon is less than the target. The theorem is about calendars
  of constant zone offset whose windows never overlap, versions no two of which are in force
  together, a horizon of fewer than 3660 days in years of four digits, and, for the elapsed
  seconds, sums within the bound of exact rounding.
\<close>

theorem breach_instant_inverts_elapsed:
  assumes "list_all (versionOk zone (dateParse qfrom) (dateParse qfrom + horizonDays * 86400000)) versions"
    and "versionsApart versions" and "0 < seconds"
  shows "case instantAfterWorkingSeconds zone versions qfrom seconds horizonDays of
      None \<Rightarrow> workedMs zone versions (dateParse qfrom) (dateParse qfrom + horizonDays * 86400000) < seconds * 1000
    | Some u \<Rightarrow> workedMs zone versions (dateParse qfrom) (dateParse u) = seconds * 1000 \<and>
        (\<forall>x<dateParse u. workedMs zone versions (dateParse qfrom) x < seconds * 1000) \<and>
        (doubleSafe (allIntervals zone versions (dateParse qfrom) (dateParse u)) \<longrightarrow>
          elapsedWorkingSeconds zone versions qfrom u = seconds)"
proof (cases "instantAfterWorkingSeconds zone versions qfrom seconds horizonDays")
  case None
  with instantAfter_spec[OF assms] show ?thesis by simp
next
  case (Some u)
  with instantAfter_spec[OF assms] have u: "dateParse qfrom < dateParse u"
    "dateParse u \<le> dateParse qfrom + horizonDays * 86400000"
    "workedMs zone versions (dateParse qfrom) (dateParse u) = seconds * 1000"
    "\<And>x. x < dateParse u \<Longrightarrow> workedMs zone versions (dateParse qfrom) x < seconds * 1000" by auto
  have ok: "list_all (versionOk zone (dateParse qfrom) (dateParse u)) versions"
    by (rule versionsOk_sub[OF assms(1)]) (use u in auto)
  have "elapsedWorkingSeconds zone versions qfrom u = seconds"
    if "doubleSafe (allIntervals zone versions (dateParse qfrom) (dateParse u))"
    by (rule whole_second) (use elapsed_near[OF ok that] in \<open>simp only: u(3)\<close>)
  with Some u(3,4) show ?thesis by simp
qed

theorem breach_instant_inverts_elapsed_witness:
  "workedMs indiaZone [deskCalendar] (dateParse ''2026-08-14T13:25:00.000Z'') (dateParse ''2026-08-17T04:55:00.000Z'') =
     1800000 \<and>
   elapsedWorkingSeconds indiaZone [deskCalendar] ''2026-08-14T13:25:00.000Z'' ''2026-08-17T04:55:00.000Z'' = 1800"
proof -
  have q: "dateParse ''2026-08-14T13:25:00.000Z'' = 1786713900000" "dateParse ''2026-08-17T04:55:00.000Z'' = 1786942500000"
    by code_simp+
  have s: "instantAfterWorkingSeconds indiaZone [deskCalendar] ''2026-08-14T13:25:00.000Z'' 1800 4 =
      Some ''2026-08-17T04:55:00.000Z''" by code_simp
  have ok: "list_all (versionOk indiaZone (dateParse ''2026-08-14T13:25:00.000Z'')
      (dateParse ''2026-08-14T13:25:00.000Z'' + 4 * 86400000)) [deskCalendar]"
    by (simp add: q deskCalendar_ok msPerDay_def)
  have "doubleSafe (allIntervals indiaZone [deskCalendar] (dateParse ''2026-08-14T13:25:00.000Z'')
      (dateParse ''2026-08-17T04:55:00.000Z''))" unfolding q by code_simp
  with breach_instant_inverts_elapsed[OF ok single_version_apart, of 1800] show ?thesis by (simp add: s)
qed

end
