(* ===== verification/Sla_Breach.thy ===== *)
theory Sla_Breach
  imports Sla_Claims
begin

text \<open>
  The breach flag against the breach instant, the next opening, the periods of effective dating as
  sets of instants, and the walk against its runaway guard.
\<close>

section \<open>The flag\<close>

lemma workedMs_mono:
  assumes "x \<le> y"
  shows "workedMs zone versions a x \<le> workedMs zone versions a y"
  unfolding workedMs_def
proof (rule sum_list_mono)
  fix v
  have "{t. a \<le> t \<and> t < y \<and> worksAt zone v t} \<subseteq> {a..<y}" by auto
  then have "finite {t. a \<le> t \<and> t < y \<and> worksAt zone v t}" by (rule finite_subset) simp
  then show "int (card {t. a \<le> t \<and> t < x \<and> worksAt zone v t}) \<le>
      int (card {t. a \<le> t \<and> t < y \<and> worksAt zone v t})"
    using assms by (intro of_nat_mono card_mono) auto
qed

definition runningState :: "Zone \<Rightarrow> SlaTarget \<Rightarrow> BusinessCalendar list \<Rightarrow> Timestamp \<Rightarrow> Timestamp \<Rightarrow> SlaState" where
  "runningState zone target versions startedAt at_time =
     slaState zone target \<lparr>cf_startedAt = Some startedAt, cf_stoppedAt = None, cf_pauses = None\<rparr> versions at_time"

lemma runningState_business:
  assumes "st_basis target = BUSINESS_HOURS"
  shows "ss_status (runningState zone target versions s at_time) = BREACHED \<longleftrightarrow>
      st_targetSeconds target \<le> max 0 (elapsedWorkingSeconds zone versions s at_time)"
    and "ss_breachAt (runningState zone target versions s at_time) =
      instantAfterWorkingSeconds zone versions s (st_targetSeconds target) 365"
    and "ss_breachedAt (runningState zone target versions s at_time) =
      (if ss_status (runningState zone target versions s at_time) = BREACHED
       then ss_breachAt (runningState zone target versions s at_time) else None)"
  using assms by (auto simp: runningState_def slaState_def grossSeconds_def breachInstant_def Let_def)

lemma breach_flag_facts:
  assumes "st_basis target = BUSINESS_HOURS" and "0 < st_targetSeconds target"
    and "list_all (versionOk zone (dateParse s) (dateParse s + 365 * 86400000)) versions"
    and "versionsApart versions" and "dateParse at_time \<le> dateParse s + 365 * 86400000"
    and "doubleSafe (allIntervals zone versions (dateParse s) (dateParse at_time))"
  shows "st_targetSeconds target * 1000 < workedMs zone versions (dateParse s) (dateParse at_time) + 500 \<Longrightarrow>
      ss_status (runningState zone target versions s at_time) = BREACHED"
    and "ss_status (runningState zone target versions s at_time) = BREACHED \<Longrightarrow>
      st_targetSeconds target * 1000 \<le> workedMs zone versions (dateParse s) (dateParse at_time) + 500"
    and "(case ss_breachAt (runningState zone target versions s at_time) of
        None \<Rightarrow> False | Some u \<Rightarrow> dateParse u \<le> dateParse at_time) \<longleftrightarrow>
      st_targetSeconds target * 1000 \<le> workedMs zone versions (dateParse s) (dateParse at_time)"
    and "ss_breachedAt (runningState zone target versions s at_time) =
      (if ss_status (runningState zone target versions s at_time) = BREACHED
       then ss_breachAt (runningState zone target versions s at_time) else None)"
proof -
  let ?w = "workedMs zone versions (dateParse s)"
  have "list_all (versionOk zone (dateParse s) (dateParse at_time)) versions"
    by (rule versionsOk_sub[OF assms(3)]) (use assms(5) in auto)
  from elapsed_near[OF this assms(6)]
  have near: "\<bar>1000 * elapsedWorkingSeconds zone versions s at_time - ?w (dateParse at_time)\<bar> \<le> 500" .
  show "ss_status (runningState zone target versions s at_time) = BREACHED"
    if "st_targetSeconds target * 1000 < ?w (dateParse at_time) + 500"
    unfolding runningState_business(1)[OF assms(1)] using near that by linarith
  show "st_targetSeconds target * 1000 \<le> ?w (dateParse at_time) + 500"
    if "ss_status (runningState zone target versions s at_time) = BREACHED"
    using near that assms(2) unfolding runningState_business(1)[OF assms(1)] by linarith
  show "(case ss_breachAt (runningState zone target versions s at_time) of
        None \<Rightarrow> False | Some u \<Rightarrow> dateParse u \<le> dateParse at_time) \<longleftrightarrow>
      st_targetSeconds target * 1000 \<le> ?w (dateParse at_time)"
  proof (cases "instantAfterWorkingSeconds zone versions s (st_targetSeconds target) 365")
    case None
    with instantAfter_spec[OF assms(3,4,2)] workedMs_mono[OF assms(5), of zone versions "dateParse s"]
    show ?thesis by (simp add: runningState_business[OF assms(1)])
  next
    case (Some u)
    with instantAfter_spec[OF assms(3,4,2)] have u: "?w (dateParse u) = st_targetSeconds target * 1000"
      "\<And>x. x < dateParse u \<Longrightarrow> ?w x < st_targetSeconds target * 1000" by auto
    show ?thesis
      using Some u(1) u(2)[of "dateParse at_time"] workedMs_mono[of "dateParse u" "dateParse at_time" zone versions "dateParse s"]
      by (auto simp: runningState_business[OF assms(1)] not_le[symmetric])
  qed
  show "ss_breachedAt (runningState zone target versions s at_time) =
      (if ss_status (runningState zone target versions s at_time) = BREACHED
       then ss_breachAt (runningState zone target versions s at_time) else None)"
    by (rule runningState_business(3)[OF assms(1)])
qed

text \<open>
  the flag and the instant agree to half a second. For a business-hours clock that is running
  and not paused, on sums within the bound of exact rounding, the state is breached when less than
  half a second of open time is missing and only when at most half a second is; the breach instant
  has passed exactly when the open time itself has reached the target; and the flag carries that
  instant.
\<close>

theorem breach_flag_and_instant:
  assumes "st_basis target = BUSINESS_HOURS" and "0 < st_targetSeconds target"
    and "list_all (versionOk zone (dateParse s) (dateParse s + 365 * 86400000)) versions"
    and "versionsApart versions" and "dateParse at_time \<le> dateParse s + 365 * 86400000"
    and "doubleSafe (allIntervals zone versions (dateParse s) (dateParse at_time))"
  shows "(st_targetSeconds target * 1000 < workedMs zone versions (dateParse s) (dateParse at_time) + 500 \<longrightarrow>
      ss_status (runningState zone target versions s at_time) = BREACHED) \<and>
    (ss_status (runningState zone target versions s at_time) = BREACHED \<longrightarrow>
      st_targetSeconds target * 1000 \<le> workedMs zone versions (dateParse s) (dateParse at_time) + 500) \<and>
    ((case ss_breachAt (runningState zone target versions s at_time) of
        None \<Rightarrow> False | Some u \<Rightarrow> dateParse u \<le> dateParse at_time) \<longleftrightarrow>
      st_targetSeconds target * 1000 \<le> workedMs zone versions (dateParse s) (dateParse at_time)) \<and>
    ss_breachedAt (runningState zone target versions s at_time) =
      (if ss_status (runningState zone target versions s at_time) = BREACHED
       then ss_breachAt (runningState zone target versions s at_time) else None)"
  using breach_flag_facts[OF assms] by blast

definition halfHour :: SlaTarget where
  "halfHour = \<lparr>st_clock = FIRST_RESPONSE, st_targetSeconds = 1800, st_basis = BUSINESS_HOURS,
     st_warningPct = 80, st_provisional = True\<rparr>"

theorem breach_flag_and_instant_witness:
  "ss_status (runningState indiaZone halfHour [deskCalendar] ''2026-08-14T13:25:00.000Z'' ''2026-08-17T04:55:00.000Z'') = BREACHED"
proof -
  have q: "dateParse ''2026-08-14T13:25:00.000Z'' = 1786713900000" "dateParse ''2026-08-17T04:55:00.000Z'' = 1786942500000"
    by code_simp+
  have ok: "list_all (versionOk indiaZone (dateParse ''2026-08-14T13:25:00.000Z'')
      (dateParse ''2026-08-14T13:25:00.000Z'' + 365 * 86400000)) [deskCalendar]"
    by (simp add: q deskCalendar_ok msPerDay_def)
  have "list_all (versionOk indiaZone (dateParse ''2026-08-14T13:25:00.000Z'')
      (dateParse ''2026-08-17T04:55:00.000Z'')) [deskCalendar]"
    by (simp add: q deskCalendar_ok msPerDay_def)
  from spannedMs_worked[OF this]
  have worked: "workedMs indiaZone [deskCalendar] (dateParse ''2026-08-14T13:25:00.000Z'') (dateParse ''2026-08-17T04:55:00.000Z'') =
    spannedMs (allIntervals indiaZone [deskCalendar] 1786713900000 1786942500000)" by (simp add: q)
  also have "\<dots> = 1800000" by code_simp
  finally have "workedMs indiaZone [deskCalendar] (dateParse ''2026-08-14T13:25:00.000Z'')
    (dateParse ''2026-08-17T04:55:00.000Z'') = 1800000" .
  moreover have "doubleSafe (allIntervals indiaZone [deskCalendar] (dateParse ''2026-08-14T13:25:00.000Z'')
      (dateParse ''2026-08-17T04:55:00.000Z''))" unfolding q by code_simp
  ultimately show ?thesis
    using breach_flag_and_instant[OF _ _ ok single_version_apart, of halfHour "''2026-08-17T04:55:00.000Z''"]
    by (simp add: q halfHour_def)
qed

text \<open>
  half a second before the target is worked, the flag is already up. A desk that shuts with
  1799.6 of the 1800 seconds worked reports the clock as breached overnight, and dates the breach in
  the future: the first half second of the next opening.
\<close>

definition eveningOnly :: BusinessCalendar where
  "eveningOnly = deskCalendar \<lparr>bc_effectiveFrom := ''2026-08-14T00:00:00.000Z'', bc_effectiveTo := Some ''2026-08-17T06:00:00.000Z''\<rparr>"

theorem breach_flag_before_its_instant:
  "let s = runningState indiaZone halfHour [eveningOnly] ''2026-08-14T13:00:00.400Z'' ''2026-08-14T20:00:00.000Z''
   in ss_status s = BREACHED \<and> ss_breachedAt s = Some ''2026-08-17T04:30:00.400Z'' \<and>
      \<not> dateParse ''2026-08-17T04:30:00.400Z'' \<le> dateParse ''2026-08-14T20:00:00.000Z''"
  by code_simp

text \<open>
  the recorded breach instant moves with a pause that comes after it. A resolution clock of an
  hour, started at nine, is breached at ten; when the case waits for the customer from eleven to
  twelve and is then resolved, the settled state dates the breach at eleven.
\<close>

definition oneHour :: SlaTarget where
  "oneHour = \<lparr>st_clock = RESOLUTION, st_targetSeconds = 3600, st_basis = CALENDAR_24X7,
     st_warningPct = 80, st_provisional = True\<rparr>"

theorem breach_instant_moves_with_a_later_pause:
  "let before = slaState indiaZone oneHour
         \<lparr>cf_startedAt = Some ''2026-08-14T09:00:00.000Z'', cf_stoppedAt = None, cf_pauses = None\<rparr> [] ''2026-08-14T10:30:00.000Z'';
       settled = slaState indiaZone oneHour
         \<lparr>cf_startedAt = Some ''2026-08-14T09:00:00.000Z'', cf_stoppedAt = Some ''2026-08-14T12:30:00.000Z'',
          cf_pauses = Some [\<lparr>ps_from = ''2026-08-14T11:00:00.000Z'', ps_to = Some ''2026-08-14T12:00:00.000Z''\<rparr>]\<rparr> []
         ''2026-08-14T13:00:00.000Z''
   in ss_status before = BREACHED \<and> ss_breachedAt before = Some ''2026-08-14T10:00:00.000Z'' \<and>
      ss_status settled = MISSED \<and> ss_breachedAt settled = Some ''2026-08-14T11:00:00.000Z''"
  by code_simp

section \<open>The next opening\<close>

lemma earliestOpening_spec:
  assumes "list_all (\<lambda>is. sorted (map fst is)) iss"
  shows "case earliestOpening e iss of
      None \<Rightarrow> e = None \<and> concat iss = []
    | Some m \<Rightarrow> (e = Some m \<or> m \<in> fst ` set (concat iss)) \<and> (\<forall>x. e = Some x \<longrightarrow> m \<le> x) \<and>
        (\<forall>i\<in>set (concat iss). m \<le> fst i)"
  using assms
proof (induction e iss rule: earliestOpening.induct)
  case (3 e i "is" rest)
  let ?e = "case e of None \<Rightarrow> Some (fst i) | Some x \<Rightarrow> if fst i < x then Some (fst i) else Some x"
  from 3 have IH: "case earliestOpening ?e rest of
      None \<Rightarrow> ?e = None \<and> concat rest = []
    | Some m \<Rightarrow> (?e = Some m \<or> m \<in> fst ` set (concat rest)) \<and> (\<forall>x. ?e = Some x \<longrightarrow> m \<le> x) \<and>
        (\<forall>i\<in>set (concat rest). m \<le> fst i)" by simp
  have "?e \<noteq> None" by (auto split: option.split)
  with IH obtain m where m: "earliestOpening ?e rest = Some m" by (auto split: option.splits)
  have "m \<le> fst i" using IH[unfolded m] by (fastforce split: option.splits if_splits)
  moreover have "fst i \<le> fst j" if "j \<in> set is" for j using "3.prems" that by auto
  ultimately show ?case
    using IH[unfolded m] by (fastforce simp: m split: option.splits if_splits)
qed (auto split: option.splits)

lemma covers_versions:
  assumes "list_all (versionOk zone a b) versions"
  shows "(\<exists>i\<in>set (concat (map (versionIntervals zone a b) versions)). covers t i) \<longleftrightarrow>
    a \<le> t \<and> t < b \<and> list_ex (\<lambda>v. worksAt zone v t) versions"
proof -
  have "(\<exists>i\<in>set (versionIntervals zone a b v). covers t i) \<longleftrightarrow> a \<le> t \<and> t < b \<and> worksAt zone v t"
    if "v \<in> set versions" for v
    using coverCount_version[of zone a b v t] assms that by (simp add: coverCount_pos[symmetric] list_all_iff)
  then show ?thesis by (auto simp: list_ex_iff)
qed

text \<open>
  the next opening is the first open instant. The instant returned is open under a version in
  force and nothing from the question to it is; when none is returned, no instant of the horizon is
  open.
\<close>

theorem next_opening_is_the_first_open_instant:
  assumes "list_all (versionOk zone (dateParse at_time) (dateParse at_time + days * 86400000)) versions"
  shows "case nextOpening zone versions at_time days of
      None \<Rightarrow> \<not> (\<exists>t. dateParse at_time \<le> t \<and> t < dateParse at_time + days * 86400000 \<and>
        list_ex (\<lambda>v. worksAt zone v t) versions)
    | Some u \<Rightarrow> dateParse at_time \<le> dateParse u \<and> list_ex (\<lambda>v. worksAt zone v (dateParse u)) versions \<and>
        \<not> (\<exists>t. dateParse at_time \<le> t \<and> t < dateParse u \<and> list_ex (\<lambda>v. worksAt zone v t) versions)"
proof -
  let ?s = "dateParse at_time" and ?h = "dateParse at_time + days * 86400000"
  let ?iss = "map (versionIntervals zone ?s ?h) versions"
  have h: "?s + days * MINUTES_PER_DAY * MS_PER_MINUTE = ?h"
    by (simp add: MINUTES_PER_DAY_def MS_PER_MINUTE_def)
  have n: "nextOpening zone versions at_time days = map_option toISOString (earliestOpening None ?iss)"
    by (simp add: nextOpening_def Let_def h)
  have "list_all (\<lambda>is. sorted (map fst is)) ?iss"
    by (auto simp: list_all_iff versionIntervals_def openIntervals_def Let_def split: option.splits)
  note spec = earliestOpening_spec[OF this, of None]
  note cov = covers_versions[OF assms]
  show ?thesis
  proof (cases "earliestOpening None ?iss")
    case None
    with spec have "concat ?iss = []" by simp
    with cov show ?thesis by (simp add: n None)
  next
    case (Some m)
    with spec obtain i where i: "i \<in> set (concat ?iss)" "fst i = m"
      and least: "\<And>j. j \<in> set (concat ?iss) \<Longrightarrow> m \<le> fst j" by auto
    obtain v where v: "v \<in> set versions" "i \<in> set (versionIntervals zone ?s ?h v)" using i(1) by auto
    with assms have ok: "versionOk zone ?s ?h v" by (simp add: list_all_iff)
    from versionIntervals_within[OF ok] v(2) have b: "?s \<le> m" "m < snd i" "snd i \<le> ?h"
      using i(2) by (auto simp: list_all_iff)
    have p: "dateParse (toISOString m) = m"
      by (rule dateParse_toISOString) (use versionOk_era[OF ok, of m] b in simp)
    have "covers m i" using i(2) b by (simp add: covers_def)
    with i(1) cov[of m] have "list_ex (\<lambda>v. worksAt zone v m) versions" by blast
    moreover have "\<not> (\<exists>t. ?s \<le> t \<and> t < m \<and> list_ex (\<lambda>v. worksAt zone v t) versions)"
    proof
      assume "\<exists>t. ?s \<le> t \<and> t < m \<and> list_ex (\<lambda>v. worksAt zone v t) versions"
      then obtain t where t: "?s \<le> t" "t < m" "list_ex (\<lambda>v. worksAt zone v t) versions" by blast
      with cov[of t] b obtain j where "j \<in> set (concat ?iss)" "covers t j" by auto
      with least[of j] t(2) show False by (simp add: covers_def)
    qed
    ultimately show ?thesis using b by (simp add: n Some p)
  qed
qed

theorem next_opening_is_the_first_open_instant_witness:
  "\<not> (\<exists>t. dateParse ''2026-08-14T18:00:00.000Z'' \<le> t \<and> t < dateParse ''2026-08-17T04:30:00.000Z'' \<and>
     worksAt indiaZone deskCalendar t)"
proof -
  have q: "dateParse ''2026-08-14T18:00:00.000Z'' = 1786730400000" by code_simp
  have s: "nextOpening indiaZone [deskCalendar] ''2026-08-14T18:00:00.000Z'' 3 = Some ''2026-08-17T04:30:00.000Z''"
    by code_simp
  have "list_all (versionOk indiaZone (dateParse ''2026-08-14T18:00:00.000Z'')
      (dateParse ''2026-08-14T18:00:00.000Z'' + 3 * 86400000)) [deskCalendar]"
    by (simp add: q deskCalendar_ok msPerDay_def)
  from next_opening_is_the_first_open_instant[OF this] show ?thesis by (simp add: s)
qed

section \<open>Texts of instants, and the guard of the walk\<close>

text \<open>
  the text comparison of effective periods compares instants. For instants of the years 0 to
  9999, written as the code writes them, a period contains a time exactly when it does so in
  milliseconds: closed at its start and open at its end.
\<close>

theorem periods_compare_instants:
  assumes "inEra (t div msPerDay)" and "inEra (a div msPerDay)"
    and "case b of None \<Rightarrow> True | Some e \<Rightarrow> inEra (e div msPerDay)"
  shows "isWithinPeriod (toISOString t) (toISOString a) (map_option toISOString b) \<longleftrightarrow>
    a \<le> t \<and> (case b of None \<Rightarrow> True | Some e \<Rightarrow> t < e)"
  using assms by (cases b) (auto simp: isWithinPeriod_def toISOString_order not_le[symmetric])

theorem periods_compare_instants_witness:
  "isWithinPeriod (toISOString 1786712400000) (toISOString 1786712400000) (map_option toISOString (Some 1786712400001))"
proof -
  have "inEra ((1786712400000::int) div msPerDay)" "inEra ((1786712400001::int) div msPerDay)" by code_simp+
  then show ?thesis
    using periods_compare_instants[of 1786712400000 1786712400000 "Some 1786712400001"] by simp
qed

text \<open>
  the walk ends by itself. Between two dates fewer days apart than the guard allows, the walk visits every
  date once, in order, and stops at the last: any larger guard gives the same result.
\<close>

theorem walk_ends_before_its_guard:
  assumes "plainDay d" and "plainDay e" and "d \<le> e" and "e - d < int fuel"
  shows "walkDays fuel f (isoDate d) (isoDate e) = concat (map (\<lambda>k. f (isoDate k)) [d..e])"
  using assms by (intro walkDays_isoDate[where n = "nat (e - d)"]) auto

theorem walk_ends_before_its_guard_witness:
  "walkDays (MAX_DAYS + 1) (\<lambda>date. [date]) (isoDate 20678) (isoDate 20680) =
     [''2026-08-13'', ''2026-08-14'', ''2026-08-15'']"
proof -
  have "plainDay 20678" "plainDay 20680" by (simp_all add: plainDay_iff)
  moreover have "[20678..20680] = [20678, 20679, 20680::int]" by (simp add: upto.simps)
  moreover have "isoDate 20678 = ''2026-08-13''" "isoDate 20679 = ''2026-08-14''" "isoDate 20680 = ''2026-08-15''"
    by code_simp+
  ultimately show ?thesis
    using walk_ends_before_its_guard[of 20678 20680 "MAX_DAYS + 1" "\<lambda>date. [date]"] by (simp add: MAX_DAYS_def)
qed

end
