(* ===== verification/Conversation_Commands.thy ===== *)
theory Conversation_Commands
  imports Message_Store "HOL-Library.Monad_Syntax"
begin

text \<open>
  Conversation creation and participation, \<open>packages/conversation-domain/src/conversations.ts\<close>, over
  the port \<open>ConversationWriteTransaction\<close> of \<open>ports.ts\<close>. An operation of the port that writes
  returns the new state, or \<open>None\<close> when the statement throws; the commands are refused with \<open>Inl\<close>
  and a refusal leaves the transaction empty. The clock and the identifier a command draws are
  arguments.
\<close>

section \<open>The port\<close>

record NewParticipant =
  np_principalId :: UUID
  np_principalKind :: PrincipalKind
  np_role :: string
  np_replyAuthority :: bool

record NewConversation =
  nc_conversationId :: UUID
  nc_conversationType :: ConversationType
  nc_title :: "string option"
  nc_createdBy :: UUID
  nc_participants :: "NewParticipant list"
  nc_createdAt :: Timestamp

record NewChannelPolicy =
  ncp_purpose :: string
  ncp_description :: "string option"
  ncp_visibility :: ChannelVisibility
  ncp_readAccess :: ChannelReadAccess
  ncp_postAccess :: ChannelPostAccess
  ncp_audience :: "(AudienceScope \<times> string) list"

record 'st ConversationWriteTransaction =
  cw_findDirectConversation :: "UUID \<Rightarrow> UUID \<Rightarrow> 'st \<Rightarrow> UUID option"
  cw_insertConversation :: "NewConversation \<Rightarrow> 'st \<Rightarrow> 'st option"
  cw_insertChannelPolicy :: "UUID \<Rightarrow> NewChannelPolicy \<Rightarrow> 'st \<Rightarrow> 'st option"
  cw_listParticipants :: "UUID \<Rightarrow> 'st \<Rightarrow> NewParticipant list"
  cw_addParticipant :: "UUID \<Rightarrow> NewParticipant \<Rightarrow> UUID \<Rightarrow> Timestamp \<Rightarrow> 'st \<Rightarrow> 'st option"
  cw_endParticipation :: "UUID \<Rightarrow> UUID \<Rightarrow> Timestamp \<Rightarrow> 'st \<Rightarrow> (bool \<times> 'st) option"
  cw_setParticipantRole :: "UUID \<Rightarrow> UUID \<Rightarrow> string \<Rightarrow> 'st \<Rightarrow> 'st option"
  cw_loadConversationType :: "UUID \<Rightarrow> 'st \<Rightarrow> ConversationType option"
  cw_promoteDirectToGroup :: "UUID \<Rightarrow> 'st \<Rightarrow> 'st option"
  cw_setTitle :: "UUID \<Rightarrow> string option \<Rightarrow> 'st \<Rightarrow> (bool \<times> 'st) option"
  cw_countMessages :: "UUID \<Rightarrow> 'st \<Rightarrow> nat"
  cw_appendSystemMessage :: "UUID \<Rightarrow> string \<Rightarrow> Timestamp \<Rightarrow> 'st \<Rightarrow> 'st option"
  cw_appendOutbox :: "OutboxRow \<Rightarrow> 'st \<Rightarrow> 'st option"

section \<open>Creating an internal conversation\<close>

record CreateInternalCommand =
  ci_type :: ConversationType
  ci_createdBy :: UUID
  ci_participantIds :: "UUID list"
  ci_participantKinds :: "UUID \<Rightarrow> PrincipalKind option"
  ci_title :: "string option"
  ci_channel :: "NewChannelPolicy option"
  ci_correlationId :: string

datatype CreateFailure =
    CUSTOMER_IN_NEW_CONVERSATION
  | DIRECT_REQUIRES_EXACTLY_ONE_OTHER
  | GROUP_REQUIRES_A_PARTICIPANT
  | TITLE_REQUIRED_FOR_GROUP
  | CHANNEL_REQUIRES_A_POLICY
  | SELF_CONVERSATION

record CreateResult =
  cx_conversationId :: UUID
  cx_existing :: bool

definition blankTitle :: "string option \<Rightarrow> bool" where
  "blankTitle title \<longleftrightarrow> (case title of None \<Rightarrow> True | Some t \<Rightarrow> trim t = [])"

definition othersOf :: "CreateInternalCommand \<Rightarrow> UUID list" where
  "othersOf cmd = filter (\<lambda>i. i \<noteq> ci_createdBy cmd) (jsSet (ci_participantIds cmd))"

definition createChecks :: "CreateInternalCommand \<Rightarrow> CreateFailure option" where
  "createChecks cmd =
     (let others = othersOf cmd;
          shape =
            (if ci_type cmd = INTERNAL_DIRECT
             then (if length others \<noteq> 1 then Some DIRECT_REQUIRES_EXACTLY_ONE_OTHER else None)
             else if ci_type cmd = INTERNAL_CHANNEL
             then (if blankTitle (ci_title cmd) then Some TITLE_REQUIRED_FOR_GROUP
                   else if ci_channel cmd = None then Some CHANNEL_REQUIRES_A_POLICY else None)
             else (if length others = 0 then Some GROUP_REQUIRES_A_PARTICIPANT
                   else if blankTitle (ci_title cmd) then Some TITLE_REQUIRED_FOR_GROUP else None))
      in if shape \<noteq> None then shape
         else if ci_type cmd \<noteq> INTERNAL_CHANNEL \<and> length others = 0 then Some SELF_CONVERSATION
         else if list_ex (\<lambda>i. ci_participantKinds cmd i = Some K_CUSTOMER) (ci_createdBy cmd # others)
         then Some CUSTOMER_IN_NEW_CONVERSATION else None)"

definition foundingParticipants :: "CreateInternalCommand \<Rightarrow> NewParticipant list" where
  "foundingParticipants cmd =
     map (\<lambda>i. \<lparr>np_principalId = i, np_principalKind = K_EMPLOYEE,
               np_role = (if i = ci_createdBy cmd then ''CREATOR'' else ''PARTICIPANT''),
               np_replyAuthority = False\<rparr>) (ci_createdBy cmd # othersOf cmd)"

definition conversationCreatedEvent :: "CreateInternalCommand \<Rightarrow> UUID \<Rightarrow> OutboxRow" where
  "conversationCreatedEvent cmd cid =
     \<lparr>ob_eventName = ''conversation.created.v1'', ob_eventVersion = 1,
      ob_aggregateType = ''conversation'', ob_aggregateId = cid,
      ob_payload = ConversationCreated cid (ci_type cmd) ''INTERNAL'',
      ob_correlationId = ci_correlationId cmd\<rparr>"

definition createWork ::
  "'st ConversationWriteTransaction \<Rightarrow> UUID \<Rightarrow> Timestamp \<Rightarrow> CreateInternalCommand \<Rightarrow> 'st \<Rightarrow>
   (CreateResult \<times> 'st) option" where
  "createWork tx newId now cmd st =
     (let existing = (if ci_type cmd = INTERNAL_DIRECT
                      then cw_findDirectConversation tx (ci_createdBy cmd) (hd (othersOf cmd)) st else None)
      in case existing of
           Some cid \<Rightarrow> Some (\<lparr>cx_conversationId = cid, cx_existing = True\<rparr>, st)
         | None \<Rightarrow> do {
             st1 \<leftarrow> cw_insertConversation tx
               \<lparr>nc_conversationId = newId, nc_conversationType = ci_type cmd, nc_title = ci_title cmd,
                nc_createdBy = ci_createdBy cmd, nc_participants = foundingParticipants cmd,
                nc_createdAt = now\<rparr> st;
             st2 \<leftarrow> (case ci_channel cmd of None \<Rightarrow> Some st1
                      | Some policy \<Rightarrow> cw_insertChannelPolicy tx newId policy st1);
             st3 \<leftarrow> cw_appendOutbox tx (conversationCreatedEvent cmd newId) st2;
             Some (\<lparr>cx_conversationId = newId, cx_existing = False\<rparr>, st3)
           })"

definition createInternalConversation ::
  "'st ConversationWriteTransaction \<Rightarrow> UUID \<Rightarrow> Timestamp \<Rightarrow> CreateInternalCommand \<Rightarrow> 'st \<Rightarrow>
   (CreateFailure + CreateResult) Outcome \<times> 'st" where
  "createInternalConversation tx newId now cmd st =
     (case createChecks cmd of
        Some why \<Rightarrow> (Returned (Inl why), st)
      | None \<Rightarrow> runTransaction (\<lambda>st. map_option (apfst Inr) (createWork tx newId now cmd st)) st)"

section \<open>Adding a participant\<close>

record AddParticipantCommand =
  ap_conversationId :: UUID
  ap_principalId :: UUID
  ap_principalKind :: PrincipalKind
  ap_addedBy :: UUID
  ap_historyExposureAcknowledged :: bool
  ap_addedByDisplayName :: "string option"
  ap_displayName :: "string option"

datatype AddParticipantFailure =
    ADD_CONVERSATION_NOT_FOUND
  | CUSTOMER_IN_INTERNAL_CONVERSATION
  | ALREADY_PARTICIPANT
  | ADDER_NOT_PARTICIPANT
  | HISTORY_EXPOSURE_NOT_ACKNOWLEDGED

definition isMember :: "UUID \<Rightarrow> NewParticipant list \<Rightarrow> bool" where
  "isMember who ps \<longleftrightarrow> list_ex (\<lambda>p. np_principalId p = who) ps"

definition addChecks ::
  "'st ConversationWriteTransaction \<Rightarrow> AddParticipantCommand \<Rightarrow> 'st \<Rightarrow> AddParticipantFailure + ConversationType" where
  "addChecks tx cmd st =
     (case cw_loadConversationType tx (ap_conversationId cmd) st of
        None \<Rightarrow> Inl ADD_CONVERSATION_NOT_FOUND
      | Some ct \<Rightarrow>
          let ps = cw_listParticipants tx (ap_conversationId cmd) st
          in if isInternal ct \<and> ap_principalKind cmd = K_CUSTOMER then Inl CUSTOMER_IN_INTERNAL_CONVERSATION
             else if \<not> isMember (ap_addedBy cmd) ps then Inl ADDER_NOT_PARTICIPANT
             else if isMember (ap_principalId cmd) ps then Inl ALREADY_PARTICIPANT
             else if \<not> ap_historyExposureAcknowledged cmd then Inl HISTORY_EXPOSURE_NOT_ACKNOWLEDGED
             else Inr ct)"

definition addedParticipant :: "AddParticipantCommand \<Rightarrow> NewParticipant" where
  "addedParticipant cmd =
     \<lparr>np_principalId = ap_principalId cmd, np_principalKind = ap_principalKind cmd,
      np_role = ''PARTICIPANT'', np_replyAuthority = False\<rparr>"

definition addWork ::
  "'st ConversationWriteTransaction \<Rightarrow> Timestamp \<Rightarrow> AddParticipantCommand \<Rightarrow> 'st \<Rightarrow>
   ((AddParticipantFailure + nat) \<times> 'st) option" where
  "addWork tx now cmd st =
     (case addChecks tx cmd st of
        Inl why \<Rightarrow> Some (Inl why, st)
      | Inr ct \<Rightarrow>
          let cid = ap_conversationId cmd;
              messagesExposed = cw_countMessages tx cid st;
              before = length (cw_listParticipants tx cid st)
          in do {
            st1 \<leftarrow> cw_addParticipant tx cid (addedParticipant cmd) (ap_addedBy cmd) now st;
            st2 \<leftarrow> (if ct = INTERNAL_DIRECT \<and> before \<ge> 2 then cw_promoteDirectToGroup tx cid st1 else Some st1);
            st3 \<leftarrow> (case (ap_addedByDisplayName cmd, ap_displayName cmd) of
                     (Some a, Some d) \<Rightarrow> cw_appendSystemMessage tx cid (a @ '' added '' @ d) now st2
                   | _ \<Rightarrow> Some st2);
            Some (Inr messagesExposed, st3)
          })"

definition addParticipant ::
  "'st ConversationWriteTransaction \<Rightarrow> Timestamp \<Rightarrow> AddParticipantCommand \<Rightarrow> 'st \<Rightarrow>
   (AddParticipantFailure + nat) Outcome \<times> 'st" where
  "addParticipant tx now cmd = runTransaction (addWork tx now cmd)"

section \<open>Removing a participant\<close>

record RemoveParticipantCommand =
  rp_conversationId :: UUID
  rp_principalId :: UUID
  rp_removedBy :: UUID

datatype RemoveParticipantFailure =
    REMOVE_NOT_A_PARTICIPANT
  | REMOVER_NOT_PARTICIPANT
  | CANNOT_REMOVE_CUSTOMER
  | CANNOT_REMOVE_SELF
  | NOT_THE_GROUP_ADMIN

definition participantOf :: "UUID \<Rightarrow> NewParticipant list \<Rightarrow> NewParticipant option" where
  "participantOf who = find (\<lambda>p. np_principalId p = who)"

definition removeChecks ::
  "'st ConversationWriteTransaction \<Rightarrow> RemoveParticipantCommand \<Rightarrow> 'st \<Rightarrow> RemoveParticipantFailure option" where
  "removeChecks tx cmd st =
     (let ps = cw_listParticipants tx (rp_conversationId cmd) st
      in if \<not> isMember (rp_removedBy cmd) ps then Some REMOVER_NOT_PARTICIPANT
         else if map_option np_principalKind (participantOf (rp_principalId cmd) ps) = Some K_CUSTOMER
         then Some CANNOT_REMOVE_CUSTOMER
         else if rp_principalId cmd = rp_removedBy cmd then Some CANNOT_REMOVE_SELF
         else if cw_loadConversationType tx (rp_conversationId cmd) st = Some INTERNAL_GROUP \<and>
                 map_option np_role (participantOf (rp_removedBy cmd) ps) \<noteq> Some ''CREATOR''
         then Some NOT_THE_GROUP_ADMIN else None)"

definition removeWork ::
  "'st ConversationWriteTransaction \<Rightarrow> Timestamp \<Rightarrow> RemoveParticipantCommand \<Rightarrow> 'st \<Rightarrow>
   ((RemoveParticipantFailure + unit) \<times> 'st) option" where
  "removeWork tx now cmd st =
     (case removeChecks tx cmd st of
        Some why \<Rightarrow> Some (Inl why, st)
      | None \<Rightarrow> do {
          (ended, st1) \<leftarrow> cw_endParticipation tx (rp_conversationId cmd) (rp_principalId cmd) now st;
          Some (if ended then Inr () else Inl REMOVE_NOT_A_PARTICIPANT, st1)
        })"

definition removeParticipant ::
  "'st ConversationWriteTransaction \<Rightarrow> Timestamp \<Rightarrow> RemoveParticipantCommand \<Rightarrow> 'st \<Rightarrow>
   (RemoveParticipantFailure + unit) Outcome \<times> 'st" where
  "removeParticipant tx now cmd = runTransaction (removeWork tx now cmd)"

section \<open>Leaving\<close>

record LeaveConversationCommand =
  lc_conversationId :: UUID
  lc_principalId :: UUID

datatype LeaveConversationFailure = LEAVE_NOT_A_PARTICIPANT | LEAVE_NOT_AN_INTERNAL_GROUP

definition successorOf :: "ConversationType \<Rightarrow> NewParticipant list \<Rightarrow> NewParticipant \<Rightarrow> NewParticipant option" where
  "successorOf ct ps leaver =
     (let who = np_principalId leaver;
          administratorsRemaining =
            filter (\<lambda>p. np_principalId p \<noteq> who \<and> isChannelAdminRole (Some (np_role p))) ps;
          shouldPassOn =
            (if ct = INTERNAL_CHANNEL
             then isChannelAdminRole (Some (np_role leaver)) \<and> length administratorsRemaining = 0
             else np_role leaver = ''CREATOR'')
      in if shouldPassOn then find (\<lambda>p. np_principalId p \<noteq> who) ps else None)"

definition leaveWork ::
  "'st ConversationWriteTransaction \<Rightarrow> Timestamp \<Rightarrow> LeaveConversationCommand \<Rightarrow> 'st \<Rightarrow>
   ((LeaveConversationFailure + UUID option) \<times> 'st) option" where
  "leaveWork tx now cmd st =
     (let cid = lc_conversationId cmd; ct = cw_loadConversationType tx cid st
      in if ct \<noteq> Some INTERNAL_GROUP \<and> ct \<noteq> Some INTERNAL_CHANNEL
         then Some (Inl LEAVE_NOT_AN_INTERNAL_GROUP, st)
         else
           let ps = cw_listParticipants tx cid st
           in case participantOf (lc_principalId cmd) ps of
                None \<Rightarrow> Some (Inl LEAVE_NOT_A_PARTICIPANT, st)
              | Some leaver \<Rightarrow>
                  let successor = successorOf (the ct) ps leaver
                  in do {
                    (ended, st1) \<leftarrow> cw_endParticipation tx cid (lc_principalId cmd) now st;
                    if \<not> ended then Some (Inl LEAVE_NOT_A_PARTICIPANT, st1)
                    else (case successor of
                        None \<Rightarrow> Some (Inr None, st1)
                      | Some s \<Rightarrow> do {
                          st2 \<leftarrow> cw_setParticipantRole tx cid (np_principalId s)
                            (if ct = Some INTERNAL_CHANNEL then ''ADMIN'' else ''CREATOR'') st1;
                          Some (Inr (Some (np_principalId s)), st2)
                        })
                  })"

definition leaveConversation ::
  "'st ConversationWriteTransaction \<Rightarrow> Timestamp \<Rightarrow> LeaveConversationCommand \<Rightarrow> 'st \<Rightarrow>
   (LeaveConversationFailure + UUID option) Outcome \<times> 'st" where
  "leaveConversation tx now cmd = runTransaction (leaveWork tx now cmd)"

section \<open>Renaming\<close>

record RenameConversationCommand =
  rn_conversationId :: UUID
  rn_title :: string
  rn_renamedBy :: UUID

datatype RenameConversationFailure =
    RENAME_CONVERSATION_NOT_FOUND
  | RENAME_NOT_A_PARTICIPANT
  | RENAME_NOT_AN_INTERNAL_GROUP
  | TITLE_INVALID

definition MAX_TITLE_LENGTH :: nat where "MAX_TITLE_LENGTH = 120"

definition renameWork ::
  "'st ConversationWriteTransaction \<Rightarrow> string \<Rightarrow> RenameConversationCommand \<Rightarrow> 'st \<Rightarrow>
   ((RenameConversationFailure + string) \<times> 'st) option" where
  "renameWork tx title cmd st =
     (case cw_loadConversationType tx (rn_conversationId cmd) st of
        None \<Rightarrow> Some (Inl RENAME_CONVERSATION_NOT_FOUND, st)
      | Some ct \<Rightarrow>
          if ct \<noteq> INTERNAL_GROUP then Some (Inl RENAME_NOT_AN_INTERNAL_GROUP, st)
          else if \<not> isMember (rn_renamedBy cmd) (cw_listParticipants tx (rn_conversationId cmd) st)
          then Some (Inl RENAME_NOT_A_PARTICIPANT, st)
          else do {
            (updated, st1) \<leftarrow> cw_setTitle tx (rn_conversationId cmd) (Some title) st;
            Some (if updated then Inr title else Inl RENAME_CONVERSATION_NOT_FOUND, st1)
          })"

definition renameConversation ::
  "'st ConversationWriteTransaction \<Rightarrow> RenameConversationCommand \<Rightarrow> 'st \<Rightarrow>
   (RenameConversationFailure + string) Outcome \<times> 'st" where
  "renameConversation tx cmd st =
     (let title = trim (rn_title cmd)
      in if title = [] \<or> length title > MAX_TITLE_LENGTH then (Returned (Inl TITLE_INVALID), st)
         else runTransaction (renameWork tx title cmd) st)"

end
