(* ===== verification/Conversation_Store.thy ===== *)
theory Conversation_Store
  imports Conversation_Commands
begin

text \<open>
  The PostgreSQL adapter of the conversation ports,
  \<open>infrastructure/database/src/repositories/conversation-store.ts\<close>, over the tables of
  \<open>Message_Store\<close> and those only these queries read. The columns \<open>title\<close> and \<open>created_by\<close> of
  \<open>conversations\<close> are kept in a table of their own, and the columns \<open>purpose\<close> and \<open>description\<close>
  of \<open>channels\<close>, which no query of the model reads, are left out. A column \<open>last_message_preview\<close>
  that is NULL is the empty text. The time and the random identifiers of the database are
  arguments.
\<close>

section \<open>The tables\<close>

record ConversationNameRow =
  nm_conversation_id :: UUID
  nm_title :: "string option"
  nm_created_by :: UUID

record ReadStateRow =
  rd_principal_id :: UUID
  rd_conversation_id :: UUID
  rd_last_read_seq :: nat
  rd_last_read_at :: Timestamp

record PreferenceRow =
  pf_principal_id :: UUID
  pf_conversation_id :: UUID
  pf_pinned :: bool
  pf_muted_until :: "Timestamp option"

record ConversationDb = Db +
  db_names :: "ConversationNameRow list"
  db_read_state :: "ReadStateRow list"
  db_preferences :: "PreferenceRow list"
  db_announcement_pins :: "(UUID \<times> Timestamp) list"
  db_principal_names :: "(UUID \<times> string) list"

section \<open>The write port\<close>

definition liveIn :: "UUID \<Rightarrow> ParticipantRow \<Rightarrow> bool" where
  "liveIn cid p \<longleftrightarrow> pa_conversation_id p = cid \<and> pa_effective_to p = None"

definition sameSeat :: "UUID \<Rightarrow> UUID \<Rightarrow> ParticipantRow \<Rightarrow> bool" where
  "sameSeat cid who p \<longleftrightarrow> pa_conversation_id p = cid \<and> pa_principal_id p = who"

text \<open>
  \<open>GROUP BY conversation_id HAVING count(*) = 2 AND bool_or(..) AND bool_or(..) LIMIT 1\<close>: the first
  conversation in table order; the query states no order.
\<close>

definition findDirectConversation :: "UUID \<Rightarrow> UUID \<Rightarrow> 'x Db_scheme \<Rightarrow> UUID option" where
  "findDirectConversation a b db =
     map_option cr_conversation_id (find (\<lambda>c. cr_conversation_type c = INTERNAL_DIRECT \<and>
       (let live = filter (liveIn (cr_conversation_id c)) (db_participants db)
        in length live = 2 \<and> list_ex (\<lambda>p. pa_principal_id p = a) live \<and>
           list_ex (\<lambda>p. pa_principal_id p = b) live)) (db_conversations db))"

definition participantRowOf :: "NewConversation \<Rightarrow> NewParticipant \<Rightarrow> ParticipantRow" where
  "participantRowOf nc p =
     \<lparr>pa_conversation_id = nc_conversationId nc, pa_principal_id = np_principalId p,
      pa_principal_kind = np_principalKind p, pa_role = np_role p,
      pa_reply_authority = np_replyAuthority p, pa_effective_from = nc_createdAt nc,
      pa_effective_to = None, pa_archived_at = None, pa_added_by = Some (nc_createdBy nc)\<rparr>"

definition insertConversation ::
  "Timestamp \<Rightarrow> NewConversation \<Rightarrow> ConversationDb \<Rightarrow> ConversationDb option" where
  "insertConversation dbNow nc db =
     (let cid = nc_conversationId nc
      in if findConversation cid db \<noteq> None \<or>
            list_ex (\<lambda>p. pa_conversation_id p = cid) (db_participants db) \<or>
            \<not> distinct (map np_principalId (nc_participants nc)) then None
         else Some (db\<lparr>db_conversations := db_conversations db @
             [\<lparr>cr_conversation_id = cid, cr_conversation_type = nc_conversationType nc, cr_state = None,
               cr_case_id = None, cr_sensitivity = ORDINARY, cr_last_seq = 0, cr_customer_ref = None,
               cr_last_activity_at = dbNow, cr_last_message_preview = [],
               cr_participant_count = length (nc_participants nc)\<rparr>],
           db_participants := db_participants db @ map (participantRowOf nc) (nc_participants nc),
           db_names := db_names db @
             [\<lparr>nm_conversation_id = cid, nm_title = nc_title nc, nm_created_by = nc_createdBy nc\<rparr>]\<rparr>))"

text \<open>\<open>ON CONFLICT DO NOTHING\<close> on the audience, whose key is the whole row.\<close>

definition audienceRows :: "UUID \<Rightarrow> (AudienceScope \<times> string) list \<Rightarrow> AudienceRow list" where
  "audienceRows cid audience =
     remdups (map (\<lambda>(k, i). \<lparr>au_conversation_id = cid, au_scope_kind = k, au_scope_id = trim i\<rparr>)
       (filter (\<lambda>(k, i). trim i \<noteq> []) audience))"

definition insertChannelPolicy ::
  "UUID \<Rightarrow> NewChannelPolicy \<Rightarrow> 'x Db_scheme \<Rightarrow> 'x Db_scheme option" where
  "insertChannelPolicy cid policy db =
     (if list_ex (\<lambda>c. ch_conversation_id c = cid) (db_channels db) then None
      else Some (db\<lparr>db_channels := db_channels db @
          [\<lparr>ch_conversation_id = cid, ch_visibility = ncp_visibility policy,
            ch_read_access = ncp_readAccess policy, ch_post_access = ncp_postAccess policy,
            ch_archived_at = None\<rparr>],
        db_channel_audience := db_channel_audience db @
          filter (\<lambda>a. a \<notin> set (db_channel_audience db)) (audienceRows cid (ncp_audience policy))\<rparr>))"

definition toParticipant :: "ParticipantRow \<Rightarrow> NewParticipant" where
  "toParticipant p =
     \<lparr>np_principalId = pa_principal_id p, np_principalKind = pa_principal_kind p,
      np_role = pa_role p, np_replyAuthority = pa_reply_authority p\<rparr>"

definition listParticipants :: "UUID \<Rightarrow> 'x Db_scheme \<Rightarrow> NewParticipant list" where
  "listParticipants cid db =
     map toParticipant (sort_key (\<lambda>p. (pa_effective_from p, pa_principal_id p))
       (filter (liveIn cid) (db_participants db)))"

definition recount :: "UUID \<Rightarrow> 'x Db_scheme \<Rightarrow> 'x Db_scheme" where
  "recount cid db =
     db\<lparr>db_conversations := updateWhere (\<lambda>c. cr_conversation_id c = cid)
          (\<lambda>c. c\<lparr>cr_participant_count := length (filter (liveIn cid) (db_participants db))\<rparr>)
          (db_conversations db)\<rparr>"

definition reviveSeat :: "NewParticipant \<Rightarrow> UUID \<Rightarrow> Timestamp \<Rightarrow> ParticipantRow \<Rightarrow> ParticipantRow" where
  "reviveSeat p addedBy t r =
     (if pa_effective_to r = None then r
      else r\<lparr>pa_effective_to := None, pa_effective_from := t, pa_added_by := Some addedBy,
             pa_role := np_role p, pa_reply_authority := np_replyAuthority p\<rparr>)"

definition addParticipantRow ::
  "UUID \<Rightarrow> NewParticipant \<Rightarrow> UUID \<Rightarrow> Timestamp \<Rightarrow> 'x Db_scheme \<Rightarrow> 'x Db_scheme option" where
  "addParticipantRow cid p addedBy t db =
     Some (recount cid (db\<lparr>db_participants :=
       (if list_ex (sameSeat cid (np_principalId p)) (db_participants db)
        then updateWhere (sameSeat cid (np_principalId p)) (reviveSeat p addedBy t) (db_participants db)
        else db_participants db @
          [\<lparr>pa_conversation_id = cid, pa_principal_id = np_principalId p,
            pa_principal_kind = np_principalKind p, pa_role = np_role p,
            pa_reply_authority = np_replyAuthority p, pa_effective_from = t, pa_effective_to = None,
            pa_archived_at = None, pa_added_by = Some addedBy\<rparr>])\<rparr>))"

definition endParticipation :: "UUID \<Rightarrow> UUID \<Rightarrow> Timestamp \<Rightarrow> 'x Db_scheme \<Rightarrow> (bool \<times> 'x Db_scheme) option" where
  "endParticipation cid who t db =
     (let hit = (\<lambda>p. sameSeat cid who p \<and> pa_effective_to p = None)
      in if list_ex hit (db_participants db)
         then Some (True, recount cid (db\<lparr>db_participants :=
                updateWhere hit (\<lambda>p. p\<lparr>pa_effective_to := Some t\<rparr>) (db_participants db)\<rparr>))
         else Some (False, db))"

definition setParticipantRole :: "UUID \<Rightarrow> UUID \<Rightarrow> string \<Rightarrow> 'x Db_scheme \<Rightarrow> 'x Db_scheme option" where
  "setParticipantRole cid who role db =
     Some (db\<lparr>db_participants :=
       updateWhere (\<lambda>p. sameSeat cid who p \<and> pa_effective_to p = None) (\<lambda>p. p\<lparr>pa_role := role\<rparr>)
         (db_participants db)\<rparr>)"

definition loadConversationType :: "UUID \<Rightarrow> 'x Db_scheme \<Rightarrow> ConversationType option" where
  "loadConversationType cid db = map_option cr_conversation_type (findConversation cid db)"

definition promoteDirectToGroup :: "UUID \<Rightarrow> 'x Db_scheme \<Rightarrow> 'x Db_scheme option" where
  "promoteDirectToGroup cid db =
     Some (db\<lparr>db_conversations :=
       updateWhere (\<lambda>c. cr_conversation_id c = cid \<and> cr_conversation_type c = INTERNAL_DIRECT)
         (\<lambda>c. c\<lparr>cr_conversation_type := INTERNAL_GROUP\<rparr>) (db_conversations db)\<rparr>)"

definition setTitle :: "UUID \<Rightarrow> string option \<Rightarrow> ConversationDb \<Rightarrow> (bool \<times> ConversationDb) option" where
  "setTitle cid title db =
     Some (list_ex (\<lambda>n. nm_conversation_id n = cid) (db_names db),
       db\<lparr>db_names := updateWhere (\<lambda>n. nm_conversation_id n = cid) (\<lambda>n. n\<lparr>nm_title := title\<rparr>) (db_names db)\<rparr>)"

definition countMessages :: "UUID \<Rightarrow> 'x Db_scheme \<Rightarrow> nat" where
  "countMessages cid db = length (filter (\<lambda>m. me_conversation_id m = cid) (db_messages db))"

definition systemMessageRow :: "UUID \<Rightarrow> UUID \<Rightarrow> nat \<Rightarrow> string \<Rightarrow> Timestamp \<Rightarrow> MessageRow" where
  "systemMessageRow mid cid seq body t =
     \<lparr>me_message_id = mid, me_conversation_id = cid, me_seq = seq, me_visibility = INTERNAL,
      me_sender_principal_id = None, me_sender_kind = K_SYSTEM, me_sender_display_name = ''StarLink'',
      me_message_class = ''MEMBERSHIP'', me_body = Some body, me_reply_to_message_id = None,
      me_client_message_id = None, me_mentions = None, me_created_at = t, me_edited_at = None,
      me_redacted_at = None\<rparr>"

definition appendSystemMessage ::
  "UUID \<Rightarrow> UUID \<Rightarrow> string \<Rightarrow> Timestamp \<Rightarrow> 'x Db_scheme \<Rightarrow> 'x Db_scheme option" where
  "appendSystemMessage mid cid body t db =
     (let db1 = db\<lparr>db_conversations := updateWhere (\<lambda>c. cr_conversation_id c = cid)
            (\<lambda>c. c\<lparr>cr_last_seq := cr_last_seq c + 1, cr_last_activity_at := t\<rparr>) (db_conversations db)\<rparr>
      in case findConversation cid db1 of
           None \<Rightarrow> Some db1
         | Some c \<Rightarrow>
             let row = systemMessageRow mid cid (cr_last_seq c) body t
             in if list_ex (clashes row) (db_messages db1) then None
                else Some (db1\<lparr>db_messages := db_messages db1 @ [row]\<rparr>))"

definition pgConversations :: "Timestamp \<Rightarrow> UUID \<Rightarrow> ConversationDb ConversationWriteTransaction" where
  "pgConversations dbNow noteId =
     \<lparr>cw_findDirectConversation = findDirectConversation,
      cw_insertConversation = insertConversation dbNow,
      cw_insertChannelPolicy = insertChannelPolicy,
      cw_listParticipants = listParticipants,
      cw_addParticipant = addParticipantRow,
      cw_endParticipation = endParticipation,
      cw_setParticipantRole = setParticipantRole,
      cw_loadConversationType = loadConversationType,
      cw_promoteDirectToGroup = promoteDirectToGroup,
      cw_setTitle = setTitle,
      cw_countMessages = countMessages,
      cw_appendSystemMessage = appendSystemMessage noteId,
      cw_appendOutbox = appendOutbox\<rparr>"

lemma pgConversations_sel [simp]:
  "cw_findDirectConversation (pgConversations n i) = findDirectConversation"
  "cw_insertConversation (pgConversations n i) = insertConversation n"
  "cw_insertChannelPolicy (pgConversations n i) = insertChannelPolicy"
  "cw_listParticipants (pgConversations n i) = listParticipants"
  "cw_addParticipant (pgConversations n i) = addParticipantRow"
  "cw_endParticipation (pgConversations n i) = endParticipation"
  "cw_setParticipantRole (pgConversations n i) = setParticipantRole"
  "cw_loadConversationType (pgConversations n i) = loadConversationType"
  "cw_promoteDirectToGroup (pgConversations n i) = promoteDirectToGroup"
  "cw_setTitle (pgConversations n i) = setTitle"
  "cw_countMessages (pgConversations n i) = countMessages"
  "cw_appendSystemMessage (pgConversations n i) = appendSystemMessage i"
  "cw_appendOutbox (pgConversations n i) = appendOutbox"
  by (simp_all add: pgConversations_def)

section \<open>The reader\<close>

definition markerOf :: "UUID \<Rightarrow> UUID \<Rightarrow> ReadStateRow list \<Rightarrow> nat" where
  "markerOf who cid rows =
     (case find (\<lambda>r. rd_principal_id r = who \<and> rd_conversation_id r = cid) rows of
        None \<Rightarrow> 0 | Some r \<Rightarrow> rd_last_read_seq r)"

text \<open>The lowest marker of the other live participants, nobody counting as zero.\<close>

definition readWatermarkOf :: "UUID \<Rightarrow> UUID \<Rightarrow> ConversationDb \<Rightarrow> nat" where
  "readWatermarkOf cid excluding db =
     (case map (\<lambda>p. markerOf (pa_principal_id p) cid (db_read_state db))
        (filter (\<lambda>p. liveIn cid p \<and> pa_principal_id p \<noteq> excluding) (db_participants db)) of
        [] \<Rightarrow> 0 | m # ms \<Rightarrow> foldl min m ms)"

definition unreadCount :: "UUID \<Rightarrow> UUID \<Rightarrow> ConversationDb \<Rightarrow> nat" where
  "unreadCount who cid db =
     length (filter (\<lambda>m. me_conversation_id m = cid \<and> me_seq m > markerOf who cid (db_read_state db) \<and>
         me_message_class m \<noteq> ''MEMBERSHIP'' \<and> me_sender_principal_id m \<noteq> Some who) (db_messages db))"

datatype ListScope = CHATS | ANNOUNCEMENTS | CHANNELS

definition inScope :: "ListScope \<Rightarrow> ConversationType \<Rightarrow> bool" where
  "inScope scope ct =
     (case scope of
        ANNOUNCEMENTS \<Rightarrow> ct = INTERNAL_ANNOUNCEMENT
      | CHANNELS \<Rightarrow> ct = INTERNAL_CHANNEL
      | CHATS \<Rightarrow> ct \<noteq> INTERNAL_ANNOUNCEMENT \<and> ct \<noteq> INTERNAL_CHANNEL)"

definition preferenceOf :: "UUID \<Rightarrow> UUID \<Rightarrow> ConversationDb \<Rightarrow> PreferenceRow option" where
  "preferenceOf who cid db =
     find (\<lambda>r. pf_principal_id r = who \<and> pf_conversation_id r = cid) (db_preferences db)"

definition isPinned :: "UUID \<Rightarrow> UUID \<Rightarrow> ConversationDb \<Rightarrow> bool" where
  "isPinned who cid db = (case preferenceOf who cid db of None \<Rightarrow> False | Some r \<Rightarrow> pf_pinned r)"

text \<open>The names of the others: the first six by identifier, then in the order of the names.\<close>

definition otherNames :: "UUID \<Rightarrow> UUID \<Rightarrow> ConversationDb \<Rightarrow> (UUID \<times> string \<times> string) list" where
  "otherNames who cid db =
     sort_key (\<lambda>(i, n, r). n) (List.map_filter
       (\<lambda>p. map_option (\<lambda>(i, n). (i, n, pa_role p))
          (find (\<lambda>(i, n). i = pa_principal_id p) (db_principal_names db)))
       (take 6 (sort_key pa_principal_id
         (filter (\<lambda>p. liveIn cid p \<and> pa_principal_id p \<noteq> who) (db_participants db)))))"

record ConversationSummary =
  cs_conversationId :: UUID
  cs_conversationType :: ConversationType
  cs_title :: "string option"
  cs_participants :: "(UUID \<times> string \<times> string) list option"
  cs_state :: "ConversationState option"
  cs_sensitivity :: SensitivityClass
  cs_lastActivityAt :: Timestamp
  cs_lastMessagePreview :: string
  cs_participantCount :: nat
  cs_createdBy :: "UUID option"
  cs_unreadCount :: nat
  cs_publisherName :: "string option"
  cs_pinnedForEveryone :: "Timestamp option"
  cs_lastMessageSeq :: "nat option"
  cs_lastMessageSenderId :: "UUID option"
  cs_readWatermark :: nat
  cs_pinned :: bool
  cs_mutedUntil :: "Timestamp option"

definition nameRow :: "UUID \<Rightarrow> ConversationDb \<Rightarrow> ConversationNameRow option" where
  "nameRow cid db = find (\<lambda>n. nm_conversation_id n = cid) (db_names db)"

definition summaryOf :: "Timestamp \<Rightarrow> UUID \<Rightarrow> ConversationDb \<Rightarrow> ConversationRow \<Rightarrow> ConversationSummary" where
  "summaryOf now who db c =
     (let cid = cr_conversation_id c;
          author = (case nameRow cid db of None \<Rightarrow> None
                    | Some n \<Rightarrow> map_option snd (find (\<lambda>(i, d). i = nm_created_by n) (db_principal_names db)))
      in \<lparr>cs_conversationId = cid, cs_conversationType = cr_conversation_type c,
          cs_title = Option.bind (nameRow cid db) nm_title,
          cs_participants =
            (if isInternal (cr_conversation_type c) \<and> otherNames who cid db \<noteq> []
             then Some (otherNames who cid db) else None),
          cs_state = cr_state c, cs_sensitivity = cr_sensitivity c,
          cs_lastActivityAt = cr_last_activity_at c, cs_lastMessagePreview = cr_last_message_preview c,
          cs_participantCount = cr_participant_count c,
          cs_createdBy = map_option nm_created_by (nameRow cid db),
          cs_unreadCount = unreadCount who cid db,
          cs_publisherName = (if cr_conversation_type c = INTERNAL_ANNOUNCEMENT then author else None),
          cs_pinnedForEveryone = map_option snd (find (\<lambda>(i, t). i = cid) (db_announcement_pins db)),
          cs_lastMessageSeq = (if cr_last_seq c > 0 then Some (cr_last_seq c) else None),
          cs_lastMessageSenderId = Option.bind (newestUnredacted cid db) me_sender_principal_id,
          cs_readWatermark = readWatermarkOf cid who db,
          cs_pinned = isPinned who cid db,
          cs_mutedUntil =
            (case Option.bind (preferenceOf who cid db) pf_muted_until of
               None \<Rightarrow> None | Some t \<Rightarrow> if t > now then Some t else None)\<rparr>)"

text \<open>The keyset and the order of the page, as the query states them.\<close>

definition activityKey :: "ConversationRow \<Rightarrow> Timestamp \<times> UUID" where
  "activityKey c = (cr_last_activity_at c, cr_conversation_id c)"

definition listOrder :: "UUID \<Rightarrow> ConversationDb \<Rightarrow> ConversationRow \<Rightarrow> bool \<times> bool \<times> Timestamp \<times> UUID" where
  "listOrder who db c =
     (list_ex (\<lambda>(i, t). i = cr_conversation_id c) (db_announcement_pins db),
      isPinned who (cr_conversation_id c) db, activityKey c)"

definition listForPrincipal ::
  "Timestamp \<Rightarrow> UUID \<Rightarrow> nat \<Rightarrow> (Timestamp \<times> UUID) option \<Rightarrow> ListScope \<Rightarrow> ConversationDb \<Rightarrow> ConversationSummary list" where
  "listForPrincipal now who limit before scope db =
     map (summaryOf now who db) (take limit (rev (sort_key (listOrder who db)
       (filter (\<lambda>c. list_ex (\<lambda>p. liveIn (cr_conversation_id c) p \<and> pa_principal_id p = who) (db_participants db) \<and>
            (case before of None \<Rightarrow> True | Some k \<Rightarrow> activityKey c < k) \<and>
            inScope scope (cr_conversation_type c)) (db_conversations db)))))"

definition hasEverConversed :: "UUID \<Rightarrow> 'x Db_scheme \<Rightarrow> bool" where
  "hasEverConversed who db =
     list_ex (\<lambda>p. pa_principal_id p = who \<and>
       list_ex (\<lambda>c. cr_conversation_id c = pa_conversation_id p \<and>
         cr_conversation_type c \<in> {INTERNAL_DIRECT, INTERNAL_GROUP}) (db_conversations db)) (db_participants db)"

definition setAnnouncementPinned :: "Timestamp \<Rightarrow> UUID \<Rightarrow> bool \<Rightarrow> ConversationDb \<Rightarrow> ConversationDb" where
  "setAnnouncementPinned dbNow cid pinned db =
     db\<lparr>db_announcement_pins :=
       (let rest = filter (\<lambda>(i, t). i \<noteq> cid) (db_announcement_pins db)
        in if pinned then rest @ [(cid, dbNow)] else rest)\<rparr>"

section \<open>Read markers\<close>

definition markRead :: "UUID \<Rightarrow> UUID \<Rightarrow> nat \<Rightarrow> Timestamp \<Rightarrow> ConversationDb \<Rightarrow> nat \<times> ConversationDb" where
  "markRead who cid upToSeq t db =
     (let same = (\<lambda>r. rd_principal_id r = who \<and> rd_conversation_id r = cid);
          rows = (if list_ex same (db_read_state db)
                  then updateWhere same
                    (\<lambda>r. r\<lparr>rd_last_read_seq := max (rd_last_read_seq r) upToSeq, rd_last_read_at := t\<rparr>)
                    (db_read_state db)
                  else db_read_state db @
                    [\<lparr>rd_principal_id = who, rd_conversation_id = cid, rd_last_read_seq = upToSeq,
                      rd_last_read_at = t\<rparr>])
      in (markerOf who cid rows, db\<lparr>db_read_state := rows\<rparr>))"

text \<open>\<open>readWatermark\<close> and \<open>deliveryTick\<close> of \<open>read-receipts.ts\<close>, over reported positions.\<close>

definition MAX_SAFE_INTEGER :: int where "MAX_SAFE_INTEGER = 9007199254740991"

definition readWatermark :: "(UUID \<times> int) list \<Rightarrow> UUID \<Rightarrow> int" where
  "readWatermark positions selfId =
     (let others = filter (\<lambda>(i, s). i \<noteq> selfId) positions
      in if length others = 0 then 0
         else foldl (\<lambda>lowest (i, s). min lowest (max 0 s)) MAX_SAFE_INTEGER others)"

datatype DeliveryTick = TICK_NONE | TICK_SENT | TICK_READ

definition deliveryTick :: "bool \<Rightarrow> int \<Rightarrow> int \<Rightarrow> DeliveryTick" where
  "deliveryTick isMine seq watermark =
     (if \<not> isMine then TICK_NONE else if seq \<le> 0 then TICK_NONE
      else if watermark \<ge> seq then TICK_READ else TICK_SENT)"

end
