(* ===== verification/Conversation_Invariants.thy ===== *)
theory Conversation_Invariants
  imports Conversation_Contract
begin

text \<open>
  The invariants of membership, proved once over any store that keeps the contract: customers stay
  out of internal conversations, creators are unique, and groups stay administered.
\<close>

lemma seat_unique: "distinct (map fst ms) \<Longrightarrow> (i, r) \<in> set ms \<Longrightarrow> (i, s) \<in> set ms \<Longrightarrow> r = s"
  by (induction ms) (auto simp: image_iff)

lemma runTransaction_snd:
  "snd (runTransaction work st) = (case work st of None \<Rightarrow> st | Some (r, st') \<Rightarrow> st')"
  by (simp add: runTransaction_def split: option.split prod.split)

lemma othersOf_other:
  assumes "othersOf cmd = [b]"
  shows "ci_createdBy cmd \<noteq> b"
proof -
  have "b \<in> set (othersOf cmd)" using assms by simp
  then show ?thesis by (auto simp: othersOf_def)
qed

context membership_port
begin

lemma leaver_role:
  assumes "participantOf who (cw_listParticipants tx cid st) = Some leaver" and "ok st"
  shows "np_principalId leaver = who" and "(who, np_role leaver) \<in> set (rosterOf tx cid st)"
    and "(who, r) \<in> set (rosterOf tx cid st) \<Longrightarrow> r = np_role leaver"
proof -
  show p: "np_principalId leaver = who" and m: "(who, np_role leaver) \<in> set (rosterOf tx cid st)"
    using find_SomeD[OF assms(1)[unfolded participantOf_def]] by (auto simp: rosterOf_def)
  show "(who, r) \<in> set (rosterOf tx cid st) \<Longrightarrow> r = np_role leaver"
    using seat_unique[OF seats_distinct[OF assms(2)]] m by blast
qed

lemma successor_stays:
  assumes "successorOf ct (cw_listParticipants tx cid st) leaver = Some s" and "np_principalId leaver = who"
  shows "np_principalId s \<in> fst ` set (filter (\<lambda>m. fst m \<noteq> who) (rosterOf tx cid st))"
    and "ct \<noteq> INTERNAL_CHANNEL \<Longrightarrow> np_role leaver = ''CREATOR''"
proof -
  from assms have f: "find (\<lambda>p. np_principalId p \<noteq> who) (cw_listParticipants tx cid st) = Some s"
    by (auto simp: successorOf_def Let_def split: if_splits)
  from find_SomeD[OF f] have s: "s \<in> set (cw_listParticipants tx cid st)" "np_principalId s \<noteq> who" by auto
  then have "(np_principalId s, np_role s) \<in> set (filter (\<lambda>m. fst m \<noteq> who) (rosterOf tx cid st))"
    by (auto simp: rosterOf_def)
  then show "np_principalId s \<in> fst ` set (filter (\<lambda>m. fst m \<noteq> who) (rosterOf tx cid st))"
    by (metis fst_conv imageI)
  show "ct \<noteq> INTERNAL_CHANNEL \<Longrightarrow> np_role leaver = ''CREATOR''"
    using assms(1) by (auto simp: successorOf_def Let_def split: if_splits)
qed

lemma no_successor:
  assumes "successorOf INTERNAL_GROUP (cw_listParticipants tx cid st) leaver = None"
    and "np_role leaver = ''CREATOR''" and "np_principalId leaver = who"
  shows "filter (\<lambda>m. fst m \<noteq> who) (rosterOf tx cid st) = []"
  using assms by (auto simp: successorOf_def Let_def find_None_iff rosterOf_def filter_empty_conv)

lemma leaveWork_cases:
  assumes "leaveWork tx now cmd st = Some (r, st')" and "ok st"
  obtains "st' = st"
    | f ct where "ok st'"
      and "cw_loadConversationType tx (lc_conversationId cmd) st = Some ct"
      and "cw_loadConversationType tx (lc_conversationId cmd) st' = Some ct"
      and "ct = INTERNAL_GROUP \<or> ct = INTERNAL_CHANNEL"
      and "\<And>c. c \<noteq> lc_conversationId cmd \<Longrightarrow> sameRoster tx c st st'"
      and "rosterOf tx (lc_conversationId cmd) st' =
        map f (filter (\<lambda>m. fst m \<noteq> lc_principalId cmd) (rosterOf tx (lc_conversationId cmd) st))"
      and "\<And>m. fst (f m) = fst m"
      and "f = id \<and> (ct = INTERNAL_GROUP \<longrightarrow>
             (lc_principalId cmd, ''CREATOR'') \<notin> set (rosterOf tx (lc_conversationId cmd) st) \<or>
             filter (\<lambda>m. fst m \<noteq> lc_principalId cmd) (rosterOf tx (lc_conversationId cmd) st) = []) \<or>
           (\<exists>s. s \<in> fst ` set (filter (\<lambda>m. fst m \<noteq> lc_principalId cmd) (rosterOf tx (lc_conversationId cmd) st)) \<and>
             (ct = INTERNAL_GROUP \<longrightarrow> (lc_principalId cmd, ''CREATOR'') \<in> set (rosterOf tx (lc_conversationId cmd) st)) \<and>
             f = (\<lambda>m. if fst m = s then (s, if ct = INTERNAL_CHANNEL then ''ADMIN'' else ''CREATOR'') else m))"
proof (cases "cw_loadConversationType tx (lc_conversationId cmd) st = Some INTERNAL_GROUP \<or>
    cw_loadConversationType tx (lc_conversationId cmd) st = Some INTERNAL_CHANNEL")
  case False
  with assms(1) that(1) show thesis by (auto simp: leaveWork_def Let_def)
next
  case True
  let ?cid = "lc_conversationId cmd" and ?who = "lc_principalId cmd"
  let ?ps = "cw_listParticipants tx ?cid st"
  from True obtain ct where ct: "cw_loadConversationType tx ?cid st = Some ct"
    and g: "ct = INTERNAL_GROUP \<or> ct = INTERNAL_CHANNEL" by auto
  show thesis
  proof (cases "participantOf ?who ?ps")
    case None
    with assms(1) ct g that(1) show thesis by (auto simp: leaveWork_def Let_def)
  next
    case (Some leaver)
    note lv = leaver_role[OF Some assms(2)]
    have g': "(ct \<noteq> INTERNAL_GROUP \<and> ct \<noteq> INTERNAL_CHANNEL) = False" using g by auto
    from assms(1)[unfolded leaveWork_def Let_def ct option.inject option.sel g'] Some
    have "Option.bind (cw_endParticipation tx ?cid ?who now st) (\<lambda>(ended, st1).
        (if \<not> ended then Some (Inl LEAVE_NOT_A_PARTICIPANT, st1)
          else (case successorOf ct ?ps leaver of
              None \<Rightarrow> Some (Inr None, st1)
            | Some s \<Rightarrow> do {
                st2 \<leftarrow> cw_setParticipantRole tx ?cid (np_principalId s)
                  (if ct = INTERNAL_CHANNEL then ''ADMIN'' else ''CREATOR'') st1;
                Some (Inr (Some (np_principalId s)), st2)
              }))) = Some (r, st')"
      by simp
    then obtain ended st1 where
        e: "cw_endParticipation tx ?cid ?who now st = Some (ended, st1)"
        and rest: "(if \<not> ended then Some (Inl LEAVE_NOT_A_PARTICIPANT, st1)
          else (case successorOf ct ?ps leaver of
              None \<Rightarrow> Some (Inr None, st1)
            | Some s \<Rightarrow> do {
                st2 \<leftarrow> cw_setParticipantRole tx ?cid (np_principalId s)
                  (if ct = INTERNAL_CHANNEL then ''ADMIN'' else ''CREATOR'') st1;
                Some (Inr (Some (np_principalId s)), st2)
              })) = Some (r, st')"
      by (rule bind_SomeE) (simp split: prod.splits)
    have en: "ok st1" "ended" "rosterOf tx ?cid st1 = filter (\<lambda>m. fst m \<noteq> ?who) (rosterOf tx ?cid st)"
        "cw_loadConversationType tx ?cid st1 = Some ct" "\<And>c. c \<noteq> ?cid \<Longrightarrow> sameRoster tx c st st1"
      using end_law[OF e assms(2)] lv(2) ct by force+
    show thesis
    proof (cases "successorOf ct ?ps leaver")
      case None
      with rest en(2) have st': "st' = st1" by simp
      have "ct = INTERNAL_GROUP \<Longrightarrow> (?who, ''CREATOR'') \<in> set (rosterOf tx ?cid st) \<Longrightarrow>
          filter (\<lambda>m. fst m \<noteq> ?who) (rosterOf tx ?cid st) = []"
        using no_successor[of ?cid st leaver ?who] None lv(1) lv(3)[of "''CREATOR''"] by auto
      with en ct g show thesis by (intro that(2)[of ct id]) (auto simp: st')
    next
      case (Some s)
      with rest en(2) have sr: "cw_setParticipantRole tx ?cid (np_principalId s)
          (if ct = INTERNAL_CHANNEL then ''ADMIN'' else ''CREATOR'') st1 = Some st'"
        by (auto elim!: bind_SomeE)
      note rl = role_law[OF sr en(1)]
      note ss = successor_stays[OF Some lv(1)]
      let ?f = "\<lambda>m. if fst m = np_principalId s
          then (np_principalId s, if ct = INTERNAL_CHANNEL then ''ADMIN'' else ''CREATOR'') else m"
      show thesis
      proof (rule that(2)[of ct ?f])
        show "sameRoster tx c st st'" if "c \<noteq> ?cid" for c
          using en(5)[OF that] rl that by (blast intro: quiet_trans)
        have "ct = INTERNAL_GROUP \<longrightarrow> (?who, ''CREATOR'') \<in> set (rosterOf tx ?cid st)"
          using ss(2) lv(2) by auto
        then show "?f = id \<and> (ct = INTERNAL_GROUP \<longrightarrow> (?who, ''CREATOR'') \<notin> set (rosterOf tx ?cid st) \<or>
             filter (\<lambda>m. fst m \<noteq> ?who) (rosterOf tx ?cid st) = []) \<or>
           (\<exists>s. s \<in> fst ` set (filter (\<lambda>m. fst m \<noteq> ?who) (rosterOf tx ?cid st)) \<and>
             (ct = INTERNAL_GROUP \<longrightarrow> (?who, ''CREATOR'') \<in> set (rosterOf tx ?cid st)) \<and>
             ?f = (\<lambda>m. if fst m = s then (s, if ct = INTERNAL_CHANNEL then ''ADMIN'' else ''CREATOR'') else m))"
          using ss(1) by (intro disjI2 exI[of _ "np_principalId s"]) simp
      qed (use ct g en rl in auto)
    qed
  qed
qed

lemma renameWork_cases:
  assumes "renameWork tx title cmd st = Some (r, st')" and "ok st"
  shows "ok st' \<and> sameRoster tx c st st'"
  using assms title_law
  by (auto simp: renameWork_def split: option.splits if_splits elim!: bind_SomeE)

text \<open>One command, as it changes rosters.\<close>

lemma runConversation_ok: "ok st \<Longrightarrow> ok (runConversation tx c st)"
proof (cases c)
  case (CreateInternal newId now cmd)
  assume "ok st"
  then show ?thesis
    using CreateInternal createWork_cases[of newId now cmd st]
    by (fastforce simp: createInternalConversation_def runTransaction_snd apfst_def map_prod_def split: option.splits)
next
  case (Add now cmd)
  assume "ok st"
  then show ?thesis
    using Add addWork_cases[of now cmd st]
    by (fastforce simp: addParticipant_def runTransaction_snd split: option.splits)
next
  case (Remove now cmd)
  assume "ok st"
  then show ?thesis
    using Remove removeWork_cases[of now cmd st]
    by (fastforce simp: removeParticipant_def runTransaction_snd split: option.splits)
next
  case (Leave now cmd)
  assume "ok st"
  then show ?thesis
    using Leave leaveWork_cases[of now cmd st]
    by (fastforce simp: leaveConversation_def runTransaction_snd split: option.splits)
next
  case (Rename cmd)
  assume "ok st"
  then show ?thesis
    using Rename renameWork_cases[of _ cmd st]
    by (fastforce simp: renameConversation_def runTransaction_snd Let_def split: option.splits)
qed

text \<open>
  A command and the roster of one conversation: untouched, founded, joined, or rewritten from the
  members who stay.
\<close>

lemma step_cases [consumes 1, case_names untouched founded joined removed left]:
  assumes "ok st"
  obtains "sameRoster tx cid st (runConversation tx c st)"
    | newId now cmd where "c = CreateInternal newId now cmd" and "createChecks cmd = None"
      and "founded st (runConversation tx c st) cid cmd"
    | now cmd ct where "c = Add now cmd" and "ap_conversationId cmd = cid" and "addChecks tx cmd st = Inr ct"
      and "set (rosterOf tx cid (runConversation tx c st)) =
        insert (ap_principalId cmd, ''PARTICIPANT'') (set (rosterOf tx cid st))"
      and "cw_loadConversationType tx cid (runConversation tx c st) = Some ct \<or>
        ct = INTERNAL_DIRECT \<and> cw_loadConversationType tx cid (runConversation tx c st) = Some INTERNAL_GROUP"
    | now cmd where "c = Remove now cmd" and "rp_conversationId cmd = cid" and "removeChecks tx cmd st = None"
      and "rosterOf tx cid (runConversation tx c st) =
        filter (\<lambda>m. fst m \<noteq> rp_principalId cmd) (rosterOf tx cid st)"
      and "cw_loadConversationType tx cid (runConversation tx c st) = cw_loadConversationType tx cid st"
    | now cmd f ct where "c = Leave now cmd" and "lc_conversationId cmd = cid"
      and "cw_loadConversationType tx cid st = Some ct"
      and "cw_loadConversationType tx cid (runConversation tx c st) = Some ct"
      and "ct = INTERNAL_GROUP \<or> ct = INTERNAL_CHANNEL"
      and "rosterOf tx cid (runConversation tx c st) =
        map f (filter (\<lambda>m. fst m \<noteq> lc_principalId cmd) (rosterOf tx cid st))"
      and "\<And>m. fst (f m) = fst m"
      and "f = id \<and> (ct = INTERNAL_GROUP \<longrightarrow>
             (lc_principalId cmd, ''CREATOR'') \<notin> set (rosterOf tx cid st) \<or>
             filter (\<lambda>m. fst m \<noteq> lc_principalId cmd) (rosterOf tx cid st) = []) \<or>
           (\<exists>s. s \<in> fst ` set (filter (\<lambda>m. fst m \<noteq> lc_principalId cmd) (rosterOf tx cid st)) \<and>
             (ct = INTERNAL_GROUP \<longrightarrow> (lc_principalId cmd, ''CREATOR'') \<in> set (rosterOf tx cid st)) \<and>
             f = (\<lambda>m. if fst m = s then (s, if ct = INTERNAL_CHANNEL then ''ADMIN'' else ''CREATOR'') else m))"
proof (cases c)
  case (CreateInternal newId now cmd)
  show thesis
  proof (cases "createChecks cmd = None \<and> createWork tx newId now cmd st \<noteq> None")
    case False
    then have "runConversation tx c st = st"
      by (auto simp: CreateInternal createInternalConversation_def runTransaction_snd split: option.split)
    then show thesis using that(1) by simp
  next
    case True
    then obtain r st' where w: "createWork tx newId now cmd st = Some (r, st')" by auto
    with True have run: "runConversation tx c st = st'"
      by (simp add: CreateInternal createInternalConversation_def runTransaction_snd)
    from w assms show thesis
    proof (cases rule: createWork_cases)
      case 1 with run that(1) show thesis by simp
    next
      case 2
      show thesis
      proof (cases "cid = newId")
        case True2: True
        with 2 run True that(2)[OF CreateInternal] show thesis by simp
      next
        case False
        with 2(2) run that(1) show thesis by (simp add: founded_def)
      qed
    qed
  qed
next
  case (Add now cmd)
  show thesis
  proof (cases "addWork tx now cmd st")
    case None
    with that(1) show thesis by (simp add: Add addParticipant_def runTransaction_snd)
  next
    case (Some p)
    obtain r st' where w: "addWork tx now cmd st = Some (r, st')" using Some by (cases p) simp
    then have run: "runConversation tx c st = st'" by (simp add: Add addParticipant_def runTransaction_snd)
    from w assms show thesis
    proof (cases rule: addWork_cases)
      case 1 with run that(1) show thesis by simp
    next
      case (2 ct n)
      show thesis
      proof (cases "cid = ap_conversationId cmd")
        case True
        with 2 run show thesis by (intro that(3)[OF Add]) auto
      next
        case False
        with 2(7)[of cid] run that(1) show thesis by simp
      qed
    qed
  qed
next
  case (Remove now cmd)
  show thesis
  proof (cases "removeWork tx now cmd st")
    case None
    with that(1) show thesis by (simp add: Remove removeParticipant_def runTransaction_snd)
  next
    case (Some p)
    obtain r st' where w: "removeWork tx now cmd st = Some (r, st')" using Some by (cases p) simp
    then have run: "runConversation tx c st = st'" by (simp add: Remove removeParticipant_def runTransaction_snd)
    from w assms show thesis
    proof (cases rule: removeWork_cases)
      case 1 with run that(1) show thesis by simp
    next
      case 2
      show thesis
      proof (cases "cid = rp_conversationId cmd")
        case True
        with 2 run show thesis by (intro that(4)[OF Remove]) auto
      next
        case False
        with 2(5)[of cid] run that(1) show thesis by simp
      qed
    qed
  qed
next
  case (Leave now cmd)
  show thesis
  proof (cases "leaveWork tx now cmd st")
    case None
    with that(1) show thesis by (simp add: Leave leaveConversation_def runTransaction_snd)
  next
    case (Some p)
    obtain r st' where w: "leaveWork tx now cmd st = Some (r, st')" using Some by (cases p) simp
    then have run: "runConversation tx c st = st'" by (simp add: Leave leaveConversation_def runTransaction_snd)
    from w assms show thesis
    proof (cases rule: leaveWork_cases)
      case 1 with run that(1) show thesis by simp
    next
      case (2 f ct)
      show thesis
      proof (cases "cid = lc_conversationId cmd")
        case True
        show thesis
          by (rule that(5)[OF Leave True[symmetric], of ct f]) (use 2 run True in auto)
      next
        case False
        with 2(5)[of cid] run that(1) show thesis by simp
      qed
    qed
  qed
next
  case (Rename cmd)
  have "sameRoster tx cid st (runConversation tx c st)"
    using renameWork_cases[of "trim (rn_title cmd)" cmd st, OF _ assms, of _ _ cid]
    by (auto simp: Rename renameConversation_def runTransaction_snd Let_def split: option.split)
  with that(1) show thesis .
qed

lemma createChecks_kinds:
  "createChecks cmd = None \<Longrightarrow> i \<in> set (ci_createdBy cmd # othersOf cmd) \<Longrightarrow> ci_participantKinds cmd i \<noteq> Some K_CUSTOMER"
  by (auto simp: createChecks_def Let_def list_ex_iff split: if_splits)

lemma noCustomers_step:
  assumes "ok st" and "noCustomers kindOf tx st" and "truthful kindOf c"
  shows "noCustomers kindOf tx (runConversation tx c st)"
  unfolding noCustomers_def
proof (intro allI impI)
  fix cid ct m
  assume ct: "cw_loadConversationType tx cid (runConversation tx c st) = Some ct" and "isInternal ct"
    and m: "m \<in> set (rosterOf tx cid (runConversation tx c st))"
  note inv = assms(2)[unfolded noCustomers_def, rule_format]
  from assms(1) show "kindOf (fst m) \<noteq> K_CUSTOMER"
  proof (cases rule: step_cases[of st cid c])
    case untouched
    with inv[of cid ct m] ct m \<open>isInternal ct\<close> show ?thesis by (simp add: sameRoster_def)
  next
    case (founded newId now cmd)
    have "m \<in> insert (ci_createdBy cmd, ''CREATOR'') ((\<lambda>i. (i, ''PARTICIPANT'')) ` set (othersOf cmd))"
      using founded(3) m unfolding founded_def by blast
    then have "fst m \<in> set (ci_createdBy cmd # othersOf cmd)" by auto
    from createChecks_kinds[OF founded(2) this] this assms(3) show ?thesis
      unfolding founded(1) truthful.simps list_all_iff by metis
  next
    case (joined now cmd ct0)
    then have i: "isInternal ct0" using ct \<open>isInternal ct\<close> by auto
    from joined(2,3) have l: "cw_loadConversationType tx cid st = Some ct0"
      and k: "isInternal ct0 \<longrightarrow> ap_principalKind cmd \<noteq> K_CUSTOMER"
      by (auto simp: addChecks_def Let_def split: option.splits if_splits)
    from m joined(4) consider "m = (ap_principalId cmd, ''PARTICIPANT'')" | "m \<in> set (rosterOf tx cid st)" by auto
    then show ?thesis
      using inv[OF l i] k i assms(3) joined(1) by cases auto
  next
    case (removed now cmd)
    with inv[of cid ct m] ct m \<open>isInternal ct\<close> show ?thesis by simp
  next
    case (left now cmd f ct0)
    with m obtain m0 where "m0 \<in> set (rosterOf tx cid st)" "fst m = fst m0" by auto
    with inv[of cid ct m0] ct left(3,4) \<open>isInternal ct\<close> show ?thesis by simp
  qed
qed

lemma oneCreator_step:
  assumes "ok st" and "oneCreator tx st"
  shows "oneCreator tx (runConversation tx c st)"
  unfolding oneCreator_def
proof (intro allI impI)
  fix cid i j
  assume i: "(i, ''CREATOR'') \<in> set (rosterOf tx cid (runConversation tx c st))"
    and j: "(j, ''CREATOR'') \<in> set (rosterOf tx cid (runConversation tx c st))"
  note inv = assms(2)[unfolded oneCreator_def, rule_format, of _ cid]
  from assms(1) show "i = j"
  proof (cases rule: step_cases[of st cid c])
    case untouched
    with inv i j show ?thesis by (simp add: sameRoster_def)
  next
    case (founded newId now cmd)
    with i j show ?thesis by (auto simp: founded_def)
  next
    case (joined now cmd ct)
    with inv i j show ?thesis by auto
  next
    case (removed now cmd)
    with inv i j show ?thesis by simp
  next
    case (left now cmd f ct)
    from left(8) show ?thesis
    proof (elim disjE exE conjE)
      assume "f = id"
      with left(6) inv i j show ?thesis by simp
    next
      fix s
      assume f: "f = (\<lambda>m. if fst m = s then (s, if ct = INTERNAL_CHANNEL then ''ADMIN'' else ''CREATOR'') else m)"
        and g: "ct = INTERNAL_GROUP \<longrightarrow> (lc_principalId cmd, ''CREATOR'') \<in> set (rosterOf tx cid st)"
      have only: "k = s \<and> ct = INTERNAL_GROUP \<or>
          (k, ''CREATOR'') \<in> set (rosterOf tx cid st) \<and> k \<noteq> lc_principalId cmd"
        if "(k, ''CREATOR'') \<in> set (rosterOf tx cid (runConversation tx c st))" for k
        using that left(5,6) f by (auto split: if_splits)
      show ?thesis using only[OF i] only[OF j] g inv by metis
    qed
  qed
qed

lemma administered_step:
  assumes "ok st" and "administered tx st" and "\<not> unseatsCreator tx c st"
  shows "administered tx (runConversation tx c st)"
  unfolding administered_def
proof (intro allI impI)
  fix cid
  assume ty: "cw_loadConversationType tx cid (runConversation tx c st) \<in> {Some INTERNAL_DIRECT, Some INTERNAL_GROUP}"
    and ne: "rosterOf tx cid (runConversation tx c st) \<noteq> []"
  note inv = assms(2)[unfolded administered_def, rule_format, of cid]
  from assms(1) show "''CREATOR'' \<in> snd ` set (rosterOf tx cid (runConversation tx c st))"
  proof (cases rule: step_cases[of st cid c])
    case untouched
    with inv ty ne show ?thesis by (simp add: sameRoster_def)
  next
    case (founded newId now cmd)
    then show ?thesis by (simp add: founded_def)
  next
    case (joined now cmd ct)
    from joined(2,3) have l: "cw_loadConversationType tx cid st = Some ct" and "rosterOf tx cid st \<noteq> []"
      by (auto simp: addChecks_def Let_def isMember_roster split: option.splits if_splits)
    with inv joined(5) ty have "''CREATOR'' \<in> snd ` set (rosterOf tx cid st)" by auto
    with joined(4) show ?thesis by auto
  next
    case (removed now cmd)
    let ?ps = "cw_listParticipants tx cid st"
    from removed(5) ty have l: "cw_loadConversationType tx cid st \<in> {Some INTERNAL_DIRECT, Some INTERNAL_GROUP}" by simp
    from removed(4) ne have "rosterOf tx cid st \<noteq> []" by auto
    with inv l obtain k where k: "(k, ''CREATOR'') \<in> set (rosterOf tx cid st)" by auto
    have "\<exists>k. (k, ''CREATOR'') \<in> set (rosterOf tx cid st) \<and> k \<noteq> rp_principalId cmd"
    proof (cases "cw_loadConversationType tx cid st = Some INTERNAL_GROUP")
      case True
      with removed(2,3) have r: "map_option np_role (participantOf (rp_removedBy cmd) ?ps) = Some ''CREATOR''"
        and neq: "rp_principalId cmd \<noteq> rp_removedBy cmd"
        by (auto simp: removeChecks_def Let_def split: if_splits)
      from r obtain p where p: "participantOf (rp_removedBy cmd) ?ps = Some p" "np_role p = ''CREATOR''" by auto
      from leaver_role(2)[OF p(1) assms(1)] p(2) neq show ?thesis by auto
    next
      case False
      with l removed(1,2) assms(3) k show ?thesis by auto
    qed
    then show ?thesis using removed(4) by force
  next
    case (left now cmd f ct)
    from left(3-5) ty have ct: "ct = INTERNAL_GROUP" by auto
    from left(8) show ?thesis
    proof (elim disjE exE conjE)
      assume f: "f = id" and g: "ct = INTERNAL_GROUP \<longrightarrow>
          (lc_principalId cmd, ''CREATOR'') \<notin> set (rosterOf tx cid st) \<or>
          filter (\<lambda>m. fst m \<noteq> lc_principalId cmd) (rosterOf tx cid st) = []"
      from f left(6) ne have "filter (\<lambda>m. fst m \<noteq> lc_principalId cmd) (rosterOf tx cid st) \<noteq> []" by auto
      with g ct have nc: "(lc_principalId cmd, ''CREATOR'') \<notin> set (rosterOf tx cid st)" by simp
      from ne left(6) have "rosterOf tx cid st \<noteq> []" by auto
      with inv left(3) ct obtain k where "(k, ''CREATOR'') \<in> set (rosterOf tx cid st)" by auto
      with nc have "(k, ''CREATOR'') \<in> set (filter (\<lambda>m. fst m \<noteq> lc_principalId cmd) (rosterOf tx cid st))" by auto
      with f left(6) show ?thesis by force
    next
      fix s
      assume s: "s \<in> fst ` set (filter (\<lambda>m. fst m \<noteq> lc_principalId cmd) (rosterOf tx cid st))"
        and f: "f = (\<lambda>m. if fst m = s then (s, if ct = INTERNAL_CHANNEL then ''ADMIN'' else ''CREATOR'') else m)"
      from s obtain m where m: "m \<in> set (filter (\<lambda>m. fst m \<noteq> lc_principalId cmd) (rosterOf tx cid st))" "fst m = s" by auto
      then have "f m = (s, ''CREATOR'')" using f ct by simp
      have "f m \<in> f ` set (filter (\<lambda>m. fst m \<noteq> lc_principalId cmd) (rosterOf tx cid st))" using m(1) by (rule imageI)
      then have "(s, ''CREATOR'') \<in> set (rosterOf tx cid (runConversation tx c st))"
        unfolding left(6) set_map \<open>f m = (s, ''CREATOR'')\<close> .
      then show ?thesis by force
    qed
  qed
qed

text \<open>Opening a one-to-one finds the thread of the pair.\<close>

lemma direct_reopened:
  assumes "ok st" and "ci_type cmd = INTERNAL_DIRECT" and "createChecks cmd = None" and "othersOf cmd = [b]"
    and "cw_loadConversationType tx cid st = Some INTERNAL_DIRECT"
    and "fst ` set (rosterOf tx cid st) = {ci_createdBy cmd, b}"
  shows "\<exists>x. createInternalConversation tx newId now cmd st =
      (Returned (Inr \<lparr>cx_conversationId = x, cx_existing = True\<rparr>), st) \<and>
    cw_loadConversationType tx x st = Some INTERNAL_DIRECT \<and> fst ` set (rosterOf tx x st) = {ci_createdBy cmd, b}"
proof -
  note ne = othersOf_other[OF assms(4)]
  from direct_complete[OF assms(5,1) ne assms(6)] obtain x
    where x: "cw_findDirectConversation tx (ci_createdBy cmd) b st = Some x" by auto
  have "createWork tx newId now cmd st = Some (\<lparr>cx_conversationId = x, cx_existing = True\<rparr>, st)"
    by (simp add: createWork_def assms(2,4) x)
  then have "createInternalConversation tx newId now cmd st =
      (Returned (Inr \<lparr>cx_conversationId = x, cx_existing = True\<rparr>), st)"
    by (simp add: createInternalConversation_def assms(3) runTransaction_def)
  with direct_sound[OF x assms(1) ne] show ?thesis by blast
qed

lemma direct_opened:
  assumes "ok st" and "ci_type cmd = INTERNAL_DIRECT" and "othersOf cmd = [b]"
    and "createInternalConversation tx newId now cmd st = (Returned (Inr r), st')"
  shows "ok st' \<and> cw_loadConversationType tx (cx_conversationId r) st' = Some INTERNAL_DIRECT \<and>
    fst ` set (rosterOf tx (cx_conversationId r) st') = {ci_createdBy cmd, b}"
proof -
  note ne = othersOf_other[OF assms(3)]
  from assms(4) have "createWork tx newId now cmd st = Some (r, st')"
    by (auto simp: createInternalConversation_def runTransaction_def split: option.splits prod.splits)
  from this assms(1) show ?thesis
  proof (cases rule: createWork_cases)
    case 1
    with direct_sound[of _ b st "cx_conversationId r"] assms(1,3) ne show ?thesis by auto
  next
    case 2
    with assms(2,3) show ?thesis by (auto simp: founded_def image_image)
  qed
qed

end

end
