(* ===== verification/Conversation_Members.thy ===== *)
theory Conversation_Members
  imports Conversation_Store Conversation_Invariants
begin

text \<open>
  The PostgreSQL adapter keeps the contract of membership: the interpretation of \<open>membership_port\<close>
  on \<open>pgConversations\<close>. The invariant is what the primary keys of the two tables say.
\<close>

definition wfConversations :: "ConversationDb \<Rightarrow> bool" where
  "wfConversations db \<longleftrightarrow>
     distinct (map cr_conversation_id (db_conversations db)) \<and>
     distinct (map (\<lambda>p. (pa_conversation_id p, pa_principal_id p)) (db_participants db))"

section \<open>Rosters of rows\<close>

definition seatKey :: "ParticipantRow \<Rightarrow> Timestamp \<times> UUID" where
  "seatKey p = (pa_effective_from p, pa_principal_id p)"

definition rosterRows :: "UUID \<Rightarrow> ParticipantRow list \<Rightarrow> (UUID \<times> string) list" where
  "rosterRows cid ps =
     map (\<lambda>p. (pa_principal_id p, pa_role p)) (sort_key seatKey (filter (liveIn cid) ps))"

lemma rosterOf_pg [simp]: "rosterOf (pgConversations n i) cid db = rosterRows cid (db_participants db)"
  by (simp add: rosterOf_def rosterRows_def listParticipants_def toParticipant_def seatKey_def[abs_def] comp_def)

lemma set_rosterRows:
  "set (rosterRows cid ps) = (\<lambda>p. (pa_principal_id p, pa_role p)) ` {p \<in> set ps. liveIn cid p}"
  by (auto simp: rosterRows_def)

lemma seats_rosterRows: "fst ` set (rosterRows cid ps) = pa_principal_id ` {p \<in> set ps. liveIn cid p}"
  by (simp add: set_rosterRows image_image)

lemma insort_key_map:
  "(\<And>x. k (g x) = k x) \<Longrightarrow> insort_key k (g x) (map g xs) = map g (insort_key k x xs)"
  by (induction xs) auto

lemma sort_key_map_same: "(\<And>x. k (g x) = k x) \<Longrightarrow> sort_key k (map g xs) = map g (sort_key k xs)"
  by (induction xs) (simp_all add: insort_key_map)

lemma rosterRows_other:
  assumes "\<And>p. Q p \<Longrightarrow> pa_conversation_id p \<noteq> cid" and "\<And>p. pa_conversation_id (f p) = pa_conversation_id p"
  shows "rosterRows cid (updateWhere Q f ps) = rosterRows cid ps"
proof -
  have "filter (liveIn cid) (updateWhere Q f ps) = filter (liveIn cid) ps"
    using assms by (induction ps) (auto simp: updateWhere_def liveIn_def)
  then show ?thesis by (simp add: rosterRows_def)
qed

lemma rosterRows_append_other:
  "(\<And>p. p \<in> set qs \<Longrightarrow> pa_conversation_id p \<noteq> cid) \<Longrightarrow> rosterRows cid (ps @ qs) = rosterRows cid ps"
proof -
  assume "\<And>p. p \<in> set qs \<Longrightarrow> pa_conversation_id p \<noteq> cid"
  then have "filter (liveIn cid) qs = []" by (auto simp: filter_empty_conv liveIn_def)
  then show ?thesis by (simp add: rosterRows_def)
qed

lemma distinct_roster:
  assumes "distinct (map (\<lambda>p. (pa_conversation_id p, pa_principal_id p)) ps)"
  shows "distinct (map fst (rosterRows cid ps))"
proof -
  have "distinct (map pa_principal_id (filter (liveIn cid) ps))"
    using assms by (auto simp: distinct_map inj_on_def liveIn_def)
  then have "distinct (map pa_principal_id (sort_key seatKey (filter (liveIn cid) ps)))"
    by (metis distinct_map distinct_sort set_sort)
  then show ?thesis by (simp add: rosterRows_def comp_def)
qed

lemma keys_updateWhere:
  "(\<And>p. k (f p) = k p) \<Longrightarrow> map k (updateWhere Q f ps) = map k ps"
  by (induction ps) (auto simp: updateWhere_def)

lemma seat_row_unique:
  assumes "distinct (map (\<lambda>p. (pa_conversation_id p, pa_principal_id p)) ps)"
    and "p \<in> set ps" and "q \<in> set ps" and "sameSeat cid who p" and "sameSeat cid who q"
  shows "p = q"
  using assms by (auto simp: sameSeat_def distinct_map inj_on_def)

section \<open>The laws\<close>

lemma recount_sel [simp]:
  "db_participants (recount cid db) = db_participants db"
  "loadConversationType c (recount cid db) = loadConversationType c db"
  "map cr_conversation_id (db_conversations (recount cid db)) = map cr_conversation_id (db_conversations db)"
proof -
  show "loadConversationType c (recount cid db) = loadConversationType c db"
    unfolding loadConversationType_def findConversation_def recount_def
    by (simp add: find_updateWhere option.map_comp comp_def)
       (cases "find (\<lambda>r. cr_conversation_id r = c) (db_conversations db)"; simp)
qed (simp_all add: recount_def keys_updateWhere)

lemma loadType_participants [simp]:
  "loadConversationType c (db\<lparr>db_participants := ps\<rparr>) = loadConversationType c db"
  by (simp add: loadConversationType_def findConversation_def)

lemma wf_recount [simp]: "wfConversations (recount cid db) = wfConversations db"
  by (simp add: wfConversations_def)

lemma end_rows:
  assumes "wfConversations db" and "endParticipation cid who t db = Some (ended, db')"
  shows "wfConversations db' \<and> ended = (who \<in> fst ` set (rosterRows cid (db_participants db))) \<and>
    rosterRows cid (db_participants db') = filter (\<lambda>m. fst m \<noteq> who) (rosterRows cid (db_participants db)) \<and>
    loadConversationType c db' = loadConversationType c db \<and>
    (c \<noteq> cid \<longrightarrow> rosterRows c (db_participants db') = rosterRows c (db_participants db))"
proof -
  let ?hit = "\<lambda>p. sameSeat cid who p \<and> pa_effective_to p = None"
  have ended: "list_ex ?hit (db_participants db) \<longleftrightarrow> who \<in> fst ` set (rosterRows cid (db_participants db))"
    by (auto simp: seats_rosterRows sameSeat_def liveIn_def list_ex_iff)
  have gone: "filter (\<lambda>m. fst m \<noteq> who) (rosterRows cid ps) =
      rosterRows cid (updateWhere ?hit (\<lambda>p. p\<lparr>pa_effective_to := Some t\<rparr>) ps)" for ps
  proof -
    have "filter (liveIn cid) (updateWhere ?hit (\<lambda>p. p\<lparr>pa_effective_to := Some t\<rparr>) ps) =
        filter (\<lambda>p. pa_principal_id p \<noteq> who) (filter (liveIn cid) ps)"
      by (induction ps) (auto simp: updateWhere_def liveIn_def sameSeat_def)
    then show ?thesis
      by (simp add: rosterRows_def filter_map comp_def filter_sort)
  qed
  show ?thesis
  proof (cases "list_ex ?hit (db_participants db)")
    case True
    then have db': "db' = recount cid (db\<lparr>db_participants :=
        updateWhere ?hit (\<lambda>p. p\<lparr>pa_effective_to := Some t\<rparr>) (db_participants db)\<rparr>)" and "ended"
      using assms(2) by (simp_all add: endParticipation_def Let_def)
    have "map (\<lambda>p. (pa_conversation_id p, pa_principal_id p))
        (updateWhere ?hit (\<lambda>p. p\<lparr>pa_effective_to := Some t\<rparr>) (db_participants db)) =
        map (\<lambda>p. (pa_conversation_id p, pa_principal_id p)) (db_participants db)"
      by (rule keys_updateWhere) simp
    then show ?thesis
      using assms(1) ended True \<open>ended\<close>
      by (auto simp: db' gone wfConversations_def sameSeat_def intro!: rosterRows_other)
  next
    case False
    then have "filter (\<lambda>m. fst m \<noteq> who) (rosterRows cid (db_participants db)) = rosterRows cid (db_participants db)"
      using ended by (auto intro!: filter_True simp: image_iff)
    with False assms ended show ?thesis by (auto simp: endParticipation_def Let_def)
  qed
qed

lemma add_rows:
  assumes "wfConversations db" and "addParticipantRow cid p by_whom t db = Some db'"
    and "np_principalId p \<notin> fst ` set (rosterRows cid (db_participants db))"
  shows "wfConversations db' \<and>
    set (rosterRows cid (db_participants db')) =
      insert (np_principalId p, np_role p) (set (rosterRows cid (db_participants db))) \<and>
    loadConversationType c db' = loadConversationType c db \<and>
    (c \<noteq> cid \<longrightarrow> rosterRows c (db_participants db') = rosterRows c (db_participants db))"
proof (cases "list_ex (sameSeat cid (np_principalId p)) (db_participants db)")
  case True
  let ?ps = "db_participants db"
  let ?ps' = "updateWhere (sameSeat cid (np_principalId p)) (reviveSeat p by_whom t) ?ps"
  from True assms(2) have db': "db' = recount cid (db\<lparr>db_participants := ?ps'\<rparr>)"
    by (simp add: addParticipantRow_def)
  from True obtain r where r: "r \<in> set ?ps" "sameSeat cid (np_principalId p) r" by (auto simp: list_ex_iff)
  have dead: "pa_effective_to r \<noteq> None"
  proof
    assume "pa_effective_to r = None"
    with r have "np_principalId p \<in> pa_principal_id ` {p \<in> set ?ps. liveIn cid p}"
      by (intro rev_image_eqI[of r]) (auto simp: liveIn_def sameSeat_def)
    with assms(3) show False by (simp add: seats_rosterRows)
  qed
  have others: "q \<in> set ?ps \<Longrightarrow> q \<noteq> r \<Longrightarrow> \<not> sameSeat cid (np_principalId p) q" for q
    using seat_row_unique[of ?ps q r cid "np_principalId p"] assms(1) r by (auto simp: wfConversations_def)
  have set': "set ?ps' = insert (reviveSeat p by_whom t r) (set ?ps - {r})"
    using r others by (auto simp: updateWhere_def image_iff) metis+
  have k: "map (\<lambda>q. (pa_conversation_id q, pa_principal_id q)) ?ps' =
      map (\<lambda>q. (pa_conversation_id q, pa_principal_id q)) ?ps"
    by (rule keys_updateWhere) (simp add: reviveSeat_def)
  have "{q \<in> set ?ps'. liveIn cid q} = insert (reviveSeat p by_whom t r) {q \<in> set ?ps. liveIn cid q}"
    using r dead unfolding set' by (auto simp: liveIn_def reviveSeat_def sameSeat_def)
  then have "set (rosterRows cid ?ps') = insert (np_principalId p, np_role p) (set (rosterRows cid ?ps))"
    using r dead unfolding set_rosterRows by (simp add: reviveSeat_def sameSeat_def)
  moreover have "rosterRows c ?ps' = rosterRows c ?ps" if "c \<noteq> cid"
    by (rule rosterRows_other) (use that in \<open>auto simp: sameSeat_def reviveSeat_def\<close>)
  ultimately show ?thesis using assms(1) k by (simp add: db' wfConversations_def)
next
  case False
  let ?r = "\<lparr>pa_conversation_id = cid, pa_principal_id = np_principalId p, pa_principal_kind = np_principalKind p,
      pa_role = np_role p, pa_reply_authority = np_replyAuthority p, pa_effective_from = t,
      pa_effective_to = None, pa_archived_at = None, pa_added_by = Some by_whom\<rparr>"
  from False assms(2) have db': "db' = recount cid (db\<lparr>db_participants := db_participants db @ [?r]\<rparr>)"
    by (simp add: addParticipantRow_def)
  have "{q \<in> set (db_participants db @ [?r]). liveIn cid q} = insert ?r {q \<in> set (db_participants db). liveIn cid q}"
    by (auto simp: liveIn_def)
  then have "set (rosterRows cid (db_participants db @ [?r])) =
      insert (np_principalId p, np_role p) (set (rosterRows cid (db_participants db)))"
    unfolding set_rosterRows by simp
  moreover have "distinct (map (\<lambda>q. (pa_conversation_id q, pa_principal_id q)) (db_participants db @ [?r]))"
    using False assms(1) by (auto simp: wfConversations_def list_ex_iff sameSeat_def)
  moreover have "c \<noteq> cid \<Longrightarrow> rosterRows c (db_participants db @ [?r]) = rosterRows c (db_participants db)"
    by (rule rosterRows_append_other) auto
  ultimately show ?thesis using assms(1) by (simp add: db' wfConversations_def)
qed

lemma role_rows:
  assumes "wfConversations db" and "setParticipantRole cid who role db = Some db'"
  shows "wfConversations db' \<and>
    rosterRows cid (db_participants db') =
      map (\<lambda>m. if fst m = who then (who, role) else m) (rosterRows cid (db_participants db)) \<and>
    loadConversationType c db' = loadConversationType c db \<and>
    (c \<noteq> cid \<longrightarrow> rosterRows c (db_participants db') = rosterRows c (db_participants db))"
proof -
  let ?hit = "\<lambda>p. sameSeat cid who p \<and> pa_effective_to p = None"
  let ?g = "\<lambda>p. if ?hit p then p\<lparr>pa_role := role\<rparr> else p"
  let ?ps = "db_participants db"
  have db': "db' = db\<lparr>db_participants := map ?g ?ps\<rparr>"
    using assms(2) by (simp add: setParticipantRole_def updateWhere_def)
  have "filter (liveIn cid) (map ?g ps) = map ?g (filter (liveIn cid) ps)" for ps
    by (induction ps) (auto simp: liveIn_def)
  then have "rosterRows cid (map ?g ?ps) = map (\<lambda>p. (pa_principal_id p, pa_role p))
      (map ?g (sort_key seatKey (filter (liveIn cid) ?ps)))"
    by (simp only: rosterRows_def) (subst sort_key_map_same; simp add: seatKey_def)
  also have "\<dots> = map (\<lambda>m. if fst m = who then (who, role) else m) (rosterRows cid ?ps)"
    unfolding rosterRows_def map_map comp_def
    by (rule map_cong[OF refl]) (auto simp: liveIn_def sameSeat_def)
  finally have own: "rosterRows cid (map ?g ?ps) = \<dots>" .
  have "rosterRows c (updateWhere ?hit (\<lambda>p. p\<lparr>pa_role := role\<rparr>) ?ps) = rosterRows c ?ps" if "c \<noteq> cid"
    by (rule rosterRows_other) (use that in \<open>auto simp: sameSeat_def\<close>)
  moreover have "map (\<lambda>q. (pa_conversation_id q, pa_principal_id q)) (map ?g ?ps) =
      map (\<lambda>q. (pa_conversation_id q, pa_principal_id q)) ?ps" by simp
  ultimately show ?thesis
    using assms(1) own by (simp add: db' wfConversations_def updateWhere_def comp_def if_distrib cong: if_cong)
qed

lemma insert_rows:
  assumes "wfConversations db" and "insertConversation n nc db = Some db'"
  shows "wfConversations db' \<and>
    loadConversationType (nc_conversationId nc) db' = Some (nc_conversationType nc) \<and>
    set (rosterRows (nc_conversationId nc) (db_participants db')) =
      (\<lambda>p. (np_principalId p, np_role p)) ` set (nc_participants nc) \<and>
    (c \<noteq> nc_conversationId nc \<longrightarrow> loadConversationType c db' = loadConversationType c db \<and>
      rosterRows c (db_participants db') = rosterRows c (db_participants db))"
proof -
  let ?cid = "nc_conversationId nc" and ?ps = "map (participantRowOf nc) (nc_participants nc)"
  from assms(2) have none: "findConversation ?cid db = None"
    and free: "\<And>p. p \<in> set (db_participants db) \<Longrightarrow> pa_conversation_id p \<noteq> ?cid"
    and dist: "distinct (map np_principalId (nc_participants nc))"
    and ps: "db_participants db' = db_participants db @ ?ps"
    and cs: "\<exists>r. db_conversations db' = db_conversations db @ [r] \<and> cr_conversation_id r = ?cid \<and>
      cr_conversation_type r = nc_conversationType nc"
    by (auto simp: insertConversation_def Let_def list_ex_iff split: if_splits)
  from cs obtain r where r: "db_conversations db' = db_conversations db @ [r]" "cr_conversation_id r = ?cid"
    "cr_conversation_type r = nc_conversationType nc" by blast
  have fresh: "?cid \<notin> cr_conversation_id ` set (db_conversations db)"
    using none by (auto simp: findConversation_def find_None_iff)
  have "filter (liveIn ?cid) (db_participants db) = []"
    using free by (auto simp: filter_empty_conv liveIn_def)
  moreover have "filter (liveIn ?cid) ?ps = ?ps"
    by (rule filter_True) (auto simp: liveIn_def participantRowOf_def)
  ultimately have "set (rosterRows ?cid (db_participants db')) = (\<lambda>p. (pa_principal_id p, pa_role p)) ` set ?ps"
    by (simp add: rosterRows_def ps)
  then have roster: "set (rosterRows ?cid (db_participants db')) = (\<lambda>p. (np_principalId p, np_role p)) ` set (nc_participants nc)"
    by (simp add: image_image participantRowOf_def)
  have "distinct (map (\<lambda>p. (pa_conversation_id p, pa_principal_id p)) ?ps)"
    using dist by (simp add: comp_def participantRowOf_def distinct_map inj_on_def)
  then have "wfConversations db'"
    using assms(1) free fresh by (auto simp: wfConversations_def ps r participantRowOf_def)
  moreover have "loadConversationType ?cid db' = Some (nc_conversationType nc)"
    using none r by (simp add: loadConversationType_def findConversation_def find_append_miss)
  moreover have "loadConversationType c db' = loadConversationType c db" if "c \<noteq> ?cid"
  proof -
    have "find (\<lambda>x. cr_conversation_id x = c) (xs @ [r]) = find (\<lambda>x. cr_conversation_id x = c) xs" for xs
      using that r(2) by (induction xs) auto
    then show ?thesis by (simp add: loadConversationType_def findConversation_def r(1))
  qed
  moreover have "rosterRows c (db_participants db') = rosterRows c (db_participants db)" if "c \<noteq> ?cid"
    unfolding ps by (rule rosterRows_append_other) (use that in \<open>auto simp: participantRowOf_def\<close>)
  ultimately show ?thesis using roster by blast
qed

lemma find_row:
  assumes "distinct (map cr_conversation_id cs)" and "c \<in> set cs"
  shows "find (\<lambda>x. cr_conversation_id x = cr_conversation_id c) cs = Some c"
  using assms by (induction cs) (auto simp: image_iff)

lemma two_live:
  assumes "wfConversations db"
  shows "length (filter (liveIn cid) (db_participants db)) = card (fst ` set (rosterRows cid (db_participants db)))"
proof -
  have "length (filter (liveIn cid) (db_participants db)) = length (map fst (rosterRows cid (db_participants db)))"
    by (simp add: rosterRows_def)
  also have "\<dots> = card (set (map fst (rosterRows cid (db_participants db))))"
    using distinct_roster assms by (metis distinct_card wfConversations_def)
  finally show ?thesis by simp
qed

lemma direct_row:
  assumes "wfConversations db" and "a \<noteq> b"
  shows "(length (filter (liveIn cid) (db_participants db)) = 2 \<and>
      list_ex (\<lambda>p. pa_principal_id p = a) (filter (liveIn cid) (db_participants db)) \<and>
      list_ex (\<lambda>p. pa_principal_id p = b) (filter (liveIn cid) (db_participants db))) \<longleftrightarrow>
    fst ` set (rosterRows cid (db_participants db)) = {a, b}"
proof -
  let ?S = "fst ` set (rosterRows cid (db_participants db))"
  have ex: "list_ex (\<lambda>p. pa_principal_id p = x) (filter (liveIn cid) (db_participants db)) \<longleftrightarrow> x \<in> ?S" for x
    by (auto simp: seats_rosterRows list_ex_iff)
  have "finite ?S" by simp
  show ?thesis
  proof
    assume l: "length (filter (liveIn cid) (db_participants db)) = 2 \<and>
      list_ex (\<lambda>p. pa_principal_id p = a) (filter (liveIn cid) (db_participants db)) \<and>
      list_ex (\<lambda>p. pa_principal_id p = b) (filter (liveIn cid) (db_participants db))"
    then have "{a, b} \<subseteq> ?S" "card ?S = card {a, b}"
      using assms by (simp_all add: ex two_live[OF assms(1)])
    with \<open>finite ?S\<close> show "?S = {a, b}" by (metis card_subset_eq)
  next
    assume "?S = {a, b}"
    then show "length (filter (liveIn cid) (db_participants db)) = 2 \<and>
      list_ex (\<lambda>p. pa_principal_id p = a) (filter (liveIn cid) (db_participants db)) \<and>
      list_ex (\<lambda>p. pa_principal_id p = b) (filter (liveIn cid) (db_participants db))"
      using assms(2) unfolding ex two_live[OF assms(1)] by simp
  qed
qed

lemma direct_rows:
  assumes "wfConversations db" and "a \<noteq> b"
  shows "findDirectConversation a b db = Some cid \<Longrightarrow>
      loadConversationType cid db = Some INTERNAL_DIRECT \<and> fst ` set (rosterRows cid (db_participants db)) = {a, b}"
    and "loadConversationType cid db = Some INTERNAL_DIRECT \<Longrightarrow>
      fst ` set (rosterRows cid (db_participants db)) = {a, b} \<Longrightarrow> findDirectConversation a b db \<noteq> None"
proof -
  let ?P = "\<lambda>c. cr_conversation_type c = INTERNAL_DIRECT \<and>
      fst ` set (rosterRows (cr_conversation_id c) (db_participants db)) = {a, b}"
  have fd: "findDirectConversation a b db = map_option cr_conversation_id (find ?P (db_conversations db))"
    by (simp add: findDirectConversation_def Let_def direct_row[OF assms])
  show "findDirectConversation a b db = Some cid \<Longrightarrow>
      loadConversationType cid db = Some INTERNAL_DIRECT \<and> fst ` set (rosterRows cid (db_participants db)) = {a, b}"
  proof -
    assume "findDirectConversation a b db = Some cid"
    then obtain c where c: "find ?P (db_conversations db) = Some c" "cr_conversation_id c = cid" by (auto simp: fd)
    from find_SomeD[OF c(1)] find_row[of "db_conversations db" c] assms(1) c(2) show ?thesis
      by (auto simp: loadConversationType_def findConversation_def wfConversations_def)
  qed
  show "loadConversationType cid db = Some INTERNAL_DIRECT \<Longrightarrow>
      fst ` set (rosterRows cid (db_participants db)) = {a, b} \<Longrightarrow> findDirectConversation a b db \<noteq> None"
  proof -
    assume l: "loadConversationType cid db = Some INTERNAL_DIRECT"
      and r: "fst ` set (rosterRows cid (db_participants db)) = {a, b}"
    from l obtain c where "findConversation cid db = Some c" "cr_conversation_type c = INTERNAL_DIRECT"
      by (auto simp: loadConversationType_def)
    with find_SomeD[of _ "db_conversations db" c] r have "c \<in> set (db_conversations db) \<and> ?P c"
      by (auto simp: findConversation_def)
    then show ?thesis by (auto simp: fd find_None_iff)
  qed
qed

lemma quiet_rows:
  assumes "wfConversations db" and "map cr_conversation_id (db_conversations db') = map cr_conversation_id (db_conversations db)"
    and "db_participants db' = db_participants db"
    and "\<And>c. loadConversationType c db' = loadConversationType c db"
  shows "wfConversations db' \<and> rosterRows c (db_participants db') = rosterRows c (db_participants db) \<and>
    loadConversationType c db' = loadConversationType c db"
  using assms by (simp add: wfConversations_def)

lemma loadType_conversations:
  assumes "db_conversations db' = updateWhere Q f (db_conversations db)"
    and "\<And>c. cr_conversation_id (f c) = cr_conversation_id c"
    and "\<And>c. cr_conversation_type (f c) = cr_conversation_type c"
  shows "loadConversationType cid db' = loadConversationType cid db"
  using assms by (auto simp: loadConversationType_def findConversation_def find_updateWhere option.map_comp comp_def
      intro!: option.map_cong)

interpretation pg: membership_port "pgConversations n i" wfConversations for n i
proof (unfold_locales, goal_cases)
  case (1 st cid) then show ?case by (simp add: distinct_roster wfConversations_def)
next
  case (2 nc st st') then show ?case
    using insert_rows[of st n nc st'] by (simp add: sameRoster_def)
next
  case (3 cid policy st st' c) then show ?case
    by (auto simp: insertChannelPolicy_def sameRoster_def wfConversations_def loadConversationType_def
        findConversation_def split: if_splits)
next
  case (4 row st st' c) then show ?case
    by (auto simp: appendOutbox_iff sameRoster_def wfConversations_def loadConversationType_def findConversation_def)
next
  case (5 cid b t st st' c)
  then have "db_participants st' = db_participants st"
    "\<exists>s. db_conversations st' = updateWhere (\<lambda>c. cr_conversation_id c = cid)
      (\<lambda>c. c\<lparr>cr_last_seq := cr_last_seq c + 1, cr_last_activity_at := t\<rparr>) (db_conversations st)"
    by (auto simp: appendSystemMessage_def Let_def split: option.splits if_splits)
  moreover from this have "loadConversationType c st' = loadConversationType c st" for c
    by (auto intro!: loadType_conversations)
  ultimately show ?case
    using 5(2) quiet_rows[of st st' c] by (auto simp: sameRoster_def keys_updateWhere)
next
  case (6 cid nm st u st' c) then show ?case
    by (auto simp: setTitle_def sameRoster_def wfConversations_def loadConversationType_def findConversation_def)
next
  case (7 cid p w t st st') then show ?case
    using add_rows[of st cid p w t st'] by (simp add: sameRoster_def)
next
  case (8 cid who t st ended st') then show ?case
    using end_rows[of st cid who t ended st'] by (simp add: sameRoster_def)
next
  case (9 cid who role st st') then show ?case
    using role_rows[of st cid who role st'] by (simp add: sameRoster_def)
next
  case (10 cid st st')
  then have st': "st' = st\<lparr>db_conversations :=
      updateWhere (\<lambda>c. cr_conversation_id c = cid \<and> cr_conversation_type c = INTERNAL_DIRECT)
        (\<lambda>c. c\<lparr>cr_conversation_type := INTERNAL_GROUP\<rparr>) (db_conversations st)\<rparr>"
    by (simp add: promoteDirectToGroup_def)
  have "loadConversationType c st' = (if c = cid \<and> loadConversationType c st = Some INTERNAL_DIRECT
      then Some INTERNAL_GROUP else loadConversationType c st)" for c
  proof (cases "find (\<lambda>x. cr_conversation_id x = c) (db_conversations st)")
    case None
    then show ?thesis by (simp add: st' loadConversationType_def findConversation_def find_updateWhere)
  next
    case (Some z)
    with find_SomeD[OF Some] show ?thesis
      by (simp add: st' loadConversationType_def findConversation_def find_updateWhere)
  qed
  with 10(2) show ?case by (auto simp: st' sameRoster_def wfConversations_def keys_updateWhere)
next
  case (11 a b st cid) then show ?case using direct_rows(1)[of st a b cid] by simp
next
  case (12 cid st a b) then show ?case using direct_rows(2)[of st a b cid] by simp
qed

end
