(* ===== verification/Conversation_Props.thy ===== *)
theory Conversation_Props
  imports Conversation_Members
begin

text \<open>
  The properties of conversations and their membership over the PostgreSQL adapter, and of the read
  markers and the conversation list.
\<close>

section \<open>Runs of commands\<close>

text \<open>A run of commands, each passing a guard when it starts; the database supplies its own clock and identifiers.\<close>

inductive conversationRun ::
  "(ConversationCommand \<Rightarrow> ConversationDb \<Rightarrow> bool) \<Rightarrow> ConversationDb \<Rightarrow> ConversationDb \<Rightarrow> bool"
  for guard where
  rest: "conversationRun guard db db"
| step: "conversationRun guard db db1 \<Longrightarrow> guard c db1 \<Longrightarrow>
    conversationRun guard db (runConversation (pgConversations dbNow noteId) c db1)"

inductive_cases conversationRun_stepE: "conversationRun guard db db'"

lemma run_one: "guard c db \<Longrightarrow> conversationRun guard db (runConversation (pgConversations n i) c db)"
  by (rule step[OF rest])

lemma noCustomers_pg: "noCustomers kindOf (pgConversations n i) db = noCustomers kindOf (pgConversations [] []) db"
  by (simp add: noCustomers_def)

lemma oneCreator_pg: "oneCreator (pgConversations n i) db = oneCreator (pgConversations [] []) db"
  by (simp add: oneCreator_def)

lemma administered_pg: "administered (pgConversations n i) db = administered (pgConversations [] []) db"
  by (simp add: administered_def)

lemma unseatsCreator_pg: "unseatsCreator (pgConversations n i) c db = unseatsCreator (pgConversations [] []) c db"
  by (cases c) simp_all

text \<open>Who is in a conversation now, and in which role.\<close>

definition members :: "UUID \<Rightarrow> ConversationDb \<Rightarrow> (UUID \<times> string) list" where
  "members cid db = map (\<lambda>p. (np_principalId p, np_role p)) (listParticipants cid db)"

lemma members_rosterRows: "members cid db = rosterRows cid (db_participants db)"
  by (simp add: members_def rosterRows_def listParticipants_def toParticipant_def seatKey_def[abs_def] comp_def)

section \<open>A workplace\<close>

definition emptyDb :: ConversationDb where
  "emptyDb =
     \<lparr>db_conversations = [], db_service_cases = [], db_teams = [], db_departments = [],
      db_team_memberships = [], db_participants = [], db_channels = [], db_channel_audience = [],
      db_messages = [], db_revisions = [], db_attachments = [], db_episodes = [], db_outbox = [],
      db_names = [], db_read_state = [], db_preferences = [], db_announcement_pins = [],
      db_principal_names = []\<rparr>"

definition openDirect :: "UUID \<Rightarrow> UUID \<Rightarrow> CreateInternalCommand" where
  "openDirect a b =
     \<lparr>ci_type = INTERNAL_DIRECT, ci_createdBy = a, ci_participantIds = [b],
      ci_participantKinds = (\<lambda>i. Some K_EMPLOYEE), ci_title = None, ci_channel = None,
      ci_correlationId = ''corr''\<rparr>"

definition openGroup :: "UUID \<Rightarrow> UUID list \<Rightarrow> CreateInternalCommand" where
  "openGroup a bs =
     \<lparr>ci_type = INTERNAL_GROUP, ci_createdBy = a, ci_participantIds = bs,
      ci_participantKinds = (\<lambda>i. Some K_EMPLOYEE), ci_title = Some ''Renewals'', ci_channel = None,
      ci_correlationId = ''corr''\<rparr>"

definition adds :: "UUID \<Rightarrow> UUID \<Rightarrow> UUID \<Rightarrow> AddParticipantCommand" where
  "adds a cid b =
     \<lparr>ap_conversationId = cid, ap_principalId = b, ap_principalKind = K_EMPLOYEE, ap_addedBy = a,
      ap_historyExposureAcknowledged = True, ap_addedByDisplayName = None, ap_displayName = None\<rparr>"

definition removes :: "UUID \<Rightarrow> UUID \<Rightarrow> UUID \<Rightarrow> RemoveParticipantCommand" where
  "removes a cid b = \<lparr>rp_conversationId = cid, rp_principalId = b, rp_removedBy = a\<rparr>"

abbreviation pg0 :: "ConversationDb ConversationWriteTransaction" where
  "pg0 \<equiv> pgConversations ''2026-01-01T09:00:00.000Z'' ''note''"

lemma wf_emptyDb: "wfConversations emptyDb"
  by (simp add: wfConversations_def emptyDb_def)

lemma emptyDb_members [simp]: "members cid emptyDb = []" "loadConversationType cid emptyDb = None"
  by (simp_all add: members_def listParticipants_def emptyDb_def loadConversationType_def findConversation_def)

lemma emptyDb_invariants: "noCustomers kindOf tx0 emptyDb" "oneCreator tx0 emptyDb" "administered tx0 emptyDb"
  if "tx0 = pgConversations n i"
  using that emptyDb_members
  by (simp_all add: membership_invariants members_rosterRows[symmetric])

section \<open>Membership\<close>

text \<open>
  C14: no customer is ever in an internal conversation. Whatever is created, joined, left, promoted or
  renamed, as long as the callers state the kinds of the people they name truthfully, no live
  participant of an internal conversation is a customer.
\<close>

theorem no_customer_in_an_internal_conversation:
  assumes "conversationRun (\<lambda>c db. truthful kindOf c) db db'" and "wfConversations db"
    and "noCustomers kindOf pg0 db"
    and "loadConversationType cid db' = Some ct" and "isInternal ct" and "(who, role) \<in> set (members cid db')"
  shows "kindOf who \<noteq> K_CUSTOMER"
proof -
  from assms(1-3) have "wfConversations db' \<and> noCustomers kindOf pg0 db'"
  proof (induction rule: conversationRun.induct)
    case (step db db1 c n i)
    then show ?case
      using pg.noCustomers_step[of db1 kindOf n i c] pg.runConversation_ok[of db1 n i c] noCustomers_pg by metis
  qed simp
  with assms(4-6) show ?thesis by (auto simp: noCustomers_def members_rosterRows)
qed

theorem no_customer_in_an_internal_conversation_witness:
  "(\<lambda>i. if i = ''carol'' then K_CUSTOMER else K_EMPLOYEE) ''bob'' \<noteq> K_CUSTOMER"
proof -
  let ?k = "\<lambda>i. if i = ''carol'' then K_CUSTOMER else K_EMPLOYEE"
  let ?c = "CreateInternal ''c1'' ''2026-01-01T09:00:00.000Z'' (openDirect ''ann'' ''bob'')"
  have t: "truthful ?k ?c" by code_simp
  have m: "(''bob'', ''PARTICIPANT'') \<in> set (members ''c1'' (runConversation pg0 ?c emptyDb))"
    "loadConversationType ''c1'' (runConversation pg0 ?c emptyDb) = Some INTERNAL_DIRECT"
    by code_simp+
  have "conversationRun (\<lambda>c db. truthful ?k c) emptyDb (runConversation pg0 ?c emptyDb)"
    by (rule run_one) (rule t)
  from no_customer_in_an_internal_conversation[OF this wf_emptyDb emptyDb_invariants(1)[OF refl] m(2) _ m(1)]
  show ?thesis by simp
qed

text \<open>
  C15: a group has exactly one creator until it is empty. In every run in which no one-to-one loses
  the person who opened it, every group with somebody in it has exactly one creator, through joining,
  removal and the leaving of creators.
\<close>

theorem group_keeps_exactly_one_creator:
  assumes "conversationRun (\<lambda>c db. \<not> unseatsCreator pg0 c db) db db'" and "wfConversations db"
    and "oneCreator pg0 db" and "administered pg0 db"
    and "loadConversationType cid db' = Some INTERNAL_GROUP" and "members cid db' \<noteq> []"
  shows "\<exists>!who. (who, ''CREATOR'') \<in> set (members cid db')"
proof -
  from assms(1-4) have "wfConversations db' \<and> oneCreator pg0 db' \<and> administered pg0 db'"
  proof (induction rule: conversationRun.induct)
    case (step db db1 c n i)
    then have ih: "wfConversations db1" "oneCreator pg0 db1" "administered pg0 db1" by auto
    show ?case
      using pg.oneCreator_step[OF ih(1), of n i c] pg.administered_step[OF ih(1), of n i c]
        pg.runConversation_ok[OF ih(1), of n i c] ih(2,3) step.hyps(2)
        oneCreator_pg administered_pg unseatsCreator_pg by metis
  qed simp
  then have one: "oneCreator pg0 db'" and ad: "administered pg0 db'" by auto
  from ad assms(5,6) have "''CREATOR'' \<in> snd ` set (members cid db')"
    by (simp add: administered_def members_rosterRows)
  then obtain who where "(who, ''CREATOR'') \<in> set (members cid db')" by auto
  with one show ?thesis by (auto simp: oneCreator_def members_rosterRows)
qed

theorem group_keeps_exactly_one_creator_witness:
  "\<exists>!who. (who, ''CREATOR'') \<in> set (members ''c1''
     (runConversation pg0 (Leave ''2026-02-01T09:00:00.000Z'' \<lparr>lc_conversationId = ''c1'', lc_principalId = ''ann''\<rparr>)
       (runConversation pg0 (CreateInternal ''c1'' ''2026-01-01T09:00:00.000Z'' (openGroup ''ann'' [''bob'', ''cid''])) emptyDb)))"
proof -
  let ?c = "CreateInternal ''c1'' ''2026-01-01T09:00:00.000Z'' (openGroup ''ann'' [''bob'', ''cid''])"
  let ?l = "Leave ''2026-02-01T09:00:00.000Z'' \<lparr>lc_conversationId = ''c1'', lc_principalId = ''ann''\<rparr>"
  let ?db = "runConversation pg0 ?l (runConversation pg0 ?c emptyDb)"
  have r: "conversationRun (\<lambda>c db. \<not> unseatsCreator pg0 c db) emptyDb ?db"
    by (intro step rest) simp_all
  have "loadConversationType ''c1'' ?db = Some INTERNAL_GROUP" "members ''c1'' ?db \<noteq> []" by code_simp+
  from group_keeps_exactly_one_creator[OF r wf_emptyDb emptyDb_invariants(2)[OF refl] emptyDb_invariants(3)[OF refl] this] show ?thesis .
qed

definition orphanedGroup :: ConversationDb where
  "orphanedGroup =
     runConversation pg0 (Add ''2026-01-04T09:00:00.000Z'' (adds ''bob'' ''c1'' ''dan''))
      (runConversation pg0 (Add ''2026-01-03T09:00:00.000Z'' (adds ''bob'' ''c1'' ''cat''))
       (runConversation pg0 (Remove ''2026-01-02T09:00:00.000Z'' (removes ''bob'' ''c1'' ''ann''))
        (runConversation pg0 (CreateInternal ''c1'' ''2026-01-01T09:00:00.000Z'' (openDirect ''ann'' ''bob'')) emptyDb)))"

text \<open>
  a group nobody administers can come about. Somebody opens a one-to-one, is removed from it by
  the other person, and the other person adds two colleagues: the thread is now a group, nobody
  in it is its creator, and nobody can remove anybody from it.
\<close>

theorem promoted_group_without_creator:
  "loadConversationType ''c1'' orphanedGroup = Some INTERNAL_GROUP \<and>
   members ''c1'' orphanedGroup = [(''bob'', ''PARTICIPANT''), (''cat'', ''PARTICIPANT''), (''dan'', ''PARTICIPANT'')] \<and>
   fst (removeParticipant pg0 ''2026-01-05T09:00:00.000Z'' (removes ''bob'' ''c1'' ''cat'') orphanedGroup) =
     Returned (Inl NOT_THE_GROUP_ADMIN)"
  by code_simp

text \<open>
  opening a one-to-one twice finds the same thread. After a one-to-one is opened, either of the
  two who opens it again changes nothing and is given a thread whose members are exactly the two.
\<close>

theorem direct_thread_is_found_again:
  assumes "wfConversations db"
    and "ci_type cmd = INTERNAL_DIRECT" and "othersOf cmd = [b]"
    and "createInternalConversation pg0 i now cmd db = (Returned (Inr r), db')"
    and "ci_type again = INTERNAL_DIRECT" and "createChecks again = None"
    and "(ci_createdBy again, othersOf again) \<in> {(ci_createdBy cmd, [b]), (b, [ci_createdBy cmd])}"
  shows "\<exists>x. createInternalConversation pg0 j later again db' =
      (Returned (Inr \<lparr>cx_conversationId = x, cx_existing = True\<rparr>), db') \<and>
    fst ` set (members x db') = {ci_createdBy cmd, b}"
proof -
  have d: "wfConversations db'" "cw_loadConversationType pg0 (cx_conversationId r) db' = Some INTERNAL_DIRECT"
    "fst ` set (rosterOf pg0 (cx_conversationId r) db') = {ci_createdBy cmd, b}"
    using pg.direct_opened[OF assms(1-4)] by auto
  show ?thesis
  proof (cases "ci_createdBy again = ci_createdBy cmd \<and> othersOf again = [b]")
    case True
    with pg.direct_reopened[OF d(1) assms(5,6) _ d(2), of b j later] d(3) show ?thesis
      by (auto simp: members_rosterRows)
  next
    case False
    with assms(7) have a: "ci_createdBy again = b" "othersOf again = [ci_createdBy cmd]" by auto
    from pg.direct_reopened[OF d(1) assms(5,6) a(2) d(2), of j later] d(3) a(1) show ?thesis
      by (auto simp: members_rosterRows insert_commute)
  qed
qed

theorem direct_thread_is_found_again_witness:
  "\<exists>x. createInternalConversation pg0 ''c2'' ''2026-03-01T09:00:00.000Z'' (openDirect ''bob'' ''ann'')
      (runConversation pg0 (CreateInternal ''c1'' ''2026-01-01T09:00:00.000Z'' (openDirect ''ann'' ''bob'')) emptyDb) =
    (Returned (Inr \<lparr>cx_conversationId = x, cx_existing = True\<rparr>),
     runConversation pg0 (CreateInternal ''c1'' ''2026-01-01T09:00:00.000Z'' (openDirect ''ann'' ''bob'')) emptyDb) \<and>
    fst ` set (members x (runConversation pg0
      (CreateInternal ''c1'' ''2026-01-01T09:00:00.000Z'' (openDirect ''ann'' ''bob'')) emptyDb)) = {''ann'', ''bob''}"
proof -
  let ?db = "runConversation pg0 (CreateInternal ''c1'' ''2026-01-01T09:00:00.000Z'' (openDirect ''ann'' ''bob'')) emptyDb"
  have c: "ci_createdBy (openDirect x y) = x" "ci_type (openDirect x y) = INTERNAL_DIRECT" for x y
    by (simp_all add: openDirect_def)
  have o: "othersOf (openDirect ''ann'' ''bob'') = [''bob'']" "othersOf (openDirect ''bob'' ''ann'') = [''ann'']"
    "createChecks (openDirect ''bob'' ''ann'') = None" by code_simp+
  have "fst (createInternalConversation pg0 ''c1'' ''2026-01-01T09:00:00.000Z'' (openDirect ''ann'' ''bob'') emptyDb) =
      Returned (Inr \<lparr>cx_conversationId = ''c1'', cx_existing = False\<rparr>)" by code_simp
  then have r: "createInternalConversation pg0 ''c1'' ''2026-01-01T09:00:00.000Z'' (openDirect ''ann'' ''bob'') emptyDb =
      (Returned (Inr \<lparr>cx_conversationId = ''c1'', cx_existing = False\<rparr>), ?db)" by (simp add: prod_eq_iff)
  show ?thesis
    using direct_thread_is_found_again[OF wf_emptyDb _ o(1) r, of "openDirect ''bob'' ''ann''" "''c2''" "''2026-03-01T09:00:00.000Z''"]
    by (simp add: c o)
qed

end
