(* ===== verification/Conversation_Lists.thy ===== *)
theory Conversation_Lists
  imports Conversation_Props
begin

text \<open>
  Joining and joining again, the read markers, and the pages of the conversation list.
\<close>

section \<open>Joining\<close>

definition seatOf :: "UUID \<Rightarrow> UUID \<Rightarrow> ConversationDb \<Rightarrow> ParticipantRow option" where
  "seatOf cid who db = find (sameSeat cid who) (db_participants db)"

lemma seatOf_recount [simp]: "seatOf c w (recount cid db) = seatOf c w db"
  by (simp add: seatOf_def)

lemma seatOf_conversations:
  "db_participants db' = db_participants db \<Longrightarrow> seatOf c w db' = seatOf c w db"
  by (simp add: seatOf_def)

lemma reviveSeat_sameSeat [simp]: "sameSeat c w (reviveSeat p a t r) = sameSeat c w r"
  by (simp add: sameSeat_def reviveSeat_def)

lemma sameSeat_unique: "sameSeat c w r \<Longrightarrow> sameSeat c' w' r \<Longrightarrow> c = c' \<and> w = w'"
  by (auto simp: sameSeat_def)

lemma addParticipantRow_seat:
  assumes "addParticipantRow cid p a t db = Some db'"
  shows "(c, w) \<noteq> (cid, np_principalId p) \<Longrightarrow> seatOf c w db' = seatOf c w db"
    and "(case seatOf cid (np_principalId p) db of None \<Rightarrow> True | Some r \<Rightarrow> pa_effective_to r \<noteq> None) \<Longrightarrow>
      \<exists>r. seatOf cid (np_principalId p) db' = Some r \<and> pa_role r = np_role p \<and>
        pa_reply_authority r = np_replyAuthority p \<and> pa_effective_from r = t \<and> pa_effective_to r = None"
proof -
  let ?q = "sameSeat cid (np_principalId p)"
  show "(c, w) \<noteq> (cid, np_principalId p) \<Longrightarrow> seatOf c w db' = seatOf c w db"
  proof (cases "list_ex ?q (db_participants db)")
    case True
    assume ne: "(c, w) \<noteq> (cid, np_principalId p)"
    have "find (sameSeat c w) (updateWhere ?q (reviveSeat p a t) ps) = find (sameSeat c w) ps" for ps
      using ne sameSeat_unique by (induction ps) (auto simp: updateWhere_def)
    with True assms show ?thesis by (auto simp: addParticipantRow_def seatOf_def)
  next
    case False
    assume ne: "(c, w) \<noteq> (cid, np_principalId p)"
    have "find (sameSeat c w) (ps @ [x]) = find (sameSeat c w) ps" if "\<not> sameSeat c w x" for ps x
      using that by (induction ps) auto
    with False assms ne show ?thesis by (auto simp: addParticipantRow_def seatOf_def sameSeat_def)
  qed
  assume dead: "case seatOf cid (np_principalId p) db of None \<Rightarrow> True | Some r \<Rightarrow> pa_effective_to r \<noteq> None"
  show "\<exists>r. seatOf cid (np_principalId p) db' = Some r \<and> pa_role r = np_role p \<and>
        pa_reply_authority r = np_replyAuthority p \<and> pa_effective_from r = t \<and> pa_effective_to r = None"
  proof (cases "seatOf cid (np_principalId p) db")
    case None
    then have "\<not> list_ex ?q (db_participants db)" by (auto simp: seatOf_def find_None_iff list_ex_iff)
    with assms None show ?thesis
      by (auto simp: addParticipantRow_def seatOf_def find_append_miss sameSeat_def)
  next
    case (Some r)
    then have "list_ex ?q (db_participants db)" using find_SomeD by (fastforce simp: seatOf_def list_ex_iff)
    moreover have "?q r" using find_SomeD[OF Some[unfolded seatOf_def]] by simp
    moreover have "find ?q (updateWhere ?q (reviveSeat p a t) ps) =
        map_option (\<lambda>r. if ?q r then reviveSeat p a t r else r) (find ?q ps)" for ps
      by (rule find_updateWhere) simp
    ultimately have "seatOf cid (np_principalId p) db' = Some (reviveSeat p a t r)"
      using assms Some by (auto simp: addParticipantRow_def seatOf_def)
    with Some dead show ?thesis by (auto simp: reviveSeat_def)
  qed
qed

lemma dead_seat:
  assumes "wfConversations db" and "who \<notin> fst ` set (rosterRows cid (db_participants db))"
  shows "case seatOf cid who db of None \<Rightarrow> True | Some r \<Rightarrow> pa_effective_to r \<noteq> None"
proof (cases "seatOf cid who db")
  case (Some r)
  from find_SomeD[OF Some[unfolded seatOf_def]] have "r \<in> set (db_participants db)" "sameSeat cid who r" by auto
  then have "pa_effective_to r = None \<Longrightarrow> who \<in> pa_principal_id ` {p \<in> set (db_participants db). liveIn cid p}"
    by (intro rev_image_eqI[of r]) (auto simp: liveIn_def sameSeat_def)
  with assms(2) Some show ?thesis by (auto simp: seats_rosterRows)
qed simp

text \<open>
  whoever is added starts as a plain participant. An addition that succeeds gives the person a
  live seat from that instant, with the role PARTICIPANT and without the right to reply, also when they
  had owned the conversation before; no other seat changes, and the number returned is that of
  the messages they can now read.
\<close>

theorem added_participant_starts_plain:
  assumes "wfConversations db"
    and "addParticipant (pgConversations n i) now cmd db = (Returned (Inr exposed), db')"
  shows "(\<exists>r. seatOf (ap_conversationId cmd) (ap_principalId cmd) db' = Some r \<and> pa_role r = ''PARTICIPANT'' \<and>
      \<not> pa_reply_authority r \<and> pa_effective_from r = now \<and> pa_effective_to r = None) \<and>
    ((c, w) = (ap_conversationId cmd, ap_principalId cmd) \<or> seatOf c w db' = seatOf c w db) \<and>
    exposed = length (filter (\<lambda>m. me_conversation_id m = ap_conversationId cmd) (db_messages db))"
proof -
  let ?tx = "pgConversations n i" and ?cid = "ap_conversationId cmd"
  from assms(2) have w: "addWork ?tx now cmd db = Some (Inr exposed, db')"
    by (auto simp: addParticipant_def runTransaction_def split: option.splits)
  then obtain ct where ch: "addChecks ?tx cmd db = Inr ct" by (auto simp: addWork_def split: sum.splits)
  from addWork_chain[OF w ch, unfolded pgConversations_sel] obtain db1 db2 where
      d1: "addParticipantRow ?cid (addedParticipant cmd) (ap_addedBy cmd) now db = Some db1"
      and p2: "(if ct = INTERNAL_DIRECT \<and> 2 \<le> length (listParticipants ?cid db)
        then promoteDirectToGroup ?cid db1 else Some db1) = Some db2"
      and p3: "(case (ap_addedByDisplayName cmd, ap_displayName cmd) of
           (Some a, Some d) \<Rightarrow> appendSystemMessage i ?cid (a @ '' added '' @ d) now db2
         | _ \<Rightarrow> Some db2) = Some db'"
      and e: "Inr exposed = (Inr (countMessages ?cid db) :: AddParticipantFailure + nat)"
    by blast
  have d2: "db_participants db2 = db_participants db1"
    using p2 by (auto simp: promoteDirectToGroup_def split: if_splits)
  have d3: "db_participants db' = db_participants db2"
    using p3 by (auto simp: appendSystemMessage_def Let_def split: option.splits if_splits)
  from addChecks_newcomer[OF ch] have "ap_principalId cmd \<notin> fst ` set (rosterRows ?cid (db_participants db))"
    by (simp only: rosterOf_pg not_False_eq_True)
  note dead = dead_seat[OF assms(1) this]
  have same: "seatOf c w db' = seatOf c w db1" for c w
    by (rule seatOf_conversations) (simp only: d2 d3)
  have pid: "np_principalId (addedParticipant cmd) = ap_principalId cmd" "np_role (addedParticipant cmd) = ''PARTICIPANT''"
      "\<not> np_replyAuthority (addedParticipant cmd)"
    by (simp_all add: addedParticipant_def)
  from addParticipantRow_seat(2)[OF d1] dead pid
  have "\<exists>r. seatOf ?cid (ap_principalId cmd) db1 = Some r \<and> pa_role r = ''PARTICIPANT'' \<and>
      \<not> pa_reply_authority r \<and> pa_effective_from r = now \<and> pa_effective_to r = None" by simp
  moreover have "(c, w) = (?cid, ap_principalId cmd) \<or> seatOf c w db1 = seatOf c w db"
    using addParticipantRow_seat(1)[OF d1, of c w] pid(1) by metis
  moreover have "exposed = length (filter (\<lambda>m. me_conversation_id m = ?cid) (db_messages db))"
    using e by (simp add: countMessages_def)
  ultimately show ?thesis by (simp only: same simp_thms)
qed

definition group1 :: ConversationDb where
  "group1 = runConversation pg0 (CreateInternal ''c1'' ''2026-01-01T09:00:00.000Z'' (openGroup ''ann'' [''bob''])) emptyDb"

lemma group1_wf: "wfConversations group1"
  unfolding group1_def by (rule pg.runConversation_ok[OF wf_emptyDb])

theorem added_participant_starts_plain_witness:
  "\<exists>r. seatOf ''c1'' ''cat'' (snd (addParticipant pg0 ''2026-01-02T09:00:00.000Z'' (adds ''ann'' ''c1'' ''cat'') group1)) = Some r \<and>
     pa_role r = ''PARTICIPANT'' \<and> \<not> pa_reply_authority r"
proof -
  have "fst (addParticipant pg0 ''2026-01-02T09:00:00.000Z'' (adds ''ann'' ''c1'' ''cat'') group1) = Returned (Inr 0)"
    by code_simp
  then obtain db' where "addParticipant pg0 ''2026-01-02T09:00:00.000Z'' (adds ''ann'' ''c1'' ''cat'') group1 = (Returned (Inr 0), db')"
    by (metis prod.collapse)
  from added_participant_starts_plain[OF group1_wf this, of "''c1''" "''cat''"] this show ?thesis
    by (auto simp: adds_def)
qed

text \<open>
  joining again erases when one was there before. A member is removed and comes back: the
  row is given the new start and loses its end, so that the record no longer says that they
  could read the conversation in January.
\<close>

theorem rejoining_erases_the_earlier_period:
  "let gone = runConversation pg0 (Remove ''2026-02-01T09:00:00.000Z'' (removes ''ann'' ''c1'' ''bob'')) group1;
       back = runConversation pg0 (Add ''2026-05-01T09:00:00.000Z'' (adds ''ann'' ''c1'' ''bob'')) gone;
       couldRead = (\<lambda>db t. case seatOf ''c1'' ''bob'' db of None \<Rightarrow> False
         | Some r \<Rightarrow> isWithinPeriod t (pa_effective_from r) (pa_effective_to r))
   in couldRead group1 ''2026-01-15T09:00:00.000Z'' \<and> couldRead gone ''2026-01-15T09:00:00.000Z'' \<and>
      \<not> couldRead back ''2026-01-15T09:00:00.000Z'' \<and> length (db_participants back) = length (db_participants group1)"
  by code_simp

section \<open>Read markers\<close>

lemma foldl_min_le: "s \<le> foldl min (a::nat) xs \<longleftrightarrow> s \<le> a \<and> list_all (\<lambda>x. s \<le> x) xs"
  by (induction xs arbitrary: a) auto

lemma readWatermarkOf_reaches:
  "0 < s \<Longrightarrow> s \<le> readWatermarkOf cid self db \<longleftrightarrow>
    (let others = filter (\<lambda>p. liveIn cid p \<and> pa_principal_id p \<noteq> self) (db_participants db)
     in others \<noteq> [] \<and> list_all (\<lambda>p. s \<le> markerOf (pa_principal_id p) cid (db_read_state db)) others)"
  by (cases "filter (\<lambda>p. liveIn cid p \<and> pa_principal_id p \<noteq> self) (db_participants db)")
     (auto simp: readWatermarkOf_def foldl_min_le list_all_iff Let_def)

lemma foldl_min_others:
  "foldl (\<lambda>lowest (i, s). min lowest (max 0 s)) (int a) (map (\<lambda>p. (g p, int (f p))) ps) =
    int (foldl min a (map f ps))"
  by (induction ps arbitrary: a) (simp_all add: of_nat_min[symmetric] del: of_nat_min)

text \<open>The positions that the members of a conversation report.\<close>

definition positionsOf :: "UUID \<Rightarrow> ConversationDb \<Rightarrow> (UUID \<times> int) list" where
  "positionsOf cid db =
     map (\<lambda>p. (pa_principal_id p, int (markerOf (pa_principal_id p) cid (db_read_state db))))
       (filter (liveIn cid) (db_participants db))"

text \<open>
  the watermark of the query is the watermark of the contract. The minimum the database takes over the
  other live participants is the one \<open>readWatermark\<close> takes over their positions, and a tick
  turns double exactly when the message is mine and every other live participant, of which there
  is one, has read as far.
\<close>

theorem watermarks_agree_and_never_overclaim:
  assumes "list_all (\<lambda>r. int (rd_last_read_seq r) \<le> MAX_SAFE_INTEGER) (db_read_state db)" and "0 < s"
  shows "readWatermark (positionsOf cid db) self = int (readWatermarkOf cid self db) \<and>
    (deliveryTick mine (int s) (int (readWatermarkOf cid self db)) = TICK_READ \<longleftrightarrow>
      mine \<and> (let others = filter (\<lambda>p. liveIn cid p \<and> pa_principal_id p \<noteq> self) (db_participants db)
        in others \<noteq> [] \<and> list_all (\<lambda>p. s \<le> markerOf (pa_principal_id p) cid (db_read_state db)) others))"
proof (intro conjI)
  let ?others = "filter (\<lambda>p. liveIn cid p \<and> pa_principal_id p \<noteq> self) (db_participants db)"
  let ?f = "\<lambda>p. markerOf (pa_principal_id p) cid (db_read_state db)"
  have others: "filter (\<lambda>(i, s). i \<noteq> self) (positionsOf cid db) = map (\<lambda>p. (pa_principal_id p, int (?f p))) ?others"
    by (simp add: positionsOf_def filter_map comp_def conj_commute)
  have "markerOf w cid rows \<le> nat MAX_SAFE_INTEGER"
    if "list_all (\<lambda>r. int (rd_last_read_seq r) \<le> MAX_SAFE_INTEGER) rows" for w rows
  proof (cases "find (\<lambda>r. rd_principal_id r = w \<and> rd_conversation_id r = cid) rows")
    case (Some r)
    with find_SomeD[OF Some] that show ?thesis by (auto simp: markerOf_def list_all_iff)
  qed (simp add: markerOf_def)
  with assms(1) have small: "?f p \<le> nat MAX_SAFE_INTEGER" for p by blast
  show "readWatermark (positionsOf cid db) self = int (readWatermarkOf cid self db)"
  proof (cases ?others)
    case Nil
    then show ?thesis by (simp add: readWatermark_def Let_def others readWatermarkOf_def)
  next
    case (Cons p ps)
    have "readWatermark (positionsOf cid db) self = int (foldl min (nat MAX_SAFE_INTEGER) (map ?f ?others))"
      using foldl_min_others[of "nat MAX_SAFE_INTEGER" pa_principal_id ?f ?others] Cons
      by (simp add: readWatermark_def Let_def others MAX_SAFE_INTEGER_def)
    also have "foldl min (nat MAX_SAFE_INTEGER) (map ?f ?others) = foldl min (?f p) (map ?f ps)"
      by (simp add: Cons min_absorb2[OF small])
    finally show ?thesis by (simp add: readWatermarkOf_def Cons)
  qed
  show "deliveryTick mine (int s) (int (readWatermarkOf cid self db)) = TICK_READ \<longleftrightarrow>
      mine \<and> (let others = ?others in others \<noteq> [] \<and> list_all (\<lambda>p. s \<le> ?f p) others)"
    using readWatermarkOf_reaches[OF assms(2), of cid self db] assms(2) by (auto simp: deliveryTick_def Let_def)
qed

theorem watermarks_agree_and_never_overclaim_witness:
  "readWatermark (positionsOf ''c1'' group1) ''ann'' = 0"
proof -
  have "db_read_state group1 = []" by code_simp
  then have "list_all (\<lambda>r. int (rd_last_read_seq r) \<le> MAX_SAFE_INTEGER) (db_read_state group1)" by simp
  moreover have "readWatermarkOf ''c1'' ''ann'' group1 = 0" by code_simp
  ultimately show ?thesis
    using conjunct1[OF watermarks_agree_and_never_overclaim[of group1 1 "''c1''" "''ann''" True]] by simp
qed

fun markAll :: "(UUID \<times> UUID \<times> nat \<times> Timestamp) list \<Rightarrow> ConversationDb \<Rightarrow> ConversationDb" where
  "markAll [] db = db"
| "markAll ((who, cid, s, t) # reqs) db = markAll reqs (snd (markRead who cid s t db))"

lemma markerOf_updated:
  assumes "list_ex (\<lambda>r. rd_principal_id r = who \<and> rd_conversation_id r = cid) rows"
  shows "markerOf w c (updateWhere (\<lambda>r. rd_principal_id r = who \<and> rd_conversation_id r = cid)
      (\<lambda>r. r\<lparr>rd_last_read_seq := max (rd_last_read_seq r) s, rd_last_read_at := t\<rparr>) rows) =
    (if w = who \<and> c = cid then max (markerOf w c rows) s else markerOf w c rows)"
proof -
  let ?f = "\<lambda>r. r\<lparr>rd_last_read_seq := max (rd_last_read_seq r) s, rd_last_read_at := t\<rparr>"
  let ?k = "\<lambda>w c r. rd_principal_id r = w \<and> rd_conversation_id r = c"
  have upd: "find (?k w c) (updateWhere (?k who cid) ?f rows) =
      map_option (\<lambda>r. if ?k who cid r then ?f r else r) (find (?k w c) rows)"
    by (rule find_updateWhere) simp
  show ?thesis
  proof (cases "find (?k w c) rows")
    case None
    with assms have "\<not> (w = who \<and> c = cid)" by (auto simp: find_None_iff list_ex_iff)
    with None upd show ?thesis by (auto simp: markerOf_def)
  next
    case (Some r)
    note key = conjunct2[OF find_SomeD[OF Some]]
    show ?thesis
    proof (cases "w = who \<and> c = cid")
      case True
      with Some upd key show ?thesis by (simp add: markerOf_def)
    next
      case False
      with Some upd key show ?thesis by (auto simp: markerOf_def)
    qed
  qed
qed

lemma markerOf_added:
  assumes "\<not> list_ex (\<lambda>r. rd_principal_id r = who \<and> rd_conversation_id r = cid) rows"
  shows "markerOf w c (rows @ [\<lparr>rd_principal_id = who, rd_conversation_id = cid, rd_last_read_seq = s, rd_last_read_at = t\<rparr>]) =
    (if w = who \<and> c = cid then max (markerOf w c rows) s else markerOf w c rows)"
  using assms by (induction rows) (auto simp: markerOf_def)

lemma markRead_marker:
  "markerOf w c (db_read_state (snd (markRead who cid s t db))) =
    (if w = who \<and> c = cid then max (markerOf w c (db_read_state db)) s else markerOf w c (db_read_state db))"
  by (auto simp: markRead_def Let_def markerOf_updated markerOf_added)

text \<open>
  read markers do not depend on the order of arrival. After any requests to mark as read, each
  marker is the largest of what it was and the sequences asked for it, so that a late request never
  brings back a message as unread.
\<close>

theorem read_markers_are_order_independent:
  "markerOf w c (db_read_state (markAll reqs db)) =
    fold max (map (\<lambda>(who, cid, s, t). s) (filter (\<lambda>(who, cid, s, t). who = w \<and> cid = c) reqs))
      (markerOf w c (db_read_state db))"
proof (induction reqs db rule: markAll.induct)
  case (2 who cid s t reqs db)
  then show ?case by (auto simp: markRead_marker max.commute)
qed simp

section \<open>Pages of the conversation list\<close>

definition threadRow :: "UUID \<Rightarrow> Timestamp \<Rightarrow> ConversationRow" where
  "threadRow cid t =
     \<lparr>cr_conversation_id = cid, cr_conversation_type = INTERNAL_DIRECT, cr_state = None, cr_case_id = None,
      cr_sensitivity = ORDINARY, cr_last_seq = 0, cr_customer_ref = None, cr_last_activity_at = t,
      cr_last_message_preview = [], cr_participant_count = 2\<rparr>"

definition annSeat :: "UUID \<Rightarrow> ParticipantRow" where
  "annSeat cid =
     \<lparr>pa_conversation_id = cid, pa_principal_id = ''ann'', pa_principal_kind = K_EMPLOYEE, pa_role = ''CREATOR'',
      pa_reply_authority = False, pa_effective_from = ''2026-01-01T09:00:00.000Z'', pa_effective_to = None,
      pa_archived_at = None, pa_added_by = None\<rparr>"

definition pinnedDb :: ConversationDb where
  "pinnedDb = emptyDb
     \<lparr>db_conversations := [threadRow ''c1'' ''2026-01-01T09:00:00.000Z'', threadRow ''c2'' ''2026-03-01T09:00:00.000Z'',
        threadRow ''c3'' ''2026-02-01T09:00:00.000Z''],
      db_participants := [annSeat ''c1'', annSeat ''c2'', annSeat ''c3''],
      db_preferences := [\<lparr>pf_principal_id = ''ann'', pf_conversation_id = ''c1'', pf_pinned = True, pf_muted_until = None\<rparr>]\<rparr>"

text \<open>Paging as the surface does it: the cursor is taken from the last row of the page.\<close>

definition nextPage :: "nat \<Rightarrow> ConversationSummary list \<Rightarrow> ConversationDb \<Rightarrow> ConversationSummary list" where
  "nextPage limit page db =
     listForPrincipal ''2026-04-01T09:00:00.000Z'' ''ann'' limit
       (Some (cs_lastActivityAt (last page), cs_conversationId (last page))) CHATS db"

text \<open>
  the pages of the list skip and repeat conversations. Ann has pinned an old thread and not
  pinned two newer ones. With one row to a page, the cursor after the pinned row asks for older
  activity than the pinned row has, and the two newer threads are never shown; with two rows to a
  page, the pinned thread is shown again on the second page.
\<close>

theorem pinned_conversations_break_paging:
  "let first = (\<lambda>limit. listForPrincipal ''2026-04-01T09:00:00.000Z'' ''ann'' limit None CHATS pinnedDb);
       ids = map cs_conversationId
   in ids (first 3) = [''c1'', ''c2'', ''c3''] \<and>
      ids (first 1) = [''c1''] \<and> ids (nextPage 1 (first 1) pinnedDb) = [] \<and>
      ids (first 2) = [''c1'', ''c2''] \<and> ids (nextPage 2 (first 2) pinnedDb) = [''c1'', ''c3'']"
  by code_simp

end
