(* ===== verification/Attachment_Pipeline.thy ===== *)
theory Attachment_Pipeline
  imports Primitives
begin

text \<open>
  The attachment state machine, \<open>packages/attachments/src/pipeline.ts\<close>: eight states, the table of
  moves, and the two questions the read path and the expiry sweep ask of a state.
\<close>

section \<open>States and events\<close>

datatype AttachmentState =
    UPLOAD_GRANTED
  | QUARANTINED
  | SCANNING
  | CLEAN
  | INFECTED
  | REJECTED
  | BOUND
  | EXPIRED

datatype PipelineEvent =
    EV_UPLOADED
  | EV_SCAN_STARTED
  | EV_SCAN_CLEAN
  | EV_SCAN_INFECTED
  | EV_SCAN_REJECTED (ev_reason: string)
  | EV_BOUND (ev_messageId: UUID)
  | EV_EXPIRED

datatype PipelineRefusal =
    NOT_A_TRANSITION
  | NOT_CLEAN_YET
  | INFECTED_IS_TERMINAL
  | ALREADY_BOUND
  | ALREADY_EXPIRED

fun MOVES :: "AttachmentState \<Rightarrow> PipelineEvent \<Rightarrow> AttachmentState option" where
  "MOVES UPLOAD_GRANTED EV_UPLOADED = Some QUARANTINED"
| "MOVES UPLOAD_GRANTED EV_EXPIRED = Some EXPIRED"
| "MOVES QUARANTINED EV_SCAN_STARTED = Some SCANNING"
| "MOVES QUARANTINED EV_EXPIRED = Some EXPIRED"
| "MOVES SCANNING EV_SCAN_CLEAN = Some CLEAN"
| "MOVES SCANNING EV_SCAN_INFECTED = Some INFECTED"
| "MOVES SCANNING (EV_SCAN_REJECTED _) = Some REJECTED"
| "MOVES SCANNING EV_EXPIRED = Some EXPIRED"
| "MOVES CLEAN (EV_BOUND _) = Some BOUND"
| "MOVES CLEAN EV_EXPIRED = Some EXPIRED"
| "MOVES _ _ = None"

definition advance :: "AttachmentState \<Rightarrow> PipelineEvent \<Rightarrow> PipelineRefusal + AttachmentState" where
  "advance s ev =
     (if s = INFECTED then Inl INFECTED_IS_TERMINAL
      else if s = BOUND then Inl ALREADY_BOUND
      else if s = EXPIRED then Inl ALREADY_EXPIRED
      else case MOVES s ev of
          None \<Rightarrow> Inl (if is_EV_BOUND ev then NOT_CLEAN_YET else NOT_A_TRANSITION)
        | Some s' \<Rightarrow> Inr s')"

definition isReachable :: "AttachmentState \<Rightarrow> bool" where
  "isReachable s \<longleftrightarrow> s = BOUND"

definition isExpirable :: "AttachmentState \<Rightarrow> bool" where
  "isExpirable s \<longleftrightarrow> s = UPLOAD_GRANTED \<or> s = QUARANTINED \<or> s = SCANNING \<or> s = CLEAN"

section \<open>The moves as a relation\<close>

text \<open>One permitted move, and the paths of permitted moves.\<close>

inductive move :: "AttachmentState \<Rightarrow> AttachmentState \<Rightarrow> bool" where
  "advance s ev = Inr s' \<Longrightarrow> move s s'"

fun_cases moves_cases: "MOVES s ev = Some s'"

lemma advance_Inr: "advance s ev = Inr s' \<longleftrightarrow> MOVES s ev = Some s'"
  by (cases s; cases ev) (simp_all add: advance_def)

lemma move_iff: "move s s' \<longleftrightarrow> (\<exists>ev. MOVES s ev = Some s')"
  by (auto simp: move.simps advance_Inr)

text \<open>The moves written out.\<close>

lemma move_table:
  "move s s' \<longleftrightarrow> (s, s') \<in>
     {(UPLOAD_GRANTED, QUARANTINED), (UPLOAD_GRANTED, EXPIRED), (QUARANTINED, SCANNING), (QUARANTINED, EXPIRED),
      (SCANNING, CLEAN), (SCANNING, INFECTED), (SCANNING, REJECTED), (SCANNING, EXPIRED),
      (CLEAN, BOUND), (CLEAN, EXPIRED)}"
proof
  assume "move s s'"
  then obtain ev where "MOVES s ev = Some s'" by (auto simp: move_iff)
  then show "(s, s') \<in> {(UPLOAD_GRANTED, QUARANTINED), (UPLOAD_GRANTED, EXPIRED), (QUARANTINED, SCANNING),
      (QUARANTINED, EXPIRED), (SCANNING, CLEAN), (SCANNING, INFECTED), (SCANNING, REJECTED), (SCANNING, EXPIRED),
      (CLEAN, BOUND), (CLEAN, EXPIRED)}"
    by (elim moves_cases) simp_all
next
  assume "(s, s') \<in> {(UPLOAD_GRANTED, QUARANTINED), (UPLOAD_GRANTED, EXPIRED), (QUARANTINED, SCANNING),
      (QUARANTINED, EXPIRED), (SCANNING, CLEAN), (SCANNING, INFECTED), (SCANNING, REJECTED), (SCANNING, EXPIRED),
      (CLEAN, BOUND), (CLEAN, EXPIRED)}"
  moreover have "MOVES UPLOAD_GRANTED EV_UPLOADED = Some QUARANTINED" "MOVES UPLOAD_GRANTED EV_EXPIRED = Some EXPIRED"
    "MOVES QUARANTINED EV_SCAN_STARTED = Some SCANNING" "MOVES QUARANTINED EV_EXPIRED = Some EXPIRED"
    "MOVES SCANNING EV_SCAN_CLEAN = Some CLEAN" "MOVES SCANNING EV_SCAN_INFECTED = Some INFECTED"
    "MOVES SCANNING (EV_SCAN_REJECTED []) = Some REJECTED" "MOVES SCANNING EV_EXPIRED = Some EXPIRED"
    "MOVES CLEAN (EV_BOUND []) = Some BOUND" "MOVES CLEAN EV_EXPIRED = Some EXPIRED" by simp_all
  ultimately show "move s s'" unfolding move_iff by blast
qed

definition terminal :: "AttachmentState \<Rightarrow> bool" where
  "terminal s \<longleftrightarrow> s = INFECTED \<or> s = REJECTED \<or> s = BOUND \<or> s = EXPIRED"

lemma terminal_stuck: "terminal s \<longleftrightarrow> (\<nexists>s'. move s s')"
  by (cases s) (auto simp: terminal_def move_table)

lemma expirable_moves: "isExpirable s \<longleftrightarrow> move s EXPIRED"
  by (cases s) (auto simp: isExpirable_def move_table)

lemma expirable_or_terminal: "isExpirable s \<longleftrightarrow> \<not> terminal s"
  by (cases s) (auto simp: isExpirable_def terminal_def)

text \<open>The only way to a reachable file is through a clean scan.\<close>

lemma move_to_BOUND: "move s BOUND \<longleftrightarrow> s = CLEAN"
  by (cases s) (auto simp: move_table)

lemma move_to_CLEAN: "move s CLEAN \<longleftrightarrow> s = SCANNING"
  by (cases s) (auto simp: move_table)

end
