(* ===== verification/Attachment_Policy.thy ===== *)
theory Attachment_Policy
  imports Primitives "HOL-Library.Word"
begin

text \<open>
  Upload policy: \<open>packages/attachments/src/policy.ts\<close> (what may be uploaded, what was received
  against what was claimed, and the filename that is safe to show) and
  \<open>apps/api/src/attachments/voice-note-limits.ts\<close>. Sizes are integers, as the intake schema
  requires. A filename is a list of UTF-16 code units, as JavaScript has it, because the
  characters it must lose are above the range of the character strings.
\<close>

section \<open>The policy\<close>

record UploaderPolicy =
  up_allowedMimeTypes :: "string list"
  up_maxBytes :: int
  up_maxBytesByFamily :: "(string \<times> int) list option"
  up_maxPerMessage :: int
  up_scanRequired :: bool
  up_allowedCategoryRoots :: "string list option"

record AttachmentPolicy =
  ap_employee :: UploaderPolicy
  ap_customer :: UploaderPolicy

definition DEFAULT_POLICY :: AttachmentPolicy where
  "DEFAULT_POLICY =
     \<lparr>ap_employee =
        \<lparr>up_allowedMimeTypes =
           [''application/pdf'', ''image/jpeg'', ''image/png'', ''image/heic'', ''image/tiff'',
            ''application/msword'',
            ''application/vnd.openxmlformats-officedocument.wordprocessingml.document'',
            ''application/vnd.ms-excel'',
            ''application/vnd.openxmlformats-officedocument.spreadsheetml.sheet'',
            ''text/plain'', ''audio/webm'', ''audio/ogg'', ''audio/mp4'', ''audio/mpeg'',
            ''video/mp4'', ''video/webm'', ''video/quicktime'',
            ''image/gif'', ''image/webp'', ''image/avif''],
         up_maxBytes = 10 * 1024 * 1024,
         up_maxBytesByFamily = Some [(''video'', 25 * 1024 * 1024), (''audio'', 25 * 1024 * 1024)],
         up_maxPerMessage = 10, up_scanRequired = True, up_allowedCategoryRoots = None\<rparr>,
      ap_customer =
        \<lparr>up_allowedMimeTypes = [''application/pdf'', ''image/jpeg'', ''image/png'', ''image/heic''],
         up_maxBytes = 10 * 1024 * 1024, up_maxBytesByFamily = None,
         up_maxPerMessage = 10, up_scanRequired = True,
         up_allowedCategoryRoots = Some [''claims'']\<rparr>\<rparr>"

datatype UploadRefusal =
    UPLOADS_NOT_PERMITTED_FOR_CATEGORY
  | MIME_NOT_ALLOWED
  | UPLOAD_TOO_LARGE
  | UPLOAD_EMPTY

datatype ValidationRefusal = MIME_MISMATCH | SIZE_MISMATCH | RECEIVED_TOO_LARGE

record UploadIntent =
  ui_uploaderKind :: PrincipalKind
  ui_declaredMime :: string
  ui_declaredBytes :: int
  ui_categoryId :: "string option"

definition policyFor :: "AttachmentPolicy \<Rightarrow> PrincipalKind \<Rightarrow> UploaderPolicy" where
  "policyFor policy k = (if k = K_CUSTOMER then ap_customer policy else ap_employee policy)"

text \<open>\<open>text.split(c)[0]\<close>.\<close>

definition firstPart :: "char \<Rightarrow> string \<Rightarrow> string" where
  "firstPart c s = takeWhile (\<lambda>x. x \<noteq> c) s"

definition ceilingFor :: "UploaderPolicy \<Rightarrow> string \<Rightarrow> int" where
  "ceilingFor rules mime =
     (case Option.bind (up_maxBytesByFamily rules) (\<lambda>m. map_of m (firstPart CHR ''/'' mime)) of
        Some n \<Rightarrow> n | None \<Rightarrow> up_maxBytes rules)"

definition categoryRefused :: "UploaderPolicy \<Rightarrow> string option \<Rightarrow> bool" where
  "categoryRefused rules category \<longleftrightarrow>
     (case up_allowedCategoryRoots rules of
        None \<Rightarrow> False
      | Some roots \<Rightarrow>
          (case category of None \<Rightarrow> True | Some c \<Rightarrow> firstPart CHR ''.'' c \<notin> set roots))"

definition checkUploadIntent :: "AttachmentPolicy \<Rightarrow> UploadIntent \<Rightarrow> UploadRefusal option" where
  "checkUploadIntent policy intent =
     (let rules = policyFor policy (ui_uploaderKind intent)
      in if categoryRefused rules (ui_categoryId intent) then Some UPLOADS_NOT_PERMITTED_FOR_CATEGORY
         else if ui_declaredMime intent \<notin> set (up_allowedMimeTypes rules) then Some MIME_NOT_ALLOWED
         else if ui_declaredBytes intent \<le> 0 then Some UPLOAD_EMPTY
         else if ui_declaredBytes intent > ceilingFor rules (ui_declaredMime intent)
         then Some UPLOAD_TOO_LARGE else None)"

definition checkReceived ::
  "AttachmentPolicy \<Rightarrow> PrincipalKind \<Rightarrow> string \<Rightarrow> int \<Rightarrow> string \<Rightarrow> int \<Rightarrow> ValidationRefusal option" where
  "checkReceived policy uploaderKind declaredMime declaredBytes sniffedMime actualBytes =
     (let rules = policyFor policy uploaderKind
      in if sniffedMime \<noteq> declaredMime then Some MIME_MISMATCH
         else if sniffedMime \<notin> set (up_allowedMimeTypes rules) then Some MIME_MISMATCH
         else if actualBytes \<noteq> declaredBytes then Some SIZE_MISMATCH
         else if actualBytes > ceilingFor rules sniffedMime then Some RECEIVED_TOO_LARGE
         else None)"

section \<open>Filenames\<close>

type_synonym Utf16 = "16 word list"

definition utf16 :: "string \<Rightarrow> Utf16" where
  "utf16 s = map of_char s"

definition isSlash :: "16 word \<Rightarrow> bool" where
  "isSlash u \<longleftrightarrow> u = 0x2F \<or> u = 0x5C"

text \<open>The replacement of a run of slashes or backslashes by one underscore.\<close>

function collapseSlashes :: "Utf16 \<Rightarrow> Utf16" where
  "collapseSlashes [] = []"
| "collapseSlashes (u # us) =
     (if isSlash u then 0x5F # collapseSlashes (dropWhile isSlash us) else u # collapseSlashes us)"
  by pat_completeness auto
termination
  by (relation "measure length") (auto simp: le_imp_less_Suc length_dropWhile_le)

text \<open>Control characters, and the marks and overrides of the writing direction.\<close>

definition isHidden :: "16 word \<Rightarrow> bool" where
  "isHidden u \<longleftrightarrow> u \<le> 0x1F \<or> u = 0x7F \<or> u = 0x200E \<or> u = 0x200F \<or>
     0x202A \<le> u \<and> u \<le> 0x202E \<or> 0x2066 \<le> u \<and> u \<le> 0x2069"

text \<open>What \<open>String.prototype.trim\<close> removes: white space and line terminators.\<close>

definition isJsSpace :: "16 word \<Rightarrow> bool" where
  "isJsSpace u \<longleftrightarrow> 0x9 \<le> u \<and> u \<le> 0xD \<or> u = 0x20 \<or> u = 0xA0 \<or> u = 0x1680 \<or>
     0x2000 \<le> u \<and> u \<le> 0x200A \<or> u = 0x2028 \<or> u = 0x2029 \<or> u = 0x202F \<or> u = 0x205F \<or>
     u = 0x3000 \<or> u = 0xFEFF"

definition trimUnits :: "Utf16 \<Rightarrow> Utf16" where
  "trimUnits us = rev (dropWhile isJsSpace (rev (dropWhile isJsSpace us)))"

definition sanitiseFilename :: "Utf16 \<Rightarrow> Utf16" where
  "sanitiseFilename raw =
     (let withoutPaths = collapseSlashes raw;
          printable = trimUnits (filter (\<lambda>u. \<not> isHidden u) withoutPaths);
          withoutLeadingDots = dropWhile (\<lambda>u. u = 0x2E) printable;
          bounded = take 200 withoutLeadingDots
      in if bounded = [] then utf16 ''attachment'' else bounded)"

section \<open>Voice notes\<close>

record VoiceNoteLimits =
  vn_maxSeconds :: int
  vn_maxBytes :: int

datatype VoiceNoteRefusal = VOICE_NOTE_TOO_LONG int | VOICE_NOTE_TOO_LARGE int

text \<open>\<open>durationMs / 1000 > maxSeconds\<close> on integers, an absent duration counting as zero.\<close>

definition refuseVoiceNote :: "string \<Rightarrow> int \<Rightarrow> int option \<Rightarrow> VoiceNoteLimits \<Rightarrow> VoiceNoteRefusal option" where
  "refuseVoiceNote declaredMime declaredBytes durationMs limits =
     (if take 6 declaredMime \<noteq> ''audio/'' then None
      else if (case durationMs of None \<Rightarrow> 0 | Some d \<Rightarrow> d) > 1000 * vn_maxSeconds limits
      then Some (VOICE_NOTE_TOO_LONG (vn_maxSeconds limits))
      else if declaredBytes > vn_maxBytes limits then Some (VOICE_NOTE_TOO_LARGE (vn_maxBytes limits))
      else None)"

section \<open>Basic facts\<close>

lemma checkUploadIntent_None:
  "checkUploadIntent policy intent = None \<longleftrightarrow>
     (let rules = policyFor policy (ui_uploaderKind intent)
      in \<not> categoryRefused rules (ui_categoryId intent) \<and>
         ui_declaredMime intent \<in> set (up_allowedMimeTypes rules) \<and>
         0 < ui_declaredBytes intent \<and>
         ui_declaredBytes intent \<le> ceilingFor rules (ui_declaredMime intent))"
  by (auto simp: checkUploadIntent_def Let_def)

lemma checkReceived_None:
  "checkReceived policy k dm db sm ab = None \<longleftrightarrow>
     sm = dm \<and> ab = db \<and> sm \<in> set (up_allowedMimeTypes (policyFor policy k)) \<and>
     ab \<le> ceilingFor (policyFor policy k) sm"
  by (auto simp: checkReceived_def Let_def)

lemma set_collapseSlashes: "u \<in> set (collapseSlashes us) \<Longrightarrow> u = 0x5F \<or> u \<in> set us \<and> \<not> isSlash u"
  by (induction us rule: collapseSlashes.induct) (auto split: if_splits dest: set_dropWhileD)

lemma set_trimUnits: "set (trimUnits us) \<subseteq> set us"
  by (auto simp: trimUnits_def dest!: set_dropWhileD)

lemma utf16_attachment: "utf16 ''attachment'' = [0x61, 0x74, 0x74, 0x61, 0x63, 0x68, 0x6D, 0x65, 0x6E, 0x74]"
  by (simp add: utf16_def)

text \<open>
  a sanitised filename is safe to show. Whatever it was made from, it is not empty, has at most
  200 code units, contains no slash, no backslash, no control character and nothing that turns the
  direction of the text, and does not begin with a dot.
\<close>

theorem sanitised_filename_is_safe:
  "let f = sanitiseFilename raw
   in f \<noteq> [] \<and> length f \<le> 200 \<and> list_all (\<lambda>u. \<not> isSlash u \<and> \<not> isHidden u) f \<and> hd f \<noteq> 0x2E"
proof -
  define p where "p = trimUnits (filter (\<lambda>u. \<not> isHidden u) (collapseSlashes raw))"
  define b where "b = take 200 (dropWhile (\<lambda>u. u = 0x2E) p)"
  have f: "sanitiseFilename raw = (if b = [] then utf16 ''attachment'' else b)"
    by (simp add: sanitiseFilename_def Let_def p_def b_def)
  have "\<not> isSlash u \<and> \<not> isHidden u" if "u \<in> set b" for u
  proof -
    from that have "u \<in> set p" unfolding b_def by (meson in_set_takeD set_dropWhileD)
    then have "u \<in> set (filter (\<lambda>u. \<not> isHidden u) (collapseSlashes raw))"
      unfolding p_def using set_trimUnits by blast
    then show ?thesis using set_collapseSlashes[of u raw] by (auto simp: isSlash_def)
  qed
  moreover have "b \<noteq> [] \<Longrightarrow> hd b \<noteq> 0x2E"
    using hd_dropWhile[of "\<lambda>u. u = 0x2E" p] by (auto simp: b_def hd_take)
  moreover have "length b \<le> 200" by (simp add: b_def)
  ultimately show ?thesis
    by (cases "b = []") (simp_all add: f utf16_attachment isSlash_def isHidden_def list_all_iff)
qed

end
