(* ===== verification/Attachment_Store.thy ===== *)
theory Attachment_Store
  imports Attachment_Pipeline Attachment_Policy Routing_Store
begin

text \<open>
  Attachment metadata persistence, \<open>infrastructure/database/src/repositories/attachment-store.ts\<close>.
  A row is its own record, so \<open>toRecord\<close> is the identity but for the sensitivity, which the two
  lookups join from the conversation. The tables extend those of the routing store, because
  the service also asks the authorization reader and the participants. The identifier of a scan
  row, which nothing reads, is left out.
\<close>

section \<open>The tables\<close>

record AttachmentRecord =
  ar_attachmentId :: UUID
  ar_conversationId :: UUID
  ar_messageId :: "UUID option"
  ar_uploaderId :: "UUID option"
  ar_uploaderKind :: PrincipalKind
  ar_declaredMime :: string
  ar_sniffedMime :: "string option"
  ar_declaredBytes :: int
  ar_durationMs :: "int option"
  ar_actualBytes :: "int option"
  ar_originalFilename :: "Utf16 option"
  ar_quarantineKey :: "string option"
  ar_cleanKey :: "string option"
  ar_state :: AttachmentState
  ar_classification :: "string option"
  ar_sensitivity :: "SensitivityClass option"
  ar_createdAt :: Timestamp
  ar_expiresAt :: "Timestamp option"

datatype DetailValue = DText string | DNumber int | DFlag bool

record ScanRow =
  sc_attachment_id :: UUID
  sc_verdict :: string
  sc_scanner :: string
  sc_detail :: "(string \<times> DetailValue) list option"
  sc_scanned_at :: Timestamp

record AttachmentDb = RoutingDb +
  db_files :: "AttachmentRecord list"
  db_scans :: "ScanRow list"

section \<open>Operations\<close>

record GrantInput =
  gi_attachmentId :: UUID
  gi_conversationId :: UUID
  gi_uploaderId :: UUID
  gi_uploaderKind :: PrincipalKind
  gi_declaredMime :: string
  gi_declaredBytes :: int
  gi_originalFilename :: Utf16
  gi_quarantineKey :: string
  gi_at :: Timestamp
  gi_unboundTtlSeconds :: int
  gi_durationMs :: "int option"

definition grantedRow :: "(Timestamp \<Rightarrow> int \<Rightarrow> Timestamp) \<Rightarrow> GrantInput \<Rightarrow> AttachmentRecord" where
  "grantedRow plusSeconds inp =
     \<lparr>ar_attachmentId = gi_attachmentId inp, ar_conversationId = gi_conversationId inp,
      ar_messageId = None, ar_uploaderId = Some (gi_uploaderId inp),
      ar_uploaderKind = gi_uploaderKind inp, ar_declaredMime = gi_declaredMime inp,
      ar_sniffedMime = None, ar_declaredBytes = gi_declaredBytes inp,
      ar_durationMs = gi_durationMs inp, ar_actualBytes = None,
      ar_originalFilename = Some (gi_originalFilename inp),
      ar_quarantineKey = Some (gi_quarantineKey inp), ar_cleanKey = None, ar_state = UPLOAD_GRANTED,
      ar_classification = None, ar_sensitivity = None, ar_createdAt = gi_at inp,
      ar_expiresAt = Some (plusSeconds (gi_at inp) (gi_unboundTtlSeconds inp))\<rparr>"

text \<open>The primary key and the reference to the conversation can refuse the row.\<close>

definition insertGrant ::
  "(Timestamp \<Rightarrow> int \<Rightarrow> Timestamp) \<Rightarrow> GrantInput \<Rightarrow> AttachmentDb \<Rightarrow> AttachmentDb option" where
  "insertGrant plusSeconds inp db =
     (if list_ex (\<lambda>a. ar_attachmentId a = gi_attachmentId inp) (db_files db) \<or>
         findConversation (gi_conversationId inp) db = None then None
      else Some (db\<lparr>db_files := db_files db @ [grantedRow plusSeconds inp]\<rparr>))"

definition withSensitivity :: "AttachmentDb \<Rightarrow> AttachmentRecord \<Rightarrow> AttachmentRecord" where
  "withSensitivity db a =
     a\<lparr>ar_sensitivity := map_option cr_sensitivity (findConversation (ar_conversationId a) db)\<rparr>"

definition byId :: "UUID \<Rightarrow> AttachmentDb \<Rightarrow> AttachmentRecord option" where
  "byId i db = map_option (withSensitivity db) (find (\<lambda>a. ar_attachmentId a = i) (db_files db))"

definition byQuarantineKey :: "string \<Rightarrow> AttachmentDb \<Rightarrow> AttachmentRecord option" where
  "byQuarantineKey key db =
     map_option (withSensitivity db) (find (\<lambda>a. ar_quarantineKey a = Some key) (db_files db))"

record TransitionInput =
  ti_attachmentId :: UUID
  ti_from :: AttachmentState
  ti_to :: AttachmentState
  ti_sniffedMime :: "string option"
  ti_actualBytes :: "int option"
  ti_cleanKey :: "string option"
  ti_classification :: "string option"

definition coalesce :: "'a option \<Rightarrow> 'a option \<Rightarrow> 'a option" where
  "coalesce x y = (case x of None \<Rightarrow> y | Some v \<Rightarrow> Some v)"

definition transitioned :: "TransitionInput \<Rightarrow> AttachmentRecord \<Rightarrow> AttachmentRecord" where
  "transitioned inp a =
     a\<lparr>ar_state := ti_to inp,
       ar_sniffedMime := coalesce (ti_sniffedMime inp) (ar_sniffedMime a),
       ar_actualBytes := coalesce (ti_actualBytes inp) (ar_actualBytes a),
       ar_cleanKey := coalesce (ti_cleanKey inp) (ar_cleanKey a),
       ar_classification := coalesce (ti_classification inp) (ar_classification a)\<rparr>"

definition transitionHits :: "TransitionInput \<Rightarrow> AttachmentRecord \<Rightarrow> bool" where
  "transitionHits inp a \<longleftrightarrow> ar_attachmentId a = ti_attachmentId inp \<and> ar_state a = ti_from inp"

definition transitionFile :: "TransitionInput \<Rightarrow> AttachmentDb \<Rightarrow> bool \<times> AttachmentDb" where
  "transitionFile inp db =
     (list_ex (transitionHits inp) (db_files db),
      db\<lparr>db_files := updateWhere (transitionHits inp) (transitioned inp) (db_files db)\<rparr>)"

definition simpleTransition :: "UUID \<Rightarrow> AttachmentState \<Rightarrow> AttachmentState \<Rightarrow> TransitionInput" where
  "simpleTransition i s s' =
     \<lparr>ti_attachmentId = i, ti_from = s, ti_to = s', ti_sniffedMime = None, ti_actualBytes = None,
      ti_cleanKey = None, ti_classification = None\<rparr>"

definition bindHits :: "UUID \<Rightarrow> UUID \<Rightarrow> AttachmentRecord \<Rightarrow> bool" where
  "bindHits i cid a \<longleftrightarrow> ar_attachmentId a = i \<and> ar_state a = CLEAN \<and> ar_conversationId a = cid"

definition bindTo :: "UUID \<Rightarrow> UUID \<Rightarrow> UUID \<Rightarrow> AttachmentDb \<Rightarrow> bool \<times> AttachmentDb" where
  "bindTo i mid cid db =
     (list_ex (bindHits i cid) (db_files db),
      db\<lparr>db_files := updateWhere (bindHits i cid)
        (\<lambda>a. a\<lparr>ar_messageId := Some mid, ar_state := BOUND, ar_expiresAt := None\<rparr>) (db_files db)\<rparr>)"

definition forMessage :: "UUID \<Rightarrow> AttachmentDb \<Rightarrow> AttachmentRecord list" where
  "forMessage mid db =
     sort_key ar_createdAt (filter (\<lambda>a. ar_messageId a = Some mid \<and> ar_state a = BOUND) (db_files db))"

definition forMessages :: "UUID list \<Rightarrow> AttachmentDb \<Rightarrow> AttachmentRecord list" where
  "forMessages mids db =
     (if length mids = 0 then []
      else sort_key ar_createdAt
        (filter (\<lambda>a. ar_messageId a \<in> Some ` set mids \<and> ar_state a = BOUND) (db_files db)))"

definition recordScan :: "ScanRow \<Rightarrow> AttachmentDb \<Rightarrow> AttachmentDb" where
  "recordScan row db = db\<lparr>db_scans := db_scans db @ [row]\<rparr>"

definition awaitingScan :: "nat \<Rightarrow> AttachmentDb \<Rightarrow> AttachmentRecord list" where
  "awaitingScan limit db =
     take limit (sort_key ar_createdAt (filter (\<lambda>a. ar_state a = QUARANTINED) (db_files db)))"

definition expiredBy :: "Timestamp \<Rightarrow> AttachmentRecord \<Rightarrow> bool" where
  "expiredBy t a \<longleftrightarrow> ar_messageId a = None \<and>
     ar_state a \<in> {UPLOAD_GRANTED, QUARANTINED, SCANNING, CLEAN} \<and>
     (case ar_expiresAt a of None \<Rightarrow> False | Some e \<Rightarrow> e \<le> t)"

definition expiryOf :: "AttachmentRecord \<Rightarrow> Timestamp" where
  "expiryOf a = (case ar_expiresAt a of None \<Rightarrow> [] | Some e \<Rightarrow> e)"

definition expirable :: "Timestamp \<Rightarrow> nat \<Rightarrow> AttachmentDb \<Rightarrow> AttachmentRecord list" where
  "expirable t limit db = take limit (sort_key expiryOf (filter (expiredBy t) (db_files db)))"

section \<open>What the operations do to one attachment\<close>

definition fileOf :: "UUID \<Rightarrow> AttachmentDb \<Rightarrow> AttachmentRecord option" where
  "fileOf i db = find (\<lambda>a. ar_attachmentId a = i) (db_files db)"

definition wfFiles :: "AttachmentDb \<Rightarrow> bool" where
  "wfFiles db \<longleftrightarrow> distinct (map ar_attachmentId (db_files db))"

lemma transitioned_sel [simp]:
  "ar_attachmentId (transitioned inp a) = ar_attachmentId a"
  "ar_conversationId (transitioned inp a) = ar_conversationId a"
  "ar_messageId (transitioned inp a) = ar_messageId a"
  "ar_state (transitioned inp a) = ti_to inp"
  "ar_declaredMime (transitioned inp a) = ar_declaredMime a"
  "ar_declaredBytes (transitioned inp a) = ar_declaredBytes a"
  "ar_uploaderKind (transitioned inp a) = ar_uploaderKind a"
  "ar_quarantineKey (transitioned inp a) = ar_quarantineKey a"
  by (simp_all add: transitioned_def)

lemma fileOf_updateWhere:
  assumes "\<And>a. ar_attachmentId (f a) = ar_attachmentId a"
  shows "fileOf i (db\<lparr>db_files := updateWhere q f (db_files db)\<rparr>) =
    map_option (\<lambda>a. if q a then f a else a) (fileOf i db)"
  by (simp add: fileOf_def find_updateWhere assms)

lemma fileOf_key: "fileOf i db = Some a \<Longrightarrow> ar_attachmentId a = i"
  unfolding fileOf_def using find_SomeD by fastforce

lemma fileOf_transition:
  "fileOf i (snd (transitionFile inp db)) =
    map_option (\<lambda>a. if transitionHits inp a then transitioned inp a else a) (fileOf i db)"
  by (simp add: transitionFile_def fileOf_updateWhere)

lemma fileOf_bindTo:
  "fileOf i (snd (bindTo j mid cid db)) =
    map_option (\<lambda>a. if bindHits j cid a
      then a\<lparr>ar_messageId := Some mid, ar_state := BOUND, ar_expiresAt := None\<rparr> else a) (fileOf i db)"
  by (simp add: bindTo_def fileOf_updateWhere)

lemma fileOf_recordScan [simp]: "fileOf i (recordScan row db) = fileOf i db"
  by (simp add: fileOf_def recordScan_def)

lemma fileOf_insertGrant:
  assumes "insertGrant ps inp db = Some db'"
  shows "fileOf i db' = (if i = gi_attachmentId inp then Some (grantedRow ps inp) else fileOf i db)"
proof -
  from assms have "find (\<lambda>a. ar_attachmentId a = gi_attachmentId inp) (db_files db) = None"
    by (auto simp: insertGrant_def find_None_iff list_ex_iff split: if_splits)
  with assms show ?thesis
    by (auto simp: insertGrant_def fileOf_def grantedRow_def find_append_miss split: if_splits
        dest: find_isSome_append) (cases "find (\<lambda>a. ar_attachmentId a = i) (db_files db)";
        auto simp: find_append_miss dest: find_isSome_append)
qed

end
