(* ===== verification/Attachment_Sweeps.thy ===== *)
theory Attachment_Sweeps
  imports Attachment_Store
begin

text \<open>
  The attachment sweeps, \<open>infrastructure/sweeps/src/attachment-sweeps.ts\<close>: the scan of a quarantined
  upload and the expiry of uploads that never reached a message, over any provider of the metadata
  port. The scanner and the object storage are adapters behind interfaces; they are arguments, and
  \<open>'w\<close> is the state of the outside world. Logs and metrics are left out.
\<close>

section \<open>The ports\<close>

record ScanRequest =
  sq_attachmentId :: UUID
  sq_quarantineKey :: string
  sq_declaredMime :: string
  sq_declaredBytes :: int

datatype ScanVerdict =
    VERDICT_CLEAN (sv_sniffedMime: string) (sv_actualBytes: int) (sv_scanner: string) (sv_classification: "string option")
  | VERDICT_INFECTED (sv_signature: string) (sv_scanner: string)
  | VERDICT_REJECTED (sv_reason: string) (sv_sniffed: "string option") (sv_actual: "int option") (sv_scanner: string)

type_synonym 'w AttachmentScanner = "ScanRequest \<Rightarrow> 'w \<Rightarrow> (AdapterError + ScanVerdict) \<times> 'w"

record UploadGrantRequest =
  ug_conversationId :: UUID
  ug_declaredMime :: string
  ug_declaredBytes :: int
  ug_purpose :: string

record UploadGrant =
  gr_quarantineKey :: string
  gr_url :: string
  gr_expiresAt :: Timestamp

record 'w ObjectStorageProvider =
  os_issueUploadGrant :: "UploadGrantRequest \<Rightarrow> 'w \<Rightarrow> (AdapterError + UploadGrant) \<times> 'w"
  os_promote :: "string \<Rightarrow> 'w \<Rightarrow> (AdapterError + string) \<times> 'w"
  os_issueDownloadGrant :: "string \<Rightarrow> int \<Rightarrow> 'w \<Rightarrow> (AdapterError + string) \<times> 'w"
  os_delete :: "string \<Rightarrow> 'w \<Rightarrow> (AdapterError + unit) \<times> 'w"

record 'st AttachmentStorePort =
  sp_awaitingScan :: "nat \<Rightarrow> 'st \<Rightarrow> AttachmentRecord list"
  sp_byId :: "UUID \<Rightarrow> 'st \<Rightarrow> AttachmentRecord option"
  sp_expirable :: "Timestamp \<Rightarrow> nat \<Rightarrow> 'st \<Rightarrow> AttachmentRecord list"
  sp_transition :: "TransitionInput \<Rightarrow> 'st \<Rightarrow> bool \<times> 'st"
  sp_recordScan :: "ScanRow \<Rightarrow> 'st \<Rightarrow> 'st"

definition pgAttachments :: "AttachmentDb AttachmentStorePort" where
  "pgAttachments =
     \<lparr>sp_awaitingScan = awaitingScan, sp_byId = byId, sp_expirable = expirable,
      sp_transition = transitionFile, sp_recordScan = recordScan\<rparr>"

record SweepOutcome =
  so_examined :: nat
  so_acted :: nat

section \<open>The scan\<close>

text \<open>
  What the worker writes once it knows the verdict: no write depends on the result of another, so
  that the writes of a verdict are a list, carried out one statement at a time.
\<close>

datatype StoreWrite = WriteTransition TransitionInput | WriteScan ScanRow

fun runWrite :: "'st AttachmentStorePort \<Rightarrow> StoreWrite \<Rightarrow> 'st \<Rightarrow> 'st" where
  "runWrite port (WriteTransition inp) st = snd (sp_transition port inp st)"
| "runWrite port (WriteScan row) st = sp_recordScan port row st"

fun runWrites :: "'st AttachmentStorePort \<Rightarrow> StoreWrite list \<Rightarrow> 'st \<Rightarrow> 'st" where
  "runWrites port [] st = st"
| "runWrites port (w # ws) st = runWrites port ws (runWrite port w st)"

definition scanRow ::
  "AttachmentRecord \<Rightarrow> string \<Rightarrow> string \<Rightarrow> (string \<times> DetailValue) list \<Rightarrow> Timestamp \<Rightarrow> ScanRow" where
  "scanRow a verdict scanner detail t =
     \<lparr>sc_attachment_id = ar_attachmentId a, sc_verdict = verdict, sc_scanner = scanner,
      sc_detail = Some detail, sc_scanned_at = t\<rparr>"

definition validationText :: "ValidationRefusal \<Rightarrow> string" where
  "validationText r =
     (case r of MIME_MISMATCH \<Rightarrow> ''MIME_MISMATCH'' | SIZE_MISMATCH \<Rightarrow> ''SIZE_MISMATCH''
      | RECEIVED_TOO_LARGE \<Rightarrow> ''TOO_LARGE'')"

definition backToQuarantine :: "AttachmentRecord \<Rightarrow> StoreWrite" where
  "backToQuarantine a = WriteTransition (simpleTransition (ar_attachmentId a) SCANNING QUARANTINED)"

definition settle :: "AttachmentRecord \<Rightarrow> AttachmentState \<Rightarrow> StoreWrite list" where
  "settle a s =
     (case advance SCANNING (if s = INFECTED then EV_SCAN_INFECTED else EV_SCAN_REJECTED []) of
        Inl _ \<Rightarrow> []
      | Inr _ \<Rightarrow> [WriteTransition (simpleTransition (ar_attachmentId a) SCANNING s)])"

definition cleanTransition :: "AttachmentRecord \<Rightarrow> string \<Rightarrow> int \<Rightarrow> string \<Rightarrow> string option \<Rightarrow> TransitionInput" where
  "cleanTransition a sniffed bytes cleanKey classification =
     \<lparr>ti_attachmentId = ar_attachmentId a, ti_from = SCANNING, ti_to = CLEAN,
      ti_sniffedMime = Some sniffed, ti_actualBytes = Some bytes, ti_cleanKey = Some cleanKey,
      ti_classification = classification\<rparr>"

definition afterClean ::
  "AttachmentPolicy \<Rightarrow> 'w ObjectStorageProvider \<Rightarrow> Timestamp \<Rightarrow> AttachmentRecord \<Rightarrow> string \<Rightarrow>
   string \<Rightarrow> int \<Rightarrow> string \<Rightarrow> string option \<Rightarrow> 'w \<Rightarrow> StoreWrite list \<times> bool \<times> 'w" where
  "afterClean policy storage t a key sniffed bytes scanner classification w =
     (case checkReceived policy (if ar_uploaderKind a = K_CUSTOMER then K_CUSTOMER else K_EMPLOYEE)
             (ar_declaredMime a) (ar_declaredBytes a) sniffed bytes of
        Some refusal \<Rightarrow>
          (WriteScan (scanRow a ''REJECTED'' scanner
             [(''reason'', DText (validationText refusal)), (''sniffedMime'', DText sniffed),
              (''actualBytes'', DNumber bytes)] t) # settle a REJECTED, True, w)
      | None \<Rightarrow>
          (case os_promote storage key w of
             (Inl e, w1) \<Rightarrow> ([backToQuarantine a], False, w1)
           | (Inr cleanKey, w1) \<Rightarrow>
               ([WriteScan (scanRow a ''CLEAN'' scanner
                   [(''sniffedMime'', DText sniffed), (''actualBytes'', DNumber bytes)] t),
                 WriteTransition (cleanTransition a sniffed bytes cleanKey classification)], True, w1)))"

definition afterScan ::
  "AttachmentPolicy \<Rightarrow> 'w ObjectStorageProvider \<Rightarrow> Timestamp \<Rightarrow> AttachmentRecord \<Rightarrow> string \<Rightarrow>
   (AdapterError + ScanVerdict) \<Rightarrow> 'w \<Rightarrow> StoreWrite list \<times> bool \<times> 'w" where
  "afterScan policy storage t a key scanned w =
     (case scanned of
        Inl e \<Rightarrow>
          ([WriteScan (scanRow a ''FAILED'' ''unavailable''
              [(''errorCode'', DText (er_code e)), (''retryable'', DFlag (er_retryable e))] t),
            backToQuarantine a], False, w)
      | Inr (VERDICT_INFECTED signature scanner) \<Rightarrow>
          (WriteScan (scanRow a ''INFECTED'' scanner [(''signature'', DText signature)] t)
             # settle a INFECTED, True, w)
      | Inr (VERDICT_REJECTED reason _ _ scanner) \<Rightarrow>
          (WriteScan (scanRow a ''REJECTED'' scanner [(''reason'', DText reason)] t)
             # settle a REJECTED, True, w)
      | Inr (VERDICT_CLEAN sniffed bytes scanner classification) \<Rightarrow>
          afterClean policy storage t a key sniffed bytes scanner classification w)"

definition claimForScan :: "AttachmentRecord \<Rightarrow> TransitionInput" where
  "claimForScan a = simpleTransition (ar_attachmentId a) QUARANTINED SCANNING"

definition scanRequestOf :: "AttachmentRecord \<Rightarrow> string \<Rightarrow> ScanRequest" where
  "scanRequestOf a key =
     \<lparr>sq_attachmentId = ar_attachmentId a, sq_quarantineKey = key,
      sq_declaredMime = ar_declaredMime a, sq_declaredBytes = ar_declaredBytes a\<rparr>"

definition processScan ::
  "'st AttachmentStorePort \<Rightarrow> AttachmentPolicy \<Rightarrow> 'w AttachmentScanner \<Rightarrow> 'w ObjectStorageProvider \<Rightarrow>
   Timestamp \<Rightarrow> AttachmentRecord \<Rightarrow> 'st \<times> 'w \<Rightarrow> bool \<times> 'st \<times> 'w" where
  "processScan port policy scanner storage t a = (\<lambda>(st, w).
     (case ar_quarantineKey a of
        None \<Rightarrow> (False, st, w)
      | Some key \<Rightarrow>
          (case sp_transition port (claimForScan a) st of
             (claimed, st1) \<Rightarrow>
               if \<not> claimed then (False, st1, w)
               else (case scanner (scanRequestOf a key) w of
                  (scanned, w1) \<Rightarrow>
                    (case afterScan policy storage t a key scanned w1 of
                       (writes, acted, w2) \<Rightarrow> (acted, runWrites port writes st1, w2))))))"

definition scanOne ::
  "'st AttachmentStorePort \<Rightarrow> AttachmentPolicy \<Rightarrow> 'w AttachmentScanner \<Rightarrow> 'w ObjectStorageProvider \<Rightarrow>
   Timestamp \<Rightarrow> UUID \<Rightarrow> 'st \<times> 'w \<Rightarrow> bool \<times> 'st \<times> 'w" where
  "scanOne port policy scanner storage t i = (\<lambda>(st, w).
     (case sp_byId port i st of
        None \<Rightarrow> (False, st, w)
      | Some a \<Rightarrow> processScan port policy scanner storage t a (st, w)))"

fun scanAll ::
  "'st AttachmentStorePort \<Rightarrow> AttachmentPolicy \<Rightarrow> 'w AttachmentScanner \<Rightarrow> 'w ObjectStorageProvider \<Rightarrow>
   Timestamp \<Rightarrow> AttachmentRecord list \<Rightarrow> nat \<Rightarrow> 'st \<times> 'w \<Rightarrow> nat \<times> 'st \<times> 'w" where
  "scanAll port policy scanner storage t [] acted sw = (acted, sw)"
| "scanAll port policy scanner storage t (a # as) acted sw =
     (let (done, sw') = processScan port policy scanner storage t a sw
      in scanAll port policy scanner storage t as (if done then acted + 1 else acted) sw')"

definition runScanSweep ::
  "'st AttachmentStorePort \<Rightarrow> AttachmentPolicy \<Rightarrow> 'w AttachmentScanner \<Rightarrow> 'w ObjectStorageProvider \<Rightarrow>
   nat option \<Rightarrow> Timestamp \<Rightarrow> 'st \<times> 'w \<Rightarrow> SweepOutcome \<times> 'st \<times> 'w" where
  "runScanSweep port policy scanner storage batchSize t = (\<lambda>(st, w).
     (let waiting = sp_awaitingScan port (case batchSize of None \<Rightarrow> 20 | Some n \<Rightarrow> n) st;
          (acted, sw) = scanAll port policy scanner storage t waiting 0 (st, w)
      in (\<lparr>so_examined = length waiting, so_acted = acted\<rparr>, sw)))"

section \<open>The expiry\<close>

definition expireMark :: "AttachmentRecord \<Rightarrow> TransitionInput" where
  "expireMark a = simpleTransition (ar_attachmentId a) (ar_state a) EXPIRED"

fun deleteKeys :: "'w ObjectStorageProvider \<Rightarrow> string option list \<Rightarrow> 'w \<Rightarrow> 'w" where
  "deleteKeys storage [] w = w"
| "deleteKeys storage (None # ks) w = deleteKeys storage ks w"
| "deleteKeys storage (Some k # ks) w = deleteKeys storage ks (snd (os_delete storage k w))"

fun expireAll ::
  "'st AttachmentStorePort \<Rightarrow> 'w ObjectStorageProvider \<Rightarrow> AttachmentRecord list \<Rightarrow> nat \<Rightarrow> 'st \<times> 'w \<Rightarrow>
   nat \<times> 'st \<times> 'w" where
  "expireAll port storage [] acted sw = (acted, sw)"
| "expireAll port storage (a # as) acted (st, w) =
     (case sp_transition port (expireMark a) st of
        (marked, st') \<Rightarrow>
          if \<not> marked then expireAll port storage as acted (st', w)
          else expireAll port storage as (acted + 1)
                 (st', deleteKeys storage [ar_quarantineKey a, ar_cleanKey a] w))"

definition runExpirySweep ::
  "'st AttachmentStorePort \<Rightarrow> 'w ObjectStorageProvider \<Rightarrow> nat option \<Rightarrow> Timestamp \<Rightarrow> 'st \<times> 'w \<Rightarrow>
   SweepOutcome \<times> 'st \<times> 'w" where
  "runExpirySweep port storage batchSize t = (\<lambda>(st, w).
     (let stale = sp_expirable port t (case batchSize of None \<Rightarrow> 100 | Some n \<Rightarrow> n) st;
          (acted, sw) = expireAll port storage stale 0 (st, w)
      in (\<lparr>so_examined = length stale, so_acted = acted\<rparr>, sw)))"

section \<open>The contract of the port\<close>

text \<open>
  What the sweeps rely on: the move of an attachment happens exactly when it is in the expected
  state, changes that attachment only, and the record of a scan changes none. What they guarantee is
  proved from that alone.
\<close>

definition applyWrite :: "StoreWrite \<Rightarrow> AttachmentRecord \<Rightarrow> AttachmentRecord" where
  "applyWrite w a =
     (case w of WriteScan _ \<Rightarrow> a
      | WriteTransition inp \<Rightarrow> if transitionHits inp a then transitioned inp a else a)"

definition targetOf :: "StoreWrite \<Rightarrow> UUID" where
  "targetOf w = (case w of WriteScan row \<Rightarrow> sc_attachment_id row | WriteTransition inp \<Rightarrow> ti_attachmentId inp)"

definition stateAfter :: "StoreWrite \<Rightarrow> AttachmentState \<Rightarrow> AttachmentState" where
  "stateAfter w s =
     (case w of WriteScan _ \<Rightarrow> s | WriteTransition inp \<Rightarrow> if s = ti_from inp then ti_to inp else s)"

lemma applyWrite_simps:
  "applyWrite (WriteScan row) = (\<lambda>a. a)"
  "applyWrite (WriteTransition inp) = (\<lambda>a. if transitionHits inp a then transitioned inp a else a)"
  by (simp_all add: applyWrite_def fun_eq_iff)

lemma applyWrite_id [simp]: "ar_attachmentId (applyWrite w a) = ar_attachmentId a"
  by (simp add: applyWrite_def split: StoreWrite.split)

lemma applyWrite_state: "targetOf w = ar_attachmentId a \<Longrightarrow> ar_state (applyWrite w a) = stateAfter w (ar_state a)"
  by (auto simp: applyWrite_def stateAfter_def targetOf_def transitionHits_def split: StoreWrite.splits)

lemma fold_applyWrite_id [simp]: "ar_attachmentId (fold applyWrite ws a) = ar_attachmentId a"
  by (induction ws arbitrary: a) simp_all

lemma fold_applyWrite_state:
  "list_all (\<lambda>w. targetOf w = ar_attachmentId a) ws \<Longrightarrow>
   ar_state (fold applyWrite ws a) = fold stateAfter ws (ar_state a)"
  by (induction ws arbitrary: a) (simp_all add: applyWrite_state)

text \<open>The writes of a verdict concern the scanned file, and decide its state when they run undisturbed.\<close>

lemma afterScan_targets:
  assumes "afterScan policy storage t a key scanned w = (ws, acted, w')"
  shows "list_all (\<lambda>w. targetOf w = ar_attachmentId a) ws"
  using assms
  by (auto simp: afterScan_def afterClean_def settle_def advance_def targetOf_def backToQuarantine_def
      simpleTransition_def cleanTransition_def scanRow_def split: sum.splits ScanVerdict.splits option.splits prod.splits)

lemma afterScan_settles:
  assumes "afterScan policy storage t a key scanned w = (ws, acted, w')"
  shows "fold stateAfter ws SCANNING \<in> (if acted then {CLEAN, INFECTED, REJECTED} else {QUARANTINED})"
  using assms
  by (auto simp: afterScan_def afterClean_def settle_def advance_def stateAfter_def backToQuarantine_def
      simpleTransition_def cleanTransition_def split: sum.splits ScanVerdict.splits option.splits prod.splits)

locale attachment_port =
  fixes port :: "'st AttachmentStorePort" and look :: "UUID \<Rightarrow> 'st \<Rightarrow> AttachmentRecord option"
    and ok :: "'st \<Rightarrow> bool"
  assumes look_transition: "look i (snd (sp_transition port inp st)) =
      map_option (applyWrite (WriteTransition inp)) (look i st)"
    and hit: "ok st \<Longrightarrow> fst (sp_transition port inp st) \<longleftrightarrow>
      (\<exists>a. look (ti_attachmentId inp) st = Some a \<and> ar_state a = ti_from inp)"
    and look_scan: "look i (sp_recordScan port row st) = look i st"
    and look_key: "look i st = Some a \<Longrightarrow> ar_attachmentId a = i"
    and ok_transition: "ok st \<Longrightarrow> ok (snd (sp_transition port inp st))"
    and ok_scan: "ok st \<Longrightarrow> ok (sp_recordScan port row st)"
begin

lemma look_runWrite: "look i (runWrite port w st) = map_option (applyWrite w) (look i st)"
  by (cases w) (simp_all add: look_transition look_scan applyWrite_simps option.map_ident)

lemma look_runWrites: "look i (runWrites port ws st) = map_option (fold applyWrite ws) (look i st)"
  by (induction ws arbitrary: st) (simp_all add: look_runWrite option.map_comp comp_def option.map_id)

lemma ok_runWrites: "ok st \<Longrightarrow> ok (runWrites port ws st)"
proof (induction ws arbitrary: st)
  case (Cons w ws)
  then show ?case by (cases w) (simp_all add: ok_transition ok_scan)
qed simp

text \<open>
  A scan run alone decides: it reports that it acted exactly when the file has left the quarantine
  for a verdict, and leaves it waiting otherwise.
\<close>

lemma processScan_decides:
  assumes "ok st" and "look (ar_attachmentId a) st = Some b" and "ar_state b = QUARANTINED"
    and "processScan port policy scanner storage t a (st, w) = (acted, st', w')"
  shows "\<exists>c. look (ar_attachmentId a) st' = Some c \<and>
    ar_state c \<in> (if acted then {CLEAN, INFECTED, REJECTED} else {QUARANTINED})"
proof (cases "ar_quarantineKey a")
  case None
  with assms(2-4) show ?thesis by (simp add: processScan_def)
next
  case (Some key)
  obtain claimed st1 where c: "sp_transition port (claimForScan a) st = (claimed, st1)" by fastforce
  have claim: "ti_attachmentId (claimForScan a) = ar_attachmentId a" "ti_from (claimForScan a) = QUARANTINED"
      "ti_to (claimForScan a) = SCANNING"
    by (simp_all add: claimForScan_def simpleTransition_def)
  have cl: claimed using hit[OF assms(1), of "claimForScan a"] assms(2,3) c claim by simp
  define b1 where "b1 = applyWrite (WriteTransition (claimForScan a)) b"
  have l1: "look (ar_attachmentId a) st1 = Some b1"
    using look_transition[of "ar_attachmentId a" "claimForScan a" st] c assms(2) by (simp add: b1_def)
  have b1: "ar_attachmentId b1 = ar_attachmentId a" "ar_state b1 = SCANNING"
    using look_key[OF assms(2)] assms(3) claim
    by (simp_all add: b1_def applyWrite_state targetOf_def stateAfter_def)
  obtain scanned w1 where s: "scanner (scanRequestOf a key) w = (scanned, w1)" by fastforce
  obtain ws acted' w2 where ws: "afterScan policy storage t a key scanned w1 = (ws, acted', w2)"
    by (metis prod_cases3)
  from assms(4) Some c cl s ws have r: "acted = acted'" "st' = runWrites port ws st1"
    by (auto simp: processScan_def)
  have "look (ar_attachmentId a) st' = Some (fold applyWrite ws b1)" by (simp add: r(2) look_runWrites l1)
  moreover have "ar_state (fold applyWrite ws b1) = fold stateAfter ws SCANNING"
    using fold_applyWrite_state[of b1 ws] afterScan_targets[OF ws] b1 by simp
  ultimately show ?thesis using afterScan_settles[OF ws] r(1) by auto
qed

text \<open>A second worker that reaches the same file finds it taken and does nothing.\<close>

lemma processScan_exclusive:
  assumes "ok st" and "look (ar_attachmentId a) st = Some b" and "ar_state b \<noteq> QUARANTINED"
    and "processScan port policy scanner storage t a (st, w) = (acted, st', w')"
  shows "\<not> acted \<and> w' = w \<and> look i st' = look i st"
proof (cases "ar_quarantineKey a")
  case None
  with assms(4) show ?thesis by (simp add: processScan_def)
next
  case (Some key)
  obtain claimed st1 where c: "sp_transition port (claimForScan a) st = (claimed, st1)" by fastforce
  have "\<not> claimed" using hit[OF assms(1), of "claimForScan a"] assms(2,3) c
    by (auto simp: claimForScan_def simpleTransition_def)
  with assms(4) Some c have r: "\<not> acted" "w' = w" "st' = st1" by (simp_all add: processScan_def)
  have "applyWrite (WriteTransition (claimForScan a)) x = x" if "look i st = Some x" for x
    using that look_key[OF that] assms(2,3)
    by (auto simp: applyWrite_def transitionHits_def claimForScan_def simpleTransition_def)
  then have "look i st1 = look i st"
    using look_transition[of i "claimForScan a" st] c by (cases "look i st") simp_all
  with r show ?thesis by simp
qed

lemma expireMark_spares:
  assumes "look (ar_attachmentId a) st = Some b" and "ar_state b \<noteq> ar_state a"
  shows "look i (snd (sp_transition port (expireMark a) st)) = look i st"
proof -
  have "applyWrite (WriteTransition (expireMark a)) x = x" if "look i st = Some x" for x
    using that look_key[OF that] assms
    by (auto simp: applyWrite_def transitionHits_def expireMark_def simpleTransition_def)
  then show ?thesis using look_transition[of i "expireMark a" st] by (cases "look i st") simp_all
qed

end

section \<open>The PostgreSQL store keeps the contract\<close>

lemma pgAttachments_sel [simp]:
  "sp_awaitingScan pgAttachments = awaitingScan" "sp_byId pgAttachments = byId"
  "sp_expirable pgAttachments = expirable" "sp_transition pgAttachments = transitionFile"
  "sp_recordScan pgAttachments = recordScan"
  by (simp_all add: pgAttachments_def)

lemma transition_hit:
  assumes "wfFiles db"
  shows "fst (transitionFile inp db) \<longleftrightarrow> (\<exists>a. fileOf (ti_attachmentId inp) db = Some a \<and> ar_state a = ti_from inp)"
proof -
  have "list_ex (transitionHits inp) xs \<longleftrightarrow>
      (\<exists>a. find (\<lambda>a. ar_attachmentId a = ti_attachmentId inp) xs = Some a \<and> ar_state a = ti_from inp)"
    if "distinct (map ar_attachmentId xs)" for xs
    using that
  proof (induction xs)
    case (Cons x xs)
    show ?case
    proof (cases "ar_attachmentId x = ti_attachmentId inp")
      case True
      with Cons.prems have "\<not> list_ex (transitionHits inp) xs"
        by (auto simp: list_ex_iff transitionHits_def image_iff)
      with True show ?thesis by (simp add: transitionHits_def[of inp x])
    qed (use Cons in \<open>simp add: transitionHits_def\<close>)
  qed simp
  with assms show ?thesis by (simp add: transitionFile_def fileOf_def wfFiles_def)
qed

lemma wfFiles_keep: "map ar_attachmentId (db_files db') = map ar_attachmentId (db_files db) \<Longrightarrow> wfFiles db' = wfFiles db"
  by (simp add: wfFiles_def)

lemma wfFiles_ops [simp]:
  "wfFiles (snd (transitionFile inp db)) = wfFiles db" "wfFiles (recordScan row db) = wfFiles db"
  "wfFiles (snd (bindTo j mid cid db)) = wfFiles db"
  by (rule wfFiles_keep, simp add: transitionFile_def bindTo_def recordScan_def updateWhere_def)+

interpretation pa: attachment_port pgAttachments fileOf wfFiles
  by unfold_locales
     (auto simp: fileOf_transition applyWrite_simps transition_hit fileOf_key)

end
