(* ===== verification/Attachment_Run.thy ===== *)
theory Attachment_Run
  imports Attachment_Sweeps
begin

text \<open>
  Attachments under concurrency. Uploads are granted and announced, any number of scan workers and
  expiry sweeps run with records they read some time ago, messages bind files, and a worker may die
  between two statements: every interleaving of their statements on the store is a run.
\<close>

section \<open>The steps\<close>

record AttachmentSystem =
  sy_db :: AttachmentDb
  sy_seen :: "AttachmentRecord list"
  sy_workers :: "(AttachmentRecord \<times> StoreWrite list) list"

inductive attachmentStep :: "AttachmentPolicy \<Rightarrow> AttachmentSystem \<Rightarrow> AttachmentSystem \<Rightarrow> bool"
  for policy where
  granted: "insertGrant plusSeconds inp (sy_db s) = Some db' \<Longrightarrow> attachmentStep policy s (s\<lparr>sy_db := db'\<rparr>)"
| announced: "attachmentStep policy s
    (s\<lparr>sy_db := snd (transitionFile (simpleTransition i UPLOAD_GRANTED QUARANTINED) (sy_db s))\<rparr>)"
| seen: "fileOf i (sy_db s) = Some a \<Longrightarrow>
    attachmentStep policy s (s\<lparr>sy_seen := a\<lparr>ar_sensitivity := sens\<rparr> # sy_seen s\<rparr>)"
| claimed: "a \<in> set (sy_seen s) \<Longrightarrow> ar_quarantineKey a = Some key \<Longrightarrow>
    transitionFile (claimForScan a) (sy_db s) = (True, db') \<Longrightarrow>
    afterScan policy (storage :: unit ObjectStorageProvider) t a key scanned () = (ws, acted, ()) \<Longrightarrow>
    attachmentStep policy s (s\<lparr>sy_db := db', sy_workers := sy_workers s @ [(a, ws)]\<rparr>)"
| wrote: "sy_workers s = pre @ (a, x # ws) # post \<Longrightarrow>
    attachmentStep policy s
      (s\<lparr>sy_db := runWrite pgAttachments x (sy_db s), sy_workers := pre @ (a, ws) # post\<rparr>)"
| crashed: "sy_workers s = pre @ (a, ws) # post \<Longrightarrow>
    attachmentStep policy s (s\<lparr>sy_workers := pre @ post\<rparr>)"
| bound: "attachmentStep policy s (s\<lparr>sy_db := snd (bindTo i mid cid (sy_db s))\<rparr>)"
| expired: "a \<in> set (sy_seen s) \<Longrightarrow> expiredBy t a \<Longrightarrow>
    attachmentStep policy s (s\<lparr>sy_db := snd (transitionFile (expireMark a) (sy_db s))\<rparr>)"

inductive attachmentRun :: "AttachmentPolicy \<Rightarrow> AttachmentSystem \<Rightarrow> AttachmentSystem \<Rightarrow> bool"
  for policy where
  start: "attachmentRun policy s s"
| step: "attachmentRun policy s s' \<Longrightarrow> attachmentStep policy s' s'' \<Longrightarrow> attachmentRun policy s s''"

text \<open>Where a run begins: no uploads, nobody at work.\<close>

definition freshSystem :: "AttachmentSystem \<Rightarrow> bool" where
  "freshSystem s \<longleftrightarrow> db_files (sy_db s) = [] \<and> db_scans (sy_db s) = [] \<and> sy_seen s = [] \<and> sy_workers s = []"

section \<open>What a worker still has to write\<close>

fun planned :: "StoreWrite list \<Rightarrow> AttachmentState option" where
  "planned [] = None"
| "planned (WriteTransition inp # ws) = Some (ti_to inp)"
| "planned (WriteScan row # ws) = planned ws"

definition condemned :: "UUID \<Rightarrow> ScanRow list \<Rightarrow> bool" where
  "condemned i scans \<longleftrightarrow>
     list_ex (\<lambda>r. sc_attachment_id r = i \<and> sc_verdict r \<in> {''INFECTED'', ''REJECTED''}) scans"

definition cleared :: "UUID \<Rightarrow> ScanRow list \<Rightarrow> bool" where
  "cleared i scans \<longleftrightarrow> list_ex (\<lambda>r. sc_attachment_id r = i \<and> sc_verdict r = ''CLEAN'') scans"

definition permitted :: "AttachmentPolicy \<Rightarrow> AttachmentRecord \<Rightarrow> string \<Rightarrow> int \<Rightarrow> bool" where
  "permitted policy a sniffed bytes \<longleftrightarrow>
     checkReceived policy (ar_uploaderKind a) (ar_declaredMime a) (ar_declaredBytes a) sniffed bytes = None"

inductive goodWrites :: "AttachmentPolicy \<Rightarrow> AttachmentRecord \<Rightarrow> ScanRow list \<Rightarrow> StoreWrite list \<Rightarrow> bool"
  for policy a where
  nothing: "goodWrites policy a scans []"
| giveBack: "goodWrites policy a scans [backToQuarantine a]"
| noteFailure: "sc_attachment_id r = ar_attachmentId a \<Longrightarrow> sc_verdict r = ''FAILED'' \<Longrightarrow>
    goodWrites policy a scans [WriteScan r, backToQuarantine a]"
| condemn: "condemned (ar_attachmentId a) scans \<Longrightarrow> v \<in> {INFECTED, REJECTED} \<Longrightarrow>
    goodWrites policy a scans [WriteTransition (simpleTransition (ar_attachmentId a) SCANNING v)]"
| noteVerdict: "sc_attachment_id r = ar_attachmentId a \<Longrightarrow> sc_verdict r \<in> {''INFECTED'', ''REJECTED''} \<Longrightarrow>
    v \<in> {INFECTED, REJECTED} \<Longrightarrow>
    goodWrites policy a scans [WriteScan r, WriteTransition (simpleTransition (ar_attachmentId a) SCANNING v)]"
| clear: "cleared (ar_attachmentId a) scans \<Longrightarrow> permitted policy a sniffed bytes \<Longrightarrow>
    goodWrites policy a scans [WriteTransition (cleanTransition a sniffed bytes key c)]"
| noteClean: "sc_attachment_id r = ar_attachmentId a \<Longrightarrow> sc_verdict r = ''CLEAN'' \<Longrightarrow> permitted policy a sniffed bytes \<Longrightarrow>
    goodWrites policy a scans [WriteScan r, WriteTransition (cleanTransition a sniffed bytes key c)]"

inductive_cases goodWrites_ScanE: "goodWrites policy a scans (WriteScan r # ws)"
inductive_cases goodWrites_TransE: "goodWrites policy a scans (WriteTransition inp # ws)"

lemma policyFor_employee: "k \<noteq> K_CUSTOMER \<Longrightarrow> policyFor policy K_EMPLOYEE = policyFor policy k"
  by (simp add: policyFor_def)

lemma checkReceived_kind:
  "checkReceived policy (if k = K_CUSTOMER then K_CUSTOMER else K_EMPLOYEE) = checkReceived policy k"
  by (simp add: checkReceived_def fun_eq_iff policyFor_def)

lemma settle_writes:
  "v \<in> {INFECTED, REJECTED} \<Longrightarrow> settle a v = [WriteTransition (simpleTransition (ar_attachmentId a) SCANNING v)]"
  by (auto simp: settle_def advance_def)

lemma noteVerdict_goodWrites:
  assumes "v \<in> {INFECTED, REJECTED}" and "verdict \<in> {''INFECTED'', ''REJECTED''}"
  shows "goodWrites policy a scans (WriteScan (scanRow a verdict scanner detail t) # settle a v)"
  unfolding settle_writes[OF assms(1)] using assms by (intro noteVerdict) (simp_all add: scanRow_def)

lemma afterClean_goodWrites:
  "goodWrites policy a scans (fst (afterClean policy storage t a key sniffed bytes scanner c w))"
proof (cases "checkReceived policy (ar_uploaderKind a) (ar_declaredMime a) (ar_declaredBytes a) sniffed bytes")
  case None
  show ?thesis
  proof (cases "os_promote storage key w")
    case (Pair res w1)
    with None show ?thesis
      by (cases res) (simp_all add: afterClean_def checkReceived_kind giveBack noteClean scanRow_def permitted_def)
  qed
next
  case (Some refusal)
  then show ?thesis by (simp add: afterClean_def checkReceived_kind noteVerdict_goodWrites)
qed

lemma afterScan_goodWrites:
  assumes "afterScan policy storage t a key scanned w = (ws, acted, w')"
  shows "goodWrites policy a scans ws"
proof (cases scanned)
  case (Inl e)
  with assms show ?thesis by (auto simp: afterScan_def scanRow_def intro: noteFailure)
next
  case (Inr verdict)
  show ?thesis
  proof (cases verdict)
    case (VERDICT_CLEAN sniffed bytes scanner c)
    with assms Inr have "ws = fst (afterClean policy storage t a key sniffed bytes scanner c w)"
      by (simp add: afterScan_def)
    then show ?thesis by (simp only: afterClean_goodWrites)
  next
    case (VERDICT_INFECTED signature scanner)
    with assms Inr show ?thesis by (auto simp: afterScan_def intro: noteVerdict_goodWrites)
  next
    case (VERDICT_REJECTED reason x y scanner)
    with assms Inr show ?thesis by (auto simp: afterScan_def intro: noteVerdict_goodWrites)
  qed
qed

lemma condemned_append [simp]:
  "condemned i (xs @ [r]) \<longleftrightarrow> condemned i xs \<or> sc_attachment_id r = i \<and> sc_verdict r \<in> {''INFECTED'', ''REJECTED''}"
  by (simp add: condemned_def)

lemma cleared_append [simp]:
  "cleared i (xs @ [r]) \<longleftrightarrow> cleared i xs \<or> sc_attachment_id r = i \<and> sc_verdict r = ''CLEAN''"
  by (simp add: cleared_def)

lemma goodWrites_mono: "goodWrites policy a scans ws \<Longrightarrow> goodWrites policy a (scans @ [r]) ws"
  by (induction rule: goodWrites.induct) (auto intro: goodWrites.intros)

text \<open>After the record of the scan, what is left is again good, and plans the same state.\<close>

lemma goodWrites_afterScan:
  assumes "goodWrites policy a scans (WriteScan r # ws)"
  shows "goodWrites policy a (scans @ [r]) ws" and "planned ws \<noteq> None" and "sc_attachment_id r = ar_attachmentId a"
    and "sc_verdict r \<in> {''INFECTED'', ''REJECTED''} \<Longrightarrow> planned ws \<in> {Some INFECTED, Some REJECTED}"
proof -
  show "goodWrites policy a (scans @ [r]) ws"
    using assms by (cases rule: goodWrites_ScanE) (auto simp: backToQuarantine_def giveBack condemn clear
      giveBack[unfolded backToQuarantine_def])
  show "planned ws \<noteq> None"
    using assms by (cases rule: goodWrites_ScanE) (auto simp: backToQuarantine_def)
  show "sc_attachment_id r = ar_attachmentId a"
    using assms by (cases rule: goodWrites_ScanE) (auto simp: backToQuarantine_def)
  show "planned ws \<in> {Some INFECTED, Some REJECTED}" if "sc_verdict r \<in> {''INFECTED'', ''REJECTED''}"
    using assms that by (cases rule: goodWrites_ScanE) (auto simp: backToQuarantine_def simpleTransition_def)
qed

lemma goodWrites_afterTransition:
  assumes "goodWrites policy a scans (WriteTransition inp # ws)"
  shows "ws = []" and "ti_attachmentId inp = ar_attachmentId a" and "ti_from inp = SCANNING"
    and "ti_to inp \<in> {QUARANTINED, INFECTED, REJECTED, CLEAN}"
    and "ti_to inp = CLEAN \<Longrightarrow> cleared (ar_attachmentId a) scans \<and> ti_cleanKey inp \<noteq> None \<and>
      (\<exists>sniffed bytes. ti_sniffedMime inp = Some sniffed \<and> ti_actualBytes inp = Some bytes \<and> permitted policy a sniffed bytes)"
proof -
  show "ws = []" using assms by (cases rule: goodWrites_TransE) auto
  show "ti_attachmentId inp = ar_attachmentId a"
    using assms by (cases rule: goodWrites_TransE) (auto simp: backToQuarantine_def simpleTransition_def cleanTransition_def)
  show "ti_from inp = SCANNING"
    using assms by (cases rule: goodWrites_TransE) (auto simp: backToQuarantine_def simpleTransition_def cleanTransition_def)
  show "ti_to inp \<in> {QUARANTINED, INFECTED, REJECTED, CLEAN}"
    using assms by (cases rule: goodWrites_TransE) (auto simp: backToQuarantine_def simpleTransition_def cleanTransition_def)
  show "cleared (ar_attachmentId a) scans \<and> ti_cleanKey inp \<noteq> None \<and>
      (\<exists>sniffed bytes. ti_sniffedMime inp = Some sniffed \<and> ti_actualBytes inp = Some bytes \<and> permitted policy a sniffed bytes)"
    if "ti_to inp = CLEAN"
    using assms that
    by (cases rule: goodWrites_TransE) (auto simp: backToQuarantine_def simpleTransition_def cleanTransition_def)
qed

section \<open>The invariant\<close>

text \<open>The columns of a file that never change.\<close>

definition sameDeclared :: "AttachmentRecord \<Rightarrow> AttachmentRecord \<Rightarrow> bool" where
  "sameDeclared a b \<longleftrightarrow> ar_attachmentId a = ar_attachmentId b \<and> ar_declaredMime a = ar_declaredMime b \<and>
     ar_declaredBytes a = ar_declaredBytes b \<and> ar_uploaderKind a = ar_uploaderKind b"

definition known :: "AttachmentDb \<Rightarrow> AttachmentRecord \<Rightarrow> bool" where
  "known db a \<longleftrightarrow> (\<exists>b. fileOf (ar_attachmentId a) db = Some b \<and> sameDeclared a b)"

definition scannedOk :: "AttachmentPolicy \<Rightarrow> ScanRow list \<Rightarrow> AttachmentRecord \<Rightarrow> bool" where
  "scannedOk policy scans a \<longleftrightarrow>
     cleared (ar_attachmentId a) scans \<and> ar_cleanKey a \<noteq> None \<and>
     ar_sniffedMime a = Some (ar_declaredMime a) \<and> ar_actualBytes a = Some (ar_declaredBytes a) \<and>
     permitted policy a (ar_declaredMime a) (ar_declaredBytes a)"

definition goodFile :: "AttachmentPolicy \<Rightarrow> ScanRow list \<Rightarrow> AttachmentRecord \<Rightarrow> bool" where
  "goodFile policy scans a \<longleftrightarrow>
     (ar_state a \<in> {CLEAN, BOUND} \<longrightarrow> scannedOk policy scans a) \<and>
     (ar_state a = BOUND \<longleftrightarrow> ar_messageId a \<noteq> None) \<and> (ar_state a = BOUND \<longrightarrow> ar_expiresAt a = None) \<and>
     (condemned (ar_attachmentId a) scans \<longrightarrow> ar_state a \<in> {SCANNING, INFECTED, REJECTED, EXPIRED})"

definition goodWorker :: "AttachmentPolicy \<Rightarrow> AttachmentDb \<Rightarrow> AttachmentRecord \<times> StoreWrite list \<Rightarrow> bool" where
  "goodWorker policy db aw = (case aw of (a, ws) \<Rightarrow>
     known db a \<and> goodWrites policy a (db_scans db) ws \<and>
     (planned ws \<noteq> None \<longrightarrow>
       (\<exists>b. fileOf (ar_attachmentId a) db = Some b \<and> ar_state b \<in> {SCANNING, EXPIRED})) \<and>
     (condemned (ar_attachmentId a) (db_scans db) \<longrightarrow> planned ws \<in> {None, Some INFECTED, Some REJECTED}))"

definition busy :: "(AttachmentRecord \<times> StoreWrite list) list \<Rightarrow> UUID list" where
  "busy workers = map (\<lambda>(a, ws). ar_attachmentId a) (filter (\<lambda>(a, ws). planned ws \<noteq> None) workers)"

definition soundDb :: "AttachmentPolicy \<Rightarrow> AttachmentDb \<Rightarrow> bool" where
  "soundDb policy db \<longleftrightarrow> wfFiles db \<and>
     (\<forall>i a. fileOf i db = Some a \<longrightarrow> goodFile policy (db_scans db) a) \<and>
     (\<forall>r \<in> set (db_scans db). fileOf (sc_attachment_id r) db \<noteq> None)"

definition soundSystem :: "AttachmentPolicy \<Rightarrow> AttachmentSystem \<Rightarrow> bool" where
  "soundSystem policy s \<longleftrightarrow> soundDb policy (sy_db s) \<and>
     (\<forall>a \<in> set (sy_seen s). known (sy_db s) a) \<and>
     (\<forall>aw \<in> set (sy_workers s). goodWorker policy (sy_db s) aw) \<and> distinct (busy (sy_workers s))"

section \<open>Every step keeps the invariant\<close>

text \<open>An update of the files, one by one, that leaves the declared columns and the scans alone.\<close>

definition refiles :: "(AttachmentRecord \<Rightarrow> AttachmentRecord) \<Rightarrow> AttachmentDb \<Rightarrow> AttachmentDb \<Rightarrow> bool" where
  "refiles f db db' \<longleftrightarrow> (\<forall>i. fileOf i db' = map_option f (fileOf i db)) \<and> db_scans db' = db_scans db \<and>
     wfFiles db' = wfFiles db \<and> (\<forall>a. sameDeclared a (f a))"

lemma sameDeclared_trans: "sameDeclared a b \<Longrightarrow> sameDeclared b c \<Longrightarrow> sameDeclared a c"
  by (simp add: sameDeclared_def)

lemma db_scans_ops [simp]:
  "db_scans (snd (transitionFile inp db)) = db_scans db" "db_scans (snd (bindTo i mid cid db)) = db_scans db"
  "db_scans (recordScan row db) = db_scans db @ [row]"
  by (simp_all add: transitionFile_def bindTo_def recordScan_def)

lemma transition_refiles: "refiles (applyWrite (WriteTransition inp)) db (snd (transitionFile inp db))"
  by (auto simp: refiles_def fileOf_transition sameDeclared_def applyWrite_simps)

definition boundTo :: "UUID \<Rightarrow> UUID \<Rightarrow> UUID \<Rightarrow> AttachmentRecord \<Rightarrow> AttachmentRecord" where
  "boundTo i mid cid a =
     (if bindHits i cid a then a\<lparr>ar_messageId := Some mid, ar_state := BOUND, ar_expiresAt := None\<rparr> else a)"

lemma bindTo_refiles: "refiles (boundTo i mid cid) db (snd (bindTo i mid cid db))"
  by (auto simp: refiles_def fileOf_bindTo boundTo_def[abs_def] sameDeclared_def)

lemma known_refiles: "refiles f db db' \<Longrightarrow> known db a \<Longrightarrow> known db' a"
  unfolding known_def refiles_def using sameDeclared_trans by fastforce

lemma soundDb_refiles:
  assumes "refiles f db db'" and "soundDb policy db"
    and "\<And>a. fileOf (ar_attachmentId a) db = Some a \<Longrightarrow> goodFile policy (db_scans db) a \<Longrightarrow> goodFile policy (db_scans db) (f a)"
  shows "soundDb policy db'"
  unfolding soundDb_def
proof (intro conjI allI impI ballI)
  show "wfFiles db'" using assms by (simp add: soundDb_def refiles_def)
next
  fix i a assume "fileOf i db' = Some a"
  with assms(1) obtain b where b: "fileOf i db = Some b" "a = f b" by (auto simp: refiles_def)
  with fileOf_key[OF b(1)] assms show "goodFile policy (db_scans db') a"
    by (auto simp: refiles_def soundDb_def)
next
  fix r assume "r \<in> set (db_scans db')"
  with assms(1,2) show "fileOf (sc_attachment_id r) db' \<noteq> None" by (auto simp: refiles_def soundDb_def)
qed

lemma goodWorker_refiles:
  assumes "refiles f db db'" and "goodWorker policy db (a, ws)"
    and "\<And>b. planned ws \<noteq> None \<Longrightarrow> fileOf (ar_attachmentId a) db = Some b \<Longrightarrow> ar_state b \<in> {SCANNING, EXPIRED} \<Longrightarrow>
      ar_state (f b) \<in> {SCANNING, EXPIRED}"
  shows "goodWorker policy db' (a, ws)"
  using assms known_refiles[OF assms(1), of a] by (auto simp: goodWorker_def refiles_def)

lemma goodFile_transitioned:
  assumes "goodFile policy scans a" and "transitionHits inp a" and "ti_to inp \<notin> {CLEAN, BOUND}"
    and "ti_from inp \<noteq> BOUND" and "ti_from inp = SCANNING \<or> ti_to inp = EXPIRED \<or> ti_from inp = UPLOAD_GRANTED \<or> ti_from inp = QUARANTINED"
    and "condemned (ar_attachmentId a) scans \<Longrightarrow> ti_to inp \<in> {SCANNING, INFECTED, REJECTED, EXPIRED}"
  shows "goodFile policy scans (transitioned inp a)"
  using assms by (auto simp: goodFile_def transitionHits_def)

lemma soundSystem_refiles:
  assumes "refiles f (sy_db s) db'" and "soundSystem policy s"
    and "\<And>a. fileOf (ar_attachmentId a) (sy_db s) = Some a \<Longrightarrow> goodFile policy (db_scans (sy_db s)) a \<Longrightarrow>
      goodFile policy (db_scans (sy_db s)) (f a)"
    and "\<And>b. ar_state b \<in> {SCANNING, EXPIRED} \<Longrightarrow> ar_state (f b) \<in> {SCANNING, EXPIRED}"
  shows "soundSystem policy (s\<lparr>sy_db := db'\<rparr>)"
proof -
  have "goodWorker policy db' aw" if "aw \<in> set (sy_workers s)" for aw
  proof -
    obtain a ws where aw: "aw = (a, ws)" by fastforce
    with that assms(2) have "goodWorker policy (sy_db s) (a, ws)" by (auto simp: soundSystem_def)
    from goodWorker_refiles[OF assms(1) this] assms(4) show ?thesis by (simp add: aw)
  qed
  then show ?thesis
    using assms(2) soundDb_refiles[OF assms(1) _ assms(3)] known_refiles[OF assms(1)]
    by (auto simp: soundSystem_def)
qed

lemma announce_sound:
  assumes "soundSystem policy s"
  shows "soundSystem policy (s\<lparr>sy_db := snd (transitionFile (simpleTransition i UPLOAD_GRANTED QUARANTINED) (sy_db s))\<rparr>)"
proof (rule soundSystem_refiles[OF transition_refiles assms])
  show "goodFile policy (db_scans (sy_db s)) (applyWrite (WriteTransition (simpleTransition i UPLOAD_GRANTED QUARANTINED)) a)"
    if "goodFile policy (db_scans (sy_db s)) a" for a
    using that by (auto simp: applyWrite_simps goodFile_def transitionHits_def simpleTransition_def)
  show "ar_state (applyWrite (WriteTransition (simpleTransition i UPLOAD_GRANTED QUARANTINED)) b) \<in> {SCANNING, EXPIRED}"
    if "ar_state b \<in> {SCANNING, EXPIRED}" for b
    using that by (auto simp: applyWrite_simps transitionHits_def simpleTransition_def)
qed

lemma bind_sound:
  assumes "soundSystem policy s"
  shows "soundSystem policy (s\<lparr>sy_db := snd (bindTo i mid cid (sy_db s))\<rparr>)"
proof (rule soundSystem_refiles[OF bindTo_refiles assms])
  show "goodFile policy (db_scans (sy_db s)) (boundTo i mid cid a)" if "goodFile policy (db_scans (sy_db s)) a" for a
    using that by (auto simp: boundTo_def goodFile_def scannedOk_def permitted_def bindHits_def)
  show "ar_state (boundTo i mid cid b) \<in> {SCANNING, EXPIRED}" if "ar_state b \<in> {SCANNING, EXPIRED}" for b
    using that by (auto simp: boundTo_def bindHits_def)
qed

lemma expire_sound:
  assumes "soundSystem policy s" and "expiredBy t a"
  shows "soundSystem policy (s\<lparr>sy_db := snd (transitionFile (expireMark a) (sy_db s))\<rparr>)"
proof (rule soundSystem_refiles[OF transition_refiles assms(1)])
  show "goodFile policy (db_scans (sy_db s)) (applyWrite (WriteTransition (expireMark a)) b)"
    if "goodFile policy (db_scans (sy_db s)) b" for b
    using that assms(2)
    by (auto simp: applyWrite_simps goodFile_def transitionHits_def expireMark_def simpleTransition_def expiredBy_def)
  show "ar_state (applyWrite (WriteTransition (expireMark a)) b) \<in> {SCANNING, EXPIRED}"
    if "ar_state b \<in> {SCANNING, EXPIRED}" for b
    using that by (auto simp: applyWrite_simps transitionHits_def expireMark_def simpleTransition_def)
qed

text \<open>The states alone: what each statement makes of the state of one file.\<close>

definition stateOf :: "UUID \<Rightarrow> AttachmentDb \<Rightarrow> AttachmentState option" where
  "stateOf i db = map_option ar_state (fileOf i db)"

lemma stateOf_transition:
  "stateOf i (snd (transitionFile inp db)) =
    map_option (\<lambda>s. if i = ti_attachmentId inp \<and> s = ti_from inp then ti_to inp else s) (stateOf i db)"
  by (cases "fileOf i db") (auto simp: stateOf_def fileOf_transition transitionHits_def dest: fileOf_key)

lemma stateOf_bindTo:
  "stateOf i (snd (bindTo j mid cid db)) = stateOf i db \<or>
   stateOf i db = Some CLEAN \<and> stateOf i (snd (bindTo j mid cid db)) = Some BOUND"
  by (cases "fileOf i db") (auto simp: stateOf_def fileOf_bindTo bindHits_def)

lemma stateOf_recordScan [simp]: "stateOf i (recordScan r db) = stateOf i db"
  by (simp add: stateOf_def)

lemma stateOf_insertGrant:
  assumes "insertGrant ps inp db = Some db'" and "stateOf i db = Some s"
  shows "stateOf i db' = Some s"
proof -
  have "fileOf (gi_attachmentId inp) db = None"
    using assms(1) by (auto simp: insertGrant_def fileOf_def find_None_iff list_ex_iff split: if_splits)
  then show ?thesis using assms(2) by (auto simp: stateOf_def fileOf_insertGrant[OF assms(1)])
qed

text \<open>A new row concerns no worker, no reader and no scan.\<close>

lemma grant_sound:
  assumes "soundSystem policy s" and "insertGrant ps inp (sy_db s) = Some db'"
  shows "soundSystem policy (s\<lparr>sy_db := db'\<rparr>)"
proof -
  let ?i = "gi_attachmentId inp" and ?db = "sy_db s"
  have new: "fileOf ?i ?db = None" and scans: "db_scans db' = db_scans ?db"
    and ids: "map ar_attachmentId (db_files db') = map ar_attachmentId (db_files ?db) @ [?i]"
    and free: "?i \<notin> ar_attachmentId ` set (db_files ?db)"
    using assms(2)
    by (auto simp: insertGrant_def fileOf_def find_None_iff list_ex_iff grantedRow_def split: if_splits)
  have files: "fileOf i db' = (if i = ?i then Some (grantedRow ps inp) else fileOf i ?db)" for i
    by (rule fileOf_insertGrant[OF assms(2)])
  have known: "known ?db a \<Longrightarrow> known db' a" for a using new by (auto simp: known_def files)
  have "\<not> condemned ?i (db_scans ?db)"
    using assms(1) new by (auto simp: soundSystem_def soundDb_def condemned_def list_ex_iff)
  then have "goodFile policy (db_scans db') (grantedRow ps inp)"
    by (simp add: goodFile_def grantedRow_def scans)
  note new_good = this
  have sd: "soundDb policy ?db" using assms(1) by (simp add: soundSystem_def)
  have "soundDb policy db'"
    unfolding soundDb_def
  proof (intro conjI allI impI ballI)
    show "wfFiles db'" using sd free by (simp add: soundDb_def wfFiles_def ids)
  next
    fix i a assume "fileOf i db' = Some a"
    with new_good sd show "goodFile policy (db_scans db') a" by (auto simp: files scans soundDb_def split: if_splits)
  next
    fix r assume "r \<in> set (db_scans db')"
    with sd have "fileOf (sc_attachment_id r) ?db \<noteq> None" by (simp add: soundDb_def scans)
    then show "fileOf (sc_attachment_id r) db' \<noteq> None" by (simp add: files)
  qed
  moreover have "goodWorker policy db' aw" if aw: "aw \<in> set (sy_workers s)" for aw
  proof -
    obtain a ws where p: "aw = (a, ws)" by fastforce
    have g: "goodWorker policy ?db (a, ws)" using aw assms(1) p by (simp add: soundSystem_def)
    then have "ar_attachmentId a \<noteq> ?i" using new by (auto simp: goodWorker_def known_def)
    then have "fileOf (ar_attachmentId a) db' = fileOf (ar_attachmentId a) ?db" by (simp add: files)
    with g known[of a] show ?thesis by (simp add: p goodWorker_def scans)
  qed
  moreover have "known db' a" if "a \<in> set (sy_seen s)" for a
    using that assms(1) known by (simp add: soundSystem_def)
  moreover have "distinct (busy (sy_workers s))" using assms(1) by (simp add: soundSystem_def)
  ultimately show ?thesis by (simp add: soundSystem_def)
qed

lemma busy_append [simp]: "busy (xs @ ys) = busy xs @ busy ys"
  by (simp add: busy_def)

lemma busy_Cons [simp]:
  "busy ((a, ws) # xs) = (if planned ws = None then busy xs else ar_attachmentId a # busy xs)"
  by (simp add: busy_def)

lemma busy_Nil [simp]: "busy [] = []"
  by (simp add: busy_def)

lemma in_busy: "(a, ws) \<in> set xs \<Longrightarrow> planned ws \<noteq> None \<Longrightarrow> ar_attachmentId a \<in> set (busy xs)"
  by (force simp: busy_def)

lemma claim_sound:
  assumes "soundSystem policy s" and "a \<in> set (sy_seen s)" and "transitionFile (claimForScan a) (sy_db s) = (True, db')"
    and "afterScan policy storage t a key scanned w = (ws, acted, w')"
  shows "soundSystem policy (s\<lparr>sy_db := db', sy_workers := sy_workers s @ [(a, ws)]\<rparr>)"
proof -
  let ?db = "sy_db s" and ?i = "ar_attachmentId a"
  let ?f = "applyWrite (WriteTransition (claimForScan a))"
  have wf: "wfFiles ?db" using assms(1) by (simp add: soundSystem_def soundDb_def)
  have db': "db' = snd (transitionFile (claimForScan a) ?db)" by (simp add: assms(3))
  have re: "refiles ?f ?db db'" unfolding db' by (rule transition_refiles)
  from transition_hit[OF wf, of "claimForScan a"] assms(3) obtain b where b: "fileOf ?i ?db = Some b" "ar_state b = QUARANTINED"
    by (auto simp: claimForScan_def simpleTransition_def)
  have "goodFile policy (db_scans ?db) b" using assms(1) b(1) by (auto simp: soundSystem_def soundDb_def)
  then have free: "\<not> condemned ?i (db_scans ?db)" using b fileOf_key[OF b(1)] by (auto simp: goodFile_def)
  have idle: "?i \<notin> set (busy (sy_workers s))"
    using assms(1) b by (auto simp: soundSystem_def busy_def goodWorker_def)
  have "soundSystem policy (s\<lparr>sy_db := db'\<rparr>)"
  proof (rule soundSystem_refiles[OF re assms(1)])
    show "goodFile policy (db_scans ?db) (?f c)" if "goodFile policy (db_scans ?db) c" for c
      using that free by (auto simp: applyWrite_simps goodFile_def transitionHits_def claimForScan_def simpleTransition_def)
    show "ar_state (?f c) \<in> {SCANNING, EXPIRED}" if "ar_state c \<in> {SCANNING, EXPIRED}" for c
      using that by (auto simp: applyWrite_simps transitionHits_def claimForScan_def simpleTransition_def)
  qed
  moreover have "goodWorker policy db' (a, ws)"
  proof -
    have "known db' a" using assms(1,2) known_refiles[OF re] by (auto simp: soundSystem_def)
    moreover have "fileOf ?i db' = Some (?f b)" using re b(1) by (simp add: refiles_def)
    moreover have "ar_state (?f b) = SCANNING"
      using b fileOf_key[OF b(1)]
      by (simp add: applyWrite_simps transitionHits_def claimForScan_def simpleTransition_def)
    moreover have "db_scans db' = db_scans ?db" using re by (simp add: refiles_def)
    ultimately show ?thesis using free afterScan_goodWrites[OF assms(4)] by (auto simp: goodWorker_def)
  qed
  ultimately show ?thesis using idle assms(1) by (auto simp: soundSystem_def)
qed

lemma scanned_sound:
  assumes "soundSystem policy s" and "sy_workers s = pre @ (a, WriteScan r # ws) # post"
  shows "soundSystem policy (s\<lparr>sy_db := recordScan r (sy_db s), sy_workers := pre @ (a, ws) # post\<rparr>)"
proof -
  let ?db = "sy_db s" and ?i = "ar_attachmentId a"
  have me: "goodWorker policy ?db (a, WriteScan r # ws)" using assms by (auto simp: soundSystem_def)
  then have good: "goodWrites policy a (db_scans ?db) (WriteScan r # ws)" and known: "known ?db a"
    by (auto simp: goodWorker_def)
  note rest = goodWrites_afterScan[OF good]
  from me rest(2) obtain b where b: "fileOf ?i ?db = Some b" "ar_state b \<in> {SCANNING, EXPIRED}"
    by (auto simp: goodWorker_def)
  have k: "known (recordScan r ?db) c = known ?db c" for c by (simp add: known_def)
  have dist: "distinct (busy (pre @ (a, ws) # post))"
    using assms rest(2) by (simp add: soundSystem_def)
  have files: "goodFile policy (db_scans ?db @ [r]) c" if "fileOf i ?db = Some c" for i c
  proof -
    have "goodFile policy (db_scans ?db) c" using assms(1) that by (auto simp: soundSystem_def soundDb_def)
    moreover have "ar_attachmentId c = ?i \<Longrightarrow> c = b" using that b fileOf_key[OF that] by auto
    ultimately show ?thesis using b(2) rest(3) by (auto simp: goodFile_def scannedOk_def)
  qed
  have other: "goodWorker policy (recordScan r ?db) (c, vs)" if "(c, vs) \<in> set pre \<union> set post" for c vs
  proof -
    have g: "goodWorker policy ?db (c, vs)" using that assms by (auto simp: soundSystem_def)
    moreover have "ar_attachmentId c = ?i \<Longrightarrow> planned vs = None"
      using that dist rest(2) in_busy[of c vs pre] in_busy[of c vs post] by (auto split: if_splits)
    ultimately show ?thesis using rest(3) by (auto simp: goodWorker_def k intro: goodWrites_mono)
  qed
  have "goodWorker policy (recordScan r ?db) (a, ws)"
    using me rest known by (auto simp: goodWorker_def k)
  moreover have "soundDb policy (recordScan r ?db)"
    using assms(1) files b(1) rest(3) by (auto simp: soundSystem_def soundDb_def)
  ultimately show ?thesis
    using assms(1) other dist by (auto simp: soundSystem_def k)
qed

lemma transitioned_sound:
  assumes "soundSystem policy s" and "sy_workers s = pre @ (a, WriteTransition inp # ws) # post"
  shows "soundSystem policy (s\<lparr>sy_db := snd (transitionFile inp (sy_db s)), sy_workers := pre @ (a, ws) # post\<rparr>)"
proof -
  let ?db = "sy_db s" and ?i = "ar_attachmentId a" and ?f = "applyWrite (WriteTransition inp)"
  let ?db' = "snd (transitionFile inp ?db)"
  have me: "goodWorker policy ?db (a, WriteTransition inp # ws)" using assms by (auto simp: soundSystem_def)
  then have good: "goodWrites policy a (db_scans ?db) (WriteTransition inp # ws)" and known: "known ?db a"
    and cond: "condemned ?i (db_scans ?db) \<Longrightarrow> ti_to inp \<in> {INFECTED, REJECTED}"
    by (auto simp: goodWorker_def)
  note rest = goodWrites_afterTransition[OF good]
  have re: "refiles ?f ?db ?db'" by (rule transition_refiles)
  have dist: "?i \<notin> set (busy pre) \<union> set (busy post)" "distinct (busy (pre @ (a, ws) # post))"
    using assms rest(1) by (auto simp: soundSystem_def)
  have good': "goodFile policy (db_scans ?db) (?f c)"
    if c: "fileOf (ar_attachmentId c) ?db = Some c" "goodFile policy (db_scans ?db) c" for c
  proof (cases "transitionHits inp c")
    case True
    then have id: "ar_attachmentId c = ?i" and st: "ar_state c = SCANNING"
      using rest(2,3) by (auto simp: transitionHits_def)
    show ?thesis
    proof (cases "ti_to inp = CLEAN")
      case False
      with True c rest(3,4) cond id show ?thesis
        unfolding applyWrite_simps by (auto intro!: goodFile_transitioned)
    next
      case True
      from rest(5)[OF True] obtain sniffed bytes where e: "cleared ?i (db_scans ?db)" "ti_cleanKey inp \<noteq> None"
          "ti_sniffedMime inp = Some sniffed" "ti_actualBytes inp = Some bytes" "permitted policy a sniffed bytes"
        by auto
      have same: "sameDeclared a c" using known c(1) id by (simp add: known_def)
      then have p: "permitted policy c sniffed bytes" using e(5) by (simp add: permitted_def sameDeclared_def)
      then have eq: "sniffed = ar_declaredMime c" "bytes = ar_declaredBytes c"
        by (simp_all add: permitted_def checkReceived_None)
      have nc: "\<not> condemned ?i (db_scans ?db)" using cond True by auto
      have "permitted policy (transitioned inp c) (ar_declaredMime c) (ar_declaredBytes c)"
        using p eq by (simp add: permitted_def)
      with \<open>transitionHits inp c\<close> c(2) st id nc e eq True show ?thesis
        by (simp add: applyWrite_simps goodFile_def scannedOk_def)
           (auto simp: transitioned_def coalesce_def split: option.splits)
    qed
  next
    case False
    with c show ?thesis by (simp add: applyWrite_simps)
  qed
  have other: "goodWorker policy ?db' (c, vs)" if "(c, vs) \<in> set pre \<union> set post" for c vs
  proof (rule goodWorker_refiles[OF re])
    show "goodWorker policy ?db (c, vs)" using that assms by (auto simp: soundSystem_def)
    fix b assume b: "planned vs \<noteq> None" "fileOf (ar_attachmentId c) ?db = Some b" "ar_state b \<in> {SCANNING, EXPIRED}"
    have "ar_attachmentId c \<noteq> ?i"
      using that b(1) dist(1) in_busy[of c vs pre] in_busy[of c vs post] by auto
    then have "\<not> transitionHits inp b" using fileOf_key[OF b(2)] rest(2) by (auto simp: transitionHits_def)
    with b(3) show "ar_state (?f b) \<in> {SCANNING, EXPIRED}" by (simp add: applyWrite_simps)
  qed
  have "goodWorker policy ?db' (a, ws)"
    using known_refiles[OF re known] by (simp add: goodWorker_def rest(1) goodWrites.nothing)
  moreover have "soundDb policy ?db'"
    using assms(1) good' by (intro soundDb_refiles[OF re]) (auto simp: soundSystem_def)
  moreover have "known ?db' c" if "c \<in> set (sy_seen s)" for c
    using that assms(1) known_refiles[OF re] by (auto simp: soundSystem_def)
  ultimately show ?thesis using other dist(2) by (auto simp: soundSystem_def)
qed

lemma step_sound:
  assumes "attachmentStep policy s s'" and "soundSystem policy s"
  shows "soundSystem policy s'"
  using assms
proof (induction rule: attachmentStep.induct)
  case (granted plusSeconds inp s db')
  then show ?case by (rule grant_sound[rotated])
next
  case (announced s i)
  then show ?case by (rule announce_sound)
next
  case (seen i s a sens)
  have "known (sy_db s) (a\<lparr>ar_sensitivity := sens\<rparr>)"
    using seen.hyps fileOf_key[OF seen.hyps] by (simp add: known_def sameDeclared_def)
  with seen.prems show ?case by (simp add: soundSystem_def)
next
  case (claimed a s key db' storage t scanned ws acted)
  then show ?case by (intro claim_sound)
next
  case (wrote s pre a x ws post)
  then show ?case by (cases x) (simp_all add: scanned_sound transitioned_sound)
next
  case (crashed s pre a ws post)
  then show ?case by (auto simp: soundSystem_def split: if_splits)
next
  case (bound s i mid cid)
  then show ?case by (rule bind_sound)
next
  case (expired a s t)
  then show ?case by (intro expire_sound)
qed

lemma run_sound:
  assumes "attachmentRun policy s s'" and "freshSystem s"
  shows "soundSystem policy s'"
  using assms
proof (induction rule: attachmentRun.induct)
  case (start s)
  then show ?case
    by (simp add: freshSystem_def soundSystem_def soundDb_def wfFiles_def fileOf_def)
qed (blast intro: step_sound)

end
