(* ===== verification/Authz_Reader.thy ===== *)
theory Authz_Reader
  imports Message_Store
begin

text \<open>
  What the read paths tell the decision about a conversation: \<open>loadForAuthorization\<close> of
  \<open>infrastructure/database/src/repositories/authz-reader.ts\<close>, and its agreement with the resource
  the message write path assembles from its own transaction.
\<close>

section \<open>One query for the resource\<close>

definition participantRowFor :: "UUID \<Rightarrow> UUID \<Rightarrow> 'x Db_scheme \<Rightarrow> ParticipantRow option" where
  "participantRowFor cid who db =
     find (\<lambda>p. pa_conversation_id p = cid \<and> pa_principal_id p = who) (db_participants db)"

definition participantFactsOf :: "ParticipantRow \<Rightarrow> ParticipantFacts" where
  "participantFactsOf p =
     \<lparr>p_role = pa_role p, p_replyAuthority = pa_reply_authority p,
      p_effectiveFrom = pa_effective_from p, p_effectiveTo = pa_effective_to p\<rparr>"

definition loadForAuthorization :: "UUID \<Rightarrow> UUID \<Rightarrow> Timestamp \<Rightarrow> 'x Db_scheme \<Rightarrow> ResourceContext option" where
  "loadForAuthorization cid who now db =
     map_option (\<lambda>c.
       let sc = caseOf c db;
           t = Option.bind (Option.bind sc sc_owning_team_id)
                 (\<lambda>k. find (\<lambda>t. te_team_id t = k) (db_teams db));
           p = participantRowFor cid who db;
           ch = find (\<lambda>r. ch_conversation_id r = cid) (db_channels db);
           isCustomer = map_option pa_principal_kind p = Some K_CUSTOMER
       in \<lparr>r_conversationId = cr_conversation_id c,
           r_conversationType = cr_conversation_type c,
           r_caseId = cr_case_id c,
           r_owningTeamId = Option.bind sc sc_owning_team_id,
           r_owningDepartment = Option.bind t te_department,
           r_currentOwnerId = Option.bind sc sc_current_owner_id,
           r_customerRef = cr_customer_ref c,
           r_sensitivity = cr_sensitivity c,
           r_participant = map_option participantFactsOf p,
           r_belongsToActorCustomer =
             (if isCustomer
              then Some (case p of None \<Rightarrow> False
                | Some r \<Rightarrow> isWithinPeriod now (pa_effective_from r) (pa_effective_to r))
              else None),
           r_customerVerifiedAt = None,
           r_channel = channelFactsFrom ch
             (case ch of None \<Rightarrow> False | Some r \<Rightarrow> channelVisible who r db)\<rparr>)
       (findConversation cid db)"

section \<open>The two readings agree\<close>

text \<open>What a decision does not look at: the channel of another type, and whose customer an employee is.\<close>

definition sameForDecision :: "ActorContext \<Rightarrow> ResourceContext \<Rightarrow> ResourceContext \<Rightarrow> bool" where
  "sameForDecision a r r' \<longleftrightarrow>
     r\<lparr>r_channel := None, r_belongsToActorCustomer := None\<rparr> =
       r'\<lparr>r_channel := None, r_belongsToActorCustomer := None\<rparr> \<and>
     (r_conversationType r = INTERNAL_CHANNEL \<longrightarrow> r_channel r = r_channel r') \<and>
     (a_kind a = K_CUSTOMER \<longrightarrow>
       (r_belongsToActorCustomer r = Some True \<longleftrightarrow> r_belongsToActorCustomer r' = Some True))"

lemma sameForDecision_fields:
  assumes "sameForDecision a r r'"
  shows "r_conversationId r' = r_conversationId r" "r_conversationType r' = r_conversationType r"
    "r_caseId r' = r_caseId r" "r_owningTeamId r' = r_owningTeamId r"
    "r_owningDepartment r' = r_owningDepartment r" "r_currentOwnerId r' = r_currentOwnerId r"
    "r_customerRef r' = r_customerRef r" "r_sensitivity r' = r_sensitivity r"
    "r_participant r' = r_participant r" "r_customerVerifiedAt r' = r_customerVerifiedAt r"
  using assms by (cases r; cases r'; simp add: sameForDecision_def)+

lemma scopeCovers_same: "sameForDecision a r r' \<Longrightarrow> scopeCovers k i b r' = scopeCovers k i b r"
  by (simp add: scopeCovers_def sameForDecision_fields cong: option.case_cong ScopeKind.case_cong)

lemma passesSensitivity_same: "sameForDecision a r r' \<Longrightarrow> passesSensitivity b r' now = passesSensitivity b r now"
  by (simp add: passesSensitivity_def sameForDecision_fields scopeCovers_same cong: option.case_cong)

lemma decide_same:
  assumes "sameForDecision (q_actor q) (q_resource q) r'"
  shows "decide (q\<lparr>q_resource := r'\<rparr>) = decide q"
proof -
  note same = sameForDecision_fields[OF assms] scopeCovers_same[OF assms] passesSensitivity_same[OF assms]
  have priv: "privilegedAction (q\<lparr>q_resource := r'\<rparr>) = privilegedAction q"
    by (simp add: privilegedAction_def)
  have owner: "isOwner (q\<lparr>q_resource := r'\<rparr>) = isOwner q"
    and live: "isLiveParticipant (q\<lparr>q_resource := r'\<rparr>) = isLiveParticipant q"
    by (simp_all add: isOwner_def isLiveParticipant_def same cong: option.case_cong)
  have tmp: "temporaryRung (q\<lparr>q_resource := r'\<rparr>) = temporaryRung q"
    by (simp add: temporaryRung_def temporaryMatches_def[abs_def] same priv)
  have chan: "channelRung (q\<lparr>q_resource := r'\<rparr>) = channelRung q"
  proof (cases "r_conversationType (q_resource q) = INTERNAL_CHANNEL")
    case True
    with assms have "r_channel r' = r_channel (q_resource q)" by (simp add: sameForDecision_def)
    then have "decideChannel r' a l = decideChannel (q_resource q) a l" for a l
      by (simp add: decideChannel_def same cong: option.case_cong)
    then show ?thesis
      by (simp add: channelRung_def live tmp same priv cong: ChannelVerdict.case_cong option.case_cong)
  next
    case False
    then show ?thesis by (simp add: channelRung_def same)
  qed
  have own: "ownerRung (q\<lparr>q_resource := r'\<rparr>) = ownerRung q"
    by (simp add: ownerRung_def owner)
  have aud: "auditRung (q\<lparr>q_resource := r'\<rparr>) = auditRung q"
    by (simp add: auditRung_def auditGrant_def[abs_def] owner live)
  have sel: "q_action (q\<lparr>q_resource := r'\<rparr>) = q_action q" "q_resource (q\<lparr>q_resource := r'\<rparr>) = r'" by simp_all
  have par: "participantRung (q\<lparr>q_resource := r'\<rparr>) = participantRung q"
    by (simp only: participantRung_def live same sel)
  have pri: "privateRung (q\<lparr>q_resource := r'\<rparr>) = privateRung q"
    by (simp add: privateRung_def live same priv)
  have dm: "delegationMatches (q\<lparr>q_resource := r'\<rparr>) = delegationMatches q"
    by (simp add: fun_eq_iff delegationMatches_def same)
  have del: "delegationRung (q\<lparr>q_resource := r'\<rparr>) = delegationRung q"
    by (cases "find (delegationMatches q) (a_delegations (q_actor q))") (simp_all add: delegationRung_def dm same priv)
  have gm: "grantMatches (q\<lparr>q_resource := r'\<rparr>) = grantMatches q"
    by (simp add: fun_eq_iff grantMatches_def same)
  have gra: "grantRung (q\<lparr>q_resource := r'\<rparr>) = grantRung q"
    by (cases "find (grantMatches q) (a_grants (q_actor q))") (simp_all add: grantRung_def gm same priv)
  have emp: "decideEmployee (q\<lparr>q_resource := r'\<rparr>) = decideEmployee q"
    by (simp only: decideEmployee_def own aud chan par tmp pri del gra live)
       (simp only: priv)
  show ?thesis
    using assms emp by (auto simp: decide_def decideCustomer_def sameForDecision_def priv same)
qed

lemma loadParticipant_facts:
  "map_option participantFacts (loadParticipant cid who db) = map_option participantFactsOf (participantRowFor cid who db)"
  by (simp add: loadParticipant_def participantRowFor_def participantFacts_def participantFactsOf_def[abs_def]
      option.map_comp comp_def)

lemma loadChannelFacts_row:
  "findConversation cid db = Some c \<Longrightarrow> loadChannelFacts cid who db =
    (let ch = find (\<lambda>r. ch_conversation_id r = cid) (db_channels db)
     in channelFactsFrom ch (case ch of None \<Rightarrow> False | Some r \<Rightarrow> channelVisible who r db))"
  by (simp add: loadChannelFacts_def)

lemma loadConversation_authz:
  assumes "loadConversationForUpdate cid db = Some c" and "loadForAuthorization cid who now db = Some r"
    and kind: "\<And>p. participantRowFor cid who db = Some p \<Longrightarrow> pa_principal_kind p = K_CUSTOMER \<longleftrightarrow> a_kind a = K_CUSTOMER"
  shows "sameForDecision a r
    (conversationResource (pgTx t e) db c who None (a_kind a = K_CUSTOMER) now)"
proof -
  from assms(2) obtain row where row: "findConversation cid db = Some row"
    by (auto simp: loadForAuthorization_def)
  have cid: "cr_conversation_id row = cid"
    using find_SomeD[OF row[unfolded findConversation_def]] by simp
  define sc where "sc = caseOf row db"
  define tm where "tm = Option.bind (Option.bind sc sc_owning_team_id) (\<lambda>k. find (\<lambda>t. te_team_id t = k) (db_teams db))"
  define chan where "chan = (let ch = find (\<lambda>r. ch_conversation_id r = cid) (db_channels db)
     in channelFactsFrom ch (case ch of None \<Rightarrow> False | Some r \<Rightarrow> channelVisible who r db))"
  from assms(1) row have c: "c = toConversation row sc tm"
    by (simp add: loadConversationForUpdate_def Let_def sc_def tm_def)
  have part: "map_option participantFacts (tx_loadParticipant (pgTx t e) cid who db) =
      map_option participantFactsOf (participantRowFor cid who db)"
    by (simp add: pgTx_def loadParticipant_facts)
  have ch: "tx_loadChannelFacts (pgTx t e) cid who db = chan"
    by (simp add: pgTx_def loadChannelFacts_row[OF row] chan_def)
  have r: "r = \<lparr>r_conversationId = cid, r_conversationType = cr_conversation_type row, r_caseId = cr_case_id row,
      r_owningTeamId = Option.bind sc sc_owning_team_id, r_owningDepartment = Option.bind tm te_department,
      r_currentOwnerId = Option.bind sc sc_current_owner_id, r_customerRef = cr_customer_ref row,
      r_sensitivity = cr_sensitivity row, r_participant = map_option participantFactsOf (participantRowFor cid who db),
      r_belongsToActorCustomer =
        (if map_option pa_principal_kind (participantRowFor cid who db) = Some K_CUSTOMER
         then Some (case participantRowFor cid who db of None \<Rightarrow> False
           | Some r \<Rightarrow> isWithinPeriod now (pa_effective_from r) (pa_effective_to r)) else None),
      r_customerVerifiedAt = None, r_channel = chan\<rparr>"
    using assms(2) row by (simp add: loadForAuthorization_def Let_def sc_def tm_def chan_def cid)
  show ?thesis
    using kind
    by (cases "participantRowFor cid who db")
       (auto simp: sameForDecision_def conversationResource_def r c toConversation_def cid part ch
         participantFactsOf_def isWithinPeriod_def)
qed

text \<open>The resource that \<open>sendMessage\<close> assembles from its transaction.\<close>

lemma sendRequest_resource:
  assumes "loadConversationForUpdate (sm_conversationId cmd) db = Some c"
  shows "q_resource (sendRequest (pgTx t e) cmd now db c) =
    conversationResource (pgTx t e) db c (a_principalId (sm_actor cmd)) None (a_kind (sm_actor cmd) = K_CUSTOMER) now"
proof -
  have "cv_conversationId c = sm_conversationId cmd"
    using assms
    by (auto simp: loadConversationForUpdate_def toConversation_def findConversation_def Let_def dest: find_SomeD)
  then show ?thesis
    by (cases "tx_loadParticipant (pgTx t e) (sm_conversationId cmd) (a_principalId (sm_actor cmd)) db")
      (simp_all add: sendRequest_def conversationResource_def Let_def participantFacts_def)
qed

text \<open>
  C40: reading and writing decide alike. If the seat of the sender in the conversation is of the kind the
  sender has (a customer's seat for a customer, another one for anybody else), or there is no seat, then the
  decision \<open>sendMessage\<close> takes on the resource it assembles from its own transaction is the decision on the
  resource that \<open>loadForAuthorization\<close>, the one query of the read paths, loads for that person at that
  instant: the same verdict, on the same basis, or the same reason.
\<close>

theorem read_and_write_paths_decide_alike:
  assumes "loadConversationForUpdate (sm_conversationId cmd) db = Some c"
    and "loadForAuthorization (sm_conversationId cmd) (a_principalId (sm_actor cmd)) now db = Some r"
    and "case participantRowFor (sm_conversationId cmd) (a_principalId (sm_actor cmd)) db of None \<Rightarrow> True
      | Some p \<Rightarrow> pa_principal_kind p = K_CUSTOMER \<longleftrightarrow> a_kind (sm_actor cmd) = K_CUSTOMER"
  shows "decide (sendRequest (pgTx t e) cmd now db c) =
    decide ((sendRequest (pgTx t e) cmd now db c)\<lparr>q_resource := r\<rparr>)"
proof -
  let ?q = "sendRequest (pgTx t e) cmd now db c"
  have actor: "q_actor ?q = sm_actor cmd" by (simp add: sendRequest_def Let_def)
  have "sameForDecision (q_actor ?q) r (q_resource ?q)"
    unfolding sendRequest_resource[OF assms(1)] actor
    using assms(3) by (intro loadConversation_authz[OF assms(1,2)]) simp
  then have "decide ((?q\<lparr>q_resource := r\<rparr>)\<lparr>q_resource := q_resource ?q\<rparr>) = decide (?q\<lparr>q_resource := r\<rparr>)"
    by (intro decide_same) simp
  then show ?thesis by simp
qed

end
