(* ===== verification/Attachment_Service.thy ===== *)
theory Attachment_Service
  imports Attachment_Sweeps Authz_Reader Actor
begin

text \<open>
  Attachments on the two surfaces: the download ladder of \<open>apps/api/src/attachments/attachment-access.ts\<close>,
  the service of \<open>attachment-service.ts\<close> and the handlers of \<open>attachments.controller.ts\<close>. The audit
  writer of \<open>apps/api/src/audit/audit-writer.ts\<close> fails when the ledger cannot be written, which is
  the argument \<open>auditUp\<close>. The resolution of a principal by the identity service is the argument
  \<open>identity\<close>. The correlation id, the logs and the metrics are left out.
\<close>

section \<open>The audit ledger\<close>

datatype AuditOutcome = AUDIT_SUCCEEDED | AUDIT_REFUSED | AUDIT_FAILED

record AuditEvent =
  ax_actorId :: UUID
  ax_actorKind :: PrincipalKind
  ax_action :: string
  ax_targetKind :: string
  ax_targetId :: UUID
  ax_outcome :: AuditOutcome
  ax_reason :: "string option"
  ax_detail :: "(string \<times> DetailValue) list option"

record ServiceDb = AttachmentDb +
  db_audit :: "AuditEvent list"
  db_case_categories :: "(UUID \<times> string) list"

text \<open>\<open>AuditWriter.record\<close>: \<open>None\<close> is the exception, which only \<open>mustSucceed\<close> lets out.\<close>

definition auditRecord :: "bool \<Rightarrow> bool \<Rightarrow> AuditEvent \<Rightarrow> ServiceDb \<Rightarrow> ServiceDb option" where
  "auditRecord auditUp mustSucceed event db =
     (if auditUp then Some (db\<lparr>db_audit := db_audit db @ [event]\<rparr>)
      else if mustSucceed then None else Some db)"

section \<open>The download ladder\<close>

datatype AccessRefusal = NOT_FOUND_OR_NOT_PERMITTED | INTERNAL_NOTE_ATTACHMENT | NOT_REACHABLE

definition refusalText :: "AccessRefusal \<Rightarrow> string" where
  "refusalText r =
     (case r of NOT_FOUND_OR_NOT_PERMITTED \<Rightarrow> ''NOT_FOUND_OR_NOT_PERMITTED''
      | INTERNAL_NOTE_ATTACHMENT \<Rightarrow> ''INTERNAL_NOTE_ATTACHMENT'' | NOT_REACHABLE \<Rightarrow> ''NOT_REACHABLE'')"

record AccessPorts =
  xp_mayActOnConversation :: "UUID \<Rightarrow> UUID \<Rightarrow> string \<Rightarrow> bool"
  xp_messageVisibility :: "UUID \<Rightarrow> MessageVisibility option"

definition decideAttachmentAccess ::
  "AttachmentRecord option \<Rightarrow> UUID \<Rightarrow> PrincipalKind \<Rightarrow> AccessPorts \<Rightarrow> AccessRefusal + (string \<times> Utf16)" where
  "decideAttachmentAccess attachment who k ports =
     (case attachment of
        None \<Rightarrow> Inl NOT_FOUND_OR_NOT_PERMITTED
      | Some a \<Rightarrow>
          if \<not> xp_mayActOnConversation ports who (ar_conversationId a) ''conversation.attachment.download''
          then Inl NOT_FOUND_OR_NOT_PERMITTED
          else if k = K_CUSTOMER \<and> ar_messageId a = None then Inl NOT_REACHABLE
          else if k = K_CUSTOMER \<and>
                  Option.bind (ar_messageId a) (xp_messageVisibility ports) \<noteq> Some CUSTOMER_VISIBLE
          then Inl INTERNAL_NOTE_ATTACHMENT
          else (case ar_cleanKey a of
              None \<Rightarrow> Inl NOT_REACHABLE
            | Some key \<Rightarrow>
                if \<not> isReachable (ar_state a) then Inl NOT_REACHABLE
                else Inr (key, case ar_originalFilename a of None \<Rightarrow> utf16 ''attachment'' | Some f \<Rightarrow> f)))"

text \<open>The ports of the two surfaces: the same decision as every read path, or live participation.\<close>

definition employeeMayAct ::
  "(UUID \<Rightarrow> PrincipalClaims option) \<Rightarrow> Timestamp \<Rightarrow> 'x Db_scheme \<Rightarrow> UUID \<Rightarrow> UUID \<Rightarrow> string \<Rightarrow> bool" where
  "employeeMayAct identity t db who cid act =
     (case loadForAuthorization cid who t db of
        None \<Rightarrow> False
      | Some resource \<Rightarrow>
          (case identity who of
             None \<Rightarrow> False
           | Some claims \<Rightarrow>
               allow (decide \<lparr>q_actor = toActorContext claims, q_action = act, q_resource = resource,
                 q_now = t, q_requiredAssurance = None, q_targetVisibility = None\<rparr>)))"

definition customerMayAct :: "Timestamp \<Rightarrow> 'x Db_scheme \<Rightarrow> UUID \<Rightarrow> UUID \<Rightarrow> string \<Rightarrow> bool" where
  "customerMayAct t db who cid act =
     list_ex (\<lambda>p. pa_conversation_id p = cid \<and> pa_principal_id p = who \<and>
       isWithinPeriod t (pa_effective_from p) (pa_effective_to p)) (db_participants db)"

definition portsFor ::
  "(UUID \<Rightarrow> PrincipalClaims option) \<Rightarrow> Timestamp \<Rightarrow> PrincipalKind \<Rightarrow> 'x Db_scheme \<Rightarrow> AccessPorts" where
  "portsFor identity t k db =
     \<lparr>xp_mayActOnConversation =
        (if k = K_CUSTOMER then customerMayAct t db else employeeMayAct identity t db),
      xp_messageVisibility =
        (\<lambda>mid. map_option me_visibility (find (\<lambda>m. me_message_id m = mid) (db_messages db)))\<rparr>"

section \<open>The service\<close>

datatype GrantRefusal = UPLOAD_REFUSED UploadRefusal | GRANT_STORAGE_UNAVAILABLE

datatype DownloadRefusal = ACCESS_REFUSED AccessRefusal | DOWNLOAD_STORAGE_UNAVAILABLE

record UploadRequest =
  ur_conversationId :: UUID
  ur_categoryId :: "string option"
  ur_uploaderId :: UUID
  ur_uploaderKind :: PrincipalKind
  ur_declaredMime :: string
  ur_declaredBytes :: int
  ur_filename :: Utf16
  ur_durationMs :: "int option"

definition uploadRefusalText :: "UploadRefusal \<Rightarrow> string" where
  "uploadRefusalText r =
     (case r of UPLOADS_NOT_PERMITTED_FOR_CATEGORY \<Rightarrow> ''UPLOADS_NOT_PERMITTED_FOR_CATEGORY''
      | MIME_NOT_ALLOWED \<Rightarrow> ''MIME_NOT_ALLOWED'' | UPLOAD_TOO_LARGE \<Rightarrow> ''TOO_LARGE'' | UPLOAD_EMPTY \<Rightarrow> ''EMPTY'')"

definition uploadRefusedEvent :: "UploadRequest \<Rightarrow> UploadRefusal \<Rightarrow> AuditEvent" where
  "uploadRefusedEvent inp why =
     \<lparr>ax_actorId = ur_uploaderId inp, ax_actorKind = ur_uploaderKind inp,
      ax_action = ''attachment.upload.refused'', ax_targetKind = ''conversation'',
      ax_targetId = ur_conversationId inp, ax_outcome = AUDIT_REFUSED,
      ax_reason = Some (uploadRefusalText why),
      ax_detail = Some [(''declaredMime'', DText (ur_declaredMime inp)),
        (''declaredBytes'', DNumber (ur_declaredBytes inp))]\<rparr>"

definition grantUpload ::
  "bool \<Rightarrow> 'w ObjectStorageProvider \<Rightarrow> (Timestamp \<Rightarrow> int \<Rightarrow> Timestamp) \<Rightarrow> int \<Rightarrow> UUID \<Rightarrow> Timestamp \<Rightarrow>
   UploadRequest \<Rightarrow> ServiceDb \<times> 'w \<Rightarrow>
   (GrantRefusal + (UUID \<times> string \<times> Timestamp)) Outcome \<times> ServiceDb \<times> 'w" where
  "grantUpload auditUp storage plusSeconds ttl newId t inp = (\<lambda>(db, w).
     (case checkUploadIntent DEFAULT_POLICY
         \<lparr>ui_uploaderKind = ur_uploaderKind inp, ui_declaredMime = ur_declaredMime inp,
          ui_declaredBytes = ur_declaredBytes inp, ui_categoryId = ur_categoryId inp\<rparr> of
        Some why \<Rightarrow>
          (case auditRecord auditUp False (uploadRefusedEvent inp why) db of
             None \<Rightarrow> (Threw, db, w)
           | Some db' \<Rightarrow> (Returned (Inl (UPLOAD_REFUSED why)), db', w))
      | None \<Rightarrow>
          (case os_issueUploadGrant storage
              \<lparr>ug_conversationId = ur_conversationId inp, ug_declaredMime = ur_declaredMime inp,
               ug_declaredBytes = ur_declaredBytes inp, ug_purpose = ''conversation-attachment''\<rparr> w of
             (Inl e, w1) \<Rightarrow> (Returned (Inl GRANT_STORAGE_UNAVAILABLE), db, w1)
           | (Inr g, w1) \<Rightarrow>
               (case insertGrant plusSeconds
                   \<lparr>gi_attachmentId = newId, gi_conversationId = ur_conversationId inp,
                    gi_uploaderId = ur_uploaderId inp, gi_uploaderKind = ur_uploaderKind inp,
                    gi_declaredMime = ur_declaredMime inp, gi_declaredBytes = ur_declaredBytes inp,
                    gi_originalFilename = sanitiseFilename (ur_filename inp),
                    gi_quarantineKey = gr_quarantineKey g, gi_at = t, gi_unboundTtlSeconds = ttl,
                    gi_durationMs = ur_durationMs inp\<rparr> (AttachmentDb.truncate db) of
                  None \<Rightarrow> (Threw, db, w1)
                | Some db1 \<Rightarrow>
                    (Returned (Inr (newId, gr_url g, gr_expiresAt g)),
                     db\<lparr>db_files := db_files db1\<rparr>, w1)))))"

definition markUploaded ::
  "'w AttachmentScanner \<Rightarrow> 'w ObjectStorageProvider \<Rightarrow> Timestamp \<Rightarrow> UUID \<Rightarrow> UUID \<Rightarrow>
   AttachmentDb \<times> 'w \<Rightarrow> AttachmentState option \<times> AttachmentDb \<times> 'w" where
  "markUploaded scanner storage t i who = (\<lambda>(db, w).
     (case byId i db of
        None \<Rightarrow> (None, db, w)
      | Some a \<Rightarrow>
          if ar_uploaderId a \<noteq> Some who then (None, db, w)
          else (case transitionFile (simpleTransition i UPLOAD_GRANTED QUARANTINED) db of
             (moved, db1) \<Rightarrow>
               if \<not> moved then (None, db1, w)
               else (case scanOne pgAttachments DEFAULT_POLICY scanner storage t i (db1, w) of
                  (_, db2, w2) \<Rightarrow>
                    (Some (case byId i db2 of None \<Rightarrow> QUARANTINED | Some b \<Rightarrow> ar_state b), db2, w2)))))"

definition uploadState :: "UUID \<Rightarrow> UUID \<Rightarrow> AttachmentDb \<Rightarrow> AttachmentState option" where
  "uploadState i who db =
     (case byId i db of
        None \<Rightarrow> None
      | Some a \<Rightarrow> if ar_uploaderId a \<noteq> Some who then None else Some (ar_state a))"

fun bindAll :: "UUID list \<Rightarrow> UUID \<Rightarrow> UUID \<Rightarrow> AttachmentDb \<Rightarrow> UUID list \<times> UUID list \<times> AttachmentDb" where
  "bindAll [] mid cid db = ([], [], db)"
| "bindAll (i # is) mid cid db =
     (let (ok, db1) = bindTo i mid cid db;
          (bound, notBound, db2) = bindAll is mid cid db1
      in if ok then (i # bound, notBound, db2) else (bound, i # notBound, db2))"

definition downloadRefusedEvent ::
  "UUID \<Rightarrow> PrincipalKind \<Rightarrow> UUID \<Rightarrow> AttachmentRecord option \<Rightarrow> AccessRefusal \<Rightarrow> AuditEvent" where
  "downloadRefusedEvent who k i attachment why =
     \<lparr>ax_actorId = who, ax_actorKind = k, ax_action = ''attachment.download.refused'',
      ax_targetKind = ''attachment'', ax_targetId = i, ax_outcome = AUDIT_REFUSED,
      ax_reason = Some (refusalText why),
      ax_detail = map_option (\<lambda>a. [(''conversationId'', DText (ar_conversationId a))]) attachment\<rparr>"

definition sensitivityText :: "SensitivityClass option \<Rightarrow> string" where
  "sensitivityText s =
     (case s of None \<Rightarrow> ''ORDINARY'' | Some ORDINARY \<Rightarrow> ''ORDINARY'' | Some FINANCIAL \<Rightarrow> ''FINANCIAL''
      | Some MEDICAL \<Rightarrow> ''MEDICAL'' | Some LEGAL \<Rightarrow> ''LEGAL'' | Some GRIEVANCE \<Rightarrow> ''GRIEVANCE'')"

definition downloadEvent :: "UUID \<Rightarrow> PrincipalKind \<Rightarrow> UUID \<Rightarrow> AttachmentRecord \<Rightarrow> AuditEvent" where
  "downloadEvent who k i a =
     \<lparr>ax_actorId = who, ax_actorKind = k, ax_action = ''attachment.download'',
      ax_targetKind = ''attachment'', ax_targetId = i, ax_outcome = AUDIT_SUCCEEDED, ax_reason = None,
      ax_detail = Some [(''conversationId'', DText (ar_conversationId a)),
        (''sensitivity'', DText (sensitivityText (ar_sensitivity a))),
        (''dlpClassification'', DText (case ar_classification a of None \<Rightarrow> ''NONE'' | Some c \<Rightarrow> c))]\<rparr>"

definition grantDownload ::
  "bool \<Rightarrow> 'w ObjectStorageProvider \<Rightarrow> int \<Rightarrow> UUID \<Rightarrow> UUID \<Rightarrow> PrincipalKind \<Rightarrow> AccessPorts \<Rightarrow>
   ServiceDb \<times> 'w \<Rightarrow> (DownloadRefusal + (string \<times> Utf16)) Outcome \<times> ServiceDb \<times> 'w" where
  "grantDownload auditUp storage ttl i who k ports = (\<lambda>(db, w).
     (let attachment = byId i (AttachmentDb.truncate db)
      in case decideAttachmentAccess attachment who k ports of
           Inl why \<Rightarrow>
             (case auditRecord auditUp False (downloadRefusedEvent who k i attachment why) db of
                None \<Rightarrow> (Threw, db, w)
              | Some db' \<Rightarrow> (Returned (Inl (ACCESS_REFUSED why)), db', w))
         | Inr (cleanKey, filename) \<Rightarrow>
             (case auditRecord auditUp False (downloadEvent who k i (the attachment)) db of
                None \<Rightarrow> (Threw, db, w)
              | Some db' \<Rightarrow>
                  (case os_issueDownloadGrant storage cleanKey ttl w of
                     (Inl e, w1) \<Rightarrow> (Returned (Inl DOWNLOAD_STORAGE_UNAVAILABLE), db', w1)
                   | (Inr url, w1) \<Rightarrow> (Returned (Inr (url, filename)), db', w1)))))"

section \<open>The handlers\<close>

record Intake =
  in_filename :: Utf16
  in_declaredMime :: string
  in_declaredBytes :: int
  in_durationMs :: "int option"

text \<open>\<open>intakeSchema\<close>.\<close>

definition intakeValid :: "Intake \<Rightarrow> bool" where
  "intakeValid b \<longleftrightarrow> 1 \<le> length (in_filename b) \<and> length (in_filename b) \<le> 400 \<and>
     1 \<le> length (in_declaredMime b) \<and> length (in_declaredMime b) \<le> 200 \<and>
     0 < in_declaredBytes b \<and> (case in_durationMs b of None \<Rightarrow> True | Some d \<Rightarrow> 0 < d)"

datatype UploadResponse =
    REFUSE
  | PAYLOAD_TOO_LARGE VoiceNoteRefusal
  | ATTACHMENT_TOO_LARGE int
  | STORAGE_DOWN
  | SERVER_ERROR
  | GRANTED UUID string Timestamp

text \<open>The column \<open>category_id\<close> of \<open>service_cases\<close> is kept in a table of its own, by case.\<close>

definition categoryOf :: "UUID \<Rightarrow> ServiceDb \<Rightarrow> string option" where
  "categoryOf cid db =
     Option.bind (findConversation cid db) (\<lambda>c.
       Option.bind (caseOf c db) (\<lambda>s. map_of (db_case_categories db) (sc_case_id s)))"

definition employeeRequestUpload ::
  "bool \<Rightarrow> 'w ObjectStorageProvider \<Rightarrow> (Timestamp \<Rightarrow> int \<Rightarrow> Timestamp) \<Rightarrow> int \<Rightarrow> VoiceNoteLimits \<Rightarrow>
   (UUID \<Rightarrow> PrincipalClaims option) \<Rightarrow> UUID \<Rightarrow> Timestamp \<Rightarrow> UUID \<Rightarrow> UUID \<Rightarrow> Intake \<Rightarrow>
   ServiceDb \<times> 'w \<Rightarrow> UploadResponse \<times> ServiceDb \<times> 'w" where
  "employeeRequestUpload auditUp storage plusSeconds ttl limits identity newId t who cid body = (\<lambda>(db, w).
     if \<not> isUuid cid \<or> \<not> intakeValid body then (REFUSE, db, w)
     else if \<not> xp_mayActOnConversation (portsFor identity t K_EMPLOYEE db) who cid ''conversation.read''
     then (REFUSE, db, w)
     else (case refuseVoiceNote (in_declaredMime body) (in_declaredBytes body) (in_durationMs body) limits of
        Some tooBig \<Rightarrow> (PAYLOAD_TOO_LARGE tooBig, db, w)
      | None \<Rightarrow>
          (case grantUpload auditUp storage plusSeconds ttl newId t
              \<lparr>ur_conversationId = cid, ur_categoryId = None, ur_uploaderId = who,
               ur_uploaderKind = K_EMPLOYEE, ur_declaredMime = in_declaredMime body,
               ur_declaredBytes = in_declaredBytes body, ur_filename = in_filename body,
               ur_durationMs = in_durationMs body\<rparr> (db, w) of
             (Threw, sw) \<Rightarrow> (SERVER_ERROR, sw)
           | (Returned (Inl GRANT_STORAGE_UNAVAILABLE), sw) \<Rightarrow> (STORAGE_DOWN, sw)
           | (Returned (Inl (UPLOAD_REFUSED why)), sw) \<Rightarrow>
               (if why = UPLOAD_TOO_LARGE
                then ATTACHMENT_TOO_LARGE (ceilingFor (policyFor DEFAULT_POLICY K_EMPLOYEE) (in_declaredMime body))
                else REFUSE, sw)
           | (Returned (Inr (i, url, e)), sw) \<Rightarrow> (GRANTED i url e, sw))))"

definition customerRequestUpload ::
  "bool \<Rightarrow> 'w ObjectStorageProvider \<Rightarrow> (Timestamp \<Rightarrow> int \<Rightarrow> Timestamp) \<Rightarrow> int \<Rightarrow>
   (UUID \<Rightarrow> PrincipalClaims option) \<Rightarrow> UUID \<Rightarrow> Timestamp \<Rightarrow> UUID \<Rightarrow> UUID \<Rightarrow> Intake \<Rightarrow>
   ServiceDb \<times> 'w \<Rightarrow> UploadResponse \<times> ServiceDb \<times> 'w" where
  "customerRequestUpload auditUp storage plusSeconds ttl identity newId t who cid body = (\<lambda>(db, w).
     if \<not> isUuid cid \<or> \<not> intakeValid body then (REFUSE, db, w)
     else if \<not> xp_mayActOnConversation (portsFor identity t K_CUSTOMER db) who cid ''conversation.read''
     then (REFUSE, db, w)
     else
       (case grantUpload auditUp storage plusSeconds ttl newId t
           \<lparr>ur_conversationId = cid, ur_categoryId = categoryOf cid db, ur_uploaderId = who,
            ur_uploaderKind = K_CUSTOMER, ur_declaredMime = in_declaredMime body,
            ur_declaredBytes = in_declaredBytes body, ur_filename = in_filename body,
            ur_durationMs = None\<rparr> (db, w) of
          (Threw, sw) \<Rightarrow> (SERVER_ERROR, sw)
        | (Returned (Inl GRANT_STORAGE_UNAVAILABLE), sw) \<Rightarrow> (STORAGE_DOWN, sw)
        | (Returned (Inl (UPLOAD_REFUSED why)), sw) \<Rightarrow> (REFUSE, sw)
        | (Returned (Inr (i, url, e)), sw) \<Rightarrow> (GRANTED i url e, sw)))"

text \<open>The two download handlers; on the wire every refusal of an authorization looks the same.\<close>

definition downloadHandler ::
  "bool \<Rightarrow> 'w ObjectStorageProvider \<Rightarrow> int \<Rightarrow> (UUID \<Rightarrow> PrincipalClaims option) \<Rightarrow> Timestamp \<Rightarrow>
   PrincipalKind \<Rightarrow> UUID \<Rightarrow> UUID \<Rightarrow> ServiceDb \<times> 'w \<Rightarrow>
   (DownloadRefusal + (string \<times> Utf16)) Outcome \<times> ServiceDb \<times> 'w" where
  "downloadHandler auditUp storage ttl identity t k who i = (\<lambda>(db, w).
     if \<not> isUuid i then (Returned (Inl (ACCESS_REFUSED NOT_FOUND_OR_NOT_PERMITTED)), db, w)
     else grantDownload auditUp storage ttl i who k (portsFor identity t k db) (db, w))"

end
