(* ===== verification/Attachment_Props.thy ===== *)
theory Attachment_Props
  imports Attachment_Run Attachment_Service
begin

text \<open>
  The properties of attachments: what a reachable file has been through, what a verdict decides, which
  moves the stored states make, who is given a download, and who may upload what.
\<close>

section \<open>A small conversation\<close>

definition noFiles :: AttachmentDb where
  "noFiles =
     \<lparr>db_conversations = [\<lparr>cr_conversation_id = ''c1'', cr_conversation_type = INTERNAL_GROUP, cr_state = None,
        cr_case_id = None, cr_sensitivity = ORDINARY, cr_last_seq = 0, cr_customer_ref = None,
        cr_last_activity_at = ''2026-01-01T09:00:00.000Z'', cr_last_message_preview = [], cr_participant_count = 2\<rparr>],
      db_service_cases = [], db_teams = [], db_departments = [], db_team_memberships = [],
      db_participants = [], db_channels = [], db_channel_audience = [],
      db_messages = [], db_revisions = [], db_attachments = [], db_episodes = [], db_outbox = [],
      db_queue_entries = [], db_ownership_episodes = [], db_access_grants = [], db_reservations = [],
      db_capacity_policies = [], db_idempotency_records = [], db_ledger = [],
      db_files = [], db_scans = []\<rparr>"

definition pdfGrant :: GrantInput where
  "pdfGrant =
     \<lparr>gi_attachmentId = ''f1'', gi_conversationId = ''c1'', gi_uploaderId = ''ann'', gi_uploaderKind = K_EMPLOYEE,
      gi_declaredMime = ''application/pdf'', gi_declaredBytes = 5000, gi_originalFilename = utf16 ''claim.pdf'',
      gi_quarantineKey = ''quarantine/1'', gi_at = ''2026-01-01T09:00:00.000Z'', gi_unboundTtlSeconds = 3600,
      gi_durationMs = None\<rparr>"

text \<open>A storage of keys that can be down, and a scanner that finds what was declared.\<close>

type_synonym Bucket = "bool \<times> string list"

definition bucketDown :: AdapterError where
  "bucketDown = \<lparr>er_code = ''UNAVAILABLE'', er_message = ''the bucket is down'', er_retryable = True,
    er_failureClass = FAIL_CLOSED, er_correlationId = []\<rparr>"

definition bucket :: "Bucket ObjectStorageProvider" where
  "bucket =
     \<lparr>os_issueUploadGrant = (\<lambda>r (up, ks). if up
        then (Inr \<lparr>gr_quarantineKey = ''quarantine/1'', gr_url = ''put'', gr_expiresAt = ''2026-01-01T10:00:00.000Z''\<rparr>, (up, ks))
        else (Inl bucketDown, (up, ks))),
      os_promote = (\<lambda>k (up, ks). if up then (Inr (''clean/'' @ k), (up, (''clean/'' @ k) # ks)) else (Inl bucketDown, (up, ks))),
      os_issueDownloadGrant = (\<lambda>k ttl (up, ks). if up then (Inr (''get/'' @ k), (up, ks)) else (Inl bucketDown, (up, ks))),
      os_delete = (\<lambda>k (up, ks). if up then (Inr (), (up, filter (\<lambda>x. x \<noteq> k) ks)) else (Inl bucketDown, (up, ks)))\<rparr>"

definition honestScanner :: "'w AttachmentScanner" where
  "honestScanner rq w =
     (Inr (VERDICT_CLEAN (sq_declaredMime rq) (sq_declaredBytes rq) ''scanner'' None), w)"

section \<open>Reachable files\<close>

text \<open>
  C3: a reachable file has been scanned and is what it was said to be. In every run, under any
  interleaving of uploads, scan workers, crashes, expiry sweeps and bindings, a file that anybody can
  reach belongs to a message, has been moved to clean storage, will not expire, has a clean verdict on
  record, and its measured type and size are the declared ones and permitted to its uploader.
\<close>

theorem reachable_file_was_scanned:
  assumes "attachmentRun policy s0 s" and "freshSystem s0"
    and "fileOf i (sy_db s) = Some a" and "isReachable (ar_state a)"
  shows "ar_messageId a \<noteq> None \<and> ar_cleanKey a \<noteq> None \<and> ar_expiresAt a = None \<and>
    list_ex (\<lambda>r. sc_attachment_id r = i \<and> sc_verdict r = ''CLEAN'') (db_scans (sy_db s)) \<and>
    ar_sniffedMime a = Some (ar_declaredMime a) \<and> ar_actualBytes a = Some (ar_declaredBytes a) \<and>
    ar_declaredMime a \<in> set (up_allowedMimeTypes (policyFor policy (ar_uploaderKind a))) \<and>
    ar_declaredBytes a \<le> ceilingFor (policyFor policy (ar_uploaderKind a)) (ar_declaredMime a)"
proof -
  have "goodFile policy (db_scans (sy_db s)) a"
    using run_sound[OF assms(1,2)] assms(3) by (auto simp: soundSystem_def soundDb_def)
  with assms(4) fileOf_key[OF assms(3)] show ?thesis
    by (simp add: goodFile_def isReachable_def scannedOk_def cleared_def permitted_def checkReceived_None)
qed

text \<open>
  C38: a verdict against a file is final. Once an INFECTED or REJECTED verdict is on record, no
  interleaving with other workers, retries or messages makes the file clean or reachable, or offers
  it to a scanner again.
\<close>

theorem adverse_verdict_is_final:
  assumes "attachmentRun policy s0 s" and "freshSystem s0"
    and "list_ex (\<lambda>r. sc_attachment_id r = i \<and> sc_verdict r \<in> {''INFECTED'', ''REJECTED''}) (db_scans (sy_db s))"
    and "fileOf i (sy_db s) = Some a"
  shows "\<not> isReachable (ar_state a) \<and> ar_state a \<noteq> CLEAN \<and> ar_state a \<noteq> QUARANTINED"
proof -
  have "goodFile policy (db_scans (sy_db s)) a"
    using run_sound[OF assms(1,2)] assms(4) by (auto simp: soundSystem_def soundDb_def)
  with assms(3) fileOf_key[OF assms(4)] show ?thesis
    by (auto simp: goodFile_def isReachable_def condemned_def)
qed

section \<open>The stored states and the pipeline\<close>

text \<open>
  C37: the stored states follow the pipeline. A statement on the store leaves the state of a file or
  makes a move of the pipeline's table, with one exception that the table does not have: a
  scan or a promotion that could not run puts the file back in quarantine.
\<close>

theorem stored_states_follow_the_pipeline:
  assumes "attachmentRun policy s0 s" and "freshSystem s0" and "attachmentStep policy s s'"
    and "stateOf i (sy_db s) = Some x" and "stateOf i (sy_db s') = Some y"
  shows "y = x \<or> move x y \<or> x = SCANNING \<and> y = QUARANTINED \<and> \<not> move SCANNING QUARANTINED"
proof -
  have sound: "soundSystem policy s" using run_sound[OF assms(1,2)] .
  from assms(3,4,5) sound show ?thesis
  proof (induction rule: attachmentStep.induct)
    case (granted plusSeconds inp s db')
    from stateOf_insertGrant[OF granted.hyps granted.prems(1)] granted.prems(2) show ?case by simp
  next
    case (announced s j)
    from announced.prems(1,2) have "y = x \<or> x = UPLOAD_GRANTED \<and> y = QUARANTINED"
      by (auto simp: stateOf_transition simpleTransition_def split: if_splits)
    then show ?case by (auto simp: move_table)
  next
    case (claimed c s key db' storage t scanned ws acted)
    then have "stateOf i (snd (transitionFile (claimForScan c) (sy_db s))) = Some y" by simp
    with claimed.prems(1) have "y = x \<or> x = QUARANTINED \<and> y = SCANNING"
      by (auto simp: stateOf_transition claimForScan_def simpleTransition_def split: if_splits)
    then show ?case by (auto simp: move_table)
  next
    case (wrote s pre c z ws post)
    then have g: "goodWrites policy c (db_scans (sy_db s)) (z # ws)" by (auto simp: soundSystem_def goodWorker_def)
    show ?case
    proof (cases z)
      case (WriteScan r)
      with wrote show ?thesis by simp
    next
      case (WriteTransition inp)
      with wrote.prems(1,2) have "y = x \<or> x = ti_from inp \<and> y = ti_to inp"
        by (auto simp: stateOf_transition split: if_splits)
      with goodWrites_afterTransition(3,4)[OF g[unfolded WriteTransition]] show ?thesis
        by (auto simp: move_table)
    qed
  next
    case (bound s j mid cid)
    from bound.prems(1,2) stateOf_bindTo[of i j mid cid "sy_db s"] have "y = x \<or> x = CLEAN \<and> y = BOUND" by auto
    then show ?case by (auto simp: move_table)
  next
    case (expired c s t)
    from expired.prems(1,2) have "y = x \<or> x = ar_state c \<and> y = EXPIRED"
      by (auto simp: stateOf_transition expireMark_def simpleTransition_def split: if_splits)
    moreover from expired.hyps(2) have "isExpirable (ar_state c)" by (auto simp: expiredBy_def isExpirable_def)
    ultimately show ?case by (auto simp: expirable_moves)
  qed simp_all
qed

text \<open>
  a scan that dies is never repeated. A file left in SCANNING by a worker that is gone stays
  there, whatever runs afterwards, until it expires: no sweep looks at it and no message can have it.
\<close>

theorem abandoned_scan_is_never_repeated:
  assumes "attachmentRun policy s0 s" and "freshSystem s0" and "attachmentRun policy s s'"
    and "stateOf i (sy_db s) = Some SCANNING" and "i \<notin> set (busy (sy_workers s))"
  shows "stateOf i (sy_db s') \<in> {Some SCANNING, Some EXPIRED}"
proof -
  let ?inv = "\<lambda>s. soundSystem policy s \<and> stateOf i (sy_db s) \<in> {Some SCANNING, Some EXPIRED} \<and> i \<notin> set (busy (sy_workers s))"
  have keeps: "?inv s''" if "attachmentStep policy s' s''" "?inv s'" for s' s''
  proof -
    from that have "stateOf i (sy_db s'') \<in> {Some SCANNING, Some EXPIRED} \<and> i \<notin> set (busy (sy_workers s''))"
    proof (induction rule: attachmentStep.induct)
      case (granted plusSeconds inp s db')
      then show ?case using stateOf_insertGrant[of plusSeconds inp "sy_db s" db' i] by auto
    next
      case (announced s j)
      then show ?case by (auto simp: stateOf_transition simpleTransition_def)
    next
      case (claimed c s key db' storage t scanned ws acted)
      have wf: "wfFiles (sy_db s)" using claimed.prems by (simp add: soundSystem_def soundDb_def)
      have "ar_attachmentId c \<noteq> i"
        using transition_hit[OF wf, of "claimForScan c"] claimed.hyps(3) claimed.prems
        by (auto simp: claimForScan_def simpleTransition_def stateOf_def)
      moreover have "db' = snd (transitionFile (claimForScan c) (sy_db s))" by (simp add: claimed.hyps(3))
      ultimately show ?case using claimed.prems
        by (auto simp: stateOf_transition claimForScan_def simpleTransition_def)
    next
      case (wrote s pre c z ws post)
      then have g: "goodWrites policy c (db_scans (sy_db s)) (z # ws)" by (auto simp: soundSystem_def goodWorker_def)
      show ?case
      proof (cases z)
        case (WriteScan r)
        with wrote show ?thesis by (auto split: if_splits)
      next
        case (WriteTransition inp)
        with wrote have "ar_attachmentId c \<noteq> i" by auto
        with WriteTransition wrote goodWrites_afterTransition(1,2)[OF g[unfolded WriteTransition]] show ?thesis
          by (auto simp: stateOf_transition)
      qed
    next
      case (crashed s pre c ws post)
      then show ?case by (auto split: if_splits)
    next
      case (bound s j mid cid)
      then show ?case using stateOf_bindTo[of i j mid cid "sy_db s"] by auto
    next
      case (expired c s t)
      then show ?case by (auto simp: stateOf_transition expireMark_def simpleTransition_def)
    qed simp_all
    with step_sound[OF that(1)] that(2) show ?thesis by blast
  qed
  from assms(3) have "?inv s \<longrightarrow> ?inv s'"
  proof (induction rule: attachmentRun.induct)
    case (step s s' s'')
    then show ?case using keeps[OF step.hyps(2)] by blast
  qed blast
  with assms(4,5) run_sound[OF assms(1,2)] show ?thesis by blast
qed

end
