(* ===== verification/Attachment_Access.thy ===== *)
theory Attachment_Access
  imports Attachment_Props Messaging_Props
begin

text \<open>
  Who is given a file and who may bring one: the properties of the two surfaces, and concrete runs of
  the store on which the properties of \<open>Attachment_Props\<close> apply.
\<close>

section \<open>Concrete runs\<close>

definition unitStorage :: "unit ObjectStorageProvider" where
  "unitStorage =
     \<lparr>os_issueUploadGrant = (\<lambda>r w. (Inl bucketDown, w)), os_promote = (\<lambda>k w. (Inr (''clean/'' @ k), w)),
      os_issueDownloadGrant = (\<lambda>k ttl w. (Inl bucketDown, w)), os_delete = (\<lambda>k w. (Inr (), w))\<rparr>"

definition oneHour :: "Timestamp \<Rightarrow> int \<Rightarrow> Timestamp" where
  "oneHour t n = ''2026-01-01T10:00:00.000Z''"

definition granted1 :: AttachmentDb where "granted1 = the (insertGrant oneHour pdfGrant noFiles)"
definition waiting1 :: AttachmentDb where
  "waiting1 = snd (transitionFile (simpleTransition ''f1'' UPLOAD_GRANTED QUARANTINED) granted1)"
definition read1 :: AttachmentRecord where "read1 = (the (fileOf ''f1'' waiting1))\<lparr>ar_sensitivity := None\<rparr>"
definition scanning1 :: AttachmentDb where "scanning1 = snd (transitionFile (claimForScan read1) waiting1)"

definition writesOn :: "(AdapterError + ScanVerdict) \<Rightarrow> StoreWrite list" where
  "writesOn scanned = fst (afterScan DEFAULT_POLICY unitStorage ''2026-01-01T09:05:00.000Z'' read1 ''quarantine/1'' scanned ())"

definition scanned1 :: "(AdapterError + ScanVerdict) \<Rightarrow> AttachmentSystem" where
  "scanned1 verdict = \<lparr>sy_db = scanning1, sy_seen = [read1], sy_workers = [(read1, writesOn verdict)]\<rparr>"

definition fresh1 :: AttachmentSystem where "fresh1 = \<lparr>sy_db = noFiles, sy_seen = [], sy_workers = []\<rparr>"

definition cleanPdf :: ScanVerdict where
  "cleanPdf = VERDICT_CLEAN ''application/pdf'' 5000 ''scanner'' None"

lemma fresh1: "freshSystem fresh1"
  by (simp add: freshSystem_def fresh1_def noFiles_def)

lemma run_granted1: "attachmentRun DEFAULT_POLICY fresh1 (fresh1\<lparr>sy_db := granted1\<rparr>)"
proof -
  have "insertGrant oneHour pdfGrant (sy_db fresh1) \<noteq> None" by code_simp
  then have "insertGrant oneHour pdfGrant (sy_db fresh1) = Some granted1" by (auto simp: granted1_def fresh1_def)
  from attachmentRun.step[OF attachmentRun.start attachmentStep.granted[OF this]] show ?thesis .
qed

lemma run_waiting1: "attachmentRun DEFAULT_POLICY fresh1 (fresh1\<lparr>sy_db := waiting1\<rparr>)"
  using attachmentRun.step[OF run_granted1 attachmentStep.announced[of _ _ "''f1''"]] by (simp add: waiting1_def)

lemma run_seen1: "attachmentRun DEFAULT_POLICY fresh1 (fresh1\<lparr>sy_db := waiting1, sy_seen := [read1]\<rparr>)"
proof -
  have "fileOf ''f1'' waiting1 \<noteq> None" by code_simp
  then obtain a where a: "fileOf ''f1'' (sy_db (fresh1\<lparr>sy_db := waiting1\<rparr>)) = Some a" by auto
  then have "read1 = a\<lparr>ar_sensitivity := None\<rparr>" by (simp add: read1_def)
  with attachmentRun.step[OF run_waiting1 attachmentStep.seen[OF a, where sens = None]]
  show ?thesis by (simp add: fresh1_def)
qed

lemma run_scanned1: "attachmentRun DEFAULT_POLICY fresh1 (scanned1 verdict)"
proof -
  have k: "ar_quarantineKey read1 = Some ''quarantine/1''" by code_simp
  have "fst (transitionFile (claimForScan read1) waiting1)" by code_simp
  then have t: "transitionFile (claimForScan read1) waiting1 = (True, scanning1)"
    by (simp add: scanning1_def prod_eq_iff)
  obtain ws acted where w: "afterScan DEFAULT_POLICY unitStorage ''2026-01-01T09:05:00.000Z'' read1 ''quarantine/1'' verdict () = (ws, acted, ())"
    by (cases "afterScan DEFAULT_POLICY unitStorage ''2026-01-01T09:05:00.000Z'' read1 ''quarantine/1'' verdict ()") auto
  have "attachmentStep DEFAULT_POLICY (fresh1\<lparr>sy_db := waiting1, sy_seen := [read1]\<rparr>)
      (fresh1\<lparr>sy_db := waiting1, sy_seen := [read1]\<rparr>\<lparr>sy_db := scanning1,
        sy_workers := sy_workers (fresh1\<lparr>sy_db := waiting1, sy_seen := [read1]\<rparr>) @ [(read1, ws)]\<rparr>)"
    by (rule attachmentStep.claimed[OF _ k _ w]) (simp_all add: t)
  from attachmentRun.step[OF run_seen1 this] w show ?thesis
    by (simp add: scanned1_def fresh1_def writesOn_def)
qed

text \<open>The worker's next statement.\<close>

lemma run_wrote:
  assumes "attachmentRun policy s \<lparr>sy_db = db, sy_seen = as, sy_workers = [(a, x # ws)]\<rparr>"
  shows "attachmentRun policy s \<lparr>sy_db = runWrite pgAttachments x db, sy_seen = as, sy_workers = [(a, ws)]\<rparr>"
  using attachmentRun.step[OF assms attachmentStep.wrote[where pre = "[]" and post = "[]"]] by simp

lemma run_wrote_all:
  "attachmentRun policy s \<lparr>sy_db = db, sy_seen = as, sy_workers = [(a, ws)]\<rparr> \<Longrightarrow>
   attachmentRun policy s \<lparr>sy_db = runWrites pgAttachments ws db, sy_seen = as, sy_workers = [(a, [])]\<rparr>"
  by (induction ws arbitrary: db) (simp_all add: run_wrote)

definition clean1 :: AttachmentDb where
  "clean1 = runWrites pgAttachments (writesOn (Inr cleanPdf)) scanning1"

definition bound1 :: AttachmentDb where "bound1 = snd (bindTo ''f1'' ''m1'' ''c1'' clean1)"

lemma run_bound1: "attachmentRun DEFAULT_POLICY fresh1 \<lparr>sy_db = bound1, sy_seen = [read1], sy_workers = [(read1, [])]\<rparr>"
proof -
  from run_wrote_all[OF run_scanned1[of "Inr cleanPdf", unfolded scanned1_def]]
  have "attachmentRun DEFAULT_POLICY fresh1 \<lparr>sy_db = clean1, sy_seen = [read1], sy_workers = [(read1, [])]\<rparr>"
    by (simp only: clean1_def)
  from attachmentRun.step[OF this attachmentStep.bound[of _ _ "''f1''" "''m1''" "''c1''"]] show ?thesis
    by (simp add: bound1_def)
qed

theorem reachable_file_was_scanned_witness:
  "list_ex (\<lambda>r. sc_attachment_id r = ''f1'' \<and> sc_verdict r = ''CLEAN'') (db_scans bound1)"
proof -
  have f: "map_option ar_state (fileOf ''f1'' bound1) = Some BOUND" by code_simp
  then obtain a where a: "fileOf ''f1'' bound1 = Some a" "ar_state a = BOUND" by auto
  from reachable_file_was_scanned[OF run_bound1 fresh1, of "''f1''" a] a show ?thesis
    by (simp add: isReachable_def)
qed

theorem adverse_verdict_is_final_witness:
  "map_option (\<lambda>a. isReachable (ar_state a)) (fileOf ''f1''
     (runWrite pgAttachments (hd (writesOn (Inr (VERDICT_INFECTED ''eicar'' ''scanner'')))) scanning1)) = Some False"
proof -
  let ?v = "Inr (VERDICT_INFECTED ''eicar'' ''scanner'')"
  let ?db = "runWrite pgAttachments (hd (writesOn ?v)) scanning1"
  have ne: "writesOn ?v \<noteq> []" by code_simp
  then have "attachmentRun DEFAULT_POLICY fresh1
      \<lparr>sy_db = scanning1, sy_seen = [read1], sy_workers = [(read1, hd (writesOn ?v) # tl (writesOn ?v))]\<rparr>"
    using run_scanned1[of ?v] by (simp add: scanned1_def)
  note run = run_wrote[OF this]
  have c: "list_ex (\<lambda>r. sc_attachment_id r = ''f1'' \<and> sc_verdict r \<in> {''INFECTED'', ''REJECTED''}) (db_scans ?db)"
    by code_simp
  have "fileOf ''f1'' ?db \<noteq> None" by code_simp
  then obtain a where a: "fileOf ''f1'' ?db = Some a" by auto
  from adverse_verdict_is_final[OF run fresh1, of "''f1''" a] a c show ?thesis by simp
qed

theorem stored_states_follow_the_pipeline_witness:
  "move UPLOAD_GRANTED QUARANTINED"
proof -
  have "stateOf ''f1'' granted1 = Some UPLOAD_GRANTED" "stateOf ''f1'' waiting1 = Some QUARANTINED" by code_simp+
  with stored_states_follow_the_pipeline[OF run_granted1 fresh1 attachmentStep.announced[of _ _ "''f1''"], of "''f1''"]
  show ?thesis by (simp add: waiting1_def)
qed

theorem abandoned_scan_is_never_repeated_witness:
  "stateOf ''f1'' scanning1 \<in> {Some SCANNING, Some EXPIRED}"
proof -
  have run: "attachmentRun DEFAULT_POLICY fresh1 \<lparr>sy_db = scanning1, sy_seen = [read1], sy_workers = []\<rparr>"
    using attachmentRun.step[OF run_scanned1[of "Inr cleanPdf"]
        attachmentStep.crashed[where pre = "[]" and post = "[]"]] by (simp add: scanned1_def)
  have "stateOf ''f1'' scanning1 = Some SCANNING" by code_simp
  with abandoned_scan_is_never_repeated[OF run fresh1 attachmentRun.start, of "''f1''"] show ?thesis by simp
qed


section \<open>Reading and writing\<close>

theorem read_and_write_paths_decide_alike_witness:
  "decide (sendRequest (pgTx ''2026-08-24T10:00:00.000Z'' ''ep-1'') (sampleSend ''hello'' CUSTOMER_VISIBLE ''k-1'')
      ''2026-08-24T10:00:00.000Z'' sampleDb (the (loadConversationForUpdate ''c1'' sampleDb))) =
   decide ((sendRequest (pgTx ''2026-08-24T10:00:00.000Z'' ''ep-1'') (sampleSend ''hello'' CUSTOMER_VISIBLE ''k-1'')
      ''2026-08-24T10:00:00.000Z'' sampleDb (the (loadConversationForUpdate ''c1'' sampleDb)))
        \<lparr>q_resource := the (loadForAuthorization ''c1'' ''emp-1'' ''2026-08-24T10:00:00.000Z'' sampleDb)\<rparr>)"
proof -
  let ?cmd = "sampleSend ''hello'' CUSTOMER_VISIBLE ''k-1''"
  have f: "sm_conversationId ?cmd = ''c1''" "a_principalId (sm_actor ?cmd) = ''emp-1''" "a_kind (sm_actor ?cmd) = K_EMPLOYEE"
    by (simp_all add: sampleSend_def agent_def)
  have "loadConversationForUpdate ''c1'' sampleDb \<noteq> None" by code_simp
  then have c: "loadConversationForUpdate ''c1'' sampleDb = Some (the (loadConversationForUpdate ''c1'' sampleDb))" by simp
  have "loadForAuthorization ''c1'' ''emp-1'' ''2026-08-24T10:00:00.000Z'' sampleDb \<noteq> None" by code_simp
  then have r: "loadForAuthorization ''c1'' ''emp-1'' ''2026-08-24T10:00:00.000Z'' sampleDb =
    Some (the (loadForAuthorization ''c1'' ''emp-1'' ''2026-08-24T10:00:00.000Z'' sampleDb))" by simp
  have k: "case participantRowFor ''c1'' ''emp-1'' sampleDb of None \<Rightarrow> True
      | Some p \<Rightarrow> pa_principal_kind p = K_CUSTOMER \<longleftrightarrow> K_EMPLOYEE = K_CUSTOMER" by code_simp
  show ?thesis by (rule read_and_write_paths_decide_alike[of ?cmd, unfolded f, OF c r k])
qed

section \<open>Downloads\<close>

lemma decideAttachmentAccess_Inr:
  assumes "decideAttachmentAccess attachment who k ports = Inr (key, name)"
  obtains a where "attachment = Some a" "isReachable (ar_state a)" "ar_cleanKey a = Some key"
    "xp_mayActOnConversation ports who (ar_conversationId a) ''conversation.attachment.download''"
    "k = K_CUSTOMER \<Longrightarrow> Option.bind (ar_messageId a) (xp_messageVisibility ports) = Some CUSTOMER_VISIBLE"
  using assms
  by (cases attachment) (auto simp: decideAttachmentAccess_def split: if_splits option.splits)

lemma auditRecord_Some: "auditRecord up False e db = Some (if up then db\<lparr>db_audit := db_audit db @ [e]\<rparr> else db)"
  by (simp add: auditRecord_def)

text \<open>
  C39: a download needs a permission, a bound file and, for a customer, a visible message. A link is
  handed out only for a file that belongs to a message; to an employee only when the decision allows
  the download on that conversation, to a customer only while a live participant and never for an
  internal note. The download is in the audit ledger only if the ledger could be written: when
  it could not, the link is handed out all the same.
\<close>

theorem download_needs_permission:
  assumes "downloadHandler auditUp storage ttl identity t k who i (db, w) = (Returned (Inr (url, filename)), db', w')"
  shows "\<exists>a. byId i (AttachmentDb.truncate db) = Some a \<and> ar_state a = BOUND \<and>
    (if k = K_CUSTOMER
     then list_ex (\<lambda>p. pa_conversation_id p = ar_conversationId a \<and> pa_principal_id p = who \<and>
            isWithinPeriod t (pa_effective_from p) (pa_effective_to p)) (db_participants db) \<and>
          (\<exists>m \<in> set (db_messages db). ar_messageId a = Some (me_message_id m) \<and> me_visibility m = CUSTOMER_VISIBLE)
     else \<exists>r claims. loadForAuthorization (ar_conversationId a) who t db = Some r \<and> identity who = Some claims \<and>
          allow (decide \<lparr>q_actor = toActorContext claims, q_action = ''conversation.attachment.download'',
            q_resource = r, q_now = t, q_requiredAssurance = None, q_targetVisibility = None\<rparr>)) \<and>
    db_audit db' = (if auditUp then db_audit db @ [downloadEvent who k i a] else db_audit db)"
proof -
  let ?att = "byId i (AttachmentDb.truncate db)" and ?ports = "portsFor identity t k db"
  from assms obtain key name where d: "decideAttachmentAccess ?att who k ?ports = Inr (key, name)"
    by (cases "decideAttachmentAccess ?att who k ?ports")
       (auto simp: downloadHandler_def grantDownload_def auditRecord_Some Let_def split: if_splits)
  then obtain a where a: "?att = Some a" "isReachable (ar_state a)"
    "xp_mayActOnConversation ?ports who (ar_conversationId a) ''conversation.attachment.download''"
    "k = K_CUSTOMER \<Longrightarrow> Option.bind (ar_messageId a) (xp_messageVisibility ?ports) = Some CUSTOMER_VISIBLE"
    by (rule decideAttachmentAccess_Inr) blast
  obtain g w1 where "os_issueDownloadGrant storage key ttl w = (g, w1)" by fastforce
  with assms d a(1) have audit: "db_audit db' = (if auditUp then db_audit db @ [downloadEvent who k i a] else db_audit db)"
    by (cases g) (auto simp: downloadHandler_def grantDownload_def auditRecord_Some split: if_splits)
  show ?thesis
  proof (cases "k = K_CUSTOMER")
    case True
    from a(4)[OF True] obtain mid m where m: "ar_messageId a = Some mid"
      "find (\<lambda>m. me_message_id m = mid) (db_messages db) = Some m" "me_visibility m = CUSTOMER_VISIBLE"
      by (auto simp: portsFor_def elim!: bind_SomeE)
    with find_SomeD[OF m(2)] have "\<exists>m \<in> set (db_messages db). ar_messageId a = Some (me_message_id m) \<and> me_visibility m = CUSTOMER_VISIBLE"
      by auto
    with a audit True show ?thesis by (simp add: portsFor_def customerMayAct_def isReachable_def)
  next
    case False
    with a audit show ?thesis
      by (auto simp: portsFor_def employeeMayAct_def isReachable_def split: option.splits)
  qed
qed

section \<open>Uploads\<close>

text \<open>
  a customer uploads to a claim, or nothing. A grant on the customer surface was asked for a
  conversation of a claims category by a live participant of it, for one of four types and at most
  ten megabytes, and it is on record as that customer's, waiting for the bytes.
\<close>

theorem customer_uploads_are_claims_only:
  assumes "customerRequestUpload auditUp storage plusSeconds ttl identity newId t who cid body (db, w) =
    (GRANTED i url e, db', w')"
  shows "list_ex (\<lambda>p. pa_conversation_id p = cid \<and> pa_principal_id p = who \<and>
      isWithinPeriod t (pa_effective_from p) (pa_effective_to p)) (db_participants db) \<and>
    map_option (firstPart CHR ''.'') (categoryOf cid db) = Some ''claims'' \<and>
    in_declaredMime body \<in> {''application/pdf'', ''image/jpeg'', ''image/png'', ''image/heic''} \<and>
    0 < in_declaredBytes body \<and> in_declaredBytes body \<le> 10485760 \<and>
    (\<exists>a. fileOf i (AttachmentDb.truncate db') = Some a \<and> ar_state a = UPLOAD_GRANTED \<and>
      ar_uploaderId a = Some who \<and> ar_conversationId a = cid \<and> ar_messageId a = None)"
proof -
  let ?ur = "\<lparr>ur_conversationId = cid, ur_categoryId = categoryOf cid db, ur_uploaderId = who,
      ur_uploaderKind = K_CUSTOMER, ur_declaredMime = in_declaredMime body,
      ur_declaredBytes = in_declaredBytes body, ur_filename = in_filename body, ur_durationMs = None\<rparr>"
  have valid: "intakeValid body" and may: "customerMayAct t db who cid ''conversation.read''"
    and g: "grantUpload auditUp storage plusSeconds ttl newId t ?ur (db, w) = (Returned (Inr (i, url, e)), db', w')"
    using assms
    by (auto simp: customerRequestUpload_def portsFor_def split: if_splits prod.splits Outcome.splits sum.splits GrantRefusal.splits)
  let ?ui = "\<lparr>ui_uploaderKind = K_CUSTOMER, ui_declaredMime = in_declaredMime body,
      ui_declaredBytes = in_declaredBytes body, ui_categoryId = categoryOf cid db\<rparr>"
  from g have c: "checkUploadIntent DEFAULT_POLICY ?ui = None"
    by (auto simp: grantUpload_def auditRecord_Some split: option.splits)
  then have rules: "map_option (firstPart CHR ''.'') (categoryOf cid db) = Some ''claims''"
    "in_declaredMime body \<in> {''application/pdf'', ''image/jpeg'', ''image/png'', ''image/heic''}"
    "0 < in_declaredBytes body" "in_declaredBytes body \<le> 10485760"
    by (auto simp: checkUploadIntent_def Let_def policyFor_def DEFAULT_POLICY_def categoryRefused_def ceilingFor_def
        split: if_splits option.splits)
  obtain r w1 where "os_issueUploadGrant storage \<lparr>ug_conversationId = cid, ug_declaredMime = in_declaredMime body,
      ug_declaredBytes = in_declaredBytes body, ug_purpose = ''conversation-attachment''\<rparr> w = (r, w1)" by fastforce
  with g c obtain inp db1 where ins: "insertGrant plusSeconds inp (AttachmentDb.truncate db) = Some db1"
    and i: "i = newId" "db' = db\<lparr>db_files := db_files db1\<rparr>"
    and inp: "gi_attachmentId inp = newId" "gi_conversationId inp = cid" "gi_uploaderId inp = who"
    by (auto simp: grantUpload_def split: sum.splits option.splits)
  have "fileOf i (AttachmentDb.truncate db') = fileOf i db1"
    by (simp add: fileOf_def i AttachmentDb.truncate_def)
  also have "\<dots> = Some (grantedRow plusSeconds inp)" by (simp add: fileOf_insertGrant[OF ins] i inp)
  finally show ?thesis using may rules inp by (simp add: customerMayAct_def grantedRow_def)
qed

section \<open>A claim on which a customer brings a document\<close>

definition fileId :: UUID where "fileId = ''22222222-2222-4222-8222-222222222222''"

definition claimId :: UUID where "claimId = ''11111111-1111-4111-8111-111111111111''"

definition claimDb :: "AttachmentRecord list \<Rightarrow> ServiceDb" where
  "claimDb files =
     \<lparr>db_conversations =
        [\<lparr>cr_conversation_id = claimId, cr_conversation_type = CUSTOMER_SERVICE, cr_state = Some ASSIGNED,
          cr_case_id = Some ''k1'', cr_sensitivity = ORDINARY, cr_last_seq = 0, cr_customer_ref = None,
          cr_last_activity_at = ''2026-08-24T08:00:00.000Z'', cr_last_message_preview = [], cr_participant_count = 1\<rparr>],
      db_service_cases = db_service_cases sampleDb, db_teams = [], db_departments = [], db_team_memberships = [],
      db_participants = [(participantRow ''cust-1'' K_CUSTOMER)\<lparr>pa_conversation_id := claimId\<rparr>],
      db_channels = [], db_channel_audience = [],
      db_messages = [messageRowOf [] (insertOf (sampleSend ''hello'' CUSTOMER_VISIBLE ''k-1'') ''m1'' 1 [])],
      db_revisions = [], db_attachments = [], db_episodes = [], db_outbox = [],
      db_queue_entries = [], db_ownership_episodes = [], db_access_grants = [], db_reservations = [],
      db_capacity_policies = [], db_idempotency_records = [], db_ledger = [],
      db_files = files, db_scans = [], db_audit = [], db_case_categories = [(''k1'', ''claims.motor'')]\<rparr>"

definition policyPdf :: Intake where
  "policyPdf =
     \<lparr>in_filename = utf16 ''policy.pdf'', in_declaredMime = ''application/pdf'', in_declaredBytes = 5000,
      in_durationMs = None\<rparr>"

definition askedUpload :: "UploadResponse \<times> ServiceDb \<times> Bucket" where
  "askedUpload = customerRequestUpload True bucket oneHour 3600 (\<lambda>_. None) fileId ''2026-08-24T10:00:00.000Z''
     ''cust-1'' claimId policyPdf (claimDb [], True, [])"

theorem customer_uploads_are_claims_only_witness:
  "map_option (firstPart CHR ''.'') (categoryOf claimId (claimDb [])) = Some ''claims''"
proof -
  have "(case fst askedUpload of GRANTED i url e \<Rightarrow> True | _ \<Rightarrow> False)" by code_simp
  then obtain i url e where "fst askedUpload = GRANTED i url e" by (cases "fst askedUpload") auto
  then have "askedUpload = (GRANTED i url e, fst (snd askedUpload), snd (snd askedUpload))"
    by (simp add: prod_eq_iff)
  from customer_uploads_are_claims_only[OF this[unfolded askedUpload_def]] show ?thesis by blast
qed

definition boundFile :: AttachmentRecord where
  "boundFile = (the (fileOf fileId (AttachmentDb.truncate (fst (snd askedUpload)))))
     \<lparr>ar_state := BOUND, ar_messageId := Some ''m1'', ar_cleanKey := Some ''clean/1'', ar_expiresAt := None\<rparr>"

definition askedDownload :: "(DownloadRefusal + (string \<times> Utf16)) Outcome \<times> ServiceDb \<times> Bucket" where
  "askedDownload = downloadHandler False bucket 60 (\<lambda>_. None) ''2026-08-24T10:00:00.000Z'' K_CUSTOMER ''cust-1'' fileId
     (claimDb [boundFile], True, [])"

theorem download_needs_permission_witness:
  "db_audit (fst (snd askedDownload)) = [] \<and> (\<exists>r. fst askedDownload = Returned (Inr r))"
proof -
  have "(case fst askedDownload of Returned (Inr r) \<Rightarrow> True | _ \<Rightarrow> False)" by code_simp
  then obtain url name where r: "fst askedDownload = Returned (Inr (url, name))"
    by (auto split: Outcome.splits sum.splits)
  then have "askedDownload = (Returned (Inr (url, name)), fst (snd askedDownload), snd (snd askedDownload))"
    by (simp add: prod_eq_iff)
  from download_needs_permission[OF this[unfolded askedDownload_def]]
  have "db_audit (fst (snd askedDownload)) = db_audit (claimDb [boundFile])"
    unfolding askedDownload_def by auto
  moreover have "db_audit (claimDb [boundFile]) = []" by (simp add: claimDb_def)
  ultimately show ?thesis using r by simp
qed

section \<open>Expired files\<close>

text \<open>An expired row stays expired, and no sweep selects it.\<close>

lemma step_keeps_expired:
  assumes "attachmentStep policy s s'" and "soundSystem policy s" and "stateOf i (sy_db s) = Some EXPIRED"
  shows "stateOf i (sy_db s') = Some EXPIRED"
  using assms
proof (induction rule: attachmentStep.induct)
  case (granted plusSeconds inp s db')
  then show ?case using stateOf_insertGrant[OF granted.hyps granted.prems(2)] by simp
next
  case (wrote s pre c z ws post)
  then have g: "goodWrites policy c (db_scans (sy_db s)) (z # ws)" by (auto simp: soundSystem_def goodWorker_def)
  show ?case
  proof (cases z)
    case (WriteTransition inp)
    with wrote goodWrites_afterTransition(3)[OF g[unfolded WriteTransition]] show ?thesis
      by (simp add: stateOf_transition)
  qed (use wrote in simp)
next
  case (bound s j mid cid)
  then show ?case using stateOf_bindTo[of i j mid cid "sy_db s"] by auto
next
  case (expired c s t)
  then show ?case by (simp add: stateOf_transition expireMark_def simpleTransition_def)
next
  case (claimed c s key db' storage t scanned ws acted)
  then have "db' = snd (transitionFile (claimForScan c) (sy_db s))" by simp
  with claimed.prems show ?case by (simp add: stateOf_transition claimForScan_def simpleTransition_def)
qed (auto simp: stateOf_transition simpleTransition_def)

lemma expirable_spares_expired:
  assumes "wfFiles db" and "stateOf i db = Some EXPIRED"
  shows "\<not> list_ex (\<lambda>a. ar_attachmentId a = i) (expirable t limit db)"
proof
  assume "list_ex (\<lambda>a. ar_attachmentId a = i) (expirable t limit db)"
  then obtain a where a: "a \<in> set (db_files db)" "expiredBy t a" "ar_attachmentId a = i"
    by (auto simp: list_ex_iff expirable_def dest!: in_set_takeD)
  have "find (\<lambda>a. ar_attachmentId a = i) xs = Some a" if "a \<in> set xs" "distinct (map ar_attachmentId xs)" for xs
    using that a(3) by (induction xs) auto
  with a(1) assms have "ar_state a = EXPIRED" by (auto simp: stateOf_def fileOf_def wfFiles_def)
  with a(2) show False by (simp add: expiredBy_def)
qed

text \<open>
  bytes that could not be deleted are not tried again. Once a file is marked EXPIRED, which
  happens before its bytes are deleted, no later sweep is given it, whatever runs in between: a
  deletion that failed leaves the object in the storage for good.
\<close>

theorem expired_bytes_are_never_retried:
  assumes "attachmentRun policy s0 s" and "freshSystem s0" and "attachmentRun policy s s'"
    and "stateOf i (sy_db s) = Some EXPIRED"
  shows "\<not> list_ex (\<lambda>a. ar_attachmentId a = i) (expirable t limit (sy_db s'))"
proof -
  from assms(3) have "soundSystem policy s \<and> stateOf i (sy_db s) = Some EXPIRED \<longrightarrow>
      soundSystem policy s' \<and> stateOf i (sy_db s') = Some EXPIRED"
    by (induction rule: attachmentRun.induct) (auto intro: step_sound step_keeps_expired)
  with assms(4) run_sound[OF assms(1,2)] show ?thesis
    by (intro expirable_spares_expired) (auto simp: soundSystem_def soundDb_def)
qed

text \<open>The sweep of an abandoned upload while the bucket is down, and the next one.\<close>

definition sweptDown :: "SweepOutcome \<times> AttachmentDb \<times> Bucket" where
  "sweptDown = runExpirySweep pgAttachments bucket None ''2026-01-02T00:00:00.000Z'' (waiting1, False, [''quarantine/1''])"

theorem expired_bytes_are_never_retried_witness:
  "stateOf ''f1'' (fst (snd sweptDown)) = Some EXPIRED \<and> snd (snd sweptDown) = (False, [''quarantine/1'']) \<and>
   \<not> list_ex (\<lambda>a. ar_attachmentId a = ''f1'') (expirable ''2026-01-03T00:00:00.000Z'' 50 (fst (snd sweptDown)))"
proof -
  have db: "fst (snd sweptDown) = snd (transitionFile (expireMark read1) waiting1)"
  proof -
    have "map expireMark (expirable ''2026-01-02T00:00:00.000Z'' 100 waiting1) = [expireMark read1]" by code_simp
    then obtain a where "expirable ''2026-01-02T00:00:00.000Z'' 100 waiting1 = [a]" "expireMark a = expireMark read1"
      by auto
    then show ?thesis
      by (cases "transitionFile (expireMark read1) waiting1") (simp add: sweptDown_def runExpirySweep_def)
  qed
  have b: "snd (snd sweptDown) = (False, [''quarantine/1''])" by code_simp
  have e: "stateOf ''f1'' (fst (snd sweptDown)) = Some EXPIRED" by code_simp
  have run: "attachmentRun DEFAULT_POLICY fresh1 (fresh1\<lparr>sy_db := fst (snd sweptDown), sy_seen := [read1]\<rparr>)"
  proof -
    have "expiredBy ''2026-01-02T00:00:00.000Z'' read1" by code_simp
    from attachmentRun.step[OF run_seen1 attachmentStep.expired[OF _ this]]
    show ?thesis by (simp add: db fresh1_def)
  qed
  from expired_bytes_are_never_retried[OF run fresh1 attachmentRun.start, of "''f1''" "''2026-01-03T00:00:00.000Z''" 50] e
  have "\<not> list_ex (\<lambda>a. ar_attachmentId a = ''f1'') (expirable ''2026-01-03T00:00:00.000Z'' 50 (fst (snd sweptDown)))"
    by simp
  with b e show ?thesis by blast
qed

end
