(* ===== verification/Orchestrator_Route.thy ===== *)
theory Orchestrator_Route
  imports Primitives
begin

text \<open>
  The decision tree of routing: \<open>adapters/work-orchestrator/src/local/availability.ts\<close> (who may be
  given work) and \<open>route.ts\<close> (where a conversation goes, with the path the decision took).
\<close>

section \<open>Availability\<close>

record CapacityFacts =
  cf_openConversations :: int
  cf_ceiling :: int

record AvailabilityFacts =
  af_principalId :: UUID
  af_teamCalendarOpen :: bool
  af_accountActive :: bool
  af_onDeclaredAbsence :: bool
  af_explicitlyUnavailable :: bool
  af_capacity :: "CapacityFacts option"

datatype UnavailableReason =
    REASON_TEAM_CLOSED
  | REASON_ACCOUNT_INACTIVE
  | REASON_DECLARED_ABSENCE
  | REASON_EXPLICITLY_UNAVAILABLE
  | REASON_AT_CAPACITY

datatype Availability = AVAILABLE | UNAVAILABLE UnavailableReason

definition assessAvailability :: "AvailabilityFacts \<Rightarrow> Availability" where
  "assessAvailability facts =
     (if \<not> af_teamCalendarOpen facts then UNAVAILABLE REASON_TEAM_CLOSED
      else if \<not> af_accountActive facts then UNAVAILABLE REASON_ACCOUNT_INACTIVE
      else if af_onDeclaredAbsence facts then UNAVAILABLE REASON_DECLARED_ABSENCE
      else if af_explicitlyUnavailable facts then UNAVAILABLE REASON_EXPLICITLY_UNAVAILABLE
      else (case af_capacity facts of
          None \<Rightarrow> AVAILABLE
        | Some c \<Rightarrow>
            if cf_openConversations c \<ge> cf_ceiling c then UNAVAILABLE REASON_AT_CAPACITY else AVAILABLE))"

datatype CandidateBasis = BASIS_DESIGNATED | BASIS_NAMED_BACKUP | BASIS_TEAM_MEMBER

record Candidate =
  ca_principalId :: UUID
  ca_availability :: Availability
  ca_basis :: CandidateBasis

definition isAvailable :: "Candidate \<Rightarrow> bool" where
  "isAvailable candidate \<longleftrightarrow> ca_availability candidate = AVAILABLE"

record DeclaredAbsence =
  da_principalId :: UUID
  da_effectiveFrom :: Timestamp
  da_effectiveTo :: "Timestamp option"
  da_kind :: string

definition absenceCovers :: "DeclaredAbsence \<Rightarrow> Timestamp \<Rightarrow> bool" where
  "absenceCovers absence t \<longleftrightarrow> da_effectiveFrom absence \<le> t \<and>
     (case da_effectiveTo absence of None \<Rightarrow> True | Some u \<Rightarrow> u > t)"

section \<open>The tree\<close>

datatype FallbackPolicy = NAMED_BACKUP Candidate | TEAM_QUEUE | LEAD_REASSIGNS UUID

record RoutingInputs =
  ro_conversationId :: UUID
  ro_caseId :: "UUID option"
  ro_categoryId :: "string option"
  ro_teamId :: "string option"
  ro_teamCalendarOpen :: bool
  ro_categoryIsRelationshipShaped :: bool
  ro_designated :: "Candidate option"
  ro_fallback :: FallbackPolicy
  ro_at :: Timestamp

datatype RoutingStep =
    STEP_TEAM_CLOSED
  | STEP_TEAM_OPEN
  | STEP_QUEUE_SHAPED_CATEGORY
  | STEP_RELATIONSHIP_SHAPED_CATEGORY
  | STEP_NO_DESIGNATED_EMPLOYEE
  | STEP_DESIGNATED_AVAILABLE
  | STEP_DESIGNATED_UNAVAILABLE
  | STEP_FALLBACK_NAMED_BACKUP
  | STEP_FALLBACK_BACKUP_UNAVAILABLE
  | STEP_FALLBACK_TEAM_QUEUE
  | STEP_FALLBACK_LEAD_REASSIGNS
  | STEP_NO_TEAM_CONFIGURED

datatype RouteDecision =
    RouteAssign UUID CandidateBasis "RoutingStep list"
  | RouteQueue string bool "RoutingStep list"
  | RouteUnroutable "string option" "UUID option" "RoutingStep list"

definition fallbackRoute :: "string \<Rightarrow> RoutingStep list \<Rightarrow> FallbackPolicy \<Rightarrow> RouteDecision" where
  "fallbackRoute teamId path fallback =
     (case fallback of
        NAMED_BACKUP backup \<Rightarrow>
          if isAvailable backup
          then RouteAssign (ca_principalId backup) BASIS_NAMED_BACKUP (path @ [STEP_FALLBACK_NAMED_BACKUP])
          else RouteQueue teamId False (path @ [STEP_FALLBACK_BACKUP_UNAVAILABLE])
      | TEAM_QUEUE \<Rightarrow> RouteQueue teamId False (path @ [STEP_FALLBACK_TEAM_QUEUE])
      | LEAD_REASSIGNS leadId \<Rightarrow>
          RouteUnroutable (Some teamId) (Some leadId) (path @ [STEP_FALLBACK_LEAD_REASSIGNS]))"

definition route :: "RoutingInputs \<Rightarrow> RouteDecision" where
  "route inputs =
     (case ro_teamId inputs of
        None \<Rightarrow> RouteUnroutable None None [STEP_NO_TEAM_CONFIGURED]
      | Some teamId \<Rightarrow>
          if \<not> ro_teamCalendarOpen inputs then RouteQueue teamId True [STEP_TEAM_CLOSED]
          else if \<not> ro_categoryIsRelationshipShaped inputs
          then RouteQueue teamId False [STEP_TEAM_OPEN, STEP_QUEUE_SHAPED_CATEGORY]
          else (case ro_designated inputs of
              None \<Rightarrow> RouteQueue teamId False
                [STEP_TEAM_OPEN, STEP_RELATIONSHIP_SHAPED_CATEGORY, STEP_NO_DESIGNATED_EMPLOYEE]
            | Some designated \<Rightarrow>
                if isAvailable designated
                then RouteAssign (ca_principalId designated) BASIS_DESIGNATED
                  [STEP_TEAM_OPEN, STEP_RELATIONSHIP_SHAPED_CATEGORY, STEP_DESIGNATED_AVAILABLE]
                else fallbackRoute teamId
                  [STEP_TEAM_OPEN, STEP_RELATIONSHIP_SHAPED_CATEGORY, STEP_DESIGNATED_UNAVAILABLE]
                  (ro_fallback inputs)))"

text \<open>\<open>path.join(' \<rightarrow> ')\<close>; the arrow is its three UTF-8 bytes.\<close>

definition stepText :: "RoutingStep \<Rightarrow> string" where
  "stepText s =
     (case s of STEP_TEAM_CLOSED \<Rightarrow> ''TEAM_CLOSED'' | STEP_TEAM_OPEN \<Rightarrow> ''TEAM_OPEN''
      | STEP_QUEUE_SHAPED_CATEGORY \<Rightarrow> ''QUEUE_SHAPED_CATEGORY''
      | STEP_RELATIONSHIP_SHAPED_CATEGORY \<Rightarrow> ''RELATIONSHIP_SHAPED_CATEGORY''
      | STEP_NO_DESIGNATED_EMPLOYEE \<Rightarrow> ''NO_DESIGNATED_EMPLOYEE''
      | STEP_DESIGNATED_AVAILABLE \<Rightarrow> ''DESIGNATED_AVAILABLE''
      | STEP_DESIGNATED_UNAVAILABLE \<Rightarrow> ''DESIGNATED_UNAVAILABLE''
      | STEP_FALLBACK_NAMED_BACKUP \<Rightarrow> ''FALLBACK_NAMED_BACKUP''
      | STEP_FALLBACK_BACKUP_UNAVAILABLE \<Rightarrow> ''FALLBACK_BACKUP_UNAVAILABLE''
      | STEP_FALLBACK_TEAM_QUEUE \<Rightarrow> ''FALLBACK_TEAM_QUEUE''
      | STEP_FALLBACK_LEAD_REASSIGNS \<Rightarrow> ''FALLBACK_LEAD_REASSIGNS''
      | STEP_NO_TEAM_CONFIGURED \<Rightarrow> ''NO_TEAM_CONFIGURED'')"

definition arrow :: string where
  "arrow = [CHR 0x20, CHR 0xE2, CHR 0x86, CHR 0x92, CHR 0x20]"

fun joinPath :: "string list \<Rightarrow> string" where
  "joinPath [] = []"
| "joinPath [x] = x"
| "joinPath (x # xs) = x @ arrow @ joinPath xs"

definition pathText :: "RoutingStep list \<Rightarrow> string" where
  "pathText path = joinPath (map stepText path)"

section \<open>What the tree promises\<close>

text \<open>The paths of the diagram, as a relation between a step and the step after it.\<close>

definition mayFollow :: "RoutingStep \<Rightarrow> RoutingStep list" where
  "mayFollow s =
     (case s of STEP_TEAM_OPEN \<Rightarrow> [STEP_QUEUE_SHAPED_CATEGORY, STEP_RELATIONSHIP_SHAPED_CATEGORY]
      | STEP_RELATIONSHIP_SHAPED_CATEGORY \<Rightarrow>
          [STEP_NO_DESIGNATED_EMPLOYEE, STEP_DESIGNATED_AVAILABLE, STEP_DESIGNATED_UNAVAILABLE]
      | STEP_DESIGNATED_UNAVAILABLE \<Rightarrow>
          [STEP_FALLBACK_NAMED_BACKUP, STEP_FALLBACK_BACKUP_UNAVAILABLE, STEP_FALLBACK_TEAM_QUEUE,
           STEP_FALLBACK_LEAD_REASSIGNS]
      | _ \<Rightarrow> [])"

fun isPath :: "RoutingStep list \<Rightarrow> bool" where
  "isPath (s # s' # path) \<longleftrightarrow> s' \<in> set (mayFollow s) \<and> isPath (s' # path)"
| "isPath [s] \<longleftrightarrow> mayFollow s = []"
| "isPath [] \<longleftrightarrow> False"

fun pathOf :: "RouteDecision \<Rightarrow> RoutingStep list" where
  "pathOf (RouteAssign _ _ path) = path"
| "pathOf (RouteQueue _ _ path) = path"
| "pathOf (RouteUnroutable _ _ path) = path"

text \<open>Who is offered the conversation: the designated person, then the backup, only while available.\<close>

definition preferred :: "RoutingInputs \<Rightarrow> (UUID \<times> CandidateBasis) option" where
  "preferred inputs =
     (case ro_designated inputs of
        None \<Rightarrow> None
      | Some d \<Rightarrow>
          if isAvailable d then Some (ca_principalId d, BASIS_DESIGNATED)
          else (case ro_fallback inputs of
              NAMED_BACKUP b \<Rightarrow> if isAvailable b then Some (ca_principalId b, BASIS_NAMED_BACKUP) else None
            | _ \<Rightarrow> None))"

definition entitled :: "RoutingInputs \<Rightarrow> bool" where
  "entitled inputs \<longleftrightarrow> ro_teamId inputs \<noteq> None \<and> ro_teamCalendarOpen inputs \<and> ro_categoryIsRelationshipShaped inputs"

lemma route_assigns_iff:
  "(\<exists>path. route inputs = RouteAssign who basis path) \<longleftrightarrow> entitled inputs \<and> preferred inputs = Some (who, basis)"
  by (cases "ro_teamId inputs"; cases "ro_designated inputs"; cases "ro_fallback inputs")
     (auto simp: route_def fallbackRoute_def entitled_def preferred_def)

lemma route_is_a_path: "isPath (pathOf (route inputs))"
  by (cases "ro_teamId inputs"; cases "ro_designated inputs"; cases "ro_fallback inputs")
     (simp_all add: route_def fallbackRoute_def mayFollow_def)

lemma route_unroutable:
  "route inputs = RouteUnroutable teamId lead path \<longleftrightarrow>
    ro_teamId inputs = None \<and> teamId = None \<and> lead = None \<and> path = [STEP_NO_TEAM_CONFIGURED] \<or>
    (entitled inputs \<and> preferred inputs = None \<and> ro_designated inputs \<noteq> None \<and> teamId = ro_teamId inputs \<and>
     (\<exists>l. ro_fallback inputs = LEAD_REASSIGNS l \<and> lead = Some l) \<and>
     path = [STEP_TEAM_OPEN, STEP_RELATIONSHIP_SHAPED_CATEGORY, STEP_DESIGNATED_UNAVAILABLE, STEP_FALLBACK_LEAD_REASSIGNS])"
  by (cases "ro_teamId inputs"; cases "ro_designated inputs"; cases "ro_fallback inputs")
     (auto simp: route_def fallbackRoute_def entitled_def preferred_def)

text \<open>
  the path explains the decision. The tree assigns exactly when the category is
  relationship-shaped, its team is open and the designated person, or failing them the named
  backup, is available, and it assigns to that person; the path it returns is a path of the diagram
  from a first question to a last, and its last step tells who was assigned, whether the
  conversation is queued for after hours, and why nobody could be found.
\<close>

theorem route_is_explained_by_its_path:
  "((\<exists>path. route inputs = RouteAssign who basis path) \<longleftrightarrow> entitled inputs \<and> preferred inputs = Some (who, basis)) \<and>
   isPath (pathOf (route inputs)) \<and>
   (case route inputs of
      RouteAssign w b path \<Rightarrow>
        last path = (if b = BASIS_DESIGNATED then STEP_DESIGNATED_AVAILABLE else STEP_FALLBACK_NAMED_BACKUP)
    | RouteQueue t h path \<Rightarrow> ro_teamId inputs = Some t \<and> h = (last path = STEP_TEAM_CLOSED)
    | RouteUnroutable t l path \<Rightarrow> (l = None) = (last path = STEP_NO_TEAM_CONFIGURED))"
proof -
  have "case route inputs of
      RouteAssign w b path \<Rightarrow>
        last path = (if b = BASIS_DESIGNATED then STEP_DESIGNATED_AVAILABLE else STEP_FALLBACK_NAMED_BACKUP)
    | RouteQueue t h path \<Rightarrow> ro_teamId inputs = Some t \<and> h = (last path = STEP_TEAM_CLOSED)
    | RouteUnroutable t l path \<Rightarrow> (l = None) = (last path = STEP_NO_TEAM_CONFIGURED)"
    by (cases "ro_teamId inputs"; cases "ro_designated inputs"; cases "ro_fallback inputs")
       (simp_all add: route_def fallbackRoute_def)
  with route_assigns_iff route_is_a_path show ?thesis by blast
qed

end
