(* ===== verification/Orchestrator_Local.thy ===== *)
theory Orchestrator_Local
  imports Orchestrator_Route Routing_Store
begin

text \<open>
  The interim work orchestrator, \<open>adapters/work-orchestrator/src/local/local-work-orchestrator.ts\<close>,
  over any provider of its store port; \<open>app.module.ts\<close> binds the port to the routing store. A method
  of the port that throws has rolled its transaction back (\<open>None\<close>), but what the call committed
  before it stays. Random ids are arguments. Fields of the contract that the adapter does not read
  (product, language, channel, skills) are left out, as is the health report.
\<close>

section \<open>The contract (shared-contracts, work-orchestrator.ts)\<close>

datatype BusinessHoursState = HOURS_OPEN | HOURS_AFTER

record RoutingContext =
  rc_conversationId :: UUID
  rc_caseId :: "UUID option"
  rc_category :: string
  rc_priority :: "string option"
  rc_relationshipOwner :: "UUID option"
  rc_businessHoursState :: BusinessHoursState

datatype RoutingResult =
    ASSIGNED_TO UUID UUID string
  | QUEUED_AS UUID string
  | DEFERRED_AFTER_HOURS UUID

datatype ClaimResult = CLAIMED_BY_YOU UUID UUID | ALREADY_ASSIGNED_TO UUID

record Reservation =
  rv_reservationId :: UUID
  rv_principalId :: UUID
  rv_workRef :: CanonicalRef
  rv_weight :: int
  rv_expiresAt :: Timestamp

record QueueMetrics =
  qm_teamId :: string
  qm_depth :: nat
  qm_oldestWaitingSeconds :: int
  qm_byPriority :: "(string \<times> nat) list"
  qm_availableCapacityUnits :: int

section \<open>The port and the options\<close>

record ReserveInput =
  re_reservationId :: UUID
  re_principalId :: UUID
  re_ref :: CanonicalRef
  re_weight :: int
  re_ttlSeconds :: int
  re_at :: Timestamp

record 'st WorkOrchestratorStore =
  ws_enqueue :: "EnqueueInput \<Rightarrow> 'st \<Rightarrow> 'st option"
  ws_claimQueueEntry :: "UUID \<Rightarrow> ClaimInput \<Rightarrow> string \<Rightarrow> 'st \<Rightarrow> (ClaimEntryResult \<times> 'st) option"
  ws_reserve :: "ReserveInput \<Rightarrow> 'st \<Rightarrow> ((UUID \<times> Timestamp) \<times> 'st) option"
  ws_assignFromRouting :: "AssignInput \<Rightarrow> 'st \<Rightarrow> ((AssignRefusal + UUID) \<times> 'st) option"
  ws_release :: "UUID \<Rightarrow> string \<Rightarrow> Timestamp \<Rightarrow> 'st \<Rightarrow> 'st option"
  ws_queueMetrics :: "string \<Rightarrow> Timestamp \<Rightarrow> 'st \<Rightarrow> QueueMetrics"

record CategoryRouting =
  cg_teamId :: "string option"
  cg_relationshipShaped :: bool
  cg_weight :: int

record PersonFacts =
  pf_accountActive :: bool
  pf_onDeclaredAbsence :: bool
  pf_explicitlyUnavailable :: bool
  pf_capacity :: "CapacityFacts option"

record 'st OrchestratorOptions =
  oo_store :: "'st WorkOrchestratorStore"
  oo_categoryRouting :: "string \<Rightarrow> CategoryRouting"
  oo_reservationTtlSeconds :: int
  oo_availabilityOf :: "UUID \<Rightarrow> Timestamp \<Rightarrow> 'st \<Rightarrow> PersonFacts"
  oo_fallbackPolicy :: FallbackPolicy

record PlacementIds =
  pi_queueEntryId :: UUID
  pi_episodeId :: UUID
  pi_reservationId :: UUID

section \<open>Placing work\<close>

definition refusedError :: "string \<Rightarrow> string \<Rightarrow> string \<Rightarrow> AdapterError" where
  "refusedError code message correlationId =
     \<lparr>er_code = code, er_message = message, er_retryable = False, er_failureClass = FAIL_CLOSED,
      er_correlationId = correlationId\<rparr>"

definition enqueueInputOf :: "UUID \<Rightarrow> string \<Rightarrow> Timestamp \<Rightarrow> RoutingContext \<Rightarrow> EnqueueInput" where
  "enqueueInputOf queueEntryId teamId t context =
     \<lparr>en_queueEntryId = queueEntryId, en_conversationId = rc_conversationId context,
      en_caseId = rc_caseId context, en_teamId = teamId,
      en_priority = (case rc_priority context of Some p \<Rightarrow> p | None \<Rightarrow> ''NORMAL''),
      en_afterHours = (rc_businessHoursState context = HOURS_AFTER), en_at = t, en_correlationId = None\<rparr>"

definition designatedCandidate ::
  "'st OrchestratorOptions \<Rightarrow> RoutingContext \<Rightarrow> Timestamp \<Rightarrow> 'st \<Rightarrow> Candidate option" where
  "designatedCandidate options context t st =
     map_option (\<lambda>who.
       let facts = oo_availabilityOf options who t st
       in \<lparr>ca_principalId = who,
           ca_availability = assessAvailability
             \<lparr>af_principalId = who, af_teamCalendarOpen = True, af_accountActive = pf_accountActive facts,
              af_onDeclaredAbsence = pf_onDeclaredAbsence facts,
              af_explicitlyUnavailable = pf_explicitlyUnavailable facts, af_capacity = pf_capacity facts\<rparr>,
           ca_basis = BASIS_DESIGNATED\<rparr>) (rc_relationshipOwner context)"

definition routingInputsOf ::
  "'st OrchestratorOptions \<Rightarrow> RoutingContext \<Rightarrow> string \<Rightarrow> Timestamp \<Rightarrow> 'st \<Rightarrow> RoutingInputs" where
  "routingInputsOf options context teamId t st =
     \<lparr>ro_conversationId = rc_conversationId context, ro_caseId = rc_caseId context,
      ro_categoryId = Some (rc_category context), ro_teamId = Some teamId, ro_teamCalendarOpen = True,
      ro_categoryIsRelationshipShaped =
        cg_relationshipShaped (oo_categoryRouting options (rc_category context)),
      ro_designated = designatedCandidate options context t st,
      ro_fallback = oo_fallbackPolicy options, ro_at = t\<rparr>"

definition assignInputOf ::
  "'st OrchestratorOptions \<Rightarrow> PlacementIds \<Rightarrow> RoutingContext \<Rightarrow> UUID \<Rightarrow> RoutingStep list \<Rightarrow> Timestamp \<Rightarrow> AssignInput" where
  "assignInputOf options ids context ownerId path t =
     \<lparr>ai_queueEntryId = pi_queueEntryId ids, ai_principalId = ownerId, ai_episodeId = pi_episodeId ids,
      ai_stateEpisodeId = [], ai_reservationId = pi_reservationId ids,
      ai_weight = cg_weight (oo_categoryRouting options (rc_category context)),
      ai_ttlSeconds = oo_reservationTtlSeconds options, ai_reason = pathText path, ai_at = t,
      ai_correlationId = None\<rparr>"

definition refusalSuffix :: "AssignRefusal \<Rightarrow> string" where
  "refusalSuffix r = (case r of AT_CAPACITY \<Rightarrow> ''AT_CAPACITY'' | NO_LONGER_WAITING \<Rightarrow> ''NO_LONGER_WAITING'')"

text \<open>The \<open>switch\<close> on the decision.\<close>

definition actOn ::
  "'st OrchestratorOptions \<Rightarrow> PlacementIds \<Rightarrow> RoutingContext \<Rightarrow> Timestamp \<Rightarrow> RouteDecision \<Rightarrow> 'st \<Rightarrow>
   (AdapterError + RoutingResult) Outcome \<times> 'st" where
  "actOn options ids context t decision st =
     (case decision of
        RouteAssign ownerId _ path \<Rightarrow>
          (case ws_assignFromRouting (oo_store options) (assignInputOf options ids context ownerId path t) st of
             None \<Rightarrow> (Threw, st)
           | Some (Inl refusal, st') \<Rightarrow>
               (Returned (Inr (QUEUED_AS (pi_queueEntryId ids)
                  (pathText path @ arrow @ refusalSuffix refusal))), st')
           | Some (Inr _, st') \<Rightarrow>
               (Returned (Inr (ASSIGNED_TO ownerId (pi_reservationId ids) (pathText path))), st'))
      | RouteQueue _ _ path \<Rightarrow> (Returned (Inr (QUEUED_AS (pi_queueEntryId ids) (pathText path))), st)
      | RouteUnroutable _ _ path \<Rightarrow> (Returned (Inr (QUEUED_AS (pi_queueEntryId ids) (pathText path))), st))"

definition requestRouting ::
  "'st OrchestratorOptions \<Rightarrow> PlacementIds \<Rightarrow> Timestamp \<Rightarrow> RoutingContext \<Rightarrow> 'st \<Rightarrow>
   (AdapterError + RoutingResult) Outcome \<times> 'st" where
  "requestRouting options ids t context st =
     (case cg_teamId (oo_categoryRouting options (rc_category context)) of
        None \<Rightarrow> (Returned (Inl (refusedError ''CATEGORY_NOT_MAPPED''
                  ''no team is configured for this category'' (rc_conversationId context))), st)
      | Some teamId \<Rightarrow>
          (case ws_enqueue (oo_store options) (enqueueInputOf (pi_queueEntryId ids) teamId t context) st of
             None \<Rightarrow> (Threw, st)
           | Some st1 \<Rightarrow>
               if rc_businessHoursState context = HOURS_AFTER
               then (Returned (Inr (DEFERRED_AFTER_HOURS (pi_queueEntryId ids))), st1)
               else actOn options ids context t (route (routingInputsOf options context teamId t st1)) st1))"

section \<open>The other methods\<close>

definition claim ::
  "'st OrchestratorOptions \<Rightarrow> UUID \<Rightarrow> Timestamp \<Rightarrow> UUID \<Rightarrow> UUID \<Rightarrow> string \<Rightarrow> 'st \<Rightarrow>
   (AdapterError + ClaimResult) Outcome \<times> 'st" where
  "claim options newId t queueEntryId who idempotencyKey st =
     (case ws_claimQueueEntry (oo_store options) queueEntryId
         \<lparr>cl_claimedBy = who, cl_episodeId = newId, cl_stateEpisodeId = [], cl_at = t,
          cl_correlationId = None\<rparr> idempotencyKey st of
        None \<Rightarrow> (Threw, st)
      | Some (EntryTaken holder, st') \<Rightarrow>
          (Returned (Inr (ALREADY_ASSIGNED_TO (case holder of Some o' \<Rightarrow> o' | None \<Rightarrow> who))), st')
      | Some (ClaimedEntry cid rid replayed, st') \<Rightarrow> (Returned (Inr (CLAIMED_BY_YOU cid rid)), st'))"

definition reserve ::
  "'st OrchestratorOptions \<Rightarrow> UUID \<Rightarrow> Timestamp \<Rightarrow> UUID \<Rightarrow> CanonicalRef \<Rightarrow> int \<Rightarrow> int \<Rightarrow> 'st \<Rightarrow>
   (AdapterError + Reservation) Outcome \<times> 'st" where
  "reserve options newId t who workRef weight ttlSeconds st =
     (if weight \<le> 0
      then (Returned (Inl (refusedError ''INVALID_WEIGHT'' ''a reservation must consume some capacity'' who)), st)
      else (case ws_reserve (oo_store options)
           \<lparr>re_reservationId = newId, re_principalId = who, re_ref = workRef, re_weight = weight,
            re_ttlSeconds = (if ttlSeconds > 0 then ttlSeconds else oo_reservationTtlSeconds options),
            re_at = t\<rparr> st of
          None \<Rightarrow> (Threw, st)
        | Some ((rid, expiresAt), st') \<Rightarrow>
            (Returned (Inr \<lparr>rv_reservationId = rid, rv_principalId = who, rv_workRef = workRef,
               rv_weight = weight, rv_expiresAt = expiresAt\<rparr>), st')))"

definition release ::
  "'st OrchestratorOptions \<Rightarrow> Timestamp \<Rightarrow> UUID \<Rightarrow> string \<Rightarrow> 'st \<Rightarrow> (AdapterError + unit) Outcome \<times> 'st" where
  "release options t rid reason st =
     (case ws_release (oo_store options) rid reason t st of
        None \<Rightarrow> (Threw, st) | Some st' \<Rightarrow> (Returned (Inr ()), st'))"

definition transferCall :: "UUID \<Rightarrow> AdapterError + unit" where
  "transferCall cid = Inl (refusedError ''USE_DOMAIN_COMMAND''
     ''transfer is a domain command (packages/routing), not an orchestrator call'' cid)"

definition escalateCall :: "UUID \<Rightarrow> AdapterError + unit" where
  "escalateCall cid = Inl (refusedError ''USE_DOMAIN_COMMAND''
     ''escalation is a domain command (packages/routing), not an orchestrator call'' cid)"

definition reportAgentState :: "UUID \<Rightarrow> string \<Rightarrow> 'st \<Rightarrow> (AdapterError + unit) \<times> 'st" where
  "reportAgentState who agentState st = (Inr (), st)"

definition queueSnapshot :: "'st OrchestratorOptions \<Rightarrow> Timestamp \<Rightarrow> string \<Rightarrow> 'st \<Rightarrow> AdapterError + QueueMetrics" where
  "queueSnapshot options t teamId st = Inr (ws_queueMetrics (oo_store options) teamId t st)"

end
