(* ===== verification/Orchestrator_Pg.thy ===== *)
theory Orchestrator_Pg
  imports Orchestrator_Local Js_Date
begin

text \<open>
  The orchestrator as the API runs it (\<open>apps/api/src/app.module.ts\<close>): its store bound to the routing
  store, its configuration read by \<open>apps/api/src/routing/category-routing-config.ts\<close>, and the facts
  about a person by \<open>infrastructure/database/src/repositories/availability-reader.ts\<close>. The
  configuration tables, which no statement of routing writes, are a record of their own.
\<close>

section \<open>Configuration\<close>

record CategoryRow =
  ct_category_id :: string
  ct_owning_team_id :: "string option"
  ct_relationship_shaped :: bool
  ct_active :: bool

text \<open>A value of the JSON object \<open>work_weights\<close>: null, a number, or something else.\<close>

datatype WeightEntry = WEIGHT_NULL | WEIGHT_NUMBER int | WEIGHT_OTHER

record DeskConfig =
  dc_categories :: "CategoryRow list"
  dc_work_weights :: "(string \<times> (string \<times> WeightEntry) list) list"
  dc_principals :: "(UUID \<times> PrincipalStatus) list"

definition weightIn :: "(string \<times> WeightEntry) list \<Rightarrow> string \<Rightarrow> int" where
  "weightIn weights categoryId =
     (case (case map_of weights categoryId of
              Some WEIGHT_NULL \<Rightarrow> map_of weights ''default''
            | None \<Rightarrow> map_of weights ''default''
            | Some w \<Rightarrow> Some w) of
        Some (WEIGHT_NUMBER n) \<Rightarrow> if n > 0 then n else 1
      | _ \<Rightarrow> 1)"

definition forCategory :: "DeskConfig \<Rightarrow> string \<Rightarrow> CategoryRouting" where
  "forCategory cfg categoryId =
     (case find (\<lambda>c. ct_category_id c = categoryId \<and> ct_active c) (dc_categories cfg) of
        None \<Rightarrow> \<lparr>cg_teamId = None, cg_relationshipShaped = False, cg_weight = 1\<rparr>
      | Some c \<Rightarrow>
          \<lparr>cg_teamId = ct_owning_team_id c, cg_relationshipShaped = ct_relationship_shaped c,
           cg_weight = weightIn (case map_of (dc_work_weights cfg) categoryId of
             None \<Rightarrow> [] | Some ws \<Rightarrow> ws) categoryId\<rparr>)"

definition DEFAULT_FALLBACK :: FallbackPolicy where
  "DEFAULT_FALLBACK = TEAM_QUEUE"

definition factsFor :: "DeskConfig \<Rightarrow> UUID \<Rightarrow> Timestamp \<Rightarrow> RoutingDb \<Rightarrow> PersonFacts" where
  "factsFor cfg who t db =
     (case map_of (dc_principals cfg) who of
        None \<Rightarrow> \<lparr>pf_accountActive = False, pf_onDeclaredAbsence = False, pf_explicitlyUnavailable = False,
                 pf_capacity = None\<rparr>
      | Some status \<Rightarrow>
          \<lparr>pf_accountActive = (status = P_ACTIVE), pf_onDeclaredAbsence = False,
           pf_explicitlyUnavailable = False,
           pf_capacity = map_option (\<lambda>units. \<lparr>cf_openConversations = heldWeight who t db, cf_ceiling = units\<rparr>)
             (effectiveCapacityUnits who db)\<rparr>)"

definition designatedEmployee :: "UUID \<Rightarrow> RoutingDb \<Rightarrow> UUID option" where
  "designatedEmployee cid db = Option.bind (caseRow cid db) sc_designated_employee_id"

section \<open>The store, bound\<close>

record DepthRow =
  dr_teamId :: string
  dr_priority :: string
  dr_waiting :: nat
  dr_oldestSeconds :: int

text \<open>\<open>EXTRACT(EPOCH FROM ($1 - min(enqueued_at)))::int\<close>, never negative.\<close>

definition waitedSeconds :: "Timestamp \<Rightarrow> Timestamp list \<Rightarrow> int" where
  "waitedSeconds t ts =
     (case sort_key dateParse ts of [] \<Rightarrow> 0 | u # _ \<Rightarrow> max 0 ((dateParse t - dateParse u + 500) div 1000))"

definition queueDepthByTeam :: "Timestamp \<Rightarrow> RoutingDb \<Rightarrow> DepthRow list" where
  "queueDepthByTeam t db =
     (let waiting = filter (\<lambda>e. qe_state e = Q_WAITING) (db_queue_entries db)
      in map (\<lambda>(team, prio).
           let mine = filter (\<lambda>e. qe_team_id e = team \<and> qe_priority e = prio) waiting
           in \<lparr>dr_teamId = team, dr_priority = prio, dr_waiting = length mine,
               dr_oldestSeconds = waitedSeconds t (map qe_enqueued_at mine)\<rparr>)
         (remdups (map (\<lambda>e. (qe_team_id e, qe_priority e)) waiting)))"

definition queueMetricsOf :: "string \<Rightarrow> Timestamp \<Rightarrow> RoutingDb \<Rightarrow> QueueMetrics" where
  "queueMetricsOf teamId t db =
     (let mine = filter (\<lambda>r. dr_teamId r = teamId) (queueDepthByTeam t db)
      in \<lparr>qm_teamId = teamId, qm_depth = sum_list (map dr_waiting mine),
          qm_oldestWaitingSeconds = foldr max (map dr_oldestSeconds mine) 0,
          qm_byPriority = map (\<lambda>r. (dr_priority r, dr_waiting r)) mine, qm_availableCapacityUnits = 0\<rparr>)"

definition reserveRow :: "(Timestamp \<Rightarrow> int \<Rightarrow> Timestamp) \<Rightarrow> ReserveInput \<Rightarrow> ReservationRow" where
  "reserveRow plusSeconds inp =
     \<lparr>rs_reservation_id = re_reservationId inp, rs_principal_id = re_principalId inp, rs_ref = re_ref inp,
      rs_weight = re_weight inp, rs_effective_from = re_at inp,
      rs_expires_at = plusSeconds (re_at inp) (re_ttlSeconds inp), rs_released_at = None\<rparr>"

text \<open>\<open>INSERT ... ON CONFLICT DO NOTHING\<close>, whose result is not looked at.\<close>

definition reserveIn ::
  "(Timestamp \<Rightarrow> int \<Rightarrow> Timestamp) \<Rightarrow> ReserveInput \<Rightarrow> RoutingDb \<Rightarrow> ((UUID \<times> Timestamp) \<times> RoutingDb) option" where
  "reserveIn plusSeconds inp db =
     (let r = reserveRow plusSeconds inp
      in if \<not> (0 < rs_weight r \<and> rs_effective_from r < rs_expires_at r) then None
         else Some ((rs_reservation_id r, rs_expires_at r),
           db\<lparr>db_reservations := db_reservations db @ (if reservationFits r db then [r] else [])\<rparr>))"

definition releaseIn :: "UUID \<Rightarrow> Timestamp \<Rightarrow> RoutingDb \<Rightarrow> RoutingDb" where
  "releaseIn rid t db =
     db\<lparr>db_reservations := updateWhere (\<lambda>r. rs_reservation_id r = rid \<and> rs_released_at r = None)
          (\<lambda>r. r\<lparr>rs_released_at := Some t\<rparr>) (db_reservations db)\<rparr>"

record StoreIds =
  si_enqueueEpisode :: UUID
  si_assignEpisode :: UUID
  si_claimReservation :: UUID

definition pgOrchestratorStore ::
  "StoreIds \<Rightarrow> (Timestamp \<Rightarrow> int \<Rightarrow> Timestamp) \<Rightarrow> RoutingDb WorkOrchestratorStore" where
  "pgOrchestratorStore ids plusSeconds =
     \<lparr>ws_enqueue = enqueue (si_enqueueEpisode ids),
      ws_claimQueueEntry = (\<lambda>qid inp key. claimQueueEntry plusSeconds inp qid key (si_claimReservation ids)),
      ws_reserve = reserveIn plusSeconds,
      ws_assignFromRouting =
        (\<lambda>inp. assignFromRouting plusSeconds (inp\<lparr>ai_stateEpisodeId := si_assignEpisode ids\<rparr>)),
      ws_release = (\<lambda>rid reason t db. Some (releaseIn rid t db)),
      ws_queueMetrics = queueMetricsOf\<rparr>"

definition appOrchestrator ::
  "DeskConfig \<Rightarrow> int \<Rightarrow> StoreIds \<Rightarrow> (Timestamp \<Rightarrow> int \<Rightarrow> Timestamp) \<Rightarrow> RoutingDb OrchestratorOptions" where
  "appOrchestrator cfg ttl ids plusSeconds =
     \<lparr>oo_store = pgOrchestratorStore ids plusSeconds, oo_categoryRouting = forCategory cfg,
      oo_reservationTtlSeconds = ttl, oo_availabilityOf = factsFor cfg, oo_fallbackPolicy = DEFAULT_FALLBACK\<rparr>"

end
