(* ===== verification/Orchestrator_Contract.thy ===== *)
theory Orchestrator_Contract
  imports Orchestrator_Pg Routing_Guards
begin

text \<open>
  What the orchestrator needs of its store, as a locale, with the lemmas about \<open>requestRouting\<close> that
  hold over every such store, and the proof that the routing store is one. Then what the
  routing store adds: an assignment in the instant of the queueing is refused by the table of
  the states.
\<close>

section \<open>The contract\<close>

locale placement_store =
  fixes store :: "'st WorkOrchestratorStore"
    and inQueue :: "UUID \<Rightarrow> 'st \<Rightarrow> bool"
    and known :: "UUID \<Rightarrow> 'st \<Rightarrow> bool"
    and ownerOf :: "UUID \<Rightarrow> 'st \<Rightarrow> UUID option"
    and freshEntry :: "UUID \<Rightarrow> 'st \<Rightarrow> bool"
  assumes enqueue_queues: "ws_enqueue store inp st = Some st' \<Longrightarrow> freshEntry (en_queueEntryId inp) st \<Longrightarrow>
      inQueue (en_conversationId inp) st'"
    and queued_known: "inQueue cid st \<Longrightarrow> known cid st"
    and enqueue_keeps_owner: "ws_enqueue store inp st = Some st' \<Longrightarrow> ownerOf cid st' = ownerOf cid st"
    and assign_keeps_known: "ws_assignFromRouting store ai st = Some (r, st') \<Longrightarrow> known cid st \<Longrightarrow> known cid st'"
    and assign_refused: "ws_assignFromRouting store ai st = Some (Inl why, st') \<Longrightarrow> st' = st"
    and assign_owns: "ws_assignFromRouting store ai st = Some (Inr cid, st') \<Longrightarrow>
      ownerOf cid st' = Some (ai_principalId ai)"
    and assign_same: "ws_enqueue store inp st = Some st1 \<Longrightarrow> freshEntry (en_queueEntryId inp) st \<Longrightarrow>
      ai_queueEntryId ai = en_queueEntryId inp \<Longrightarrow> ws_assignFromRouting store ai st1 = Some (Inr cid, st') \<Longrightarrow>
      cid = en_conversationId inp"
begin

lemma actOn_keeps_known:
  assumes "oo_store options = store" and "actOn options ids context t d st = (out, st')" and "known cid st"
  shows "known cid st'"
  using assms(2,3)
  by (cases d) (auto simp: actOn_def assms(1) split: option.splits prod.splits sum.splits intro: assign_keeps_known)

lemma actOn_unowned:
  assumes "oo_store options = store" and "actOn options ids context t d st = (out, st')"
    and "\<And>who rid why. out \<noteq> Returned (Inr (ASSIGNED_TO who rid why))"
  shows "st' = st"
  using assms(2,3)
  by (cases d) (auto simp: actOn_def assms(1) split: option.splits prod.splits sum.splits dest: assign_refused)

text \<open>Work that was accepted is owned by whom it was assigned to, and otherwise still in the queue.\<close>

lemma requestRouting_places:
  assumes "oo_store options = store" and "freshEntry (pi_queueEntryId ids) st"
    and "requestRouting options ids t context st = (out, st')"
  shows "st' = st \<and> (out = Threw \<or> (\<exists>e. out = Returned (Inl e))) \<or>
    known (rc_conversationId context) st' \<and>
    ((\<exists>who rid why. out = Returned (Inr (ASSIGNED_TO who rid why)) \<and>
        ownerOf (rc_conversationId context) st' = Some who) \<or>
     (\<nexists>who rid why. out = Returned (Inr (ASSIGNED_TO who rid why))) \<and>
        inQueue (rc_conversationId context) st' \<and>
        ownerOf (rc_conversationId context) st' = ownerOf (rc_conversationId context) st)"
proof (cases "cg_teamId (oo_categoryRouting options (rc_category context))")
  case None
  with assms(3) show ?thesis by (auto simp: requestRouting_def)
next
  case (Some teamId)
  let ?inp = "enqueueInputOf (pi_queueEntryId ids) teamId t context" and ?cid = "rc_conversationId context"
  have inp: "en_queueEntryId ?inp = pi_queueEntryId ids" "en_conversationId ?inp = ?cid"
    by (simp_all add: enqueueInputOf_def)
  show ?thesis
  proof (cases "ws_enqueue store ?inp st")
    case None
    with assms Some show ?thesis by (simp add: requestRouting_def)
  next
    case e: (Some st1)
    have q: "inQueue ?cid st1" using enqueue_queues[OF e] assms(2) inp by simp
    note k = queued_known[OF q]
    have o1: "ownerOf ?cid st1 = ownerOf ?cid st" by (rule enqueue_keeps_owner[OF e])
    show ?thesis
    proof (cases "rc_businessHoursState context = HOURS_AFTER")
      case True
      with assms e Some q k o1 show ?thesis by (auto simp: requestRouting_def)
    next
      case False
      define d where "d = route (routingInputsOf options context teamId t st1)"
      have act: "actOn options ids context t d st1 = (out, st')"
        using assms(1,3) e Some False by (simp add: requestRouting_def d_def)
      note k' = actOn_keeps_known[OF assms(1) act k]
      show ?thesis
      proof (cases "\<exists>who rid why. out = Returned (Inr (ASSIGNED_TO who rid why))")
        case True
        then obtain who rid why where out: "out = Returned (Inr (ASSIGNED_TO who rid why))" by blast
        with act obtain basis path cid where d: "d = RouteAssign who basis path"
          and a: "ws_assignFromRouting store (assignInputOf options ids context who path t) st1 = Some (Inr cid, st')"
          using assms(1) by (cases d) (auto simp: actOn_def split: option.splits sum.splits)
        have "cid = ?cid" using assign_same[OF e _ _ a] assms(2) inp by (simp add: assignInputOf_def)
        with assign_owns[OF a] have "ownerOf ?cid st' = Some who" by (simp add: assignInputOf_def)
        with out k' show ?thesis by blast
      next
        case False
        with actOn_unowned[OF assms(1) act] q k o1 show ?thesis by auto
      qed
    qed
  qed
qed

end

section \<open>The routing store keeps it\<close>

definition handled :: "UUID \<Rightarrow> RoutingDb \<Rightarrow> bool" where
  "handled cid db \<longleftrightarrow> list_ex (\<lambda>e. qe_conversation_id e = cid \<and> qe_state e \<noteq> Q_CANCELLED) (db_queue_entries db)"

text \<open>
  In the queue: an entry of the conversation that nobody has claimed. \<open>RESERVED\<close> is a state the schema
  knows and no statement writes; the unique index counts it as live.
\<close>

definition unclaimed :: "UUID \<Rightarrow> RoutingDb \<Rightarrow> bool" where
  "unclaimed cid db \<longleftrightarrow>
     list_ex (\<lambda>e. qe_conversation_id e = cid \<and> qe_state e \<in> {Q_WAITING, Q_RESERVED}) (db_queue_entries db)"

definition freshQueueId :: "UUID \<Rightarrow> RoutingDb \<Rightarrow> bool" where
  "freshQueueId i db \<longleftrightarrow> \<not> list_ex (\<lambda>e. qe_queue_entry_id e = i) (db_queue_entries db)"

definition ownerNow :: "UUID \<Rightarrow> RoutingDb \<Rightarrow> UUID option" where
  "ownerNow cid db = map_option ow_owner_id (currentOwner cid db)"

lemma list_ex_updateWhere_mono:
  "(\<And>r. P r \<Longrightarrow> P (f r)) \<Longrightarrow> list_ex P xs \<Longrightarrow> list_ex P (updateWhere q f xs)"
  by (induction xs) (auto simp: updateWhere_def)

lemma queueWrite_handled:
  assumes "queueWrite l db db'" and "handled cid db"
  shows "handled cid db'"
  using assms
proof (induction rule: queueWrite.induct)
  case (claimed p who t db entry db')
  from claimed(1) have "db_queue_entries db' =
      updateWhere (\<lambda>x. p x \<and> qe_state x = Q_WAITING) (claimedBy who t) (db_queue_entries db)"
    by (rule claimWhere_Some) simp
  with claimed(2) show ?case by (auto simp: handled_def intro: list_ex_updateWhere_mono)
next
  case (reassigned ri e corr db ep db')
  from reassigned(1) have "db_queue_entries db' = db_queue_entries db"
    by (auto simp: reassign_def Let_def closeEpisode_def demotePrevious_def demote_def case_setters
        elim!: bind_SomeE openEpisodeIn_Some split: if_splits option.splits)
  with reassigned(2) show ?case by (simp add: handled_def)
qed (auto simp: handled_def episodesAndQueue_def elim!: openEpisodeIn_Some)

lemma routingStep_handled: "routingStep l db db' \<Longrightarrow> handled cid db \<Longrightarrow> handled cid db'"
proof -
  have "queueWrites l db db' \<Longrightarrow> handled cid db \<Longrightarrow> handled cid db'"
    by (induction rule: queueWrites.induct) (auto intro: queueWrite_handled)
  then show "routingStep l db db' \<Longrightarrow> handled cid db \<Longrightarrow> handled cid db'"
    by (blast dest: routingStep_writes)
qed

lemma enqueue_Some:
  assumes "enqueue e inp db = Some db'"
  obtains m db2 where "advanceStateIn e \<lparr>as_conversationId = en_conversationId inp, as_from = [NEW],
        as_to = QUEUED, as_at = en_at inp, as_enteredBy = None,
        as_reason = Some (if en_afterHours inp then ''queued after hours'' else ''queued for the team'')\<rparr>
      (db\<lparr>db_queue_entries := db_queue_entries db @
        (if queueConflict inp (db_queue_entries db) then [] else [queueRowOf inp])\<rparr>) = Some (m, db2)"
    and "db' = db2\<lparr>db_outbox := db_outbox db2 @ [arrivalEvent inp]\<rparr>"
    and "db_queue_entries db' = db_queue_entries db @
      (if queueConflict inp (db_queue_entries db) then [] else [queueRowOf inp])"
    and "db_ownership_episodes db' = db_ownership_episodes db"
  using assms
  by (auto simp: enqueue_def Let_def appendOutboxIn_iff advanceStateIn_frame elim!: bind_SomeE split: if_splits)

lemma enqueue_unclaimed:
  assumes "enqueue e inp db = Some db'" and "freshQueueId (en_queueEntryId inp) db"
  shows "unclaimed (en_conversationId inp) db'"
  using assms(1)
proof (rule enqueue_Some)
  assume "db_queue_entries db' = db_queue_entries db @
      (if queueConflict inp (db_queue_entries db) then [] else [queueRowOf inp])"
  with assms(2) show ?thesis
    by (auto simp: unclaimed_def freshQueueId_def queueConflict_def queueRowOf_def list_ex_iff split: if_splits)
qed

lemma assign_owner:
  assumes "assignFromRouting later ai db = Some (Inr cid, db')"
  shows "ownerNow cid db' = Some (ai_principalId ai)"
proof -
  from assms obtain oe db1 ep db2 where o: "openEpisodeIn oe db1 = Some (ep, db2)"
    and oe: "oe_conversationId oe = cid" "oe_ownerId oe = ai_principalId ai" "oe_at oe = ai_at ai"
    and eps: "db_ownership_episodes db' = db_ownership_episodes db2"
  proof (rule assignFromRouting_Inr, goal_cases)
    case (1 entry db1 ep db2 r m)
    from 1(8) have "db_ownership_episodes db' = db_ownership_episodes db2"
      by (simp add: advanceStateIn_frame(1) case_setters)
    with 1(1)[OF 1(5)] show ?case by simp
  qed
  from o have "db_ownership_episodes db' = db_ownership_episodes db1 @ [episodeRowOf oe]"
    "ownershipFree cid (ai_at ai) (db_ownership_episodes db1)"
    by (auto simp: eps oe elim!: openEpisodeIn_Some)
  moreover from this have "find (\<lambda>e. ow_conversation_id e = cid \<and> ow_effective_to e = None) (db_ownership_episodes db1) = None"
    by (auto simp: find_None_iff ownershipFree_def list_all_iff split: option.splits)
  ultimately have "currentOwner cid db' = Some (episodeRowOf oe)"
    by (simp add: currentOwner_def find_append_miss) (simp add: episodeRowOf_def oe)
  then show ?thesis by (simp add: ownerNow_def episodeRowOf_def oe)
qed

lemma assign_entry:
  assumes "enqueue e inp db = Some db1" and "freshQueueId (en_queueEntryId inp) db"
    and "ai_queueEntryId ai = en_queueEntryId inp" and "assignFromRouting later ai db1 = Some (Inr cid, db')"
  shows "cid = en_conversationId inp"
proof -
  from assms(4) obtain entry where e: "entry \<in> set (db_queue_entries db1)"
    "qe_queue_entry_id entry = ai_queueEntryId ai" "cid = qe_conversation_id entry"
    by (rule assignFromRouting_Inr) (auto elim!: claimWhere_Some)
  from assms(1) have "db_queue_entries db1 = db_queue_entries db @
      (if queueConflict inp (db_queue_entries db) then [] else [queueRowOf inp])"
    by (rule enqueue_Some) simp
  with e assms(2,3) show ?thesis
    by (auto simp: freshQueueId_def list_ex_iff queueRowOf_def split: if_splits)
qed

interpretation po: placement_store "pgOrchestratorStore sids later" unclaimed handled ownerNow freshQueueId
  for sids later
proof (unfold_locales, goal_cases)
  case (1 inp st st')
  then show ?case by (simp add: pgOrchestratorStore_def enqueue_unclaimed)
next
  case (2 cid st)
  then show ?case by (auto simp: unclaimed_def handled_def list_ex_iff)
next
  case (3 inp st st' cid)
  then have "db_ownership_episodes st' = db_ownership_episodes st"
    by (auto simp: pgOrchestratorStore_def elim!: enqueue_Some)
  then show ?case by (simp add: ownerNow_def currentOwner_def)
next
  case (4 ai st r st' cid)
  then show ?case by (auto simp: pgOrchestratorStore_def intro: routingStep_handled routingStep.assign)
next
  case (5 ai st why st')
  then show ?case
    by (auto simp: pgOrchestratorStore_def assignFromRouting_def Let_def elim!: bind_SomeE
        split: if_splits option.splits prod.splits)
next
  case (6 ai st cid st')
  then show ?case by (auto simp: pgOrchestratorStore_def dest!: assign_owner)
next
  case (7 inp st st1 ai cid st')
  then show ?case using assign_entry[of "si_enqueueEpisode sids" inp st st1 "ai\<lparr>ai_stateEpisodeId := si_assignEpisode sids\<rparr>"]
    by (simp add: pgOrchestratorStore_def)
qed

section \<open>An assignment in the instant of the queueing\<close>

definition inState :: "UUID \<Rightarrow> ConversationState \<Rightarrow> 'x Db_scheme \<Rightarrow> bool" where
  "inState cid s db \<longleftrightarrow> list_ex (\<lambda>c. cr_conversation_id c = cid \<and> cr_state c = Some s) (db_conversations db)"

definition episodeOpenSince :: "UUID \<Rightarrow> Timestamp \<Rightarrow> 'x Db_scheme \<Rightarrow> bool" where
  "episodeOpenSince cid t db \<longleftrightarrow>
     list_ex (\<lambda>e. ep_conversation_id e = cid \<and> ep_effective_from e = t \<and> ep_effective_to e = None) (db_episodes db)"

lemma list_ex_updated:
  "(\<And>r. q r \<Longrightarrow> P (f r)) \<Longrightarrow> list_ex q xs \<Longrightarrow> list_ex P (updateWhere q f xs)"
  by (induction xs) (auto simp: updateWhere_def)

lemma advanceStateIn_opens:
  assumes "advanceStateIn e inp db = Some (m, db')" and "inState (as_conversationId inp) s db" and "s \<in> set (as_from inp)"
  shows "inState (as_conversationId inp) (as_to inp) db' \<and> episodeOpenSince (as_conversationId inp) (as_at inp) db'"
proof -
  let ?hit = "\<lambda>c. cr_conversation_id c = as_conversationId inp \<and>
    (case cr_state c of None \<Rightarrow> False | Some s \<Rightarrow> s \<in> set (as_from inp))"
  have h: "list_ex ?hit (db_conversations db)" using assms(2,3) by (auto simp: inState_def list_ex_iff)
  then have "list_ex (\<lambda>c. cr_conversation_id c = as_conversationId inp \<and> cr_state c = Some (as_to inp))
      (updateWhere ?hit (\<lambda>c. c\<lparr>cr_state := Some (as_to inp)\<rparr>) (db_conversations db))"
    by (rule list_ex_updated[rotated]) simp
  with assms(1) h show ?thesis
    by (auto simp: advanceStateIn_def Let_def inState_def episodeOpenSince_def split: if_splits)
qed

lemma advanceStateIn_same_instant:
  assumes "inState (as_conversationId inp) s db" and "s \<in> set (as_from inp)"
    and "episodeOpenSince (as_conversationId inp) (as_at inp) db"
  shows "advanceStateIn e inp db = None"
proof -
  have "list_ex (\<lambda>c. cr_conversation_id c = as_conversationId inp \<and>
      (case cr_state c of None \<Rightarrow> False | Some s \<Rightarrow> s \<in> set (as_from inp))) (db_conversations db)"
    using assms(1,2) by (auto simp: inState_def list_ex_iff)
  moreover have "\<not> episodesAllow (as_conversationId inp) (as_at inp) (db_episodes db)"
    using assms(3) by (auto simp: episodesAllow_def episodeOpenSince_def list_ex_iff list_all_iff)
  ultimately show ?thesis by (auto simp: advanceStateIn_def Let_def)
qed

lemma assign_after_enqueue:
  assumes "enqueue e inp db = Some db1" and "freshQueueId (en_queueEntryId inp) db"
    and "inState (en_conversationId inp) NEW db"
    and "ai_queueEntryId ai = en_queueEntryId inp" and "ai_at ai = en_at inp"
  shows "assignFromRouting later ai db1 \<noteq> Some (Inr cid, db')"
proof
  assume a: "assignFromRouting later ai db1 = Some (Inr cid, db')"
  note cid = assign_entry[OF assms(1,2,4) a]
  have q: "inState cid QUEUED db1 \<and> episodeOpenSince cid (ai_at ai) db1"
    using assms(1)
  proof (rule enqueue_Some)
    fix m db2
    let ?a = "\<lparr>as_conversationId = en_conversationId inp, as_from = [NEW], as_to = QUEUED, as_at = en_at inp,
        as_enteredBy = None,
        as_reason = Some (if en_afterHours inp then ''queued after hours'' else ''queued for the team'')\<rparr>"
    let ?db = "db\<lparr>db_queue_entries := db_queue_entries db @
        (if queueConflict inp (db_queue_entries db) then [] else [queueRowOf inp])\<rparr>"
    assume adv: "advanceStateIn e ?a ?db = Some (m, db2)" and db1: "db1 = db2\<lparr>db_outbox := db_outbox db2 @ [arrivalEvent inp]\<rparr>"
    have "inState (as_conversationId ?a) NEW ?db" using assms(3) by (simp add: inState_def)
    from advanceStateIn_opens[OF adv this] show ?thesis
      by (simp add: cid assms(5) db1 inState_def episodeOpenSince_def)
  qed
  from a show False
  proof (rule assignFromRouting_Inr, goal_cases)
    case (1 entry db1' ep db2 r m)
    let ?db = "setCaseOwner cid (ai_principalId ai)
        (ensureOwnerParticipantIn cid (ai_principalId ai) (ai_principalId ai) (ai_at ai)
          \<lparr>gb_actorId = None, gb_actorKind = ''SYSTEM'', gb_reason = ai_reason ai,
           gb_correlationId = (case ai_correlationId ai of Some c \<Rightarrow> c | None \<Rightarrow> cid)\<rparr>
          (db2\<lparr>db_reservations := db_reservations db2 @ [r]\<rparr>))"
    have same: "db_episodes db2 = db_episodes db1" "db_conversations db2 = db_conversations db1"
      using 1(2) 1(4) by (auto elim!: claimWhere_Some openEpisodeIn_Some)
    have "episodeOpenSince cid (ai_at ai) ?db"
      using q by (simp add: episodeOpenSince_def same case_setters updateCaseOf_def ensureOwnerParticipantIn_def Let_def)
    moreover have "inState cid QUEUED ?db"
      using q by (simp add: inState_def same case_setters updateCaseOf_def ensureOwnerParticipantIn_def Let_def list_ex_updateWhere)
    ultimately have "advanceStateIn (ai_stateEpisodeId ai) (assignedState cid (ai_at ai) None ''assigned by routing'') ?db = None"
      by (intro advanceStateIn_same_instant[where s = QUEUED]) (simp_all add: assignedState_def ASSIGNABLE_FROM_def)
    with 1(7) show ?case by simp
  qed
qed

end
