(* ===== verification/Calendar_Reader.thy ===== *)
theory Calendar_Reader
  imports Sla_Intervals
begin

text \<open>
  The reader of business calendars, \<open>infrastructure/database/src/repositories/calendar-reader.ts\<close>: a
  row that is malformed throws (\<open>None\<close>) instead of becoming a closed calendar. The JSON columns are
  values of the datatype \<open>Json\<close>. Which zones the platform knows (\<open>Intl.DateTimeFormat\<close>) is the
  argument \<open>knownZone\<close>.
\<close>

section \<open>JSON\<close>

text \<open>Of a number that is not an integer the reader only sees that it is none.\<close>

datatype Json =
    JNull
  | JBool bool
  | JInt int
  | JFraction
  | JText string
  | JArray "Json list"
  | JObject "(string \<times> Json) list"

text \<open>\<open>value[key]\<close>: \<open>None\<close> is the \<open>TypeError\<close> of a null, \<open>Some None\<close> is \<open>undefined\<close>.\<close>

fun jsonField :: "string \<Rightarrow> Json \<Rightarrow> Json option option" where
  "jsonField key JNull = None"
| "jsonField key (JObject kvs) = Some (map_of kvs key)"
| "jsonField key _ = Some None"

text \<open>A \<open>map\<close> over an array whose function may throw.\<close>

fun mapThrowing :: "('a \<Rightarrow> 'b option) \<Rightarrow> 'a list \<Rightarrow> 'b list option" where
  "mapThrowing f [] = Some []"
| "mapThrowing f (x # xs) =
     Option.bind (f x) (\<lambda>y. Option.bind (mapThrowing f xs) (\<lambda>ys. Some (y # ys)))"

section \<open>The checks\<close>

definition MAX_MINUTE :: int where "MAX_MINUTE = 2880"

definition asWeekday :: "Json option \<Rightarrow> int option" where
  "asWeekday v = (case v of Some (JInt n) \<Rightarrow> if 0 \<le> n \<and> n \<le> 6 then Some n else None | _ \<Rightarrow> None)"

definition asMinute :: "Json option \<Rightarrow> int option" where
  "asMinute v = (case v of Some (JInt n) \<Rightarrow> if 0 \<le> n \<and> n \<le> MAX_MINUTE then Some n else None | _ \<Rightarrow> None)"

definition isDigit :: "char \<Rightarrow> bool" where
  "isDigit c \<longleftrightarrow> c \<in> set ''0123456789''"

text \<open>The pattern \<open>^\d{4}-\d{2}-\d{2}$\<close>, and the probe that the date is one.\<close>

definition looksLikeDate :: "string \<Rightarrow> bool" where
  "looksLikeDate s \<longleftrightarrow> length s = 10 \<and> s ! 4 = CHR ''-'' \<and> s ! 7 = CHR ''-'' \<and>
     list_all isDigit (take 4 s) \<and> list_all isDigit (take 2 (drop 5 s)) \<and> list_all isDigit (drop 8 s)"

definition isLocalDate :: "string \<Rightarrow> bool" where
  "isLocalDate s \<longleftrightarrow> looksLikeDate s \<and>
     (case dateFields s of (y, m, d) \<Rightarrow> civilFromDay (dayOfDate y m d) = (y, m, d))"

definition asLocalDate :: "Json option \<Rightarrow> string option" where
  "asLocalDate v = (case v of Some (JText s) \<Rightarrow> if isLocalDate s then Some s else None | _ \<Rightarrow> None)"

definition minutesOf :: "Json \<Rightarrow> (int \<times> int) option" where
  "minutesOf w =
     Option.bind (jsonField ''openMinute'' w) (\<lambda>o'. Option.bind (asMinute o') (\<lambda>openMinute.
     Option.bind (jsonField ''closeMinute'' w) (\<lambda>c. Option.bind (asMinute c) (\<lambda>closeMinute.
       if closeMinute \<le> openMinute then None else Some (openMinute, closeMinute)))))"

definition parseWindow :: "Json \<Rightarrow> WorkingWindow option" where
  "parseWindow w =
     Option.bind (jsonField ''weekday'' w) (\<lambda>d. Option.bind (asWeekday d) (\<lambda>weekday.
     Option.bind (minutesOf w) (\<lambda>(op, cl).
       Some \<lparr>ww_weekday = weekday, ww_openMinute = op, ww_closeMinute = cl\<rparr>)))"

definition parseWindows :: "Json \<Rightarrow> WorkingWindow list option" where
  "parseWindows raw = (case raw of JArray ws \<Rightarrow> mapThrowing parseWindow ws | _ \<Rightarrow> None)"

definition parseException :: "Json \<Rightarrow> CalendarException option" where
  "parseException e =
     Option.bind (jsonField ''date'' e) (\<lambda>d. Option.bind (asLocalDate d) (\<lambda>date.
     Option.bind (jsonField ''windows'' e) (\<lambda>ws.
     Option.bind (case ws of None \<Rightarrow> Some None
         | Some (JArray xs) \<Rightarrow> map_option Some (mapThrowing minutesOf xs)
         | Some _ \<Rightarrow> None) (\<lambda>windows.
     Option.bind (jsonField ''reason'' e) (\<lambda>reason.
       Some \<lparr>ce_date = date,
         ce_windows = (case windows of Some (w # rest) \<Rightarrow> Some (w # rest) | _ \<Rightarrow> None),
         ce_reason = (case reason of Some (JText r) \<Rightarrow> Some r | _ \<Rightarrow> None)\<rparr>)))))"

definition parseExceptions :: "Json \<Rightarrow> CalendarException list option" where
  "parseExceptions raw = (case raw of JArray es \<Rightarrow> mapThrowing parseException es | _ \<Rightarrow> None)"

definition parseHolidays :: "Json \<Rightarrow> string list option" where
  "parseHolidays raw = (case raw of JArray hs \<Rightarrow> mapThrowing (\<lambda>h. asLocalDate (Some h)) hs | _ \<Rightarrow> None)"

section \<open>Rows\<close>

record CalendarRow =
  kr_calendar_id :: string
  kr_team_id :: string
  kr_timezone :: string
  kr_version :: int
  kr_effective_from :: Timestamp
  kr_effective_to :: "Timestamp option"
  kr_working_windows :: Json
  kr_holidays :: Json
  kr_exceptions :: Json
  kr_is_seed_placeholder :: bool

definition readCalendar :: "(string \<Rightarrow> bool) \<Rightarrow> CalendarRow \<Rightarrow> BusinessCalendar option" where
  "readCalendar knownZone row =
     (if \<not> knownZone (kr_timezone row) then None
      else Option.bind (parseHolidays (kr_holidays row)) (\<lambda>holidays.
           Option.bind (parseWindows (kr_working_windows row)) (\<lambda>windows.
           Option.bind (parseExceptions (kr_exceptions row)) (\<lambda>exceptions.
             Some \<lparr>bc_calendarId = kr_calendar_id row, bc_teamId = kr_team_id row,
               bc_timezone = kr_timezone row, bc_version = kr_version row,
               bc_effectiveFrom = kr_effective_from row, bc_effectiveTo = kr_effective_to row,
               bc_workingWindows = windows, bc_holidays = holidays, bc_exceptions = exceptions,
               bc_provisional = kr_is_seed_placeholder row\<rparr>))))"

definition historyFor :: "(string \<Rightarrow> bool) \<Rightarrow> CalendarRow list \<Rightarrow> string \<Rightarrow> BusinessCalendar list option" where
  "historyFor knownZone rows teamId =
     mapThrowing (readCalendar knownZone)
       (sort_key kr_effective_from (filter (\<lambda>r. kr_team_id r = teamId) rows))"

section \<open>What is read is well formed\<close>

lemma mapThrowing_None: "mapThrowing f xs = None \<longleftrightarrow> list_ex (\<lambda>x. f x = None) xs"
  by (induction xs) (auto split: bind_splits)

lemma mapThrowing_all:
  assumes "mapThrowing f xs = Some ys" and "\<And>x y. f x = Some y \<Longrightarrow> P y"
  shows "list_all P ys"
  using assms by (induction xs arbitrary: ys) (auto elim!: bind_SomeE)

lemma minutesOf_bounds: "minutesOf w = Some (op, cl) \<Longrightarrow> 0 \<le> op \<and> op < cl \<and> cl \<le> 2880"
  by (auto simp: minutesOf_def asMinute_def MAX_MINUTE_def elim!: bind_SomeE split: option.splits Json.splits if_splits)

lemma parseWindow_bounds:
  "parseWindow w = Some x \<Longrightarrow> 0 \<le> ww_openMinute x \<and> ww_openMinute x < ww_closeMinute x \<and> ww_closeMinute x \<le> 2880 \<and>
    0 \<le> ww_weekday x \<and> ww_weekday x \<le> 6"
  by (auto simp: parseWindow_def asWeekday_def dest: minutesOf_bounds elim!: bind_SomeE
      split: option.splits Json.splits if_splits)

lemma parseException_date:
  "parseException e = Some x \<Longrightarrow> isLocalDate (ce_date x) \<and> ce_windows x \<noteq> Some []"
  by (auto simp: parseException_def asLocalDate_def elim!: bind_SomeE split: option.splits Json.splits list.splits if_splits)

lemma parseException_bounds:
  assumes "parseException e = Some x"
  shows "case ce_windows x of None \<Rightarrow> True | Some ws \<Rightarrow> list_all (\<lambda>(op, cl). 0 \<le> op \<and> op < cl \<and> cl \<le> 2880) ws"
proof -
  have "list_all (\<lambda>(op, cl). 0 \<le> op \<and> op < cl \<and> cl \<le> 2880) ws" if "mapThrowing minutesOf xs = Some ws" for xs ws
    using mapThrowing_all[OF that, of "\<lambda>(op, cl). 0 \<le> op \<and> op < cl \<and> cl \<le> 2880"] minutesOf_bounds by force
  with assms show ?thesis
    by (auto simp: parseException_def elim!: bind_SomeE split: option.splits Json.splits list.splits)
qed

text \<open>What a calendar must be to be stored, and the row that stores it.\<close>

definition storable :: "(string \<Rightarrow> bool) \<Rightarrow> BusinessCalendar \<Rightarrow> bool" where
  "storable knownZone cal \<longleftrightarrow>
     wellFormed cal \<and> knownZone (bc_timezone cal) \<and> list_all isLocalDate (bc_holidays cal) \<and>
     list_all (\<lambda>w. 0 \<le> ww_weekday w \<and> ww_weekday w \<le> 6) (bc_workingWindows cal) \<and>
     list_all (\<lambda>e. isLocalDate (ce_date e) \<and> ce_windows e \<noteq> Some []) (bc_exceptions cal)"

definition minutesJson :: "int \<times> int \<Rightarrow> (string \<times> Json) list" where
  "minutesJson w = [(''openMinute'', JInt (fst w)), (''closeMinute'', JInt (snd w))]"

definition windowJson :: "WorkingWindow \<Rightarrow> Json" where
  "windowJson w = JObject ((''weekday'', JInt (ww_weekday w)) # minutesJson (ww_openMinute w, ww_closeMinute w))"

definition exceptionJson :: "CalendarException \<Rightarrow> Json" where
  "exceptionJson e = JObject ([(''date'', JText (ce_date e))] @
     (case ce_windows e of None \<Rightarrow> [] | Some ws \<Rightarrow> [(''windows'', JArray (map (JObject \<circ> minutesJson) ws))]) @
     (case ce_reason e of None \<Rightarrow> [] | Some r \<Rightarrow> [(''reason'', JText r)]))"

definition rowOfCalendar :: "BusinessCalendar \<Rightarrow> CalendarRow" where
  "rowOfCalendar cal =
     \<lparr>kr_calendar_id = bc_calendarId cal, kr_team_id = bc_teamId cal, kr_timezone = bc_timezone cal,
      kr_version = bc_version cal, kr_effective_from = bc_effectiveFrom cal,
      kr_effective_to = bc_effectiveTo cal,
      kr_working_windows = JArray (map windowJson (bc_workingWindows cal)),
      kr_holidays = JArray (map JText (bc_holidays cal)),
      kr_exceptions = JArray (map exceptionJson (bc_exceptions cal)),
      kr_is_seed_placeholder = bc_provisional cal\<rparr>"

lemma mapThrowing_map:
  "list_all (\<lambda>x. f (g x) = Some x) xs \<Longrightarrow> mapThrowing f (map g xs) = Some xs"
  by (induction xs) simp_all

lemma minutesOf_minutesJson [simp]:
  "0 \<le> op \<Longrightarrow> op < cl \<Longrightarrow> cl \<le> 2880 \<Longrightarrow>
   minutesOf (JObject (minutesJson (op, cl))) = Some (op, cl)"
  "0 \<le> op \<Longrightarrow> op < cl \<Longrightarrow> cl \<le> 2880 \<Longrightarrow>
   minutesOf (JObject ((''weekday'', d) # minutesJson (op, cl))) = Some (op, cl)"
  by (simp_all add: minutesOf_def minutesJson_def asMinute_def MAX_MINUTE_def)

lemma parseWindow_windowJson:
  "0 \<le> ww_openMinute w \<Longrightarrow> ww_openMinute w < ww_closeMinute w \<Longrightarrow> ww_closeMinute w \<le> 2880 \<Longrightarrow>
   0 \<le> ww_weekday w \<Longrightarrow> ww_weekday w \<le> 6 \<Longrightarrow> parseWindow (windowJson w) = Some w"
  by (simp add: parseWindow_def windowJson_def asWeekday_def)

lemma parseException_exceptionJson:
  assumes "isLocalDate (ce_date e)" and "ce_windows e \<noteq> Some []"
    and "case ce_windows e of None \<Rightarrow> True | Some ws \<Rightarrow> list_all (\<lambda>(op, cl). 0 \<le> op \<and> op < cl \<and> cl \<le> 2880) ws"
  shows "parseException (exceptionJson e) = Some e"
proof (cases "ce_windows e")
  case None
  with assms show ?thesis
    by (cases "ce_reason e") (simp_all add: parseException_def exceptionJson_def asLocalDate_def)
next
  case (Some ws)
  with assms(3) have "list_all (\<lambda>x. minutesOf ((JObject \<circ> minutesJson) x) = Some x) ws"
    by (auto simp: list_all_iff)
  then have m: "mapThrowing minutesOf (map (JObject \<circ> minutesJson) ws) = Some ws" by (rule mapThrowing_map)
  from Some assms(2) obtain w rest where "ws = w # rest" by (cases ws) auto
  with Some m assms(1) show ?thesis
    by (cases "ce_reason e") (simp_all add: parseException_def exceptionJson_def asLocalDate_def)
qed

lemma readCalendar_storable:
  assumes "readCalendar knownZone row = Some cal"
  shows "storable knownZone cal"
proof -
  from assms obtain hs ws es where p: "parseHolidays (kr_holidays row) = Some hs"
    "parseWindows (kr_working_windows row) = Some ws" "parseExceptions (kr_exceptions row) = Some es"
    and cal: "bc_workingWindows cal = ws" "bc_exceptions cal = es" "bc_holidays cal = hs"
      "knownZone (bc_timezone cal)"
    by (auto simp: readCalendar_def elim!: bind_SomeE split: if_splits)
  have "list_all isLocalDate hs"
    using p(1) by (auto simp: parseHolidays_def asLocalDate_def split: Json.splits if_splits elim!: mapThrowing_all)
  moreover have "list_all (\<lambda>w. 0 \<le> ww_openMinute w \<and> ww_openMinute w < ww_closeMinute w \<and> ww_closeMinute w \<le> 2880) ws"
    using p(2) by (auto simp: parseWindows_def split: Json.splits elim!: mapThrowing_all dest: parseWindow_bounds)
  moreover have "list_all (\<lambda>w. 0 \<le> ww_weekday w \<and> ww_weekday w \<le> 6) ws"
    using p(2) by (auto simp: parseWindows_def split: Json.splits elim!: mapThrowing_all dest: parseWindow_bounds)
  moreover have "list_all (\<lambda>e. case ce_windows e of None \<Rightarrow> True
      | Some ws \<Rightarrow> list_all (\<lambda>(op, cl). 0 \<le> op \<and> op < cl \<and> cl \<le> 2880) ws) es"
    using p(3) by (auto simp: parseExceptions_def split: Json.splits elim!: mapThrowing_all intro: parseException_bounds)
  moreover have "list_all (\<lambda>e. isLocalDate (ce_date e) \<and> ce_windows e \<noteq> Some []) es"
    using p(3) by (auto simp: parseExceptions_def split: Json.splits elim!: mapThrowing_all dest: parseException_date)
  ultimately show ?thesis using cal by (simp add: storable_def wellFormed_def)
qed

text \<open>
  C27: what the reader accepts. The calendars the reader can return, from any row of any JSON, are
  exactly the well formed ones: windows within two days that close after they open, real dates, a
  known zone, no exception with an empty list of windows. Each of them is read back from the row
  that stores it. The clock's theorems ask for no more.
\<close>

theorem reader_accepts_the_well_formed:
  "(\<exists>row. readCalendar knownZone row = Some cal) \<longleftrightarrow>
   storable knownZone cal \<and> readCalendar knownZone (rowOfCalendar cal) = Some cal"
proof -
  have "readCalendar knownZone (rowOfCalendar cal) = Some cal" if s: "storable knownZone cal"
  proof -
    have "mapThrowing (\<lambda>h. asLocalDate (Some h)) (map JText (bc_holidays cal)) = Some (bc_holidays cal)"
      using s by (intro mapThrowing_map) (simp add: storable_def list_all_iff asLocalDate_def)
    moreover have "mapThrowing parseWindow (map windowJson (bc_workingWindows cal)) = Some (bc_workingWindows cal)"
      using s by (intro mapThrowing_map) (simp add: storable_def wellFormed_def list_all_iff parseWindow_windowJson)
    moreover have "mapThrowing parseException (map exceptionJson (bc_exceptions cal)) = Some (bc_exceptions cal)"
      using s by (intro mapThrowing_map) (simp add: storable_def wellFormed_def list_all_iff parseException_exceptionJson)
    ultimately show ?thesis
      using s by (simp add: readCalendar_def rowOfCalendar_def parseHolidays_def parseWindows_def
          parseExceptions_def storable_def)
  qed
  with readCalendar_storable show ?thesis by blast
qed

lemma historyFor_storable: "historyFor knownZone rows teamId = Some cals \<Longrightarrow> list_all (storable knownZone) cals"
  unfolding historyFor_def by (rule mapThrowing_all) (auto intro: readCalendar_storable)

end
