(* ===== verification/Routing_Sweep.thy ===== *)
theory Routing_Sweep
  imports Calendar_Reader Orchestrator_Pg
begin

text \<open>
  Placement from committed state: \<open>apps/api/src/routing/business-hours.ts\<close> (is the team open, and what
  of a team without a calendar) and the sweep of \<open>apps/api/src/routing/routing.sweep.ts\<close>, which finds the
  conversations nobody has placed and asks the orchestrator for each. An instant is its milliseconds;
  the platform's zones are the arguments \<open>zone\<close> and \<open>knownZone\<close>. The optional notifier, the logs and the
  metrics are left out.
\<close>

section \<open>Business hours\<close>

datatype HoursBasis = CALENDAR_OPEN | CALENDAR_CLOSED | NO_CALENDAR

record BusinessHoursAnswer =
  bh_state :: BusinessHoursState
  bh_basis :: HoursBasis
  bh_provisional :: bool
  bh_opensAt :: "Timestamp option"

definition decideHours :: "Zone \<Rightarrow> BusinessCalendar list \<Rightarrow> int \<Rightarrow> BusinessHoursAnswer" where
  "decideHours zone history instant =
     (if length history = 0
      then \<lparr>bh_state = HOURS_AFTER, bh_basis = NO_CALENDAR, bh_provisional = False, bh_opensAt = None\<rparr>
      else
        let stamp = toISOString instant;
            active = versionAt history stamp;
            provisional = (case active of None \<Rightarrow> False | Some v \<Rightarrow> bc_provisional v)
        in if openStateOf zone active instant = OPEN
           then \<lparr>bh_state = HOURS_OPEN, bh_basis = CALENDAR_OPEN, bh_provisional = provisional, bh_opensAt = None\<rparr>
           else \<lparr>bh_state = HOURS_AFTER,
                 bh_basis = (if active = None then NO_CALENDAR else CALENDAR_CLOSED),
                 bh_provisional = provisional, bh_opensAt = nextOpening zone history stamp 60\<rparr>)"

definition stateFor ::
  "Zone \<Rightarrow> (string \<Rightarrow> bool) \<Rightarrow> CalendarRow list \<Rightarrow> string \<Rightarrow> int \<Rightarrow> BusinessHoursAnswer option" where
  "stateFor zone knownZone rows teamId instant =
     map_option (\<lambda>history. decideHours zone history instant) (historyFor knownZone rows teamId)"

section \<open>What waits to be placed\<close>

record DeskTables = DeskConfig +
  dk_case_category :: "(UUID \<times> string) list"
  dk_created_at :: "(UUID \<times> Timestamp) list"
  dk_calendars :: "CalendarRow list"

record Unplaced =
  un_conversationId :: UUID
  un_caseId :: "UUID option"
  un_categoryId :: string
  un_designatedEmployeeId :: "UUID option"

definition createdAt :: "'x DeskTables_scheme \<Rightarrow> ConversationRow \<Rightarrow> Timestamp" where
  "createdAt tables c = (case map_of (dk_created_at tables) (cr_conversation_id c) of None \<Rightarrow> [] | Some t \<Rightarrow> t)"

definition awaitsPlacement :: "RoutingDb \<Rightarrow> ConversationRow \<Rightarrow> bool" where
  "awaitsPlacement db c \<longleftrightarrow>
     cr_conversation_type c = CUSTOMER_SERVICE \<and>
     (case cr_state c of None \<Rightarrow> False | Some s \<Rightarrow> s \<notin> {RESOLVED, CLOSED}) \<and>
     \<not> list_ex (\<lambda>q. qe_conversation_id q = cr_conversation_id c \<and> qe_state q \<noteq> Q_CANCELLED) (db_queue_entries db) \<and>
     \<not> list_ex (\<lambda>e. ow_conversation_id e = cr_conversation_id c \<and> ow_effective_to e = None)
         (db_ownership_episodes db)"

definition unplacedOf :: "'x DeskTables_scheme \<Rightarrow> RoutingDb \<Rightarrow> ConversationRow \<Rightarrow> Unplaced option" where
  "unplacedOf tables db c =
     Option.bind (caseOf c db) (\<lambda>sc.
       map_option (\<lambda>categoryId.
         \<lparr>un_conversationId = cr_conversation_id c, un_caseId = cr_case_id c, un_categoryId = categoryId,
          un_designatedEmployeeId = sc_designated_employee_id sc\<rparr>)
         (map_of (dk_case_category tables) (sc_case_id sc)))"

definition unplacedBatch :: "'x DeskTables_scheme \<Rightarrow> nat \<Rightarrow> RoutingDb \<Rightarrow> Unplaced list" where
  "unplacedBatch tables batchSize db =
     take batchSize (List.map_filter (unplacedOf tables db)
       (sort_key (createdAt tables) (filter (awaitsPlacement db) (db_conversations db))))"

text \<open>\<open>teamsFor\<close>: the owning team of a category, whether or not the category is active.\<close>

definition teamsFor :: "'x DeskTables_scheme \<Rightarrow> string list \<Rightarrow> (string \<times> string) list" where
  "teamsFor tables categoryIds =
     List.map_filter (\<lambda>c. if ct_category_id c \<in> set categoryIds
       then map_option (Pair (ct_category_id c)) (ct_owning_team_id c) else None) (dc_categories tables)"

section \<open>The run\<close>

type_synonym RoutingPort = "RoutingContext \<Rightarrow> RoutingDb \<Rightarrow> (AdapterError + RoutingResult) Outcome \<times> RoutingDb"

record RoutingSweepResult =
  sr_examined :: nat
  sr_acted :: nat
  sr_failed :: nat

definition sweepContext :: "Unplaced \<Rightarrow> BusinessHoursState \<Rightarrow> RoutingContext" where
  "sweepContext item hours =
     \<lparr>rc_conversationId = un_conversationId item, rc_caseId = un_caseId item,
      rc_category = un_categoryId item, rc_priority = None,
      rc_relationshipOwner = un_designatedEmployeeId item, rc_businessHoursState = hours\<rparr>"

text \<open>One answer per team: the loop over the distinct teams, outside every \<open>try\<close>.\<close>

definition hoursByTeam ::
  "Zone \<Rightarrow> (string \<Rightarrow> bool) \<Rightarrow> 'x DeskTables_scheme \<Rightarrow> int \<Rightarrow> string list \<Rightarrow>
   (string \<times> BusinessHoursAnswer) list option" where
  "hoursByTeam zone knownZone tables instant teams =
     mapThrowing (\<lambda>t. map_option (Pair t) (stateFor zone knownZone (dk_calendars tables) t instant)) (remdups teams)"

fun placeAll ::
  "RoutingPort \<Rightarrow> (string \<times> string) list \<Rightarrow> (string \<times> BusinessHoursAnswer) list \<Rightarrow> Unplaced list \<Rightarrow>
   nat \<Rightarrow> nat \<Rightarrow> RoutingDb \<Rightarrow> (nat \<times> nat) \<times> RoutingDb" where
  "placeAll orchestrator teamOf hoursOf [] acted failed db = ((acted, failed), db)"
| "placeAll orchestrator teamOf hoursOf (item # items) acted failed db =
     (case Option.bind (map_of teamOf (un_categoryId item)) (map_of hoursOf) of
        None \<Rightarrow> placeAll orchestrator teamOf hoursOf items acted failed db
      | Some hours \<Rightarrow>
          (case orchestrator (sweepContext item (bh_state hours)) db of
             (Threw, db') \<Rightarrow> placeAll orchestrator teamOf hoursOf items acted (failed + 1) db'
           | (Returned (Inl _), db') \<Rightarrow> placeAll orchestrator teamOf hoursOf items acted failed db'
           | (Returned (Inr _), db') \<Rightarrow> placeAll orchestrator teamOf hoursOf items (acted + 1) failed db'))"

definition runRoutingSweep ::
  "Zone \<Rightarrow> (string \<Rightarrow> bool) \<Rightarrow> 'x DeskTables_scheme \<Rightarrow> RoutingPort \<Rightarrow> nat option \<Rightarrow> int \<Rightarrow> RoutingDb \<Rightarrow>
   RoutingSweepResult Outcome \<times> RoutingDb" where
  "runRoutingSweep zone knownZone tables orchestrator batchSize instant db =
     (let items = unplacedBatch tables (case batchSize of None \<Rightarrow> 100 | Some n \<Rightarrow> n) db
      in if length items = 0 then (Returned \<lparr>sr_examined = 0, sr_acted = 0, sr_failed = 0\<rparr>, db)
         else
           let teamOf = teamsFor tables (map un_categoryId items)
           in (case hoursByTeam zone knownZone tables instant (map snd teamOf) of
                 None \<Rightarrow> (Threw, db)
               | Some hoursOf \<Rightarrow>
                   (case placeAll orchestrator teamOf hoursOf items 0 0 db of
                      ((acted, failed), db') \<Rightarrow>
                        (Returned \<lparr>sr_examined = length items, sr_acted = acted, sr_failed = failed\<rparr>, db'))))"

text \<open>The orchestrator as the sweep is given it: ids and the instant of each call are its own.\<close>

definition appRouting ::
  "'x DeskTables_scheme \<Rightarrow> int \<Rightarrow> (UUID \<Rightarrow> PlacementIds \<times> StoreIds) \<Rightarrow> (Timestamp \<Rightarrow> int \<Rightarrow> Timestamp) \<Rightarrow>
   (UUID \<Rightarrow> Timestamp) \<Rightarrow> RoutingPort" where
  "appRouting tables ttl newIds plusSeconds clock context =
     (case newIds (rc_conversationId context) of
        (ids, sids) \<Rightarrow> requestRouting (appOrchestrator (DeskConfig.truncate tables) ttl sids plusSeconds) ids
          (clock (rc_conversationId context)) context)"

section \<open>What a run does\<close>

lemma unplacedBatch_mem:
  assumes "u \<in> set (unplacedBatch tables n db)"
  obtains c where "c \<in> set (db_conversations db)" and "awaitsPlacement db c" and "unplacedOf tables db c = Some u"
    and "cr_conversation_id c = un_conversationId u"
proof -
  from assms obtain c where c: "c \<in> set (db_conversations db)" "awaitsPlacement db c" "unplacedOf tables db c = Some u"
    by (auto simp: unplacedBatch_def map_filter_def dest!: in_set_takeD)
  then have "cr_conversation_id c = un_conversationId u"
    by (auto simp: unplacedOf_def elim!: bind_SomeE)
  with c that show ?thesis by blast
qed

lemma placeAll_skips:
  "list_all (\<lambda>u. map_of teamOf (un_categoryId u) = None) items \<Longrightarrow>
   placeAll orchestrator teamOf hoursOf items acted failed db = ((acted, failed), db)"
  by (induction items) simp_all

lemma placeAll_counts:
  "placeAll orchestrator teamOf hoursOf items acted failed db = ((a, f), db') \<Longrightarrow>
   acted \<le> a \<and> failed \<le> f \<and> a + f \<le> acted + failed + length items"
proof (induction items arbitrary: acted failed db)
  case (Cons item items)
  show ?case
  proof (cases "Option.bind (map_of teamOf (un_categoryId item)) (map_of hoursOf)")
    case None
    with Cons.prems Cons.IH[of acted failed db] show ?thesis by auto
  next
    case (Some hours)
    obtain out db1 where o: "orchestrator (sweepContext item (bh_state hours)) db = (out, db1)" by fastforce
    show ?thesis
    proof (cases out)
      case Threw
      with Cons.prems Cons.IH[of acted "failed + 1" db1] Some o show ?thesis by auto
    next
      case (Returned r)
      with Cons.prems Cons.IH[of acted failed db1] Cons.IH[of "acted + 1" failed db1] Some o show ?thesis
        by (cases r) auto
    qed
  qed
qed simp

end
