(* ===== verification/Orchestrator_Props.thy ===== *)
theory Orchestrator_Props
  imports Orchestrator_Contract Routing_Sweep
begin

text \<open>
  The properties of placement: what becomes of work the orchestrator is asked to place, and what the
  sweep that asks it examines, with a desk on which they are evaluated.
\<close>

section \<open>A desk\<close>

definition utcZone :: Zone where "utcZone tz t = 0"

definition alwaysOpen :: CalendarRow where
  "alwaysOpen =
     \<lparr>kr_calendar_id = ''cal-1'', kr_team_id = ''support'', kr_timezone = ''UTC'', kr_version = 1,
      kr_effective_from = ''2026-01-01T00:00:00.000Z'', kr_effective_to = None,
      kr_working_windows = JArray (map (\<lambda>d. JObject [(''weekday'', JInt d), (''openMinute'', JInt 0),
        (''closeMinute'', JInt 1440)]) [0, 1, 2, 3, 4, 5, 6]),
      kr_holidays = JArray [], kr_exceptions = JArray [], kr_is_seed_placeholder = False\<rparr>"

text \<open>A calendar whose window says \<open>"10am"\<close>.\<close>

definition misspelt :: CalendarRow where
  "misspelt = alwaysOpen
     \<lparr>kr_calendar_id := ''cal-2'', kr_team_id := ''claims'',
      kr_working_windows := JArray [JObject [(''weekday'', JInt 1), (''openMinute'', JText ''10am''),
        (''closeMinute'', JInt 1140)]]\<rparr>"

definition deskTables :: "CalendarRow list \<Rightarrow> string option \<Rightarrow> DeskTables" where
  "deskTables calendars renewalsTeam =
     \<lparr>dc_categories =
        [\<lparr>ct_category_id = ''renewals'', ct_owning_team_id = renewalsTeam,
          ct_relationship_shaped = True, ct_active = True\<rparr>],
      dc_work_weights = [], dc_principals = [(''emp-7'', P_ACTIVE)],
      dk_case_category = [(''k1'', ''renewals'')], dk_created_at = [(''c1'', ''2026-08-24T08:00:00.000Z'')],
      dk_calendars = calendars\<rparr>"

definition noonMs :: int where "noonMs = 1787572800000"

definition newDb :: RoutingDb where
  "newDb = routingDb
     \<lparr>db_conversations := map (\<lambda>c. c\<lparr>cr_state := Some NEW\<rparr>) (db_conversations routingDb),
      db_queue_entries := []\<rparr>"

definition plusTwoMinutes :: "Timestamp \<Rightarrow> int \<Rightarrow> Timestamp" where
  "plusTwoMinutes t n = ''2026-08-24T12:02:00.000Z''"

definition deskIds :: "UUID \<Rightarrow> PlacementIds \<times> StoreIds" where
  "deskIds cid =
     (\<lparr>pi_queueEntryId = ''q-'' @ cid, pi_episodeId = ''o-'' @ cid, pi_reservationId = ''r-'' @ cid\<rparr>,
      \<lparr>si_enqueueEpisode = ''s1-'' @ cid, si_assignEpisode = ''s2-'' @ cid, si_claimReservation = ''r2-'' @ cid\<rparr>)"

definition deskClock :: "UUID \<Rightarrow> Timestamp" where
  "deskClock cid = ''2026-08-24T12:00:00.000Z''"

definition deskPort :: "DeskTables \<Rightarrow> RoutingPort" where
  "deskPort tables = appRouting tables 120 deskIds plusTwoMinutes deskClock"

section \<open>Placing\<close>

text \<open>
  C25: work is placed or refused, never lost. Whatever the configuration, the hours and the tree decide, a
  call with an entry id of its own either changes nothing, because it was refused or the queueing failed, or
  has assigned the conversation to the person it names, who owns it, or leaves the conversation with a queue
  entry that nobody has claimed and with the owner it had. That holds for a call that throws after the
  queueing as well.
\<close>

theorem routing_keeps_work_findable:
  assumes "requestRouting (appOrchestrator cfg ttl sids later) ids t context db = (out, db')"
    and "freshQueueId (pi_queueEntryId ids) db"
  shows "db' = db \<and> (out = Threw \<or> (\<exists>e. out = Returned (Inl e))) \<or>
    handled (rc_conversationId context) db' \<and>
    ((\<exists>who rid why. out = Returned (Inr (ASSIGNED_TO who rid why)) \<and>
        ownerNow (rc_conversationId context) db' = Some who) \<or>
     (\<nexists>who rid why. out = Returned (Inr (ASSIGNED_TO who rid why))) \<and>
        unclaimed (rc_conversationId context) db' \<and>
        ownerNow (rc_conversationId context) db' = ownerNow (rc_conversationId context) db)"
  by (rule po.requestRouting_places[OF _ assms(2,1)]) (simp add: appOrchestrator_def)

text \<open>
  C26: new work is never assigned by routing. The orchestrator queues and assigns in one instant, and an
  episode of the state QUEUED that begins and ends in one instant is refused by the database, so that
  for a conversation in state NEW, with the designated person available and any configuration, the
  answer is never an assignment and the owner stays who it was.
\<close>

theorem new_work_is_never_assigned:
  assumes "requestRouting (appOrchestrator cfg ttl sids later) ids t context db = (out, db')"
    and "freshQueueId (pi_queueEntryId ids) db" and "inState (rc_conversationId context) NEW db"
  shows "(\<nexists>who rid why. out = Returned (Inr (ASSIGNED_TO who rid why))) \<and>
    ownerNow (rc_conversationId context) db' = ownerNow (rc_conversationId context) db"
proof -
  let ?o = "appOrchestrator cfg ttl sids later"
  have store: "oo_store ?o = pgOrchestratorStore sids later" by (simp add: appOrchestrator_def)
  have no: "out \<noteq> Returned (Inr (ASSIGNED_TO who rid why))" for who rid why
  proof
    assume out: "out = Returned (Inr (ASSIGNED_TO who rid why))"
    with assms(1) obtain teamId db1 where
      e: "enqueue (si_enqueueEpisode sids) (enqueueInputOf (pi_queueEntryId ids) teamId t context) db = Some db1"
      and act: "actOn ?o ids context t (route (routingInputsOf ?o context teamId t db1)) db1 = (out, db')"
      by (auto simp: requestRouting_def store pgOrchestratorStore_def split: option.splits if_splits)
    from act out obtain path cid where
      "assignFromRouting later ((assignInputOf ?o ids context who path t)\<lparr>ai_stateEpisodeId := si_assignEpisode sids\<rparr>) db1
        = Some (Inr cid, db')"
      by (auto simp: actOn_def store pgOrchestratorStore_def split: RouteDecision.splits option.splits sum.splits)
    with assign_after_enqueue[OF e] assms(2,3) show False
      by (simp add: enqueueInputOf_def assignInputOf_def)
  qed
  with po.requestRouting_places[OF store assms(2,1)] show ?thesis by blast
qed

definition openContext :: RoutingContext where
  "openContext =
     \<lparr>rc_conversationId = ''c1'', rc_caseId = Some ''k1'', rc_category = ''renewals'', rc_priority = None,
      rc_relationshipOwner = Some ''emp-7'', rc_businessHoursState = HOURS_OPEN\<rparr>"

definition deskRun :: "RoutingContext \<Rightarrow> RoutingDb \<Rightarrow> (AdapterError + RoutingResult) Outcome \<times> RoutingDb" where
  "deskRun context db = requestRouting
     (appOrchestrator (DeskConfig.truncate (deskTables [alwaysOpen] (Some ''support''))) 120 (snd (deskIds ''c1'')) plusTwoMinutes)
     (fst (deskIds ''c1'')) (deskClock ''c1'') context db"

text \<open>The same call assigns a conversation that was queued before, and throws for a new one.\<close>

lemma deskRun_new: "fst (deskRun openContext newDb) = Threw \<and> handled ''c1'' (snd (deskRun openContext newDb))"
  by code_simp

definition requeuedDb :: RoutingDb where
  "requeuedDb = routingDb\<lparr>db_queue_entries := []\<rparr>"

theorem routing_keeps_work_findable_witness:
  "ownerNow ''c1'' (snd (deskRun openContext requeuedDb)) = Some ''emp-7'' \<and>
   unclaimed ''c1'' (snd (deskRun openContext newDb))"
proof -
  have fn: "freshQueueId (pi_queueEntryId (fst (deskIds ''c1''))) newDb" by code_simp
  have "snd (deskRun openContext newDb) \<noteq> newDb"
    using deskRun_new by (auto simp: handled_def newDb_def)
  moreover have run: "deskRun openContext newDb = (Threw, snd (deskRun openContext newDb))"
    using deskRun_new by (simp add: prod_eq_iff)
  ultimately have "unclaimed (rc_conversationId openContext) (snd (deskRun openContext newDb))"
    using routing_keeps_work_findable[OF run[unfolded deskRun_def] fn] unfolding deskRun_def by simp
  then have u: "unclaimed ''c1'' (snd (deskRun openContext newDb))" by (simp add: openContext_def)
  have f: "freshQueueId (pi_queueEntryId (fst (deskIds ''c1''))) requeuedDb" by code_simp
  have "case fst (deskRun openContext requeuedDb) of Returned (Inr (ASSIGNED_TO who rid why)) \<Rightarrow> who = ''emp-7'' | _ \<Rightarrow> False"
    by code_simp
  then obtain rid why where
    "deskRun openContext requeuedDb = (Returned (Inr (ASSIGNED_TO ''emp-7'' rid why)), snd (deskRun openContext requeuedDb))"
    by (cases "deskRun openContext requeuedDb") (auto split: Outcome.splits sum.splits RoutingResult.splits)
  from routing_keeps_work_findable[OF this[unfolded deskRun_def] f] u
  show ?thesis unfolding deskRun_def by (auto simp: openContext_def)
qed

theorem new_work_is_never_assigned_witness:
  "ownerNow ''c1'' (snd (deskRun openContext newDb)) = ownerNow ''c1'' newDb"
proof -
  have f: "freshQueueId (pi_queueEntryId (fst (deskIds ''c1''))) newDb" by code_simp
  have "inState ''c1'' NEW newDb" by code_simp
  then have n: "inState (rc_conversationId openContext) NEW newDb" by (simp add: openContext_def)
  from new_work_is_never_assigned[OF prod.collapse[symmetric] f n] show ?thesis
    unfolding deskRun_def by (simp add: openContext_def)
qed

section \<open>The sweep\<close>

lemma handled_not_unplaced: "handled cid db \<Longrightarrow> \<not> list_ex (\<lambda>u. un_conversationId u = cid) (unplacedBatch tables n db)"
  by (auto simp: list_ex_iff handled_def awaitsPlacement_def elim!: unplacedBatch_mem)

text \<open>
  work is examined once. Once the orchestrator has accepted a conversation, be it only to defer
  it because its team is closed, no later sweep examines it, whatever claims, hand-overs or
  assignments run in between: nothing routes the night's work when the team opens.
\<close>

theorem accepted_work_is_never_examined_again:
  assumes "requestRouting (appOrchestrator cfg ttl sids later) ids t context db = (Returned (Inr r), db1)"
    and "freshQueueId (pi_queueEntryId ids) db" and "(\<lambda>a b. \<exists>l. routingStep l a b)\<^sup>*\<^sup>* db1 db2"
  shows "\<not> list_ex (\<lambda>u. un_conversationId u = rc_conversationId context) (unplacedBatch tables n db2)"
proof -
  have "oo_store (appOrchestrator cfg ttl sids later) = pgOrchestratorStore sids later"
    by (simp add: appOrchestrator_def)
  from po.requestRouting_places[OF this assms(2,1)] have "handled (rc_conversationId context) db1" by auto
  with assms(3) have "handled (rc_conversationId context) db2"
    by (induction rule: rtranclp_induct) (auto intro: routingStep_handled)
  then show ?thesis by (rule handled_not_unplaced)
qed

definition nightContext :: RoutingContext where
  "nightContext = openContext\<lparr>rc_businessHoursState := HOURS_AFTER\<rparr>"

theorem accepted_work_is_never_examined_again_witness:
  "\<not> list_ex (\<lambda>u. un_conversationId u = ''c1'')
     (unplacedBatch (deskTables [alwaysOpen] (Some ''support'')) 100 (snd (deskRun nightContext newDb)))"
proof -
  have f: "freshQueueId (pi_queueEntryId (fst (deskIds ''c1''))) newDb" by code_simp
  have "case fst (deskRun nightContext newDb) of Returned (Inr r) \<Rightarrow> True | _ \<Rightarrow> False" by code_simp
  then obtain r where "deskRun nightContext newDb = (Returned (Inr r), snd (deskRun nightContext newDb))"
    by (cases "deskRun nightContext newDb") (auto split: Outcome.splits sum.splits)
  from accepted_work_is_never_examined_again[OF this[unfolded deskRun_def] f rtranclp.rtrancl_refl]
  show ?thesis unfolding deskRun_def by (simp add: nightContext_def openContext_def)
qed

text \<open>
  an unmapped backlog stops the sweep. When the oldest conversations of the batch are all of
  categories without a team, the run acts on nothing and changes nothing, whatever waits behind
  them; the next run examines the same ones again.
\<close>

theorem unmapped_backlog_starves_the_sweep:
  assumes "list_all (\<lambda>u. map_of (teamsFor tables (map un_categoryId (unplacedBatch tables n db))) (un_categoryId u) = None)
      (unplacedBatch tables n db)"
  shows "runRoutingSweep zone knownZone tables orchestrator (Some n) instant db =
    (Returned \<lparr>sr_examined = length (unplacedBatch tables n db), sr_acted = 0, sr_failed = 0\<rparr>, db)"
proof -
  let ?cats = "map un_categoryId (unplacedBatch tables n db)"
  have "fst p \<in> set ?cats" if "p \<in> set (teamsFor tables ?cats)" for p
    using that by (auto simp: teamsFor_def map_filter_def split: if_splits)
  moreover have "map_of (teamsFor tables ?cats) c = None" if "c \<in> set ?cats" for c
    using that assms by (auto simp: list_all_iff)
  ultimately have "teamsFor tables ?cats = []"
    by (cases "teamsFor tables ?cats") (fastforce simp: map_of_eq_None_iff)+
  with assms show ?thesis
    by (simp add: runRoutingSweep_def Let_def hoursByTeam_def placeAll_skips)
qed

definition twoWaiting :: RoutingDb where
  "twoWaiting = newDb\<lparr>db_conversations := db_conversations newDb @
     map (\<lambda>c. c\<lparr>cr_conversation_id := ''c2'', cr_case_id := Some ''k2''\<rparr>) (db_conversations newDb),
     db_service_cases := db_service_cases newDb @
       map (\<lambda>s. s\<lparr>sc_case_id := ''k2''\<rparr>) (db_service_cases newDb)\<rparr>"

text \<open>An unmapped renewal is older than a claim of a team that is open.\<close>

definition unmappedDesk :: DeskTables where
  "unmappedDesk = (deskTables [alwaysOpen] None)
     \<lparr>dc_categories := [\<lparr>ct_category_id = ''claims'', ct_owning_team_id = Some ''support'',
        ct_relationship_shaped = False, ct_active = True\<rparr>],
      dk_case_category := [(''k1'', ''renewals''), (''k2'', ''claims'')],
      dk_created_at := [(''c1'', ''2026-08-24T08:00:00.000Z''), (''c2'', ''2026-08-24T09:00:00.000Z'')]\<rparr>"

theorem unmapped_backlog_starves_the_sweep_witness:
  "length (unplacedBatch unmappedDesk 2 twoWaiting) = 2 \<and>
   snd (runRoutingSweep utcZone (\<lambda>z. True) unmappedDesk (deskPort unmappedDesk) (Some 1) noonMs twoWaiting) = twoWaiting"
proof -
  have l: "length (unplacedBatch unmappedDesk 2 twoWaiting) = 2" by code_simp
  have "list_all (\<lambda>u. map_of (teamsFor unmappedDesk (map un_categoryId (unplacedBatch unmappedDesk 1 twoWaiting)))
      (un_categoryId u) = None) (unplacedBatch unmappedDesk 1 twoWaiting)" by code_simp
  from unmapped_backlog_starves_the_sweep[OF this, of utcZone "\<lambda>z. True" "deskPort unmappedDesk" noonMs]
  have "snd (runRoutingSweep utcZone (\<lambda>z. True) unmappedDesk (deskPort unmappedDesk) (Some 1) noonMs twoWaiting) = twoWaiting"
    by auto
  with l show ?thesis by blast
qed

text \<open>
  one malformed calendar stops every team. If the calendar of any team in the batch cannot be
  read, the run throws before it places anything, so that no conversation of any team is placed.
\<close>

theorem malformed_calendar_stops_every_team:
  assumes "t \<in> set (map snd (teamsFor tables (map un_categoryId (unplacedBatch tables n db))))"
    and "historyFor knownZone (dk_calendars tables) t = None"
  shows "runRoutingSweep zone knownZone tables orchestrator (Some n) instant db = (Threw, db)"
proof -
  let ?teams = "map snd (teamsFor tables (map un_categoryId (unplacedBatch tables n db)))"
  have "unplacedBatch tables n db \<noteq> []"
    using assms(1) by (auto simp: teamsFor_def map_filter_def)
  moreover have "hoursByTeam zone knownZone tables instant ?teams = None"
    unfolding hoursByTeam_def mapThrowing_None using assms by (auto simp: list_ex_iff stateFor_def intro!: bexI[of _ t])
  ultimately show ?thesis by (simp add: runRoutingSweep_def Let_def)
qed

definition mixedDesk :: DeskTables where
  "mixedDesk = unmappedDesk
     \<lparr>dc_categories := dc_categories unmappedDesk @ [\<lparr>ct_category_id = ''renewals'', ct_owning_team_id = Some ''claims'',
        ct_relationship_shaped = True, ct_active = True\<rparr>],
      dk_calendars := [alwaysOpen, misspelt]\<rparr>"

theorem malformed_calendar_stops_every_team_witness:
  "runRoutingSweep utcZone (\<lambda>z. True) mixedDesk (deskPort mixedDesk) (Some 100) noonMs twoWaiting = (Threw, twoWaiting)"
proof (rule malformed_calendar_stops_every_team)
  have "list_ex (\<lambda>t. t = ''claims'') (map snd (teamsFor mixedDesk (map un_categoryId (unplacedBatch mixedDesk 100 twoWaiting))))"
    by code_simp
  then show "''claims'' \<in> set (map snd (teamsFor mixedDesk (map un_categoryId (unplacedBatch mixedDesk 100 twoWaiting))))"
    by (simp add: list_ex_iff)
  have "parseWindows (kr_working_windows misspelt) = None" by code_simp
  then have "readCalendar (\<lambda>z. True) misspelt = None" by (simp add: readCalendar_def split: bind_splits)
  moreover have "filter (\<lambda>r. kr_team_id r = ''claims'') (dk_calendars mixedDesk) = [misspelt]"
    by (simp add: mixedDesk_def misspelt_def alwaysOpen_def)
  ultimately show "historyFor (\<lambda>z. True) (dk_calendars mixedDesk) ''claims'' = None"
    by (simp add: historyFor_def)
qed

end
