(* ===== verification/Notification_Matrix.thy ===== *)
theory Notification_Matrix
  imports Js_Date
begin

text \<open>
  What is notified, to whom and on which channel, \<open>packages/notifications/src/matrix.ts\<close>: the table of
  rules, the list of what is never notified, and the words of a notification,
  \<open>apps/api/src/notifications/render.ts\<close>. The section signs of the document the code cites are not
  part of any value.
\<close>

section \<open>Channels, events and recipients\<close>

datatype NotificationChannel = CH_INAPP | CH_EMAIL | CH_PUSH | CH_CUSTOMER_CHANNEL

fun channelText :: "NotificationChannel \<Rightarrow> string" where
  "channelText CH_INAPP = ''INAPP''"
| "channelText CH_EMAIL = ''EMAIL''"
| "channelText CH_PUSH = ''PUSH''"
| "channelText CH_CUSTOMER_CHANNEL = ''CUSTOMER_CHANNEL''"

datatype NotifiableEvent =
    NE_CONVERSATION_ASSIGNED
  | NE_WAITING_BEYOND_STANDARD
  | NE_ESCALATED_TO_YOUR_FUNCTION
  | NE_TRANSFERRED
  | NE_COVER_NEEDED
  | NE_CUSTOMER_REPLIED
  | NE_ROLE_OR_ACCESS_CHANGED
  | NE_NEW_IN_TEAM_QUEUE
  | NE_CUSTOMER_CONVERSATION_ANSWERED
  | NE_MENTIONED
  | NE_DIRECT_MESSAGE
  | NE_GROUP_MESSAGE
  | NE_CHANNEL_MESSAGE
  | NE_REPLIED_TO_YOU
  | NE_REACTED_TO_YOUR_MESSAGE
  | NE_ADDED_TO_CONVERSATION
  | NE_REMOVED_FROM_CONVERSATION
  | NE_ANNOUNCEMENT_POSTED

fun eventText :: "NotifiableEvent \<Rightarrow> string" where
  "eventText NE_CONVERSATION_ASSIGNED = ''CONVERSATION_ASSIGNED''"
| "eventText NE_WAITING_BEYOND_STANDARD = ''WAITING_BEYOND_STANDARD''"
| "eventText NE_ESCALATED_TO_YOUR_FUNCTION = ''ESCALATED_TO_YOUR_FUNCTION''"
| "eventText NE_TRANSFERRED = ''TRANSFERRED''"
| "eventText NE_COVER_NEEDED = ''COVER_NEEDED''"
| "eventText NE_CUSTOMER_REPLIED = ''CUSTOMER_REPLIED''"
| "eventText NE_ROLE_OR_ACCESS_CHANGED = ''ROLE_OR_ACCESS_CHANGED''"
| "eventText NE_NEW_IN_TEAM_QUEUE = ''NEW_IN_TEAM_QUEUE''"
| "eventText NE_CUSTOMER_CONVERSATION_ANSWERED = ''CUSTOMER_CONVERSATION_ANSWERED''"
| "eventText NE_MENTIONED = ''MENTIONED''"
| "eventText NE_DIRECT_MESSAGE = ''DIRECT_MESSAGE''"
| "eventText NE_GROUP_MESSAGE = ''GROUP_MESSAGE''"
| "eventText NE_CHANNEL_MESSAGE = ''CHANNEL_MESSAGE''"
| "eventText NE_REPLIED_TO_YOU = ''REPLIED_TO_YOU''"
| "eventText NE_REACTED_TO_YOUR_MESSAGE = ''REACTED_TO_YOUR_MESSAGE''"
| "eventText NE_ADDED_TO_CONVERSATION = ''ADDED_TO_CONVERSATION''"
| "eventText NE_REMOVED_FROM_CONVERSATION = ''REMOVED_FROM_CONVERSATION''"
| "eventText NE_ANNOUNCEMENT_POSTED = ''ANNOUNCEMENT_POSTED''"

datatype Recipient =
    TO_OWNER | TO_LEAD | TO_RECEIVING_OFFICER | TO_BOTH_PARTIES | TO_TEAM | TO_PRINCIPAL
  | TO_OTHER_PARTICIPANTS | TO_MESSAGE_AUTHOR | TO_MENTIONED_PRINCIPALS | TO_CUSTOMER

section \<open>The table\<close>

record NotificationRule =
  rule_event :: NotifiableEvent
  rule_subject :: string
  rule_recipients :: "Recipient list"
  rule_inApp :: bool
  rule_externalIfAway :: bool
  rule_externalAlways :: bool
  rule_push :: bool

definition notificationRule ::
  "NotifiableEvent \<Rightarrow> string \<Rightarrow> Recipient list \<Rightarrow> bool \<Rightarrow> bool \<Rightarrow> bool \<Rightarrow> bool \<Rightarrow> NotificationRule" where
  "notificationRule ev subject recipients inApp ifAway always push =
     \<lparr>rule_event = ev, rule_subject = subject, rule_recipients = recipients, rule_inApp = inApp,
      rule_externalIfAway = ifAway, rule_externalAlways = always, rule_push = push\<rparr>"

definition NOTIFICATION_RULES :: "NotificationRule list" where
  "NOTIFICATION_RULES =
    [notificationRule NE_CONVERSATION_ASSIGNED ''A customer conversation assigned to you'' [TO_OWNER]
       True True False False,
     notificationRule NE_WAITING_BEYOND_STANDARD ''A conversation waiting beyond a service standard''
       [TO_OWNER, TO_LEAD] True False True False,
     notificationRule NE_ESCALATED_TO_YOUR_FUNCTION ''Escalation to your function''
       [TO_RECEIVING_OFFICER, TO_LEAD] True False True False,
     notificationRule NE_TRANSFERRED ''Transfer into or out of your ownership'' [TO_BOTH_PARTIES]
       True False True False,
     notificationRule NE_COVER_NEEDED ''Cover needed on your team'' [TO_TEAM] True False False False,
     notificationRule NE_CUSTOMER_REPLIED ''A customer replied to a thread you own'' [TO_OWNER]
       True True False False,
     notificationRule NE_MENTIONED ''You were mentioned in a conversation'' [TO_MENTIONED_PRINCIPALS]
       True False False True,
     notificationRule NE_ROLE_OR_ACCESS_CHANGED ''Your role or access changed'' [TO_PRINCIPAL]
       True False True False,
     notificationRule NE_NEW_IN_TEAM_QUEUE ''A new conversation in your team's queue'' [TO_TEAM]
       True False False False,
     notificationRule NE_CUSTOMER_CONVERSATION_ANSWERED
       ''A customer's conversation was answered / resolved'' [TO_CUSTOMER] False False False False,
     notificationRule NE_DIRECT_MESSAGE ''A new message'' [TO_OTHER_PARTICIPANTS] True False False True,
     notificationRule NE_GROUP_MESSAGE ''A new message in a group'' [TO_OTHER_PARTICIPANTS]
       True False False True,
     notificationRule NE_CHANNEL_MESSAGE ''A new message in a channel'' [TO_OTHER_PARTICIPANTS]
       True False False True,
     notificationRule NE_REPLIED_TO_YOU ''Someone replied to your message'' [TO_MESSAGE_AUTHOR]
       True False False True,
     notificationRule NE_REACTED_TO_YOUR_MESSAGE ''Someone reacted to your message'' [TO_MESSAGE_AUTHOR]
       True False False True,
     notificationRule NE_ADDED_TO_CONVERSATION ''You were added to a conversation'' [TO_PRINCIPAL]
       True False False True,
     notificationRule NE_REMOVED_FROM_CONVERSATION ''You were removed from a conversation'' [TO_PRINCIPAL]
       True False False True,
     notificationRule NE_ANNOUNCEMENT_POSTED ''A new company announcement'' [TO_OTHER_PARTICIPANTS]
       True False False True]"

definition NEVER_NOTIFIED :: "string list" where
  "NEVER_NOTIFIED =
    [''MESSAGE_IN_INTERNAL_GROUP'', ''TYPING'', ''READ_RECEIPT'', ''DIRECTORY_CHANGED'', ''OWN_ACTION'',
     ''INTERNAL_NOTE_TO_CUSTOMER'']"

record RecipientContext =
  rc_principalKind :: PrincipalKind
  rc_away :: bool
  rc_optedOutOf :: "NotificationChannel list"

definition ruleOf :: "NotifiableEvent \<Rightarrow> NotificationRule option" where
  "ruleOf ev = find (\<lambda>r. rule_event r = ev) NOTIFICATION_RULES"

definition channelsFor :: "NotifiableEvent \<Rightarrow> RecipientContext \<Rightarrow> NotificationChannel list" where
  "channelsFor ev who =
     (case ruleOf ev of
        None \<Rightarrow> []
      | Some rule \<Rightarrow>
          if rc_principalKind who = K_CUSTOMER then []
          else (if rule_inApp rule then [CH_INAPP] else []) @
               (if (rule_externalAlways rule \<or> rule_externalIfAway rule \<and> rc_away who) \<and>
                   CH_EMAIL \<notin> set (rc_optedOutOf who)
                then [CH_EMAIL] else []) @
               (if rule_push rule \<and> CH_PUSH \<notin> set (rc_optedOutOf who) then [CH_PUSH] else []))"

definition subjectFor :: "string \<Rightarrow> string" where
  "subjectFor ev =
     (case find (\<lambda>r. eventText (rule_event r) = ev) NOTIFICATION_RULES of
        None \<Rightarrow> ''You have an update in StarLink'' | Some rule \<Rightarrow> rule_subject rule)"

definition isNeverNotified :: "string \<Rightarrow> bool" where
  "isNeverNotified ev \<longleftrightarrow> ev \<in> set NEVER_NOTIFIED"

section \<open>The words of a notification\<close>

record RenderableNotification =
  rn_recipientId :: UUID
  rn_channel :: string
  rn_event :: string
  rn_targetRef :: "string option"
  rn_coalescedCount :: nat

record RenderedNotification =
  rd_recipientPrincipalId :: UUID
  rd_channel :: string
  rd_subject :: string
  rd_body :: string
  rd_detail :: "string option"
  rd_deepLink :: "string option"

definition withoutTrailingSlashes :: "string \<Rightarrow> string" where
  "withoutTrailingSlashes s = rev (dropWhile (\<lambda>c. c = CHR ''/'') (rev s))"

definition blankLine :: string where "blankLine = [CHR 0x0A, CHR 0x0A]"

definition updatesText :: "nat \<Rightarrow> string" where
  "updatesText n = showNat n @ '' updates''"

definition conversationLink :: "string \<Rightarrow> string \<Rightarrow> string" where
  "conversationLink origin ref = withoutTrailingSlashes origin @ ''/conversations/'' @ ref"

definition renderNotification :: "RenderableNotification \<Rightarrow> string \<Rightarrow> RenderedNotification" where
  "renderNotification row employeeOrigin =
     (let subject = subjectFor (rn_event row);
          updates = rn_coalescedCount row + 1;
          link = map_option (conversationLink employeeOrigin) (rn_targetRef row);
          body = (if updates > 1 then subject @ '' ('' @ updatesText updates @ '')'' else subject) @
            (case link of None \<Rightarrow> [] | Some l \<Rightarrow> blankLine @ ''Open it in StarLink: '' @ l) @
            blankLine @ ''This is an automated notification. Replies are not read.''
      in \<lparr>rd_recipientPrincipalId = rn_recipientId row, rd_channel = rn_channel row,
          rd_subject = subject, rd_body = body,
          rd_detail = (if updates > 1 then Some (updatesText updates) else None), rd_deepLink = link\<rparr>)"

section \<open>Facts of the table\<close>

text \<open>Every event has exactly one rule, so that the lookup never falls through.\<close>

lemma ruleOf_total: "\<exists>rule. ruleOf ev = Some rule \<and> rule_event rule = ev"
  by (cases ev) (simp_all add: ruleOf_def NOTIFICATION_RULES_def notificationRule_def)

lemma rules_distinct: "distinct (map rule_event NOTIFICATION_RULES)"
  by code_simp

lemma eventText_inject [simp]: "eventText a = eventText b \<longleftrightarrow> a = b"
  by (cases a; cases b) simp_all

lemma channelText_inject [simp]: "channelText a = channelText b \<longleftrightarrow> a = b"
  by (cases a; cases b) simp_all

lemma subjectFor_event: "subjectFor (eventText ev) = rule_subject (the (ruleOf ev))"
  using ruleOf_total[of ev] by (auto simp: subjectFor_def ruleOf_def)

lemma event_is_notifiable [simp]: "\<not> isNeverNotified (eventText ev)"
  by (cases ev) (simp_all add: isNeverNotified_def NEVER_NOTIFIED_def)

lemma distinct_channelsFor [simp]: "distinct (channelsFor ev who)"
  by (auto simp: channelsFor_def split: option.splits)

lemma channelsFor_customer [simp]: "rc_principalKind who = K_CUSTOMER \<Longrightarrow> channelsFor ev who = []"
  by (simp add: channelsFor_def split: option.splits)

lemma channelsFor_respects_opt_out:
  "ch \<in> set (channelsFor ev who) \<Longrightarrow> ch \<in> set (rc_optedOutOf who) \<Longrightarrow> ch = CH_INAPP"
  by (auto simp: channelsFor_def split: option.splits if_splits)

text \<open>In-app is no preference: whatever the recipient opted out of, the staff rows reach it.\<close>

lemma channelsFor_inapp:
  assumes "rc_principalKind who \<noteq> K_CUSTOMER"
  shows "CH_INAPP \<in> set (channelsFor ev who) \<longleftrightarrow> ev \<noteq> NE_CUSTOMER_CONVERSATION_ANSWERED"
  using assms
  by (cases ev) (simp_all add: channelsFor_def ruleOf_def NOTIFICATION_RULES_def notificationRule_def)

end
