(* ===== verification/Notification_Delivery.thy ===== *)
theory Notification_Delivery
  imports Complex_Main Notification_Matrix
begin

text \<open>
  Deduplication and the retry ladder, \<open>packages/notifications/src/delivery.ts\<close>, and the quiet hours of a
  device, \<open>packages/notifications/src/quiet-hours.ts\<close>. The jitter \<open>random()\<close> is an argument, a rational
  from 0 up to but not including 1, and the product with it is exact. The hour and the minute
  \<open>Intl.DateTimeFormat\<close> gives for a zone are the argument \<open>clock\<close>, \<open>None\<close> where it throws.
\<close>

section \<open>The dedupe key\<close>

datatype NotificationState = NS_PENDING | NS_PROCESSING | NS_SENT | NS_RETRYING | NS_DEAD_LETTER

definition dedupeKeyFor :: "UUID \<Rightarrow> NotifiableEvent \<Rightarrow> string option \<Rightarrow> Timestamp \<Rightarrow> string" where
  "dedupeKeyFor recipientId ev targetRef windowStart =
     recipientId @ '':'' @ eventText ev @ '':'' @
     (case targetRef of None \<Rightarrow> ''-'' | Some t \<Rightarrow> t) @ '':'' @ windowStart"

definition windowStartFor :: "Timestamp \<Rightarrow> int \<Rightarrow> Timestamp" where
  "windowStartFor t windowSeconds =
     (let ms = windowSeconds * 1000 in toISOString (dateParse t div ms * ms))"

section \<open>The retry ladder\<close>

datatype DeliveryOutcome = OUT_DELIVERED | OUT_RETRYABLE string | OUT_PERMANENT_FAILURE string

definition nextAttemptBase :: "nat \<Rightarrow> int" where
  "nextAttemptBase attempts = min (30000 * 2 ^ (attempts - 1)) (30 * 60000)"

definition nextAttemptDelayMs :: "nat \<Rightarrow> rat \<Rightarrow> int" where
  "nextAttemptDelayMs attempts random = \<lfloor>random * of_int (nextAttemptBase attempts)\<rfloor>"

record RetryPolicy =
  rp_maxAttempts :: nat

datatype NextStep = NX_SENT | NX_RETRYING int | NX_DEAD_LETTER string

definition afterAttempt :: "nat \<Rightarrow> DeliveryOutcome \<Rightarrow> RetryPolicy \<Rightarrow> rat \<Rightarrow> NextStep" where
  "afterAttempt rowAttempts outcome policy random =
     (case outcome of
        OUT_DELIVERED \<Rightarrow> NX_SENT
      | OUT_PERMANENT_FAILURE errorCode \<Rightarrow> NX_DEAD_LETTER errorCode
      | OUT_RETRYABLE errorCode \<Rightarrow>
          (let attempts = rowAttempts + 1
           in if rp_maxAttempts policy \<le> attempts
              then NX_DEAD_LETTER (''RETRIES_EXHAUSTED:'' @ errorCode)
              else NX_RETRYING (nextAttemptDelayMs attempts random)))"

section \<open>Quiet hours\<close>

record QuietWindow =
  qw_from :: string
  qw_to :: string
  qw_timeZone :: string

definition isDigit :: "char \<Rightarrow> bool" where
  "isDigit c \<longleftrightarrow> CHR ''0'' \<le> c \<and> c \<le> CHR ''9''"

text \<open>\<open>/^([01]\d|2[0-3]):([0-5]\d)$/\<close>, and the minutes since local midnight it stands for.\<close>

fun minutesOfTime :: "string \<Rightarrow> nat option" where
  "minutesOfTime [h1, h2, c, m1, m2] =
     (if (h1 \<in> set ''01'' \<and> isDigit h2 \<or> h1 = CHR ''2'' \<and> h2 \<in> set ''0123'') \<and>
         c = CHR '':'' \<and> m1 \<in> set ''012345'' \<and> isDigit m2
      then Some (readNat [h1, h2] * 60 + readNat [m1, m2]) else None)"
| "minutesOfTime _ = None"

type_synonym ZoneClock = "string \<Rightarrow> int \<Rightarrow> (nat \<times> nat) option"

definition localMinutes :: "ZoneClock \<Rightarrow> string \<Rightarrow> int \<Rightarrow> nat option" where
  "localMinutes clock timeZone t =
     map_option (\<lambda>(hour, minute). hour mod 24 * 60 + minute) (clock timeZone t)"

definition inQuietWindow :: "ZoneClock \<Rightarrow> QuietWindow option \<Rightarrow> int \<Rightarrow> bool" where
  "inQuietWindow clock window t =
     (case window of
        None \<Rightarrow> False
      | Some w \<Rightarrow>
          (case (minutesOfTime (qw_from w), minutesOfTime (qw_to w)) of
             (Some f, Some u) \<Rightarrow>
               if f = u then False
               else (case localMinutes clock (qw_timeZone w) t of
                       None \<Rightarrow> False
                     | Some now \<Rightarrow> if f < u then f \<le> now \<and> now < u else f \<le> now \<or> now < u)
           | _ \<Rightarrow> False))"

section \<open>Facts\<close>

lemma nextAttemptBase_pos: "0 < nextAttemptBase n"
  by (simp add: nextAttemptBase_def)

lemma nextAttemptBase_mono: "m \<le> n \<Longrightarrow> nextAttemptBase m \<le> nextAttemptBase n"
  unfolding nextAttemptBase_def by (intro min.mono mult_left_mono power_increasing) auto

lemma nextAttemptDelay_bounds:
  assumes "0 \<le> r" and "r < 1"
  shows "0 \<le> nextAttemptDelayMs n r" and "nextAttemptDelayMs n r < nextAttemptBase n"
    and "nextAttemptDelayMs n r < 1800000"
proof -
  let ?b = "of_int (nextAttemptBase n) :: rat"
  have b: "0 < ?b" using nextAttemptBase_pos by simp
  show "0 \<le> nextAttemptDelayMs n r" using assms b by (simp add: nextAttemptDelayMs_def)
  have "r * ?b < 1 * ?b" using assms(2) b by (intro mult_strict_right_mono)
  then show lt: "nextAttemptDelayMs n r < nextAttemptBase n"
    by (simp add: nextAttemptDelayMs_def floor_less_iff)
  have "nextAttemptBase n \<le> 1800000" by (simp add: nextAttemptBase_def)
  with lt show "nextAttemptDelayMs n r < 1800000" by linarith
qed

lemma minutesOfTime_bound: "minutesOfTime s = Some n \<Longrightarrow> n < 1440"
  by (cases s rule: minutesOfTime.cases)
    (auto simp: readNat_def isDigit_def less_eq_char_def split: if_splits)

text \<open>The window of a device is a circular interval: quiet from \<open>a\<close> to \<open>b\<close> is quiet \<open>(now - a) mod 1440\<close> minutes in.\<close>

lemma circular_interval:
  fixes a b now :: nat
  assumes "a < 1440" "b < 1440" "now < 1440" "a \<noteq> b"
  shows "(if a < b then a \<le> now \<and> now < b else a \<le> now \<or> now < b) \<longleftrightarrow>
     (now + 1440 - a) mod 1440 < (b + 1440 - a) mod 1440"
proof -
  have m: "(x + 1440 - a) mod 1440 = (if a \<le> x then x - a else x + 1440 - a)" if "x < 1440" for x :: nat
    using that assms(1) by (auto simp: mod_if)
  show ?thesis unfolding m[OF assms(2)] m[OF assms(3)] using assms by auto
qed

end
