(* ===== verification/Notification_Outbox.thy ===== *)
theory Notification_Outbox
  imports Notification_Delivery Routing_Store
begin

text \<open>
  The notification outbox, \<open>infrastructure/database/src/repositories/notification-outbox.ts\<close>, on the
  tables of the routing store extended by \<open>conversation.notification_outbox\<close>, the preferences and
  the two identity tables the recipients are read from. A \<open>timestamptz\<close> is its number of
  milliseconds since the epoch. Each method is one statement; \<open>None\<close> is a violated primary key,
  which the statement raises. Row locks of a concurrent worker (\<open>SKIP LOCKED\<close>) are the argument
  \<open>locked\<close>: the rows the claim steps over.
\<close>

section \<open>The table\<close>

datatype PayloadValue = PText string | PNumber int | PFlag bool

type_synonym NotificationPayload = "(string \<times> PayloadValue) list"

record NotificationRow =
  nr_notification_id :: UUID
  nr_recipient_id :: UUID
  nr_recipient_kind :: PrincipalKind
  nr_channel :: string
  nr_event_name :: string
  nr_target_ref :: "string option"
  nr_payload :: NotificationPayload
  nr_state :: NotificationState
  nr_attempts :: nat
  nr_next_attempt_at :: int
  nr_last_error_code :: "string option"
  nr_dedupe_key :: "string option"
  nr_coalesced_count :: nat
  nr_created_at :: int
  nr_sent_at :: "int option"
  nr_read_at :: "int option"

record OptOutRow =
  np_principal_id :: UUID
  np_channel :: NotificationChannel
  np_category_id :: "string option"
  np_opted_out :: bool

record LeadGrantRow =
  lg_principal_id :: UUID
  lg_role :: string
  lg_scope_kind :: string
  lg_scope_id :: "string option"
  lg_effective_from :: Timestamp
  lg_effective_to :: "Timestamp option"

record NotificationDb = RoutingDb +
  nd_notifications :: "NotificationRow list"
  nd_preferences :: "OptOutRow list"
  nd_role_assignments :: "LeadGrantRow list"
  nd_principals :: "(UUID \<times> PrincipalStatus) list"

text \<open>The columns the caller of \<open>listFor\<close> and of \<open>claimDue\<close> reads.\<close>

record QueuedNotification =
  qn_notificationId :: UUID
  qn_recipientId :: UUID
  qn_recipientKind :: PrincipalKind
  qn_channel :: string
  qn_event :: string
  qn_targetRef :: "string option"
  qn_payload :: NotificationPayload
  qn_state :: NotificationState
  qn_attempts :: nat
  qn_dedupeKey :: "string option"
  qn_coalescedCount :: nat
  qn_readAt :: "Timestamp option"
  qn_createdAt :: "Timestamp option"

definition toRow :: "NotificationRow \<Rightarrow> QueuedNotification" where
  "toRow r =
     \<lparr>qn_notificationId = nr_notification_id r, qn_recipientId = nr_recipient_id r,
      qn_recipientKind = nr_recipient_kind r, qn_channel = nr_channel r, qn_event = nr_event_name r,
      qn_targetRef = nr_target_ref r, qn_payload = nr_payload r, qn_state = nr_state r,
      qn_attempts = nr_attempts r, qn_dedupeKey = nr_dedupe_key r,
      qn_coalescedCount = nr_coalesced_count r, qn_readAt = map_option toISOString (nr_read_at r),
      qn_createdAt = Some (toISOString (nr_created_at r))\<rparr>"

section \<open>Writing\<close>

record NotificationInput =
  ni_notificationId :: UUID
  ni_recipientId :: UUID
  ni_recipientKind :: PrincipalKind
  ni_channel :: string
  ni_event :: string
  ni_targetRef :: "string option"
  ni_payload :: NotificationPayload
  ni_dedupeKey :: "string option"
  ni_at :: Timestamp

definition pendingRow :: "NotificationInput \<Rightarrow> NotificationRow" where
  "pendingRow inp =
     \<lparr>nr_notification_id = ni_notificationId inp, nr_recipient_id = ni_recipientId inp,
      nr_recipient_kind = ni_recipientKind inp, nr_channel = ni_channel inp,
      nr_event_name = ni_event inp, nr_target_ref = ni_targetRef inp, nr_payload = ni_payload inp,
      nr_state = NS_PENDING, nr_attempts = 0, nr_next_attempt_at = dateParse (ni_at inp),
      nr_last_error_code = None, nr_dedupe_key = ni_dedupeKey inp, nr_coalesced_count = 0,
      nr_created_at = dateParse (ni_at inp), nr_sent_at = None, nr_read_at = None\<rparr>"

text \<open>The partial unique index \<open>notification_dedupe_idx\<close>.\<close>

definition holdsKey :: "string option \<Rightarrow> NotificationRow \<Rightarrow> bool" where
  "holdsKey key r \<longleftrightarrow> key \<noteq> None \<and> nr_dedupe_key r = key \<and> nr_state r \<noteq> NS_DEAD_LETTER"

definition createdHint :: "NotificationInput \<Rightarrow> OutboxRow" where
  "createdHint inp =
     \<lparr>ob_eventName = ''notification.created.v1'', ob_eventVersion = 1, ob_aggregateType = ''principal'',
      ob_aggregateId = ni_recipientId inp,
      ob_payload = NotificationCreated (ni_notificationId inp) (ni_recipientId inp) (ni_event inp)
        (ni_targetRef inp),
      ob_correlationId = ''notify:'' @ ni_notificationId inp\<rparr>"

text \<open>
  The INSERT of one statement: a row that conflicts on the key is folded into the waiting row, if
  that one still waits. The result says whether a row was inserted.
\<close>

definition upsertRow :: "NotificationInput \<Rightarrow> NotificationRow list \<Rightarrow> (bool \<times> NotificationRow list) option" where
  "upsertRow inp rows =
     (if list_ex (\<lambda>r. nr_notification_id r = ni_notificationId inp) rows then None
      else if list_ex (holdsKey (ni_dedupeKey inp)) rows
      then Some (False, updateWhere (\<lambda>r. holdsKey (ni_dedupeKey inp) r \<and> nr_state r = NS_PENDING)
        (\<lambda>r. r\<lparr>nr_coalesced_count := nr_coalesced_count r + 1\<rparr>) rows)
      else Some (True, rows @ [pendingRow inp]))"

definition enqueueNotification :: "NotificationInput \<Rightarrow> NotificationDb \<Rightarrow> (bool \<times> NotificationDb) option" where
  "enqueueNotification inp db =
     (case upsertRow inp (nd_notifications db) of
        None \<Rightarrow> None
      | Some (inserted, rows) \<Rightarrow>
          let db1 = db\<lparr>nd_notifications := rows\<rparr>
          in if inserted then map_option (Pair True) (appendOutboxIn (createdHint inp) db1)
             else Some (False, db1))"

section \<open>The worker's statements\<close>

definition dueAt :: "int \<Rightarrow> NotificationRow \<Rightarrow> bool" where
  "dueAt t r \<longleftrightarrow> nr_state r \<in> {NS_PENDING, NS_RETRYING} \<and> nr_next_attempt_at r \<le> t"

definition dueIds :: "UUID list \<Rightarrow> nat \<Rightarrow> int \<Rightarrow> NotificationRow list \<Rightarrow> UUID list" where
  "dueIds locked limit t rows =
     take limit (map nr_notification_id
       (sort_key nr_next_attempt_at (filter (\<lambda>r. dueAt t r \<and> nr_notification_id r \<notin> set locked) rows)))"

definition setProcessing :: "NotificationRow \<Rightarrow> NotificationRow" where
  "setProcessing r = r\<lparr>nr_state := NS_PROCESSING\<rparr>"

text \<open>The UPDATE returns the rows it changed in the order of the table, not of the inner selection.\<close>

definition claimRows :: "UUID list \<Rightarrow> nat \<Rightarrow> int \<Rightarrow> NotificationRow list \<Rightarrow> NotificationRow list \<times> NotificationRow list" where
  "claimRows locked limit t rows =
     (let ids = dueIds locked limit t rows
      in (map setProcessing (filter (\<lambda>r. nr_notification_id r \<in> set ids) rows),
          updateWhere (\<lambda>r. nr_notification_id r \<in> set ids) setProcessing rows))"

definition claimDue ::
  "UUID list \<Rightarrow> nat \<Rightarrow> Timestamp \<Rightarrow> NotificationDb \<Rightarrow> QueuedNotification list \<times> NotificationDb" where
  "claimDue locked limit t db =
     (let (claimed, rows) = claimRows locked limit (dateParse t) (nd_notifications db)
      in (map toRow claimed, db\<lparr>nd_notifications := rows\<rparr>))"

text \<open>Every settling statement is conditional on the row being in process.\<close>

definition settleRows :: "UUID \<Rightarrow> (NotificationRow \<Rightarrow> NotificationRow) \<Rightarrow> NotificationRow list \<Rightarrow> NotificationRow list" where
  "settleRows i f = updateWhere (\<lambda>r. nr_notification_id r = i \<and> nr_state r = NS_PROCESSING) f"

definition sentRow :: "int \<Rightarrow> NotificationRow \<Rightarrow> NotificationRow" where
  "sentRow t r = r\<lparr>nr_state := NS_SENT, nr_sent_at := Some t, nr_attempts := nr_attempts r + 1\<rparr>"

definition retryingRow :: "int \<Rightarrow> string \<Rightarrow> int \<Rightarrow> NotificationRow \<Rightarrow> NotificationRow" where
  "retryingRow delayMs errorCode t r =
     r\<lparr>nr_state := NS_RETRYING, nr_attempts := nr_attempts r + 1, nr_last_error_code := Some errorCode,
       nr_next_attempt_at := t + delayMs\<rparr>"

definition deadRow :: "string \<Rightarrow> NotificationRow \<Rightarrow> NotificationRow" where
  "deadRow reason r =
     r\<lparr>nr_state := NS_DEAD_LETTER, nr_attempts := nr_attempts r + 1, nr_last_error_code := Some reason,
       nr_sent_at := None\<rparr>"

definition markSent :: "UUID \<Rightarrow> Timestamp \<Rightarrow> NotificationDb \<Rightarrow> NotificationDb" where
  "markSent i t db = db\<lparr>nd_notifications := settleRows i (sentRow (dateParse t)) (nd_notifications db)\<rparr>"

definition markRetrying :: "UUID \<Rightarrow> int \<Rightarrow> string \<Rightarrow> Timestamp \<Rightarrow> NotificationDb \<Rightarrow> NotificationDb" where
  "markRetrying i delayMs errorCode t db =
     db\<lparr>nd_notifications := settleRows i (retryingRow delayMs errorCode (dateParse t)) (nd_notifications db)\<rparr>"

definition markDeadLetter :: "UUID \<Rightarrow> string \<Rightarrow> Timestamp \<Rightarrow> NotificationDb \<Rightarrow> NotificationDb" where
  "markDeadLetter i reason t db =
     db\<lparr>nd_notifications := settleRows i (deadRow reason) (nd_notifications db)\<rparr>"

definition stalledIds :: "nat \<Rightarrow> int \<Rightarrow> NotificationRow list \<Rightarrow> UUID list" where
  "stalledIds limit olderThan rows =
     take limit (map nr_notification_id (sort_key nr_next_attempt_at
       (filter (\<lambda>r. nr_state r = NS_PROCESSING \<and> nr_next_attempt_at r \<le> olderThan) rows)))"

definition reclaimRows :: "int \<Rightarrow> nat \<Rightarrow> NotificationRow list \<Rightarrow> nat \<times> NotificationRow list" where
  "reclaimRows olderThan limit rows =
     (let ids = stalledIds limit olderThan rows
      in (length (filter (\<lambda>r. nr_notification_id r \<in> set ids) rows),
          updateWhere (\<lambda>r. nr_notification_id r \<in> set ids) (\<lambda>r. r\<lparr>nr_state := NS_PENDING\<rparr>) rows))"

definition reclaimStalled :: "Timestamp \<Rightarrow> nat \<Rightarrow> NotificationDb \<Rightarrow> nat \<times> NotificationDb" where
  "reclaimStalled olderThan limit db =
     (let (n, rows) = reclaimRows (dateParse olderThan) limit (nd_notifications db)
      in (n, db\<lparr>nd_notifications := rows\<rparr>))"

section \<open>The gauges, the list and the replay\<close>

record NotificationCounts =
  nc_pending :: nat
  nc_deadLetter :: nat

definition notificationCounts :: "NotificationDb \<Rightarrow> NotificationCounts" where
  "notificationCounts db =
     \<lparr>nc_pending = length (filter (\<lambda>r. nr_state r \<in> {NS_PENDING, NS_RETRYING, NS_PROCESSING}) (nd_notifications db)),
      nc_deadLetter = length (filter (\<lambda>r. nr_state r = NS_DEAD_LETTER) (nd_notifications db))\<rparr>"

definition listedFor :: "UUID \<Rightarrow> NotificationRow \<Rightarrow> bool" where
  "listedFor who r \<longleftrightarrow> nr_recipient_id r = who \<and> nr_channel r = channelText CH_INAPP \<and> nr_state r = NS_SENT"

text \<open>\<open>ORDER BY created_at DESC\<close>; the order of rows of one instant, which the statement leaves open, is that of the table.\<close>

definition notificationsFor :: "UUID \<Rightarrow> nat \<Rightarrow> bool \<Rightarrow> NotificationDb \<Rightarrow> QueuedNotification list" where
  "notificationsFor who limit unreadOnly db =
     map toRow (take limit (sort_key (\<lambda>r. - nr_created_at r)
       (filter (\<lambda>r. listedFor who r \<and> (unreadOnly \<longrightarrow> nr_read_at r = None)) (nd_notifications db))))"

definition notificationUnreadCount :: "UUID \<Rightarrow> NotificationDb \<Rightarrow> nat" where
  "notificationUnreadCount who db =
     length (filter (\<lambda>r. listedFor who r \<and> nr_read_at r = None) (nd_notifications db))"

definition markNotificationRead :: "UUID \<Rightarrow> UUID \<Rightarrow> Timestamp \<Rightarrow> NotificationDb \<Rightarrow> bool \<times> NotificationDb" where
  "markNotificationRead who i t db =
     (let p = (\<lambda>r. nr_notification_id r = i \<and> nr_recipient_id r = who \<and> nr_read_at r = None)
      in (list_ex p (nd_notifications db),
          db\<lparr>nd_notifications := updateWhere p (\<lambda>r. r\<lparr>nr_read_at := Some (dateParse t)\<rparr>) (nd_notifications db)\<rparr>))"

definition markAllRead :: "UUID \<Rightarrow> Timestamp \<Rightarrow> NotificationDb \<Rightarrow> nat \<times> NotificationDb" where
  "markAllRead who t db =
     (let p = (\<lambda>r. listedFor who r \<and> nr_read_at r = None)
      in (length (filter p (nd_notifications db)),
          db\<lparr>nd_notifications := updateWhere p (\<lambda>r. r\<lparr>nr_read_at := Some (dateParse t)\<rparr>) (nd_notifications db)\<rparr>))"

definition deadLettered :: "nat \<Rightarrow> NotificationDb \<Rightarrow> QueuedNotification list" where
  "deadLettered limit db =
     map toRow (take limit (sort_key (\<lambda>r. - nr_created_at r)
       (filter (\<lambda>r. nr_state r = NS_DEAD_LETTER) (nd_notifications db))))"

definition replayedRow :: "int \<Rightarrow> NotificationRow \<Rightarrow> NotificationRow" where
  "replayedRow t r =
     r\<lparr>nr_state := NS_PENDING, nr_attempts := 0, nr_next_attempt_at := t, nr_last_error_code := None,
       nr_dedupe_key := None\<rparr>"

definition replayNotification :: "UUID \<Rightarrow> Timestamp \<Rightarrow> NotificationDb \<Rightarrow> bool \<times> NotificationDb" where
  "replayNotification i t db =
     (let p = (\<lambda>r. nr_notification_id r = i \<and> nr_state r = NS_DEAD_LETTER)
      in (list_ex p (nd_notifications db),
          db\<lparr>nd_notifications := updateWhere p (replayedRow (dateParse t)) (nd_notifications db)\<rparr>))"

end
