(* ===== verification/Notification_Facts.thy ===== *)
theory Notification_Facts
  imports Notification_Outbox Routing_Claims
begin

text \<open>
  What the statements of the notification outbox keep: the two unique indexes, the moves of the state
  machine, and the columns nothing rewrites. A statement is a pass over the rows, so most of this
  follows from what the pass does to one row.
\<close>

section \<open>The unique indexes\<close>

definition liveKey :: "NotificationRow \<Rightarrow> string option" where
  "liveKey r = (if nr_state r = NS_DEAD_LETTER then None else nr_dedupe_key r)"

definition wfNotifications :: "NotificationRow list \<Rightarrow> bool" where
  "wfNotifications rows \<longleftrightarrow>
     distinct (map nr_notification_id rows) \<and> distinct (List.map_filter liveKey rows)"

lemma holdsKey_liveKey: "holdsKey key r \<longleftrightarrow> key \<noteq> None \<and> liveKey r = key"
  by (auto simp: holdsKey_def liveKey_def)

lemma map_filter_append:
  "List.map_filter g (xs @ ys) = List.map_filter g xs @ List.map_filter g ys"
  by (induction xs) (auto simp: List.map_filter_simps split: option.splits)

lemma set_map_filter: "k \<in> set (List.map_filter g rows) \<longleftrightarrow> (\<exists>r \<in> set rows. g r = Some k)"
  by (induction rows) (auto simp: List.map_filter_simps split: option.splits)

lemma map_filter_sub:
  assumes "\<And>r. r \<in> set rows \<Longrightarrow> g (f r) = g r \<or> g (f r) = None"
    and "distinct (List.map_filter g rows)"
  shows "distinct (List.map_filter g (map f rows))"
  using assms
proof (induction rows)
  case (Cons r rows)
  then have ih: "distinct (List.map_filter g (map f rows))"
    by (auto simp: List.map_filter_simps split: option.splits)
  have "k \<in> set (List.map_filter g rows)" if "k \<in> set (List.map_filter g (map f rows))" for k
    using that Cons.prems(1) unfolding set_map_filter by fastforce
  moreover have "g (f r) = g r \<or> g (f r) = None" using Cons.prems(1) by simp
  ultimately show ?case
    using ih Cons.prems(2) by (auto simp: List.map_filter_simps split: option.splits)
qed (simp add: List.map_filter_simps)

lemma wf_updateWhere:
  assumes "wfNotifications rows"
    and "\<And>r. r \<in> set rows \<Longrightarrow> p r \<Longrightarrow> nr_notification_id (f r) = nr_notification_id r"
    and "\<And>r. r \<in> set rows \<Longrightarrow> p r \<Longrightarrow> liveKey (f r) = liveKey r \<or> liveKey (f r) = None"
  shows "wfNotifications (updateWhere p f rows)"
proof -
  let ?h = "\<lambda>r. if p r then f r else r"
  have "map nr_notification_id (map ?h rows) = map nr_notification_id rows"
    using assms(2) by simp
  moreover have "distinct (List.map_filter liveKey (map ?h rows))"
    by (rule map_filter_sub) (use assms in \<open>auto simp: wfNotifications_def\<close>)
  ultimately show ?thesis
    using assms(1) unfolding wfNotifications_def updateWhere_def by metis
qed

lemma same_id_same_row:
  assumes "wfNotifications rows" "r \<in> set rows" "x \<in> set rows"
    and "nr_notification_id r = nr_notification_id x"
  shows "r = x"
  using assms unfolding wfNotifications_def distinct_map by (blast dest: inj_onD)

lemma due_row:
  assumes "wfNotifications rows" "r \<in> set rows" "nr_notification_id r \<in> set (dueIds locked n t rows)"
  shows "dueAt t r" and "nr_notification_id r \<notin> set locked"
proof -
  from assms(3) obtain x where "x \<in> set rows" "dueAt t x" "nr_notification_id x \<notin> set locked"
      "nr_notification_id r = nr_notification_id x"
    unfolding dueIds_def by (auto dest!: in_set_takeD)
  with same_id_same_row[OF assms(1,2)] show "dueAt t r" "nr_notification_id r \<notin> set locked" by auto
qed

lemma stalled_row:
  assumes "wfNotifications rows" "r \<in> set rows" "nr_notification_id r \<in> set (stalledIds n t rows)"
  shows "nr_state r = NS_PROCESSING" and "nr_next_attempt_at r \<le> t"
proof -
  from assms(3) obtain x where "x \<in> set rows" "nr_state x = NS_PROCESSING" "nr_next_attempt_at x \<le> t"
      "nr_notification_id r = nr_notification_id x"
    unfolding stalledIds_def by (auto dest!: in_set_takeD)
  with same_id_same_row[OF assms(1,2)] show "nr_state r = NS_PROCESSING" "nr_next_attempt_at r \<le> t" by auto
qed

lemma wf_upsertRow:
  assumes "wfNotifications rows" and "upsertRow inp rows = Some (inserted, rows')"
  shows "wfNotifications rows'"
proof (cases inserted)
  case True
  with assms(2) have rows': "rows' = rows @ [pendingRow inp]"
    and fresh: "\<not> list_ex (\<lambda>r. nr_notification_id r = ni_notificationId inp) rows"
    and free: "\<not> list_ex (holdsKey (ni_dedupeKey inp)) rows"
    by (auto simp: upsertRow_def split: if_splits)
  have "liveKey (pendingRow inp) = ni_dedupeKey inp" by (simp add: liveKey_def pendingRow_def)
  moreover have "nr_notification_id (pendingRow inp) = ni_notificationId inp" by (simp add: pendingRow_def)
  ultimately show ?thesis
    using assms(1) fresh free unfolding rows' wfNotifications_def
    by (auto simp: list_ex_iff holdsKey_liveKey List.map_filter_simps set_map_filter map_filter_append
        split: option.splits)
next
  case False
  with assms(2) have "rows' = updateWhere (\<lambda>r. holdsKey (ni_dedupeKey inp) r \<and> nr_state r = NS_PENDING)
        (\<lambda>r. r\<lparr>nr_coalesced_count := nr_coalesced_count r + 1\<rparr>) rows"
    by (auto simp: upsertRow_def split: if_splits)
  with assms(1) show ?thesis by (auto intro: wf_updateWhere simp: liveKey_def)
qed

lemma wf_claimRows:
  assumes "wfNotifications rows"
  shows "wfNotifications (snd (claimRows locked n t rows))"
  unfolding claimRows_def Let_def snd_conv
  by (rule wf_updateWhere[OF assms])
    (auto simp: setProcessing_def liveKey_def dueAt_def dest: due_row(1)[OF assms])

lemma wf_reclaimRows:
  assumes "wfNotifications rows"
  shows "wfNotifications (snd (reclaimRows t n rows))"
  unfolding reclaimRows_def Let_def snd_conv
  by (rule wf_updateWhere[OF assms]) (auto simp: liveKey_def dest: stalled_row(1)[OF assms])

lemma wf_settleRows:
  assumes "wfNotifications rows"
    and "\<And>r. nr_notification_id (f r) = nr_notification_id r"
    and "\<And>r. nr_dedupe_key (f r) = nr_dedupe_key r"
  shows "wfNotifications (settleRows i f rows)"
  unfolding settleRows_def by (rule wf_updateWhere[OF assms(1)]) (auto simp: assms(2,3) liveKey_def)

section \<open>The steps of the outbox\<close>

text \<open>Every statement another component of the program runs on the table, in any order and by any number of workers.\<close>

inductive outbox_step :: "NotificationDb \<Rightarrow> NotificationDb \<Rightarrow> bool" where
  enqueued: "enqueueNotification inp db = Some (inserted, db') \<Longrightarrow> outbox_step db db'"
| claimed: "claimDue locked n t db = (due, db') \<Longrightarrow> outbox_step db db'"
| sent: "outbox_step db (markSent i t db)"
| retrying: "outbox_step db (markRetrying i delayMs errorCode t db)"
| dead: "outbox_step db (markDeadLetter i reason t db)"
| reclaimed: "reclaimStalled t n db = (k, db') \<Longrightarrow> outbox_step db db'"
| read: "markNotificationRead who i t db = (changed, db') \<Longrightarrow> outbox_step db db'"
| readAll: "markAllRead who t db = (k, db') \<Longrightarrow> outbox_step db db'"
| replayed: "replayNotification i t db = (done, db') \<Longrightarrow> outbox_step db db'"

definition wfNotificationDb :: "NotificationDb \<Rightarrow> bool" where
  "wfNotificationDb db \<longleftrightarrow> wfNotifications (nd_notifications db)"

lemma enqueue_rows:
  assumes "enqueueNotification inp db = Some (inserted, db')"
  shows "upsertRow inp (nd_notifications db) = Some (inserted, nd_notifications db')"
  using assms
  by (auto simp: enqueueNotification_def Let_def appendOutboxIn_iff split: option.splits if_splits)

lemma outbox_step_wf: "outbox_step db db' \<Longrightarrow> wfNotificationDb db \<Longrightarrow> wfNotificationDb db'"
proof (induction rule: outbox_step.induct)
  case enqueued
  then show ?case unfolding wfNotificationDb_def by (blast dest: enqueue_rows wf_upsertRow)
next
  case claimed
  then show ?case unfolding wfNotificationDb_def claimDue_def
    by (auto simp: split: prod.splits) (metis wf_claimRows snd_conv)
next
  case sent
  then show ?case unfolding wfNotificationDb_def markSent_def by (simp add: wf_settleRows sentRow_def)
next
  case retrying
  then show ?case unfolding wfNotificationDb_def markRetrying_def by (simp add: wf_settleRows retryingRow_def)
next
  case dead
  then show ?case unfolding wfNotificationDb_def markDeadLetter_def by (simp add: wf_settleRows deadRow_def)
next
  case reclaimed
  then show ?case unfolding wfNotificationDb_def reclaimStalled_def
    by (auto simp: split: prod.splits) (metis wf_reclaimRows snd_conv)
next
  case read
  then show ?case unfolding wfNotificationDb_def markNotificationRead_def Let_def
    by (auto intro!: wf_updateWhere simp: liveKey_def)
next
  case readAll
  then show ?case unfolding wfNotificationDb_def markAllRead_def Let_def
    by (auto intro!: wf_updateWhere simp: liveKey_def)
next
  case replayed
  then show ?case unfolding wfNotificationDb_def replayNotification_def Let_def
    by (auto intro!: wf_updateWhere simp: liveKey_def replayedRow_def)
qed

section \<open>The moves of one row\<close>

fun allowedMove :: "NotificationState \<Rightarrow> NotificationState \<Rightarrow> bool" where
  "allowedMove NS_PENDING s \<longleftrightarrow> s \<in> {NS_PENDING, NS_PROCESSING}"
| "allowedMove NS_RETRYING s \<longleftrightarrow> s \<in> {NS_RETRYING, NS_PROCESSING}"
| "allowedMove NS_PROCESSING s \<longleftrightarrow> True"
| "allowedMove NS_SENT s \<longleftrightarrow> s = NS_SENT"
| "allowedMove NS_DEAD_LETTER s \<longleftrightarrow> s \<in> {NS_DEAD_LETTER, NS_PENDING}"

definition sameLetter :: "NotificationRow \<Rightarrow> NotificationRow \<Rightarrow> bool" where
  "sameLetter r r' \<longleftrightarrow>
     nr_notification_id r' = nr_notification_id r \<and> nr_recipient_id r' = nr_recipient_id r \<and>
     nr_recipient_kind r' = nr_recipient_kind r \<and> nr_channel r' = nr_channel r \<and>
     nr_event_name r' = nr_event_name r \<and> nr_target_ref r' = nr_target_ref r \<and>
     nr_payload r' = nr_payload r \<and> nr_created_at r' = nr_created_at r"

definition follows :: "NotificationRow \<Rightarrow> NotificationRow \<Rightarrow> bool" where
  "follows r r' \<longleftrightarrow>
     sameLetter r r' \<and> allowedMove (nr_state r) (nr_state r') \<and>
     (nr_read_at r \<noteq> None \<longrightarrow> nr_read_at r' = nr_read_at r) \<and>
     (nr_state r = NS_SENT \<longrightarrow> nr_sent_at r' = nr_sent_at r \<and> nr_coalesced_count r' = nr_coalesced_count r)"

lemma follows_refl [simp]: "follows r r"
  by (cases "nr_state r") (simp_all add: follows_def sameLetter_def)

text \<open>The rows of the table are those of the start, each one further along, and new ones behind them.\<close>

definition extends :: "NotificationRow list \<Rightarrow> NotificationRow list \<Rightarrow> bool" where
  "extends rows rows' \<longleftrightarrow> (\<exists>moved new. rows' = moved @ new \<and> list_all2 follows rows moved)"

lemma extends_updateWhere:
  assumes "\<And>r. r \<in> set rows \<Longrightarrow> p r \<Longrightarrow> follows r (f r)"
  shows "extends rows (updateWhere p f rows)"
proof -
  have "list_all2 follows rows (updateWhere p f rows)"
    using assms by (auto simp: updateWhere_def list_all2_conv_all_nth)
  then show ?thesis unfolding extends_def by (metis append_Nil2)
qed

lemma extends_append: "extends rows (rows @ new)"
  unfolding extends_def by (metis follows_refl list.rel_refl)

lemma upsert_extends: "upsertRow inp rows = Some (inserted, rows') \<Longrightarrow> extends rows rows'"
  by (auto simp: upsertRow_def extends_append follows_def sameLetter_def
      intro!: extends_updateWhere split: if_splits)

lemma outbox_step_extends:
  "outbox_step db db' \<Longrightarrow> wfNotificationDb db \<Longrightarrow> extends (nd_notifications db) (nd_notifications db')"
proof (induction rule: outbox_step.induct)
  case (enqueued inp db inserted db')
  show ?case by (rule upsert_extends[OF enqueue_rows[OF enqueued.hyps]])
next
  case (claimed locked n t db due db')
  then have eq: "nd_notifications db' = snd (claimRows locked n (dateParse t) (nd_notifications db))"
    by (auto simp: claimDue_def split: prod.splits)
  have "allowedMove (nr_state r) NS_PROCESSING"
    if "r \<in> set (nd_notifications db)"
      "nr_notification_id r \<in> set (dueIds locked n (dateParse t) (nd_notifications db))" for r
    using due_row(1)[OF claimed.prems[unfolded wfNotificationDb_def] that] by (auto simp: dueAt_def)
  then show ?case unfolding eq claimRows_def Let_def snd_conv
    by (intro extends_updateWhere) (simp add: setProcessing_def follows_def sameLetter_def)
next
  case (reclaimed t n db k db')
  then have eq: "nd_notifications db' = snd (reclaimRows (dateParse t) n (nd_notifications db))"
    by (auto simp: reclaimStalled_def split: prod.splits)
  show ?case unfolding eq reclaimRows_def Let_def snd_conv
    by (rule extends_updateWhere)
      (auto simp: follows_def sameLetter_def
        dest: stalled_row(1)[OF reclaimed.prems[unfolded wfNotificationDb_def]])
next
  case sent
  then show ?case
    by (auto simp: markSent_def settleRows_def sentRow_def follows_def sameLetter_def intro!: extends_updateWhere)
next
  case retrying
  then show ?case
    by (auto simp: markRetrying_def settleRows_def retryingRow_def follows_def sameLetter_def
        intro!: extends_updateWhere)
next
  case dead
  then show ?case
    by (auto simp: markDeadLetter_def settleRows_def deadRow_def follows_def sameLetter_def
        intro!: extends_updateWhere)
next
  case (read who i t db changed db')
  have "allowedMove s s" for s by (cases s) simp_all
  with read show ?case
    by (auto simp: markNotificationRead_def Let_def follows_def sameLetter_def intro!: extends_updateWhere)
next
  case (readAll who t db k db')
  have "allowedMove s s" for s by (cases s) simp_all
  with readAll show ?case
    by (auto simp: markAllRead_def Let_def follows_def sameLetter_def intro!: extends_updateWhere)
next
  case replayed
  then show ?case
    by (auto simp: replayNotification_def Let_def replayedRow_def follows_def sameLetter_def
        intro!: extends_updateWhere)
qed

text \<open>A row that has been sent stays sent, word for word, whatever runs afterwards.\<close>

lemma extends_sent:
  assumes "extends rows rows'" "i < length rows" "nr_state (rows ! i) = NS_SENT"
  shows "i < length rows'" "nr_state (rows' ! i) = NS_SENT" "sameLetter (rows ! i) (rows' ! i)"
    "nr_sent_at (rows' ! i) = nr_sent_at (rows ! i)"
    "nr_coalesced_count (rows' ! i) = nr_coalesced_count (rows ! i)"
proof -
  from assms(1) obtain moved new where r: "rows' = moved @ new" "list_all2 follows rows moved"
    unfolding extends_def by blast
  with assms(2) have l: "i < length moved" by (simp add: list_all2_lengthD)
  with r show "i < length rows'" by simp
  from r l assms(2) have "follows (rows ! i) (rows' ! i)" by (simp add: nth_append list_all2_nthD)
  with assms(3) show "nr_state (rows' ! i) = NS_SENT" "sameLetter (rows ! i) (rows' ! i)"
    "nr_sent_at (rows' ! i) = nr_sent_at (rows ! i)"
    "nr_coalesced_count (rows' ! i) = nr_coalesced_count (rows ! i)"
    by (auto simp: follows_def)
qed

lemma outbox_run_wf: "outbox_step\<^sup>*\<^sup>* db db' \<Longrightarrow> wfNotificationDb db \<Longrightarrow> wfNotificationDb db'"
  by (induction rule: rtranclp_induct) (auto dest: outbox_step_wf)

end
