(* ===== verification/Notification_Sweep.thy ===== *)
theory Notification_Sweep
  imports Attachment_Sweeps Notification_Facts
begin

text \<open>
  The delivery worker, \<open>infrastructure/sweeps/src/notification-sweeps.ts\<close>, over any provider of its
  \<open>OutboxPort\<close>. A transport is an adapter: a function of the rendered notification, the idempotency key
  and the outside world \<open>'w\<close>. The jitter of a retry is the argument \<open>jitter\<close>, one number per row. Logs
  and metrics are left out. The locale \<open>delivery_queue\<close> states what the worker relies on; the outbox of
  \<open>Notification_Outbox\<close> provides it.
\<close>

section \<open>The ports\<close>

record 'st OutboxPort =
  op_claimDue :: "nat \<Rightarrow> Timestamp \<Rightarrow> 'st \<Rightarrow> QueuedNotification list \<times> 'st"
  op_markSent :: "UUID \<Rightarrow> Timestamp \<Rightarrow> 'st \<Rightarrow> 'st"
  op_markRetrying :: "UUID \<Rightarrow> int \<Rightarrow> string \<Rightarrow> Timestamp \<Rightarrow> 'st \<Rightarrow> 'st"
  op_markDeadLetter :: "UUID \<Rightarrow> string \<Rightarrow> Timestamp \<Rightarrow> 'st \<Rightarrow> 'st"
  op_reclaimStalled :: "Timestamp \<Rightarrow> nat \<Rightarrow> 'st \<Rightarrow> nat \<times> 'st"

definition pgOutbox :: "UUID list \<Rightarrow> NotificationDb OutboxPort" where
  "pgOutbox locked =
     \<lparr>op_claimDue = claimDue locked, op_markSent = markSent, op_markRetrying = markRetrying,
      op_markDeadLetter = markDeadLetter, op_reclaimStalled = reclaimStalled\<rparr>"

datatype DeliveryVerdict = DV_DELIVERED | DV_RETRYABLE | DV_PERMANENT_FAILURE

type_synonym 'w Transport = "RenderedNotification \<Rightarrow> UUID \<Rightarrow> 'w \<Rightarrow> (AdapterError + DeliveryVerdict) \<times> 'w"

record 'w NotificationSweepDeps =
  ns_transports :: "string \<Rightarrow> 'w Transport option"
  ns_render :: "QueuedNotification \<Rightarrow> RenderedNotification"
  ns_policy :: RetryPolicy
  ns_batchSize :: nat
  ns_stalledAfterSeconds :: int

definition renderableOf :: "QueuedNotification \<Rightarrow> RenderableNotification" where
  "renderableOf q =
     \<lparr>rn_recipientId = qn_recipientId q, rn_channel = qn_channel q, rn_event = qn_event q,
      rn_targetRef = qn_targetRef q, rn_coalescedCount = qn_coalescedCount q\<rparr>"

section \<open>The delivery of one row\<close>

fun outcomeOf :: "AdapterError + DeliveryVerdict \<Rightarrow> DeliveryOutcome" where
  "outcomeOf (Inr DV_DELIVERED) = OUT_DELIVERED"
| "outcomeOf (Inr DV_PERMANENT_FAILURE) = OUT_PERMANENT_FAILURE ''PERMANENT_FAILURE''"
| "outcomeOf (Inr DV_RETRYABLE) = OUT_RETRYABLE ''RETRYABLE''"
| "outcomeOf (Inl e) = (if er_retryable e then OUT_RETRYABLE (er_code e) else OUT_PERMANENT_FAILURE (er_code e))"

fun errorCodeOf :: "DeliveryOutcome \<Rightarrow> string" where
  "errorCodeOf OUT_DELIVERED = ''UNKNOWN''"
| "errorCodeOf (OUT_RETRYABLE c) = c"
| "errorCodeOf (OUT_PERMANENT_FAILURE c) = c"

definition settleDelivery ::
  "'st OutboxPort \<Rightarrow> Timestamp \<Rightarrow> UUID \<Rightarrow> DeliveryOutcome \<Rightarrow> NextStep \<Rightarrow> 'st \<Rightarrow> bool \<times> 'st" where
  "settleDelivery port t i outcome step st =
     (case step of
        NX_SENT \<Rightarrow> (True, op_markSent port i t st)
      | NX_RETRYING delayMs \<Rightarrow> (False, op_markRetrying port i delayMs (errorCodeOf outcome) t st)
      | NX_DEAD_LETTER reason \<Rightarrow> (False, op_markDeadLetter port i reason t st))"

definition deliverOne ::
  "'st OutboxPort \<Rightarrow> 'w NotificationSweepDeps \<Rightarrow> (UUID \<Rightarrow> rat) \<Rightarrow> Timestamp \<Rightarrow> QueuedNotification \<Rightarrow>
   'st \<times> 'w \<Rightarrow> bool \<times> 'st \<times> 'w" where
  "deliverOne port deps jitter t q = (\<lambda>(st, w).
     case ns_transports deps (qn_channel q) of
       None \<Rightarrow>
         (False, op_markRetrying port (qn_notificationId q) (15 * 60000) ''NO_TRANSPORT'' t st, w)
     | Some transport \<Rightarrow>
         let (delivered, w1) = transport (ns_render deps q) (qn_notificationId q) w;
             outcome = outcomeOf delivered;
             step = afterAttempt (qn_attempts q) outcome (ns_policy deps) (jitter (qn_notificationId q));
             (acted, st1) = settleDelivery port t (qn_notificationId q) outcome step st
         in (acted, st1, w1))"

fun deliverAll ::
  "'st OutboxPort \<Rightarrow> 'w NotificationSweepDeps \<Rightarrow> (UUID \<Rightarrow> rat) \<Rightarrow> Timestamp \<Rightarrow> QueuedNotification list \<Rightarrow>
   'st \<times> 'w \<Rightarrow> nat \<times> 'st \<times> 'w" where
  "deliverAll port deps jitter t [] sw = (0, sw)"
| "deliverAll port deps jitter t (q # qs) sw =
     (let (acted, sw1) = deliverOne port deps jitter t q sw;
          (n, sw2) = deliverAll port deps jitter t qs sw1
      in ((if acted then n + 1 else n), sw2))"

definition stalledBefore :: "'w NotificationSweepDeps \<Rightarrow> Timestamp \<Rightarrow> Timestamp" where
  "stalledBefore deps t = toISOString (dateParse t - ns_stalledAfterSeconds deps * 1000)"

definition runDelivery ::
  "'st OutboxPort \<Rightarrow> 'w NotificationSweepDeps \<Rightarrow> (UUID \<Rightarrow> rat) \<Rightarrow> int \<Rightarrow> 'st \<times> 'w \<Rightarrow>
   SweepOutcome \<times> 'st \<times> 'w" where
  "runDelivery port deps jitter now = (\<lambda>(st, w).
     let t = toISOString now;
         (reclaimed, st1) = op_reclaimStalled port (stalledBefore deps t) (ns_batchSize deps) st;
         (due, st2) = op_claimDue port (ns_batchSize deps) t st1;
         (acted, st3, w1) = deliverAll port deps jitter t due (st2, w)
     in (\<lparr>so_examined = length due, so_acted = acted\<rparr>, st3, w1))"

section \<open>What the worker relies on\<close>

type_synonym Letters = "UUID \<Rightarrow> (NotificationState \<times> nat) option"

definition settledTo :: "UUID \<Rightarrow> NotificationState \<Rightarrow> Letters \<Rightarrow> Letters" where
  "settledTo i s L =
     (case L i of Some (NS_PROCESSING, n) \<Rightarrow> L(i \<mapsto> (s, n + 1)) | _ \<Rightarrow> L)"

text \<open>
  What is to become of a letter, by what its transport answered (no transport being no answer), and what the
  transports answer for the letters of a batch, one after the other.
\<close>

fun answeredState :: "RetryPolicy \<Rightarrow> nat \<Rightarrow> (AdapterError + DeliveryVerdict) option \<Rightarrow> NotificationState" where
  "answeredState policy attempts None = NS_RETRYING"
| "answeredState policy attempts (Some (Inr DV_DELIVERED)) = NS_SENT"
| "answeredState policy attempts (Some (Inr DV_PERMANENT_FAILURE)) = NS_DEAD_LETTER"
| "answeredState policy attempts (Some (Inr DV_RETRYABLE)) =
     (if attempts + 1 < rp_maxAttempts policy then NS_RETRYING else NS_DEAD_LETTER)"
| "answeredState policy attempts (Some (Inl e)) =
     (if er_retryable e \<and> attempts + 1 < rp_maxAttempts policy then NS_RETRYING else NS_DEAD_LETTER)"

fun stepState :: "NextStep \<Rightarrow> NotificationState" where
  "stepState NX_SENT = NS_SENT"
| "stepState (NX_RETRYING d) = NS_RETRYING"
| "stepState (NX_DEAD_LETTER c) = NS_DEAD_LETTER"

lemma answered_step:
  "answeredState policy n (Some a) = stepState (afterAttempt n (outcomeOf a) policy j)"
  "afterAttempt n (outcomeOf a) policy j = NX_SENT \<longleftrightarrow> a = Inr DV_DELIVERED"
proof -
  have "answeredState policy n (Some a) = stepState (afterAttempt n (outcomeOf a) policy j) \<and>
      (afterAttempt n (outcomeOf a) policy j = NX_SENT \<longleftrightarrow> a = Inr DV_DELIVERED)"
  proof (cases a)
    case (Inr v)
    then show ?thesis by (cases v) (auto simp: afterAttempt_def Let_def)
  qed (auto simp: afterAttempt_def Let_def)
  then show "answeredState policy n (Some a) = stepState (afterAttempt n (outcomeOf a) policy j)"
    and "afterAttempt n (outcomeOf a) policy j = NX_SENT \<longleftrightarrow> a = Inr DV_DELIVERED" by blast+
qed

definition transportAnswer ::
  "'w NotificationSweepDeps \<Rightarrow> QueuedNotification \<Rightarrow> 'w \<Rightarrow> (AdapterError + DeliveryVerdict) option \<times> 'w" where
  "transportAnswer deps q w =
     (case ns_transports deps (qn_channel q) of
        None \<Rightarrow> (None, w)
      | Some transport \<Rightarrow> (case transport (ns_render deps q) (qn_notificationId q) w of (a, w') \<Rightarrow> (Some a, w')))"

fun transportAnswers ::
  "'w NotificationSweepDeps \<Rightarrow> QueuedNotification list \<Rightarrow> 'w \<Rightarrow> (AdapterError + DeliveryVerdict) option list \<times> 'w" where
  "transportAnswers deps [] w = ([], w)"
| "transportAnswers deps (q # qs) w =
     (case transportAnswer deps q w of
        (a, w1) \<Rightarrow> (case transportAnswers deps qs w1 of (as, w2) \<Rightarrow> (a # as, w2)))"

locale delivery_queue =
  fixes port :: "'st OutboxPort"
    and letters :: "'st \<Rightarrow> Letters"
    and ok :: "'st \<Rightarrow> bool"
  assumes claim_law: "op_claimDue port n t st = (due, st') \<Longrightarrow> ok st \<Longrightarrow>
      ok st' \<and> distinct (map qn_notificationId due) \<and>
      (\<forall>q \<in> set due.
         (\<exists>s. s \<in> {NS_PENDING, NS_RETRYING} \<and> letters st (qn_notificationId q) = Some (s, qn_attempts q)) \<and>
         letters st' (qn_notificationId q) = Some (NS_PROCESSING, qn_attempts q)) \<and>
      (\<forall>i. i \<notin> qn_notificationId ` set due \<longrightarrow> letters st' i = letters st i)"
    and sent_law: "ok st \<Longrightarrow> ok (op_markSent port i t st) \<and>
      letters (op_markSent port i t st) = settledTo i NS_SENT (letters st)"
    and retrying_law: "ok st \<Longrightarrow> ok (op_markRetrying port i d c t st) \<and>
      letters (op_markRetrying port i d c t st) = settledTo i NS_RETRYING (letters st)"
    and dead_law: "ok st \<Longrightarrow> ok (op_markDeadLetter port i c t st) \<and>
      letters (op_markDeadLetter port i c t st) = settledTo i NS_DEAD_LETTER (letters st)"
    and reclaim_law: "op_reclaimStalled port t n st = (k, st') \<Longrightarrow> ok st \<Longrightarrow>
      ok st' \<and> (\<forall>i. letters st' i = letters st i \<or>
        (\<exists>a. letters st i = Some (NS_PROCESSING, a) \<and> letters st' i = Some (NS_PENDING, a)))"
begin

lemma deliverOne_law:
  assumes "deliverOne port deps jitter t q (st, w) = (acted, st', w')" and "ok st"
    and "letters st (qn_notificationId q) = Some (NS_PROCESSING, a)"
  shows "ok st'" and "transportAnswer deps q w = (answer, v) \<Longrightarrow>
      w' = v \<and> (acted \<longleftrightarrow> answer = Some (Inr DV_DELIVERED)) \<and>
      letters st' = (letters st)(qn_notificationId q \<mapsto> (answeredState (ns_policy deps) (qn_attempts q) answer, a + 1))"
proof -
  have "ok st' \<and> (transportAnswer deps q w = (answer, v) \<longrightarrow>
      w' = v \<and> (acted \<longleftrightarrow> answer = Some (Inr DV_DELIVERED)) \<and>
      letters st' = (letters st)(qn_notificationId q \<mapsto> (answeredState (ns_policy deps) (qn_attempts q) answer, a + 1)))"
  proof (cases "ns_transports deps (qn_channel q)")
    case None
    with assms show ?thesis
      by (auto simp: deliverOne_def transportAnswer_def settledTo_def retrying_law)
  next
    case (Some transport)
    obtain x w1 where x: "transport (ns_render deps q) (qn_notificationId q) w = (x, w1)" by fastforce
    define step where "step = afterAttempt (qn_attempts q) (outcomeOf x) (ns_policy deps) (jitter (qn_notificationId q))"
    from assms Some x have w': "w' = w1"
      and st': "(acted, st') = settleDelivery port t (qn_notificationId q) (outcomeOf x) step st"
      by (auto simp: deliverOne_def Let_def step_def split: prod.splits)
    have "answeredState (ns_policy deps) (qn_attempts q) (Some x) = stepState step" "step = NX_SENT \<longleftrightarrow> x = Inr DV_DELIVERED"
      using answered_step(1)[of "ns_policy deps" "qn_attempts q" x] answered_step(2)[of "qn_attempts q" x "ns_policy deps"] by (simp_all add: step_def)
    with w' st' x Some assms(2,3) show ?thesis
      by (cases step) (auto simp: transportAnswer_def settleDelivery_def settledTo_def sent_law retrying_law dead_law)
  qed
  then show "ok st'" and "transportAnswer deps q w = (answer, v) \<Longrightarrow>
      w' = v \<and> (acted \<longleftrightarrow> answer = Some (Inr DV_DELIVERED)) \<and>
      letters st' = (letters st)(qn_notificationId q \<mapsto> (answeredState (ns_policy deps) (qn_attempts q) answer, a + 1))"
    by blast+
qed

lemma deliverAll_law:
  assumes "deliverAll port deps jitter t qs (st, w) = (n, st', w')" and "ok st"
    and "distinct (map qn_notificationId qs)"
    and "\<forall>q \<in> set qs. letters st (qn_notificationId q) = Some (NS_PROCESSING, qn_attempts q)"
  shows "\<exists>answers. transportAnswers deps qs w = (answers, w') \<and> ok st' \<and> length answers = length qs \<and>
     n = length (filter (\<lambda>a. a = Some (Inr DV_DELIVERED)) answers) \<and>
     list_all2 (\<lambda>q a. letters st' (qn_notificationId q) =
       Some (answeredState (ns_policy deps) (qn_attempts q) a, qn_attempts q + 1)) qs answers \<and>
     (\<forall>i. i \<notin> qn_notificationId ` set qs \<longrightarrow> letters st' i = letters st i)"
  using assms
proof (induction qs arbitrary: st w n)
  case (Cons q qs)
  obtain acted st1 w1 where d: "deliverOne port deps jitter t q (st, w) = (acted, st1, w1)"
    by (metis prod_cases3)
  obtain m where a: "deliverAll port deps jitter t qs (st1, w1) = (m, st', w')"
    and n: "n = (if acted then m + 1 else m)"
    using Cons.prems(1) d by (auto simp: Let_def split: prod.splits)
  have "letters st (qn_notificationId q) = Some (NS_PROCESSING, qn_attempts q)" using Cons.prems(4) by simp
  note one = deliverOne_law[OF d Cons.prems(2) this]
  obtain answer v where v: "transportAnswer deps q w = (answer, v)" by (cases "transportAnswer deps q w")
  note s = one(2)[OF v]
  have ne: "qn_notificationId x \<noteq> qn_notificationId q" if "x \<in> set qs" for x
    using Cons.prems(3) that by (metis distinct.simps(2) image_eqI list.set_map list.simps(9))
  have p: "\<forall>x \<in> set qs. letters st1 (qn_notificationId x) = Some (NS_PROCESSING, qn_attempts x)"
    using Cons.prems(4) s ne by simp
  have "distinct (map qn_notificationId qs)" using Cons.prems(3) by simp
  from Cons.IH[OF a one(1) this p] obtain answers where
    ih: "transportAnswers deps qs w1 = (answers, w')" "ok st'" "length answers = length qs"
      "m = length (filter (\<lambda>a. a = Some (Inr DV_DELIVERED)) answers)"
      "list_all2 (\<lambda>q a. letters st' (qn_notificationId q) =
         Some (answeredState (ns_policy deps) (qn_attempts q) a, qn_attempts q + 1)) qs answers"
      "\<forall>i. i \<notin> qn_notificationId ` set qs \<longrightarrow> letters st' i = letters st1 i" by blast
  have keep: "letters st' (qn_notificationId q) = Some (answeredState (ns_policy deps) (qn_attempts q) answer, qn_attempts q + 1)"
    using ih(6) Cons.prems(3) s by auto
  show ?case
    by (rule exI[of _ "answer # answers"]) (use ih keep s v n in \<open>auto simp: fun_upd_def\<close>)
qed simp

lemma run_law:
  assumes "runDelivery port deps jitter now (st, w) = (out, st', w')" and "ok st"
  shows "\<exists>due st1 answers. ok st' \<and> transportAnswers deps due w = (answers, w') \<and>
     distinct (map qn_notificationId due) \<and> length answers = length due \<and>
     so_examined out = length due \<and>
     so_acted out = length (filter (\<lambda>a. a = Some (Inr DV_DELIVERED)) answers) \<and>
     (\<forall>i. letters st1 i = letters st i \<or>
        (\<exists>a. letters st i = Some (NS_PROCESSING, a) \<and> letters st1 i = Some (NS_PENDING, a))) \<and>
     (\<forall>q \<in> set due. \<exists>s. s \<in> {NS_PENDING, NS_RETRYING} \<and> letters st1 (qn_notificationId q) = Some (s, qn_attempts q)) \<and>
     list_all2 (\<lambda>q a. letters st' (qn_notificationId q) =
       Some (answeredState (ns_policy deps) (qn_attempts q) a, qn_attempts q + 1)) due answers \<and>
     (\<forall>i. i \<notin> qn_notificationId ` set due \<longrightarrow> letters st' i = letters st1 i)"
proof -
  let ?t = "toISOString now"
  obtain k st1 where r: "op_reclaimStalled port (stalledBefore deps ?t) (ns_batchSize deps) st = (k, st1)"
    by fastforce
  obtain due st2 where c: "op_claimDue port (ns_batchSize deps) ?t st1 = (due, st2)" by fastforce
  have d: "deliverAll port deps jitter ?t due (st2, w) = (so_acted out, st', w')"
    and n: "so_examined out = length due"
    using assms(1) r c by (auto simp: runDelivery_def Let_def split: prod.splits)
  note 1 = reclaim_law[OF r assms(2)]
  note 2 = claim_law[OF c conjunct1[OF 1]]
  have p: "\<forall>q \<in> set due. letters st2 (qn_notificationId q) = Some (NS_PROCESSING, qn_attempts q)"
    using 2 by blast
  from deliverAll_law[OF d conjunct1[OF 2] conjunct1[OF conjunct2[OF 2]] p] obtain answers where
    3: "transportAnswers deps due w = (answers, w')" "ok st'" "length answers = length due"
      "so_acted out = length (filter (\<lambda>a. a = Some (Inr DV_DELIVERED)) answers)"
      "list_all2 (\<lambda>q a. letters st' (qn_notificationId q) =
         Some (answeredState (ns_policy deps) (qn_attempts q) a, qn_attempts q + 1)) due answers"
      "\<forall>i. i \<notin> qn_notificationId ` set due \<longrightarrow> letters st' i = letters st2 i" by blast
  have a: "\<forall>q \<in> set due. \<exists>s. s \<in> {NS_PENDING, NS_RETRYING} \<and> letters st1 (qn_notificationId q) = Some (s, qn_attempts q)"
    using 2 by blast
  have b: "\<forall>i. i \<notin> qn_notificationId ` set due \<longrightarrow> letters st' i = letters st1 i" using 2 3(6) by metis
  show ?thesis
    by (rule exI[of _ due], rule exI[of _ st1], rule exI[of _ answers])
       (intro conjI a b n conjunct2[OF 1] 3(1-5) conjunct1[OF conjunct2[OF 2]])
qed

end

section \<open>The outbox provides it\<close>

definition pgLetters :: "NotificationDb \<Rightarrow> Letters" where
  "pgLetters db i =
     map_option (\<lambda>r. (nr_state r, nr_attempts r))
       (find (\<lambda>r. nr_notification_id r = i) (nd_notifications db))"

lemma wf_find:
  assumes "wfNotifications rows" "r \<in> set rows"
  shows "find (\<lambda>x. nr_notification_id x = nr_notification_id r) rows = Some r"
proof -
  have "find (\<lambda>x. nr_notification_id x = nr_notification_id r) rows \<noteq> None"
    using assms(2) by (auto simp: find_None_iff)
  then obtain x where x: "find (\<lambda>x. nr_notification_id x = nr_notification_id r) rows = Some x" by blast
  then have "x \<in> set rows" "nr_notification_id x = nr_notification_id r" by (auto dest: find_SomeD)
  with same_id_same_row[OF assms(1) _ assms(2)] x show ?thesis by metis
qed

lemma find_id_updateWhere:
  assumes "\<And>r. nr_notification_id (f r) = nr_notification_id r"
  shows "find (\<lambda>r. nr_notification_id r = i) (updateWhere p f rows) =
     map_option (\<lambda>r. if p r then f r else r) (find (\<lambda>r. nr_notification_id r = i) rows)"
  using assms by (induction rows) (auto simp: updateWhere_def)

lemma letters_settled:
  assumes "\<And>r. nr_notification_id (f r) = nr_notification_id r"
    and "\<And>r. nr_state (f r) = s" and "\<And>r. nr_attempts (f r) = nr_attempts r + 1"
  shows "pgLetters (db\<lparr>nd_notifications := settleRows i f (nd_notifications db)\<rparr>) = settledTo i s (pgLetters db)"
proof
  fix j
  have new: "pgLetters (db\<lparr>nd_notifications := settleRows i f (nd_notifications db)\<rparr>) j =
      map_option (\<lambda>r. let r' = if nr_notification_id r = i \<and> nr_state r = NS_PROCESSING then f r else r
        in (nr_state r', nr_attempts r')) (find (\<lambda>r. nr_notification_id r = j) (nd_notifications db))"
    by (simp add: pgLetters_def settleRows_def find_id_updateWhere assms(1) option.map_comp comp_def Let_def)
  show "pgLetters (db\<lparr>nd_notifications := settleRows i f (nd_notifications db)\<rparr>) j =
      settledTo i s (pgLetters db) j"
  proof (cases "find (\<lambda>r. nr_notification_id r = j) (nd_notifications db)")
    case None
    then have "pgLetters db j = None" by (simp add: pgLetters_def)
    with new None show ?thesis
      by (auto simp: settledTo_def split: option.splits prod.splits NotificationState.splits)
  next
    case (Some r)
    then have r: "nr_notification_id r = j" "pgLetters db j = Some (nr_state r, nr_attempts r)"
      by (auto simp: pgLetters_def dest: find_SomeD)
    show ?thesis
    proof (cases "j = i")
      case True
      with new Some r show ?thesis
        by (cases "nr_state r") (simp_all add: settledTo_def assms(2,3))
    next
      case False
      then have "settledTo i s (pgLetters db) j = pgLetters db j"
        by (auto simp: settledTo_def split: option.splits prod.splits NotificationState.splits)
      with new Some r False show ?thesis by simp
    qed
  qed
qed

text \<open>
  \<open>claimDue\<close> hands out exactly the rows it moves, as they are once they are in process.
\<close>

lemma letters_claimDue:
  assumes "claimDue locked n t db = (due, db')" and "wfNotificationDb db"
  shows "distinct (map qn_notificationId due)"
    and "q \<in> set due \<Longrightarrow>
      (\<exists>s. s \<in> {NS_PENDING, NS_RETRYING} \<and> pgLetters db (qn_notificationId q) = Some (s, qn_attempts q)) \<and>
      pgLetters db' (qn_notificationId q) = Some (NS_PROCESSING, qn_attempts q)"
    and "i \<notin> qn_notificationId ` set due \<Longrightarrow> pgLetters db' i = pgLetters db i"
proof -
  let ?rows = "nd_notifications db" and ?ids = "dueIds locked n (dateParse t) (nd_notifications db)"
  let ?hit = "\<lambda>r. nr_notification_id r \<in> set ?ids"
  note wf = assms(2)[unfolded wfNotificationDb_def]
  have due: "due = map toRow (map setProcessing (filter ?hit ?rows))"
    and rows': "nd_notifications db' = updateWhere ?hit setProcessing ?rows"
    using assms(1) by (auto simp: claimDue_def claimRows_def Let_def)
  have "map qn_notificationId due = map nr_notification_id (filter ?hit ?rows)"
    by (simp add: due toRow_def setProcessing_def comp_def)
  with wf show "distinct (map qn_notificationId due)"
    by (simp add: wfNotifications_def distinct_map_filter)
  have l: "pgLetters db' j = map_option (\<lambda>r. (if ?hit r then NS_PROCESSING else nr_state r, nr_attempts r))
      (find (\<lambda>r. nr_notification_id r = j) ?rows)" for j
    unfolding pgLetters_def rows'
    by (subst find_id_updateWhere) (auto simp: setProcessing_def option.map_comp comp_def intro!: map_option_cong)
  show "(\<exists>s. s \<in> {NS_PENDING, NS_RETRYING} \<and> pgLetters db (qn_notificationId q) = Some (s, qn_attempts q)) \<and>
      pgLetters db' (qn_notificationId q) = Some (NS_PROCESSING, qn_attempts q)" if "q \<in> set due"
  proof -
    from that obtain r where r: "r \<in> set ?rows" "?hit r"
        "qn_notificationId q = nr_notification_id r" "qn_attempts q = nr_attempts r"
      by (auto simp: due toRow_def setProcessing_def)
    from due_row(1)[OF wf r(1,2)] have "nr_state r \<in> {NS_PENDING, NS_RETRYING}" by (simp add: dueAt_def)
    with r wf_find[OF wf r(1)] l show ?thesis by (simp add: pgLetters_def)
  qed
  show "pgLetters db' i = pgLetters db i" if "i \<notin> qn_notificationId ` set due"
  proof (cases "find (\<lambda>r. nr_notification_id r = i) ?rows")
    case (Some r)
    then have "r \<in> set ?rows" "nr_notification_id r = i" by (auto dest: find_SomeD)
    with that have "\<not> ?hit r" by (force simp: due toRow_def setProcessing_def)
    with Some l show ?thesis by (simp add: pgLetters_def)
  next
    case None
    with l[of i] show ?thesis by (simp add: pgLetters_def)
  qed
qed

lemma letters_reclaimed:
  assumes "reclaimStalled t n db = (k, db')" and "wfNotificationDb db"
  shows "pgLetters db' i = pgLetters db i \<or>
    (\<exists>a. pgLetters db i = Some (NS_PROCESSING, a) \<and> pgLetters db' i = Some (NS_PENDING, a))"
proof -
  let ?rows = "nd_notifications db" and ?ids = "stalledIds n (dateParse t) (nd_notifications db)"
  note wf = assms(2)[unfolded wfNotificationDb_def]
  have "nd_notifications db' = updateWhere (\<lambda>r. nr_notification_id r \<in> set ?ids) (\<lambda>r. r\<lparr>nr_state := NS_PENDING\<rparr>) ?rows"
    using assms(1) by (auto simp: reclaimStalled_def reclaimRows_def Let_def)
  then have l: "pgLetters db' i = map_option (\<lambda>r. (if nr_notification_id r \<in> set ?ids then NS_PENDING else nr_state r,
      nr_attempts r)) (find (\<lambda>r. nr_notification_id r = i) ?rows)"
    unfolding pgLetters_def
    by (simp add: find_id_updateWhere option.map_comp comp_def if_distrib cong: map_option_cong if_cong)
  show ?thesis
  proof (cases "find (\<lambda>r. nr_notification_id r = i) ?rows")
    case (Some r)
    then have r: "r \<in> set ?rows" "pgLetters db i = Some (nr_state r, nr_attempts r)"
      by (auto simp: pgLetters_def dest: find_SomeD)
    show ?thesis
    proof (cases "nr_notification_id r \<in> set ?ids")
      case True
      from stalled_row(1)[OF wf r(1) this] True r(2) Some l show ?thesis by simp
    qed (use r(2) Some l in simp)
  next
    case None
    with l show ?thesis by (simp add: pgLetters_def)
  qed
qed

interpretation dq: delivery_queue "pgOutbox locked" pgLetters wfNotificationDb
proof (unfold_locales, goal_cases)
  case (1 n t st due st')
  then have c: "claimDue locked n t st = (due, st')" by (simp add: pgOutbox_def)
  have "wfNotificationDb st'" using outbox_step_wf[OF outbox_step.claimed[OF c]] 1(2) by blast
  with letters_claimDue[OF c 1(2)] show ?case by blast
next
  case (2 st i t)
  with outbox_step_wf[OF outbox_step.sent] show ?case
    by (simp add: pgOutbox_def) (simp add: markSent_def letters_settled sentRow_def)
next
  case (3 st i d c t)
  with outbox_step_wf[OF outbox_step.retrying] show ?case
    by (simp add: pgOutbox_def) (simp add: markRetrying_def letters_settled retryingRow_def)
next
  case (4 st i c t)
  with outbox_step_wf[OF outbox_step.dead] show ?case
    by (simp add: pgOutbox_def) (simp add: markDeadLetter_def letters_settled deadRow_def)
next
  case (5 t n st k st')
  then have r: "reclaimStalled t n st = (k, st')" by (simp add: pgOutbox_def)
  have "wfNotificationDb st'" using outbox_step_wf[OF outbox_step.reclaimed[OF r]] 5(2) by blast
  with letters_reclaimed[OF r 5(2)] show ?case by blast
qed

end
