(* ===== verification/Notification_Service.thy ===== *)
theory Notification_Service
  imports Notification_Facts
begin

text \<open>
  Who is notified and what is written: the preferences
  (\<open>infrastructure/database/src/repositories/notification-preferences.ts\<close>), the recipients
  (\<open>notification-recipients.ts\<close>, \<open>apps/api/src/notifications/recipients.ts\<close>), the service
  (\<open>notification-service.ts\<close>) and the operations the domain calls (\<open>conversation-notifier.ts\<close>).
  The random identifiers are the stream \<open>uuid\<close>, whose next index travels with the database. One call
  reads the clock once; the look-ups, which read tables no notification writes, do not fail.
\<close>

section \<open>Preferences\<close>

definition allCategories :: "string option \<Rightarrow> string" where
  "allCategories c = (case c of None \<Rightarrow> ''*'' | Some k \<Rightarrow> k)"

definition optedOutOf :: "UUID \<Rightarrow> string option \<Rightarrow> NotificationDb \<Rightarrow> NotificationChannel list" where
  "optedOutOf who category db =
     (let mine = filter (\<lambda>p. np_principal_id p = who \<and>
            (np_category_id p = None \<or> category \<noteq> None \<and> np_category_id p = category)) (nd_preferences db);
          first = (\<lambda>ch. case find (\<lambda>p. np_channel p = ch \<and> np_category_id p \<noteq> None) mine of
              Some p \<Rightarrow> Some p | None \<Rightarrow> find (\<lambda>p. np_channel p = ch) mine)
      in filter (\<lambda>ch. case first ch of None \<Rightarrow> False | Some p \<Rightarrow> np_opted_out p)
           [CH_INAPP, CH_EMAIL, CH_PUSH, CH_CUSTOMER_CHANNEL])"

definition setPreference ::
  "UUID \<Rightarrow> NotificationChannel \<Rightarrow> string option \<Rightarrow> bool \<Rightarrow> NotificationDb \<Rightarrow> NotificationDb" where
  "setPreference who ch category out db =
     (let same = (\<lambda>p. np_principal_id p = who \<and> np_channel p = ch \<and>
            allCategories (np_category_id p) = allCategories category)
      in db\<lparr>nd_preferences :=
           (if list_ex same (nd_preferences db)
            then updateWhere same (\<lambda>p. p\<lparr>np_opted_out := out\<rparr>) (nd_preferences db)
            else nd_preferences db @
              [\<lparr>np_principal_id = who, np_channel = ch, np_category_id = category, np_opted_out = out\<rparr>])\<rparr>)"

section \<open>Recipients\<close>

definition notifiedOwner :: "UUID \<Rightarrow> NotificationDb \<Rightarrow> UUID option" where
  "notifiedOwner cid db =
     map_option ow_owner_id
       (find (\<lambda>e. ow_conversation_id e = cid \<and> ow_effective_to e = None) (db_ownership_episodes db))"

definition notifiedCustomer :: "UUID \<Rightarrow> Timestamp \<Rightarrow> NotificationDb \<Rightarrow> UUID option" where
  "notifiedCustomer cid t db =
     map_option pa_principal_id
       (find (\<lambda>p. pa_conversation_id p = cid \<and> pa_principal_kind p = K_CUSTOMER \<and>
            isWithinPeriod t (pa_effective_from p) (pa_effective_to p)) (db_participants db))"

definition notifiedTeam :: "UUID \<Rightarrow> NotificationDb \<Rightarrow> string option" where
  "notifiedTeam cid db =
     Option.bind (findConversation cid db) (\<lambda>c. Option.bind (caseOf c db) sc_owning_team_id)"

definition leadsOfTeam :: "string \<Rightarrow> Timestamp \<Rightarrow> NotificationDb \<Rightarrow> UUID list" where
  "leadsOfTeam team t db =
     jsSet (map lg_principal_id (filter (\<lambda>g. lg_role g = ''TEAM_LEAD'' \<and> lg_scope_kind g = ''TEAM'' \<and>
         lg_scope_id g = Some team \<and> isWithinPeriod t (lg_effective_from g) (lg_effective_to g) \<and>
         map_of (nd_principals db) (lg_principal_id g) = Some P_ACTIVE) (nd_role_assignments db)))"

definition leadsFor :: "UUID \<Rightarrow> Timestamp \<Rightarrow> NotificationDb \<Rightarrow> UUID list" where
  "leadsFor cid t db = (case notifiedTeam cid db of None \<Rightarrow> [] | Some team \<Rightarrow> leadsOfTeam team t db)"

definition isAway :: "UUID \<Rightarrow> bool" where "isAway who = False"

section \<open>The service\<close>

record NotifyRequest =
  nq_event :: NotifiableEvent
  nq_recipientId :: UUID
  nq_recipientKind :: PrincipalKind
  nq_targetRef :: "string option"
  nq_payload :: NotificationPayload
  nq_away :: bool
  nq_optedOutOf :: "NotificationChannel list"
  nq_dedupeDiscriminator :: "string option"

record NotifyConfig =
  nf_transports :: "string list"
  nf_dedupeWindowSeconds :: int

type_synonym NotifyState = "nat \<times> NotificationDb"

definition dedupeKey :: "NotifyRequest \<Rightarrow> NotificationChannel \<Rightarrow> Timestamp \<Rightarrow> string" where
  "dedupeKey req ch window =
     channelText ch @ '':'' @
     dedupeKeyFor (nq_recipientId req) (nq_event req) (nq_targetRef req) window @
     (case nq_dedupeDiscriminator req of None \<Rightarrow> [] | Some d \<Rightarrow> '':'' @ d)"

definition recipientContext :: "NotifyRequest \<Rightarrow> RecipientContext" where
  "recipientContext req =
     \<lparr>rc_principalKind = nq_recipientKind req, rc_away = nq_away req, rc_optedOutOf = nq_optedOutOf req\<rparr>"

definition notifiedChannels :: "NotifyConfig \<Rightarrow> NotifyRequest \<Rightarrow> NotificationChannel list" where
  "notifiedChannels cfg req =
     filter (\<lambda>ch. channelText ch \<in> set (nf_transports cfg))
       (channelsFor (nq_event req) (recipientContext req))"

definition inputOf ::
  "UUID \<Rightarrow> NotifyRequest \<Rightarrow> Timestamp \<Rightarrow> Timestamp \<Rightarrow> NotificationChannel \<Rightarrow> NotificationInput" where
  "inputOf i req t window ch =
     \<lparr>ni_notificationId = i, ni_recipientId = nq_recipientId req, ni_recipientKind = nq_recipientKind req,
      ni_channel = channelText ch, ni_event = eventText (nq_event req), ni_targetRef = nq_targetRef req,
      ni_payload = nq_payload req, ni_dedupeKey = Some (dedupeKey req ch window), ni_at = t\<rparr>"

text \<open>The loop over the channels; \<open>None\<close> when a statement raises, which keeps the rows already written.\<close>

fun enqueueEach ::
  "(nat \<Rightarrow> UUID) \<Rightarrow> NotifyRequest \<Rightarrow> Timestamp \<Rightarrow> Timestamp \<Rightarrow> NotificationChannel list \<Rightarrow> NotifyState \<Rightarrow>
   nat option \<times> NotifyState" where
  "enqueueEach uuid req t window [] s = (Some 0, s)"
| "enqueueEach uuid req t window (ch # chs) (k, db) =
     (case enqueueNotification (inputOf (uuid k) req t window ch) db of
        None \<Rightarrow> (None, (k + 1, db))
      | Some (accepted, db1) \<Rightarrow>
          let (written, s1) = enqueueEach uuid req t window chs (k + 1, db1)
          in (map_option (\<lambda>n. if accepted then n + 1 else n) written, s1))"

definition notifyOne ::
  "(nat \<Rightarrow> UUID) \<Rightarrow> NotifyConfig \<Rightarrow> int \<Rightarrow> NotifyRequest \<Rightarrow> NotifyState \<Rightarrow> nat \<times> NotifyState" where
  "notifyOne uuid cfg now req s =
     (if isNeverNotified (eventText (nq_event req)) then (0, s)
      else
        let channels = notifiedChannels cfg req;
            t = toISOString now
        in if channels = [] then (0, s)
           else case enqueueEach uuid req t (windowStartFor t (nf_dedupeWindowSeconds cfg)) channels s of
                  (None, s1) \<Rightarrow> (0, s1)
                | (Some written, s1) \<Rightarrow> (written, s1))"

section \<open>The operations of the domain\<close>

text \<open>One notification of an employee: the event, the recipient, the conversation and the discriminator.\<close>

record Telling =
  tl_event :: NotifiableEvent
  tl_who :: UUID
  tl_target :: "string option"
  tl_payload :: NotificationPayload
  tl_discriminator :: "string option"

definition tellingRequest :: "NotificationDb \<Rightarrow> Telling \<Rightarrow> NotifyRequest" where
  "tellingRequest db one =
     \<lparr>nq_event = tl_event one, nq_recipientId = tl_who one, nq_recipientKind = K_EMPLOYEE,
      nq_targetRef = tl_target one, nq_payload = tl_payload one, nq_away = isAway (tl_who one),
      nq_optedOutOf = optedOutOf (tl_who one) None db, nq_dedupeDiscriminator = tl_discriminator one\<rparr>"

fun tellEach :: "(nat \<Rightarrow> UUID) \<Rightarrow> NotifyConfig \<Rightarrow> int \<Rightarrow> Telling list \<Rightarrow> NotifyState \<Rightarrow> NotifyState" where
  "tellEach uuid cfg now [] s = s"
| "tellEach uuid cfg now (one # rest) s =
     tellEach uuid cfg now rest (snd (notifyOne uuid cfg now (tellingRequest (snd s) one) s))"

definition telling :: "NotifiableEvent \<Rightarrow> UUID \<Rightarrow> UUID \<Rightarrow> string option \<Rightarrow> Telling" where
  "telling ev who cid d =
     \<lparr>tl_event = ev, tl_who = who, tl_target = Some cid, tl_payload = [], tl_discriminator = d\<rparr>"

definition assignedTells :: "UUID \<Rightarrow> UUID \<Rightarrow> Telling list" where
  "assignedTells cid who = [telling NE_CONVERSATION_ASSIGNED who cid None]"

definition transferredTells :: "UUID \<Rightarrow> UUID option \<Rightarrow> UUID \<Rightarrow> Telling list" where
  "transferredTells cid previous next_owner =
     telling NE_TRANSFERRED next_owner cid None #
     (case previous of None \<Rightarrow> []
      | Some p \<Rightarrow> if p \<noteq> next_owner then [telling NE_TRANSFERRED p cid None] else [])"

definition escalatedTells :: "UUID \<Rightarrow> UUID \<Rightarrow> UUID list \<Rightarrow> Telling list" where
  "escalatedTells cid officer leads =
     telling NE_ESCALATED_TO_YOUR_FUNCTION officer cid None #
     map (\<lambda>l. telling NE_ESCALATED_TO_YOUR_FUNCTION l cid None) (filter (\<lambda>l. l \<noteq> officer) leads)"

definition customerRepliedTells :: "UUID \<Rightarrow> UUID option \<Rightarrow> Telling list" where
  "customerRepliedTells cid owner =
     (case owner of None \<Rightarrow> [] | Some who \<Rightarrow> [telling NE_CUSTOMER_REPLIED who cid None])"

datatype SlaStage = STAGE_WARNING | STAGE_BREACH

fun stageText :: "SlaStage \<Rightarrow> string" where
  "stageText STAGE_WARNING = ''WARNING''"
| "stageText STAGE_BREACH = ''BREACH''"

definition waitingTells :: "UUID \<Rightarrow> SlaStage \<Rightarrow> string \<Rightarrow> UUID option \<Rightarrow> UUID list \<Rightarrow> Telling list" where
  "waitingTells cid stage clock owner leads =
     (let d = Some (clock @ '':'' @ stageText stage)
      in (case owner of None \<Rightarrow> [] | Some who \<Rightarrow> [telling NE_WAITING_BEYOND_STANDARD who cid d]) @
         (if stage = STAGE_BREACH
          then map (\<lambda>l. telling NE_WAITING_BEYOND_STANDARD l cid d) (filter (\<lambda>l. Some l \<noteq> owner) leads)
          else []))"

definition roleChangedTells :: "UUID \<Rightarrow> string \<Rightarrow> Telling list" where
  "roleChangedTells who what =
     [\<lparr>tl_event = NE_ROLE_OR_ACCESS_CHANGED, tl_who = who, tl_target = None,
       tl_payload = [(''change'', PText what)], tl_discriminator = Some what\<rparr>]"

definition mentionedTells :: "UUID \<Rightarrow> UUID \<Rightarrow> UUID list \<Rightarrow> Telling list" where
  "mentionedTells cid mid who =
     map (\<lambda>p. \<lparr>tl_event = NE_MENTIONED, tl_who = p, tl_target = Some cid,
        tl_payload = [(''conversationId'', PText cid), (''messageId'', PText mid)],
        tl_discriminator = Some mid\<rparr>) who"

fun messageEventFor :: "ConversationType \<Rightarrow> NotifiableEvent option" where
  "messageEventFor INTERNAL_DIRECT = Some NE_DIRECT_MESSAGE"
| "messageEventFor INTERNAL_GROUP = Some NE_GROUP_MESSAGE"
| "messageEventFor INTERNAL_CHANNEL = Some NE_CHANNEL_MESSAGE"
| "messageEventFor INTERNAL_ANNOUNCEMENT = Some NE_ANNOUNCEMENT_POSTED"
| "messageEventFor _ = None"

definition messageArrivedTells ::
  "UUID \<Rightarrow> ConversationType \<Rightarrow> UUID \<Rightarrow> UUID \<Rightarrow> UUID list \<Rightarrow> UUID list \<Rightarrow> UUID option \<Rightarrow> Telling list" where
  "messageArrivedTells cid ct mid sender participants mentioned repliedTo =
     (let covered = sender # mentioned;
          reply = (case repliedTo of None \<Rightarrow> [] | Some a \<Rightarrow> if a \<in> set covered then [] else [a])
      in map (\<lambda>a. telling NE_REPLIED_TO_YOU a cid (Some mid)) reply @
         (case messageEventFor ct of
            None \<Rightarrow> []
          | Some ordinary \<Rightarrow>
              map (\<lambda>p. telling ordinary p cid (Some mid))
                (filter (\<lambda>p. p \<notin> set (reply @ covered)) participants)))"

definition reactedTells :: "UUID \<Rightarrow> UUID \<Rightarrow> UUID \<Rightarrow> UUID \<Rightarrow> Telling list" where
  "reactedTells cid mid author reactor =
     (if author = reactor then [] else [telling NE_REACTED_TO_YOUR_MESSAGE author cid (Some mid)])"

definition participationTells :: "UUID \<Rightarrow> UUID \<Rightarrow> UUID list \<Rightarrow> UUID list \<Rightarrow> Telling list" where
  "participationTells cid actor added removed =
     map (\<lambda>p. telling NE_ADDED_TO_CONVERSATION p cid None) (filter (\<lambda>p. p \<noteq> actor) added) @
     map (\<lambda>p. telling NE_REMOVED_FROM_CONVERSATION p cid None) (filter (\<lambda>p. p \<noteq> actor) removed)"

text \<open>The customer row of the table, which goes to the customer of the conversation.\<close>

definition resolvedRequest :: "UUID \<Rightarrow> UUID \<Rightarrow> NotifyRequest" where
  "resolvedRequest cid customer =
     \<lparr>nq_event = NE_CUSTOMER_CONVERSATION_ANSWERED, nq_recipientId = customer, nq_recipientKind = K_CUSTOMER,
      nq_targetRef = Some cid, nq_payload = [], nq_away = False, nq_optedOutOf = [],
      nq_dedupeDiscriminator = None\<rparr>"

definition notifyResolved ::
  "(nat \<Rightarrow> UUID) \<Rightarrow> NotifyConfig \<Rightarrow> int \<Rightarrow> UUID \<Rightarrow> NotifyState \<Rightarrow> NotifyState" where
  "notifyResolved uuid cfg now cid s =
     (case notifiedCustomer cid (toISOString now) (snd s) of
        None \<Rightarrow> s
      | Some customer \<Rightarrow> snd (notifyOne uuid cfg now (resolvedRequest cid customer) s))"

definition notifyEscalated ::
  "(nat \<Rightarrow> UUID) \<Rightarrow> NotifyConfig \<Rightarrow> int \<Rightarrow> UUID \<Rightarrow> UUID \<Rightarrow> NotifyState \<Rightarrow> NotifyState" where
  "notifyEscalated uuid cfg now cid officer s =
     tellEach uuid cfg now (escalatedTells cid officer (leadsFor cid (toISOString now) (snd s))) s"

definition notifyWaiting ::
  "(nat \<Rightarrow> UUID) \<Rightarrow> NotifyConfig \<Rightarrow> int \<Rightarrow> UUID \<Rightarrow> SlaStage \<Rightarrow> string \<Rightarrow> NotifyState \<Rightarrow> NotifyState" where
  "notifyWaiting uuid cfg now cid stage clock s =
     tellEach uuid cfg now
       (waitingTells cid stage clock (notifiedOwner cid (snd s)) (leadsFor cid (toISOString now) (snd s))) s"

definition notifyCustomerReplied ::
  "(nat \<Rightarrow> UUID) \<Rightarrow> NotifyConfig \<Rightarrow> int \<Rightarrow> UUID \<Rightarrow> NotifyState \<Rightarrow> NotifyState" where
  "notifyCustomerReplied uuid cfg now cid s =
     tellEach uuid cfg now (customerRepliedTells cid (notifiedOwner cid (snd s))) s"

end
