(* ===== verification/Notification_Props.thy ===== *)
theory Notification_Props
  imports Notification_Sweep Notification_Service
begin

text \<open>The properties of the notifications, with the small table their witnesses run on.\<close>

section \<open>Helper facts\<close>

lemma set_dueIds:
  assumes "length rows \<le> n"
  shows "set (dueIds locked n t rows) =
    nr_notification_id ` {r \<in> set rows. dueAt t r \<and> nr_notification_id r \<notin> set locked}"
proof -
  let ?ids = "map nr_notification_id
    (sort_key nr_next_attempt_at (filter (\<lambda>r. dueAt t r \<and> nr_notification_id r \<notin> set locked) rows))"
  have "length ?ids \<le> n" using assms le_trans[OF length_filter_le] by simp
  then show ?thesis unfolding dueIds_def by simp
qed

lemma set_stalledIds:
  assumes "length rows \<le> n"
  shows "set (stalledIds n t rows) =
    nr_notification_id ` {r \<in> set rows. nr_state r = NS_PROCESSING \<and> nr_next_attempt_at r \<le> t}"
proof -
  let ?ids = "map nr_notification_id
    (sort_key nr_next_attempt_at (filter (\<lambda>r. nr_state r = NS_PROCESSING \<and> nr_next_attempt_at r \<le> t) rows))"
  have "length ?ids \<le> n" using assms le_trans[OF length_filter_le] by simp
  then show ?thesis unfolding stalledIds_def by simp
qed

lemma claimed_rows:
  assumes "claimDue locked n t db = (due, db')" and "length (nd_notifications db) \<le> n"
  shows "qn_notificationId ` set due = set (dueIds locked n (dateParse t) (nd_notifications db))"
    and "nd_notifications db' = updateWhere
      (\<lambda>r. nr_notification_id r \<in> set (dueIds locked n (dateParse t) (nd_notifications db)))
      setProcessing (nd_notifications db)"
proof -
  let ?ids = "dueIds locked n (dateParse t) (nd_notifications db)"
  have d: "due = map toRow (map setProcessing (filter (\<lambda>r. nr_notification_id r \<in> set ?ids) (nd_notifications db)))"
    using assms(1) by (auto simp: claimDue_def claimRows_def Let_def)
  have "set ?ids \<subseteq> nr_notification_id ` set (nd_notifications db)"
    unfolding set_dueIds[OF assms(2)] by auto
  then show "qn_notificationId ` set due = set ?ids"
    unfolding d by (force simp: toRow_def setProcessing_def image_iff)
  show "nd_notifications db' = updateWhere (\<lambda>r. nr_notification_id r \<in> set ?ids) setProcessing (nd_notifications db)"
    using assms(1) by (auto simp: claimDue_def claimRows_def Let_def)
qed

lemma set_updateWhere: "set (updateWhere p f rows) = (\<lambda>r. if p r then f r else r) ` set rows"
  by (auto simp: updateWhere_def)

lemma distinct_map_filter_nth:
  assumes "distinct (List.map_filter g xs)" and "i < length xs" and "j < length xs"
    and "g (xs ! i) = Some k" and "g (xs ! j) = Some k"
  shows "i = j"
  using assms
proof (induction xs arbitrary: i j)
  case (Cons x xs)
  show ?case
  proof (cases i; cases j)
    fix i' j' assume "i = Suc i'" "j = Suc j'"
    with Cons show ?thesis by (auto simp: List.map_filter_simps split: option.splits)
  next
    fix j' assume "i = 0" "j = Suc j'"
    with Cons.prems show ?thesis by (auto simp: List.map_filter_simps set_map_filter dest: nth_mem)
  next
    fix i' assume "i = Suc i'" "j = 0"
    with Cons.prems show ?thesis by (auto simp: List.map_filter_simps set_map_filter dest: nth_mem)
  qed simp
qed simp

text \<open>Every row that was sent is still in its place, as it was sent.\<close>

definition sentRowsStay :: "NotificationRow list \<Rightarrow> NotificationRow list \<Rightarrow> bool" where
  "sentRowsStay rows rows' \<longleftrightarrow>
     (\<forall>i < length rows. nr_state (rows ! i) = NS_SENT \<longrightarrow>
        i < length rows' \<and> nr_state (rows' ! i) = NS_SENT \<and> sameLetter (rows ! i) (rows' ! i) \<and>
        nr_sent_at (rows' ! i) = nr_sent_at (rows ! i) \<and>
        nr_coalesced_count (rows' ! i) = nr_coalesced_count (rows ! i))"

lemma sentRowsStay_trans: "sentRowsStay a b \<Longrightarrow> sentRowsStay b c \<Longrightarrow> sentRowsStay a c"
  unfolding sentRowsStay_def sameLetter_def by simp

lemma extends_sentRowsStay: "extends rows rows' \<Longrightarrow> sentRowsStay rows rows'"
  unfolding sentRowsStay_def using extends_sent by blast

section \<open>The table\<close>

lemma sameLetter_trans: "sameLetter a b \<Longrightarrow> sameLetter b c \<Longrightarrow> sameLetter a c"
  by (simp add: sameLetter_def)

lemma extends_nth:
  assumes "extends rows rows'" and "i < length rows"
  shows "i < length rows' \<and> follows (rows ! i) (rows' ! i)"
proof -
  from assms(1) obtain moved new where r: "rows' = moved @ new" "list_all2 follows rows moved"
    unfolding extends_def by blast
  with assms(2) show ?thesis by (auto simp: nth_append list_all2_lengthD list_all2_nthD)
qed

lemma outbox_run_letters:
  assumes "outbox_step\<^sup>*\<^sup>* db db'" and "wfNotificationDb db"
  shows "length (nd_notifications db) \<le> length (nd_notifications db') \<and>
    (\<forall>i < length (nd_notifications db). sameLetter (nd_notifications db ! i) (nd_notifications db' ! i)) \<and>
    sentRowsStay (nd_notifications db) (nd_notifications db')"
  using assms
proof (induction rule: rtranclp_induct)
  case (step y z)
  have e: "extends (nd_notifications y) (nd_notifications z)"
    by (rule outbox_step_extends[OF step.hyps(2) outbox_run_wf[OF step.hyps(1) step.prems]])
  have "length (nd_notifications y) \<le> length (nd_notifications z)"
    using e by (auto simp: extends_def list_all2_lengthD)
  with step.IH[OF step.prems] extends_nth[OF e] extends_sentRowsStay[OF e] show ?case
    by (auto simp: follows_def intro: sameLetter_trans sentRowsStay_trans)
qed (simp add: sentRowsStay_def sameLetter_def)

text \<open>
  C28: one live row per key, and a letter stays the letter it is. After any sequence of the statements the
  program runs on the outbox, by any number of workers, no two rows share an identifier, or a dedupe key
  while neither is dead-lettered. Every row is where it was, with its recipient, channel, event, target,
  payload and instant of creation, and a row that was sent is still sent, at the same instant. The last
  statement has moved each row along the transitions or not at all: from waiting into process, from process
  anywhere, from dead-lettered only back to waiting, and from sent nowhere.
\<close>

theorem one_live_row_per_key:
  assumes "outbox_step\<^sup>*\<^sup>* db db1" and "outbox_step db1 db2" and "wfNotificationDb db"
  shows "distinct (map nr_notification_id (nd_notifications db2)) \<and>
    (\<forall>i < length (nd_notifications db2). \<forall>j < length (nd_notifications db2).
       nr_dedupe_key (nd_notifications db2 ! i) = nr_dedupe_key (nd_notifications db2 ! j) \<longrightarrow>
       nr_dedupe_key (nd_notifications db2 ! i) \<noteq> None \<longrightarrow>
       nr_state (nd_notifications db2 ! i) \<noteq> NS_DEAD_LETTER \<longrightarrow>
       nr_state (nd_notifications db2 ! j) \<noteq> NS_DEAD_LETTER \<longrightarrow> i = j) \<and>
    (\<forall>i < length (nd_notifications db). i < length (nd_notifications db2) \<and>
       sameLetter (nd_notifications db ! i) (nd_notifications db2 ! i)) \<and>
    sentRowsStay (nd_notifications db) (nd_notifications db2) \<and>
    (\<forall>i < length (nd_notifications db1).
       let before = nr_state (nd_notifications db1 ! i); after = nr_state (nd_notifications db2 ! i)
       in after = before \<or>
          (case before of
             NS_PENDING \<Rightarrow> after = NS_PROCESSING
           | NS_RETRYING \<Rightarrow> after = NS_PROCESSING
           | NS_PROCESSING \<Rightarrow> True
           | NS_SENT \<Rightarrow> False
           | NS_DEAD_LETTER \<Rightarrow> after = NS_PENDING))"
proof -
  let ?rows = "nd_notifications db2"
  have run: "outbox_step\<^sup>*\<^sup>* db db2" using assms(1,2) by (rule rtranclp.rtrancl_into_rtrancl)
  note letters = outbox_run_letters[OF run assms(3)]
  have wf1: "wfNotificationDb db1" by (rule outbox_run_wf[OF assms(1,3)])
  have wf: "wfNotifications ?rows" using outbox_run_wf[OF run assms(3)] by (simp add: wfNotificationDb_def)
  have key: "i = j" if "i < length ?rows" "j < length ?rows" "nr_dedupe_key (?rows ! i) = nr_dedupe_key (?rows ! j)"
    "nr_dedupe_key (?rows ! i) \<noteq> None" "nr_state (?rows ! i) \<noteq> NS_DEAD_LETTER" "nr_state (?rows ! j) \<noteq> NS_DEAD_LETTER" for i j
    using distinct_map_filter_nth[of liveKey ?rows i j] wf that by (auto simp: wfNotifications_def liveKey_def)
  have e: "extends (nd_notifications db1) ?rows" by (rule outbox_step_extends[OF assms(2) wf1])
  have move: "let before = nr_state (nd_notifications db1 ! i); after = nr_state (?rows ! i)
       in after = before \<or>
          (case before of
             NS_PENDING \<Rightarrow> after = NS_PROCESSING
           | NS_RETRYING \<Rightarrow> after = NS_PROCESSING
           | NS_PROCESSING \<Rightarrow> True
           | NS_SENT \<Rightarrow> False
           | NS_DEAD_LETTER \<Rightarrow> after = NS_PENDING)" if "i < length (nd_notifications db1)" for i
    using extends_nth[OF e that]
    by (cases "nr_state (nd_notifications db1 ! i)") (auto simp: follows_def Let_def)
  show ?thesis
    by (intro conjI) (use wf letters key move in \<open>auto simp: wfNotifications_def\<close>)
qed

text \<open>
  C35: a sweep settles what it claims, by what the transports answer. Each row the worker claimed was waiting
  and has been handed to the transport of its channel once, in order. With one more attempt counted it is
  afterwards sent if the transport delivered it; dead-lettered if the failure was permanent, or passing with
  the attempts used up; and waiting for a retry otherwise, or if its channel has no transport. The numbers
  reported are the numbers of the claimed and of the delivered rows, and of the other rows at most some
  abandoned ones have returned to waiting.
\<close>

theorem sweep_settles_what_it_claims:
  assumes "runDelivery (pgOutbox locked) deps jitter now (db, w) = (out, db', w')"
    and "wfNotificationDb db"
  shows "\<exists>due answers L.
     transportAnswers deps due w = (answers, w') \<and> length answers = length due \<and>
     so_examined out = length due \<and>
     so_acted out = length (filter (\<lambda>a. a = Some (Inr DV_DELIVERED)) answers) \<and>
     (\<forall>i. L i = pgLetters db i \<or> (\<exists>a. pgLetters db i = Some (NS_PROCESSING, a) \<and> L i = Some (NS_PENDING, a))) \<and>
     (\<forall>q \<in> set due. \<exists>s. s \<in> {NS_PENDING, NS_RETRYING} \<and> L (qn_notificationId q) = Some (s, qn_attempts q)) \<and>
     list_all2 (\<lambda>q a. pgLetters db' (qn_notificationId q) =
       Some (case a of
           Some (Inr DV_DELIVERED) \<Rightarrow> NS_SENT
         | Some (Inr DV_PERMANENT_FAILURE) \<Rightarrow> NS_DEAD_LETTER
         | Some (Inr DV_RETRYABLE) \<Rightarrow>
             if qn_attempts q + 1 < rp_maxAttempts (ns_policy deps) then NS_RETRYING else NS_DEAD_LETTER
         | Some (Inl e) \<Rightarrow>
             if er_retryable e \<and> qn_attempts q + 1 < rp_maxAttempts (ns_policy deps) then NS_RETRYING else NS_DEAD_LETTER
         | None \<Rightarrow> NS_RETRYING, qn_attempts q + 1)) due answers \<and>
     (\<forall>i. i \<notin> qn_notificationId ` set due \<longrightarrow> pgLetters db' i = L i)"
proof -
  have "answeredState p n a = (case a of
           Some (Inr DV_DELIVERED) \<Rightarrow> NS_SENT
         | Some (Inr DV_PERMANENT_FAILURE) \<Rightarrow> NS_DEAD_LETTER
         | Some (Inr DV_RETRYABLE) \<Rightarrow> if n + 1 < rp_maxAttempts p then NS_RETRYING else NS_DEAD_LETTER
         | Some (Inl e) \<Rightarrow> if er_retryable e \<and> n + 1 < rp_maxAttempts p then NS_RETRYING else NS_DEAD_LETTER
         | None \<Rightarrow> NS_RETRYING)" for p n a
    by (auto split: option.split sum.split DeliveryVerdict.split)
  from dq.run_law[OF assms, unfolded this] show ?thesis by blast
qed

section \<open>Two workers\<close>

text \<open>
  C36: an overdue row is delivered by two workers at once. A worker recovers the rows another one seems to
  have abandoned by the time at which they were due, not by the time at which they were claimed. So a
  row that became due longer ago than that horizon, which is every row of a backlog, is claimed by one
  worker and, before that one has settled it, recovered and claimed again by the next.
\<close>

theorem overdue_row_is_claimed_twice:
  assumes "wfNotificationDb db" and "r \<in> set (nd_notifications db)"
    and "nr_state r \<in> {NS_PENDING, NS_RETRYING}"
    and "nr_next_attempt_at r \<le> dateParse horizon" and "dateParse horizon \<le> dateParse t"
    and "length (nd_notifications db) \<le> n"
    and "claimDue [] n t db = (dueA, db1)"
    and "reclaimStalled horizon n db1 = (k, db2)"
    and "claimDue [] n t db2 = (dueB, db3)"
  shows "nr_notification_id r \<in> qn_notificationId ` set dueA \<inter> qn_notificationId ` set dueB"
proof -
  let ?rows = "nd_notifications db"
  have due: "dueAt (dateParse t) r" using assms(3-5) by (auto simp: dueAt_def)
  note A = claimed_rows[OF assms(7,6)]
  have inA: "nr_notification_id r \<in> set (dueIds [] n (dateParse t) ?rows)"
    unfolding set_dueIds[OF assms(6)] using assms(2) due by auto
  have l1: "length (nd_notifications db1) \<le> n" using A(2) assms(6) by (simp add: updateWhere_def)
  have r1: "setProcessing r \<in> set (nd_notifications db1)"
    unfolding A(2) set_updateWhere using assms(2) inA by force
  have rows2: "nd_notifications db2 = updateWhere (\<lambda>x. nr_notification_id x \<in>
      set (stalledIds n (dateParse horizon) (nd_notifications db1))) (\<lambda>x. x\<lparr>nr_state := NS_PENDING\<rparr>)
      (nd_notifications db1)"
    using assms(8) by (auto simp: reclaimStalled_def reclaimRows_def Let_def)
  have "nr_notification_id (setProcessing r) \<in> set (stalledIds n (dateParse horizon) (nd_notifications db1))"
    unfolding set_stalledIds[OF l1] using r1 assms(4)
    by (intro image_eqI[of _ _ "setProcessing r"]) (simp_all add: setProcessing_def)
  then have r2: "setProcessing r\<lparr>nr_state := NS_PENDING\<rparr> \<in> set (nd_notifications db2)"
    unfolding rows2 set_updateWhere using r1 by (intro image_eqI[of _ _ "setProcessing r"]) simp_all
  have l2: "length (nd_notifications db2) \<le> n" using rows2 l1 by (simp add: updateWhere_def)
  note B = claimed_rows[OF assms(9) l2]
  have "nr_notification_id r \<in> set (dueIds [] n (dateParse t) (nd_notifications db2))"
    unfolding set_dueIds[OF l2] using r2 due
    by (intro image_eqI[of _ _ "setProcessing r\<lparr>nr_state := NS_PENDING\<rparr>"]) (simp_all add: dueAt_def setProcessing_def)
  with A(1) B(1) inA show ?thesis by blast
qed

section \<open>Retries\<close>

lemma single_due:
  assumes "nd_notifications db = [r]" and "0 < n"
    and "nr_state r \<in> {NS_PENDING, NS_RETRYING}" and "nr_next_attempt_at r \<le> dateParse t"
  shows "claimDue [] n t db = ([toRow (setProcessing r)], db\<lparr>nd_notifications := [setProcessing r]\<rparr>)"
proof -
  have "dueIds [] n (dateParse t) [r] = [nr_notification_id r]"
    using assms by (cases n) (auto simp: dueIds_def dueAt_def)
  then show ?thesis by (simp add: claimDue_def claimRows_def assms(1) updateWhere_def)
qed

lemma single_not_stalled:
  assumes "nd_notifications db = [r]" and "nr_state r \<noteq> NS_PROCESSING"
  shows "reclaimStalled t n db = (0, db)"
proof -
  have "stalledIds n (dateParse t) [r] = []" using assms(2) by (simp add: stalledIds_def)
  then show ?thesis by (simp add: reclaimStalled_def reclaimRows_def assms(1) updateWhere_def)
qed

text \<open>One sweep over a table of one waiting row.\<close>

lemma run_single:
  assumes "nd_notifications db = [r]" and "0 < ns_batchSize deps"
    and "nr_state r \<in> {NS_PENDING, NS_RETRYING}" and "nr_next_attempt_at r \<le> now"
    and "inEra (now div msPerDay)"
  shows "runDelivery (pgOutbox []) deps jitter now (db, w) =
    (case deliverOne (pgOutbox []) deps jitter (toISOString now) (toRow (setProcessing r))
        (db\<lparr>nd_notifications := [setProcessing r]\<rparr>, w) of
       (acted, db1, w1) \<Rightarrow> (\<lparr>so_examined = 1, so_acted = (if acted then 1 else 0)\<rparr>, db1, w1))"
proof -
  have s: "nr_state r \<noteq> NS_PROCESSING" using assms(3) by auto
  have t: "dateParse (toISOString now) = now" by (rule dateParse_toISOString[OF assms(5)])
  show ?thesis
    using single_not_stalled[OF assms(1) s] single_due[OF assms(1,2,3), of "toISOString now"] assms(4) t
    by (simp add: runDelivery_def Let_def pgOutbox_def split: prod.splits)
qed

fun sweepRuns ::
  "'w NotificationSweepDeps \<Rightarrow> (UUID \<Rightarrow> rat) \<Rightarrow> int list \<Rightarrow> NotificationDb \<times> 'w \<Rightarrow> NotificationDb \<times> 'w" where
  "sweepRuns deps jitter [] s = s"
| "sweepRuns deps jitter (now # ts) s =
     sweepRuns deps jitter ts (snd (runDelivery (pgOutbox []) deps jitter now s))"

text \<open>Sweeps each of which runs when the row is due again, a quarter of an hour after the last.\<close>

fun quarterHours :: "int \<Rightarrow> int list \<Rightarrow> bool" where
  "quarterHours due [] \<longleftrightarrow> True"
| "quarterHours due (now # ts) \<longleftrightarrow> due \<le> now \<and> inEra (now div msPerDay) \<and> quarterHours (now + 900000) ts"

lemma run_without_transport:
  assumes "nd_notifications db = [r]" and "0 < ns_batchSize deps"
    and "nr_state r \<in> {NS_PENDING, NS_RETRYING}" and "nr_next_attempt_at r \<le> now"
    and "inEra (now div msPerDay)" and "ns_transports deps (nr_channel r) = None"
  shows "snd (runDelivery (pgOutbox []) deps jitter now (db, w)) =
    (db\<lparr>nd_notifications := [retryingRow 900000 ''NO_TRANSPORT'' now (setProcessing r)]\<rparr>, w)"
  unfolding run_single[OF assms(1-5)]
  using assms(6) dateParse_toISOString[OF assms(5)]
  by (simp add: deliverOne_def toRow_def setProcessing_def pgOutbox_def
      markRetrying_def settleRows_def updateWhere_def)

lemma waiting_counts_attempts:
  assumes "nd_notifications db = [r]" and "0 < ns_batchSize deps"
    and "nr_state r \<in> {NS_PENDING, NS_RETRYING}" and "quarterHours (nr_next_attempt_at r) (ts @ [u])"
    and "ns_transports deps (nr_channel r) = None"
  shows "\<exists>r'. fst (sweepRuns deps jitter ts (db, w)) = db\<lparr>nd_notifications := [r']\<rparr> \<and>
    snd (sweepRuns deps jitter ts (db, w)) = w \<and> sameLetter r r' \<and>
    nr_state r' \<in> {NS_PENDING, NS_RETRYING} \<and> nr_attempts r' = nr_attempts r + length ts \<and>
    nr_next_attempt_at r' \<le> u \<and> inEra (u div msPerDay)"
  using assms
proof (induction ts arbitrary: db r)
  case Nil
  then show ?case by (intro exI[of _ r]) (auto simp: sameLetter_def)
next
  case (Cons now ts)
  let ?r = "retryingRow 900000 ''NO_TRANSPORT'' now (setProcessing r)"
  let ?db = "db\<lparr>nd_notifications := [?r]\<rparr>"
  have run: "snd (runDelivery (pgOutbox []) deps jitter now (db, w)) = (?db, w)"
    by (rule run_without_transport) (use Cons.prems in auto)
  have "\<exists>r'. fst (sweepRuns deps jitter ts (?db, w)) = ?db\<lparr>nd_notifications := [r']\<rparr> \<and>
    snd (sweepRuns deps jitter ts (?db, w)) = w \<and> sameLetter ?r r' \<and>
    nr_state r' \<in> {NS_PENDING, NS_RETRYING} \<and> nr_attempts r' = nr_attempts ?r + length ts \<and>
    nr_next_attempt_at r' \<le> u \<and> inEra (u div msPerDay)"
    by (rule Cons.IH) (use Cons.prems in \<open>auto simp: retryingRow_def setProcessing_def\<close>)
  with run show ?case by (auto simp: sameLetter_def retryingRow_def setProcessing_def)
qed

text \<open>
  waiting for a transport spends the retry budget. A row for a channel nobody has built yet is put
  back without being dead-lettered, so that it can drain once the transport lands; but every such turn
  counts as an attempt. Once as many sweeps have passed as the budget has attempts, the first transient
  failure of the new transport dead-letters the row, though it was tried only once.
\<close>

theorem waiting_spends_the_retry_budget:
  assumes "nd_notifications db = [r]" and "nr_state r = NS_PENDING" and "nr_attempts r = 0"
    and "0 < ns_batchSize before" and "ns_transports before (nr_channel r) = None"
    and "quarterHours (nr_next_attempt_at r) (ts @ [u])"
    and "0 < ns_batchSize after" and "ns_transports after (nr_channel r) = Some transport"
    and "\<And>m i w. transport m i w = (Inr DV_RETRYABLE, touched w)"
    and "rp_maxAttempts (ns_policy after) \<le> length ts + 1"
  shows "\<exists>r'. nd_notifications (fst (sweepRuns after jitter [u] (sweepRuns before jitter ts (db, w)))) = [r'] \<and>
    sameLetter r r' \<and> nr_state r' = NS_DEAD_LETTER \<and>
    nr_last_error_code r' = Some ''RETRIES_EXHAUSTED:RETRYABLE'' \<and>
    snd (sweepRuns after jitter [u] (sweepRuns before jitter ts (db, w))) = touched w"
proof -
  from waiting_counts_attempts[OF assms(1,4) _ assms(6,5), of jitter w] assms(2,3)
  obtain r1 where r1: "sweepRuns before jitter ts (db, w) = (db\<lparr>nd_notifications := [r1]\<rparr>, w)"
      "sameLetter r r1" "nr_state r1 \<in> {NS_PENDING, NS_RETRYING}" "nr_attempts r1 = length ts"
      "nr_next_attempt_at r1 \<le> u" "inEra (u div msPerDay)"
    by (metis add_0 insertI1 prod.collapse)
  let ?db = "db\<lparr>nd_notifications := [r1]\<rparr>"
  have ch: "nr_channel r1 = nr_channel r" using r1(2) by (simp add: sameLetter_def)
  have d: "deliverOne (pgOutbox []) after jitter (toISOString u) (toRow (setProcessing r1))
      (?db\<lparr>nd_notifications := [setProcessing r1]\<rparr>, w) =
    (False, ?db\<lparr>nd_notifications := [deadRow ''RETRIES_EXHAUSTED:RETRYABLE'' (setProcessing r1)]\<rparr>, touched w)"
    using assms(8-10) r1(4)
    by (simp add: deliverOne_def toRow_def setProcessing_def ch afterAttempt_def settleDelivery_def
        pgOutbox_def markDeadLetter_def settleRows_def updateWhere_def)
  have "nd_notifications ?db = [r1]" by simp
  from run_single[OF this assms(7) r1(3,5,6), of jitter w] d r1(1,2)
  show ?thesis by (simp add: deadRow_def setProcessing_def sameLetter_def)
qed

section \<open>The service\<close>

lemma list_ex_updateWhere_keep:
  "list_ex P rows \<Longrightarrow> (\<And>r. P r \<Longrightarrow> P (f r)) \<Longrightarrow> list_ex P (updateWhere p f rows)"
  by (induction rows) (auto simp: updateWhere_def)

lemma upsert_keeps_key:
  "upsertRow inp rows = Some (b, rows') \<Longrightarrow> list_ex (holdsKey key) rows \<Longrightarrow> list_ex (holdsKey key) rows'"
  by (auto simp: upsertRow_def holdsKey_def intro!: list_ex_updateWhere_keep split: if_splits)

lemma upsert_leaves_key:
  assumes "upsertRow inp rows = Some (b, rows')" and "ni_dedupeKey inp \<noteq> None"
  shows "list_ex (holdsKey (ni_dedupeKey inp)) rows'"
proof (cases "list_ex (holdsKey (ni_dedupeKey inp)) rows")
  case True
  then show ?thesis by (rule upsert_keeps_key[OF assms(1)])
next
  case False
  with assms show ?thesis by (auto simp: upsertRow_def pendingRow_def holdsKey_def split: if_splits)
qed

lemma upsert_length:
  "upsertRow inp rows = Some (b, rows') \<Longrightarrow> length rows' = length rows + (if b then 1 else 0)"
  by (auto simp: upsertRow_def updateWhere_def split: if_splits)

lemma enqueue_succeeds:
  assumes "upsertRow inp (nd_notifications db) \<noteq> None"
  shows "\<exists>b db'. enqueueNotification inp db = Some (b, db')"
proof -
  from assms obtain b rows where u: "upsertRow inp (nd_notifications db) = Some (b, rows)" by auto
  have "publishable (ob_payload (createdHint inp))" by (simp add: createdHint_def publishable_def)
  with u show ?thesis by (cases b) (auto simp: enqueueNotification_def Let_def appendOutboxIn_def appendOutbox_def)
qed

lemma enqueueEach_keeps_key:
  "list_ex (holdsKey key) (nd_notifications db) \<Longrightarrow>
   enqueueEach uuid req t window chs (k, db) = (n, (k', db')) \<Longrightarrow>
   list_ex (holdsKey key) (nd_notifications db')"
proof (induction chs arbitrary: k db n)
  case (Cons ch chs)
  show ?case
  proof (cases "enqueueNotification (inputOf (uuid k) req t window ch) db")
    case None
    with Cons.prems show ?thesis by simp
  next
    case (Some r)
    obtain b db1 where r: "r = (b, db1)" by (cases r)
    with Some enqueue_rows Cons.prems(1) have "list_ex (holdsKey key) (nd_notifications db1)"
      by (blast intro: upsert_keeps_key)
    with Cons.prems(2) Some r Cons.IH show ?thesis by (auto split: prod.splits)
  qed
qed simp

lemma enqueueEach_count:
  "enqueueEach uuid req t window chs (k, db) = (Some n, (k', db')) \<Longrightarrow>
   n \<le> length chs \<and> length (nd_notifications db') = length (nd_notifications db) + n"
proof (induction chs arbitrary: k db n)
  case (Cons ch chs)
  from Cons.prems obtain b db1 m where e: "enqueueNotification (inputOf (uuid k) req t window ch) db = Some (b, db1)"
    and r: "enqueueEach uuid req t window chs (k + 1, db1) = (Some m, (k', db'))"
    and n: "n = (if b then m + 1 else m)"
    by (auto split: option.splits prod.splits)
  have "length (nd_notifications db1) = length (nd_notifications db) + (if b then 1 else 0)"
    by (rule upsert_length[OF enqueue_rows[OF e]])
  with Cons.IH[OF r] n show ?case by auto
qed simp

definition inAppKey :: "NotifyConfig \<Rightarrow> int \<Rightarrow> NotifyRequest \<Rightarrow> string option" where
  "inAppKey cfg now req =
     Some (dedupeKey req CH_INAPP (windowStartFor (toISOString now) (nf_dedupeWindowSeconds cfg)))"

text \<open>
  in-app is no preference, and a customer is never notified. Whatever an employee has opted out of,
  once the service has been asked to tell them something the table holds a live in-app row for that
  recipient, event and target in the current window; the rows written are never more than the channels;
  and a request about a customer writes nothing at all.
\<close>

theorem in_app_reaches_every_employee:
  assumes "nq_event req \<noteq> NE_CUSTOMER_CONVERSATION_ANSWERED"
    and "''INAPP'' \<in> set (nf_transports cfg)"
    and "find (\<lambda>r. nr_notification_id r = uuid k) (nd_notifications db) = None"
    and "notifyOne uuid cfg now req (k, db) = (written, (k', db'))"
  shows "if nq_recipientKind req = K_CUSTOMER then written = 0 \<and> db' = db
    else list_ex (holdsKey (inAppKey cfg now req)) (nd_notifications db') \<and>
      written \<le> length (channelsFor (nq_event req) (recipientContext req))"
proof (cases "nq_recipientKind req = K_CUSTOMER")
  case True
  then have "notifiedChannels cfg req = []" by (simp add: notifiedChannels_def recipientContext_def)
  with True assms(4) show ?thesis by (simp add: notifyOne_def)
next
  case False
  let ?t = "toISOString now" let ?w = "windowStartFor ?t (nf_dedupeWindowSeconds cfg)"
  have "rc_principalKind (recipientContext req) \<noteq> K_CUSTOMER" using False by (simp add: recipientContext_def)
  with assms(1) obtain chs where chs: "channelsFor (nq_event req) (recipientContext req) = CH_INAPP # chs"
    by (cases "nq_event req") (auto simp: channelsFor_def ruleOf_def NOTIFICATION_RULES_def notificationRule_def)
  let ?rest = "filter (\<lambda>ch. channelText ch \<in> set (nf_transports cfg)) chs"
  have ch: "notifiedChannels cfg req = CH_INAPP # ?rest"
    using chs assms(2) by (simp add: notifiedChannels_def)
  let ?inp = "inputOf (uuid k) req ?t ?w CH_INAPP"
  have "upsertRow ?inp (nd_notifications db) \<noteq> None"
    using assms(3) by (auto simp: upsertRow_def inputOf_def list_ex_iff find_None_iff)
  then obtain b db1 where e: "enqueueNotification ?inp db = Some (b, db1)"
    using enqueue_succeeds by blast
  have key: "ni_dedupeKey ?inp = inAppKey cfg now req" by (simp add: inputOf_def inAppKey_def)
  have held: "list_ex (holdsKey (inAppKey cfg now req)) (nd_notifications db1)"
    using upsert_leaves_key[OF enqueue_rows[OF e]] key by (simp add: inAppKey_def)
  obtain n where n: "enqueueEach uuid req ?t ?w ?rest (k + 1, db1) = (n, (k', db'))"
    using assms(4) ch e
    by (auto simp: notifyOne_def Let_def split: option.splits prod.splits)
  have all: "enqueueEach uuid req ?t ?w (CH_INAPP # ?rest) (k, db) =
      (map_option (\<lambda>m. if b then m + 1 else m) n, (k', db'))"
    using e n by simp
  have "written \<le> length (CH_INAPP # ?rest)"
    using assms(4) ch all enqueueEach_count[of uuid req ?t ?w "CH_INAPP # ?rest" k db written k' db']
    by (auto simp: notifyOne_def Let_def simp del: enqueueEach.simps split: option.splits prod.splits)
  also have "\<dots> \<le> length (channelsFor (nq_event req) (recipientContext req))" using chs by simp
  finally show ?thesis using False enqueueEach_keeps_key[OF held n] by simp
qed

section \<open>One message\<close>

text \<open>
  one notification per person per message. What a message raises, the mentions and the arrival
  together, names every person once and never the sender; and in an internal conversation every other
  participant is named.
\<close>

theorem one_notification_per_person:
  assumes "distinct participants" and "distinct mentioned" and "sender \<notin> set mentioned"
  shows "let told = map tl_who (mentionedTells cid mid mentioned @
        messageArrivedTells cid ct mid sender participants mentioned repliedTo)
    in distinct told \<and> sender \<notin> set told \<and>
       (if messageEventFor ct = None then set told \<subseteq> set mentioned \<union> set_option repliedTo
        else set participants - {sender} \<subseteq> set told)"
proof -
  let ?reply = "case repliedTo of None \<Rightarrow> [] | Some a \<Rightarrow> if a \<in> set (sender # mentioned) then [] else [a]"
  have m: "map tl_who (mentionedTells cid mid mentioned) = mentioned"
    by (simp add: mentionedTells_def comp_def)
  have a: "map tl_who (messageArrivedTells cid ct mid sender participants mentioned repliedTo) =
      ?reply @ (if messageEventFor ct = None then []
        else filter (\<lambda>p. p \<notin> set (?reply @ sender # mentioned)) participants)"
    by (simp add: messageArrivedTells_def telling_def Let_def comp_def split: option.split)
  have "distinct ?reply" "set ?reply \<inter> set (sender # mentioned) = {}" "set ?reply \<subseteq> set_option repliedTo"
    by (auto split: option.splits)
  with assms show ?thesis unfolding Let_def map_append m a by auto
qed

section \<open>Quiet hours\<close>

text \<open>
  the quiet window is a circular interval. For two well-formed times the device is quiet exactly when
  the minutes since the start of the window, counted round the clock, are fewer than the length of the
  window, whether or not it crosses midnight; a window of length zero is never quiet, and neither is one
  whose times or zone cannot be read.
\<close>

theorem quiet_window_is_a_circular_interval:
  assumes "clock zone t = Some (hour, minute)" and "minute < 60"
  shows "inQuietWindow clock (Some \<lparr>qw_from = from_time, qw_to = to_time, qw_timeZone = zone\<rparr>) t \<longleftrightarrow>
    (case (minutesOfTime from_time, minutesOfTime to_time) of
       (Some a, Some b) \<Rightarrow> (hour mod 24 * 60 + minute + 1440 - a) mod 1440 < (b + 1440 - a) mod 1440
     | _ \<Rightarrow> False)"
proof (cases "minutesOfTime from_time")
  case a: (Some a)
  show ?thesis
  proof (cases "minutesOfTime to_time")
    case b: (Some b)
    have now: "hour mod 24 * 60 + minute < 1440"
    proof -
      have "hour mod 24 \<le> 23" by simp
      then have "hour mod 24 * 60 \<le> 23 * 60" by (rule mult_le_mono1)
      with assms(2) show ?thesis by simp
    qed
    show ?thesis
    proof (cases "a = b")
      case True
      then have "\<not> x < (b + 1440 - a) mod 1440" for x by simp
      with a b True show ?thesis by (simp add: inQuietWindow_def)
    next
      case False
      from circular_interval[OF minutesOfTime_bound[OF a] minutesOfTime_bound[OF b] now False] a b False assms(1)
      show ?thesis by (simp add: inQuietWindow_def localMinutes_def)
    qed
  qed (simp add: inQuietWindow_def a)
qed (simp add: inQuietWindow_def)

text \<open>The properties at work on a small table.\<close>

definition noteDb :: "NotificationRow list \<Rightarrow> NotificationDb" where
  "noteDb rows =
     \<lparr>db_conversations = [], db_service_cases = [], db_teams = [], db_departments = [],
      db_team_memberships = [], db_participants = [], db_channels = [], db_channel_audience = [],
      db_messages = [], db_revisions = [], db_attachments = [], db_episodes = [], db_outbox = [],
      db_queue_entries = [], db_ownership_episodes = [], db_access_grants = [], db_reservations = [],
      db_capacity_policies = [], db_idempotency_records = [], db_ledger = [],
      nd_notifications = rows, nd_preferences = [], nd_role_assignments = [], nd_principals = []\<rparr>"

text \<open>The first of January 1970, in milliseconds: noon is 43200000.\<close>

definition waitingNote :: NotificationRow where
  "waitingNote =
     \<lparr>nr_notification_id = ''n1'', nr_recipient_id = ''emp-7'', nr_recipient_kind = K_EMPLOYEE,
      nr_channel = ''PUSH'', nr_event_name = ''DIRECT_MESSAGE'', nr_target_ref = Some ''c1'', nr_payload = [],
      nr_state = NS_PENDING, nr_attempts = 0, nr_next_attempt_at = 42000000, nr_last_error_code = None,
      nr_dedupe_key = Some ''k1'', nr_coalesced_count = 0, nr_created_at = 42000000, nr_sent_at = None,
      nr_read_at = None\<rparr>"

definition sentNote :: NotificationRow where
  "sentNote = waitingNote\<lparr>nr_notification_id := ''n2'', nr_state := NS_SENT, nr_attempts := 1,
     nr_dedupe_key := Some ''k2'', nr_sent_at := Some 41000000\<rparr>"

abbreviation noon :: Timestamp where "noon \<equiv> toISOString 43200000"

definition twoNotes :: NotificationDb where "twoNotes = noteDb [sentNote, waitingNote]"

lemma noon_parses: "dateParse noon = 43200000"
  by (rule dateParse_toISOString) code_simp

lemma twoNotes_wf: "wfNotificationDb twoNotes" by code_simp

theorem one_live_row_per_key_witness:
  "distinct (map nr_notification_id (nd_notifications (markSent ''n1'' noon (snd (claimDue [] 5 noon twoNotes))))) \<and>
   sentRowsStay [sentNote, waitingNote]
     (nd_notifications (markSent ''n1'' noon (snd (claimDue [] 5 noon twoNotes))))"
proof -
  have "outbox_step twoNotes (snd (claimDue [] 5 noon twoNotes))"
    by (rule outbox_step.claimed) (rule prod.collapse[symmetric])
  then have "outbox_step\<^sup>*\<^sup>* twoNotes (snd (claimDue [] 5 noon twoNotes))" by (rule r_into_rtranclp)
  from one_live_row_per_key[OF this outbox_step.sent twoNotes_wf] show ?thesis
    by (simp only: twoNotes_def noteDb_def NotificationDb.simps Db.simps)
qed

definition sampleDeps :: "DeliveryVerdict \<Rightarrow> nat NotificationSweepDeps" where
  "sampleDeps verdict =
     \<lparr>ns_transports = (\<lambda>ch. if ch = ''PUSH'' then Some (\<lambda>m i w. (Inr verdict, w + 1)) else None),
      ns_render = (\<lambda>q. renderNotification (renderableOf q) ''https://star.link''),
      ns_policy = \<lparr>rp_maxAttempts = 2\<rparr>, ns_batchSize = 5, ns_stalledAfterSeconds = 300\<rparr>"

definition sampleSweep :: "SweepOutcome \<times> NotificationDb \<times> nat" where
  "sampleSweep = runDelivery (pgOutbox []) (sampleDeps DV_DELIVERED) (\<lambda>i. 0) 43200000 (twoNotes, 0)"

lemma sampleSweep_acted: "so_acted (fst sampleSweep) = 1"
  by code_simp

theorem sweep_settles_what_it_claims_witness:
  "so_acted (fst sampleSweep) = 1 \<and>
   (\<exists>due answers. transportAnswers (sampleDeps DV_DELIVERED) due 0 = (answers, snd (snd sampleSweep)) \<and>
      so_examined (fst sampleSweep) = length due \<and>
      1 = length (filter (\<lambda>a. a = Some (Inr DV_DELIVERED)) answers))"
proof -
  obtain out db' w' where r: "sampleSweep = (out, db', w')" by (cases sampleSweep)
  have a: "so_acted out = 1" using r by (metis fst_conv sampleSweep_acted)
  from sweep_settles_what_it_claims[OF r[unfolded sampleSweep_def] twoNotes_wf] obtain due answers
    where "transportAnswers (sampleDeps DV_DELIVERED) due 0 = (answers, w')" "so_examined out = length due"
      "so_acted out = length (filter (\<lambda>a. a = Some (Inr DV_DELIVERED)) answers)"
    by blast
  with a show ?thesis unfolding r fst_conv snd_conv by metis
qed

theorem overdue_row_is_claimed_twice_witness:
  "''n1'' \<in> qn_notificationId ` set (fst (claimDue [] 5 noon twoNotes)) \<inter>
     qn_notificationId ` set (fst (claimDue [] 5 noon
       (snd (reclaimStalled (toISOString 42900000) 5 (snd (claimDue [] 5 noon twoNotes))))))"
proof -
  let ?h = "toISOString 42900000"
  have h: "dateParse ?h = 42900000" by (rule dateParse_toISOString) code_simp
  obtain dueA db1 where a: "claimDue [] 5 noon twoNotes = (dueA, db1)" by fastforce
  obtain k db2 where b: "reclaimStalled ?h 5 db1 = (k, db2)" by fastforce
  obtain dueB db3 where c: "claimDue [] 5 noon db2 = (dueB, db3)" by fastforce
  have "waitingNote \<in> set (nd_notifications twoNotes)" "nr_state waitingNote \<in> {NS_PENDING, NS_RETRYING}"
    "nr_next_attempt_at waitingNote \<le> dateParse ?h" "dateParse ?h \<le> dateParse noon"
    "length (nd_notifications twoNotes) \<le> 5"
    by (simp_all add: twoNotes_def noteDb_def waitingNote_def h noon_parses)
  from overdue_row_is_claimed_twice[OF twoNotes_wf this a b c] show ?thesis
    by (simp add: a b c waitingNote_def)
qed

definition noTransport :: "nat NotificationSweepDeps" where
  "noTransport = (sampleDeps DV_RETRYABLE)\<lparr>ns_transports := (\<lambda>ch. None)\<rparr>"

theorem waiting_spends_the_retry_budget_witness:
  "\<exists>r'. nd_notifications (fst (sweepRuns (sampleDeps DV_RETRYABLE) (\<lambda>i. 0) [45000000]
       (sweepRuns noTransport (\<lambda>i. 0) [43200000] (noteDb [waitingNote], 0)))) = [r'] \<and>
     nr_state r' = NS_DEAD_LETTER \<and>
     snd (sweepRuns (sampleDeps DV_RETRYABLE) (\<lambda>i. 0) [45000000]
       (sweepRuns noTransport (\<lambda>i. 0) [43200000] (noteDb [waitingNote], 0))) = 1"
proof -
  have e: "inEra (43200000 div msPerDay)" "inEra (45000000 div msPerDay)" by code_simp+
  then have q: "quarterHours (nr_next_attempt_at waitingNote) ([43200000] @ [45000000])"
    by (simp add: waitingNote_def)
  have "ns_transports (sampleDeps DV_RETRYABLE) (nr_channel waitingNote) = Some (\<lambda>m i w. (Inr DV_RETRYABLE, w + 1))"
    by (simp add: sampleDeps_def waitingNote_def)
  from waiting_spends_the_retry_budget[OF _ _ _ _ _ q _ this, of "noteDb [waitingNote]" noTransport "\<lambda>w. w + 1" "\<lambda>i. 0" 0]
  show ?thesis by (auto simp: noteDb_def waitingNote_def noTransport_def sampleDeps_def)
qed

definition sampleRequest :: NotifyRequest where
  "sampleRequest =
     \<lparr>nq_event = NE_DIRECT_MESSAGE, nq_recipientId = ''emp-7'', nq_recipientKind = K_EMPLOYEE,
      nq_targetRef = Some ''c1'', nq_payload = [], nq_away = False,
      nq_optedOutOf = [CH_INAPP, CH_EMAIL, CH_PUSH], nq_dedupeDiscriminator = Some ''m1''\<rparr>"

definition sampleConfig :: NotifyConfig where
  "sampleConfig = \<lparr>nf_transports = [''INAPP''], nf_dedupeWindowSeconds = 300\<rparr>"

definition sampleNotify :: "nat \<times> nat \<times> NotificationDb" where
  "sampleNotify = notifyOne (\<lambda>k. ''n'' @ showNat k) sampleConfig 43200000 sampleRequest (0, noteDb [])"

theorem in_app_reaches_every_employee_witness:
  "list_ex (holdsKey (inAppKey sampleConfig 43200000 sampleRequest)) (nd_notifications (snd (snd sampleNotify)))"
proof -
  obtain n k' db' where r: "sampleNotify = (n, (k', db'))" by (cases sampleNotify) auto
  have "nq_event sampleRequest \<noteq> NE_CUSTOMER_CONVERSATION_ANSWERED" "''INAPP'' \<in> set (nf_transports sampleConfig)"
    "find (\<lambda>r. nr_notification_id r = ''n'' @ showNat 0) (nd_notifications (noteDb [])) = None"
    "nq_recipientKind sampleRequest \<noteq> K_CUSTOMER"
    by (simp_all add: sampleRequest_def sampleConfig_def noteDb_def)
  with in_app_reaches_every_employee[OF this(1-3) r[unfolded sampleNotify_def]]
  show ?thesis unfolding r snd_conv by simp
qed

theorem one_notification_per_person_witness:
  "map tl_who (mentionedTells ''c1'' ''m1'' [''b''] @
     messageArrivedTells ''c1'' INTERNAL_GROUP ''m1'' ''a'' [''a'', ''b'', ''c'', ''d''] [''b''] (Some ''c'')) =
     [''b'', ''c'', ''d''] \<and>
   distinct [''b'', ''c'', ''d'']"
proof -
  have m: "map tl_who (mentionedTells ''c1'' ''m1'' [''b''] @
     messageArrivedTells ''c1'' INTERNAL_GROUP ''m1'' ''a'' [''a'', ''b'', ''c'', ''d''] [''b''] (Some ''c'')) =
     [''b'', ''c'', ''d'']" by code_simp
  from one_notification_per_person[of "[''a'', ''b'', ''c'', ''d'']" "[''b'']" "''a''" "''c1''" "''m1''"
      INTERNAL_GROUP "Some ''c''", unfolded Let_def, unfolded m] m
  show ?thesis by simp
qed

theorem quiet_window_is_a_circular_interval_witness:
  "inQuietWindow (\<lambda>z t. Some (24, 30)) (Some \<lparr>qw_from = ''20:00'', qw_to = ''09:00'', qw_timeZone = ''Asia/Kolkata''\<rparr>) 0"
proof -
  have "minutesOfTime ''20:00'' = Some 1200" "minutesOfTime ''09:00'' = Some 540" by code_simp+
  with quiet_window_is_a_circular_interval[of "\<lambda>z t. Some (24, 30)" "''Asia/Kolkata''" 0 24 30 "''20:00''" "''09:00''"]
  show ?thesis by simp
qed

end
