(* ===== verification/Outbox_Relay.thy ===== *)
theory Outbox_Relay
  imports Message_Store Js_Date Routing_Claims
begin

text \<open>
  The transactional outbox relay, \<open>infrastructure/outbox-relay/src/outbox-relay.ts\<close>, and the realtime
  contract it publishes to, \<open>packages/shared-contracts/src/adapters/realtime.ts\<close>. A row of
  \<open>conversation.outbox\<close> is the row the writers appended and the columns the relay keeps; instants are
  milliseconds. The backplane and the event publisher are adapters over the outside world \<open>'w\<close>;
  \<open>None\<close> is an adapter that throws, which rolls the whole batch back. Rows another relay has locked are
  the argument \<open>locked\<close>. Logs are left out.
\<close>

section \<open>Channels and events\<close>

datatype RealtimeChannel =
    RT_CONVERSATION UUID
  | RT_PRINCIPAL UUID
  | RT_TEAM string
  | RT_CONTROL

fun channelKey :: "RealtimeChannel \<Rightarrow> string" where
  "channelKey (RT_CONVERSATION c) = ''conversation:'' @ c"
| "channelKey (RT_PRINCIPAL p) = ''principal:'' @ p"
| "channelKey (RT_TEAM t) = ''team:'' @ t"
| "channelKey RT_CONTROL = ''control''"

lemma channelKey_inject [simp]: "channelKey a = channelKey b \<longleftrightarrow> a = b"
  by (cases a; cases b) simp_all

record RealtimeEvent =
  re_eventId :: UUID
  re_name :: string
  re_channel :: RealtimeChannel
  re_seq :: "nat option"
  re_occurredAt :: Timestamp
  re_correlationId :: string
  re_payload :: OutboxPayload
  re_staffOnly :: bool

record DomainEventEnvelope =
  de_eventId :: UUID
  de_name :: string
  de_version :: nat
  de_occurredAt :: Timestamp
  de_correlationId :: string
  de_payload :: OutboxPayload

section \<open>The rows\<close>

datatype RelayState = RL_PENDING | RL_PROCESSING | RL_PUBLISHED | RL_DEAD_LETTER

record RelayRow =
  rl_outbox_id :: UUID
  rl_row :: OutboxRow
  rl_state :: RelayState
  rl_attempts :: nat
  rl_next_attempt_at :: int
  rl_created_at :: int
  rl_published_at :: "int option"
  rl_last_error_code :: "string option"

text \<open>The row as \<open>appendOutboxIn\<close> inserts it, with the defaults of the table.\<close>

definition freshRow :: "UUID \<Rightarrow> int \<Rightarrow> OutboxRow \<Rightarrow> RelayRow" where
  "freshRow i now row =
     \<lparr>rl_outbox_id = i, rl_row = row, rl_state = RL_PENDING, rl_attempts = 0, rl_next_attempt_at = now,
      rl_created_at = now, rl_published_at = None, rl_last_error_code = None\<rparr>"

section \<open>Routing of one row\<close>

definition CUSTOMER_VISIBLE_EVENTS :: "string list" where
  "CUSTOMER_VISIBLE_EVENTS =
     [''conversation.resolved.v1'', ''conversation.reopened.v1'', ''customer.reply.received.v1'']"

text \<open>The fields of a payload the relay looks at.\<close>

fun payloadVisibility :: "OutboxPayload \<Rightarrow> MessageVisibility option" where
  "payloadVisibility (MessageCreated _ _ _ _ v _ _) = Some v"
| "payloadVisibility _ = None"

fun payloadSeq :: "OutboxPayload \<Rightarrow> nat option" where
  "payloadSeq (MessageCreated _ _ s _ _ _ _) = Some s"
| "payloadSeq (MessageMentioned _ _ s _ _) = Some s"
| "payloadSeq _ = None"

fun payloadTeam :: "OutboxPayload \<Rightarrow> string option" where
  "payloadTeam (QueueArrived _ t _ _) = Some t"
| "payloadTeam _ = None"

definition isStaffOnly :: "string \<Rightarrow> OutboxPayload \<Rightarrow> bool" where
  "isStaffOnly name payload \<longleftrightarrow>
     payloadVisibility payload = Some INTERNAL \<or> name \<notin> set CUSTOMER_VISIBLE_EVENTS"

definition channelFor :: "OutboxRow \<Rightarrow> RealtimeChannel" where
  "channelFor row =
     (if ob_eventName row = ''conversation.queue.arrived.v1''
      then (case payloadTeam (ob_payload row) of
              Some t \<Rightarrow> if t \<noteq> [] then RT_TEAM t else RT_CONTROL
            | None \<Rightarrow> RT_CONTROL)
      else if ob_aggregateType row = ''conversation'' then RT_CONVERSATION (ob_aggregateId row)
      else if ob_aggregateType row = ''principal'' then RT_PRINCIPAL (ob_aggregateId row)
      else RT_CONTROL)"

definition backoffSeconds :: "nat \<Rightarrow> int" where
  "backoffSeconds attempts = min (2 ^ attempts) 300"

definition realtimeEventOf :: "RelayRow \<Rightarrow> RealtimeEvent" where
  "realtimeEventOf r =
     \<lparr>re_eventId = rl_outbox_id r, re_name = ob_eventName (rl_row r), re_channel = channelFor (rl_row r),
      re_seq = payloadSeq (ob_payload (rl_row r)), re_occurredAt = toISOString (rl_created_at r),
      re_correlationId = ob_correlationId (rl_row r), re_payload = ob_payload (rl_row r),
      re_staffOnly = isStaffOnly (ob_eventName (rl_row r)) (ob_payload (rl_row r))\<rparr>"

definition envelopeOf :: "RelayRow \<Rightarrow> DomainEventEnvelope" where
  "envelopeOf r =
     \<lparr>de_eventId = rl_outbox_id r, de_name = ob_eventName (rl_row r), de_version = ob_eventVersion (rl_row r),
      de_occurredAt = toISOString (rl_created_at r), de_correlationId = ob_correlationId (rl_row r),
      de_payload = ob_payload (rl_row r)\<rparr>"

section \<open>One batch\<close>

record 'w RelayOptions =
  ry_backplane :: "RealtimeEvent \<Rightarrow> 'w \<Rightarrow> (AdapterError + unit) option \<times> 'w"
  ry_publisher :: "DomainEventEnvelope list \<Rightarrow> 'w \<Rightarrow> (AdapterError + unit) option \<times> 'w"
  ry_batchSize :: nat
  ry_maxAttempts :: nat

record DrainResult =
  dr_claimed :: nat
  dr_published :: nat
  dr_retried :: nat
  dr_deadLettered :: nat

text \<open>Publication to both destinations: the realtime one first, and its failure is not fatal.\<close>

definition deliverRow :: "'w RelayOptions \<Rightarrow> RelayRow \<Rightarrow> 'w \<Rightarrow> bool option \<times> 'w" where
  "deliverRow opts r w =
     (case ry_backplane opts (realtimeEventOf r) w of
        (None, w1) \<Rightarrow> (None, w1)
      | (Some _, w1) \<Rightarrow>
          (case ry_publisher opts [envelopeOf r] w1 of
             (None, w2) \<Rightarrow> (None, w2)
           | (Some (Inl _), w2) \<Rightarrow> (Some False, w2)
           | (Some (Inr _), w2) \<Rightarrow> (Some True, w2)))"

definition publishedRow :: "int \<Rightarrow> RelayRow \<Rightarrow> RelayRow" where
  "publishedRow now r =
     r\<lparr>rl_state := RL_PUBLISHED, rl_published_at := Some now, rl_attempts := rl_attempts r + 1\<rparr>"

definition failedRow :: "'w RelayOptions \<Rightarrow> int \<Rightarrow> RelayRow \<Rightarrow> RelayRow" where
  "failedRow opts now r =
     (let attempts = rl_attempts r + 1
      in if ry_maxAttempts opts \<le> attempts
         then r\<lparr>rl_state := RL_DEAD_LETTER, rl_attempts := attempts, rl_last_error_code := Some ''MAX_ATTEMPTS''\<rparr>
         else r\<lparr>rl_state := RL_PENDING, rl_attempts := attempts,
                rl_next_attempt_at := now + backoffSeconds attempts * 1000\<rparr>)"

definition settledRow :: "'w RelayOptions \<Rightarrow> int \<Rightarrow> bool \<Rightarrow> RelayRow \<Rightarrow> RelayRow" where
  "settledRow opts now delivered r = (if delivered then publishedRow now r else failedRow opts now r)"

definition countRow :: "'w RelayOptions \<Rightarrow> bool \<Rightarrow> RelayRow \<Rightarrow> DrainResult \<Rightarrow> DrainResult" where
  "countRow opts delivered r res =
     (if delivered then res\<lparr>dr_published := dr_published res + 1\<rparr>
      else if ry_maxAttempts opts \<le> rl_attempts r + 1 then res\<lparr>dr_deadLettered := dr_deadLettered res + 1\<rparr>
      else res\<lparr>dr_retried := dr_retried res + 1\<rparr>)"

text \<open>The loop of the batch: each row is published and settled before the next is taken.\<close>

fun drainRows ::
  "'w RelayOptions \<Rightarrow> int \<Rightarrow> RelayRow list \<Rightarrow> DrainResult \<Rightarrow> RelayRow list \<Rightarrow> 'w \<Rightarrow>
   (DrainResult \<times> RelayRow list) option \<times> 'w" where
  "drainRows opts now [] res table w = (Some (res, table), w)"
| "drainRows opts now (r # rs) res table w =
     (case deliverRow opts r w of
        (None, w1) \<Rightarrow> (None, w1)
      | (Some delivered, w1) \<Rightarrow>
          drainRows opts now rs (countRow opts delivered r res)
            (updateWhere (\<lambda>x. rl_outbox_id x = rl_outbox_id r) (\<lambda>_. settledRow opts now delivered r) table) w1)"

definition dueForRelay :: "int \<Rightarrow> RelayRow \<Rightarrow> bool" where
  "dueForRelay now r \<longleftrightarrow> rl_state r \<in> {RL_PENDING, RL_PROCESSING} \<and> rl_next_attempt_at r \<le> now"

definition relayBatch :: "UUID list \<Rightarrow> nat \<Rightarrow> int \<Rightarrow> RelayRow list \<Rightarrow> RelayRow list" where
  "relayBatch locked n now table =
     take n (sort_key rl_created_at (filter (\<lambda>r. dueForRelay now r \<and> rl_outbox_id r \<notin> set locked) table))"

definition drainOnce ::
  "'w RelayOptions \<Rightarrow> UUID list \<Rightarrow> int \<Rightarrow> RelayRow list \<times> 'w \<Rightarrow> DrainResult option \<times> RelayRow list \<times> 'w" where
  "drainOnce opts locked now = (\<lambda>(table, w).
     let batch = relayBatch locked (ry_batchSize opts) now table
     in case drainRows opts now batch
              \<lparr>dr_claimed = length batch, dr_published = 0, dr_retried = 0, dr_deadLettered = 0\<rparr> table w of
          (None, w1) \<Rightarrow> (None, table, w1)
        | (Some (res, table1), w1) \<Rightarrow> (Some res, table1, w1))"

record RelayMetrics =
  rm_depth :: nat
  rm_oldestAgeSeconds :: int
  rm_deadLettered :: nat

definition relayMetrics :: "int \<Rightarrow> RelayRow list \<Rightarrow> RelayMetrics" where
  "relayMetrics now table =
     (let waiting = filter (\<lambda>r. rl_state r \<in> {RL_PENDING, RL_PROCESSING}) table
      in \<lparr>rm_depth = length waiting,
          rm_oldestAgeSeconds =
            (case map rl_created_at waiting of [] \<Rightarrow> 0 | t # ts \<Rightarrow> (now - fold min ts t + 500) div 1000),
          rm_deadLettered = length (filter (\<lambda>r. rl_state r = RL_DEAD_LETTER) table)\<rparr>)"

section \<open>Facts\<close>

text \<open>A customer hears of the resolution and the reopening of their conversation, and of no message.\<close>

lemma staffOnly_of_internal: "payloadVisibility p = Some INTERNAL \<Longrightarrow> isStaffOnly name p"
  by (simp add: isStaffOnly_def)

lemma backoff_bounds: "1 \<le> backoffSeconds n" "backoffSeconds n \<le> 300"
  by (simp_all add: backoffSeconds_def min_def)

definition wfRelay :: "RelayRow list \<Rightarrow> bool" where
  "wfRelay table \<longleftrightarrow> distinct (map rl_outbox_id table)"

lemma settledRow_id [simp]: "rl_outbox_id (settledRow opts now d r) = rl_outbox_id r"
  by (simp add: settledRow_def publishedRow_def failedRow_def Let_def)

lemma batch_in_table:
  "r \<in> set (relayBatch locked n now table) \<Longrightarrow> r \<in> set table \<and> dueForRelay now r \<and> rl_outbox_id r \<notin> set locked"
  by (auto simp: relayBatch_def dest!: in_set_takeD)

lemma batch_sub: "set (relayBatch locked n now table) \<subseteq> set table"
  using batch_in_table by blast

lemma batch_distinct:
  assumes "wfRelay table"
  shows "distinct (map rl_outbox_id (relayBatch locked n now table))"
proof -
  have "distinct table" "inj_on rl_outbox_id (set table)" using assms by (auto simp: wfRelay_def distinct_map)
  moreover have "set (relayBatch locked n now table) \<subseteq> set table" using batch_in_table by blast
  ultimately show ?thesis
    unfolding distinct_map by (auto simp: relayBatch_def intro: inj_on_subset)
qed

text \<open>
  The batch as its publisher sees it: one realtime event and one envelope per row, in order, none of which
  throws, and the rows whose envelope it took.
\<close>

fun publisherTook :: "'w RelayOptions \<Rightarrow> RelayRow list \<Rightarrow> bool list \<Rightarrow> 'w \<Rightarrow> 'w \<Rightarrow> bool" where
  "publisherTook opts [] oks w w' \<longleftrightarrow> oks = [] \<and> w' = w"
| "publisherTook opts (r # rs) oks w w' \<longleftrightarrow>
     (\<exists>fanout w1 answer w2 ok oks'.
        ry_backplane opts (realtimeEventOf r) w = (Some fanout, w1) \<and>
        ry_publisher opts [envelopeOf r] w1 = (Some answer, w2) \<and>
        oks = ok # oks' \<and> (ok \<longleftrightarrow> answer = Inr ()) \<and> publisherTook opts rs oks' w2 w')"

text \<open>What the adapters answer for each row of a batch, up to the first that throws.\<close>

fun answers :: "'w RelayOptions \<Rightarrow> RelayRow list \<Rightarrow> 'w \<Rightarrow> bool list option \<times> 'w" where
  "answers opts [] w = (Some [], w)"
| "answers opts (r # rs) w =
     (case deliverRow opts r w of
        (None, w1) \<Rightarrow> (None, w1)
      | (Some d, w1) \<Rightarrow> (case answers opts rs w1 of (oks, w2) \<Rightarrow> (map_option ((#) d) oks, w2)))"

definition settleBy :: "'w RelayOptions \<Rightarrow> int \<Rightarrow> (UUID \<times> bool) list \<Rightarrow> RelayRow \<Rightarrow> RelayRow" where
  "settleBy opts now oks r =
     (case map_of oks (rl_outbox_id r) of None \<Rightarrow> r | Some d \<Rightarrow> settledRow opts now d r)"

lemma settleBy_id [simp]: "rl_outbox_id (settleBy opts now oks r) = rl_outbox_id r"
  by (simp add: settleBy_def split: option.split)

lemma deliverRow_Some:
  assumes "deliverRow opts r w = (Some d, w2)"
  obtains fanout w1 answer where "ry_backplane opts (realtimeEventOf r) w = (Some fanout, w1)"
    and "ry_publisher opts [envelopeOf r] w1 = (Some answer, w2)" and "d \<longleftrightarrow> answer = Inr ()"
  using assms by (auto simp: deliverRow_def split: prod.splits option.splits sum.splits)

lemma answers_took: "answers opts rs w = (Some oks, w') \<Longrightarrow> publisherTook opts rs oks w w'"
proof (induction rs arbitrary: w oks)
  case (Cons r rs)
  then obtain d w1 oks' where d: "deliverRow opts r w = (Some d, w1)"
    and rest: "answers opts rs w1 = (Some oks', w')" and oks: "oks = d # oks'"
    by (auto split: prod.splits option.splits)
  from d show ?case
    by (rule deliverRow_Some) (use Cons.IH[OF rest] oks in auto)
qed simp

lemma drainRows_settles:
  assumes "drainRows opts now rs res table w = (Some (res', table'), w')"
    and "wfRelay table" and "distinct (map rl_outbox_id rs)" and "set rs \<subseteq> set table"
  shows "\<exists>oks. answers opts rs w = (Some oks, w') \<and> length oks = length rs \<and>
    table' = map (settleBy opts now (zip (map rl_outbox_id rs) oks)) table \<and>
    dr_claimed res' = dr_claimed res \<and>
    dr_published res' = dr_published res + length (filter (\<lambda>d. d) oks) \<and>
    dr_deadLettered res' = dr_deadLettered res +
      length (filter (\<lambda>(r, d). \<not> d \<and> ry_maxAttempts opts \<le> rl_attempts r + 1) (zip rs oks)) \<and>
    dr_published res' + dr_retried res' + dr_deadLettered res' =
      dr_published res + dr_retried res + dr_deadLettered res + length rs"
  using assms
proof (induction rs arbitrary: res table w)
  case Nil
  then show ?case by (simp add: settleBy_def)
next
  case (Cons r rs)
  obtain d w1 where d: "deliverRow opts r w = (Some d, w1)"
    and run: "drainRows opts now rs (countRow opts d r res)
      (updateWhere (\<lambda>x. rl_outbox_id x = rl_outbox_id r) (\<lambda>_. settledRow opts now d r) table) w1 =
      (Some (res', table'), w')"
    using Cons.prems(1) by (auto split: prod.splits option.splits)
  let ?t = "updateWhere (\<lambda>x. rl_outbox_id x = rl_outbox_id r) (\<lambda>_. settledRow opts now d r) table"
  have same: "x = r" if "x \<in> set table" "rl_outbox_id x = rl_outbox_id r" for x
    using that Cons.prems(2,4) by (auto simp: wfRelay_def distinct_map dest: inj_onD)
  then have t: "?t = map (settleBy opts now [(rl_outbox_id r, d)]) table"
    by (auto simp: updateWhere_def settleBy_def)
  have ids: "map rl_outbox_id ?t = map rl_outbox_id table" unfolding t by simp
  have sub: "set rs \<subseteq> set ?t"
  proof
    fix x assume x: "x \<in> set rs"
    have "rl_outbox_id x \<in> rl_outbox_id ` set rs" using x by (rule imageI)
    moreover have "rl_outbox_id r \<notin> rl_outbox_id ` set rs" using Cons.prems(3) by simp
    ultimately have "rl_outbox_id x \<noteq> rl_outbox_id r" by metis
    moreover have "x \<in> set table" using x Cons.prems(4) by auto
    ultimately show "x \<in> set ?t" unfolding updateWhere_def by force
  qed
  have "wfRelay ?t" "distinct (map rl_outbox_id rs)" using ids Cons.prems(2,3) by (simp_all add: wfRelay_def)
  from Cons.IH[OF run this sub] obtain oks where
      ih: "answers opts rs w1 = (Some oks, w')" "length oks = length rs"
        "table' = map (settleBy opts now (zip (map rl_outbox_id rs) oks)) ?t"
        "dr_claimed res' = dr_claimed (countRow opts d r res)"
        "dr_published res' = dr_published (countRow opts d r res) + length (filter (\<lambda>d. d) oks)"
        "dr_deadLettered res' = dr_deadLettered (countRow opts d r res) +
          length (filter (\<lambda>(r, d). \<not> d \<and> ry_maxAttempts opts \<le> rl_attempts r + 1) (zip rs oks))"
        "dr_published res' + dr_retried res' + dr_deadLettered res' =
          dr_published (countRow opts d r res) + dr_retried (countRow opts d r res) +
          dr_deadLettered (countRow opts d r res) + length rs"
    by blast
  have none: "map_of (zip (map rl_outbox_id rs) oks) (rl_outbox_id r) = None"
    using Cons.prems(3) ih(2) by (simp add: map_of_zip_is_None)
  have "settleBy opts now (zip (map rl_outbox_id rs) oks) (settleBy opts now [(rl_outbox_id r, d)] x) =
      settleBy opts now (zip (map rl_outbox_id (r # rs)) (d # oks)) x" for x
    using none by (cases "rl_outbox_id x = rl_outbox_id r") (auto simp: settleBy_def split: option.splits)
  then have "table' = map (settleBy opts now (zip (map rl_outbox_id (r # rs)) (d # oks))) table"
    unfolding ih(3) t by simp
  with ih d show ?case by (intro exI[of _ "d # oks"]) (simp add: countRow_def)
qed

end
