(* ===== verification/Relay_Props.thy ===== *)
theory Relay_Props
  imports Outbox_Relay
begin

text \<open>The properties of the outbox relay.\<close>

text \<open>
  C29: a row is published exactly when the publisher took it. A batch that commits hands the publisher one
  envelope per claimed row, in the order of creation. A row whose envelope it took becomes published at that
  instant; one it refused is dead-lettered if that was its last attempt and otherwise waits for its backoff,
  two to the attempts, capped at five minutes; each has spent one attempt. Every other row stays as it is,
  none is lost, and the counts say what happened. A batch in which an adapter throws leaves the table as it
  was.
\<close>

theorem relay_settles_by_the_answers:
  assumes "drainOnce opts locked now (table, w) = (res, table', w')" and "wfRelay table"
  shows "case res of
      None \<Rightarrow> table' = table
    | Some c \<Rightarrow>
        (let batch = relayBatch locked (ry_batchSize opts) now table
         in \<exists>oks. publisherTook opts batch oks w w' \<and>
              table' = map (\<lambda>r. let spent = rl_attempts r + 1
                in case map_of (zip (map rl_outbox_id batch) oks) (rl_outbox_id r) of
                    None \<Rightarrow> r
                  | Some True \<Rightarrow> r\<lparr>rl_state := RL_PUBLISHED, rl_attempts := spent, rl_published_at := Some now\<rparr>
                  | Some False \<Rightarrow>
                      if ry_maxAttempts opts \<le> spent
                      then r\<lparr>rl_state := RL_DEAD_LETTER, rl_attempts := spent, rl_last_error_code := Some ''MAX_ATTEMPTS''\<rparr>
                      else r\<lparr>rl_state := RL_PENDING, rl_attempts := spent,
                             rl_next_attempt_at := now + min (2 ^ spent) 300 * 1000\<rparr>) table \<and>
              dr_claimed c = length batch \<and> dr_published c = length (filter (\<lambda>ok. ok) oks) \<and>
              dr_deadLettered c = length (filter (\<lambda>(r, ok). \<not> ok \<and> ry_maxAttempts opts \<le> rl_attempts r + 1) (zip batch oks)) \<and>
              dr_published c + dr_retried c + dr_deadLettered c = dr_claimed c)"
proof (cases res)
  case None
  with assms(1) show ?thesis by (auto simp: drainOnce_def Let_def split: option.splits prod.splits)
next
  case (Some c)
  let ?batch = "relayBatch locked (ry_batchSize opts) now table"
  from Some assms(1) have "drainRows opts now ?batch
      \<lparr>dr_claimed = length ?batch, dr_published = 0, dr_retried = 0, dr_deadLettered = 0\<rparr> table w =
      (Some (c, table'), w')"
    by (auto simp: drainOnce_def Let_def split: option.splits prod.splits)
  from drainRows_settles[OF this assms(2) batch_distinct[OF assms(2)] batch_sub] obtain oks
    where a: "answers opts ?batch w = (Some oks, w')"
      and t: "table' = map (settleBy opts now (zip (map rl_outbox_id ?batch) oks)) table"
      and n: "dr_claimed c = length ?batch" "dr_published c = length (filter (\<lambda>ok. ok) oks)"
        "dr_deadLettered c = length (filter (\<lambda>(r, ok). \<not> ok \<and> ry_maxAttempts opts \<le> rl_attempts r + 1) (zip ?batch oks))"
        "dr_published c + dr_retried c + dr_deadLettered c = dr_claimed c" by auto
  show ?thesis
    unfolding Some option.case Let_def
    by (rule exI[of _ oks], intro conjI answers_took[OF a] n, unfold t, rule map_cong[OF refl])
       (auto simp: settleBy_def settledRow_def publishedRow_def failedRow_def backoffSeconds_def Let_def
          split: option.split bool.split)
qed

section \<open>The budget of attempts\<close>

definition relayWaiting :: "RelayRow \<Rightarrow> bool" where
  "relayWaiting r \<longleftrightarrow> rl_state r \<in> {RL_PENDING, RL_PROCESSING}"

definition withinBudget :: "nat \<Rightarrow> RelayRow list \<Rightarrow> bool" where
  "withinBudget m table \<longleftrightarrow> list_all (\<lambda>r. relayWaiting r \<longrightarrow> rl_attempts r < m) table"

definition turnsLeft :: "nat \<Rightarrow> RelayRow \<Rightarrow> nat" where
  "turnsLeft m r = (if relayWaiting r then m - rl_attempts r else 0)"

definition relayBudget :: "nat \<Rightarrow> RelayRow list \<Rightarrow> nat" where
  "relayBudget m table = sum_list (map (turnsLeft m) table)"

lemma settled_turns:
  assumes "relayWaiting r" and "rl_attempts r < ry_maxAttempts opts"
  shows "turnsLeft (ry_maxAttempts opts) (settledRow opts now d r) + 1 \<le> turnsLeft (ry_maxAttempts opts) r"
    and "relayWaiting (settledRow opts now d r) \<Longrightarrow> rl_attempts (settledRow opts now d r) < ry_maxAttempts opts"
  using assms
  by (cases d;
    auto simp: settledRow_def publishedRow_def failedRow_def turnsLeft_def relayWaiting_def Let_def)+

lemma relayBudget_settle:
  assumes "withinBudget (ry_maxAttempts opts) table" and "wfRelay table"
    and "\<And>r. r \<in> set table \<Longrightarrow> map_of oks (rl_outbox_id r) \<noteq> None \<Longrightarrow> relayWaiting r"
  shows "relayBudget (ry_maxAttempts opts) (map (settleBy opts now oks) table) +
      length (filter (\<lambda>r. map_of oks (rl_outbox_id r) \<noteq> None) table) \<le> relayBudget (ry_maxAttempts opts) table"
  using assms
proof (induction table)
  case (Cons r table)
  have ih: "relayBudget (ry_maxAttempts opts) (map (settleBy opts now oks) table) +
      length (filter (\<lambda>r. map_of oks (rl_outbox_id r) \<noteq> None) table) \<le> relayBudget (ry_maxAttempts opts) table"
    using Cons by (simp add: withinBudget_def wfRelay_def)
  show ?case
  proof (cases "map_of oks (rl_outbox_id r)")
    case None
    then have "settleBy opts now oks r = r" by (simp add: settleBy_def)
    with ih None show ?thesis by (simp add: relayBudget_def)
  next
    case (Some d)
    with Cons.prems have "relayWaiting r" "rl_attempts r < ry_maxAttempts opts"
      by (auto simp: withinBudget_def)
    from settled_turns(1)[OF this, of now d]
    have "turnsLeft (ry_maxAttempts opts) (settleBy opts now oks r) + 1 \<le> turnsLeft (ry_maxAttempts opts) r"
      by (simp add: settleBy_def Some)
    with ih Some show ?thesis by (simp add: relayBudget_def)
  qed
qed (simp add: relayBudget_def)

text \<open>
  the relay does not work on a row for ever. If every waiting row has attempts left, which the
  insertion of a row establishes, then this still holds after a batch that commits, and the attempts left
  in the table have gone down by at least one for every row the batch claimed.
\<close>

theorem relay_spends_its_budget:
  assumes "drainOnce opts locked now (table, w) = (Some res, table', w')" and "wfRelay table"
    and "withinBudget (ry_maxAttempts opts) table"
  shows "withinBudget (ry_maxAttempts opts) table' \<and> wfRelay table' \<and>
    relayBudget (ry_maxAttempts opts) table' + dr_claimed res \<le> relayBudget (ry_maxAttempts opts) table"
proof -
  let ?batch = "relayBatch locked (ry_batchSize opts) now table"
  from assms(1) have "drainRows opts now ?batch
      \<lparr>dr_claimed = length ?batch, dr_published = 0, dr_retried = 0, dr_deadLettered = 0\<rparr> table w =
      (Some (res, table'), w')"
    by (auto simp: drainOnce_def Let_def split: option.splits prod.splits)
  from drainRows_settles[OF this assms(2) batch_distinct[OF assms(2)] batch_sub]
  obtain oks where oks: "length oks = length ?batch"
      "table' = map (settleBy opts now (zip (map rl_outbox_id ?batch) oks)) table"
      "dr_claimed res = length ?batch"
    by auto
  let ?z = "zip (map rl_outbox_id ?batch) oks"
  have hit: "map_of ?z i \<noteq> None \<longleftrightarrow> i \<in> rl_outbox_id ` set ?batch" for i
    using oks(1) by (simp only: map_of_zip_is_None length_map set_map not_not)
  have waits: "relayWaiting r" if "r \<in> set table" "map_of ?z (rl_outbox_id r) \<noteq> None" for r
  proof -
    from that(2) hit obtain x where x: "x \<in> set ?batch" "rl_outbox_id x = rl_outbox_id r" by force
    with batch_in_table that(1) assms(2) have "x = r" by (auto simp: wfRelay_def distinct_map dest: inj_onD)
    with x batch_in_table show ?thesis by (auto simp: relayWaiting_def dueForRelay_def)
  qed
  let ?hits = "filter (\<lambda>r. map_of ?z (rl_outbox_id r) \<noteq> None) table"
  have "set ?batch \<subseteq> set ?hits" using hit batch_sub by force
  then have "card (set ?batch) \<le> card (set ?hits)" by (simp add: card_mono)
  also have "\<dots> \<le> length ?hits" by (rule card_length)
  finally have "length ?batch \<le> length ?hits"
    using batch_distinct[OF assms(2)] by (simp add: distinct_map distinct_card)
  moreover have "relayBudget (ry_maxAttempts opts) (map (settleBy opts now ?z) table) + length ?hits \<le>
      relayBudget (ry_maxAttempts opts) table"
    by (rule relayBudget_settle[OF assms(3,2)]) (rule waits)
  ultimately have "relayBudget (ry_maxAttempts opts) table' + dr_claimed res \<le> relayBudget (ry_maxAttempts opts) table"
    unfolding oks(2,3) by linarith
  moreover have "withinBudget (ry_maxAttempts opts) table'"
    unfolding oks(2) withinBudget_def list_all_iff
  proof (intro ballI impI)
    fix y assume y: "y \<in> set (map (settleBy opts now ?z) table)" "relayWaiting y"
    then obtain r where r: "r \<in> set table" "y = settleBy opts now ?z r" by auto
    show "rl_attempts y < ry_maxAttempts opts"
    proof (cases "map_of ?z (rl_outbox_id r)")
      case None
      with r y assms(3) show ?thesis by (auto simp: settleBy_def withinBudget_def list_all_iff)
    next
      case (Some d)
      with waits[OF r(1)] assms(3) r(1) have "relayWaiting r" "rl_attempts r < ry_maxAttempts opts"
        by (auto simp: withinBudget_def list_all_iff)
      from settled_turns(2)[OF this] r(2) y(2) Some show ?thesis by (simp add: settleBy_def)
    qed
  qed
  moreover have "wfRelay table'" unfolding oks(2) using assms(2) by (simp add: wfRelay_def comp_def)
  ultimately show ?thesis by blast
qed

section \<open>Witnesses\<close>

definition relaySample :: "RelayRow list" where
  "relaySample =
     [freshRow ''o1'' 0 \<lparr>ob_eventName = ''message.created.v1'', ob_eventVersion = 1,
        ob_aggregateType = ''conversation'', ob_aggregateId = ''c1'',
        ob_payload = MessageCreated ''m1'' ''c1'' 1 K_EMPLOYEE INTERNAL ''WEB'' False, ob_correlationId = ''x''\<rparr>,
      freshRow ''o2'' 1 \<lparr>ob_eventName = ''conversation.resolved.v1'', ob_eventVersion = 1,
        ob_aggregateType = ''conversation'', ob_aggregateId = ''c1'',
        ob_payload = ConversationResolved ''c1'' ''k1'' ''paid'' ''emp-7'', ob_correlationId = ''y''\<rparr>]"

text \<open>A publisher that takes the first envelope of a run and refuses the rest; the world counts them.\<close>

definition relayOptions :: "nat RelayOptions" where
  "relayOptions =
     \<lparr>ry_backplane = (\<lambda>e w. (Some (Inr ()), w)),
      ry_publisher = (\<lambda>es w. (Some (if w = 0 then Inr () else Inl \<lparr>er_code = ''DOWN'', er_message = [],
         er_retryable = True, er_failureClass = FAIL_QUEUED, er_correlationId = []\<rparr>), w + 1)),
      ry_batchSize = 10, ry_maxAttempts = 8\<rparr>"

definition relayRun :: "DrainResult option \<times> RelayRow list \<times> nat" where
  "relayRun = drainOnce relayOptions [] 5000 (relaySample, 0)"

lemma relayRun_facts:
  "fst relayRun = Some \<lparr>dr_claimed = 2, dr_published = 1, dr_retried = 1, dr_deadLettered = 0\<rparr>"
  "wfRelay relaySample" "withinBudget (ry_maxAttempts relayOptions) relaySample"
  by code_simp+

theorem relay_settles_by_the_answers_witness:
  "\<exists>oks. publisherTook relayOptions (relayBatch [] 10 5000 relaySample) oks 0 (snd (snd relayRun)) \<and>
     length (filter (\<lambda>ok. ok) oks) = 1 \<and> length (fst (snd relayRun)) = 2"
proof -
  obtain table' w' where r: "relayRun = (Some \<lparr>dr_claimed = 2, dr_published = 1, dr_retried = 1, dr_deadLettered = 0\<rparr>, table', w')"
    using relayRun_facts(1) by (metis prod.collapse)
  have "ry_batchSize relayOptions = 10" "length relaySample = 2" by (simp_all add: relayOptions_def relaySample_def)
  with relay_settles_by_the_answers[OF r[unfolded relayRun_def] relayRun_facts(2)]
  show ?thesis unfolding r fst_conv snd_conv by (auto simp: Let_def)
qed

theorem relay_spends_its_budget_witness:
  "relayBudget 8 (fst (snd relayRun)) + 2 \<le> relayBudget 8 relaySample \<and> relayBudget 8 relaySample = 16"
proof -
  obtain table' w' where r: "relayRun = (Some \<lparr>dr_claimed = 2, dr_published = 1, dr_retried = 1, dr_deadLettered = 0\<rparr>, table', w')"
    using relayRun_facts(1) by (metis prod.collapse)
  have "relayBudget 8 relaySample = 16" "ry_maxAttempts relayOptions = 8" by code_simp+
  with relay_spends_its_budget[OF r[unfolded relayRun_def] relayRun_facts(2,3)]
  show ?thesis unfolding r fst_conv snd_conv by simp
qed

end
