(* ===== verification/Signed_Token.thy ===== *)
theory Signed_Token
  imports Prelude
begin

text \<open>
  The signed opaque tokens of the session cookie and of the paging cursors:
  \<open>packages/security/src/signed-token.ts\<close>. The base64url text of Node's \<open>Buffer\<close> is written out, with its
  lenient reading; the keyed hash of \<open>node:crypto\<close> and the JSON text of a payload are arguments of the
  codec. A string is a list of bytes.
\<close>

section \<open>base64url\<close>

definition B64_ALPHABET :: string where
  "B64_ALPHABET = ''ABCDEFGHIJKLMNOPQRSTUVWXYZabcdefghijklmnopqrstuvwxyz0123456789-_''"

definition b64char :: "nat \<Rightarrow> char" where
  "b64char n = B64_ALPHABET ! n"

definition byteOf :: "char \<Rightarrow> nat" where "byteOf c = of_char c"

fun sextets :: "string \<Rightarrow> nat list" where
  "sextets [] = []"
| "sextets [a] = [byteOf a div 4, byteOf a mod 4 * 16]"
| "sextets [a, b] = [byteOf a div 4, byteOf a mod 4 * 16 + byteOf b div 16, byteOf b mod 16 * 4]"
| "sextets (a # b # c # rest) =
     byteOf a div 4 # (byteOf a mod 4 * 16 + byteOf b div 16) #
     (byteOf b mod 16 * 4 + byteOf c div 64) # byteOf c mod 64 # sextets rest"

definition b64url :: "string \<Rightarrow> string" where
  "b64url s = map b64char (sextets s)"

text \<open>The value of a character; the reader takes both alphabets and skips every other character.\<close>

definition b64value :: "char \<Rightarrow> nat option" where
  "b64value c =
     (if CHR ''A'' \<le> c \<and> c \<le> CHR ''Z'' then Some (byteOf c - 65)
      else if CHR ''a'' \<le> c \<and> c \<le> CHR ''z'' then Some (byteOf c - 71)
      else if CHR ''0'' \<le> c \<and> c \<le> CHR ''9'' then Some (byteOf c + 4)
      else if c = CHR ''-'' \<or> c = CHR ''+'' then Some 62
      else if c = CHR ''_'' \<or> c = CHR ''/'' then Some 63
      else None)"

fun b64groups :: "nat list \<Rightarrow> string" where
  "b64groups (p # q # r # s # rest) =
     char_of (p * 4 + q div 16) # char_of (q mod 16 * 16 + r div 4) # char_of (r mod 4 * 64 + s) # b64groups rest"
| "b64groups [p, q, r] = [char_of (p * 4 + q div 16), char_of (q mod 16 * 16 + r div 4)]"
| "b64groups [p, q] = [char_of (p * 4 + q div 16)]"
| "b64groups _ = []"

definition fromB64url :: "string \<Rightarrow> string" where
  "fromB64url s = b64groups (List.map_filter b64value s)"

lemma byteOf_less [simp]: "byteOf c < 256"
  by (simp add: byteOf_def)

lemma char_of_byteOf [simp]: "char_of (byteOf c) = c"
  by (simp add: byteOf_def)

lemma b64value_b64char: "n < 64 \<Longrightarrow> b64value (b64char n) = Some n"
proof -
  have "list_all (\<lambda>n. b64value (b64char n) = Some n) [0..<64]" by code_simp
  then show "n < 64 \<Longrightarrow> b64value (b64char n) = Some n" by (simp add: list_all_iff)
qed

lemma b64char_no_dot: "n < 64 \<Longrightarrow> b64char n \<noteq> CHR ''.''"
proof -
  have "list_all (\<lambda>n. b64char n \<noteq> CHR ''.'') [0..<64]" by code_simp
  then show "n < 64 \<Longrightarrow> b64char n \<noteq> CHR ''.''" by (simp add: list_all_iff)
qed

lemma byte_parts:
  "byteOf a div 4 < 64" "byteOf a mod 4 < 4" "byteOf a div 16 < 16" "byteOf a mod 16 < 16"
  "byteOf a div 64 < 4" "byteOf a mod 64 < 64"
  using byteOf_less[of a] by (simp_all add: less_mult_imp_div_less)

lemma sextet_bounds:
  "byteOf a mod 4 * 16 < 64" "byteOf a mod 4 * 16 + byteOf b div 16 < 64" "byteOf b mod 16 * 4 < 64"
  "byteOf b mod 16 * 4 + byteOf c div 64 < 64"
  using byte_parts(2)[of a] byte_parts(3,4)[of b] byte_parts(5)[of c] by linarith+

lemma sextets_less: "n \<in> set (sextets s) \<Longrightarrow> n < 64"
  by (induction s rule: sextets.induct) (auto simp: byte_parts sextet_bounds)

lemma packed: "0 < k \<Longrightarrow> y < k \<Longrightarrow> (x * k + y) div k = x" "0 < k \<Longrightarrow> y < k \<Longrightarrow> (x * k + y) mod k = (y :: nat)"
  by simp_all

lemma byte_of_sextets:
  "byteOf a div 4 * 4 + byteOf a mod 4 * 16 div 16 = byteOf a"
  "byteOf a div 4 * 4 + (byteOf a mod 4 * 16 + byteOf b div 16) div 16 = byteOf a"
  "(byteOf a mod 4 * 16 + byteOf b div 16) mod 16 * 16 + byteOf b mod 16 * 4 div 4 = byteOf b"
  "(byteOf a mod 4 * 16 + byteOf b div 16) mod 16 * 16 + (byteOf b mod 16 * 4 + byteOf c div 64) div 4 = byteOf b"
  "(byteOf b mod 16 * 4 + byteOf c div 64) mod 4 * 64 + byteOf c mod 64 = byteOf c"
  by (simp_all only: packed byte_parts div_mult_mod_eq nonzero_mult_div_cancel_right zero_less_numeral
      zero_neq_numeral[symmetric] not_False_eq_True)

lemma b64groups_sextets: "b64groups (sextets s) = s"
proof (induction s rule: sextets.induct)
  case (4 a b c rest)
  then show ?case by (simp only: sextets.simps b64groups.simps byte_of_sextets char_of_byteOf)
qed (simp_all only: sextets.simps b64groups.simps byte_of_sextets char_of_byteOf)

lemma b64url_roundtrip: "fromB64url (b64url s) = s"
proof -
  have "list_all (\<lambda>n. n < 64) ns \<Longrightarrow> List.map_filter b64value (map b64char ns) = ns" for ns
    by (induction ns) (simp_all add: List.map_filter_simps b64value_b64char)
  moreover have "list_all (\<lambda>n. n < 64) (sextets s)" using sextets_less by (auto simp: list_all_iff)
  ultimately show ?thesis by (simp add: fromB64url_def b64url_def b64groups_sextets)
qed

lemma b64url_no_dot: "CHR ''.'' \<notin> set (b64url s)"
proof
  assume "CHR ''.'' \<in> set (b64url s)"
  then obtain n where "n \<in> set (sextets s)" "b64char n = CHR ''.''" by (auto simp: b64url_def)
  with sextets_less b64char_no_dot show False by blast
qed

section \<open>The codec\<close>

datatype VerifyFailure = VF_MALFORMED | VF_BAD_SIGNATURE | VF_WRONG_PURPOSE | VF_EXPIRED

record 'p TokenOptions =
  to_hmac :: "string \<Rightarrow> string \<Rightarrow> string"
  to_stringify :: "'p \<Rightarrow> string"
  to_parse :: "string \<Rightarrow> 'p option"
  to_secret :: string
  to_purpose :: string
  to_minimumSecretLength :: nat

text \<open>A secret that is too short is refused when the codec is made.\<close>

definition mayCreateCodec :: "'p TokenOptions \<Rightarrow> bool" where
  "mayCreateCodec opts \<longleftrightarrow> to_minimumSecretLength opts \<le> length (to_secret opts)"

definition signatureOf :: "'p TokenOptions \<Rightarrow> string \<Rightarrow> string" where
  "signatureOf opts body = to_hmac opts (to_secret opts) (to_purpose opts @ ''.'' @ body)"

definition signToken :: "'p TokenOptions \<Rightarrow> 'p \<Rightarrow> string" where
  "signToken opts payload =
     (let body = b64url (to_stringify opts payload)
      in body @ ''.'' @ b64url (signatureOf opts body))"

text \<open>The text before and after the last dot, when there is one and something stands before it.\<close>

definition splitToken :: "string \<Rightarrow> (string \<times> string) option" where
  "splitToken token =
     (let after = rev (takeWhile (\<lambda>c. c \<noteq> CHR ''.'') (rev token));
          before = rev (drop (length after + 1) (rev token))
      in if length after < length token \<and> before \<noteq> [] then Some (before, after) else None)"

definition verifyToken :: "'p TokenOptions \<Rightarrow> string \<Rightarrow> VerifyFailure + 'p" where
  "verifyToken opts token =
     (case splitToken token of
        None \<Rightarrow> Inl VF_MALFORMED
      | Some (body, mac) \<Rightarrow>
          let presented = fromB64url mac; expected = signatureOf opts body
          in if length presented \<noteq> length expected then Inl VF_BAD_SIGNATURE
             else if presented \<noteq> expected then Inl VF_BAD_SIGNATURE
             else case to_parse opts (fromB64url body) of
                    None \<Rightarrow> Inl VF_MALFORMED
                  | Some payload \<Rightarrow> Inr payload)"

lemma splitToken_signed:
  assumes "body \<noteq> []" and "CHR ''.'' \<notin> set mac"
  shows "splitToken (body @ ''.'' @ mac) = Some (body, mac)"
proof -
  have "takeWhile (\<lambda>c. c \<noteq> CHR ''.'') (rev mac @ CHR ''.'' # rev body) = rev mac"
    using assms(2) by (subst takeWhile_append2) auto
  then show ?thesis using assms(1) by (simp add: splitToken_def)
qed

lemma b64url_Nil [simp]: "b64url s = [] \<longleftrightarrow> s = []"
  by (cases s rule: sextets.cases) (simp_all add: b64url_def)

lemma verifyToken_signed:
  assumes "to_stringify opts p \<noteq> []" and "to_parse opts (to_stringify opts p) = Some p"
  shows "verifyToken opts (signToken opts p) = Inr p"
proof -
  define body where "body = b64url (to_stringify opts p)"
  define mac where "mac = b64url (signatureOf opts body)"
  have "body \<noteq> []" using assms(1) by (simp add: body_def)
  then have "splitToken (body @ ''.'' @ mac) = Some (body, mac)"
    unfolding mac_def by (intro splitToken_signed b64url_no_dot)
  moreover have "signToken opts p = body @ ''.'' @ mac"
    by (simp add: signToken_def Let_def body_def mac_def)
  moreover have "fromB64url mac = signatureOf opts body" and "fromB64url body = to_stringify opts p"
    by (simp_all add: mac_def body_def b64url_roundtrip)
  ultimately show ?thesis using assms(2) by (simp add: verifyToken_def)
qed

text \<open>What verification accepts carries the signature of its own body, for this purpose and under this secret.\<close>

lemma verifyToken_accepted:
  assumes "verifyToken opts token = Inr p"
  obtains body mac where "splitToken token = Some (body, mac)"
    and "fromB64url mac = to_hmac opts (to_secret opts) (to_purpose opts @ ''.'' @ body)"
    and "to_parse opts (fromB64url body) = Some p"
  using assms by (auto simp: verifyToken_def signatureOf_def Let_def split: option.splits if_splits)

end
