(* ===== verification/Local_Iam.thy ===== *)
theory Local_Iam
  imports Actor Message_Store
begin

text \<open>
  The identity authority of this deployment: \<open>adapters/iam/src/local/local-iam.ts\<close> over the tables of the
  schema \<open>identity\<close>, and what the realtime gateway makes of it (\<open>apps/realtime-gateway/src/main.ts\<close>). The
  check of a secret against a stored hash, which the composition root injects, is an argument. Of the
  claims the fields that no reader of the model looks at (skills, products, languages, branch) are left out.
\<close>

section \<open>The tables\<close>

record PrincipalRow =
  pr_principal_id :: UUID
  pr_kind :: PrincipalKind
  pr_employee_id :: "string option"
  pr_username :: "string option"
  pr_display_name :: string
  pr_status :: PrincipalStatus
  pr_department :: "string option"
  pr_manager_id :: "UUID option"
  pr_session_version :: nat
  pr_credential_hash :: "string option"

record MembershipRow =
  mb_principal_id :: UUID
  mb_team_id :: string

record IdentityTeamRow =
  it_team_id :: string
  it_display_name :: string
  it_department :: "string option"

record RoleRow =
  rr_principal_id :: UUID
  rr_role :: string
  rr_scope_kind :: ScopeKind
  rr_scope_id :: "string option"
  rr_effective_from :: Timestamp
  rr_effective_to :: "Timestamp option"
  rr_granted_by :: UUID

record DelegationRow =
  dr_delegation :: Delegation
  dr_revoked_at :: "Timestamp option"

record IdentityDb =
  id_principals :: "PrincipalRow list"
  id_teams :: "IdentityTeamRow list"
  id_memberships :: "MembershipRow list"
  id_role_assignments :: "RoleRow list"
  id_delegations :: "DelegationRow list"

section \<open>Refusals\<close>

definition closed :: "string \<Rightarrow> string \<Rightarrow> AdapterError + 'a" where
  "closed code message =
     Inl \<lparr>er_code = code, er_message = message, er_retryable = False, er_failureClass = FAIL_CLOSED,
          er_correlationId = ''local-iam''\<rparr>"

definition AUTH_REFUSED :: "AdapterError + 'a" where
  "AUTH_REFUSED = closed ''AUTH_FAILED'' ''authentication failed''"

definition principalOf :: "UUID \<Rightarrow> IdentityDb \<Rightarrow> PrincipalRow option" where
  "principalOf who db = find (\<lambda>p. pr_principal_id p = who) (id_principals db)"

section \<open>The loaders\<close>

definition loadTeams :: "UUID \<Rightarrow> IdentityDb \<Rightarrow> TeamRef list" where
  "loadTeams who db =
     concat (map (\<lambda>m. map (\<lambda>t. \<lparr>tf_teamId = it_team_id t, tf_displayName = it_display_name t\<rparr>)
                        (filter (\<lambda>t. it_team_id t = mb_team_id m) (id_teams db)))
       (filter (\<lambda>m. mb_principal_id m = who) (id_memberships db)))"

definition buildScope :: "ScopeKind \<Rightarrow> string option \<Rightarrow> Scope" where
  "buildScope k i = \<lparr>s_kind = k, s_id = i\<rparr>"

definition loadRoles :: "UUID \<Rightarrow> Timestamp \<Rightarrow> IdentityDb \<Rightarrow> RoleAssignment list" where
  "loadRoles who now db =
     map (\<lambda>r. \<lparr>ra_role = rr_role r, ra_scope = buildScope (rr_scope_kind r) (rr_scope_id r),
              ra_effectiveFrom = rr_effective_from r, ra_effectiveTo = rr_effective_to r,
              ra_grantedBy = rr_granted_by r\<rparr>)
       (filter (\<lambda>r. rr_principal_id r = who \<and> isWithinPeriod now (rr_effective_from r) (rr_effective_to r))
         (id_role_assignments db))"

text \<open>A delegation is loaded while it has not ended; whether it has begun is left to the decision.\<close>

definition loadDelegations :: "UUID \<Rightarrow> Timestamp \<Rightarrow> IdentityDb \<Rightarrow> Delegation list" where
  "loadDelegations who now db =
     map dr_delegation
       (filter (\<lambda>r. dl_toPrincipal (dr_delegation r) = who \<and> dr_revoked_at r = None \<and>
                    now < dl_effectiveTo (dr_delegation r))
         (id_delegations db))"

definition MAX_MANAGER_DEPTH :: nat where "MAX_MANAGER_DEPTH = 12"

fun managerChain :: "nat \<Rightarrow> UUID list \<Rightarrow> UUID \<Rightarrow> IdentityDb \<Rightarrow> UUID list" where
  "managerChain 0 seen current db = []"
| "managerChain (Suc depth) seen current db =
     (case Option.bind (principalOf current db) pr_manager_id of
        None \<Rightarrow> []
      | Some m \<Rightarrow> if m \<in> set seen then [] else m # managerChain depth (m # seen) m db)"

definition loadManagerChain :: "UUID \<Rightarrow> IdentityDb \<Rightarrow> UUID list" where
  "loadManagerChain who db = managerChain MAX_MANAGER_DEPTH [who] who db"

definition PRIVILEGED_BY_ROLE :: "(string \<times> string list) list" where
  "PRIVILEGED_BY_ROLE =
    [(''COMPLIANCE'', [''audit.query'', ''privileged.customer.history.read'']),
     (''LEGAL'', [''audit.query'', ''privileged.customer.history.read'']),
     (''GRIEVANCE'', [''privileged.customer.history.read''])]"

definition privilegedCapabilities :: "RoleAssignment list \<Rightarrow> string list" where
  "privilegedCapabilities roles =
     concat (map (\<lambda>r. case map_of PRIVILEGED_BY_ROLE (ra_role r) of None \<Rightarrow> [] | Some cs \<Rightarrow> cs) roles)"

section \<open>The client\<close>

definition resolvePrincipal :: "UUID \<Rightarrow> Timestamp \<Rightarrow> IdentityDb \<Rightarrow> AdapterError + PrincipalClaims" where
  "resolvePrincipal who now db =
     (case principalOf who db of
        None \<Rightarrow> closed ''PRINCIPAL_NOT_FOUND'' ''no such principal''
      | Some p \<Rightarrow>
          if pr_kind p \<noteq> K_EMPLOYEE then closed ''PRINCIPAL_NOT_EMPLOYEE'' ''no such principal''
          else Inr \<lparr>pc_principalId = pr_principal_id p, pc_status = pr_status p,
                    pc_displayName = pr_display_name p, pc_roles = loadRoles who now db,
                    pc_teams = loadTeams who db,
                    pc_department = (case pr_department p of None \<Rightarrow> [] | Some d \<Rightarrow> d),
                    pc_delegations = loadDelegations who now db,
                    pc_sessionVersion = pr_session_version p\<rparr>)"

definition getSessionVersion :: "UUID \<Rightarrow> IdentityDb \<Rightarrow> AdapterError + nat" where
  "getSessionVersion who db =
     (case principalOf who db of
        None \<Rightarrow> closed ''PRINCIPAL_NOT_FOUND'' ''no such principal''
      | Some p \<Rightarrow> Inr (pr_session_version p))"

definition revokeSessions :: "UUID \<Rightarrow> IdentityDb \<Rightarrow> (AdapterError + unit) \<times> IdentityDb" where
  "revokeSessions who db =
     (if list_ex (\<lambda>p. pr_principal_id p = who) (id_principals db)
      then (Inr (), db\<lparr>id_principals :=
              updateWhere (\<lambda>p. pr_principal_id p = who)
                (\<lambda>p. p\<lparr>pr_session_version := pr_session_version p + 1\<rparr>) (id_principals db)\<rparr>)
      else (closed ''PRINCIPAL_NOT_FOUND'' ''no such principal'', db))"

text \<open>ASCII lower case, as the identifiers of the accounts are ASCII.\<close>

definition lowerChar :: "char \<Rightarrow> char" where
  "lowerChar c = (if CHR ''A'' \<le> c \<and> c \<le> CHR ''Z'' then char_of (of_char c + (32::nat)) else c)"

definition toLowerCase :: "string \<Rightarrow> string" where "toLowerCase = map lowerChar"

definition localPart :: "string \<Rightarrow> string" where
  "localPart typed =
     (let before = takeWhile (\<lambda>c. c \<noteq> CHR ''@'') typed
      in if length before < length typed \<and> before \<noteq> [] then before else typed)"

definition identifierOf :: "string \<Rightarrow> string" where
  "identifierOf username = toLowerCase (localPart (trim username))"

definition DUMMY_HASH :: string where
  "DUMMY_HASH = ''$argon2id$v=19$m=19456,t=2,p=1$AAAAAAAAAAAAAAAAAAAAAA$AAAAAAAAAAAAAAAAAAAAAAAAAAAAAAAAAAAAAAAAAAA''"

definition namedBy :: "string \<Rightarrow> PrincipalRow \<Rightarrow> bool" where
  "namedBy identifier p \<longleftrightarrow>
     (map_option toLowerCase (pr_username p) = Some identifier \<or>
      map_option toLowerCase (pr_employee_id p) = Some identifier) \<and> pr_kind p = K_EMPLOYEE"

definition verifyCredential ::
  "(string \<Rightarrow> string \<Rightarrow> bool) \<Rightarrow> string \<Rightarrow> string \<Rightarrow> IdentityDb \<Rightarrow> AdapterError + UUID" where
  "verifyCredential verifySecret username secret db =
     (let found = find (namedBy (identifierOf username)) (id_principals db);
          hash = (case Option.bind found pr_credential_hash of None \<Rightarrow> DUMMY_HASH | Some h \<Rightarrow> h);
          matches = verifySecret secret hash
      in case found of
           None \<Rightarrow> AUTH_REFUSED
         | Some p \<Rightarrow>
             if pr_credential_hash p = None \<or> \<not> matches then AUTH_REFUSED
             else if pr_status p \<noteq> P_ACTIVE then AUTH_REFUSED
             else Inr (pr_principal_id p))"

end
