(* ===== verification/Session.thy ===== *)
theory Session
  imports Signed_Token Local_Iam Js_Date
begin

text \<open>
  Sessions: \<open>packages/security/src/session.ts\<close>. A session is a signed token that is trusted back only
  against the live version of its principal. The identity store is a parameter with the laws of its
  contract (locale \<open>revocable_identity\<close>), which the local adapter and the customer store together
  satisfy; from them the client lemma on revocation follows.
\<close>

section \<open>The types\<close>

datatype Surface = SF_EMPLOYEE | SF_CUSTOMER

record SessionPayload =
  sp_principalId :: UUID
  sp_kind :: PrincipalKind
  sp_surface :: Surface
  sp_sessionVersion :: nat
  sp_issuedAt :: Timestamp
  sp_expiresAt :: Timestamp
  sp_assurance :: "Assurance option"

type_synonym VerifiedSession = SessionPayload

datatype SessionRejection =
    SR_MALFORMED | SR_BAD_SIGNATURE | SR_EXPIRED | SR_REVOKED | SR_PRINCIPAL_UNKNOWN
  | SR_PRINCIPAL_INACTIVE | SR_WRONG_SURFACE

record SessionOptions =
  so_token :: "SessionPayload TokenOptions"
  so_employeeTtlSeconds :: int
  so_customerTtlSeconds :: int

record IssueRequest =
  iq_principalId :: UUID
  iq_kind :: PrincipalKind
  iq_surface :: Surface
  iq_sessionVersion :: nat
  iq_assurance :: "Assurance option"
  iq_ttlSeconds :: "int option"

section \<open>Issue\<close>

definition ttlFor :: "SessionOptions \<Rightarrow> IssueRequest \<Rightarrow> int" where
  "ttlFor opts req =
     (if iq_surface req = SF_CUSTOMER then so_customerTtlSeconds opts
      else case iq_ttlSeconds req of Some s \<Rightarrow> s | None \<Rightarrow> so_employeeTtlSeconds opts)"

definition issuedPayload :: "SessionOptions \<Rightarrow> int \<Rightarrow> IssueRequest \<Rightarrow> SessionPayload" where
  "issuedPayload opts now req =
     \<lparr>sp_principalId = iq_principalId req, sp_kind = iq_kind req, sp_surface = iq_surface req,
      sp_sessionVersion = iq_sessionVersion req, sp_issuedAt = toISOString now,
      sp_expiresAt = toISOString (now + ttlFor opts req * 1000), sp_assurance = iq_assurance req\<rparr>"

definition issueSession :: "SessionOptions \<Rightarrow> int \<Rightarrow> IssueRequest \<Rightarrow> string \<times> SessionPayload" where
  "issueSession opts now req =
     (let payload = issuedPayload opts now req in (signToken (so_token opts) payload, payload))"

section \<open>Verification\<close>

text \<open>
  The two lookups: the claims of an employee and the version of a customer. \<open>None\<close> for the second
  function is a process without a customer reader.
\<close>

record SessionReads =
  sd_resolvePrincipal :: "UUID \<Rightarrow> AdapterError + PrincipalClaims"
  sd_customerVersion :: "(UUID \<Rightarrow> nat option) option"

definition verifySession ::
  "SessionOptions \<Rightarrow> SessionReads \<Rightarrow> int \<Rightarrow> string \<Rightarrow> Surface \<Rightarrow> SessionRejection + VerifiedSession" where
  "verifySession opts reads now token surface =
     (case verifyToken (so_token opts) token of
        Inl reason \<Rightarrow> Inl (if reason = VF_MALFORMED then SR_MALFORMED else SR_BAD_SIGNATURE)
      | Inr payload \<Rightarrow>
          if sp_surface payload \<noteq> surface then Inl SR_WRONG_SURFACE
          else if dateParse (sp_expiresAt payload) \<le> now then Inl SR_EXPIRED
          else if sp_kind payload \<noteq> K_EMPLOYEE
          then (case sd_customerVersion reads of
                  None \<Rightarrow> Inl SR_REVOKED
                | Some versionOf \<Rightarrow>
                    (case versionOf (sp_principalId payload) of
                       None \<Rightarrow> Inl SR_PRINCIPAL_UNKNOWN
                     | Some current \<Rightarrow>
                         if current \<noteq> sp_sessionVersion payload then Inl SR_REVOKED else Inr payload))
          else (case sd_resolvePrincipal reads (sp_principalId payload) of
                  Inl _ \<Rightarrow> Inl SR_PRINCIPAL_UNKNOWN
                | Inr claims \<Rightarrow>
                    if pc_sessionVersion claims \<noteq> sp_sessionVersion payload then Inl SR_REVOKED
                    else if pc_status claims \<noteq> P_ACTIVE then Inl SR_PRINCIPAL_INACTIVE
                    else Inr payload))"

text \<open>The version a verification compares with.\<close>

definition liveVersion :: "SessionReads \<Rightarrow> PrincipalKind \<Rightarrow> UUID \<Rightarrow> nat option" where
  "liveVersion reads kind who =
     (if kind \<noteq> K_EMPLOYEE then Option.bind (sd_customerVersion reads) (\<lambda>f. f who)
      else case sd_resolvePrincipal reads who of Inl _ \<Rightarrow> None | Inr c \<Rightarrow> Some (pc_sessionVersion c))"

lemma verifySession_iff:
  "verifySession opts reads now token surface = Inr s \<longleftrightarrow>
     verifyToken (so_token opts) token = Inr s \<and> sp_surface s = surface \<and> now < dateParse (sp_expiresAt s) \<and>
     liveVersion reads (sp_kind s) (sp_principalId s) = Some (sp_sessionVersion s) \<and>
     (sp_kind s = K_EMPLOYEE \<longrightarrow>
        (\<exists>c. sd_resolvePrincipal reads (sp_principalId s) = Inr c \<and> pc_status c = P_ACTIVE))"
  by (auto simp: verifySession_def liveVersion_def split: sum.splits option.splits if_splits bind_splits)

section \<open>The reads of this deployment\<close>

definition customerVersionOf :: "IdentityDb \<Rightarrow> UUID \<Rightarrow> nat option" where
  "customerVersionOf db who =
     map_option pr_session_version
       (find (\<lambda>p. pr_principal_id p = who \<and> pr_kind p = K_CUSTOMER) (id_principals db))"

definition localReads :: "Timestamp \<Rightarrow> IdentityDb \<Rightarrow> SessionReads" where
  "localReads t db =
     \<lparr>sd_resolvePrincipal = (\<lambda>who. resolvePrincipal who t db),
      sd_customerVersion = Some (customerVersionOf db)\<rparr>"

section \<open>The contract of revocation\<close>

text \<open>
  Revocation of a principal never gives a version it had before, and the versions never go down;
  \<open>reads\<close> is what a verification sees of a store and \<open>revoke\<close> the revocation.
\<close>

locale revocable_identity =
  fixes reads :: "'db \<Rightarrow> SessionReads"
    and revoke :: "UUID \<Rightarrow> 'db \<Rightarrow> 'db"
  assumes revoke_raises:
      "liveVersion (reads db) k who = Some v \<Longrightarrow> liveVersion (reads (revoke who db)) k who = Some w \<Longrightarrow> v < w"
    and revoke_keeps_unknown: "liveVersion (reads db) k who = None \<Longrightarrow> liveVersion (reads (revoke who db)) k who = None"
    and revoke_others: "who' \<noteq> who \<Longrightarrow> liveVersion (reads (revoke who db)) k who' = liveVersion (reads db) k who'"
begin

definition revokeAll :: "UUID list \<Rightarrow> 'db \<Rightarrow> 'db" where
  "revokeAll = fold revoke"

lemma revokeAll_monotone:
  "liveVersion (reads (revokeAll whos db)) k who = Some w \<Longrightarrow>
   \<exists>v. liveVersion (reads db) k who = Some v \<and> (if who \<in> set whos then v < w else v = w)"
proof (induction whos arbitrary: db)
  case (Cons x whos)
  from Cons.prems have "liveVersion (reads (revokeAll whos (revoke x db))) k who = Some w"
    by (simp add: revokeAll_def)
  from Cons.IH[OF this] obtain v where v: "liveVersion (reads (revoke x db)) k who = Some v"
    and vw: "if who \<in> set whos then v < w else v = w" by blast
  show ?case
  proof (cases "who = x")
    case True
    with v revoke_keeps_unknown[of db k who] obtain u where u: "liveVersion (reads db) k who = Some u"
      by (cases "liveVersion (reads db) k who") auto
    from revoke_raises[OF u] v True have "u < v" by blast
    with u vw True show ?thesis by (auto split: if_splits)
  next
    case False
    with v vw revoke_others[of who x] show ?thesis by auto
  qed
qed (simp add: revokeAll_def)

text \<open>A session whose principal is revoked is dead on the next request, for good.\<close>

lemma revoked_session_is_dead:
  assumes "verifySession opts (reads db) now token surface = Inr s"
    and "sp_principalId s \<in> set whos"
  shows "\<not> (\<exists>s'. verifySession opts (reads (revokeAll whos db)) now' token surface' = Inr s')"
proof
  assume "\<exists>s'. verifySession opts (reads (revokeAll whos db)) now' token surface' = Inr s'"
  then obtain s' where s': "verifySession opts (reads (revokeAll whos db)) now' token surface' = Inr s'" ..
  with assms(1) have "s' = s" by (simp add: verifySession_iff)
  with s' have "liveVersion (reads (revokeAll whos db)) (sp_kind s) (sp_principalId s) = Some (sp_sessionVersion s)"
    by (simp add: verifySession_iff)
  from revokeAll_monotone[OF this] assms show False by (auto simp: verifySession_iff split: if_splits)
qed

end

section \<open>The local stores satisfy it\<close>

definition revokeLocal :: "UUID \<Rightarrow> IdentityDb \<Rightarrow> IdentityDb" where
  "revokeLocal who db = snd (revokeSessions who db)"

lemma principalOf_revoke:
  "principalOf who' (revokeLocal who db) =
     map_option (\<lambda>p. if pr_principal_id p = who then p\<lparr>pr_session_version := Suc (pr_session_version p)\<rparr> else p)
       (principalOf who' db)"
proof (cases "list_ex (\<lambda>p. pr_principal_id p = who) (id_principals db)")
  case True
  then show ?thesis by (simp add: revokeLocal_def revokeSessions_def principalOf_def find_updateWhere)
next
  case False
  then have "list_all (\<lambda>p. pr_principal_id p \<noteq> who) (id_principals db)"
    by (simp add: list_ex_iff list_all_iff)
  then have "principalOf who' db = Some p \<Longrightarrow> pr_principal_id p \<noteq> who" for p
    by (auto simp: principalOf_def find_Some_iff list_all_iff)
  with False show ?thesis by (cases "principalOf who' db") (simp_all add: revokeLocal_def revokeSessions_def)
qed

lemma customerVersionOf_revoke:
  "customerVersionOf (revokeLocal who db) who' =
     map_option (\<lambda>v. if who' = who then Suc v else v) (customerVersionOf db who')"
proof (cases "list_ex (\<lambda>p. pr_principal_id p = who) (id_principals db)")
  case True
  have "find Q (id_principals db) = Some p \<Longrightarrow> Q p" for Q p by (auto simp: find_Some_iff)
  note found = this[of "\<lambda>p. pr_principal_id p = who' \<and> pr_kind p = K_CUSTOMER"]
  from True show ?thesis
    by (cases "find (\<lambda>p. pr_principal_id p = who' \<and> pr_kind p = K_CUSTOMER) (id_principals db)")
      (auto simp: revokeLocal_def revokeSessions_def customerVersionOf_def find_updateWhere dest!: found)
next
  case False
  then have none: "p \<in> set (id_principals db) \<Longrightarrow> pr_principal_id p \<noteq> who" for p
    by (auto simp: list_ex_iff)
  have "find (\<lambda>p. pr_principal_id p = who \<and> pr_kind p = K_CUSTOMER) (id_principals db) = None"
    using none by (auto simp: find_None_iff)
  with False show ?thesis
    by (cases "who' = who")
      (simp_all add: revokeLocal_def revokeSessions_def customerVersionOf_def option.map_id0[unfolded id_def])
qed

lemma liveVersion_localReads:
  "liveVersion (localReads t db) k who =
     (if k \<noteq> K_EMPLOYEE then customerVersionOf db who
      else Option.bind (principalOf who db)
             (\<lambda>p. if pr_kind p = K_EMPLOYEE then Some (pr_session_version p) else None))"
  by (auto simp: liveVersion_def localReads_def resolvePrincipal_def closed_def split: option.splits)

lemma principalOf_id: "principalOf who db = Some p \<Longrightarrow> pr_principal_id p = who"
  by (auto simp: principalOf_def find_Some_iff)

lemma liveVersion_revokeLocal:
  "liveVersion (localReads t (revokeLocal who db)) k who' =
     map_option (\<lambda>v. if who' = who then Suc v else v) (liveVersion (localReads t db) k who')"
  by (cases "principalOf who' db")
    (auto simp: liveVersion_localReads customerVersionOf_revoke principalOf_revoke dest: principalOf_id)

interpretation li: revocable_identity "localReads t" revokeLocal
  by unfold_locales (auto simp: liveVersion_revokeLocal option.map_ident)

text \<open>Issue and verification over the codec's own round trip.\<close>

lemma verify_issued:
  assumes "to_stringify (so_token opts) p \<noteq> []" and "to_parse (so_token opts) (to_stringify (so_token opts) p) = Some p"
    and "p = issuedPayload opts now0 req"
  shows "verifyToken (so_token opts) (fst (issueSession opts now0 req)) = Inr p"
  using verifyToken_signed[OF assms(1,2)] assms(3) by (simp add: issueSession_def Let_def)

end
