(* ===== verification/Connection_Manager.thy ===== *)
theory Connection_Manager
  imports Outbox_Relay Authz_Reader Session "HOL-Library.AList"
begin

text \<open>
  The connections of the realtime gateway and their authorization:
  \<open>apps/realtime-gateway/src/connection-manager.ts\<close>. The two maps are association lists in insertion order.
  The reads of one call of \<open>authorizeJoin\<close>, and of one revalidation pass, see one moment: they are functions
  of the dependencies record.
\<close>

section \<open>The types\<close>

record ConnectionIdentity =
  ci_connectionId :: string
  ci_principalId :: UUID
  ci_principalKind :: PrincipalKind
  ci_sessionVersion :: nat
  ci_assurance :: "Assurance option"

datatype JoinRefusal = JR_NOT_AUTHORIZED | JR_UNKNOWN_CHANNEL | JR_SESSION_REVOKED | JR_CHANNEL_FORBIDDEN_FOR_KIND

datatype JoinOutcome = JoinOk | JoinRefused JoinRefusal

record RevalidationOutcome =
  rv_doomed :: "string list"
  rv_revoked :: "(string \<times> string) list"

record ConnectionManagerDeps =
  cm_loadForAuthorization :: "UUID \<Rightarrow> UUID \<Rightarrow> Timestamp \<Rightarrow> ResourceContext option"
  cm_actorFor :: "UUID \<Rightarrow> ActorContext option"
  cm_sessionVersionFor :: "UUID \<Rightarrow> nat option"
  cm_teamFor :: "string \<Rightarrow> TeamContext option"
  cm_now :: Timestamp

record PassCache =
  ps_sessionVersions :: "(UUID \<times> nat option) list"
  ps_actors :: "(UUID \<times> ActorContext option) list"
  ps_resources :: "((UUID \<times> UUID) \<times> ResourceContext option) list"

definition emptyPass :: PassCache where
  "emptyPass = \<lparr>ps_sessionVersions = [], ps_actors = [], ps_resources = []\<rparr>"

type_synonym JoinedChannels = "(string \<times> RealtimeChannel) list"

record ManagerState =
  mg_connections :: "(string \<times> ConnectionIdentity) list"
  mg_joined :: "(string \<times> JoinedChannels) list"

section \<open>The registry\<close>

definition registerConnection :: "ConnectionIdentity \<Rightarrow> ManagerState \<Rightarrow> ManagerState" where
  "registerConnection i st =
     st\<lparr>mg_connections := AList.update (ci_connectionId i) i (mg_connections st),
        mg_joined := AList.update (ci_connectionId i) [] (mg_joined st)\<rparr>"

definition unregisterConnection :: "string \<Rightarrow> ManagerState \<Rightarrow> ManagerState" where
  "unregisterConnection k st =
     st\<lparr>mg_connections := AList.delete k (mg_connections st), mg_joined := AList.delete k (mg_joined st)\<rparr>"

definition connectionOf :: "ManagerState \<Rightarrow> string \<Rightarrow> ConnectionIdentity option" where
  "connectionOf st k = map_of (mg_connections st) k"

definition connectionCount :: "ManagerState \<Rightarrow> nat" where
  "connectionCount st = length (mg_connections st)"

definition joinedOf :: "ManagerState \<Rightarrow> string \<Rightarrow> JoinedChannels" where
  "joinedOf st k = (case map_of (mg_joined st) k of None \<Rightarrow> [] | Some cs \<Rightarrow> cs)"

definition channelsOf :: "ManagerState \<Rightarrow> string \<Rightarrow> string list" where
  "channelsOf st k = map fst (joinedOf st k)"

definition hasJoined :: "ManagerState \<Rightarrow> string \<Rightarrow> string \<Rightarrow> bool" where
  "hasJoined st k key \<longleftrightarrow> map_of (joinedOf st k) key \<noteq> None"

definition isEmployeeConnection :: "ManagerState \<Rightarrow> string \<Rightarrow> bool" where
  "isEmployeeConnection st k \<longleftrightarrow> map_option ci_principalKind (connectionOf st k) = Some K_EMPLOYEE"

definition recordJoin :: "string \<Rightarrow> string \<Rightarrow> RealtimeChannel \<Rightarrow> ManagerState \<Rightarrow> ManagerState" where
  "recordJoin k key channel st =
     (case map_of (mg_joined st) k of
        None \<Rightarrow> st
      | Some cs \<Rightarrow> st\<lparr>mg_joined := AList.update k (AList.update key channel cs) (mg_joined st)\<rparr>)"

definition recordLeave :: "string \<Rightarrow> string \<Rightarrow> ManagerState \<Rightarrow> ManagerState" where
  "recordLeave k key st =
     (case map_of (mg_joined st) k of
        None \<Rightarrow> st
      | Some cs \<Rightarrow> st\<lparr>mg_joined := AList.update k (AList.delete key cs) (mg_joined st)\<rparr>)"

definition mayReceive :: "ManagerState \<Rightarrow> string \<Rightarrow> RealtimeEvent \<Rightarrow> bool" where
  "mayReceive st k ev =
     (case connectionOf st k of
        None \<Rightarrow> False
      | Some i \<Rightarrow> if \<not> re_staffOnly ev then True else ci_principalKind i = K_EMPLOYEE)"

definition connectionsToRevoke :: "ManagerState \<Rightarrow> UUID \<Rightarrow> string list" where
  "connectionsToRevoke st who =
     map fst (filter (\<lambda>(k, i). ci_principalId i = who) (mg_connections st))"

section \<open>Reads memoised for one pass\<close>

definition cachedSessionVersion ::
  "ConnectionManagerDeps \<Rightarrow> UUID \<Rightarrow> PassCache option \<Rightarrow> nat option \<times> PassCache option" where
  "cachedSessionVersion deps who pass =
     (case pass of
        None \<Rightarrow> (cm_sessionVersionFor deps who, None)
      | Some p \<Rightarrow>
          (case map_of (ps_sessionVersions p) who of
             Some v \<Rightarrow> (v, pass)
           | None \<Rightarrow> let v = cm_sessionVersionFor deps who
                     in (v, Some (p\<lparr>ps_sessionVersions := AList.update who v (ps_sessionVersions p)\<rparr>))))"

definition cachedActor ::
  "ConnectionManagerDeps \<Rightarrow> UUID \<Rightarrow> PassCache option \<Rightarrow> ActorContext option \<times> PassCache option" where
  "cachedActor deps who pass =
     (case pass of
        None \<Rightarrow> (cm_actorFor deps who, None)
      | Some p \<Rightarrow>
          (case map_of (ps_actors p) who of
             Some v \<Rightarrow> (v, pass)
           | None \<Rightarrow> let v = cm_actorFor deps who
                     in (v, Some (p\<lparr>ps_actors := AList.update who v (ps_actors p)\<rparr>))))"

definition cachedResource ::
  "ConnectionManagerDeps \<Rightarrow> UUID \<Rightarrow> UUID \<Rightarrow> PassCache option \<Rightarrow> ResourceContext option \<times> PassCache option" where
  "cachedResource deps cid who pass =
     (case pass of
        None \<Rightarrow> (cm_loadForAuthorization deps cid who (cm_now deps), None)
      | Some p \<Rightarrow>
          (case map_of (ps_resources p) (cid, who) of
             Some v \<Rightarrow> (v, pass)
           | None \<Rightarrow> let v = cm_loadForAuthorization deps cid who (cm_now deps)
                     in (v, Some (p\<lparr>ps_resources := AList.update (cid, who) v (ps_resources p)\<rparr>))))"

section \<open>Authorization of a join\<close>

definition actorWithAssurance :: "ConnectionIdentity \<Rightarrow> ActorContext \<Rightarrow> ActorContext" where
  "actorWithAssurance i a =
     (case ci_assurance i of None \<Rightarrow> a | Some s \<Rightarrow> a\<lparr>a_assurance := Some s\<rparr>)"

definition joinRequest ::
  "ConnectionManagerDeps \<Rightarrow> ConnectionIdentity \<Rightarrow> ActorContext \<Rightarrow> ResourceContext \<Rightarrow> DecisionRequest" where
  "joinRequest deps i a r =
     \<lparr>q_actor = actorWithAssurance i a, q_action = ''conversation.read'', q_resource = r, q_now = cm_now deps,
      q_requiredAssurance = (if ci_principalKind i = K_CUSTOMER then Some PSEUDONYMOUS else None),
      q_targetVisibility = None\<rparr>"

definition teamJoin :: "ConnectionManagerDeps \<Rightarrow> ConnectionIdentity \<Rightarrow> string \<Rightarrow> JoinOutcome" where
  "teamJoin deps i t =
     (if ci_principalKind i \<noteq> K_EMPLOYEE then JoinRefused JR_NOT_AUTHORIZED
      else case cm_teamFor deps t of
             None \<Rightarrow> JoinRefused JR_NOT_AUTHORIZED
           | Some team \<Rightarrow>
               (case cm_actorFor deps (ci_principalId i) of
                  None \<Rightarrow> JoinRefused JR_NOT_AUTHORIZED
                | Some a \<Rightarrow>
                    if allow (decideForTeam \<lparr>tr_actor = a, tr_action = ''queue.read'', tr_team = team,
                                            tr_now = cm_now deps\<rparr>)
                    then JoinOk else JoinRefused JR_NOT_AUTHORIZED))"

definition conversationJoin ::
  "ConnectionManagerDeps \<Rightarrow> ConnectionIdentity \<Rightarrow> UUID \<Rightarrow> PassCache option \<Rightarrow> JoinOutcome \<times> PassCache option" where
  "conversationJoin deps i cid pass =
     (let (resource, pass1) = cachedResource deps cid (ci_principalId i) pass
      in case resource of
           None \<Rightarrow> (JoinRefused JR_NOT_AUTHORIZED, pass1)
         | Some r \<Rightarrow>
             let (resolved, pass2) = cachedActor deps (ci_principalId i) pass1
             in case resolved of
                  None \<Rightarrow> (JoinRefused JR_NOT_AUTHORIZED, pass2)
                | Some a \<Rightarrow>
                    (if allow (decide (joinRequest deps i a r)) then JoinOk else JoinRefused JR_NOT_AUTHORIZED,
                     pass2))"

definition isConversationChannel :: "RealtimeChannel \<Rightarrow> bool" where
  "isConversationChannel channel = (case channel of RT_CONVERSATION _ \<Rightarrow> True | _ \<Rightarrow> False)"

definition authorizeJoin ::
  "ConnectionManagerDeps \<Rightarrow> ManagerState \<Rightarrow> string \<Rightarrow> RealtimeChannel \<Rightarrow> PassCache option \<Rightarrow>
   JoinOutcome \<times> PassCache option" where
  "authorizeJoin deps st k channel pass =
     (case connectionOf st k of
        None \<Rightarrow> (JoinRefused JR_SESSION_REVOKED, pass)
      | Some i \<Rightarrow>
          let (liveVersion, pass1) = cachedSessionVersion deps (ci_principalId i) pass
          in if liveVersion \<noteq> Some (ci_sessionVersion i) then (JoinRefused JR_SESSION_REVOKED, pass1)
             else if ci_principalKind i = K_CUSTOMER \<and> \<not> isConversationChannel channel
             then (JoinRefused JR_CHANNEL_FORBIDDEN_FOR_KIND, pass1)
             else case channel of
                    RT_PRINCIPAL p \<Rightarrow>
                      (if p \<noteq> ci_principalId i then JoinRefused JR_NOT_AUTHORIZED else JoinOk, pass1)
                  | RT_CONVERSATION cid \<Rightarrow> conversationJoin deps i cid pass1
                  | RT_TEAM t \<Rightarrow> (teamJoin deps i t, pass1)
                  | RT_CONTROL \<Rightarrow> (JoinRefused JR_CHANNEL_FORBIDDEN_FOR_KIND, pass1))"

section \<open>Revalidation\<close>

fun revalidateChannels ::
  "ConnectionManagerDeps \<Rightarrow> ManagerState \<Rightarrow> string \<Rightarrow> JoinedChannels \<Rightarrow> PassCache option \<Rightarrow>
   (string \<times> string) list \<times> PassCache option" where
  "revalidateChannels deps st k [] pass = ([], pass)"
| "revalidateChannels deps st k ((key, channel) # rest) pass =
     (let (outcome, pass1) = authorizeJoin deps st k channel pass;
          (revoked, pass2) = revalidateChannels deps st k rest pass1
      in (if outcome \<noteq> JoinOk then (k, key) # revoked else revoked, pass2))"

fun revalidateConnections ::
  "ConnectionManagerDeps \<Rightarrow> ManagerState \<Rightarrow> (string \<times> ConnectionIdentity) list \<Rightarrow> PassCache option \<Rightarrow>
   RevalidationOutcome \<times> PassCache option" where
  "revalidateConnections deps st [] pass = (\<lparr>rv_doomed = [], rv_revoked = []\<rparr>, pass)"
| "revalidateConnections deps st ((k, i) # rest) pass =
     (let (liveVersion, pass1) = cachedSessionVersion deps (ci_principalId i) pass
      in if liveVersion \<noteq> Some (ci_sessionVersion i)
         then let (out, pass2) = revalidateConnections deps st rest pass1
              in (out\<lparr>rv_doomed := k # rv_doomed out\<rparr>, pass2)
         else let (revoked, pass2) = revalidateChannels deps st k (joinedOf st k) pass1;
                  (out, pass3) = revalidateConnections deps st rest pass2
              in (out\<lparr>rv_revoked := revoked @ rv_revoked out\<rparr>, pass3))"

definition revalidateAll :: "ConnectionManagerDeps \<Rightarrow> ManagerState \<Rightarrow> RevalidationOutcome" where
  "revalidateAll deps st = fst (revalidateConnections deps st (mg_connections st) (Some emptyPass))"

section \<open>The dependencies of the process (main.ts)\<close>

definition contextFor :: "string \<Rightarrow> IdentityDb \<Rightarrow> TeamContext option" where
  "contextFor t db =
     map_option (\<lambda>r. \<lparr>tm_teamId = it_team_id r, tm_department = it_department r\<rparr>)
       (find (\<lambda>r. it_team_id r = t) (id_teams db))"

definition gatewayDeps :: "Timestamp \<Rightarrow> Db \<Rightarrow> IdentityDb \<Rightarrow> ConnectionManagerDeps" where
  "gatewayDeps now db ids =
     \<lparr>cm_loadForAuthorization = (\<lambda>cid who t. loadForAuthorization cid who t db),
      cm_actorFor = (\<lambda>who. case resolvePrincipal who now ids of Inl _ \<Rightarrow> None | Inr c \<Rightarrow> Some (toActorContext c)),
      cm_sessionVersionFor = (\<lambda>who. case getSessionVersion who ids of Inl _ \<Rightarrow> None | Inr v \<Rightarrow> Some v),
      cm_teamFor = (\<lambda>t. contextFor t ids), cm_now = now\<rparr>"

section \<open>The plain pass\<close>

text \<open>What a pass without a cache would answer: every question asked afresh.\<close>

definition mayJoin :: "ConnectionManagerDeps \<Rightarrow> ManagerState \<Rightarrow> string \<Rightarrow> RealtimeChannel \<Rightarrow> bool" where
  "mayJoin deps st k channel \<longleftrightarrow> fst (authorizeJoin deps st k channel None) = JoinOk"

definition agreesWith :: "ConnectionManagerDeps \<Rightarrow> PassCache \<Rightarrow> bool" where
  "agreesWith deps p \<longleftrightarrow>
     (\<forall>who v. map_of (ps_sessionVersions p) who = Some v \<longrightarrow> v = cm_sessionVersionFor deps who) \<and>
     (\<forall>who v. map_of (ps_actors p) who = Some v \<longrightarrow> v = cm_actorFor deps who) \<and>
     (\<forall>cid who v. map_of (ps_resources p) (cid, who) = Some v \<longrightarrow>
        v = cm_loadForAuthorization deps cid who (cm_now deps))"

definition honest :: "ConnectionManagerDeps \<Rightarrow> PassCache option \<Rightarrow> bool" where
  "honest deps pass \<longleftrightarrow> (case pass of None \<Rightarrow> True | Some p \<Rightarrow> agreesWith deps p)"

lemma honest_start: "honest deps (Some emptyPass)" "honest deps None"
  by (simp_all add: honest_def agreesWith_def emptyPass_def)

lemma cachedSessionVersion_honest:
  assumes "honest deps pass"
  shows "fst (cachedSessionVersion deps who pass) = cm_sessionVersionFor deps who"
    and "honest deps (snd (cachedSessionVersion deps who pass))"
  using assms by (auto simp: cachedSessionVersion_def honest_def agreesWith_def update_conv' Let_def
      split: option.splits if_splits)

lemma cachedActor_honest:
  assumes "honest deps pass"
  shows "fst (cachedActor deps who pass) = cm_actorFor deps who"
    and "honest deps (snd (cachedActor deps who pass))"
  using assms by (auto simp: cachedActor_def honest_def agreesWith_def update_conv' Let_def
      split: option.splits if_splits)

lemma cachedResource_honest:
  assumes "honest deps pass"
  shows "fst (cachedResource deps cid who pass) = cm_loadForAuthorization deps cid who (cm_now deps)"
    and "honest deps (snd (cachedResource deps cid who pass))"
  using assms by (auto simp: cachedResource_def honest_def agreesWith_def update_conv' Let_def
      split: option.splits if_splits)

end
