(* ===== verification/Connection_Facts.thy ===== *)
theory Connection_Facts
  imports Connection_Manager
begin

text \<open>
  Facts about the connection registry: the memoised pass answers what fresh questions would answer, the
  registry stays well formed, and what a pass leaves behind may be joined at its moment.
\<close>

section \<open>A memoised pass is a plain pass\<close>

lemma conversationJoin_honest:
  assumes "honest deps pass"
  shows "fst (conversationJoin deps i cid pass) = fst (conversationJoin deps i cid None)"
    and "honest deps (snd (conversationJoin deps i cid pass))"
  using cachedResource_honest[OF assms, of cid "ci_principalId i"]
    cachedResource_honest[OF honest_start(2), of deps cid "ci_principalId i"]
    cachedActor_honest[OF cachedResource_honest(2)[OF assms, of cid "ci_principalId i"], of "ci_principalId i"]
    cachedActor_honest[OF cachedResource_honest(2)[OF honest_start(2), of deps cid "ci_principalId i"], of "ci_principalId i"]
  by (auto simp: conversationJoin_def case_prod_beta split: option.splits)

lemma authorizeJoin_honest:
  assumes "honest deps pass"
  shows "fst (authorizeJoin deps st k channel pass) = fst (authorizeJoin deps st k channel None)"
    and "honest deps (snd (authorizeJoin deps st k channel pass))"
proof -
  have "fst (authorizeJoin deps st k channel pass) = fst (authorizeJoin deps st k channel None) \<and>
    honest deps (snd (authorizeJoin deps st k channel pass))"
  proof (cases "connectionOf st k")
    case None
    with assms show ?thesis by (simp add: authorizeJoin_def)
  next
    case (Some i)
    let ?p = "cachedSessionVersion deps (ci_principalId i) pass"
    let ?q = "cachedSessionVersion deps (ci_principalId i) None"
    have p: "fst ?p = fst ?q" "honest deps (snd ?p)" "honest deps (snd ?q)"
      using cachedSessionVersion_honest[OF assms] cachedSessionVersion_honest[OF honest_start(2)[of deps]]
      by simp_all
    show ?thesis
      using p conversationJoin_honest[OF p(2), of i] conversationJoin_honest[OF p(3), of i] Some
      by (cases channel) (auto simp: authorizeJoin_def case_prod_beta)
  qed
  then show "fst (authorizeJoin deps st k channel pass) = fst (authorizeJoin deps st k channel None)"
    and "honest deps (snd (authorizeJoin deps st k channel pass))" by blast+
qed

lemma revalidateChannels_plain:
  assumes "honest deps pass"
  shows "fst (revalidateChannels deps st k cs pass) =
      map (\<lambda>(key, ch). (k, key)) (filter (\<lambda>(key, ch). \<not> mayJoin deps st k ch) cs) \<and>
    honest deps (snd (revalidateChannels deps st k cs pass))"
  using assms
proof (induction cs arbitrary: pass)
  case (Cons c cs)
  obtain key ch where c: "c = (key, ch)" by (cases c)
  have h: "honest deps (snd (authorizeJoin deps st k ch pass))"
    and o: "fst (authorizeJoin deps st k ch pass) = JoinOk \<longleftrightarrow> mayJoin deps st k ch"
    using authorizeJoin_honest[OF Cons.prems] by (simp_all add: mayJoin_def)
  show ?case using Cons.IH[OF h] o by (simp add: c case_prod_beta)
qed simp

text \<open>The reference: every question asked afresh, connection by connection.\<close>

definition staleConnection :: "ConnectionManagerDeps \<Rightarrow> ConnectionIdentity \<Rightarrow> bool" where
  "staleConnection deps i \<longleftrightarrow> cm_sessionVersionFor deps (ci_principalId i) \<noteq> Some (ci_sessionVersion i)"

definition plainPass :: "ConnectionManagerDeps \<Rightarrow> ManagerState \<Rightarrow> (string \<times> ConnectionIdentity) list \<Rightarrow> RevalidationOutcome" where
  "plainPass deps st conns =
     \<lparr>rv_doomed = map fst (filter (\<lambda>(k, i). staleConnection deps i) conns),
      rv_revoked = concat (map (\<lambda>(k, i). if staleConnection deps i then []
         else map (\<lambda>(key, ch). (k, key)) (filter (\<lambda>(key, ch). \<not> mayJoin deps st k ch) (joinedOf st k))) conns)\<rparr>"

lemma revalidateConnections_plain:
  assumes "honest deps pass"
  shows "fst (revalidateConnections deps st conns pass) = plainPass deps st conns"
  using assms
proof (induction conns arbitrary: pass)
  case (Cons c conns)
  obtain k i where c: "c = (k, i)" by (cases c)
  have v: "fst (cachedSessionVersion deps (ci_principalId i) pass) = cm_sessionVersionFor deps (ci_principalId i)"
    and h: "honest deps (snd (cachedSessionVersion deps (ci_principalId i) pass))"
    using cachedSessionVersion_honest[OF Cons.prems] by auto
  show ?case
    using Cons.IH[OF h] v revalidateChannels_plain[OF h, of st k "joinedOf st k"]
      Cons.IH[OF conjunct2[OF revalidateChannels_plain[OF h, of st k "joinedOf st k"]]]
    by (simp add: c case_prod_beta plainPass_def staleConnection_def)
qed (simp add: plainPass_def)

lemma revalidateAll_plain: "revalidateAll deps st = plainPass deps st (mg_connections st)"
  unfolding revalidateAll_def by (rule revalidateConnections_plain[OF honest_start(1)])

section \<open>The registry is well formed\<close>

text \<open>
  Every connection has a set of joined channels, each under its own key, and no customer has joined
  anything but a conversation.
\<close>

definition wfJoined :: "ConnectionIdentity \<Rightarrow> JoinedChannels \<Rightarrow> bool" where
  "wfJoined i cs \<longleftrightarrow> distinct (map fst cs) \<and>
     (\<forall>key ch. map_of cs key = Some ch \<longrightarrow> key = channelKey ch \<and>
        (ci_principalKind i = K_CUSTOMER \<longrightarrow> isConversationChannel ch))"

definition wfManager :: "ManagerState \<Rightarrow> bool" where
  "wfManager st \<longleftrightarrow>
     distinct (map fst (mg_connections st)) \<and> distinct (map fst (mg_joined st)) \<and>
     (\<forall>k. map_of (mg_joined st) k = None \<longleftrightarrow> map_of (mg_connections st) k = None) \<and>
     (\<forall>k i. connectionOf st k = Some i \<longrightarrow> ci_connectionId i = k \<and> wfJoined i (joinedOf st k))"

lemma joined_None_iff: "wfManager st \<Longrightarrow> map_of (mg_joined st) k = None \<longleftrightarrow> connectionOf st k = None"
  unfolding wfManager_def connectionOf_def by blast

lemma joinedOf_unregistered:
  "wfManager st \<Longrightarrow> connectionOf st k = None \<Longrightarrow> joinedOf st k = []"
  using joined_None_iff[of st k] by (simp add: joinedOf_def)

lemma joined_registered:
  "wfManager st \<Longrightarrow> connectionOf st k = Some i \<Longrightarrow> \<exists>cs. map_of (mg_joined st) k = Some cs \<and> joinedOf st k = cs"
  using joined_None_iff[of st k] by (cases "map_of (mg_joined st) k") (simp_all add: joinedOf_def)

lemma wfManager_register:
  assumes "wfManager st"
  shows "wfManager (registerConnection i st)"
  using assms by (auto simp: wfManager_def registerConnection_def connectionOf_def joinedOf_def distinct_update
      update_conv' wfJoined_def simp del: map_of_eq_Some_iff)

lemma wfManager_unregister:
  assumes "wfManager st"
  shows "wfManager (unregisterConnection k st)"
  using assms
  by (auto simp: wfManager_def unregisterConnection_def connectionOf_def joinedOf_def distinct_delete
      delete_conv' simp del: map_of_eq_Some_iff split: if_splits)

lemma map_of_joined_update:
  assumes "map_of (mg_joined st) k = Some cs"
  shows "joinedOf (st\<lparr>mg_joined := AList.update k cs' (mg_joined st)\<rparr>) k' = (if k' = k then cs' else joinedOf st k')"
  using assms by (auto simp: joinedOf_def update_conv')

lemma wfJoined_update:
  "wfJoined i cs \<Longrightarrow> ci_principalKind i = K_CUSTOMER \<longrightarrow> isConversationChannel ch \<Longrightarrow>
   wfJoined i (AList.update (channelKey ch) ch cs)"
  by (auto simp: wfJoined_def distinct_update update_conv' simp del: map_of_eq_Some_iff split: if_splits)

lemma wfJoined_delete: "wfJoined i cs \<Longrightarrow> wfJoined i (AList.delete key cs)"
  by (auto simp: wfJoined_def distinct_delete delete_conv' simp del: map_of_eq_Some_iff split: if_splits)

lemma wfManager_joined:
  assumes wf: "wfManager st" and cs: "map_of (mg_joined st) k = Some cs"
    and new: "\<And>i. connectionOf st k = Some i \<Longrightarrow> wfJoined i cs \<Longrightarrow> wfJoined i cs'"
  shows "wfManager (st\<lparr>mg_joined := AList.update k cs' (mg_joined st)\<rparr>)"
proof -
  have here: "joinedOf st k = cs" using cs by (simp add: joinedOf_def)
  from wf cs joined_None_iff[of st k] obtain i where i: "connectionOf st k = Some i" by (cases "connectionOf st k") auto
  with wf here have "wfJoined i cs" by (auto simp: wfManager_def)
  then have cs': "wfJoined i cs'" by (rule new[OF i])
  let ?st = "st\<lparr>mg_joined := AList.update k cs' (mg_joined st)\<rparr>"
  have "map_of (mg_joined ?st) k' = None \<longleftrightarrow> map_of (mg_connections ?st) k' = None" for k'
    using joined_None_iff[OF wf, of k'] i by (auto simp: update_conv' connectionOf_def simp del: map_of_eq_Some_iff)
  moreover have "ci_connectionId i' = k' \<and> wfJoined i' (joinedOf ?st k')" if "connectionOf ?st k' = Some i'" for k' i'
    using that wf i cs' unfolding wfManager_def map_of_joined_update[OF cs]
    by (auto simp: connectionOf_def simp del: map_of_eq_Some_iff)
  ultimately show ?thesis using wf by (auto simp: wfManager_def distinct_update)
qed

lemma wfManager_recordJoin:
  assumes "wfManager st" and "\<And>i. connectionOf st k = Some i \<Longrightarrow> ci_principalKind i = K_CUSTOMER \<Longrightarrow> isConversationChannel ch"
  shows "wfManager (recordJoin k (channelKey ch) ch st)"
  using assms by (auto simp: recordJoin_def split: option.splits intro!: wfManager_joined wfJoined_update)

lemma wfManager_recordLeave: "wfManager st \<Longrightarrow> wfManager (recordLeave k key st)"
  by (auto simp: recordLeave_def split: option.splits intro!: wfManager_joined wfJoined_delete)

lemma connectionOf_simps [simp]:
  "connectionOf (recordJoin k key ch st) = connectionOf st"
  "connectionOf (recordLeave k key st) = connectionOf st"
  by (auto simp: connectionOf_def recordJoin_def recordLeave_def fun_eq_iff split: option.splits)

lemma connectionOf_register:
  "connectionOf (registerConnection i st) k = (if k = ci_connectionId i then Some i else connectionOf st k)"
  by (auto simp: connectionOf_def registerConnection_def update_conv')

lemma connectionOf_unregister:
  "connectionOf (unregisterConnection k st) k' = (if k' = k then None else connectionOf st k')"
  by (auto simp: connectionOf_def unregisterConnection_def delete_conv')

lemma hasJoined_recordJoin:
  "wfManager st \<Longrightarrow> connectionOf st k = Some i \<Longrightarrow>
   hasJoined (recordJoin k key ch st) k' key' \<longleftrightarrow> k' = k \<and> key' = key \<or> hasJoined st k' key'"
  using joined_registered[of st k i]
  by (auto simp: hasJoined_def recordJoin_def map_of_joined_update update_conv' split: if_splits)

lemma hasJoined_recordLeave:
  "wfManager st \<Longrightarrow> hasJoined (recordLeave k key st) k' key' \<longleftrightarrow> \<not> (k' = k \<and> key' = key) \<and> hasJoined st k' key'"
proof -
  assume wf: "wfManager st"
  show ?thesis
  proof (cases "map_of (mg_joined st) k")
    case None
    then have "joinedOf st k = []" by (simp add: joinedOf_def)
    with None show ?thesis by (auto simp: hasJoined_def recordLeave_def)
  next
    case (Some cs)
    then have "joinedOf st k = cs" by (simp add: joinedOf_def)
    moreover have "joinedOf (recordLeave k key st) k' = (if k' = k then AList.delete key cs else joinedOf st k')"
      using Some by (simp add: recordLeave_def map_of_joined_update[OF Some])
    ultimately show ?thesis by (simp add: hasJoined_def delete_conv')
  qed
qed

lemma hasJoined_unregister:
  "hasJoined (unregisterConnection k st) k' key \<longleftrightarrow> k' \<noteq> k \<and> hasJoined st k' key"
  by (auto simp: hasJoined_def joinedOf_def unregisterConnection_def delete_conv' split: option.splits)

lemma hasJoined_register:
  "hasJoined (registerConnection i st) k key \<longleftrightarrow> k \<noteq> ci_connectionId i \<and> hasJoined st k key"
  by (auto simp: hasJoined_def joinedOf_def registerConnection_def update_conv' split: option.splits)

lemma hasJoined_connected: "wfManager st \<Longrightarrow> hasJoined st k key \<Longrightarrow> \<exists>i. connectionOf st k = Some i"
  using joinedOf_unregistered[of st k] by (cases "connectionOf st k") (auto simp: hasJoined_def)

lemma hasJoined_channel:
  assumes "wfManager st" and "hasJoined st k key"
  obtains i ch where "connectionOf st k = Some i" and "map_of (joinedOf st k) key = Some ch" and "key = channelKey ch"
    and "ci_principalKind i = K_CUSTOMER \<longrightarrow> isConversationChannel ch"
proof -
  from hasJoined_connected[OF assms] obtain i where i: "connectionOf st k = Some i" ..
  from assms(2) obtain ch where "map_of (joinedOf st k) key = Some ch" by (auto simp: hasJoined_def)
  moreover from assms(1) i have "wfJoined i (joinedOf st k)" unfolding wfManager_def by blast
  then have "map_of (joinedOf st k) key = Some ch \<longrightarrow> key = channelKey ch \<and>
      (ci_principalKind i = K_CUSTOMER \<longrightarrow> isConversationChannel ch)"
    unfolding wfJoined_def by blast
  ultimately show ?thesis using that[OF i] by blast
qed

section \<open>Who may join what\<close>

lemma mayJoin_session:
  "mayJoin deps st k ch \<Longrightarrow>
   \<exists>i. connectionOf st k = Some i \<and> cm_sessionVersionFor deps (ci_principalId i) = Some (ci_sessionVersion i) \<and>
       (ci_principalKind i = K_CUSTOMER \<longrightarrow> isConversationChannel ch) \<and> ch \<noteq> RT_CONTROL"
  by (auto simp: mayJoin_def authorizeJoin_def cachedSessionVersion_def split: option.splits if_splits prod.splits)

text \<open>A join looks at the registry only for the identity of the connection.\<close>

lemma mayJoin_cong: "connectionOf st k = connectionOf st' k \<Longrightarrow> mayJoin deps st k ch = mayJoin deps st' k ch"
  by (simp add: mayJoin_def authorizeJoin_def)

end
