(* ===== verification/Realtime_Backplane.thy ===== *)
theory Realtime_Backplane
  imports Outbox_Relay "HOL-Library.AList"
begin

text \<open>
  The in-process backplane and presence store of the realtime gateway:
  \<open>adapters/realtime-backplane/src/in-process/\<close>. A subscriber, which the code compares by reference, is a
  number; what a callback does is the business of whoever subscribed. The locale \<open>backplane\<close> states what
  the gateway relies on.
\<close>

section \<open>Channels\<close>

type_synonym Backplane = "(string \<times> nat list) list"

definition subscribersOf :: "Backplane \<Rightarrow> string \<Rightarrow> nat list" where
  "subscribersOf bp key = (case map_of bp key of None \<Rightarrow> [] | Some s \<Rightarrow> s)"

definition bpSubscribe :: "RealtimeChannel \<Rightarrow> nat \<Rightarrow> Backplane \<Rightarrow> Backplane" where
  "bpSubscribe channel sub bp =
     (let key = channelKey channel
      in AList.update key (List.insert sub (subscribersOf bp key)) bp)"

definition bpRelease :: "RealtimeChannel \<Rightarrow> nat \<Rightarrow> Backplane \<Rightarrow> Backplane" where
  "bpRelease channel sub bp =
     (let key = channelKey channel
      in case map_of bp key of
           None \<Rightarrow> bp
         | Some s \<Rightarrow> let s' = removeAll sub s
                     in if s' = [] then AList.delete key bp else AList.update key s' bp)"

text \<open>Who is called for an event; a subscriber that throws does not keep the others from being called.\<close>

definition bpPublish :: "RealtimeEvent \<Rightarrow> Backplane \<Rightarrow> nat list" where
  "bpPublish ev bp = subscribersOf bp (channelKey (re_channel ev))"

definition localSubscriberCount :: "Backplane \<Rightarrow> nat" where
  "localSubscriberCount bp = sum_list (map (\<lambda>(key, s). length s) bp)"

text \<open>The contract: an event reaches the subscribers of its own channel and nobody else.\<close>

locale backplane =
  fixes sub_op :: "RealtimeChannel \<Rightarrow> nat \<Rightarrow> 'b \<Rightarrow> 'b"
    and rel_op :: "RealtimeChannel \<Rightarrow> nat \<Rightarrow> 'b \<Rightarrow> 'b"
    and pub_op :: "RealtimeEvent \<Rightarrow> 'b \<Rightarrow> nat list"
  assumes sub_reaches: "set (pub_op ev (sub_op c s b)) = set (pub_op ev b) \<union> (if re_channel ev = c then {s} else {})"
    and rel_reaches: "set (pub_op ev (rel_op c s b)) = set (pub_op ev b) - (if re_channel ev = c then {s} else {})"
begin

definition replay :: "(RealtimeChannel \<times> nat \<times> bool) list \<Rightarrow> 'b \<Rightarrow> 'b" where
  "replay = fold (\<lambda>(c, s, on). if on then sub_op c s else rel_op c s)"

lemma replay_Cons: "replay ((c, s, on) # ops) b = replay ops (if on then sub_op c s b else rel_op c s b)"
  by (simp add: replay_def)

text \<open>Whatever happened, the last word on a subscriber decides.\<close>

lemma last_word_decides:
  assumes "list_all (\<lambda>(c', s', on). (c', s') \<noteq> (c, s)) rest" and "re_channel ev = c"
  shows "s \<in> set (pub_op ev (replay (pre @ (c, s, on) # rest) b)) \<longleftrightarrow> on"
proof -
  have "s \<in> set (pub_op ev (replay rest b')) \<longleftrightarrow> s \<in> set (pub_op ev b')" for b'
    using assms(1)
  proof (induction rest arbitrary: b')
    case (Cons op rest)
    obtain c' s' on' where op: "op = (c', s', on')" by (cases op)
    with Cons show ?case using assms(2) by (auto simp: replay_Cons sub_reaches rel_reaches)
  qed (simp add: replay_def)
  moreover have "replay (pre @ (c, s, on) # rest) b = replay rest (replay [(c, s, on)] (replay pre b))"
    by (simp add: replay_def)
  ultimately show ?thesis using assms(2) by (simp add: replay_def sub_reaches rel_reaches)
qed

end

lemma subscribersOf_subscribe:
  "subscribersOf (bpSubscribe c s bp) key =
     (if key = channelKey c then List.insert s (subscribersOf bp key) else subscribersOf bp key)"
  by (auto simp: subscribersOf_def bpSubscribe_def Let_def update_conv')

lemma subscribersOf_release:
  "subscribersOf (bpRelease c s bp) key =
     (if key = channelKey c then removeAll s (subscribersOf bp key) else subscribersOf bp key)"
  by (auto simp: subscribersOf_def bpRelease_def Let_def update_conv' delete_conv' split: option.splits)

interpretation ip: backplane bpSubscribe bpRelease bpPublish
  by unfold_locales (auto simp: bpPublish_def subscribersOf_subscribe subscribersOf_release)

section \<open>Presence and typing\<close>

datatype PresenceState = PRS_ONLINE | PRS_AWAY | PRS_BUSY | PRS_OFFLINE

record Lease =
  le_state :: PresenceState
  le_expiresAtMs :: int

record PresenceRecord =
  pp_principalId :: UUID
  pp_state :: PresenceState
  pp_expiresAt :: Timestamp

record Presence =
  pn_presence :: "(UUID \<times> Lease) list"
  pn_typing :: "(UUID \<times> (UUID \<times> int) list) list"

definition heartbeat :: "int \<Rightarrow> UUID \<Rightarrow> PresenceState \<Rightarrow> int \<Rightarrow> Presence \<Rightarrow> Presence" where
  "heartbeat now who s ttlSeconds p =
     p\<lparr>pn_presence := AList.update who \<lparr>le_state = s, le_expiresAtMs = now + ttlSeconds * 1000\<rparr> (pn_presence p)\<rparr>"

definition clearPresence :: "UUID \<Rightarrow> Presence \<Rightarrow> Presence" where
  "clearPresence who p = p\<lparr>pn_presence := AList.delete who (pn_presence p)\<rparr>"

definition presenceRecord :: "int \<Rightarrow> Presence \<Rightarrow> UUID \<Rightarrow> PresenceRecord" where
  "presenceRecord now p who =
     (case map_of (pn_presence p) who of
        None \<Rightarrow> \<lparr>pp_principalId = who, pp_state = PRS_OFFLINE, pp_expiresAt = toISOString now\<rparr>
      | Some l \<Rightarrow>
          if le_expiresAtMs l \<le> now
          then \<lparr>pp_principalId = who, pp_state = PRS_OFFLINE, pp_expiresAt = toISOString now\<rparr>
          else \<lparr>pp_principalId = who, pp_state = le_state l, pp_expiresAt = toISOString (le_expiresAtMs l)\<rparr>)"

definition getPresence :: "int \<Rightarrow> UUID list \<Rightarrow> Presence \<Rightarrow> PresenceRecord list" where
  "getPresence now whos p = map (presenceRecord now p) whos"

definition roomOf :: "Presence \<Rightarrow> UUID \<Rightarrow> (UUID \<times> int) list" where
  "roomOf p cid = (case map_of (pn_typing p) cid of None \<Rightarrow> [] | Some r \<Rightarrow> r)"

definition setTyping :: "int \<Rightarrow> UUID \<Rightarrow> UUID \<Rightarrow> int \<Rightarrow> Presence \<Rightarrow> Presence" where
  "setTyping now cid who ttlSeconds p =
     p\<lparr>pn_typing := AList.update cid (AList.update who (now + ttlSeconds * 1000) (roomOf p cid)) (pn_typing p)\<rparr>"

text \<open>Reading the typists drops the ones whose signal has lapsed.\<close>

definition getTyping :: "int \<Rightarrow> UUID \<Rightarrow> Presence \<Rightarrow> UUID list \<times> Presence" where
  "getTyping now cid p =
     (case map_of (pn_typing p) cid of
        None \<Rightarrow> ([], p)
      | Some room \<Rightarrow>
          let active = filter (\<lambda>(who, t). now < t) room
          in (map fst active,
              p\<lparr>pn_typing := if active = [] then AList.delete cid (pn_typing p)
                             else AList.update cid active (pn_typing p)\<rparr>))"

text \<open>Presence is a matter of the clock: the last heartbeat counts until its lease ends, and no longer.\<close>

lemma presence_follows_the_clock:
  "pp_state (presenceRecord t (heartbeat now who s ttl p) who') =
     (if who' = who then (if t < now + ttl * 1000 then s else PRS_OFFLINE) else pp_state (presenceRecord t p who'))"
  by (auto simp: presenceRecord_def heartbeat_def update_conv' split: option.splits)

lemma presence_cleared:
  "pp_state (presenceRecord t (clearPresence who p) who') =
     (if who' = who then PRS_OFFLINE else pp_state (presenceRecord t p who'))"
  by (auto simp: presenceRecord_def clearPresence_def delete_conv' split: option.splits)

text \<open>Reading the typists changes no later reading.\<close>

lemma getTyping_set: "fst (getTyping now cid p) = map fst (filter (\<lambda>(who, t). now < t) (roomOf p cid))"
  by (simp add: getTyping_def roomOf_def Let_def split: option.splits)

lemma roomOf_getTyping:
  "roomOf (snd (getTyping now cid p)) c =
     (if c = cid then filter (\<lambda>(who, t). now < t) (roomOf p cid) else roomOf p c)"
  by (auto simp: getTyping_def roomOf_def Let_def update_conv' delete_conv' split: option.splits)

lemma getTyping_is_a_read:
  assumes "now \<le> later"
  shows "fst (getTyping later c (snd (getTyping now cid p))) = fst (getTyping later c p)"
proof -
  have "(now < t \<and> later < t) = (later < t)" for t using assms by auto
  then show ?thesis by (simp add: getTyping_set roomOf_getTyping case_prod_unfold conj_commute)
qed

lemma typing_follows_the_clock:
  "who' \<in> set (fst (getTyping t c (setTyping now cid who ttl p))) \<longleftrightarrow>
     (if c = cid \<and> who' = who then t < now + ttl * 1000
      else who' \<in> set (fst (getTyping t c p)))"
  if "distinct (map fst (roomOf p cid))"
proof -
  have room: "roomOf (setTyping now cid who ttl p) c =
      (if c = cid then AList.update who (now + ttl * 1000) (roomOf p cid) else roomOf p c)"
    by (simp add: setTyping_def roomOf_def update_conv')
  have "who' \<in> set (map fst (filter (\<lambda>(w, e). t < e) r)) \<longleftrightarrow> (\<exists>e. map_of r who' = Some e \<and> t < e)"
    if "distinct (map fst r)" for r :: "(UUID \<times> int) list"
    using that by force
  note live = this
  show ?thesis
  proof (cases "c = cid")
    case True
    have d: "distinct (map fst (AList.update who (now + ttl * 1000) (roomOf p cid)))"
      using that by (rule distinct_update)
    show ?thesis unfolding getTyping_set room using True live[OF d] live[OF that]
      by (simp add: update_conv' del: map_of_eq_Some_iff set_map set_filter)
  next
    case False
    then show ?thesis by (simp add: getTyping_set room)
  qed
qed

end
