(* ===== verification/Gateway.thy ===== *)
theory Gateway
  imports Connection_Facts Realtime_Backplane Calendar_Reader
begin

text \<open>
  The realtime gateway: \<open>apps/realtime-gateway/src/gateway.ts\<close>. The operations are the segments the event
  loop runs without interruption: what follows an \<open>await\<close> is an operation of its own, while the
  continuations a settled promise releases run in the operation that settles it. The sockets of the transport
  are the registered connections. Frames from a client are values of \<open>Json\<close>. Logs, metrics and
  acknowledgements that carry only a flag are left out.
\<close>

section \<open>Parsing what a client sends\<close>

definition textField :: "string \<Rightarrow> Json \<Rightarrow> string option" where
  "textField key raw =
     (case jsonField key raw of Some (Some (JText s)) \<Rightarrow> Some s | _ \<Rightarrow> None)"

definition parseChannel :: "Json \<Rightarrow> RealtimeChannel option" where
  "parseChannel raw =
     (let uuidField = (\<lambda>key. Option.bind (textField key raw) (\<lambda>s. if isUuid s then Some s else None))
      in if textField ''kind'' raw = Some ''CONVERSATION'' \<and> uuidField ''conversationId'' \<noteq> None
         then map_option RT_CONVERSATION (uuidField ''conversationId'')
         else if textField ''kind'' raw = Some ''PRINCIPAL'' \<and> uuidField ''principalId'' \<noteq> None
         then map_option RT_PRINCIPAL (uuidField ''principalId'')
         else if textField ''kind'' raw = Some ''TEAM''
         then (case textField ''teamId'' raw of
                 None \<Rightarrow> None
               | Some t \<Rightarrow> if 0 < length t \<and> length t \<le> 120 then Some (RT_TEAM t) else None)
         else None)"

record TypingSignal =
  ts_conversationId :: UUID
  ts_visibility :: MessageVisibility

definition parseTypingSignal :: "Json \<Rightarrow> TypingSignal option" where
  "parseTypingSignal raw =
     (case textField ''conversationId'' raw of
        None \<Rightarrow> None
      | Some cid \<Rightarrow>
          if cid = [] then None
          else if textField ''visibility'' raw = Some ''INTERNAL''
          then Some \<lparr>ts_conversationId = cid, ts_visibility = INTERNAL\<rparr>
          else if textField ''visibility'' raw = Some ''CUSTOMER_VISIBLE''
          then Some \<lparr>ts_conversationId = cid, ts_visibility = CUSTOMER_VISIBLE\<rparr>
          else None)"

definition isSafeInteger :: "int \<Rightarrow> bool" where
  "isSafeInteger n \<longleftrightarrow> \<bar>n\<bar> \<le> 2 ^ 53 - 1"

definition parseReadSignal :: "Json \<Rightarrow> (UUID \<times> int) option" where
  "parseReadSignal raw =
     (case textField ''conversationId'' raw of
        None \<Rightarrow> None
      | Some cid \<Rightarrow>
          if cid = [] then None
          else case jsonField ''lastReadSeq'' raw of
                 Some (Some (JInt n)) \<Rightarrow> if isSafeInteger n \<and> \<not> n < 0 then Some (cid, n) else None
               | _ \<Rightarrow> None)"

definition PRESENCE_QUERY_MAX :: nat where "PRESENCE_QUERY_MAX = 50"

fun queriedId :: "Json \<Rightarrow> string option" where
  "queriedId (JText s) = (if s = [] then None else Some s)"
| "queriedId _ = None"

definition parsePresenceQuery :: "Json \<Rightarrow> UUID list option" where
  "parsePresenceQuery raw =
     (case jsonField ''principalIds'' raw of
        Some (Some (JArray xs)) \<Rightarrow>
          let ids = List.map_filter queriedId xs
          in if ids = [] then None else Some (take PRESENCE_QUERY_MAX ids)
      | _ \<Rightarrow> None)"

section \<open>The state\<close>

record Subscription =
  sn_subscriber :: nat
  sn_channel :: RealtimeChannel
  sn_sockets :: "string list"

record GatewayConfig =
  gc_maxConnectionsPerPrincipal :: nat
  gc_presenceTtlSeconds :: int
  gc_typingTtlSeconds :: int
  gc_typingMinIntervalMs :: int

definition gatewayDefaults :: GatewayConfig where
  "gatewayDefaults =
     \<lparr>gc_maxConnectionsPerPrincipal = 8, gc_presenceTtlSeconds = 45, gc_typingTtlSeconds = 5,
      gc_typingMinIntervalMs = 1000\<rparr>"

text \<open>
  \<open>gw_handshakes\<close> are the sockets whose session is being verified, \<open>gw_joins\<close> the subscribe calls whose
  authorization has been given and not yet been acted on, \<open>gw_waiting\<close> those that wait for the backplane.
\<close>

record GatewayState =
  gw_manager :: ManagerState
  gw_subscriptions :: "(string \<times> Subscription) list"
  gw_pending :: "string list"
  gw_joins :: "(string \<times> RealtimeChannel) list"
  gw_waiting :: "(string \<times> RealtimeChannel) list"
  gw_perPrincipal :: "(UUID \<times> string list) list"
  gw_handshakes :: "string list"
  gw_backplane :: Backplane
  gw_nextSubscriber :: nat
  gw_presence :: Presence
  gw_lastTypingAt :: "(string \<times> int) list"
  gw_draining :: bool

definition initialGateway :: GatewayState where
  "initialGateway =
     \<lparr>gw_manager = \<lparr>mg_connections = [], mg_joined = []\<rparr>, gw_subscriptions = [], gw_pending = [], gw_joins = [],
      gw_waiting = [], gw_perPrincipal = [], gw_handshakes = [], gw_backplane = [], gw_nextSubscriber = 0,
      gw_presence = \<lparr>pn_presence = [], pn_typing = []\<rparr>, gw_lastTypingAt = [], gw_draining = False\<rparr>"

definition socketsOf :: "GatewayState \<Rightarrow> string \<Rightarrow> string list" where
  "socketsOf st key = (case map_of (gw_subscriptions st) key of None \<Rightarrow> [] | Some s \<Rightarrow> sn_sockets s)"

definition slotsOf :: "GatewayState \<Rightarrow> UUID \<Rightarrow> string list" where
  "slotsOf st who = (case map_of (gw_perPrincipal st) who of None \<Rightarrow> [] | Some ks \<Rightarrow> ks)"

section \<open>Connecting and releasing\<close>

definition releaseConnection :: "string \<Rightarrow> GatewayState \<Rightarrow> GatewayState" where
  "releaseConnection k st =
     (case connectionOf (gw_manager st) k of
        None \<Rightarrow> st
      | Some i \<Rightarrow>
          let who = ci_principalId i; ks = removeAll k (slotsOf st who);
              st1 = (if ks = []
                     then st\<lparr>gw_perPrincipal := AList.delete who (gw_perPrincipal st),
                             gw_presence := clearPresence who (gw_presence st)\<rparr>
                     else st\<lparr>gw_perPrincipal := AList.update who ks (gw_perPrincipal st)\<rparr>)
          in st1\<lparr>gw_manager := unregisterConnection k (gw_manager st1)\<rparr>)"

datatype HandshakeResult = HS_OK | HS_UNAUTHORIZED | HS_TOO_MANY_CONNECTIONS | HS_DRAINING

definition beginHandshake :: "string \<Rightarrow> GatewayState \<Rightarrow> HandshakeResult option \<times> GatewayState" where
  "beginHandshake k st =
     (if gw_draining st then (Some HS_DRAINING, st)
      else (None, st\<lparr>gw_handshakes := List.insert k (gw_handshakes st)\<rparr>))"

definition identityFor :: "string \<Rightarrow> VerifiedSession \<Rightarrow> ConnectionIdentity" where
  "identityFor k s =
     \<lparr>ci_connectionId = k, ci_principalId = sp_principalId s, ci_principalKind = sp_kind s,
      ci_sessionVersion = sp_sessionVersion s, ci_assurance = sp_assurance s\<rparr>"

text \<open>
  The rest of a handshake: the answer of the session service (an absent cookie is refused like a bad one)
  and whether the transport has closed meanwhile. An accepted connection takes its presence lease.
\<close>

definition endHandshake ::
  "GatewayConfig \<Rightarrow> int \<Rightarrow> string \<Rightarrow> SessionRejection + VerifiedSession \<Rightarrow> bool \<Rightarrow> GatewayState \<Rightarrow>
   HandshakeResult \<times> GatewayState" where
  "endHandshake cfg now k verified closedMeanwhile st0 =
     (let st = st0\<lparr>gw_handshakes := removeAll k (gw_handshakes st0)\<rparr>
      in case verified of
           Inl _ \<Rightarrow> (HS_UNAUTHORIZED, st)
         | Inr s \<Rightarrow>
             let who = sp_principalId s; existing = slotsOf st who
             in if gc_maxConnectionsPerPrincipal cfg \<le> length existing then (HS_TOO_MANY_CONNECTIONS, st)
                else
                  let st1 = st\<lparr>gw_manager := registerConnection (identityFor k s) (gw_manager st),
                               gw_perPrincipal := AList.update who (List.insert k existing) (gw_perPrincipal st)\<rparr>
                  in if closedMeanwhile then (HS_UNAUTHORIZED, releaseConnection k st1)
                     else (HS_OK, st1\<lparr>gw_presence :=
                             heartbeat now who PRS_ONLINE (gc_presenceTtlSeconds cfg) (gw_presence st1)\<rparr>))"

section \<open>Subscribing and leaving\<close>

definition finishJoin :: "string \<times> RealtimeChannel \<Rightarrow> GatewayState \<Rightarrow> GatewayState" where
  "finishJoin join st =
     (let (k, channel) = join; key = channelKey channel
      in st\<lparr>gw_subscriptions :=
              (case map_of (gw_subscriptions st) key of
                 None \<Rightarrow> gw_subscriptions st
               | Some s \<Rightarrow> AList.update key (s\<lparr>sn_sockets := List.insert k (sn_sockets s)\<rparr>) (gw_subscriptions st)),
            gw_manager := recordJoin k key channel (gw_manager st)\<rparr>)"

text \<open>A subscribe frame up to the decision; a revoked session is disconnected, which is a step of its own.\<close>

definition beginSubscribe ::
  "ConnectionManagerDeps \<Rightarrow> string \<Rightarrow> Json \<Rightarrow> GatewayState \<Rightarrow> JoinOutcome option \<times> GatewayState" where
  "beginSubscribe deps k raw st =
     (case parseChannel raw of
        None \<Rightarrow> (None, st)
      | Some channel \<Rightarrow>
          (case fst (authorizeJoin deps (gw_manager st) k channel None) of
             JoinOk \<Rightarrow> (Some JoinOk, st\<lparr>gw_joins := gw_joins st @ [(k, channel)]\<rparr>)
           | JoinRefused r \<Rightarrow> (Some (JoinRefused r), st)))"

text \<open>\<open>ensureChannelSubscription\<close>: one attempt in flight per channel.\<close>

definition proceedJoin :: "string \<times> RealtimeChannel \<Rightarrow> GatewayState \<Rightarrow> GatewayState" where
  "proceedJoin join st0 =
     (let key = channelKey (snd join); st = st0\<lparr>gw_joins := remove1 join (gw_joins st0)\<rparr>
      in if map_of (gw_subscriptions st) key \<noteq> None then finishJoin join st
         else if key \<in> set (gw_pending st) then st\<lparr>gw_waiting := gw_waiting st @ [join]\<rparr>
         else st\<lparr>gw_pending := gw_pending st @ [key], gw_waiting := gw_waiting st @ [join]\<rparr>)"

definition settleSubscribe :: "RealtimeChannel \<Rightarrow> bool \<Rightarrow> GatewayState \<Rightarrow> GatewayState" where
  "settleSubscribe channel ok st0 =
     (let key = channelKey channel;
          mine = filter (\<lambda>j. channelKey (snd j) = key) (gw_waiting st0);
          st = st0\<lparr>gw_pending := removeAll key (gw_pending st0),
                   gw_waiting := filter (\<lambda>j. channelKey (snd j) \<noteq> key) (gw_waiting st0)\<rparr>;
          sub = gw_nextSubscriber st;
          st1 = (if \<not> ok \<or> map_of (gw_subscriptions st) key \<noteq> None then st
                 else st\<lparr>gw_subscriptions :=
                           AList.update key \<lparr>sn_subscriber = sub, sn_channel = channel, sn_sockets = []\<rparr>
                             (gw_subscriptions st),
                         gw_backplane := bpSubscribe channel sub (gw_backplane st),
                         gw_nextSubscriber := sub + 1\<rparr>)
      in fold finishJoin mine st1)"

definition leaveChannel :: "string \<Rightarrow> string \<Rightarrow> GatewayState \<Rightarrow> GatewayState" where
  "leaveChannel k key st =
     (let st1 = st\<lparr>gw_manager := recordLeave k key (gw_manager st)\<rparr>
      in case map_of (gw_subscriptions st) key of
           None \<Rightarrow> st1
         | Some s \<Rightarrow>
             let ks = removeAll k (sn_sockets s)
             in if ks = []
                then st1\<lparr>gw_subscriptions := AList.delete key (gw_subscriptions st),
                         gw_backplane := bpRelease (sn_channel s) (sn_subscriber s) (gw_backplane st)\<rparr>
                else st1\<lparr>gw_subscriptions := AList.update key (s\<lparr>sn_sockets := ks\<rparr>) (gw_subscriptions st)\<rparr>)"

definition onUnsubscribe :: "string \<Rightarrow> Json \<Rightarrow> GatewayState \<Rightarrow> GatewayState" where
  "onUnsubscribe k raw st =
     (case parseChannel raw of None \<Rightarrow> st | Some channel \<Rightarrow> leaveChannel k (channelKey channel) st)"

definition onDisconnect :: "string \<Rightarrow> GatewayState \<Rightarrow> GatewayState" where
  "onDisconnect k st =
     (let st1 = fold (leaveChannel k) (channelsOf (gw_manager st) k) st
      in releaseConnection k (st1\<lparr>gw_lastTypingAt := AList.delete k (gw_lastTypingAt st1)\<rparr>))"

section \<open>Revocation, revalidation and drain\<close>

definition isLiveSocket :: "GatewayState \<Rightarrow> string \<Rightarrow> bool" where
  "isLiveSocket st k \<longleftrightarrow> connectionOf (gw_manager st) k \<noteq> None"

definition disconnectSocket :: "string \<Rightarrow> GatewayState \<Rightarrow> GatewayState" where
  "disconnectSocket k st = (if isLiveSocket st k then onDisconnect k st else st)"

definition revokePrincipal :: "UUID \<Rightarrow> GatewayState \<Rightarrow> nat \<times> GatewayState" where
  "revokePrincipal who st =
     (let doomed = connectionsToRevoke (gw_manager st) who
      in (length doomed, fold disconnectSocket doomed st))"

definition leaveIfLive :: "string \<times> string \<Rightarrow> GatewayState \<Rightarrow> GatewayState" where
  "leaveIfLive left st = (if isLiveSocket st (fst left) then leaveChannel (fst left) (snd left) st else st)"

definition revalidateGateway :: "ConnectionManagerDeps \<Rightarrow> GatewayState \<Rightarrow> GatewayState" where
  "revalidateGateway deps st =
     (let out = revalidateAll deps (gw_manager st)
      in fold leaveIfLive (rv_revoked out) (fold disconnectSocket (rv_doomed out) st))"

definition drainGateway :: "GatewayState \<Rightarrow> GatewayState" where
  "drainGateway st =
     (let st1 = st\<lparr>gw_draining := True,
                    gw_presence := fold clearPresence (map fst (gw_perPrincipal st)) (gw_presence st),
                    gw_backplane := fold (\<lambda>(key, s). bpRelease (sn_channel s) (sn_subscriber s))
                                      (gw_subscriptions st) (gw_backplane st),
                    gw_subscriptions := []\<rparr>
      in fold disconnectSocket (map fst (mg_connections (gw_manager st1))) st1)"

section \<open>What reaches whom\<close>

definition fanOut :: "GatewayState \<Rightarrow> string \<Rightarrow> RealtimeEvent \<Rightarrow> string list" where
  "fanOut st key ev = filter (\<lambda>k. mayReceive (gw_manager st) k ev) (socketsOf st key)"

text \<open>An event published to the backplane calls every subscriber of its channel once.\<close>

definition deliveredTo :: "GatewayState \<Rightarrow> RealtimeEvent \<Rightarrow> string list" where
  "deliveredTo st ev =
     concat (map (\<lambda>sub. fanOut st (channelKey (re_channel ev)) ev) (bpPublish ev (gw_backplane st)))"

definition typingReaches :: "GatewayState \<Rightarrow> string \<Rightarrow> string \<Rightarrow> MessageVisibility \<Rightarrow> string list" where
  "typingReaches st key sender v =
     filter (\<lambda>k. k \<noteq> sender \<and> (v = INTERNAL \<longrightarrow> isEmployeeConnection (gw_manager st) k)) (socketsOf st key)"

definition readReaches :: "GatewayState \<Rightarrow> string \<Rightarrow> string \<Rightarrow> string list" where
  "readReaches st key sender =
     filter (\<lambda>k. k \<noteq> sender \<and> isEmployeeConnection (gw_manager st) k) (socketsOf st key)"

definition onTyping ::
  "GatewayConfig \<Rightarrow> int \<Rightarrow> string \<Rightarrow> Json \<Rightarrow> GatewayState \<Rightarrow> string list \<times> GatewayState" where
  "onTyping cfg now k raw st =
     (case (parseTypingSignal raw, connectionOf (gw_manager st) k) of
        (Some signal, Some i) \<Rightarrow>
          let key = channelKey (RT_CONVERSATION (ts_conversationId signal));
              last = (case map_of (gw_lastTypingAt st) k of None \<Rightarrow> 0 | Some t \<Rightarrow> t)
          in if ts_visibility signal = INTERNAL \<and> ci_principalKind i \<noteq> K_EMPLOYEE then ([], st)
             else if \<not> hasJoined (gw_manager st) k key then ([], st)
             else if now - last < gc_typingMinIntervalMs cfg then ([], st)
             else (typingReaches st key k (ts_visibility signal),
                   st\<lparr>gw_lastTypingAt := AList.update k now (gw_lastTypingAt st),
                      gw_presence := setTyping now (ts_conversationId signal) (ci_principalId i)
                                       (gc_typingTtlSeconds cfg) (gw_presence st)\<rparr>)
      | _ \<Rightarrow> ([], st))"

definition onRead :: "string \<Rightarrow> Json \<Rightarrow> GatewayState \<Rightarrow> string list" where
  "onRead k raw st =
     (case (parseReadSignal raw, connectionOf (gw_manager st) k) of
        (Some (cid, n), Some i) \<Rightarrow>
          let key = channelKey (RT_CONVERSATION cid)
          in if ci_principalKind i \<noteq> K_EMPLOYEE \<or> \<not> hasJoined (gw_manager st) k key then []
             else readReaches st key k
      | _ \<Rightarrow> [])"

text \<open>Who of the asked is online.\<close>

definition onPresenceQuery :: "int \<Rightarrow> string \<Rightarrow> Json \<Rightarrow> GatewayState \<Rightarrow> UUID list" where
  "onPresenceQuery now k raw st =
     (if \<not> isEmployeeConnection (gw_manager st) k then []
      else case parsePresenceQuery raw of
             None \<Rightarrow> []
           | Some ids \<Rightarrow>
               map pp_principalId
                 (filter (\<lambda>r. pp_state r \<noteq> PRS_OFFLINE \<and> toISOString now < pp_expiresAt r)
                   (getPresence now ids (gw_presence st))))"

text \<open>Whom a joiner is told is typing already.\<close>

definition typistsFor :: "int \<Rightarrow> string \<Rightarrow> RealtimeChannel \<Rightarrow> GatewayState \<Rightarrow> UUID list \<times> GatewayState" where
  "typistsFor now k channel st =
     (case channel of
        RT_CONVERSATION cid \<Rightarrow>
          if isEmployeeConnection (gw_manager st) k
          then let (typists, p) = getTyping now cid (gw_presence st)
               in (filter (\<lambda>who. Some who \<noteq> map_option ci_principalId (connectionOf (gw_manager st) k)) typists,
                   st\<lparr>gw_presence := p\<rparr>)
          else ([], st)
      | _ \<Rightarrow> ([], st))"

definition presenceTick :: "GatewayConfig \<Rightarrow> int \<Rightarrow> GatewayState \<Rightarrow> GatewayState" where
  "presenceTick cfg now st =
     st\<lparr>gw_presence := fold (\<lambda>who. heartbeat now who PRS_ONLINE (gc_presenceTtlSeconds cfg))
                          (map fst (gw_perPrincipal st)) (gw_presence st)\<rparr>"

end
