(* ===== verification/Gateway_Facts.thy ===== *)
theory Gateway_Facts
  imports Gateway
begin

text \<open>
  The runs of the gateway as a step relation, its invariants by rule induction, and what they say of the
  channels and the connections.
\<close>

section \<open>The steps\<close>

text \<open>
  \<open>reliable\<close> says that the backplane accepts every subscription. A socket's name is fresh: it is no
  connection, in no room and in no join that is under way.
\<close>

definition freshSocket :: "GatewayState \<Rightarrow> string \<Rightarrow> bool" where
  "freshSocket st k \<longleftrightarrow> connectionOf (gw_manager st) k = None \<and>
     (\<forall>key. k \<notin> set (socketsOf st key)) \<and> k \<notin> fst ` set (gw_joins st) \<and> k \<notin> fst ` set (gw_waiting st)"

inductive gateway_step :: "GatewayConfig \<Rightarrow> bool \<Rightarrow> GatewayState \<Rightarrow> GatewayState \<Rightarrow> bool"
  for cfg :: GatewayConfig and reliable :: bool where
  arrives: "gateway_step cfg reliable st (snd (beginHandshake k st))"
| authenticated: "k \<in> set (gw_handshakes st) \<Longrightarrow> freshSocket st k \<Longrightarrow>
    gateway_step cfg reliable st (snd (endHandshake cfg now k verified closed_meanwhile st))"
| subscribes: "gateway_step cfg reliable st (snd (beginSubscribe deps k raw st))"
| proceeds: "j \<in> set (gw_joins st) \<Longrightarrow> gateway_step cfg reliable st (proceedJoin j st)"
| settles: "channelKey ch \<in> set (gw_pending st) \<Longrightarrow> reliable \<longrightarrow> ok \<Longrightarrow>
    gateway_step cfg reliable st (settleSubscribe ch ok st)"
| unsubscribes: "isLiveSocket st k \<Longrightarrow> gateway_step cfg reliable st (onUnsubscribe k raw st)"
| disconnects: "isLiveSocket st k \<Longrightarrow> gateway_step cfg reliable st (onDisconnect k st)"
| revokes: "gateway_step cfg reliable st (snd (revokePrincipal who st))"
| revalidates: "gateway_step cfg reliable st (revalidateGateway deps st)"
| types: "gateway_step cfg reliable st (snd (onTyping cfg now k raw st))"
| tells: "gateway_step cfg reliable st (snd (typistsFor now k ch st))"
| beats: "gateway_step cfg reliable st (presenceTick cfg now st)"
| drains: "gateway_step cfg reliable st (drainGateway st)"

inductive gateway_run :: "GatewayConfig \<Rightarrow> bool \<Rightarrow> GatewayState \<Rightarrow> bool" for cfg :: GatewayConfig and reliable :: bool where
  start: "gateway_run cfg reliable initialGateway"
| step: "gateway_run cfg reliable st \<Longrightarrow> gateway_step cfg reliable st st' \<Longrightarrow> gateway_run cfg reliable st'"

section \<open>The invariants\<close>

text \<open>The slots: every connection sits in the slots of its principal, and these hold nothing else.\<close>

definition wfSlots :: "GatewayConfig \<Rightarrow> GatewayState \<Rightarrow> bool" where
  "wfSlots cfg st \<longleftrightarrow>
     (\<forall>who. distinct (slotsOf st who) \<and> length (slotsOf st who) \<le> gc_maxConnectionsPerPrincipal cfg \<and>
        (\<forall>k. k \<in> set (slotsOf st who) \<longleftrightarrow>
             map_option ci_principalId (connectionOf (gw_manager st) k) = Some who))"

text \<open>The rooms: a connected socket of a room has joined the channel of the room.\<close>

definition wfRooms :: "GatewayState \<Rightarrow> bool" where
  "wfRooms st \<longleftrightarrow>
     (\<forall>key s. map_of (gw_subscriptions st) key = Some s \<longrightarrow>
        channelKey (sn_channel s) = key \<and> distinct (sn_sockets s) \<and>
        (\<forall>k \<in> set (sn_sockets s). isLiveSocket st k \<longrightarrow> hasJoined (gw_manager st) k key))"

text \<open>One subscription of the backplane per room.\<close>

definition wfBackplane :: "GatewayState \<Rightarrow> bool" where
  "wfBackplane st \<longleftrightarrow> distinct (map fst (gw_subscriptions st)) \<and>
     (\<forall>key. subscribersOf (gw_backplane st) key =
        (case map_of (gw_subscriptions st) key of None \<Rightarrow> [] | Some s \<Rightarrow> [sn_subscriber s]))"

text \<open>A join that is under way was authorized: a customer's is of a conversation.\<close>

definition kindPermits :: "GatewayState \<Rightarrow> string \<times> RealtimeChannel \<Rightarrow> bool" where
  "kindPermits st j \<longleftrightarrow> (\<forall>i. connectionOf (gw_manager st) (fst j) = Some i \<longrightarrow>
     ci_principalKind i = K_CUSTOMER \<longrightarrow> isConversationChannel (snd j))"

definition wfJoins :: "GatewayState \<Rightarrow> bool" where
  "wfJoins st \<longleftrightarrow> (\<forall>j \<in> set (gw_joins st) \<union> set (gw_waiting st). kindPermits st j)"

definition wfGateway :: "GatewayConfig \<Rightarrow> GatewayState \<Rightarrow> bool" where
  "wfGateway cfg st \<longleftrightarrow> wfManager (gw_manager st) \<and> wfSlots cfg st \<and> wfRooms st \<and> wfBackplane st \<and> wfJoins st"

text \<open>Every joined socket is in its room.\<close>

definition allHeard :: "GatewayState \<Rightarrow> bool" where
  "allHeard st \<longleftrightarrow> (\<forall>k key. hasJoined (gw_manager st) k key \<longrightarrow> k \<in> set (socketsOf st key))"

text \<open>What the operations on rooms leave alone.\<close>

definition sameLife :: "GatewayState \<Rightarrow> GatewayState \<Rightarrow> bool" where
  "sameLife st st' \<longleftrightarrow> connectionOf (gw_manager st') = connectionOf (gw_manager st) \<and>
     gw_perPrincipal st' = gw_perPrincipal st \<and> gw_joins st' = gw_joins st \<and> gw_waiting st' = gw_waiting st"

lemma wfSlots_same: "sameLife st st' \<Longrightarrow> wfSlots cfg st \<Longrightarrow> wfSlots cfg st'"
  by (simp add: sameLife_def wfSlots_def slotsOf_def)

lemma wfJoins_same: "sameLife st st' \<Longrightarrow> wfJoins st \<Longrightarrow> wfJoins st'"
  by (simp add: sameLife_def wfJoins_def kindPermits_def)

section \<open>Joining a room\<close>

lemma finishJoin_simps [simp]:
  "gw_perPrincipal (finishJoin j st) = gw_perPrincipal st" "gw_joins (finishJoin j st) = gw_joins st"
  "gw_waiting (finishJoin j st) = gw_waiting st" "gw_backplane (finishJoin j st) = gw_backplane st"
  "gw_manager (finishJoin j st) = recordJoin (fst j) (channelKey (snd j)) (snd j) (gw_manager st)"
  "gw_handshakes (finishJoin j st) = gw_handshakes st" "gw_draining (finishJoin j st) = gw_draining st"
  by (simp_all add: finishJoin_def Let_def case_prod_beta)

lemma finishJoin_room:
  "map_of (gw_subscriptions (finishJoin j st)) key =
     (if key = channelKey (snd j)
      then map_option (\<lambda>s. s\<lparr>sn_sockets := List.insert (fst j) (sn_sockets s)\<rparr>) (map_of (gw_subscriptions st) key)
      else map_of (gw_subscriptions st) key)"
  by (auto simp: finishJoin_def Let_def case_prod_beta update_conv' split: option.splits)

lemma finishJoin_keys: "distinct (map fst (gw_subscriptions st)) \<Longrightarrow> distinct (map fst (gw_subscriptions (finishJoin j st)))"
  by (auto simp: finishJoin_def Let_def case_prod_beta distinct_update split: option.splits)

lemma finishJoin_life: "sameLife st (finishJoin j st)"
  by (simp add: sameLife_def)

lemma recordJoin_unregistered: "wfManager m \<Longrightarrow> connectionOf m k = None \<Longrightarrow> recordJoin k key ch m = m"
  using joined_None_iff[of m k] by (simp add: recordJoin_def)

lemma hasJoined_recordJoin_iff:
  "wfManager m \<Longrightarrow> hasJoined (recordJoin k key ch m) k' key' \<longleftrightarrow>
     k' = k \<and> key' = key \<and> connectionOf m k \<noteq> None \<or> hasJoined m k' key'"
  using hasJoined_recordJoin[of m k _ key ch k' key'] recordJoin_unregistered[of m k key ch]
  by (cases "connectionOf m k") auto

lemma wfManager_finishJoin:
  assumes "wfManager (gw_manager st)" and "kindPermits st j"
  shows "wfManager (gw_manager (finishJoin j st))"
  using assms by (auto simp: kindPermits_def intro!: wfManager_recordJoin)

lemma wfRooms_finishJoin:
  assumes wf: "wfManager (gw_manager st)" and rooms: "wfRooms st"
  shows "wfRooms (finishJoin j st)"
  unfolding wfRooms_def
proof (intro allI impI)
  fix key s assume s: "map_of (gw_subscriptions (finishJoin j st)) key = Some s"
  show "channelKey (sn_channel s) = key \<and> distinct (sn_sockets s) \<and>
      (\<forall>k \<in> set (sn_sockets s). isLiveSocket (finishJoin j st) k \<longrightarrow> hasJoined (gw_manager (finishJoin j st)) k key)"
  proof (cases "key = channelKey (snd j)")
    case True
    with s obtain s0 where s0: "map_of (gw_subscriptions st) key = Some s0"
      and s': "s = s0\<lparr>sn_sockets := List.insert (fst j) (sn_sockets s0)\<rparr>" by (auto simp: finishJoin_room)
    from rooms s0 have "channelKey (sn_channel s0) = key \<and> distinct (sn_sockets s0) \<and>
      (\<forall>k \<in> set (sn_sockets s0). isLiveSocket st k \<longrightarrow> hasJoined (gw_manager st) k key)" unfolding wfRooms_def by blast
    then show ?thesis using True
      by (auto simp: s' isLiveSocket_def hasJoined_recordJoin_iff[OF wf])
  next
    case False
    with s have "map_of (gw_subscriptions st) key = Some s" by (simp add: finishJoin_room)
    with rooms have "channelKey (sn_channel s) = key \<and> distinct (sn_sockets s) \<and>
      (\<forall>k \<in> set (sn_sockets s). isLiveSocket st k \<longrightarrow> hasJoined (gw_manager st) k key)" unfolding wfRooms_def by blast
    then show ?thesis by (auto simp: isLiveSocket_def hasJoined_recordJoin_iff[OF wf])
  qed
qed

lemma wfBackplane_finishJoin: "wfBackplane st \<Longrightarrow> wfBackplane (finishJoin j st)"
  by (auto simp: wfBackplane_def finishJoin_room finishJoin_keys option.case_eq_if)

lemma wfGateway_finishJoin:
  assumes "wfGateway cfg st" and "kindPermits st j"
  shows "wfGateway cfg (finishJoin j st)"
  using assms wfManager_finishJoin[of st j] wfRooms_finishJoin[of st j] wfBackplane_finishJoin[of st j]
    wfSlots_same[OF finishJoin_life] wfJoins_same[OF finishJoin_life]
  by (simp add: wfGateway_def)

lemma allHeard_finishJoin:
  assumes wf: "wfManager (gw_manager st)" and h: "allHeard st" and room: "map_of (gw_subscriptions st) (channelKey (snd j)) \<noteq> None"
  shows "allHeard (finishJoin j st)"
proof -
  have "socketsOf (finishJoin j st) key =
      (if key = channelKey (snd j) then List.insert (fst j) (socketsOf st key) else socketsOf st key)" for key
    using room by (auto simp: socketsOf_def finishJoin_room)
  then show ?thesis using h by (auto simp: allHeard_def hasJoined_recordJoin_iff[OF wf])
qed

lemma finishJoins:
  assumes "wfGateway cfg st" and "list_all (kindPermits st) js"
  shows "wfGateway cfg (fold finishJoin js st) \<and> sameLife st (fold finishJoin js st)"
  using assms
proof (induction js arbitrary: st)
  case (Cons j js)
  then have w: "wfGateway cfg (finishJoin j st)" and "list_all (kindPermits (finishJoin j st)) js"
    using wfGateway_finishJoin by (auto simp: list_all_iff kindPermits_def)
  from Cons.IH[OF this] show ?case by (simp add: sameLife_def)
qed (simp add: sameLife_def)

lemma finishJoins_heard:
  assumes "wfGateway cfg st" and "list_all (kindPermits st) js" and "allHeard st"
    and "list_all (\<lambda>j. channelKey (snd j) = key) js" and "map_of (gw_subscriptions st) key \<noteq> None"
  shows "allHeard (fold finishJoin js st)"
  using assms
proof (induction js arbitrary: st)
  case (Cons j js)
  have "wfGateway cfg (finishJoin j st)" and "list_all (kindPermits (finishJoin j st)) js"
    using Cons.prems wfGateway_finishJoin by (auto simp: list_all_iff kindPermits_def)
  moreover have "allHeard (finishJoin j st)"
    using Cons.prems by (intro allHeard_finishJoin) (auto simp: wfGateway_def)
  moreover have "map_of (gw_subscriptions (finishJoin j st)) key \<noteq> None"
    using Cons.prems by (auto simp: finishJoin_room)
  ultimately show ?case using Cons.prems(4) Cons.IH by simp
qed simp

end
