(* ===== verification/Gateway_Invariants.thy ===== *)
theory Gateway_Invariants
  imports Gateway_Facts
begin

text \<open>Every step of the gateway keeps its invariants, and so every reachable state has them.\<close>

section \<open>Leaving a room\<close>

lemma leaveChannel_simps [simp]:
  "gw_perPrincipal (leaveChannel k key st) = gw_perPrincipal st" "gw_joins (leaveChannel k key st) = gw_joins st"
  "gw_waiting (leaveChannel k key st) = gw_waiting st" "gw_handshakes (leaveChannel k key st) = gw_handshakes st"
  "gw_manager (leaveChannel k key st) = recordLeave k key (gw_manager st)"
  "gw_pending (leaveChannel k key st) = gw_pending st" "gw_presence (leaveChannel k key st) = gw_presence st"
  by (auto simp: leaveChannel_def Let_def split: option.splits)

lemma leaveChannel_life: "sameLife st (leaveChannel k key st)"
  by (simp add: sameLife_def)

lemma leaveChannel_room:
  assumes "distinct (map fst (gw_subscriptions st))"
  shows "map_of (gw_subscriptions (leaveChannel k key st)) key' =
     (if key' = key
      then Option.bind (map_of (gw_subscriptions st) key)
             (\<lambda>s. let ks = removeAll k (sn_sockets s) in if ks = [] then None else Some (s\<lparr>sn_sockets := ks\<rparr>))
      else map_of (gw_subscriptions st) key')"
  by (auto simp: leaveChannel_def Let_def update_conv' delete_conv' split: option.splits)

lemma socketsOf_leaveChannel:
  assumes "distinct (map fst (gw_subscriptions st))"
  shows "socketsOf (leaveChannel k key st) key' = (if key' = key then removeAll k (socketsOf st key') else socketsOf st key')"
  by (auto simp: socketsOf_def leaveChannel_room[OF assms] Let_def split: option.splits)

lemma wfRooms_leaveChannel:
  assumes wf: "wfManager (gw_manager st)" and rooms: "wfRooms st" and d: "distinct (map fst (gw_subscriptions st))"
  shows "wfRooms (leaveChannel k key st)"
  unfolding wfRooms_def
proof (intro allI impI)
  fix key' s assume s: "map_of (gw_subscriptions (leaveChannel k key st)) key' = Some s"
  obtain s0 where s0: "map_of (gw_subscriptions st) key' = Some s0"
    and s': "sn_channel s = sn_channel s0" "sn_sockets s = (if key' = key then removeAll k (sn_sockets s0) else sn_sockets s0)"
    using s by (cases "map_of (gw_subscriptions st) key'")
      (auto simp: leaveChannel_room[OF d] Let_def split: if_splits)
  from rooms s0 have "channelKey (sn_channel s0) = key' \<and> distinct (sn_sockets s0) \<and>
    (\<forall>k \<in> set (sn_sockets s0). isLiveSocket st k \<longrightarrow> hasJoined (gw_manager st) k key')" unfolding wfRooms_def by blast
  then show "channelKey (sn_channel s) = key' \<and> distinct (sn_sockets s) \<and>
      (\<forall>k' \<in> set (sn_sockets s). isLiveSocket (leaveChannel k key st) k' \<longrightarrow>
         hasJoined (gw_manager (leaveChannel k key st)) k' key')"
    by (auto simp: s' isLiveSocket_def hasJoined_recordLeave[OF wf] distinct_removeAll)
qed

lemma wfBackplane_leaveChannel:
  assumes "wfBackplane st" and rooms: "wfRooms st"
  shows "wfBackplane (leaveChannel k key st)"
proof -
  have d: "distinct (map fst (gw_subscriptions st))"
    and b: "subscribersOf (gw_backplane st) key' =
        (case map_of (gw_subscriptions st) key' of None \<Rightarrow> [] | Some s \<Rightarrow> [sn_subscriber s])" for key'
    using assms(1) by (simp_all add: wfBackplane_def)
  have ch: "map_of (gw_subscriptions st) key = Some s \<Longrightarrow> channelKey (sn_channel s) = key" for s
    using rooms by (simp add: wfRooms_def)
  have "distinct (map fst (gw_subscriptions (leaveChannel k key st)))"
    using d by (auto simp: leaveChannel_def Let_def distinct_update distinct_delete split: option.splits)
  moreover have "subscribersOf (gw_backplane (leaveChannel k key st)) key' =
        (case map_of (gw_subscriptions (leaveChannel k key st)) key' of None \<Rightarrow> [] | Some s \<Rightarrow> [sn_subscriber s])" for key'
    using b[of key'] b[of key] ch
    by (cases "map_of (gw_subscriptions st) key")
      (auto simp: leaveChannel_def Let_def update_conv' delete_conv' subscribersOf_release)
  ultimately show ?thesis by (simp add: wfBackplane_def)
qed

lemma wfGateway_leaveChannel:
  assumes "wfGateway cfg st"
  shows "wfGateway cfg (leaveChannel k key st)"
  using assms wfManager_recordLeave[of "gw_manager st" k key] wfRooms_leaveChannel[of st k key]
    wfBackplane_leaveChannel[of st k key] wfSlots_same[OF leaveChannel_life] wfJoins_same[OF leaveChannel_life]
  by (simp add: wfGateway_def wfBackplane_def)

lemma allHeard_leaveChannel:
  assumes "wfGateway cfg st" and "allHeard st"
  shows "allHeard (leaveChannel k key st)"
proof -
  have "wfManager (gw_manager st)" and d: "distinct (map fst (gw_subscriptions st))"
    using assms(1) by (simp_all add: wfGateway_def wfBackplane_def)
  then show ?thesis using assms(2)
    by (auto simp: allHeard_def hasJoined_recordLeave socketsOf_leaveChannel[OF d])
qed

text \<open>What a step of leaving keeps, for the folds over channels and sockets.\<close>

definition keeps :: "GatewayConfig \<Rightarrow> (GatewayState \<Rightarrow> GatewayState) \<Rightarrow> bool" where
  "keeps cfg f \<longleftrightarrow> (\<forall>st. wfGateway cfg st \<longrightarrow> wfGateway cfg (f st) \<and> (allHeard st \<longrightarrow> allHeard (f st)))"

lemma keeps_leaveChannel: "keeps cfg (leaveChannel k key)"
  using wfGateway_leaveChannel allHeard_leaveChannel by (auto simp: keeps_def)

lemma keeps_fold: "(\<And>x. keeps cfg (f x)) \<Longrightarrow> keeps cfg (fold f xs)"
  by (induction xs) (simp_all add: keeps_def)

lemma keeps_comp: "keeps cfg f \<Longrightarrow> keeps cfg g \<Longrightarrow> keeps cfg (\<lambda>st. f (g st))"
  by (simp add: keeps_def)

section \<open>Releasing a connection\<close>

text \<open>The rooms hold no socket that is gone but those it had left behind before.\<close>

definition noRooms :: "GatewayState \<Rightarrow> string \<Rightarrow> bool" where
  "noRooms st k \<longleftrightarrow> (\<forall>key. k \<notin> set (socketsOf st key))"

lemma releaseConnection_simps [simp]:
  "gw_subscriptions (releaseConnection k st) = gw_subscriptions st"
  "gw_backplane (releaseConnection k st) = gw_backplane st"
  "gw_joins (releaseConnection k st) = gw_joins st" "gw_waiting (releaseConnection k st) = gw_waiting st"
  "gw_handshakes (releaseConnection k st) = gw_handshakes st" "gw_pending (releaseConnection k st) = gw_pending st"
  by (auto simp: releaseConnection_def Let_def split: option.splits)

lemma releaseConnection_manager:
  "gw_manager (releaseConnection k st) =
     (if connectionOf (gw_manager st) k = None then gw_manager st else unregisterConnection k (gw_manager st))"
  by (auto simp: releaseConnection_def Let_def split: option.splits)

lemma connectionOf_release:
  "connectionOf (gw_manager (releaseConnection k st)) k' = (if k' = k then None else connectionOf (gw_manager st) k')"
  by (auto simp: releaseConnection_manager connectionOf_unregister)

lemma wfManager_release: "wfManager (gw_manager st) \<Longrightarrow> wfManager (gw_manager (releaseConnection k st))"
  by (simp add: releaseConnection_manager wfManager_unregister)

lemma hasJoined_release:
  "wfManager (gw_manager st) \<Longrightarrow>
   hasJoined (gw_manager (releaseConnection k st)) k' key \<longleftrightarrow> k' \<noteq> k \<and> hasJoined (gw_manager st) k' key"
  using hasJoined_connected[of "gw_manager st" k key]
  by (auto simp: releaseConnection_manager hasJoined_unregister)

lemma slotsOf_release:
  "slotsOf (releaseConnection k st) who =
     (if map_option ci_principalId (connectionOf (gw_manager st) k) = Some who
      then removeAll k (slotsOf st who) else slotsOf st who)"
  by (auto simp: releaseConnection_def slotsOf_def Let_def update_conv' delete_conv' split: option.splits)

lemma wfSlots_release:
  assumes "wfSlots cfg st"
  shows "wfSlots cfg (releaseConnection k st)"
proof -
  have s: "distinct (slotsOf st who)" "length (slotsOf st who) \<le> gc_maxConnectionsPerPrincipal cfg"
    "k' \<in> set (slotsOf st who) \<longleftrightarrow> map_option ci_principalId (connectionOf (gw_manager st) k') = Some who" for who k'
    using assms unfolding wfSlots_def by blast+
  have "length (removeAll k (slotsOf st who)) \<le> gc_maxConnectionsPerPrincipal cfg" for who
    using s(2)[of who] length_removeAll_less_eq[of k "slotsOf st who"] by linarith
  with s show ?thesis by (auto simp: wfSlots_def slotsOf_release connectionOf_release distinct_removeAll)
qed

lemma wfGateway_release:
  assumes "wfGateway cfg st"
  shows "wfGateway cfg (releaseConnection k st)"
proof -
  have wf: "wfManager (gw_manager st)" and rooms: "wfRooms st" using assms by (simp_all add: wfGateway_def)
  have "wfRooms (releaseConnection k st)"
    using rooms by (auto simp: wfRooms_def isLiveSocket_def connectionOf_release hasJoined_release[OF wf] split: if_splits)
  moreover have "wfBackplane (releaseConnection k st)" "wfJoins (releaseConnection k st)"
    using assms by (auto simp: wfGateway_def wfBackplane_def wfJoins_def kindPermits_def connectionOf_release)
  ultimately show ?thesis using assms wfManager_release[OF wf] wfSlots_release[of cfg st]
    by (simp add: wfGateway_def)
qed

lemma keeps_release: "keeps cfg (releaseConnection k)"
  unfolding keeps_def
proof (intro allI impI conjI)
  fix st assume w: "wfGateway cfg st"
  then show "wfGateway cfg (releaseConnection k st)" by (rule wfGateway_release)
  show "allHeard (releaseConnection k st)" if "allHeard st"
    using that w by (auto simp: allHeard_def hasJoined_release wfGateway_def socketsOf_def)
qed

lemma keeps_forget: "keeps cfg (\<lambda>st. st\<lparr>gw_lastTypingAt := f st\<rparr>)"
  by (simp add: keeps_def wfGateway_def wfRooms_def wfBackplane_def wfSlots_def wfJoins_def kindPermits_def
      isLiveSocket_def slotsOf_def allHeard_def socketsOf_def)

lemma keeps_onDisconnect: "keeps cfg (onDisconnect k)"
proof -
  have "keeps cfg (fold (leaveChannel k) keys)" for keys by (rule keeps_fold) (rule keeps_leaveChannel)
  then show ?thesis using keeps_release[of cfg k] keeps_forget[of cfg "\<lambda>st. AList.delete k (gw_lastTypingAt st)"]
    unfolding keeps_def onDisconnect_def Let_def by blast
qed

lemma keeps_disconnectSocket: "keeps cfg (disconnectSocket k)"
  using keeps_onDisconnect[of cfg k] by (auto simp: keeps_def disconnectSocket_def)

lemma keeps_leaveIfLive: "keeps cfg (leaveIfLive left)"
  using keeps_leaveChannel[of cfg "fst left" "snd left"] by (auto simp: keeps_def leaveIfLive_def)

lemma keeps_revalidate: "keeps cfg (revalidateGateway deps)"
  using keeps_fold[of cfg leaveIfLive, OF keeps_leaveIfLive] keeps_fold[of cfg disconnectSocket, OF keeps_disconnectSocket]
  by (simp add: keeps_def revalidateGateway_def Let_def)

lemma keeps_revoke: "keeps cfg (\<lambda>st. snd (revokePrincipal who st))"
  using keeps_fold[of cfg disconnectSocket, OF keeps_disconnectSocket] by (simp add: keeps_def revokePrincipal_def Let_def)

lemma keeps_onUnsubscribe: "keeps cfg (onUnsubscribe k raw)"
  using keeps_leaveChannel by (simp add: keeps_def onUnsubscribe_def split: option.splits)

section \<open>Drain\<close>

lemma connectionOf_leaveChannels: "connectionOf (gw_manager (fold (leaveChannel k) keys st)) = connectionOf (gw_manager st)"
  by (induction keys arbitrary: st) simp_all

lemma connectionOf_disconnect:
  "connectionOf (gw_manager (disconnectSocket k st)) k' = (if k' = k then None else connectionOf (gw_manager st) k')"
  by (auto simp: disconnectSocket_def onDisconnect_def Let_def connectionOf_release connectionOf_leaveChannels isLiveSocket_def)

lemma connectionOf_disconnects:
  "connectionOf (gw_manager (fold disconnectSocket ks st)) k =
     (if k \<in> set ks then None else connectionOf (gw_manager st) k)"
  by (induction ks arbitrary: st) (simp_all add: connectionOf_disconnect)

lemma released_rooms:
  assumes "distinct (map fst subs)"
    and "\<And>key s. map_of subs key = Some s \<Longrightarrow> channelKey (sn_channel s) = key"
    and "\<And>key. subscribersOf bp key = (case map_of subs key of None \<Rightarrow> [] | Some s \<Rightarrow> [sn_subscriber s])"
  shows "subscribersOf (fold (\<lambda>(key, s). bpRelease (sn_channel s) (sn_subscriber s)) subs bp) key = []"
  using assms
proof (induction subs arbitrary: bp)
  case (Cons sub subs)
  obtain key0 s0 where sub: "sub = (key0, s0)" by (cases sub)
  have fresh: "map_of subs key0 = None" and d: "distinct (map fst subs)"
    using Cons.prems(1) by (simp_all add: sub map_of_eq_None_iff)
  have ch0: "channelKey (sn_channel s0) = key0" using Cons.prems(2)[of key0 s0] by (simp add: sub)
  have ch: "map_of subs key' = Some s \<Longrightarrow> channelKey (sn_channel s) = key'" for key' s
  proof -
    assume s: "map_of subs key' = Some s"
    with fresh have "key' \<noteq> key0" by auto
    with s have "map_of (sub # subs) key' = Some s" by (simp only: sub map_of.simps fun_upd_apply fst_conv snd_conv if_False)
    then show ?thesis by (rule Cons.prems(2))
  qed
  have b: "subscribersOf (bpRelease (sn_channel s0) (sn_subscriber s0) bp) key' =
      (case map_of subs key' of None \<Rightarrow> [] | Some s \<Rightarrow> [sn_subscriber s])" for key'
    using Cons.prems(3)[of key'] fresh ch0 by (auto simp: subscribersOf_release sub)
  from Cons.IH[OF d ch b] show ?case by (simp add: sub)
qed simp

lemma wfGateway_drained:
  assumes "wfGateway cfg st"
  shows "wfGateway cfg (st\<lparr>gw_draining := True, gw_presence := p,
      gw_backplane := fold (\<lambda>(key, s). bpRelease (sn_channel s) (sn_subscriber s)) (gw_subscriptions st) (gw_backplane st),
      gw_subscriptions := []\<rparr>)"
proof -
  have "subscribersOf (fold (\<lambda>(key, s). bpRelease (sn_channel s) (sn_subscriber s)) (gw_subscriptions st) (gw_backplane st)) key = []" for key
    using assms by (intro released_rooms) (auto simp: wfGateway_def wfBackplane_def wfRooms_def simp del: map_of_eq_Some_iff)
  then show ?thesis using assms
    by (auto simp: wfGateway_def wfRooms_def wfBackplane_def wfSlots_def wfJoins_def kindPermits_def slotsOf_def)
qed

lemma keeps_drain: "keeps cfg drainGateway"
  unfolding keeps_def
proof (intro allI impI)
  fix st assume w: "wfGateway cfg st"
  let ?st = "st\<lparr>gw_draining := True, gw_presence := fold clearPresence (map fst (gw_perPrincipal st)) (gw_presence st),
      gw_backplane := fold (\<lambda>(key, s). bpRelease (sn_channel s) (sn_subscriber s)) (gw_subscriptions st) (gw_backplane st),
      gw_subscriptions := []\<rparr>"
  have "drainGateway st = fold disconnectSocket (map fst (mg_connections (gw_manager st))) ?st"
    by (simp add: drainGateway_def Let_def)
  moreover have w': "wfGateway cfg (fold disconnectSocket (map fst (mg_connections (gw_manager st))) ?st)"
    using keeps_fold[of cfg disconnectSocket, OF keeps_disconnectSocket] wfGateway_drained[OF w] by (simp add: keeps_def)
  moreover have "connectionOf (gw_manager (fold disconnectSocket (map fst (mg_connections (gw_manager st))) ?st)) k = None" for k
    by (subst connectionOf_disconnects) (auto simp: connectionOf_def map_of_eq_None_iff)
  with w' have "\<not> hasJoined (gw_manager (fold disconnectSocket (map fst (mg_connections (gw_manager st))) ?st)) k key" for k key
    using hasJoined_connected[of "gw_manager (fold disconnectSocket (map fst (mg_connections (gw_manager st))) ?st)" k key]
    by (auto simp: wfGateway_def)
  ultimately show "wfGateway cfg (drainGateway st) \<and> (allHeard st \<longrightarrow> allHeard (drainGateway st))"
    by (simp add: allHeard_def)
qed

section \<open>Connecting\<close>

lemma wfGateway_fields:
  "wfGateway cfg (st\<lparr>gw_handshakes := hs\<rparr>) = wfGateway cfg st"
  "wfGateway cfg (st\<lparr>gw_presence := p\<rparr>) = wfGateway cfg st"
  "allHeard (st\<lparr>gw_handshakes := hs\<rparr>) = allHeard st" "allHeard (st\<lparr>gw_presence := p\<rparr>) = allHeard st"
  by (simp_all add: wfGateway_def wfRooms_def wfBackplane_def wfSlots_def wfJoins_def kindPermits_def
      isLiveSocket_def slotsOf_def allHeard_def socketsOf_def)

definition registered :: "ConnectionIdentity \<Rightarrow> GatewayState \<Rightarrow> GatewayState" where
  "registered i st = st\<lparr>gw_manager := registerConnection i (gw_manager st),
     gw_perPrincipal := AList.update (ci_principalId i) (List.insert (ci_connectionId i) (slotsOf st (ci_principalId i)))
       (gw_perPrincipal st)\<rparr>"

lemma wfGateway_registered:
  assumes w: "wfGateway cfg st" and fresh: "freshSocket st (ci_connectionId i)"
    and room: "length (slotsOf st (ci_principalId i)) < gc_maxConnectionsPerPrincipal cfg"
  shows "wfGateway cfg (registered i st) \<and> (allHeard st \<longrightarrow> allHeard (registered i st))"
proof -
  let ?k = "ci_connectionId i" and ?who = "ci_principalId i"
  have wf: "wfManager (gw_manager st)" and slots: "wfSlots cfg st" and rooms: "wfRooms st"
    and bp: "wfBackplane st" and joins: "wfJoins st" using w by (simp_all add: wfGateway_def)
  have none: "connectionOf (gw_manager st) ?k = None" and norooms: "?k \<notin> set (socketsOf st key)"
    and nojoins: "?k \<notin> fst ` set (gw_joins st)" "?k \<notin> fst ` set (gw_waiting st)" for key
    using fresh by (simp_all add: freshSocket_def)
  have s: "distinct (slotsOf st who)" "length (slotsOf st who) \<le> gc_maxConnectionsPerPrincipal cfg"
    "k' \<in> set (slotsOf st who) \<longleftrightarrow> map_option ci_principalId (connectionOf (gw_manager st) k') = Some who" for who k'
    using slots unfolding wfSlots_def by blast+
  have slot: "slotsOf (registered i st) who = (if who = ?who then List.insert ?k (slotsOf st who) else slotsOf st who)" for who
    by (auto simp: registered_def slotsOf_def update_conv' split: option.splits)
  have con: "connectionOf (gw_manager (registered i st)) k' = (if k' = ?k then Some i else connectionOf (gw_manager st) k')" for k'
    by (simp add: registered_def connectionOf_register)
  have "wfManager (gw_manager (registered i st))" using wf by (simp add: registered_def wfManager_register)
  moreover have "wfSlots cfg (registered i st)"
    using s room none by (auto simp: wfSlots_def slot con List.insert_def)
  moreover have "wfRooms (registered i st)"
    unfolding wfRooms_def
  proof (intro allI impI)
    fix key sub assume "map_of (gw_subscriptions (registered i st)) key = Some sub"
    then have sub: "map_of (gw_subscriptions st) key = Some sub" by (simp add: registered_def)
    with norooms[of key] have "?k \<notin> set (sn_sockets sub)" by (simp add: socketsOf_def)
    moreover from rooms sub have "channelKey (sn_channel sub) = key \<and> distinct (sn_sockets sub) \<and>
      (\<forall>k \<in> set (sn_sockets sub). isLiveSocket st k \<longrightarrow> hasJoined (gw_manager st) k key)" unfolding wfRooms_def by blast
    ultimately show "channelKey (sn_channel sub) = key \<and> distinct (sn_sockets sub) \<and>
      (\<forall>k \<in> set (sn_sockets sub). isLiveSocket (registered i st) k \<longrightarrow> hasJoined (gw_manager (registered i st)) k key)"
      by (auto simp: isLiveSocket_def con) (auto simp: registered_def hasJoined_register)
  qed
  moreover have "wfBackplane (registered i st)" using bp by (simp add: wfBackplane_def registered_def)
  moreover have "kindPermits (registered i st) j" if "j \<in> set (gw_joins st) \<union> set (gw_waiting st)" for j
  proof -
    from that nojoins have "fst j \<noteq> ?k" by (metis UnE imageI)
    with that joins show ?thesis by (auto simp: wfJoins_def kindPermits_def con)
  qed
  then have "wfJoins (registered i st)" by (simp add: wfJoins_def registered_def)
  moreover have "allHeard (registered i st)" if "allHeard st"
    using that by (auto simp: allHeard_def registered_def hasJoined_register socketsOf_def)
  ultimately show ?thesis by (simp add: wfGateway_def)
qed

lemma freshSocket_handshakes [simp]: "freshSocket (st\<lparr>gw_handshakes := hs\<rparr>) k = freshSocket st k"
  by (simp add: freshSocket_def socketsOf_def)

lemma endHandshake_registered:
  "endHandshake cfg now k verified closed_meanwhile st =
     (let st = st\<lparr>gw_handshakes := removeAll k (gw_handshakes st)\<rparr>
      in case verified of
           Inl _ \<Rightarrow> (HS_UNAUTHORIZED, st)
         | Inr s \<Rightarrow>
             if gc_maxConnectionsPerPrincipal cfg \<le> length (slotsOf st (sp_principalId s)) then (HS_TOO_MANY_CONNECTIONS, st)
             else let st1 = registered (identityFor k s) st
                  in if closed_meanwhile then (HS_UNAUTHORIZED, releaseConnection k st1)
                     else (HS_OK, st1\<lparr>gw_presence := heartbeat now (sp_principalId s) PRS_ONLINE (gc_presenceTtlSeconds cfg)
                                      (gw_presence st1)\<rparr>))"
  by (cases verified) (simp_all add: endHandshake_def registered_def identityFor_def Let_def)

lemma kept_endHandshake:
  assumes w: "wfGateway cfg st" and fresh: "freshSocket st k"
  shows "wfGateway cfg (snd (endHandshake cfg now k verified closed_meanwhile st)) \<and>
    (allHeard st \<longrightarrow> allHeard (snd (endHandshake cfg now k verified closed_meanwhile st)))"
proof (cases verified)
  case (Inl _)
  with w show ?thesis by (simp add: endHandshake_registered wfGateway_fields)
next
  case (Inr s)
  let ?st = "st\<lparr>gw_handshakes := removeAll k (gw_handshakes st)\<rparr>"
  show ?thesis
  proof (cases "gc_maxConnectionsPerPrincipal cfg \<le> length (slotsOf ?st (sp_principalId s))")
    case True
    with Inr w show ?thesis by (simp add: endHandshake_registered wfGateway_fields)
  next
    case False
    have "wfGateway cfg ?st" "allHeard st \<longrightarrow> allHeard ?st" using w by (simp_all add: wfGateway_fields)
    then have r: "wfGateway cfg (registered (identityFor k s) ?st)"
      "allHeard st \<longrightarrow> allHeard (registered (identityFor k s) ?st)"
      using wfGateway_registered[of cfg ?st "identityFor k s"] fresh False by (auto simp: identityFor_def)
    from r keeps_release[of cfg k] have "wfGateway cfg (releaseConnection k (registered (identityFor k s) ?st))"
      "allHeard st \<longrightarrow> allHeard (releaseConnection k (registered (identityFor k s) ?st))" by (auto simp: keeps_def)
    with r False Inr show ?thesis by (simp add: endHandshake_registered wfGateway_fields Let_def)
  qed
qed

section \<open>Subscribing\<close>

lemma kindPermits_mayJoin:
  assumes "fst (authorizeJoin deps (gw_manager st) k ch None) = JoinOk"
  shows "kindPermits st (k, ch)"
  using mayJoin_session[of deps "gw_manager st" k ch] assms by (auto simp: mayJoin_def kindPermits_def)

lemma kept_beginSubscribe:
  assumes "wfGateway cfg st"
  shows "wfGateway cfg (snd (beginSubscribe deps k raw st)) \<and> (allHeard st \<longrightarrow> allHeard (snd (beginSubscribe deps k raw st)))"
proof (cases "parseChannel raw")
  case None
  with assms show ?thesis by (simp add: beginSubscribe_def)
next
  case (Some ch)
  show ?thesis
  proof (cases "fst (authorizeJoin deps (gw_manager st) k ch None)")
    case JoinOk
    with assms kindPermits_mayJoin[OF JoinOk] Some show ?thesis
      by (auto simp: beginSubscribe_def wfGateway_def wfRooms_def wfBackplane_def wfSlots_def wfJoins_def kindPermits_def
          isLiveSocket_def slotsOf_def allHeard_def socketsOf_def)
  next
    case (JoinRefused r)
    with assms Some show ?thesis by (simp add: beginSubscribe_def)
  qed
qed

lemma kept_queues:
  assumes "wfGateway cfg st" and "set js \<union> set ws \<subseteq> set (gw_joins st) \<union> set (gw_waiting st)"
  shows "wfGateway cfg (st\<lparr>gw_joins := js, gw_waiting := ws, gw_pending := ps\<rparr>) \<and>
    (allHeard st \<longrightarrow> allHeard (st\<lparr>gw_joins := js, gw_waiting := ws, gw_pending := ps\<rparr>))"
  using assms
  by (auto simp: wfGateway_def wfRooms_def wfBackplane_def wfSlots_def wfJoins_def kindPermits_def
      isLiveSocket_def slotsOf_def allHeard_def socketsOf_def)

lemma kept_proceedJoin:
  assumes w: "wfGateway cfg st" and j: "j \<in> set (gw_joins st)"
  shows "wfGateway cfg (proceedJoin j st) \<and> (allHeard st \<longrightarrow> allHeard (proceedJoin j st))"
proof -
  let ?st = "st\<lparr>gw_joins := remove1 j (gw_joins st)\<rparr>"
  have sub: "set (remove1 j (gw_joins st)) \<subseteq> set (gw_joins st)" by (rule set_remove1_subset)
  have k: "kindPermits ?st j" using w j by (auto simp: wfGateway_def wfJoins_def kindPermits_def)
  have q: "wfGateway cfg ?st \<and> (allHeard st \<longrightarrow> allHeard ?st)"
    using kept_queues[OF w, of "remove1 j (gw_joins st)" "gw_waiting st" "gw_pending st"] sub by auto
  show ?thesis
  proof (cases "map_of (gw_subscriptions st) (channelKey (snd j)) = None")
    case False
    then have "proceedJoin j st = finishJoin j ?st" by (auto simp: proceedJoin_def Let_def)
    moreover have "wfGateway cfg (finishJoin j ?st)" using wfGateway_finishJoin[OF conjunct1[OF q] k] .
    moreover have "allHeard st \<longrightarrow> allHeard (finishJoin j ?st)"
      using q False by (auto simp: wfGateway_def intro!: allHeard_finishJoin)
    ultimately show ?thesis by simp
  next
    case True
    define ps where "ps = (if channelKey (snd j) \<in> set (gw_pending st) then gw_pending st
      else gw_pending st @ [channelKey (snd j)])"
    have p: "proceedJoin j st = st\<lparr>gw_joins := remove1 j (gw_joins st), gw_waiting := gw_waiting st @ [j], gw_pending := ps\<rparr>"
      using True by (cases st) (auto simp: proceedJoin_def Let_def ps_def)
    show ?thesis unfolding p using sub j by (intro kept_queues w) auto
  qed
qed

lemma kept_settle:
  assumes w: "wfGateway cfg st"
  shows "wfGateway cfg (settleSubscribe ch ok st) \<and> (ok \<longrightarrow> allHeard st \<longrightarrow> allHeard (settleSubscribe ch ok st))"
proof -
  let ?key = "channelKey ch"
  let ?mine = "filter (\<lambda>j. channelKey (snd j) = ?key) (gw_waiting st)"
  define st0 where "st0 = st\<lparr>gw_joins := gw_joins st, gw_waiting := filter (\<lambda>j. channelKey (snd j) \<noteq> ?key) (gw_waiting st),
    gw_pending := removeAll ?key (gw_pending st)\<rparr>"
  define st1 where "st1 = (if \<not> ok \<or> map_of (gw_subscriptions st0) ?key \<noteq> None then st0
    else st0\<lparr>gw_subscriptions := AList.update ?key \<lparr>sn_subscriber = gw_nextSubscriber st0, sn_channel = ch, sn_sockets = []\<rparr>
               (gw_subscriptions st0),
             gw_backplane := bpSubscribe ch (gw_nextSubscriber st0) (gw_backplane st0),
             gw_nextSubscriber := gw_nextSubscriber st0 + 1\<rparr>)"
  have q: "wfGateway cfg st0 \<and> (allHeard st \<longrightarrow> allHeard st0)" unfolding st0_def by (intro kept_queues w) auto
  have eq: "settleSubscribe ch ok st = fold finishJoin ?mine st1"
    by (cases st) (simp add: settleSubscribe_def st1_def st0_def Let_def)
  have w1: "wfGateway cfg st1"
  proof (cases "\<not> ok \<or> map_of (gw_subscriptions st0) ?key \<noteq> None")
    case True
    then show ?thesis using q by (simp add: st1_def)
  next
    case False
    then have none: "map_of (gw_subscriptions st0) ?key = None" by simp
    have rooms: "wfRooms st0" and bp: "wfBackplane st0" using q by (simp_all add: wfGateway_def)
    have "wfRooms st1" using rooms False
      by (auto simp: wfRooms_def st1_def update_conv' isLiveSocket_def simp del: map_of_eq_Some_iff)
    moreover have "wfBackplane st1" using bp False none
      by (auto simp: wfBackplane_def st1_def update_conv' distinct_update subscribersOf_subscribe)
    ultimately show ?thesis using q False
      by (simp add: wfGateway_def st1_def wfSlots_def wfJoins_def kindPermits_def slotsOf_def)
  qed
  have "gw_manager st1 = gw_manager st" by (simp add: st1_def st0_def)
  then have same: "kindPermits st1 = kindPermits st" by (simp add: kindPermits_def fun_eq_iff)
  have "kindPermits st j" if "j \<in> set (gw_waiting st)" for j
    using w that unfolding wfGateway_def wfJoins_def by blast
  then have mine: "list_all (kindPermits st1) ?mine" unfolding same list_all_iff by simp
  have "wfGateway cfg (settleSubscribe ch ok st)" unfolding eq using finishJoins[OF w1 mine] by simp
  moreover have "allHeard (settleSubscribe ch ok st)" if "ok" "allHeard st"
  proof -
    have "socketsOf st1 key = socketsOf st0 key" for key
      by (auto simp: st1_def socketsOf_def update_conv')
    moreover have "gw_manager st1 = gw_manager st0" by (simp add: st1_def)
    ultimately have "allHeard st1" using that q by (simp add: allHeard_def)
    moreover have "map_of (gw_subscriptions st1) ?key \<noteq> None" using that by (auto simp: st1_def update_conv')
    ultimately show ?thesis unfolding eq by (intro finishJoins_heard[OF w1 mine, of ?key]) (auto simp: list_all_iff)
  qed
  ultimately show ?thesis by simp
qed

section \<open>Every reachable state\<close>

lemma wfGateway_typed:
  "wfGateway cfg (st\<lparr>gw_lastTypingAt := l, gw_presence := p\<rparr>) = wfGateway cfg st"
  "allHeard (st\<lparr>gw_lastTypingAt := l, gw_presence := p\<rparr>) = allHeard st"
  by (simp_all add: wfGateway_def wfRooms_def wfBackplane_def wfSlots_def wfJoins_def kindPermits_def
      isLiveSocket_def slotsOf_def allHeard_def socketsOf_def)

lemma onTyping_state:
  "snd (onTyping cfg now k raw st) = st \<or>
   (\<exists>l p. snd (onTyping cfg now k raw st) = st\<lparr>gw_lastTypingAt := l, gw_presence := p\<rparr>)"
  by (auto simp: onTyping_def Let_def split: option.split)

lemma gateway_step_keeps:
  assumes "gateway_step cfg reliable st st'" and "wfGateway cfg st"
  shows "wfGateway cfg st' \<and> (reliable \<longrightarrow> allHeard st \<longrightarrow> allHeard st')"
  using assms
proof (cases rule: gateway_step.cases)
  case (arrives k)
  with assms(2) show ?thesis by (simp add: beginHandshake_def wfGateway_fields)
next
  case (authenticated k now verified closed_meanwhile)
  then show ?thesis using kept_endHandshake[OF assms(2), of k now verified closed_meanwhile] by blast
next
  case (subscribes deps k raw)
  then show ?thesis using kept_beginSubscribe[OF assms(2), of deps k raw] by blast
next
  case (proceeds j)
  then show ?thesis using kept_proceedJoin[OF assms(2), of j] by blast
next
  case (settles ch ok)
  then show ?thesis using kept_settle[OF assms(2), of ch ok] by blast
next
  case (unsubscribes k raw)
  then show ?thesis using keeps_onUnsubscribe[of cfg k raw] assms(2) by (simp add: keeps_def)
next
  case (disconnects k)
  then show ?thesis using keeps_onDisconnect[of cfg k] assms(2) by (simp add: keeps_def)
next
  case (revokes who)
  then show ?thesis using keeps_revoke[of cfg who] assms(2) by (simp add: keeps_def)
next
  case (revalidates deps)
  then show ?thesis using keeps_revalidate[of cfg deps] assms(2) by (simp add: keeps_def)
next
  case (types now k raw)
  then show ?thesis using assms(2) onTyping_state[of cfg now k raw st] by (auto simp: wfGateway_typed)
next
  case (tells now k ch)
  then show ?thesis using assms(2)
    by (auto simp: typistsFor_def case_prod_beta Let_def wfGateway_fields split: RealtimeChannel.splits)
next
  case (beats now)
  then show ?thesis using assms(2) by (simp add: presenceTick_def wfGateway_fields)
next
  case drains
  then show ?thesis using keeps_drain[of cfg] assms(2) by (simp add: keeps_def)
qed

lemma gateway_run_wf:
  assumes "gateway_run cfg reliable st"
  shows "wfGateway cfg st \<and> (reliable \<longrightarrow> allHeard st)"
  using assms
proof (induction rule: gateway_run.induct)
  case start
  show ?case
    by (simp add: initialGateway_def wfGateway_def wfManager_def wfSlots_def wfRooms_def wfBackplane_def wfJoins_def
        slotsOf_def subscribersOf_def connectionOf_def allHeard_def hasJoined_def joinedOf_def)
next
  case (step st st')
  then show ?case using gateway_step_keeps by blast
qed

end
