(* ===== verification/Gateway_Props.thy ===== *)
theory Gateway_Props
  imports Gateway_Invariants
begin

text \<open>The properties of sessions and of the realtime gateway.\<close>

section \<open>Who hears an event\<close>

lemma deliveredTo_room:
  assumes "wfBackplane st"
  shows "deliveredTo st ev = fanOut st (channelKey (re_channel ev)) ev"
  using assms by (auto simp: deliveredTo_def bpPublish_def wfBackplane_def fanOut_def socketsOf_def
      split: option.splits)

lemma fanOut_iff:
  assumes w: "wfGateway cfg st"
  shows "k \<in> set (fanOut st key ev) \<longleftrightarrow>
    k \<in> set (socketsOf st key) \<and> hasJoined (gw_manager st) k key \<and> mayReceive (gw_manager st) k ev"
proof -
  have "hasJoined (gw_manager st) k key" if "k \<in> set (socketsOf st key)" "mayReceive (gw_manager st) k ev"
  proof -
    from that(1) obtain s where s: "map_of (gw_subscriptions st) key = Some s" "k \<in> set (sn_sockets s)"
      by (cases "map_of (gw_subscriptions st) key") (simp_all add: socketsOf_def)
    moreover from that(2) have "isLiveSocket st k" by (auto simp: mayReceive_def isLiveSocket_def split: option.splits)
    ultimately show ?thesis using w unfolding wfGateway_def wfRooms_def by blast
  qed
  then show ?thesis by (auto simp: fanOut_def)
qed

lemma fanOut_distinct: "wfRooms st \<Longrightarrow> distinct (fanOut st key ev)"
proof -
  assume "wfRooms st"
  then have "distinct (socketsOf st key)" by (auto simp: socketsOf_def wfRooms_def split: option.splits)
  then show ?thesis by (simp add: fanOut_def)
qed

text \<open>
  C9: an event reaches nobody twice and nobody who has not joined its channel; a staff-only event reaches
  employees alone, and a customer is reached on conversations alone. While the backplane takes every
  subscription, the event also misses nobody who has joined and may receive it.
\<close>

theorem events_reach_the_joined:
  assumes "gateway_run cfg reliable st"
  shows "distinct (deliveredTo st ev) \<and>
    (\<forall>k \<in> set (deliveredTo st ev).
       hasJoined (gw_manager st) k (channelKey (re_channel ev)) \<and>
       (\<exists>i. connectionOf (gw_manager st) k = Some i \<and>
            (re_staffOnly ev \<longrightarrow> ci_principalKind i = K_EMPLOYEE) \<and>
            (ci_principalKind i = K_CUSTOMER \<longrightarrow> isConversationChannel (re_channel ev)))) \<and>
    (reliable \<longrightarrow> (\<forall>k. hasJoined (gw_manager st) k (channelKey (re_channel ev)) \<and> mayReceive (gw_manager st) k ev \<longrightarrow>
       k \<in> set (deliveredTo st ev)))"
proof -
  have w: "wfGateway cfg st" and h: "reliable \<longrightarrow> allHeard st" using gateway_run_wf[OF assms] by blast+
  have wf: "wfManager (gw_manager st)" and bp: "wfBackplane st" and rooms: "wfRooms st"
    using w by (simp_all add: wfGateway_def)
  have "hasJoined (gw_manager st) k (channelKey (re_channel ev)) \<and>
       (\<exists>i. connectionOf (gw_manager st) k = Some i \<and>
            (re_staffOnly ev \<longrightarrow> ci_principalKind i = K_EMPLOYEE) \<and>
            (ci_principalKind i = K_CUSTOMER \<longrightarrow> isConversationChannel (re_channel ev)))"
    if "k \<in> set (deliveredTo st ev)" for k
  proof -
    from that have j: "hasJoined (gw_manager st) k (channelKey (re_channel ev))" and r: "mayReceive (gw_manager st) k ev"
      unfolding deliveredTo_room[OF bp] fanOut_iff[OF w] by blast+
    from hasJoined_channel[OF wf j] obtain i ch where "connectionOf (gw_manager st) k = Some i"
      "channelKey (re_channel ev) = channelKey ch" "ci_principalKind i = K_CUSTOMER \<longrightarrow> isConversationChannel ch" by blast
    with j r show ?thesis by (auto simp: mayReceive_def split: if_splits)
  qed
  moreover have "k \<in> set (deliveredTo st ev)"
    if "reliable" "hasJoined (gw_manager st) k (channelKey (re_channel ev))" "mayReceive (gw_manager st) k ev" for k
    using that h unfolding deliveredTo_room[OF bp] fanOut_iff[OF w] by (simp add: allHeard_def)
  ultimately show ?thesis using fanOut_distinct[OF rooms] by (simp add: deliveredTo_room[OF bp])
qed

text \<open>
  C31: what the relay publishes for an internal note, and for every event that is not one of the three customer
  events, reaches connections of employees alone, whatever the gateway did before.
\<close>

theorem internal_notes_stay_with_staff:
  assumes "gateway_run cfg reliable st"
    and "payloadVisibility (ob_payload (rl_row row)) = Some INTERNAL \<or> ob_eventName (rl_row row) \<notin> set CUSTOMER_VISIBLE_EVENTS"
  shows "list_all (isEmployeeConnection (gw_manager st)) (deliveredTo st (realtimeEventOf row))"
proof -
  have w: "wfGateway cfg st" using gateway_run_wf[OF assms(1)] by blast
  then have bp: "wfBackplane st" by (simp add: wfGateway_def)
  have staff: "re_staffOnly (realtimeEventOf row)" using assms(2) by (auto simp: realtimeEventOf_def isStaffOnly_def)
  show ?thesis
    using staff by (auto simp: list_all_iff deliveredTo_room[OF bp] fanOut_iff[OF w] mayReceive_def isEmployeeConnection_def
        split: option.splits)
qed

section \<open>The ceiling\<close>

text \<open>no principal ever holds more connections than the ceiling allows.\<close>

theorem connections_stay_below_the_ceiling:
  assumes "gateway_run cfg reliable st"
  shows "length (connectionsToRevoke (gw_manager st) who) \<le> gc_maxConnectionsPerPrincipal cfg"
proof -
  have w: "wfGateway cfg st" using gateway_run_wf[OF assms] by blast
  have d: "distinct (map fst (mg_connections (gw_manager st)))" using w by (simp add: wfGateway_def wfManager_def)
  have slots: "distinct (slotsOf st who)" "length (slotsOf st who) \<le> gc_maxConnectionsPerPrincipal cfg"
    "k \<in> set (slotsOf st who) \<longleftrightarrow> map_option ci_principalId (connectionOf (gw_manager st) k) = Some who" for k
    using w unfolding wfGateway_def wfSlots_def by blast+
  have "set (connectionsToRevoke (gw_manager st) who) \<subseteq> set (slotsOf st who)"
    using d by (force simp: connectionsToRevoke_def slots(3) connectionOf_def)
  moreover have "distinct (connectionsToRevoke (gw_manager st) who)"
    using d by (simp add: connectionsToRevoke_def distinct_map_filter)
  ultimately have "length (connectionsToRevoke (gw_manager st) who) \<le> length (slotsOf st who)"
    using slots(1) by (metis card_mono distinct_card finite_set)
  with slots(2) show ?thesis by linarith
qed

section \<open>Revalidation\<close>

lemma joined_leaveChannel:
  "wfManager (gw_manager st) \<Longrightarrow>
   map_of (joinedOf (gw_manager (leaveChannel k key st)) k') key' = Some ch \<longleftrightarrow>
     \<not> (k' = k \<and> key' = key) \<and> map_of (joinedOf (gw_manager st) k') key' = Some ch"
proof -
  assume wf: "wfManager (gw_manager st)"
  show ?thesis
  proof (cases "map_of (mg_joined (gw_manager st)) k")
    case None
    then have "joinedOf (gw_manager st) k = []" by (simp add: joinedOf_def)
    with None show ?thesis by (auto simp: recordLeave_def)
  next
    case (Some cs)
    then have "joinedOf (gw_manager st) k = cs" by (simp add: joinedOf_def)
    moreover have "joinedOf (recordLeave k key (gw_manager st)) k' =
        (if k' = k then AList.delete key cs else joinedOf (gw_manager st) k')"
      using Some by (simp add: recordLeave_def map_of_joined_update[OF Some])
    ultimately show ?thesis by (auto simp: delete_conv' simp del: map_of_eq_Some_iff)
  qed
qed

lemma joined_leaveChannels:
  "wfGateway cfg st \<Longrightarrow> k' \<noteq> k \<Longrightarrow>
   joinedOf (gw_manager (fold (leaveChannel k) keys st)) k' = joinedOf (gw_manager st) k'"
proof (induction keys arbitrary: st)
  case (Cons key keys)
  have "joinedOf (recordLeave k key (gw_manager st)) k' = joinedOf (gw_manager st) k'"
    using Cons.prems(2) by (auto simp: recordLeave_def map_of_joined_update split: option.splits)
  moreover have "wfGateway cfg (leaveChannel k key st)" using Cons.prems(1) by (rule wfGateway_leaveChannel)
  ultimately show ?case using Cons.IH[of "leaveChannel k key st"] Cons.prems(2) by simp
qed simp

lemma joinedOf_unregister: "joinedOf (unregisterConnection k m) k' = (if k' = k then [] else joinedOf m k')"
  by (simp add: joinedOf_def unregisterConnection_def delete_conv')

lemma joined_disconnect:
  assumes w: "wfGateway cfg st"
  shows "joinedOf (gw_manager (disconnectSocket k st)) k' = (if k' = k then [] else joinedOf (gw_manager st) k')"
proof (cases "isLiveSocket st k")
  case True
  then show ?thesis using joined_leaveChannels[OF w, of k' k]
    by (auto simp: disconnectSocket_def onDisconnect_def Let_def releaseConnection_manager connectionOf_leaveChannels
        isLiveSocket_def joinedOf_unregister)
next
  case False
  then show ?thesis using w joinedOf_unregistered[of "gw_manager st" k]
    by (simp add: disconnectSocket_def isLiveSocket_def wfGateway_def)
qed

lemma joined_disconnects:
  "wfGateway cfg st \<Longrightarrow> joinedOf (gw_manager (fold disconnectSocket ks st)) k' =
     (if k' \<in> set ks then [] else joinedOf (gw_manager st) k')"
proof (induction ks arbitrary: st)
  case (Cons k ks)
  then have "wfGateway cfg (disconnectSocket k st)" using keeps_disconnectSocket by (auto simp: keeps_def)
  from Cons.IH[OF this] Cons.prems show ?case by (simp add: joined_disconnect)
qed simp

lemma joined_leaves:
  "wfGateway cfg st \<Longrightarrow>
   map_of (joinedOf (gw_manager (fold leaveIfLive lefts st)) k) key = Some ch \<longleftrightarrow>
     (k, key) \<notin> set lefts \<and> map_of (joinedOf (gw_manager st) k) key = Some ch"
proof (induction lefts arbitrary: st)
  case (Cons left lefts)
  obtain k0 key0 where left: "left = (k0, key0)" by (cases left)
  have w': "wfGateway cfg (leaveIfLive left st)" using Cons.prems keeps_leaveIfLive by (auto simp: keeps_def)
  have wf: "wfManager (gw_manager st)" using Cons.prems by (simp add: wfGateway_def)
  have "map_of (joinedOf (gw_manager (leaveIfLive left st)) k) key = Some ch \<longleftrightarrow>
      (k, key) \<noteq> left \<and> map_of (joinedOf (gw_manager st) k) key = Some ch"
  proof (cases "isLiveSocket st k0")
    case True
    then show ?thesis by (simp add: leaveIfLive_def left joined_leaveChannel[OF wf] del: leaveChannel_simps)
  next
    case False
    then have "joinedOf (gw_manager st) k0 = []" using joinedOf_unregistered[OF wf] by (simp add: isLiveSocket_def)
    with False show ?thesis by (auto simp: leaveIfLive_def left)
  qed
  with Cons.IH[OF w'] show ?case by auto
qed simp

lemma plainPass_verdict:
  assumes wf: "wfManager m" and j: "map_of (joinedOf m k) key = Some ch"
  shows "k \<notin> set (rv_doomed (revalidateAll deps m)) \<and> (k, key) \<notin> set (rv_revoked (revalidateAll deps m)) \<longleftrightarrow>
    mayJoin deps m k ch"
proof -
  have "hasJoined m k key" using j by (simp add: hasJoined_def)
  from hasJoined_connected[OF wf this] obtain i where i: "connectionOf m k = Some i" ..
  have d: "distinct (map fst (mg_connections m))" and dj: "distinct (map fst (joinedOf m k))"
    using wf i unfolding wfManager_def wfJoined_def by blast+
  have only: "(k, i') \<in> set (mg_connections m) \<longleftrightarrow> i' = i" for i'
    using d i unfolding connectionOf_def by (metis map_of_eq_Some_iff option.inject)
  have only': "(key, ch') \<in> set (joinedOf m k) \<longleftrightarrow> ch' = ch" for ch'
    using dj j by (metis map_of_eq_Some_iff option.inject)
  have doomed: "k \<in> set (rv_doomed (revalidateAll deps m)) \<longleftrightarrow> staleConnection deps i"
    using only by (force simp: revalidateAll_plain plainPass_def)
  have "(k, key) \<in> set (rv_revoked (revalidateAll deps m)) \<longleftrightarrow>
      (\<exists>i'. (k, i') \<in> set (mg_connections m) \<and> \<not> staleConnection deps i' \<and>
        (\<exists>ch'. (key, ch') \<in> set (joinedOf m k) \<and> \<not> mayJoin deps m k ch'))"
    by (force simp: revalidateAll_plain plainPass_def split: if_splits)
  also have "\<dots> \<longleftrightarrow> \<not> staleConnection deps i \<and> \<not> mayJoin deps m k ch" by (simp add: only only')
  finally show ?thesis using doomed mayJoin_session[of deps m k ch] i by (auto simp: staleConnection_def)
qed

text \<open>
  C32: a revalidation pass, although it memoises its reads, leaves a connection in exactly the channels that a
  fresh join would be allowed at that moment; what the access no longer covers is left, and nothing else is.
\<close>

theorem revalidation_leaves_what_may_be_joined:
  assumes "gateway_run cfg reliable st"
  shows "map_of (joinedOf (gw_manager (revalidateGateway deps st)) k) key = Some ch \<longleftrightarrow>
    map_of (joinedOf (gw_manager st) k) key = Some ch \<and> mayJoin deps (gw_manager st) k ch"
proof -
  have w: "wfGateway cfg st" using gateway_run_wf[OF assms] by blast
  then have wf: "wfManager (gw_manager st)" by (simp add: wfGateway_def)
  let ?out = "revalidateAll deps (gw_manager st)"
  have w1: "wfGateway cfg (fold disconnectSocket (rv_doomed ?out) st)"
    using w keeps_fold[of cfg disconnectSocket, OF keeps_disconnectSocket] by (simp add: keeps_def)
  have "map_of (joinedOf (gw_manager (revalidateGateway deps st)) k) key = Some ch \<longleftrightarrow>
      (k, key) \<notin> set (rv_revoked ?out) \<and> k \<notin> set (rv_doomed ?out) \<and> map_of (joinedOf (gw_manager st) k) key = Some ch"
    by (simp add: revalidateGateway_def Let_def joined_leaves[OF w1] joined_disconnects[OF w] del: map_of_eq_Some_iff)
  with plainPass_verdict[OF wf, of k key ch deps] show ?thesis by blast
qed

section \<open>Joins that come too late\<close>

lemma socketsOf_finishJoin:
  "socketsOf (finishJoin j st) key =
     (if key = channelKey (snd j) \<and> map_of (gw_subscriptions st) key \<noteq> None
      then List.insert (fst j) (socketsOf st key) else socketsOf st key)"
  by (auto simp: socketsOf_def finishJoin_room)

lemma finishJoins_keep: "k \<in> set (socketsOf st key) \<Longrightarrow> k \<in> set (socketsOf (fold finishJoin js st) key)"
proof (induction js arbitrary: st)
  case (Cons j js)
  then have "k \<in> set (socketsOf (finishJoin j st) key)" by (auto simp: socketsOf_finishJoin)
  with Cons.IH show ?case by simp
qed simp

lemma socketsOf_kept:
  "socketsOf (releaseConnection k st) key = socketsOf st key"
  "socketsOf (st\<lparr>gw_lastTypingAt := l\<rparr>) key = socketsOf st key"
  by (simp_all add: socketsOf_def)

lemma socketsOf_cong: "gw_subscriptions st' = gw_subscriptions st \<Longrightarrow> socketsOf st' key = socketsOf st key"
  by (simp add: socketsOf_def)

text \<open>An operation that leaves a dead socket where it is.\<close>

definition sparesDead :: "GatewayConfig \<Rightarrow> (GatewayState \<Rightarrow> GatewayState) \<Rightarrow> bool" where
  "sparesDead cfg f \<longleftrightarrow> (\<forall>st k key. wfGateway cfg st \<longrightarrow> connectionOf (gw_manager st) k = None \<longrightarrow>
     k \<in> set (socketsOf st key) \<longrightarrow>
     wfGateway cfg (f st) \<and> connectionOf (gw_manager (f st)) k = None \<and> k \<in> set (socketsOf (f st) key))"

lemma spares_fold: "(\<And>x. sparesDead cfg (f x)) \<Longrightarrow> sparesDead cfg (fold f xs)"
proof (induction xs)
  case (Cons x xs)
  then have "sparesDead cfg (fold f xs)" and "sparesDead cfg (f x)" by blast+
  then show ?case unfolding sparesDead_def fold_simps by blast
qed (simp add: sparesDead_def)

lemma spares_leave:
  assumes "wfGateway cfg st" "connectionOf (gw_manager st) k = None" "k \<in> set (socketsOf st key)" "k' \<noteq> k"
  shows "connectionOf (gw_manager (leaveChannel k' key' st)) k = None \<and> k \<in> set (socketsOf (leaveChannel k' key' st) key)"
  using assms by (auto simp: socketsOf_leaveChannel wfGateway_def wfBackplane_def)

lemma spares_leaves:
  assumes "wfGateway cfg st" "connectionOf (gw_manager st) k = None" "k \<in> set (socketsOf st key)" "k' \<noteq> k"
  shows "connectionOf (gw_manager (fold (leaveChannel k') keys st)) k = None \<and>
    k \<in> set (socketsOf (fold (leaveChannel k') keys st) key)"
  using assms
proof (induction keys arbitrary: st)
  case (Cons key' keys)
  then show ?case using spares_leave[of cfg st k key k' key'] wfGateway_leaveChannel[of cfg st k' key'] by simp
qed simp

lemma spares_disconnect: "sparesDead cfg (disconnectSocket k')"
  unfolding sparesDead_def
proof (intro allI impI)
  fix st k key assume w: "wfGateway cfg st" and none: "connectionOf (gw_manager st) k = None" and k: "k \<in> set (socketsOf st key)"
  show "wfGateway cfg (disconnectSocket k' st) \<and> connectionOf (gw_manager (disconnectSocket k' st)) k = None \<and>
    k \<in> set (socketsOf (disconnectSocket k' st) key)"
  proof (cases "isLiveSocket st k'")
    case True
    then have "k' \<noteq> k" using none by (auto simp: isLiveSocket_def)
    from spares_leaves[OF w none k this, of "channelsOf (gw_manager st) k'"] True
    have "k \<in> set (socketsOf (disconnectSocket k' st) key)"
      by (simp add: disconnectSocket_def onDisconnect_def Let_def socketsOf_kept)
    moreover have "connectionOf (gw_manager (disconnectSocket k' st)) k = None"
      using none by (simp add: connectionOf_disconnect)
    moreover have "wfGateway cfg (disconnectSocket k' st)"
      using keeps_disconnectSocket[of cfg k'] w unfolding keeps_def by blast
    ultimately show ?thesis by blast
  next
    case False
    then show ?thesis using w none k by (simp add: disconnectSocket_def)
  qed
qed

lemma spares_leaveIfLive: "sparesDead cfg (leaveIfLive left)"
  unfolding sparesDead_def
proof (intro allI impI)
  fix st k key assume w: "wfGateway cfg st" and none: "connectionOf (gw_manager st) k = None" and k: "k \<in> set (socketsOf st key)"
  show "wfGateway cfg (leaveIfLive left st) \<and> connectionOf (gw_manager (leaveIfLive left st)) k = None \<and>
    k \<in> set (socketsOf (leaveIfLive left st) key)"
  proof (cases "isLiveSocket st (fst left)")
    case True
    then have "fst left \<noteq> k" using none by (auto simp: isLiveSocket_def)
    from spares_leave[OF w none k this] True wfGateway_leaveChannel[OF w] show ?thesis by (simp add: leaveIfLive_def)
  next
    case False
    then show ?thesis using w none k by (simp add: leaveIfLive_def)
  qed
qed

lemma draining_simps [simp]:
  "gw_draining (leaveChannel k key st) = gw_draining st" "gw_draining (releaseConnection k st) = gw_draining st"
  by (auto simp: leaveChannel_def releaseConnection_def Let_def split: option.splits)

lemma draining_disconnects: "gw_draining (fold disconnectSocket ks st) = gw_draining st"
proof (induction ks arbitrary: st)
  case (Cons k ks)
  have "gw_draining (fold (leaveChannel k) keys st) = gw_draining st" for keys st
    by (induction keys arbitrary: st) simp_all
  then have "gw_draining (disconnectSocket k st) = gw_draining st"
    by (simp add: disconnectSocket_def onDisconnect_def Let_def)
  with Cons.IH show ?case by simp
qed simp

lemma step_spares_dead:
  assumes step: "gateway_step cfg reliable st st'" and open_gate: "\<not> gw_draining st'"
    and w: "wfGateway cfg st" and none: "connectionOf (gw_manager st) k = None" and k: "k \<in> set (socketsOf st key)"
  shows "connectionOf (gw_manager st') k = None \<and> k \<in> set (socketsOf st' key)"
  using step
proof (cases rule: gateway_step.cases)
  case (arrives k')
  then have "gw_subscriptions st' = gw_subscriptions st" "gw_manager st' = gw_manager st"
    by (simp_all add: beginHandshake_def)
  with none k socketsOf_cong[of st' st key] show ?thesis by simp
next
  case (authenticated k' now verified closed_meanwhile)
  then have "k' \<noteq> k" using k by (auto simp: freshSocket_def)
  moreover have "gw_subscriptions st' = gw_subscriptions st" unfolding authenticated(1)
    by (cases verified) (simp_all add: endHandshake_registered registered_def Let_def)
  then have "socketsOf st' key = socketsOf st key" by (rule socketsOf_cong)
  moreover have "connectionOf (gw_manager st') k = None" if "k' \<noteq> k" unfolding authenticated(1) using none that
    by (cases verified) (auto simp: endHandshake_registered registered_def identityFor_def Let_def connectionOf_register
        connectionOf_release)
  ultimately show ?thesis using k by simp
next
  case (subscribes deps k' raw)
  then have "gw_subscriptions st' = gw_subscriptions st" "gw_manager st' = gw_manager st"
    by (simp_all add: beginSubscribe_def split: option.splits JoinOutcome.splits)
  with none k socketsOf_cong[of st' st key] show ?thesis by simp
next
  case (proceeds j)
  have same: "socketsOf (st\<lparr>gw_joins := js\<rparr>) c = socketsOf st c" for js c by (rule socketsOf_cong) simp
  have "k \<in> set (socketsOf (finishJoin j (st\<lparr>gw_joins := remove1 j (gw_joins st)\<rparr>)) key)"
    using k by (auto simp: socketsOf_finishJoin same)
  moreover have "socketsOf (st\<lparr>gw_joins := js, gw_waiting := ws\<rparr>) key = socketsOf st key"
    "socketsOf (st\<lparr>gw_joins := js, gw_pending := ps, gw_waiting := ws\<rparr>) key = socketsOf st key" for js ws ps
    by (rule socketsOf_cong; simp)+
  ultimately show ?thesis unfolding proceeds(1) using none k by (auto simp: proceedJoin_def Let_def)
next
  case (settles ch ok)
  have fj: "connectionOf (gw_manager (fold finishJoin js s)) k = connectionOf (gw_manager s) k" for js s
    by (induction js arbitrary: s) simp_all
  have new: "key \<noteq> c \<Longrightarrow> socketsOf (s\<lparr>gw_subscriptions := AList.update c sub (gw_subscriptions st), gw_backplane := b,
      gw_nextSubscriber := n\<rparr>) key = socketsOf st key" for s c sub b n
    by (simp add: socketsOf_def update_conv')
  have old: "socketsOf (s\<lparr>gw_pending := ps, gw_waiting := ws\<rparr>) c = socketsOf s c" for s ps ws c
    by (rule socketsOf_cong) simp
  have none_room: "map_of (gw_subscriptions st) (channelKey ch) = None \<Longrightarrow> key \<noteq> channelKey ch"
    using k by (auto simp: socketsOf_def)
  show ?thesis unfolding settles(1) settleSubscribe_def Let_def
    using none k none_room by (auto simp: fj new old intro!: finishJoins_keep)
next
  case (unsubscribes k' raw)
  then have "k' \<noteq> k" using none by (auto simp: isLiveSocket_def)
  from spares_leave[OF w none k this] none k show ?thesis
    by (simp add: unsubscribes(1) onUnsubscribe_def split: option.splits)
next
  case (disconnects k')
  then have "onDisconnect k' st = disconnectSocket k' st" by (simp add: disconnectSocket_def)
  with spares_disconnect[of cfg k'] w none k show ?thesis unfolding disconnects(1) sparesDead_def by metis
next
  case (revokes who)
  show ?thesis unfolding revokes(1) revokePrincipal_def Let_def snd_conv
    using spares_fold[of cfg disconnectSocket, OF spares_disconnect] w none k unfolding sparesDead_def by blast
next
  case (revalidates deps)
  show ?thesis unfolding revalidates(1) revalidateGateway_def Let_def
    using spares_fold[of cfg disconnectSocket, OF spares_disconnect] spares_fold[of cfg leaveIfLive, OF spares_leaveIfLive]
      w none k unfolding sparesDead_def by blast
next
  case (types now k' raw)
  then have "gw_subscriptions st' = gw_subscriptions st" "gw_manager st' = gw_manager st"
    by (auto simp: onTyping_def Let_def split: option.splits)
  with none k socketsOf_cong[of st' st key] show ?thesis by simp
next
  case (tells now k' ch)
  then have "gw_subscriptions st' = gw_subscriptions st" "gw_manager st' = gw_manager st"
    by (auto simp: typistsFor_def case_prod_beta Let_def split: RealtimeChannel.splits)
  with none k socketsOf_cong[of st' st key] show ?thesis by simp
next
  case (beats now)
  then have "gw_subscriptions st' = gw_subscriptions st" "gw_manager st' = gw_manager st"
    by (simp_all add: presenceTick_def)
  with none k socketsOf_cong[of st' st key] show ?thesis by simp
next
  case drains
  with open_gate show ?thesis by (simp add: drainGateway_def Let_def draining_disconnects)
qed

text \<open>
  C33: a join that is carried out after its socket has gone is never undone. Whatever happens until the
  gateway is drained, the dead socket stays in the room, and the room keeps its subscription of the
  backplane for good although nobody may be watching.
\<close>

theorem late_join_pins_its_room:
  assumes run: "gateway_run cfg reliable st" and none: "connectionOf (gw_manager st) k = None"
    and k: "k \<in> set (socketsOf st key)"
    and later: "(\<lambda>s s'. gateway_step cfg reliable s s' \<and> \<not> gw_draining s')\<^sup>*\<^sup>* st st'"
  shows "connectionOf (gw_manager st') k = None \<and> k \<in> set (socketsOf st' key) \<and> subscribersOf (gw_backplane st') key \<noteq> []"
proof -
  have "wfGateway cfg st' \<and> connectionOf (gw_manager st') k = None \<and> k \<in> set (socketsOf st' key)"
    using later
  proof (induction rule: rtranclp_induct)
    case base
    then show ?case using gateway_run_wf[OF run] none k by blast
  next
    case (step s s')
    then show ?case using gateway_step_keeps[of cfg reliable s s'] step_spares_dead[of cfg reliable s s' k key] by blast
  qed
  moreover from this have "subscribersOf (gw_backplane st') key \<noteq> []"
    by (auto simp: wfGateway_def wfBackplane_def socketsOf_def split: option.splits)
  ultimately show ?thesis by blast
qed

section \<open>A subscription the backplane refuses\<close>

lemma finishJoins_record:
  assumes "wfGateway cfg st" and "list_all (kindPermits st) js" and "connectionOf (gw_manager st) k \<noteq> None"
    and "(k, ch) \<in> set js \<or> hasJoined (gw_manager st) k (channelKey ch)"
  shows "hasJoined (gw_manager (fold finishJoin js st)) k (channelKey ch)"
  using assms
proof (induction js arbitrary: st)
  case (Cons j js)
  have w: "wfGateway cfg (finishJoin j st)" and p: "list_all (kindPermits (finishJoin j st)) js"
    using Cons.prems wfGateway_finishJoin by (auto simp: list_all_iff kindPermits_def)
  have wf: "wfManager (gw_manager st)" using Cons.prems(1) by (simp add: wfGateway_def)
  have "(k, ch) \<in> set js \<or> hasJoined (gw_manager (finishJoin j st)) k (channelKey ch)"
    using Cons.prems(3,4) by (auto simp: hasJoined_recordJoin_iff[OF wf])
  with Cons.IH[OF w p] Cons.prems(3) show ?case by simp
qed simp

lemma finishJoins_no_room:
  "map_of (gw_subscriptions st) key = None \<Longrightarrow>
   map_of (gw_subscriptions (fold finishJoin js st)) key = None \<and> gw_backplane (fold finishJoin js st) = gw_backplane st"
proof (induction js arbitrary: st)
  case (Cons j js)
  have "map_of (gw_subscriptions (finishJoin j st)) key = None" using Cons.prems by (auto simp: finishJoin_room)
  from Cons.IH[OF this] show ?case by simp
qed simp

text \<open>
  C34: when the backplane refuses the subscription of a channel, every socket that waited for it is nevertheless
  recorded as having joined, and no event of the channel reaches anybody.
\<close>

theorem refused_subscription_joins_deaf_sockets:
  assumes run: "gateway_run cfg False st" and waits: "(k, ch) \<in> set (gw_waiting st)"
    and live: "isLiveSocket st k" and none: "map_of (gw_subscriptions st) (channelKey ch) = None"
    and ev: "re_channel ev = ch"
  shows "hasJoined (gw_manager (settleSubscribe ch False st)) k (channelKey ch) \<and>
    deliveredTo (settleSubscribe ch False st) ev = []"
proof -
  have w: "wfGateway cfg st" using gateway_run_wf[OF run] by blast
  let ?st = "st\<lparr>gw_pending := removeAll (channelKey ch) (gw_pending st),
    gw_waiting := filter (\<lambda>j. channelKey (snd j) \<noteq> channelKey ch) (gw_waiting st)\<rparr>"
  let ?js = "filter (\<lambda>j. channelKey (snd j) = channelKey ch) (gw_waiting st)"
  have settled: "settleSubscribe ch False st = fold finishJoin ?js ?st" by (simp add: settleSubscribe_def Let_def)
  have "wfSlots cfg ?st = wfSlots cfg st" "wfRooms ?st = wfRooms st" "wfBackplane ?st = wfBackplane st"
    by (simp_all add: wfSlots_def slotsOf_def wfRooms_def isLiveSocket_def wfBackplane_def)
  moreover have permits: "kindPermits ?st = kindPermits st" by (simp add: kindPermits_def fun_eq_iff)
  moreover have "wfJoins ?st" using w unfolding wfGateway_def wfJoins_def permits by auto
  ultimately have w': "wfGateway cfg ?st" using w by (simp add: wfGateway_def)
  have p: "list_all (kindPermits ?st) ?js" using w unfolding permits wfGateway_def wfJoins_def list_all_iff by auto
  have "hasJoined (gw_manager (fold finishJoin ?js ?st)) k (channelKey ch)"
    by (rule finishJoins_record[OF w' p]) (use waits live in \<open>simp_all add: isLiveSocket_def\<close>)
  moreover have "subscribersOf (gw_backplane st) (channelKey ch) = []" using w none
    by (simp add: wfGateway_def wfBackplane_def)
  ultimately show ?thesis unfolding settled using finishJoins_no_room[of ?st "channelKey ch" ?js] none ev
    by (simp add: deliveredTo_def bpPublish_def)
qed

section \<open>Customers\<close>

lemma find_unique:
  assumes "distinct (map f xs)" and "find (\<lambda>x. f x = a \<and> P x) xs = Some y"
  shows "find (\<lambda>x. f x = a) xs = Some y"
proof -
  have y: "y \<in> set xs" "f y = a" using assms(2) by (auto simp: find_Some_iff)
  then have "find (\<lambda>x. f x = a) xs \<noteq> None" by (auto simp: find_None_iff)
  then obtain z where z: "find (\<lambda>x. f x = a) xs = Some z" by blast
  then have "z \<in> set xs" "f z = a" by (auto simp: find_Some_iff)
  with y assms(1) have "z = y" by (auto simp: distinct_map dest: inj_onD)
  with z show ?thesis by simp
qed

text \<open>
  a customer's session that the handshake accepts opens a socket on which nothing can be joined. The
  process resolves every actor through the employee authority, which refuses a customer, so that each
  conversation, the customer's own included, is refused.
\<close>

theorem accepted_customer_joins_nothing:
  assumes "verifySession opts (localReads t ids) now token surface = Inr s" and "sp_kind s = K_CUSTOMER"
    and "distinct (map pr_principal_id (id_principals ids))"
    and "connectionOf m k = Some (identityFor k s)"
  shows "fst (authorizeJoin (gatewayDeps t db ids) m k ch None) =
    JoinRefused (if isConversationChannel ch then JR_NOT_AUTHORIZED else JR_CHANNEL_FORBIDDEN_FOR_KIND)"
proof -
  have "liveVersion (localReads t ids) (sp_kind s) (sp_principalId s) = Some (sp_sessionVersion s)"
    using assms(1) by (simp add: verifySession_iff)
  then obtain p where f: "find (\<lambda>p. pr_principal_id p = sp_principalId s \<and> pr_kind p = K_CUSTOMER) (id_principals ids) = Some p"
    and v: "pr_session_version p = sp_sessionVersion s"
    using assms(2) by (auto simp: liveVersion_localReads customerVersionOf_def)
  have p: "principalOf (sp_principalId s) ids = Some p" unfolding principalOf_def by (rule find_unique[OF assms(3) f])
  have kind: "pr_kind p = K_CUSTOMER" using f by (auto simp: find_Some_iff)
  have ver: "cm_sessionVersionFor (gatewayDeps t db ids) (sp_principalId s) = Some (sp_sessionVersion s)"
    using p v by (simp add: gatewayDeps_def getSessionVersion_def)
  have act: "cm_actorFor (gatewayDeps t db ids) (sp_principalId s) = None"
    using p kind by (simp add: gatewayDeps_def resolvePrincipal_def closed_def)
  have "fst (conversationJoin (gatewayDeps t db ids) (identityFor k s) cid None) = JoinRefused JR_NOT_AUTHORIZED" for cid
    using act by (simp add: conversationJoin_def cachedResource_def cachedActor_def identityFor_def split: option.splits)
  then show ?thesis using ver assms(2,4)
    by (cases ch) (simp_all add: authorizeJoin_def cachedSessionVersion_def identityFor_def isConversationChannel_def)
qed

section \<open>Sessions\<close>

text \<open>
  C30: once a principal's sessions have been revoked, no token that verified before verifies again, on any
  surface and at any later time, whatever further principals are revoked.
\<close>

theorem revoked_session_never_verifies:
  assumes "verifySession opts (localReads t db) now token surface = Inr s" and "sp_principalId s \<in> set whos"
  shows "\<not> (\<exists>s'. verifySession opts (localReads t (fold revokeLocal whos db)) now' token surface' = Inr s')"
  using li.revoked_session_is_dead[OF assms] by (simp add: li.revokeAll_def)

text \<open>
  a token that was issued verifies exactly on its own surface, until its life ends, and while the live
  version of its principal is the one it was issued for (and, of an employee, while the account is active);
  the verified session is the one that was issued.
\<close>

theorem issued_session_verifies_while_current:
  assumes "to_stringify (so_token opts) (issuedPayload opts start req) \<noteq> []"
    and "to_parse (so_token opts) (to_stringify (so_token opts) (issuedPayload opts start req)) =
      Some (issuedPayload opts start req)"
    and "inEra ((start + ttlFor opts req * 1000) div msPerDay)"
  shows "verifySession opts reads now (fst (issueSession opts start req)) surface =
      Inr (issuedPayload opts start req) \<longleftrightarrow>
    surface = iq_surface req \<and> now < start + ttlFor opts req * 1000 \<and>
    liveVersion reads (iq_kind req) (iq_principalId req) = Some (iq_sessionVersion req) \<and>
    (iq_kind req = K_EMPLOYEE \<longrightarrow>
       (\<exists>c. sd_resolvePrincipal reads (iq_principalId req) = Inr c \<and> pc_status c = P_ACTIVE))"
  using verify_issued[OF assms(1,2) refl]
  by (auto simp: verifySession_iff issuedPayload_def dateParse_toISOString[OF assms(3)])

end
