(* ===== verification/Gateway_Witnesses.thy ===== *)
theory Gateway_Witnesses
  imports Gateway_Props Authz_Witnesses
begin

text \<open>
  The properties of the gateway at work: an employee and a customer in one conversation, a socket that goes
  before its join is carried out, and sessions over a codec whose signature and payload text are written out.
\<close>

section \<open>Two sockets in one conversation\<close>

definition roomId :: UUID where "roomId = ''11111111-1111-4111-8111-111111111111''"

definition joinFrame :: Json where
  "joinFrame = JObject [(''kind'', JText ''CONVERSATION''), (''conversationId'', JText roomId)]"

definition sessionFor :: "UUID \<Rightarrow> PrincipalKind \<Rightarrow> Surface \<Rightarrow> SessionPayload" where
  "sessionFor who k sf =
     \<lparr>sp_principalId = who, sp_kind = k, sp_surface = sf, sp_sessionVersion = 1, sp_issuedAt = ''t0'',
      sp_expiresAt = ''t1'', sp_assurance = (if k = K_CUSTOMER then Some VERIFIED_CUSTOMER else None)\<rparr>"

definition roomDeps :: ConnectionManagerDeps where
  "roomDeps =
     \<lparr>cm_loadForAuthorization = (\<lambda>cid who t. Some (ownConversation\<lparr>r_currentOwnerId := Some ''emp-1''\<rparr>)),
      cm_actorFor = (\<lambda>who. Some (if who = ''emp-1'' then employee else customerActor\<lparr>a_principalId := who\<rparr>)),
      cm_sessionVersionFor = (\<lambda>who. Some 1), cm_teamFor = (\<lambda>t. None), cm_now = ''2026-08-24T10:00:00.000Z''\<rparr>"

definition connected :: "string \<Rightarrow> SessionPayload \<Rightarrow> GatewayState \<Rightarrow> GatewayState" where
  "connected k s st = snd (endHandshake gatewayDefaults 0 k (Inr s) False (snd (beginHandshake k st)))"

definition asked :: "string \<Rightarrow> GatewayState \<Rightarrow> GatewayState" where
  "asked k st = snd (beginSubscribe roomDeps k joinFrame st)"

definition unseen :: "GatewayState \<Rightarrow> string \<Rightarrow> bool" where
  "unseen st k \<longleftrightarrow> \<not> gw_draining st \<and> connectionOf (gw_manager st) k = None \<and>
     list_all (\<lambda>(key, s). k \<notin> set (sn_sockets s)) (gw_subscriptions st) \<and>
     list_all (\<lambda>j. fst j \<noteq> k) (gw_joins st) \<and> list_all (\<lambda>j. fst j \<noteq> k) (gw_waiting st)"

lemma unseen_fresh: "unseen st k \<Longrightarrow> freshSocket (snd (beginHandshake k st)) k \<and> k \<in> set (gw_handshakes (snd (beginHandshake k st)))"
  by (auto simp: unseen_def freshSocket_def beginHandshake_def socketsOf_def list_all_iff split: option.splits dest!: map_of_SomeD[OF sym])

lemma run_connected: "gateway_run gatewayDefaults r st \<Longrightarrow> unseen st k \<Longrightarrow> gateway_run gatewayDefaults r (connected k s st)"
  unfolding connected_def using unseen_fresh[of st k]
  by (blast intro: gateway_run.step gateway_step.arrives gateway_step.authenticated)

lemma run_asked: "gateway_run gatewayDefaults r st \<Longrightarrow> gateway_run gatewayDefaults r (asked k st)"
  unfolding asked_def by (blast intro: gateway_run.step gateway_step.subscribes)

lemma run_proceeds:
  "gateway_run cfg r st \<Longrightarrow> j \<in> set (gw_joins st) \<Longrightarrow> gateway_run cfg r (proceedJoin j st)"
  by (blast intro: gateway_run.step gateway_step.proceeds)

lemma run_settles:
  "gateway_run cfg r st \<Longrightarrow> channelKey ch \<in> set (gw_pending st) \<Longrightarrow> gateway_run cfg r (settleSubscribe ch True st)"
  by (blast intro: gateway_run.step gateway_step.settles)

definition staffJoins :: GatewayState where
  "staffJoins = asked ''s1'' (connected ''s1'' (sessionFor ''emp-1'' K_EMPLOYEE SF_EMPLOYEE) initialGateway)"

definition staffIn :: GatewayState where
  "staffIn = settleSubscribe (RT_CONVERSATION roomId) True (proceedJoin (''s1'', RT_CONVERSATION roomId) staffJoins)"

definition customerJoins :: GatewayState where
  "customerJoins = asked ''s2'' (connected ''s2'' (sessionFor ''cust-1'' K_CUSTOMER SF_CUSTOMER) staffIn)"

definition bothIn :: GatewayState where
  "bothIn = proceedJoin (''s2'', RT_CONVERSATION roomId) customerJoins"

lemma run_staffJoins: "gateway_run gatewayDefaults True staffJoins"
  unfolding staffJoins_def by (intro run_asked run_connected gateway_run.start) code_simp

lemma run_staffIn: "gateway_run gatewayDefaults True staffIn"
  unfolding staffIn_def
proof (intro run_settles run_proceeds run_staffJoins)
  show "(''s1'', RT_CONVERSATION roomId) \<in> set (gw_joins staffJoins)" by code_simp
  show "channelKey (RT_CONVERSATION roomId) \<in> set (gw_pending (proceedJoin (''s1'', RT_CONVERSATION roomId) staffJoins))"
    by code_simp
qed

lemma unseen_customer: "unseen staffIn ''s2''" by code_simp

lemma run_bothIn: "gateway_run gatewayDefaults True bothIn"
  unfolding bothIn_def
proof (rule run_proceeds)
  show "gateway_run gatewayDefaults True customerJoins"
    unfolding customerJoins_def by (intro run_asked run_connected run_staffIn unseen_customer)
  show "(''s2'', RT_CONVERSATION roomId) \<in> set (gw_joins customerJoins)" by code_simp
qed

definition roomKey :: string where "roomKey = channelKey (RT_CONVERSATION roomId)"

definition noteRow :: RelayRow where
  "noteRow =
     freshRow ''o1'' 0 \<lparr>ob_eventName = ''message.created.v1'', ob_eventVersion = 1,
       ob_aggregateType = ''conversation'', ob_aggregateId = roomId,
       ob_payload = MessageCreated ''m1'' roomId 1 K_EMPLOYEE INTERNAL ''WEB'' False, ob_correlationId = ''x''\<rparr>"

definition resolvedRow :: RelayRow where
  "resolvedRow =
     freshRow ''o2'' 0 \<lparr>ob_eventName = ''conversation.resolved.v1'', ob_eventVersion = 1,
       ob_aggregateType = ''conversation'', ob_aggregateId = roomId,
       ob_payload = ConversationResolved roomId ''k1'' ''paid'' ''emp-1'', ob_correlationId = ''y''\<rparr>"

lemma bothIn_joined: "hasJoined (gw_manager bothIn) ''s2'' (channelKey (re_channel (realtimeEventOf resolvedRow)))"
  by code_simp

lemma bothIn_receive: "mayReceive (gw_manager bothIn) ''s2'' (realtimeEventOf resolvedRow)"
  by code_simp

theorem events_reach_the_joined_witness:
  "''s2'' \<in> set (deliveredTo bothIn (realtimeEventOf resolvedRow)) \<and>
   distinct (deliveredTo bothIn (realtimeEventOf resolvedRow))"
  using events_reach_the_joined[OF run_bothIn, of "realtimeEventOf resolvedRow"]
    bothIn_joined bothIn_receive by blast

theorem internal_notes_stay_with_staff_witness:
  "list_all (isEmployeeConnection (gw_manager bothIn)) (deliveredTo bothIn (realtimeEventOf noteRow)) \<and>
   deliveredTo bothIn (realtimeEventOf noteRow) = [''s1'']"
proof
  show "list_all (isEmployeeConnection (gw_manager bothIn)) (deliveredTo bothIn (realtimeEventOf noteRow))"
    by (rule internal_notes_stay_with_staff[OF run_bothIn]) (simp add: noteRow_def freshRow_def)
  show "deliveredTo bothIn (realtimeEventOf noteRow) = [''s1'']" by code_simp
qed

theorem connections_stay_below_the_ceiling_witness:
  "length (connectionsToRevoke (gw_manager bothIn) ''emp-1'') \<le> 8 \<and>
   connectionsToRevoke (gw_manager bothIn) ''emp-1'' = [''s1'']"
proof
  show "length (connectionsToRevoke (gw_manager bothIn) ''emp-1'') \<le> 8"
    using connections_stay_below_the_ceiling[OF run_bothIn, of "''emp-1''"] by (simp add: gatewayDefaults_def)
  show "connectionsToRevoke (gw_manager bothIn) ''emp-1'' = [''s1'']" by code_simp
qed

text \<open>The customer's sessions are revoked; the employee's are not.\<close>

definition laterDeps :: ConnectionManagerDeps where
  "laterDeps = roomDeps\<lparr>cm_sessionVersionFor := (\<lambda>who. Some (if who = ''cust-1'' then 2 else 1))\<rparr>"

theorem revalidation_leaves_what_may_be_joined_witness:
  "map_of (joinedOf (gw_manager (revalidateGateway laterDeps bothIn)) ''s1'') roomKey = Some (RT_CONVERSATION roomId) \<and>
   map_of (joinedOf (gw_manager (revalidateGateway laterDeps bothIn)) ''s2'') roomKey \<noteq> Some (RT_CONVERSATION roomId)"
proof -
  have "mayJoin laterDeps (gw_manager bothIn) ''s1'' (RT_CONVERSATION roomId)"
    "\<not> mayJoin laterDeps (gw_manager bothIn) ''s2'' (RT_CONVERSATION roomId)"
    "map_of (joinedOf (gw_manager bothIn) ''s1'') roomKey = Some (RT_CONVERSATION roomId)"
    by code_simp+
  then show ?thesis
    using revalidation_leaves_what_may_be_joined[OF run_bothIn, of laterDeps "''s1''" roomKey "RT_CONVERSATION roomId"]
      revalidation_leaves_what_may_be_joined[OF run_bothIn, of laterDeps "''s2''" roomKey "RT_CONVERSATION roomId"]
    by blast
qed

section \<open>A socket that goes before its join\<close>

definition goneJoins :: GatewayState where
  "goneJoins = proceedJoin (''s1'', RT_CONVERSATION roomId) (onDisconnect ''s1'' staffJoins)"

definition goneIn :: GatewayState where
  "goneIn = settleSubscribe (RT_CONVERSATION roomId) True goneJoins"

lemma run_goneIn: "gateway_run gatewayDefaults True goneIn"
  unfolding goneIn_def
proof (rule run_settles)
  have "isLiveSocket staffJoins ''s1''" by code_simp
  then have "gateway_run gatewayDefaults True (onDisconnect ''s1'' staffJoins)"
    by (blast intro: gateway_run.step[OF run_staffJoins] gateway_step.disconnects)
  moreover have "(''s1'', RT_CONVERSATION roomId) \<in> set (gw_joins (onDisconnect ''s1'' staffJoins))" by code_simp
  ultimately show "gateway_run gatewayDefaults True goneJoins" unfolding goneJoins_def by (rule run_proceeds)
  show "channelKey (RT_CONVERSATION roomId) \<in> set (gw_pending goneJoins)" by code_simp
qed

lemma goneIn_facts:
  "connectionOf (gw_manager goneIn) ''s1'' = None" "''s1'' \<in> set (socketsOf goneIn roomKey)"
  "\<not> gw_draining (snd (revokePrincipal ''emp-1'' goneIn))"
  by code_simp+

theorem late_join_pins_its_room_witness:
  "connectionOf (gw_manager (snd (revokePrincipal ''emp-1'' goneIn))) ''s1'' = None \<and>
   ''s1'' \<in> set (socketsOf (snd (revokePrincipal ''emp-1'' goneIn)) roomKey) \<and>
   subscribersOf (gw_backplane (snd (revokePrincipal ''emp-1'' goneIn))) roomKey \<noteq> []"
  by (rule late_join_pins_its_room[OF run_goneIn goneIn_facts(1,2)])
    (use goneIn_facts(3) in \<open>blast intro: r_into_rtranclp gateway_step.revokes\<close>)

section \<open>A refused subscription\<close>

definition staffWaits :: GatewayState where
  "staffWaits = proceedJoin (''s1'', RT_CONVERSATION roomId) staffJoins"

lemma run_staffWaits: "gateway_run gatewayDefaults False staffWaits"
  unfolding staffWaits_def
proof (rule run_proceeds)
  show "gateway_run gatewayDefaults False staffJoins"
    unfolding staffJoins_def by (intro run_asked run_connected gateway_run.start) code_simp
  show "(''s1'', RT_CONVERSATION roomId) \<in> set (gw_joins staffJoins)" by code_simp
qed

theorem refused_subscription_joins_deaf_sockets_witness:
  "hasJoined (gw_manager (settleSubscribe (RT_CONVERSATION roomId) False staffWaits)) ''s1'' roomKey \<and>
   deliveredTo (settleSubscribe (RT_CONVERSATION roomId) False staffWaits) (realtimeEventOf noteRow) = []"
proof -
  have h: "(''s1'', RT_CONVERSATION roomId) \<in> set (gw_waiting staffWaits)" by code_simp
  have l: "isLiveSocket staffWaits ''s1''" by code_simp
  have n: "map_of (gw_subscriptions staffWaits) (channelKey (RT_CONVERSATION roomId)) = None" by code_simp
  have e: "re_channel (realtimeEventOf noteRow) = RT_CONVERSATION roomId" by code_simp
  from refused_subscription_joins_deaf_sockets[OF run_staffWaits h l n e] show ?thesis by (simp add: roomKey_def)
qed

section \<open>Sessions\<close>

definition customerSession :: SessionPayload where
  "customerSession =
     \<lparr>sp_principalId = ''cust-1'', sp_kind = K_CUSTOMER, sp_surface = SF_CUSTOMER, sp_sessionVersion = 1,
      sp_issuedAt = toISOString 0, sp_expiresAt = toISOString 3600000, sp_assurance = Some VERIFIED_CUSTOMER\<rparr>"

definition sampleOptions :: SessionOptions where
  "sampleOptions =
     \<lparr>so_token = \<lparr>to_hmac = (\<lambda>key text. key @ rev text), to_stringify = sp_principalId,
         to_parse = map_of [(''cust-1'', customerSession)], to_secret = ''a-secret'', to_purpose = ''session'',
         to_minimumSecretLength = 8\<rparr>,
      so_employeeTtlSeconds = 28800, so_customerTtlSeconds = 3600\<rparr>"

definition sampleRequest :: IssueRequest where
  "sampleRequest =
     \<lparr>iq_principalId = ''cust-1'', iq_kind = K_CUSTOMER, iq_surface = SF_CUSTOMER, iq_sessionVersion = 1,
      iq_assurance = Some VERIFIED_CUSTOMER, iq_ttlSeconds = None\<rparr>"

definition sampleIds :: IdentityDb where
  "sampleIds =
     \<lparr>id_principals = [\<lparr>pr_principal_id = ''cust-1'', pr_kind = K_CUSTOMER, pr_employee_id = None,
         pr_username = None, pr_display_name = ''Jana'', pr_status = P_ACTIVE, pr_department = None,
         pr_manager_id = None, pr_session_version = 1, pr_credential_hash = None\<rparr>],
      id_teams = [], id_memberships = [], id_role_assignments = [], id_delegations = []\<rparr>"

abbreviation sampleToken :: string where "sampleToken \<equiv> fst (issueSession sampleOptions 0 sampleRequest)"

lemma sample_payload: "issuedPayload sampleOptions 0 sampleRequest = customerSession"
  by (simp add: issuedPayload_def sampleOptions_def sampleRequest_def customerSession_def ttlFor_def)

lemma sample_live: "liveVersion (localReads t sampleIds) K_CUSTOMER ''cust-1'' = Some 1"
  by (simp add: liveVersion_localReads customerVersionOf_def sampleIds_def)

lemma sample_verified:
  "verifySession sampleOptions (localReads ''t'' sampleIds) 1000 sampleToken SF_CUSTOMER = Inr customerSession"
proof -
  have "verifyToken (so_token sampleOptions) sampleToken = Inr customerSession"
    using verify_issued[of sampleOptions customerSession 0 sampleRequest]
    by (simp add: sample_payload) (simp add: sampleOptions_def customerSession_def)
  moreover have "dateParse (sp_expiresAt customerSession) = 3600000"
    unfolding customerSession_def SessionPayload.simps by (rule dateParse_toISOString) code_simp
  ultimately show ?thesis using sample_live by (simp add: verifySession_iff) (simp add: customerSession_def)
qed

theorem issued_session_verifies_while_current_witness:
  "verifySession sampleOptions (localReads ''t'' sampleIds) 3599999 sampleToken SF_CUSTOMER = Inr customerSession \<and>
   verifySession sampleOptions (localReads ''t'' sampleIds) 3600000 sampleToken SF_CUSTOMER \<noteq> Inr customerSession"
proof -
  have h: "to_stringify (so_token sampleOptions) (issuedPayload sampleOptions 0 sampleRequest) \<noteq> []"
    "to_parse (so_token sampleOptions) (to_stringify (so_token sampleOptions) (issuedPayload sampleOptions 0 sampleRequest)) =
      Some (issuedPayload sampleOptions 0 sampleRequest)"
    unfolding sample_payload by (simp_all add: sampleOptions_def customerSession_def)
  have ttl: "ttlFor sampleOptions sampleRequest = 3600" by (simp add: ttlFor_def sampleOptions_def sampleRequest_def)
  have era: "inEra ((0 + ttlFor sampleOptions sampleRequest * 1000) div msPerDay)" unfolding ttl by code_simp
  have rq: "iq_surface sampleRequest = SF_CUSTOMER" "iq_kind sampleRequest = K_CUSTOMER"
    "iq_principalId sampleRequest = ''cust-1''" "iq_sessionVersion sampleRequest = 1"
    by (simp_all add: sampleRequest_def)
  show ?thesis
    using issued_session_verifies_while_current[OF h era, of "localReads ''t'' sampleIds" 3599999 SF_CUSTOMER]
      issued_session_verifies_while_current[OF h era, of "localReads ''t'' sampleIds" 3600000 SF_CUSTOMER]
    unfolding ttl rq sample_payload sample_live by simp
qed

theorem revoked_session_never_verifies_witness:
  "\<not> (\<exists>s. verifySession sampleOptions (localReads ''t'' (fold revokeLocal [''emp-1'', ''cust-1''] sampleIds)) 2000
     sampleToken SF_CUSTOMER = Inr s)"
  by (rule revoked_session_never_verifies[OF sample_verified]) (simp add: customerSession_def)

definition plainDb :: Db where
  "plainDb =
     \<lparr>db_conversations = [], db_service_cases = [], db_teams = [], db_departments = [],
      db_team_memberships = [], db_participants = [], db_channels = [], db_channel_audience = [],
      db_messages = [], db_revisions = [], db_attachments = [], db_episodes = [], db_outbox = []\<rparr>"

definition customerSocket :: ManagerState where
  "customerSocket = registerConnection (identityFor ''s2'' customerSession) \<lparr>mg_connections = [], mg_joined = []\<rparr>"

theorem accepted_customer_joins_nothing_witness:
  "fst (authorizeJoin (gatewayDeps ''t'' plainDb sampleIds) customerSocket ''s2'' (RT_CONVERSATION roomId) None) =
     JoinRefused JR_NOT_AUTHORIZED"
proof -
  have "sp_kind customerSession = K_CUSTOMER" "distinct (map pr_principal_id (id_principals sampleIds))"
    "connectionOf customerSocket ''s2'' = Some (identityFor ''s2'' customerSession)"
    by (simp_all add: customerSession_def sampleIds_def customerSocket_def registerConnection_def connectionOf_def
        identityFor_def)
  from accepted_customer_joins_nothing[OF sample_verified this] show ?thesis by (simp add: isConversationChannel_def)
qed

end
