(* ===== verification/Case_Store.thy ===== *)
theory Case_Store
  imports Service_Case Routing_Store Authz_Reader Local_Iam Js_Date
begin

text \<open>
  The lifecycle of a case as it is stored: resolution and staff reopen
  (\<open>infrastructure/database/src/repositories/case-store.ts\<close>), the customer's reply that reopens or forks
  (\<open>apps/api/src/customer/reopen-on-reply.ts\<close>) and the closure of reopen windows
  (\<open>infrastructure/sweeps/src/case-sweeps.ts\<close>). A unit of work is a function to \<open>option\<close>: \<open>None\<close> is a
  statement that throws, after which the unit is rolled back. What a reply reads and what it then writes are
  two functions, since other transactions may commit between them. The title of a conversation, which only
  the pages show, and the reason of a released hold are left out.
\<close>

section \<open>The tables\<close>

record BusinessLinkRow =
  bl_link_id :: UUID
  bl_conversation_id :: UUID
  bl_ref_system :: string
  bl_ref_type :: string
  bl_ref_id :: string
  bl_relation :: string
  bl_effective_from :: Timestamp

text \<open>What the two commands write into the audit ledger.\<close>

record LifecycleAudit =
  la_actorId :: UUID
  la_action :: string
  la_targetId :: UUID
  la_reason :: string
  la_correlationId :: string
  la_from :: ConversationState
  la_basis :: Basis

record CaseDb = RoutingDb +
  cd_business_links :: "BusinessLinkRow list"
  cd_principal_status :: "(UUID \<times> PrincipalStatus) list"
  cd_audited :: "LifecycleAudit list"

section \<open>The head of a case\<close>

record CaseHead =
  hd_conversationId :: UUID
  hd_conversationType :: ConversationType
  hd_state :: "ConversationState option"
  hd_caseId :: "UUID option"
  hd_ownerId :: "UUID option"

text \<open>\<open>ownership_no_overlap\<close> leaves at most one open episode to join.\<close>

definition caseHead :: "UUID \<Rightarrow> CaseDb \<Rightarrow> CaseHead option" where
  "caseHead cid db =
     map_option (\<lambda>c. \<lparr>hd_conversationId = cid, hd_conversationType = cr_conversation_type c, hd_state = cr_state c,
         hd_caseId = cr_case_id c,
         hd_ownerId = map_option ow_owner_id (find (isLiveOf cid) (db_ownership_episodes db))\<rparr>)
       (findConversation cid db)"

section \<open>Episodes and holds\<close>

text \<open>The two statements, and the constraints on which each throws.\<close>

definition endEpisode :: "UUID \<Rightarrow> Timestamp \<Rightarrow> CaseDb \<Rightarrow> CaseDb option" where
  "endEpisode cid t db =
     (if list_ex (\<lambda>e. ep_conversation_id e = cid \<and> ep_effective_to e = None \<and> \<not> ep_effective_from e < t) (db_episodes db)
      then None
      else Some (db\<lparr>db_episodes :=
             updateWhere (\<lambda>e. ep_conversation_id e = cid \<and> ep_effective_to e = None)
               (\<lambda>e. e\<lparr>ep_effective_to := Some t\<rparr>) (db_episodes db)\<rparr>))"

definition episodeFree :: "UUID \<Rightarrow> Timestamp \<Rightarrow> EpisodeRow list \<Rightarrow> bool" where
  "episodeFree cid t eps \<longleftrightarrow>
     list_all (\<lambda>e. ep_conversation_id e = cid \<longrightarrow>
       (case ep_effective_to e of None \<Rightarrow> False | Some u \<Rightarrow> u \<le> t)) eps"

definition beginEpisode ::
  "UUID \<Rightarrow> UUID \<Rightarrow> ConversationState \<Rightarrow> Timestamp \<Rightarrow> string \<Rightarrow> UUID option \<Rightarrow> CaseDb \<Rightarrow> CaseDb option" where
  "beginEpisode eid cid state t reason enteredBy db =
     (if episodeFree cid t (db_episodes db)
      then Some (db\<lparr>db_episodes := db_episodes db @
             [\<lparr>ep_episode_id = eid, ep_conversation_id = cid, ep_state = state, ep_effective_from = t,
               ep_effective_to = None, ep_entered_by = enteredBy, ep_reason = Some reason\<rparr>]\<rparr>)
      else None)"

definition closeAndOpenEpisode ::
  "UUID \<Rightarrow> UUID \<Rightarrow> ConversationState \<Rightarrow> Timestamp \<Rightarrow> string \<Rightarrow> UUID option \<Rightarrow> CaseDb \<Rightarrow> CaseDb option" where
  "closeAndOpenEpisode eid cid state t reason enteredBy db =
     Option.bind (endEpisode cid t db) (beginEpisode eid cid state t reason enteredBy)"

definition isHoldOf :: "UUID \<Rightarrow> ReservationRow \<Rightarrow> bool" where
  "isHoldOf cid r \<longleftrightarrow> ref_system (rs_ref r) = LOCAL \<and> ref_type (rs_ref r) = ''conversation'' \<and>
     ref_id (rs_ref r) = cid \<and> rs_released_at r = None"

definition releaseHolds :: "UUID \<Rightarrow> Timestamp \<Rightarrow> CaseDb \<Rightarrow> CaseDb" where
  "releaseHolds cid t db =
     db\<lparr>db_reservations := updateWhere (isHoldOf cid) (\<lambda>r. r\<lparr>rs_released_at := Some t\<rparr>) (db_reservations db)\<rparr>"

section \<open>Resolution and staff reopen\<close>

datatype LifecycleWrite = WRITTEN | STATE_CHANGED

definition standsIn :: "UUID \<Rightarrow> ConversationState \<Rightarrow> ConversationRow \<Rightarrow> bool" where
  "standsIn cid s c \<longleftrightarrow> cr_conversation_id c = cid \<and> cr_state c = Some s"

definition moveConversation ::
  "UUID \<Rightarrow> ConversationState \<Rightarrow> (ConversationRow \<Rightarrow> ConversationRow) \<Rightarrow> CaseDb \<Rightarrow> CaseDb option" where
  "moveConversation cid from f db =
     (if list_ex (standsIn cid from) (db_conversations db)
      then Some (db\<lparr>db_conversations := updateWhere (standsIn cid from) f (db_conversations db)\<rparr>)
      else None)"

definition caseOfConversation :: "UUID \<Rightarrow> CaseDb \<Rightarrow> ServiceCaseRow \<Rightarrow> bool" where
  "caseOfConversation cid db sc \<longleftrightarrow>
     list_ex (\<lambda>c. cr_conversation_id c = cid \<and> cr_case_id c = Some (sc_case_id sc)) (db_conversations db)"

record ResolveInput =
  rz_conversationId :: UUID
  rz_from :: ConversationState
  rz_resolvedBy :: UUID
  rz_outcome :: string
  rz_at :: Timestamp
  rz_caseId :: UUID
  rz_correlationId :: string

definition resolvedEvent :: "ResolveInput \<Rightarrow> OutboxRow" where
  "resolvedEvent inp =
     \<lparr>ob_eventName = ''conversation.resolved.v1'', ob_eventVersion = 1, ob_aggregateType = ''conversation'',
      ob_aggregateId = rz_conversationId inp,
      ob_payload = ConversationResolved (rz_conversationId inp) (rz_caseId inp) (rz_outcome inp) (rz_resolvedBy inp),
      ob_correlationId = rz_correlationId inp\<rparr>"

definition resolveCase :: "UUID \<Rightarrow> ResolveInput \<Rightarrow> CaseDb \<Rightarrow> (LifecycleWrite \<times> CaseDb) option" where
  "resolveCase eid inp db =
     (let cid = rz_conversationId inp; t = rz_at inp
      in case moveConversation cid (rz_from inp) (\<lambda>c. c\<lparr>cr_state := Some RESOLVED\<rparr>) db of
           None \<Rightarrow> Some (STATE_CHANGED, db)
         | Some db1 \<Rightarrow>
             let db2 = db1\<lparr>db_service_cases :=
                   updateWhere (caseOfConversation cid db1)
                     (\<lambda>sc. sc\<lparr>sc_state := RESOLVED, sc_resolved_at := Some t, sc_outcome_code := Some (rz_outcome inp)\<rparr>)
                     (db_service_cases db1)\<rparr>
             in Option.bind (closeAndOpenEpisode eid cid RESOLVED t (rz_outcome inp) (Some (rz_resolvedBy inp)) db2)
                  (\<lambda>db3. map_option (\<lambda>db4. (WRITTEN, db4))
                           (appendOutboxIn (resolvedEvent inp) (releaseHolds cid t db3))))"

record ReopenInput =
  rp_conversationId :: UUID
  rp_reopenedBy :: UUID
  rp_reason :: string
  rp_at :: Timestamp
  rp_caseId :: UUID
  rp_correlationId :: string

definition reopenedEvent :: "ReopenInput \<Rightarrow> OutboxRow" where
  "reopenedEvent inp =
     \<lparr>ob_eventName = ''conversation.reopened.v1'', ob_eventVersion = 1, ob_aggregateType = ''conversation'',
      ob_aggregateId = rp_conversationId inp,
      ob_payload = ConversationReopened (rp_conversationId inp) (rp_caseId inp) ''STAFF_REOPEN'',
      ob_correlationId = rp_correlationId inp\<rparr>"

text \<open>The case is worked again: the resolution is undone and the reopen counted.\<close>

definition unresolve :: "ServiceCaseRow \<Rightarrow> ServiceCaseRow" where
  "unresolve sc =
     sc\<lparr>sc_state := ACTIVE, sc_resolved_at := None, sc_outcome_code := None, sc_reopen_count := sc_reopen_count sc + 1\<rparr>"

definition reopenCase :: "UUID \<Rightarrow> ReopenInput \<Rightarrow> CaseDb \<Rightarrow> (LifecycleWrite \<times> CaseDb) option" where
  "reopenCase eid inp db =
     (let cid = rp_conversationId inp; t = rp_at inp
      in case moveConversation cid RESOLVED (\<lambda>c. c\<lparr>cr_state := Some ACTIVE, cr_last_activity_at := t\<rparr>) db of
           None \<Rightarrow> Some (STATE_CHANGED, db)
         | Some db1 \<Rightarrow>
             let db2 = db1\<lparr>db_service_cases := updateWhere (caseOfConversation cid db1) unresolve (db_service_cases db1)\<rparr>
             in Option.bind (closeAndOpenEpisode eid cid ACTIVE t (rp_reason inp) (Some (rp_reopenedBy inp)) db2)
                  (\<lambda>db3. map_option (\<lambda>db4. (WRITTEN, db4)) (appendOutboxIn (reopenedEvent inp) db3)))"

section \<open>A customer's reply: what it reads\<close>

definition continuesLink :: "UUID \<Rightarrow> BusinessLinkRow \<Rightarrow> bool" where
  "continuesLink cid l \<longleftrightarrow> bl_ref_system l = ''LOCAL'' \<and> bl_ref_type l = ''conversation'' \<and>
     bl_relation l = ''CONTINUES'' \<and> bl_ref_id l = cid"

text \<open>\<open>ORDER BY effective_from DESC LIMIT 1\<close>.\<close>

definition successorLink :: "UUID \<Rightarrow> CaseDb \<Rightarrow> BusinessLinkRow option" where
  "successorLink cid db =
     (case rev (sort_key bl_effective_from (filter (continuesLink cid) (cd_business_links db))) of
        [] \<Rightarrow> None | l # _ \<Rightarrow> Some l)"

fun followSuccessors :: "nat \<Rightarrow> UUID \<Rightarrow> CaseDb \<Rightarrow> UUID" where
  "followSuccessors 0 cid db = cid"
| "followSuccessors (Suc hops) cid db =
     (case successorLink cid db of
        None \<Rightarrow> cid
      | Some l \<Rightarrow> if bl_conversation_id l = cid then cid else followSuccessors hops (bl_conversation_id l) db)"

definition latestSuccessorOf :: "UUID \<Rightarrow> CaseDb \<Rightarrow> UUID" where
  "latestSuccessorOf cid db = followSuccessors 16 cid db"

record ReplyHead =
  ph_state :: "ConversationState option"
  ph_case_id :: "UUID option"
  ph_customer_ref :: "string option"
  ph_resolved_at :: "Timestamp option"
  ph_current_owner_id :: "UUID option"
  ph_owner_status :: "PrincipalStatus option"

definition replyHead :: "UUID \<Rightarrow> UUID \<Rightarrow> Timestamp \<Rightarrow> CaseDb \<Rightarrow> ReplyHead option" where
  "replyHead cid who t db =
     (case findConversation cid db of
        None \<Rightarrow> None
      | Some c \<Rightarrow>
          if list_ex (\<lambda>p. pa_conversation_id p = cid \<and> pa_principal_id p = who \<and>
                 isWithinPeriod t (pa_effective_from p) (pa_effective_to p)) (db_participants db)
          then let sc = caseOf c db;
                   owner = Option.bind sc sc_current_owner_id
               in Some \<lparr>ph_state = cr_state c, ph_case_id = cr_case_id c, ph_customer_ref = cr_customer_ref c,
                        ph_resolved_at = Option.bind sc sc_resolved_at, ph_current_owner_id = owner,
                        ph_owner_status = Option.bind owner (map_of (cd_principal_status db))\<rparr>
          else None)"

definition resolvedConversation :: "UUID \<Rightarrow> ReplyHead \<Rightarrow> ResolvedConversation" where
  "resolvedConversation cid h =
     \<lparr>rc_conversationId = cid, rc_caseId = ph_case_id h, rc_resolvedAt = map_option dateParse (ph_resolved_at h),
      rc_ownerId = ph_current_owner_id h\<rparr>"

text \<open>What the reply will do, and to which conversation.\<close>

datatype ReplyPlan = STAY UUID | REVIVE UUID ReplyHead | FORK UUID ReplyHead

definition planReply :: "UUID \<Rightarrow> UUID \<Rightarrow> int \<Rightarrow> Timestamp \<Rightarrow> CaseDb \<Rightarrow> ReplyPlan" where
  "planReply requested who window t db =
     (let cid = latestSuccessorOf requested db
      in case replyHead cid who t db of
           None \<Rightarrow> STAY cid
         | Some h \<Rightarrow>
             if ph_state h \<noteq> Some RESOLVED \<and> ph_state h \<noteq> Some CLOSED then STAY cid
             else case decideReopen (resolvedConversation cid h) \<lparr>windowSeconds = window\<rparr> (dateParse t) of
                    REOPEN_SAME_THREAD _ _ \<Rightarrow> if ph_state h = Some CLOSED then FORK cid h else REVIVE cid h
                  | NEW_CONVERSATION_SAME_CASE _ _ \<Rightarrow> FORK cid h
                  | STILL_OPEN _ \<Rightarrow> STAY cid)"

section \<open>A customer's reply: what it writes\<close>

definition keptOwner :: "ReplyHead \<Rightarrow> UUID option" where
  "keptOwner h = (if ph_owner_status h = Some P_ACTIVE then ph_current_owner_id h else None)"

definition workAgain :: "ReplyHead \<Rightarrow> CaseDb \<Rightarrow> CaseDb" where
  "workAgain h db =
     db\<lparr>db_service_cases := updateWhere (\<lambda>sc. ph_case_id h = Some (sc_case_id sc))
          (\<lambda>sc. (unresolve sc)\<lparr>sc_current_owner_id := keptOwner h\<rparr>) (db_service_cases db)\<rparr>"

text \<open>Closing the open episode of ownership must satisfy \<open>ownership_period_valid\<close>.\<close>

definition endOwnership :: "UUID \<Rightarrow> Timestamp \<Rightarrow> CaseDb \<Rightarrow> CaseDb option" where
  "endOwnership cid t db =
     (if list_ex (\<lambda>e. isLiveOf cid e \<and> \<not> ow_effective_from e < t) (db_ownership_episodes db) then None
      else Some (db\<lparr>db_ownership_episodes :=
             updateWhere (isLiveOf cid) (\<lambda>e. e\<lparr>ow_effective_to := Some t\<rparr>) (db_ownership_episodes db)\<rparr>))"

definition reviveInPlace :: "UUID \<Rightarrow> UUID \<Rightarrow> ReplyHead \<Rightarrow> Timestamp \<Rightarrow> CaseDb \<Rightarrow> CaseDb option" where
  "reviveInPlace eid cid h t db =
     (case moveConversation cid RESOLVED (\<lambda>c. c\<lparr>cr_state := Some ACTIVE, cr_last_activity_at := t\<rparr>) db of
        None \<Rightarrow> Some db
      | Some db1 \<Rightarrow>
          Option.bind (if ph_owner_status h \<noteq> Some P_ACTIVE then endOwnership cid t (workAgain h db1)
                       else Some (workAgain h db1))
            (closeAndOpenEpisode eid cid ACTIVE t ''reopened by customer reply'' None))"

definition forkedConversation :: "UUID \<Rightarrow> ReplyHead \<Rightarrow> Timestamp \<Rightarrow> nat \<Rightarrow> ConversationRow" where
  "forkedConversation new h t members =
     \<lparr>cr_conversation_id = new, cr_conversation_type = CUSTOMER_SERVICE, cr_state = Some NEW,
      cr_case_id = ph_case_id h, cr_sensitivity = ORDINARY, cr_last_seq = 0, cr_customer_ref = ph_customer_ref h,
      cr_last_activity_at = t, cr_last_message_preview = [], cr_participant_count = members\<rparr>"

definition carriedOver :: "UUID \<Rightarrow> UUID \<Rightarrow> Timestamp \<Rightarrow> CaseDb \<Rightarrow> ParticipantRow list" where
  "carriedOver previous new t db =
     map (\<lambda>p. p\<lparr>pa_conversation_id := new, pa_effective_from := t, pa_effective_to := None, pa_archived_at := None\<rparr>)
       (filter (\<lambda>p. pa_conversation_id p = previous \<and> isWithinPeriod t (pa_effective_from p) (pa_effective_to p))
         (db_participants db))"

record NewIds =
  ni_conversation :: UUID
  ni_link :: UUID
  ni_episode :: UUID

text \<open>
  The new conversation's participants can conflict with nothing: its identifier is new, or the first
  statement throws.
\<close>

definition forkConversation :: "NewIds \<Rightarrow> UUID \<Rightarrow> ReplyHead \<Rightarrow> Timestamp \<Rightarrow> CaseDb \<Rightarrow> CaseDb option" where
  "forkConversation ids previous h t db =
     (let new = ni_conversation ids; members = carriedOver previous new t db
      in if findConversation new db \<noteq> None then None
         else Option.bind (endOwnership previous t
                (workAgain h
                  (db\<lparr>db_conversations := db_conversations db @ [forkedConversation new h t (length members)],
                      db_participants := db_participants db @ members,
                      cd_business_links :=
                        (if list_ex (\<lambda>l. bl_link_id l = ni_link ids) (cd_business_links db) then cd_business_links db
                         else cd_business_links db @
                           [\<lparr>bl_link_id = ni_link ids, bl_conversation_id = new, bl_ref_system = ''LOCAL'',
                             bl_ref_type = ''conversation'', bl_ref_id = previous, bl_relation = ''CONTINUES'',
                             bl_effective_from = t\<rparr>])\<rparr>)))
                (beginEpisode (ni_episode ids) new NEW t
                   ''continues a conversation whose reopen window had passed'' None))"

text \<open>
  Carrying out a plan: where the message goes. A revival that finds the conversation no longer resolved
  changes nothing and still answers the conversation.
\<close>

definition carryOut :: "NewIds \<Rightarrow> ReplyPlan \<Rightarrow> Timestamp \<Rightarrow> CaseDb \<Rightarrow> (UUID \<times> CaseDb) option" where
  "carryOut ids plan t db =
     (case plan of
        STAY cid \<Rightarrow> Some (cid, db)
      | REVIVE cid h \<Rightarrow> map_option (\<lambda>db'. (cid, db')) (reviveInPlace (ni_episode ids) cid h t db)
      | FORK cid h \<Rightarrow> map_option (\<lambda>db'. (ni_conversation ids, db')) (forkConversation ids cid h t db))"

definition reopenOnReply ::
  "NewIds \<Rightarrow> UUID \<Rightarrow> UUID \<Rightarrow> int \<Rightarrow> Timestamp \<Rightarrow> CaseDb \<Rightarrow> (UUID \<times> CaseDb) option" where
  "reopenOnReply ids requested who window t db = carryOut ids (planReply requested who window t db) t db"

section \<open>The closure of reopen windows\<close>

definition closureCutoff :: "int \<Rightarrow> int \<Rightarrow> Timestamp" where
  "closureCutoff now window = toISOString (now - window * 1000)"

definition closable :: "Timestamp \<Rightarrow> CaseDb \<Rightarrow> ConversationRow \<Rightarrow> Timestamp option" where
  "closable cutoff db c =
     (if cr_state c = Some RESOLVED
      then Option.bind (caseOf c db)
             (\<lambda>sc. case sc_resolved_at sc of Some r \<Rightarrow> if r \<le> cutoff then Some r else None | None \<Rightarrow> None)
      else None)"

text \<open>\<open>ORDER BY resolved_at LIMIT $3\<close> over the rows that are due.\<close>

definition dueClosures :: "nat \<Rightarrow> Timestamp \<Rightarrow> CaseDb \<Rightarrow> UUID list" where
  "dueClosures n cutoff db =
     take n (map snd (sort_key fst
       (List.map_filter (\<lambda>c. map_option (\<lambda>r. (r, cr_conversation_id c)) (closable cutoff db c)) (db_conversations db))))"

definition closeWindows :: "UUID list \<Rightarrow> CaseDb \<Rightarrow> CaseDb" where
  "closeWindows due db =
     db\<lparr>db_conversations := updateWhere (\<lambda>c. cr_conversation_id c \<in> set due \<and> cr_state c = Some RESOLVED)
          (\<lambda>c. c\<lparr>cr_state := Some CLOSED\<rparr>) (db_conversations db)\<rparr>"

text \<open>
  The episodes of the closed conversations, one after the other, each statement in a transaction of its own;
  the flag says that none has thrown.
\<close>

fun recordClosures :: "Timestamp \<Rightarrow> (UUID \<times> UUID) list \<Rightarrow> CaseDb \<Rightarrow> bool \<times> CaseDb" where
  "recordClosures t [] db = (True, db)"
| "recordClosures t ((cid, eid) # rest) db =
     (case endEpisode cid t db of
        None \<Rightarrow> (False, db)
      | Some db1 \<Rightarrow>
          (case beginEpisode eid cid CLOSED t ''reopen window expired'' None db1 of
             None \<Rightarrow> (False, db1)
           | Some db2 \<Rightarrow> recordClosures t rest db2))"

definition runClosure :: "int \<Rightarrow> int \<Rightarrow> nat \<Rightarrow> (UUID \<Rightarrow> UUID) \<Rightarrow> CaseDb \<Rightarrow> nat option \<times> CaseDb" where
  "runClosure now window batch newId db =
     (let due = dueClosures batch (closureCutoff now window) db;
          (done, db') = recordClosures (toISOString now) (map (\<lambda>cid. (cid, newId cid)) due) (closeWindows due db)
      in (if done then Some (length due) else None, db'))"

end
