(* ===== verification/Case_Lifecycle.thy ===== *)
theory Case_Lifecycle
  imports Case_Store
begin

text \<open>
  Resolving and reopening on the employee surface, \<open>apps/api/src/employee/lifecycle.controller.ts\<close>. The
  request is decided, the head is read and the transition table is asked before anything is written; every
  refusal looks the same. The notification of a resolution, which is raised after the answer is known, is
  modelled with the notifications.
\<close>

section \<open>The object check\<close>

definition lifecycleQuestion ::
  "UUID \<Rightarrow> string \<Rightarrow> Timestamp \<Rightarrow> PrincipalClaims \<Rightarrow> ResourceContext \<Rightarrow> TemporaryGrant list \<Rightarrow> DecisionRequest" where
  "lifecycleQuestion who action t claims r grants =
     \<lparr>q_actor = (toActorContext claims)\<lparr>a_temporaryGrants := grants\<rparr>, q_action = action, q_resource = r, q_now = t,
      q_requiredAssurance = None, q_targetVisibility = None\<rparr>"

definition lifecycleAuthorize ::
  "UUID \<Rightarrow> UUID \<Rightarrow> string \<Rightarrow> Timestamp \<Rightarrow> IdentityDb \<Rightarrow> CaseDb \<Rightarrow> Basis option" where
  "lifecycleAuthorize who cid action t ids db =
     (case loadForAuthorization cid who t db of
        None \<Rightarrow> None
      | Some r \<Rightarrow>
          (case resolvePrincipal who t ids of
             Inl _ \<Rightarrow> None
           | Inr claims \<Rightarrow>
               (case decide (lifecycleQuestion who action t claims r
                       (loadTemporaryGrants cid who t (RoutingDb.truncate db))) of
                  Allow basis _ _ \<Rightarrow> Some basis
                | Deny _ _ \<Rightarrow> None)))"

definition lifecycleActorFor :: "Basis \<Rightarrow> LifecycleActor" where
  "lifecycleActorFor basis = (if basis = OWNER then L_OWNER else L_LEAD)"

text \<open>\<open>z.string().trim().min(1).max(2000)\<close>.\<close>

definition parsedReason :: "string \<Rightarrow> string option" where
  "parsedReason raw =
     (let text = trim raw in if 1 \<le> length text \<and> length text \<le> 2000 then Some text else None)"

datatype LifecycleAnswer = LA_REFUSED | LA_STATE_CHANGED | LA_RESOLVED ConversationState | LA_REOPENED

record LifecycleRequest =
  lq_principalId :: UUID
  lq_conversationId :: UUID
  lq_text :: string
  lq_at :: Timestamp
  lq_correlationId :: string

definition auditRow :: "string \<Rightarrow> LifecycleRequest \<Rightarrow> string \<Rightarrow> ConversationState \<Rightarrow> Basis \<Rightarrow> LifecycleAudit" where
  "auditRow action rq text from basis =
     \<lparr>la_actorId = lq_principalId rq, la_action = action, la_targetId = lq_conversationId rq, la_reason = text,
      la_correlationId = lq_correlationId rq, la_from = from, la_basis = basis\<rparr>"

text \<open>
  The audit row is written after the unit of work, by \<open>AuditWriter.record\<close> without \<open>mustSucceed\<close>: a failed
  insert is logged and swallowed, and the command answers as if it had been written.
\<close>

definition recordLifecycle :: "bool \<Rightarrow> LifecycleAudit \<Rightarrow> CaseDb \<Rightarrow> CaseDb" where
  "recordLifecycle auditUp a db = (if auditUp then db\<lparr>cd_audited := cd_audited db @ [a]\<rparr> else db)"

section \<open>The two commands\<close>

text \<open>What both ask before they write: the text, the basis, the head and the state it is in.\<close>

definition lifecycleGate ::
  "string \<Rightarrow> ConversationState \<Rightarrow> bool option \<Rightarrow> LifecycleRequest \<Rightarrow> IdentityDb \<Rightarrow> CaseDb \<Rightarrow>
   (string \<times> Basis \<times> ConversationState \<times> UUID) option" where
  "lifecycleGate action target staffInitiated rq ids db =
     Option.bind (parsedReason (lq_text rq)) (\<lambda>text.
     Option.bind (lifecycleAuthorize (lq_principalId rq) (lq_conversationId rq) action (lq_at rq) ids db) (\<lambda>basis.
     Option.bind (caseHead (lq_conversationId rq) db) (\<lambda>h.
       if \<not> isLifecycleBearing (hd_conversationType h) then None
       else Option.bind (hd_caseId h) (\<lambda>k. Option.bind (hd_state h) (\<lambda>from.
         case transition \<lparr>rq_from = from, rq_to = target, rq_actor = lifecycleActorFor basis,
                rq_reason = Some text, rq_staffInitiated = staffInitiated\<rparr> of
           Inl _ \<Rightarrow> None
         | Inr _ \<Rightarrow> Some (text, basis, from, k))))))"

definition resolveConversation ::
  "bool \<Rightarrow> UUID \<Rightarrow> LifecycleRequest \<Rightarrow> IdentityDb \<Rightarrow> CaseDb \<Rightarrow> (LifecycleAnswer \<times> CaseDb) option" where
  "resolveConversation auditUp eid rq ids db =
     (case lifecycleGate ''conversation.resolve'' RESOLVED None rq ids db of
        None \<Rightarrow> Some (LA_REFUSED, db)
      | Some (text, basis, from, k) \<Rightarrow>
          map_option (\<lambda>(written, db').
              if written = STATE_CHANGED then (LA_STATE_CHANGED, db')
              else (LA_RESOLVED from, recordLifecycle auditUp (auditRow ''conversation.resolve'' rq text from basis) db'))
            (resolveCase eid
               \<lparr>rz_conversationId = lq_conversationId rq, rz_from = from, rz_resolvedBy = lq_principalId rq,
                rz_outcome = text, rz_at = lq_at rq, rz_caseId = k, rz_correlationId = lq_correlationId rq\<rparr> db))"

definition reopenConversation ::
  "bool \<Rightarrow> UUID \<Rightarrow> LifecycleRequest \<Rightarrow> IdentityDb \<Rightarrow> CaseDb \<Rightarrow> (LifecycleAnswer \<times> CaseDb) option" where
  "reopenConversation auditUp eid rq ids db =
     (case lifecycleGate ''conversation.reopen'' ACTIVE (Some True) rq ids db of
        None \<Rightarrow> Some (LA_REFUSED, db)
      | Some (text, basis, from, k) \<Rightarrow>
          map_option (\<lambda>(written, db').
              if written = STATE_CHANGED then (LA_STATE_CHANGED, db')
              else (LA_REOPENED, recordLifecycle auditUp (auditRow ''conversation.reopen'' rq text from basis) db'))
            (reopenCase eid
               \<lparr>rp_conversationId = lq_conversationId rq, rp_reopenedBy = lq_principalId rq, rp_reason = text,
                rp_at = lq_at rq, rp_caseId = k, rp_correlationId = lq_correlationId rq\<rparr> db))"

section \<open>The customer's reply\<close>

text \<open>
  \<open>send\<close> of \<open>apps/api/src/customer/customer-conversations.controller.ts\<close>: the request is parsed, the
  customer must be a live participant of the conversation they name, the reopen rules choose the
  conversation, and only then is the message sent, in a unit of work of its own and by a later clock. Files
  are bound and the owner is notified after the message; both are modelled with their own components.
\<close>

record CustomerReply =
  cy_conversationId :: UUID
  cy_principalId :: UUID
  cy_assurance :: "Assurance option"
  cy_message :: string
  cy_clientMessageId :: "string option"
  cy_correlationId :: string

datatype CustomerReplyAnswer = CR_REFUSED | CR_THREW | CR_SENT UUID SendOk

definition replyParses :: "CustomerReply \<Rightarrow> bool" where
  "replyParses rq \<longleftrightarrow> 1 \<le> length (cy_message rq) \<and> length (cy_message rq) \<le> 10000 \<and>
     (case cy_clientMessageId rq of None \<Rightarrow> True | Some k \<Rightarrow> 1 \<le> length k \<and> length k \<le> 200)"

definition loadIfParticipant :: "UUID \<Rightarrow> UUID \<Rightarrow> Timestamp \<Rightarrow> 'x Db_scheme \<Rightarrow> ConversationRow option" where
  "loadIfParticipant cid who t db =
     (case findConversation cid db of
        None \<Rightarrow> None
      | Some c \<Rightarrow>
          if list_ex (\<lambda>p. pa_conversation_id p = cid \<and> pa_principal_id p = who \<and>
                 isWithinPeriod t (pa_effective_from p) (pa_effective_to p)) (db_participants db)
          then Some c else None)"

definition replyCommand :: "CustomerReply \<Rightarrow> UUID \<Rightarrow> SendMessageCommand" where
  "replyCommand rq target =
     \<lparr>sm_conversationId = target,
      sm_actor = \<lparr>a_principalId = cy_principalId rq, a_kind = K_CUSTOMER, a_status = P_ACTIVE, a_teams = [],
         a_departments = [], a_grants = [], a_delegations = [], a_temporaryGrants = [], a_assurance = cy_assurance rq\<rparr>,
      sm_senderDisplayName = ''You'', sm_body = cy_message rq, sm_visibility = CUSTOMER_VISIBLE,
      sm_replyToMessageId = None, sm_clientMessageId = cy_clientMessageId rq, sm_mentions = None,
      sm_hasAttachment = None, sm_requiredAssurance = Some PSEUDONYMOUS, sm_correlationId = cy_correlationId rq\<rparr>"

definition customerReply ::
  "NewIds \<Rightarrow> int \<Rightarrow> Timestamp \<Rightarrow> Timestamp \<Rightarrow> UUID \<Rightarrow> UUID \<Rightarrow> CustomerReply \<Rightarrow> CaseDb \<Rightarrow> CustomerReplyAnswer \<times> CaseDb" where
  "customerReply ids window t sentAt eid newId rq db =
     (if \<not> replyParses rq \<or> loadIfParticipant (cy_conversationId rq) (cy_principalId rq) t db = None
      then (CR_REFUSED, db)
      else case reopenOnReply ids (cy_conversationId rq) (cy_principalId rq) window t db of
             None \<Rightarrow> (CR_THREW, db)
           | Some (target, db1) \<Rightarrow>
               (case sendMessage (pgTx sentAt eid) None (replyCommand rq target) sentAt newId db1 of
                  (Returned (Inr ok), db2) \<Rightarrow> (CR_SENT target ok, db2)
                | (Returned (Inl _), db2) \<Rightarrow> (CR_REFUSED, db2)
                | (_, db2) \<Rightarrow> (CR_THREW, db2)))"

end
