(* ===== verification/Case_Facts.thy ===== *)
theory Case_Facts
  imports Case_Lifecycle
begin

text \<open>
  Facts about the stored lifecycle: what each unit of work does to the state of a conversation and to its
  open episode, and the invariant that the two agree.
\<close>

section \<open>States and open episodes\<close>

definition stateIn :: "UUID \<Rightarrow> 'x Db_scheme \<Rightarrow> ConversationState option" where
  "stateIn cid db = Option.bind (findConversation cid db) cr_state"

definition isOpenEpisode :: "UUID \<Rightarrow> EpisodeRow \<Rightarrow> bool" where
  "isOpenEpisode cid e \<longleftrightarrow> ep_conversation_id e = cid \<and> ep_effective_to e = None"

definition openStates :: "UUID \<Rightarrow> 'x Db_scheme \<Rightarrow> ConversationState list" where
  "openStates cid db = map ep_state (filter (isOpenEpisode cid) (db_episodes db))"

definition historyAgrees :: "CaseDb \<Rightarrow> bool" where
  "historyAgrees db \<longleftrightarrow> distinct (map cr_conversation_id (db_conversations db)) \<and>
     (\<forall>cid. openStates cid db = (case stateIn cid db of None \<Rightarrow> [] | Some s \<Rightarrow> [s]))"

lemma filter_ended: "filter (isOpenEpisode cid') (updateWhere (\<lambda>e. ep_conversation_id e = cid \<and> ep_effective_to e = None)
     (\<lambda>e. e\<lparr>ep_effective_to := Some t\<rparr>) eps) = (if cid' = cid then [] else filter (isOpenEpisode cid') eps)"
  unfolding isOpenEpisode_def[abs_def] by (induction eps) (auto simp: updateWhere_def)

lemma endEpisode_facts:
  assumes "endEpisode cid t db = Some db'"
  shows "\<exists>eps. db' = db\<lparr>db_episodes := eps\<rparr>"
    and "openStates cid' db' = (if cid' = cid then [] else openStates cid' db)"
  using assms by (auto simp: endEpisode_def openStates_def filter_ended split: if_splits)

lemma beginEpisode_facts:
  assumes "beginEpisode eid cid s t reason who db = Some db'"
  shows "\<exists>eps. db' = db\<lparr>db_episodes := eps\<rparr>"
    and "openStates cid' db' = openStates cid' db @ (if cid' = cid then [s] else [])"
    and "openStates cid db = []"
  using assms by (auto simp: beginEpisode_def openStates_def isOpenEpisode_def episodeFree_def list_all_iff
      filter_empty_conv split: if_splits option.splits)

lemma closeAndOpen_facts:
  assumes "closeAndOpenEpisode eid cid s t reason who db = Some db'"
  shows "\<exists>eps. db' = db\<lparr>db_episodes := eps\<rparr>"
    and "openStates cid' db' = (if cid' = cid then [s] else openStates cid' db)"
proof -
  from assms obtain db1 where e: "endEpisode cid t db = Some db1" and b: "beginEpisode eid cid s t reason who db1 = Some db'"
    by (auto simp: closeAndOpenEpisode_def elim!: bind_SomeE)
  show "\<exists>eps. db' = db\<lparr>db_episodes := eps\<rparr>"
    using endEpisode_facts(1)[OF e] beginEpisode_facts(1)[OF b] by auto
  show "openStates cid' db' = (if cid' = cid then [s] else openStates cid' db)"
    using endEpisode_facts(2)[OF e] beginEpisode_facts(2)[OF b] by simp
qed

lemma stateIn_simps [simp]:
  "stateIn cid (db\<lparr>db_service_cases := a\<rparr>) = stateIn cid db" "stateIn cid (db\<lparr>db_episodes := e\<rparr>) = stateIn cid db"
  "stateIn cid (db\<lparr>db_outbox := o'\<rparr>) = stateIn cid db" "stateIn cid (db\<lparr>db_participants := ps\<rparr>) = stateIn cid db"
  by (simp_all add: stateIn_def findConversation_def)

lemma stateIn_routing [simp]:
  "stateIn cid (db\<lparr>db_ownership_episodes := ow\<rparr>) = stateIn cid db" "stateIn cid (db\<lparr>db_reservations := rs\<rparr>) = stateIn cid db"
  by (simp_all add: stateIn_def findConversation_def)

lemma stateIn_case [simp]:
  "stateIn cid (db\<lparr>cd_business_links := l\<rparr>) = stateIn cid db" "stateIn cid (db\<lparr>cd_audited := au\<rparr>) = stateIn cid db"
  by (simp_all add: stateIn_def findConversation_def)

lemma openStates_simps [simp]:
  "openStates cid (db\<lparr>db_conversations := cs\<rparr>) = openStates cid db" "openStates cid (db\<lparr>db_service_cases := a\<rparr>) = openStates cid db"
  "openStates cid (db\<lparr>db_outbox := o'\<rparr>) = openStates cid db" "openStates cid (db\<lparr>db_participants := ps\<rparr>) = openStates cid db"
  by (simp_all add: openStates_def)

lemma openStates_routing [simp]:
  "openStates cid (db\<lparr>db_ownership_episodes := ow\<rparr>) = openStates cid db" "openStates cid (db\<lparr>db_reservations := rs\<rparr>) = openStates cid db"
  by (simp_all add: openStates_def)

lemma openStates_case [simp]:
  "openStates cid (db\<lparr>cd_business_links := l\<rparr>) = openStates cid db" "openStates cid (db\<lparr>cd_audited := au\<rparr>) = openStates cid db"
  by (simp_all add: openStates_def)

section \<open>Moving a conversation\<close>

abbreviation conversationIds :: "'x Db_scheme \<Rightarrow> UUID list" where
  "conversationIds db \<equiv> map cr_conversation_id (db_conversations db)"

lemma conversationIds_updateWhere:
  "(\<And>c. cr_conversation_id (f c) = cr_conversation_id c) \<Longrightarrow>
   map cr_conversation_id (updateWhere q f cs) = map cr_conversation_id cs"
  by (simp add: updateWhere_def)

lemma stateIn_updateWhere:
  assumes "\<And>c. cr_conversation_id (f c) = cr_conversation_id c"
  shows "stateIn cid (db\<lparr>db_conversations := updateWhere q f (db_conversations db)\<rparr>) =
    Option.bind (findConversation cid db) (\<lambda>c. if q c then cr_state (f c) else cr_state c)"
  by (cases "findConversation cid db") (auto simp: stateIn_def findConversation_def find_updateWhere assms)

lemma findConversation_mem:
  assumes "distinct (conversationIds db)"
  shows "findConversation cid db = Some c \<longleftrightarrow> c \<in> set (db_conversations db) \<and> cr_conversation_id c = cid"
proof
  assume "findConversation cid db = Some c"
  then show "c \<in> set (db_conversations db) \<and> cr_conversation_id c = cid" by (auto simp: findConversation_def find_Some_iff)
next
  assume c: "c \<in> set (db_conversations db) \<and> cr_conversation_id c = cid"
  then have "findConversation cid db \<noteq> None" by (auto simp: findConversation_def find_None_iff)
  then obtain c' where c': "findConversation cid db = Some c'" by blast
  then have "c' \<in> set (db_conversations db)" "cr_conversation_id c' = cid" by (auto simp: findConversation_def find_Some_iff)
  with c assms have "c' = c" by (auto simp: distinct_map dest: inj_onD)
  with c' show "findConversation cid db = Some c" by simp
qed

lemma someStands_iff:
  assumes "distinct (conversationIds db)"
  shows "list_ex (standsIn cid s) (db_conversations db) \<longleftrightarrow> stateIn cid db = Some s"
proof
  assume "list_ex (standsIn cid s) (db_conversations db)"
  then obtain c where "c \<in> set (db_conversations db)" "cr_conversation_id c = cid" "cr_state c = Some s"
    by (auto simp: list_ex_iff standsIn_def)
  then show "stateIn cid db = Some s" using findConversation_mem[OF assms, of cid c] by (simp add: stateIn_def)
next
  assume "stateIn cid db = Some s"
  then obtain c where "findConversation cid db = Some c" "cr_state c = Some s"
    by (cases "findConversation cid db") (auto simp: stateIn_def)
  then show "list_ex (standsIn cid s) (db_conversations db)"
    using findConversation_mem[OF assms, of cid c] by (auto simp: list_ex_iff standsIn_def)
qed

lemma moveConversation_facts:
  assumes "moveConversation cid from f db = Some db1" and d: "distinct (conversationIds db)"
    and f: "\<And>c. cr_conversation_id (f c) = cr_conversation_id c" "\<And>c. cr_state (f c) = Some s"
  shows "db1 = db\<lparr>db_conversations := updateWhere (standsIn cid from) f (db_conversations db)\<rparr>"
    and "stateIn cid db = Some from"
    and "stateIn cid' db1 = (if cid' = cid then Some s else stateIn cid' db)"
    and "conversationIds db1 = conversationIds db"
proof -
  show db1: "db1 = db\<lparr>db_conversations := updateWhere (standsIn cid from) f (db_conversations db)\<rparr>"
    and st: "stateIn cid db = Some from"
    using assms(1) someStands_iff[OF d] by (auto simp: moveConversation_def split: if_splits)
  show "conversationIds db1 = conversationIds db" by (simp add: db1 conversationIds_updateWhere f)
  show "stateIn cid' db1 = (if cid' = cid then Some s else stateIn cid' db)"
  proof (cases "findConversation cid' db")
    case None
    then show ?thesis using st unfolding db1 stateIn_updateWhere[OF f(1)] by (auto simp: stateIn_def)
  next
    case (Some c)
    then have "cr_conversation_id c = cid'" using findConversation_mem[OF d] by blast
    with Some show ?thesis using st unfolding db1 stateIn_updateWhere[OF f(1)] by (auto simp: stateIn_def standsIn_def f)
  qed
qed

lemma historyAgrees_shift:
  assumes "historyAgrees db" and "distinct (conversationIds db')"
    and "\<And>c. stateIn c db' = (if c = cid then Some s else stateIn c db)"
    and "\<And>c. openStates c db' = (if c = cid then [s] else openStates c db)"
  shows "historyAgrees db'"
  using assms by (simp add: historyAgrees_def)

lemma historyAgrees_same:
  assumes "historyAgrees db" and "db_conversations db' = db_conversations db" and "db_episodes db' = db_episodes db"
  shows "historyAgrees db'"
  using assms by (simp add: historyAgrees_def openStates_def stateIn_def findConversation_def)

section \<open>The units of work\<close>

lemma caseOfConversation_moved:
  assumes "\<And>c. cr_conversation_id (f c) = cr_conversation_id c" "\<And>c. cr_case_id (f c) = cr_case_id c"
  shows "caseOfConversation cid (db\<lparr>db_conversations := updateWhere q f (db_conversations db)\<rparr>) = caseOfConversation cid db"
proof -
  have "list_ex P (updateWhere q f cs) = list_ex P cs" if "\<And>c. P (f c) = P c" for P cs
    using that by (induction cs) (auto simp: updateWhere_def)
  then show ?thesis by (simp add: caseOfConversation_def fun_eq_iff assms)
qed

lemma resolveCase_written:
  assumes "resolveCase eid inp db = Some (WRITTEN, db')" and d: "distinct (conversationIds db)"
  obtains eps where
    "db' = db\<lparr>db_conversations := updateWhere (standsIn (rz_conversationId inp) (rz_from inp)) (\<lambda>c. c\<lparr>cr_state := Some RESOLVED\<rparr>) (db_conversations db),
       db_service_cases := updateWhere (caseOfConversation (rz_conversationId inp) db)
         (\<lambda>sc. sc\<lparr>sc_state := RESOLVED, sc_resolved_at := Some (rz_at inp), sc_outcome_code := Some (rz_outcome inp)\<rparr>) (db_service_cases db),
       db_episodes := eps,
       db_reservations := updateWhere (isHoldOf (rz_conversationId inp)) (\<lambda>r. r\<lparr>rs_released_at := Some (rz_at inp)\<rparr>) (db_reservations db),
       db_outbox := db_outbox db @ [resolvedEvent inp]\<rparr>"
    and "stateIn (rz_conversationId inp) db = Some (rz_from inp)"
    and "\<And>c. stateIn c db' = (if c = rz_conversationId inp then Some RESOLVED else stateIn c db)"
    and "\<And>c. openStates c db' = (if c = rz_conversationId inp then [RESOLVED] else openStates c db)"
proof -
  let ?cid = "rz_conversationId inp"
  from assms(1) obtain db1 where m: "moveConversation ?cid (rz_from inp) (\<lambda>c. c\<lparr>cr_state := Some RESOLVED\<rparr>) db = Some db1"
    by (auto simp: resolveCase_def Let_def split: option.splits)
  note mv = moveConversation_facts[OF m d, of RESOLVED, simplified]
  let ?db2 = "db1\<lparr>db_service_cases := updateWhere (caseOfConversation ?cid db1)
    (\<lambda>sc. sc\<lparr>sc_state := RESOLVED, sc_resolved_at := Some (rz_at inp), sc_outcome_code := Some (rz_outcome inp)\<rparr>) (db_service_cases db1)\<rparr>"
  from assms(1) m obtain db3 where e: "closeAndOpenEpisode eid ?cid RESOLVED (rz_at inp) (rz_outcome inp) (Some (rz_resolvedBy inp)) ?db2 = Some db3"
    and o: "appendOutboxIn (resolvedEvent inp) (releaseHolds ?cid (rz_at inp) db3) = Some db'"
    by (auto simp: resolveCase_def Let_def elim!: bind_SomeE)
  from closeAndOpen_facts(1)[OF e] obtain eps where db3: "db3 = ?db2\<lparr>db_episodes := eps\<rparr>" ..
  have db': "db' = (releaseHolds ?cid (rz_at inp) db3)\<lparr>db_outbox := db_outbox db3 @ [resolvedEvent inp]\<rparr>"
    using o by (simp add: appendOutboxIn_iff releaseHolds_def)
  have c: "caseOfConversation ?cid db1 = caseOfConversation ?cid db"
    unfolding mv(1) by (rule caseOfConversation_moved) simp_all
  show thesis
  proof (rule that[of eps])
    show "stateIn c db' = (if c = ?cid then Some RESOLVED else stateIn c db)" for c
      by (simp add: db' releaseHolds_def db3 mv(3))
    show "openStates c db' = (if c = ?cid then [RESOLVED] else openStates c db)" for c
      using closeAndOpen_facts(2)[OF e, of c] by (simp add: db' releaseHolds_def mv(1))
  qed (simp_all add: db' releaseHolds_def db3 mv(2), simp add: mv(1) caseOfConversation_moved)
qed

lemma resolveCase_changed: "resolveCase eid inp db = Some (STATE_CHANGED, db') \<Longrightarrow> db' = db"
  by (auto simp: resolveCase_def Let_def elim!: bind_SomeE split: option.splits)

lemma reopenCase_written:
  assumes "reopenCase eid inp db = Some (WRITTEN, db')" and d: "distinct (conversationIds db)"
  obtains eps where
    "db' = db\<lparr>db_conversations := updateWhere (standsIn (rp_conversationId inp) RESOLVED)
         (\<lambda>c. c\<lparr>cr_state := Some ACTIVE, cr_last_activity_at := rp_at inp\<rparr>) (db_conversations db),
       db_service_cases := updateWhere (caseOfConversation (rp_conversationId inp) db) unresolve (db_service_cases db),
       db_episodes := eps, db_outbox := db_outbox db @ [reopenedEvent inp]\<rparr>"
    and "stateIn (rp_conversationId inp) db = Some RESOLVED"
    and "\<And>c. stateIn c db' = (if c = rp_conversationId inp then Some ACTIVE else stateIn c db)"
    and "\<And>c. openStates c db' = (if c = rp_conversationId inp then [ACTIVE] else openStates c db)"
proof -
  let ?cid = "rp_conversationId inp"
  from assms(1) obtain db1 where m: "moveConversation ?cid RESOLVED (\<lambda>c. c\<lparr>cr_state := Some ACTIVE, cr_last_activity_at := rp_at inp\<rparr>) db = Some db1"
    by (auto simp: reopenCase_def Let_def split: option.splits)
  note mv = moveConversation_facts[OF m d, of ACTIVE, simplified]
  let ?db2 = "db1\<lparr>db_service_cases := updateWhere (caseOfConversation ?cid db1) unresolve (db_service_cases db1)\<rparr>"
  from assms(1) m obtain db3 where e: "closeAndOpenEpisode eid ?cid ACTIVE (rp_at inp) (rp_reason inp) (Some (rp_reopenedBy inp)) ?db2 = Some db3"
    and o: "appendOutboxIn (reopenedEvent inp) db3 = Some db'"
    by (auto simp: reopenCase_def Let_def elim!: bind_SomeE)
  from closeAndOpen_facts(1)[OF e] obtain eps where db3: "db3 = ?db2\<lparr>db_episodes := eps\<rparr>" ..
  have db': "db' = db3\<lparr>db_outbox := db_outbox db3 @ [reopenedEvent inp]\<rparr>" using o by (simp add: appendOutboxIn_iff)
  have c: "caseOfConversation ?cid db1 = caseOfConversation ?cid db"
    unfolding mv(1) by (rule caseOfConversation_moved) simp_all
  show thesis
  proof (rule that[of eps])
    show "stateIn c db' = (if c = ?cid then Some ACTIVE else stateIn c db)" for c by (simp add: db' db3 mv(3))
    show "openStates c db' = (if c = ?cid then [ACTIVE] else openStates c db)" for c
      using closeAndOpen_facts(2)[OF e, of c] by (simp add: db' mv(1))
  qed (simp_all add: db' db3 mv(2), simp add: mv(1) caseOfConversation_moved)
qed

lemma reopenCase_changed: "reopenCase eid inp db = Some (STATE_CHANGED, db') \<Longrightarrow> db' = db"
  by (auto simp: reopenCase_def Let_def elim!: bind_SomeE split: option.splits)

lemma endOwnership_form: "endOwnership cid t db = Some db' \<Longrightarrow> \<exists>ow. db' = db\<lparr>db_ownership_episodes := ow\<rparr>"
  by (auto simp: endOwnership_def split: if_splits)

text \<open>A revival that changes something; the work is handed back to the owner who may still hold it.\<close>

lemma reviveInPlace_cases:
  assumes "reviveInPlace eid cid h t db = Some db'" and d: "distinct (conversationIds db)"
  obtains (gone) "stateIn cid db \<noteq> Some RESOLVED" "db' = db"
  | (revived) ow eps where "stateIn cid db = Some RESOLVED"
    "db' = db\<lparr>db_conversations := updateWhere (standsIn cid RESOLVED) (\<lambda>c. c\<lparr>cr_state := Some ACTIVE, cr_last_activity_at := t\<rparr>) (db_conversations db),
       db_service_cases := updateWhere (\<lambda>sc. ph_case_id h = Some (sc_case_id sc))
         (\<lambda>sc. (unresolve sc)\<lparr>sc_current_owner_id := keptOwner h\<rparr>) (db_service_cases db),
       db_ownership_episodes := ow, db_episodes := eps\<rparr>"
    "\<And>c. stateIn c db' = (if c = cid then Some ACTIVE else stateIn c db)"
    "\<And>c. openStates c db' = (if c = cid then [ACTIVE] else openStates c db)"
proof (cases "moveConversation cid RESOLVED (\<lambda>c. c\<lparr>cr_state := Some ACTIVE, cr_last_activity_at := t\<rparr>) db")
  case None
  then show thesis using assms(1) someStands_iff[OF d] by (intro gone) (auto simp: reviveInPlace_def moveConversation_def split: if_splits)
next
  case (Some db1)
  note mv = moveConversation_facts[OF Some d, of ACTIVE, simplified]
  from assms(1) Some obtain db2 where
      o: "(if ph_owner_status h \<noteq> Some P_ACTIVE then endOwnership cid t (workAgain h db1) else Some (workAgain h db1)) = Some db2"
    and e: "closeAndOpenEpisode eid cid ACTIVE t ''reopened by customer reply'' None db2 = Some db'"
    by (auto simp: reviveInPlace_def elim!: bind_SomeE)
  from o obtain ow where db2: "db2 = (workAgain h db1)\<lparr>db_ownership_episodes := ow\<rparr>"
  proof (cases "ph_owner_status h = Some P_ACTIVE")
    case True
    with o have "db2 = (workAgain h db1)\<lparr>db_ownership_episodes := db_ownership_episodes (workAgain h db1)\<rparr>" by simp
    then show thesis by (rule that)
  next
    case False
    with o have "endOwnership cid t (workAgain h db1) = Some db2" by simp
    from endOwnership_form[OF this] that show thesis by blast
  qed
  from closeAndOpen_facts(1)[OF e] obtain eps where db': "db' = db2\<lparr>db_episodes := eps\<rparr>" ..
  show thesis
  proof (rule revived[where ow = ow and eps = eps])
    show "stateIn c db' = (if c = cid then Some ACTIVE else stateIn c db)" for c
      by (simp add: db' db2 workAgain_def mv(3))
    show "openStates c db' = (if c = cid then [ACTIVE] else openStates c db)" for c
      using closeAndOpen_facts(2)[OF e, of c] by (simp add: db2 workAgain_def mv(1))
  qed (simp_all add: db' db2 workAgain_def mv(2), simp add: mv(1))
qed

lemma forkConversation_written:
  assumes "forkConversation ids previous h t db = Some db'"
  obtains ow eps where
    "ni_conversation ids \<notin> set (conversationIds db)"
    "db' = db\<lparr>db_conversations := db_conversations db @
         [forkedConversation (ni_conversation ids) h t (length (carriedOver previous (ni_conversation ids) t db))],
       db_participants := db_participants db @ carriedOver previous (ni_conversation ids) t db,
       cd_business_links := (if list_ex (\<lambda>l. bl_link_id l = ni_link ids) (cd_business_links db) then cd_business_links db
         else cd_business_links db @
           [\<lparr>bl_link_id = ni_link ids, bl_conversation_id = ni_conversation ids, bl_ref_system = ''LOCAL'',
             bl_ref_type = ''conversation'', bl_ref_id = previous, bl_relation = ''CONTINUES'', bl_effective_from = t\<rparr>]),
       db_service_cases := updateWhere (\<lambda>sc. ph_case_id h = Some (sc_case_id sc))
         (\<lambda>sc. (unresolve sc)\<lparr>sc_current_owner_id := keptOwner h\<rparr>) (db_service_cases db),
       db_ownership_episodes := ow, db_episodes := eps\<rparr>"
    "\<And>c. stateIn c db' = (if c = ni_conversation ids then Some NEW else stateIn c db)"
    "\<And>c. openStates c db' = (if c = ni_conversation ids then [NEW] else openStates c db)"
proof -
  let ?new = "ni_conversation ids" and ?ps = "carriedOver previous (ni_conversation ids) t db"
  let ?links = "if list_ex (\<lambda>l. bl_link_id l = ni_link ids) (cd_business_links db) then cd_business_links db
    else cd_business_links db @
      [\<lparr>bl_link_id = ni_link ids, bl_conversation_id = ?new, bl_ref_system = ''LOCAL'',
        bl_ref_type = ''conversation'', bl_ref_id = previous, bl_relation = ''CONTINUES'', bl_effective_from = t\<rparr>]"
  let ?db1 = "workAgain h (db\<lparr>db_conversations := db_conversations db @ [forkedConversation ?new h t (length ?ps)],
    db_participants := db_participants db @ ?ps, cd_business_links := ?links\<rparr>)"
  from assms have n: "findConversation ?new db = None" by (auto simp: forkConversation_def Let_def split: if_splits)
  from assms n obtain db2 where o: "endOwnership previous t ?db1 = Some db2"
    and e: "beginEpisode (ni_episode ids) ?new NEW t ''continues a conversation whose reopen window had passed'' None db2 = Some db'"
    by (auto simp: forkConversation_def Let_def elim!: bind_SomeE)
  from endOwnership_form[OF o] obtain ow where db2: "db2 = ?db1\<lparr>db_ownership_episodes := ow\<rparr>" ..
  from beginEpisode_facts(1)[OF e] obtain eps where db': "db' = db2\<lparr>db_episodes := eps\<rparr>" ..
  show thesis
  proof (rule that[where ow = ow and eps = eps])
    show "?new \<notin> set (conversationIds db)" using n by (auto simp: findConversation_def find_None_iff)
    show "stateIn c db' = (if c = ?new then Some NEW else stateIn c db)" for c
      using n by (cases "findConversation c db")
        (auto simp: db' db2 workAgain_def stateIn_def findConversation_def find_append_miss find_isSome_append forkedConversation_def)
    show "openStates c db' = (if c = ?new then [NEW] else openStates c db)" for c
      using beginEpisode_facts(2)[OF e, of c] beginEpisode_facts(3)[OF e] by (simp add: db2 workAgain_def)
  qed (simp add: db' db2 workAgain_def)
qed

section \<open>Closure\<close>

lemma dueClosures_mem:
  assumes "cid \<in> set (dueClosures n cutoff db)"
  obtains c r where "c \<in> set (db_conversations db)" "cr_conversation_id c = cid" "closable cutoff db c = Some r"
proof -
  let ?rows = "List.map_filter (\<lambda>c. map_option (\<lambda>r. (r, cr_conversation_id c)) (closable cutoff db c)) (db_conversations db)"
  from assms have "cid \<in> snd ` set (sort_key fst ?rows)" unfolding dueClosures_def by (auto dest: in_set_takeD)
  then have "cid \<in> snd ` set ?rows" by simp
  then show thesis using that by (auto simp: List.map_filter_def split: option.splits)
qed

lemma closable_state: "closable cutoff db c = Some r \<Longrightarrow> cr_state c = Some RESOLVED"
  by (auto simp: closable_def split: if_splits)

lemma dueClosures_state:
  assumes "cid \<in> set (dueClosures n cutoff db)" and d: "distinct (conversationIds db)"
  shows "stateIn cid db = Some RESOLVED"
proof -
  from dueClosures_mem[OF assms(1)] obtain c r where "c \<in> set (db_conversations db)" "cr_conversation_id c = cid"
    "closable cutoff db c = Some r" .
  then show ?thesis using findConversation_mem[OF d, of cid c] by (simp add: stateIn_def closable_state)
qed

lemma stateIn_closeWindows:
  assumes "distinct (conversationIds db)"
  shows "stateIn cid (closeWindows due db) =
    (if cid \<in> set due \<and> stateIn cid db = Some RESOLVED then Some CLOSED else stateIn cid db)"
proof (cases "findConversation cid db")
  case (Some c)
  then have "cr_conversation_id c = cid" using findConversation_mem[OF assms] by blast
  with Some show ?thesis unfolding closeWindows_def by (subst stateIn_updateWhere) (auto simp: stateIn_def)
qed (unfold closeWindows_def, subst stateIn_updateWhere, auto simp: stateIn_def)

text \<open>Whatever statement stops the loop, the open episodes of a conversation are the old ones, none or the new one.\<close>

lemma recordClosures_any:
  assumes "recordClosures t jobs db = (completed, db')"
  shows "\<exists>eps. db' = db\<lparr>db_episodes := eps\<rparr>"
    and "(openStates c db' = openStates c db \<or> c \<in> fst ` set jobs \<and> (openStates c db' = [] \<or> openStates c db' = [CLOSED]))"
    and "completed \<Longrightarrow> c \<in> fst ` set jobs \<Longrightarrow> openStates c db' = [CLOSED]"
proof -
  have "(\<exists>eps. db' = db\<lparr>db_episodes := eps\<rparr>) \<and>
    (openStates c db' = openStates c db \<or> c \<in> fst ` set jobs \<and> (openStates c db' = [] \<or> openStates c db' = [CLOSED])) \<and>
    (completed \<and> c \<in> fst ` set jobs \<longrightarrow> openStates c db' = [CLOSED])"
    using assms
  proof (induction jobs arbitrary: db)
    case Nil
    have "\<exists>eps. db = db\<lparr>db_episodes := eps\<rparr>" by (rule exI[of _ "db_episodes db"]) simp
    with Nil show ?case by simp
  next
    case (Cons job jobs)
    obtain cid eid where job: "job = (cid, eid)" by (cases job)
    have same: "\<exists>eps. db = db\<lparr>db_episodes := eps\<rparr>" by (rule exI[of _ "db_episodes db"]) simp
    show ?case
    proof (cases "endEpisode cid t db")
      case None
      with Cons.prems same show ?thesis by (simp add: job)
    next
      case (Some db1)
      note e = endEpisode_facts[OF Some]
      show ?thesis
      proof (cases "beginEpisode eid cid CLOSED t ''reopen window expired'' None db1")
        case None
        with Cons.prems Some e(1) e(2)[of c] show ?thesis by (auto simp: job)
      next
        case (Some db2)
        with Cons.prems \<open>endEpisode cid t db = Some db1\<close>
        have r: "recordClosures t jobs db2 = (completed, db')" by (simp add: job)
        note IH = Cons.IH[OF r]
        have o: "openStates c db2 = (if c = cid then [CLOSED] else openStates c db)"
          using e(2)[of c] beginEpisode_facts(2)[OF Some, of c] by simp
        obtain eps where "db2 = db\<lparr>db_episodes := eps\<rparr>" using e(1) beginEpisode_facts(1)[OF Some] by auto
        then show ?thesis using IH o by (auto simp: job)
      qed
    qed
  qed
  then show "\<exists>eps. db' = db\<lparr>db_episodes := eps\<rparr>"
    and "(openStates c db' = openStates c db \<or> c \<in> fst ` set jobs \<and> (openStates c db' = [] \<or> openStates c db' = [CLOSED]))"
    and "completed \<Longrightarrow> c \<in> fst ` set jobs \<Longrightarrow> openStates c db' = [CLOSED]" by blast+
qed

lemma recordClosures_facts:
  assumes "recordClosures t jobs db = (True, db')"
  shows "\<exists>eps. db' = db\<lparr>db_episodes := eps\<rparr>"
    and "openStates c db' = (if c \<in> fst ` set jobs then [CLOSED] else openStates c db)"
proof -
  show "\<exists>eps. db' = db\<lparr>db_episodes := eps\<rparr>" by (rule recordClosures_any(1)[OF assms])
  show "openStates c db' = (if c \<in> fst ` set jobs then [CLOSED] else openStates c db)"
    using recordClosures_any(2,3)[OF assms, of c] by auto
qed

lemma runClosure_complete:
  assumes "runClosure now window n newId db = (Some k, db')" and d: "distinct (conversationIds db)"
  shows "stateIn c db' = (if c \<in> set (dueClosures n (closureCutoff now window) db) then Some CLOSED else stateIn c db)"
    and "openStates c db' = (if c \<in> set (dueClosures n (closureCutoff now window) db) then [CLOSED] else openStates c db)"
    and "\<exists>eps. db' = (closeWindows (dueClosures n (closureCutoff now window) db) db)\<lparr>db_episodes := eps\<rparr>"
proof -
  let ?due = "dueClosures n (closureCutoff now window) db"
  from assms(1) have r: "recordClosures (toISOString now) (map (\<lambda>cid. (cid, newId cid)) ?due) (closeWindows ?due db) = (True, db')"
    by (auto simp: runClosure_def Let_def split: prod.splits if_splits)
  from recordClosures_facts(1)[OF r] obtain eps where db': "db' = (closeWindows ?due db)\<lparr>db_episodes := eps\<rparr>" ..
  show "\<exists>eps. db' = (closeWindows ?due db)\<lparr>db_episodes := eps\<rparr>" using db' by blast
  show "stateIn c db' = (if c \<in> set ?due then Some CLOSED else stateIn c db)"
    using dueClosures_state[OF _ d] by (auto simp: db' stateIn_closeWindows[OF d])
  have "openStates c (closeWindows ?due db) = openStates c db" by (simp add: closeWindows_def)
  moreover have "fst ` set (map (\<lambda>cid. (cid, newId cid)) ?due) = set ?due" by (auto simp: image_image)
  ultimately show "openStates c db' = (if c \<in> set ?due then [CLOSED] else openStates c db)"
    using recordClosures_facts(2)[OF r, of c] by simp
qed

section \<open>A closure that stops half way\<close>

text \<open>
  The update that closes the conversations is committed on its own, and each statement of the loop after it
  too. A run stops where a statement violates a constraint (\<open>runClosure\<close> then answers \<open>None\<close>), or wherever
  the connection or the process fails: after the episodes of the first \<open>j\<close> conversations, the old episode of
  the next one ended or not.
\<close>

definition interruptedClosure ::
  "int \<Rightarrow> int \<Rightarrow> nat \<Rightarrow> (UUID \<Rightarrow> UUID) \<Rightarrow> nat \<Rightarrow> bool \<Rightarrow> CaseDb \<Rightarrow> CaseDb" where
  "interruptedClosure now window batch newId j ended db =
     (let due = dueClosures batch (closureCutoff now window) db;
          (completed, db1) = recordClosures (toISOString now) (map (\<lambda>cid. (cid, newId cid)) (take j due))
            (closeWindows due db)
      in if completed \<and> ended \<and> j < length due
         then (case endEpisode (due ! j) (toISOString now) db1 of Some db2 \<Rightarrow> db2 | None \<Rightarrow> db1)
         else db1)"

text \<open>The open episode of a closed conversation lags behind, or is missing.\<close>

definition mayLag :: "ConversationState option \<Rightarrow> ConversationState list \<Rightarrow> bool" where
  "mayLag s opened \<longleftrightarrow>
     (case s of
        None \<Rightarrow> opened = []
      | Some s \<Rightarrow> opened = [s] \<or> s = CLOSED \<and> opened \<in> {[], [RESOLVED]})"

definition historyNearly :: "CaseDb \<Rightarrow> bool" where
  "historyNearly db \<longleftrightarrow> distinct (conversationIds db) \<and> (\<forall>cid. mayLag (stateIn cid db) (openStates cid db))"

lemma historyNearly_distinct: "historyNearly db \<Longrightarrow> distinct (conversationIds db)"
  by (simp add: historyNearly_def)

lemma historyAgrees_nearly: "historyAgrees db \<Longrightarrow> historyNearly db"
  by (auto simp: historyAgrees_def historyNearly_def mayLag_def split: option.split)

lemma historyNearly_shift:
  assumes "historyNearly db" and "distinct (conversationIds db')"
    and "\<And>c. stateIn c db' = (if c = cid then Some s else stateIn c db)"
    and "\<And>c. openStates c db' = (if c = cid then [s] else openStates c db)"
  shows "historyNearly db'"
  using assms by (simp add: historyNearly_def mayLag_def)

lemma historyNearly_same:
  assumes "historyNearly db" and "db_conversations db' = db_conversations db" and "db_episodes db' = db_episodes db"
  shows "historyNearly db'"
proof -
  have "stateIn c db' = stateIn c db" "openStates c db' = openStates c db" for c
    using assms(2,3) by (simp_all add: openStates_def stateIn_def findConversation_def)
  with assms(1,2) show ?thesis by (simp add: historyNearly_def)
qed

lemma closed_nearly:
  assumes h: "historyNearly db" and due: "due = dueClosures n cutoff db"
    and e: "db' = (closeWindows due db)\<lparr>db_episodes := eps\<rparr>"
    and o: "\<And>c. openStates c db' = openStates c db \<or> c \<in> set due \<and> (openStates c db' = [] \<or> openStates c db' = [CLOSED])"
  shows "historyNearly db'"
proof -
  note d = historyNearly_distinct[OF h]
  have ids: "conversationIds db' = conversationIds db" by (simp add: e closeWindows_def conversationIds_updateWhere)
  have "mayLag (stateIn c db') (openStates c db')" for c
  proof (cases "c \<in> set due")
    case True
    then have s: "stateIn c db = Some RESOLVED" using dueClosures_state[OF _ d] by (simp add: due)
    then have "openStates c db = [RESOLVED]" using h by (auto simp: historyNearly_def mayLag_def dest!: spec[of _ c])
    moreover have "stateIn c db' = Some CLOSED" using True s by (simp add: e stateIn_closeWindows[OF d])
    ultimately show ?thesis using o[of c] by (auto simp: mayLag_def)
  next
    case False
    then have "stateIn c db' = stateIn c db" "openStates c db' = openStates c db"
      using o[of c] by (simp_all add: e stateIn_closeWindows[OF d])
    with h show ?thesis by (simp add: historyNearly_def)
  qed
  with d ids show ?thesis by (simp add: historyNearly_def)
qed

lemma runClosure_nearly:
  assumes "runClosure now window n newId db = (outcome, db')" and h: "historyNearly db"
  shows "historyNearly db'"
proof -
  let ?due = "dueClosures n (closureCutoff now window) db"
  let ?jobs = "map (\<lambda>cid. (cid, newId cid)) ?due"
  obtain completed where r: "recordClosures (toISOString now) ?jobs (closeWindows ?due db) = (completed, db')"
    using assms(1) by (auto simp: runClosure_def Let_def split: prod.splits)
  from recordClosures_any(1)[OF r] obtain eps where e: "db' = (closeWindows ?due db)\<lparr>db_episodes := eps\<rparr>" ..
  have "openStates c (closeWindows ?due db) = openStates c db" for c by (simp add: closeWindows_def)
  moreover have "fst ` set ?jobs = set ?due" by (auto simp: image_image)
  ultimately have "openStates c db' = openStates c db \<or> c \<in> set ?due \<and> (openStates c db' = [] \<or> openStates c db' = [CLOSED])" for c
    using recordClosures_any(2)[OF r, of c] by simp
  from closed_nearly[OF h refl e this] show ?thesis .
qed

lemma interruptedClosure_nearly:
  assumes h: "historyNearly db"
  shows "historyNearly (interruptedClosure now window n newId j ended db)"
proof -
  let ?due = "dueClosures n (closureCutoff now window) db"
  let ?jobs = "map (\<lambda>cid. (cid, newId cid)) (take j ?due)" and ?t = "toISOString now"
  obtain completed db1 where r: "recordClosures ?t ?jobs (closeWindows ?due db) = (completed, db1)"
    by (cases "recordClosures ?t ?jobs (closeWindows ?due db)")
  from recordClosures_any(1)[OF r] obtain eps where e: "db1 = (closeWindows ?due db)\<lparr>db_episodes := eps\<rparr>" ..
  have "openStates c (closeWindows ?due db) = openStates c db" for c by (simp add: closeWindows_def)
  moreover have "fst ` set ?jobs \<subseteq> set ?due" by (auto dest: in_set_takeD)
  ultimately have o: "openStates c db1 = openStates c db \<or> c \<in> set ?due \<and> (openStates c db1 = [] \<or> openStates c db1 = [CLOSED])" for c
    using recordClosures_any(2)[OF r, of c] by (auto split: if_splits)
  note early = closed_nearly[OF h refl e o]
  show ?thesis
  proof (cases "completed \<and> ended \<and> j < length ?due \<and> endEpisode (?due ! j) ?t db1 \<noteq> None")
    case False
    then have "interruptedClosure now window n newId j ended db = db1"
      using r by (auto simp: interruptedClosure_def Let_def split: option.splits)
    then show ?thesis using early by simp
  next
    case True
    then obtain db2 where db2: "endEpisode (?due ! j) ?t db1 = Some db2" by auto
    with True r have i: "interruptedClosure now window n newId j ended db = db2"
      by (simp add: interruptedClosure_def Let_def)
    from endEpisode_facts(1)[OF db2] obtain eps2 where e2: "db2 = (closeWindows ?due db)\<lparr>db_episodes := eps2\<rparr>"
      by (auto simp: e)
    have "openStates c db2 = openStates c db \<or> c \<in> set ?due \<and> (openStates c db2 = [] \<or> openStates c db2 = [CLOSED])" for c
      using endEpisode_facts(2)[OF db2, of c] o[of c] True by auto
    from closed_nearly[OF h refl e2 this] show ?thesis by (simp add: i)
  qed
qed

section \<open>The steps of a lifecycle\<close>

text \<open>
  A reply carries out whatever plan it made, however long ago; the state also advances with a message and
  with ownership (\<open>advanceStateIn\<close>). The flag of a step says that it is a closure which did not reach its end.
\<close>

inductive case_step :: "bool \<Rightarrow> CaseDb \<Rightarrow> CaseDb \<Rightarrow> bool" where
  resolves: "resolveConversation auditUp eid rq ids db = Some (a, db') \<Longrightarrow> case_step False db db'"
| reopens: "reopenConversation auditUp eid rq ids db = Some (a, db') \<Longrightarrow> case_step False db db'"
| replies: "carryOut ids plan t db = Some (cid, db') \<Longrightarrow> case_step False db db'"
| closes: "runClosure now window n newId db = (outcome, db') \<Longrightarrow> case_step (outcome = None) db db'"
| breaks: "case_step True db (interruptedClosure now window n newId j ended db)"
| advances: "advanceStateIn eid inp db = Some (moved, db') \<Longrightarrow> case_step False db db'"

lemma resolveConversation_cases:
  assumes "resolveConversation auditUp eid rq ids db = Some (a, db')"
  obtains (refused) "a = LA_REFUSED" "db' = db"
  | (changed) "a = LA_STATE_CHANGED" "db' = db"
  | (resolved) words basis before k db1 where "a = LA_RESOLVED before"
    "lifecycleGate ''conversation.resolve'' RESOLVED None rq ids db = Some (words, basis, before, k)"
    "resolveCase eid \<lparr>rz_conversationId = lq_conversationId rq, rz_from = before, rz_resolvedBy = lq_principalId rq,
       rz_outcome = words, rz_at = lq_at rq, rz_caseId = k, rz_correlationId = lq_correlationId rq\<rparr> db = Some (WRITTEN, db1)"
    "db' = recordLifecycle auditUp (auditRow ''conversation.resolve'' rq words before basis) db1"
proof (cases "lifecycleGate ''conversation.resolve'' RESOLVED None rq ids db")
  case None
  with assms show thesis by (intro refused) (simp_all add: resolveConversation_def)
next
  case (Some g)
  obtain words basis before k where g: "g = (words, basis, before, k)" by (cases g)
  let ?inp = "\<lparr>rz_conversationId = lq_conversationId rq, rz_from = before, rz_resolvedBy = lq_principalId rq,
    rz_outcome = words, rz_at = lq_at rq, rz_caseId = k, rz_correlationId = lq_correlationId rq\<rparr>"
  from assms Some g obtain w db1 where r: "resolveCase eid ?inp db = Some (w, db1)"
    and out: "(a, db') = (if w = STATE_CHANGED then (LA_STATE_CHANGED, db1)
        else (LA_RESOLVED before, recordLifecycle auditUp (auditRow ''conversation.resolve'' rq words before basis) db1))"
    by (auto simp: resolveConversation_def)
  show thesis
  proof (cases w)
    case WRITTEN
    with r out Some g show thesis by (intro resolved[of before words basis k db1]) simp_all
  next
    case STATE_CHANGED
    with r out resolveCase_changed show thesis by (intro changed) auto
  qed
qed

lemma reopenConversation_cases:
  assumes "reopenConversation auditUp eid rq ids db = Some (a, db')"
  obtains (refused) "a = LA_REFUSED" "db' = db"
  | (changed) "a = LA_STATE_CHANGED" "db' = db"
  | (reopened) words basis before k db1 where "a = LA_REOPENED"
    "lifecycleGate ''conversation.reopen'' ACTIVE (Some True) rq ids db = Some (words, basis, before, k)"
    "reopenCase eid \<lparr>rp_conversationId = lq_conversationId rq, rp_reopenedBy = lq_principalId rq, rp_reason = words,
       rp_at = lq_at rq, rp_caseId = k, rp_correlationId = lq_correlationId rq\<rparr> db = Some (WRITTEN, db1)"
    "db' = recordLifecycle auditUp (auditRow ''conversation.reopen'' rq words before basis) db1"
proof (cases "lifecycleGate ''conversation.reopen'' ACTIVE (Some True) rq ids db")
  case None
  with assms show thesis by (intro refused) (simp_all add: reopenConversation_def)
next
  case (Some g)
  obtain words basis before k where g: "g = (words, basis, before, k)" by (cases g)
  let ?inp = "\<lparr>rp_conversationId = lq_conversationId rq, rp_reopenedBy = lq_principalId rq, rp_reason = words,
    rp_at = lq_at rq, rp_caseId = k, rp_correlationId = lq_correlationId rq\<rparr>"
  from assms Some g obtain w db1 where r: "reopenCase eid ?inp db = Some (w, db1)"
    and out: "(a, db') = (if w = STATE_CHANGED then (LA_STATE_CHANGED, db1)
        else (LA_REOPENED, recordLifecycle auditUp (auditRow ''conversation.reopen'' rq words before basis) db1))"
    by (auto simp: reopenConversation_def)
  show thesis
  proof (cases w)
    case WRITTEN
    with r out Some g show thesis by (intro reopened[of words basis before k db1]) simp_all
  next
    case STATE_CHANGED
    with r out reopenCase_changed show thesis by (intro changed) auto
  qed
qed

end
