(* ===== verification/Case_Props.thy ===== *)
theory Case_Props
  imports Case_Facts Authz_Witnesses
begin

text \<open>
  The properties of the case lifecycle: the history follows the state, the closure and the reply draw the
  same boundary, a resolution is permitted and complete, a reply lands where somebody reads, and what goes
  wrong when a reply meets a second reply, a closure or a skewed clock.
\<close>

section \<open>History\<close>

lemma advance_facts:
  assumes "advanceStateIn eid inp db = Some (moved, db')" and d: "distinct (conversationIds db)"
  shows "db' = db \<or> (\<forall>c. stateIn c db' = (if c = as_conversationId inp then Some (as_to inp) else stateIn c db)) \<and>
    (\<forall>c. openStates c db' = (if c = as_conversationId inp then [as_to inp] else openStates c db)) \<and>
    conversationIds db' = conversationIds db"
proof -
  let ?cid = "as_conversationId inp"
  let ?hit = "\<lambda>c. cr_conversation_id c = ?cid \<and> (case cr_state c of None \<Rightarrow> False | Some s \<Rightarrow> s \<in> set (as_from inp))"
  let ?f = "\<lambda>c. c\<lparr>cr_state := Some (as_to inp)\<rparr>"
  show ?thesis
  proof (cases "list_ex ?hit (db_conversations db)")
    case False
    then show ?thesis using assms(1) by (simp add: advanceStateIn_def Let_def)
  next
    case True
    then obtain c0 where c0: "c0 \<in> set (db_conversations db)" "?hit c0" by (auto simp: list_ex_iff)
    then have hit: "findConversation ?cid db = Some c0" using findConversation_mem[OF d] by blast
    from True assms(1) obtain cases' eps where db': "db' = db\<lparr>db_conversations := updateWhere ?hit ?f (db_conversations db),
        db_service_cases := cases', db_episodes := eps\<rparr>"
      and eps: "eps = updateWhere (\<lambda>e. ep_conversation_id e = ?cid \<and> ep_effective_to e = None)
          (\<lambda>e. e\<lparr>ep_effective_to := Some (as_at inp)\<rparr>) (db_episodes db) @
        [\<lparr>ep_episode_id = eid, ep_conversation_id = ?cid, ep_state = as_to inp, ep_effective_from = as_at inp,
          ep_effective_to = None, ep_entered_by = as_enteredBy inp, ep_reason = as_reason inp\<rparr>]"
      by (auto simp: advanceStateIn_def Let_def split: if_splits)
    have "stateIn c db' = (if c = ?cid then Some (as_to inp) else stateIn c db)" for c
    proof -
      have "stateIn c db' = stateIn c (db\<lparr>db_conversations := updateWhere ?hit ?f (db_conversations db)\<rparr>)" by (simp add: db')
      also have "\<dots> = Option.bind (findConversation c db) (\<lambda>x. if ?hit x then cr_state (?f x) else cr_state x)"
        by (rule stateIn_updateWhere) simp
      finally have e: "stateIn c db' = Option.bind (findConversation c db) (\<lambda>x. if ?hit x then cr_state (?f x) else cr_state x)" .
      have "cr_conversation_id x = c" if "findConversation c db = Some x" for x
        using that findConversation_mem[OF d] by blast
      then show ?thesis unfolding e using hit c0(2)
        by (cases "findConversation c db") (auto simp: stateIn_def)
    qed
    moreover have "openStates c db' = (if c = ?cid then [as_to inp] else openStates c db)" for c
      by (simp add: db' eps openStates_def filter_ended) (simp add: isOpenEpisode_def)
    moreover have "conversationIds db' = conversationIds db" by (simp add: db' conversationIds_updateWhere)
    ultimately show ?thesis by blast
  qed
qed

lemma historyAgrees_distinct: "historyAgrees db \<Longrightarrow> distinct (conversationIds db)"
  by (simp add: historyAgrees_def)

text \<open>What a unit of work may do to states and open episodes: nothing, or move one conversation.\<close>

definition oneMoved :: "CaseDb \<Rightarrow> CaseDb \<Rightarrow> bool" where
  "oneMoved db db' \<longleftrightarrow>
     db_conversations db' = db_conversations db \<and> db_episodes db' = db_episodes db \<or>
     distinct (conversationIds db') \<and>
     (\<exists>cid s. (\<forall>c. stateIn c db' = (if c = cid then Some s else stateIn c db)) \<and>
              (\<forall>c. openStates c db' = (if c = cid then [s] else openStates c db)))"

lemma oneMovedI:
  assumes "distinct (conversationIds db')" and "\<And>c. stateIn c db' = (if c = cid then Some s else stateIn c db)"
    and "\<And>c. openStates c db' = (if c = cid then [s] else openStates c db)"
  shows "oneMoved db db'"
  unfolding oneMoved_def
  by (rule disjI2, rule conjI[OF assms(1)], rule exI[of _ cid], rule exI[of _ s]) (use assms(2,3) in blast)

lemma oneMoved_refl: "oneMoved db db"
  by (simp add: oneMoved_def)

lemma oneMoved_history:
  assumes "oneMoved db db'"
  shows "historyAgrees db \<Longrightarrow> historyAgrees db'" and "historyNearly db \<Longrightarrow> historyNearly db'"
proof -
  consider (same) "db_conversations db' = db_conversations db" "db_episodes db' = db_episodes db"
    | (moved) cid s where "distinct (conversationIds db')"
      "\<And>c. stateIn c db' = (if c = cid then Some s else stateIn c db)"
      "\<And>c. openStates c db' = (if c = cid then [s] else openStates c db)"
    using assms unfolding oneMoved_def by blast
  note cases = this
  show "historyAgrees db'" if "historyAgrees db"
    using cases by cases (rule historyAgrees_same[OF that], assumption+, rule historyAgrees_shift[OF that])
  show "historyNearly db'" if "historyNearly db"
    using cases by cases (rule historyNearly_same[OF that], assumption+, rule historyNearly_shift[OF that])
qed

lemma oneMoved_audited: "oneMoved db db1 \<Longrightarrow> oneMoved db (recordLifecycle auditUp a db1)"
  unfolding recordLifecycle_def by (cases auditUp) (simp_all add: oneMoved_def)

lemma resolve_moves_one:
  assumes "resolveConversation auditUp eid rq ids db = Some (a, db')" and d: "distinct (conversationIds db)"
  shows "oneMoved db db'"
  using assms(1)
proof (cases rule: resolveConversation_cases)
  case (resolved words basis before k db0)
  have "oneMoved db db0"
    by (rule resolveCase_written[OF resolved(3) d], rule oneMovedI) (simp_all add: conversationIds_updateWhere d)
  then show ?thesis unfolding resolved(4) by (rule oneMoved_audited)
qed (simp_all add: oneMoved_refl)

lemma reopen_moves_one:
  assumes "reopenConversation auditUp eid rq ids db = Some (a, db')" and d: "distinct (conversationIds db)"
  shows "oneMoved db db'"
  using assms(1)
proof (cases rule: reopenConversation_cases)
  case (reopened words basis before k db0)
  have "oneMoved db db0"
    by (rule reopenCase_written[OF reopened(3) d], rule oneMovedI) (simp_all add: conversationIds_updateWhere d)
  then show ?thesis unfolding reopened(4) by (rule oneMoved_audited)
qed (simp_all add: oneMoved_refl)

lemma fork_moves_one:
  assumes "forkConversation ids c hd' t db = Some db'" and d: "distinct (conversationIds db)"
  shows "oneMoved db db'"
  using assms(1)
proof (rule forkConversation_written)
  fix ow eps
  assume new: "ni_conversation ids \<notin> set (conversationIds db)"
    and st: "\<And>c. stateIn c db' = (if c = ni_conversation ids then Some NEW else stateIn c db)"
    and op: "\<And>c. openStates c db' = (if c = ni_conversation ids then [NEW] else openStates c db)"
    and db': "db' = db\<lparr>db_conversations := db_conversations db @
       [forkedConversation (ni_conversation ids) hd' t (length (carriedOver c (ni_conversation ids) t db))],
     db_participants := db_participants db @ carriedOver c (ni_conversation ids) t db,
     cd_business_links := (if list_ex (\<lambda>l. bl_link_id l = ni_link ids) (cd_business_links db) then cd_business_links db
       else cd_business_links db @
         [\<lparr>bl_link_id = ni_link ids, bl_conversation_id = ni_conversation ids, bl_ref_system = ''LOCAL'',
           bl_ref_type = ''conversation'', bl_ref_id = c, bl_relation = ''CONTINUES'', bl_effective_from = t\<rparr>]),
     db_service_cases := updateWhere (\<lambda>sc. ph_case_id hd' = Some (sc_case_id sc))
       (\<lambda>sc. (unresolve sc)\<lparr>sc_current_owner_id := keptOwner hd'\<rparr>) (db_service_cases db),
     db_ownership_episodes := ow, db_episodes := eps\<rparr>"
  have "distinct (conversationIds db')" using new d by (simp add: db' forkedConversation_def)
  then show ?thesis using st op by (rule oneMovedI)
qed

lemma reply_moves_one:
  assumes "carryOut ids plan t db = Some (cid, db')" and d: "distinct (conversationIds db)"
  shows "oneMoved db db'"
proof (cases plan)
  case (STAY c)
  with assms show ?thesis by (simp add: carryOut_def oneMoved_refl)
next
  case (REVIVE c hd')
  with assms(1) have "reviveInPlace (ni_episode ids) c hd' t db = Some db'" by (auto simp: carryOut_def)
  from this d show ?thesis
  proof (cases rule: reviveInPlace_cases)
    case gone
    then show ?thesis by (simp add: oneMoved_refl)
  next
    case (revived ow eps)
    show ?thesis by (rule oneMovedI[OF _ revived(3,4)]) (simp add: revived(2) conversationIds_updateWhere d)
  qed
next
  case (FORK c hd')
  with assms(1) have "forkConversation ids c hd' t db = Some db'" by (auto simp: carryOut_def)
  then show ?thesis using d by (rule fork_moves_one)
qed

lemma advance_moves_one:
  assumes "advanceStateIn eid inp db = Some (moved, db')" and d: "distinct (conversationIds db)"
  shows "oneMoved db db'"
  using advance_facts[OF assms] d by (auto simp: oneMoved_refl intro: oneMovedI)

lemma closure_keeps_history:
  assumes "runClosure now window n newId db = (Some k, db')" and h: "historyAgrees db"
  shows "historyAgrees db'"
proof -
  note d = historyAgrees_distinct[OF h]
  note r = runClosure_complete[OF assms(1) d]
  have "conversationIds db' = conversationIds db" using r(3) by (auto simp: closeWindows_def conversationIds_updateWhere)
  then show ?thesis using h by (simp add: historyAgrees_def r(1,2) dueClosures_state)
qed

lemma case_step_history:
  assumes "case_step broken db db'"
  shows "historyNearly db \<Longrightarrow> historyNearly db'" and "\<not> broken \<Longrightarrow> historyAgrees db \<Longrightarrow> historyAgrees db'"
proof -
  show "historyNearly db'" if h: "historyNearly db"
  proof -
    note d = historyNearly_distinct[OF h]
    from assms show ?thesis
  proof (cases rule: case_step.cases)
    case (closes now window n newId outcome)
    from closes(2) h show ?thesis by (rule runClosure_nearly)
  next
    case (breaks now window n newId j ended)
    show ?thesis unfolding breaks(2) by (rule interruptedClosure_nearly[OF h])
  qed (rule oneMoved_history(2)[OF _ h], (rule resolve_moves_one[OF _ d] reopen_moves_one[OF _ d]
      reply_moves_one[OF _ d] advance_moves_one[OF _ d], assumption))+
  qed
  show "historyAgrees db'" if "\<not> broken" and h: "historyAgrees db"
  proof -
    note d = historyAgrees_distinct[OF h]
    from assms show ?thesis
  proof (cases rule: case_step.cases)
    case (closes now window n newId outcome)
    with \<open>\<not> broken\<close> obtain k where "runClosure now window n newId db = (Some k, db')" by auto
    then show ?thesis using h by (rule closure_keeps_history)
  next
    case (breaks now window n newId j ended)
    with \<open>\<not> broken\<close> show ?thesis by simp
  qed (rule oneMoved_history(1)[OF _ h], (rule resolve_moves_one[OF _ d] reopen_moves_one[OF _ d]
      reply_moves_one[OF _ d] advance_moves_one[OF _ d], assumption))+
  qed
qed

text \<open>
  C10: the history follows the state. Whatever lifecycle steps run, in whatever order, with whatever outcomes
  (resolutions, staff reopens, replies that carry out a plan made long ago, closures of reopen windows whole
  or stopped at any statement, the advances that messages and ownership cause), conversation ids stay unique,
  a conversation without a state has no open state episode, and one with a state has exactly one and it names
  that state, with a single exception: a closed conversation may still have its resolved episode open, or
  none. If no closure was stopped, there is no exception.
\<close>

theorem history_follows_the_state:
  assumes "(\<lambda>a b. \<exists>broken. case_step broken a b)\<^sup>*\<^sup>* db db'" and "historyAgrees db"
  shows "distinct (map cr_conversation_id (db_conversations db')) \<and>
    (\<forall>cid. case stateIn cid db' of
        None \<Rightarrow> openStates cid db' = []
      | Some s \<Rightarrow> openStates cid db' = [s] \<or> s = CLOSED \<and> openStates cid db' \<in> {[], [RESOLVED]}) \<and>
    ((case_step False)\<^sup>*\<^sup>* db db' \<longrightarrow>
       (\<forall>cid. openStates cid db' = (case stateIn cid db' of None \<Rightarrow> [] | Some s \<Rightarrow> [s])))"
proof -
  have "historyNearly db'"
    using assms(1)
    by (induction rule: rtranclp_induct)
       (use historyAgrees_nearly[OF assms(2)] case_step_history(1) in blast)+
  moreover have "historyAgrees db'" if "(case_step False)\<^sup>*\<^sup>* db db'"
    using that by (induction rule: rtranclp_induct) (use assms(2) case_step_history(2) in blast)+
  ultimately show ?thesis by (simp add: historyNearly_def mayLag_def historyAgrees_def)
qed

section \<open>One boundary\<close>

text \<open>
  C17: the closure and the reply draw the same boundary. At any instant, a reply to a resolved conversation
  forks exactly when the closure sweep with the same window would close it, and revives it in place
  otherwise: no instant falls between the two, and none to both.
\<close>

theorem closure_and_reply_share_the_boundary:
  assumes "replyHead (latestSuccessorOf requested db) who (toISOString now) db = Some h"
    and "ph_state h = Some RESOLVED" and "ph_resolved_at h = Some (toISOString r)"
    and "0 \<le> window" and "inEra (r div msPerDay)" and "inEra (now div msPerDay)"
    and "inEra ((now - window * 1000) div msPerDay)"
  shows "planReply requested who window (toISOString now) db =
    (if \<exists>c. findConversation (latestSuccessorOf requested db) db = Some c \<and>
          closable (closureCutoff now window) db c \<noteq> None
     then FORK (latestSuccessorOf requested db) h else REVIVE (latestSuccessorOf requested db) h)"
proof -
  let ?cid = "latestSuccessorOf requested db"
  obtain c where c: "findConversation ?cid db = Some c" "cr_state c = Some RESOLVED"
    "Option.bind (caseOf c db) sc_resolved_at = Some (toISOString r)"
    using assms(1-3) by (auto simp: replyHead_def Let_def split: option.splits if_splits)
  have "closable (closureCutoff now window) db c \<noteq> None \<longleftrightarrow> toISOString r \<le> closureCutoff now window"
    using c(2,3) by (cases "caseOf c db") (auto simp: closable_def)
  also have "\<dots> \<longleftrightarrow> r \<le> now - window * 1000"
    unfolding closureCutoff_def by (rule toISOString_order(2)[OF assms(5,7)])
  finally show ?thesis
    using assms(1-4) c(1) dateParse_toISOString[OF assms(5)] dateParse_toISOString[OF assms(6)]
    by (auto simp: planReply_def Let_def resolvedConversation_def decideReopen_def)
qed

section \<open>Resolution\<close>

lemma lifecycleGate_SomeE:
  assumes "lifecycleGate action target staff rq ids db = Some (words, basis, before, k)"
  obtains c where "parsedReason (lq_text rq) = Some words"
    and "lifecycleAuthorize (lq_principalId rq) (lq_conversationId rq) action (lq_at rq) ids db = Some basis"
    and "findConversation (lq_conversationId rq) db = Some c" and "cr_state c = Some before" and "cr_case_id c = Some k"
    and "\<exists>r. transition \<lparr>rq_from = before, rq_to = target, rq_actor = lifecycleActorFor basis,
           rq_reason = Some words, rq_staffInitiated = staff\<rparr> = Inr r"
  using assms by (auto simp: lifecycleGate_def caseHead_def elim!: bind_SomeE split: if_splits sum.splits)

lemma resolveCase_rows:
  assumes "resolveCase eid inp db = Some (WRITTEN, db')" and "distinct (conversationIds db)"
  shows "db_service_cases db' = updateWhere (caseOfConversation (rz_conversationId inp) db)
      (\<lambda>sc. sc\<lparr>sc_state := RESOLVED, sc_resolved_at := Some (rz_at inp), sc_outcome_code := Some (rz_outcome inp)\<rparr>) (db_service_cases db)"
    and "db_reservations db' = updateWhere (isHoldOf (rz_conversationId inp)) (\<lambda>r. r\<lparr>rs_released_at := Some (rz_at inp)\<rparr>) (db_reservations db)"
    and "db_outbox db' = db_outbox db @ [resolvedEvent inp]" and "cd_audited db' = cd_audited db"
    and "stateIn (rz_conversationId inp) db = Some (rz_from inp)" and "stateIn (rz_conversationId inp) db' = Some RESOLVED"
  by (rule resolveCase_written[OF assms], simp)+

text \<open>
  C12: a resolution is permitted and complete. When the resolve command answers that it resolved,
  the actor was allowed to resolve that conversation, the transition table permits the move from the state it
  was in, and in one unit of work the conversation and its case are resolved with the given outcome, every
  hold on its owner's capacity is released and the event is in the outbox. The audit ledger gets one row that
  names the actor, the basis and the state before when the audit write, which follows the unit of work, goes
  through, and none when it fails: the command then answers the same.
\<close>

theorem resolution_is_permitted_and_complete:
  assumes "resolveConversation auditUp eid rq ids db = Some (LA_RESOLVED before, db')"
    and "distinct (conversationIds db)"
  shows "\<exists>basis words k r.
    lifecycleAuthorize (lq_principalId rq) (lq_conversationId rq) ''conversation.resolve'' (lq_at rq) ids db = Some basis \<and>
    transition \<lparr>rq_from = before, rq_to = RESOLVED, rq_actor = lifecycleActorFor basis, rq_reason = Some words,
      rq_staffInitiated = None\<rparr> = Inr r \<and>
    stateIn (lq_conversationId rq) db = Some before \<and> stateIn (lq_conversationId rq) db' = Some RESOLVED \<and>
    list_all (\<lambda>sc. sc_case_id sc = k \<longrightarrow> sc_state sc = RESOLVED \<and> sc_resolved_at sc = Some (lq_at rq) \<and>
      sc_outcome_code sc = Some words) (db_service_cases db') \<and>
    (\<exists>c. findConversation (lq_conversationId rq) db = Some c \<and> cr_case_id c = Some k) \<and>
    list_all (\<lambda>h. \<not> isHoldOf (lq_conversationId rq) h) (db_reservations db') \<and>
    db_outbox db' = db_outbox db @
      [resolvedEvent \<lparr>rz_conversationId = lq_conversationId rq, rz_from = before, rz_resolvedBy = lq_principalId rq,
         rz_outcome = words, rz_at = lq_at rq, rz_caseId = k, rz_correlationId = lq_correlationId rq\<rparr>] \<and>
    cd_audited db' = cd_audited db @ (if auditUp then [auditRow ''conversation.resolve'' rq words before basis] else [])"
  using assms(1)
proof (cases rule: resolveConversation_cases)
  case (resolved words basis before' k db1)
  let ?cid = "lq_conversationId rq"
  let ?inp = "\<lparr>rz_conversationId = ?cid, rz_from = before', rz_resolvedBy = lq_principalId rq,
    rz_outcome = words, rz_at = lq_at rq, rz_caseId = k, rz_correlationId = lq_correlationId rq\<rparr>"
  have b: "before' = before" using resolved(1) by simp
  from resolved(2) obtain c r where gate: "lifecycleAuthorize (lq_principalId rq) ?cid ''conversation.resolve'' (lq_at rq) ids db = Some basis"
    "findConversation ?cid db = Some c" "cr_case_id c = Some k"
    "transition \<lparr>rq_from = before, rq_to = RESOLVED, rq_actor = lifecycleActorFor basis, rq_reason = Some words,
      rq_staffInitiated = None\<rparr> = Inr r"
    unfolding b by (rule lifecycleGate_SomeE) blast
  note rows = resolveCase_rows[OF resolved(3)[unfolded b] assms(2), simplified]
  have "list_all (\<lambda>h. \<not> isHoldOf ?cid h) (db_reservations db')"
    by (auto simp: resolved(4) recordLifecycle_def rows list_all_iff updateWhere_def isHoldOf_def)
  moreover have "list_all (\<lambda>sc. sc_case_id sc = k \<longrightarrow> sc_state sc = RESOLVED \<and> sc_resolved_at sc = Some (lq_at rq) \<and>
      sc_outcome_code sc = Some words) (db_service_cases db')"
  proof -
    have "c \<in> set (db_conversations db) \<and> cr_conversation_id c = ?cid"
      using gate(2) findConversation_mem[OF assms(2)] by blast
    with gate(3) show ?thesis
      by (auto simp: resolved(4) recordLifecycle_def rows list_all_iff updateWhere_def caseOfConversation_def list_ex_iff)
  qed
  ultimately show ?thesis using gate rows(5,6)
    by - (rule exI[of _ basis], rule exI[of _ words], rule exI[of _ k], rule exI[of _ r],
        simp add: resolved(4)[unfolded b] recordLifecycle_def rows(3,4))
qed simp_all

section \<open>A reply\<close>

definition livesIn :: "UUID \<Rightarrow> UUID \<Rightarrow> Timestamp \<Rightarrow> 'x Db_scheme \<Rightarrow> bool" where
  "livesIn cid who t db \<longleftrightarrow> list_ex (\<lambda>p. pa_conversation_id p = cid \<and> pa_principal_id p = who \<and>
     isWithinPeriod t (pa_effective_from p) (pa_effective_to p)) (db_participants db)"

lemma replyHead_SomeE:
  assumes "replyHead cid who t db = Some h"
  obtains c where "findConversation cid db = Some c" and "livesIn cid who t db" and "ph_state h = cr_state c"
    and "ph_case_id h = cr_case_id c" and "stateIn cid db = ph_state h"
  using assms by (auto simp: replyHead_def livesIn_def Let_def stateIn_def split: option.splits if_splits)

lemma livesIn_carriedOver:
  assumes "livesIn cid who t db" and "db_participants db' = db_participants db @ carriedOver cid new t db"
  shows "livesIn new who t db'"
proof -
  from assms(1) obtain p where p: "p \<in> set (db_participants db)" "pa_conversation_id p = cid" "pa_principal_id p = who"
    "isWithinPeriod t (pa_effective_from p) (pa_effective_to p)" by (auto simp: livesIn_def list_ex_iff)
  then have "p\<lparr>pa_conversation_id := new, pa_effective_from := t, pa_effective_to := None, pa_archived_at := None\<rparr>
      \<in> set (carriedOver cid new t db)" unfolding carriedOver_def by force
  then show ?thesis unfolding livesIn_def list_ex_iff assms(2)
    by (intro bexI) (auto simp: p isWithinPeriod_def)
qed

lemma forkConversation_rows:
  assumes "forkConversation ids previous h t db = Some db'"
  shows "findConversation (ni_conversation ids) db' =
      Some (forkedConversation (ni_conversation ids) h t (length (carriedOver previous (ni_conversation ids) t db)))"
    and "db_participants db' = db_participants db @ carriedOver previous (ni_conversation ids) t db"
    and "stateIn (ni_conversation ids) db' = Some NEW"
proof -
  show "db_participants db' = db_participants db @ carriedOver previous (ni_conversation ids) t db"
    by (rule forkConversation_written[OF assms]) simp
  show "stateIn (ni_conversation ids) db' = Some NEW" by (rule forkConversation_written[OF assms]) simp
  have "find (\<lambda>c. cr_conversation_id c = new) (cs @ [c]) = Some c" if "new \<notin> cr_conversation_id ` set cs" "cr_conversation_id c = new"
    for new c and cs :: "ConversationRow list" using that by (induction cs) auto
  then show "findConversation (ni_conversation ids) db' =
      Some (forkedConversation (ni_conversation ids) h t (length (carriedOver previous (ni_conversation ids) t db)))"
    by - (rule forkConversation_written[OF assms], simp add: findConversation_def forkedConversation_def)
qed

text \<open>
  C11: a reply that meets nothing else lands in an open conversation of the same case. When conversation ids
  are unique, the customer takes part, at that instant, in the latest conversation of the exchange they reply
  to, a conversation that is resolved or closed has a resolution instant on its case, and the reply is read
  and carried out with nothing in between, the conversation it is sent to is neither resolved nor closed, the
  customer takes part in it at that instant, and it belongs to the same case. Without the last condition it
  may be closed: the revival that loses to the closure, below.
\<close>

theorem reply_lands_in_an_open_conversation:
  assumes "reopenOnReply ids requested who window t db = Some (target, db')"
    and "replyHead (latestSuccessorOf requested db) who t db = Some h"
    and "ph_state h \<in> {Some RESOLVED, Some CLOSED} \<Longrightarrow> ph_resolved_at h \<noteq> None"
    and "distinct (conversationIds db)"
  shows "stateIn target db' \<notin> {Some RESOLVED, Some CLOSED} \<and> livesIn target who t db' \<and>
    map_option cr_case_id (findConversation target db') =
      map_option cr_case_id (findConversation (latestSuccessorOf requested db) db)"
proof -
  let ?cid = "latestSuccessorOf requested db"
  obtain c where c: "findConversation ?cid db = Some c" "livesIn ?cid who t db" "ph_state h = cr_state c"
    "ph_case_id h = cr_case_id c" "stateIn ?cid db = ph_state h" using assms(2) by (rule replyHead_SomeE)
  have plan: "planReply requested who window t db \<in> {REVIVE ?cid h, FORK ?cid h} \<and>
      (planReply requested who window t db = REVIVE ?cid h \<longrightarrow> ph_state h = Some RESOLVED)"
    if "ph_state h \<in> {Some RESOLVED, Some CLOSED}"
    using assms(2,3) that
    by (auto simp: planReply_def Let_def decideReopen_def resolvedConversation_def split: option.splits)
  have run: "carryOut ids (planReply requested who window t db) t db = Some (target, db')"
    using assms(1) by (simp add: reopenOnReply_def)
  show ?thesis
  proof (cases "ph_state h \<in> {Some RESOLVED, Some CLOSED}")
    case False
    then have "planReply requested who window t db = STAY ?cid" using assms(2) by (simp add: planReply_def Let_def)
    then have "target = ?cid" "db' = db" using run by (auto simp: carryOut_def)
    then show ?thesis using False c(2,5) by simp
  next
    case True
    from plan[OF True] consider "planReply requested who window t db = REVIVE ?cid h" "ph_state h = Some RESOLVED"
      | "planReply requested who window t db = FORK ?cid h" by blast
    then show ?thesis
    proof cases
      case 1
      then have t: "target = ?cid" and "reviveInPlace (ni_episode ids) ?cid h t db = Some db'"
        using run by (auto simp: carryOut_def)
      from this(2) assms(4) show ?thesis
      proof (cases rule: reviveInPlace_cases)
        case gone
        then show ?thesis using 1 c(5) by simp
      next
        case (revived ow eps)
        have "findConversation ?cid db' = Some (if standsIn ?cid RESOLVED c then c\<lparr>cr_state := Some ACTIVE, cr_last_activity_at := t\<rparr> else c)"
          using c(1) by (simp add: revived(2) findConversation_def find_updateWhere)
        then show ?thesis using revived(3)[of ?cid] c(1,2) by (simp add: t revived(2) livesIn_def)
      qed
    next
      case 2
      then have t: "target = ni_conversation ids" and "forkConversation ids ?cid h t db = Some db'"
        using run by (auto simp: carryOut_def)
      from forkConversation_rows[OF this(2)] show ?thesis
        using c(1,4) livesIn_carriedOver[OF c(2)] by (simp add: t forkedConversation_def)
    qed
  qed
qed

section \<open>A reply that meets something else\<close>

definition freshIds :: "NewIds \<Rightarrow> CaseDb \<Rightarrow> bool" where
  "freshIds ids db \<longleftrightarrow> ni_conversation ids \<notin> set (conversationIds db) \<and>
     list_all (\<lambda>e. ep_conversation_id e \<noteq> ni_conversation ids) (db_episodes db)"

lemma endOwnership_none_live:
  assumes "\<not> list_ex (isLiveOf cid) (db_ownership_episodes db)"
  shows "endOwnership cid t db = Some db"
proof -
  have "updateWhere (isLiveOf cid) f es = es" if "\<not> list_ex (isLiveOf cid) es" for f es
    using that by (induction es) (auto simp: updateWhere_def)
  with assms show ?thesis by (auto simp: endOwnership_def list_ex_iff)
qed

lemma endOwnership_none_left:
  assumes "endOwnership cid t db = Some db'"
  shows "\<not> list_ex (isLiveOf cid) (db_ownership_episodes db')"
proof -
  have "\<not> list_ex (isLiveOf cid) (updateWhere (isLiveOf cid) (\<lambda>e. e\<lparr>ow_effective_to := Some t\<rparr>) es)" for es
    by (induction es) (auto simp: updateWhere_def isLiveOf_def)
  then show ?thesis using assms by (auto simp: endOwnership_def split: if_splits)
qed

lemma forked_leaves_no_owner:
  assumes "forkConversation ids cid h t db = Some db'"
  shows "\<not> list_ex (isLiveOf cid) (db_ownership_episodes db')"
proof -
  from assms obtain db1 db2 where o: "endOwnership cid t db1 = Some db2"
    and b: "beginEpisode (ni_episode ids) (ni_conversation ids) NEW t
      ''continues a conversation whose reopen window had passed'' None db2 = Some db'"
    by (auto simp: forkConversation_def Let_def elim!: bind_SomeE split: if_splits)
  then show ?thesis using endOwnership_none_left[OF o] beginEpisode_facts(1)[OF b] by auto
qed

lemma fork_succeeds:
  assumes "freshIds ids db" and "\<not> list_ex (isLiveOf cid) (db_ownership_episodes db)"
  shows "\<exists>db'. forkConversation ids cid h t db = Some db'"
proof -
  have n: "findConversation (ni_conversation ids) db = None"
    using assms(1) by (force simp: freshIds_def findConversation_def find_None_iff)
  have "episodeFree (ni_conversation ids) t (db_episodes db)"
    using assms(1) by (auto simp: freshIds_def episodeFree_def list_all_iff)
  then show ?thesis using n assms(2)
    by (simp add: forkConversation_def Let_def endOwnership_none_live workAgain_def beginEpisode_def)
qed

text \<open>
  C18: two replies fork twice. When two replies have both read the exchange before either writes (two
  messages typed in quick succession, or one request retried), and the first forks, nothing stops the
  second: with identifiers of its own it opens a second new conversation on the same case.
\<close>

theorem concurrent_replies_fork_twice:
  assumes "planReply requested who window t1 db = FORK cid h" and "planReply requested who window t2 db = FORK cid h"
    and "carryOut ids1 (FORK cid h) t1 db = Some (new1, db1)" and "freshIds ids2 db1"
  shows "\<exists>db2. carryOut ids2 (FORK cid h) t2 db1 = Some (ni_conversation ids2, db2) \<and>
    ni_conversation ids2 \<noteq> new1 \<and> stateIn new1 db2 = Some NEW \<and> stateIn (ni_conversation ids2) db2 = Some NEW \<and>
    map_option cr_case_id (findConversation (ni_conversation ids2) db2) = map_option cr_case_id (findConversation new1 db1)"
proof -
  have f: "forkConversation ids1 cid h t1 db = Some db1" and n: "new1 = ni_conversation ids1"
    using assms(3) by (auto simp: carryOut_def)
  from fork_succeeds[OF assms(4) forked_leaves_no_owner[OF f]] obtain db2 where
    g: "forkConversation ids2 cid h t2 db1 = Some db2" by blast
  have "findConversation new1 db1 \<noteq> None" using forkConversation_rows(1)[OF f] by (simp add: n)
  then have ne: "ni_conversation ids2 \<noteq> new1"
    using assms(4) by (auto simp: freshIds_def findConversation_def find_Some_iff)
  have "stateIn new1 db2 = stateIn new1 db1"
    by (rule forkConversation_written[OF g]) (use ne in simp)
  then show ?thesis
    using g ne forkConversation_rows(1,3)[OF f] forkConversation_rows(1,3)[OF g]
    by (simp add: carryOut_def n forkedConversation_def)
qed

text \<open>
  C20: a revival that loses to the closure still answers the closed conversation. When the closure sweep
  closes the conversation between the reply's reading and its writing, the revival changes nothing and the
  conversation to send to is the closed one; nobody forks it.
\<close>

theorem revival_lost_to_the_closure:
  assumes "planReply requested who window t db = REVIVE cid h"
    and "runClosure now window' n newId db = (Some k, db1)"
    and "cid \<in> set (dueClosures n (closureCutoff now window') db)" and "distinct (conversationIds db)"
  shows "carryOut ids (planReply requested who window t db) t db1 = Some (cid, db1) \<and> stateIn cid db1 = Some CLOSED"
proof -
  note r = runClosure_complete[OF assms(2,4)]
  have s: "stateIn cid db1 = Some CLOSED" using r(1)[of cid] assms(3) by simp
  have "distinct (conversationIds db1)"
    using r(3) assms(4) by (auto simp: closeWindows_def conversationIds_updateWhere)
  then have "moveConversation cid RESOLVED f db1 = None" for f
    using someStands_iff[of db1 cid RESOLVED] s by (simp add: moveConversation_def)
  then show ?thesis using s by (simp add: assms(1) carryOut_def reviveInPlace_def)
qed

text \<open>
  a reply from a clock that is behind is planned and then thrown away. A reply whose instant is not after
  the start of the conversation's open episode (its resolution) is decided as a reopening, as the decision's
  forgiving reading of a skewed clock intends, but the unit of work that carries it out throws.
\<close>

theorem skewed_reply_is_thrown_away:
  assumes "planReply requested who window t db = REVIVE cid h" and "stateIn cid db = Some RESOLVED"
    and "distinct (conversationIds db)"
    and "find (isOpenEpisode cid) (db_episodes db) = Some e" and "t \<le> ep_effective_from e"
  shows "reopenOnReply ids requested who window t db = None"
proof -
  from assms(4) have e: "e \<in> set (db_episodes db)" "isOpenEpisode cid e" by (auto simp: find_Some_iff)
  have none: "closeAndOpenEpisode eid cid ACTIVE t why by' db2 = None" if "db_episodes db2 = db_episodes db" for eid why by' db2
    using e assms(5) that by (auto simp: closeAndOpenEpisode_def endEpisode_def list_ex_iff isOpenEpisode_def)
  have same: "db_episodes db2 = db_episodes db" if "endOwnership c u (workAgain h x) = Some db2" "db_episodes x = db_episodes db" for c u x db2
    using endOwnership_form[OF that(1)] that(2) by (auto simp: workAgain_def)
  obtain db1 where m: "moveConversation cid RESOLVED (\<lambda>c. c\<lparr>cr_state := Some ACTIVE, cr_last_activity_at := t\<rparr>) db = Some db1"
    "db_episodes db1 = db_episodes db"
    using someStands_iff[OF assms(3)] assms(2) by (auto simp: moveConversation_def)
  have "reviveInPlace eid cid h t db = None" for eid
    using m none same[of cid t db1] by (cases "endOwnership cid t (workAgain h db1)")
      (auto simp: reviveInPlace_def workAgain_def none)
  then show ?thesis by (simp add: reopenOnReply_def assms(1) carryOut_def)
qed

text \<open>
  C19: a reply that is refused still reopens. A message of white space passes the request's own check and is
  refused by the send, after the reopening has been committed: the answer is the refusal, and what the
  reopening wrote stays.
\<close>

theorem refused_reply_still_reopens:
  assumes "reopenOnReply ids (cy_conversationId rq) (cy_principalId rq) window t db = Some (target, db1)"
    and "replyParses rq" and "loadIfParticipant (cy_conversationId rq) (cy_principalId rq) t db \<noteq> None"
    and "trim (cy_message rq) = []"
  shows "customerReply ids window t sentAt eid newId rq db = (CR_REFUSED, db1)"
proof -
  have "sendPrecheck None (replyCommand rq target) = Some EMPTY_BODY"
    using assms(4) by (simp add: sendPrecheck_def replyCommand_def)
  then show ?thesis using assms(1-3) by (auto simp: customerReply_def sendMessage_def)
qed

text \<open>
  who takes no part changes nothing. A reply from anyone who is not a live participant of the conversation
  they name is refused, and the database is as it was.
\<close>

theorem stranger_reply_changes_nothing:
  assumes "\<not> livesIn (cy_conversationId rq) (cy_principalId rq) t db"
  shows "customerReply ids window t sentAt eid newId rq db = (CR_REFUSED, db)"
  using assms by (simp add: customerReply_def loadIfParticipant_def livesIn_def split: option.split)

text \<open>
  The lifecycle at work: a customer's conversation resolved by its owner on a Thursday, with a reopen window of
  seven days, on which the properties apply.
\<close>

section \<open>A resolved case\<close>

definition solvedDb :: CaseDb where
  "solvedDb =
     \<lparr>db_conversations =
        [\<lparr>cr_conversation_id = ''c1'', cr_conversation_type = CUSTOMER_SERVICE, cr_state = Some RESOLVED,
          cr_case_id = Some ''k1'', cr_sensitivity = GRIEVANCE, cr_last_seq = 0, cr_customer_ref = None,
          cr_last_activity_at = ''2026-08-20T09:00:00.000Z'', cr_last_message_preview = [],
          cr_participant_count = 1\<rparr>],
      db_service_cases =
        [\<lparr>sc_case_id = ''k1'', sc_owning_team_id = Some ''support'', sc_current_owner_id = Some ''emp-1'',
          sc_designated_employee_id = None, sc_escalation_level = 0, sc_state = RESOLVED,
          sc_resolved_at = Some ''2026-08-20T10:00:00.000Z'', sc_outcome_code = Some ''paid'', sc_reopen_count = 0\<rparr>],
      db_teams = [\<lparr>te_team_id = ''support'', te_department = Some ''service''\<rparr>],
      db_departments = [], db_team_memberships = [],
      db_participants =
        [\<lparr>pa_conversation_id = ''c1'', pa_principal_id = ''cust-1'', pa_principal_kind = K_CUSTOMER,
          pa_role = ''PARTICIPANT'', pa_reply_authority = True, pa_effective_from = ''2026-08-01T00:00:00.000Z'',
          pa_effective_to = None, pa_archived_at = None, pa_added_by = None\<rparr>],
      db_channels = [], db_channel_audience = [], db_messages = [], db_revisions = [], db_attachments = [],
      db_episodes =
        [\<lparr>ep_episode_id = ''ep-1'', ep_conversation_id = ''c1'', ep_state = RESOLVED,
          ep_effective_from = ''2026-08-20T10:00:00.000Z'', ep_effective_to = None, ep_entered_by = Some ''emp-1'',
          ep_reason = Some ''paid''\<rparr>],
      db_outbox = [], db_queue_entries = [],
      db_ownership_episodes = [],
      db_access_grants = [], db_reservations = [], db_capacity_policies = [], db_idempotency_records = [],
      db_ledger = [], cd_business_links = [], cd_principal_status = [(''emp-1'', P_ACTIVE)], cd_audited = []\<rparr>"

abbreviation week :: int where "week \<equiv> 604800"

abbreviation thursday :: int where "thursday \<equiv> 1787824800000"

lemma solved_distinct: "distinct (conversationIds solvedDb)"
  by (simp add: solvedDb_def)

lemma solved_history: "historyAgrees solvedDb"
  by (auto simp: historyAgrees_def openStates_def isOpenEpisode_def stateIn_def findConversation_def solvedDb_def)

lemma thursday_text: "toISOString thursday = ''2026-08-27T10:00:00.000Z''"
  by code_simp

section \<open>The closure\<close>

definition closureRun :: "nat option \<times> CaseDb" where
  "closureRun = runClosure thursday week 10 (\<lambda>c. ''e9'') solvedDb"

lemma closureRun_value: "fst closureRun = Some 1"
  by code_simp

lemma closureRun_pair: "runClosure thursday week 10 (\<lambda>c. ''e9'') solvedDb = (Some 1, snd closureRun)"
  using closureRun_value by (simp add: closureRun_def prod_eq_iff)

text \<open>The same closure, stopped after its first statement.\<close>

definition stoppedDb :: CaseDb where
  "stoppedDb = interruptedClosure thursday week 10 (\<lambda>c. ''e9'') 0 False solvedDb"

theorem history_follows_the_state_witness:
  "openStates ''c1'' (snd closureRun) = [CLOSED] \<and> openStates ''c1'' stoppedDb \<in> {[CLOSED], [], [RESOLVED]} \<and>
   openStates ''c1'' stoppedDb = [RESOLVED]"
proof -
  have s: "case_step False solvedDb (snd closureRun)" using case_step.closes[OF closureRun_pair] by simp
  have c: "stateIn ''c1'' (snd closureRun) = Some CLOSED" by code_simp
  have b: "case_step True solvedDb stoppedDb" unfolding stoppedDb_def by (rule case_step.breaks)
  have t: "stateIn ''c1'' stoppedDb = Some CLOSED" "openStates ''c1'' stoppedDb = [RESOLVED]" by code_simp+
  have "(\<lambda>a b. \<exists>broken. case_step broken a b)\<^sup>*\<^sup>* solvedDb (snd closureRun)" "(case_step False)\<^sup>*\<^sup>* solvedDb (snd closureRun)"
    "(\<lambda>a b. \<exists>broken. case_step broken a b)\<^sup>*\<^sup>* solvedDb stoppedDb"
    using s b by (blast intro: r_into_rtranclp)+
  with history_follows_the_state[OF _ solved_history] have
    "\<forall>cid. openStates cid (snd closureRun) = (case stateIn cid (snd closureRun) of None \<Rightarrow> [] | Some s \<Rightarrow> [s])"
    "\<forall>cid. case stateIn cid stoppedDb of None \<Rightarrow> openStates cid stoppedDb = []
      | Some s \<Rightarrow> openStates cid stoppedDb = [s] \<or> s = CLOSED \<and> openStates cid stoppedDb \<in> {[], [RESOLVED]}" by blast+
  from this(1)[rule_format, of "''c1''"] this(2)[rule_format, of "''c1''"] show ?thesis by (auto simp: c t)
qed

text \<open>A conversation closed without its episode is never looked at again: only resolved ones are due.\<close>

lemma stopped_is_never_due: "dueClosures n cutoff stoppedDb = []"
proof -
  have "map cr_state (db_conversations stoppedDb) = [Some CLOSED]" by code_simp
  then show ?thesis by (auto simp: dueClosures_def closable_def List.map_filter_def filter_empty_conv)
qed

definition solvedHead :: ReplyHead where
  "solvedHead =
     \<lparr>ph_state = Some RESOLVED, ph_case_id = Some ''k1'', ph_customer_ref = None,
      ph_resolved_at = Some ''2026-08-20T10:00:00.000Z'', ph_current_owner_id = Some ''emp-1'',
      ph_owner_status = Some P_ACTIVE\<rparr>"

lemma solved_latest: "latestSuccessorOf ''c1'' solvedDb = ''c1''"
  by code_simp

lemma solved_head:
  "replyHead ''c1'' ''cust-1'' ''2026-08-27T10:00:00.000Z'' solvedDb = Some solvedHead"
  "replyHead ''c1'' ''cust-1'' ''2026-08-28T09:00:00.000Z'' solvedDb = Some solvedHead"
  by code_simp+

theorem closure_and_reply_share_the_boundary_witness:
  "planReply ''c1'' ''cust-1'' week (toISOString thursday) solvedDb = FORK ''c1'' solvedHead"
proof -
  have h: "replyHead (latestSuccessorOf ''c1'' solvedDb) ''cust-1'' (toISOString thursday) solvedDb = Some solvedHead"
    by (simp only: solved_latest thursday_text solved_head)
  have t: "toISOString (thursday - week * 1000) = ''2026-08-20T10:00:00.000Z''" by code_simp
  have r: "ph_resolved_at solvedHead = Some (toISOString (thursday - week * 1000))"
    unfolding t by (simp add: solvedHead_def)
  have "inEra ((thursday - week * 1000) div msPerDay)" "inEra (thursday div msPerDay)" by code_simp+
  moreover have "(case findConversation ''c1'' solvedDb of None \<Rightarrow> False
      | Some c \<Rightarrow> closable (closureCutoff thursday week) solvedDb c \<noteq> None)" by code_simp
  then have "\<exists>c. findConversation ''c1'' solvedDb = Some c \<and> closable (closureCutoff thursday week) solvedDb c \<noteq> None"
    by (auto split: option.splits)
  ultimately show ?thesis
    using closure_and_reply_share_the_boundary[OF h _ r, of week] by (simp add: solvedHead_def solved_latest)
qed

section \<open>A resolution\<close>

definition staffIds :: IdentityDb where
  "staffIds =
     \<lparr>id_principals = [\<lparr>pr_principal_id = ''emp-1'', pr_kind = K_EMPLOYEE, pr_employee_id = Some ''E1'',
         pr_username = None, pr_display_name = ''Asha'', pr_status = P_ACTIVE, pr_department = Some ''service'',
         pr_manager_id = None, pr_session_version = 1, pr_credential_hash = None\<rparr>],
      id_teams = [], id_memberships = [], id_role_assignments = [], id_delegations = []\<rparr>"

definition workedDb :: CaseDb where
  "workedDb = solvedDb
     \<lparr>db_conversations := map (\<lambda>c. c\<lparr>cr_state := Some ACTIVE\<rparr>) (db_conversations solvedDb),
      db_service_cases := map (\<lambda>c. c\<lparr>sc_state := ACTIVE, sc_resolved_at := None, sc_outcome_code := None\<rparr>)
        (db_service_cases solvedDb),
      db_episodes := map (\<lambda>e. e\<lparr>ep_state := ACTIVE\<rparr>) (db_episodes solvedDb)\<rparr>"

definition solvedRequest :: LifecycleRequest where
  "solvedRequest =
     \<lparr>lq_principalId = ''emp-1'', lq_conversationId = ''c1'', lq_text = ''settled '', lq_at = ''2026-08-21T10:00:00.000Z'',
      lq_correlationId = ''corr''\<rparr>"

definition resolveRun :: "(LifecycleAnswer \<times> CaseDb) option" where
  "resolveRun = resolveConversation True ''e5'' solvedRequest staffIds workedDb"

theorem resolution_is_permitted_and_complete_witness:
  "stateIn ''c1'' (snd (the resolveRun)) = Some RESOLVED \<and> length (cd_audited (snd (the resolveRun))) = 1"
proof -
  have "(case resolveRun of Some (LA_RESOLVED before, db) \<Rightarrow> before = ACTIVE | _ \<Rightarrow> False)" by code_simp
  then obtain db where run: "resolveRun = Some (LA_RESOLVED ACTIVE, db)"
    by (auto split: option.splits prod.splits LifecycleAnswer.splits)
  have "distinct (conversationIds workedDb)" by (simp add: workedDb_def solvedDb_def)
  from resolution_is_permitted_and_complete[OF run[unfolded resolveRun_def] this]
  have "stateIn ''c1'' db = Some RESOLVED" "\<exists>a. cd_audited db = cd_audited workedDb @ [a]"
    by (auto simp: solvedRequest_def)
  then show ?thesis by (auto simp: run workedDb_def solvedDb_def)
qed

section \<open>A late reply\<close>

definition forkIds :: NewIds where
  "forkIds = \<lparr>ni_conversation = ''c2'', ni_link = ''l2'', ni_episode = ''e2''\<rparr>"

definition againIds :: NewIds where
  "againIds = \<lparr>ni_conversation = ''c3'', ni_link = ''l3'', ni_episode = ''e3''\<rparr>"

lemma late_plan:
  "planReply ''c1'' ''cust-1'' week ''2026-08-28T09:00:00.000Z'' solvedDb = FORK ''c1'' solvedHead"
  "planReply ''c1'' ''cust-1'' week ''2026-08-27T10:00:00.000Z'' solvedDb = FORK ''c1'' solvedHead"
  by code_simp+

definition forkedDb :: CaseDb where
  "forkedDb = the (forkConversation forkIds ''c1'' solvedHead ''2026-08-27T10:00:00.000Z'' solvedDb)"

lemma forked: "forkConversation forkIds ''c1'' solvedHead ''2026-08-27T10:00:00.000Z'' solvedDb = Some forkedDb"
proof -
  have "freshIds forkIds solvedDb" "\<not> list_ex (isLiveOf ''c1'') (db_ownership_episodes solvedDb)" by code_simp+
  from fork_succeeds[OF this] show ?thesis unfolding forkedDb_def by (metis option.sel)
qed

lemma carried: "carryOut forkIds (FORK ''c1'' solvedHead) ''2026-08-27T10:00:00.000Z'' solvedDb = Some (''c2'', forkedDb)"
  by (simp add: carryOut_def forked) (simp add: forkIds_def)

theorem reply_lands_in_an_open_conversation_witness:
  "stateIn ''c2'' forkedDb \<notin> {Some RESOLVED, Some CLOSED} \<and> livesIn ''c2'' ''cust-1'' ''2026-08-27T10:00:00.000Z'' forkedDb"
proof -
  have run: "reopenOnReply forkIds ''c1'' ''cust-1'' week ''2026-08-27T10:00:00.000Z'' solvedDb = Some (''c2'', forkedDb)"
    by (simp add: reopenOnReply_def late_plan carried)
  have h: "replyHead (latestSuccessorOf ''c1'' solvedDb) ''cust-1'' ''2026-08-27T10:00:00.000Z'' solvedDb = Some solvedHead"
    by (simp only: solved_latest solved_head)
  from reply_lands_in_an_open_conversation[OF run h _ solved_distinct] show ?thesis
    by (simp add: solvedHead_def)
qed

theorem concurrent_replies_fork_twice_witness:
  "\<exists>db2. carryOut againIds (FORK ''c1'' solvedHead) ''2026-08-28T09:00:00.000Z'' forkedDb = Some (''c3'', db2) \<and>
     stateIn ''c2'' db2 = Some NEW \<and> stateIn ''c3'' db2 = Some NEW"
proof -
  have "freshIds againIds forkedDb" by code_simp
  from concurrent_replies_fork_twice[OF late_plan(2,1) carried this] show ?thesis by (auto simp: againIds_def)
qed

text \<open>
  The continuation of a grievance is stored as ordinary: a colleague whom the class kept out of the old
  conversation may read the new one.
\<close>

lemma continuation_opens_to_others:
  "map_option (\<lambda>r. allow (decide (ask (claimsReader\<lparr>a_principalId := ''emp-9''\<rparr>) ''conversation.read'' r)))
     (loadForAuthorization ''c1'' ''emp-9'' ''2026-08-27T10:00:00.000Z'' solvedDb) = Some False"
  "map_option (\<lambda>r. allow (decide (ask (claimsReader\<lparr>a_principalId := ''emp-9''\<rparr>) ''conversation.read'' r)))
     (loadForAuthorization ''c2'' ''emp-9'' ''2026-08-27T10:00:00.000Z'' forkedDb) = Some True"
  by code_simp+

section \<open>A reply in time\<close>

lemma timely_plan:
  "planReply ''c1'' ''cust-1'' week ''2026-08-27T09:59:59.900Z'' solvedDb = REVIVE ''c1'' solvedHead"
  "planReply ''c1'' ''cust-1'' week ''2026-08-20T09:59:59.000Z'' solvedDb = REVIVE ''c1'' solvedHead"
  by code_simp+

definition thanks :: "string \<Rightarrow> CustomerReply" where
  "thanks words =
     \<lparr>cy_conversationId = ''c1'', cy_principalId = ''cust-1'', cy_assurance = Some VERIFIED_CUSTOMER,
      cy_message = words, cy_clientMessageId = None, cy_correlationId = ''corr''\<rparr>"

theorem revival_lost_to_the_closure_witness:
  "carryOut forkIds (planReply ''c1'' ''cust-1'' week ''2026-08-27T09:59:59.900Z'' solvedDb) ''2026-08-27T09:59:59.900Z''
     (snd closureRun) = Some (''c1'', snd closureRun) \<and> stateIn ''c1'' (snd closureRun) = Some CLOSED"
proof (rule revival_lost_to_the_closure[OF timely_plan(1) closureRun_pair _ solved_distinct])
  have "dueClosures 10 (closureCutoff thursday week) solvedDb = [''c1'']" by code_simp
  then show "''c1'' \<in> set (dueClosures 10 (closureCutoff thursday week) solvedDb)" by simp
qed

text \<open>And the message is accepted there: the conversation stays closed, and a message is added to it.\<close>

lemma closed_conversation_takes_messages:
  "case sendMessage (pgTx ''2026-08-27T10:00:00.100Z'' ''e8'') None (replyCommand (thanks ''thanks'') ''c1'')
       ''2026-08-27T10:00:00.100Z'' ''m1'' (snd closureRun) of
     (Returned (Inr ok), db) \<Rightarrow> stateIn ''c1'' db = Some CLOSED \<and> length (db_messages db) = 1
   | _ \<Rightarrow> False"
  by code_simp

theorem skewed_reply_is_thrown_away_witness:
  "reopenOnReply forkIds ''c1'' ''cust-1'' week ''2026-08-20T09:59:59.000Z'' solvedDb = None"
proof -
  have "find (isOpenEpisode ''c1'') (db_episodes solvedDb) = Some (hd (db_episodes solvedDb))"
    "''2026-08-20T09:59:59.000Z'' \<le> ep_effective_from (hd (db_episodes solvedDb))"
    "stateIn ''c1'' solvedDb = Some RESOLVED" by code_simp+
  from skewed_reply_is_thrown_away[OF timely_plan(2) this(3) solved_distinct this(1,2)] show ?thesis .
qed

definition revived :: "(UUID \<times> CaseDb) option" where
  "revived = reopenOnReply forkIds ''c1'' ''cust-1'' week ''2026-08-27T09:59:59.900Z'' solvedDb"

theorem refused_reply_still_reopens_witness:
  "fst (customerReply forkIds week ''2026-08-27T09:59:59.900Z'' ''2026-08-27T10:00:00.000Z'' ''e8'' ''m1'' (thanks '' '') solvedDb)
     = CR_REFUSED \<and>
   stateIn ''c1'' (snd (customerReply forkIds week ''2026-08-27T09:59:59.900Z'' ''2026-08-27T10:00:00.000Z'' ''e8'' ''m1''
     (thanks '' '') solvedDb)) = Some ACTIVE"
proof -
  have v: "(case revived of Some (target, db) \<Rightarrow> stateIn ''c1'' db = Some ACTIVE | None \<Rightarrow> False)" by code_simp
  then obtain target db where run: "revived = Some (target, db)" and s: "stateIn ''c1'' db = Some ACTIVE"
    by (auto split: option.splits prod.splits)
  let ?rq = "thanks '' ''"
  have f: "cy_conversationId ?rq = ''c1''" "cy_principalId ?rq = ''cust-1''" by (simp_all add: thanks_def)
  have "replyParses ?rq" "trim (cy_message ?rq) = []"
    "loadIfParticipant ''c1'' ''cust-1'' ''2026-08-27T09:59:59.900Z'' solvedDb \<noteq> None" by code_simp+
  with refused_reply_still_reopens[of forkIds ?rq week _ solvedDb target db, unfolded f, OF run[unfolded revived_def]] s
  show ?thesis by simp
qed

theorem stranger_reply_changes_nothing_witness:
  "snd (customerReply forkIds week ''2026-08-27T10:00:00.000Z'' ''2026-08-27T10:00:00.000Z'' ''e8'' ''m1''
     ((thanks ''hi'')\<lparr>cy_principalId := ''cust-2''\<rparr>) solvedDb) = solvedDb"
proof -
  have "\<not> livesIn (cy_conversationId ((thanks ''hi'')\<lparr>cy_principalId := ''cust-2''\<rparr>))
      (cy_principalId ((thanks ''hi'')\<lparr>cy_principalId := ''cust-2''\<rparr>)) ''2026-08-27T10:00:00.000Z'' solvedDb" by code_simp
  from stranger_reply_changes_nothing[OF this] show ?thesis by simp
qed

end
