(* ===== verification/Spec2Isabelle.thy ===== *)
theory Spec2Isabelle
  imports Actor Authz_Witnesses Service_Case Revision_Props Customer_Projection Routing_Guards Sla_Breach Conversation_Lists Attachment_Access Orchestrator_Props Notification_Props Relay_Props Gateway_Witnesses Case_Props
begin

text \<open>
  StarLink: conversations between an organisation's staff and its customers.

  The program is a TypeScript monorepo. Packages (\<open>packages/\<close>) hold the rules as functions without I/O;
  \<open>infrastructure/database/src/repositories\<close> keeps their state in PostgreSQL; \<open>apps/api\<close> serves an employee and
  a customer surface over both; \<open>infrastructure/sweeps\<close> and \<open>infrastructure/outbox-relay\<close> run the work that has
  no request (expiry, scanning, delivery, placement); \<open>apps/realtime-gateway\<close> pushes what the relay publishes
  to the sockets that may see it; \<open>adapters/\<close> are the replaceable services. A command is decided by the
  authorization ladder on facts its own transaction has loaded, writes its rows and its events in one unit of
  work, and everything later (pushes, notifications) is derived from the committed events.

  How the model is built

  One theory holds each part of the code, in the code's order and by the code's names. Rows of a table are
  records, tables are lists in insertion order inside a database record that grows by extension (\<open>Db\<close> of
  \<open>Message_Store\<close>, \<open>RoutingDb\<close>, \<open>CaseDb\<close>, \<open>AttachmentDb\<close>, \<open>ServiceDb\<close>, \<open>NotificationDb\<close>); an operation of a
  component is polymorphic in the extension, so the components act on one database. A query is what its SQL says
  of the rows; a statement that a constraint refuses is \<open>None\<close>, and the unit of work around it then leaves the
  database as it was. A refusal is the left of a sum, an exception \<open>Threw\<close> or \<open>None\<close>. Times are the ISO texts
  the code passes around, in lexicographic order, except where the code computes with milliseconds (\<open>Js_Date\<close>
  relates the two). Whole numbers are integers; fractions of a second are floating-point numbers
  (\<open>Js_Number\<close>). Database time, clocks and random identifiers are arguments. Everything is executable.

  Two writes of the code look alike and differ: the message and conversation stores insert their events as they
  are (\<open>appendOutbox\<close>), while the routing, case and notification stores have them checked against the
  catalogue first and throw (\<open>appendOutboxIn\<close>). The audit entries of the ownership and lifecycle commands
  are written after the unit of work by a writer that swallows its failure, so whether that write goes
  through is an argument (\<open>rq_auditUp\<close>, \<open>auditUp\<close>) of every command that makes one.

  Where operations of different requests can interleave, the model says so: as step relations over the
  statements (attachments, the delivery worker, the outbox relay, the case lifecycle), over the segments between
  two awaits of the event loop (the gateway), or over whole units of work where a row lock makes them atomic
  (messages, routing, membership). The locks themselves are not modelled: what they serialise is one step.
  A closure of reopen windows can stop at any of its statements, with what it committed in place
  (\<open>interruptedClosure\<close>). One pass of the revalidation of the gateway, with the reads it awaits, is one step:
  its disconnections and leaves are among the other steps, so what is said of all runs covers a pass
  that others interrupt, but a join between two of its reads is not a state of its own in it.

  The interfaces

  A client of a port is proved once inside a locale that states the port's laws, and the locale is interpreted
  on the PostgreSQL (or local) provider in the provider's theory: \<open>message_port\<close> (the write path over its
  store; \<open>Message_Store\<close>), \<open>ownership_port\<close> (the routing commands over the ownership rows; \<open>Routing_Store\<close>),
  \<open>membership_port\<close> (conversation commands over the roster; \<open>Conversation_Members\<close>), \<open>attachment_port\<close> (the
  scan and expiry sweeps over the file rows; \<open>Attachment_Sweeps\<close>), \<open>placement_store\<close> (the orchestrator over the
  queue; \<open>Orchestrator_Contract\<close>), \<open>delivery_queue\<close> (the delivery worker over the outbox; \<open>Notification_Sweep\<close>),
  \<open>revocable_identity\<close> (sessions over the identity store; \<open>Session\<close>) and \<open>backplane\<close> (the gateway over its
  fan-out; \<open>Realtime_Backplane\<close>). Properties stand outside the locales, over the model's own definitions.

  The parts

  Vocabulary: \<open>Prelude\<close>, \<open>Primitives\<close> (\<open>packages/shared-contracts/src/domain\<close> and the adapters' result), \<open>Js_Date\<close>
  (the date functions of the language: civil days, \<open>Date.parse\<close> and \<open>toISOString\<close>, inverse and monotone between
  the years 0 and 9999, which the predicate \<open>inEra\<close> names), and \<open>Js_Number\<close> (rounding to doubles and
  \<open>Math.round\<close>, with the error of a rounded sum).

  Authorization: \<open>Authz\<close> is the ladder of \<open>packages/conversation-domain/src/authz/decide.ts\<close>, \<open>Actor\<close> the claims it
  starts from, \<open>Authz_Reader\<close> the facts the read paths load. \<open>Authz_Props\<close> states which requests are allowed
  without reference to the order of the rungs, and proves the ladder equal to it; customers see only their own
  conversations and never internal content; \<open>Authz_Witnesses\<close> runs it. \<open>Customer_Projection\<close> is the serialiser
  of the customer surface, with non-interference of everything a customer may not know.

  Messages: \<open>Message_Port\<close>, \<open>Mentions\<close>, \<open>Send_Message\<close>, \<open>Revise_Message\<close> are \<open>packages/messaging\<close>; \<open>Messaging_Contract\<close>
  proves what they do to the abstract log (messages, sequence counters, events, revisions) over any port;
  \<open>Message_Store\<close> is the adapter. \<open>Messaging_Props\<close> and \<open>Revision_Props\<close>: persist before acknowledge, dense
  sequences, idempotent retries, authorized sends, mentions, previews, pages.

  Cases: \<open>Service_Case\<close> is the transition table and the reopen rule of \<open>packages/service-case\<close>; \<open>Case_Store\<close> the
  units of work that store them (resolution, staff reopen, the customer's reply that revives or forks, the
  closure of reopen windows); \<open>Case_Lifecycle\<close> the handlers around them; \<open>Case_Facts\<close> and \<open>Case_Props\<close>
  the history invariant with the one exception a stopped closure leaves, the shared boundary of
  closure and reply, where a reply lands, and the races that go wrong.

  Routing: \<open>Routing_Commands\<close> (cover, transfer, escalate, reassign: \<open>packages/routing\<close>), \<open>Routing_Store\<close> (queue,
  claims, episodes of ownership, capacity), \<open>Routing_Props\<close>, \<open>Routing_Claims\<close>, \<open>Routing_Effects\<close>, \<open>Routing_Guards\<close>:
  one owner at every instant, exclusive claims, hand-overs without a gap, capacity, and a refinement of the
  command bodies by their table, with the audit entry exactly when its write succeeds. \<open>Orchestrator_Route\<close>, \<open>Orchestrator_Local\<close>, \<open>Orchestrator_Pg\<close>,
  \<open>Orchestrator_Contract\<close>, \<open>Routing_Sweep\<close>, \<open>Orchestrator_Props\<close>: the placement of waiting work, which keeps work
  findable.

  Service levels: \<open>Sla_Calendar\<close>, \<open>Sla_Clock\<close>, \<open>Sla_State\<close> are \<open>packages/sla\<close>; \<open>Sla_Intervals\<close> proves the walk over
  local dates equal to a measure of open instants (as a multiset of intervals); \<open>Sla_Props\<close>, \<open>Sla_Claims\<close>,
  \<open>Sla_Breach\<close> state elapsed time, to half a second, and its inverse; \<open>Sla_Run\<close> makes the walk computable on real calendars.
  \<open>Calendar_Reader\<close> reads the stored calendars and accepts exactly the well formed.

  Conversations: \<open>Conversation_Commands\<close>, \<open>Conversation_Contract\<close>, \<open>Conversation_Invariants\<close>, \<open>Conversation_Store\<close>,
  \<open>Conversation_Members\<close>, \<open>Conversation_Props\<close>, \<open>Conversation_Lists\<close>: creation, membership, read markers and the
  lists; no customer in an internal conversation, one creator per group.

  Attachments: \<open>Attachment_Policy\<close>, \<open>Attachment_Pipeline\<close>, \<open>Attachment_Store\<close>, \<open>Attachment_Sweeps\<close>,
  \<open>Attachment_Service\<close>, \<open>Attachment_Run\<close> (every interleaving of the workers' statements), \<open>Attachment_Props\<close>,
  \<open>Attachment_Access\<close>: no file is reachable that was not scanned clean, under any crash.

  Notifications: \<open>Notification_Matrix\<close>, \<open>Notification_Delivery\<close>, \<open>Notification_Outbox\<close>, \<open>Notification_Facts\<close>,
  \<open>Notification_Service\<close>, \<open>Notification_Sweep\<close>, \<open>Notification_Props\<close>: who is told what,
  once per key, and what the delivery worker settles. \<open>Outbox_Relay\<close>, \<open>Relay_Props\<close>: the transactional outbox.

  Identity and the gateway: \<open>Local_Iam\<close>, \<open>Signed_Token\<close> (base64url on bytes, written out), \<open>Session\<close>;
  \<open>Connection_Manager\<close>, \<open>Connection_Facts\<close>, \<open>Realtime_Backplane\<close>, \<open>Gateway\<close>, \<open>Gateway_Facts\<close>, \<open>Gateway_Invariants\<close>,
  \<open>Gateway_Props\<close>, \<open>Gateway_Witnesses\<close>: a revoked session never verifies again, events reach the sockets that
  joined and internal notes only staff, and what a late or refused join leaves behind.

  Bounds

  The code's own bounds are the model's: a calendar walk gives up after 3660 days (\<open>MAX_DAYS\<close>), searches of the
  next opening after 365 and 60 days, a minute of a day is at most 2880 for a period that crosses midnight, a
  chain of managers is followed 12 steps and a chain of continued conversations 16. These are the recursion
  arguments of the functions, so no other fuel is needed; the theorems about the walk assume that the answer
  lies inside the guard, and a lemma shows what the guard answers beyond it. All other recursions are
  structural or have a measure. A sum of seconds is rounded to a double after every division and addition, as
  the code does; the theorems about it assume that the number of intervals times their length is at
  most two to the 51 milliseconds (\<open>doubleSafe\<close>: for a thousand intervals, seventy years), which keeps the
  error of the sum below a millisecond. The range of the exponent of a double is not modelled. A calendar's
  zone has a constant offset in the theorems about measures (a zone that changes its offset is
  outside them, not outside the definitions, which take the offset as a function).

  Outside the model

  Third parties are parameters, their laws hypotheses with an instance: object storage, scanners, transports,
  password and token hashes (HMAC is an arbitrary function of the text), time zones of the platform, the HTTP
  framework, PostgreSQL beneath the statements (row and advisory locks, isolation). Columns no modelled query
  reads (\<open>updated_at\<close> and the like), log lines and metrics are left out. Not modelled: the two web front ends, the
  design bundle, migrations and seeds, the configuration loader and process wiring, the mocks, observability,
  the assistant (disabled in this deployment), channels, search, the administration and audit surfaces, and the
  stores of pins, stars, reactions, avatars, statuses and device tokens.
\<close>

end
